(* ===== verification/Prelude.thy ===== *)
theory Prelude
  imports Main "HOL-Library.Char_ord" "HOL-Library.List_Lexorder"
    "HOL-Library.Product_Lexorder" "HOL-Library.Sublist"
begin

text \<open>
  The shared vocabulary of the development: Rust's \<open>Result\<close> as a sum, instants and
  durations of the \<open>chrono\<close> crate as integers (nanoseconds), and the string operations of
  Rust's standard library that the modelled code calls.

  A Rust string is the list of its UTF-8 bytes, an Isabelle \<^typ>\<open>string\<close>. \<open>trim\<close> and
  \<open>split_whitespace\<close> strip the ASCII white space bytes; the multi-byte white space of
  Unicode is left alone (the modelled code only trims identifiers, field names and tokens).
\<close>

named_theorems string_simps \<open>evaluation of the string operations\<close>

subsection \<open>Results\<close>

type_synonym ('e, 'a) result = "'e + 'a"

definition is_ok :: "('e, 'a) result \<Rightarrow> bool" where
  "is_ok r = (case r of Inl _ \<Rightarrow> False | Inr _ \<Rightarrow> True)"

lemma is_ok_simps [simp]: "is_ok (Inr x)" "\<not> is_ok (Inl e)"
  by (simp_all add: is_ok_def)

lemma is_ok_iff: "is_ok r \<longleftrightarrow> (\<exists>x. r = Inr x)"
  by (cases r) simp_all

text \<open>Rust's \<open>?\<close> operator: stop at the first error.\<close>

definition bind_ok :: "('e, 'a) result \<Rightarrow> ('a \<Rightarrow> ('e, 'b) result) \<Rightarrow> ('e, 'b) result" where
  "bind_ok r f = (case r of Inl e \<Rightarrow> Inl e | Inr x \<Rightarrow> f x)"

lemma bind_ok_simps [simp]: "bind_ok (Inl e) f = Inl e" "bind_ok (Inr x) f = f x"
  by (simp_all add: bind_ok_def)

lemma bind_ok_Inr: "bind_ok r f = Inr y \<longleftrightarrow> (\<exists>x. r = Inr x \<and> f x = Inr y)"
  by (cases r) simp_all

lemma bind_ok_Inl:
  "bind_ok r f = Inl e \<longleftrightarrow> r = Inl e \<or> (\<exists>x. r = Inr x \<and> f x = Inl e)"
  by (cases r) simp_all

definition map_err :: "('e \<Rightarrow> 'f) \<Rightarrow> ('e, 'a) result \<Rightarrow> ('f, 'a) result" where
  "map_err g r = (case r of Inl e \<Rightarrow> Inl (g e) | Inr x \<Rightarrow> Inr x)"

lemma map_err_simps [simp]: "map_err g (Inl e) = Inl (g e)" "map_err g (Inr x) = Inr x"
  by (simp_all add: map_err_def)

lemma map_err_Inr [simp]: "map_err g r = Inr x \<longleftrightarrow> r = Inr x"
  by (cases r) simp_all

subsection \<open>Instants and durations\<close>

type_synonym time = int

definition nanos :: int where
  "nanos = 1000000000"

definition secs :: "int \<Rightarrow> time" where
  "secs n = n * nanos"

text \<open>\<open>Duration::num_seconds\<close> truncates towards zero.\<close>

definition num_seconds :: "time \<Rightarrow> int" where
  "num_seconds d = sgn d * (\<bar>d\<bar> div nanos)"

lemma secs_mono [simp]: "secs a \<le> secs b \<longleftrightarrow> a \<le> b" "secs a < secs b \<longleftrightarrow> a < b"
  by (simp_all add: secs_def nanos_def)

lemma num_seconds_secs [simp]: "num_seconds (secs n) = n"
  by (auto simp: num_seconds_def secs_def nanos_def abs_if sgn_if)

lemma num_seconds_nonneg: "0 \<le> d \<Longrightarrow> num_seconds d = d div nanos"
  by (auto simp: num_seconds_def nanos_def sgn_if)

subsection \<open>Characters and strings\<close>

definition char_code :: "char \<Rightarrow> nat" where
  "char_code c = of_char c"

definition is_ws :: "char \<Rightarrow> bool" where
  "is_ws c = (let n = char_code c in n = 32 \<or> (9 \<le> n \<and> n \<le> 13))"

definition lower_char :: "char \<Rightarrow> char" where
  "lower_char c = (let n = char_code c in if 65 \<le> n \<and> n \<le> 90 then char_of (n + 32) else c)"

definition upper_char :: "char \<Rightarrow> char" where
  "upper_char c = (let n = char_code c in if 97 \<le> n \<and> n \<le> 122 then char_of (n - 32) else c)"

definition is_digit :: "char \<Rightarrow> bool" where
  "is_digit c = (let n = char_code c in 48 \<le> n \<and> n \<le> 57)"

definition is_hexdigit :: "char \<Rightarrow> bool" where
  "is_hexdigit c = (let n = char_code c in
     (48 \<le> n \<and> n \<le> 57) \<or> (65 \<le> n \<and> n \<le> 70) \<or> (97 \<le> n \<and> n \<le> 102))"

definition to_lower :: "string \<Rightarrow> string" where
  "to_lower s = map lower_char s"

definition to_upper :: "string \<Rightarrow> string" where
  "to_upper s = map upper_char s"

definition trim :: "string \<Rightarrow> string" where
  "trim s = rev (dropWhile is_ws (rev (dropWhile is_ws s)))"

definition eq_ignore_case :: "string \<Rightarrow> string \<Rightarrow> bool" where
  "eq_ignore_case a b = (to_lower a = to_lower b)"

fun str_contains :: "string \<Rightarrow> string \<Rightarrow> bool" where
  "str_contains needle [] = (needle = [])"
| "str_contains needle (c # cs) = (prefix needle (c # cs) \<or> str_contains needle cs)"

definition starts_with :: "string \<Rightarrow> string \<Rightarrow> bool" where
  "starts_with p s = prefix p s"

definition ends_with :: "string \<Rightarrow> string \<Rightarrow> bool" where
  "ends_with p s = suffix p s"

definition strip_prefix :: "string \<Rightarrow> string \<Rightarrow> string option" where
  "strip_prefix p s = (if prefix p s then Some (drop (length p) s) else None)"

text \<open>\<open>str::split_once\<close> on a character: the text before and after its first occurrence.\<close>

definition split_once :: "char \<Rightarrow> string \<Rightarrow> (string \<times> string) option" where
  "split_once c s =
     (if c \<in> set s
      then Some (takeWhile (\<lambda>x. x \<noteq> c) s, drop 1 (dropWhile (\<lambda>x. x \<noteq> c) s))
      else None)"

text \<open>\<open>str::replace\<close> for a non-empty pattern: left to right, without overlaps.\<close>

function str_replace :: "string \<Rightarrow> string \<Rightarrow> string \<Rightarrow> string" where
  "str_replace p r s =
     (if p = [] \<or> s = [] then s
      else if prefix p s then r @ str_replace p r (drop (length p) s)
      else hd s # str_replace p r (tl s))"
  by pat_completeness auto
termination
  by (relation "measure (\<lambda>(p, r, s). length s)") (auto simp: neq_Nil_conv)

declare str_replace.simps [simp del]

fun join :: "string \<Rightarrow> string list \<Rightarrow> string" where
  "join sep [] = []"
| "join sep [x] = x"
| "join sep (x # y # ys) = x @ sep @ join sep (y # ys)"

function split_ws :: "string \<Rightarrow> string list" where
  "split_ws s =
     (let t = dropWhile is_ws s
      in if t = [] then []
         else takeWhile (\<lambda>c. \<not> is_ws c) t # split_ws (dropWhile (\<lambda>c. \<not> is_ws c) t))"
  by pat_completeness auto
termination
proof (relation "measure length", goal_cases)
  case (2 s t)
  then have "t \<noteq> []" and t: "t = dropWhile is_ws s" by simp_all
  then have "\<not> is_ws (hd t)" using hd_dropWhile by blast
  with \<open>t \<noteq> []\<close> have "length (dropWhile (\<lambda>c. \<not> is_ws c) t) < length t"
    by (cases t) (auto simp: le_imp_less_Suc length_dropWhile_le)
  also have "length t \<le> length s" using t by (simp add: length_dropWhile_le)
  finally show ?case by simp
qed simp

declare split_ws.simps [simp del]

text \<open>\<open>str::parse::<i64>\<close>: an optional sign and decimal digits, \<open>None\<close> on overflow.\<close>

definition i64_max :: int where
  "i64_max = 9223372036854775807"

definition i64_min :: int where
  "i64_min = -9223372036854775808"

definition digits_value :: "string \<Rightarrow> int" where
  "digits_value s = foldl (\<lambda>a c. 10 * a + (int (char_code c) - 48)) 0 s"

definition parse_i64 :: "string \<Rightarrow> int option" where
  "parse_i64 s =
     (let (neg, ds) = (case s of
          [] \<Rightarrow> (False, [])
        | c # cs \<Rightarrow> if c = CHR ''-'' then (True, cs)
                    else if c = CHR ''+'' then (False, cs) else (False, s));
          v = (if neg then - digits_value ds else digits_value ds)
      in if ds \<noteq> [] \<and> list_all is_digit ds \<and> i64_min \<le> v \<and> v \<le> i64_max
         then Some v else None)"

definition dedup_str :: "string list \<Rightarrow> string list" where
  "dedup_str xs = rev (foldl (\<lambda>seen x. if x \<in> set seen then seen else x # seen) [] xs)"

subsection \<open>Lemmas about strings\<close>

lemma str_contains_iff: "str_contains p s \<longleftrightarrow> sublist p s"
  by (induction s) (auto simp: sublist_Cons_right)

lemma to_lower_append [simp]: "to_lower (a @ b) = to_lower a @ to_lower b"
  by (simp add: to_lower_def)

lemma length_to_lower [simp]: "length (to_lower s) = length s"
  by (simp add: to_lower_def)

lemma length_to_upper [simp]: "length (to_upper s) = length s"
  by (simp add: to_upper_def)

lemma lower_char_idem [simp]: "lower_char (lower_char c) = lower_char c"
  by (auto simp: lower_char_def char_code_def Let_def)

lemma to_lower_idem [simp]: "to_lower (to_lower s) = to_lower s"
  by (simp add: to_lower_def o_def)

lemma eq_ignore_case_refl [simp]: "eq_ignore_case s s"
  by (simp add: eq_ignore_case_def)

lemma eq_ignore_case_sym: "eq_ignore_case a b = eq_ignore_case b a"
  by (auto simp: eq_ignore_case_def)

lemma eq_ignore_case_trans:
  "eq_ignore_case a b \<Longrightarrow> eq_ignore_case b c \<Longrightarrow> eq_ignore_case a c"
  by (simp add: eq_ignore_case_def)

lemma eq_ignore_case_length: "eq_ignore_case a b \<Longrightarrow> length a = length b"
  unfolding eq_ignore_case_def by (metis length_to_lower)

lemma dropWhile_trim_idem:
  assumes "xs = [] \<or> \<not> P (hd xs)" shows "dropWhile P xs = xs"
  using assms by (cases xs) auto

lemma prefix_hd:
  "a = b @ c \<Longrightarrow> a = [] \<or> \<not> P (hd a) \<Longrightarrow> b = [] \<or> \<not> P (hd b)"
  by (cases b) auto

lemma trim_idem [simp]: "trim (trim s) = trim s"
proof -
  let ?a = "dropWhile is_ws s"
  let ?b = "dropWhile is_ws (rev ?a)"
  have b: "?b = [] \<or> \<not> is_ws (hd ?b)"
    using hd_dropWhile by blast
  obtain zs where zs: "rev ?a = zs @ ?b"
    by (metis takeWhile_dropWhile_id)
  from zs have "?a = rev ?b @ rev zs" by (metis rev_append rev_rev_ident)
  moreover have "?a = [] \<or> \<not> is_ws (hd ?a)" using hd_dropWhile by blast
  ultimately have "rev ?b = [] \<or> \<not> is_ws (hd (rev ?b))" by (rule prefix_hd)
  then have "dropWhile is_ws (rev ?b) = rev ?b" by (rule dropWhile_trim_idem)
  moreover have "dropWhile is_ws ?b = ?b" using b by (rule dropWhile_trim_idem)
  ultimately show ?thesis by (simp add: trim_def)
qed

lemma trim_Nil [simp]: "trim [] = []"
  by (simp add: trim_def)

lemma set_trim_subset: "set (trim s) \<subseteq> set s"
  by (auto simp: trim_def dest!: set_dropWhileD)

lemma lower_char_is_ws [simp]: "is_ws (lower_char c) = is_ws c"
  by (auto simp: is_ws_def lower_char_def char_code_def Let_def)

lemma lower_char_hex: "is_hexdigit c \<Longrightarrow> is_hexdigit (lower_char c)"
  by (auto simp: is_hexdigit_def lower_char_def char_code_def Let_def)

lemma dropWhile_to_lower: "dropWhile is_ws (map lower_char s) = map lower_char (dropWhile is_ws s)"
  by (induction s) simp_all

lemma to_lower_trim: "to_lower (trim s) = trim (to_lower s)"
  by (simp add: trim_def to_lower_def dropWhile_to_lower rev_map)

lemma set_dedup_str [simp]: "set (dedup_str xs) = set xs"
proof -
  have "set (foldl (\<lambda>seen x. if x \<in> set seen then seen else x # seen) acc xs)
      = set acc \<union> set xs" for acc
    by (induction xs arbitrary: acc) auto
  then show ?thesis by (simp add: dedup_str_def)
qed

lemma distinct_dedup_str [simp]: "distinct (dedup_str xs)"
proof -
  have "distinct acc \<Longrightarrow>
      distinct (foldl (\<lambda>seen x. if x \<in> set seen then seen else x # seen) acc xs)" for acc
    by (induction xs arbitrary: acc) auto
  then show ?thesis by (simp add: dedup_str_def)
qed

lemma parse_i64_bounds: "parse_i64 s = Some v \<Longrightarrow> i64_min \<le> v \<and> v \<le> i64_max"
  by (auto simp: parse_i64_def Let_def split: list.splits if_splits)

lemmas str_eval = char_code_def is_ws_def lower_char_def upper_char_def is_digit_def
  is_hexdigit_def to_lower_def to_upper_def trim_def eq_ignore_case_def starts_with_def
  ends_with_def strip_prefix_def split_once_def digits_value_def parse_i64_def
  i64_max_def i64_min_def dedup_str_def Let_def

declare str_eval [string_simps]

end
