(* ===== verification/Tables.thy ===== *)
theory Tables
  imports Prelude
begin

text \<open>
  Keyed storage. \<open>BTreeMap\<close> values of the code, and the SQLite tables of the planner (one row
  per primary key), are association lists in ascending key order. The interface a client
  uses (a lookup after an insert, a removal or an update of selected rows) is the locale
  \<open>keyed_store\<close>; it is interpreted on the association lists below, and its client lemmas are
  proved once inside it.
\<close>

type_synonym ('k, 'v) btree = "('k \<times> 'v) list"

definition bt_get :: "('k, 'v) btree \<Rightarrow> 'k \<Rightarrow> 'v option" where
  "bt_get m k = map_of m k"

fun bt_insert :: "'k::linorder \<Rightarrow> 'v \<Rightarrow> ('k, 'v) btree \<Rightarrow> ('k, 'v) btree" where
  "bt_insert k v [] = [(k, v)]"
| "bt_insert k v ((k', v') # m) =
     (if k < k' then (k, v) # (k', v') # m
      else if k = k' then (k, v) # m
      else (k', v') # bt_insert k v m)"

definition bt_remove :: "'k \<Rightarrow> ('k, 'v) btree \<Rightarrow> ('k, 'v) btree" where
  "bt_remove k m = filter (\<lambda>(k', _). k' \<noteq> k) m"

text \<open>SQL \<open>UPDATE ... WHERE\<close>, and the number of rows it changes.\<close>

definition bt_update :: "('k \<Rightarrow> 'v \<Rightarrow> bool) \<Rightarrow> ('v \<Rightarrow> 'v) \<Rightarrow> ('k, 'v) btree \<Rightarrow> ('k, 'v) btree" where
  "bt_update P f m = map (\<lambda>(k, v). (k, if P k v then f v else v)) m"

definition bt_count :: "('k \<Rightarrow> 'v \<Rightarrow> bool) \<Rightarrow> ('k, 'v) btree \<Rightarrow> nat" where
  "bt_count P m = length (filter (\<lambda>(k, v). P k v) m)"

definition bt_keys :: "('k, 'v) btree \<Rightarrow> 'k list" where
  "bt_keys m = map fst m"

definition bt_wf :: "('k::linorder, 'v) btree \<Rightarrow> bool" where
  "bt_wf m = sorted_wrt (<) (map fst m)"

definition bt_of_list :: "('k::linorder \<times> 'v) list \<Rightarrow> ('k, 'v) btree" where
  "bt_of_list kvs = foldl (\<lambda>m (k, v). bt_insert k v m) [] kvs"

subsection \<open>Laws of the association lists\<close>

lemma bt_get_Nil [simp]: "bt_get [] k = None"
  by (simp add: bt_get_def)

lemma bt_get_Cons: "bt_get ((k, v) # m) j = (if j = k then Some v else bt_get m j)"
  by (simp add: bt_get_def)

lemma bt_get_insert: "bt_wf m \<Longrightarrow> bt_get (bt_insert k v m) = (bt_get m)(k := Some v)"
  by (induction k v m rule: bt_insert.induct) (auto simp: bt_get_def bt_wf_def fun_eq_iff)

lemma bt_get_insert_same [simp]: "bt_get (bt_insert k v m) k = Some v"
  by (induction k v m rule: bt_insert.induct) (auto simp: bt_get_def)

lemma bt_get_insert_other: "k' \<noteq> k \<Longrightarrow> bt_get (bt_insert k v m) k' = bt_get m k'"
  by (induction k v m rule: bt_insert.induct) (auto simp: bt_get_def)

lemma set_keys_insert: "set (map fst (bt_insert k v m)) = insert k (set (map fst m))"
  by (induction k v m rule: bt_insert.induct) auto

lemma set_bt_insert: "set (bt_insert k v m) \<subseteq> insert (k, v) (set m)"
  by (induction k v m rule: bt_insert.induct) auto

lemma bt_wf_Nil [simp]: "bt_wf []"
  by (simp add: bt_wf_def)

lemma bt_wf_insert [simp]: "bt_wf m \<Longrightarrow> bt_wf (bt_insert k v m)"
proof (induction k v m rule: bt_insert.induct)
  case (2 k v k' v' m)
  then show ?case
    using set_keys_insert [of k v m] by (auto simp: bt_wf_def)
qed (simp add: bt_wf_def)

lemma bt_get_remove: "bt_get (bt_remove k m) = (bt_get m)(k := None)"
  unfolding bt_get_def bt_remove_def fun_eq_iff
  by (induction m) auto

lemma bt_wf_remove [simp]: "bt_wf m \<Longrightarrow> bt_wf (bt_remove k m)"
  unfolding bt_wf_def bt_remove_def
  by (induction m) auto

lemma bt_get_update:
  "bt_get (bt_update P f m) k = map_option (\<lambda>v. if P k v then f v else v) (bt_get m k)"
  unfolding bt_get_def bt_update_def
  by (induction m) auto

lemma map_fst_update [simp]: "map fst (bt_update P f m) = map fst m"
  by (simp add: bt_update_def o_def case_prod_unfold)

lemma bt_wf_update [simp]: "bt_wf (bt_update P f m) = bt_wf m"
  by (simp add: bt_wf_def)

lemma bt_wf_distinct: "bt_wf m \<Longrightarrow> distinct (map fst m)"
  unfolding bt_wf_def by (induction m) auto

lemma bt_get_in_set: "bt_wf m \<Longrightarrow> (k, v) \<in> set m \<longleftrightarrow> bt_get m k = Some v"
  unfolding bt_get_def by (simp add: bt_wf_distinct)

lemma bt_wf_of_list [simp]: "bt_wf (bt_of_list kvs)"
proof -
  have "bt_wf m \<Longrightarrow> bt_wf (foldl (\<lambda>m (k, v). bt_insert k v m) m kvs)" for m
    by (induction kvs arbitrary: m) auto
  then show ?thesis by (simp add: bt_of_list_def)
qed

lemma bt_get_of_list: "bt_get (bt_of_list kvs) k = map_of (rev kvs) k"
proof -
  have "bt_wf m \<Longrightarrow> bt_get (foldl (\<lambda>m (k, v). bt_insert k v m) m kvs) k = (bt_get m ++ map_of (rev kvs)) k"
    for m
    by (induction kvs arbitrary: m) (auto simp: bt_get_insert map_add_def fun_eq_iff split: option.splits)
  then show ?thesis by (simp add: bt_of_list_def map_add_def split: option.splits)
qed

lemma bt_get_of_list_in: "bt_get (bt_of_list kvs) k = Some v \<Longrightarrow> (k, v) \<in> set kvs"
  by (metis bt_get_of_list map_of_SomeD set_rev)

lemma bt_count_key:
  assumes "bt_wf m"
  shows "bt_count (\<lambda>k v. k = k0 \<and> P v) m
       = (case bt_get m k0 of None \<Rightarrow> 0 | Some v \<Rightarrow> if P v then 1 else 0)"
proof -
  have no_key: "filter (\<lambda>(k, v). k = k0 \<and> P v) xs = []" if "k0 \<notin> fst ` set xs" for xs :: "('a \<times> 'b) list"
    using that by (force simp: filter_empty_conv)
  from bt_wf_distinct [OF assms] show ?thesis
    unfolding bt_count_def bt_get_def
  proof (induction m)
    case (Cons x m)
    then show ?case using no_key [of m] by (cases x) auto
  qed simp
qed

subsection \<open>The interface\<close>

locale keyed_store =
  fixes get :: "'m \<Rightarrow> 'k \<Rightarrow> 'v option"
    and ins :: "'k \<Rightarrow> 'v \<Rightarrow> 'm \<Rightarrow> 'm"
    and del :: "'k \<Rightarrow> 'm \<Rightarrow> 'm"
    and upd :: "('k \<Rightarrow> 'v \<Rightarrow> bool) \<Rightarrow> ('v \<Rightarrow> 'v) \<Rightarrow> 'm \<Rightarrow> 'm"
    and wf :: "'m \<Rightarrow> bool"
  assumes get_ins: "wf m \<Longrightarrow> get (ins k v m) = (get m)(k := Some v)"
    and get_del: "wf m \<Longrightarrow> get (del k m) = (get m)(k := None)"
    and get_upd: "wf m \<Longrightarrow> get (upd P f m) k = map_option (\<lambda>v. if P k v then f v else v) (get m k)"
    and wf_ins: "wf m \<Longrightarrow> wf (ins k v m)"
    and wf_del: "wf m \<Longrightarrow> wf (del k m)"
    and wf_upd: "wf m \<Longrightarrow> wf (upd P f m)"
begin

lemma ins_frame: "wf m \<Longrightarrow> k' \<noteq> k \<Longrightarrow> get (ins k v m) k' = get m k'"
  by (simp add: get_ins)

lemma upd_key_frame:
  "wf m \<Longrightarrow> k' \<noteq> k \<Longrightarrow> get (upd (\<lambda>j v. j = k \<and> Q v) f m) k' = get m k'"
  by (simp add: get_upd option.map_ident_strong)

lemma upd_key_same:
  "wf m \<Longrightarrow> get m k = Some v \<Longrightarrow> Q v \<Longrightarrow> get (upd (\<lambda>j v. j = k \<and> Q v) f m) k = Some (f v)"
  by (simp add: get_upd)

lemma del_ins: "wf m \<Longrightarrow> get (ins k v (del k m)) = get (ins k v m)"
  by (simp add: get_ins get_del wf_del)

lemma upd_none: "wf m \<Longrightarrow> get (upd P f m) k = None \<longleftrightarrow> get m k = None"
  by (simp add: get_upd)

end

interpretation bt: keyed_store bt_get bt_insert bt_remove bt_update bt_wf
  by unfold_locales (simp_all add: bt_get_insert bt_get_remove bt_get_update)

end
