(* ===== verification/Json.thy ===== *)
theory Json
  imports Tables
begin

text \<open>
  \<open>serde_json::Value\<close> and the accessors the code uses. An object is a \<open>BTreeMap\<close> (the crate is
  built without \<open>preserve_order\<close>), here an association list in key order. A number is the text
  \<open>serde_json\<close> prints for it, which is what the code compares and reads.
\<close>

datatype json =
    JNull
  | JBool bool
  | JNum string
  | JStr string
  | JArr "json list"
  | JObj "(string \<times> json) list"

fun json_get :: "json \<Rightarrow> string \<Rightarrow> json option" where
  "json_get (JObj m) k = bt_get m k"
| "json_get _ k = None"

fun as_str :: "json \<Rightarrow> string option" where
  "as_str (JStr s) = Some s"
| "as_str _ = None"

fun as_object :: "json \<Rightarrow> (string \<times> json) list option" where
  "as_object (JObj m) = Some m"
| "as_object _ = None"

fun as_array :: "json \<Rightarrow> json list option" where
  "as_array (JArr xs) = Some xs"
| "as_array _ = None"

fun as_i64 :: "json \<Rightarrow> int option" where
  "as_i64 (JNum t) = parse_i64 t"
| "as_i64 _ = None"

text \<open>Integers as \<open>serde_json\<close> prints them.\<close>

fun nat_text :: "nat \<Rightarrow> string" where
  "nat_text n = (if n < 10 then [char_of (48 + n)] else nat_text (n div 10) @ [char_of (48 + n mod 10)])"

declare nat_text.simps [simp del]

definition int_text :: "int \<Rightarrow> string" where
  "int_text n = (if n < 0 then CHR ''-'' # nat_text (nat (- n)) else nat_text (nat n))"

text \<open>\<open>value.get(field).and_then(Value::as_str)\<close>\<close>

definition get_str :: "json \<Rightarrow> string \<Rightarrow> string option" where
  "get_str v k = Option.bind (json_get v k) as_str"

fun json_insert :: "string \<Rightarrow> json \<Rightarrow> json \<Rightarrow> json" where
  "json_insert k v (JObj m) = JObj (bt_insert k v m)"
| "json_insert k v j = j"

fun json_remove :: "string \<Rightarrow> json \<Rightarrow> json" where
  "json_remove k (JObj m) = JObj (bt_remove k m)"
| "json_remove k j = j"

fun json_wf :: "json \<Rightarrow> bool" where
  "json_wf (JObj m) = bt_wf m"
| "json_wf _ = True"

definition jobj :: "(string \<times> json) list \<Rightarrow> json" where
  "jobj kvs = JObj (bt_of_list kvs)"

text \<open>The JSON text of an optional string field as \<open>json!\<close> writes it.\<close>

definition jopt :: "string option \<Rightarrow> json" where
  "jopt s = (case s of None \<Rightarrow> JNull | Some t \<Rightarrow> JStr t)"

lemma json_get_insert: "json_wf (JObj m) \<Longrightarrow>
    json_get (json_insert k v (JObj m)) k' = (if k' = k then Some v else bt_get m k')"
  by (simp add: bt.get_ins)

lemma json_get_insert_same [simp]: "json_get (json_insert k v (JObj m)) k = Some v"
  by simp

lemma json_get_insert_other:
  "k' \<noteq> k \<Longrightarrow> json_get (json_insert k v j) k' = json_get j k'"
  by (cases j) (simp_all add: bt_get_insert_other)

lemma json_get_remove: "json_get (json_remove k j) k' = (if k' = k then None else json_get j k')"
  by (cases j) (simp_all add: bt_get_remove)

lemma json_wf_insert [simp]: "json_wf j \<Longrightarrow> json_wf (json_insert k v j)"
  by (cases j) simp_all

lemma json_wf_remove [simp]: "json_wf j \<Longrightarrow> json_wf (json_remove k j)"
  by (cases j) simp_all

lemma json_wf_jobj [simp]: "json_wf (jobj kvs)"
  by (simp add: jobj_def)

end
