(* ===== verification/Operation_Plan.thy ===== *)
theory Operation_Plan
  imports Json
begin

text \<open>
  The data the planner exchanges (\<open>snow_mcp/src/domain/primitives.rs\<close>,
  \<open>snow_mcp/src/planner/operation_plan.rs\<close>): record references, idempotency keys, operation
  plans, receipts and the operation hash. The SHA-256 digest (hex encoded) and the JSON
  serialiser come from the crates \<open>sha2\<close>, \<open>hex\<close> and \<open>serde_json\<close>: they are the parameters
  \<open>sha256\<close> and \<open>to_vec\<close>.
\<close>

subsection \<open>Primitives\<close>

record record_ref =
  rr_sys_id :: string
  rr_number :: string
  rr_table :: string

record user_ref =
  ur_sys_id :: string
  ur_user_name :: "string option"
  ur_email :: "string option"
  ur_display_name :: string

datatype group_source = ServiceNow | AdRegistry

record group_ref =
  gr_sys_id :: string
  gr_name :: string
  gr_source :: group_source

record environment_ref =
  er_label :: string
  er_instance_timezone :: string

datatype idempotency_key_source = ClientKey | ServerDerived

record idempotency_key =
  ik_value :: string
  ik_source :: idempotency_key_source

definition key_client :: "string \<Rightarrow> idempotency_key" where
  "key_client value = \<lparr>ik_value = value, ik_source = ClientKey\<rparr>"

record citation =
  ci_article_number :: string
  ci_sys_id :: string
  ci_title :: string
  ci_knowledge_base :: string
  ci_updated :: time
  ci_section_heading :: "string option"
  ci_url_fragment :: "string option"
  ci_content_hash :: string

subsection \<open>Plans and receipts\<close>

record operation_plan =
  op_plan_id :: string
  op_tool :: string
  op_target :: "record_ref option"
  op_planned_changes :: json
  op_citations :: "citation list"
  op_op_hash :: string
  op_expires_at :: time

record receipt_warning =
  rw_code :: string
  rw_field :: "string option"
  rw_message :: string
  rw_data :: "json option"

record field_change =
  fc_field :: string
  fc_before :: "json option"
  fc_after :: "json option"

record concurrency_token =
  ct_sys_updated_on :: string
  ct_sys_mod_count :: "int option"

datatype receipt_status = RSuccess | RPartial | RFailed

record service_now_metadata =
  sm_sys_id :: "string option"
  sm_number :: "string option"
  sm_transaction_id :: "string option"

record operation_receipt =
  re_plan_id :: string
  re_audit_id :: string
  re_parent_audit_id :: string
  re_tool :: string
  re_status :: receipt_status
  re_applied_changes_summary :: "json option"
  re_service_now_metadata :: "service_now_metadata option"
  re_idempotency_replay :: bool
  re_completed_at :: time
  re_op_hash :: string
  re_record_url :: "string option"
  re_record_snapshot :: "json option"
  re_changed_fields :: "field_change list"
  re_concurrency_token_observed :: "concurrency_token option"
  re_apply_started_at :: "time option"
  re_error_code :: "string option"
  re_warnings :: "receipt_warning list"

definition applied_at :: "operation_receipt \<Rightarrow> time" where
  "applied_at r = re_completed_at r"

subsection \<open>The operation hash\<close>

definition op_hash_preimage ::
  "(json \<Rightarrow> string) \<Rightarrow> string \<Rightarrow> record_ref option \<Rightarrow> json \<Rightarrow> string" where
  "op_hash_preimage to_vec tool target changes =
     tool
     @ (case target of None \<Rightarrow> [] | Some t \<Rightarrow> rr_number t @ rr_table t @ rr_sys_id t)
     @ to_vec changes"

definition compute_op_hash ::
  "(string \<Rightarrow> string) \<Rightarrow> (json \<Rightarrow> string) \<Rightarrow> string \<Rightarrow> record_ref option \<Rightarrow> json \<Rightarrow> string" where
  "compute_op_hash sha256 to_vec tool target changes =
     sha256 (op_hash_preimage to_vec tool target changes)"

subsection \<open>The plan builder\<close>

record operation_plan_builder =
  pb_tool :: string
  pb_target :: "record_ref option"
  pb_planned_changes :: json
  pb_citations :: "citation list"
  pb_expires_at :: time

definition builder_new :: "time \<Rightarrow> string \<Rightarrow> operation_plan_builder" where
  "builder_new now tool = \<lparr>pb_tool = tool, pb_target = None, pb_planned_changes = JNull,
     pb_citations = [], pb_expires_at = now + secs (10 * 60)\<rparr>"

definition builder_target :: "record_ref \<Rightarrow> operation_plan_builder \<Rightarrow> operation_plan_builder" where
  "builder_target t b = b\<lparr>pb_target := Some t\<rparr>"

definition builder_planned_changes :: "json \<Rightarrow> operation_plan_builder \<Rightarrow> operation_plan_builder" where
  "builder_planned_changes c b = b\<lparr>pb_planned_changes := c\<rparr>"

definition builder_citations ::
  "citation list \<Rightarrow> operation_plan_builder \<Rightarrow> operation_plan_builder" where
  "builder_citations cs b = b\<lparr>pb_citations := cs\<rparr>"

definition builder_build ::
  "(string \<Rightarrow> string) \<Rightarrow> (json \<Rightarrow> string) \<Rightarrow> string \<Rightarrow> operation_plan_builder \<Rightarrow> operation_plan" where
  "builder_build sha256 to_vec plan_id b =
     \<lparr>op_plan_id = plan_id, op_tool = pb_tool b, op_target = pb_target b,
      op_planned_changes = pb_planned_changes b, op_citations = pb_citations b,
      op_op_hash = compute_op_hash sha256 to_vec (pb_tool b) (pb_target b) (pb_planned_changes b),
      op_expires_at = pb_expires_at b\<rparr>"

subsection \<open>What the hash binds\<close>

lemma takeWhile_append_stop:
  "c \<notin> set a \<Longrightarrow> takeWhile (\<lambda>x. x \<noteq> c) (a @ c # b) = a"
  by (induction a) auto

lemma split_at_first:
  assumes "a @ c # b = a' @ c # b'" "c \<notin> set a" "c \<notin> set a'"
  shows "a = a' \<and> b = b'"
proof -
  from assms(1) have "takeWhile (\<lambda>x. x \<noteq> c) (a @ c # b) = takeWhile (\<lambda>x. x \<noteq> c) (a' @ c # b')"
    by simp
  with assms(2,3) have "a = a'" by (simp add: takeWhile_append_stop)
  with assms(1) show ?thesis by simp
qed

text \<open>Splitting at the first brace, then at the known table and at the end.\<close>

lemma preimage_split:
  assumes eq: "op_hash_preimage to_vec tool (Some r) c = op_hash_preimage to_vec tool (Some r') c'"
    and js: "to_vec c = CHR ''{'' # x" "to_vec c' = CHR ''{'' # x'"
    and br: "CHR ''{'' \<notin> set (tool @ rr_number r @ rr_table r @ rr_sys_id r)"
            "CHR ''{'' \<notin> set (tool @ rr_number r' @ rr_table r' @ rr_sys_id r')"
    and len: "length (rr_sys_id r) = length (rr_sys_id r')" and tab: "rr_table r = rr_table r'"
  shows "rr_number r = rr_number r' \<and> rr_sys_id r = rr_sys_id r' \<and> to_vec c = to_vec c'"
proof -
  let ?a = "tool @ rr_number r @ rr_table r @ rr_sys_id r"
  let ?a' = "tool @ rr_number r' @ rr_table r' @ rr_sys_id r'"
  from eq js have "?a @ CHR ''{'' # x = ?a' @ CHR ''{'' # x'"
    by (simp add: op_hash_preimage_def)
  then have "?a = ?a'" and "x = x'" using br by (blast dest: split_at_first)+
  from \<open>?a = ?a'\<close> have "(rr_number r @ rr_table r) @ rr_sys_id r = (rr_number r' @ rr_table r') @ rr_sys_id r'"
    by simp
  with len have "rr_number r @ rr_table r = rr_number r' @ rr_table r'"
    and "rr_sys_id r = rr_sys_id r'" by (metis append_eq_append_conv)+
  with tab \<open>x = x'\<close> js show ?thesis by simp
qed

text \<open>
  the operation hash binds the plan. When the digest has no collision, two plans of one tool
  against the same table whose hashes agree have the same target record (number and sys_id
  included) and the same serialised changes, provided the serialised changes are JSON objects
  and no reference contains the opening brace. This is what lets a confirmation token, which
  stores only the hash, stand for the previewed change.
\<close>

theorem op_hash_binds:
  assumes "compute_op_hash sha256 to_vec tool (Some r) c
         = compute_op_hash sha256 to_vec tool (Some r') c'"
    and "inj sha256"
    and "to_vec c = CHR ''{'' # x" "to_vec c' = CHR ''{'' # x'"
    and "CHR ''{'' \<notin> set (tool @ rr_number r @ rr_table r @ rr_sys_id r)"
        "CHR ''{'' \<notin> set (tool @ rr_number r' @ rr_table r' @ rr_sys_id r')"
    and "length (rr_sys_id r) = length (rr_sys_id r')" and tab: "rr_table r = rr_table r'"
  shows "r = r' \<and> to_vec c = to_vec c'"
proof -
  from assms(1,2) have "op_hash_preimage to_vec tool (Some r) c = op_hash_preimage to_vec tool (Some r') c'"
    by (simp add: compute_op_hash_def inj_eq)
  from preimage_split [OF this assms(3-8)] tab show ?thesis by simp
qed

theorem op_hash_binds_witness:
  "\<exists>r :: record_ref. rr_number r = ''STRY1'' \<and> r = r \<and>
     (\<lambda>_ :: json. ''{}'') (JObj []) = (\<lambda>_ :: json. ''{}'') (JObj [])"
proof -
  let ?r = "\<lparr>rr_sys_id = ''s1'', rr_number = ''STRY1'', rr_table = ''rm_story''\<rparr>"
  have "?r = ?r \<and> (\<lambda>_ :: json. ''{}'') (JObj []) = (\<lambda>_ :: json. ''{}'') (JObj [])"
    by (rule op_hash_binds [of "\<lambda>s. s" _ "''story_plan_update''" ?r _ ?r _ "''}''" "''}''"]) simp_all
  then show ?thesis by (intro exI [of _ ?r]) simp
qed

text \<open>
  without that hypothesis on the table the binding fails: the hash concatenates tool, number,
  table and sys_id with no separator, so for every digest and serialiser a target whose number
  ends with some text and a target whose table starts with it have the same operation hash,
  although they are different records.
\<close>

theorem op_hash_boundary_ambiguous:
  assumes "x \<noteq> []"
  shows "\<lparr>rr_sys_id = s, rr_number = n @ x, rr_table = t\<rparr>
       \<noteq> \<lparr>rr_sys_id = s, rr_number = n, rr_table = x @ t\<rparr>
     \<and> compute_op_hash sha256 to_vec tool (Some \<lparr>rr_sys_id = s, rr_number = n @ x, rr_table = t\<rparr>) c
       = compute_op_hash sha256 to_vec tool (Some \<lparr>rr_sys_id = s, rr_number = n, rr_table = x @ t\<rparr>) c"
  using assms by (simp add: compute_op_hash_def op_hash_preimage_def)

theorem op_hash_boundary_ambiguous_witness:
  "compute_op_hash (\<lambda>s. s) (\<lambda>_. ''{}'') ''story_plan_update''
       (Some \<lparr>rr_sys_id = ''s1'', rr_number = ''STRY1'' @ ''rm'', rr_table = ''story''\<rparr>) JNull
     = compute_op_hash (\<lambda>s. s) (\<lambda>_. ''{}'') ''story_plan_update''
       (Some \<lparr>rr_sys_id = ''s1'', rr_number = ''STRY1'', rr_table = ''rm'' @ ''story''\<rparr>) JNull"
  using op_hash_boundary_ambiguous [of "''rm''" "''s1''" "''STRY1''" "''story''"] by simp

end
