(* ===== verification/Plan_Store.thy ===== *)
theory Plan_Store
  imports Operation_Plan
begin

text \<open>
  The plan store (\<open>snow_mcp/src/planner/plan_store.rs\<close>): the SQLite table \<open>mcp_plans\<close>, keyed by
  plan id, with the lifecycle state stored as text. The trait \<open>PlanStore\<close> is the locale
  \<open>plan_store_spec\<close>; the SQLite store is its interpretation. The row's JSON and RFC 3339 columns
  are kept decoded (their encodings belong to \<open>serde_json\<close> and \<open>chrono\<close>, and RFC 3339 texts in
  UTC compare like the instants they write); the state column keeps its text, because the
  code's queries compare it and its decoder can fail.
\<close>

datatype plan_lifecycle_state = Pending | Consumed | Expired

fun as_storage :: "plan_lifecycle_state \<Rightarrow> string" where
  "as_storage Pending = ''pending''"
| "as_storage Consumed = ''consumed''"
| "as_storage Expired = ''expired''"

definition from_storage :: "string \<Rightarrow> (string, plan_lifecycle_state) result" where
  "from_storage value =
     (if value = ''pending'' then Inr Pending
      else if value = ''consumed'' then Inr Consumed
      else if value = ''expired'' then Inr Expired
      else Inl (''unknown plan lifecycle state `'' @ value @ ''`''))"

lemma from_as_storage [simp]: "from_storage (as_storage s) = Inr s"
  by (cases s) (simp_all add: from_storage_def)

lemma as_storage_inj [simp]: "as_storage s = as_storage t \<longleftrightarrow> s = t"
  by (cases s; cases t) simp_all

lemma as_storage_texts [simp]:
  "as_storage s = ''pending'' \<longleftrightarrow> s = Pending"
  "as_storage s = ''consumed'' \<longleftrightarrow> s = Consumed"
  "as_storage s = ''expired'' \<longleftrightarrow> s = Expired"
  by (cases s; simp)+

record plan_store_record =
  pr_plan_id :: string
  pr_tool :: string
  pr_actor :: string
  pr_op_hash :: string
  pr_plan_json :: json
  pr_concurrency_token :: "concurrency_token option"
  pr_created_at :: time
  pr_expires_at :: time
  pr_state :: plan_lifecycle_state

text \<open>A row of \<open>mcp_plans\<close>: the columns beside the key.\<close>

record plan_row =
  row_tool :: string
  row_actor :: string
  row_op_hash :: string
  row_plan_json :: json
  row_concurrency_token :: "concurrency_token option"
  row_created_at :: time
  row_expires_at :: time
  row_state :: string

type_synonym plan_table = "(string, plan_row) btree"

definition row_of_plan :: "plan_store_record \<Rightarrow> plan_row" where
  "row_of_plan r = \<lparr>row_tool = pr_tool r, row_actor = pr_actor r, row_op_hash = pr_op_hash r,
     row_plan_json = pr_plan_json r, row_concurrency_token = pr_concurrency_token r,
     row_created_at = pr_created_at r, row_expires_at = pr_expires_at r,
     row_state = as_storage (pr_state r)\<rparr>"

definition plan_of_row :: "string \<Rightarrow> plan_row \<Rightarrow> (string, plan_store_record) result" where
  "plan_of_row plan_id w = bind_ok (from_storage (row_state w)) (\<lambda>st.
     Inr \<lparr>pr_plan_id = plan_id, pr_tool = row_tool w, pr_actor = row_actor w,
       pr_op_hash = row_op_hash w, pr_plan_json = row_plan_json w,
       pr_concurrency_token = row_concurrency_token w, pr_created_at = row_created_at w,
       pr_expires_at = row_expires_at w, pr_state = st\<rparr>)"

definition plan_put :: "plan_store_record \<Rightarrow> plan_table \<Rightarrow> plan_table" where
  "plan_put r t = bt_insert (pr_plan_id r) (row_of_plan r) t"

definition plan_get :: "plan_table \<Rightarrow> string \<Rightarrow> (string, plan_store_record option) result" where
  "plan_get t plan_id = (case bt_get t plan_id of
       None \<Rightarrow> Inr None
     | Some w \<Rightarrow> bind_ok (plan_of_row plan_id w) (\<lambda>r. Inr (Some r)))"

definition plan_mark_consumed :: "string \<Rightarrow> plan_table \<Rightarrow> plan_table" where
  "plan_mark_consumed plan_id t =
     bt_update (\<lambda>k w. k = plan_id \<and> True) (\<lambda>w. w\<lparr>row_state := ''consumed''\<rparr>) t"

definition plan_mark_expired :: "string \<Rightarrow> plan_table \<Rightarrow> plan_table" where
  "plan_mark_expired plan_id t =
     bt_update (\<lambda>k w. k = plan_id \<and> row_state w \<noteq> ''consumed'') (\<lambda>w. w\<lparr>row_state := ''expired''\<rparr>) t"

definition sweep_due :: "time \<Rightarrow> string \<Rightarrow> plan_row \<Rightarrow> bool" where
  "sweep_due now k w = (row_state w = ''pending'' \<and> row_expires_at w \<le> now)"

definition plan_sweep_expired :: "time \<Rightarrow> plan_table \<Rightarrow> nat \<times> plan_table" where
  "plan_sweep_expired now t =
     (bt_count (sweep_due now) t,
      bt_update (sweep_due now) (\<lambda>w. w\<lparr>row_state := ''expired''\<rparr>) t)"

text \<open>What the store holds for a plan, when its state text decodes.\<close>

definition plan_view :: "plan_table \<Rightarrow> string \<Rightarrow> plan_store_record option" where
  "plan_view t plan_id = (case plan_get t plan_id of Inr r \<Rightarrow> r | Inl _ \<Rightarrow> None)"

text \<open>The table invariant: rows in key order, every state text one the code writes.\<close>

definition plan_row_ok :: "plan_row \<Rightarrow> bool" where
  "plan_row_ok w = is_ok (from_storage (row_state w))"

definition plan_table_wf :: "plan_table \<Rightarrow> bool" where
  "plan_table_wf t = (bt_wf t \<and> list_all (\<lambda>(k, w). plan_row_ok w) t)"

lemma plan_row_ok_iff: "plan_row_ok w \<longleftrightarrow> (\<exists>s. row_state w = as_storage s)"
proof
  assume "plan_row_ok w"
  then have "row_state w = as_storage Pending \<or> row_state w = as_storage Consumed
      \<or> row_state w = as_storage Expired"
    by (auto simp: plan_row_ok_def from_storage_def split: if_splits)
  then show "\<exists>s. row_state w = as_storage s" by blast
next
  assume "\<exists>s. row_state w = as_storage s"
  then show "plan_row_ok w" by (auto simp: plan_row_ok_def)
qed

lemma plan_table_wf_Nil [simp]: "plan_table_wf []"
  by (simp add: plan_table_wf_def)

lemma plan_table_wf_bt [dest]: "plan_table_wf t \<Longrightarrow> bt_wf t"
  by (simp add: plan_table_wf_def)

lemma list_all_bt_insert:
  "list_all (\<lambda>(k, w). P w) t \<Longrightarrow> P v \<Longrightarrow> list_all (\<lambda>(k, w). P w) (bt_insert k v t)"
  by (induction k v t rule: bt_insert.induct) auto

lemma list_all_bt_update:
  "list_all (\<lambda>(k, w). Q w) t \<Longrightarrow> (\<And>w. Q w \<Longrightarrow> Q (f w)) \<Longrightarrow>
     list_all (\<lambda>(k, w). Q w) (bt_update P f t)"
  unfolding bt_update_def by (induction t) auto

lemma plan_view_row:
  assumes "plan_table_wf t"
  shows "plan_view t k = (case bt_get t k of None \<Rightarrow> None | Some w \<Rightarrow>
    (case plan_of_row k w of Inr r \<Rightarrow> Some r | Inl _ \<Rightarrow> None))"
  by (auto simp: plan_view_def plan_get_def bind_ok_def split: option.splits sum.splits)

lemma plan_of_row_ok:
  assumes "plan_row_ok w" shows "\<exists>r. plan_of_row k w = Inr r"
  using assms by (auto simp: plan_row_ok_iff plan_of_row_def)

lemma plan_table_row_ok: "plan_table_wf t \<Longrightarrow> bt_get t k = Some w \<Longrightarrow> plan_row_ok w"
  unfolding plan_table_wf_def bt_get_def by (auto simp: list_all_iff dest: map_of_SomeD)

lemma plan_of_row_of_plan [simp]: "plan_of_row (pr_plan_id r) (row_of_plan r) = Inr r"
  by (simp add: plan_of_row_def row_of_plan_def)

lemma plan_table_wf_put [simp]: "plan_table_wf t \<Longrightarrow> plan_table_wf (plan_put r t)"
  by (auto simp: plan_table_wf_def plan_put_def plan_row_ok_def row_of_plan_def intro: list_all_bt_insert)

lemma plan_table_wf_update:
  assumes "plan_table_wf t"
  shows "plan_table_wf (bt_update P (\<lambda>w. w\<lparr>row_state := as_storage s\<rparr>) t)"
  using assms by (auto simp: plan_table_wf_def plan_row_ok_def intro!: list_all_bt_update)

lemma plan_table_wf_ops [simp]:
  assumes "plan_table_wf t"
  shows "plan_table_wf (plan_mark_consumed k t)" "plan_table_wf (plan_mark_expired k t)"
    "plan_table_wf (snd (plan_sweep_expired now t))"
  using plan_table_wf_update [OF assms, where s = Consumed] plan_table_wf_update [OF assms, where s = Expired]
  by (simp_all add: plan_mark_consumed_def plan_mark_expired_def plan_sweep_expired_def)

text \<open>Setting the state of the rows a query selects, seen through the decoder.\<close>

lemma plan_view_update:
  assumes wf: "plan_table_wf t"
    and P: "\<And>w. P k w \<longleftrightarrow> Q (row_state w) (row_expires_at w)"
  shows "plan_view (bt_update P (\<lambda>w. w\<lparr>row_state := as_storage s\<rparr>) t) k
       = map_option (\<lambda>r. if Q (as_storage (pr_state r)) (pr_expires_at r) then r\<lparr>pr_state := s\<rparr> else r)
           (plan_view t k)"
proof (cases "bt_get t k")
  case None
  then show ?thesis
    using plan_table_wf_update [OF wf] by (simp add: plan_view_row wf bt_get_update)
next
  case (Some w)
  then obtain st where st: "row_state w = as_storage st"
    using plan_table_row_ok [OF wf] by (auto simp: plan_row_ok_iff)
  with Some show ?thesis
    using plan_table_wf_update [OF wf] by (simp add: plan_view_row wf bt_get_update P plan_of_row_def)
qed

subsection \<open>The trait PlanStore as an interface\<close>

locale plan_store_spec =
  fixes put :: "plan_store_record \<Rightarrow> 's \<Rightarrow> 's"
    and view :: "'s \<Rightarrow> string \<Rightarrow> plan_store_record option"
    and mark_consumed :: "string \<Rightarrow> 's \<Rightarrow> 's"
    and mark_expired :: "string \<Rightarrow> 's \<Rightarrow> 's"
    and sweep :: "time \<Rightarrow> 's \<Rightarrow> 's"
    and wf :: "'s \<Rightarrow> bool"
  assumes view_put: "wf s \<Longrightarrow> view (put r s) = (view s)(pr_plan_id r := Some r)"
    and view_consumed: "wf s \<Longrightarrow> view (mark_consumed k s) j =
      map_option (\<lambda>r. if j = k then r\<lparr>pr_state := Consumed\<rparr> else r) (view s j)"
    and view_expired: "wf s \<Longrightarrow> view (mark_expired k s) j =
      map_option (\<lambda>r. if j = k \<and> pr_state r \<noteq> Consumed then r\<lparr>pr_state := Expired\<rparr> else r) (view s j)"
    and view_sweep: "wf s \<Longrightarrow> view (sweep now s) j =
      map_option (\<lambda>r. if pr_state r = Pending \<and> pr_expires_at r \<le> now
                      then r\<lparr>pr_state := Expired\<rparr> else r) (view s j)"
    and wf_put: "wf s \<Longrightarrow> wf (put r s)"
    and wf_consumed: "wf s \<Longrightarrow> wf (mark_consumed k s)"
    and wf_expired: "wf s \<Longrightarrow> wf (mark_expired k s)"
    and wf_sweep: "wf s \<Longrightarrow> wf (sweep now s)"
begin

lemma consumed_kept:
  assumes "wf s" "view s j = Some r" "pr_state r = Consumed"
  shows "view (mark_consumed k s) j = Some r" "view (mark_expired k s) j = Some r"
    "view (sweep now s) j = Some r" "j \<noteq> pr_plan_id r' \<Longrightarrow> view (put r' s) j = Some r"
proof -
  have "r\<lparr>pr_state := Consumed\<rparr> = r" using assms(3) by (cases r) simp
  then show "view (mark_consumed k s) j = Some r"
    using assms by (simp add: view_consumed)
qed (use assms in \<open>simp_all add: view_expired view_sweep view_put\<close>)

end

interpretation ps: plan_store_spec plan_put plan_view plan_mark_consumed plan_mark_expired
    "\<lambda>now t. snd (plan_sweep_expired now t)" plan_table_wf
proof (unfold_locales, goal_cases)
  case (1 s r)
  show ?case
  proof
    fix k
    show "plan_view (plan_put r s) k = ((plan_view s)(pr_plan_id r := Some r)) k"
      by (cases "k = pr_plan_id r")
        (simp_all add: plan_view_def plan_get_def plan_put_def bt_get_insert_other)
  qed
next
  case (2 s k j)
  then show ?case
    using plan_view_update [of s "\<lambda>i w. i = k \<and> True" j "\<lambda>_ _. j = k" Consumed]
    by (simp add: plan_mark_consumed_def)
next
  case (3 s k j)
  then show ?case
    using plan_view_update [of s "\<lambda>i w. i = k \<and> row_state w \<noteq> ''consumed''" j
        "\<lambda>st _. j = k \<and> st \<noteq> ''consumed''" Expired]
    by (simp add: plan_mark_expired_def)
next
  case (4 s now j)
  then show ?case
    using plan_view_update [of s "sweep_due now" j "\<lambda>st e. st = ''pending'' \<and> e \<le> now" Expired]
    by (simp add: plan_sweep_expired_def sweep_due_def [abs_def])
qed simp_all

subsection \<open>The lifecycle of a plan\<close>

text \<open>
  The abstract state machine the store promises: a plan can be consumed from any state, and can
  expire unless it has been consumed.
\<close>

inductive plan_step :: "plan_lifecycle_state \<Rightarrow> plan_lifecycle_state \<Rightarrow> bool" where
  consume: "plan_step s Consumed"
| expire: "s \<noteq> Consumed \<Longrightarrow> plan_step s Expired"

inductive_simps plan_step_iff: "plan_step s t"
inductive_cases plan_step_consumedE: "plan_step Consumed t"

code_pred plan_step .

datatype plan_op = Put plan_store_record | MarkConsumed string | MarkExpired string | Sweep time

fun plan_exec :: "plan_op \<Rightarrow> plan_table \<Rightarrow> plan_table" where
  "plan_exec (Put r) t = plan_put r t"
| "plan_exec (MarkConsumed k) t = plan_mark_consumed k t"
| "plan_exec (MarkExpired k) t = plan_mark_expired k t"
| "plan_exec (Sweep now) t = snd (plan_sweep_expired now t)"

fun plan_run :: "plan_op list \<Rightarrow> plan_table \<Rightarrow> plan_table" where
  "plan_run [] t = t"
| "plan_run (x # xs) t = plan_run xs (plan_exec x t)"

fun writes_plan :: "string \<Rightarrow> plan_op \<Rightarrow> bool" where
  "writes_plan k (Put r) = (pr_plan_id r = k)"
| "writes_plan k _ = False"

lemma plan_exec_wf [simp]: "plan_table_wf t \<Longrightarrow> plan_table_wf (plan_exec x t)"
  by (cases x) simp_all

lemma plan_run_wf [simp]: "plan_table_wf t \<Longrightarrow> plan_table_wf (plan_run xs t)"
  by (induction xs arbitrary: t) simp_all

lemma plan_exec_step:
  assumes "plan_table_wf t" "\<not> writes_plan k x" "plan_view t k = Some r"
  shows "\<exists>s. plan_view (plan_exec x t) k = Some (r\<lparr>pr_state := s\<rparr>)
           \<and> (s = pr_state r \<or> plan_step (pr_state r) s)"
proof (cases x)
  case (Put r')
  with assms show ?thesis by (intro exI [of _ "pr_state r"]) (simp add: ps.view_put)
next
  case (MarkConsumed j)
  with assms show ?thesis
    by (intro exI [of _ "if k = j then Consumed else pr_state r"])
      (simp add: ps.view_consumed plan_step_iff)
next
  case (MarkExpired j)
  with assms show ?thesis
    by (intro exI [of _ "if k = j \<and> pr_state r \<noteq> Consumed then Expired else pr_state r"])
      (simp add: ps.view_expired plan_step_iff)
next
  case (Sweep now)
  with assms show ?thesis
    by (intro exI [of _ "if pr_state r = Pending \<and> pr_expires_at r \<le> now then Expired else pr_state r"])
      (simp add: ps.view_sweep plan_step_iff)
qed

text \<open>
  C38: the store refines the plan lifecycle. Along any sequence of store operations that does not
  re-insert a plan, the stored record keeps every field but its state, and the state moves along
  the lifecycle's steps.
\<close>

theorem plan_run_refines_lifecycle:
  assumes "plan_table_wf t" and "\<forall>x \<in> set xs. \<not> writes_plan k x" and "plan_view t k = Some r"
  shows "\<exists>s. plan_view (plan_run xs t) k = Some (r\<lparr>pr_state := s\<rparr>) \<and> plan_step\<^sup>*\<^sup>* (pr_state r) s"
  using assms
proof (induction xs arbitrary: t r)
  case Nil
  then show ?case by (intro exI [of _ "pr_state r"]) simp
next
  case (Cons x xs)
  then obtain s where s: "plan_view (plan_exec x t) k = Some (r\<lparr>pr_state := s\<rparr>)"
      "plan_step\<^sup>*\<^sup>* (pr_state r) s"
    using plan_exec_step [of t k x r] by fastforce
  with Cons.IH [OF _ _ s(1)] Cons.prems obtain s' where
    "plan_view (plan_run (x # xs) t) k = Some (r\<lparr>pr_state := s'\<rparr>)" "plan_step\<^sup>*\<^sup>* s s'"
    by auto
  with s(2) show ?case by (intro exI [of _ s']) (auto intro: rtranclp_trans)
qed

theorem plan_run_refines_lifecycle_witness:
  "\<exists>t r s. plan_view t ''p1'' = Some r
     \<and> plan_view (plan_run [Sweep 100, MarkConsumed ''p1'', MarkExpired ''p1''] t) ''p1''
       = Some (r\<lparr>pr_state := s\<rparr>) \<and> plan_step\<^sup>*\<^sup>* (pr_state r) s"
proof -
  let ?r = "\<lparr>pr_plan_id = ''p1'', pr_tool = ''story_plan_create'', pr_actor = ''a'',
    pr_op_hash = ''h'', pr_plan_json = JNull, pr_concurrency_token = None, pr_created_at = 0,
    pr_expires_at = 50, pr_state = Pending\<rparr>"
  have v: "plan_view (plan_put ?r []) ''p1'' = Some ?r" by (simp add: ps.view_put)
  have "\<exists>s. plan_view (plan_run [Sweep 100, MarkConsumed ''p1'', MarkExpired ''p1''] (plan_put ?r [])) ''p1''
       = Some (?r\<lparr>pr_state := s\<rparr>) \<and> plan_step\<^sup>*\<^sup>* (pr_state ?r) s"
    by (rule plan_run_refines_lifecycle [OF _ _ v]) simp_all
  with v show ?thesis by blast
qed

text \<open>
  a consumed plan stays consumed. No sequence of expiry marks, sweeps, consumptions and
  insertions of other plans changes the record of a plan that was consumed.
\<close>

theorem plan_consumed_final:
  assumes "plan_table_wf t" and "\<forall>x \<in> set xs. \<not> writes_plan k x"
    and "plan_view t k = Some r" and "pr_state r = Consumed"
  shows "plan_view (plan_run xs t) k = Some r"
  using assms
proof (induction xs arbitrary: t)
  case (Cons x xs)
  then have "plan_view (plan_exec x t) k = Some r"
    by (cases x) (auto simp: ps.consumed_kept ps.view_put)
  with Cons show ?case by simp
qed simp

theorem plan_consumed_final_witness:
  "\<exists>t r. plan_view t ''p1'' = Some r \<and>
     plan_view (plan_run [MarkExpired ''p1'', Sweep 1000] t) ''p1'' = Some r"
proof -
  let ?r = "\<lparr>pr_plan_id = ''p1'', pr_tool = ''story_plan_create'', pr_actor = ''a'',
    pr_op_hash = ''h'', pr_plan_json = JNull, pr_concurrency_token = None, pr_created_at = 0,
    pr_expires_at = 50, pr_state = Consumed\<rparr>"
  have v: "plan_view (plan_put ?r []) ''p1'' = Some ?r" by (simp add: ps.view_put)
  moreover have "plan_view (plan_run [MarkExpired ''p1'', Sweep 1000] (plan_put ?r [])) ''p1'' = Some ?r"
    by (rule plan_consumed_final [OF _ _ v]) simp_all
  ultimately show ?thesis by blast
qed

text \<open>
  a plan read back is the plan stored, a store touches no other plan, and a read fails exactly
  when the row's state text is none of the three the code writes.
\<close>

theorem plan_put_get_roundtrip:
  "plan_get (plan_put r t) = (plan_get t)(pr_plan_id r := Inr (Some r))
   \<and> is_ok (plan_get t k) = (case bt_get t k of None \<Rightarrow> True
        | Some w \<Rightarrow> row_state w \<in> {''pending'', ''consumed'', ''expired''})"
proof
  show "plan_get (plan_put r t) = (plan_get t)(pr_plan_id r := Inr (Some r))"
    by (rule ext) (simp add: plan_get_def plan_put_def bt_get_insert_other)
  show "is_ok (plan_get t k) = (case bt_get t k of None \<Rightarrow> True
        | Some w \<Rightarrow> row_state w \<in> {''pending'', ''consumed'', ''expired''})"
    by (cases "bt_get t k") (simp_all add: plan_get_def plan_of_row_def from_storage_def)
qed

definition plan_due :: "time \<Rightarrow> plan_store_record \<Rightarrow> bool" where
  "plan_due now r = (pr_state r = Pending \<and> pr_expires_at r \<le> now)"

lemma plan_due_row:
  assumes "plan_table_wf t"
  shows "(\<exists>r. plan_view t k = Some r \<and> plan_due now r) \<longleftrightarrow> (\<exists>w. (k, w) \<in> set t \<and> sweep_due now k w)"
proof (cases "bt_get t k")
  case None
  with assms show ?thesis
    by (simp add: plan_view_row bt_get_in_set [OF plan_table_wf_bt])
next
  case (Some w)
  then obtain st where "row_state w = as_storage st"
    using plan_table_row_ok [OF assms] by (auto simp: plan_row_ok_iff)
  with Some assms show ?thesis
    by (simp add: plan_view_row bt_get_in_set [OF plan_table_wf_bt] sweep_due_def plan_due_def
        plan_of_row_def)
qed

lemma card_filter_keys:
  "distinct (map fst m) \<Longrightarrow> card {k. \<exists>v. (k, v) \<in> set m \<and> P k v} = length (filter (\<lambda>(k, v). P k v) m)"
proof -
  assume d: "distinct (map fst m)"
  have "{k. \<exists>v. (k, v) \<in> set m \<and> P k v} = fst ` set (filter (\<lambda>(k, v). P k v) m)" by force
  moreover have "distinct (map fst (filter (\<lambda>(k, v). P k v) m))"
    using d by (rule distinct_map_filter)
  ultimately show ?thesis by (metis distinct_card length_map set_map)
qed

text \<open>
  a sweep expires exactly the pending plans whose expiry is due, leaves every other record
  as it was, and returns how many plans it expired.
\<close>

theorem plan_sweep_exact:
  assumes "plan_table_wf t"
  shows "plan_view (snd (plan_sweep_expired now t)) k =
      (case plan_view t k of None \<Rightarrow> None
       | Some r \<Rightarrow> Some (if plan_due now r then r\<lparr>pr_state := Expired\<rparr> else r))
    \<and> fst (plan_sweep_expired now t) = card {k. \<exists>r. plan_view t k = Some r \<and> plan_due now r}"
proof
  show "plan_view (snd (plan_sweep_expired now t)) k =
      (case plan_view t k of None \<Rightarrow> None
       | Some r \<Rightarrow> Some (if plan_due now r then r\<lparr>pr_state := Expired\<rparr> else r))"
    using ps.view_sweep [OF assms] by (simp add: plan_due_def split: option.splits)
  have "(\<exists>r. plan_view t k = Some r \<and> plan_due now r)
      \<longleftrightarrow> (\<exists>w. (k, w) \<in> set t \<and> sweep_due now k w)" for k
    by (rule plan_due_row [OF assms])
  then show "fst (plan_sweep_expired now t) = card {k. \<exists>r. plan_view t k = Some r \<and> plan_due now r}"
    using card_filter_keys [OF bt_wf_distinct [OF plan_table_wf_bt [OF assms]], of "sweep_due now"]
    by (simp add: plan_sweep_expired_def bt_count_def)
qed

theorem plan_sweep_exact_witness:
  "\<exists>t. plan_table_wf t \<and> fst (plan_sweep_expired 100 t)
     = card {k. \<exists>r. plan_view t k = Some r \<and> plan_due 100 r}"
  using plan_sweep_exact [of "[]"] plan_table_wf_Nil by blast

end
