(* ===== verification/Confirmation_Store.thy ===== *)
theory Confirmation_Store
  imports Operation_Plan "HOL-Library.Word"
begin

text \<open>
  Confirmation tokens (\<open>snow_mcp/src/planner/confirmation.rs\<close>): a token is issued for a plan and
  bound to actor, requester, tool, operation hash and environment; an apply consumes it. The
  trait \<open>ConfirmationStore\<close> is the locale \<open>confirmation_spec\<close>, interpreted by the SQLite store.

  \<open>dur\<close> stands for \<open>chrono::Duration::seconds\<close> (\<open>None\<close> where it panics); \<open>find_ok\<close> and
  \<open>upd_ok\<close> say whether the two SQL statements of \<open>consume\<close> succeed. A time-to-live is a
  64-bit word, cast to \<open>i64\<close> as the code casts it.
\<close>

record confirmation_record =
  cr_token_id :: string
  cr_plan_id :: string
  cr_actor :: string
  cr_requester :: string
  cr_tool :: string
  cr_op_hash :: string
  cr_environment :: string
  cr_issued_at :: time
  cr_expires_at :: time
  cr_consumed :: bool
  cr_revoked :: bool

record confirmation_binding =
  cb_actor :: string
  cb_requester :: string
  cb_tool :: string
  cb_op_hash :: string
  cb_environment :: string

datatype confirmation_consume_error =
    NotFound
  | TokenExpired
  | AlreadyConsumed
  | Revoked
  | BindingMismatch string

text \<open>The texts of the error values (\<open>#[error(...)]\<close>).\<close>

fun consume_error_text :: "confirmation_consume_error \<Rightarrow> string" where
  "consume_error_text NotFound = ''token not found''"
| "consume_error_text TokenExpired = ''token expired''"
| "consume_error_text AlreadyConsumed = ''token already consumed''"
| "consume_error_text Revoked = ''token revoked''"
| "consume_error_text (BindingMismatch f) = ''binding mismatch on field `'' @ f @ ''`''"

type_synonym confirmation_table = "(string, confirmation_record) btree"

datatype issue_error = DurationPanic | UniqueViolation

definition binding_mismatch :: "confirmation_record \<Rightarrow> confirmation_binding \<Rightarrow> string option" where
  "binding_mismatch r b = map_option fst (find (\<lambda>(field, stored, incoming). stored \<noteq> incoming)
     [(''actor'', cr_actor r, cb_actor b),
      (''requester'', cr_requester r, cb_requester b),
      (''tool'', cr_tool r, cb_tool b),
      (''op_hash'', cr_op_hash r, cb_op_hash b),
      (''environment'', cr_environment r, cb_environment b)])"

definition bound_to :: "confirmation_record \<Rightarrow> confirmation_binding \<Rightarrow> bool" where
  "bound_to r b = (cr_actor r = cb_actor b \<and> cr_requester r = cb_requester b \<and>
     cr_tool r = cb_tool b \<and> cr_op_hash r = cb_op_hash b \<and> cr_environment r = cb_environment b)"

lemma binding_mismatch_None [simp]: "binding_mismatch r b = None \<longleftrightarrow> bound_to r b"
  by (auto simp: binding_mismatch_def bound_to_def)

lemma binding_mismatch_Some: "binding_mismatch r b = Some f \<Longrightarrow> \<not> bound_to r b"
  using binding_mismatch_None [of r b] by simp

definition conf_issue ::
  "(int \<Rightarrow> time option) \<Rightarrow> time \<Rightarrow> string \<Rightarrow> string \<Rightarrow> confirmation_binding \<Rightarrow> 64 word
     \<Rightarrow> confirmation_table \<Rightarrow> (issue_error, confirmation_record) result \<times> confirmation_table" where
  "conf_issue dur now token_id plan_id b ttl_seconds t =
     (case dur (sint ttl_seconds) of
        None \<Rightarrow> (Inl DurationPanic, t)
      | Some ttl \<Rightarrow>
          let r = \<lparr>cr_token_id = token_id, cr_plan_id = plan_id, cr_actor = cb_actor b,
                   cr_requester = cb_requester b, cr_tool = cb_tool b, cr_op_hash = cb_op_hash b,
                   cr_environment = cb_environment b, cr_issued_at = now,
                   cr_expires_at = now + ttl, cr_consumed = False, cr_revoked = False\<rparr>
          in (case bt_get t token_id of
                Some _ \<Rightarrow> (Inl UniqueViolation, t)
              | None \<Rightarrow> (Inr r, bt_insert token_id r t)))"

definition conf_lookup :: "confirmation_table \<Rightarrow> string \<Rightarrow> confirmation_record option" where
  "conf_lookup t token_id = bt_get t token_id"

definition conf_consume ::
  "bool \<Rightarrow> bool \<Rightarrow> time \<Rightarrow> string \<Rightarrow> confirmation_binding \<Rightarrow> confirmation_table
     \<Rightarrow> (confirmation_consume_error, confirmation_record) result \<times> confirmation_table" where
  "conf_consume find_ok upd_ok now token_id b t =
     (if \<not> find_ok then (Inl NotFound, t)
      else case conf_lookup t token_id of
        None \<Rightarrow> (Inl NotFound, t)
      | Some r \<Rightarrow>
          if cr_revoked r then (Inl Revoked, t)
          else if cr_consumed r then (Inl AlreadyConsumed, t)
          else if cr_expires_at r \<le> now then (Inl TokenExpired, t)
          else (case binding_mismatch r b of
              Some f \<Rightarrow> (Inl (BindingMismatch f), t)
            | None \<Rightarrow>
                if \<not> upd_ok then (Inl NotFound, t)
                else
                  let open_row = (\<lambda>k w. k = token_id \<and> (\<not> cr_consumed w \<and> \<not> cr_revoked w));
                      changed = bt_count open_row t;
                      t' = bt_update open_row (\<lambda>w. w\<lparr>cr_consumed := True\<rparr>) t
                  in if changed \<noteq> 1 then (Inl AlreadyConsumed, t')
                     else (Inr (r\<lparr>cr_consumed := True\<rparr>), t')))"

text \<open>The acceptance condition in one formula: what a successful consume has checked.\<close>

definition token_valid :: "time \<Rightarrow> confirmation_binding \<Rightarrow> confirmation_record \<Rightarrow> bool" where
  "token_valid now b r =
     (\<not> cr_revoked r \<and> \<not> cr_consumed r \<and> now < cr_expires_at r \<and> bound_to r b)"

lemma conf_consume_ok:
  assumes "bt_wf t"
  shows "fst (conf_consume f u now k b t) = Inr r' \<longleftrightarrow>
    f \<and> u \<and> (\<exists>r. conf_lookup t k = Some r \<and> token_valid now b r \<and> r' = r\<lparr>cr_consumed := True\<rparr>)"
  using bt_count_key [OF assms, of k "\<lambda>w. \<not> cr_consumed w \<and> \<not> cr_revoked w"]
  by (auto simp: conf_consume_def conf_lookup_def token_valid_def Let_def
      dest: binding_mismatch_Some split: option.splits if_splits)

lemma conf_consume_table:
  assumes "bt_wf t"
  shows "conf_lookup (snd (conf_consume f u now k b t)) j =
    (if j = k \<and> is_ok (fst (conf_consume f u now k b t))
     then map_option (\<lambda>r. r\<lparr>cr_consumed := True\<rparr>) (conf_lookup t k) else conf_lookup t j)"
  using bt_count_key [OF assms, of k "\<lambda>w. \<not> cr_consumed w \<and> \<not> cr_revoked w"]
  by (auto simp: conf_consume_def conf_lookup_def bt_get_update Let_def option.map_ident_strong
      split: option.splits if_splits)

lemma conf_consume_error_table:
  assumes "bt_wf t" "fst (conf_consume f u now k b t) = Inl e"
  shows "conf_lookup (snd (conf_consume f u now k b t)) = conf_lookup t"
  using conf_consume_table [OF assms(1)] assms(2) by (simp add: fun_eq_iff)

lemma conf_consume_wf [simp]: "bt_wf t \<Longrightarrow> bt_wf (snd (conf_consume f u now k b t))"
  by (simp add: conf_consume_def Let_def split: option.splits)

lemma conf_issue_wf [simp]: "bt_wf t \<Longrightarrow> bt_wf (snd (conf_issue dur now k p b ttl t))"
  by (simp add: conf_issue_def Let_def split: option.splits)

lemma conf_issue_lookup:
  "conf_lookup (snd (conf_issue dur now k p b ttl t)) j =
    (case fst (conf_issue dur now k p b ttl t) of
       Inr r \<Rightarrow> if j = k then Some r else conf_lookup t j
     | Inl _ \<Rightarrow> conf_lookup t j)"
  by (simp add: conf_issue_def conf_lookup_def Let_def bt_get_insert_other split: option.splits)

lemma conf_issue_ok:
  "fst (conf_issue dur now k p b ttl t) = Inr r \<Longrightarrow>
     conf_lookup t k = None \<and> bound_to r b \<and> \<not> cr_consumed r \<and> \<not> cr_revoked r \<and>
     cr_plan_id r = p \<and> cr_token_id r = k \<and>
     (\<exists>d. dur (sint ttl) = Some d \<and> cr_expires_at r = now + d)"
  by (auto simp: conf_issue_def conf_lookup_def bound_to_def Let_def split: option.splits)

subsection \<open>The trait ConfirmationStore as an interface\<close>

locale confirmation_spec =
  fixes lookup :: "'s \<Rightarrow> string \<Rightarrow> confirmation_record option"
    and consume :: "time \<Rightarrow> string \<Rightarrow> confirmation_binding \<Rightarrow> 's
       \<Rightarrow> (confirmation_consume_error, confirmation_record) result \<times> 's"
    and wf :: "'s \<Rightarrow> bool"
  assumes consume_ok: "wf s \<Longrightarrow> fst (consume now k b s) = Inr r' \<longleftrightarrow>
      (\<exists>r. lookup s k = Some r \<and> token_valid now b r \<and> r' = r\<lparr>cr_consumed := True\<rparr>)"
    and consume_lookup: "wf s \<Longrightarrow> lookup (snd (consume now k b s)) j =
      (if j = k \<and> is_ok (fst (consume now k b s))
       then map_option (\<lambda>r. r\<lparr>cr_consumed := True\<rparr>) (lookup s k) else lookup s j)"
    and consume_wf: "wf s \<Longrightarrow> wf (snd (consume now k b s))"
begin

lemma consumed_not_ok:
  assumes "wf s" "lookup s k = Some r" "cr_consumed r"
  shows "\<not> is_ok (fst (consume now k b s))"
  using assms by (auto simp: is_ok_iff consume_ok token_valid_def)

lemma consumed_kept:
  assumes "wf s" "lookup s k = Some r" "cr_consumed r"
  shows "lookup (snd (consume now j b s)) k = Some r"
proof -
  have "r\<lparr>cr_consumed := True\<rparr> = r" using assms(3) by (cases r) simp
  with assms show ?thesis by (auto simp: consume_lookup)
qed

lemma ok_consumes:
  assumes "wf s" "is_ok (fst (consume now k b s))"
  shows "\<exists>r. lookup (snd (consume now k b s)) k = Some r \<and> cr_consumed r"
  using assms by (auto simp: is_ok_iff consume_ok consume_lookup)

end

interpretation cs: confirmation_spec conf_lookup "conf_consume True True" bt_wf
  by unfold_locales (simp_all add: conf_consume_ok conf_consume_table)

subsection \<open>Single use\<close>

text \<open>A sequence of consume attempts on one table; the number that were accepted for a token.\<close>

type_synonym consume_call = "bool \<times> bool \<times> time \<times> string \<times> confirmation_binding"

fun consume_all :: "consume_call list \<Rightarrow> confirmation_table
    \<Rightarrow> (confirmation_consume_error, confirmation_record) result list" where
  "consume_all [] t = []"
| "consume_all ((f, u, now, k, b) # cs) t =
     (let (res, t') = conf_consume f u now k b t in res # consume_all cs t')"

definition accepted :: "string \<Rightarrow> consume_call list
    \<Rightarrow> (confirmation_consume_error, confirmation_record) result list \<Rightarrow> nat" where
  "accepted k cs rs = length (filter (\<lambda>((f, u, now, j, b), res). j = k \<and> is_ok res) (zip cs rs))"

lemma length_consume_all [simp]: "length (consume_all cs t) = length cs"
  by (induction cs t rule: consume_all.induct) (simp_all add: Let_def split: prod.splits)

lemma conf_consumed_persists:
  assumes "bt_wf t" "conf_lookup t k = Some r" "cr_consumed r"
  shows "conf_lookup (snd (conf_consume f u now j b t)) k = Some r"
    and "j = k \<Longrightarrow> \<not> is_ok (fst (conf_consume f u now j b t))"
proof -
  have same: "r\<lparr>cr_consumed := True\<rparr> = r" using assms(3) by (cases r) simp
  show "conf_lookup (snd (conf_consume f u now j b t)) k = Some r"
    using assms(1,2) by (auto simp: conf_consume_table same)
  show "j = k \<Longrightarrow> \<not> is_ok (fst (conf_consume f u now j b t))"
    using assms by (auto simp: is_ok_iff conf_consume_ok token_valid_def)
qed

lemma consumed_never_accepted:
  assumes "bt_wf t" "conf_lookup t k = Some r" "cr_consumed r"
  shows "accepted k cs (consume_all cs t) = 0"
  using assms
proof (induction cs arbitrary: t)
  case (Cons c cs)
  obtain f u now j b where c: "c = (f, u, now, j, b)" by (cases c)
  let ?t = "snd (conf_consume f u now j b t)"
  have "accepted k cs (consume_all cs ?t) = 0"
    by (rule Cons.IH) (use Cons.prems conf_consumed_persists(1) in \<open>simp_all\<close>)
  moreover have "j = k \<Longrightarrow> \<not> is_ok (fst (conf_consume f u now j b t))"
    using conf_consumed_persists(2) [OF Cons.prems] .
  ultimately show ?case by (auto simp: c accepted_def split: prod.splits)
qed (simp add: accepted_def)

text \<open>
  C30: a confirmation token is accepted at most once. Whatever sequence of consume attempts runs
  against the table, with any clock readings and bindings and with any of their SQL statements
  failing, at most one attempt on a given token succeeds.
\<close>

theorem token_accepted_at_most_once:
  assumes "bt_wf t"
  shows "accepted k cs (consume_all cs t) \<le> 1"
  using assms
proof (induction cs arbitrary: t)
  case (Cons c cs)
  obtain f u now j b where c: "c = (f, u, now, j, b)" by (cases c)
  let ?res = "fst (conf_consume f u now j b t)" and ?t = "snd (conf_consume f u now j b t)"
  have wf: "bt_wf ?t" using Cons.prems by simp
  have split: "accepted k (c # cs) (consume_all (c # cs) t)
      = (if j = k \<and> is_ok ?res then 1 else 0) + accepted k cs (consume_all cs ?t)"
    by (simp add: c accepted_def split: prod.splits)
  show ?case
  proof (cases "j = k \<and> is_ok ?res")
    case True
    then obtain r where "conf_lookup ?t k = Some r" "cr_consumed r"
      using Cons.prems by (auto simp: is_ok_iff conf_consume_ok conf_consume_table)
    then have "accepted k cs (consume_all cs ?t) = 0" using wf consumed_never_accepted by blast
    with split show ?thesis by simp
  next
    case False
    with split Cons.IH [OF wf] show ?thesis by simp
  qed
qed (simp add: accepted_def)

definition demo_binding :: confirmation_binding where
  "demo_binding = \<lparr>cb_actor = ''alice'', cb_requester = ''alice'', cb_tool = ''story_apply_update'',
     cb_op_hash = ''h1'', cb_environment = ''test''\<rparr>"

definition demo_token :: confirmation_record where
  "demo_token = \<lparr>cr_token_id = ''t1'', cr_plan_id = ''p1'', cr_actor = ''alice'',
     cr_requester = ''alice'', cr_tool = ''story_apply_update'', cr_op_hash = ''h1'',
     cr_environment = ''test'', cr_issued_at = 0, cr_expires_at = 600, cr_consumed = False,
     cr_revoked = False\<rparr>"

theorem token_accepted_at_most_once_witness:
  "accepted ''t1'' (replicate 3 (True, True, 10, ''t1'', demo_binding))
     (consume_all (replicate 3 (True, True, 10, ''t1'', demo_binding)) [(''t1'', demo_token)]) \<le> 1"
  by (rule token_accepted_at_most_once) (simp add: bt_wf_def)

text \<open>
  a consume succeeds exactly when both SQL statements succeed and the stored token is neither
  revoked nor consumed, not yet expired, and bound to the caller's actor, requester, tool,
  operation hash and environment; it returns that token marked consumed. Every other outcome is
  an error that leaves all tokens as they were.
\<close>

theorem conf_consume_spec:
  assumes "bt_wf t"
  shows "(fst (conf_consume f u now k b t) = Inr r' \<longleftrightarrow>
      f \<and> u \<and> (\<exists>r. conf_lookup t k = Some r \<and> token_valid now b r \<and> r' = r\<lparr>cr_consumed := True\<rparr>))
    \<and> (conf_lookup (snd (conf_consume f u now k b t)) =
        (if is_ok (fst (conf_consume f u now k b t))
         then (conf_lookup t)(k := map_option (\<lambda>r. r\<lparr>cr_consumed := True\<rparr>) (conf_lookup t k))
         else conf_lookup t))"
  using conf_consume_ok [OF assms] conf_consume_table [OF assms] by (auto simp: fun_eq_iff)

theorem conf_consume_spec_witness:
  "fst (conf_consume True True 10 ''t1'' demo_binding [(''t1'', demo_token)])
     = Inr (demo_token\<lparr>cr_consumed := True\<rparr>)"
  using conf_consume_spec [of "[(''t1'', demo_token)]" True True 10 "''t1''" demo_binding
      "demo_token\<lparr>cr_consumed := True\<rparr>"]
  by (simp add: bt_wf_def conf_lookup_def bt_get_def token_valid_def bound_to_def demo_token_def
      demo_binding_def)

text \<open>
  the errors of a consume on a readable table come in a fixed order: an unknown token first,
  then revocation, then earlier use, then expiry, and only a live token reveals which field of
  the binding differs.
\<close>

theorem conf_consume_error_order:
  assumes "bt_wf t"
  shows "fst (conf_consume True True now k b t) =
    (case conf_lookup t k of
       None \<Rightarrow> Inl NotFound
     | Some r \<Rightarrow>
         if cr_revoked r then Inl Revoked
         else if cr_consumed r then Inl AlreadyConsumed
         else if cr_expires_at r \<le> now then Inl TokenExpired
         else if cr_actor r \<noteq> cb_actor b then Inl (BindingMismatch ''actor'')
         else if cr_requester r \<noteq> cb_requester b then Inl (BindingMismatch ''requester'')
         else if cr_tool r \<noteq> cb_tool b then Inl (BindingMismatch ''tool'')
         else if cr_op_hash r \<noteq> cb_op_hash b then Inl (BindingMismatch ''op_hash'')
         else if cr_environment r \<noteq> cb_environment b then Inl (BindingMismatch ''environment'')
         else Inr (r\<lparr>cr_consumed := True\<rparr>))"
  using bt_count_key [OF assms, of k "\<lambda>w. \<not> cr_consumed w \<and> \<not> cr_revoked w"]
  by (simp add: conf_consume_def conf_lookup_def binding_mismatch_def Let_def split: option.splits)

theorem conf_consume_error_order_witness:
  "fst (conf_consume True True 700 ''t1'' (demo_binding\<lparr>cb_actor := ''mallory''\<rparr>) [(''t1'', demo_token)])
     = Inl TokenExpired"
  using conf_consume_error_order [of "[(''t1'', demo_token)]" 700 "''t1''"
      "demo_binding\<lparr>cb_actor := ''mallory''\<rparr>"]
  by (simp add: bt_wf_def conf_lookup_def bt_get_def demo_token_def)

text \<open>
  the time-to-live keeps its width. Whenever the duration is in range, a freshly issued
  token expires at the issue time plus the 64-bit value read as signed; so a time-to-live of
  \<open>u64::MAX\<close> seconds wraps to minus one second and yields a token that no consume accepts.
\<close>

theorem conf_issue_ttl_wraps:
  assumes dur: "\<And>n. \<bar>n\<bar> \<le> i64_max div 1000 \<Longrightarrow> dur n = Some (secs n)"
    and "bt_wf t" "conf_lookup t k = None" "issued \<le> now"
  shows "\<exists>r. fst (conf_issue dur issued k p b (-1) t) = Inr r \<and> cr_expires_at r = issued - nanos
    \<and> \<not> is_ok (fst (conf_consume f u now k b' (snd (conf_issue dur issued k p b (-1) t))))"
proof -
  have d: "dur (sint (-1 :: 64 word)) = Some (- nanos)"
    using dur [of "-1"] by (simp add: i64_max_def secs_def)
  let ?t = "snd (conf_issue dur issued k p b (-1) t)"
  obtain r where r: "fst (conf_issue dur issued k p b (-1) t) = Inr r" "cr_expires_at r = issued - nanos"
    using assms(3) d by (auto simp: conf_issue_def conf_lookup_def Let_def)
  then have "conf_lookup ?t k = Some r" by (simp add: conf_issue_lookup)
  moreover have "bt_wf ?t" using assms(2) by simp
  ultimately have "\<not> is_ok (fst (conf_consume f u now k b' ?t))"
    using r(2) assms(4) by (auto simp: is_ok_iff conf_consume_ok token_valid_def nanos_def)
  with r show ?thesis by blast
qed

theorem conf_issue_ttl_wraps_witness:
  "\<exists>r. fst (conf_issue (\<lambda>n. Some (secs n)) 100 ''t9'' ''p1'' demo_binding (-1) []) = Inr r
     \<and> cr_expires_at r = 100 - nanos"
proof -
  have "conf_lookup [] ''t9'' = None" by (simp add: conf_lookup_def)
  from conf_issue_ttl_wraps [OF refl bt_wf_Nil this order_refl, of 100 "''p1''" demo_binding]
  show ?thesis by blast
qed

end
