(* ===== verification/Idempotency_Store.thy ===== *)
theory Idempotency_Store
  imports Operation_Plan "HOL-Library.Word"
begin

text \<open>
  Idempotency keys (\<open>snow_mcp/src/planner/idempotency.rs\<close>): the table \<open>mcp_idempotency\<close>, keyed by
  key and tool. \<open>check_and_record\<close> reserves a key, replays the stored receipt, reports a pending
  operation or a conflict; \<open>try_mark_apply_started\<close> is the test-and-set that lets one caller
  start an apply. The trait \<open>IdempotencyStore\<close> with the store's own operations is the locale
  \<open>idempotency_spec\<close>. \<open>dur\<close> is \<open>chrono::Duration::seconds\<close> (\<open>None\<close> where it panics).
\<close>

record idempotency_record =
  ir_op_hash :: string
  ir_receipt :: "operation_receipt option"
  ir_created_at :: time
  ir_expires_at :: time
  ir_apply_started_at :: "time option"

datatype idempotency_outcome =
    NewKey
  | PendingOutcome (retryable: bool) (transient: bool)
  | Replay operation_receipt
  | Conflict string

type_synonym idempotency_table = "(string \<times> string, idempotency_record) btree"

definition idem_lookup_record ::
  "idempotency_table \<Rightarrow> idempotency_key \<Rightarrow> string \<Rightarrow> idempotency_record option" where
  "idem_lookup_record t key tool = bt_get t (ik_value key, tool)"

definition row_is :: "idempotency_key \<Rightarrow> string \<Rightarrow> (string \<times> string) \<Rightarrow> bool" where
  "row_is key tool k = (k = (ik_value key, tool))"

definition idem_mark_apply_started ::
  "time \<Rightarrow> idempotency_key \<Rightarrow> string \<Rightarrow> idempotency_table \<Rightarrow> idempotency_table" where
  "idem_mark_apply_started now key tool t =
     bt_update (\<lambda>k r. k = (ik_value key, tool) \<and> True)
       (\<lambda>r. r\<lparr>ir_apply_started_at :=
              (case ir_apply_started_at r of Some s \<Rightarrow> Some s | None \<Rightarrow> Some now)\<rparr>) t"

definition startable :: "idempotency_record \<Rightarrow> bool" where
  "startable r = (ir_apply_started_at r = None \<and> ir_receipt r = None)"

definition idem_try_mark_apply_started ::
  "time \<Rightarrow> idempotency_key \<Rightarrow> string \<Rightarrow> idempotency_table \<Rightarrow> bool \<times> idempotency_table" where
  "idem_try_mark_apply_started now key tool t =
     (let sel = (\<lambda>k r. k = (ik_value key, tool) \<and> startable r)
      in (bt_count sel t = 1, bt_update sel (\<lambda>r. r\<lparr>ir_apply_started_at := Some now\<rparr>) t))"

definition idem_clear_apply_started ::
  "idempotency_key \<Rightarrow> string \<Rightarrow> idempotency_table \<Rightarrow> idempotency_table" where
  "idem_clear_apply_started key tool t =
     bt_update (\<lambda>k r. k = (ik_value key, tool) \<and> ir_receipt r = None)
       (\<lambda>r. r\<lparr>ir_apply_started_at := None\<rparr>) t"

definition fresh_reservation :: "string \<Rightarrow> time \<Rightarrow> time \<Rightarrow> idempotency_record" where
  "fresh_reservation op_hash now expires = \<lparr>ir_op_hash = op_hash, ir_receipt = None,
     ir_created_at = now, ir_expires_at = expires, ir_apply_started_at = None\<rparr>"

definition idem_check_and_record ::
  "(int \<Rightarrow> time option) \<Rightarrow> time \<Rightarrow> idempotency_key \<Rightarrow> string \<Rightarrow> string \<Rightarrow> 64 word
     \<Rightarrow> idempotency_table \<Rightarrow> idempotency_outcome option \<times> idempotency_table" where
  "idem_check_and_record dur now key tool op_hash window_seconds t =
     (let k = (ik_value key, tool);
          record_new = (\<lambda>t. case dur (sint window_seconds) of
              None \<Rightarrow> (None, t)
            | Some w \<Rightarrow> (Some NewKey, bt_insert k (fresh_reservation op_hash now (now + w)) t))
      in case bt_get t k of
           None \<Rightarrow> record_new t
         | Some r \<Rightarrow>
             if ir_expires_at r \<le> now then record_new (bt_remove k t)
             else if ir_op_hash r \<noteq> op_hash
             then (Some (Conflict ''idempotency key reused with different op_hash''), t)
             else (case ir_receipt r of
                 Some rc \<Rightarrow> (Some (Replay (rc\<lparr>re_idempotency_replay := True\<rparr>)), t)
               | None \<Rightarrow> (Some (PendingOutcome True True), t)))"

definition idem_save_receipt ::
  "idempotency_key \<Rightarrow> operation_receipt \<Rightarrow> idempotency_table \<Rightarrow> idempotency_table" where
  "idem_save_receipt key rc t =
     bt_update (\<lambda>k r. k = (ik_value key, re_tool rc) \<and> True) (\<lambda>r. r\<lparr>ir_receipt := Some rc\<rparr>) t"

definition idem_lookup_receipt ::
  "idempotency_table \<Rightarrow> idempotency_key \<Rightarrow> string \<Rightarrow> string \<Rightarrow> operation_receipt option" where
  "idem_lookup_receipt t key tool op_hash =
     (case bt_get t (ik_value key, tool) of
        None \<Rightarrow> None
      | Some r \<Rightarrow> if ir_op_hash r = op_hash then ir_receipt r else None)"

subsection \<open>Laws\<close>

lemma idem_wf [simp]:
  assumes "bt_wf t"
  shows "bt_wf (idem_mark_apply_started now key tool t)"
    "bt_wf (snd (idem_try_mark_apply_started now key tool t))"
    "bt_wf (idem_clear_apply_started key tool t)"
    "bt_wf (idem_save_receipt key rc t)"
    "bt_wf (snd (idem_check_and_record dur now key tool h w t))"
  using assms
  by (simp_all add: idem_mark_apply_started_def idem_try_mark_apply_started_def Let_def
      idem_clear_apply_started_def idem_save_receipt_def idem_check_and_record_def split: option.splits)

lemma try_mark_result:
  assumes "bt_wf t"
  shows "fst (idem_try_mark_apply_started now key tool t) \<longleftrightarrow>
    (\<exists>r. idem_lookup_record t key tool = Some r \<and> startable r)"
  using bt_count_key [OF assms, of "(ik_value key, tool)" startable]
  by (auto simp: idem_try_mark_apply_started_def idem_lookup_record_def Let_def split: option.splits)

lemma try_mark_lookup:
  "idem_lookup_record (snd (idem_try_mark_apply_started now key tool t)) key' tool' =
    map_option (\<lambda>r. if row_is key tool (ik_value key', tool') \<and> startable r
                    then r\<lparr>ir_apply_started_at := Some now\<rparr> else r)
      (idem_lookup_record t key' tool')"
  by (simp add: idem_try_mark_apply_started_def idem_lookup_record_def Let_def bt_get_update row_is_def)

lemma mark_lookup:
  "idem_lookup_record (idem_mark_apply_started now key tool t) key' tool' =
    map_option (\<lambda>r. if row_is key tool (ik_value key', tool')
                    then r\<lparr>ir_apply_started_at :=
                      (case ir_apply_started_at r of Some s \<Rightarrow> Some s | None \<Rightarrow> Some now)\<rparr> else r)
      (idem_lookup_record t key' tool')"
  by (simp add: idem_mark_apply_started_def idem_lookup_record_def bt_get_update row_is_def)

lemma clear_lookup:
  "idem_lookup_record (idem_clear_apply_started key tool t) key' tool' =
    map_option (\<lambda>r. if row_is key tool (ik_value key', tool') \<and> ir_receipt r = None
                    then r\<lparr>ir_apply_started_at := None\<rparr> else r)
      (idem_lookup_record t key' tool')"
  by (simp add: idem_clear_apply_started_def idem_lookup_record_def bt_get_update row_is_def)

lemma save_lookup:
  "idem_lookup_record (idem_save_receipt key rc t) key' tool' =
    map_option (\<lambda>r. if row_is key (re_tool rc) (ik_value key', tool')
                    then r\<lparr>ir_receipt := Some rc\<rparr> else r)
      (idem_lookup_record t key' tool')"
  by (simp add: idem_save_receipt_def idem_lookup_record_def bt_get_update row_is_def)

text \<open>The record a call finds alive: stored and not yet expired.\<close>

definition live :: "time \<Rightarrow> idempotency_record option \<Rightarrow> idempotency_record option" where
  "live now r = (case r of None \<Rightarrow> None | Some x \<Rightarrow> if ir_expires_at x \<le> now then None else Some x)"

lemma live_Some: "live now r = Some x \<longleftrightarrow> r = Some x \<and> now < ir_expires_at x"
  by (auto simp: live_def split: option.splits)

lemma check_outcome:
  assumes "dur (sint w) = Some d"
  shows "fst (idem_check_and_record dur now key tool h w t) =
    (case live now (idem_lookup_record t key tool) of
       None \<Rightarrow> Some NewKey
     | Some r \<Rightarrow>
         if ir_op_hash r \<noteq> h then Some (Conflict ''idempotency key reused with different op_hash'')
         else (case ir_receipt r of
             Some rc \<Rightarrow> Some (Replay (rc\<lparr>re_idempotency_replay := True\<rparr>))
           | None \<Rightarrow> Some (PendingOutcome True True)))"
  using assms
  by (auto simp: idem_check_and_record_def idem_lookup_record_def live_def Let_def split: option.splits)

lemma check_lookup:
  assumes "bt_wf t" "dur (sint w) = Some d"
  shows "idem_lookup_record (snd (idem_check_and_record dur now key tool h w t)) key' tool' =
    (if row_is key tool (ik_value key', tool') \<and> live now (idem_lookup_record t key tool) = None
     then Some (fresh_reservation h now (now + d))
     else idem_lookup_record t key' tool')"
  using assms
  by (auto simp: idem_check_and_record_def idem_lookup_record_def live_def row_is_def Let_def
      bt_get_insert_other bt_get_remove split: option.splits)

lemma lookup_receipt_record:
  "idem_lookup_receipt t key tool h = (case idem_lookup_record t key tool of
     None \<Rightarrow> None | Some r \<Rightarrow> if ir_op_hash r = h then ir_receipt r else None)"
  by (simp add: idem_lookup_receipt_def idem_lookup_record_def)

subsection \<open>The trait IdempotencyStore as an interface\<close>

locale idempotency_spec =
  fixes lookup :: "'s \<Rightarrow> idempotency_key \<Rightarrow> string \<Rightarrow> idempotency_record option"
    and try_mark :: "time \<Rightarrow> idempotency_key \<Rightarrow> string \<Rightarrow> 's \<Rightarrow> bool \<times> 's"
    and mark :: "time \<Rightarrow> idempotency_key \<Rightarrow> string \<Rightarrow> 's \<Rightarrow> 's"
    and save :: "idempotency_key \<Rightarrow> operation_receipt \<Rightarrow> 's \<Rightarrow> 's"
    and wf :: "'s \<Rightarrow> bool"
  assumes try_result: "wf s \<Longrightarrow> fst (try_mark now key tool s) \<longleftrightarrow>
      (\<exists>r. lookup s key tool = Some r \<and> startable r)"
    and try_lookup: "wf s \<Longrightarrow> lookup (snd (try_mark now key tool s)) key' tool' =
      map_option (\<lambda>r. if row_is key tool (ik_value key', tool') \<and> startable r
                      then r\<lparr>ir_apply_started_at := Some now\<rparr> else r) (lookup s key' tool')"
    and mark_lookup: "wf s \<Longrightarrow> lookup (mark now key tool s) key' tool' =
      map_option (\<lambda>r. if row_is key tool (ik_value key', tool')
                      then r\<lparr>ir_apply_started_at :=
                        (case ir_apply_started_at r of Some s \<Rightarrow> Some s | None \<Rightarrow> Some now)\<rparr> else r)
        (lookup s key' tool')"
    and save_lookup: "wf s \<Longrightarrow> lookup (save key rc s) key' tool' =
      map_option (\<lambda>r. if row_is key (re_tool rc) (ik_value key', tool')
                      then r\<lparr>ir_receipt := Some rc\<rparr> else r) (lookup s key' tool')"
    and wf_ops: "wf s \<Longrightarrow> wf (snd (try_mark now key tool s))" "wf s \<Longrightarrow> wf (mark now key tool s)"
      "wf s \<Longrightarrow> wf (save key rc s)"
begin

text \<open>A key someone has started, or that holds a receipt, is busy, and these operations keep it so.\<close>

lemma busy_no_start:
  assumes "wf s" "lookup s key tool = Some r" "\<not> startable r"
  shows "\<not> fst (try_mark now key tool s)"
  using assms by (simp add: try_result)

lemma busy_kept_mark:
  assumes "wf s" "lookup s key tool = Some r" "\<not> startable r"
  shows "\<exists>r'. lookup (mark now key' tool' s) key tool = Some r' \<and> \<not> startable r'"
  using assms by (auto simp: mark_lookup startable_def split: option.splits)

lemma busy_kept_try:
  assumes "wf s" "lookup s key tool = Some r" "\<not> startable r"
  shows "\<exists>r'. lookup (snd (try_mark now key' tool' s)) key tool = Some r' \<and> \<not> startable r'"
  using assms by (auto simp: try_lookup startable_def)

lemma busy_kept_save:
  assumes "wf s" "lookup s key tool = Some r" "\<not> startable r"
  shows "\<exists>r'. lookup (save key' rc s) key tool = Some r' \<and> \<not> startable r'"
  using assms by (auto simp: save_lookup startable_def)

lemma started_busy:
  assumes "wf s" "fst (try_mark now key tool s)"
  shows "\<exists>r. lookup (snd (try_mark now key tool s)) key tool = Some r \<and> \<not> startable r"
proof -
  from assms obtain r where r: "lookup s key tool = Some r" "startable r"
    by (auto simp: try_result)
  then have "lookup (snd (try_mark now key tool s)) key tool = Some (r\<lparr>ir_apply_started_at := Some now\<rparr>)"
    using assms(1) by (simp add: try_lookup row_is_def)
  then show ?thesis by (auto simp: startable_def)
qed

end

interpretation im: idempotency_spec idem_lookup_record idem_try_mark_apply_started
    idem_mark_apply_started idem_save_receipt bt_wf
  by unfold_locales (simp_all add: try_mark_result try_mark_lookup mark_lookup save_lookup)

subsection \<open>Properties\<close>

text \<open>
  the outcome of a check is decided by the live record of the key: none (or an expired one)
  reserves the key, a different operation hash is a conflict, a stored receipt is replayed with
  its replay flag set, and otherwise the operation is pending. Only a new reservation writes, and
  it replaces the key's row by an unstarted one without receipt that lives for the window.
\<close>

theorem check_and_record_spec:
  assumes "bt_wf t" and "dur (sint w) = Some d"
  shows "fst (idem_check_and_record dur now key tool h w t) =
    (case live now (idem_lookup_record t key tool) of
       None \<Rightarrow> Some NewKey
     | Some r \<Rightarrow>
         if ir_op_hash r \<noteq> h then Some (Conflict ''idempotency key reused with different op_hash'')
         else (case ir_receipt r of
             Some rc \<Rightarrow> Some (Replay (rc\<lparr>re_idempotency_replay := True\<rparr>))
           | None \<Rightarrow> Some (PendingOutcome True True)))
   \<and> idem_lookup_record (snd (idem_check_and_record dur now key tool h w t)) key' tool' =
    (if row_is key tool (ik_value key', tool') \<and> live now (idem_lookup_record t key tool) = None
     then Some (fresh_reservation h now (now + d))
     else idem_lookup_record t key' tool')"
  using check_outcome [where dur = dur and w = w, OF assms(2)]
    check_lookup [where dur = dur and w = w, OF assms] by blast

theorem check_and_record_spec_witness:
  "fst (idem_check_and_record (\<lambda>n. Some (secs n)) 0 (key_client ''k1'') ''story_apply_create'' ''h1'' 86400 [])
     = Some NewKey"
  using check_and_record_spec [OF bt_wf_Nil, where dur = "\<lambda>n. Some (secs n)" and w = 86400]
  by (simp add: idem_lookup_record_def live_def)

lemma completed_key:
  assumes "bt_wf s" "idem_lookup_record s key tool = Some r" "ir_receipt r = Some rc"
    "now < ir_expires_at r"
  shows "fst (idem_check_and_record dur now key tool h' w s) =
         (if h' = ir_op_hash r then Some (Replay (rc\<lparr>re_idempotency_replay := True\<rparr>))
          else Some (Conflict ''idempotency key reused with different op_hash''))
       \<and> snd (idem_check_and_record dur now key tool h' w s) = s
       \<and> \<not> fst (idem_try_mark_apply_started now key tool s)
       \<and> idem_lookup_receipt s key tool (ir_op_hash r) = Some rc"
proof -
  from assms(2) have "bt_get s (ik_value key, tool) = Some r" by (simp add: idem_lookup_record_def)
  with assms show ?thesis
    by (auto simp: Let_def idem_check_and_record_def try_mark_result startable_def lookup_receipt_record)
qed

text \<open>
  a completed operation is replayed, not repeated. After a check that reserved the key and a
  saved receipt of that tool, every later check inside the window with the same operation hash
  returns that receipt marked as a replay, every check with another hash is a conflict, and no
  caller can start the apply again.
\<close>

theorem saved_receipt_replayed:
  assumes "bt_wf t" and "dur (sint w) = Some d" and "re_tool rc = tool"
    and "fst (idem_check_and_record dur t0 key tool h w t) = Some NewKey"
    and "now < t0 + d"
  shows "let s = idem_save_receipt key rc (snd (idem_check_and_record dur t0 key tool h w t))
    in fst (idem_check_and_record dur now key tool h' w s) =
         (if h' = h then Some (Replay (rc\<lparr>re_idempotency_replay := True\<rparr>))
          else Some (Conflict ''idempotency key reused with different op_hash''))
       \<and> snd (idem_check_and_record dur now key tool h' w s) = s
       \<and> \<not> fst (idem_try_mark_apply_started now key tool s)
       \<and> idem_lookup_receipt s key tool h = Some rc"
proof -
  let ?t = "snd (idem_check_and_record dur t0 key tool h w t)"
  let ?s = "idem_save_receipt key rc ?t"
  have none: "live t0 (idem_lookup_record t key tool) = None"
    using assms(4) check_outcome [where dur = dur and w = w, OF assms(2)]
    by (auto split: option.splits if_splits)
  have s: "idem_lookup_record ?s key tool =
      Some ((fresh_reservation h t0 (t0 + d))\<lparr>ir_receipt := Some rc\<rparr>)"
    by (simp add: save_lookup check_lookup [where dur = dur and w = w, OF assms(1,2)] none row_is_def assms(3))
  from completed_key [OF _ this, where dur = dur and now = now] assms(1,5) show ?thesis
    by (simp add: Let_def fresh_reservation_def)
qed

definition demo_receipt :: operation_receipt where
  "demo_receipt = \<lparr>re_plan_id = ''p1'', re_audit_id = ''a1'', re_parent_audit_id = ''p1'',
     re_tool = ''story_apply_create'', re_status = RSuccess, re_applied_changes_summary = None,
     re_service_now_metadata = None, re_idempotency_replay = False, re_completed_at = 5,
     re_op_hash = ''h1'', re_record_url = None, re_record_snapshot = None, re_changed_fields = [],
     re_concurrency_token_observed = None, re_apply_started_at = None, re_error_code = None,
     re_warnings = []\<rparr>"

theorem saved_receipt_replayed_witness:
  "fst (idem_check_and_record (\<lambda>n. Some (secs n)) 7 (key_client ''k1'') ''story_apply_create'' ''h1'' 86400
      (idem_save_receipt (key_client ''k1'') demo_receipt
        (snd (idem_check_and_record (\<lambda>n. Some (secs n)) 0 (key_client ''k1'') ''story_apply_create''
          ''h1'' 86400 []))))
   = Some (Replay (demo_receipt\<lparr>re_idempotency_replay := True\<rparr>))"
proof -
  have "fst (idem_check_and_record (\<lambda>n. Some (secs n)) 0 (key_client ''k1'') ''story_apply_create'' ''h1'' 86400 [])
      = Some NewKey"
    by (simp add: idem_check_and_record_def)
  from saved_receipt_replayed [OF bt_wf_Nil _ _ this, of "secs 86400" demo_receipt 7 "''h1''"]
  show ?thesis by (simp add: demo_receipt_def secs_def nanos_def Let_def)
qed

text \<open>The operations on a key that never unlock it: every one but \<open>clear_apply_started\<close> and a new reservation.\<close>

datatype idem_op =
    TryMark time idempotency_key string
  | Mark time idempotency_key string
  | Save idempotency_key operation_receipt

fun idem_exec :: "idem_op \<Rightarrow> idempotency_table \<Rightarrow> bool \<times> idempotency_table" where
  "idem_exec (TryMark now key tool) t = idem_try_mark_apply_started now key tool t"
| "idem_exec (Mark now key tool) t = (False, idem_mark_apply_started now key tool t)"
| "idem_exec (Save key rc) t = (False, idem_save_receipt key rc t)"

fun starts_of :: "(string \<times> string) \<Rightarrow> idem_op list \<Rightarrow> idempotency_table \<Rightarrow> nat" where
  "starts_of k [] t = 0"
| "starts_of k (x # xs) t =
     (case x of TryMark now key tool \<Rightarrow>
          if (ik_value key, tool) = k \<and> fst (idem_exec x t) then 1 else 0
        | _ \<Rightarrow> 0) + starts_of k xs (snd (idem_exec x t))"

lemma idem_exec_wf [simp]: "bt_wf t \<Longrightarrow> bt_wf (snd (idem_exec x t))"
  by (cases x) simp_all

lemma busy_kept:
  assumes "bt_wf t" "idem_lookup_record t key tool = Some r" "\<not> startable r"
  shows "\<exists>r'. idem_lookup_record (snd (idem_exec x t)) key tool = Some r' \<and> \<not> startable r'"
  using im.busy_kept_try [OF assms] im.busy_kept_mark [OF assms] im.busy_kept_save [OF assms]
  by (cases x) simp_all

lemma busy_never_starts:
  assumes "bt_wf t" "idem_lookup_record t key tool = Some r" "\<not> startable r"
  shows "starts_of (ik_value key, tool) xs t = 0"
  using assms
proof (induction xs arbitrary: t r)
  case (Cons x xs)
  from busy_kept [OF Cons.prems] obtain r' where
    "idem_lookup_record (snd (idem_exec x t)) key tool = Some r'" "\<not> startable r'" by blast
  then have "starts_of (ik_value key, tool) xs (snd (idem_exec x t)) = 0"
    using Cons.IH Cons.prems(1) by simp
  moreover have "x = TryMark now key' tool' \<Longrightarrow> (ik_value key', tool') = (ik_value key, tool) \<Longrightarrow>
      \<not> fst (idem_exec x t)" for now key' tool'
    using Cons.prems by (simp add: try_mark_result idem_lookup_record_def)
  ultimately show ?case by (auto split: idem_op.splits)
qed simp

text \<open>
  C31: the apply start is a test-and-set. In any sequence of try-marks, marks and receipt saves,
  on any keys, at most one try-mark of a given key and tool reports success: two callers cannot
  both be told to start one operation.
\<close>

theorem apply_started_once:
  assumes "bt_wf t"
  shows "starts_of (ik_value key, tool) xs t \<le> 1"
  using assms
proof (induction xs arbitrary: t)
  case (Cons x xs)
  have wf: "bt_wf (snd (idem_exec x t))" using Cons.prems by simp
  show ?case
  proof (cases "\<exists>now key'. x = TryMark now key' tool \<and> ik_value key' = ik_value key \<and> fst (idem_exec x t)")
    case True
    then obtain now key' where x: "x = TryMark now key' tool" "ik_value key' = ik_value key"
      "fst (idem_try_mark_apply_started now key' tool t)" by auto
    then obtain r where "idem_lookup_record (snd (idem_exec x t)) key' tool = Some r" "\<not> startable r"
      using im.started_busy [OF Cons.prems x(3)] by auto
    then have "starts_of (ik_value key, tool) xs (snd (idem_exec x t)) = 0"
      using busy_never_starts [OF wf] x(2) by metis
    then show ?thesis using x by simp
  next
    case False
    then show ?thesis using Cons.IH [OF wf] by (auto split: idem_op.splits)
  qed
qed simp

theorem apply_started_once_witness:
  "starts_of (''k1'', ''story_apply_create'')
     [TryMark 1 (key_client ''k1'') ''story_apply_create'', TryMark 2 (key_client ''k1'') ''story_apply_create'']
     [((''k1'', ''story_apply_create''), fresh_reservation ''h1'' 0 100)] \<le> 1"
proof -
  let ?t = "[((''k1'', ''story_apply_create''), fresh_reservation ''h1'' 0 100)]"
  have "bt_wf ?t" by (simp add: bt_wf_def)
  from apply_started_once [OF this, of "key_client ''k1''" "''story_apply_create''"] show ?thesis
    by (simp only: key_client_def idempotency_key.simps)
qed

end
