(* ===== verification/Audit_Log.thy ===== *)
theory Audit_Log
  imports Operation_Plan "HOL-Library.Multiset"
begin

text \<open>
  The audit log (\<open>snow_mcp/src/domain/audit.rs\<close>, \<open>snow_mcp/src/audit/chain.rs\<close>,
  \<open>snow_mcp/src/audit/sink.rs\<close>): events linked by a hash chain, stored in the table
  \<open>mcp_audit_events\<close>. SHA-256 is the parameter \<open>sha256\<close>, and \<open>ser\<close> stands for serialising an
  event to JSON without its \<open>row_hash\<close> (\<open>to_value\<close>, removal of the key, \<open>to_vec\<close>): a function of
  the event in which \<open>prev_hash\<close> has been set and \<open>row_hash\<close> has been blanked.
\<close>

subsection \<open>Events\<close>

record actor_identity =
  ai_subject :: string
  ai_display_name :: string
  ai_source_claim :: string

record client_identity =
  cl_client_id :: "string option"
  cl_user_agent :: "string option"
  cl_transport :: string

record evidence_ref =
  ev_article_number :: string
  ev_content_hash :: string

record policy_decision_row =
  pd_gate :: string
  pd_verdict :: string
  pd_reason :: "string option"
  pd_remediation :: "string option"

record applied_change =
  ac_field :: string
  ac_old_hash :: string
  ac_new_hash :: string
  ac_redacted_preview :: "string option"

datatype result_status = SPlan | SAppliedSuccess | SAppliedPartial | SDenied | SError | SReplay

record error_row =
  er_code :: string
  er_reason :: string
  er_retryable :: bool
  er_transient :: bool

record audit_event =
  ae_audit_id :: string
  ae_parent_audit_id :: "string option"
  ae_timestamp :: time
  ae_environment :: string
  ae_actor :: actor_identity
  ae_requester :: actor_identity
  ae_client :: client_identity
  ae_session_id :: "string option"
  ae_tool :: string
  ae_tool_schema_version :: string
  ae_raw_arguments_redacted :: json
  ae_normalized_arguments_redacted :: json
  ae_kb_evidence :: "evidence_ref list"
  ae_policy_decisions :: "policy_decision_row list"
  ae_confirmation_token_id :: "string option"
  ae_idempotency_key :: "string option"
  ae_concurrency_token :: "string option"
  ae_planned_changes :: "json option"
  ae_applied_changes :: "applied_change list option"
  ae_result_status :: result_status
  ae_service_now_metadata :: "service_now_metadata option"
  ae_error :: "error_row option"
  ae_duration_ms :: nat
  ae_service_now_api_calls :: nat
  ae_schema_version :: nat
  ae_prev_hash :: string
  ae_row_hash :: string
  ae_redaction_rules_version :: string

definition genesis :: string where
  "genesis = ''GENESIS''"

definition event_new_plan ::
  "time \<Rightarrow> string \<Rightarrow> string \<Rightarrow> actor_identity \<Rightarrow> actor_identity \<Rightarrow> client_identity \<Rightarrow> string
     \<Rightarrow> audit_event" where
  "event_new_plan now audit_id environment actor requester client tool =
     \<lparr>ae_audit_id = audit_id, ae_parent_audit_id = None, ae_timestamp = now,
      ae_environment = environment, ae_actor = actor, ae_requester = requester,
      ae_client = client, ae_session_id = None, ae_tool = tool, ae_tool_schema_version = ''1.0'',
      ae_raw_arguments_redacted = JNull, ae_normalized_arguments_redacted = JNull,
      ae_kb_evidence = [], ae_policy_decisions = [], ae_confirmation_token_id = None,
      ae_idempotency_key = None, ae_concurrency_token = None, ae_planned_changes = None,
      ae_applied_changes = None, ae_result_status = SPlan, ae_service_now_metadata = None,
      ae_error = None, ae_duration_ms = 0, ae_service_now_api_calls = 0, ae_schema_version = 1,
      ae_prev_hash = genesis, ae_row_hash = [], ae_redaction_rules_version = ''1.0.0''\<rparr>"

subsection \<open>The chain\<close>

record audit_chain_break =
  ab_audit_id :: string
  ab_reason :: string
  ab_expected :: string
  ab_observed :: string

record audit_chain_range =
  ag_from_audit_id :: "string option"
  ag_to_audit_id :: "string option"

type_synonym digest = "string \<Rightarrow> string"
type_synonym event_ser = "audit_event \<Rightarrow> string"

definition compute_row_hash :: "digest \<Rightarrow> event_ser \<Rightarrow> string \<Rightarrow> audit_event \<Rightarrow> string" where
  "compute_row_hash sha256 ser prev_hash e =
     sha256 (ser (e\<lparr>ae_prev_hash := prev_hash, ae_row_hash := []\<rparr>))"

fun verify_from :: "digest \<Rightarrow> event_ser \<Rightarrow> string \<Rightarrow> audit_event list
    \<Rightarrow> (audit_chain_break, unit) result" where
  "verify_from sha256 ser prev [] = Inr ()"
| "verify_from sha256 ser prev (e # es) =
     (let expected = compute_row_hash sha256 ser prev e
      in if expected \<noteq> ae_row_hash e
         then Inl \<lparr>ab_audit_id = ae_audit_id e, ab_reason = ''row_hash mismatch'',
                ab_expected = expected, ab_observed = ae_row_hash e\<rparr>
         else verify_from sha256 ser (ae_row_hash e) es)"

definition verify_chain_range :: "digest \<Rightarrow> event_ser \<Rightarrow> audit_event list
    \<Rightarrow> (audit_chain_break, unit) result" where
  "verify_chain_range sha256 ser es = verify_from sha256 ser genesis es"

subsection \<open>The sink\<close>

text \<open>
  A row is the event with the columns the queries use; the rows are in insertion order. The
  timestamp column holds the RFC 3339 text of a UTC instant, which orders like the instant.
\<close>

record audit_row =
  ar_audit_id :: string
  ar_timestamp :: time
  ar_row_hash :: string
  ar_event :: audit_event

type_synonym audit_table = "audit_row list"

datatype sink_error = AuditIdExists | InvalidParams string

definition row_key :: "audit_row \<Rightarrow> time \<times> string" where
  "row_key w = (ar_timestamp w, ar_audit_id w)"

definition rows_ordered :: "audit_table \<Rightarrow> audit_row list" where
  "rows_ordered t = sort_key row_key t"

definition events_ordered :: "audit_table \<Rightarrow> audit_event list" where
  "events_ordered t = map ar_event (rows_ordered t)"

definition last_hash :: "audit_table \<Rightarrow> string" where
  "last_hash t = (case rev (rows_ordered t) of [] \<Rightarrow> genesis | w # _ \<Rightarrow> ar_row_hash w)"

text \<open>\<open>timestamp() == 0\<close>: the instant lies in the first second of the epoch.\<close>

definition append_event ::
  "digest \<Rightarrow> event_ser \<Rightarrow> time \<Rightarrow> audit_event \<Rightarrow> audit_table
     \<Rightarrow> (sink_error, audit_event) result \<times> audit_table" where
  "append_event sha256 ser now e t =
     (let e1 = (if ae_timestamp e div nanos = 0 then e\<lparr>ae_timestamp := now\<rparr> else e);
          prev = last_hash t;
          e2 = e1\<lparr>ae_prev_hash := prev\<rparr>;
          e3 = e2\<lparr>ae_row_hash := compute_row_hash sha256 ser prev e2\<rparr>
      in if ae_audit_id e3 \<in> set (map ar_audit_id t) then (Inl AuditIdExists, t)
         else (Inr e3, t @ [\<lparr>ar_audit_id = ae_audit_id e3, ar_timestamp = ae_timestamp e3,
                              ar_row_hash = ae_row_hash e3, ar_event = e3\<rparr>]))"

definition get_event :: "audit_table \<Rightarrow> string \<Rightarrow> audit_event option" where
  "get_event t audit_id = map_option ar_event (find (\<lambda>w. ar_audit_id w = audit_id) t)"

definition list_events :: "nat \<Rightarrow> audit_table \<Rightarrow> audit_event list" where
  "list_events limit t = take limit (events_ordered t)"

fun range_scan :: "audit_chain_range \<Rightarrow> bool \<Rightarrow> audit_event list \<Rightarrow> audit_event list" where
  "range_scan r inc [] = []"
| "range_scan r inc (e # es) =
     (let inc' = (inc \<or> ag_from_audit_id r = Some (ae_audit_id e))
      in if inc'
         then if ag_to_audit_id r = Some (ae_audit_id e) then [e] else e # range_scan r True es
         else range_scan r False es)"

definition list_in_range :: "audit_chain_range \<Rightarrow> audit_table \<Rightarrow> audit_event list" where
  "list_in_range r t = range_scan r (ag_from_audit_id r = None) (events_ordered t)"

definition verify_chain :: "digest \<Rightarrow> event_ser \<Rightarrow> audit_chain_range \<Rightarrow> audit_table
    \<Rightarrow> audit_chain_break list" where
  "verify_chain sha256 ser r t =
     (case verify_chain_range sha256 ser (list_in_range r t) of Inr _ \<Rightarrow> [] | Inl b \<Rightarrow> [b])"

definition tamper_raw_arguments :: "string \<Rightarrow> json \<Rightarrow> audit_table
    \<Rightarrow> (sink_error, unit) result \<times> audit_table" where
  "tamper_raw_arguments audit_id payload t =
     (case get_event t audit_id of
        None \<Rightarrow> (Inl (InvalidParams (''audit event '' @ audit_id @ '' not found'')), t)
      | Some e \<Rightarrow> (Inr (), map (\<lambda>w. if ar_audit_id w = audit_id
            then w\<lparr>ar_event := e\<lparr>ae_raw_arguments_redacted := payload\<rparr>\<rparr> else w) t))"

text \<open>Retention: drop the old rows, then rebuild the chain of the rest from a new genesis.\<close>

fun relink :: "digest \<Rightarrow> event_ser \<Rightarrow> string \<Rightarrow> audit_event list \<Rightarrow> audit_event list" where
  "relink sha256 ser prev [] = []"
| "relink sha256 ser prev (e # es) =
     (let e1 = e\<lparr>ae_prev_hash := prev\<rparr>;
          e2 = e1\<lparr>ae_row_hash := compute_row_hash sha256 ser prev e1\<rparr>
      in e2 # relink sha256 ser (ae_row_hash e2) es)"

definition update_row :: "audit_event list \<Rightarrow> audit_row \<Rightarrow> audit_row" where
  "update_row es w = (case find (\<lambda>e. ae_audit_id e = ar_audit_id w) es of
       None \<Rightarrow> w
     | Some e \<Rightarrow> w\<lparr>ar_row_hash := ae_row_hash e, ar_event := e\<rparr>)"

definition enforce_retention :: "digest \<Rightarrow> event_ser \<Rightarrow> time \<Rightarrow> nat \<Rightarrow> audit_table
    \<Rightarrow> nat \<times> audit_table" where
  "enforce_retention sha256 ser now retention_days t =
     (let cutoff = now - secs (int retention_days * 86400);
          kept = filter (\<lambda>w. \<not> ar_timestamp w < cutoff) t;
          deleted = length t - length kept
      in if deleted = 0 then (0, t)
         else (deleted, map (update_row (relink sha256 ser genesis (events_ordered kept))) kept))"

subsection \<open>The table invariant\<close>

definition row_ok :: "audit_row \<Rightarrow> bool" where
  "row_ok w = (ar_audit_id w = ae_audit_id (ar_event w) \<and> ar_timestamp w = ae_timestamp (ar_event w)
     \<and> ar_row_hash w = ae_row_hash (ar_event w))"

definition audit_wf :: "audit_table \<Rightarrow> bool" where
  "audit_wf t = (list_all row_ok t \<and> distinct (map ar_audit_id t))"

lemma audit_wf_Nil [simp]: "audit_wf []"
  by (simp add: audit_wf_def)

lemma append_event_wf [simp]:
  assumes "audit_wf t" shows "audit_wf (snd (append_event sha256 ser now e t))"
  using assms by (auto simp: append_event_def audit_wf_def row_ok_def Let_def)

lemma row_key_inj: "distinct (map ar_audit_id t) \<Longrightarrow> inj_on row_key (set t)"
  by (auto simp: row_key_def inj_on_def distinct_map)

lemma sort_key_snoc:
  assumes "inj_on f (set (xs @ [x]))" "\<forall>y \<in> set xs. f y \<le> f x"
  shows "sort_key f (xs @ [x]) = sort_key f xs @ [x]"
  by (rule sort_key_inj_key_eq) (use assms in \<open>auto simp: sorted_append\<close>)

lemma sort_key_front:
  assumes "inj_on f (set (xs @ [x]))" "\<forall>y \<in> set xs. f x \<le> f y"
  shows "sort_key f (xs @ [x]) = x # sort_key f xs"
  by (rule sort_key_inj_key_eq) (use assms in \<open>auto\<close>)

lemma insort_key_map:
  "(\<And>x. f (g x) = f x) \<Longrightarrow> insort_key f (g x) (map g xs) = map g (insort_key f x xs)"
  by (induction xs) simp_all

lemma sort_key_map:
  "(\<And>x. f (g x) = f x) \<Longrightarrow> sort_key f (map g xs) = map g (sort_key f xs)"
  by (induction xs) (simp_all add: insort_key_map)

lemma set_rows_ordered [simp]: "set (rows_ordered t) = set t"
  by (simp add: rows_ordered_def)

lemma distinct_rows_ordered:
  "distinct (map ar_audit_id t) \<Longrightarrow> distinct (map ar_audit_id (rows_ordered t))"
  by (simp add: rows_ordered_def distinct_map)

lemma event_ids_ordered:
  assumes "audit_wf t" shows "map ae_audit_id (events_ordered t) = map ar_audit_id (rows_ordered t)"
  using assms by (auto simp: events_ordered_def audit_wf_def list_all_iff row_ok_def)

lemma last_hash_events:
  assumes "audit_wf t"
  shows "last_hash t = (case rev (events_ordered t) of [] \<Rightarrow> genesis | e # _ \<Rightarrow> ae_row_hash e)"
proof (cases "rev (rows_ordered t)")
  case (Cons w ws)
  then have "w \<in> set t" by (metis list.set_intros(1) set_rev set_rows_ordered)
  with assms have "ar_row_hash w = ae_row_hash (ar_event w)"
    by (auto simp: audit_wf_def list_all_iff row_ok_def)
  with Cons show ?thesis by (simp add: last_hash_def events_ordered_def rev_map)
qed (simp add: last_hash_def events_ordered_def rev_map)

subsection \<open>Verification of a chain\<close>

lemma verify_from_append:
  "verify_from sha256 ser p (xs @ ys) = bind_ok (verify_from sha256 ser p xs)
     (\<lambda>_. verify_from sha256 ser (case rev xs of [] \<Rightarrow> p | e # _ \<Rightarrow> ae_row_hash e) ys)"
proof (induction xs arbitrary: p)
  case (Cons x xs)
  then show ?case by (cases "rev xs") (simp_all add: Let_def)
qed simp

lemma verify_from_Cons_ok [simp]:
  "verify_from sha256 ser p (e # es) = Inr u \<longleftrightarrow>
     ae_row_hash e = compute_row_hash sha256 ser p e \<and> verify_from sha256 ser (ae_row_hash e) es = Inr u"
  by (auto simp: Let_def)

declare verify_from.simps(2) [simp del]

lemma row_hash_ignores [simp]:
  "compute_row_hash sha256 ser p (e\<lparr>ae_prev_hash := q\<rparr>) = compute_row_hash sha256 ser p e"
  "compute_row_hash sha256 ser p (e\<lparr>ae_row_hash := q\<rparr>) = compute_row_hash sha256 ser p e"
  by (simp_all add: compute_row_hash_def)

definition stamped :: "time \<Rightarrow> audit_event \<Rightarrow> audit_event" where
  "stamped now e = (if ae_timestamp e div nanos = 0 then e\<lparr>ae_timestamp := now\<rparr> else e)"

definition stamp :: "time \<times> audit_event \<Rightarrow> time" where
  "stamp x = ae_timestamp (stamped (fst x) (snd x))"

lemma stamped_simps [simp]:
  "ae_audit_id (stamped now e) = ae_audit_id e" "ae_timestamp (stamped now e) = stamp (now, e)"
  by (simp_all add: stamped_def stamp_def)

definition row_of_event :: "audit_event \<Rightarrow> audit_row" where
  "row_of_event e = \<lparr>ar_audit_id = ae_audit_id e, ar_timestamp = ae_timestamp e,
     ar_row_hash = ae_row_hash e, ar_event = e\<rparr>"

lemma row_of_event_simps [simp]:
  "ar_audit_id (row_of_event e) = ae_audit_id e" "ar_timestamp (row_of_event e) = ae_timestamp e"
  "ar_event (row_of_event e) = e" "row_key (row_of_event e) = (ae_timestamp e, ae_audit_id e)"
  by (simp_all add: row_of_event_def row_key_def)

text \<open>An accepted append in one equation; a refused one leaves the table alone.\<close>

lemma append_event_eq:
  "append_event sha256 ser now e t =
    (if ae_audit_id e \<in> set (map ar_audit_id t) then (Inl AuditIdExists, t)
     else let e' = (stamped now e)\<lparr>ae_prev_hash := last_hash t,
                     ae_row_hash := compute_row_hash sha256 ser (last_hash t) (stamped now e)\<rparr>
          in (Inr e', t @ [row_of_event e']))"
  by (simp add: append_event_def stamped_def row_of_event_def Let_def)

lemma append_event_ok:
  assumes "fst (append_event sha256 ser now e t) = Inr e'"
  shows "snd (append_event sha256 ser now e t) = t @ [row_of_event e']"
    "ae_row_hash e' = compute_row_hash sha256 ser (last_hash t) e'"
    "ae_timestamp e' = stamp (now, e)" "ae_audit_id e' = ae_audit_id e"
    "ae_audit_id e \<notin> set (map ar_audit_id t)" "ae_prev_hash e' = last_hash t"
  using assms by (auto simp: append_event_eq Let_def split: if_splits)

lemma append_event_err:
  "fst (append_event sha256 ser now e t) = Inl err \<Longrightarrow> snd (append_event sha256 ser now e t) = t"
  by (auto simp: append_event_eq Let_def split: if_splits)

definition full_range :: audit_chain_range where
  "full_range = \<lparr>ag_from_audit_id = None, ag_to_audit_id = None\<rparr>"

lemma range_scan_full [simp]: "range_scan full_range True es = es"
  by (induction es) (simp_all add: full_range_def Let_def)

lemma verify_chain_full [simp]:
  "verify_chain sha256 ser full_range t = [] \<longleftrightarrow> verify_from sha256 ser genesis (events_ordered t) = Inr ()"
proof -
  have "ag_from_audit_id full_range = None" by (simp add: full_range_def)
  then show ?thesis
    by (auto simp: verify_chain_def verify_chain_range_def list_in_range_def split: sum.splits)
qed

subsection \<open>Appending\<close>

lemma append_keeps_chain:
  assumes wf: "audit_wf t" and ver: "verify_chain sha256 ser full_range t = []"
    and ok: "fst (append_event sha256 ser now e t) = Inr e'"
    and late: "\<forall>w \<in> set t. row_key w \<le> (ae_timestamp e', ae_audit_id e')"
  shows "verify_chain sha256 ser full_range (snd (append_event sha256 ser now e t)) = []
    \<and> events_ordered (snd (append_event sha256 ser now e t)) = events_ordered t @ [e']"
proof -
  note step = append_event_ok [OF ok]
  have "audit_wf (t @ [row_of_event e'])" using append_event_wf [OF wf] step(1) by metis
  then have "inj_on row_key (set (t @ [row_of_event e']))"
    by (intro row_key_inj) (simp add: audit_wf_def)
  then have "rows_ordered (t @ [row_of_event e']) = rows_ordered t @ [row_of_event e']"
    unfolding rows_ordered_def by (rule sort_key_snoc) (use late in simp)
  then have ev: "events_ordered (t @ [row_of_event e']) = events_ordered t @ [e']"
    by (simp add: events_ordered_def)
  moreover have "verify_from sha256 ser genesis (events_ordered t @ [e']) = Inr ()"
    using ver step(2) by (simp add: verify_from_append last_hash_events [OF wf])
  ultimately show ?thesis using step(1) by simp
qed

text \<open>A run of appends, each with the clock reading it sees.\<close>

fun append_all :: "digest \<Rightarrow> event_ser \<Rightarrow> (time \<times> audit_event) list \<Rightarrow> audit_table \<Rightarrow> audit_table" where
  "append_all sha256 ser [] t = t"
| "append_all sha256 ser ((now, e) # es) t =
     append_all sha256 ser es (snd (append_event sha256 ser now e t))"

lemma append_event_late:
  assumes "\<forall>w \<in> set t. ar_timestamp w < T" "stamp (now, e) < T"
  shows "\<forall>w \<in> set (snd (append_event sha256 ser now e t)). ar_timestamp w < T"
  using assms by (auto simp: append_event_eq Let_def)

text \<open>
  C39: the log verifies. Starting from a verified log, any run of appends whose events are stamped
  in strictly increasing order, each later than what is stored, leaves a log whose whole chain
  verifies; an append that fails because its audit id exists changes nothing.
\<close>

theorem append_run_verifies:
  assumes "audit_wf t" and "verify_chain sha256 ser full_range t = []"
    and "sorted_wrt (<) (map stamp es)" and "\<forall>x \<in> set es. \<forall>w \<in> set t. ar_timestamp w < stamp x"
  shows "verify_chain sha256 ser full_range (append_all sha256 ser es t) = []"
  using assms
proof (induction es arbitrary: t)
  case (Cons x es)
  obtain now e where x: "x = (now, e)" by (cases x)
  let ?t = "snd (append_event sha256 ser now e t)"
  have "verify_chain sha256 ser full_range ?t = []"
  proof (cases "fst (append_event sha256 ser now e t)")
    case (Inl err)
    with append_event_err [OF Inl] Cons.prems show ?thesis by simp
  next
    case (Inr e')
    then have "\<forall>w \<in> set t. row_key w \<le> (ae_timestamp e', ae_audit_id e')"
      using Cons.prems(4) append_event_ok(3) [OF Inr] by (auto simp: x row_key_def less_eq_prod_def)
    with append_keeps_chain [OF Cons.prems(1,2) Inr] show ?thesis by blast
  qed
  moreover have "\<forall>y \<in> set es. \<forall>w \<in> set ?t. ar_timestamp w < stamp y"
    using append_event_late [of t _ now e sha256 ser] Cons.prems(3,4) by (auto simp: x)
  moreover have "audit_wf ?t" using Cons.prems(1) by simp
  ultimately show ?case using Cons.IH [of ?t] Cons.prems(3) by (simp add: x)
qed simp


text \<open>A serialiser and a digest for closed examples: both separate the events used.\<close>

definition demo_event :: "time \<Rightarrow> string \<Rightarrow> audit_event" where
  "demo_event ts audit_id = (event_new_plan ts audit_id ''dev'' \<lparr>ai_subject = ''s'',
     ai_display_name = ''S'', ai_source_claim = ''pat''\<rparr> \<lparr>ai_subject = ''s'',
     ai_display_name = ''S'', ai_source_claim = ''pat''\<rparr> \<lparr>cl_client_id = None,
     cl_user_agent = None, cl_transport = ''stdio''\<rparr> ''story_plan'')"

definition demo_ser :: event_ser where
  "demo_ser e = ae_audit_id e @ (if ae_raw_arguments_redacted e = JNull then [] else ''!'')
     @ ''|'' @ ae_prev_hash e"

theorem append_run_verifies_witness:
  "verify_chain (\<lambda>x. x) demo_ser full_range
     (append_all (\<lambda>x. x) demo_ser [(7, demo_event (secs 5) ''a''), (secs 6, demo_event 0 ''b'')] []) = []"
  by (rule append_run_verifies)
     (simp_all add: stamp_def stamped_def demo_event_def event_new_plan_def secs_def nanos_def
       verify_chain_def verify_chain_range_def list_in_range_def events_ordered_def rows_ordered_def)

subsection \<open>What a verified chain binds\<close>

definition chain_head :: "string \<Rightarrow> audit_event list \<Rightarrow> string" where
  "chain_head p es = (case rev es of [] \<Rightarrow> p | e # _ \<Rightarrow> ae_row_hash e)"

definition sealed :: "string \<Rightarrow> audit_event \<Rightarrow> audit_event" where
  "sealed prev e = e\<lparr>ae_prev_hash := prev, ae_row_hash := []\<rparr>"

fun chain_preimages :: "string \<Rightarrow> audit_event list \<Rightarrow> audit_event list" where
  "chain_preimages p [] = []"
| "chain_preimages p (e # es) = sealed p e # chain_preimages (ae_row_hash e) es"

definition collision_free :: "digest \<Rightarrow> event_ser \<Rightarrow> audit_event set \<Rightarrow> bool" where
  "collision_free sha256 ser D = (inj_on (\<lambda>e. sha256 (ser e)) D \<and> genesis \<notin> (\<lambda>e. sha256 (ser e)) ` D)"

definition without_link :: "audit_event \<Rightarrow> audit_event" where
  "without_link e = e\<lparr>ae_prev_hash := []\<rparr>"

lemma chain_head_simps [simp]: "chain_head p [] = p" "chain_head p (es @ [e]) = ae_row_hash e"
  by (simp_all add: chain_head_def)

lemma compute_row_hash_sealed: "compute_row_hash sha256 ser p e = sha256 (ser (sealed p e))"
  by (simp add: compute_row_hash_def sealed_def)

lemma chain_preimages_snoc:
  "chain_preimages p (es @ [e]) = chain_preimages p es @ [sealed (chain_head p es) e]"
proof (induction es arbitrary: p)
  case (Cons x xs)
  then show ?case by (cases "rev xs") (simp_all add: chain_head_def)
qed simp

lemma verify_from_snoc:
  "verify_from sha256 ser p (es @ [e]) = Inr () \<longleftrightarrow> verify_from sha256 ser p es = Inr ()
     \<and> ae_row_hash e = sha256 (ser (sealed (chain_head p es) e))"
  by (auto simp: verify_from_append bind_ok_Inr chain_head_def compute_row_hash_sealed)

lemma sealed_eqD:
  assumes "sealed p a = sealed q b" "ae_row_hash a = ae_row_hash b"
  shows "p = q \<and> without_link a = without_link b"
proof -
  have "ae_prev_hash (sealed p a) = ae_prev_hash (sealed q b)" using assms(1) by simp
  moreover have "(sealed p a)\<lparr>ae_prev_hash := [], ae_row_hash := ae_row_hash a\<rparr>
      = (sealed q b)\<lparr>ae_prev_hash := [], ae_row_hash := ae_row_hash b\<rparr>" using assms by simp
  ultimately show ?thesis by (simp add: sealed_def without_link_def)
qed

lemma collision_free_mono: "collision_free sha256 ser D \<Longrightarrow> D' \<subseteq> D \<Longrightarrow> collision_free sha256 ser D'"
  unfolding collision_free_def by (blast intro: inj_on_subset)

lemma collision_freeD:
  "collision_free sha256 ser D \<Longrightarrow> a \<in> D \<Longrightarrow> b \<in> D \<Longrightarrow> sha256 (ser a) = sha256 (ser b) \<Longrightarrow> a = b"
  unfolding collision_free_def inj_on_def by blast

lemma collision_free_head:
  assumes "collision_free sha256 ser (set (chain_preimages genesis es))" "es \<noteq> []"
    and "verify_from sha256 ser genesis es = Inr ()"
  shows "chain_head genesis es \<noteq> genesis"
  using assms
  by (cases es rule: rev_cases)
     (auto simp: chain_preimages_snoc verify_from_snoc collision_free_def)

text \<open>
  tamper evidence. When the digest does not collide on the events at hand (and never equals
  the genesis marker), the row hash of the last event binds the whole log: two verifying logs with
  the same last row hash have the same length and the same events in the same order, up to the
  stored copy of \<open>prev_hash\<close>, which verification recomputes and never reads.
\<close>

theorem chain_head_binds_log:
  assumes "verify_chain_range sha256 ser xs = Inr ()" and "verify_chain_range sha256 ser ys = Inr ()"
    and "chain_head genesis xs = chain_head genesis ys"
    and "collision_free sha256 ser
           (set (chain_preimages genesis xs) \<union> set (chain_preimages genesis ys))"
  shows "map without_link xs = map without_link ys"
  using assms unfolding verify_chain_range_def
proof (induction xs arbitrary: ys rule: rev_induct)
  case Nil
  then have "collision_free sha256 ser (set (chain_preimages genesis ys))" by simp
  with Nil collision_free_head [of sha256 ser ys] have "ys = []" by auto
  then show ?case by simp
next
  case (snoc x xs)
  have "chain_head genesis (xs @ [x]) \<noteq> genesis"
    by (rule collision_free_head [OF collision_free_mono [OF snoc.prems(4)] _ snoc.prems(1)]) simp_all
  then obtain zs y where ys: "ys = zs @ [y]" using snoc.prems(3) by (cases ys rule: rev_cases) auto
  have "sha256 (ser (sealed (chain_head genesis xs) x)) = sha256 (ser (sealed (chain_head genesis zs) y))"
    using snoc.prems(1-3) by (simp add: ys verify_from_snoc)
  then have "sealed (chain_head genesis xs) x = sealed (chain_head genesis zs) y"
    by (intro collision_freeD [OF snoc.prems(4)]) (simp_all add: ys chain_preimages_snoc)
  moreover have "ae_row_hash x = ae_row_hash y" using snoc.prems(3) ys by simp
  ultimately have same: "chain_head genesis xs = chain_head genesis zs" "without_link x = without_link y"
    using sealed_eqD by blast+
  have "map without_link xs = map without_link zs"
    using snoc.prems(1,2) same(1)
    by (intro snoc.IH collision_free_mono [OF snoc.prems(4)])
       (auto simp: ys verify_from_snoc chain_preimages_snoc)
  with same(2) show ?case by (simp add: ys)
qed

theorem chain_head_binds_log_witness:
  "let es = relink (\<lambda>x. x) demo_ser genesis [demo_event 5 ''a'', demo_event 6 ''b'']
   in map without_link es = map without_link (map (ae_prev_hash_update (\<lambda>_. ''x'')) es)"
  unfolding Let_def
  by (rule chain_head_binds_log [of "\<lambda>x. x" demo_ser])
     (simp_all add: verify_chain_range_def Let_def chain_head_def collision_free_def inj_on_def
       compute_row_hash_def demo_ser_def demo_event_def event_new_plan_def sealed_def genesis_def)

lemma verify_from_break:
  assumes "verify_from sha256 ser p xs = Inr ()"
    and "compute_row_hash sha256 ser (chain_head p xs) e \<noteq> ae_row_hash e"
  shows "\<exists>b. verify_from sha256 ser p (xs @ e # ys) = Inl b \<and> ab_audit_id b = ae_audit_id e"
  using assms by (simp add: verify_from_append chain_head_def verify_from.simps(2) Let_def)

lemma events_ordered_map:
  assumes "\<And>w. row_key (g w) = row_key w" "\<And>w. w \<in> set t \<Longrightarrow> ar_event (g w) = h (ar_event w)"
  shows "events_ordered (map g t) = map h (events_ordered t)"
proof -
  have "rows_ordered (map g t) = map g (rows_ordered t)"
    unfolding rows_ordered_def using assms(1) by (intro sort_key_map)
  with assms(2) show ?thesis by (simp add: events_ordered_def)
qed

lemma get_event_SomeD:
  assumes "get_event t audit_id = Some e"
  shows "\<exists>w \<in> set t. ar_audit_id w = audit_id \<and> ar_event w = e"
proof -
  from assms obtain w where "find (\<lambda>w. ar_audit_id w = audit_id) t = Some w" "ar_event w = e"
    unfolding get_event_def by (metis map_option_eq_Some)
  then show ?thesis by (metis (mono_tags, lifting) find_Some_iff nth_mem)
qed

lemma get_event_row:
  assumes "audit_wf t" "get_event t audit_id = Some e"
  shows "ae_audit_id e = audit_id" "e \<in> set (events_ordered t)"
proof -
  from get_event_SomeD [OF assms(2)] obtain w
    where "w \<in> set t" "ar_audit_id w = audit_id" "ar_event w = e" by blast
  then show "ae_audit_id e = audit_id" "e \<in> set (events_ordered t)"
    using assms(1) by (auto simp: audit_wf_def row_ok_def list_all_iff events_ordered_def)
qed

lemma get_event_unique:
  assumes "audit_wf t" "w \<in> set t" "ar_audit_id w = audit_id" "get_event t audit_id = Some e"
  shows "ar_event w = e"
proof -
  from get_event_SomeD [OF assms(4)] obtain w'
    where w': "w' \<in> set t" "ar_audit_id w' = audit_id" "ar_event w' = e" by blast
  have "inj_on ar_audit_id (set t)" using assms(1) by (simp add: audit_wf_def distinct_map)
  then have "w = w'" using assms(2,3) w'(1,2) by (simp add: inj_on_def)
  with w'(3) show ?thesis by simp
qed

lemma distinct_split_map:
  assumes "distinct (map f es)" "e \<in> set es"
  obtains xs ys where "es = xs @ e # ys"
    "\<And>g. map (\<lambda>x. if f x = f e then g x else x) es = xs @ g e # ys"
proof -
  obtain xs ys where es: "es = xs @ e # ys" using split_list [OF assms(2)] by blast
  then have "map (\<lambda>x. if f x = f e then g x else x) es = xs @ g e # ys" for g
    using assms(1) by (auto intro!: map_idI) (metis image_eqI)+
  with es show thesis by (rule that)
qed

lemma tampered_events:
  assumes "audit_wf t" "get_event t audit_id = Some e"
  obtains xs ys where "events_ordered t = xs @ e # ys"
    "events_ordered (snd (tamper_raw_arguments audit_id payload t))
       = xs @ e\<lparr>ae_raw_arguments_redacted := payload\<rparr> # ys"
proof -
  let ?e' = "e\<lparr>ae_raw_arguments_redacted := payload\<rparr>"
  note e = get_event_row [OF assms]
  have ids: "distinct (map ae_audit_id (events_ordered t))"
    using assms(1) by (simp add: event_ids_ordered audit_wf_def distinct_rows_ordered)
  have "events_ordered (map (\<lambda>w. if ar_audit_id w = audit_id then w\<lparr>ar_event := ?e'\<rparr> else w) t)
      = map (\<lambda>x. if ae_audit_id x = ae_audit_id e then ?e' else x) (events_ordered t)"
    by (rule events_ordered_map)
       (use assms(1) e(1) in \<open>simp_all add: row_key_def audit_wf_def list_all_iff row_ok_def\<close>)
  then have ev: "events_ordered (snd (tamper_raw_arguments audit_id payload t))
      = map (\<lambda>x. if ae_audit_id x = ae_audit_id e then ?e' else x) (events_ordered t)"
    using assms(2) by (simp add: tamper_raw_arguments_def)
  obtain xs ys where split: "events_ordered t = xs @ e # ys"
    "\<And>g. map (\<lambda>x. if ae_audit_id x = ae_audit_id e then g x else x) (events_ordered t) = xs @ g e # ys"
    by (rule distinct_split_map [OF ids e(2)]) (rule that)
  show thesis
    by (rule that [OF split(1)]) (use ev split(2) [of "\<lambda>_. ?e'"] in simp)
qed

text \<open>
  a changed row is located. If someone rewrites the stored arguments of one event of a verified
  log, and the digest tells the two payloads apart, then verification of the whole log reports
  exactly one break, and it names that event.
\<close>

theorem tamper_detected:
  assumes wf: "audit_wf t" and ver: "verify_chain sha256 ser full_range t = []"
    and e: "get_event t audit_id = Some e"
    and digest: "\<And>p. compute_row_hash sha256 ser p (e\<lparr>ae_raw_arguments_redacted := payload\<rparr>)
                    \<noteq> compute_row_hash sha256 ser p e"
  shows "map ab_audit_id (verify_chain sha256 ser full_range
           (snd (tamper_raw_arguments audit_id payload t))) = [audit_id]"
proof -
  let ?e' = "e\<lparr>ae_raw_arguments_redacted := payload\<rparr>"
  obtain xs ys where split: "events_ordered t = xs @ e # ys"
    "events_ordered (snd (tamper_raw_arguments audit_id payload t)) = xs @ ?e' # ys"
    by (rule tampered_events [OF wf e]) (rule that)
  have "verify_from sha256 ser genesis (xs @ e # ys) = Inr ()" using ver split(1) by simp
  then have "verify_from sha256 ser genesis xs = Inr ()"
    "ae_row_hash e = compute_row_hash sha256 ser (chain_head genesis xs) e"
    by (simp_all add: verify_from_append bind_ok_Inr chain_head_def)
  with digest have "\<exists>b. verify_from sha256 ser genesis (xs @ ?e' # ys) = Inl b
      \<and> ab_audit_id b = ae_audit_id ?e'"
    by (intro verify_from_break) simp_all
  then show ?thesis
    using get_event_row(1) [OF wf e] split(2)
    by (auto simp: verify_chain_def verify_chain_range_def list_in_range_def full_range_def
        range_scan_full [unfolded full_range_def])
qed

theorem tamper_detected_witness:
  "let t = map row_of_event (relink (\<lambda>x. x) demo_ser genesis [demo_event 5 ''a'', demo_event 6 ''b''])
   in map ab_audit_id (verify_chain (\<lambda>x. x) demo_ser full_range
        (snd (tamper_raw_arguments ''b'' (JStr ''forged'') t))) = [''b'']"
  unfolding Let_def
  by (rule tamper_detected)
     ((simp_all add: Let_def compute_row_hash_def demo_ser_def demo_event_def event_new_plan_def
       audit_wf_def row_ok_def row_of_event_def events_ordered_def rows_ordered_def row_key_def
       get_event_def)+)

lemma range_scan_from:
  assumes "ae_audit_id e \<notin> ae_audit_id ` set xs"
  shows "range_scan \<lparr>ag_from_audit_id = Some (ae_audit_id e), ag_to_audit_id = None\<rparr> False (xs @ e # ys)
     = e # ys"
proof -
  have tail: "range_scan \<lparr>ag_from_audit_id = a, ag_to_audit_id = None\<rparr> True zs = zs" for a zs
    by (induction zs) (simp_all add: Let_def)
  show ?thesis using assms by (induction xs) (simp_all add: Let_def tail)
qed

text \<open>
  verification of a suffix. A range that starts at an event other than the first one is
  checked against the genesis marker instead of the row hash before it, so an untouched log is
  reported as broken at the first event of the range whenever the digest tells the two apart.
\<close>

theorem suffix_range_false_break:
  assumes "audit_wf t" and "verify_chain sha256 ser full_range t = []"
    and ev: "events_ordered t = xs @ e # ys"
    and "compute_row_hash sha256 ser genesis e \<noteq> compute_row_hash sha256 ser (chain_head genesis xs) e"
  shows "map ab_audit_id (verify_chain sha256 ser
     \<lparr>ag_from_audit_id = Some (ae_audit_id e), ag_to_audit_id = None\<rparr> t) = [ae_audit_id e]"
proof -
  have "distinct (map ae_audit_id (events_ordered t))"
    using assms(1) by (simp add: event_ids_ordered audit_wf_def distinct_rows_ordered)
  then have "ae_audit_id e \<notin> ae_audit_id ` set xs" by (simp add: ev)
  moreover have "ae_row_hash e = compute_row_hash sha256 ser (chain_head genesis xs) e"
    using assms(2) by (simp add: ev verify_from_append bind_ok_Inr chain_head_def)
  ultimately show ?thesis
    using assms(4)
    by (simp add: verify_chain_def verify_chain_range_def list_in_range_def ev range_scan_from
        verify_from.simps(2) Let_def)
qed

theorem suffix_range_false_break_witness:
  "let t = map row_of_event (relink (\<lambda>x. x) demo_ser genesis [demo_event 5 ''a'', demo_event 6 ''b''])
   in verify_chain (\<lambda>x. x) demo_ser full_range t = [] \<and> map ab_audit_id (verify_chain (\<lambda>x. x) demo_ser
     \<lparr>ag_from_audit_id = Some ''b'', ag_to_audit_id = None\<rparr> t) = [''b'']"
proof -
  define es where "es = relink (\<lambda>x. x) demo_ser genesis [demo_event 5 ''a'', demo_event 6 ''b'']"
  have sort: "events_ordered (map row_of_event es) = [es ! 0] @ es ! 1 # []"
    by (simp add: es_def Let_def demo_event_def event_new_plan_def events_ordered_def rows_ordered_def)
  have ver: "verify_chain (\<lambda>x. x) demo_ser full_range (map row_of_event es) = []"
    using sort by (simp add: es_def Let_def)
  have id: "ae_audit_id (es ! 1) = ''b''" by (simp add: es_def Let_def demo_event_def event_new_plan_def)
  have "map ab_audit_id (verify_chain (\<lambda>x. x) demo_ser
     \<lparr>ag_from_audit_id = Some (ae_audit_id (es ! 1)), ag_to_audit_id = None\<rparr> (map row_of_event es))
       = [ae_audit_id (es ! 1)]"
    by (rule suffix_range_false_break [OF _ ver sort])
       (simp_all add: es_def audit_wf_def row_ok_def row_of_event_def Let_def chain_head_def
         compute_row_hash_def demo_ser_def demo_event_def event_new_plan_def genesis_def)
  then show ?thesis using ver unfolding Let_def es_def [symmetric] id by (rule conjI [rotated])
qed

subsection \<open>Retention\<close>

lemma relink_ids [simp]: "map ae_audit_id (relink sha256 ser p es) = map ae_audit_id es"
  by (induction es arbitrary: p) (simp_all add: Let_def)

lemma relink_times [simp]: "map ae_timestamp (relink sha256 ser p es) = map ae_timestamp es"
  by (induction es arbitrary: p) (simp_all add: Let_def)

lemma relink_verifies [simp]: "verify_from sha256 ser p (relink sha256 ser p es) = Inr ()"
  by (induction es arbitrary: p) (simp_all add: Let_def)

definition unlinked :: "audit_event \<Rightarrow> audit_event" where
  "unlinked e = e\<lparr>ae_prev_hash := [], ae_row_hash := []\<rparr>"

lemma relink_unlinked [simp]: "map unlinked (relink sha256 ser p es) = map unlinked es"
  by (induction es arbitrary: p) (simp_all add: Let_def unlinked_def)

lemma update_row_key [simp]:
  "row_key (update_row es w) = row_key w" "ar_audit_id (update_row es w) = ar_audit_id w"
    "ar_timestamp (update_row es w) = ar_timestamp w"
  by (simp_all add: update_row_def row_key_def split: option.splits)

lemma update_rows_events:
  assumes "distinct (map ar_audit_id ws)" "map ae_audit_id es = map ar_audit_id ws"
  shows "map (\<lambda>w. ar_event (update_row es w)) ws = es"
proof (rule nth_equalityI)
  show len: "length (map (\<lambda>w. ar_event (update_row es w)) ws) = length es"
    using assms(2) by (metis length_map)
  fix i assume "i < length (map (\<lambda>w. ar_event (update_row es w)) ws)"
  then have i: "i < length ws" "i < length es" using len by simp_all
  have id: "ae_audit_id (es ! j) = ar_audit_id (ws ! j)" if "j < length es" for j
    using that assms(2) len by (metis length_map nth_map)
  have "find (\<lambda>e. ae_audit_id e = ar_audit_id (ws ! i)) es = Some (es ! i)"
    unfolding find_Some_iff
  proof (intro exI [of _ i] conjI allI impI)
    fix j assume "j < i"
    then have "map ar_audit_id ws ! j \<noteq> map ar_audit_id ws ! i"
      using i(1) assms(1) by (subst nth_eq_iff_index_eq) simp_all
    then show "ae_audit_id (es ! j) \<noteq> ar_audit_id (ws ! i)" using \<open>j < i\<close> i id by simp
  qed (use i id in simp_all)
  then show "map (\<lambda>w. ar_event (update_row es w)) ws ! i = es ! i"
    using i by (simp add: update_row_def)
qed

lemma retained_events:
  assumes "audit_wf kept"
  shows "events_ordered (map (update_row (relink sha256 ser genesis (events_ordered kept))) kept)
     = relink sha256 ser genesis (events_ordered kept)"
proof -
  let ?es = "relink sha256 ser genesis (events_ordered kept)"
  have "rows_ordered (map (update_row ?es) kept) = map (update_row ?es) (rows_ordered kept)"
    unfolding rows_ordered_def by (rule sort_key_map) simp
  then have "events_ordered (map (update_row ?es) kept)
      = map (\<lambda>w. ar_event (update_row ?es w)) (rows_ordered kept)"
    by (simp add: events_ordered_def)
  also have "\<dots> = ?es"
    using assms by (intro update_rows_events)
      (simp_all add: event_ids_ordered audit_wf_def distinct_rows_ordered)
  finally show ?thesis .
qed

lemma sort_key_filter: "sort_key f (filter P xs) = filter P (sort_key f xs)"
  by (simp add: filter_sort)

lemma filter_audit_wf: "audit_wf t \<Longrightarrow> audit_wf (filter P t)"
  by (auto simp: audit_wf_def list_all_iff distinct_map_filter)

lemma filter_events_ordered:
  assumes "audit_wf t"
  shows "events_ordered (filter (\<lambda>w. P (ar_timestamp w)) t)
     = filter (\<lambda>e. P (ae_timestamp e)) (events_ordered t)"
proof -
  have "\<forall>w \<in> set (rows_ordered t). ar_timestamp w = ae_timestamp (ar_event w)"
    using assms by (auto simp: audit_wf_def list_all_iff row_ok_def)
  then show ?thesis
    by (auto simp: events_ordered_def rows_ordered_def sort_key_filter filter_map o_def
        intro!: arg_cong [of _ _ "map ar_event"] filter_cong)
qed

text \<open>
  retention. Enforcing the retention window deletes exactly the events older than the cutoff
  and reports their number; what it keeps is in the same order with the same content, only the
  links rewritten; and when it deletes anything, the log it leaves verifies, whatever the log
  verified to before.
\<close>

theorem retention_spec:
  assumes "audit_wf t"
    and "enforce_retention sha256 ser now days t = (n, t')"
  shows "n = length (filter (\<lambda>w. ar_timestamp w < now - secs (int days * 86400)) t)
    \<and> map unlinked (events_ordered t')
       = map unlinked (filter (\<lambda>e. now - secs (int days * 86400) \<le> ae_timestamp e) (events_ordered t))
    \<and> (n \<noteq> 0 \<longrightarrow> verify_chain sha256 ser full_range t' = [])"
proof -
  let ?c = "now - secs (int days * 86400)"
  let ?kept = "filter (\<lambda>w. \<not> ar_timestamp w < ?c) t"
  let ?es = "relink sha256 ser genesis (events_ordered ?kept)"
  have len: "length t - length ?kept = length (filter (\<lambda>w. ar_timestamp w < ?c) t)"
    using sum_length_filter_compl [of "\<lambda>w. ar_timestamp w < ?c" t] by simp
  have kept: "events_ordered ?kept = filter (\<lambda>e. ?c \<le> ae_timestamp e) (events_ordered t)"
    using filter_events_ordered [OF assms(1), of "\<lambda>x. \<not> x < ?c"] by (simp add: not_less)
  show ?thesis
  proof (cases "length t - length ?kept = 0")
    case True
    then have "?kept = t" using len by (auto simp: filter_empty_conv intro!: filter_True)
    moreover have "n = 0" "t' = t" using assms(2) True by (auto simp: enforce_retention_def Let_def)
    ultimately show ?thesis using len True kept by simp
  next
    case False
    then have "n = length t - length ?kept" "t' = map (update_row ?es) ?kept"
      using assms(2) by (auto simp: enforce_retention_def Let_def)
    then show ?thesis
      using retained_events [OF filter_audit_wf [OF assms(1)], of sha256 ser "\<lambda>w. \<not> ar_timestamp w < ?c"]
        len kept by simp
  qed
qed

theorem retention_spec_witness:
  "let t = map row_of_event [demo_event 5 ''a'', demo_event (secs 90000) ''b''];
       r = enforce_retention (\<lambda>x. x) demo_ser (secs 90001) 1 t
   in fst r = 1 \<and> verify_chain (\<lambda>x. x) demo_ser full_range (snd r) = []"
proof -
  define t where "t = map row_of_event [demo_event 5 ''a'', demo_event (secs 90000) ''b'']"
  define r where "r = enforce_retention (\<lambda>x. x) demo_ser (secs 90001) 1 t"
  have wf: "audit_wf t"
    by (simp add: t_def audit_wf_def row_ok_def row_of_event_def demo_event_def event_new_plan_def)
  have "enforce_retention (\<lambda>x. x) demo_ser (secs 90001) 1 t = (fst r, snd r)" by (simp add: r_def)
  note spec = retention_spec [OF wf this]
  have "length (filter (\<lambda>w. ar_timestamp w < secs 90001 - secs (int 1 * 86400)) t) = 1"
    by (simp add: t_def demo_event_def event_new_plan_def row_of_event_def secs_def nanos_def)
  with spec show ?thesis unfolding Let_def by (fold t_def, fold r_def) simp
qed

text \<open>
  a clock that steps back. When the log holds an event stamped later than the event appended
  now, the new event is linked to the last row but sorts before it; if it sorts before every row,
  the whole log, which nobody touched, no longer verifies.
\<close>

theorem append_backdated_breaks:
  assumes wf: "audit_wf t" and "t \<noteq> []"
    and ok: "fst (append_event sha256 ser now e t) = Inr e'"
    and early: "\<forall>w \<in> set t. stamp (now, e) < ar_timestamp w"
    and "compute_row_hash sha256 ser genesis e' \<noteq> compute_row_hash sha256 ser (last_hash t) e'"
  shows "map ab_audit_id (verify_chain sha256 ser full_range (snd (append_event sha256 ser now e t)))
    = [ae_audit_id e]"
proof -
  note step = append_event_ok [OF ok]
  have "audit_wf (t @ [row_of_event e'])" using append_event_wf [OF wf] step(1) by metis
  then have "inj_on row_key (set (t @ [row_of_event e']))"
    by (intro row_key_inj) (simp add: audit_wf_def)
  then have "rows_ordered (t @ [row_of_event e']) = row_of_event e' # rows_ordered t"
    unfolding rows_ordered_def
    by (rule sort_key_front) (use early step(3) in \<open>auto simp: row_key_def less_eq_prod_def\<close>)
  then have "events_ordered (t @ [row_of_event e']) = e' # events_ordered t"
    by (simp add: events_ordered_def)
  then show ?thesis
    using assms(5) step(2,4)
    by (simp add: step(1) verify_chain_def verify_chain_range_def list_in_range_def full_range_def
        range_scan_full [unfolded full_range_def] verify_from.simps(2) Let_def)
qed

theorem append_backdated_breaks_witness:
  "let t = map row_of_event (relink (\<lambda>x. x) demo_ser genesis [demo_event (secs 9) ''a'']);
       t' = snd (append_event (\<lambda>x. x) demo_ser (secs 8) (demo_event (secs 8) ''b'') t)
   in verify_chain (\<lambda>x. x) demo_ser full_range t = []
    \<and> map ab_audit_id (verify_chain (\<lambda>x. x) demo_ser full_range t') = [''b'']"
proof -
  define e where "e = demo_event (secs 8) ''b''"
  define t where "t = map row_of_event (relink (\<lambda>x. x) demo_ser genesis [demo_event (secs 9) ''a''])"
  define e' where "e' = projr (fst (append_event (\<lambda>x. x) demo_ser (secs 8) e t))"
  note defs = t_def e_def demo_event_def event_new_plan_def secs_def nanos_def Let_def
    append_event_eq stamped_def row_of_event_def stamp_def compute_row_hash_def demo_ser_def
    last_hash_def rows_ordered_def genesis_def
  have ok: "fst (append_event (\<lambda>x. x) demo_ser (secs 8) e t) = Inr e'"
    by (simp add: e'_def defs)
  have "map ab_audit_id (verify_chain (\<lambda>x. x) demo_ser full_range
      (snd (append_event (\<lambda>x. x) demo_ser (secs 8) e t))) = [ae_audit_id e]"
    by (rule append_backdated_breaks [OF _ _ ok])
       (simp_all add: e'_def defs audit_wf_def row_ok_def)
  moreover have "verify_chain (\<lambda>x. x) demo_ser full_range t = []"
    by (simp add: t_def Let_def events_ordered_def rows_ordered_def)
  moreover have "ae_audit_id e = ''b''" by (simp add: e_def demo_event_def event_new_plan_def)
  ultimately show ?thesis unfolding Let_def by (fold t_def, fold e_def) simp
qed

subsection \<open>The interface\<close>

text \<open>What the write pipelines rely on in the trait \<open>AuditSink\<close>: an accepted append adds one event
  under a new id, a refused one changes nothing.\<close>

locale audit_sink =
  fixes append :: "'c \<Rightarrow> 's \<Rightarrow> ('x, 'e) result \<times> 's"
    and look :: "'s \<Rightarrow> 'k \<Rightarrow> 'e option"
    and ident :: "'e \<Rightarrow> 'k"
    and wf :: "'s \<Rightarrow> bool"
  assumes append_look: "wf s \<Longrightarrow> append c s = (Inr e, s') \<Longrightarrow>
      look s (ident e) = None \<and> look s' = (look s)(ident e := Some e)"
    and append_fail: "append c s = (Inl x, s') \<Longrightarrow> s' = s"
    and append_wf: "wf s \<Longrightarrow> wf (snd (append c s))"
begin

definition run :: "'c list \<Rightarrow> 's \<Rightarrow> 's" where
  "run cs s = fold (\<lambda>c s. snd (append c s)) cs s"

lemma append_keeps: "wf s \<Longrightarrow> look s k = Some e \<Longrightarrow> look (snd (append c s)) k = Some e"
  by (cases "append c s"; cases "fst (append c s)")
     (auto dest!: append_look append_fail split: if_splits)

lemma run_wf: "wf s \<Longrightarrow> wf (run cs s)"
  by (induction cs arbitrary: s) (simp_all add: run_def append_wf)

lemma run_keeps: "wf s \<Longrightarrow> look s k = Some e \<Longrightarrow> look (run cs s) k = Some e"
  by (induction cs arbitrary: s) (simp_all add: run_def append_wf append_keeps)

end

lemma get_event_snoc:
  assumes "ae_audit_id e \<notin> set (map ar_audit_id t)"
  shows "get_event (t @ [row_of_event e]) = (get_event t)(ae_audit_id e := Some e)"
    "get_event t (ae_audit_id e) = None"
proof -
  show none: "get_event t (ae_audit_id e) = None"
    using assms by (auto simp: get_event_def find_None_iff) (metis image_eqI)
  have "find P (t @ [x]) = (case find P t of None \<Rightarrow> if P x then Some x else None | Some y \<Rightarrow> Some y)"
    for P :: "audit_row \<Rightarrow> bool" and x
    by (induction t) simp_all
  then have "get_event (t @ [row_of_event e]) k = ((get_event t)(ae_audit_id e := Some e)) k" for k
    using none by (simp add: get_event_def split: option.splits)
  then show "get_event (t @ [row_of_event e]) = (get_event t)(ae_audit_id e := Some e)" by blast
qed

interpretation sink: audit_sink "\<lambda>c. append_event sha256 ser (fst c) (snd c)" get_event ae_audit_id audit_wf
  for sha256 ser
proof unfold_locales
  fix c s e s' assume "audit_wf s" and eq: "append_event sha256 ser (fst c) (snd c) s = (Inr e, s')"
  then have ok: "fst (append_event sha256 ser (fst c) (snd c) s) = Inr e" by simp
  have "s' = s @ [row_of_event e]" "ae_audit_id e \<notin> set (map ar_audit_id s)"
    using eq append_event_ok(1,4,5) [OF ok] by simp_all
  then show "get_event s (ae_audit_id e) = None \<and> get_event s' = (get_event s)(ae_audit_id e := Some e)"
    using get_event_snoc by simp
next
  fix c s x s' assume "append_event sha256 ser (fst c) (snd c) s = (Inl x, s')"
  then show "s' = s" using append_event_err [of sha256 ser "fst c" "snd c" s x] by simp
qed simp

lemma append_all_run: "append_all sha256 ser es t = sink.run sha256 ser es t"
  by (induction es arbitrary: t) (auto simp: sink.run_def)

text \<open>
  the log is append only. Under any run of appends, accepted or refused, an event that can be
  read by its id stays readable with the same content.
\<close>

theorem audit_append_only:
  assumes "audit_wf t" and "get_event t audit_id = Some e"
  shows "get_event (append_all sha256 ser es t) audit_id = Some e"
  unfolding append_all_run using assms by (rule sink.run_keeps)

theorem audit_append_only_witness:
  "get_event (append_all (\<lambda>x. x) demo_ser [(9, demo_event 7 ''a''), (9, demo_event 8 ''b'')]
     [row_of_event (demo_event 5 ''a'')]) ''a'' = Some (demo_event 5 ''a'')"
  by (rule audit_append_only)
     (simp_all add: audit_wf_def row_ok_def row_of_event_def get_event_def demo_event_def
       event_new_plan_def)

end
