(* ===== verification/Redaction.thy ===== *)
theory Redaction
  imports Prelude
begin

text \<open>
  The rule-based PHI redactor (\<open>snow_mcp/src/redact/rules.rs\<close>, \<open>snow_mcp/src/redact/mod.rs\<close>) and
  what it guarantees of its output. A rule set comes from \<open>Default\<close> only, so markers are not empty.
\<close>

record redaction_rule =
  rr_name :: string
  rr_marker :: string

record redaction_rule_set =
  rs_version :: string
  rs_rules :: "redaction_rule list"

record redaction_verdict =
  rv_redacted :: string
  rv_matched_rules :: "string list"

definition redacted_mark :: string where
  "redacted_mark = ''[REDACTED]''"

definition default_rule_set :: redaction_rule_set where
  "default_rule_set = \<lparr>rs_version = ''builtin-v1'',
     rs_rules = [\<lparr>rr_name = ''ssn'', rr_marker = ''ssn''\<rparr>, \<lparr>rr_name = ''mrn'', rr_marker = ''mrn''\<rparr>,
       \<lparr>rr_name = ''dob'', rr_marker = ''dob''\<rparr>]\<rparr>"

definition redact_rule :: "string \<Rightarrow> redaction_rule \<Rightarrow> redaction_verdict \<Rightarrow> redaction_verdict" where
  "redact_rule input rule v =
     (if str_contains (rr_marker rule) (to_lower input)
      then \<lparr>rv_redacted =
              str_replace (to_upper (rr_marker rule)) redacted_mark
                (str_replace (rr_marker rule) redacted_mark (rv_redacted v)),
            rv_matched_rules = rv_matched_rules v @ [rr_name rule]\<rparr>
      else v)"

definition redact :: "redaction_rule_set \<Rightarrow> string \<Rightarrow> redaction_verdict" where
  "redact rs input =
     fold (redact_rule input) (rs_rules rs) \<lparr>rv_redacted = input, rv_matched_rules = []\<rparr>"

definition rules_version :: "redaction_rule_set \<Rightarrow> string" where
  "rules_version rs = rs_version rs"

subsection \<open>Replacement creates no occurrences\<close>

lemma sublist_around:
  assumes "c \<notin> set q"
  shows "sublist q (a @ c # b) \<longleftrightarrow> sublist q a \<or> sublist q b"
proof
  assume "sublist q (a @ c # b)"
  then consider "sublist q a" | "sublist q (c # b)"
    | x y where "q = x @ y" "suffix x a" "prefix y (c # b)"
    by (auto simp: sublist_append)
  then show "sublist q a \<or> sublist q b"
  proof cases
    case 2
    then show ?thesis
      using assms by (cases q) (auto simp: sublist_Cons_right)
  next
    case 3
    then have "y = []" using assms by (cases y) auto
    with 3 show ?thesis by (simp add: suffix_imp_sublist)
  qed simp
qed (auto simp: sublist_append sublist_Cons_right)

lemma sublist_marked:
  assumes "c \<notin> set q" "d \<notin> set q"
  shows "sublist q (a @ (c # m @ [d]) @ b) \<longleftrightarrow> sublist q a \<or> sublist q m \<or> sublist q b"
  using sublist_around [OF assms(1), of a "m @ d # b"] sublist_around [OF assms(2), of m b] by simp

lemma replace_keeps_absent:
  assumes "c \<notin> set q" "d \<notin> set q" "\<not> sublist q m"
  shows "\<not> sublist q (u @ s) \<Longrightarrow> \<not> sublist q (u @ str_replace p (c # m @ [d]) s)"
proof (induction s arbitrary: u rule: length_induct)
  case (1 s)
  consider "p = [] \<or> s = []" | (rep) s' where "p \<noteq> []" "s = p @ s'"
    | (skip) h t where "p \<noteq> []" "\<not> prefix p s" "s = h # t"
    by (metis neq_Nil_conv prefixE)
  then show ?case
  proof cases
    case 1 with "1.prems" show ?thesis by (subst str_replace.simps) auto
  next
    case rep
    have "\<not> sublist q ([] @ s')" "\<not> sublist q u"
      using "1.prems" rep by (auto simp: sublist_append)
    moreover have "length s' < length s" using rep by simp
    ultimately have "\<not> sublist q (str_replace p (c # m @ [d]) s')" using "1.IH" by fastforce
    moreover have "str_replace p (c # m @ [d]) s = (c # m @ [d]) @ str_replace p (c # m @ [d]) s'"
      using rep by (subst str_replace.simps) auto
    ultimately show ?thesis
      using \<open>\<not> sublist q u\<close> sublist_marked [OF assms(1,2)] assms(3) by metis
  next
    case skip
    then have "str_replace p (c # m @ [d]) s = h # str_replace p (c # m @ [d]) t"
      by (subst str_replace.simps) auto
    moreover have "\<not> sublist q ((u @ [h]) @ str_replace p (c # m @ [d]) t)"
      using "1.prems" skip(3) "1.IH" by (metis append.assoc append_Cons append_Nil length_Cons lessI)
    ultimately show ?thesis by simp
  qed
qed

lemma sublist_at:
  assumes "sublist p u" "p \<noteq> []" shows "\<exists>i < length u. prefix p (drop i u)"
proof -
  obtain ps ss where "u = ps @ p @ ss" using assms(1) by (auto simp: sublist_def)
  with assms(2) show ?thesis by (intro exI [of _ "length ps"]) auto
qed

lemma prefix_drop_append: "prefix p (drop i u) \<Longrightarrow> i \<le> length u \<Longrightarrow> prefix p (drop i (u @ s))"
  by (auto simp: prefix_def)

lemma replace_removes:
  assumes "c \<notin> set p" "d \<notin> set p" "\<not> sublist p m" "p \<noteq> []"
  shows "\<forall>i < length u. \<not> prefix p (drop i (u @ s)) \<Longrightarrow> \<not> sublist p (u @ str_replace p (c # m @ [d]) s)"
proof (induction s arbitrary: u rule: length_induct)
  case (1 s)
  have absent: "\<not> sublist p u"
    using "1.prems" sublist_at [OF _ assms(4), of u] prefix_drop_append less_imp_le by metis
  consider "s = []" | (rep) s' where "s = p @ s'" "s \<noteq> []"
    | (skip) h t where "\<not> prefix p s" "s = h # t"
    by (metis neq_Nil_conv prefixE)
  then show ?case
  proof cases
    case 1 with absent show ?thesis by (subst str_replace.simps) auto
  next
    case rep
    have "\<forall>i < length ([]::string). \<not> prefix p (drop i ([] @ s'))" by simp
    moreover have "length s' < length s" using rep assms(4) by simp
    ultimately have "\<not> sublist p (str_replace p (c # m @ [d]) s')" using "1.IH" by fastforce
    moreover have "str_replace p (c # m @ [d]) s = (c # m @ [d]) @ str_replace p (c # m @ [d]) s'"
      using rep assms(4) by (subst str_replace.simps) auto
    ultimately show ?thesis
      using absent sublist_marked [OF assms(1,2)] assms(3) by metis
  next
    case skip
    then have "str_replace p (c # m @ [d]) s = h # str_replace p (c # m @ [d]) t"
      using assms(4) by (subst str_replace.simps) auto
    moreover have "\<forall>i < length (u @ [h]). \<not> prefix p (drop i ((u @ [h]) @ t))"
      using "1.prems" skip by (auto simp: less_Suc_eq)
    then have "\<not> sublist p ((u @ [h]) @ str_replace p (c # m @ [d]) t)"
      using "1.IH" skip(2) by (metis length_Cons lessI)
    ultimately show ?thesis by simp
  qed
qed

text \<open>A marker the replacement text cannot help to spell.\<close>

definition clean_marker :: "string \<Rightarrow> bool" where
  "clean_marker q = (q \<noteq> [] \<and> CHR ''['' \<notin> set q \<and> CHR '']'' \<notin> set q \<and> \<not> str_contains q ''REDACTED'')"

lemma redacted_mark_split: "redacted_mark = CHR ''['' # ''REDACTED'' @ [CHR '']'']"
  by (simp add: redacted_mark_def)

lemma replace_mark_removes: "clean_marker p \<Longrightarrow> \<not> str_contains p (str_replace p redacted_mark s)"
  using replace_removes [of "CHR ''[''" p "CHR '']''" "''REDACTED''" "[]" s]
  by (simp add: redacted_mark_split clean_marker_def str_contains_iff)

lemma replace_mark_keeps:
  "clean_marker q \<Longrightarrow> \<not> str_contains q s \<Longrightarrow> \<not> str_contains q (str_replace p redacted_mark s)"
  using replace_keeps_absent [of "CHR ''[''" q "CHR '']''" "''REDACTED''" "[]" s p]
  by (simp add: redacted_mark_split clean_marker_def str_contains_iff)

subsection \<open>The guarantee\<close>

definition rule_ok :: "redaction_rule \<Rightarrow> bool" where
  "rule_ok r = (let m = rr_marker r in clean_marker m \<and> clean_marker (to_upper m)
     \<and> to_lower m = m \<and> to_lower (to_upper m) = m)"

definition free_of :: "redaction_rule \<Rightarrow> string \<Rightarrow> bool" where
  "free_of r s = (\<not> str_contains (rr_marker r) s \<and> \<not> str_contains (to_upper (rr_marker r)) s)"

lemma str_contains_lower: "str_contains q s \<Longrightarrow> str_contains (to_lower q) (to_lower s)"
  unfolding str_contains_iff sublist_def to_lower_def by (metis map_append)

lemma rule_okD:
  assumes "rule_ok r"
  shows "clean_marker (rr_marker r)" "clean_marker (to_upper (rr_marker r))"
  using assms by (simp_all add: rule_ok_def Let_def)

lemma no_match_free:
  "rule_ok r \<Longrightarrow> \<not> str_contains (rr_marker r) (to_lower s) \<Longrightarrow> free_of r s"
  unfolding rule_ok_def free_of_def Let_def by (metis str_contains_lower)

lemma redact_rule_keeps:
  assumes "rule_ok q" "free_of q (rv_redacted v)"
  shows "free_of q (rv_redacted (redact_rule input r v))"
  using assms(2) rule_okD [OF assms(1)]
  by (simp add: redact_rule_def free_of_def replace_mark_keeps)

lemma redact_rule_frees:
  assumes "rule_ok r" "str_contains (rr_marker r) (to_lower input)"
  shows "free_of r (rv_redacted (redact_rule input r v))"
  using assms(2) rule_okD [OF assms(1)]
  by (simp add: redact_rule_def free_of_def replace_mark_keeps replace_mark_removes)

lemma redact_fold_matched:
  "rv_matched_rules (fold (redact_rule input) rs v) = rv_matched_rules v
     @ map rr_name (filter (\<lambda>r. str_contains (rr_marker r) (to_lower input)) rs)"
  by (induction rs arbitrary: v) (simp_all add: redact_rule_def)

lemma redact_fold_keeps:
  assumes "rule_ok q" "free_of q (rv_redacted v)"
  shows "free_of q (rv_redacted (fold (redact_rule input) rs v))"
  using assms(2) by (induction rs arbitrary: v) (simp_all add: redact_rule_keeps [OF assms(1)])

lemma redact_fold_frees:
  assumes "rule_ok q" "q \<in> set rs" "str_contains (rr_marker q) (to_lower input)"
  shows "free_of q (rv_redacted (fold (redact_rule input) rs v))"
  using assms(2)
proof (induction rs arbitrary: v)
  case (Cons r rs)
  then show ?case
    using redact_fold_keeps [OF assms(1) redact_rule_frees [OF assms(1,3)]] by auto
qed simp

lemma redact_fold_id:
  assumes "\<And>r. r \<in> set rs \<Longrightarrow> free_of r (rv_redacted v)"
  shows "rv_redacted (fold (redact_rule input) rs v) = rv_redacted v"
  using assms
proof (induction rs arbitrary: v)
  case (Cons r rs)
  have absent: "str_replace p m s = s" if "\<not> str_contains p s" for p m s
    using that
    by (induction p m s rule: str_replace.induct)
       (subst str_replace.simps, auto simp: neq_Nil_conv)
  have "rv_redacted (redact_rule input r v) = rv_redacted v"
    using Cons.prems [of r] by (simp add: redact_rule_def free_of_def absent)
  with Cons show ?case by simp
qed simp

text \<open>
  C40: redaction is sound for the spellings it replaces. For a rule set whose markers are lower-case
  words that cannot be spelt with the replacement text (the built-in set is one), the redacted text
  contains no marker of the set, neither in lower nor in upper case, whatever the input and however
  earlier replacements rearranged it; and the verdict names exactly the rules whose marker occurs in
  the input in any letter case, in order.
\<close>

theorem redact_sound:
  assumes "list_all rule_ok (rs_rules rs)"
  shows "list_all (\<lambda>r. free_of r (rv_redacted (redact rs input))) (rs_rules rs)
    \<and> rv_matched_rules (redact rs input)
        = map rr_name (filter (\<lambda>r. str_contains (rr_marker r) (to_lower input)) (rs_rules rs))"
proof -
  have "free_of r (rv_redacted (redact rs input))" if "r \<in> set (rs_rules rs)" for r
  proof -
    have "rule_ok r" using assms that by (simp add: list_all_iff)
    then show ?thesis
      using that redact_fold_frees [of r] redact_fold_keeps [of r] no_match_free [of r input]
      by (cases "str_contains (rr_marker r) (to_lower input)") (simp_all add: redact_def)
  qed
  then show ?thesis by (simp add: list_all_iff redact_def redact_fold_matched)
qed

theorem redact_sound_witness:
  "list_all (\<lambda>r. free_of r (rv_redacted (redact default_rule_set ''SSN ssn mrdobn'')))
      (rs_rules default_rule_set)
    \<and> rv_matched_rules (redact default_rule_set ''SSN ssn mrdobn'') = [''ssn'', ''dob'']"
proof -
  have "list_all rule_ok (rs_rules default_rule_set)" by code_simp
  note sound = redact_sound [OF this, of "''SSN ssn mrdobn''"]
  have "map rr_name (filter (\<lambda>r. str_contains (rr_marker r) (to_lower ''SSN ssn mrdobn''))
     (rs_rules default_rule_set)) = [''ssn'', ''dob'']" by code_simp
  with sound show ?thesis by simp
qed

text \<open>
  mixed case leaks. The match ignores letter case and the replacement does not: a text that
  spells its markers in mixed case only is returned unchanged, although the verdict reports the
  rules as matched.
\<close>

theorem redact_mixed_case_leak:
  assumes "list_all (\<lambda>r. free_of r input) (rs_rules rs)"
  shows "redact rs input = \<lparr>rv_redacted = input, rv_matched_rules =
     map rr_name (filter (\<lambda>r. str_contains (rr_marker r) (to_lower input)) (rs_rules rs))\<rparr>"
  using assms redact_fold_id [of "rs_rules rs" "\<lparr>rv_redacted = input, rv_matched_rules = []\<rparr>" input]
  by (intro redaction_verdict.equality) (simp_all add: redact_def redact_fold_matched list_all_iff)

theorem redact_mixed_case_leak_witness:
  "redact default_rule_set ''Ssn 123-45-6789''
     = \<lparr>rv_redacted = ''Ssn 123-45-6789'', rv_matched_rules = [''ssn'']\<rparr>"
proof -
  have "list_all (\<lambda>r. free_of r ''Ssn 123-45-6789'') (rs_rules default_rule_set)" by code_simp
  note leak = redact_mixed_case_leak [OF this]
  have "map rr_name (filter (\<lambda>r. str_contains (rr_marker r) (to_lower ''Ssn 123-45-6789''))
     (rs_rules default_rule_set)) = [''ssn'']" by code_simp
  with leak show ?thesis by simp
qed

end
