(* ===== verification/Rate_Limit.thy ===== *)
theory Rate_Limit
  imports Tables
begin

text \<open>
  The sliding-window rate limit of the story write pipeline
  (\<open>snow_daemon/src/story_write/confirmation.rs\<close>: \<open>rate_limit\<close> and its three callers, on the
  process-wide map \<open>RATE_LIMITS\<close>). The flag \<open>poisoned\<close> says that a panic poisoned the mutex.
\<close>

type_synonym rate_buckets = "(string, time list) btree"

definition rate_limit_window_seconds :: int where
  "rate_limit_window_seconds = 60"

definition rate_key :: "string \<Rightarrow> string \<Rightarrow> string \<Rightarrow> string" where
  "rate_key bucket actor tool = bucket @ '':'' @ actor @ '':'' @ tool"

definition rate_entries :: "rate_buckets \<Rightarrow> string \<Rightarrow> time list" where
  "rate_entries b k = (case bt_get b k of None \<Rightarrow> [] | Some ts \<Rightarrow> ts)"

definition rate_limit ::
  "bool \<Rightarrow> time \<Rightarrow> string \<Rightarrow> string \<Rightarrow> string \<Rightarrow> nat \<Rightarrow> bool \<Rightarrow> rate_buckets
     \<Rightarrow> int option \<times> rate_buckets" where
  "rate_limit poisoned now bucket actor tool limit_per_minute record_event b =
     (if limit_per_minute = 0 then (Some rate_limit_window_seconds, b)
      else if poisoned then (None, b)
      else
        let cutoff = now - secs rate_limit_window_seconds;
            key = rate_key bucket actor tool;
            entries = filter (\<lambda>t. cutoff < t) (rate_entries b key)
        in if limit_per_minute \<le> length entries
           then (case entries of
                   [] \<Rightarrow> None
                 | oldest # _ \<Rightarrow>
                     Some (max (num_seconds (oldest + secs rate_limit_window_seconds - now)) 1),
                 bt_insert key entries b)
           else (None, bt_insert key (if record_event then entries @ [now] else entries) b))"

definition check_and_record_rate_limit ::
  "bool \<Rightarrow> time \<Rightarrow> string \<Rightarrow> string \<Rightarrow> string \<Rightarrow> nat \<Rightarrow> rate_buckets \<Rightarrow> int option \<times> rate_buckets" where
  "check_and_record_rate_limit poisoned now bucket actor tool limit_per_minute b =
     rate_limit poisoned now bucket actor tool limit_per_minute True b"

definition check_rate_limit_only ::
  "bool \<Rightarrow> time \<Rightarrow> string \<Rightarrow> string \<Rightarrow> string \<Rightarrow> nat \<Rightarrow> rate_buckets \<Rightarrow> int option \<times> rate_buckets" where
  "check_rate_limit_only poisoned now bucket actor tool limit_per_minute b =
     rate_limit poisoned now bucket actor tool limit_per_minute False b"

definition record_rate_limit_event ::
  "bool \<Rightarrow> time \<Rightarrow> string \<Rightarrow> string \<Rightarrow> string \<Rightarrow> rate_buckets \<Rightarrow> rate_buckets" where
  "record_rate_limit_event poisoned now bucket actor tool b =
     snd (rate_limit poisoned now bucket actor tool (2 ^ 32 - 1) True b)"

subsection \<open>Keys\<close>

lemma rate_key_inj:
  assumes "rate_key b1 a1 t1 = rate_key b2 a2 t2" and "CHR '':'' \<notin> set b1" "CHR '':'' \<notin> set b2"
    and "CHR '':'' \<notin> set t1" "CHR '':'' \<notin> set t2"
  shows "b1 = b2 \<and> a1 = a2 \<and> t1 = t2"
proof -
  have front: "x = y \<and> p = q" if "x @ CHR '':'' # p = y @ CHR '':'' # q"
    "CHR '':'' \<notin> set x" "CHR '':'' \<notin> set y" for x y p q
    using that
  proof (induction x arbitrary: y)
    case Nil then show ?case by (cases y) auto
  next
    case (Cons z x) then show ?case by (cases y) auto
  qed
  have "b1 = b2" and rest: "a1 @ CHR '':'' # t1 = a2 @ CHR '':'' # t2"
    using front [of b1 "a1 @ CHR '':'' # t1" b2 "a2 @ CHR '':'' # t2"] assms by (auto simp: rate_key_def)
  have "rev (a1 @ CHR '':'' # t1) = rev (a2 @ CHR '':'' # t2)" using rest by (rule arg_cong)
  then have "rev t1 @ CHR '':'' # rev a1 = rev t2 @ CHR '':'' # rev a2" by (simp del: rev_is_rev_conv)
  then have "rev t1 = rev t2 \<and> rev a1 = rev a2" using assms by (intro front) simp_all
  with \<open>b1 = b2\<close> show ?thesis by simp
qed

lemma rate_limit_frame:
  assumes "bt_wf b" "k \<noteq> rate_key bucket actor tool"
  shows "rate_entries (snd (rate_limit poisoned now bucket actor tool limit rec b)) k = rate_entries b k"
  using assms by (simp add: rate_limit_def rate_entries_def Let_def bt_get_insert)

lemma rate_limit_wf: "bt_wf b \<Longrightarrow> bt_wf (snd (rate_limit poisoned now bucket actor tool limit rec b))"
  by (simp add: rate_limit_def Let_def)

lemma rate_limit_entries:
  assumes "bt_wf b"
  shows "rate_entries (snd (rate_limit poisoned now bucket actor tool limit rec b)) (rate_key bucket actor tool)
     = (let old = rate_entries b (rate_key bucket actor tool);
            live = filter (\<lambda>t. now - secs rate_limit_window_seconds < t) old
        in if limit = 0 \<or> poisoned then old
           else if limit \<le> length live \<or> \<not> rec then live else live @ [now])"
  using assms by (simp add: rate_limit_def rate_entries_def Let_def bt_get_insert)

lemma rate_limit_verdict:
  "fst (rate_limit poisoned now bucket actor tool limit rec b) = None \<longleftrightarrow>
     limit \<noteq> 0 \<and> (poisoned \<or> length (filter (\<lambda>t. now - secs rate_limit_window_seconds < t)
        (rate_entries b (rate_key bucket actor tool))) < limit)"
  by (auto simp: rate_limit_def Let_def not_less split: list.splits)

subsection \<open>Windows\<close>

definition window_count :: "time \<Rightarrow> time list \<Rightarrow> nat" where
  "window_count T ts = length (filter (\<lambda>t. T - secs rate_limit_window_seconds < t \<and> t \<le> T) ts)"

record rate_call =
  rc_now :: time
  rc_bucket :: string
  rc_actor :: string
  rc_tool :: string
  rc_limit :: nat
  rc_record :: bool

definition run_call :: "rate_call \<Rightarrow> rate_buckets \<Rightarrow> int option \<times> rate_buckets" where
  "run_call c b = rate_limit False (rc_now c) (rc_bucket c) (rc_actor c) (rc_tool c) (rc_limit c) (rc_record c) b"

definition call_key :: "rate_call \<Rightarrow> string" where
  "call_key c = rate_key (rc_bucket c) (rc_actor c) (rc_tool c)"

text \<open>The times of the recorded events that a sequence of calls lets through for one key.\<close>

fun admitted :: "string \<Rightarrow> rate_call list \<Rightarrow> rate_buckets \<Rightarrow> time list" where
  "admitted k [] b = []"
| "admitted k (c # cs) b =
     (if call_key c = k \<and> rc_record c \<and> fst (run_call c b) = None then [rc_now c] else [])
       @ admitted k cs (snd (run_call c b))"

lemma window_count_snoc:
  assumes "length (filter (\<lambda>t. now - secs rate_limit_window_seconds < t) acc) < n"
    and "window_count T acc \<le> n"
  shows "window_count T (acc @ [now]) \<le> n"
proof (cases "now \<le> T")
  case True
  then have "length (filter (\<lambda>t. T - secs rate_limit_window_seconds < t \<and> t \<le> T) acc)
      \<le> length (filter (\<lambda>t. now - secs rate_limit_window_seconds < t) acc)"
    by (induction acc) auto
  with assms(1) show ?thesis by (auto simp: window_count_def)
qed (use assms(2) in \<open>simp add: window_count_def\<close>)

definition tracked :: "string \<Rightarrow> nat \<Rightarrow> time list \<Rightarrow> time \<Rightarrow> rate_buckets \<Rightarrow> bool" where
  "tracked k n acc now b = (bt_wf b \<and> (\<forall>T. window_count T acc \<le> n)
     \<and> (\<exists>lo \<le> now - secs rate_limit_window_seconds. rate_entries b k = filter (\<lambda>t. lo < t) acc))"

lemma tracked_later: "tracked k n acc now b \<Longrightarrow> now \<le> now' \<Longrightarrow> tracked k n acc now' b"
  unfolding tracked_def by (meson diff_right_mono order_trans)

lemma tracked_step:
  assumes tr: "tracked k n acc (rc_now c) b"
    and lim: "call_key c = k \<Longrightarrow> rc_record c \<Longrightarrow> rc_limit c \<le> n"
  shows "tracked k n (acc @ (if call_key c = k \<and> rc_record c \<and> fst (run_call c b) = None
            then [rc_now c] else [])) (rc_now c) (snd (run_call c b))"
proof -
  let ?cut = "rc_now c - secs rate_limit_window_seconds"
  obtain lo where lo: "lo \<le> ?cut" "rate_entries b k = filter (\<lambda>t. lo < t) acc" and wf: "bt_wf b"
    and cnt: "\<And>T. window_count T acc \<le> n"
    using tr by (auto simp: tracked_def)
  have wf': "bt_wf (snd (run_call c b))" using wf by (simp add: run_call_def rate_limit_wf)
  show ?thesis
  proof (cases "call_key c = k")
    case False
    then have "rate_entries (snd (run_call c b)) k = rate_entries b k"
      using rate_limit_frame [OF wf] by (auto simp: run_call_def call_key_def)
    with False lo wf' cnt show ?thesis by (auto simp: tracked_def)
  next
    case True
    have live: "filter (\<lambda>t. ?cut < t) (rate_entries b k) = filter (\<lambda>t. ?cut < t) acc"
      using lo by (auto intro: filter_cong)
    have ent: "rate_entries (snd (run_call c b)) k
       = (if rc_limit c = 0 then rate_entries b k
          else if rc_limit c \<le> length (filter (\<lambda>t. ?cut < t) acc) \<or> \<not> rc_record c
          then filter (\<lambda>t. ?cut < t) acc else filter (\<lambda>t. ?cut < t) (acc @ [rc_now c]))"
      using rate_limit_entries [OF wf, of False "rc_now c" "rc_bucket c" "rc_actor c" "rc_tool c"
          "rc_limit c" "rc_record c"] True live
      by (simp add: run_call_def call_key_def Let_def secs_def nanos_def rate_limit_window_seconds_def)
    have verdict: "fst (run_call c b) = None \<longleftrightarrow>
        rc_limit c \<noteq> 0 \<and> length (filter (\<lambda>t. ?cut < t) acc) < rc_limit c"
      using True live by (simp add: run_call_def call_key_def rate_limit_verdict)
    have snoc: "window_count T (acc @ [rc_now c]) \<le> n"
      if "rc_record c" "length (filter (\<lambda>t. ?cut < t) acc) < rc_limit c" for T
      using that lim [OF True] cnt by (intro window_count_snoc) simp_all
    have pos: "0 < secs rate_limit_window_seconds"
      by (simp add: secs_def nanos_def rate_limit_window_seconds_def)
    show ?thesis
      unfolding tracked_def ent verdict using wf' lo cnt snoc True pos
      by (cases "rc_limit c = 0") (fastforce, auto intro!: exI [of _ ?cut])
  qed
qed

lemma admitted_tracked:
  assumes "tracked k n acc now b" "sorted (now # map rc_now cs)"
    and "\<forall>c \<in> set cs. call_key c = k \<longrightarrow> rc_record c \<longrightarrow> rc_limit c \<le> n"
  shows "window_count T (acc @ admitted k cs b) \<le> n"
  using assms
proof (induction cs arbitrary: acc now b)
  case Nil
  then show ?case by (simp add: tracked_def)
next
  case (Cons c cs)
  have "tracked k n acc (rc_now c) b" using tracked_later [OF Cons.prems(1)] Cons.prems(2) by simp
  then have "tracked k n (acc @ (if call_key c = k \<and> rc_record c \<and> fst (run_call c b) = None
      then [rc_now c] else [])) (rc_now c) (snd (run_call c b))"
    by (rule tracked_step) (use Cons.prems(3) in simp)
  from Cons.IH [OF this] Cons.prems(2,3) show ?case by simp
qed

text \<open>
  the limit holds in every window. For a clock that does not step back and an unpoisoned mutex,
  whatever calls are interleaved for other keys and with other limits, the events recorded for one
  bucket, actor and tool never exceed the largest limit of its recording calls in any sixty-second
  window, wherever that window starts.
\<close>

theorem rate_window_bound:
  assumes "sorted (map rc_now cs)"
    and "\<forall>c \<in> set cs. call_key c = k \<longrightarrow> rc_record c \<longrightarrow> rc_limit c \<le> n"
  shows "window_count T (admitted k cs []) \<le> n"
proof (cases cs)
  case (Cons c cs')
  have "tracked k n [] (rc_now c) []"
    by (auto simp: tracked_def window_count_def rate_entries_def bt_get_def)
  from admitted_tracked [OF this _ assms(2), of T] Cons assms(1) show ?thesis by simp
qed (simp add: window_count_def)

theorem rate_window_bound_witness:
  "window_count (secs 70) (admitted (rate_key ''w'' ''u'' ''t'') (map (\<lambda>s. \<lparr>rc_now = secs s,
     rc_bucket = ''w'', rc_actor = ''u'', rc_tool = ''t'', rc_limit = 2, rc_record = True\<rparr>)
       [1, 30, 59, 62, 70]) []) \<le> 2"
  by (rule rate_window_bound) (simp_all add: secs_def nanos_def)

text \<open>
  the announced delay. A refusal under a non-zero limit, when no recorded event lies in the
  future, announces between 1 and 60 seconds; and if the bucket is not over-full, a call one second
  after the announced delay is let through when nothing else was recorded meanwhile.
\<close>

theorem rate_retry_after:
  assumes "bt_wf b" and "limit \<noteq> 0" and past: "\<forall>t \<in> set (rate_entries b (rate_key bucket actor tool)). t \<le> now"
    and full: "length (rate_entries b (rate_key bucket actor tool)) \<le> limit"
    and refused: "rate_limit False now bucket actor tool limit rec b = (Some n, b')"
  shows "1 \<le> n \<and> n \<le> 60
    \<and> fst (rate_limit False (now + secs (n + 1)) bucket actor tool limit rec' b') = None"
proof -
  let ?k = "rate_key bucket actor tool"
  let ?W = "secs rate_limit_window_seconds"
  define live where "live = filter (\<lambda>t. now - ?W < t) (rate_entries b ?k)"
  obtain x rest where live: "live = x # rest" and n: "n = max (num_seconds (x + ?W - now)) 1"
    using refused assms(2)
    by (auto simp: rate_limit_def Let_def live_def split: if_splits list.splits)
  have "x \<in> set live" by (simp add: live)
  then have x: "now - ?W < x" "x \<le> now" using past by (auto simp: live_def)
  have b': "rate_entries b' ?k = live"
    using rate_limit_entries [OF assms(1), of False now bucket actor tool limit rec] refused assms(2)
      rate_limit_verdict [of False now bucket actor tool limit rec b]
    by (simp add: Let_def live_def not_less)
  have "num_seconds (x + ?W - now) = (x + ?W - now) div nanos"
    using x by (simp add: num_seconds_nonneg)
  then have n': "n = max ((x + ?W - now) div nanos) 1" by (simp add: n)
  have W: "?W = 60 * nanos" "0 < nanos" by (simp_all add: secs_def rate_limit_window_seconds_def nanos_def)
  have bounds: "1 \<le> n \<and> n \<le> 60"
    using x n' W by (auto simp: nanos_def)
  have "x + ?W - now \<le> secs (n + 1)"
    using n' W by (simp add: secs_def nanos_def)
  then have "filter (\<lambda>t. now + secs (n + 1) - ?W < t) live = filter (\<lambda>t. now + secs (n + 1) - ?W < t) rest"
    by (simp add: live)
  moreover have "length rest < length live" by (simp add: live)
  moreover have "length live \<le> limit" using full by (simp add: live_def le_trans [OF length_filter_le])
  ultimately have "length (filter (\<lambda>t. now + secs (n + 1) - ?W < t) (rate_entries b' ?k)) < limit"
    unfolding b' by (metis le_less_trans length_filter_le order_less_le_trans)
  with bounds assms(2) show ?thesis by (simp add: rate_limit_verdict)
qed

theorem rate_retry_after_witness:
  "fst (rate_limit False (secs 20) ''w'' ''u'' ''t'' 1 True [(rate_key ''w'' ''u'' ''t'', [secs 5])]) = Some 45
    \<and> fst (rate_limit False (secs 20 + secs 46) ''w'' ''u'' ''t'' 1 True
         [(rate_key ''w'' ''u'' ''t'', [secs 5])]) = None"
proof -
  have call: "rate_limit False (secs 20) ''w'' ''u'' ''t'' 1 True [(rate_key ''w'' ''u'' ''t'', [secs 5])]
    = (Some 45, [(rate_key ''w'' ''u'' ''t'', [secs 5])])"
    by (simp add: rate_limit_def Let_def rate_entries_def bt_get_def secs_def nanos_def
        rate_limit_window_seconds_def num_seconds_def)
  have "fst (rate_limit False (secs 20 + secs (45 + 1)) ''w'' ''u'' ''t'' 1 True
      [(rate_key ''w'' ''u'' ''t'', [secs 5])]) = None"
    by (rule rate_retry_after [OF _ _ _ _ call, THEN conjunct2, THEN conjunct2])
       (simp_all add: bt_wf_def rate_entries_def bt_get_def)
  with call show ?thesis by simp
qed

end
