(* ===== verification/Policy.thy ===== *)
theory Policy
  imports Tables
begin

text \<open>
  The write policy (\<open>snow_mcp/src/domain/policy.rs\<close>, \<open>snow_mcp/src/config.rs\<close>,
  \<open>snow_mcp/src/planner/mod.rs\<close>): the policy tables, their defaults, the merge of a TOML file with
  the defaults, and the checks that decide whether a tool may run. \<open>BTreeSet\<close> values are sets;
  \<open>BTreeMap\<close> values are ordered association lists. The TOML parser is a parameter that yields the
  fields present in the file; the defaults serde fills in are written out.
\<close>

subsection \<open>Environment\<close>

datatype environment_label_source = ExplicitConfig | SnowEnv | DefaultLabel

record mcp_environment =
  me_label :: string
  me_instance_timezone :: string
  me_label_source :: environment_label_source

definition mcp_environment_default :: mcp_environment where
  "mcp_environment_default = \<lparr>me_label = ''test'', me_instance_timezone = ''America/Chicago'',
     me_label_source = DefaultLabel\<rparr>"

definition env_explicit_config :: "string \<Rightarrow> string \<Rightarrow> mcp_environment" where
  "env_explicit_config label tz =
     \<lparr>me_label = label, me_instance_timezone = tz, me_label_source = ExplicitConfig\<rparr>"

definition env_snow_env :: "string \<Rightarrow> string \<Rightarrow> mcp_environment" where
  "env_snow_env label tz =
     \<lparr>me_label = label, me_instance_timezone = tz, me_label_source = SnowEnv\<rparr>"

definition has_explicit_label_source :: "mcp_environment \<Rightarrow> bool" where
  "has_explicit_label_source e =
     (case me_label_source e of ExplicitConfig \<Rightarrow> True | SnowEnv \<Rightarrow> True | DefaultLabel \<Rightarrow> False)"

record mcp_rate_limit_config =
  rl_read_per_minute :: nat
  rl_write_per_minute :: nat
  rl_failed_confirmations_per_minute :: nat

definition rate_limit_config_default :: mcp_rate_limit_config where
  "rate_limit_config_default = \<lparr>rl_read_per_minute = 60, rl_write_per_minute = 10,
     rl_failed_confirmations_per_minute = 5\<rparr>"

subsection \<open>Tables\<close>

record role_allow_list =
  ra_read_tools :: "string set"
  ra_write_tools :: "string set"
  ra_allowed_tools :: "string list"

record board_binding =
  bb_name :: string
  bb_instance_host :: string
  bb_board_sys_id :: string
  bb_story_table :: string
  bb_task_table :: string
  bb_column_field :: string
  bb_swim_lane_field :: string
  bb_assignment_group :: string
  bb_allowed_task_assignment_groups :: "string list"
  bb_allowed_sprints :: "string list"
  bb_allow_production :: bool
  bb_allowed_story_states :: "string list"
  bb_allowed_task_states :: "string list"
  bb_allowed_priorities :: "string list"

record tool_policy =
  tp_enabled :: bool
  tp_requires_confirmation :: bool
  tp_requires_kb_evidence :: bool
  tp_field_allowlist :: "string set"
  tp_environments :: "string list"
  tp_confirmation_ttl_seconds :: "nat option"
  tp_max_records :: "nat option"
  tp_max_targets :: "nat option"
  tp_skip_terminal_records :: bool
  tp_story_board_id :: "string option"

definition tool_policy_default :: tool_policy where
  "tool_policy_default = \<lparr>tp_enabled = False, tp_requires_confirmation = True,
     tp_requires_kb_evidence = True, tp_field_allowlist = {},
     tp_environments = [''test'', ''training''], tp_confirmation_ttl_seconds = None,
     tp_max_records = None, tp_max_targets = None, tp_skip_terminal_records = False,
     tp_story_board_id = None\<rparr>"

record policy_config =
  pc_environment :: string
  pc_instance_timezone :: string
  pc_default_mode :: string
  pc_kb_freshness_days :: nat
  pc_idempotency_window_seconds :: nat
  pc_phi_in_work_notes :: string
  pc_confirmation_ttl_seconds_default :: nat
  pc_production_hosts :: "string list"
  pc_roles :: "(string, role_allow_list) btree"
  pc_boards :: "(string, board_binding) btree"
  pc_tools :: "(string, tool_policy) btree"

datatype board_policy_error =
    MissingToolPolicy string
  | MissingStoryBoardId string
  | UnknownBoard string string
  | ImplicitEnvironmentLabel string string
  | ProductionBoardNotAllowed string string
  | ProductionToolEnvironmentNotAllowed string string
  | ToolEnvironmentNotAllowed string string

datatype policy_gate =
    Authentication | Entitlement | SchemaValidation | EnvironmentGate | Resolution | KbEvidence
  | FieldAllowlist | BulkLimit | Idempotency | ConcurrencyToken | Confirmation | BusinessHours
  | RateLimit | ElevatedConfirmation | PhiRedaction | DisplayValueMatch

definition evaluation_order :: "policy_gate list" where
  "evaluation_order = [Authentication, Entitlement, SchemaValidation, EnvironmentGate, Resolution,
     KbEvidence, FieldAllowlist, BulkLimit, Idempotency, ConcurrencyToken, Confirmation,
     BusinessHours, RateLimit]"

fun gate_name :: "policy_gate \<Rightarrow> string" where
  "gate_name Authentication = ''Authentication''"
| "gate_name Entitlement = ''Entitlement''"
| "gate_name SchemaValidation = ''SchemaValidation''"
| "gate_name EnvironmentGate = ''EnvironmentGate''"
| "gate_name Resolution = ''Resolution''"
| "gate_name KbEvidence = ''KbEvidence''"
| "gate_name FieldAllowlist = ''FieldAllowlist''"
| "gate_name BulkLimit = ''BulkLimit''"
| "gate_name Idempotency = ''Idempotency''"
| "gate_name ConcurrencyToken = ''ConcurrencyToken''"
| "gate_name Confirmation = ''Confirmation''"
| "gate_name BusinessHours = ''BusinessHours''"
| "gate_name RateLimit = ''RateLimit''"
| "gate_name ElevatedConfirmation = ''ElevatedConfirmation''"
| "gate_name PhiRedaction = ''PhiRedaction''"
| "gate_name DisplayValueMatch = ''DisplayValueMatch''"

subsection \<open>Tool names\<close>

definition story_apply_create_fields :: "string list" where
  "story_apply_create_fields =
    [''short_description'', ''description'', ''acceptance_criteria'', ''cmdb_ci'',
     ''u_story_owner'', ''backlog_type'', ''sprint'', ''assignment_group'', ''parent'',
     ''vendor'', ''team'', ''release_scrum'', ''state'', ''u_impacted_users'',
     ''u_release_notes'', ''u_lead_dev'', ''u_division'', ''u_region'', ''u_location'',
     ''u_type'', ''u_moscow'', ''classification'', ''due_date'', ''u_desired_delivery_date'',
     ''product'', ''release'', ''project'', ''theme'', ''priority'', ''epic'',
     ''story_points'', ''u_points_est'', ''assigned_to'']"

definition story_apply_update_fields :: "string list" where
  "story_apply_update_fields =
    [''short_description'', ''description'', ''acceptance_criteria'', ''cmdb_ci'',
     ''u_story_owner'', ''sprint'', ''assignment_group'', ''parent'', ''vendor'', ''team'',
     ''release_scrum'', ''state'', ''u_impacted_users'', ''u_release_notes'', ''u_lead_dev'',
     ''u_division'', ''u_region'', ''u_location'', ''u_type'', ''u_moscow'',
     ''classification'', ''due_date'', ''u_desired_delivery_date'', ''product'', ''release'',
     ''project'', ''theme'', ''priority'', ''epic'', ''story_points'', ''u_points_est'',
     ''assigned_to'', ''percent_complete'']"

definition resource_plan_apply_create_fields :: "string list" where
  "resource_plan_apply_create_fields =
    [''task'', ''group_resource'', ''user_resource'', ''resource_type'', ''state'',
     ''planned_hours'', ''notes'', ''start_date'', ''end_date'']"

definition resource_plan_apply_update_fields :: "string list" where
  "resource_plan_apply_update_fields =
    [''planned_hours'', ''notes'', ''start_date'', ''end_date'']"

definition story_plan_tool_names :: "string list" where
  "story_plan_tool_names =
    [''story_plan_create'', ''story_plan_update'', ''story_task_plan_create'',
     ''story_task_plan_update'']"

definition story_apply_tool_names :: "string list" where
  "story_apply_tool_names =
    [''story_apply_create'', ''story_apply_update'', ''story_task_apply_create'',
     ''story_task_apply_update'']"

definition timecard_plan_tool_names :: "string list" where
  "timecard_plan_tool_names =
    [''timecard_plan_set_hours'']"

definition timecard_apply_tool_names :: "string list" where
  "timecard_apply_tool_names =
    [''timecard_apply_set_hours'']"

definition is_story_plan_tool :: "string \<Rightarrow> bool" where
  "is_story_plan_tool tool = (tool \<in> set story_plan_tool_names)"

definition is_story_apply_tool :: "string \<Rightarrow> bool" where
  "is_story_apply_tool tool = (tool \<in> set story_apply_tool_names)"

definition is_story_board_tool :: "string \<Rightarrow> bool" where
  "is_story_board_tool tool = (is_story_plan_tool tool \<or> is_story_apply_tool tool)"

definition is_timecard_plan_tool :: "string \<Rightarrow> bool" where
  "is_timecard_plan_tool tool = (tool \<in> set timecard_plan_tool_names)"

definition is_timecard_apply_tool :: "string \<Rightarrow> bool" where
  "is_timecard_apply_tool tool = (tool \<in> set timecard_apply_tool_names)"

definition is_write_tool :: "string \<Rightarrow> bool" where
  "is_write_tool tool =
     (str_contains ''_apply_'' tool \<or> str_contains ''_submit_'' tool
      \<or> tool \<in> set [''catalog_submit_request'', ''work_note_apply_add'',
           ''knowledge_apply_create_draft'', ''attachment_upload'', ''approval_approve'',
           ''approval_reject'', ''plan_cancel''])"

definition governed_story_tool_names :: "string list" where
  "governed_story_tool_names =
    [''story_plan_create'', ''story_apply_create'', ''story_plan_update'',
     ''story_apply_update'', ''story_task_plan_create'', ''story_task_apply_create'',
     ''story_task_plan_update'', ''story_task_apply_update'']"

definition governed_timecard_tool_names :: "string list" where
  "governed_timecard_tool_names =
    [''timecard_plan_set_hours'', ''timecard_apply_set_hours'']"

definition governed_work_note_tool_names :: "string list" where
  "governed_work_note_tool_names =
    [''work_note_plan_add'', ''work_note_apply_add'']"

definition governed_knowledge_tool_names :: "string list" where
  "governed_knowledge_tool_names =
    [''knowledge_plan_create_draft'', ''knowledge_apply_create_draft'']"

definition governed_attachment_tool_names :: "string list" where
  "governed_attachment_tool_names =
    [''attachment_upload'']"

definition governed_catalog_tool_names :: "string list" where
  "governed_catalog_tool_names =
    [''catalog_plan_request'', ''catalog_submit_request'']"

definition governed_approval_tool_names :: "string list" where
  "governed_approval_tool_names =
    [''approval_approve'', ''approval_reject'']"

definition governed_change_tool_names :: "string list" where
  "governed_change_tool_names =
    [''incident_plan_update'', ''incident_apply_update'', ''incident_bulk_plan_update'',
     ''incident_bulk_apply_update'', ''change_request_plan_create'',
     ''change_request_apply_create'', ''change_request_plan_update'',
     ''change_request_apply_update'', ''change_task_plan_create'',
     ''change_task_apply_create'', ''change_task_plan_update'', ''change_task_apply_update'']"

definition governed_resource_plan_tool_names :: "string list" where
  "governed_resource_plan_tool_names =
    [''resource_plan_plan_create'', ''resource_plan_apply_create'',
     ''resource_plan_plan_update'', ''resource_plan_apply_update'',
     ''resource_plan_plan_decision'', ''resource_plan_apply_decision'']"

definition is_governed_write_tool :: "string \<Rightarrow> bool" where
  "is_governed_write_tool tool =
     (tool \<in> set governed_story_tool_names \<or> tool \<in> set governed_timecard_tool_names
      \<or> tool \<in> set governed_work_note_tool_names \<or> tool \<in> set governed_knowledge_tool_names
      \<or> tool \<in> set governed_attachment_tool_names \<or> tool \<in> set governed_catalog_tool_names
      \<or> tool \<in> set governed_approval_tool_names \<or> tool \<in> set governed_change_tool_names
      \<or> tool \<in> set governed_resource_plan_tool_names)"

definition is_production_environment :: "string \<Rightarrow> bool" where
  "is_production_environment environment =
     list_ex (eq_ignore_case environment) [''prod'', ''prd'', ''production'']"

subsection \<open>Defaults\<close>

definition default_environment :: string where
  "default_environment = ''test''"

definition default_timezone :: string where
  "default_timezone = ''America/Chicago''"

definition default_mode :: string where
  "default_mode = ''read_only''"

definition default_kb_freshness_days :: nat where
  "default_kb_freshness_days = 365"

definition default_idempotency_window_seconds :: nat where
  "default_idempotency_window_seconds = 86400"

definition default_phi_in_work_notes :: string where
  "default_phi_in_work_notes = ''warn''"

definition default_confirmation_ttl_seconds :: nat where
  "default_confirmation_ttl_seconds = 600"

definition default_story_environments :: "string list" where
  "default_story_environments = [''test'', ''training'']"

definition role :: "string list \<Rightarrow> string list \<Rightarrow> role_allow_list" where
  "role read_tools write_tools =
     \<lparr>ra_read_tools = set read_tools, ra_write_tools = set write_tools,
      ra_allowed_tools = remdups_adj (sort (read_tools @ write_tools))\<rparr>"

definition default_roles_writers :: "(string \<times> role_allow_list) list" where
  "default_roles_writers =
    [(''developer'',
      role [''knowledge_search'', ''knowledge_fetch'', ''record_get'', ''record_search'',
           ''user_lookup'', ''user_search'', ''attachment_list'', ''get_work_notes'',
           ''work_note_plan_add'', ''resource_plan_get'', ''resource_plan_list'', ''story_get'',
           ''story_tasks_list'', ''user_lookup'', ''user_search'', ''story_plan_create'',
           ''story_plan_update'', ''story_task_plan_create'', ''story_task_plan_update'',
           ''timecard_list'', ''timecard_plan_set_hours'', ''policy_describe'', ''tool_capabilities'']
        []),
     (''knowledge_writer'',
      role [''knowledge_search'', ''knowledge_fetch'', ''list_knowledge_bases'', ''list_categories'',
           ''knowledge_plan_create_draft'', ''policy_describe'', ''tool_capabilities'']
        [''knowledge_apply_create_draft'']),
     (''story_writer'',
      role [''story_get'', ''story_tasks_list'', ''story_plan_create'', ''story_plan_update'',
           ''story_task_plan_create'', ''story_task_plan_update'', ''work_note_plan_add'']
        [''story_apply_create'', ''story_apply_update'', ''story_task_apply_create'',
         ''story_task_apply_update'', ''work_note_apply_add'']),
     (''timecard_writer'',
      role [''timecard_list'', ''timecard_plan_set_hours'', ''user_lookup'', ''user_search'']
        [''timecard_apply_set_hours''])]"

definition default_roles_rest :: "(string \<times> role_allow_list) list" where
  "default_roles_rest =
    [(''change_writer'',
      role [''get_record'', ''get_children'', ''get_work_notes'', ''user_lookup'', ''user_search'',
           ''attachment_list'', ''change_request_plan_create'', ''change_request_plan_update'',
           ''change_task_plan_create'', ''change_task_plan_update'', ''plan_get'',
           ''policy_describe'', ''tool_capabilities'']
        [''change_request_apply_create'', ''change_request_apply_update'',
         ''change_task_apply_create'', ''change_task_apply_update'', ''attachment_upload'',
         ''work_note_apply_add'']),
     (''resource_plan_writer'',
      role [''resource_plan_get'', ''resource_plan_list'', ''get_record'', ''user_lookup'',
           ''user_search'', ''resource_plan_plan_create'', ''resource_plan_plan_update'',
           ''resource_plan_plan_decision'', ''plan_get'', ''policy_describe'', ''tool_capabilities'']
        [''resource_plan_apply_create'', ''resource_plan_apply_update'',
         ''resource_plan_apply_decision'']),
     (''governance_reviewer'',
      role [''audit_event_get'', ''audit_events_search'', ''audit_chain_verify'', ''policy_describe'',
           ''tool_capabilities'', ''redaction_rules_describe'']
        []),
     (''mcp_administrator'',
      role [''audit_event_get'', ''audit_events_search'', ''audit_chain_verify'', ''policy_describe'',
           ''tool_capabilities'', ''redaction_rules_describe'']
        [])]"

definition default_roles :: "(string, role_allow_list) btree" where
  "default_roles = bt_of_list (default_roles_writers @ default_roles_rest)"

text \<open>The plan policies of the four pipelines are the same expression.\<close>

definition story_plan_policy :: tool_policy where
  "story_plan_policy = tool_policy_default\<lparr>tp_enabled := True, tp_requires_confirmation := False,
     tp_requires_kb_evidence := False, tp_environments := default_story_environments\<rparr>"

definition change_plan_policy :: tool_policy where
  "change_plan_policy = tool_policy_default\<lparr>tp_enabled := True, tp_requires_confirmation := False,
     tp_requires_kb_evidence := False, tp_environments := default_story_environments\<rparr>"

definition resource_plan_plan_policy :: tool_policy where
  "resource_plan_plan_policy = tool_policy_default\<lparr>tp_enabled := True,
     tp_requires_confirmation := False, tp_requires_kb_evidence := False,
     tp_environments := default_story_environments\<rparr>"

definition timecard_plan_policy :: tool_policy where
  "timecard_plan_policy = tool_policy_default\<lparr>tp_enabled := True, tp_requires_confirmation := False,
     tp_requires_kb_evidence := False, tp_environments := default_story_environments\<rparr>"

definition story_apply_policy :: "string list \<Rightarrow> tool_policy" where
  "story_apply_policy field_allowlist = tool_policy_default\<lparr>tp_enabled := False,
     tp_requires_confirmation := True, tp_requires_kb_evidence := False,
     tp_field_allowlist := set field_allowlist, tp_environments := default_story_environments,
     tp_confirmation_ttl_seconds := Some default_confirmation_ttl_seconds\<rparr>"

definition approval_action_policy :: tool_policy where
  "approval_action_policy = tool_policy_default\<lparr>tp_enabled := False,
     tp_requires_confirmation := True, tp_requires_kb_evidence := False,
     tp_environments := default_story_environments,
     tp_confirmation_ttl_seconds := Some default_confirmation_ttl_seconds\<rparr>"

definition change_apply_policy :: "string list \<Rightarrow> tool_policy" where
  "change_apply_policy field_allowlist = tool_policy_default\<lparr>tp_enabled := False,
     tp_requires_confirmation := True, tp_requires_kb_evidence := False,
     tp_field_allowlist := set field_allowlist, tp_environments := default_story_environments,
     tp_confirmation_ttl_seconds := Some default_confirmation_ttl_seconds,
     tp_skip_terminal_records := True\<rparr>"

definition incident_bulk_policy :: tool_policy where
  "incident_bulk_policy = tool_policy_default\<lparr>tp_enabled := False, tp_requires_confirmation := True,
     tp_requires_kb_evidence := False,
     tp_field_allowlist := set [''assigned_to'', ''assignment_group'', ''state'', ''work_notes'', ''comments''],
     tp_environments := [], tp_confirmation_ttl_seconds := Some 600, tp_max_targets := None\<rparr>"

definition resource_plan_apply_policy :: "string list \<Rightarrow> bool \<Rightarrow> tool_policy" where
  "resource_plan_apply_policy field_allowlist skip_terminal_records =
     tool_policy_default\<lparr>tp_enabled := False, tp_requires_confirmation := True,
       tp_requires_kb_evidence := False, tp_field_allowlist := set field_allowlist,
       tp_environments := default_story_environments,
       tp_confirmation_ttl_seconds := Some default_confirmation_ttl_seconds,
       tp_skip_terminal_records := skip_terminal_records\<rparr>"

definition timecard_apply_policy :: tool_policy where
  "timecard_apply_policy = tool_policy_default\<lparr>tp_enabled := False, tp_requires_confirmation := True,
     tp_requires_kb_evidence := False,
     tp_field_allowlist := set [''sunday'', ''monday'', ''tuesday'', ''wednesday'', ''thursday'',
       ''friday'', ''saturday''],
     tp_environments := default_story_environments,
     tp_confirmation_ttl_seconds := Some default_confirmation_ttl_seconds\<rparr>"

definition default_tools_story :: "(string \<times> tool_policy) list" where
  "default_tools_story =
    [(''story_plan_create'', story_plan_policy),
     (''story_plan_update'', story_plan_policy),
     (''story_task_plan_create'', story_plan_policy),
     (''story_task_plan_update'', story_plan_policy),
     (''story_apply_create'', story_apply_policy story_apply_create_fields),
     (''story_apply_update'', story_apply_policy story_apply_update_fields),
     (''story_task_apply_create'', story_apply_policy [''short_description'', ''description'', ''assigned_to'', ''priority'', ''due_date'',
       ''state'', ''planned_hours'', ''actual_hours'']),
     (''story_task_apply_update'', story_apply_policy [''short_description'', ''description'', ''assigned_to'', ''priority'', ''due_date'',
       ''state'', ''planned_hours'', ''actual_hours'', ''remaining_hours'', ''percent_complete'']),
     (''catalog_submit_request'', tool_policy_default\<lparr>tp_enabled := False,
        tp_requires_confirmation := True,
        tp_requires_kb_evidence := True,
        tp_environments := [''test'', ''training''],
        tp_confirmation_ttl_seconds := Some 600\<rparr>)]"

definition default_tools_actions :: "(string \<times> tool_policy) list" where
  "default_tools_actions =
    [(''attachment_list'', tool_policy_default\<lparr>tp_enabled := True,
        tp_requires_confirmation := False,
        tp_requires_kb_evidence := False,
        tp_environments := default_story_environments\<rparr>),
     (''attachment_upload'', tool_policy_default\<lparr>tp_enabled := False,
        tp_requires_confirmation := True,
        tp_requires_kb_evidence := False,
        tp_environments := default_story_environments,
        tp_confirmation_ttl_seconds := Some default_confirmation_ttl_seconds\<rparr>),
     (''approval_approve'', approval_action_policy),
     (''approval_reject'', approval_action_policy),
     (''incident_plan_update'', change_plan_policy),
     (''incident_apply_update'', change_apply_policy [''assigned_to'', ''assignment_group'', ''state'', ''work_notes'', ''comments'']),
     (''incident_bulk_plan_update'', incident_bulk_policy),
     (''incident_bulk_apply_update'', incident_bulk_policy),
     (''change_request_plan_create'', change_plan_policy),
     (''change_request_plan_update'', change_plan_policy),
     (''change_task_plan_create'', change_plan_policy),
     (''change_task_plan_update'', change_plan_policy)]"

definition default_tools_change :: "(string \<times> tool_policy) list" where
  "default_tools_change =
    [(''change_request_apply_create'', change_apply_policy [''short_description'', ''description'', ''type'', ''category'', ''contact_type'',
       ''assignment_group'', ''assigned_to'', ''cmdb_ci'', ''start_date'', ''end_date'',
       ''implementation_plan'', ''change_plan'', ''backout_plan'', ''test_plan'', ''risk'',
       ''impact'', ''justification'', ''requested_by'', ''requested_by_date'', ''u_subcategory'',
       ''u_division'', ''u_does_this_change_need_cmdb_update'', ''work_notes'']),
     (''change_request_apply_update'', change_apply_policy [''short_description'', ''description'', ''type'', ''category'', ''assignment_group'',
       ''assigned_to'', ''cmdb_ci'', ''start_date'', ''end_date'', ''implementation_plan'',
       ''change_plan'', ''backout_plan'', ''test_plan'', ''risk'', ''impact'', ''justification'',
       ''requested_by'', ''requested_by_date'', ''u_subcategory'', ''u_division'',
       ''u_does_this_change_need_cmdb_update'', ''state'', ''work_notes'']),
     (''change_task_apply_create'', change_apply_policy [''change_request'', ''short_description'', ''description'', ''assignment_group'',
       ''assigned_to'', ''cmdb_ci'', ''change_task_type'', ''planned_start_date'',
       ''planned_end_date'', ''due_date'', ''u_primary_tester'', ''start_date'', ''end_date'',
       ''state'', ''work_notes'']),
     (''change_task_apply_update'', change_apply_policy [''change_request'', ''short_description'', ''description'', ''assignment_group'',
       ''assigned_to'', ''cmdb_ci'', ''change_task_type'', ''planned_start_date'',
       ''planned_end_date'', ''due_date'', ''u_primary_tester'', ''start_date'', ''end_date'',
       ''state'', ''work_notes''])]"

definition default_tools_rest :: "(string \<times> tool_policy) list" where
  "default_tools_rest =
    [(''resource_plan_plan_create'', resource_plan_plan_policy),
     (''resource_plan_plan_update'', resource_plan_plan_policy),
     (''resource_plan_plan_decision'', resource_plan_plan_policy),
     (''resource_plan_apply_create'', resource_plan_apply_policy resource_plan_apply_create_fields False),
     (''resource_plan_apply_update'', resource_plan_apply_policy resource_plan_apply_update_fields True),
     (''resource_plan_apply_decision'', resource_plan_apply_policy [''state''] True),
     (''knowledge_plan_create_draft'', tool_policy_default\<lparr>tp_enabled := True,
        tp_requires_confirmation := False,
        tp_requires_kb_evidence := False,
        tp_field_allowlist := set [''short_description'', ''text'', ''kb_knowledge_base'', ''kb_category'',
         ''workflow_state''],
        tp_environments := [''test'', ''training'']\<rparr>),
     (''knowledge_apply_create_draft'', tool_policy_default\<lparr>tp_enabled := False,
        tp_requires_confirmation := True,
        tp_requires_kb_evidence := False,
        tp_field_allowlist := set [''short_description'', ''text'', ''kb_knowledge_base'', ''kb_category'',
         ''workflow_state''],
        tp_environments := [''test'', ''training''],
        tp_confirmation_ttl_seconds := Some 300\<rparr>),
     (''work_note_apply_add'', tool_policy_default\<lparr>tp_enabled := False,
        tp_requires_confirmation := True,
        tp_requires_kb_evidence := False,
        tp_field_allowlist := set [''work_notes''],
        tp_environments := [''test'', ''training''],
        tp_confirmation_ttl_seconds := Some 300\<rparr>),
     (''timecard_plan_set_hours'', timecard_plan_policy),
     (''timecard_apply_set_hours'', timecard_apply_policy)]"

definition default_tools_list :: "(string \<times> tool_policy) list" where
  "default_tools_list =
     default_tools_story @ default_tools_actions @ default_tools_change @ default_tools_rest"

definition default_tools :: "(string, tool_policy) btree" where
  "default_tools = bt_of_list default_tools_list"

definition read_only_default :: policy_config where
  "read_only_default = \<lparr>pc_environment = default_environment, pc_instance_timezone = default_timezone,
     pc_default_mode = default_mode, pc_kb_freshness_days = default_kb_freshness_days,
     pc_idempotency_window_seconds = default_idempotency_window_seconds,
     pc_phi_in_work_notes = default_phi_in_work_notes,
     pc_confirmation_ttl_seconds_default = default_confirmation_ttl_seconds,
     pc_production_hosts = [], pc_roles = default_roles, pc_boards = [], pc_tools = default_tools\<rparr>"

subsection \<open>Host names\<close>

definition trim_end_dots :: "string \<Rightarrow> string" where
  "trim_end_dots s = rev (dropWhile (\<lambda>c. c = CHR ''.'') (rev s))"

definition strip_scheme :: "string \<Rightarrow> string" where
  "strip_scheme value = (case strip_prefix ''https://'' value of
       Some rest \<Rightarrow> rest
     | None \<Rightarrow> (case strip_prefix ''http://'' value of Some rest \<Rightarrow> rest | None \<Rightarrow> value))"

definition ends_host :: "char \<Rightarrow> bool" where
  "ends_host c = (c \<in> set ''/?#'')"

definition normalize_instance_hostname :: "string \<Rightarrow> string option" where
  "normalize_instance_hostname input =
     (let lowered = to_lower (trim input)
      in if lowered = [] then None
         else let value = strip_scheme lowered;
                  host = trim_end_dots (trim (takeWhile (\<lambda>c. \<not> ends_host c) value))
              in if host = [] \<or> CHR ''@'' \<in> set host then None
                 else let h = trim (takeWhile (\<lambda>c. c \<noteq> CHR '':'') host)
                      in if h = [] then None else Some h)"

subsection \<open>Decisions\<close>

definition is_tool_enabled :: "policy_config \<Rightarrow> string \<Rightarrow> bool" where
  "is_tool_enabled cfg tool =
     (case bt_get (pc_tools cfg) tool of Some p \<Rightarrow> tp_enabled p | None \<Rightarrow> \<not> is_write_tool tool)"

definition tool_enabled_in_environment :: "policy_config \<Rightarrow> string \<Rightarrow> string \<Rightarrow> bool" where
  "tool_enabled_in_environment cfg tool environment =
     (case bt_get (pc_tools cfg) tool of
        None \<Rightarrow> \<not> is_write_tool tool
      | Some p \<Rightarrow> tp_enabled p
          \<and> (if is_write_tool tool
             then tp_environments p \<noteq> [] \<and> environment \<in> set (tp_environments p)
             else tp_environments p = [] \<or> environment \<in> set (tp_environments p)))"

record policy_describe_report =
  dr_environment :: string
  dr_default_mode :: string
  dr_roles :: "string list"
  dr_write_tools_enabled :: "string list"
  dr_kb_freshness_days :: nat
  dr_idempotency_window_seconds :: nat
  dr_phi_in_work_notes :: string
  dr_evaluation_order :: "string list"

definition policy_describe :: "policy_config \<Rightarrow> policy_describe_report" where
  "policy_describe cfg =
     \<lparr>dr_environment = pc_environment cfg, dr_default_mode = pc_default_mode cfg,
      dr_roles = bt_keys (pc_roles cfg),
      dr_write_tools_enabled = map fst (filter (\<lambda>(_, p). tp_enabled p) (pc_tools cfg)),
      dr_kb_freshness_days = pc_kb_freshness_days cfg,
      dr_idempotency_window_seconds = pc_idempotency_window_seconds cfg,
      dr_phi_in_work_notes = pc_phi_in_work_notes cfg,
      dr_evaluation_order = map gate_name evaluation_order\<rparr>"

definition resolve_tool_board_binding ::
  "policy_config \<Rightarrow> string \<Rightarrow> (board_policy_error, board_binding option) result" where
  "resolve_tool_board_binding cfg tool =
     (if \<not> is_story_board_tool tool then Inr None
      else case bt_get (pc_tools cfg) tool of
        None \<Rightarrow> Inl (MissingToolPolicy tool)
      | Some p \<Rightarrow> (case tp_story_board_id p of
            None \<Rightarrow> Inl (MissingStoryBoardId tool)
          | Some board_id \<Rightarrow> (case bt_get (pc_boards cfg) board_id of
                None \<Rightarrow> Inl (UnknownBoard tool board_id)
              | Some b \<Rightarrow> Inr (Some b))))"

definition validate_story_production_gate ::
  "policy_config \<Rightarrow> string \<Rightarrow> board_binding \<Rightarrow> (board_policy_error, unit) result" where
  "validate_story_production_gate cfg tool binding =
     (if \<not> is_story_apply_tool tool then Inr ()
      else if \<not> bb_allow_production binding
      then Inl (ProductionBoardNotAllowed tool (bb_board_sys_id binding))
      else case bt_get (pc_tools cfg) tool of
        None \<Rightarrow> Inl (MissingToolPolicy tool)
      | Some p \<Rightarrow> if \<not> list_ex is_production_environment (tp_environments p)
                  then Inl (ProductionToolEnvironmentNotAllowed tool (bb_board_sys_id binding))
                  else Inr ())"

definition is_story_production_context ::
  "policy_config \<Rightarrow> mcp_environment \<Rightarrow> board_binding \<Rightarrow> bool" where
  "is_story_production_context cfg environment binding =
     (if is_production_environment (me_label environment) then True
      else case normalize_instance_hostname (bb_instance_host binding) of
        None \<Rightarrow> False
      | Some host \<Rightarrow> host \<in> set (pc_production_hosts cfg))"

definition validate_story_board_policy ::
  "policy_config \<Rightarrow> string \<Rightarrow> mcp_environment \<Rightarrow> (board_policy_error, board_binding option) result" where
  "validate_story_board_policy cfg tool environment =
     bind_ok (resolve_tool_board_binding cfg tool) (\<lambda>resolved.
       case resolved of
         None \<Rightarrow> Inr None
       | Some binding \<Rightarrow>
           (let unrestricted = bb_allowed_sprints binding = []
            in if \<not> unrestricted \<and> is_story_apply_tool tool \<and> \<not> has_explicit_label_source environment
               then Inl (ImplicitEnvironmentLabel tool (me_label environment))
               else if \<not> unrestricted \<and> is_story_production_context cfg environment binding
               then bind_ok (validate_story_production_gate cfg tool binding) (\<lambda>_. Inr (Some binding))
               else Inr (Some binding)))"

definition validate_timecard_policy ::
  "policy_config \<Rightarrow> string \<Rightarrow> mcp_environment \<Rightarrow> (board_policy_error, unit) result" where
  "validate_timecard_policy cfg tool environment =
     (let label = me_label environment
      in if \<not> is_timecard_apply_tool tool then Inr ()
         else if \<not> has_explicit_label_source environment
         then Inl (ImplicitEnvironmentLabel tool label)
         else case bt_get (pc_tools cfg) tool of
           None \<Rightarrow> Inl (MissingToolPolicy tool)
         | Some p \<Rightarrow>
             if tp_environments p \<noteq> [] \<and> label \<notin> set (tp_environments p)
             then Inl (ToolEnvironmentNotAllowed tool label)
             else if is_production_environment label
                 \<and> \<not> list_ex is_production_environment (tp_environments p)
             then Inl (ProductionToolEnvironmentNotAllowed tool ''timecard'')
             else Inr ())"

definition resolve_role_allowlist :: "policy_config \<Rightarrow> string list \<Rightarrow> string set" where
  "resolve_role_allowlist cfg roles =
     foldl (\<lambda>tools r. case bt_get (pc_roles cfg) r of
         None \<Rightarrow> tools
       | Some l \<Rightarrow> tools \<union> ra_read_tools l \<union> ra_write_tools l \<union> set (ra_allowed_tools l)) {} roles"

subsection \<open>Loading\<close>

definition apply_board_key_defaults :: "policy_config \<Rightarrow> policy_config" where
  "apply_board_key_defaults cfg = cfg\<lparr>pc_boards :=
     map (\<lambda>(board_id, b). (board_id, if bb_board_sys_id b = [] then b\<lparr>bb_board_sys_id := board_id\<rparr> else b))
       (pc_boards cfg)\<rparr>"

definition bt_or_insert :: "'k::linorder \<Rightarrow> 'v \<Rightarrow> ('k, 'v) btree \<Rightarrow> ('k, 'v) btree" where
  "bt_or_insert k v m = (case bt_get m k of None \<Rightarrow> bt_insert k v m | Some _ \<Rightarrow> m)"

definition apply_missing_tool_defaults :: "policy_config \<Rightarrow> policy_config" where
  "apply_missing_tool_defaults cfg = cfg\<lparr>pc_tools :=
     fold (\<lambda>(tool, policy). bt_or_insert tool policy) default_tools (pc_tools cfg)\<rparr>"

definition normalize_production_hosts :: "policy_config \<Rightarrow> policy_config" where
  "normalize_production_hosts cfg = cfg\<lparr>pc_production_hosts :=
     remdups_adj (sort (List.map_filter normalize_instance_hostname (pc_production_hosts cfg)))\<rparr>"

text \<open>The fields a TOML file gives, \<open>None\<close> for an absent one.\<close>

record toml_tool_policy =
  tt_enabled :: "bool option"
  tt_requires_confirmation :: "bool option"
  tt_requires_kb_evidence :: "bool option"
  tt_field_allowlist :: "string set option"
  tt_environments :: "string list option"
  tt_confirmation_ttl_seconds :: "nat option"
  tt_max_records :: "nat option"
  tt_max_targets :: "nat option"
  tt_skip_terminal_records :: "bool option"
  tt_story_board_id :: "string option"

record toml_policy_config =
  tc_environment :: "string option"
  tc_instance_timezone :: "string option"
  tc_default_mode :: "string option"
  tc_kb_freshness_days :: "nat option"
  tc_idempotency_window_seconds :: "nat option"
  tc_phi_in_work_notes :: "string option"
  tc_confirmation_ttl_seconds_default :: "nat option"
  tc_production_hosts :: "string list option"
  tc_roles :: "(string, role_allow_list) btree option"
  tc_boards :: "(string, board_binding) btree option"
  tc_tools :: "(string, toml_tool_policy) btree option"

definition or_else :: "'a option \<Rightarrow> 'a \<Rightarrow> 'a" where
  "or_else x d = (case x of None \<Rightarrow> d | Some y \<Rightarrow> y)"

definition deserialize_max_targets :: "nat option \<Rightarrow> (string, nat option) result" where
  "deserialize_max_targets value = (case value of
       Some n \<Rightarrow> if \<not> (3 \<le> n \<and> n \<le> 25) then Inl ''max_targets must be between 3 and 25'' else Inr (Some n)
     | None \<Rightarrow> Inr None)"

definition decode_tool_policy :: "toml_tool_policy \<Rightarrow> (string, tool_policy) result" where
  "decode_tool_policy t = bind_ok (deserialize_max_targets (tt_max_targets t)) (\<lambda>max_targets.
     Inr \<lparr>tp_enabled = or_else (tt_enabled t) False,
          tp_requires_confirmation = or_else (tt_requires_confirmation t) False,
          tp_requires_kb_evidence = or_else (tt_requires_kb_evidence t) False,
          tp_field_allowlist = or_else (tt_field_allowlist t) {},
          tp_environments = or_else (tt_environments t) [],
          tp_confirmation_ttl_seconds = tt_confirmation_ttl_seconds t,
          tp_max_records = tt_max_records t,
          tp_max_targets = max_targets,
          tp_skip_terminal_records = or_else (tt_skip_terminal_records t) False,
          tp_story_board_id = tt_story_board_id t\<rparr>)"

fun decode_tools :: "(string, toml_tool_policy) btree \<Rightarrow> (string, (string, tool_policy) btree) result" where
  "decode_tools [] = Inr []"
| "decode_tools ((k, t) # ts) = bind_ok (decode_tool_policy t) (\<lambda>p.
     bind_ok (decode_tools ts) (\<lambda>ps. Inr ((k, p) # ps)))"

definition decode_policy_config :: "toml_policy_config \<Rightarrow> (string, policy_config) result" where
  "decode_policy_config t = bind_ok (decode_tools (or_else (tc_tools t) [])) (\<lambda>tools.
     Inr \<lparr>pc_environment = or_else (tc_environment t) default_environment,
          pc_instance_timezone = or_else (tc_instance_timezone t) default_timezone,
          pc_default_mode = or_else (tc_default_mode t) default_mode,
          pc_kb_freshness_days = or_else (tc_kb_freshness_days t) default_kb_freshness_days,
          pc_idempotency_window_seconds =
            or_else (tc_idempotency_window_seconds t) default_idempotency_window_seconds,
          pc_phi_in_work_notes = or_else (tc_phi_in_work_notes t) default_phi_in_work_notes,
          pc_confirmation_ttl_seconds_default =
            or_else (tc_confirmation_ttl_seconds_default t) default_confirmation_ttl_seconds,
          pc_production_hosts = or_else (tc_production_hosts t) [],
          pc_roles = or_else (tc_roles t) [],
          pc_boards = or_else (tc_boards t) [],
          pc_tools = tools\<rparr>)"

definition from_toml_str ::
  "(string \<Rightarrow> (string, toml_policy_config) result) \<Rightarrow> string \<Rightarrow> (string, policy_config) result" where
  "from_toml_str toml input = bind_ok (toml input) (\<lambda>t.
     bind_ok (decode_policy_config t) (\<lambda>cfg.
       Inr (normalize_production_hosts (apply_board_key_defaults (apply_missing_tool_defaults cfg)))))"

end
