(* ===== verification/Policy_Properties.thy ===== *)
theory Policy_Properties
  imports Policy
begin

text \<open>
  What the write policy guarantees: nothing is writable by default, the production gates, the merge
  of a file with the defaults, and host name normalisation.
\<close>

subsection \<open>Defaults\<close>

lemma default_tools_in: "bt_get default_tools tool = Some p \<Longrightarrow> (tool, p) \<in> set default_tools_list"
  unfolding default_tools_def by (rule bt_get_of_list_in)

lemma default_write_entries_disabled:
  "list_all (\<lambda>(tool, p). is_write_tool tool \<longrightarrow> \<not> tp_enabled p \<and> tp_requires_confirmation p)
     default_tools_list"
  by code_simp

lemma default_enabled_read_entries:
  "list_all (\<lambda>(tool, p). tp_enabled p \<longrightarrow> \<not> is_write_tool tool
      \<and> set (tp_environments p) = set default_story_environments) default_tools_list"
  by code_simp

lemma default_denies_writes_entry:
  assumes "bt_get default_tools tool = Some p" "is_write_tool tool" shows "\<not> tp_enabled p"
proof -
  have "(\<lambda>(tool, p). is_write_tool tool \<longrightarrow> \<not> tp_enabled p \<and> tp_requires_confirmation p) (tool, p)"
    using default_write_entries_disabled default_tools_in [OF assms(1)]
    unfolding list_all_iff by (rule bspec)
  with assms(2) show ?thesis by simp
qed

text \<open>
  read only by default. Under the default configuration no write tool is enabled, in no
  environment and under no name, known or not; and every tool the default enables by name is a read
  or plan tool limited to the environments test and training.
\<close>

theorem default_denies_writes:
  "(is_write_tool tool \<longrightarrow> \<not> is_tool_enabled read_only_default tool
      \<and> \<not> tool_enabled_in_environment read_only_default tool environment)
   \<and> (tool_enabled_in_environment read_only_default tool environment
        \<and> bt_get default_tools tool \<noteq> None \<longrightarrow> environment \<in> set default_story_environments)"
proof (cases "bt_get default_tools tool")
  case None
  then show ?thesis
    by (simp add: is_tool_enabled_def tool_enabled_in_environment_def read_only_default_def)
next
  case (Some p)
  note entry = default_tools_in [OF Some]
  have "is_write_tool tool \<longrightarrow> \<not> tp_enabled p"
    using default_denies_writes_entry [OF Some] by blast
  moreover have "(\<lambda>(tool, p). tp_enabled p \<longrightarrow> \<not> is_write_tool tool
      \<and> set (tp_environments p) = set default_story_environments) (tool, p)"
    using default_enabled_read_entries entry unfolding list_all_iff by (rule bspec)
  ultimately have "is_write_tool tool \<longrightarrow> \<not> tp_enabled p"
    and envs: "tp_enabled p \<Longrightarrow> set (tp_environments p) = set default_story_environments"
    by simp_all
  moreover have "tp_environments p \<noteq> []" if "tp_enabled p"
  proof
    assume "tp_environments p = []"
    with envs [OF that] show False by (simp add: default_story_environments_def)
  qed
  ultimately show ?thesis
    using Some
    by (cases "tp_enabled p")
       (simp_all add: is_tool_enabled_def tool_enabled_in_environment_def read_only_default_def)
qed

theorem default_denies_writes_witness:
  "\<not> tool_enabled_in_environment read_only_default ''story_apply_create'' ''test''"
proof -
  have "is_write_tool ''story_apply_create''" by code_simp
  with default_denies_writes [of "''story_apply_create''" "''test''"] show ?thesis by simp
qed

subsection \<open>Governed tools\<close>

definition is_plan_name :: "string \<Rightarrow> bool" where
  "is_plan_name tool = str_contains ''_plan_'' tool"

text \<open>
  no governed tool escapes the write rules. Every tool of the governed lists is either named as
  a plan step or counted as a write tool; the board and timecard apply tools are governed write
  tools, and the board plan tools are governed and not write tools.
\<close>

theorem governed_tools_classified:
  "(is_governed_write_tool tool \<longrightarrow> is_write_tool tool \<or> is_plan_name tool)
   \<and> (is_story_apply_tool tool \<or> is_timecard_apply_tool tool \<longrightarrow>
        is_governed_write_tool tool \<and> is_write_tool tool)
   \<and> (is_story_plan_tool tool \<longrightarrow> is_governed_write_tool tool \<and> \<not> is_write_tool tool)"
proof -
  have "list_all (\<lambda>t. is_write_tool t \<or> is_plan_name t)
     (governed_story_tool_names @ governed_timecard_tool_names @ governed_work_note_tool_names
      @ governed_knowledge_tool_names @ governed_attachment_tool_names @ governed_catalog_tool_names
      @ governed_approval_tool_names @ governed_change_tool_names @ governed_resource_plan_tool_names)"
    by code_simp
  moreover have "list_all (\<lambda>t. is_governed_write_tool t \<and> is_write_tool t)
     (story_apply_tool_names @ timecard_apply_tool_names)"
    by code_simp
  moreover have "list_all (\<lambda>t. is_governed_write_tool t \<and> \<not> is_write_tool t) story_plan_tool_names"
    by code_simp
  ultimately show ?thesis
    by (auto simp: list_all_iff is_governed_write_tool_def is_story_apply_tool_def
        is_timecard_apply_tool_def is_story_plan_tool_def)
qed

theorem governed_tools_classified_witness:
  "is_write_tool ''attachment_upload'' \<or> is_plan_name ''attachment_upload''"
proof -
  have "is_governed_write_tool ''attachment_upload''" by code_simp
  with governed_tools_classified [of "''attachment_upload''"] show ?thesis by simp
qed

subsection \<open>Story boards and production\<close>

lemma resolve_board_story:
  "resolve_tool_board_binding cfg tool = Inr None \<longleftrightarrow> \<not> is_story_board_tool tool"
  by (simp add: resolve_tool_board_binding_def split: option.splits)

lemma resolve_board_Some:
  "resolve_tool_board_binding cfg tool = Inr (Some b) \<longleftrightarrow>
     is_story_board_tool tool \<and> (\<exists>p i. bt_get (pc_tools cfg) tool = Some p
       \<and> tp_story_board_id p = Some i \<and> bt_get (pc_boards cfg) i = Some b)"
  by (auto simp: resolve_tool_board_binding_def split: option.splits)

lemma production_gate_ok:
  "validate_story_production_gate cfg tool b = Inr () \<longleftrightarrow>
     (is_story_apply_tool tool \<longrightarrow> bb_allow_production b
        \<and> (\<exists>p. bt_get (pc_tools cfg) tool = Some p
             \<and> list_ex is_production_environment (tp_environments p)))"
  by (auto simp: validate_story_production_gate_def split: option.splits)

text \<open>
  the production gate. A story apply tool passes the board policy with a board exactly when its
  policy names that board and, unless the board lists no sprint, the environment label is explicit
  and, in a production context (by label, or by the host of the board), the board allows production
  and the tool lists a production environment.
\<close>

theorem story_apply_board_gate:
  assumes "is_story_apply_tool tool"
  shows "validate_story_board_policy cfg tool env = Inr (Some b) \<longleftrightarrow>
    (\<exists>p i. bt_get (pc_tools cfg) tool = Some p \<and> tp_story_board_id p = Some i
       \<and> bt_get (pc_boards cfg) i = Some b
       \<and> (bb_allowed_sprints b \<noteq> [] \<longrightarrow> has_explicit_label_source env
            \<and> (is_story_production_context cfg env b \<longrightarrow>
                 bb_allow_production b \<and> list_ex is_production_environment (tp_environments p))))"
proof -
  have board: "is_story_board_tool tool" using assms by (simp add: is_story_board_tool_def)
  have "validate_story_board_policy cfg tool env = Inr (Some b) \<longleftrightarrow>
      resolve_tool_board_binding cfg tool = Inr (Some b)
      \<and> (bb_allowed_sprints b \<noteq> [] \<longrightarrow> has_explicit_label_source env
            \<and> (is_story_production_context cfg env b \<longrightarrow>
                 validate_story_production_gate cfg tool b = Inr ()))"
  proof (cases "resolve_tool_board_binding cfg tool")
    case (Inr x)
    then show ?thesis
    proof (cases x)
      case None
      with Inr show ?thesis by (simp add: validate_story_board_policy_def)
    next
      case (Some c)
      with Inr assms show ?thesis
        by (cases "validate_story_production_gate cfg tool c")
           (auto simp: validate_story_board_policy_def Let_def)
    qed
  qed (simp add: validate_story_board_policy_def)
  then show ?thesis
    using assms by (auto simp: resolve_board_Some production_gate_ok board)
qed

definition demo_board :: board_binding where
  "demo_board = \<lparr>bb_name = ''Team'', bb_instance_host = ''https://PROD.example.com/nav'',
     bb_board_sys_id = ''b1'', bb_story_table = ''rm_story'', bb_task_table = ''rm_scrum_task'',
     bb_column_field = ''state'', bb_swim_lane_field = ''assigned_to'', bb_assignment_group = ''Squad'',
     bb_allowed_task_assignment_groups = [], bb_allowed_sprints = [''Sprint 1''],
     bb_allow_production = False, bb_allowed_story_states = [], bb_allowed_task_states = [],
     bb_allowed_priorities = []\<rparr>"

definition demo_policy :: policy_config where
  "demo_policy = \<lparr>pc_environment = ''test'', pc_instance_timezone = ''UTC'',
     pc_default_mode = ''read_only'', pc_kb_freshness_days = 365,
     pc_idempotency_window_seconds = 86400, pc_phi_in_work_notes = ''warn'',
     pc_confirmation_ttl_seconds_default = 600, pc_production_hosts = [''prod.example.com''],
     pc_roles = [], pc_boards = [(''b1'', demo_board)],
     pc_tools = [(''story_apply_create'', (story_apply_policy [''state''])\<lparr>tp_enabled := True,
       tp_story_board_id := Some ''b1''\<rparr>)]\<rparr>"

theorem story_apply_board_gate_witness:
  "\<not> bb_allow_production demo_board
   \<and> validate_story_board_policy demo_policy ''story_apply_create'' (env_snow_env ''test'' ''UTC'')
     \<noteq> Inr (Some demo_board)"
proof -
  have "is_story_apply_tool ''story_apply_create''" by code_simp
  moreover have "bb_allowed_sprints demo_board \<noteq> [] \<and> \<not> bb_allow_production demo_board" by code_simp
  moreover have "normalize_instance_hostname ''https://PROD.example.com/nav'' = Some ''prod.example.com''"
    by code_simp
  then have "is_story_production_context demo_policy (env_snow_env ''test'' ''UTC'') demo_board"
    by (simp add: is_story_production_context_def demo_board_def demo_policy_def)
  ultimately show ?thesis by (auto simp: story_apply_board_gate)
qed

text \<open>
  the timecard gate. A timecard apply passes exactly when the label is explicit, the tool has a
  policy whose environments (if any are listed) contain the label, and a production label meets a
  listed production environment; other tools always pass.
\<close>

theorem timecard_gate:
  "validate_timecard_policy cfg tool env = Inr () \<longleftrightarrow>
     (is_timecard_apply_tool tool \<longrightarrow> has_explicit_label_source env
        \<and> (\<exists>p. bt_get (pc_tools cfg) tool = Some p
             \<and> (tp_environments p = [] \<or> me_label env \<in> set (tp_environments p))
             \<and> (is_production_environment (me_label env) \<longrightarrow>
                  list_ex is_production_environment (tp_environments p))))"
  by (auto simp: validate_timecard_policy_def Let_def split: option.splits)

theorem timecard_gate_witness:
  "validate_timecard_policy read_only_default ''timecard_apply_set_hours'' mcp_environment_default \<noteq> Inr ()"
proof -
  have "is_timecard_apply_tool ''timecard_apply_set_hours''
      \<and> \<not> has_explicit_label_source mcp_environment_default" by code_simp
  then show ?thesis
    using timecard_gate [of read_only_default "''timecard_apply_set_hours''" mcp_environment_default]
    by simp
qed

subsection \<open>Loading a file\<close>

lemma bt_or_insert_wf [simp]: "bt_wf m \<Longrightarrow> bt_wf (bt_or_insert k v m)"
  by (simp add: bt_or_insert_def split: option.splits)

lemma bt_get_or_insert: "bt_wf m \<Longrightarrow>
    bt_get (bt_or_insert k v m) j = (case bt_get m j of Some x \<Rightarrow> Some x | None \<Rightarrow> if j = k then Some v else None)"
  by (auto simp: bt_or_insert_def bt_get_insert split: option.splits)

lemma bt_get_fold_or_insert:
  assumes "bt_wf m"
  shows "bt_get (fold (\<lambda>(k, v). bt_or_insert k v) d m) j
     = (case bt_get m j of Some x \<Rightarrow> Some x | None \<Rightarrow> bt_get d j)"
  using assms
proof (induction d arbitrary: m)
  case (Cons x d)
  then show ?case
    by (cases x) (auto simp: bt_get_or_insert bt_get_Cons split: option.splits)
qed (simp split: option.splits)

lemma decode_tools_get:
  "decode_tools ts = Inr ps \<Longrightarrow> map fst ps = map fst ts
     \<and> (\<forall>k. bt_get ps k = (case bt_get ts k of None \<Rightarrow> None
                           | Some t \<Rightarrow> (case decode_tool_policy t of Inl _ \<Rightarrow> None | Inr p \<Rightarrow> Some p)))"
proof (induction ts arbitrary: ps)
  case (Cons x ts)
  obtain k t where x: "x = (k, t)" by (cases x)
  obtain p qs where "decode_tool_policy t = Inr p" "decode_tools ts = Inr qs" "ps = (k, p) # qs"
    using Cons.prems by (auto simp: x bind_ok_Inr)
  with Cons.IH [of qs] show ?case by (simp add: x bt_get_def)
qed simp

lemma decode_tool_policy_ok:
  "decode_tool_policy t = Inr p \<Longrightarrow> (\<forall>n. tp_max_targets p = Some n \<longrightarrow> 3 \<le> n \<and> n \<le> 25)
     \<and> tp_enabled p = or_else (tt_enabled t) False \<and> tp_environments p = or_else (tt_environments t) []
     \<and> tp_field_allowlist p = or_else (tt_field_allowlist t) {}
     \<and> tp_requires_confirmation p = or_else (tt_requires_confirmation t) False"
  by (auto simp: decode_tool_policy_def deserialize_max_targets_def bind_ok_Inr
      split: option.splits if_splits)

lemma load_simps [simp]:
  "pc_tools (normalize_production_hosts c) = pc_tools c"
  "pc_tools (apply_board_key_defaults c) = pc_tools c"
  "pc_boards (normalize_production_hosts c) = pc_boards c"
  "pc_boards (apply_missing_tool_defaults c) = pc_boards c"
  "pc_production_hosts (apply_board_key_defaults c) = pc_production_hosts c"
  "pc_production_hosts (apply_missing_tool_defaults c) = pc_production_hosts c"
  by (simp_all add: normalize_production_hosts_def apply_board_key_defaults_def
      apply_missing_tool_defaults_def)

text \<open>
  loading a policy file. The table of a loaded policy holds, for every tool, the entry of the
  file if the file has one (with the documented bounds 3 to 25 on \<open>max_targets\<close>, else loading
  fails) and the built-in entry otherwise; and a write tool that the file enables without naming an
  environment stays disabled in every environment, since a file entry replaces the built-in one
  whole.
\<close>

theorem load_policy_tools:
  assumes "from_toml_str toml input = Inr cfg" and "toml input = Inr t"
    and "bt_wf (or_else (tc_tools t) [])"
  shows "(case bt_get (or_else (tc_tools t) []) tool of
       None \<Rightarrow> bt_get (pc_tools cfg) tool = bt_get default_tools tool
     | Some e \<Rightarrow> (\<exists>p. decode_tool_policy e = Inr p \<and> bt_get (pc_tools cfg) tool = Some p
          \<and> (\<forall>n. tp_max_targets p = Some n \<longrightarrow> 3 \<le> n \<and> n \<le> 25)
          \<and> (tt_environments e = None \<and> is_write_tool tool \<longrightarrow>
               (\<forall>env. \<not> tool_enabled_in_environment cfg tool env))))"
proof -
  let ?ts = "or_else (tc_tools t) []"
  obtain c where c: "decode_policy_config t = Inr c"
    and cfg: "cfg = normalize_production_hosts (apply_board_key_defaults (apply_missing_tool_defaults c))"
    using assms(1,2) by (auto simp: from_toml_str_def bind_ok_Inr)
  from c have ps: "decode_tools ?ts = Inr (pc_tools c)"
    by (auto simp: decode_policy_config_def bind_ok_Inr)
  note get = decode_tools_get [OF ps]
  have "bt_wf (pc_tools c)" using get assms(3) by (simp add: bt_wf_def)
  then have tools: "bt_get (pc_tools cfg) tool
      = (case bt_get (pc_tools c) tool of Some x \<Rightarrow> Some x | None \<Rightarrow> bt_get default_tools tool)"
    by (simp add: cfg apply_missing_tool_defaults_def bt_get_fold_or_insert)
  show ?thesis
  proof (cases "bt_get ?ts tool")
    case None
    with get tools show ?thesis by simp
  next
    case (Some e)
    obtain p where p: "decode_tool_policy e = Inr p"
    proof (cases "decode_tool_policy e")
      case (Inl a)
      have "tool \<in> set (map fst ?ts)" using Some by (force simp: bt_get_def dest: map_of_SomeD)
      then have "tool \<in> set (map fst (pc_tools c))" using get by simp
      then have "bt_get (pc_tools c) tool \<noteq> None"
        by (simp add: bt_get_def map_of_eq_None_iff)
      with get Some Inl show thesis by simp
    qed (rule that)
    then have "bt_get (pc_tools cfg) tool = Some p" using get tools Some by simp
    then show ?thesis
      using Some p decode_tool_policy_ok [OF p]
      by (auto simp: tool_enabled_in_environment_def or_else_def)
  qed
qed

definition demo_toml :: toml_policy_config where
  "demo_toml = \<lparr>tc_environment = None, tc_instance_timezone = None, tc_default_mode = None,
     tc_kb_freshness_days = None, tc_idempotency_window_seconds = None, tc_phi_in_work_notes = None,
     tc_confirmation_ttl_seconds_default = None, tc_production_hosts = None, tc_roles = None,
     tc_boards = None, tc_tools = Some [(''story_apply_update'', \<lparr>tt_enabled = Some True,
       tt_requires_confirmation = None, tt_requires_kb_evidence = None, tt_field_allowlist = None,
       tt_environments = None, tt_confirmation_ttl_seconds = None, tt_max_records = None,
       tt_max_targets = None, tt_skip_terminal_records = None, tt_story_board_id = None\<rparr>)]\<rparr>"

theorem load_policy_tools_witness:
  "\<exists>cfg. from_toml_str (\<lambda>_. Inr demo_toml) ''policy'' = Inr cfg
     \<and> is_tool_enabled cfg ''story_apply_update''
     \<and> (\<forall>env. \<not> tool_enabled_in_environment cfg ''story_apply_update'' env)"
proof -
  obtain cfg where cfg: "from_toml_str (\<lambda>_. Inr demo_toml) ''policy'' = Inr cfg"
    by (simp add: from_toml_str_def decode_policy_config_def demo_toml_def or_else_def
        decode_tool_policy_def deserialize_max_targets_def)
  have wf: "bt_wf (or_else (tc_tools demo_toml) [])"
    by (simp add: demo_toml_def or_else_def bt_wf_def)
  have "is_write_tool ''story_apply_update''" by code_simp
  with load_policy_tools [OF cfg refl wf, of "''story_apply_update''"] cfg show ?thesis
    by (auto simp: demo_toml_def or_else_def bt_get_def is_tool_enabled_def decode_tool_policy_def
        deserialize_max_targets_def)
qed

subsection \<open>Host names\<close>

lemma trim_no_ws: "(\<And>c. c \<in> set s \<Longrightarrow> \<not> is_ws c) \<Longrightarrow> trim s = s"
proof -
  assume a: "\<And>c. c \<in> set s \<Longrightarrow> \<not> is_ws c"
  then have "dropWhile is_ws s = s" by (cases s) simp_all
  moreover have "dropWhile is_ws (rev s) = rev s" using a by (cases s rule: rev_cases) simp_all
  ultimately show ?thesis by (simp add: trim_def)
qed

lemma lower_all_set: "c \<in> set (to_lower s) \<Longrightarrow> lower_char c = c"
  by (auto simp: to_lower_def)

lemma to_lower_id: "(\<And>c. c \<in> set s \<Longrightarrow> lower_char c = c) \<Longrightarrow> to_lower s = s"
  by (simp add: to_lower_def map_idI)

lemma set_trim_end_dots: "set (trim_end_dots s) \<subseteq> set s"
  by (auto simp: trim_end_dots_def dest: set_dropWhileD)

lemma set_strip_scheme: "set (strip_scheme s) \<subseteq> set s"
  by (auto simp: strip_scheme_def strip_prefix_def split: option.splits dest: in_set_dropD)

text \<open>
  normal host names. What normalisation returns is a non-empty, trimmed, lower-case string
  without path, query, fragment, port or user part.
\<close>

theorem hostname_normal_form:
  assumes "normalize_instance_hostname input = Some h"
  shows "h \<noteq> [] \<and> to_lower h = h \<and> trim h = h \<and> set h \<inter> set ''/?#:@'' = {}"
proof -
  define val where "val = strip_scheme (to_lower (trim input))"
  define host where "host = trim_end_dots (trim (takeWhile (\<lambda>c. \<not> ends_host c) val))"
  have h: "h = trim (takeWhile (\<lambda>c. c \<noteq> CHR '':'') host)" "h \<noteq> []" "CHR ''@'' \<notin> set host"
    using assms
    by (auto simp: normalize_instance_hostname_def val_def host_def Let_def split: if_splits)
  have in_host: "set host \<subseteq> set (takeWhile (\<lambda>c. \<not> ends_host c) val)"
    unfolding host_def using set_trim_end_dots set_trim_subset by blast
  have in_h: "set h \<subseteq> set (takeWhile (\<lambda>c. c \<noteq> CHR '':'') host)"
    unfolding h(1) by (rule set_trim_subset)
  have "c \<in> set (to_lower (trim input)) \<and> \<not> ends_host c \<and> c \<noteq> CHR '':'' \<and> c \<noteq> CHR ''@''"
    if "c \<in> set h" for c
  proof -
    have c: "c \<in> set (takeWhile (\<lambda>c. c \<noteq> CHR '':'') host)" using in_h that by blast
    then have "c \<noteq> CHR '':''" "c \<in> set host" by (auto dest: set_takeWhileD)
    moreover from this in_host have "c \<in> set (takeWhile (\<lambda>c. \<not> ends_host c) val)" by blast
    then have "\<not> ends_host c" "c \<in> set val" using set_takeWhileD by fast+
    moreover have "c \<noteq> CHR ''@''" using h(3) \<open>c \<in> set host\<close> by blast
    ultimately show ?thesis using set_strip_scheme by (auto simp: val_def)
  qed
  then have "\<forall>c \<in> set h. lower_char c = c \<and> c \<notin> set ''/?#:@''"
    using lower_all_set by (fastforce simp: ends_host_def)
  then show ?thesis using h(1,2) by (auto intro: to_lower_id)
qed

theorem hostname_normal_form_witness:
  "normalize_instance_hostname '' HTTPS://Prod.Example.com:443/nav?x '' = Some ''prod.example.com''
   \<and> to_lower ''prod.example.com'' = ''prod.example.com''"
proof -
  have "normalize_instance_hostname '' HTTPS://Prod.Example.com:443/nav?x '' = Some ''prod.example.com''"
    by code_simp
  from this hostname_normal_form [OF this] show ?thesis by blast
qed

definition plain_char :: "char \<Rightarrow> bool" where
  "plain_char c = (lower_char c = c \<and> \<not> is_ws c \<and> c \<notin> set ''/?#:@'')"

definition plain_host :: "string \<Rightarrow> bool" where
  "plain_host h = (h \<noteq> [] \<and> list_all plain_char h \<and> last h \<noteq> CHR ''.'')"

lemma trim_end_dots_snoc [simp]:
  "trim_end_dots (s @ [c]) = (if c = CHR ''.'' then trim_end_dots s else s @ [c])"
  by (simp add: trim_end_dots_def)

lemma trim_end_dots_id: "s \<noteq> [] \<Longrightarrow> last s \<noteq> CHR ''.'' \<Longrightarrow> trim_end_dots s = s"
  by (cases s rule: rev_cases) simp_all

lemma strip_scheme_id: "CHR ''/'' \<notin> set s \<Longrightarrow> strip_scheme s = s"
  by (auto simp: strip_scheme_def strip_prefix_def prefix_def)

lemma normalize_plain:
  assumes "\<And>c. c \<in> set s \<Longrightarrow> plain_char c \<or> c = CHR '':''" and "s \<noteq> []"
  shows "normalize_instance_hostname s =
    (let host = trim_end_dots s; h = takeWhile (\<lambda>c. c \<noteq> CHR '':'') host
     in if host = [] \<or> h = [] then None else Some h)"
proof -
  have colon: "lower_char CHR '':'' = CHR '':''" "\<not> is_ws CHR '':''" by code_simp+
  have chars: "\<And>c. c \<in> set s \<Longrightarrow> lower_char c = c \<and> \<not> is_ws c \<and> \<not> ends_host c \<and> c \<noteq> CHR ''@'' \<and> c \<noteq> CHR ''/''"
    using assms(1) colon by (fastforce simp: plain_char_def ends_host_def)
  have ids: "trim s = s" "to_lower s = s" using chars by (auto intro: trim_no_ws to_lower_id)
  have ss: "strip_scheme s = s" using chars by (intro strip_scheme_id) fastforce
  have tw: "takeWhile (\<lambda>c. \<not> ends_host c) s = s"
    using chars by (intro takeWhile_eq_all_conv [THEN iffD2]) fastforce
  have sub: "set (trim_end_dots s) \<subseteq> set s" by (rule set_trim_end_dots)
  then have at: "CHR ''@'' \<notin> set (trim_end_dots s)" using chars by fastforce
  have tr: "trim (takeWhile (\<lambda>c. c \<noteq> CHR '':'') (trim_end_dots s))
      = takeWhile (\<lambda>c. c \<noteq> CHR '':'') (trim_end_dots s)"
    using chars sub by (intro trim_no_ws) (meson set_takeWhileD subsetD)
  show ?thesis
    using assms(2) by (simp add: normalize_instance_hostname_def Let_def ids ss tw at tr)
qed

text \<open>
  the trailing dot before a port. For a plain host name, the name alone, with a port, and with
  the trailing dot of a fully qualified name all normalise to the name; with both the dot and a
  port, the dot stays. A board whose URL is written that way is not recognised as a production
  host that the configuration lists.
\<close>

theorem hostname_dot_port:
  assumes "plain_host h" and "port \<noteq> []" and "list_all is_digit port"
  shows "normalize_instance_hostname h = Some h
    \<and> normalize_instance_hostname (h @ '':'' @ port) = Some h
    \<and> normalize_instance_hostname (h @ ''.'') = Some h
    \<and> normalize_instance_hostname (h @ ''.:'' @ port) = Some (h @ ''.'')"
proof -
  have h: "h \<noteq> []" "\<And>c. c \<in> set h \<Longrightarrow> plain_char c" "last h \<noteq> CHR ''.''"
    using assms(1) by (auto simp: plain_host_def list_all_iff)
  have dot: "plain_char CHR ''.''" by code_simp
  have digit: "plain_char c \<and> c \<noteq> CHR ''.''" if "c \<in> set port" for c
  proof -
    have "is_digit c" using assms(3) that by (simp add: list_all_iff)
    then show ?thesis
      by (auto simp: plain_char_def is_digit_def is_ws_def lower_char_def char_code_def Let_def)
  qed
  have plain: "takeWhile (\<lambda>c. c \<noteq> CHR '':'') h = h"
    using h(2) by (intro takeWhile_eq_all_conv [THEN iffD2]) (auto simp: plain_char_def)
  have last_port: "last port \<in> set port" using assms(2) by simp
  have take: "takeWhile (\<lambda>c. c \<noteq> CHR '':'') (h @ CHR '':'' # port) = h"
    "takeWhile (\<lambda>c. c \<noteq> CHR '':'') (h @ CHR ''.'' # CHR '':'' # port) = h @ ''.''"
    using h(2) by (auto simp: takeWhile_append plain plain_char_def)
  have "normalize_instance_hostname h = Some h"
    using h by (subst normalize_plain) (auto simp: trim_end_dots_id plain)
  moreover have "normalize_instance_hostname (h @ '':'' @ port) = Some h"
    using h digit digit [OF last_port] assms(2)
    by (subst normalize_plain) (auto simp: trim_end_dots_id take)
  moreover have "normalize_instance_hostname (h @ ''.'') = Some h"
    using h dot by (subst normalize_plain) (auto simp: trim_end_dots_id plain)
  moreover have "normalize_instance_hostname (h @ ''.:'' @ port) = Some (h @ ''.'')"
    using h dot digit digit [OF last_port] assms(2)
    by (subst normalize_plain) (auto simp: trim_end_dots_id take)
  ultimately show ?thesis by blast
qed

theorem hostname_dot_port_witness:
  "\<not> is_story_production_context demo_policy (env_snow_env ''test'' ''UTC'')
      (demo_board\<lparr>bb_instance_host := ''prod.example.com.:443''\<rparr>)
   \<and> is_story_production_context demo_policy (env_snow_env ''test'' ''UTC'')
      (demo_board\<lparr>bb_instance_host := ''prod.example.com:443''\<rparr>)"
proof -
  have "plain_host ''prod.example.com''" "(''443'' :: string) \<noteq> []" "list_all is_digit ''443''"
    by code_simp+
  note spec = hostname_dot_port [OF this]
  have "\<not> is_production_environment (me_label (env_snow_env ''test'' ''UTC''))" by code_simp
  then show ?thesis using spec by (simp add: is_story_production_context_def demo_policy_def)
qed

subsection \<open>The report\<close>

text \<open>
  what the policy report calls enabled write tools. Under the default configuration the field
  \<open>write_tools_enabled\<close> is not empty, and every name in it is a tool that is not a write tool.
\<close>

theorem describe_lists_read_tools:
  "dr_write_tools_enabled (policy_describe read_only_default) \<noteq> []
   \<and> set (dr_write_tools_enabled (policy_describe read_only_default)) \<inter> {t. is_write_tool t} = {}"
proof -
  let ?xs = "dr_write_tools_enabled (policy_describe read_only_default)"
  have wf: "bt_wf default_tools" by (simp add: default_tools_def)
  have xs: "tool \<in> set ?xs \<longleftrightarrow> (\<exists>p. bt_get default_tools tool = Some p \<and> tp_enabled p)" for tool
    using bt_get_in_set [OF wf] by (force simp: policy_describe_def read_only_default_def)
  have "''attachment_list'' \<in> set (map fst default_tools_list)" by code_simp
  then have "bt_get default_tools ''attachment_list'' \<noteq> None"
    unfolding default_tools_def bt_get_of_list by (simp add: map_of_eq_None_iff)
  then obtain p where p: "bt_get default_tools ''attachment_list'' = Some p" by blast
  have all: "list_all (\<lambda>(k, p). k = ''attachment_list'' \<longrightarrow> tp_enabled p) default_tools_list"
    by code_simp
  have "(\<lambda>(k, p). k = ''attachment_list'' \<longrightarrow> tp_enabled p) (''attachment_list'', p)"
    using all default_tools_in [OF p] unfolding list_all_iff by (rule bspec)
  with xs p have "''attachment_list'' \<in> set ?xs" by auto
  then have "?xs \<noteq> []" by (metis list.distinct(1) list.set_cases)
  moreover have "\<not> is_write_tool tool" if mem: "tool \<in> set ?xs" for tool
  proof
    assume w: "is_write_tool tool"
    obtain p where "bt_get default_tools tool = Some p" "tp_enabled p"
      using xs [THEN iffD1, OF mem] by (elim exE conjE)
    with default_denies_writes_entry [OF _ w] show False by simp
  qed
  ultimately show ?thesis by blast
qed

end
