(* ===== verification/Steps.thy ===== *)
theory Steps
  imports Prelude
begin

text \<open>
  The steps the request handlers are written in. A handler reads and changes a world: the stores
  the daemon shares between requests, a running count of its readings of the outside, and the log
  of the mutations it has sent upstream. A request runs on one thread and gives way to other
  requests only where it awaits the ServiceNow client; SQLite calls complete without yielding.

  The locale \<open>step_relation\<close> proves once, for any reflexive and transitive relation between
  worlds, that a step composed of steps that keep the relation keeps it.
\<close>

named_theorems step_simps \<open>evaluation of steps\<close>

record ('s, 'x) world_of =
  w_stores :: 's
  w_tick :: nat
  w_writes :: "'x list"

type_synonym ('w, 'e, 'a) transition = "'w \<Rightarrow> ('e, 'a) result \<times> 'w"

definition ok :: "'a \<Rightarrow> ('w, 'e, 'a) transition" where
  "ok x = (\<lambda>w. (Inr x, w))"

definition fail :: "'e \<Rightarrow> ('w, 'e, 'a) transition" where
  "fail e = (\<lambda>w. (Inl e, w))"

text \<open>Sequencing with an early return, the shape of \<open>?\<close> and of \<open>return\<close> in a match arm.\<close>

definition andthen :: "('w, 'e, 'a) transition \<Rightarrow> ('a \<Rightarrow> ('w, 'e, 'b) transition) \<Rightarrow> ('w, 'e, 'b) transition" where
  "andthen m f = (\<lambda>w. case m w of (Inl e, w') \<Rightarrow> (Inl e, w') | (Inr x, w') \<Rightarrow> f x w')"

text \<open>Running a step and looking at its result, the shape of \<open>match\<close>.\<close>

definition inspect :: "('w, 'e, 'a) transition \<Rightarrow> (('e, 'a) result \<Rightarrow> ('w, 'f, 'b) transition) \<Rightarrow> ('w, 'f, 'b) transition" where
  "inspect m f = (\<lambda>w. case m w of (r, w') \<Rightarrow> f r w')"

definition of_result :: "('e, 'a) result \<Rightarrow> ('w, 'e, 'a) transition" where
  "of_result r = (\<lambda>w. (r, w))"

text \<open>Mapping the error of a step (\<open>map_err\<close>).\<close>

definition map_err_step :: "('e \<Rightarrow> 'f) \<Rightarrow> ('w, 'e, 'a) transition \<Rightarrow> ('w, 'f, 'a) transition" where
  "map_err_step g m = inspect m (\<lambda>r. of_result (map_err g r))"

text \<open>A reading of the clock, of a fresh identifier or of the process environment.\<close>

definition ask :: "(nat \<Rightarrow> 'a) \<Rightarrow> (('s, 'x) world_of, 'e, 'a) transition" where
  "ask f = (\<lambda>w. (Inr (f (w_tick w)), w\<lparr>w_tick := Suc (w_tick w)\<rparr>))"

text \<open>An upstream call: its reply, while the other requests act on the stores.\<close>

definition awaiting :: "(nat \<Rightarrow> 's \<Rightarrow> 's) \<Rightarrow> (nat \<Rightarrow> 'a) \<Rightarrow> (('s, 'x) world_of, 'e, 'a) transition" where
  "awaiting others f = (\<lambda>w. (Inr (f (w_tick w)),
     w\<lparr>w_tick := Suc (w_tick w), w_stores := others (w_tick w) (w_stores w)\<rparr>))"

text \<open>An upstream mutation, logged before its reply is known.\<close>

definition sending :: "(nat \<Rightarrow> 's \<Rightarrow> 's) \<Rightarrow> (nat \<Rightarrow> 'x \<Rightarrow> 'a) \<Rightarrow> 'x \<Rightarrow> (('s, 'x) world_of, 'e, 'a) transition" where
  "sending others f x = (\<lambda>w. (Inr (f (w_tick w) x),
     w\<lparr>w_tick := Suc (w_tick w), w_stores := others (w_tick w) (w_stores w),
       w_writes := w_writes w @ [x]\<rparr>))"

text \<open>An SQL statement that may fail; a statement that fails changes nothing.\<close>

definition statement :: "(nat \<Rightarrow> bool) \<Rightarrow> ('s \<Rightarrow> 'a \<times> 's) \<Rightarrow> (('s, 'x) world_of, string, 'a) transition" where
  "statement succeeds f = (\<lambda>w. let w1 = w\<lparr>w_tick := Suc (w_tick w)\<rparr>
     in if succeeds (w_tick w)
        then (case f (w_stores w) of (x, s) \<Rightarrow> (Inr x, w1\<lparr>w_stores := s\<rparr>))
        else (Inl ''sqlite error'', w1))"

subsection \<open>Evaluation\<close>

lemma step_eval [step_simps]:
  "ok x w = (Inr x, w)" "fail e w = (Inl e, w)" "of_result r w = (r, w)"
  "ask g w = (Inr (g (w_tick w)), w\<lparr>w_tick := Suc (w_tick w)\<rparr>)"
  by (simp_all add: ok_def fail_def of_result_def ask_def)

lemma andthen_Inr: "andthen m f w = (Inr y, w') \<longleftrightarrow> (\<exists>x w1. m w = (Inr x, w1) \<and> f x w1 = (Inr y, w'))"
  by (auto simp: andthen_def split: prod.splits sum.splits)

lemma andthen_Inl:
  "andthen m f w = (Inl e, w') \<longleftrightarrow> m w = (Inl e, w') \<or> (\<exists>x w1. m w = (Inr x, w1) \<and> f x w1 = (Inl e, w'))"
  by (auto simp: andthen_def split: prod.splits sum.splits)

lemma andthen_run [step_simps]:
  "m w = (Inr x, w1) \<Longrightarrow> andthen m f w = f x w1" "m w = (Inl e, w1) \<Longrightarrow> andthen m f w = (Inl e, w1)"
  by (simp_all add: andthen_def)

lemma inspect_run [step_simps]: "m w = (r, w1) \<Longrightarrow> inspect m f w = f r w1"
  by (simp add: inspect_def)

lemma inspect_iff: "inspect m f w = (r', w') \<longleftrightarrow> (\<exists>r w1. m w = (r, w1) \<and> f r w1 = (r', w'))"
  by (auto simp: inspect_def split: prod.splits)

lemma inspect_sum:
  "inspect m (\<lambda>r. case r of Inl e \<Rightarrow> f e | Inr x \<Rightarrow> g x) w = (r', w') \<longleftrightarrow>
     (\<exists>e w1. m w = (Inl e, w1) \<and> f e w1 = (r', w')) \<or> (\<exists>x w1. m w = (Inr x, w1) \<and> g x w1 = (r', w'))"
  by (cases "m w"; cases "fst (m w)") (auto simp: inspect_def)

lemma map_err_step_Inr: "map_err_step g m w = (Inr x, w') \<longleftrightarrow> m w = (Inr x, w')"
  by (auto simp: map_err_step_def inspect_iff of_result_def)

lemma step_pure_Inr:
  "ok x w = (Inr y, w') \<longleftrightarrow> x = y \<and> w = w'"
  "\<not> fail e w = (Inr y, w')"
  "of_result r w = (Inr y, w') \<longleftrightarrow> r = Inr y \<and> w = w'"
  by (auto simp: ok_def fail_def of_result_def)

lemma step_ask_Inr:
  "ask g w = (Inr y, w') \<longleftrightarrow> y = g (w_tick w) \<and> w' = w\<lparr>w_tick := Suc (w_tick w)\<rparr>"
  "awaiting others f w = (Inr y, w') \<longleftrightarrow> y = f (w_tick w)
     \<and> w' = w\<lparr>w_tick := Suc (w_tick w), w_stores := others (w_tick w) (w_stores w)\<rparr>"
  by (auto simp: ask_def awaiting_def)

subsection \<open>Relations kept by steps\<close>

locale step_relation =
  fixes R :: "'w \<Rightarrow> 'w \<Rightarrow> bool"
  assumes rel_refl: "R w w"
    and rel_trans: "R w1 w2 \<Longrightarrow> R w2 w3 \<Longrightarrow> R w1 w3"
begin

definition keeps :: "('w, 'e, 'a) transition \<Rightarrow> bool" where
  "keeps m = (\<forall>w. R w (snd (m w)))"

lemma keepsD: "keeps m \<Longrightarrow> m w = (r, w') \<Longrightarrow> R w w'"
  unfolding keeps_def by (metis snd_conv)

lemma keeps_pure [intro]: "keeps (ok x)" "keeps (fail e)" "keeps (of_result r)"
  by (simp_all add: keeps_def rel_refl ok_def fail_def of_result_def)

lemma keeps_andthen:
  assumes "keeps m" "\<And>x. keeps (f x)" shows "keeps (andthen m f)"
  unfolding keeps_def
proof
  fix w
  obtain r w1 where m: "m w = (r, w1)" by (cases "m w")
  have "R w w1" using assms(1) m by (rule keepsD)
  moreover have "R w1 (snd (f x w1))" for x using assms(2) by (simp add: keeps_def)
  ultimately show "R w (snd (andthen m f w))"
    by (cases r) (auto simp: andthen_def m intro: rel_trans)
qed

lemma keeps_inspect:
  assumes "keeps m" "\<And>r. keeps (f r)" shows "keeps (inspect m f)"
  unfolding keeps_def
proof
  fix w
  obtain r w1 where m: "m w = (r, w1)" by (cases "m w")
  have "R w w1" using assms(1) m by (rule keepsD)
  moreover have "R w1 (snd (f r w1))" using assms(2) by (simp add: keeps_def)
  ultimately show "R w (snd (inspect m f w))" by (simp add: inspect_def m) (rule rel_trans)
qed

lemma keeps_map_err: "keeps m \<Longrightarrow> keeps (map_err_step g m)"
  unfolding map_err_step_def by (intro keeps_inspect keeps_pure)

lemma keeps_cases:
  "keeps a \<Longrightarrow> keeps b \<Longrightarrow> keeps (if c then a else b)"
  "keeps a \<Longrightarrow> (\<And>y. keeps (g y)) \<Longrightarrow> keeps (case v of None \<Rightarrow> a | Some y \<Rightarrow> g y)"
  "(\<And>y. keeps (l y)) \<Longrightarrow> (\<And>y. keeps (h y)) \<Longrightarrow> keeps (case s of Inl y \<Rightarrow> l y | Inr y \<Rightarrow> h y)"
  "(\<And>x y. keeps (k x y)) \<Longrightarrow> keeps (case z of (x, y) \<Rightarrow> k x y)"
  by (auto split: option.splits sum.splits prod.splits)

lemma keeps_list:
  "keeps a \<Longrightarrow> (\<And>y ys. keeps (g y ys)) \<Longrightarrow> keeps (case v of [] \<Rightarrow> a | y # ys \<Rightarrow> g y ys)"
  by (auto split: list.splits)

lemmas keeps_step_rules = keeps_pure keeps_andthen keeps_inspect keeps_map_err keeps_cases keeps_list

end

subsection \<open>How a step ends the request\<close>

definition raises :: "('e \<Rightarrow> bool) \<Rightarrow> ('w, 'e, 'a) transition \<Rightarrow> bool" where
  "raises P m = (\<forall>w e w'. m w = (Inl e, w') \<longrightarrow> P e)"

lemma raisesD: "raises P m \<Longrightarrow> m w = (Inl e, w') \<Longrightarrow> P e"
  unfolding raises_def by blast

lemma raises_basic: "raises P (ok x)" "P e \<Longrightarrow> raises P (fail e)" "raises P (ask g)" "raises P (awaiting others f)"
  by (auto simp: raises_def ok_def fail_def ask_def awaiting_def)

lemma raises_andthen: "raises P m \<Longrightarrow> (\<And>x. raises P (f x)) \<Longrightarrow> raises P (andthen m f)"
  unfolding raises_def andthen_Inl by blast

lemma raises_inspect: "(\<And>r. raises P (f r)) \<Longrightarrow> raises P (inspect m f)"
  unfolding raises_def inspect_iff by blast

lemma raises_splits:
  "raises P a \<Longrightarrow> raises P b \<Longrightarrow> raises P (if c then a else b)"
  "raises P a \<Longrightarrow> (\<And>y. raises P (g y)) \<Longrightarrow> raises P (case v of None \<Rightarrow> a | Some y \<Rightarrow> g y)"
  "(\<And>y. raises P (l y)) \<Longrightarrow> (\<And>y. raises P (h y)) \<Longrightarrow> raises P (case s of Inl y \<Rightarrow> l y | Inr y \<Rightarrow> h y)"
  "(\<And>x y. raises P (k x y)) \<Longrightarrow> raises P (case z of (x, y) \<Rightarrow> k x y)"
  by (auto split: option.splits sum.splits prod.splits)

lemmas raises_step_rules = raises_basic raises_andthen raises_inspect raises_splits

subsection \<open>The write log\<close>

definition same_writes :: "('s, 'x) world_of \<Rightarrow> ('s, 'x) world_of \<Rightarrow> bool" where
  "same_writes w w' = (w_writes w' = w_writes w)"

lemma same_writes_refl [simp]: "same_writes w w"
  by (simp add: same_writes_def)

lemma same_writes_trans: "same_writes w1 w2 \<Longrightarrow> same_writes w2 w3 \<Longrightarrow> same_writes w1 w3"
  by (simp add: same_writes_def)

end
