(* ===== verification/Story_Domain.thy ===== *)
theory Story_Domain
  imports Policy Json
begin

text \<open>
  The story domain (\<open>snow_mcp/src/domain/story.rs\<close>): board scope, references and truth values read
  from JSON, resolution of a supplied state against the allowed choices, resolution of the
  assignee, and the masking of e-mail addresses. \<open>sha256\<close> is the hex digest of the crates \<open>sha2\<close>
  and \<open>hex\<close>; a lookup of users upstream is a function parameter.
\<close>

subsection \<open>Records fetched from the instance\<close>

record field_value =
  fv_value :: string
  fv_display_value :: "string option"

record reference =
  rf_sys_id :: string

text \<open>The parts of \<open>snow_core::SnowRecord\<close>, and of a reference of the client library, that the
  write pipeline reads.\<close>

record snow_record =
  sr_sys_id :: string
  sr_number :: string
  sr_table :: string
  sr_state :: string
  sr_fields :: "string \<rightharpoonup> field_value"
  sr_references :: "string \<rightharpoonup> reference"

subsection \<open>Scope failures\<close>

datatype in_scope_failure_clause =
    ActiveFalse | AssignmentGroupMismatch | SprintOutOfAllowed
  | TaskParentStoryMismatchClause | TaskParentOutOfScopeClause

fun clause_as_str :: "in_scope_failure_clause \<Rightarrow> string" where
  "clause_as_str ActiveFalse = ''active_false''"
| "clause_as_str AssignmentGroupMismatch = ''assignment_group_mismatch''"
| "clause_as_str SprintOutOfAllowed = ''sprint_out_of_allowed''"
| "clause_as_str TaskParentStoryMismatchClause = ''task_parent_story_mismatch''"
| "clause_as_str TaskParentOutOfScopeClause = ''task_parent_out_of_scope''"

datatype in_scope_failure =
    NotActive
  | WrongAssignmentGroup string string
  | MissingSprint
  | SprintNotAllowed string "string list"
  | TaskParentStoryMismatch string string
  | TaskParentOutOfScope in_scope_failure

fun failure_clause :: "in_scope_failure \<Rightarrow> in_scope_failure_clause" where
  "failure_clause NotActive = ActiveFalse"
| "failure_clause (WrongAssignmentGroup expected observed) = AssignmentGroupMismatch"
| "failure_clause MissingSprint = SprintOutOfAllowed"
| "failure_clause (SprintNotAllowed observed allowed) = SprintOutOfAllowed"
| "failure_clause (TaskParentStoryMismatch expected observed) = TaskParentStoryMismatchClause"
| "failure_clause (TaskParentOutOfScope cause) = TaskParentOutOfScopeClause"

record guard_failed_data =
  gd_code :: string
  gd_clause :: in_scope_failure_clause
  gd_message :: string
  gd_expected :: "json option"
  gd_observed :: "string option"

fun guard_failed_fields :: "in_scope_failure \<Rightarrow> string \<times> json option \<times> string option" where
  "guard_failed_fields NotActive = (''Story is inactive'', None, Some ''false'')"
| "guard_failed_fields (WrongAssignmentGroup expected observed) =
     (''Story assignment_group '' @ [CHR 39] @ observed @ [CHR 39]
        @ '' does not match BoardBinding.assignment_group'', Some (JStr expected), Some observed)"
| "guard_failed_fields MissingSprint =
     (''Story has no sprint and cannot be proven inside BoardBinding.allowed_sprints'', None, None)"
| "guard_failed_fields (SprintNotAllowed observed allowed) =
     (''Story sprint '' @ [CHR 39] @ observed @ [CHR 39]
        @ '' is not in BoardBinding.allowed_sprints'', Some (JArr (map JStr allowed)), Some observed)"
| "guard_failed_fields (TaskParentStoryMismatch expected observed) =
     (''Story Task parent '' @ [CHR 39] @ observed @ [CHR 39] @ '' does not match fetched Story ''
        @ [CHR 39] @ expected @ [CHR 39], Some (JStr expected), Some observed)"
| "guard_failed_fields (TaskParentOutOfScope cause) =
     (''Story Task parent Story failed board scope guard: '' @ clause_as_str (failure_clause cause),
      None, None)"

definition to_guard_failed_data :: "in_scope_failure \<Rightarrow> guard_failed_data" where
  "to_guard_failed_data f = (let (message, expected, observed) = guard_failed_fields f
     in \<lparr>gd_code = ''GUARD_FAILED'', gd_clause = failure_clause f, gd_message = message,
         gd_expected = expected, gd_observed = observed\<rparr>)"

subsection \<open>Identifiers and values read from JSON\<close>

definition equal_sys_id :: "string \<Rightarrow> string \<Rightarrow> bool" where
  "equal_sys_id a b = eq_ignore_case (trim a) (trim b)"

definition is_sys_id :: "string \<Rightarrow> bool" where
  "is_sys_id value = (length (trim value) = 32 \<and> list_all is_hexdigit (trim value))"

definition parse_boolish :: "string \<Rightarrow> bool option" where
  "parse_boolish value = (let v = to_lower (trim value) in
     if v \<in> set [''true'', ''1'', ''yes'', ''y''] then Some True
     else if v \<in> set [''false'', ''0'', ''no'', ''n''] then Some False
     else None)"

text \<open>\<open>Option::or_else\<close>.\<close>

definition orelse :: "'a option \<Rightarrow> 'a option \<Rightarrow> 'a option" where
  "orelse a b = (case a of Some x \<Rightarrow> Some x | None \<Rightarrow> b)"

function parse_boolish_value :: "json \<Rightarrow> bool option" where
  "parse_boolish_value (JBool b) = Some b"
| "parse_boolish_value (JStr s) = parse_boolish s"
| "parse_boolish_value (JNum t) = map_option (\<lambda>n. n \<noteq> 0) (as_i64 (JNum t))"
| "parse_boolish_value (JObj m) =
     orelse (case bt_get m ''value'' of None \<Rightarrow> None | Some v \<Rightarrow> parse_boolish_value v)
            (case bt_get m ''display_value'' of None \<Rightarrow> None | Some v \<Rightarrow> parse_boolish_value v)"
| "parse_boolish_value JNull = None"
| "parse_boolish_value (JArr xs) = None"
  by pat_completeness auto
termination
proof (relation "measure size")
  have sub: "size v < size (JObj m)" if "bt_get m k = Some v" for m k v
  proof -
    have "(k, v) \<in> set m" using that by (simp add: bt_get_def map_of_SomeD)
    then have "size_prod (\<lambda>x. 0) size (k, v) \<le> size_list (size_prod (\<lambda>x. 0) size) m"
      by (induction m) auto
    then show ?thesis by simp
  qed
  show "\<And>m v. bt_get m ''value'' = Some v \<Longrightarrow> (v, JObj m) \<in> measure size" using sub by simp
  show "\<And>m v. bt_get m ''display_value'' = Some v \<Longrightarrow> (v, JObj m) \<in> measure size" using sub by simp
qed simp

definition field_value_from_json :: "json \<Rightarrow> string \<Rightarrow> json option" where
  "field_value_from_json v field =
     orelse (json_get v field)
       (orelse (Option.bind (json_get v ''fields'') (\<lambda>fields. json_get fields field))
               (Option.bind (json_get v ''references'') (\<lambda>references. json_get references field)))"

fun string_from_reference_value :: "json \<Rightarrow> string option" where
  "string_from_reference_value (JStr s) = Some s"
| "string_from_reference_value (JObj m) =
     orelse (get_str (JObj m) ''sys_id'') (get_str (JObj m) ''value'')"
| "string_from_reference_value _ = None"

definition domain_reference_sys_id :: "json \<Rightarrow> string \<Rightarrow> string option" where
  "domain_reference_sys_id v field =
     Option.bind (field_value_from_json v field) string_from_reference_value"

definition bool_from_json_field :: "json \<Rightarrow> string \<Rightarrow> bool option" where
  "bool_from_json_field v field = Option.bind (field_value_from_json v field) parse_boolish_value"

subsection \<open>Scope\<close>

record in_scope_snapshot =
  sn_active :: bool
  sn_assignment_group_sys_id :: string
  sn_sprint_sys_id :: "string option"

definition in_scope_snapshot_from_json :: "json \<Rightarrow> in_scope_snapshot option" where
  "in_scope_snapshot_from_json v = map_option (\<lambda>g.
     \<lparr>sn_active = or_else (bool_from_json_field v ''active'') True,
      sn_assignment_group_sys_id = g,
      sn_sprint_sys_id = domain_reference_sys_id v ''sprint''\<rparr>)
     (domain_reference_sys_id v ''assignment_group'')"

definition in_scope_snapshot_from_snow_record :: "snow_record \<Rightarrow> in_scope_snapshot option" where
  "in_scope_snapshot_from_snow_record r =
     (let ref_or_field = (\<lambda>f. orelse (map_option rf_sys_id (sr_references r f))
                                     (map_option fv_value (sr_fields r f)))
      in map_option (\<lambda>g.
           \<lparr>sn_active = or_else (Option.bind (sr_fields r ''active'') (\<lambda>f. parse_boolish (fv_value f))) True,
            sn_assignment_group_sys_id = g,
            sn_sprint_sys_id = ref_or_field ''sprint''\<rparr>)
         (ref_or_field ''assignment_group''))"

definition story_in_scope :: "in_scope_snapshot \<Rightarrow> board_binding \<Rightarrow> (in_scope_failure, unit) result" where
  "story_in_scope s b =
     (if \<not> sn_active s then Inl NotActive
      else if \<not> equal_sys_id (sn_assignment_group_sys_id s) (bb_assignment_group b)
      then Inl (WrongAssignmentGroup (bb_assignment_group b) (sn_assignment_group_sys_id s))
      else if bb_allowed_sprints b \<noteq> []
      then (case sn_sprint_sys_id s of
              None \<Rightarrow> Inl MissingSprint
            | Some sprint \<Rightarrow>
                if \<not> list_ex (equal_sys_id sprint) (bb_allowed_sprints b)
                then Inl (SprintNotAllowed sprint (bb_allowed_sprints b)) else Inr ())
      else Inr ())"

definition task_parent_in_scope ::
  "in_scope_snapshot \<Rightarrow> string \<Rightarrow> string \<Rightarrow> board_binding \<Rightarrow> (in_scope_failure, unit) result" where
  "task_parent_in_scope parent task_parent_sys_id parent_sys_id b =
     bind_ok (map_err TaskParentOutOfScope (story_in_scope parent b)) (\<lambda>_.
       if \<not> equal_sys_id task_parent_sys_id parent_sys_id
       then Inl (TaskParentStoryMismatch parent_sys_id task_parent_sys_id) else Inr ())"

definition task_parent_sys_id_from_json :: "json \<Rightarrow> string option" where
  "task_parent_sys_id_from_json v = orelse (domain_reference_sys_id v ''story'')
     (orelse (domain_reference_sys_id v ''parent_story'') (domain_reference_sys_id v ''parent''))"

subsection \<open>States\<close>

record state_choice =
  st_value :: string
  st_label :: string
  st_terminal :: bool

definition state_choice_allowed :: "string \<Rightarrow> string \<Rightarrow> state_choice" where
  "state_choice_allowed v label = \<lparr>st_value = v, st_label = label, st_terminal = False\<rparr>"

definition allowed_spec :: "string \<Rightarrow> state_choice" where
  "allowed_spec spec = (case split_once CHR ''='' spec of
       None \<Rightarrow> state_choice_allowed spec spec
     | Some (v, label) \<Rightarrow> state_choice_allowed (trim v) (trim label))"

datatype state_choice_match = RawMatch string | LabelMatch string string

record state_resolution_context =
  sc_supplied :: "string option"
  sc_current_state_value :: "string option"
  sc_current_state_terminal :: bool

datatype field_rejection_reason = ValueNotInEnum

fun rejection_reason_str :: "field_rejection_reason \<Rightarrow> string" where
  "rejection_reason_str ValueNotInEnum = ''value_not_in_enum''"

datatype state_resolution =
    StateOmitted
  | StateResolved string
  | StateMapped string string
  | StateRequired "state_choice list" string
  | StateFieldRejected string field_rejection_reason string

definition is_cancel_state :: "string \<Rightarrow> bool" where
  "is_cancel_state v = str_contains ''cancel'' (to_lower v)"

definition state_choice_write_allowed :: "state_choice \<Rightarrow> bool" where
  "state_choice_write_allowed c = (\<not> is_cancel_state (st_value c) \<and> \<not> is_cancel_state (st_label c))"

definition non_terminal_state_choices :: "state_choice list \<Rightarrow> state_choice list" where
  "non_terminal_state_choices choices = filter state_choice_write_allowed choices"

definition normalize_state_label :: "string \<Rightarrow> string" where
  "normalize_state_label v = to_lower (join '' '' (split_ws v))"

definition match_state_label_alias :: "string \<Rightarrow> state_choice list \<Rightarrow> state_choice_match option" where
  "match_state_label_alias supplied choices =
     (if normalize_state_label supplied \<noteq> ''in progress'' then None
      else case filter (\<lambda>c. normalize_state_label (st_label c)
                   \<in> set [''work in progress'', ''dev in progress''])
                 (filter state_choice_write_allowed choices) of
          [] \<Rightarrow> None
        | first # rest \<Rightarrow>
            if list_ex (\<lambda>c. \<not> eq_ignore_case (trim (st_value c)) (trim (st_value first))) rest
            then None else Some (LabelMatch (st_label first) (st_value first)))"

definition choice_match :: "string \<Rightarrow> state_choice \<Rightarrow> state_choice_match option" where
  "choice_match supplied c =
     (if \<not> state_choice_write_allowed c then None
      else if eq_ignore_case (trim (st_value c)) supplied then Some (RawMatch (st_value c))
      else if eq_ignore_case (trim (st_label c)) supplied
      then Some (LabelMatch (st_label c) (st_value c))
      else None)"

fun find_map :: "('a \<Rightarrow> 'b option) \<Rightarrow> 'a list \<Rightarrow> 'b option" where
  "find_map f [] = None"
| "find_map f (x # xs) = (case f x of Some y \<Rightarrow> Some y | None \<Rightarrow> find_map f xs)"

definition match_cached_state_choice :: "string \<Rightarrow> state_choice list \<Rightarrow> state_choice_match option" where
  "match_cached_state_choice supplied choices =
     orelse (find_map (choice_match (trim supplied)) choices)
            (match_state_label_alias (trim supplied) choices)"

definition resolve_state_from_cached_choices ::
  "state_resolution_context \<Rightarrow> state_choice list \<Rightarrow> state_resolution" where
  "resolve_state_from_cached_choices ctx choices =
     (case sc_supplied ctx of
        None \<Rightarrow> StateOmitted
      | Some raw \<Rightarrow> (let supplied = trim raw in
          if supplied = [] then StateOmitted
          else case match_cached_state_choice supplied choices of
              Some (RawMatch v) \<Rightarrow> StateResolved v
            | Some (LabelMatch label v) \<Rightarrow> StateMapped label v
            | None \<Rightarrow>
                if sc_current_state_terminal ctx
                then StateRequired (non_terminal_state_choices choices)
                  ''caller-supplied state did not map and prior record state is terminal''
                else StateFieldRejected ''state'' ValueNotInEnum supplied))"

definition state_choices_from_binding :: "string \<Rightarrow> board_binding \<Rightarrow> state_choice list" where
  "state_choices_from_binding table b =
     map allowed_spec
       (if table = bb_story_table b \<or> table = ''rm_story'' then bb_allowed_story_states b
        else if table = bb_task_table b \<or> table = ''rm_scrum_task'' then bb_allowed_task_states b
        else bb_allowed_story_states b)"

text \<open>The dictionary reader is a parameter: an error, or the choices of the table's state.\<close>

definition resolve_state ::
  "(string \<Rightarrow> string \<Rightarrow> (string, state_choice list) result) \<Rightarrow> string \<Rightarrow> state_resolution_context
     \<Rightarrow> board_binding \<Rightarrow> (string, state_resolution) result" where
  "resolve_state sys_choice table ctx b =
     (let choices = state_choices_from_binding table b
      in if choices = []
         then bind_ok (sys_choice table ''state'') (\<lambda>cs.
                Inr (resolve_state_from_cached_choices ctx (filter state_choice_write_allowed cs)))
         else Inr (resolve_state_from_cached_choices ctx choices))"

definition current_state_is_terminal :: "string \<Rightarrow> state_choice list \<Rightarrow> bool" where
  "current_state_is_terminal current choices =
     list_ex (\<lambda>c. st_terminal c \<and> eq_ignore_case (trim (st_value c)) (trim current)) choices"

subsection \<open>Assignees\<close>

datatype actor_identity_source = EmailMatch | UserNameMatch

datatype assignee_resolution =
    AssigneeSupplied string
  | DefaultedFromCaller string actor_identity_source
  | AssigneeUnresolved
  | AssigneeAmbiguous "string list"
  | ExplicitNull
  | AssigneeInvalid string

record story_actor =
  sa_subject :: string
  sa_email :: "string option"
  sa_display_name :: "string option"

type_synonym user_lookup = "string \<Rightarrow> string list"

definition resolve_caller_assignee :: "user_lookup \<Rightarrow> user_lookup \<Rightarrow> story_actor \<Rightarrow> assignee_resolution" where
  "resolve_caller_assignee by_email by_user_name actor =
     (let email_hits = (case map_option trim (sa_email actor) of
            None \<Rightarrow> [] | Some e \<Rightarrow> if e = [] then [] else by_email e);
          user_name = trim (sa_subject actor);
          name_hits = (if user_name = [] then [] else by_user_name user_name)
      in if length email_hits = 1 then DefaultedFromCaller (hd email_hits) EmailMatch
         else if length name_hits = 1 then DefaultedFromCaller (hd name_hits) UserNameMatch
         else if email_hits @ name_hits = [] then AssigneeUnresolved
         else AssigneeAmbiguous (dedup_str (email_hits @ name_hits)))"

text \<open>\<open>to_text\<close> is the text of a JSON value.\<close>

definition resolve_assignee ::
  "(json \<Rightarrow> string) \<Rightarrow> user_lookup \<Rightarrow> user_lookup \<Rightarrow> json option \<Rightarrow> story_actor \<Rightarrow> assignee_resolution" where
  "resolve_assignee to_text by_email by_user_name supplied actor =
     (case supplied of
        Some JNull \<Rightarrow> ExplicitNull
      | Some (JStr v) \<Rightarrow>
          if eq_ignore_case (trim v) ''caller'' then resolve_caller_assignee by_email by_user_name actor
          else if is_sys_id v then AssigneeSupplied (trim v)
          else AssigneeInvalid v
      | None \<Rightarrow> resolve_caller_assignee by_email by_user_name actor
      | Some other \<Rightarrow> AssigneeInvalid (to_text other))"

subsection \<open>Masking\<close>

record pii_email_mask =
  pm_email_local_part :: string
  pm_domain_hash :: string

definition receipt_identity :: "pii_email_mask \<Rightarrow> string" where
  "receipt_identity m = pm_email_local_part m @ ''@<sha256:'' @ pm_domain_hash m @ ''>''"

record assignee_warning_data =
  aw_email_local_part :: string
  aw_domain_hash :: string
  aw_candidate_sys_ids :: "string list"

definition mask_email_for_receipt :: "(string \<Rightarrow> string) \<Rightarrow> string \<Rightarrow> pii_email_mask" where
  "mask_email_for_receipt sha256 email =
     (let (local_part, domain) = (case split_once CHR ''@'' email of None \<Rightarrow> (email, []) | Some p \<Rightarrow> p)
      in \<lparr>pm_email_local_part = trim local_part,
          pm_domain_hash = take 8 (sha256 (to_lower (trim domain)))\<rparr>)"

definition hash_email_for_audit :: "(string \<Rightarrow> string) \<Rightarrow> string \<Rightarrow> string" where
  "hash_email_for_audit sha256 email = sha256 (to_lower (trim email))"

definition assignee_defaulted_warning_message :: "pii_email_mask \<Rightarrow> string" where
  "assignee_defaulted_warning_message m =
     ''Substituted caller identity ('' @ receipt_identity m @ '') for omitted assignee.''"

definition assignee_unresolved_warning_message :: "pii_email_mask option \<Rightarrow> string" where
  "assignee_unresolved_warning_message m = (case m of
       Some m \<Rightarrow> ''Caller identity ('' @ receipt_identity m
                   @ '') did not resolve to a sys_user; field left blank.''
     | None \<Rightarrow> ''Caller identity did not resolve to a sys_user; field left blank.'')"

definition assignee_ambiguous_warning_data ::
  "(string \<Rightarrow> string) \<Rightarrow> string option \<Rightarrow> string list \<Rightarrow> assignee_warning_data option" where
  "assignee_ambiguous_warning_data sha256 email candidates = map_option (\<lambda>e.
     let mask = mask_email_for_receipt sha256 e
     in \<lparr>aw_email_local_part = pm_email_local_part mask, aw_domain_hash = pm_domain_hash mask,
         aw_candidate_sys_ids = dedup_str candidates\<rparr>) email"

subsection \<open>Laws\<close>

lemma equal_sys_id_refl [simp]: "equal_sys_id a a"
  by (simp add: equal_sys_id_def)

lemma equal_sys_id_sym: "equal_sys_id a b \<Longrightarrow> equal_sys_id b a"
  by (simp add: equal_sys_id_def eq_ignore_case_sym)

lemma equal_sys_id_trans: "equal_sys_id a b \<Longrightarrow> equal_sys_id b c \<Longrightarrow> equal_sys_id a c"
  unfolding equal_sys_id_def by (rule eq_ignore_case_trans)

definition in_scope :: "board_binding \<Rightarrow> in_scope_snapshot \<Rightarrow> bool" where
  "in_scope b s = (sn_active s \<and> equal_sys_id (sn_assignment_group_sys_id s) (bb_assignment_group b)
     \<and> (bb_allowed_sprints b = [] \<or> (\<exists>x. sn_sprint_sys_id s = Some x
            \<and> (\<exists>a \<in> set (bb_allowed_sprints b). equal_sys_id x a))))"

lemma story_in_scope_ok [simp]: "story_in_scope s b = Inr u \<longleftrightarrow> in_scope b s"
  by (auto simp: story_in_scope_def in_scope_def list_ex_iff split: option.splits)

lemma task_parent_in_scope_ok [simp]:
  "task_parent_in_scope p t i b = Inr u \<longleftrightarrow> in_scope b p \<and> equal_sys_id t i"
  by (auto simp: task_parent_in_scope_def bind_ok_Inr)

lemma find_map_Some: "find_map f xs = Some y \<Longrightarrow> \<exists>x \<in> set xs. f x = Some y"
  by (induction xs) (auto split: option.splits)

fun match_value :: "state_choice_match \<Rightarrow> string" where
  "match_value (RawMatch v) = v"
| "match_value (LabelMatch l v) = v"

lemma match_from_allowed:
  assumes "match_cached_state_choice supplied choices = Some m"
  shows "\<exists>c \<in> set choices. state_choice_write_allowed c \<and> match_value m = st_value c"
proof (cases "find_map (choice_match (trim supplied)) choices")
  case None
  then have "match_state_label_alias (trim supplied) choices = Some m"
    using assms by (simp add: match_cached_state_choice_def orelse_def)
  then obtain first rest where hd: "filter (\<lambda>c. normalize_state_label (st_label c)
        \<in> set [''work in progress'', ''dev in progress'']) (filter state_choice_write_allowed choices)
      = first # rest" and m: "m = LabelMatch (st_label first) (st_value first)"
    unfolding match_state_label_alias_def by (auto split: if_splits list.splits)
  have "first \<in> set choices \<and> state_choice_write_allowed first"
    using arg_cong [OF hd, of set] by (auto simp: set_eq_iff)
  with m show ?thesis by auto
next
  case (Some n)
  then have "n = m" using assms by (simp add: match_cached_state_choice_def orelse_def)
  with find_map_Some [OF Some] obtain c where "c \<in> set choices" "choice_match (trim supplied) c = Some m"
    by blast
  then show ?thesis by (intro bexI [of _ c]) (auto simp: choice_match_def split: if_splits)
qed

text \<open>
  C29: no write into a cancelled state. Whatever text a caller supplies for a state, and whatever the
  record's present state is, a resolution that yields a value yields the value of one of the board's
  choices, and neither the value nor the label of that choice spells \<open>cancel\<close> in any letter case; the
  candidates offered instead have the same property.
\<close>

theorem state_never_cancelled:
  "(case resolve_state_from_cached_choices ctx choices of
      StateResolved v \<Rightarrow> \<exists>c \<in> set choices. v = st_value c \<and> state_choice_write_allowed c
    | StateMapped l v \<Rightarrow> \<exists>c \<in> set choices. v = st_value c \<and> state_choice_write_allowed c
    | StateRequired cs note \<Rightarrow> list_all (\<lambda>c. c \<in> set choices \<and> state_choice_write_allowed c) cs
    | StateFieldRejected f r s \<Rightarrow> f = ''state'' | StateOmitted \<Rightarrow> True)"
proof (cases "sc_supplied ctx")
  case (Some raw)
  show ?thesis
  proof (cases "match_cached_state_choice (trim raw) choices")
    case None
    with Some show ?thesis
      by (simp add: resolve_state_from_cached_choices_def Let_def non_terminal_state_choices_def
          list_all_iff)
  next
    case m: (Some m)
    from match_from_allowed [OF m] show ?thesis
      using Some m by (cases m) (auto simp: resolve_state_from_cached_choices_def Let_def)
  qed
qed (simp add: resolve_state_from_cached_choices_def)

end
