(* ===== verification/Story_World.thy ===== *)
theory Story_World
  imports Steps Story_Domain Plan_Store Confirmation_Store Idempotency_Store Audit_Log Rate_Limit
begin

text \<open>
  The world of one story-write request (\<open>snow_daemon/src/story_write/mod.rs\<close>, \<open>audit.rs\<close>,
  \<open>confirmation.rs\<close>): the stores the daemon shares between requests, the inputs it reads from
  outside, and the step type the handlers are written in.

  A request runs on one thread and gives way to other requests only where it awaits the
  ServiceNow client; SQLite calls complete without yielding. Every reading of the clock, a fresh
  identifier, the success of an SQL statement and an upstream reply takes its value from the
  environment at the running count \<open>w_tick\<close>, so readings differ from call to call; an upstream
  call also lets the other requests act on the stores (\<open>de_others\<close>). The mutations this request
  sends upstream are logged in \<open>w_writes\<close>. \<open>serde\<close>, SHA-256, \<open>chrono\<close> formatting, the ServiceNow
  client and the configuration are fields of the environment.
\<close>

datatype upstream_write =
    CreateStory json
  | CreateScrumTask json
  | UpdateStory string json
  | UpdateScrumTask string json

record field_choice =
  ch_label :: string
  ch_value :: string
  ch_terminal :: bool

record story_write_result =
  wr_record :: snow_record
  wr_sys_updated_on :: string
  wr_sys_mod_count :: "int option"

record story_stores =
  ss_plans :: plan_table
  ss_confirmations :: confirmation_table
  ss_idempotency :: idempotency_table
  ss_audit :: audit_table
  ss_rates :: rate_buckets

type_synonym world = "(story_stores, upstream_write) world_of"

record daemon_env =
  de_policy :: policy_config
  de_environment :: mcp_environment
  de_rate_limit :: mcp_rate_limit_config
  de_instance_url :: string
  de_instance_user :: string
  de_duration :: "int \<Rightarrow> time option"
  de_sha256 :: "string \<Rightarrow> string"
  de_to_vec :: "json \<Rightarrow> string"
  de_to_text :: "json \<Rightarrow> string"
  de_event_ser :: event_ser
  de_rfc3339 :: "time \<Rightarrow> string"
  de_format_time :: "time \<Rightarrow> string"
  de_plan_to_json :: "operation_plan \<Rightarrow> json"
  de_plan_of_json :: "json \<Rightarrow> (string, operation_plan) result"
  de_record_json :: "snow_record \<Rightarrow> json option"
  de_warning_json :: "receipt_warning \<Rightarrow> json"
  de_warnings_of_json :: "json \<Rightarrow> receipt_warning list option"
  de_token_json :: "concurrency_token \<Rightarrow> json"
  de_token_of_json :: "json \<Rightarrow> concurrency_token option"
  de_clock :: "nat \<Rightarrow> time"
  de_uuid :: "nat \<Rightarrow> string"
  de_sql_ok :: "nat \<Rightarrow> bool"
  de_env_kill_switch :: "nat \<Rightarrow> string option"
  de_poisoned :: "nat \<Rightarrow> bool"
  de_get_record :: "nat \<Rightarrow> string \<Rightarrow> (string, snow_record option) result"
  de_field_choices :: "nat \<Rightarrow> string \<Rightarrow> string \<Rightarrow> (string, field_choice list) result"
  de_epic_exists :: "nat \<Rightarrow> string \<Rightarrow> (string, bool) result"
  de_find_users :: "nat \<Rightarrow> string \<Rightarrow> string \<Rightarrow> (string, string list) result"
  de_find_created :: "nat \<Rightarrow> string \<Rightarrow> (string \<times> string) list \<Rightarrow> string
       \<Rightarrow> (string, string option list) result"
  de_send :: "nat \<Rightarrow> upstream_write \<Rightarrow> (string, story_write_result) result"
  de_others :: "nat \<Rightarrow> story_stores \<Rightarrow> story_stores"

subsection \<open>Steps\<close>

type_synonym ('e, 'a) step = "(world, 'e, 'a) transition"

definition stores_of :: "(story_stores \<Rightarrow> 'a) \<Rightarrow> ('e, 'a) step" where
  "stores_of f = (\<lambda>w. (Inr (f (w_stores w)), w))"

definition upstream :: "daemon_env \<Rightarrow> (nat \<Rightarrow> 'a) \<Rightarrow> ('e, 'a) step" where
  "upstream env f = awaiting (de_others env) f"

definition send :: "daemon_env \<Rightarrow> upstream_write \<Rightarrow> ('e, (string, story_write_result) result) step" where
  "send env x = sending (de_others env) (de_send env) x"

definition sql :: "daemon_env \<Rightarrow> (story_stores \<Rightarrow> 'a \<times> story_stores) \<Rightarrow> (string, 'a) step" where
  "sql env f = statement (de_sql_ok env) f"

subsection \<open>Responses\<close>

datatype story_response =
    RespJson json
  | RespReceipt operation_receipt
  | RespError int string json

definition story_error :: "int \<Rightarrow> string \<Rightarrow> json \<Rightarrow> story_response" where
  "story_error code message data = RespError code message data"

definition invalid_params :: "string \<Rightarrow> story_response" where
  "invalid_params err = RespError (-32602) ''invalid params'' (jobj [(''details'', JStr err)])"

definition internal_error :: "string \<Rightarrow> story_response" where
  "internal_error err = RespError (-32000) ''internal error'' (jobj [(''details'', JStr err)])"

subsection \<open>Stores\<close>

text \<open>\<open>stores\<close> opens the database and its tables; it fails or succeeds as a whole.\<close>

definition open_stores :: "daemon_env \<Rightarrow> (string, unit) step" where
  "open_stores env = sql env (\<lambda>s. ((), s))"

definition get_plan :: "daemon_env \<Rightarrow> string \<Rightarrow> (string, plan_store_record option) step" where
  "get_plan env plan_id = andthen (sql env (\<lambda>s. (plan_get (ss_plans s) plan_id, s))) of_result"

definition put_plan :: "daemon_env \<Rightarrow> plan_store_record \<Rightarrow> (string, unit) step" where
  "put_plan env r = sql env (\<lambda>s. ((), s\<lparr>ss_plans := plan_put r (ss_plans s)\<rparr>))"

definition mark_plan_consumed :: "daemon_env \<Rightarrow> string \<Rightarrow> (string, unit) step" where
  "mark_plan_consumed env plan_id =
     sql env (\<lambda>s. ((), s\<lparr>ss_plans := plan_mark_consumed plan_id (ss_plans s)\<rparr>))"

definition mark_plan_expired :: "daemon_env \<Rightarrow> string \<Rightarrow> (string, unit) step" where
  "mark_plan_expired env plan_id =
     sql env (\<lambda>s. ((), s\<lparr>ss_plans := plan_mark_expired plan_id (ss_plans s)\<rparr>))"

definition lookup_token :: "daemon_env \<Rightarrow> string \<Rightarrow> (string, confirmation_record option) step" where
  "lookup_token env token = sql env (\<lambda>s. (conf_lookup (ss_confirmations s) token, s))"

definition consume_token ::
  "daemon_env \<Rightarrow> string \<Rightarrow> confirmation_binding \<Rightarrow> (confirmation_consume_error, confirmation_record) step" where
  "consume_token env token b = (\<lambda>w. let i = w_tick w;
       (r, c) = conf_consume (de_sql_ok env i) (de_sql_ok env (i + 1)) (de_clock env (i + 2)) token b
                  (ss_confirmations (w_stores w))
     in (r, w\<lparr>w_tick := i + 3, w_stores := (w_stores w)\<lparr>ss_confirmations := c\<rparr>\<rparr>))"

definition lookup_idem :: "daemon_env \<Rightarrow> idempotency_key \<Rightarrow> string
    \<Rightarrow> (string, idempotency_record option) step" where
  "lookup_idem env key tool = sql env (\<lambda>s. (idem_lookup_record (ss_idempotency s) key tool, s))"

definition mark_apply_started :: "daemon_env \<Rightarrow> idempotency_key \<Rightarrow> string \<Rightarrow> (string, unit) step" where
  "mark_apply_started env key tool = andthen (ask (de_clock env)) (\<lambda>now.
     sql env (\<lambda>s. ((), s\<lparr>ss_idempotency := idem_mark_apply_started now key tool (ss_idempotency s)\<rparr>)))"

definition check_and_record_key ::
  "daemon_env \<Rightarrow> idempotency_key \<Rightarrow> string \<Rightarrow> string \<Rightarrow> 64 word \<Rightarrow> (string, idempotency_outcome) step" where
  "check_and_record_key env key tool op_hash window = andthen (ask (de_clock env)) (\<lambda>now.
     andthen (sql env (\<lambda>s.
         let (r, t) = idem_check_and_record (de_duration env) now key tool op_hash window (ss_idempotency s)
         in (r, s\<lparr>ss_idempotency := t\<rparr>))) (\<lambda>r.
       case r of None \<Rightarrow> fail ''panic: TimeDelta::seconds out of bounds'' | Some x \<Rightarrow> ok x))"

definition save_receipt :: "daemon_env \<Rightarrow> idempotency_key \<Rightarrow> operation_receipt \<Rightarrow> (string, unit) step" where
  "save_receipt env key rc =
     sql env (\<lambda>s. ((), s\<lparr>ss_idempotency := idem_save_receipt key rc (ss_idempotency s)\<rparr>))"

definition issue_token ::
  "daemon_env \<Rightarrow> string \<Rightarrow> confirmation_binding \<Rightarrow> 64 word \<Rightarrow> (string, confirmation_record) step" where
  "issue_token env plan_id b ttl = andthen (ask (de_clock env)) (\<lambda>now. andthen (ask (de_uuid env)) (\<lambda>token.
     andthen (sql env (\<lambda>s.
         let (r, t) = conf_issue (de_duration env) now token plan_id b ttl (ss_confirmations s)
         in (r, s\<lparr>ss_confirmations := t\<rparr>))) (\<lambda>r.
       case r of Inl _ \<Rightarrow> fail ''issue failed'' | Inr x \<Rightarrow> ok x)))"

text \<open>The rate limits of this process.\<close>

definition rate_step :: "daemon_env \<Rightarrow> (bool \<Rightarrow> time \<Rightarrow> rate_buckets \<Rightarrow> 'a \<times> rate_buckets) \<Rightarrow> ('e, 'a) step" where
  "rate_step env f = (\<lambda>w. let i = w_tick w; s = w_stores w;
       (x, b) = f (de_poisoned env i) (de_clock env i) (ss_rates s)
     in (Inr x, w\<lparr>w_tick := Suc i, w_stores := s\<lparr>ss_rates := b\<rparr>\<rparr>))"

definition count_rate :: "daemon_env \<Rightarrow> string \<Rightarrow> string \<Rightarrow> string \<Rightarrow> nat \<Rightarrow> ('e, int option) step" where
  "count_rate env bucket actor tool limit =
     rate_step env (\<lambda>p now. check_and_record_rate_limit p now bucket actor tool limit)"

definition peek_rate :: "daemon_env \<Rightarrow> string \<Rightarrow> string \<Rightarrow> string \<Rightarrow> nat \<Rightarrow> ('e, int option) step" where
  "peek_rate env bucket actor tool limit =
     rate_step env (\<lambda>p now. check_rate_limit_only p now bucket actor tool limit)"

definition record_rate :: "daemon_env \<Rightarrow> string \<Rightarrow> string \<Rightarrow> string \<Rightarrow> ('e, unit) step" where
  "record_rate env bucket actor tool =
     rate_step env (\<lambda>p now b. ((), record_rate_limit_event p now bucket actor tool b))"

end
