(* ===== verification/Story_Fields.thy ===== *)
theory Story_Fields
  imports Story_World
begin

text \<open>
  Field governance and board scope of the story write pipeline
  (\<open>snow_daemon/src/story_write/fields.rs\<close>, \<open>scope.rs\<close> and the payload helpers of \<open>plan.rs\<close>):
  which fields a caller may set, which values the constrained fields may take, and whether a
  payload or a fetched record lies on the board the policy names.
\<close>

datatype plan_build_error =
    PbInvalid string
  | PbFieldRejected "json list"
  | PbGuardFailed in_scope_failure
  | PbStateRequired json
  | PbNotFound string
  | PbUpstream string

definition field_rejected :: "json list \<Rightarrow> plan_build_error" where
  "field_rejected rows = PbFieldRejected rows"

definition rejection :: "string \<Rightarrow> string \<Rightarrow> json" where
  "rejection field reason = jobj [(''field'', JStr field), (''reason'', JStr reason)]"

subsection \<open>References in a payload\<close>

definition nonempty :: "string \<Rightarrow> string option" where
  "nonempty s = (if s = [] then None else Some s)"

fun reference_sys_id_from_value :: "json \<Rightarrow> string option" where
  "reference_sys_id_from_value (JStr s) = nonempty (trim s)"
| "reference_sys_id_from_value (JObj m) = Option.bind
     (orelse (get_str (JObj m) ''sys_id'') (get_str (JObj m) ''value'')) (\<lambda>s. nonempty (trim s))"
| "reference_sys_id_from_value _ = None"

definition reference_sys_id_from_json :: "json \<Rightarrow> string \<Rightarrow> string option" where
  "reference_sys_id_from_json v field = Option.bind (json_get v field) reference_sys_id_from_value"

definition record_field_value :: "snow_record \<Rightarrow> string \<Rightarrow> json option" where
  "record_field_value r field =
     orelse (map_option (\<lambda>v. JStr (fv_value v)) (sr_fields r field))
            (map_option (\<lambda>x. JStr (rf_sys_id x)) (sr_references r field))"

definition concurrency_from_record :: "snow_record \<Rightarrow> concurrency_token option" where
  "concurrency_from_record r =
     (case sr_fields r ''sys_updated_on'' of
        None \<Rightarrow> None
      | Some v \<Rightarrow> let updated = trim (fv_value v)
          in if updated = [] then None
             else Some \<lparr>ct_sys_updated_on = updated,
               ct_sys_mod_count = Option.bind (sr_fields r ''sys_mod_count'')
                 (\<lambda>f. parse_i64 (trim (fv_value f)))\<rparr>)"

definition record_ref_from_snow :: "snow_record \<Rightarrow> record_ref" where
  "record_ref_from_snow r =
     \<lparr>rr_sys_id = sr_sys_id r, rr_number = sr_number r, rr_table = sr_table r\<rparr>"

definition require_string :: "(string \<times> json) list \<Rightarrow> string \<Rightarrow> (plan_build_error, unit) result" where
  "require_string args field = (case Option.bind (bt_get args field) as_str of
       Some v \<Rightarrow> if trim v \<noteq> [] then Inr () else Inl (PbInvalid field)
     | None \<Rightarrow> Inl (PbInvalid field))"

definition inject :: "json \<Rightarrow> string \<Rightarrow> json \<Rightarrow> json" where
  "inject payload field v = json_insert field v payload"

subsection \<open>Which fields\<close>

definition apply_tool_for_plan_tool :: "string \<Rightarrow> string" where
  "apply_tool_for_plan_tool tool =
     (if tool = ''story_plan_create'' then ''story_apply_create''
      else if tool = ''story_plan_update'' then ''story_apply_update''
      else if tool = ''story_task_plan_create'' then ''story_task_apply_create''
      else if tool = ''story_task_plan_update'' then ''story_task_apply_update''
      else tool)"

definition table_for_story_tool :: "string \<Rightarrow> board_binding \<Rightarrow> string" where
  "table_for_story_tool tool b = (if str_contains ''task'' tool then bb_task_table b else bb_story_table b)"

datatype field_governance_mode = PlanInput | WritePayload

definition field_governance_allows_without_policy ::
  "string \<Rightarrow> string \<Rightarrow> field_governance_mode \<Rightarrow> bool" where
  "field_governance_allows_without_policy tool field mode =
     ((mode, tool, field) \<in> set
       [(PlanInput, ''story_task_plan_create'', ''assignment_group''),
        (WritePayload, ''story_task_apply_create'', ''assignment_group''),
        (WritePayload, ''story_task_apply_create'', ''story''),
        (WritePayload, ''story_apply_create'', ''active'')])"

definition field_allowlist_for_apply_tool :: "policy_config \<Rightarrow> string \<Rightarrow> string set" where
  "field_allowlist_for_apply_tool policy apply_tool =
     (case bt_get (pc_tools policy) apply_tool of
        Some p \<Rightarrow> tp_field_allowlist p
      | None \<Rightarrow> (case bt_get (pc_tools read_only_default) apply_tool of
            Some p \<Rightarrow> tp_field_allowlist p | None \<Rightarrow> {}))"

definition metadata_fields :: "string list" where
  "metadata_fields = [''actor'', ''requester'', ''client'', ''session_id'', ''user_agent'']"

definition plan_selector_fields :: "string \<Rightarrow> string list" where
  "plan_selector_fields tool =
     (if tool = ''story_plan_update'' \<or> tool = ''story_task_plan_update'' then [''number'']
      else if tool = ''story_task_plan_create'' then [''parent_story_number''] else [])"

definition story_tool_accepts_form_fields :: "string \<Rightarrow> bool" where
  "story_tool_accepts_form_fields tool = (tool \<in> set
     [''story_plan_create'', ''story_plan_update'', ''story_apply_create'', ''story_apply_update''])"

definition blocked_system_fields_for_story_tool :: "string \<Rightarrow> string set" where
  "blocked_system_fields_for_story_tool tool =
     set [''sys_id'', ''sys_class_name'', ''sys_created_on'', ''sys_created_by'', ''sys_updated_on'',
          ''sys_updated_by'', ''sys_mod_count'', ''approval'', ''opened_by'', ''closed_by'', ''active'']
     \<union> (if tool = ''story_plan_update'' \<or> tool = ''story_task_plan_update'' then {} else {''number''})"

definition blocked_fields_for_tool :: "string \<Rightarrow> string set" where
  "blocked_fields_for_tool tool =
     blocked_system_fields_for_story_tool tool
     \<union> (if story_tool_accepts_form_fields tool then {}
        else set [''parent'', ''cmdb_ci'', ''release_scrum'', ''team'', ''vendor'', ''assignment_group'',
                  ''sprint'', ''story''])
     \<union> (if tool = ''story_plan_update'' \<or> tool = ''story_task_plan_update'' then {} else {''number''})"

definition field_governance_rejections ::
  "string \<Rightarrow> (string \<times> json) list \<Rightarrow> policy_config \<Rightarrow> field_governance_mode \<Rightarrow> json list" where
  "field_governance_rejections tool args policy mode =
     (let keys = bt_keys args;
          free = (\<lambda>f. field_governance_allows_without_policy tool f mode);
          rejected = filter (\<lambda>f. \<not> free f \<and> f \<in> blocked_fields_for_tool tool) keys;
          allowlist = field_allowlist_for_apply_tool policy (apply_tool_for_plan_tool tool);
          unlisted = filter (\<lambda>f. f \<notin> set rejected \<and> f \<notin> set metadata_fields \<and> \<not> free f
              \<and> \<not> (mode = PlanInput \<and> f \<in> set (plan_selector_fields tool)) \<and> f \<notin> allowlist) keys
      in map (\<lambda>f. rejection f ''blocked_deny_list'') rejected
         @ map (\<lambda>f. rejection f ''not_in_allowlist'') unlisted)"

definition story_field_rejected_response :: "json list \<Rightarrow> story_response option" where
  "story_field_rejected_response rows =
     (if rows = [] then None
      else Some (story_error (-32051) ''FIELD_REJECTED''
        (jobj [(''code'', JStr ''FIELD_REJECTED''), (''fields'', JArr rows)])))"

definition reject_plan_input_fields ::
  "string \<Rightarrow> (string \<times> json) list \<Rightarrow> policy_config \<Rightarrow> story_response option" where
  "reject_plan_input_fields tool args policy =
     story_field_rejected_response (field_governance_rejections tool args policy PlanInput)"

subsection \<open>Which values\<close>

datatype choice_validation = Matched string | Constrained | Unmapped

definition spells_cancel :: "field_choice \<Rightarrow> bool" where
  "spells_cancel c = (str_contains ''cancel'' (to_lower (ch_label c))
     \<or> str_contains ''cancel'' (to_lower (ch_value c)))"

fun match_choice_validation :: "string \<Rightarrow> field_choice list \<Rightarrow> bool \<Rightarrow> choice_validation" where
  "match_choice_validation supplied [] reject = Unmapped"
| "match_choice_validation supplied (c # cs) reject =
     (if eq_ignore_case (ch_value c) supplied \<or> eq_ignore_case (ch_label c) supplied
      then (if reject \<and> spells_cancel c then Constrained else Matched (ch_value c))
      else match_choice_validation supplied cs reject)"

definition field_choices :: "daemon_env \<Rightarrow> string \<Rightarrow> string \<Rightarrow> (plan_build_error, field_choice list) step" where
  "field_choices env table field =
     andthen (upstream env (\<lambda>i. de_field_choices env i table field)) (\<lambda>r. of_result (map_err PbUpstream r))"

definition dictionary_choice_is_constrained ::
  "daemon_env \<Rightarrow> string \<Rightarrow> string \<Rightarrow> string \<Rightarrow> string \<Rightarrow> (plan_build_error, bool) step" where
  "dictionary_choice_is_constrained env table field supplied allowed =
     andthen (field_choices env table field) (\<lambda>choices. ok (list_ex (\<lambda>c.
       (eq_ignore_case (ch_value c) supplied \<or> eq_ignore_case (ch_label c) supplied
        \<or> eq_ignore_case (ch_value c) allowed \<or> eq_ignore_case (ch_label c) allowed)
       \<and> spells_cancel c) choices))"

definition normalize_choice_value ::
  "daemon_env \<Rightarrow> string \<Rightarrow> string list \<Rightarrow> string \<Rightarrow> string \<Rightarrow> bool
     \<Rightarrow> (plan_build_error, choice_validation) step" where
  "normalize_choice_value env supplied cached_allowed table field reject =
     (if cached_allowed \<noteq> []
      then (case find (\<lambda>a. eq_ignore_case a supplied) cached_allowed of
              None \<Rightarrow> ok Unmapped
            | Some allowed \<Rightarrow>
                if reject \<and> str_contains ''cancel'' (to_lower allowed) then ok Constrained
                else if reject
                then andthen (dictionary_choice_is_constrained env table field supplied allowed)
                       (\<lambda>constrained. ok (if constrained then Constrained else Matched allowed))
                else ok (Matched allowed))
      else andthen (field_choices env table field)
             (\<lambda>choices. ok (match_choice_validation supplied choices reject)))"

definition is_terminal_choice :: "string \<Rightarrow> bool" where
  "is_terminal_choice v = list_ex (\<lambda>t. str_contains t (to_lower v))
     [''closed'', ''complete'', ''completed'', ''cancel'', ''cancelled'', ''resolved'']"

definition state_choices_for_validation ::
  "daemon_env \<Rightarrow> string list \<Rightarrow> string \<Rightarrow> (plan_build_error, state_choice list) step" where
  "state_choices_for_validation env cached_allowed table =
     (if cached_allowed \<noteq> []
      then ok (map (\<lambda>spec. let c = allowed_spec spec
             in c\<lparr>st_terminal := is_terminal_choice (st_value c) \<or> is_terminal_choice (st_label c)\<rparr>) cached_allowed)
      else andthen (field_choices env table ''state'') (\<lambda>choices. ok (map (\<lambda>c.
             \<lparr>st_value = ch_value c, st_label = ch_label c,
              st_terminal = (ch_terminal c \<or> is_terminal_choice (ch_value c) \<or> is_terminal_choice (ch_label c))\<rparr>)
             choices)))"

definition choice_is_terminal :: "string \<Rightarrow> state_choice list \<Rightarrow> bool" where
  "choice_is_terminal v choices = list_ex (\<lambda>c. st_terminal c \<and> eq_ignore_case (st_value c) v) choices"

definition record_state_value :: "snow_record \<Rightarrow> string option" where
  "record_state_value r =
     orelse (case sr_fields r ''state'' of None \<Rightarrow> None
             | Some f \<Rightarrow> if trim (fv_value f) \<noteq> [] then Some (fv_value f) else None)
            (if trim (sr_state r) \<noteq> [] then Some (sr_state r) else None)"

definition epic_exists :: "daemon_env \<Rightarrow> string \<Rightarrow> (plan_build_error, bool) step" where
  "epic_exists env epic = andthen (upstream env (\<lambda>i. de_epic_exists env i epic))
     (\<lambda>r. of_result (map_err PbUpstream r))"

definition validate_story_create_backlog_type :: "json \<Rightarrow> json \<times> json list" where
  "validate_story_create_backlog_type payload =
     (case json_get payload ''backlog_type'' of
        None \<Rightarrow> (payload, [])
      | Some v \<Rightarrow> (case map_option trim (as_str v) of
            Some s \<Rightarrow> if eq_ignore_case s ''product''
                      then (inject payload ''backlog_type'' (JStr ''product''), [])
                      else (payload, [rejection ''backlog_type'' ''value_not_in_enum''])
          | None \<Rightarrow> (payload, [rejection ''backlog_type'' ''type_mismatch''])))"

definition priority_unmapped_warning :: receipt_warning where
  "priority_unmapped_warning = \<lparr>rw_code = ''PRIORITY_VALUE_UNMAPPED'', rw_field = Some ''priority'',
     rw_message = ''Value not found in cached or dictionary-derived priority allowlist; passed to ServiceNow without translation.'',
     rw_data = None\<rparr>"

text \<open>The three constrained fields in turn: the payload with normalised values, what to reject, what
  to warn about.\<close>

definition validate_priority ::
  "daemon_env \<Rightarrow> string \<Rightarrow> board_binding \<Rightarrow> json
     \<Rightarrow> (plan_build_error, json \<times> json list \<times> receipt_warning list) step" where
  "validate_priority env table b payload =
     (case get_str payload ''priority'' of
        None \<Rightarrow> ok (payload, [], [])
      | Some priority \<Rightarrow>
          if str_contains ''cancel'' (to_lower priority)
          then ok (payload, [rejection ''priority'' ''value_constrained''], [])
          else andthen (normalize_choice_value env priority (bb_allowed_priorities b) table ''priority'' True)
            (\<lambda>v. ok (case v of
                Matched x \<Rightarrow> (json_insert ''priority'' (JStr x) payload, [], [])
              | Constrained \<Rightarrow> (payload, [rejection ''priority'' ''value_constrained''], [])
              | Unmapped \<Rightarrow> (payload, [], [priority_unmapped_warning]))))"

definition state_required_data :: "(state_choice \<Rightarrow> json) \<Rightarrow> state_choice list \<Rightarrow> string \<Rightarrow> json" where
  "state_required_data choice_json candidates note = jobj
     [(''code'', JStr ''STATE_REQUIRED''), (''field'', JStr ''state''),
      (''candidates'', JArr (map choice_json candidates)), (''operator_note'', JStr note)]"

definition state_choice_json :: "state_choice \<Rightarrow> json" where
  "state_choice_json c = jobj [(''value'', JStr (st_value c)), (''label'', JStr (st_label c)),
     (''terminal'', JBool (st_terminal c))]"

definition validate_state ::
  "daemon_env \<Rightarrow> string \<Rightarrow> string \<Rightarrow> board_binding \<Rightarrow> snow_record option \<Rightarrow> json
     \<Rightarrow> (plan_build_error, json \<times> json list) step" where
  "validate_state env tool table b current payload =
     (case get_str payload ''state'' of
        None \<Rightarrow> ok (payload, [])
      | Some supplied \<Rightarrow>
          andthen (state_choices_for_validation env
              (if str_contains ''task'' tool then bb_allowed_task_states b else bb_allowed_story_states b) table)
            (\<lambda>choices.
              let current_state = Option.bind current record_state_value;
                  ctx = \<lparr>sc_supplied = Some supplied, sc_current_state_value = current_state,
                    sc_current_state_terminal =
                      (case current_state of None \<Rightarrow> False | Some v \<Rightarrow> choice_is_terminal v choices)\<rparr>
              in (case resolve_state_from_cached_choices ctx choices of
                    StateResolved v \<Rightarrow> ok (json_insert ''state'' (JStr v) payload, [])
                  | StateMapped l v \<Rightarrow> ok (json_insert ''state'' (JStr v) payload, [])
                  | StateRequired cs note \<Rightarrow> fail (PbStateRequired (state_required_data state_choice_json cs note))
                  | StateFieldRejected f r original \<Rightarrow> ok (payload, [rejection f (rejection_reason_str r)])
                  | StateOmitted \<Rightarrow> ok (payload, []))))"

definition validate_epic :: "daemon_env \<Rightarrow> json \<Rightarrow> (plan_build_error, json list) step" where
  "validate_epic env payload =
     (case get_str payload ''epic'' of
        None \<Rightarrow> ok []
      | Some epic \<Rightarrow>
          if \<not> is_sys_id epic then ok [rejection ''epic'' ''value_not_in_enum'']
          else andthen (epic_exists env epic) (\<lambda>found.
            ok (if found then [] else [rejection ''epic'' ''value_not_in_enum''])))"

definition validate_constrained_fields ::
  "daemon_env \<Rightarrow> string \<Rightarrow> json \<Rightarrow> board_binding \<Rightarrow> snow_record option
     \<Rightarrow> (plan_build_error, json \<times> receipt_warning list) step" where
  "validate_constrained_fields env tool payload b current =
     (let table = table_for_story_tool tool b;
          (p0, f0) = (if tool = ''story_plan_create'' \<or> tool = ''story_apply_create''
                      then validate_story_create_backlog_type payload else (payload, []))
      in andthen (validate_priority env table b p0) (\<lambda>(p1, f1, warnings).
           andthen (validate_state env tool table b current p1) (\<lambda>(p2, f2).
             andthen (validate_epic env p2) (\<lambda>f3.
               let rows = f0 @ f1 @ f2 @ f3
               in if rows = [] then ok (p2, warnings) else fail (field_rejected rows)))))"

definition enforce_apply_field_governance ::
  "daemon_env \<Rightarrow> string \<Rightarrow> operation_plan \<Rightarrow> board_binding \<Rightarrow> snow_record option
     \<Rightarrow> (plan_build_error, unit) step" where
  "enforce_apply_field_governance env tool plan b current =
     (case as_object (op_planned_changes plan) of
        None \<Rightarrow> fail (PbInvalid ''planned_changes'')
      | Some payload \<Rightarrow>
          let rows = field_governance_rejections tool payload (de_policy env) WritePayload
          in if rows \<noteq> [] then fail (field_rejected rows)
             else andthen (validate_constrained_fields env tool (op_planned_changes plan) b current)
                    (\<lambda>_. ok ()))"

end
