(* ===== verification/Story_Scope.thy ===== *)
theory Story_Scope
  imports Story_Fields
begin

text \<open>
  Board scope (\<open>snow_daemon/src/story_write/scope.rs\<close>), the apply guard of
  \<open>confirmation.rs\<close>, the defaults a plan fills in (\<open>plan.rs\<close>) and the assignee taken from the
  caller (\<open>assignment.rs\<close>).
\<close>

subsection \<open>Groups and records\<close>

definition task_assignment_group_allowed :: "string \<Rightarrow> board_binding \<Rightarrow> bool" where
  "task_assignment_group_allowed observed b =
     (equal_sys_id observed (bb_assignment_group b)
      \<or> list_ex (equal_sys_id observed) (bb_allowed_task_assignment_groups b))"

definition expected_task_assignment_groups :: "board_binding \<Rightarrow> string" where
  "expected_task_assignment_groups b = join '','' (foldl (\<lambda>groups g.
     if trim g \<noteq> [] \<and> \<not> list_ex (\<lambda>seen. equal_sys_id seen g) groups then groups @ [g] else groups)
     [bb_assignment_group b] (bb_allowed_task_assignment_groups b))"

definition ensure_task_assignment_group_allowed ::
  "string \<Rightarrow> board_binding \<Rightarrow> (in_scope_failure, unit) result" where
  "ensure_task_assignment_group_allowed observed b =
     (if task_assignment_group_allowed observed b then Inr ()
      else Inl (WrongAssignmentGroup (expected_task_assignment_groups b) observed))"

definition enforce_task_assignment_group_payload_scope ::
  "json \<Rightarrow> board_binding \<Rightarrow> (in_scope_failure, unit) result" where
  "enforce_task_assignment_group_payload_scope payload b =
     (case reference_sys_id_from_json payload ''assignment_group'' of
        None \<Rightarrow> Inr ()
      | Some g \<Rightarrow> ensure_task_assignment_group_allowed g b)"

definition story_record_in_scope :: "snow_record \<Rightarrow> board_binding \<Rightarrow> (in_scope_failure, unit) result" where
  "story_record_in_scope r b = (case in_scope_snapshot_from_snow_record r of
       None \<Rightarrow> Inl (WrongAssignmentGroup (bb_assignment_group b) [])
     | Some s \<Rightarrow> story_in_scope s b)"

definition task_record_in_scope :: "snow_record \<Rightarrow> board_binding \<Rightarrow> (in_scope_failure, unit) result" where
  "task_record_in_scope task b =
     (if \<not> eq_ignore_case (trim (sr_table task)) (bb_task_table b)
      then Inl (TaskParentStoryMismatch (bb_task_table b) (sr_table task))
      else case in_scope_snapshot_from_snow_record task of
          None \<Rightarrow> Inl (WrongAssignmentGroup (bb_assignment_group b) [])
        | Some s \<Rightarrow>
            if \<not> task_assignment_group_allowed (sn_assignment_group_sys_id s) b
            then Inl (WrongAssignmentGroup (expected_task_assignment_groups b) (sn_assignment_group_sys_id s))
            else Inr ())"

definition story_create_payload_in_scope :: "json \<Rightarrow> board_binding \<Rightarrow> (in_scope_failure, unit) result" where
  "story_create_payload_in_scope payload b =
     (case in_scope_snapshot_from_json payload of
        None \<Rightarrow> Inl (WrongAssignmentGroup (bb_assignment_group b) [])
      | Some s \<Rightarrow>
          if sn_sprint_sys_id s \<noteq> None then story_in_scope s b
          else if \<not> sn_active s then Inl NotActive
          else if \<not> equal_sys_id (sn_assignment_group_sys_id s) (bb_assignment_group b)
          then Inl (WrongAssignmentGroup (bb_assignment_group b) (sn_assignment_group_sys_id s))
          else Inr ())"

text \<open>The field a scope failure blames, \<open>None\<close> where the caller gets the guard data instead.\<close>

fun story_scope_failure_field_rejections :: "in_scope_failure \<Rightarrow> json list option" where
  "story_scope_failure_field_rejections (WrongAssignmentGroup expected observed) = Some [jobj
     [(''field'', JStr ''assignment_group''), (''reason'', JStr ''not_in_allowlist''),
      (''expected'', JStr expected), (''observed'', JStr observed)]]"
| "story_scope_failure_field_rejections MissingSprint = Some [jobj
     [(''field'', JStr ''sprint''), (''reason'', JStr ''missing_no_default''),
      (''remediation'', JStr ''Either populate allowed_sprints in the board binding, or supply sprint=<sys_id> in the plan input'')]]"
| "story_scope_failure_field_rejections (SprintNotAllowed observed allowed) = Some [jobj
     [(''field'', JStr ''sprint''), (''reason'', JStr ''not_in_allowlist''),
      (''allowed'', JArr (map JStr allowed)), (''observed'', JStr observed)]]"
| "story_scope_failure_field_rejections NotActive = Some [rejection ''active'' ''active_false'']"
| "story_scope_failure_field_rejections (TaskParentOutOfScope cause) =
     story_scope_failure_field_rejections cause"
| "story_scope_failure_field_rejections (TaskParentStoryMismatch expected observed) = None"

definition enforce_story_payload_scope :: "json \<Rightarrow> board_binding \<Rightarrow> (plan_build_error, unit) result" where
  "enforce_story_payload_scope payload b =
     (if bb_allowed_sprints b = [] then Inr ()
      else map_err (\<lambda>failure. case story_scope_failure_field_rejections failure of
               Some rows \<Rightarrow> field_rejected rows | None \<Rightarrow> PbGuardFailed failure)
             (story_create_payload_in_scope payload b))"

definition enforce_story_record_scope :: "snow_record \<Rightarrow> board_binding \<Rightarrow> (plan_build_error, unit) result" where
  "enforce_story_record_scope r b =
     (if bb_allowed_sprints b = [] then Inr () else map_err PbGuardFailed (story_record_in_scope r b))"

definition enforce_task_record_scope :: "snow_record \<Rightarrow> board_binding \<Rightarrow> (plan_build_error, unit) result" where
  "enforce_task_record_scope task b =
     (if bb_allowed_sprints b = [] then Inr () else map_err PbGuardFailed (task_record_in_scope task b))"

definition task_parent_payload_check ::
  "json \<Rightarrow> snow_record \<Rightarrow> board_binding \<Rightarrow> (in_scope_failure, unit) result" where
  "task_parent_payload_check payload parent b =
     (case in_scope_snapshot_from_snow_record parent of
        None \<Rightarrow> Inl (TaskParentOutOfScope (WrongAssignmentGroup (bb_assignment_group b) []))
      | Some s \<Rightarrow> task_parent_in_scope s (or_else (task_parent_sys_id_from_json payload) [])
                    (sr_sys_id parent) b)"

definition enforce_task_parent_payload_scope ::
  "json \<Rightarrow> snow_record \<Rightarrow> board_binding \<Rightarrow> (plan_build_error, unit) result" where
  "enforce_task_parent_payload_scope payload parent b =
     (if bb_allowed_sprints b = [] then Inr ()
      else map_err PbGuardFailed (task_parent_payload_check payload parent b))"

definition resolve_story_task_create_assignment_group ::
  "(string \<times> json) list \<Rightarrow> snow_record \<Rightarrow> board_binding \<Rightarrow> (plan_build_error, string) result" where
  "resolve_story_task_create_assignment_group args parent b =
     (case bt_get args ''assignment_group'' of
        Some supplied \<Rightarrow> (case reference_sys_id_from_value supplied of
            None \<Rightarrow> Inl (PbInvalid ''assignment_group'')
          | Some g \<Rightarrow> if trim g = [] then Inl (PbInvalid ''assignment_group'')
              else map_err PbGuardFailed (bind_ok (ensure_task_assignment_group_allowed (trim g) b)
                     (\<lambda>_. Inr (trim g))))
      | None \<Rightarrow> Inr (case in_scope_snapshot_from_snow_record parent of
            Some s \<Rightarrow> if task_assignment_group_allowed (sn_assignment_group_sys_id s) b
                       then sn_assignment_group_sys_id s else bb_assignment_group b
          | None \<Rightarrow> bb_assignment_group b))"

subsection \<open>The guard of an apply\<close>

definition get_record_fresh :: "daemon_env \<Rightarrow> string \<Rightarrow> ('e, (string, snow_record option) result) step" where
  "get_record_fresh env number = upstream env (\<lambda>i. de_get_record env i number)"

text \<open>Fetch the plan's target for the guard: a missing target, a failed and an empty fetch each have
  their own failure.\<close>

definition guard_target ::
  "daemon_env \<Rightarrow> operation_plan \<Rightarrow> in_scope_failure \<Rightarrow> (record_ref \<Rightarrow> in_scope_failure)
     \<Rightarrow> (record_ref \<Rightarrow> in_scope_failure) \<Rightarrow> (in_scope_failure, snow_record) step" where
  "guard_target env plan no_target failed absent =
     (case op_target plan of
        None \<Rightarrow> fail no_target
      | Some target \<Rightarrow> andthen (get_record_fresh env (rr_number target)) (\<lambda>r. case r of
            Inl _ \<Rightarrow> fail (failed target)
          | Inr None \<Rightarrow> fail (absent target)
          | Inr (Some rec) \<Rightarrow> ok rec))"

definition enforce_apply_guard ::
  "daemon_env \<Rightarrow> string \<Rightarrow> operation_plan \<Rightarrow> board_binding \<Rightarrow> (in_scope_failure, unit) step" where
  "enforce_apply_guard env tool plan b =
     (let mismatch = (\<lambda>t. TaskParentStoryMismatch (rr_sys_id t) []);
          wrong_group = WrongAssignmentGroup (bb_assignment_group b) []
      in if bb_allowed_sprints b = [] then ok ()
         else if tool = ''story_apply_create''
         then of_result (story_create_payload_in_scope (op_planned_changes plan) b)
         else if tool = ''story_task_apply_create''
         then andthen (guard_target env plan (TaskParentStoryMismatch ''parent_story'' [])
                (\<lambda>_. TaskParentOutOfScope MissingSprint) mismatch) (\<lambda>parent.
              of_result (bind_ok (task_parent_payload_check (op_planned_changes plan) parent b) (\<lambda>_.
                enforce_task_assignment_group_payload_scope (op_planned_changes plan) b)))
         else if tool = ''story_apply_update''
         then andthen (guard_target env plan wrong_group (\<lambda>_. wrong_group) (\<lambda>_. wrong_group)) (\<lambda>current.
              of_result (story_record_in_scope current b))
         else if tool = ''story_task_apply_update''
         then andthen (guard_target env plan (TaskParentStoryMismatch ''parent_story'' []) mismatch mismatch)
              (\<lambda>current. of_result (task_record_in_scope current b))
         else ok ())"

subsection \<open>Defaults of a create\<close>

definition default_story_create_reference_fields ::
  "json \<Rightarrow> board_binding \<Rightarrow> (plan_build_error, json) result" where
  "default_story_create_reference_fields payload b =
     (case as_object payload of
        None \<Rightarrow> Inr payload
      | Some m \<Rightarrow>
          bind_ok (case bt_get m ''assignment_group'' of
              Some supplied \<Rightarrow>
                if reference_sys_id_from_value supplied = None
                then Inl (field_rejected [rejection ''assignment_group'' ''type_mismatch''])
                else Inr payload
            | None \<Rightarrow> Inr (json_insert ''assignment_group'' (JStr (bb_assignment_group b)) payload))
            (\<lambda>p. case json_get p ''sprint'' of
                None \<Rightarrow> Inr p
              | Some supplied \<Rightarrow>
                  if (case supplied of JStr v \<Rightarrow> trim v = [] | _ \<Rightarrow> False)
                  then Inr (json_remove ''sprint'' p)
                  else (case reference_sys_id_from_value supplied of
                      None \<Rightarrow> Inl (field_rejected [rejection ''sprint'' ''type_mismatch''])
                    | Some sprint \<Rightarrow> if is_sys_id sprint then Inr p
                        else Inl (field_rejected [rejection ''sprint'' ''value_not_in_enum'']))))"

definition story_create_is_backlog_payload :: "json \<Rightarrow> bool" where
  "story_create_is_backlog_payload payload = (case as_object payload of
       None \<Rightarrow> False
     | Some m \<Rightarrow> bt_get m ''sprint'' = None \<and> bt_get m ''epic'' = None)"

definition story_create_apply_field_allowed :: "policy_config \<Rightarrow> string \<Rightarrow> bool" where
  "story_create_apply_field_allowed policy field =
     (field \<in> field_allowlist_for_apply_tool policy ''story_apply_create'')"

definition default_story_create_backlog_type :: "json \<Rightarrow> policy_config \<Rightarrow> json" where
  "default_story_create_backlog_type payload policy =
     (if \<not> story_create_is_backlog_payload payload \<or> \<not> story_create_apply_field_allowed policy ''backlog_type''
      then payload
      else case json_get payload ''backlog_type'' of
          None \<Rightarrow> json_insert ''backlog_type'' (JStr ''product'') payload | Some _ \<Rightarrow> payload)"

definition warn_missing_story_create_optional_required_fields :: "json \<Rightarrow> receipt_warning list" where
  "warn_missing_story_create_optional_required_fields payload =
     (if reference_sys_id_from_json payload ''cmdb_ci'' \<noteq> None then []
      else [\<lparr>rw_code = ''MISSING_OPTIONAL_REQUIRED_FIELD'', rw_field = Some ''cmdb_ci'',
             rw_message = ''Configuration Item was not supplied; ServiceNow may reject the Story create.'',
             rw_data = Some (jobj [(''field'', JStr ''cmdb_ci'')])\<rparr>])"

definition strip_non_writable_selector_fields :: "string \<Rightarrow> json \<Rightarrow> json" where
  "strip_non_writable_selector_fields tool payload =
     (let p = fold json_remove metadata_fields payload
      in if tool = ''story_plan_update'' \<or> tool = ''story_task_plan_update'' then json_remove ''number'' p
         else if tool = ''story_task_plan_create'' then json_remove ''parent_story_number'' p
         else p)"

subsection \<open>Assignee and owner\<close>

definition find_active_user_sys_ids :: "daemon_env \<Rightarrow> string \<Rightarrow> string \<Rightarrow> ('e, string list) step" where
  "find_active_user_sys_ids env field v =
     andthen (upstream env (\<lambda>i. de_find_users env i field v)) (\<lambda>r.
       ok (case r of Inr ids \<Rightarrow> ids | Inl _ \<Rightarrow> []))"

definition trimmed_email :: "story_actor \<Rightarrow> string option" where
  "trimmed_email actor = Option.bind (sa_email actor) (\<lambda>e. nonempty (trim e))"

definition users_by :: "daemon_env \<Rightarrow> string \<Rightarrow> string option \<Rightarrow> ('e, string list) step" where
  "users_by env field v = (case v of None \<Rightarrow> ok [] | Some x \<Rightarrow> find_active_user_sys_ids env field x)"

definition resolve_actor_sys_user_sys_id :: "daemon_env \<Rightarrow> story_actor \<Rightarrow> ('e, string option) step" where
  "resolve_actor_sys_user_sys_id env actor =
     andthen (users_by env ''email'' (trimmed_email actor)) (\<lambda>hits.
       case hits of [sys_id] \<Rightarrow> ok (Some sys_id)
     | _ \<Rightarrow> let subject = trim (sa_subject actor)
            in if subject \<noteq> [] \<and> is_sys_id subject then ok (Some subject)
               else andthen (users_by env ''user_name'' (nonempty subject)) (\<lambda>hits.
                 case hits of [sys_id] \<Rightarrow> ok (Some sys_id) | _ \<Rightarrow> ok None))"

definition default_story_owner_from_actor ::
  "daemon_env \<Rightarrow> json \<Rightarrow> story_actor \<Rightarrow> ('e, json \<times> receipt_warning list) step" where
  "default_story_owner_from_actor env payload actor =
     (if as_object payload = None \<or> json_get payload ''u_story_owner'' \<noteq> None then ok (payload, [])
      else andthen (resolve_actor_sys_user_sys_id env actor) (\<lambda>owner. ok (case owner of
          None \<Rightarrow> (payload, [])
        | Some sys_id \<Rightarrow> (json_insert ''u_story_owner'' (JStr sys_id) payload,
            [\<lparr>rw_code = ''STORY_OWNER_DEFAULTED_FROM_CALLER'', rw_field = Some ''u_story_owner'',
              rw_message = ''Substituted caller identity for omitted story owner.'',
              rw_data = Some (jobj [(''source'', JStr ''caller_identity'')])\<rparr>]))))"

definition assignee_warning :: "string \<Rightarrow> string \<Rightarrow> json option \<Rightarrow> receipt_warning" where
  "assignee_warning code message data = \<lparr>rw_code = code, rw_field = Some ''assigned_to'',
     rw_message = message, rw_data = data\<rparr>"

definition unresolved_assignee_warning :: "(string \<Rightarrow> string) \<Rightarrow> story_actor \<Rightarrow> string list \<Rightarrow> receipt_warning" where
  "unresolved_assignee_warning sha256 actor ambiguous =
     (if ambiguous = []
      then let mask = map_option (mask_email_for_receipt sha256) (sa_email actor)
           in assignee_warning ''ASSIGNEE_UNRESOLVED'' (assignee_unresolved_warning_message mask)
                (map_option (\<lambda>m. jobj [(''email_local_part'', JStr (pm_email_local_part m)),
                   (''domain_hash'', JStr (pm_domain_hash m)),
                   (''email_sha256'', jopt (map_option (hash_email_for_audit sha256) (sa_email actor)))]) mask)
      else assignee_warning ''ASSIGNEE_AMBIGUOUS''
        ''Multiple sys_user records matched caller identity; field left blank. Specify assigned_to explicitly.''
        (Some (case assignee_ambiguous_warning_data sha256 (sa_email actor) ambiguous of
            Some d \<Rightarrow> jobj [(''email_local_part'', JStr (aw_email_local_part d)),
              (''domain_hash'', JStr (aw_domain_hash d)),
              (''candidate_sys_ids'', JArr (map JStr (aw_candidate_sys_ids d))),
              (''email_sha256'', jopt (map_option (hash_email_for_audit sha256) (sa_email actor)))]
          | None \<Rightarrow> jobj [(''candidate_sys_ids'', JArr (map JStr ambiguous))])))"

definition default_assignee_from_actor ::
  "daemon_env \<Rightarrow> json \<Rightarrow> story_actor \<Rightarrow> ('e, json \<times> receipt_warning list) step" where
  "default_assignee_from_actor env payload actor =
     andthen (users_by env ''email'' (trimmed_email actor)) (\<lambda>email_hits.
       case email_hits of
         [sys_id] \<Rightarrow>
           (let email = or_else (trimmed_email actor) [];
                mask = mask_email_for_receipt (de_sha256 env) email
            in ok (json_insert ''assigned_to'' (JStr sys_id) payload,
                 [assignee_warning ''ASSIGNEE_DEFAULTED_FROM_CALLER'' (assignee_defaulted_warning_message mask)
                    (Some (jobj [(''email_local_part'', JStr (pm_email_local_part mask)),
                       (''domain_hash'', JStr (pm_domain_hash mask)),
                       (''email_sha256'', JStr (hash_email_for_audit (de_sha256 env) email)),
                       (''source'', JStr ''email_match'')]))]))
       | _ \<Rightarrow> andthen (users_by env ''user_name'' (nonempty (trim (sa_subject actor)))) (\<lambda>name_hits.
           case name_hits of
             [sys_id] \<Rightarrow> ok (json_insert ''assigned_to'' (JStr sys_id) payload,
               [assignee_warning ''ASSIGNEE_DEFAULTED_FROM_CALLER''
                  ''Substituted caller identity for omitted assignee.''
                  (Some (jobj [(''source'', JStr ''user_name_match'')]))])
           | _ \<Rightarrow> ok (json_remove ''assigned_to'' payload,
                  [unresolved_assignee_warning (de_sha256 env) actor (email_hits @ name_hits)])))"

definition resolve_assignee_in_payload ::
  "daemon_env \<Rightarrow> string \<Rightarrow> json \<Rightarrow> story_actor
     \<Rightarrow> (plan_build_error, json \<times> receipt_warning list) step" where
  "resolve_assignee_in_payload env tool payload actor =
     (if as_object payload = None then ok (payload, [])
      else case json_get payload ''assigned_to'' of
          Some JNull \<Rightarrow> ok (payload, [])
        | Some (JStr v) \<Rightarrow>
            if is_sys_id v then ok (payload, [])
            else if eq_ignore_case (trim v) ''caller'' then default_assignee_from_actor env payload actor
            else fail (field_rejected [rejection ''assigned_to'' ''value_not_in_enum''])
        | Some _ \<Rightarrow> fail (field_rejected [rejection ''assigned_to'' ''type_mismatch''])
        | None \<Rightarrow>
            if ends_with ''_plan_update'' tool then ok (payload, [])
            else default_assignee_from_actor env payload actor)"

end
