(* ===== verification/Story_Recovery.thy ===== *)
theory Story_Recovery
  imports Story_Scope
begin

text \<open>
  Auditing of a story write, validation of its confirmation token, receipts, and recovery of a
  write whose outcome is unknown (\<open>snow_daemon/src/story_write/audit.rs\<close>, \<open>confirmation.rs\<close>,
  \<open>recovery.rs\<close> and the receipt part of \<open>apply.rs\<close>).
\<close>

subsection \<open>Audit\<close>

definition receipt_warnings_for_caller :: "receipt_warning list \<Rightarrow> receipt_warning list" where
  "receipt_warnings_for_caller ws = map (\<lambda>x. case rw_data x of
       Some (JObj m) \<Rightarrow> (let d = bt_remove ''email_sha256'' m
          in x\<lparr>rw_data := (if d = [] then None else Some (JObj d))\<rparr>)
     | Some other \<Rightarrow> x\<lparr>rw_data := None\<rparr>
     | None \<Rightarrow> x) ws"

definition sorted_distinct :: "string list \<Rightarrow> string list" where
  "sorted_distinct xs = remdups_adj (sort xs)"

definition audit_email_hashes_from_warnings :: "receipt_warning list \<Rightarrow> string list" where
  "audit_email_hashes_from_warnings ws = sorted_distinct (List.map_filter
     (\<lambda>x. Option.bind (rw_data x) (\<lambda>d. get_str d ''email_sha256'')) ws)"

definition audit_email_hashes_from_plan :: "json \<Rightarrow> string list" where
  "audit_email_hashes_from_plan plan_json = sorted_distinct (List.map_filter as_str
     (or_else (Option.bind (json_get plan_json ''audit_warning_email_sha256'') as_array) []))"

definition is_d5_caller_email_warning :: "string \<Rightarrow> bool" where
  "is_d5_caller_email_warning code = (code \<in> set
     [''ASSIGNEE_DEFAULTED_FROM_CALLER'', ''ASSIGNEE_UNRESOLVED'', ''ASSIGNEE_AMBIGUOUS''])"

definition hash_audit_value :: "daemon_env \<Rightarrow> json option \<Rightarrow> string" where
  "hash_audit_value env v = de_sha256 env (case v of None \<Rightarrow> [] | Some x \<Rightarrow> de_to_vec env x)"

fun non_free_text_preview :: "daemon_env \<Rightarrow> json \<Rightarrow> string" where
  "non_free_text_preview env (JStr s) = s"
| "non_free_text_preview env v = de_to_text env v"

definition is_free_text_field :: "string \<Rightarrow> bool" where
  "is_free_text_field field = (field \<in> set [''short_description'', ''description'', ''acceptance_criteria''])"

definition audit_warnings :: "receipt_warning list \<Rightarrow> string list \<Rightarrow> json list" where
  "audit_warnings ws hashes = map (\<lambda>x.
     let v = jobj [(''code'', JStr (rw_code x)), (''field'', jopt (rw_field x))]
     in if is_d5_caller_email_warning (rw_code x) \<and> hashes \<noteq> []
        then json_insert ''data'' (jobj [(''email_sha256'', JStr (hd hashes))]) v else v) ws"

definition applied_change_json :: "applied_change \<Rightarrow> json" where
  "applied_change_json c = jobj [(''field'', JStr (ac_field c)), (''old_hash'', JStr (ac_old_hash c)),
     (''new_hash'', JStr (ac_new_hash c)), (''redacted_preview'', jopt (ac_redacted_preview c))]"

definition audit_summary_for_receipt ::
  "daemon_env \<Rightarrow> operation_receipt \<Rightarrow> string list \<Rightarrow> json \<times> applied_change list" where
  "audit_summary_for_receipt env rc hashes =
     (let changes = map (\<lambda>c. \<lparr>ac_field = fc_field c, ac_old_hash = hash_audit_value env (fc_before c),
            ac_new_hash = hash_audit_value env (fc_after c),
            ac_redacted_preview = (if is_free_text_field (fc_field c) then None
              else map_option (non_free_text_preview env) (fc_after c))\<rparr>) (re_changed_fields rc)
      in (jobj [(''op_hash'', JStr (re_op_hash rc)),
                (''warnings'', JArr (audit_warnings (re_warnings rc) hashes)),
                (''changed_fields'', JArr (map applied_change_json changes))], changes))"

definition gate_row :: "string \<times> string \<Rightarrow> policy_decision_row" where
  "gate_row g = \<lparr>pd_gate = fst g, pd_verdict = snd g, pd_reason = None, pd_remediation = None\<rparr>"

definition policy_decisions_for ::
  "string \<Rightarrow> result_status \<Rightarrow> error_row option \<Rightarrow> policy_decision_row list" where
  "policy_decisions_for tool status error =
     (let code = map_option er_code error;
          is = (\<lambda>c. code = Some c)
      in map gate_row
        (if is ''FIELD_REJECTED'' then [(''FieldAllowlist'', ''Deny'')]
         else if is ''GUARD_FAILED'' \<or> is ''STATE_REQUIRED'' then [(''Resolution'', ''Deny'')]
         else if is ''IDEMPOTENCY_CONFLICT'' \<or> is ''PENDING_RESOLUTION_REQUIRED'' then [(''Idempotency'', ''Deny'')]
         else if is ''CONCURRENCY_CONFLICT'' \<or> is ''CONCURRENCY_TOKEN_INVALID'' then [(''ConcurrencyToken'', ''Deny'')]
         else if is ''CONFIRMATION_INVALID'' \<or> is ''PLAN_EXPIRED'' then [(''Confirmation'', ''Deny'')]
         else if is ''KILL_SWITCH'' then [(''EnvironmentGate'', ''Deny'')]
         else if is ''RATE_LIMITED'' then [(''RateLimit'', ''Deny'')]
         else if tool = ''confirmation_issue'' \<or> tool = ''confirmation_consume'' then [(''Confirmation'', ''Allow'')]
         else if status = SAppliedSuccess then [(''Confirmation'', ''Allow''), (''Idempotency'', ''Allow''),
           (''ConcurrencyToken'', ''Allow''), (''FieldAllowlist'', ''Allow''), (''RateLimit'', ''Allow'')]
         else if status = SPlan then [(''FieldAllowlist'', ''Allow''), (''EnvironmentGate'', ''Allow'')]
         else []))"

definition audit_identity :: "string \<Rightarrow> actor_identity" where
  "audit_identity subject = \<lparr>ai_subject = subject, ai_display_name = subject,
     ai_source_claim = ''mcp_request''\<rparr>"

definition story_event ::
  "daemon_env \<Rightarrow> time \<Rightarrow> string \<Rightarrow> string option \<Rightarrow> string \<Rightarrow> result_status \<Rightarrow> json option
     \<Rightarrow> service_now_metadata option \<Rightarrow> error_row option \<Rightarrow> (string \<times> string) option
     \<Rightarrow> applied_change list option \<Rightarrow> audit_event" where
  "story_event env now audit_id parent tool status planned meta error identities applied =
     (let (actor, requester) = or_else identities (de_instance_user env, de_instance_user env);
          e = event_new_plan now audit_id (me_label (de_environment env)) (audit_identity actor)
                (audit_identity requester) \<lparr>cl_client_id = Some ''snow_daemon'', cl_user_agent = None,
                   cl_transport = ''daemon_json_rpc''\<rparr> tool
      in e\<lparr>ae_parent_audit_id := parent, ae_result_status := status,
           ae_policy_decisions := policy_decisions_for tool status error,
           ae_normalized_arguments_redacted := or_else planned JNull,
           ae_planned_changes := planned, ae_applied_changes := applied,
           ae_service_now_metadata := meta, ae_error := error\<rparr>)"

definition append_audit_event ::
  "daemon_env \<Rightarrow> string \<Rightarrow> string option \<Rightarrow> string \<Rightarrow> result_status \<Rightarrow> json option
     \<Rightarrow> service_now_metadata option \<Rightarrow> error_row option \<Rightarrow> (string \<times> string) option
     \<Rightarrow> applied_change list option \<Rightarrow> (string, audit_event) step" where
  "append_audit_event env audit_id parent tool status planned meta error identities applied =
     andthen (open_stores env) (\<lambda>_. andthen (ask (de_clock env)) (\<lambda>now. andthen (ask (de_clock env)) (\<lambda>now2.
       andthen (sql env (\<lambda>s.
          let (r, t) = append_event (de_sha256 env) (de_event_ser env) now2
                (story_event env now audit_id parent tool status planned meta error identities applied)
                (ss_audit s)
          in (r, s\<lparr>ss_audit := t\<rparr>))) (\<lambda>r.
         of_result (map_err (\<lambda>_. ''UNIQUE constraint failed: mcp_audit_events.audit_id'') r)))))"

definition append_confirmation_consume_audit ::
  "daemon_env \<Rightarrow> string \<Rightarrow> string \<Rightarrow> string \<Rightarrow> (string, unit) step" where
  "append_confirmation_consume_audit env plan_id actor requester =
     andthen (ask (de_uuid env)) (\<lambda>i. andthen (append_audit_event env i (Some plan_id)
        ''confirmation_consume'' SPlan None None None (Some (actor, requester)) None) (\<lambda>_. ok ()))"

definition audit_error_reason :: "string \<Rightarrow> json \<Rightarrow> string" where
  "audit_error_reason message data = or_else (get_str data ''code'') message"

text \<open>An error that is audited first; it ends the request.\<close>

definition audited_story_error ::
  "daemon_env \<Rightarrow> string \<Rightarrow> int \<Rightarrow> string \<Rightarrow> json \<Rightarrow> result_status \<Rightarrow> (story_response, 'a) step" where
  "audited_story_error env tool code message data status =
     andthen (ask (de_uuid env)) (\<lambda>i. inspect (append_audit_event env i None tool status None None
        (Some \<lparr>er_code = message, er_reason = audit_error_reason message data, er_retryable = False,
               er_transient = False\<rparr>) None None)
       (\<lambda>r. case r of Inr _ \<Rightarrow> fail (story_error code message data) | Inl err \<Rightarrow> fail (internal_error err)))"

definition pending_resolution_required ::
  "daemon_env \<Rightarrow> string \<Rightarrow> operation_plan \<Rightarrow> (story_response, 'a) step" where
  "pending_resolution_required env tool plan =
     audited_story_error env tool (-32060) ''PENDING_RESOLUTION_REQUIRED''
       (jobj [(''code'', JStr ''PENDING_RESOLUTION_REQUIRED''), (''plan_id'', JStr (op_plan_id plan)),
              (''retry_after_seconds'', JNum ''2'')]) SError"

definition confirmation_invalid ::
  "daemon_env \<Rightarrow> string \<Rightarrow> confirmation_consume_error \<Rightarrow> (story_response, 'a) step" where
  "confirmation_invalid env tool err =
     audited_story_error env tool (-32054) ''CONFIRMATION_INVALID''
       (jobj [(''code'', JStr ''CONFIRMATION_INVALID''), (''reason'', JStr (consume_error_text err))]) SDenied"

subsection \<open>Tokens\<close>

definition validate_confirmation_replay_binding ::
  "confirmation_record \<Rightarrow> confirmation_binding \<Rightarrow> (confirmation_consume_error, unit) result" where
  "validate_confirmation_replay_binding r b =
     (if cr_revoked r then Inl Revoked
      else case binding_mismatch r b of Some f \<Rightarrow> Inl (BindingMismatch f) | None \<Rightarrow> Inr ())"

definition validate_confirmation_binding ::
  "time \<Rightarrow> confirmation_record \<Rightarrow> confirmation_binding \<Rightarrow> (confirmation_consume_error, unit) result" where
  "validate_confirmation_binding now r b =
     (if cr_revoked r then Inl Revoked
      else if cr_expires_at r \<le> now then Inl TokenExpired
      else case binding_mismatch r b of Some f \<Rightarrow> Inl (BindingMismatch f) | None \<Rightarrow> Inr ())"

definition validate_confirmation ::
  "time \<Rightarrow> confirmation_record \<Rightarrow> confirmation_binding \<Rightarrow> (confirmation_consume_error, unit) result" where
  "validate_confirmation now r b =
     bind_ok (validate_confirmation_binding now r b) (\<lambda>_.
       if cr_consumed r then Inl AlreadyConsumed else Inr ())"

definition validate_replay_confirmation ::
  "daemon_env \<Rightarrow> string \<Rightarrow> confirmation_binding \<Rightarrow> (confirmation_consume_error, unit) step" where
  "validate_replay_confirmation env token b =
     inspect (lookup_token env token) (\<lambda>r. of_result (case r of
         Inr (Some c) \<Rightarrow> validate_confirmation_replay_binding c b
       | _ \<Rightarrow> Inl NotFound))"

text \<open>The kill switch is an environment variable of the process.\<close>

definition is_kill_switched :: "string option \<Rightarrow> bool" where
  "is_kill_switched var = (case var of None \<Rightarrow> False
     | Some v \<Rightarrow> to_lower v \<in> set [''1'', ''true'', ''yes''])"

subsection \<open>Receipts\<close>

definition trim_end_slashes :: "string \<Rightarrow> string" where
  "trim_end_slashes s = rev (dropWhile (\<lambda>c. c = CHR ''/'') (rev s))"

definition receipt_for_write ::
  "daemon_env \<Rightarrow> time \<Rightarrow> operation_plan \<Rightarrow> string \<Rightarrow> string \<Rightarrow> time \<Rightarrow> snow_record \<Rightarrow> concurrency_token
     \<Rightarrow> snow_record option \<Rightarrow> receipt_warning list \<Rightarrow> operation_receipt" where
  "receipt_for_write env now plan tool audit_id started r token prior warnings =
     \<lparr>re_plan_id = op_plan_id plan, re_audit_id = audit_id, re_parent_audit_id = op_plan_id plan,
      re_tool = tool, re_status = RSuccess,
      re_applied_changes_summary = Some (op_planned_changes plan),
      re_service_now_metadata = Some \<lparr>sm_sys_id = Some (sr_sys_id r), sm_number = Some (sr_number r),
        sm_transaction_id = None\<rparr>,
      re_idempotency_replay = False, re_completed_at = now, re_op_hash = op_op_hash plan,
      re_record_url = Some (trim_end_slashes (de_instance_url env) @ ''/nav_to.do?uri='' @ sr_table r
        @ ''.do?sys_id='' @ sr_sys_id r),
      re_record_snapshot = de_record_json env r,
      re_changed_fields = (case as_object (op_planned_changes plan) of
          None \<Rightarrow> []
        | Some m \<Rightarrow> map (\<lambda>(field, after). \<lparr>fc_field = field,
            fc_before = Option.bind prior (\<lambda>b. record_field_value b field), fc_after = Some after\<rparr>) m),
      re_concurrency_token_observed = Some token, re_apply_started_at = Some started,
      re_error_code = None, re_warnings = warnings\<rparr>"

subsection \<open>Recovery\<close>

fun value_matches :: "daemon_env \<Rightarrow> json \<Rightarrow> json \<Rightarrow> bool" where
  "value_matches env (JStr observed) (JStr expected) = (observed = expected)"
| "value_matches env (JStr observed) other = (observed = de_to_text env other)"
| "value_matches env other (JStr expected) = (de_to_text env other = expected)"
| "value_matches env observed expected = (observed = expected)"

definition record_already_matches :: "daemon_env \<Rightarrow> snow_record \<Rightarrow> json \<Rightarrow> bool" where
  "record_already_matches env r planned = (case as_object planned of
       None \<Rightarrow> False
     | Some m \<Rightarrow> list_all (\<lambda>(field, expected). case record_field_value r field of
           None \<Rightarrow> False | Some observed \<Rightarrow> value_matches env observed expected) m)"

datatype update_pending_decision = AlreadyApplied | ProceedUnchangedToken | UpdateNeedsOperator

definition classify_update_recovery_record ::
  "daemon_env \<Rightarrow> snow_record \<Rightarrow> json \<Rightarrow> concurrency_token option \<Rightarrow> update_pending_decision" where
  "classify_update_recovery_record env r planned expected =
     (if record_already_matches env r planned then AlreadyApplied
      else if expected \<noteq> None \<and> concurrency_from_record r = expected then ProceedUnchangedToken
      else UpdateNeedsOperator)"

datatype create_recovery_lookup = Found snow_record | NoMatch | Ambiguous

datatype create_pending_decision = CreateProceed | CreateNeedsOperator

fun classify_create_recovery_lookup :: "create_recovery_lookup \<Rightarrow> create_pending_decision" where
  "classify_create_recovery_lookup (Found r) = CreateNeedsOperator"
| "classify_create_recovery_lookup Ambiguous = CreateNeedsOperator"
| "classify_create_recovery_lookup NoMatch = CreateProceed"

definition create_recovery_created_after :: "daemon_env \<Rightarrow> plan_store_record \<Rightarrow> string" where
  "create_recovery_created_after env r = de_format_time env (pr_created_at r - secs 300)"

text \<open>What is searched for: the table and the equality filters, \<open>None\<close> when a field is missing.\<close>

definition recovery_query :: "string \<Rightarrow> json \<Rightarrow> (string \<times> (string \<times> string) list) option" where
  "recovery_query tool changes =
     (if as_object changes = None then None
      else case get_str changes ''short_description'' of
        None \<Rightarrow> None
      | Some short_description \<Rightarrow>
          if tool = ''story_apply_create''
          then Option.bind (get_str changes ''assignment_group'') (\<lambda>g.
               Option.bind (get_str changes ''sprint'') (\<lambda>sprint.
                 Some (''rm_story'', [(''assignment_group'', g), (''sprint'', sprint),
                    (''short_description'', short_description)])))
          else if tool = ''story_task_apply_create''
          then Option.bind (get_str changes ''story'') (\<lambda>story.
                 Some (''rm_scrum_task'', [(''story'', story), (''short_description'', short_description)]))
          else None)"

definition find_recovered_create_record ::
  "daemon_env \<Rightarrow> string \<Rightarrow> operation_plan \<Rightarrow> plan_store_record \<Rightarrow> (string, create_recovery_lookup) step" where
  "find_recovered_create_record env tool plan plan_record =
     (case recovery_query tool (op_planned_changes plan) of
        None \<Rightarrow> ok NoMatch
      | Some (table, filters) \<Rightarrow>
          andthen (upstream env (\<lambda>i. de_find_created env i table filters
             (create_recovery_created_after env plan_record))) (\<lambda>r.
          andthen (of_result r) (\<lambda>hits. case hits of
              [] \<Rightarrow> ok NoMatch
            | [None] \<Rightarrow> ok NoMatch
            | [Some number] \<Rightarrow> andthen (get_record_fresh env number) (\<lambda>r. andthen (of_result r) (\<lambda>rec.
                ok (case rec of Some x \<Rightarrow> Found x | None \<Rightarrow> NoMatch)))
            | _ \<Rightarrow> ok Ambiguous)))"

datatype pending_recovery = Recovered operation_receipt | Proceed | NeedsOperator

definition recovered_receipt ::
  "daemon_env \<Rightarrow> string \<Rightarrow> operation_plan \<Rightarrow> receipt_warning list \<Rightarrow> snow_record
     \<Rightarrow> (string, pending_recovery) step" where
  "recovered_receipt env tool plan warnings r =
     andthen (ask (de_uuid env)) (\<lambda>i. andthen (ask (de_clock env)) (\<lambda>started. andthen (ask (de_clock env)) (\<lambda>now.
       ok (Recovered (receipt_for_write env now plan tool i started r
         (or_else (concurrency_from_record r) \<lparr>ct_sys_updated_on = [], ct_sys_mod_count = None\<rparr>)
         None warnings)))))"

definition try_resolve_pending_receipt ::
  "daemon_env \<Rightarrow> string \<Rightarrow> operation_plan \<Rightarrow> plan_store_record \<Rightarrow> receipt_warning list
     \<Rightarrow> (string, pending_recovery) step" where
  "try_resolve_pending_receipt env tool plan plan_record warnings =
     (if tool = ''story_apply_create'' \<or> tool = ''story_task_apply_create''
      then andthen (find_recovered_create_record env tool plan plan_record) (\<lambda>l. case l of
             Found r \<Rightarrow> recovered_receipt env tool plan warnings r
           | _ \<Rightarrow> (case classify_create_recovery_lookup l of
                CreateProceed \<Rightarrow> ok Proceed | CreateNeedsOperator \<Rightarrow> ok NeedsOperator))
      else if tool = ''story_apply_update'' \<or> tool = ''story_task_apply_update''
      then (case op_target plan of
          None \<Rightarrow> ok NeedsOperator
        | Some target \<Rightarrow> andthen (get_record_fresh env (rr_number target)) (\<lambda>r. andthen (of_result r) (\<lambda>rec.
            case rec of
              None \<Rightarrow> ok NeedsOperator
            | Some r \<Rightarrow> (case classify_update_recovery_record env r (op_planned_changes plan)
                    (pr_concurrency_token plan_record) of
                  AlreadyApplied \<Rightarrow> recovered_receipt env tool plan warnings r
                | ProceedUnchangedToken \<Rightarrow> ok Proceed
                | UpdateNeedsOperator \<Rightarrow> ok NeedsOperator))))
      else ok NeedsOperator)"

definition resolve_pending_response ::
  "daemon_env \<Rightarrow> string \<Rightarrow> idempotency_key \<Rightarrow> operation_plan \<Rightarrow> plan_store_record \<Rightarrow> receipt_warning list
     \<Rightarrow> (string \<times> confirmation_binding) option \<Rightarrow> (string, pending_recovery) step" where
  "resolve_pending_response env tool key plan plan_record warnings consume =
     andthen (try_resolve_pending_receipt env tool plan plan_record warnings) (\<lambda>p. case p of
         Recovered rc \<Rightarrow>
           andthen (open_stores env) (\<lambda>_.
           andthen (case consume of
               None \<Rightarrow> ok ()
             | Some (token, b) \<Rightarrow>
                 andthen (map_err_step (\<lambda>err. ''confirmation recovery consume failed: '' @ consume_error_text err)
                    (consume_token env token b)) (\<lambda>_.
                   append_confirmation_consume_audit env (op_plan_id plan) (cb_actor b) (cb_requester b))) (\<lambda>_.
           andthen (save_receipt env key rc) (\<lambda>_.
           inspect (mark_plan_consumed env (op_plan_id plan)) (\<lambda>_.
             let (summary, applied) = audit_summary_for_receipt env rc
                   (audit_email_hashes_from_plan (pr_plan_json plan_record))
             in andthen (append_audit_event env (re_audit_id rc) (Some (op_plan_id plan)) tool SReplay
                   (Some summary) (re_service_now_metadata rc) None
                   (Some (pr_actor plan_record, pr_actor plan_record)) (Some applied)) (\<lambda>_.
                 ok (Recovered rc))))))
       | Proceed \<Rightarrow> ok Proceed
       | NeedsOperator \<Rightarrow> ok NeedsOperator)"

end
