(* ===== verification/Story_Apply.thy ===== *)
theory Story_Apply
  imports Story_Recovery
begin

text \<open>
  The apply handler (\<open>snow_daemon/src/story_write/apply.rs\<close>, with \<open>board_binding\<close> and the parameter
  readers of \<open>plan.rs\<close>), step by step in the order of the code. A response that ends the request
  early, success or error, is the left side of a step; \<open>handle_story_apply\<close> joins both sides.
\<close>

subsection \<open>Parameters\<close>

definition string_param :: "json \<Rightarrow> string \<Rightarrow> string option" where
  "string_param params field = Option.bind (get_str params field) (\<lambda>s. nonempty (trim s))"

definition subject_param :: "json \<Rightarrow> string \<Rightarrow> string option" where
  "subject_param params field = Option.bind (json_get params field) (\<lambda>v.
     orelse (as_str v) (get_str v ''subject''))"

definition actor_from_params :: "json \<Rightarrow> daemon_env \<Rightarrow> string" where
  "actor_from_params params env = or_else (subject_param params ''actor'') (de_instance_user env)"

definition requester_from_params :: "json \<Rightarrow> string \<Rightarrow> string" where
  "requester_from_params params actor = or_else (subject_param params ''requester'') actor"

definition board_binding_for :: "daemon_env \<Rightarrow> string \<Rightarrow> (unit, board_binding) result" where
  "board_binding_for env tool =
     (case validate_story_board_policy (de_policy env) tool (de_environment env) of
        Inr (Some b) \<Rightarrow> Inr b | _ \<Rightarrow> Inl ())"

subsection \<open>Errors\<close>

definition or_internal :: "(string, 'a) step \<Rightarrow> (story_response, 'a) step" where
  "or_internal m = map_err_step internal_error m"

definition field_error :: "daemon_env \<Rightarrow> string \<Rightarrow> json list \<Rightarrow> (story_response, 'a) step" where
  "field_error env tool rows = audited_story_error env tool (-32051) ''FIELD_REJECTED''
     (jobj [(''code'', JStr ''FIELD_REJECTED''), (''fields'', JArr rows)]) SDenied"

definition guard_data_json :: "guard_failed_data \<Rightarrow> json" where
  "guard_data_json d = jobj ([(''code'', JStr (gd_code d)), (''clause'', JStr (clause_as_str (gd_clause d))),
     (''message'', JStr (gd_message d))]
     @ (case gd_expected d of None \<Rightarrow> [] | Some v \<Rightarrow> [(''expected'', v)])
     @ (case gd_observed d of None \<Rightarrow> [] | Some s \<Rightarrow> [(''observed'', JStr s)]))"

definition guard_error :: "daemon_env \<Rightarrow> string \<Rightarrow> in_scope_failure \<Rightarrow> (story_response, 'a) step" where
  "guard_error env tool failure = audited_story_error env tool (-32050) ''GUARD_FAILED''
     (guard_data_json (to_guard_failed_data failure)) SDenied"

definition plan_build_error_to_apply_response ::
  "daemon_env \<Rightarrow> string \<Rightarrow> plan_build_error \<Rightarrow> (story_response, 'a) step" where
  "plan_build_error_to_apply_response env tool err = (case err of
       PbInvalid field \<Rightarrow> field_error env tool [rejection field ''type_mismatch'']
     | PbFieldRejected rows \<Rightarrow> field_error env tool rows
     | PbGuardFailed failure \<Rightarrow> guard_error env tool failure
     | PbStateRequired data \<Rightarrow> audited_story_error env tool (-32062) ''STATE_REQUIRED'' data SDenied
     | PbNotFound message \<Rightarrow> audited_story_error env tool (-32004) ''record not found''
         (jobj [(''details'', JStr message)]) SError
     | PbUpstream e \<Rightarrow> fail (internal_error e))"

definition rate_limited :: "daemon_env \<Rightarrow> string \<Rightarrow> int \<Rightarrow> (story_response, 'a) step" where
  "rate_limited env tool retry = audited_story_error env tool (-32058) ''RATE_LIMITED''
     (jobj [(''code'', JStr ''RATE_LIMITED''), (''retry_after_seconds'', JNum (int_text retry))]) SDenied"

definition token_failed :: "daemon_env \<Rightarrow> string \<Rightarrow> string \<Rightarrow> confirmation_consume_error \<Rightarrow> (story_response, 'a) step" where
  "token_failed env tool actor err =
     andthen (record_rate env ''story_failed_confirmation'' actor tool) (\<lambda>_. confirmation_invalid env tool err)"

subsection \<open>The stages\<close>

record apply_request =
  aq_binding :: board_binding
  aq_plan_id :: string
  aq_token :: string
  aq_key :: idempotency_key

record loaded_plan =
  lp_record :: plan_store_record
  lp_plan :: operation_plan
  lp_warnings :: "receipt_warning list"
  lp_actor :: string
  lp_binding :: confirmation_binding

definition required_param :: "daemon_env \<Rightarrow> string \<Rightarrow> json \<Rightarrow> string \<Rightarrow> (story_response, string) step" where
  "required_param env tool params field = (case string_param params field of
       None \<Rightarrow> field_error env tool [rejection field ''type_mismatch'']
     | Some v \<Rightarrow> ok v)"

text \<open>Kill switch, board policy, environment of the tool, parameters.\<close>

definition apply_entry :: "daemon_env \<Rightarrow> string \<Rightarrow> json \<Rightarrow> (story_response, apply_request) step" where
  "apply_entry env tool params =
     andthen (ask (de_env_kill_switch env)) (\<lambda>var.
     if is_kill_switched var
     then audited_story_error env tool (-32057) ''KILL_SWITCH'' (jobj [(''code'', JStr ''KILL_SWITCH'')]) SDenied
     else case board_binding_for env tool of
       Inl _ \<Rightarrow> field_error env tool [rejection ''story_board_id'' ''blocked_deny_list'']
     | Inr b \<Rightarrow>
         if \<not> tool_enabled_in_environment (de_policy env) tool (me_label (de_environment env))
         then field_error env tool [rejection ''tool'' ''blocked_deny_list'']
         else andthen (required_param env tool params ''plan_id'') (\<lambda>plan_id.
              andthen (required_param env tool params ''confirmation_token'') (\<lambda>token.
              andthen (required_param env tool params ''idempotency_key'') (\<lambda>key.
                ok \<lparr>aq_binding = b, aq_plan_id = plan_id, aq_token = token,
                    aq_key = \<lparr>ik_value = key, ik_source = ServerDerived\<rparr>\<rparr>))))"

text \<open>The stored plan, its warnings, the tool it is bound to, the caller and the token binding.\<close>

definition load_plan :: "daemon_env \<Rightarrow> string \<Rightarrow> json \<Rightarrow> apply_request \<Rightarrow> (story_response, loaded_plan) step" where
  "load_plan env tool params q =
     andthen (or_internal (open_stores env)) (\<lambda>_.
     andthen (or_internal (get_plan env (aq_plan_id q))) (\<lambda>found. case found of
         None \<Rightarrow> audited_story_error env tool (-32056) ''PLAN_NOT_FOUND''
           (jobj [(''code'', JStr ''PLAN_NOT_FOUND''), (''plan_id'', JStr (aq_plan_id q))]) SError
       | Some r \<Rightarrow> (case de_plan_of_json env (pr_plan_json r) of
             Inl err \<Rightarrow> fail (internal_error err)
           | Inr plan \<Rightarrow>
               (let bound = apply_tool_for_plan_tool (op_tool plan);
                    actor = actor_from_params params env
                in if bound \<noteq> tool
                   then fail (invalid_params (''plan '' @ op_plan_id plan @ '' is bound to '' @ bound
                          @ '', not '' @ tool))
                   else ok \<lparr>lp_record = r, lp_plan = plan,
                          lp_warnings = or_else (Option.bind (json_get (pr_plan_json r) ''receipt_warnings'')
                            (de_warnings_of_json env)) [],
                          lp_actor = actor,
                          lp_binding = \<lparr>cb_actor = actor, cb_requester = requester_from_params params actor,
                            cb_tool = tool, cb_op_hash = op_op_hash plan,
                            cb_environment = me_label (de_environment env)\<rparr>\<rparr>))))"

definition conflict_error ::
  "daemon_env \<Rightarrow> string \<Rightarrow> idempotency_key \<Rightarrow> string \<Rightarrow> string \<Rightarrow> (story_response, 'a) step" where
  "conflict_error env tool key bound attempted =
     audited_story_error env tool (-32052) ''IDEMPOTENCY_CONFLICT''
       (jobj [(''code'', JStr ''IDEMPOTENCY_CONFLICT''), (''idempotency_key'', JStr (ik_value key)),
              (''bound_op_hash'', JStr bound), (''attempted_op_hash'', JStr attempted)]) SDenied"

text \<open>The unexpired record of the key, as \<open>if let Ok(Some(record)) = ... && ...\<close> finds it.\<close>

definition live_record :: "daemon_env \<Rightarrow> idempotency_key \<Rightarrow> string \<Rightarrow> ('e, idempotency_record option) step" where
  "live_record env key tool =
     inspect (lookup_idem env key tool) (\<lambda>r. case r of
         Inr (Some rec) \<Rightarrow> andthen (ask (de_clock env)) (\<lambda>now.
           ok (if now < ir_expires_at rec then Some rec else None))
       | _ \<Rightarrow> ok None)"

definition replay_receipt ::
  "daemon_env \<Rightarrow> string \<Rightarrow> apply_request \<Rightarrow> loaded_plan \<Rightarrow> operation_receipt \<Rightarrow> (story_response, 'a) step" where
  "replay_receipt env tool q p rc =
     inspect (validate_replay_confirmation env (aq_token q) (lp_binding p)) (\<lambda>r. case r of
         Inl err \<Rightarrow> token_failed env tool (lp_actor p) err
       | Inr _ \<Rightarrow> fail (RespReceipt (rc\<lparr>re_idempotency_replay := True\<rparr>)))"

text \<open>Failed-confirmation limit, then a conflicting or finished record of the key.\<close>

definition check_replay ::
  "daemon_env \<Rightarrow> string \<Rightarrow> apply_request \<Rightarrow> loaded_plan \<Rightarrow> (story_response, unit) step" where
  "check_replay env tool q p =
     andthen (peek_rate env ''story_failed_confirmation'' (lp_actor p) tool
       (rl_failed_confirmations_per_minute (de_rate_limit env))) (\<lambda>limited. case limited of
         Some retry \<Rightarrow> rate_limited env tool retry
       | None \<Rightarrow> andthen (live_record env (aq_key q) tool) (\<lambda>r. case r of
             None \<Rightarrow> ok ()
           | Some rec \<Rightarrow>
               if ir_op_hash rec \<noteq> op_op_hash (lp_plan p)
               then conflict_error env tool (aq_key q) (ir_op_hash rec) (op_op_hash (lp_plan p))
               else (case ir_receipt rec of
                   Some rc \<Rightarrow> replay_receipt env tool q p rc
                 | None \<Rightarrow> ok ())))"

text \<open>A reserved key without a receipt: look upstream for the write before sending it. The result
  says whether the token was already consumed.\<close>

definition resume_pending ::
  "daemon_env \<Rightarrow> string \<Rightarrow> apply_request \<Rightarrow> loaded_plan \<Rightarrow> confirmation_record \<Rightarrow> (story_response, bool) step" where
  "resume_pending env tool q p c =
     andthen (ask (de_clock env)) (\<lambda>now.
       case (if cr_consumed c then validate_confirmation_binding now c (lp_binding p)
             else validate_confirmation now c (lp_binding p)) of
         Inl err \<Rightarrow> token_failed env tool (lp_actor p) err
       | Inr _ \<Rightarrow>
           andthen (or_internal (resolve_pending_response env tool (aq_key q) (lp_plan p) (lp_record p)
              (lp_warnings p) (if cr_consumed c then None else Some (aq_token q, lp_binding p))))
            (\<lambda>res. case res of
                Recovered rc \<Rightarrow> fail (RespReceipt rc)
              | Proceed \<Rightarrow> ok (cr_consumed c)
              | NeedsOperator \<Rightarrow> pending_resolution_required env tool (lp_plan p)))"

definition check_pending ::
  "daemon_env \<Rightarrow> string \<Rightarrow> apply_request \<Rightarrow> loaded_plan \<Rightarrow> (story_response, bool) step" where
  "check_pending env tool q p =
     andthen (live_record env (aq_key q) tool) (\<lambda>r. case r of
         None \<Rightarrow> ok False
       | Some rec \<Rightarrow>
           if ir_receipt rec \<noteq> None then ok False
           else andthen (or_internal (lookup_token env (aq_token q))) (\<lambda>found. case found of
               None \<Rightarrow> ok False
             | Some c \<Rightarrow> resume_pending env tool q p c))"

text \<open>Whether the plan has expired is read before the pending check and acted upon after it.\<close>

definition plan_has_expired :: "time \<Rightarrow> plan_store_record \<Rightarrow> bool" where
  "plan_has_expired now r = (pr_state r = Expired \<or> pr_expires_at r \<le> now)"

definition reject_expired ::
  "daemon_env \<Rightarrow> string \<Rightarrow> apply_request \<Rightarrow> loaded_plan \<Rightarrow> bool \<Rightarrow> (story_response, unit) step" where
  "reject_expired env tool q p expired =
     (if expired
      then inspect (mark_plan_expired env (aq_plan_id q)) (\<lambda>_.
        audited_story_error env tool (-32055) ''PLAN_EXPIRED''
          (jobj [(''code'', JStr ''PLAN_EXPIRED''), (''plan_id'', JStr (aq_plan_id q)),
                 (''expired_at'', JStr (de_rfc3339 env (pr_expires_at (lp_record p))))]) SDenied)
      else ok ())"

definition limit_writes :: "daemon_env \<Rightarrow> string \<Rightarrow> loaded_plan \<Rightarrow> (story_response, unit) step" where
  "limit_writes env tool p =
     andthen (count_rate env ''story_apply'' (lp_actor p) tool (rl_write_per_minute (de_rate_limit env)))
       (\<lambda>limited. case limited of Some retry \<Rightarrow> rate_limited env tool retry | None \<Rightarrow> ok ())"

definition reserve_key ::
  "daemon_env \<Rightarrow> string \<Rightarrow> apply_request \<Rightarrow> loaded_plan \<Rightarrow> (story_response, unit) step" where
  "reserve_key env tool q p =
     andthen (or_internal (check_and_record_key env (aq_key q) tool (op_op_hash (lp_plan p))
        (of_nat (pc_idempotency_window_seconds (de_policy env))))) (\<lambda>outcome. case outcome of
         NewKey \<Rightarrow> ok ()
       | PendingOutcome _ _ \<Rightarrow> ok ()
       | Replay rc \<Rightarrow> replay_receipt env tool q p rc
       | Conflict msg \<Rightarrow> inspect (lookup_idem env (aq_key q) tool) (\<lambda>r.
           conflict_error env tool (aq_key q)
             (case r of Inr (Some rec) \<Rightarrow> ir_op_hash rec | _ \<Rightarrow> []) (op_op_hash (lp_plan p))))"

definition run_guard ::
  "daemon_env \<Rightarrow> string \<Rightarrow> apply_request \<Rightarrow> loaded_plan \<Rightarrow> (story_response, unit) step" where
  "run_guard env tool q p =
     inspect (enforce_apply_guard env tool (lp_plan p) (aq_binding q)) (\<lambda>r. case r of
         Inr _ \<Rightarrow> ok ()
       | Inl failure \<Rightarrow> (case story_scope_failure_field_rejections failure of
             Some rows \<Rightarrow> field_error env tool rows
           | None \<Rightarrow> guard_error env tool failure))"

definition token_invalid :: "daemon_env \<Rightarrow> string \<Rightarrow> string \<Rightarrow> (story_response, 'a) step" where
  "token_invalid env tool reason =
     audited_story_error env tool (-32061) ''CONCURRENCY_TOKEN_INVALID''
       (jobj [(''code'', JStr ''CONCURRENCY_TOKEN_INVALID''), (''reason'', JStr reason)]) SDenied"

definition check_concurrency ::
  "daemon_env \<Rightarrow> string \<Rightarrow> json \<Rightarrow> loaded_plan \<Rightarrow> (story_response, unit) step" where
  "check_concurrency env tool params p =
     (case pr_concurrency_token (lp_record p) of
        None \<Rightarrow> ok ()
      | Some expected \<Rightarrow>
          (case Option.bind (json_get params ''concurrency_token'') (de_token_of_json env) of
             None \<Rightarrow> token_invalid env tool ''missing concurrency_token''
           | Some supplied \<Rightarrow>
               if supplied \<noteq> expected then token_invalid env tool ''token does not match plan''
               else (case op_target (lp_plan p) of
                   None \<Rightarrow> ok ()
                 | Some target \<Rightarrow>
                     andthen (get_record_fresh env (rr_number target)) (\<lambda>r.
                     andthen (or_internal (of_result r)) (\<lambda>found. case found of
                         None \<Rightarrow> audited_story_error env tool (-32056) ''PLAN_NOT_FOUND''
                           (jobj [(''code'', JStr ''PLAN_NOT_FOUND''),
                                  (''plan_id'', JStr (op_plan_id (lp_plan p)))]) SError
                       | Some current \<Rightarrow> (case concurrency_from_record current of
                             None \<Rightarrow> ok ()
                           | Some observed \<Rightarrow>
                               if observed \<noteq> expected
                               then audited_story_error env tool (-32053) ''CONCURRENCY_CONFLICT''
                                 (jobj [(''code'', JStr ''CONCURRENCY_CONFLICT''),
                                    (''record_sys_id'', JStr (rr_sys_id target)),
                                    (''expected'', de_token_json env expected),
                                    (''observed'', de_token_json env observed)]) SDenied
                               else ok ()))))))"

definition fetch_before :: "daemon_env \<Rightarrow> string \<Rightarrow> loaded_plan \<Rightarrow> (story_response, snow_record option) step" where
  "fetch_before env tool p =
     (if str_contains ''_update'' tool
      then (case op_target (lp_plan p) of
          None \<Rightarrow> ok None
        | Some target \<Rightarrow> andthen (get_record_fresh env (rr_number target)) (\<lambda>r. or_internal (of_result r)))
      else ok None)"

definition govern_fields ::
  "daemon_env \<Rightarrow> string \<Rightarrow> apply_request \<Rightarrow> loaded_plan \<Rightarrow> snow_record option \<Rightarrow> (story_response, unit) step" where
  "govern_fields env tool q p prior =
     inspect (enforce_apply_field_governance env tool (lp_plan p) (aq_binding q) prior) (\<lambda>r. case r of
         Inr _ \<Rightarrow> ok ()
       | Inl err \<Rightarrow> plan_build_error_to_apply_response env tool err)"

definition check_token ::
  "daemon_env \<Rightarrow> string \<Rightarrow> apply_request \<Rightarrow> loaded_plan \<Rightarrow> bool \<Rightarrow> (story_response, unit) step" where
  "check_token env tool q p already_consumed =
     (if already_consumed then ok ()
      else andthen (or_internal (lookup_token env (aq_token q))) (\<lambda>found. case found of
          None \<Rightarrow> token_failed env tool (lp_actor p) NotFound
        | Some c \<Rightarrow> andthen (ask (de_clock env)) (\<lambda>now. case validate_confirmation now c (lp_binding p) of
              Inl err \<Rightarrow> token_failed env tool (lp_actor p) err
            | Inr _ \<Rightarrow> ok ())))"

subsection \<open>The write\<close>

definition plan_write :: "string \<Rightarrow> operation_plan \<Rightarrow> (string, upstream_write) result" where
  "plan_write tool plan =
     (if tool = ''story_apply_create'' then Inr (CreateStory (op_planned_changes plan))
      else if tool = ''story_task_apply_create'' then Inr (CreateScrumTask (op_planned_changes plan))
      else if tool = ''story_apply_update''
      then (case op_target plan of None \<Rightarrow> Inl ''update plan missing target''
            | Some t \<Rightarrow> Inr (UpdateStory (rr_sys_id t) (op_planned_changes plan)))
      else if tool = ''story_task_apply_update''
      then (case op_target plan of None \<Rightarrow> Inl ''task update plan missing target''
            | Some t \<Rightarrow> Inr (UpdateScrumTask (rr_sys_id t) (op_planned_changes plan)))
      else Inl (''unsupported Story apply tool '' @ tool))"

definition apply_plan ::
  "daemon_env \<Rightarrow> string \<Rightarrow> operation_plan \<Rightarrow> ('e, (string, story_write_result) result) step" where
  "apply_plan env tool plan = (case plan_write tool plan of
       Inl err \<Rightarrow> ok (Inl err) | Inr x \<Rightarrow> send env x)"

text \<open>Consume the token and audit it, unless it was consumed before.\<close>

definition finish_token ::
  "daemon_env \<Rightarrow> string \<Rightarrow> apply_request \<Rightarrow> loaded_plan \<Rightarrow> bool \<Rightarrow> (story_response, unit) step" where
  "finish_token env tool q p already_consumed =
     (if already_consumed then ok ()
      else inspect (consume_token env (aq_token q) (lp_binding p)) (\<lambda>r. case r of
          Inl err \<Rightarrow> token_failed env tool (lp_actor p) err
        | Inr _ \<Rightarrow> or_internal (append_confirmation_consume_audit env (op_plan_id (lp_plan p)) (lp_actor p)
            (cb_requester (lp_binding p)))))"

definition store_receipt ::
  "daemon_env \<Rightarrow> apply_request \<Rightarrow> loaded_plan \<Rightarrow> operation_receipt \<Rightarrow> (story_response, story_response) step" where
  "store_receipt env q p rc =
     andthen (or_internal (save_receipt env (aq_key q) rc)) (\<lambda>_.
       inspect (mark_plan_consumed env (op_plan_id (lp_plan p))) (\<lambda>_. ok (RespReceipt rc)))"

definition write_failed ::
  "daemon_env \<Rightarrow> string \<Rightarrow> apply_request \<Rightarrow> loaded_plan \<Rightarrow> bool \<Rightarrow> string \<Rightarrow> (story_response, story_response) step" where
  "write_failed env tool q p already_consumed err =
     andthen (or_internal (try_resolve_pending_receipt env tool (lp_plan p) (lp_record p) (lp_warnings p)))
       (\<lambda>res. case res of
           Recovered rc \<Rightarrow> andthen (finish_token env tool q p already_consumed) (\<lambda>_. store_receipt env q p rc)
         | Proceed \<Rightarrow> audited_story_error env tool (-32059) ''UPSTREAM_ERROR''
             (jobj [(''code'', JStr ''UPSTREAM_ERROR''), (''reason'', JStr err),
                    (''retry_after_seconds'', JNum ''2'')]) SError
         | NeedsOperator \<Rightarrow> pending_resolution_required env tool (lp_plan p))"

definition write_succeeded ::
  "daemon_env \<Rightarrow> string \<Rightarrow> apply_request \<Rightarrow> loaded_plan \<Rightarrow> bool \<Rightarrow> snow_record option \<Rightarrow> time
     \<Rightarrow> story_write_result \<Rightarrow> (story_response, story_response) step" where
  "write_succeeded env tool q p already_consumed prior started r =
     andthen (finish_token env tool q p already_consumed) (\<lambda>_.
     andthen (ask (de_uuid env)) (\<lambda>audit_id. andthen (ask (de_clock env)) (\<lambda>now.
       let rc = receipt_for_write env now (lp_plan p) tool audit_id started (wr_record r)
                  \<lparr>ct_sys_updated_on = wr_sys_updated_on r, ct_sys_mod_count = wr_sys_mod_count r\<rparr>
                  prior (lp_warnings p);
           (summary, applied) = audit_summary_for_receipt env rc
              (audit_email_hashes_from_plan (pr_plan_json (lp_record p)))
       in andthen (or_internal (append_audit_event env audit_id (Some (op_plan_id (lp_plan p))) tool
             SAppliedSuccess (Some summary) (re_service_now_metadata rc) None
             (Some (lp_actor p, cb_requester (lp_binding p))) (Some applied))) (\<lambda>_.
           store_receipt env q p rc))))"

text \<open>The part of the request after every check: mark the key, send, record the outcome.\<close>

definition perform_write ::
  "daemon_env \<Rightarrow> string \<Rightarrow> apply_request \<Rightarrow> loaded_plan \<Rightarrow> bool \<Rightarrow> snow_record option
     \<Rightarrow> (story_response, story_response) step" where
  "perform_write env tool q p already_consumed prior =
     andthen (ask (de_clock env)) (\<lambda>started.
     andthen (or_internal (mark_apply_started env (aq_key q) tool)) (\<lambda>_.
     andthen (apply_plan env tool (lp_plan p)) (\<lambda>r. case r of
         Inl err \<Rightarrow> write_failed env tool q p already_consumed err
       | Inr x \<Rightarrow> write_succeeded env tool q p already_consumed prior started x)))"

text \<open>Every check of an apply: the request, the plan, whether its token was consumed before, and the
  record before the change.\<close>

definition apply_checks ::
  "daemon_env \<Rightarrow> string \<Rightarrow> json
     \<Rightarrow> (story_response, apply_request \<times> loaded_plan \<times> bool \<times> snow_record option) step" where
  "apply_checks env tool params =
     andthen (apply_entry env tool params) (\<lambda>q.
     andthen (load_plan env tool params q) (\<lambda>p.
     andthen (check_replay env tool q p) (\<lambda>_.
     andthen (ask (de_clock env)) (\<lambda>now.
     andthen (check_pending env tool q p) (\<lambda>already_consumed.
     andthen (reject_expired env tool q p (plan_has_expired now (lp_record p))) (\<lambda>_.
     andthen (limit_writes env tool p) (\<lambda>_.
     andthen (reserve_key env tool q p) (\<lambda>_.
     andthen (run_guard env tool q p) (\<lambda>_.
     andthen (check_concurrency env tool params p) (\<lambda>_.
     andthen (fetch_before env tool p) (\<lambda>prior.
     andthen (govern_fields env tool q p prior) (\<lambda>_.
     andthen (check_token env tool q p already_consumed) (\<lambda>_.
       ok (q, p, already_consumed, prior))))))))))))))"

definition apply_request_step :: "daemon_env \<Rightarrow> string \<Rightarrow> json \<Rightarrow> (story_response, story_response) step" where
  "apply_request_step env tool params =
     andthen (apply_checks env tool params) (\<lambda>(q, p, already_consumed, prior).
       perform_write env tool q p already_consumed prior)"

definition handle_story_apply :: "daemon_env \<Rightarrow> string \<Rightarrow> json \<Rightarrow> world \<Rightarrow> story_response \<times> world" where
  "handle_story_apply env tool params w = (case apply_request_step env tool params w of
       (Inl r, w') \<Rightarrow> (r, w') | (Inr r, w') \<Rightarrow> (r, w'))"

end
