(* ===== verification/Story_Plan.thy ===== *)
theory Story_Plan
  imports Story_Apply
begin

text \<open>
  The plan handler (\<open>snow_daemon/src/story_write/plan.rs\<close>, \<open>story_actor_from_params\<close> of \<open>audit.rs\<close>):
  it builds the payload from the caller's arguments, defaults and fetched records, reserves an
  idempotency key, stores the plan and issues the confirmation token.
\<close>

record plan_input =
  pn_builder :: operation_plan_builder
  pn_concurrency_token :: "concurrency_token option"
  pn_warnings :: "receipt_warning list"

definition story_actor_from_params :: "json \<Rightarrow> daemon_env \<Rightarrow> story_actor" where
  "story_actor_from_params params env =
     (case json_get params ''actor'' of
        Some (JObj m) \<Rightarrow> \<lparr>sa_subject = or_else (get_str (JObj m) ''subject'') (de_instance_user env),
          sa_email = get_str (JObj m) ''email'', sa_display_name = get_str (JObj m) ''display_name''\<rparr>
      | Some (JStr subject) \<Rightarrow> \<lparr>sa_subject = subject, sa_email = None, sa_display_name = None\<rparr>
      | _ \<Rightarrow> \<lparr>sa_subject = de_instance_user env, sa_email = None, sa_display_name = None\<rparr>)"

text \<open>The record a plan refers to, fetched fresh: upstream errors and absence are plan errors.\<close>

definition fetch_for_plan :: "daemon_env \<Rightarrow> string \<Rightarrow> string \<Rightarrow> (plan_build_error, snow_record) step" where
  "fetch_for_plan env number absent =
     andthen (get_record_fresh env number) (\<lambda>r. andthen (of_result (map_err PbUpstream r)) (\<lambda>found.
       case found of None \<Rightarrow> fail (PbNotFound absent) | Some rec \<Rightarrow> ok rec))"

definition arg_text :: "(string \<times> json) list \<Rightarrow> string \<Rightarrow> string" where
  "arg_text args field = or_else (Option.bind (bt_get args field) as_str) []"

definition new_builder :: "daemon_env \<Rightarrow> string \<Rightarrow> ('e, operation_plan_builder) step" where
  "new_builder env tool = andthen (ask (de_clock env)) (\<lambda>now. ok (builder_new now tool))"

definition build_create_story ::
  "daemon_env \<Rightarrow> string \<Rightarrow> (string \<times> json) list \<Rightarrow> board_binding \<Rightarrow> story_actor \<Rightarrow> json
     \<Rightarrow> receipt_warning list \<Rightarrow> (plan_build_error, plan_input) step" where
  "build_create_story env tool args b actor payload warnings =
     andthen (of_result (require_string args ''short_description'')) (\<lambda>_.
     andthen (of_result (require_string args ''description'')) (\<lambda>_.
     andthen (of_result (default_story_create_reference_fields payload b)) (\<lambda>p1.
     let p2 = default_story_create_backlog_type p1 (de_policy env)
     in andthen (default_story_owner_from_actor env p2 actor) (\<lambda>(p3, owner_warnings).
     let missing = warn_missing_story_create_optional_required_fields p3;
         p4 = inject p3 ''active'' (JBool True)
     in andthen (validate_constrained_fields env tool p4 b None) (\<lambda>(p5, value_warnings).
     andthen (of_result (enforce_story_payload_scope p5 b)) (\<lambda>_.
     andthen (new_builder env tool) (\<lambda>builder.
       ok \<lparr>pn_builder = builder_planned_changes p5 builder, pn_concurrency_token = None,
           pn_warnings = warnings @ owner_warnings @ missing @ value_warnings\<rparr>)))))))"

definition build_create_task ::
  "daemon_env \<Rightarrow> string \<Rightarrow> (string \<times> json) list \<Rightarrow> board_binding \<Rightarrow> json
     \<Rightarrow> receipt_warning list \<Rightarrow> (plan_build_error, plan_input) step" where
  "build_create_task env tool args b payload warnings =
     andthen (of_result (require_string args ''parent_story_number'')) (\<lambda>_.
     andthen (of_result (require_string args ''short_description'')) (\<lambda>_.
     let parent_number = arg_text args ''parent_story_number''
     in andthen (fetch_for_plan env parent_number (''parent story '' @ parent_number @ '' not found'')) (\<lambda>parent.
     andthen (of_result (enforce_story_record_scope parent b)) (\<lambda>_.
     andthen (of_result (resolve_story_task_create_assignment_group args parent b)) (\<lambda>group.
     let p1 = inject (inject payload ''story'' (JStr (sr_sys_id parent))) ''assignment_group'' (JStr group)
     in andthen (validate_constrained_fields env tool p1 b None) (\<lambda>(p2, value_warnings).
     andthen (of_result (enforce_task_parent_payload_scope p2 parent b)) (\<lambda>_.
     andthen (new_builder env tool) (\<lambda>builder.
       ok \<lparr>pn_builder = builder_planned_changes p2 (builder_target (record_ref_from_snow parent) builder),
           pn_concurrency_token = None, pn_warnings = warnings @ value_warnings\<rparr>))))))))"

definition build_update ::
  "daemon_env \<Rightarrow> string \<Rightarrow> (string \<times> json) list \<Rightarrow> board_binding \<Rightarrow> json
     \<Rightarrow> receipt_warning list \<Rightarrow> (plan_build_error, plan_input) step" where
  "build_update env tool args b payload warnings =
     andthen (of_result (require_string args ''number'')) (\<lambda>_.
     let number = arg_text args ''number''
     in andthen (fetch_for_plan env number (''record '' @ number @ '' not found'')) (\<lambda>r.
     andthen (of_result (if tool = ''story_plan_update'' then enforce_story_record_scope r b
                         else enforce_task_record_scope r b)) (\<lambda>_.
     andthen (validate_constrained_fields env tool payload b (Some r)) (\<lambda>(p1, value_warnings).
     andthen (new_builder env tool) (\<lambda>builder.
       ok \<lparr>pn_builder = builder_planned_changes p1 (builder_target (record_ref_from_snow r) builder),
           pn_concurrency_token = concurrency_from_record r,
           pn_warnings = warnings @ value_warnings\<rparr>)))))"

definition build_plan_input ::
  "daemon_env \<Rightarrow> string \<Rightarrow> (string \<times> json) list \<Rightarrow> board_binding \<Rightarrow> story_actor
     \<Rightarrow> (plan_build_error, plan_input) step" where
  "build_plan_input env tool args b actor =
     andthen (resolve_assignee_in_payload env tool
        (strip_non_writable_selector_fields tool (JObj args)) actor) (\<lambda>(payload, warnings).
       if tool = ''story_plan_create'' then build_create_story env tool args b actor payload warnings
       else if tool = ''story_task_plan_create'' then build_create_task env tool args b payload warnings
       else if tool = ''story_plan_update'' \<or> tool = ''story_task_plan_update''
       then build_update env tool args b payload warnings
       else fail (PbInvalid (''unsupported Story plan tool '' @ tool)))"

text \<open>The errors of a plan are not audited; a scope failure with a field to blame is a field rejection.\<close>

definition rejected_fields :: "json list \<Rightarrow> story_response" where
  "rejected_fields rows = story_error (-32051) ''FIELD_REJECTED''
     (jobj [(''code'', JStr ''FIELD_REJECTED''), (''fields'', JArr rows)])"

definition plan_error_response :: "plan_build_error \<Rightarrow> story_response" where
  "plan_error_response err = (case err of
       PbInvalid field \<Rightarrow> rejected_fields [rejection field ''type_mismatch'']
     | PbFieldRejected rows \<Rightarrow> rejected_fields rows
     | PbGuardFailed failure \<Rightarrow> (case story_scope_failure_field_rejections failure of
           Some rows \<Rightarrow> rejected_fields rows
         | None \<Rightarrow> story_error (-32050) ''GUARD_FAILED'' (guard_data_json (to_guard_failed_data failure)))
     | PbStateRequired data \<Rightarrow> story_error (-32062) ''STATE_REQUIRED'' data
     | PbNotFound message \<Rightarrow> story_error (-32004) ''record not found'' (jobj [(''details'', JStr message)])
     | PbUpstream e \<Rightarrow> internal_error e)"

definition plan_ttl_seconds :: int where
  "plan_ttl_seconds = 600"

text \<open>The plan as stored: the plan's JSON with the apply tool, the caller's warnings and the hashes
  for the audit.\<close>

definition stored_plan_json :: "daemon_env \<Rightarrow> operation_plan \<Rightarrow> string \<Rightarrow> receipt_warning list \<Rightarrow> json" where
  "stored_plan_json env plan apply_tool warnings =
     json_insert ''audit_warning_email_sha256'' (JArr (map JStr (audit_email_hashes_from_warnings warnings)))
      (json_insert ''receipt_warnings''
         (JArr (map (de_warning_json env) (receipt_warnings_for_caller warnings)))
       (json_insert ''apply_tool'' (JStr apply_tool) (de_plan_to_json env plan)))"

definition reserve_plan_key ::
  "daemon_env \<Rightarrow> string \<Rightarrow> string \<Rightarrow> string \<Rightarrow> (story_response, unit) step" where
  "reserve_plan_key env key apply_tool op_hash =
     andthen (or_internal (check_and_record_key env \<lparr>ik_value = key, ik_source = ServerDerived\<rparr> apply_tool
        op_hash (of_nat (pc_idempotency_window_seconds (de_policy env))))) (\<lambda>outcome. case outcome of
         NewKey \<Rightarrow> ok ()
       | Conflict _ \<Rightarrow> fail (story_error (-32052) ''IDEMPOTENCY_CONFLICT''
           (jobj [(''code'', JStr ''IDEMPOTENCY_CONFLICT''), (''idempotency_key'', JStr key),
                  (''bound_op_hash'', JStr []), (''attempted_op_hash'', JStr op_hash)]))
       | _ \<Rightarrow> fail (internal_error ''server-issued idempotency key was not unique''))"

definition issue_plan ::
  "daemon_env \<Rightarrow> string \<Rightarrow> json \<Rightarrow> story_actor \<Rightarrow> plan_input \<Rightarrow> (story_response, story_response) step" where
  "issue_plan env tool params actor input =
     andthen (ask (de_uuid env)) (\<lambda>plan_id. andthen (ask (de_clock env)) (\<lambda>now. andthen (ask (de_uuid env)) (\<lambda>key.
     let plan = builder_build (de_sha256 env) (de_to_vec env) plan_id (pn_builder input);
         expires_at = now + secs plan_ttl_seconds;
         subject = sa_subject actor;
         requester = requester_from_params params subject;
         apply_tool = apply_tool_for_plan_tool tool
     in andthen (or_internal (open_stores env)) (\<lambda>_.
        andthen (reserve_plan_key env key apply_tool (op_op_hash plan)) (\<lambda>_.
        andthen (or_internal (put_plan env \<lparr>pr_plan_id = op_plan_id plan, pr_tool = op_tool plan,
           pr_actor = subject, pr_op_hash = op_op_hash plan,
           pr_plan_json = stored_plan_json env plan apply_tool (pn_warnings input),
           pr_concurrency_token = pn_concurrency_token input, pr_created_at = now,
           pr_expires_at = expires_at, pr_state = Pending\<rparr>)) (\<lambda>_.
        andthen (or_internal (append_audit_event env (op_plan_id plan) None tool SPlan
           (Some (jobj [(''op_hash'', JStr (op_op_hash plan))])) None None (Some (subject, requester)) None)) (\<lambda>_.
        andthen (or_internal (issue_token env (op_plan_id plan)
           \<lparr>cb_actor = subject, cb_requester = requester, cb_tool = apply_tool, cb_op_hash = op_op_hash plan,
            cb_environment = me_label (de_environment env)\<rparr> (of_int plan_ttl_seconds))) (\<lambda>token.
        andthen (ask (de_uuid env)) (\<lambda>audit_id.
        andthen (or_internal (append_audit_event env audit_id (Some (op_plan_id plan)) ''confirmation_issue''
           SPlan None None None (Some (subject, requester)) None)) (\<lambda>_.
          ok (RespJson (jobj ([(''plan_id'', JStr (op_plan_id plan)), (''op_hash'', JStr (op_op_hash plan)),
              (''preview'', op_planned_changes plan), (''expires_at'', JStr (de_rfc3339 env expires_at)),
              (''confirmation_token'', JStr (cr_token_id token)), (''idempotency_key'', JStr key)]
             @ (case pn_concurrency_token input of None \<Rightarrow> []
                | Some t \<Rightarrow> [(''concurrency_token'', de_token_json env t)]))))))))))))))"

definition plan_request_step :: "daemon_env \<Rightarrow> string \<Rightarrow> json \<Rightarrow> (story_response, story_response) step" where
  "plan_request_step env tool params =
     (case board_binding_for env tool of
        Inl _ \<Rightarrow> fail (rejected_fields [rejection ''story_board_id'' ''blocked_deny_list''])
      | Inr b \<Rightarrow> (case as_object params of
          None \<Rightarrow> fail (rejected_fields [rejection ''payload'' ''type_mismatch''])
        | Some args \<Rightarrow>
            if \<not> tool_enabled_in_environment (de_policy env) tool (me_label (de_environment env))
            then fail (rejected_fields [rejection ''tool'' ''blocked_deny_list''])
            else (case reject_plan_input_fields tool args (de_policy env) of
                Some r \<Rightarrow> fail r
              | None \<Rightarrow>
                  let actor = story_actor_from_params params env
                  in andthen (count_rate env ''story_plan'' (sa_subject actor) tool
                       (rl_read_per_minute (de_rate_limit env))) (\<lambda>limited. case limited of
                         Some retry \<Rightarrow> rate_limited env tool retry
                       | None \<Rightarrow> andthen (map_err_step plan_error_response (build_plan_input env tool args b actor))
                           (\<lambda>input. issue_plan env tool params actor input)))))"

definition handle_story_plan :: "daemon_env \<Rightarrow> string \<Rightarrow> json \<Rightarrow> world \<Rightarrow> story_response \<times> world" where
  "handle_story_plan env tool params w = (case plan_request_step env tool params w of
       (Inl r, w') \<Rightarrow> (r, w') | (Inr r, w') \<Rightarrow> (r, w'))"

definition plan_record_json :: "daemon_env \<Rightarrow> plan_store_record \<Rightarrow> json" where
  "plan_record_json env r = jobj [(''plan_id'', JStr (pr_plan_id r)), (''tool'', JStr (pr_tool r)),
     (''actor'', JStr (pr_actor r)), (''op_hash'', JStr (pr_op_hash r)), (''plan_json'', pr_plan_json r),
     (''concurrency_token'', (case pr_concurrency_token r of None \<Rightarrow> JNull | Some t \<Rightarrow> de_token_json env t)),
     (''created_at'', JStr (de_rfc3339 env (pr_created_at r))),
     (''expires_at'', JStr (de_rfc3339 env (pr_expires_at r))), (''state'', JStr (as_storage (pr_state r)))]"

definition handle_plan_get :: "daemon_env \<Rightarrow> json \<Rightarrow> (story_response, story_response) step" where
  "handle_plan_get env params = (case string_param params ''plan_id'' of
       None \<Rightarrow> fail (rejected_fields [rejection ''plan_id'' ''type_mismatch''])
     | Some plan_id \<Rightarrow>
         andthen (or_internal (open_stores env)) (\<lambda>_.
         andthen (or_internal (get_plan env plan_id)) (\<lambda>found. case found of
             Some r \<Rightarrow> ok (RespJson (jobj [(''plan'', plan_record_json env r)]))
           | None \<Rightarrow> fail (story_error (-32056) ''PLAN_NOT_FOUND''
               (jobj [(''code'', JStr ''PLAN_NOT_FOUND''), (''plan_id'', JStr plan_id)])))))"

end
