(* ===== verification/Story_Steps.thy ===== *)
theory Story_Steps
  imports Story_Plan
begin

text \<open>
  Reasoning about steps: what a step does to the world. The locale \<open>story_relation\<close> adds the case
  distinctions of the story handlers to \<open>step_relation\<close>; it is interpreted for the write log and for
  the idempotency table.
\<close>

lemma or_internal_Inr: "or_internal m w = (Inr x, w') \<longleftrightarrow> m w = (Inr x, w')"
  by (simp add: or_internal_def map_err_step_Inr)

lemma upstream_Inr:
  "upstream env f w = (Inr y, w') \<longleftrightarrow> y = f (w_tick w)
     \<and> w' = w\<lparr>w_tick := Suc (w_tick w), w_stores := de_others env (w_tick w) (w_stores w)\<rparr>"
  by (simp add: upstream_def step_ask_Inr)

subsection \<open>Relations kept by steps\<close>

locale story_relation = step_relation R for R :: "world \<Rightarrow> world \<Rightarrow> bool"
begin

lemma keeps_or_internal: "keeps m \<Longrightarrow> keeps (or_internal m)"
  unfolding or_internal_def by (rule keeps_map_err)

lemma keeps_datatypes:
  "keeps a \<Longrightarrow> (\<And>y ys. keeps (g y ys)) \<Longrightarrow> keeps (case v of [] \<Rightarrow> a | y # ys \<Rightarrow> g y ys)"
  "keeps a1 \<Longrightarrow> (\<And>x. keeps (a2 x)) \<Longrightarrow> (\<And>x y. keeps (a3 x y)) \<Longrightarrow> (\<And>x y. keeps (a4 x y))
    \<Longrightarrow> (\<And>x y z. keeps (a5 x y z)) \<Longrightarrow> keeps (case_state_resolution a1 a2 a3 a4 a5 sr)"
  "(\<And>x. keeps (b1 x)) \<Longrightarrow> keeps b2 \<Longrightarrow> keeps b3 \<Longrightarrow> keeps (case_create_recovery_lookup b1 b2 b3 cl)"
  "keeps c1 \<Longrightarrow> keeps c2 \<Longrightarrow> keeps (case_create_pending_decision c1 c2 cd)"
  "keeps d1 \<Longrightarrow> keeps d2 \<Longrightarrow> keeps d3 \<Longrightarrow> keeps (case_update_pending_decision d1 d2 d3 ud)"
  "(\<And>x. keeps (e1 x)) \<Longrightarrow> keeps e2 \<Longrightarrow> keeps e3 \<Longrightarrow> keeps (case_pending_recovery e1 e2 e3 pr)"
  "keeps f1 \<Longrightarrow> (\<And>x y. keeps (f2 x y)) \<Longrightarrow> (\<And>x. keeps (f3 x)) \<Longrightarrow> (\<And>x. keeps (f4 x))
    \<Longrightarrow> keeps (case_idempotency_outcome f1 f2 f3 f4 io)"
  "(\<And>x. keeps (h1 x)) \<Longrightarrow> (\<And>x. keeps (h2 x)) \<Longrightarrow> (\<And>x. keeps (h3 x)) \<Longrightarrow> (\<And>x. keeps (h4 x))
    \<Longrightarrow> (\<And>x. keeps (h5 x)) \<Longrightarrow> (\<And>x. keeps (h6 x)) \<Longrightarrow> keeps (case_plan_build_error h1 h2 h3 h4 h5 h6 pe)"
  "keeps j1 \<Longrightarrow> (\<And>x. keeps (j2 x)) \<Longrightarrow> (\<And>x. keeps (j3 x)) \<Longrightarrow> (\<And>x. keeps (j4 x))
    \<Longrightarrow> (\<And>x. keeps (j5 x)) \<Longrightarrow> (\<And>x. keeps (j6 x)) \<Longrightarrow> keeps (case_json j1 j2 j3 j4 j5 j6 js)"
  by (auto split: json.splits list.splits state_resolution.splits create_recovery_lookup.splits
      create_pending_decision.splits update_pending_decision.splits pending_recovery.splits
      idempotency_outcome.splits plan_build_error.splits)

lemmas keeps_rules = keeps_step_rules keeps_or_internal keeps_datatypes

end

subsection \<open>The write log\<close>

text \<open>Nothing is sent, and the readings go on.\<close>

definition quiet :: "world \<Rightarrow> world \<Rightarrow> bool" where
  "quiet w w' \<longleftrightarrow> w_writes w' = w_writes w \<and> w_tick w \<le> w_tick w'"

interpretation writes: story_relation quiet
  by unfold_locales (simp_all add: quiet_def)

lemma writes_atoms:
  "writes.keeps (ask g)" "writes.keeps (upstream env f)" "writes.keeps (sql env h)"
  "writes.keeps (rate_step env r)" "writes.keeps (consume_token env token b)"
  by (auto simp: writes.keeps_def quiet_def ask_def upstream_def awaiting_def sql_def statement_def rate_step_def
      consume_token_def Let_def split: prod.splits)

lemma writes_tick: "writes.keeps m \<Longrightarrow> m w = (r, w') \<Longrightarrow> w_tick w \<le> w_tick w'"
  by (drule (1) writes.keepsD) (simp add: quiet_def)

lemmas writes_rules = writes.keeps_rules writes_atoms

subsection \<open>The stores\<close>

definition others_keep :: "daemon_env \<Rightarrow> (story_stores \<Rightarrow> 'a) \<Rightarrow> bool" where
  "others_keep env part = (\<forall>i s. part (de_others env i s) = part s)"

definition same_keys :: "world \<Rightarrow> world \<Rightarrow> bool" where
  "same_keys w w' = (ss_idempotency (w_stores w') = ss_idempotency (w_stores w))"

interpretation keys: story_relation same_keys
  by unfold_locales (simp_all add: same_keys_def)

lemma sql_keeps_keys:
  "(\<And>s. ss_idempotency (snd (h s)) = ss_idempotency s) \<Longrightarrow> keys.keeps (sql env h)"
  by (auto simp: keys.keeps_def same_keys_def sql_def statement_def Let_def split: prod.splits)
     (metis snd_conv)

lemma keys_atoms:
  "keys.keeps (ask g)" "keys.keeps (rate_step env r)" "keys.keeps (consume_token env token b)"
  "others_keep env ss_idempotency \<Longrightarrow> keys.keeps (upstream env f)"
  by (auto simp: keys.keeps_def same_keys_def ask_def rate_step_def upstream_def awaiting_def others_keep_def
      consume_token_def Let_def split: prod.splits)

end
