(* ===== verification/Story_Safety.thy ===== *)
theory Story_Safety
  imports Story_Steps
begin

text \<open>
  What an apply guarantees: it sends at most one mutation, and only after every check; a key with a
  receipt never writes again; a write that is reported is recorded.
\<close>

subsection \<open>Steps that send nothing\<close>

lemmas store_defs = open_stores_def get_plan_def put_plan_def mark_plan_consumed_def
  mark_plan_expired_def lookup_token_def lookup_idem_def mark_apply_started_def
  check_and_record_key_def save_receipt_def issue_token_def count_rate_def peek_rate_def record_rate_def

lemma writes_stores:
  "writes.keeps (open_stores env)" "writes.keeps (get_plan env i)" "writes.keeps (put_plan env r)"
  "writes.keeps (mark_plan_consumed env i)" "writes.keeps (mark_plan_expired env i)"
  "writes.keeps (lookup_token env t)" "writes.keeps (lookup_idem env k tool)"
  "writes.keeps (mark_apply_started env k tool)" "writes.keeps (check_and_record_key env k tool h n)"
  "writes.keeps (save_receipt env k rc)" "writes.keeps (issue_token env i b ttl)"
  "writes.keeps (count_rate env a b' c l)" "writes.keeps (peek_rate env a b' c l)"
  "writes.keeps (record_rate env a b' c)"
  unfolding store_defs by (intro writes_rules)+

lemma writes_audit:
  "writes.keeps (append_audit_event env a p tool s pl m er ids ch)"
  "writes.keeps (append_confirmation_consume_audit env i a' r)"
  "writes.keeps (audited_story_error env tool code msg d st)"
  unfolding append_audit_event_def append_confirmation_consume_audit_def audited_story_error_def
  by (intro writes_rules writes_stores)+

lemma writes_errors:
  "writes.keeps (field_error env tool rows)" "writes.keeps (guard_error env tool f)"
  "writes.keeps (rate_limited env tool n)" "writes.keeps (confirmation_invalid env tool err)"
  "writes.keeps (token_failed env tool a err)" "writes.keeps (pending_resolution_required env tool p)"
  "writes.keeps (conflict_error env tool k x y)" "writes.keeps (token_invalid env tool r)"
  unfolding field_error_def guard_error_def rate_limited_def confirmation_invalid_def token_failed_def
    pending_resolution_required_def conflict_error_def token_invalid_def
  by (intro writes_rules writes_stores writes_audit)+

lemmas writes_base = writes_rules writes_stores writes_audit writes_errors

lemma writes_pbe [intro]: "writes.keeps (plan_build_error_to_apply_response env tool e)"
  unfolding plan_build_error_to_apply_response_def by (intro writes_base)+

lemma writes_fetch:
  "writes.keeps (get_record_fresh env n)" "writes.keeps (field_choices env t f)"
  "writes.keeps (epic_exists env e)" "writes.keeps (guard_target env plan a b c)"
  unfolding get_record_fresh_def field_choices_def epic_exists_def guard_target_def
  by (intro writes_base)+

lemma writes_constrained:
  "writes.keeps (validate_constrained_fields env tool payload b cur)"
proof -
  have choice: "writes.keeps (normalize_choice_value env s allowed t f r)" for s allowed t f r
    unfolding normalize_choice_value_def dictionary_choice_is_constrained_def
    by (intro writes_base writes_fetch)+
  have priority: "writes.keeps (validate_priority env t b p)" for t p
    unfolding validate_priority_def by (intro writes_base choice)+
  have state: "writes.keeps (validate_state env tool t b cur p)" for t p
    unfolding validate_state_def state_choices_for_validation_def Let_def
    by (intro writes_base writes_fetch)+
  have epic: "writes.keeps (validate_epic env p)" for p
    unfolding validate_epic_def by (intro writes_base writes_fetch)+
  show ?thesis
    unfolding validate_constrained_fields_def Let_def
    by (intro writes_base priority state epic)+
qed

lemma writes_governance: "writes.keeps (enforce_apply_field_governance env tool plan b cur)"
  unfolding enforce_apply_field_governance_def Let_def by (intro writes_base writes_constrained)+

lemma writes_guard: "writes.keeps (enforce_apply_guard env tool plan b)"
  unfolding enforce_apply_guard_def Let_def by (intro writes_base writes_fetch)+

lemma writes_recovered: "writes.keeps (recovered_receipt env tool plan ws r)"
  unfolding recovered_receipt_def by (intro writes_base)+

lemma writes_created: "writes.keeps (find_recovered_create_record env tool plan pr)"
  unfolding find_recovered_create_record_def
  by (intro writes_base writes_fetch)+

lemma writes_try_resolve: "writes.keeps (try_resolve_pending_receipt env tool plan pr ws)"
  unfolding try_resolve_pending_receipt_def
  by (intro writes_base writes_fetch writes_recovered writes_created)+

lemma writes_resolve: "writes.keeps (resolve_pending_response env tool k plan pr ws c)"
  unfolding resolve_pending_response_def Let_def
  by (intro writes_base writes_try_resolve)+

lemma writes_entry:
  "writes.keeps (apply_entry env tool params)" "writes.keeps (load_plan env tool params q)"
  unfolding apply_entry_def load_plan_def required_param_def Let_def by (intro writes_base)+

lemma writes_replay: "writes.keeps (replay_receipt env tool q p rc)"
  unfolding replay_receipt_def validate_replay_confirmation_def by (intro writes_base)+

lemma writes_live: "writes.keeps (live_record env k tool)"
  unfolding live_record_def by (intro writes_base)+

lemma writes_check_replay: "writes.keeps (check_replay env tool q p)"
  unfolding check_replay_def by (intro writes_base writes_replay writes_live)+

lemma writes_check_pending: "writes.keeps (check_pending env tool q p)"
  unfolding check_pending_def resume_pending_def by (intro writes_base writes_live writes_resolve)+

lemma writes_stages:
  "writes.keeps (reject_expired env tool q p x)" "writes.keeps (limit_writes env tool p)"
  "writes.keeps (reserve_key env tool q p)" "writes.keeps (run_guard env tool q p)"
  "writes.keeps (check_concurrency env tool params p)" "writes.keeps (fetch_before env tool p)"
  "writes.keeps (govern_fields env tool q p prior)" "writes.keeps (check_token env tool q p used)"
  unfolding reject_expired_def limit_writes_def reserve_key_def run_guard_def check_concurrency_def
    fetch_before_def govern_fields_def check_token_def
  by (intro writes_base writes_fetch writes_replay writes_guard writes_governance writes_pbe)+

lemma writes_checks: "writes.keeps (apply_checks env tool params)"
  unfolding apply_checks_def
  by (intro writes_base writes_entry writes_check_replay writes_check_pending writes_stages)+

lemma writes_finish:
  "writes.keeps (finish_token env tool q p used)" "writes.keeps (store_receipt env q p rc)"
  unfolding finish_token_def store_receipt_def by (intro writes_base)+

lemma writes_outcome:
  "writes.keeps (write_failed env tool q p used err)"
  "writes.keeps (write_succeeded env tool q p used prior started r)"
  unfolding write_failed_def write_succeeded_def Let_def
  by (intro writes_base writes_finish writes_try_resolve)+

subsection \<open>Passing the checks\<close>

lemma apply_checks_run:
  assumes "apply_checks env tool params w = (Inr (q, p, used, prior), w')"
  obtains w1 w2 w3 w4 w5 w6 w7 w8 w9 w10 w11
  where
    "apply_entry env tool params w = (Inr q, w1)"
    "load_plan env tool params q w1 = (Inr p, w2)"
    "check_replay env tool q p w2 = (Inr (), w3)"
    "check_pending env tool q p (w3\<lparr>w_tick := Suc (w_tick w3)\<rparr>) = (Inr used, w4)"
    "reject_expired env tool q p (plan_has_expired (de_clock env (w_tick w3)) (lp_record p)) w4 = (Inr (), w5)"
    "limit_writes env tool p w5 = (Inr (), w6)"
    "reserve_key env tool q p w6 = (Inr (), w7)"
    "run_guard env tool q p w7 = (Inr (), w8)"
    "check_concurrency env tool params p w8 = (Inr (), w9)"
    "fetch_before env tool p w9 = (Inr prior, w10)"
    "govern_fields env tool q p prior w10 = (Inr (), w11)"
    "check_token env tool q p used w11 = (Inr (), w')"
  using assms unfolding apply_checks_def andthen_Inr step_pure_Inr step_ask_Inr upstream_Inr
  by (elim exE conjE) (simp add: that)

text \<open>The readings between the stages.\<close>

lemma apply_checks_ticks:
  assumes
    "apply_entry env tool params w = (Inr q, w1)"
    "load_plan env tool params q w1 = (Inr p, w2)"
    "check_replay env tool q p w2 = (Inr (), w3)"
    "check_pending env tool q p (w3\<lparr>w_tick := Suc (w_tick w3)\<rparr>) = (Inr used, w4)"
    "reject_expired env tool q p (plan_has_expired (de_clock env (w_tick w3)) (lp_record p)) w4 = (Inr (), w5)"
    "limit_writes env tool p w5 = (Inr (), w6)"
    "reserve_key env tool q p w6 = (Inr (), w7)"
    "run_guard env tool q p w7 = (Inr (), w8)"
    "check_concurrency env tool params p w8 = (Inr (), w9)"
    "fetch_before env tool p w9 = (Inr prior, w10)"
    "govern_fields env tool q p prior w10 = (Inr (), w11)"
    "check_token env tool q p used w11 = (Inr (), w')"
  shows "w_tick w \<le> w_tick w3 \<and> w_tick w3 < w_tick w4 \<and> w_tick w4 \<le> w_tick w7 \<and> w_tick w7 \<le> w_tick w8
      \<and> w_tick w8 \<le> w_tick w9 \<and> w_tick w9 \<le> w_tick w11 \<and> w_tick w11 \<le> w_tick w'"
  using writes_tick [OF writes_entry(1) assms(1)] writes_tick [OF writes_entry(2) assms(2)]
    writes_tick [OF writes_check_replay assms(3)] writes_tick [OF writes_check_pending assms(4)]
    writes_tick [OF writes_stages(1) assms(5)] writes_tick [OF writes_stages(2) assms(6)]
    writes_tick [OF writes_stages(3) assms(7)] writes_tick [OF writes_stages(4) assms(8)]
    writes_tick [OF writes_stages(5) assms(9)] writes_tick [OF writes_stages(6) assms(10)]
    writes_tick [OF writes_stages(7) assms(11)] writes_tick [OF writes_stages(8) assms(12)]
  by simp

lemma fails_never [simp]:
  "\<not> audited_story_error env tool code msg d st w = (Inr x, w')"
  by (auto simp: audited_story_error_def andthen_Inr inspect_iff step_pure_Inr step_ask_Inr upstream_Inr split: sum.splits)

lemma errors_never [simp]:
  "\<not> field_error env tool rows w = (Inr x, w')" "\<not> guard_error env tool f w = (Inr x, w')"
  "\<not> rate_limited env tool n w = (Inr x, w')" "\<not> confirmation_invalid env tool err w = (Inr x, w')"
  "\<not> token_failed env tool a err w = (Inr x, w')"
  "\<not> pending_resolution_required env tool pl w = (Inr x, w')"
  "\<not> conflict_error env tool k u v w = (Inr x, w')" "\<not> token_invalid env tool r w = (Inr x, w')"
  by (simp_all add: field_error_def guard_error_def rate_limited_def confirmation_invalid_def
      token_failed_def pending_resolution_required_def conflict_error_def token_invalid_def andthen_Inr)

lemma plan_build_error_never [simp]:
  "\<not> plan_build_error_to_apply_response env tool e w = (Inr x, w')"
  by (auto simp: plan_build_error_to_apply_response_def step_pure_Inr step_ask_Inr upstream_Inr split: plan_build_error.splits)

lemma replay_never [simp]: "\<not> replay_receipt env tool q p rc w = (Inr x, w')"
  by (auto simp: replay_receipt_def inspect_iff step_pure_Inr step_ask_Inr upstream_Inr split: sum.splits)

lemma required_param_Inr:
  "required_param env tool params f w = (Inr v, w') \<longleftrightarrow> string_param params f = Some v \<and> w' = w"
  by (auto simp: required_param_def step_pure_Inr step_ask_Inr upstream_Inr split: option.splits)

lemma apply_entry_Inr:
  assumes "apply_entry env tool params w = (Inr q, w')"
  shows "\<not> is_kill_switched (de_env_kill_switch env (w_tick w))"
    "validate_story_board_policy (de_policy env) tool (de_environment env) = Inr (Some (aq_binding q))"
    "tool_enabled_in_environment (de_policy env) tool (me_label (de_environment env))"
    "string_param params ''plan_id'' = Some (aq_plan_id q)"
    "string_param params ''confirmation_token'' = Some (aq_token q)"
    "string_param params ''idempotency_key'' = Some (ik_value (aq_key q))"
    "w' = w\<lparr>w_tick := Suc (w_tick w)\<rparr>"
  using assms
  by (auto simp: apply_entry_def andthen_Inr step_pure_Inr step_ask_Inr upstream_Inr required_param_Inr board_binding_for_def
      split: if_splits sum.splits option.splits)

lemma case_step_Inr:
  "(case v of None \<Rightarrow> a | Some y \<Rightarrow> g y) w = (Inr x, w') \<longleftrightarrow>
     (v = None \<and> a w = (Inr x, w')) \<or> (\<exists>y. v = Some y \<and> g y w = (Inr x, w'))"
  "(case s of Inl e \<Rightarrow> l e | Inr y \<Rightarrow> h y) w = (Inr x, w') \<longleftrightarrow>
     (\<exists>e. s = Inl e \<and> l e w = (Inr x, w')) \<or> (\<exists>y. s = Inr y \<and> h y w = (Inr x, w'))"
  "(if c then k else m) w = (Inr x, w') \<longleftrightarrow> c \<and> k w = (Inr x, w') \<or> \<not> c \<and> m w = (Inr x, w')"
  "(case z of (u, v) \<Rightarrow> n u v) w = (Inr x, w') \<longleftrightarrow> n (fst z) (snd z) w = (Inr x, w')"
  "(case pr of Recovered rc \<Rightarrow> e1 rc | Proceed \<Rightarrow> e2 | NeedsOperator \<Rightarrow> e3) w = (Inr x, w') \<longleftrightarrow>
     (\<exists>rc. pr = Recovered rc \<and> e1 rc w = (Inr x, w')) \<or> pr = Proceed \<and> e2 w = (Inr x, w')
     \<or> pr = NeedsOperator \<and> e3 w = (Inr x, w')"
  by (auto split: option.splits sum.splits pending_recovery.splits prod.splits)

lemma sql_Inr: "sql env f w = (Inr x, w') \<longleftrightarrow> de_sql_ok env (w_tick w) \<and> x = fst (f (w_stores w))
    \<and> w' = w\<lparr>w_tick := Suc (w_tick w), w_stores := snd (f (w_stores w))\<rparr>"
  by (auto simp: sql_def statement_def Let_def split: prod.splits)

lemma load_plan_Inr:
  assumes "load_plan env tool params q w = (Inr p, w')"
  shows "plan_get (ss_plans (w_stores w)) (aq_plan_id q) = Inr (Some (lp_record p))"
    "de_plan_of_json env (pr_plan_json (lp_record p)) = Inr (lp_plan p)"
    "apply_tool_for_plan_tool (op_tool (lp_plan p)) = tool"
    "lp_actor p = actor_from_params params env"
    "lp_binding p = \<lparr>cb_actor = actor_from_params params env,
       cb_requester = requester_from_params params (actor_from_params params env), cb_tool = tool,
       cb_op_hash = op_op_hash (lp_plan p), cb_environment = me_label (de_environment env)\<rparr>"
    "w_stores w' = w_stores w"
  using assms
  by (auto simp: load_plan_def andthen_Inr or_internal_Inr open_stores_def get_plan_def sql_Inr
      step_pure_Inr step_ask_Inr upstream_Inr Let_def case_step_Inr)

lemma reject_expired_Inr: "reject_expired env tool q p x w = (Inr (), w') \<Longrightarrow> \<not> x \<and> w' = w"
  by (auto simp: reject_expired_def inspect_iff step_pure_Inr step_ask_Inr upstream_Inr split: if_splits)

lemma govern_fields_Inr:
  assumes "govern_fields env tool q p prior w = (Inr (), w')"
  shows "\<exists>payload. op_planned_changes (lp_plan p) = JObj payload
    \<and> field_governance_rejections tool payload (de_policy env) WritePayload = []"
proof -
  obtain r w1 where r: "enforce_apply_field_governance env tool (lp_plan p) (aq_binding q) prior w = (r, w1)"
    and case_r: "(case r of Inr _ \<Rightarrow> ok () | Inl err \<Rightarrow> plan_build_error_to_apply_response env tool err) w1
      = (Inr (), w')"
    using assms by (auto simp: govern_fields_def inspect_iff)
  have "r = Inr ()" using case_r by (cases r) auto
  with r obtain payload where "as_object (op_planned_changes (lp_plan p)) = Some payload"
    "field_governance_rejections tool payload (de_policy env) WritePayload = []"
    by (auto simp: enforce_apply_field_governance_def fail_def Let_def split: option.splits if_splits)
  then show ?thesis by (cases "op_planned_changes (lp_plan p)") auto
qed

lemma validate_confirmation_ok:
  "validate_confirmation now c b = Inr u \<longleftrightarrow> token_valid now b c"
  by (auto simp: validate_confirmation_def validate_confirmation_binding_def token_valid_def
      binding_mismatch_Some split: option.splits)

lemma validate_confirmation_binding_ok:
  "validate_confirmation_binding now c b = Inr u
    \<longleftrightarrow> \<not> cr_revoked c \<and> now < cr_expires_at c \<and> bound_to c b"
  by (auto simp: validate_confirmation_binding_def binding_mismatch_Some split: option.splits)

lemma check_token_Inr:
  assumes "check_token env tool q p False w = (Inr (), w')"
  obtains c where "conf_lookup (ss_confirmations (w_stores w)) (aq_token q) = Some c"
    "token_valid (de_clock env (Suc (w_tick w))) (lp_binding p) c" "w_stores w' = w_stores w"
    "w_tick w' = Suc (Suc (w_tick w))"
  using assms
  by (auto simp: check_token_def andthen_Inr or_internal_Inr lookup_token_def sql_Inr step_pure_Inr step_ask_Inr upstream_Inr
      validate_confirmation_ok split: option.splits sum.splits)

text \<open>A request writes only after every check, and then sends what the plan says.\<close>

lemma apply_plan_writes:
  "apply_plan env tool pl w = (r, w') \<Longrightarrow> (w_writes w' = w_writes w \<and> (\<exists>e. r = Inr (Inl e)) \<and>
     (\<exists>e. plan_write tool pl = Inl e) \<or>
   (\<exists>x. plan_write tool pl = Inr x \<and> w_writes w' = w_writes w @ [x])) \<and> w_tick w \<le> w_tick w'"
  by (auto simp: apply_plan_def ok_def send_def sending_def split: sum.splits)

lemma handle_snd: "snd (handle_story_apply env tool params w) = snd (apply_request_step env tool params w)"
  by (auto simp: handle_story_apply_def split: prod.splits sum.splits)

lemma perform_write_log:
  assumes "perform_write env tool q p used prior w = (r, w')"
  shows "(w_writes w' = w_writes w \<or>
      (\<exists>x. plan_write tool (lp_plan p) = Inr x \<and> w_writes w' = w_writes w @ [x]))
    \<and> w_tick w \<le> w_tick w'"
proof -
  let ?m = "andthen (ask (de_clock env)) (\<lambda>started.
     andthen (or_internal (mark_apply_started env (aq_key q) tool)) (\<lambda>_. ok started))"
  obtain a w1 where m: "?m w = (a, w1)" by (cases "?m w")
  have keep: "writes.keeps ?m" by (intro writes_base)+
  have 1: "w_writes w1 = w_writes w" "w_tick w \<le> w_tick w1"
    using writes.keepsD [OF keep m] by (simp_all add: quiet_def)
  show ?thesis
  proof (cases a)
    case (Inl e)
    then show ?thesis using m 1 assms
      by (auto simp: perform_write_def andthen_def ok_def split: prod.splits sum.splits)
  next
    case (Inr started)
    obtain b w2
      where ap: "(apply_plan env tool (lp_plan p) :: (story_response, _) step) w1 = (b, w2)"
      by fastforce
    have 2: "w_writes w2 = w_writes w \<or>
        (\<exists>x. plan_write tool (lp_plan p) = Inr x \<and> w_writes w2 = w_writes w @ [x])"
      and t: "w_tick w1 \<le> w_tick w2"
      using apply_plan_writes [OF ap] 1(1) by auto
    obtain c where b: "b = Inr c"
      using ap by (auto simp: apply_plan_def ok_def send_def sending_def split: sum.splits)
    have "perform_write env tool q p used prior w =
        (case c of Inl err \<Rightarrow> write_failed env tool q p used err
         | Inr x \<Rightarrow> write_succeeded env tool q p used prior started x) w2"
      using m ap unfolding Inr b
      by (auto simp: perform_write_def andthen_def ok_def split: prod.splits sum.splits)
    then have "(case c of Inl err \<Rightarrow> write_failed env tool q p used err
         | Inr x \<Rightarrow> write_succeeded env tool q p used prior started x) w2 = (r, w')"
      using assms by simp
    moreover have "writes.keeps (case c of Inl err \<Rightarrow> write_failed env tool q p used err
         | Inr x \<Rightarrow> write_succeeded env tool q p used prior started x)"
      by (intro writes.keeps_cases writes_outcome)
    ultimately have "w_writes w' = w_writes w2 \<and> w_tick w2 \<le> w_tick w'"
      using writes.keepsD quiet_def by metis
    with 1 2 t show ?thesis by auto
  qed
qed

lemma apply_wrote:
  assumes "handle_story_apply env tool params w = (rsp, w')" "w_writes w' \<noteq> w_writes w"
  obtains q p used prior w1 x where "apply_checks env tool params w = (Inr (q, p, used, prior), w1)"
    "perform_write env tool q p used prior w1 = (Inr rsp, w') \<or> perform_write env tool q p used prior w1 = (Inl rsp, w')"
    "plan_write tool (lp_plan p) = Inr x" "w_writes w' = w_writes w @ [x]" "w_tick w1 \<le> w_tick w'"
proof -
  obtain r w1 where c: "apply_checks env tool params w = (r, w1)" by (cases "apply_checks env tool params w")
  have w1: "w_writes w1 = w_writes w"
    using writes.keepsD [OF writes_checks c] by (simp add: quiet_def)
  obtain q p used prior where r: "r = Inr (q, p, used, prior)"
    using assms c w1
    by (cases r) (auto simp: handle_story_apply_def apply_request_step_def andthen_def)
  obtain a w2 where pw: "perform_write env tool q p used prior w1 = (a, w2)"
    by (cases "perform_write env tool q p used prior w1")
  have "a = Inr rsp \<or> a = Inl rsp" and w2: "w2 = w'"
    using assms(1) c pw unfolding r
    by (auto simp: handle_story_apply_def apply_request_step_def andthen_def split: sum.splits)
  with perform_write_log [OF pw] assms(2) w1 c pw show ?thesis
    unfolding r by (auto intro: that)
qed

subsection \<open>The token of a request that passed the checks\<close>

lemma live_record_Inr:
  assumes "live_record env k tool w = (Inr v, w')"
  shows "w_stores w' = w_stores w"
    "v = Some rec \<Longrightarrow> idem_lookup_record (ss_idempotency (w_stores w)) k tool = Some rec"
  using assms
  by (auto simp: live_record_def inspect_iff lookup_idem_def sql_def statement_def andthen_Inr step_pure_Inr step_ask_Inr upstream_Inr Let_def
      case_step_Inr split: if_splits)

lemma resolve_Proceed:
  assumes "resolve_pending_response env tool k plan pr ws c w = (Inr Proceed, w')"
  shows "try_resolve_pending_receipt env tool plan pr ws w = (Inr Proceed, w')"
  using assms
  by (auto simp: resolve_pending_response_def andthen_Inr step_pure_Inr step_ask_Inr upstream_Inr inspect_iff Let_def case_step_Inr)

lemma validated_binding:
  "(if cr_consumed c then validate_confirmation_binding now c b else validate_confirmation now c b) = Inr u
     \<longleftrightarrow> \<not> cr_revoked c \<and> now < cr_expires_at c \<and> bound_to c b"
  by (auto simp: validate_confirmation_ok validate_confirmation_binding_ok token_valid_def)

lemma resume_pending_Inr:
  assumes "resume_pending env tool q p c w = (Inr used, w')"
  shows "used = cr_consumed c" "\<not> cr_revoked c" "de_clock env (w_tick w) < cr_expires_at c"
    "bound_to c (lp_binding p)"
    "try_resolve_pending_receipt env tool (lp_plan p) (lp_record p) (lp_warnings p)
       (w\<lparr>w_tick := Suc (w_tick w)\<rparr>) = (Inr Proceed, w')"
  using assms
  by (auto simp: resume_pending_def andthen_Inr or_internal_Inr step_pure_Inr step_ask_Inr upstream_Inr case_step_Inr validated_binding
      dest!: resolve_Proceed split del: if_split)

lemma check_pending_Inr:
  assumes "check_pending env tool q p w = (Inr used, w')"
  shows "used = False \<and> w_stores w' = w_stores w \<or>
    (\<exists>rec c w1. idem_lookup_record (ss_idempotency (w_stores w)) (aq_key q) tool = Some rec
       \<and> ir_receipt rec = None \<and> conf_lookup (ss_confirmations (w_stores w)) (aq_token q) = Some c
       \<and> w_stores w1 = w_stores w \<and> w_tick w \<le> w_tick w1 \<and> resume_pending env tool q p c w1 = (Inr used, w'))"
  using assms unfolding check_pending_def andthen_Inr case_step_Inr or_internal_Inr lookup_token_def
    sql_Inr step_pure_Inr step_ask_Inr upstream_Inr
proof (elim exE conjE disjE, goal_cases)
  case (1 v w1)
  then show ?case using live_record_Inr(1) [OF 1(1)] by simp
next
  case (2 v w1 rec)
  then show ?case using live_record_Inr(1) [OF 2(1)] by simp
next
  case (3 v w1 rec found w2)
  then show ?case using live_record_Inr(1) [OF 3(1)] by simp
next
  case (4 v w1 rec found w2 c)
  show ?case
    using 4 live_record_Inr(1) [OF 4(1)] live_record_Inr(2) [OF 4(1,2)] writes_tick [OF writes_live 4(1)]
    by (intro disjI2 exI [of _ rec] exI [of _ c] exI [of _ w2]) simp
qed

lemma check_replay_keys:
  assumes "check_replay env tool q p w = (Inr (), w')"
  shows "ss_confirmations (w_stores w') = ss_confirmations (w_stores w)"
    "ss_idempotency (w_stores w') = ss_idempotency (w_stores w)"
  using assms
  by (auto simp: check_replay_def andthen_Inr step_pure_Inr step_ask_Inr upstream_Inr case_step_Inr peek_rate_def rate_step_def Let_def
      dest!: live_record_Inr(1) split: prod.splits)

text \<open>The token of a request that passed the checks. A fresh one is in the store the checks leave, the
  one the write starts from; one consumed before was found at the start, where the request has not
  yet awaited anything.\<close>

lemma checks_token:
  assumes run: "apply_checks env tool params w = (Inr (q, p, used, prior), w')"
  shows "\<exists>c i. \<not> cr_revoked c \<and> w_tick w \<le> i \<and> i < w_tick w' \<and> de_clock env i < cr_expires_at c
    \<and> bound_to c (lp_binding p) \<and> cr_consumed c = used
    \<and> (if used then conf_lookup (ss_confirmations (w_stores w)) (aq_token q) = Some c
           \<and> (\<exists>rec. idem_lookup_record (ss_idempotency (w_stores w)) (aq_key q) tool = Some rec
                \<and> ir_receipt rec = None)
        else conf_lookup (ss_confirmations (w_stores w')) (aq_token q) = Some c)"
  using run
proof (rule apply_checks_run)
  fix w1 w2 w3 w4 w5 w6 w7 w8 w9 w10 w11 :: world
  let ?w3 = "w3\<lparr>w_tick := Suc (w_tick w3)\<rparr>"
  assume run: "apply_entry env tool params w = (Inr q, w1)" "load_plan env tool params q w1 = (Inr p, w2)"
    "check_replay env tool q p w2 = (Inr (), w3)" "check_pending env tool q p ?w3 = (Inr used, w4)"
    "reject_expired env tool q p (plan_has_expired (de_clock env (w_tick w3)) (lp_record p)) w4 = (Inr (), w5)"
    "limit_writes env tool p w5 = (Inr (), w6)" "reserve_key env tool q p w6 = (Inr (), w7)"
    "run_guard env tool q p w7 = (Inr (), w8)" "check_concurrency env tool params p w8 = (Inr (), w9)"
    "fetch_before env tool p w9 = (Inr prior, w10)" "govern_fields env tool q p prior w10 = (Inr (), w11)"
    "check_token env tool q p used w11 = (Inr (), w')"
  note e = run(1) and l = run(2) and r = run(3) and pend = run(4) and tok = run(12)
  note ticks = apply_checks_ticks [OF run]
  have start: "ss_confirmations (w_stores w3) = ss_confirmations (w_stores w)"
    "ss_idempotency (w_stores w3) = ss_idempotency (w_stores w)"
    using apply_entry_Inr(7) [OF e] load_plan_Inr(6) [OF l] check_replay_keys [OF r] by simp_all
  show ?thesis
  proof (cases used)
    case True
    with check_pending_Inr [OF pend] obtain rec c w1'
      where found: "idem_lookup_record (ss_idempotency (w_stores w)) (aq_key q) tool = Some rec" "ir_receipt rec = None"
        "conf_lookup (ss_confirmations (w_stores w)) (aq_token q) = Some c"
        and t: "Suc (w_tick w3) \<le> w_tick w1'" and u: "resume_pending env tool q p c w1' = (Inr used, w4)"
      using start by auto
    have "w_tick w1' < w_tick w4"
      using writes_tick [OF writes_try_resolve resume_pending_Inr(5) [OF u]] by simp
    with t ticks have "w_tick w \<le> w_tick w1'" "w_tick w1' < w_tick w'" by linarith+
    with resume_pending_Inr [OF u] found True show ?thesis
      by (intro exI [of _ c] exI [of _ "w_tick w1'"]) simp
  next
    case False
    with tok have "check_token env tool q p False w11 = (Inr (), w')" by simp
    then obtain c where "conf_lookup (ss_confirmations (w_stores w11)) (aq_token q) = Some c"
      "token_valid (de_clock env (Suc (w_tick w11))) (lp_binding p) c" "w_stores w' = w_stores w11"
      "w_tick w' = Suc (Suc (w_tick w11))"
      by (rule check_token_Inr)
    moreover have "w_tick w \<le> Suc (w_tick w11)" using ticks by linarith
    ultimately show ?thesis
      using False by (intro exI [of _ c] exI [of _ "Suc (w_tick w11)"]) (simp add: token_valid_def)
  qed
qed

end
