(* ===== verification/Story_Outcome.thy ===== *)
theory Story_Outcome
  imports Story_Safety
begin

text \<open>
  What an apply leaves behind: early exits are error responses, a receipt that is answered after a
  write has been stored under the key, and a key with a receipt is finished.
\<close>

subsection \<open>How a step ends the request\<close>

definition is_error :: "story_response \<Rightarrow> bool" where
  "is_error r = (case r of RespError c m d \<Rightarrow> True | _ \<Rightarrow> False)"

lemma is_error_simps [simp]:
  "is_error (story_error c m d)" "is_error (internal_error e)" "is_error (invalid_params e)"
  "\<not> is_error (RespReceipt rc)"
  by (simp_all add: is_error_def story_error_def internal_error_def invalid_params_def)

lemma raises_pure: "raises P (upstream env f)" "raises P (send env x')" "raises P (rate_step env h)"
  by (auto simp: raises_def upstream_def awaiting_def send_def sending_def rate_step_def Let_def split: prod.splits)

lemma raises_or_internal: "raises is_error (or_internal m)"
proof -
  have "raises is_error (of_result (map_err internal_error r))" for r :: "(string, 'a) result"
    by (cases r) (auto simp: raises_def of_result_def)
  then show ?thesis unfolding or_internal_def map_err_step_def by (intro raises_inspect)
qed

lemma raises_cases:
  "(\<And>x. raises P (e1 x)) \<Longrightarrow> raises P e2 \<Longrightarrow> raises P e3 \<Longrightarrow> raises P (case_pending_recovery e1 e2 e3 pr)"
  by (auto split: pending_recovery.splits)

lemmas raises_rules = raises_step_rules raises_pure raises_or_internal raises_cases is_error_simps(1-3)

lemma raises_errors:
  "raises is_error (audited_story_error env tool code msg d st)" "raises is_error (field_error env tool rows)"
  "raises is_error (rate_limited env tool n)" "raises is_error (token_failed env tool a err)"
  "raises is_error (pending_resolution_required env tool pl)" "raises is_error (conflict_error env tool k u v)"
  unfolding audited_story_error_def field_error_def rate_limited_def token_failed_def conflict_error_def
    confirmation_invalid_def pending_resolution_required_def record_rate_def
  by (intro raises_rules)+

lemma raises_perform: "raises is_error (perform_write env tool q p used prior)"
  unfolding perform_write_def apply_plan_def write_failed_def write_succeeded_def finish_token_def
    store_receipt_def Let_def
  by (intro raises_rules raises_errors)+

subsection \<open>Stages that keep the idempotency table\<close>

lemma keys_sql:
  "keys.keeps (open_stores env)" "keys.keeps (get_plan env i)" "keys.keeps (mark_plan_expired env i)"
  "keys.keeps (mark_plan_consumed env i)" "keys.keeps (lookup_token env t)"
  "keys.keeps (lookup_idem env k tool)"
  "keys.keeps (count_rate env a b' c l)" "keys.keeps (peek_rate env a b' c l)"
  "keys.keeps (record_rate env a b' c)"
  unfolding store_defs
  by (intro keys.keeps_rules keys_atoms sql_keeps_keys;
      simp add: Let_def split: prod.splits option.splits)+

lemma keys_audit: "keys.keeps (append_audit_event env a p tool s pl m er ids ch)"
  unfolding append_audit_event_def Let_def
  by (intro keys.keeps_rules keys_atoms sql_keeps_keys keys_sql; simp split: prod.splits)+

lemmas keys_rules = keys.keeps_rules keys_atoms keys_sql keys_audit

lemma keys_errors:
  "keys.keeps (audited_story_error env tool code msg d st)" "keys.keeps (field_error env tool rows)"
  "keys.keeps (guard_error env tool f)" "keys.keeps (rate_limited env tool n)"
  "keys.keeps (token_failed env tool a err)" "keys.keeps (pending_resolution_required env tool pl)"
  "keys.keeps (conflict_error env tool k u v)" "keys.keeps (token_invalid env tool r)"
  "keys.keeps (append_confirmation_consume_audit env i a r')"
  unfolding audited_story_error_def field_error_def guard_error_def rate_limited_def token_failed_def
    conflict_error_def confirmation_invalid_def pending_resolution_required_def token_invalid_def
    append_confirmation_consume_audit_def
  by (intro keys_rules)+

lemma keys_pbe: "keys.keeps (plan_build_error_to_apply_response env tool e)"
  unfolding plan_build_error_to_apply_response_def by (intro keys_rules keys_errors)+

lemma keys_fetch:
  assumes "others_keep env ss_idempotency"
  shows "keys.keeps (get_record_fresh env n)" "keys.keeps (field_choices env t f)"
    "keys.keeps (epic_exists env e)" "keys.keeps (guard_target env plan a b c)"
  unfolding get_record_fresh_def field_choices_def epic_exists_def guard_target_def
  by (intro keys_rules assms)+

lemma keys_constrained:
  assumes "others_keep env ss_idempotency"
  shows "keys.keeps (validate_constrained_fields env tool payload b cur)"
proof -
  note rules = keys_rules keys_fetch [OF assms]
  have choice: "keys.keeps (normalize_choice_value env s allowed t f r)" for s allowed t f r
    unfolding normalize_choice_value_def dictionary_choice_is_constrained_def by (intro rules)+
  have priority: "keys.keeps (validate_priority env t b p)" for t p
    unfolding validate_priority_def by (intro rules choice)+
  have state: "keys.keeps (validate_state env tool t b cur p)" for t p
    unfolding validate_state_def state_choices_for_validation_def Let_def by (intro rules)+
  have epic: "keys.keeps (validate_epic env p)" for p
    unfolding validate_epic_def by (intro rules)+
  show ?thesis
    unfolding validate_constrained_fields_def Let_def by (intro rules priority state epic)+
qed

lemma keys_guarded:
  assumes "others_keep env ss_idempotency"
  shows "keys.keeps (enforce_apply_field_governance env tool plan b cur)"
    "keys.keeps (enforce_apply_guard env tool plan b)"
    "keys.keeps (try_resolve_pending_receipt env tool plan pr ws)"
  unfolding enforce_apply_field_governance_def enforce_apply_guard_def Let_def
    try_resolve_pending_receipt_def find_recovered_create_record_def recovered_receipt_def
  by (intro keys_rules keys_fetch keys_constrained assms)+

lemma keys_replay: "keys.keeps (replay_receipt env tool q p rc)"
  unfolding replay_receipt_def validate_replay_confirmation_def by (intro keys_rules keys_errors)+

lemma keys_stages:
  assumes "others_keep env ss_idempotency"
  shows "keys.keeps (limit_writes env tool p)" "keys.keeps (run_guard env tool q p)"
    "keys.keeps (check_concurrency env tool params p)" "keys.keeps (fetch_before env tool p)"
    "keys.keeps (govern_fields env tool q p prior)" "keys.keeps (check_token env tool q p used)"
    "keys.keeps (check_replay env tool q p)" "keys.keeps (reject_expired env tool q p x)"
    "keys.keeps (finish_token env tool q p used)"
  unfolding limit_writes_def run_guard_def check_concurrency_def fetch_before_def govern_fields_def
    check_token_def check_replay_def live_record_def reject_expired_def finish_token_def
  by (intro keys_rules keys_errors keys_pbe keys_replay keys_fetch keys_guarded assms)+

subsection \<open>The outcome of a write\<close>

lemma save_receipt_Inr:
  "save_receipt env k rc w = (Inr u, w') \<Longrightarrow>
     ss_idempotency (w_stores w') = idem_save_receipt k rc (ss_idempotency (w_stores w))"
  by (auto simp: save_receipt_def sql_Inr)

lemma store_receipt_Inr:
  assumes "store_receipt env q p rc w = (Inr r, w')"
  shows "r = RespReceipt rc"
    "ss_idempotency (w_stores w') = idem_save_receipt (aq_key q) rc (ss_idempotency (w_stores w))"
proof -
  obtain w1 w2 x where s: "save_receipt env (aq_key q) rc w = (Inr (), w1)"
    and m: "mark_plan_consumed env (op_plan_id (lp_plan p)) w1 = (x, w2)" and r: "ok (RespReceipt rc) w2 = (Inr r, w')"
    using assms by (auto simp: store_receipt_def andthen_Inr or_internal_Inr inspect_iff ok_def)
  show "r = RespReceipt rc" using r by (simp add: ok_def)
  show "ss_idempotency (w_stores w') = idem_save_receipt (aq_key q) rc (ss_idempotency (w_stores w))"
    using save_receipt_Inr [OF s] keys.keepsD [OF keys_sql(4) m] r by (simp add: ok_def same_keys_def)
qed

text \<open>What a step can return.\<close>

definition yields :: "('a \<Rightarrow> bool) \<Rightarrow> ('e, 'a) step \<Rightarrow> bool" where
  "yields P m = (\<forall>w x w'. m w = (Inr x, w') \<longrightarrow> P x)"

lemma yieldsD: "yields P m \<Longrightarrow> m w = (Inr x, w') \<Longrightarrow> P x"
  unfolding yields_def by blast

lemma yields_rules:
  "P x \<Longrightarrow> yields P (ok x)" "(\<And>x. yields P (f x)) \<Longrightarrow> yields P (andthen m f)"
  "yields P a \<Longrightarrow> yields P b \<Longrightarrow> yields P (if c then a else b)"
  "yields P a \<Longrightarrow> (\<And>y. yields P (g y)) \<Longrightarrow> yields P (case v of None \<Rightarrow> a | Some y \<Rightarrow> g y)"
  "(\<And>x. yields P (b1 x)) \<Longrightarrow> yields P b2 \<Longrightarrow> yields P b3 \<Longrightarrow> yields P (case_create_recovery_lookup b1 b2 b3 cl)"
  "yields P c1 \<Longrightarrow> yields P c2 \<Longrightarrow> yields P (case_create_pending_decision c1 c2 cd)"
  "yields P d1 \<Longrightarrow> yields P d2 \<Longrightarrow> yields P d3 \<Longrightarrow> yields P (case_update_pending_decision d1 d2 d3 ud)"
  by (auto simp: yields_def ok_def andthen_Inr split: option.splits create_recovery_lookup.splits
      create_pending_decision.splits update_pending_decision.splits)

lemma recovered_tool:
  assumes "try_resolve_pending_receipt env tool plan pr ws w = (Inr (Recovered rc), w')"
  shows "re_tool rc = tool"
proof -
  let ?P = "\<lambda>r. case r of Recovered rc \<Rightarrow> re_tool rc = tool | _ \<Rightarrow> True"
  have "yields ?P (try_resolve_pending_receipt env tool plan pr ws)"
    unfolding try_resolve_pending_receipt_def recovered_receipt_def receipt_for_write_def
    by (intro yields_rules; simp)+
  from yieldsD [OF this assms] show ?thesis by simp
qed

lemma mark_apply_started_Inr:
  "mark_apply_started env k tool w = (Inr u, w') \<Longrightarrow>
     \<exists>now. ss_idempotency (w_stores w') = idem_mark_apply_started now k tool (ss_idempotency (w_stores w))"
  by (auto simp: mark_apply_started_def andthen_Inr step_pure_Inr step_ask_Inr upstream_Inr sql_Inr)

lemma write_succeeded_Inr:
  assumes "write_succeeded env tool q p used prior started x w = (Inr r, w')"
    and others: "others_keep env ss_idempotency"
  shows "\<exists>rc w3. store_receipt env q p rc w3 = (Inr r, w') \<and> re_tool rc = tool \<and> same_keys w w3"
  using assms(1)
  unfolding write_succeeded_def Let_def andthen_Inr case_step_Inr step_pure_Inr step_ask_Inr upstream_Inr or_internal_Inr
proof (elim exE conjE, goal_cases)
  case (1 u w1 i w2 n w3 e w4)
  have "same_keys w w4"
    using keys.keepsD [OF keys_stages(9) [OF others] 1(1)] keys.keepsD [OF keys_audit 1(6)] 1
    by (simp add: same_keys_def)
  with 1(7) show ?case
    by (intro exI [of _ w4] exI conjI) (assumption, simp_all add: receipt_for_write_def)
qed

text \<open>A write that answers has stored its receipt under the key, in the table as the write found it
  with the key marked as started.\<close>

lemma perform_write_stored:
  assumes run: "perform_write env tool q p used prior w = (Inr r, w')"
    and others: "others_keep env ss_idempotency"
  shows "\<exists>rc now. r = RespReceipt rc \<and> re_tool rc = tool
    \<and> ss_idempotency (w_stores w') = idem_save_receipt (aq_key q) rc
        (idem_mark_apply_started now (aq_key q) tool (ss_idempotency (w_stores w)))"
proof -
  obtain now c w1 w2 where
    w1: "ss_idempotency (w_stores w1) = idem_mark_apply_started now (aq_key q) tool (ss_idempotency (w_stores w))"
    and ap: "apply_plan env tool (lp_plan p) w1 = (Inr c :: (story_response, _) result, w2)"
    and rest: "(case c of Inl err \<Rightarrow> write_failed env tool q p used err
       | Inr x \<Rightarrow> write_succeeded env tool q p used prior (de_clock env (w_tick w)) x) w2 = (Inr r, w')"
    using run unfolding perform_write_def andthen_Inr step_pure_Inr step_ask_Inr upstream_Inr or_internal_Inr
    by (elim exE conjE) (drule mark_apply_started_Inr, auto)
  have "keys.keeps (apply_plan env tool (lp_plan p) :: (story_response, _) step)"
    using others
    by (auto simp: apply_plan_def keys.keeps_def same_keys_def ok_def send_def sending_def others_keep_def split: sum.splits)
  from keys.keepsD [OF this ap] have w2: "ss_idempotency (w_stores w2) = ss_idempotency (w_stores w1)"
    by (simp add: same_keys_def)
  have fin: "keys.keeps (finish_token env tool q p used)" by (rule keys_stages(9) [OF others])
  have "\<exists>rc w3. re_tool rc = tool \<and> ss_idempotency (w_stores w3) = ss_idempotency (w_stores w2)
      \<and> store_receipt env q p rc w3 = (Inr r, w')"
  proof (cases c)
    case (Inl err)
    with rest obtain rc w4 w5 where t: "try_resolve_pending_receipt env tool (lp_plan p) (lp_record p) (lp_warnings p) w2
        = (Inr (Recovered rc), w4)" and f: "finish_token env tool q p used w4 = (Inr (), w5)"
      and s: "store_receipt env q p rc w5 = (Inr r, w')"
      by (auto simp: write_failed_def andthen_Inr or_internal_Inr case_step_Inr)
    show ?thesis
      using recovered_tool [OF t] keys.keepsD [OF keys_guarded(3) [OF others] t] keys.keepsD [OF fin f] s
      by (auto simp: same_keys_def)
  next
    case (Inr x)
    with rest have "write_succeeded env tool q p used prior (de_clock env (w_tick w)) x w2 = (Inr r, w')"
      by simp
    from write_succeeded_Inr [OF this others] show ?thesis by (auto simp: same_keys_def)
  qed
  then show ?thesis using store_receipt_Inr w1 w2 by metis
qed

lemma reserve_key_Inr:
  assumes "reserve_key env tool q p w = (Inr (), w')"
  obtains now d where "idem_check_and_record (de_duration env) now (aq_key q) tool (op_op_hash (lp_plan p))
      (of_nat (pc_idempotency_window_seconds (de_policy env))) (ss_idempotency (w_stores w))
      = (Some d, ss_idempotency (w_stores w'))" "now = de_clock env (w_tick w)"
    "d = NewKey \<or> (\<exists>a b. d = PendingOutcome a b)"
proof -
  let ?c = "\<lambda>now. idem_check_and_record (de_duration env) now (aq_key q) tool (op_op_hash (lp_plan p))
      (of_nat (pc_idempotency_window_seconds (de_policy env))) (ss_idempotency (w_stores w))"
  obtain outcome w1 where c: "check_and_record_key env (aq_key q) tool (op_op_hash (lp_plan p))
        (of_nat (pc_idempotency_window_seconds (de_policy env))) w = (Inr outcome, w1)"
    and rest: "(case outcome of NewKey \<Rightarrow> ok () | PendingOutcome _ _ \<Rightarrow> ok ()
       | Replay rc \<Rightarrow> replay_receipt env tool q p rc
       | Conflict msg \<Rightarrow> inspect (lookup_idem env (aq_key q) tool) (\<lambda>r.
           conflict_error env tool (aq_key q)
             (case r of Inr (Some rec) \<Rightarrow> ir_op_hash rec | _ \<Rightarrow> []) (op_op_hash (lp_plan p)))) w1
      = (Inr (), w')"
    using assms by (auto simp: reserve_key_def andthen_Inr or_internal_Inr)
  have "outcome = NewKey \<or> (\<exists>a b. outcome = PendingOutcome a b)" "w' = w1"
    using rest by (auto simp: ok_def inspect_iff split: idempotency_outcome.splits)
  moreover have "?c (de_clock env (w_tick w)) = (Some outcome, ss_idempotency (w_stores w1))"
    using c by (auto simp: check_and_record_key_def andthen_Inr step_pure_Inr step_ask_Inr upstream_Inr sql_Inr case_step_Inr
        split: prod.splits)
  ultimately show ?thesis using that by blast
qed

lemma check_reserved:
  assumes "idem_check_and_record dur now key tool h n t = (Some d, t')"
    "d = NewKey \<or> (\<exists>a b. d = PendingOutcome a b)"
  shows "\<exists>rec. idem_lookup_record t' key tool = Some rec \<and> ir_op_hash rec = h \<and> ir_receipt rec = None"
  using assms
  by (auto simp: idem_check_and_record_def idem_lookup_record_def fresh_reservation_def Let_def
      split: option.splits if_splits)

lemma reserved_row:
  assumes "reserve_key env tool q p w = (Inr (), w')"
  shows "\<exists>rec. idem_lookup_record (ss_idempotency (w_stores w')) (aq_key q) tool = Some rec
    \<and> ir_op_hash rec = op_op_hash (lp_plan p) \<and> ir_receipt rec = None"
  using assms by (rule reserve_key_Inr) (rule check_reserved)

text \<open>A key whose record has a receipt and has not expired cannot be reserved.\<close>

lemma finished_not_reserved:
  assumes "idem_lookup_record (ss_idempotency (w_stores w)) (aq_key q) tool = Some rec"
    "ir_receipt rec = Some rc" "de_clock env (w_tick w) < ir_expires_at rec"
  shows "\<not> reserve_key env tool q p w = (Inr (), w')"
proof
  assume "reserve_key env tool q p w = (Inr (), w')"
  then show False
    by (rule reserve_key_Inr)
       (use assms in \<open>auto simp: idem_check_and_record_def idem_lookup_record_def Let_def
         split: option.splits if_splits\<close>)
qed

lemma receipt_stored:
  assumes run: "apply_checks env tool params w = (Inr (q, p, used, prior), w1)"
    and wr: "perform_write env tool q p used prior w1 = (Inr r, w')"
    and others: "others_keep env ss_idempotency"
  shows "\<exists>rc rec. r = RespReceipt rc \<and> idem_lookup_record (ss_idempotency (w_stores w')) (aq_key q) tool = Some rec
    \<and> ir_receipt rec = Some rc \<and> ir_op_hash rec = op_op_hash (lp_plan p)"
  using run
proof (rule apply_checks_run)
  fix w6 w7 w8 w9 w10 w11 :: world
  assume res: "reserve_key env tool q p w6 = (Inr (), w7)" and g: "run_guard env tool q p w7 = (Inr (), w8)"
    and cc: "check_concurrency env tool params p w8 = (Inr (), w9)"
    and f: "fetch_before env tool p w9 = (Inr prior, w10)"
    and gov: "govern_fields env tool q p prior w10 = (Inr (), w11)"
    and tok: "check_token env tool q p used w11 = (Inr (), w1)"
  obtain rec where row: "idem_lookup_record (ss_idempotency (w_stores w7)) (aq_key q) tool = Some rec"
    "ir_op_hash rec = op_op_hash (lp_plan p)"
    using reserved_row [OF res] by blast
  have "ss_idempotency (w_stores w1) = ss_idempotency (w_stores w7)"
    using keys.keepsD [OF keys_stages(2) [OF others] g] keys.keepsD [OF keys_stages(3) [OF others] cc]
      keys.keepsD [OF keys_stages(4) [OF others] f] keys.keepsD [OF keys_stages(5) [OF others] gov]
      keys.keepsD [OF keys_stages(6) [OF others] tok] by (simp add: same_keys_def)
  with row perform_write_stored [OF wr others] show ?thesis
    by (auto simp: save_lookup Idempotency_Store.mark_lookup row_is_def)
qed

subsection \<open>A finished key\<close>

text \<open>The response of a request whose key has the receipt \<open>rc\<close>.\<close>

definition replays :: "operation_receipt \<Rightarrow> story_response \<Rightarrow> bool" where
  "replays rc e = (is_error e \<or> e = RespReceipt (rc\<lparr>re_idempotency_replay := True\<rparr>))"

lemma replays_again [simp]: "replays (rc\<lparr>re_idempotency_replay := True\<rparr>) = replays rc"
  by (simp add: replays_def fun_eq_iff)

lemma raises_weaken: "raises P m \<Longrightarrow> (\<And>e. P e \<Longrightarrow> Q e) \<Longrightarrow> raises Q m"
  unfolding raises_def by blast

lemma raises_replays: "raises is_error m \<Longrightarrow> raises (replays rc) m"
  by (erule raises_weaken) (simp add: replays_def)

lemma raises_replay: "raises (replays rc) (replay_receipt env tool q p rc)"
  unfolding replay_receipt_def
  by (intro raises_step_rules raises_cases raises_replays raises_errors raises_pure) (simp add: replays_def)

lemma replay_again:
  "replay_receipt env tool q p (rc\<lparr>re_idempotency_replay := True\<rparr>) w = (Inl e, w') \<Longrightarrow> replays rc e"
  using raisesD [OF raises_replay, of env tool q p "rc\<lparr>re_idempotency_replay := True\<rparr>"] by simp

lemma raises_entry:
  "raises is_error (apply_entry env tool params)" "raises is_error (load_plan env tool params q)"
  "raises is_error (reject_expired env tool q p x)" "raises is_error (limit_writes env tool p)"
  unfolding apply_entry_def load_plan_def required_param_def reject_expired_def limit_writes_def
    count_rate_def Let_def
  by (intro raises_rules raises_errors)+

lemma peek_keys:
  "peek_rate env a b c l w = (r, w') \<Longrightarrow> ss_idempotency (w_stores w') = ss_idempotency (w_stores w)"
  using keys.keepsD [OF keys_sql(8)] by (simp add: same_keys_def)

lemma live_record_total: "\<exists>v w'. live_record env k tool w = (Inr v, w')"
  by (auto simp: live_record_def inspect_def andthen_def ask_def ok_def split: prod.splits sum.splits option.splits)

lemma peek_total: "\<exists>v w'. peek_rate env a b c l w = (Inr v, w')"
  by (auto simp: peek_rate_def rate_step_def Let_def split: prod.splits)

lemma check_replay_Inl:
  assumes row: "idem_lookup_record (ss_idempotency (w_stores w)) (aq_key q) tool = Some rec"
    "ir_receipt rec = Some rc"
    and run: "check_replay env tool q p w = (Inl e, w')"
  shows "replays rc e"
proof -
  obtain l w1 where pk: "peek_rate env ''story_failed_confirmation'' (lp_actor p) tool
      (rl_failed_confirmations_per_minute (de_rate_limit env)) w = (Inr l :: (story_response, _) result, w1)"
    using peek_total by blast
  obtain v w2 where lv: "live_record env (aq_key q) tool w1 = (Inr v :: (story_response, _) result, w2)"
    using live_record_total by blast
  have vrec: "v = None \<or> v = Some rec"
    using live_record_Inr(2) [OF lv] row peek_keys [OF pk] by (cases v) auto
  show ?thesis
  proof (cases l)
    case (Some n)
    then have "(rate_limited env tool n :: (story_response, unit) step) w1 = (Inl e, w')" using run pk by (simp add: check_replay_def andthen_run)
    from raisesD [OF raises_errors(3) this] show ?thesis by (simp add: replays_def)
  next
    case None
    with run pk lv have "(case v of
             None \<Rightarrow> ok ()
           | Some rec \<Rightarrow>
               if ir_op_hash rec \<noteq> op_op_hash (lp_plan p)
               then conflict_error env tool (aq_key q) (ir_op_hash rec) (op_op_hash (lp_plan p))
               else (case ir_receipt rec of
                   Some rc \<Rightarrow> replay_receipt env tool q p rc
                 | None \<Rightarrow> ok ())) w2 = (Inl e, w')"
      by (simp add: check_replay_def andthen_run)
    then show ?thesis
      using vrec row
      by (auto simp: ok_def split: if_splits
          dest: raisesD [OF raises_replays [OF raises_errors(6)]] raisesD [OF raises_replay])
  qed
qed

lemma reserve_key_Inl:
  assumes row: "idem_lookup_record (ss_idempotency (w_stores w)) (aq_key q) tool = Some rec"
    "ir_receipt rec = Some rc" "de_clock env (w_tick w) < ir_expires_at rec"
    and run: "reserve_key env tool q p w = (Inl e, w')"
  shows "replays rc e"
proof -
  let ?check = "check_and_record_key env (aq_key q) tool (op_op_hash (lp_plan p))
      (of_nat (pc_idempotency_window_seconds (de_policy env)))"
  obtain c w1 where c: "or_internal ?check w = (c, w1)" by (cases "or_internal ?check w")
  show ?thesis
  proof (cases c)
    case (Inl a)
    with run c have "or_internal ?check w = (Inl e, w')" by (simp add: reserve_key_def andthen_run)
    from raisesD [OF raises_or_internal this] show ?thesis by (simp add: replays_def)
  next
    case (Inr outcome)
    with c have k: "?check w = (Inr outcome, w1)" by (simp add: or_internal_Inr)
    have "outcome = Replay (rc\<lparr>re_idempotency_replay := True\<rparr>) \<or> (\<exists>m. outcome = Conflict m)"
      using k row by (auto simp: check_and_record_key_def andthen_Inr step_pure_Inr step_ask_Inr upstream_Inr sql_Inr case_step_Inr
          idem_check_and_record_def idem_lookup_record_def Let_def split: prod.splits option.splits if_splits)
    then show ?thesis
      using run c Inr
      by (auto simp: reserve_key_def andthen_run inspect_iff
          dest: raisesD [OF raises_replays [OF raises_errors(6)]] replay_again)
  qed
qed

text \<open>A step that ends the request with an error or the stored receipt.\<close>

definition stops :: "operation_receipt \<Rightarrow> (story_response, 'a) step \<Rightarrow> world \<Rightarrow> bool" where
  "stops rc m w = (\<exists>e w'. m w = (Inl e, w') \<and> replays rc e)"

lemma stops_andthen:
  assumes "\<And>x w'. m w = (Inr x, w') \<Longrightarrow> stops rc (f x) w'" "\<And>e w'. m w = (Inl e, w') \<Longrightarrow> replays rc e"
  shows "stops rc (andthen m f) w"
proof -
  obtain r w' where m: "m w = (r, w')" by (cases "m w")
  then show ?thesis using assms by (cases r) (auto simp: stops_def andthen_run)
qed

lemma stops_raises: "raises is_error m \<Longrightarrow> m w = (Inl e, w') \<Longrightarrow> replays rc e"
  using raisesD by (fastforce simp: replays_def)

lemma pending_finished:
  assumes row: "idem_lookup_record (ss_idempotency (w_stores w)) (aq_key q) tool = Some rec" "ir_receipt rec = Some rc"
  shows "\<exists>w'. check_pending env tool q p w = (Inr False, w') \<and> w_stores w' = w_stores w"
proof -
  obtain v w1 where l: "live_record env (aq_key q) tool w = (Inr v :: (story_response, _) result, w1)"
    using live_record_total by blast
  have "v = None \<or> v = Some rec" using live_record_Inr(2) [OF l] row(1) by (cases v) auto
  then show ?thesis using l row(2) live_record_Inr(1) [OF l] by (auto simp: check_pending_def andthen_run ok_def)
qed

lemma keys_before_reserve:
  assumes "apply_entry env tool params w = (Inr q, w1)" "load_plan env tool params q w1 = (Inr p, w2)"
    "check_replay env tool q p w2 = (Inr (), w3)"
    and row: "idem_lookup_record (ss_idempotency (w_stores w)) k tool = Some rec"
      "string_param params ''idempotency_key'' = Some (ik_value k)"
  shows "idem_lookup_record (ss_idempotency (w_stores w2)) (aq_key q) tool = Some rec"
    "idem_lookup_record (ss_idempotency (w_stores w3)) (aq_key q) tool = Some rec"
  using row apply_entry_Inr(6,7) [OF assms(1)] load_plan_Inr(6) [OF assms(2)] check_replay_keys(2) [OF assms(3)]
  by (simp_all add: idem_lookup_record_def)

lemma keys_at_reserve:
  assumes "idem_lookup_record (ss_idempotency (w_stores w3)) (aq_key q) tool = Some rec" "ir_receipt rec = Some rc"
    "check_pending env tool q p (w3\<lparr>w_tick := n\<rparr>) = (Inr u, w4)"
    "reject_expired env tool q p x w4 = (Inr (), w5)" "limit_writes env tool p w5 = (Inr (), w6)"
  shows "idem_lookup_record (ss_idempotency (w_stores w6)) (aq_key q) tool = Some rec"
proof -
  have lim: "keys.keeps (limit_writes env tool p)"
    unfolding limit_writes_def by (intro keys_rules keys_errors)+
  obtain w4' where "check_pending env tool q p (w3\<lparr>w_tick := n\<rparr>) = (Inr False, w4')" "w_stores w4' = w_stores w3"
    using pending_finished [of "w3\<lparr>w_tick := n\<rparr>" q tool rec rc env p] assms(1,2) by auto
  with assms(1,3) reject_expired_Inr [OF assms(4)] keys.keepsD [OF lim assms(5)] show ?thesis
    by (simp add: same_keys_def)
qed

text \<open>No check of a request for a finished key passes, and all it can answer is an error or the
  stored receipt.\<close>

lemma finished_checks:
  assumes row: "idem_lookup_record (ss_idempotency (w_stores w)) k tool = Some rec"
    "ir_receipt rec = Some rc" "\<And>i. de_clock env i < ir_expires_at rec"
    and key: "string_param params ''idempotency_key'' = Some (ik_value k)"
  shows "stops rc (apply_checks env tool params) w"
  unfolding apply_checks_def
proof (rule stops_andthen, rule stops_andthen, rule stops_andthen, rule stops_andthen, rule stops_andthen,
    rule stops_andthen, rule stops_andthen, rule stops_andthen, goal_cases)
  case (1 q w1 p w2 u3 w3 now w3' used w4 u5 w5 u6 w6 u7 w7)
  have "idem_lookup_record (ss_idempotency (w_stores w6)) (aq_key q) tool = Some rec"
    using keys_at_reserve [OF _ row(2)] keys_before_reserve(2) [OF _ _ _ row(1) key] 1
    by (simp add: step_pure_Inr step_ask_Inr upstream_Inr) blast
  with finished_not_reserved [OF _ row(2)] row(3) 1(8) show ?case by simp
next
  case (2 q w1 p w2 u3 w3 now w3' used w4 u5 w5 u6 w6 e w')
  have "idem_lookup_record (ss_idempotency (w_stores w6)) (aq_key q) tool = Some rec"
    using keys_at_reserve [OF _ row(2)] keys_before_reserve(2) [OF _ _ _ row(1) key] 2
    by (simp add: step_pure_Inr step_ask_Inr upstream_Inr) blast
  from reserve_key_Inl [OF this row(2,3) 2(8)] show ?case .
next
  case (3 q w1 p w2 u3 w3 now w3' used w4 u5 w5 e w')
  from stops_raises [OF raises_entry(4) 3(7)] show ?case .
next
  case (4 q w1 p w2 u3 w3 now w3' used w4 e w')
  from stops_raises [OF raises_entry(3) 4(6)] show ?case .
next
  case (5 q w1 p w2 u3 w3 now w3' e w')
  have "idem_lookup_record (ss_idempotency (w_stores w3')) (aq_key q) tool = Some rec"
    using keys_before_reserve(2) [OF 5(1,2) _ row(1) key] 5(3,4) by (simp add: step_pure_Inr step_ask_Inr upstream_Inr)
  from pending_finished [OF this row(2), of env p] 5(5) show ?case by auto
next
  case (6 q w1 p w2 u3 w3 e w')
  then show ?case by (simp add: ask_def)
next
  case (7 q w1 p w2 e w')
  have "idem_lookup_record (ss_idempotency (w_stores w2)) (aq_key q) tool = Some rec"
    using apply_entry_Inr(6,7) [OF 7(1)] load_plan_Inr(6) [OF 7(2)] row(1) key
    by (simp add: idem_lookup_record_def)
  from check_replay_Inl [OF this row(2) 7(3)] show ?case .
next
  case (8 q w1 e w')
  from stops_raises [OF raises_entry(2) 8(2)] show ?case .
next
  case (9 e w')
  from stops_raises [OF raises_entry(1) 9] show ?case .
qed

subsection \<open>A write that answers\<close>

text \<open>When every SQL statement succeeds, ServiceNow accepts the write, the token is valid whenever it
  is looked at and fresh identifiers are new, a request past its checks answers with a receipt.\<close>

definition audit_ids :: "world \<Rightarrow> string set" where
  "audit_ids w = set (map ar_audit_id (ss_audit (w_stores w)))"

lemma story_event_id:
  "ae_audit_id (story_event env now audit_id parent tool status pl m er ids ch) = audit_id"
  by (simp add: story_event_def event_new_plan_def split: prod.splits)

lemma append_audit_run:
  assumes "\<And>i. de_sql_ok env i" "audit_id \<notin> audit_ids w"
  shows "\<exists>e w'. append_audit_event env audit_id parent tool status pl m er ids ch w = (Inr e, w')
    \<and> audit_ids w' \<subseteq> insert audit_id (audit_ids w) \<and> w_tick w \<le> w_tick w'"
proof -
  have "\<exists>e t. append_event (de_sha256 env) (de_event_ser env) now2
      (story_event env now audit_id parent tool status pl m er ids ch) (ss_audit (w_stores w)) = (Inr e, t)
    \<and> set (map ar_audit_id t) \<subseteq> insert audit_id (audit_ids w)" for now now2
    using assms(2) by (auto simp: append_event_def audit_ids_def Let_def story_event_id)
  then obtain e t where "append_event (de_sha256 env) (de_event_ser env) (de_clock env (Suc (Suc (w_tick w))))
      (story_event env (de_clock env (Suc (w_tick w))) audit_id parent tool status pl m er ids ch)
      (ss_audit (w_stores w)) = (Inr e, t)" "set (map ar_audit_id t) \<subseteq> insert audit_id (audit_ids w)"
    by blast
  then show ?thesis
    using assms(1)
    by (simp add: append_audit_event_def open_stores_def sql_def statement_def andthen_def ask_def of_result_def audit_ids_def)
qed

lemma consume_token_run:
  assumes "\<And>i. de_sql_ok env i" "bt_wf (ss_confirmations (w_stores w))"
    "conf_lookup (ss_confirmations (w_stores w)) token = Some c" "\<And>i. token_valid (de_clock env i) b c"
  shows "\<exists>r w'. consume_token env token b w = (Inr r, w') \<and> audit_ids w' = audit_ids w \<and> w_tick w \<le> w_tick w'"
proof -
  have "\<exists>r. fst (conf_consume True True (de_clock env (w_tick w + 2)) token b (ss_confirmations (w_stores w))) = Inr r"
    using conf_consume_ok [OF assms(2)] assms(3,4) by blast
  then show ?thesis
    using assms(1) by (auto simp: consume_token_def Let_def audit_ids_def split: prod.splits)
qed

lemma finish_token_run:
  assumes "\<And>i. de_sql_ok env i" "bt_wf (ss_confirmations (w_stores w))"
    "conf_lookup (ss_confirmations (w_stores w)) (aq_token q) = Some c"
    "\<And>i. token_valid (de_clock env i) (lp_binding p) c"
    and fresh: "\<And>i. de_uuid env i \<notin> audit_ids w"
  shows "\<exists>w' j. finish_token env tool q p False w = (Inr (), w') \<and> j < w_tick w'
    \<and> audit_ids w' \<subseteq> insert (de_uuid env j) (audit_ids w)"
proof -
  obtain r w1 where c: "consume_token env (aq_token q) (lp_binding p) w = (Inr r, w1)"
    and ids: "audit_ids w1 = audit_ids w"
    using consume_token_run [OF assms(1-4)] by blast
  let ?w2 = "w1\<lparr>w_tick := Suc (w_tick w1)\<rparr>"
  have "de_uuid env (w_tick w1) \<notin> audit_ids ?w2" using ids fresh by (simp add: audit_ids_def)
  from append_audit_run [OF assms(1) this] obtain e w3
    where a: "append_audit_event env (de_uuid env (w_tick w1)) (Some (op_plan_id (lp_plan p)))
        ''confirmation_consume'' SPlan None None None (Some (lp_actor p, cb_requester (lp_binding p))) None ?w2
      = (Inr e, w3)" "audit_ids w3 \<subseteq> insert (de_uuid env (w_tick w1)) (audit_ids ?w2)" "w_tick ?w2 \<le> w_tick w3"
    by blast
  have "finish_token env tool q p False w = (Inr (), w3)"
    using c a(1)
    by (simp add: finish_token_def inspect_run append_confirmation_consume_audit_def andthen_def
        or_internal_def map_err_step_def inspect_def of_result_def ask_def ok_def)
  moreover have "audit_ids ?w2 = audit_ids w" using ids by (simp add: audit_ids_def)
  ultimately show ?thesis using a by (intro exI [of _ w3] exI [of _ "w_tick w1"]) auto
qed

lemma store_receipt_run:
  assumes "\<And>i. de_sql_ok env i"
  shows "\<exists>w'. store_receipt env q p rc w = (Inr (RespReceipt rc), w')"
  using assms
  by (simp add: store_receipt_def save_receipt_def mark_plan_consumed_def sql_def statement_def andthen_def or_internal_def
      map_err_step_def inspect_def of_result_def ok_def)

lemma perform_completes:
  assumes sql: "\<And>i. de_sql_ok env i" and out: "plan_write tool (lp_plan p) = Inr x" "\<And>i. de_send env i x = Inr (reply i)"
    and tok: "bt_wf (ss_confirmations (w_stores w))"
      "conf_lookup (ss_confirmations (w_stores w)) (aq_token q) = Some c"
      "\<And>i. token_valid (de_clock env i) (lp_binding p) c" "others_keep env ss_confirmations"
    and fresh: "inj (de_uuid env)" "\<And>i. de_uuid env i \<notin> audit_ids w" "others_keep env ss_audit"
  shows "\<exists>rc w'. perform_write env tool q p False prior w = (Inr (RespReceipt rc), w')"
proof -
  obtain w1 where mk: "or_internal (mark_apply_started env (aq_key q) tool) (w\<lparr>w_tick := Suc (w_tick w)\<rparr>) = (Inr (), w1)"
    and w1: "ss_confirmations (w_stores w1) = ss_confirmations (w_stores w)" "ss_audit (w_stores w1) = ss_audit (w_stores w)"
    using sql by (simp add: mark_apply_started_def sql_def statement_def andthen_def or_internal_def map_err_step_def
        inspect_def of_result_def ask_def)
  obtain w2 where ap: "(apply_plan env tool (lp_plan p) :: (story_response, _) step) w1 = (Inr (Inr (reply (w_tick w1))), w2)"
    and w2: "ss_confirmations (w_stores w2) = ss_confirmations (w_stores w)" "audit_ids w2 = audit_ids w"
    using out tok(4) fresh(3) w1 by (simp add: apply_plan_def send_def sending_def others_keep_def audit_ids_def)
  obtain w3 j where fin: "finish_token env tool q p False w2 = (Inr (), w3)" and j: "j < w_tick w3"
    "audit_ids w3 \<subseteq> insert (de_uuid env j) (audit_ids w)"
    using finish_token_run [OF sql, of w2 q c p tool] tok(1-3) w2 fresh(2) by auto
  let ?w4 = "w3\<lparr>w_tick := Suc (Suc (w_tick w3))\<rparr>"
  let ?x = "reply (w_tick w1)"
  let ?rc = "receipt_for_write env (de_clock env (Suc (w_tick w3))) (lp_plan p) tool (de_uuid env (w_tick w3))
     (de_clock env (w_tick w)) (wr_record ?x)
     \<lparr>ct_sys_updated_on = wr_sys_updated_on ?x, ct_sys_mod_count = wr_sys_mod_count ?x\<rparr> prior (lp_warnings p)"
  have "de_uuid env (w_tick w3) \<noteq> de_uuid env j" using fresh(1) j(1) by (simp add: inj_eq)
  then have id: "de_uuid env (w_tick w3) \<notin> audit_ids ?w4"
    using fresh(2) [of "w_tick w3"] j(2) by (simp add: audit_ids_def) blast
  obtain e w5 where au: "append_audit_event env (de_uuid env (w_tick w3)) (Some (op_plan_id (lp_plan p))) tool
      SAppliedSuccess (Some (fst (audit_summary_for_receipt env ?rc (audit_email_hashes_from_plan (pr_plan_json (lp_record p))))))
      (re_service_now_metadata ?rc) None (Some (lp_actor p, cb_requester (lp_binding p)))
      (Some (snd (audit_summary_for_receipt env ?rc (audit_email_hashes_from_plan (pr_plan_json (lp_record p))))))
      ?w4 = (Inr e, w5)"
    using append_audit_run [OF sql id] by blast
  obtain w6 where st: "store_receipt env q p ?rc w5 = (Inr (RespReceipt ?rc), w6)"
    using store_receipt_run [OF sql] by blast
  have "write_succeeded env tool q p False prior (de_clock env (w_tick w)) ?x w2 = (Inr (RespReceipt ?rc), w6)"
    using au st
    by (simp add: write_succeeded_def fin Let_def case_prod_beta andthen_def ask_def
        or_internal_def map_err_step_def inspect_def of_result_def)
  then have "perform_write env tool q p False prior w = (Inr (RespReceipt ?rc), w6)"
    using mk ap by (simp add: perform_write_def andthen_run ask_def andthen_def)
  then show ?thesis by blast
qed

end
