(* ===== verification/Story_Demo.thy ===== *)
theory Story_Demo
  imports Story_Outcome
begin

text \<open>
  A concrete daemon: one board with one allowed sprint, one enabled tool, one stored plan that
  updates a story of that sprint, one token, a ServiceNow that accepts every write. The stages of one apply are evaluated on it; the
  witnesses of the apply properties use the run.
\<close>

definition demo_board :: board_binding where
  "demo_board = \<lparr>bb_name = ''b'', bb_instance_host = ''h'', bb_board_sys_id = ''b1'', bb_story_table = ''rm_story'',
     bb_task_table = ''rm_scrum_task'', bb_column_field = [], bb_swim_lane_field = [], bb_assignment_group = ''g'',
     bb_allowed_task_assignment_groups = [], bb_allowed_sprints = [''s1''], bb_allow_production = False,
     bb_allowed_story_states = [], bb_allowed_task_states = [], bb_allowed_priorities = []\<rparr>"

definition demo_policy :: policy_config where
  "demo_policy = \<lparr>pc_environment = ''test'', pc_instance_timezone = [], pc_default_mode = [], pc_kb_freshness_days = 0,
     pc_idempotency_window_seconds = 100, pc_phi_in_work_notes = [], pc_confirmation_ttl_seconds_default = 0,
     pc_production_hosts = [], pc_roles = [], pc_boards = [(''b1'', demo_board)],
     pc_tools = [(''story_apply_update'', tool_policy_default\<lparr>tp_enabled := True, tp_field_allowlist := {''short_description''},
       tp_environments := [''test''], tp_story_board_id := Some ''b1''\<rparr>)]\<rparr>"

definition demo_plan :: operation_plan where
  "demo_plan = \<lparr>op_plan_id = ''p'', op_tool = ''story_plan_update'', op_target = Some \<lparr>rr_sys_id = ''r1'', rr_number = ''STRY1'', rr_table = ''rm_story''\<rparr>,
     op_planned_changes = JObj [(''short_description'', JStr ''s'')], op_citations = [], op_op_hash = ''hash'',
     op_expires_at = secs 600\<rparr>"

definition demo_token :: concurrency_token where
  "demo_token = \<lparr>ct_sys_updated_on = ''now'', ct_sys_mod_count = None\<rparr>"

definition demo_record :: snow_record where
  "demo_record = \<lparr>sr_sys_id = ''r1'', sr_number = ''STRY1'', sr_table = ''rm_story'', sr_state = [],
     sr_fields = map_of [(''sys_updated_on'', \<lparr>fv_value = ''now'', fv_display_value = None\<rparr>)],
     sr_references = map_of [(''assignment_group'', \<lparr>rf_sys_id = ''g''\<rparr>), (''sprint'', \<lparr>rf_sys_id = ''s1''\<rparr>)]\<rparr>"

definition demo_env :: daemon_env where
  "demo_env = \<lparr>de_policy = demo_policy, de_environment = env_explicit_config ''test'' [],
     de_rate_limit = rate_limit_config_default, de_instance_url = ''https://h/'', de_instance_user = ''svc'',
     de_duration = (\<lambda>n. Some (secs n)), de_sha256 = (\<lambda>s. s), de_to_vec = (\<lambda>_. []), de_to_text = (\<lambda>_. []),
     de_event_ser = (\<lambda>_. []), de_rfc3339 = (\<lambda>_. []), de_format_time = (\<lambda>_. []),
     de_plan_to_json = (\<lambda>p. JNull), de_plan_of_json = (\<lambda>_. Inr demo_plan), de_record_json = (\<lambda>_. None),
     de_warning_json = (\<lambda>_. JNull), de_warnings_of_json = (\<lambda>_. None), de_token_json = (\<lambda>_. JNull),
     de_token_of_json = (\<lambda>_. Some demo_token), de_clock = (\<lambda>i. min (int i) 99), de_uuid = (\<lambda>i. replicate i CHR ''u''), de_sql_ok = (\<lambda>_. True),
     de_env_kill_switch = (\<lambda>_. None), de_poisoned = (\<lambda>_. False), de_get_record = (\<lambda>_ _. Inr (Some demo_record)),
     de_field_choices = (\<lambda>_ _ _. Inr []), de_epic_exists = (\<lambda>_ _. Inr False), de_find_users = (\<lambda>_ _ _. Inr []),
     de_find_created = (\<lambda>_ _ _ _. Inr []),
     de_send = (\<lambda>_ _. Inr \<lparr>wr_record = demo_record, wr_sys_updated_on = [], wr_sys_mod_count = None\<rparr>),
     de_others = (\<lambda>_ s. s)\<rparr>"

definition demo_world :: world where
  "demo_world = \<lparr>w_stores = \<lparr>
      ss_plans = plan_put \<lparr>pr_plan_id = ''p'', pr_tool = ''story_plan_update'', pr_actor = ''amy'', pr_op_hash = ''hash'',
           pr_plan_json = JObj [], pr_concurrency_token = Some demo_token, pr_created_at = 0, pr_expires_at = secs 600,
           pr_state = Pending\<rparr> [],
      ss_confirmations = [(''t'', \<lparr>cr_token_id = ''t'', cr_plan_id = ''p'', cr_actor = ''amy'', cr_requester = ''amy'',
           cr_tool = ''story_apply_update'', cr_op_hash = ''hash'', cr_environment = ''test'', cr_issued_at = 0,
           cr_expires_at = secs 600, cr_consumed = False, cr_revoked = False\<rparr>)],
      ss_idempotency = [], ss_audit = [], ss_rates = []\<rparr>, w_tick = 0, w_writes = []\<rparr>"

definition demo_params :: json where
  "demo_params = JObj [(''actor'', JStr ''amy''), (''concurrency_token'', JStr ''now''), (''confirmation_token'', JStr ''t''),
     (''idempotency_key'', JStr ''k''), (''plan_id'', JStr ''p'')]"

lemma demo_env_simps [simp]:
  "de_sql_ok demo_env i" "others_keep demo_env part" "de_uuid demo_env i = replicate i CHR ''u''"
  "de_send demo_env i x = Inr \<lparr>wr_record = demo_record, wr_sys_updated_on = [], wr_sys_mod_count = None\<rparr>"
  by (simp_all add: demo_env_def others_keep_def)

lemma demo_clock: "de_clock demo_env i = min (int i) 99"
  by (simp add: demo_env_def)

lemma demo_world_simps [simp]: "w_tick demo_world = 0" "w_writes demo_world = []" "ss_audit (w_stores demo_world) = []"
  by (simp_all add: demo_world_def)

abbreviation demo_tool :: string where "demo_tool \<equiv> ''story_apply_update''"

definition demo_request :: apply_request where
  "demo_request = \<lparr>aq_binding = demo_board, aq_plan_id = ''p'', aq_token = ''t'',
     aq_key = \<lparr>ik_value = ''k'', ik_source = ServerDerived\<rparr>\<rparr>"

definition demo_loaded :: loaded_plan where
  "demo_loaded = \<lparr>
     lp_record = \<lparr>pr_plan_id = ''p'', pr_tool = ''story_plan_update'', pr_actor = ''amy'',
       pr_op_hash = ''hash'', pr_plan_json = JObj [], pr_concurrency_token = Some demo_token, pr_created_at = 0,
       pr_expires_at = secs 600, pr_state = Pending\<rparr>,
     lp_plan = demo_plan, lp_warnings = [], lp_actor = ''amy'',
     lp_binding = \<lparr>cb_actor = ''amy'', cb_requester = ''amy'', cb_tool = demo_tool,
       cb_op_hash = ''hash'', cb_environment = ''test''\<rparr>\<rparr>"

text \<open>The world after so many readings, with these rate buckets and this idempotency table.\<close>

definition demo_at :: "nat \<Rightarrow> rate_buckets \<Rightarrow> idempotency_table \<Rightarrow> world" where
  "demo_at i rates keys = demo_world\<lparr>w_tick := i,
     w_stores := (w_stores demo_world)\<lparr>ss_rates := rates, ss_idempotency := keys\<rparr>\<rparr>"

subsection \<open>Stages that do not look at the key\<close>

lemma demo_entry:
  "apply_entry demo_env demo_tool demo_params (demo_at i rates keys) = (Inr demo_request, demo_at (i + 1) rates keys)"
proof -
  have "apply_entry demo_env demo_tool demo_params (demo_at i rates keys) = (Inr demo_request, demo_at (Suc i) rates keys)"
    by code_simp
  then show ?thesis by simp
qed

lemma demo_load:
  "load_plan demo_env demo_tool demo_params demo_request (demo_at i rates keys)
     = (Inr demo_loaded, demo_at (i + 2) rates keys)"
proof -
  have "load_plan demo_env demo_tool demo_params demo_request (demo_at i rates keys)
     = (Inr demo_loaded, demo_at (Suc (Suc i)) rates keys)"
    by code_simp
  then show ?thesis by (simp add: numeral_2_eq_2)
qed

lemma demo_ask:
  "(ask (de_clock demo_env) :: ('e, _) step) (demo_at i rates keys)
     = (Inr (de_clock demo_env i), demo_at (i + 1) rates keys)"
  by (simp add: ask_def demo_at_def)

lemma demo_expired:
  "reject_expired demo_env demo_tool demo_request demo_loaded
     (plan_has_expired (de_clock demo_env i) (lp_record demo_loaded)) w = (Inr (), w)"
  by (simp add: reject_expired_def plan_has_expired_def demo_loaded_def secs_def nanos_def ok_def demo_clock min_le_iff_disj)

lemma demo_fetched:
  "(get_record_fresh demo_env ''STRY1'' :: ('e, _) step) (demo_at i rates keys)
     = (Inr (Inr (Some demo_record)), demo_at (i + 1) rates keys)"
  by (simp add: get_record_fresh_def upstream_def awaiting_def demo_at_def demo_env_def)

lemma demo_target: "op_target (lp_plan demo_loaded) = Some \<lparr>rr_sys_id = ''r1'', rr_number = ''STRY1'', rr_table = ''rm_story''\<rparr>"
  by (simp add: demo_loaded_def demo_plan_def)

lemma demo_guard:
  "run_guard demo_env demo_tool demo_request demo_loaded (demo_at i rates keys) = (Inr (), demo_at (i + 1) rates keys)"
proof -
  have "story_record_in_scope demo_record (aq_binding demo_request) = Inr ()"
    "bb_allowed_sprints (aq_binding demo_request) \<noteq> []" by code_simp+
  then show ?thesis
    by (simp add: run_guard_def enforce_apply_guard_def guard_target_def demo_target inspect_def andthen_def
        demo_fetched of_result_def ok_def Let_def)
qed

lemma demo_versions:
  "pr_concurrency_token (lp_record demo_loaded) = Some demo_token"
  "Option.bind (json_get demo_params ''concurrency_token'') (de_token_of_json demo_env) = Some demo_token"
  "concurrency_from_record demo_record = Some demo_token"
  by code_simp+

lemma demo_concurrency:
  "check_concurrency demo_env demo_tool demo_params demo_loaded (demo_at i rates keys)
     = (Inr (), demo_at (i + 1) rates keys)"
  using demo_versions
  by (simp add: check_concurrency_def demo_target andthen_def or_internal_def map_err_step_def inspect_def
      demo_fetched of_result_def ok_def)

lemma demo_fetch:
  "fetch_before demo_env demo_tool demo_loaded (demo_at i rates keys)
     = (Inr (Some demo_record), demo_at (i + 1) rates keys)"
proof -
  have "str_contains ''_update'' demo_tool" by code_simp
  then show ?thesis
    by (simp add: fetch_before_def demo_target andthen_def or_internal_def map_err_step_def inspect_def
        demo_fetched of_result_def)
qed

lemma demo_govern:
  "govern_fields demo_env demo_tool demo_request demo_loaded (Some demo_record) w = (Inr (), w)"
proof -
  have "enforce_apply_field_governance demo_env demo_tool (lp_plan demo_loaded) (aq_binding demo_request)
      (Some demo_record) w = (Inr (), w)"
    by code_simp
  then show ?thesis by (simp add: govern_fields_def inspect_run ok_def)
qed

definition demo_confirmation :: confirmation_record where
  "demo_confirmation = \<lparr>cr_token_id = ''t'', cr_plan_id = ''p'', cr_actor = ''amy'', cr_requester = ''amy'',
    cr_tool = demo_tool, cr_op_hash = ''hash'', cr_environment = ''test'', cr_issued_at = 0,
    cr_expires_at = secs 600, cr_consumed = False, cr_revoked = False\<rparr>"

lemma demo_confirmation_valid: "token_valid (de_clock demo_env i) (lp_binding demo_loaded) demo_confirmation"
  by (simp add: token_valid_def bound_to_def demo_loaded_def demo_confirmation_def secs_def nanos_def
      demo_clock min_less_iff_disj)

lemma demo_tokens:
  "bt_wf (ss_confirmations (w_stores (demo_at i rates keys)))"
  "conf_lookup (ss_confirmations (w_stores (demo_at i rates keys))) (aq_token demo_request) = Some demo_confirmation"
  by (simp_all add: demo_at_def demo_world_def bt_wf_def conf_lookup_def bt_get_Cons demo_request_def
      demo_confirmation_def)

lemma demo_lookup_token:
  "or_internal (lookup_token demo_env (aq_token demo_request)) (demo_at i rates keys)
     = (Inr (Some demo_confirmation), demo_at (i + 1) rates keys)"
  using demo_tokens(2) [of i rates keys]
  by (simp add: lookup_token_def or_internal_def map_err_step_def inspect_def of_result_def sql_def statement_def demo_at_def)

lemma demo_check_token:
  "check_token demo_env demo_tool demo_request demo_loaded False (demo_at i rates keys)
     = (Inr (), demo_at (i + 2) rates keys)"
proof -
  have "validate_confirmation (de_clock demo_env n) demo_confirmation (lp_binding demo_loaded) = Inr ()" for n
    using demo_confirmation_valid validate_confirmation_ok by auto
  then show ?thesis
    by (simp add: check_token_def andthen_def demo_lookup_token demo_ask ok_def)
qed

subsection \<open>A first apply\<close>

definition demo_peeked :: rate_buckets where
  "demo_peeked = [(''story_failed_confirmation:amy:story_apply_update'', [])]"

definition demo_counted :: rate_buckets where
  "demo_counted = (''story_apply:amy:story_apply_update'', [7]) # demo_peeked"

definition demo_reserved :: idempotency_table where
  "demo_reserved = [((''k'', demo_tool), fresh_reservation ''hash'' 8 100000000008)]"

lemma demo_key_stages:
  "check_replay demo_env demo_tool demo_request demo_loaded (demo_at 3 [] []) = (Inr (), demo_at 5 demo_peeked [])"
  "check_pending demo_env demo_tool demo_request demo_loaded (demo_at 6 demo_peeked [])
     = (Inr False, demo_at 7 demo_peeked [])"
  "limit_writes demo_env demo_tool demo_loaded (demo_at 7 demo_peeked []) = (Inr (), demo_at 8 demo_counted [])"
  "reserve_key demo_env demo_tool demo_request demo_loaded (demo_at 8 demo_counted [])
     = (Inr (), demo_at 10 demo_counted demo_reserved)"
  by code_simp+

lemma demo_start: "demo_world = demo_at 0 [] []"
  by (simp add: demo_at_def demo_world_def)

lemmas demo_stages = demo_entry demo_load demo_ask demo_expired demo_guard demo_concurrency demo_fetch
  demo_govern demo_check_token

lemma demo_checks:
  "apply_checks demo_env demo_tool demo_params demo_world
     = (Inr (demo_request, demo_loaded, False, Some demo_record), demo_at 15 demo_counted demo_reserved)"
  unfolding demo_start
  by (simp add: apply_checks_def andthen_def demo_stages demo_key_stages ok_def del: One_nat_def)

subsection \<open>A second apply while the first is in flight\<close>

text \<open>The key is reserved and marked as started; the receipt is not there yet.\<close>

definition demo_in_flight :: idempotency_table where
  "demo_in_flight = [((''k'', demo_tool), (fresh_reservation ''hash'' 0 100)\<lparr>ir_apply_started_at := Some 0\<rparr>)]"

definition demo_flight :: world where
  "demo_flight = demo_at 0 [] demo_in_flight"

definition demo_counted_again :: rate_buckets where
  "demo_counted_again = (''story_apply:amy:story_apply_update'', [12]) # demo_peeked"

lemma demo_flight_stages:
  "check_replay demo_env demo_tool demo_request demo_loaded (demo_at 3 [] demo_in_flight)
     = (Inr (), demo_at 6 demo_peeked demo_in_flight)"
  "limit_writes demo_env demo_tool demo_loaded (demo_at 12 demo_peeked demo_in_flight)
     = (Inr (), demo_at 13 demo_counted_again demo_in_flight)"
  "reserve_key demo_env demo_tool demo_request demo_loaded (demo_at 13 demo_counted_again demo_in_flight)
     = (Inr (), demo_at 15 demo_counted_again demo_in_flight)"
  by code_simp+


lemma demo_resolved:
  "(or_internal (resolve_pending_response demo_env demo_tool key (lp_plan demo_loaded) (lp_record demo_loaded) ws c)
     :: (story_response, _) step) (demo_at i rates keys) = (Inr Proceed, demo_at (i + 1) rates keys)"
proof -
  have "classify_update_recovery_record demo_env demo_record (op_planned_changes (lp_plan demo_loaded))
      (Some demo_token) = ProceedUnchangedToken"
    by code_simp
  then show ?thesis
    using demo_versions(1)
    by (simp add: resolve_pending_response_def try_resolve_pending_receipt_def demo_target andthen_def or_internal_def
        map_err_step_def inspect_def demo_fetched of_result_def ok_def)
qed

lemma demo_flight_pending:
  "check_pending demo_env demo_tool demo_request demo_loaded (demo_at 7 demo_peeked demo_in_flight)
     = (Inr False, demo_at 12 demo_peeked demo_in_flight)"
proof -
  let ?row = "(fresh_reservation ''hash'' 0 100)\<lparr>ir_apply_started_at := Some 0\<rparr>"
  have "(live_record demo_env (aq_key demo_request) demo_tool :: (story_response, _) step) (demo_at 7 demo_peeked demo_in_flight)
      = (Inr (Some ?row), demo_at 9 demo_peeked demo_in_flight)"
    by code_simp
  moreover have "validate_confirmation (de_clock demo_env n) demo_confirmation (lp_binding demo_loaded) = Inr ()" for n
    using demo_confirmation_valid validate_confirmation_ok by auto
  moreover have "\<not> cr_consumed demo_confirmation" by (simp add: demo_confirmation_def)
  ultimately show ?thesis
    by (simp add: check_pending_def resume_pending_def andthen_def demo_lookup_token demo_ask demo_resolved ok_def
        fresh_reservation_def del: One_nat_def)
qed

lemma demo_flight_checks:
  "apply_checks demo_env demo_tool demo_params demo_flight
     = (Inr (demo_request, demo_loaded, False, Some demo_record), demo_at 20 demo_counted_again demo_in_flight)"
  unfolding demo_flight_def
  by (simp add: apply_checks_def andthen_def demo_stages demo_flight_stages demo_flight_pending ok_def del: One_nat_def)

end
