(* ===== verification/Story_Properties.thy ===== *)
theory Story_Properties
  imports Story_Demo
begin

text \<open>
  The guarantees of the story-write handlers over \<open>handle_story_apply\<close> and \<open>handle_story_plan\<close>,
  each with a run of the concrete daemon of \<open>Story_Demo\<close>.
\<close>

text \<open>The stored plan a request names, as the request finds it.\<close>

definition stored_plan :: "daemon_env \<Rightarrow> world \<Rightarrow> json \<Rightarrow> plan_store_record \<Rightarrow> operation_plan \<Rightarrow> bool" where
  "stored_plan env w params r plan = (\<exists>plan_id. string_param params ''plan_id'' = Some plan_id
     \<and> plan_get (ss_plans (w_stores w)) plan_id = Inr (Some r)
     \<and> de_plan_of_json env (pr_plan_json r) = Inr plan)"

text \<open>A time the clock showed during a request that led from \<open>w\<close> to \<open>w'\<close>.\<close>

definition clock_read :: "daemon_env \<Rightarrow> world \<Rightarrow> world \<Rightarrow> time \<Rightarrow> bool" where
  "clock_read env w w' now \<longleftrightarrow> (\<exists>i. w_tick w \<le> i \<and> i < w_tick w' \<and> now = de_clock env i)"

lemma clock_readI: "w_tick w \<le> i \<Longrightarrow> i < w_tick w' \<Longrightarrow> clock_read env w w' (de_clock env i)"
  by (auto simp: clock_read_def)

lemma clock_read_within:
  assumes "clock_read env w1 w2 now" "w_tick w \<le> w_tick w1" "w_tick w2 \<le> w_tick w'"
  shows "clock_read env w w' now"
proof -
  obtain i where "w_tick w1 \<le> i" "i < w_tick w2" "now = de_clock env i" using assms(1) by (auto simp: clock_read_def)
  with assms(2,3) show ?thesis by (simp add: clock_readI)
qed

lemma checks_plan:
  assumes "apply_checks env tool params w = (Inr (q, p, used, prior), w')"
  shows "stored_plan env w params (lp_record p) (lp_plan p)"
    "apply_tool_for_plan_tool (op_tool (lp_plan p)) = tool"
    "\<exists>now. clock_read env w w' now \<and> \<not> plan_has_expired now (lp_record p)"
    "\<not> is_kill_switched (de_env_kill_switch env (w_tick w))"
    "validate_story_board_policy (de_policy env) tool (de_environment env) = Inr (Some (aq_binding q))"
    "tool_enabled_in_environment (de_policy env) tool (me_label (de_environment env))"
    "\<exists>payload. op_planned_changes (lp_plan p) = JObj payload
       \<and> field_governance_rejections tool payload (de_policy env) WritePayload = []"
    "string_param params ''confirmation_token'' = Some (aq_token q)"
    "string_param params ''idempotency_key'' = Some (ik_value (aq_key q))"
    "lp_binding p = \<lparr>cb_actor = actor_from_params params env,
       cb_requester = requester_from_params params (actor_from_params params env), cb_tool = tool,
       cb_op_hash = op_op_hash (lp_plan p), cb_environment = me_label (de_environment env)\<rparr>"
proof -
  note facts = apply_checks_run [OF assms]
  obtain w1 where e: "apply_entry env tool params w = (Inr q, w1)" by (rule facts)
  show "stored_plan env w params (lp_record p) (lp_plan p)"
    "apply_tool_for_plan_tool (op_tool (lp_plan p)) = tool"
    by (rule facts; use apply_entry_Inr load_plan_Inr in \<open>fastforce simp: stored_plan_def\<close>)+
  show "\<exists>now. clock_read env w w' now \<and> \<not> plan_has_expired now (lp_record p)"
  proof (rule facts, goal_cases)
    case (1 w1 w2 w3 w4 w5 w6 w7 w8 w9 w10 w11)
    have "w_tick w \<le> w_tick w3" "w_tick w3 < w_tick w'" using apply_checks_ticks [OF 1] by linarith+
    then show ?case using reject_expired_Inr [OF 1(5)] by (blast intro: clock_readI)
  qed
  show "lp_binding p = \<lparr>cb_actor = actor_from_params params env,
       cb_requester = requester_from_params params (actor_from_params params env), cb_tool = tool,
       cb_op_hash = op_op_hash (lp_plan p), cb_environment = me_label (de_environment env)\<rparr>"
    by (rule facts) (rule load_plan_Inr(5))
  show "\<not> is_kill_switched (de_env_kill_switch env (w_tick w))"
    "string_param params ''confirmation_token'' = Some (aq_token q)"
    "string_param params ''idempotency_key'' = Some (ik_value (aq_key q))"
    "validate_story_board_policy (de_policy env) tool (de_environment env) = Inr (Some (aq_binding q))"
    "tool_enabled_in_environment (de_policy env) tool (me_label (de_environment env))"
    using apply_entry_Inr [OF e] by simp_all
  show "\<exists>payload. op_planned_changes (lp_plan p) = JObj payload
       \<and> field_governance_rejections tool payload (de_policy env) WritePayload = []"
    by (rule facts) (rule govern_fields_Inr)
qed

text \<open>
  C1: One apply request sends at most one mutation to ServiceNow, and it is the one its stored plan
  describes: the plan the request names, decoded from the plan store, with its target and changes.
\<close>

theorem apply_single_write:
  "w_writes (snd (handle_story_apply env tool params w)) = w_writes w \<or>
   (\<exists>r plan x. stored_plan env w params r plan \<and> plan_write tool plan = Inr x
      \<and> w_writes (snd (handle_story_apply env tool params w)) = w_writes w @ [x])"
proof (cases "w_writes (snd (handle_story_apply env tool params w)) = w_writes w")
  case False
  obtain rsp w' where h: "handle_story_apply env tool params w = (rsp, w')"
    by (cases "handle_story_apply env tool params w")
  with False have "w_writes w' \<noteq> w_writes w" by simp
  with h show ?thesis by (rule apply_wrote) (use h in \<open>auto dest: checks_plan(1)\<close>)
qed simp

text \<open>
  C2: A request that sends a mutation passed every gate: the kill switch is off, the tool resolves to
  a board under the board policy and is enabled in this environment, the stored plan belongs to this
  tool and has not expired, and every field of its changes is permitted by the field governance.
\<close>

theorem apply_write_gated:
  assumes "w_writes (snd (handle_story_apply env tool params w)) \<noteq> w_writes w"
  shows "\<not> is_kill_switched (de_env_kill_switch env (w_tick w))
    \<and> tool_enabled_in_environment (de_policy env) tool (me_label (de_environment env))
    \<and> (\<exists>b. validate_story_board_policy (de_policy env) tool (de_environment env) = Inr (Some b))
    \<and> (\<exists>r plan payload now. stored_plan env w params r plan
        \<and> apply_tool_for_plan_tool (op_tool plan) = tool \<and> pr_state r \<noteq> Expired
        \<and> clock_read env w (snd (handle_story_apply env tool params w)) now \<and> now < pr_expires_at r
        \<and> op_planned_changes plan = JObj payload
        \<and> field_governance_rejections tool payload (de_policy env) WritePayload = [])"
proof -
  obtain rsp w' where h: "handle_story_apply env tool params w = (rsp, w')"
    by (cases "handle_story_apply env tool params w")
  with assms have "w_writes w' \<noteq> w_writes w" by simp
  with h obtain q p used prior w1
    where c: "apply_checks env tool params w = (Inr (q, p, used, prior), w1)" and t: "w_tick w1 \<le> w_tick w'"
    by (rule apply_wrote)
  note facts = checks_plan [OF c]
  obtain now where now: "clock_read env w w1 now" "\<not> plan_has_expired now (lp_record p)" using facts(3) by blast
  obtain payload where payload: "op_planned_changes (lp_plan p) = JObj payload"
    "field_governance_rejections tool payload (de_policy env) WritePayload = []" using facts(7) by blast
  have "clock_read env w (snd (handle_story_apply env tool params w)) now"
    using clock_read_within [OF now(1) order_refl t] h by simp
  with facts(1,2,4-6) payload now(2) show ?thesis
    unfolding plan_has_expired_def by (intro conjI exI [of _ "lp_record p"] exI [of _ "lp_plan p"]
        exI [of _ payload] exI [of _ now] exI [of _ "aq_binding q"]) auto
qed

lemma apply_run:
  assumes "apply_checks env tool params w = (Inr (q, p, used, prior), w1)"
  shows "snd (handle_story_apply env tool params w) = snd (perform_write env tool q p used prior w1)"
    "perform_write env tool q p used prior w1 = (Inr r, w') \<Longrightarrow> handle_story_apply env tool params w = (r, w')"
  using assms by (simp_all add: handle_snd) (simp_all add: apply_request_step_def handle_story_apply_def andthen_run)

text \<open>A request past its checks sends the plan's mutation, whatever has happened to its key since.\<close>

lemma perform_write_sends:
  assumes "de_sql_ok env (w_tick w + 2)" "plan_write tool (lp_plan p) = Inr x"
  shows "w_writes (snd (perform_write env tool q p used prior w)) = w_writes w @ [x]"
proof -
  obtain w1 where mk: "or_internal (mark_apply_started env (aq_key q) tool) (w\<lparr>w_tick := Suc (w_tick w)\<rparr>) = (Inr (), w1)"
    and w1: "w_writes w1 = w_writes w"
    using assms(1) by (simp add: mark_apply_started_def sql_def statement_def andthen_def or_internal_def map_err_step_def
        inspect_def of_result_def ask_def)
  obtain c w2 where ap: "(apply_plan env tool (lp_plan p) :: (story_response, _) step) w1 = (Inr c, w2)"
    and w2: "w_writes w2 = w_writes w @ [x]"
    using assms(2) w1 by (simp add: apply_plan_def send_def sending_def)
  have keep: "writes.keeps (case c of Inl err \<Rightarrow> write_failed env tool q p used err
      | Inr y \<Rightarrow> write_succeeded env tool q p used prior (de_clock env (w_tick w)) y)"
    by (intro writes.keeps_cases writes_outcome)
  have "perform_write env tool q p used prior w = (case c of Inl err \<Rightarrow> write_failed env tool q p used err
      | Inr y \<Rightarrow> write_succeeded env tool q p used prior (de_clock env (w_tick w)) y) w2"
    using mk ap by (simp add: perform_write_def andthen_run ask_def andthen_def split: sum.split)
  then show ?thesis using keep w2 by (simp add: writes.keeps_def quiet_def)
qed

lemma demo_plan_write: "plan_write demo_tool (lp_plan demo_loaded) = Inr (UpdateStory ''r1'' (op_planned_changes demo_plan))"
  by code_simp

lemma demo_wrote: "w_writes (snd (handle_story_apply demo_env demo_tool demo_params demo_world)) \<noteq> w_writes demo_world"
  using perform_write_sends [OF _ demo_plan_write, of demo_env "demo_at 15 demo_counted demo_reserved"]
  by (simp add: apply_run(1) [OF demo_checks])

theorem apply_write_gated_witness:
  "\<not> is_kill_switched (de_env_kill_switch demo_env (w_tick demo_world))"
  using apply_write_gated [OF demo_wrote] by blast

text \<open>
  C3: A request that sends a mutation presented a confirmation token that the check found stored,
  not revoked, not expired on a clock reading of this request, and bound to this actor, requester,
  tool, environment and to the operation hash of this plan. A token not yet consumed is in the store
  in which the checks end and the write begins, whatever other requests did before; a token
  consumed before is accepted only to continue a key that is reserved and has no receipt.
\<close>

theorem apply_write_token:
  assumes "w_writes (snd (handle_story_apply env tool params w)) \<noteq> w_writes w"
  shows "\<exists>token c now r plan. string_param params ''confirmation_token'' = Some token
    \<and> \<not> cr_revoked c \<and> clock_read env w (snd (handle_story_apply env tool params w)) now \<and> now < cr_expires_at c
    \<and> cr_actor c = actor_from_params params env
    \<and> cr_requester c = requester_from_params params (actor_from_params params env)
    \<and> cr_tool c = tool \<and> cr_environment c = me_label (de_environment env)
    \<and> stored_plan env w params r plan \<and> cr_op_hash c = op_op_hash plan
    \<and> (if cr_consumed c
       then conf_lookup (ss_confirmations (w_stores w)) token = Some c
         \<and> (\<exists>key rec. string_param params ''idempotency_key'' = Some (ik_value key)
              \<and> idem_lookup_record (ss_idempotency (w_stores w)) key tool = Some rec \<and> ir_receipt rec = None)
       else \<exists>passed w1. apply_checks env tool params w = (Inr passed, w1)
         \<and> conf_lookup (ss_confirmations (w_stores w1)) token = Some c)"
proof -
  obtain rsp w' where h: "handle_story_apply env tool params w = (rsp, w')"
    by (cases "handle_story_apply env tool params w")
  with assms have "w_writes w' \<noteq> w_writes w" by simp
  with h obtain q p used prior w1
    where c: "apply_checks env tool params w = (Inr (q, p, used, prior), w1)" and t: "w_tick w1 \<le> w_tick w'"
    by (rule apply_wrote)
  obtain c i where k: "\<not> cr_revoked c" "w_tick w \<le> i" "i < w_tick w1" "de_clock env i < cr_expires_at c"
    "bound_to c (lp_binding p)" "cr_consumed c = used"
    and store: "if used then conf_lookup (ss_confirmations (w_stores w)) (aq_token q) = Some c
        \<and> (\<exists>rec. idem_lookup_record (ss_idempotency (w_stores w)) (aq_key q) tool = Some rec \<and> ir_receipt rec = None)
      else conf_lookup (ss_confirmations (w_stores w1)) (aq_token q) = Some c"
    using checks_token [OF c] by blast
  have "clock_read env w (snd (handle_story_apply env tool params w)) (de_clock env i)"
    using clock_readI [OF k(2), of w'] k(3) t h by simp
  then show ?thesis
    using checks_plan(1,8-10) [OF c] k store c unfolding bound_to_def
    by (intro exI [of _ "aq_token q"] exI [of _ c] exI [of _ "de_clock env i"] exI [of _ "lp_record p"]
        exI [of _ "lp_plan p"] conjI) (auto split: if_splits)
qed

theorem apply_write_token_witness:
  "\<exists>c. conf_lookup (ss_confirmations (w_stores (demo_at 15 demo_counted demo_reserved))) ''t'' = Some c \<and> cr_tool c = demo_tool"
proof -
  have "string_param demo_params ''confirmation_token'' = Some ''t''" by code_simp
  moreover have "idem_lookup_record (ss_idempotency (w_stores demo_world)) key demo_tool = None" for key
    by (simp add: demo_world_def idem_lookup_record_def)
  ultimately show ?thesis using apply_write_token [OF demo_wrote] demo_checks by (auto split: if_splits)
qed

text \<open>What the apply guard confirms of a plan on a board with allowed sprints, per tool; \<open>fetched\<close> are the
  records ServiceNow returns.\<close>

definition scope_confirmed ::
  "string \<Rightarrow> operation_plan \<Rightarrow> board_binding \<Rightarrow> (string \<Rightarrow> snow_record \<Rightarrow> bool) \<Rightarrow> bool" where
  "scope_confirmed tool plan b fetched =
     (if tool = ''story_apply_create'' then story_create_payload_in_scope (op_planned_changes plan) b = Inr ()
      else if tool = ''story_task_apply_create''
      then \<exists>t parent. op_target plan = Some t \<and> fetched (rr_number t) parent
        \<and> task_parent_payload_check (op_planned_changes plan) parent b = Inr ()
        \<and> enforce_task_assignment_group_payload_scope (op_planned_changes plan) b = Inr ()
      else if tool = ''story_apply_update''
      then \<exists>t rec. op_target plan = Some t \<and> fetched (rr_number t) rec \<and> story_record_in_scope rec b = Inr ()
      else if tool = ''story_task_apply_update''
      then \<exists>t rec. op_target plan = Some t \<and> fetched (rr_number t) rec \<and> task_record_in_scope rec b = Inr ()
      else True)"

text \<open>A record ServiceNow returned in answer to a fetch of the request.\<close>

definition fetched :: "daemon_env \<Rightarrow> world \<Rightarrow> world \<Rightarrow> string \<Rightarrow> snow_record \<Rightarrow> bool" where
  "fetched env w w' number rec \<longleftrightarrow>
     (\<exists>i. w_tick w \<le> i \<and> i < w_tick w' \<and> de_get_record env i number = Inr (Some rec))"

lemma fetched_once:
  "w_tick w' = Suc (w_tick w) \<Longrightarrow> fetched env w w' number rec \<longleftrightarrow> de_get_record env (w_tick w) number = Inr (Some rec)"
  by (auto simp: fetched_def less_Suc_eq_le dest: order_antisym)

lemma fetched_within:
  "fetched env w1 w2 number rec \<Longrightarrow> w_tick w \<le> w_tick w1 \<Longrightarrow> w_tick w2 \<le> w_tick w' \<Longrightarrow> fetched env w w' number rec"
  unfolding fetched_def by (meson order_trans less_le_trans)

lemma scope_confirmed_mono:
  assumes "scope_confirmed tool plan b f" "\<And>n rec. f n rec \<Longrightarrow> g n rec"
  shows "scope_confirmed tool plan b g"
  using assms by (auto simp: scope_confirmed_def split: if_splits)

lemma guard_target_Inr:
  assumes "guard_target env plan a b c w = (Inr rec, w')"
  shows "\<exists>t. op_target plan = Some t \<and> fetched env w w' (rr_number t) rec"
  using assms
  by (auto simp: guard_target_def andthen_Inr get_record_fresh_def step_pure_Inr step_ask_Inr upstream_Inr case_step_Inr
      fetched_once split: option.splits)

lemma bind_ok_unit: "bind_ok r f = Inr u \<longleftrightarrow> (\<exists>x. r = Inr x \<and> f x = Inr u)"
  by (cases r) auto

lemma run_guard_Inr:
  assumes "run_guard env tool q p w = (Inr (), w')" "bb_allowed_sprints (aq_binding q) \<noteq> []"
  shows "scope_confirmed tool (lp_plan p) (aq_binding q) (fetched env w w')"
proof -
  obtain r w1 where r: "enforce_apply_guard env tool (lp_plan p) (aq_binding q) w = (r, w1)"
    and case_r: "(case r of Inr _ \<Rightarrow> ok () | Inl failure \<Rightarrow> (case story_scope_failure_field_rejections failure of
             Some rows \<Rightarrow> field_error env tool rows | None \<Rightarrow> guard_error env tool failure)) w1 = (Inr (), w')"
    using assms(1) by (auto simp: run_guard_def inspect_iff)
  have "r = Inr ()" "w1 = w'" using case_r by (cases r; auto simp: ok_def split: option.splits)+
  with r assms(2) show ?thesis
    by (auto simp: enforce_apply_guard_def scope_confirmed_def Let_def andthen_Inr step_pure_Inr step_ask_Inr upstream_Inr bind_ok_unit
        split: if_splits dest!: guard_target_Inr)
qed

lemma check_concurrency_Inr:
  assumes "check_concurrency env tool params p w = (Inr (), w')"
    "pr_concurrency_token (lp_record p) = Some expected" "op_target (lp_plan p) = Some target"
  shows "Option.bind (json_get params ''concurrency_token'') (de_token_of_json env) = Some expected"
    "\<exists>current. fetched env w w' (rr_number target) current
       \<and> (concurrency_from_record current = None \<or> concurrency_from_record current = Some expected)"
  using assms
  by (auto simp: check_concurrency_def andthen_Inr or_internal_Inr get_record_fresh_def step_pure_Inr step_ask_Inr upstream_Inr
      case_step_Inr fetched_once)

text \<open>
  C4: A request that sends a mutation confirmed the board scope on fresh data (the payload of a
  create, the target of an update or the parent of a task as ServiceNow returned it during the
  request) when the board restricts sprints, and for a plan made on a version of a record the caller
  repeated that version and the copy of the target fetched during the request carried it, or carried
  no version at all (the code compares versions only when the fetched record has one).
\<close>

theorem apply_write_fresh:
  assumes "w_writes (snd (handle_story_apply env tool params w)) \<noteq> w_writes w"
  shows "\<exists>r plan b. stored_plan env w params r plan
    \<and> validate_story_board_policy (de_policy env) tool (de_environment env) = Inr (Some b)
    \<and> (bb_allowed_sprints b = [] \<or> scope_confirmed tool plan b
         (fetched env w (snd (handle_story_apply env tool params w))))
    \<and> (\<forall>expected target. pr_concurrency_token r = Some expected \<and> op_target plan = Some target \<longrightarrow>
         Option.bind (json_get params ''concurrency_token'') (de_token_of_json env) = Some expected
         \<and> (\<exists>current. fetched env w (snd (handle_story_apply env tool params w)) (rr_number target) current
              \<and> (concurrency_from_record current = None \<or> concurrency_from_record current = Some expected)))"
proof -
  obtain rsp w' where h: "handle_story_apply env tool params w = (rsp, w')"
    by (cases "handle_story_apply env tool params w")
  with assms have "w_writes w' \<noteq> w_writes w" by simp
  with h obtain q p used prior w1
    where c: "apply_checks env tool params w = (Inr (q, p, used, prior), w1)" and t: "w_tick w1 \<le> w_tick w'"
    by (rule apply_wrote)
  obtain w7 w8 w9 where g: "run_guard env tool q p w7 = (Inr (), w8)"
    and cc: "check_concurrency env tool params p w8 = (Inr (), w9)"
    and ticks: "w_tick w \<le> w_tick w7" "w_tick w7 \<le> w_tick w8" "w_tick w8 \<le> w_tick w9" "w_tick w9 \<le> w_tick w1"
  proof (rule apply_checks_run [OF c], goal_cases)
    case (1 w1 w2 w3 w4 w5 w6 w7 w8 w9 w10 w11)
    show ?case using apply_checks_ticks [OF 1(2-)] by (intro 1(1) [OF 1(9,10)]) linarith+
  qed
  have late: "fetched env w (snd (handle_story_apply env tool params w)) n rec"
    if "fetched env w7 w8 n rec \<or> fetched env w8 w9 n rec" for n rec
    using that fetched_within [of env w7 w8 n rec w w'] fetched_within [of env w8 w9 n rec w w'] ticks t h by auto
  have "bb_allowed_sprints (aq_binding q) = [] \<or> scope_confirmed tool (lp_plan p) (aq_binding q)
      (fetched env w (snd (handle_story_apply env tool params w)))"
    using run_guard_Inr [OF g] scope_confirmed_mono late by blast
  then show ?thesis
    using checks_plan(1,5) [OF c] check_concurrency_Inr [OF cc] late
    by (intro exI [of _ "lp_record p"] exI [of _ "lp_plan p"] exI [of _ "aq_binding q"]) blast
qed

theorem apply_write_fresh_witness:
  "scope_confirmed demo_tool demo_plan demo_board
     (fetched demo_env demo_world (snd (handle_story_apply demo_env demo_tool demo_params demo_world)))"
proof -
  have "validate_story_board_policy (de_policy demo_env) demo_tool (de_environment demo_env) = Inr (Some demo_board)"
    using checks_plan(5) [OF demo_checks] by (simp add: demo_request_def)
  moreover have "stored_plan demo_env demo_world demo_params r plan \<Longrightarrow> plan = demo_plan" for r plan
    by (auto simp: stored_plan_def demo_env_def)
  moreover have "bb_allowed_sprints demo_board \<noteq> []" by (simp add: demo_board_def)
  ultimately show ?thesis using apply_write_fresh [OF demo_wrote] by auto
qed

text \<open>
  C16: An apply under a key that already has a receipt (and has not expired) sends nothing, whatever
  plan, token or parameters come with it; it is answered with that receipt, marked as a replay, or
  with an error.
\<close>

theorem finished_key_replays:
  assumes "idem_lookup_record (ss_idempotency (w_stores w)) key tool = Some rec" "ir_receipt rec = Some rc"
    "\<forall>i. de_clock env i < ir_expires_at rec"
    "string_param params ''idempotency_key'' = Some (ik_value key)"
  shows "w_writes (snd (handle_story_apply env tool params w)) = w_writes w
    \<and> (fst (handle_story_apply env tool params w) = RespReceipt (rc\<lparr>re_idempotency_replay := True\<rparr>)
       \<or> is_error (fst (handle_story_apply env tool params w)))"
proof -
  have "stops rc (apply_checks env tool params) w"
    by (rule finished_checks) (use assms in auto)
  then obtain e w' where c: "apply_checks env tool params w = (Inl e, w')" and e: "replays rc e"
    by (auto simp: stops_def)
  have "handle_story_apply env tool params w = (e, w')"
    using c by (simp add: handle_story_apply_def apply_request_step_def andthen_run)
  then show ?thesis
    using e writes.keepsD [OF writes_checks c] by (auto simp: replays_def quiet_def)
qed

definition demo_receipt :: operation_receipt where
  "demo_receipt = receipt_for_write demo_env 0 demo_plan demo_tool ''a'' 0 demo_record demo_token None []"

definition demo_finished :: world where
  "demo_finished = demo_at 0 [] [((''k'', demo_tool),
     (fresh_reservation ''hash'' 0 100)\<lparr>ir_receipt := Some demo_receipt\<rparr>)]"

theorem finished_key_replays_witness:
  "w_writes (snd (handle_story_apply demo_env demo_tool demo_params demo_finished)) = []"
proof -
  let ?rec = "(fresh_reservation ''hash'' 0 100)\<lparr>ir_receipt := Some demo_receipt\<rparr>"
  let ?key = "\<lparr>ik_value = ''k'', ik_source = ServerDerived\<rparr>"
  have "idem_lookup_record (ss_idempotency (w_stores demo_finished)) ?key demo_tool = Some ?rec"
    by (simp add: demo_finished_def demo_at_def idem_lookup_record_def bt_get_Cons)
  moreover have "\<forall>i. de_clock demo_env i < ir_expires_at ?rec" by (simp add: fresh_reservation_def demo_clock min_less_iff_disj)
  moreover have "string_param demo_params ''idempotency_key'' = Some (ik_value ?key)" by code_simp
  ultimately show ?thesis
    using finished_key_replays [of demo_finished ?key demo_tool ?rec demo_receipt demo_env demo_params]
    by (simp add: demo_finished_def demo_at_def)
qed

text \<open>
  C19: A write that is answered with a receipt is recorded: afterwards the key of the request holds
  exactly that receipt, under the operation hash of the plan, so that the next request with the key
  is a replay, provided the other requests do not touch the idempotency table meanwhile.
\<close>

theorem apply_receipt_stored:
  assumes "handle_story_apply env tool params w = (RespReceipt rc, w')" "w_writes w' \<noteq> w_writes w"
    "others_keep env ss_idempotency"
  shows "\<exists>key rec r plan. string_param params ''idempotency_key'' = Some (ik_value key)
    \<and> idem_lookup_record (ss_idempotency (w_stores w')) key tool = Some rec
    \<and> ir_receipt rec = Some rc \<and> stored_plan env w params r plan \<and> ir_op_hash rec = op_op_hash plan"
proof (rule apply_wrote [OF assms(1,2)])
  fix q p used prior w1
  assume c: "apply_checks env tool params w = (Inr (q, p, used, prior), w1)"
    and wr: "perform_write env tool q p used prior w1 = (Inr (RespReceipt rc), w')
      \<or> perform_write env tool q p used prior w1 = (Inl (RespReceipt rc), w')"
  have "\<not> perform_write env tool q p used prior w1 = (Inl (RespReceipt rc), w')"
    using raisesD [OF raises_perform] is_error_simps(4) by blast
  with wr receipt_stored [OF c _ assms(3)] checks_plan(1,9) [OF c] show ?thesis by blast
qed

lemma demo_perform_completes:
  "\<exists>rc w'. perform_write demo_env demo_tool demo_request demo_loaded False (Some demo_record)
     (demo_at 15 demo_counted demo_reserved) = (Inr (RespReceipt rc), w')"
  by (rule perform_completes [OF _ demo_plan_write _ demo_tokens demo_confirmation_valid])
     (simp_all add: inj_on_def audit_ids_def demo_at_def)

lemma demo_answer:
  obtains rc w' where "handle_story_apply demo_env demo_tool demo_params demo_world = (RespReceipt rc, w')"
    "w_writes w' \<noteq> w_writes demo_world"
proof -
  obtain rc w' where "perform_write demo_env demo_tool demo_request demo_loaded False (Some demo_record)
     (demo_at 15 demo_counted demo_reserved) = (Inr (RespReceipt rc), w')" using demo_perform_completes by blast
  from apply_run(2) [OF demo_checks this] demo_wrote that show ?thesis by simp
qed

theorem apply_receipt_stored_witness:
  "\<exists>rec w'. idem_lookup_record (ss_idempotency (w_stores w')) \<lparr>ik_value = ''k'', ik_source = ServerDerived\<rparr> demo_tool
      = Some rec \<and> ir_receipt rec \<noteq> None \<and> snd (handle_story_apply demo_env demo_tool demo_params demo_world) = w'"
proof -
  obtain rc w' where "handle_story_apply demo_env demo_tool demo_params demo_world = (RespReceipt rc, w')"
    "w_writes w' \<noteq> w_writes demo_world" by (rule demo_answer)
  moreover have "string_param demo_params ''idempotency_key'' = Some ''k''" by code_simp
  ultimately show ?thesis
    using apply_receipt_stored [of demo_env demo_tool demo_params demo_world rc w']
    by (auto simp: idem_lookup_record_def)
qed

text \<open>
  C26: A request that passes its checks with an unconsumed token, while every SQL statement succeeds,
  ServiceNow accepts the plan's mutation, the token stays valid and fresh identifiers are new, is
  answered with a receipt and has sent that mutation.
\<close>

theorem apply_completes:
  assumes "apply_checks env tool params w = (Inr (q, p, False, prior), w1)"
    and sql: "\<forall>i. de_sql_ok env i"
    and out: "plan_write tool (lp_plan p) = Inr x" "\<forall>i. de_send env i x = Inr (reply i)"
    and tok: "bt_wf (ss_confirmations (w_stores w1))"
      "conf_lookup (ss_confirmations (w_stores w1)) (aq_token q) = Some c"
      "\<forall>i. token_valid (de_clock env i) (lp_binding p) c" "others_keep env ss_confirmations"
    and fresh: "inj (de_uuid env)" "\<forall>i. de_uuid env i \<notin> audit_ids w1" "others_keep env ss_audit"
  shows "\<exists>rc w'. handle_story_apply env tool params w = (RespReceipt rc, w') \<and> w_writes w' = w_writes w @ [x]"
proof -
  obtain rc w' where pf: "perform_write env tool q p False prior w1 = (Inr (RespReceipt rc), w')"
    using perform_completes [where env = env and w = w1 and c = c and reply = reply and tool = tool and prior = prior,
        OF _ out(1)] assms by blast
  have "w_writes w1 = w_writes w" using writes.keepsD [OF writes_checks assms(1)] by (simp add: quiet_def)
  with pf perform_write_sends [OF _ out(1), of env w1 q False prior] sql apply_run(2) [OF assms(1) pf]
  show ?thesis by auto
qed

theorem apply_completes_witness:
  "\<exists>rc w'. handle_story_apply demo_env demo_tool demo_params demo_world = (RespReceipt rc, w')
     \<and> w_writes w' = [UpdateStory ''r1'' (op_planned_changes demo_plan)]"
proof -
  let ?w = "demo_at 15 demo_counted demo_reserved"
  have "inj (de_uuid demo_env)" "\<forall>i. de_uuid demo_env i \<notin> audit_ids ?w"
    by (simp_all add: inj_on_def audit_ids_def demo_at_def)
  then show ?thesis
    using apply_completes [OF demo_checks _ demo_plan_write, of "\<lambda>_. \<lparr>wr_record = demo_record,
      wr_sys_updated_on = [], wr_sys_mod_count = None\<rparr>" demo_confirmation] demo_tokens demo_confirmation_valid
    by simp
qed

text \<open>
  The started mark does not protect a write in flight. On the concrete daemon, a second apply that
  finds its key reserved and marked as started, with the record still unchanged upstream, sends the
  mutation again.
\<close>

lemma started_key_written_again:
  "\<exists>row. idem_lookup_record (ss_idempotency (w_stores demo_flight)) \<lparr>ik_value = ''k'', ik_source = ServerDerived\<rparr>
        demo_tool = Some row
    \<and> ir_apply_started_at row = Some 0 \<and> ir_receipt row = None
    \<and> w_writes (snd (handle_story_apply demo_env demo_tool demo_params demo_flight))
        = [UpdateStory ''r1'' (op_planned_changes demo_plan)]"
proof -
  have "w_writes (snd (handle_story_apply demo_env demo_tool demo_params demo_flight))
      = [UpdateStory ''r1'' (op_planned_changes demo_plan)]"
    using perform_write_sends [OF _ demo_plan_write, of demo_env "demo_at 20 demo_counted_again demo_in_flight"]
    by (simp add: apply_run(1) [OF demo_flight_checks] demo_at_def)
  then show ?thesis
    by (simp add: demo_flight_def demo_at_def demo_in_flight_def idem_lookup_record_def bt_get_Cons
        fresh_reservation_def)
qed

subsection \<open>Planning\<close>

lemma writes_build: "writes.keeps (build_plan_input env tool args b actor)"
proof -
  have users: "writes.keeps (users_by env f v :: ('e, _) step)" for f v
    unfolding users_by_def find_active_user_sys_ids_def by (intro writes_base)+
  have resolve: "writes.keeps (resolve_assignee_in_payload env tool payload actor)" for payload actor
    unfolding resolve_assignee_in_payload_def default_assignee_from_actor_def Let_def
    by (intro writes_base users)+
  have owner: "writes.keeps (default_story_owner_from_actor env payload actor :: (plan_build_error, _) step)" for payload actor
    unfolding default_story_owner_from_actor_def resolve_actor_sys_user_sys_id_def Let_def
    by (intro writes_base users)+
  have fetch: "writes.keeps (fetch_for_plan env number absent)" for number absent
    unfolding fetch_for_plan_def by (intro writes_base writes_fetch)+
  have builder: "writes.keeps (new_builder env tool :: (plan_build_error, _) step)"
    unfolding new_builder_def by (intro writes_base)+
  show ?thesis
    unfolding build_plan_input_def build_create_story_def build_create_task_def build_update_def Let_def
    by (intro writes_base writes_constrained resolve owner fetch builder)+
qed

lemma writes_reserve_plan: "writes.keeps (reserve_plan_key env key tool h)"
  unfolding reserve_plan_key_def by (intro writes_base)+

lemma writes_plan: "writes.keeps (plan_request_step env tool params)"
proof -
  have issue: "writes.keeps (issue_plan env tool params actor input)" for actor input
    unfolding issue_plan_def Let_def by (intro writes_base writes_reserve_plan)+
  show ?thesis
    unfolding plan_request_step_def Let_def by (intro writes_base writes_build issue)+
qed

lemma append_audit_Inr:
  "append_audit_event env i a tool st pl m er ids ch w = (Inr e, w') \<Longrightarrow>
     \<exists>t. w_stores w' = (w_stores w)\<lparr>ss_audit := t\<rparr>"
  by (auto simp: append_audit_event_def open_stores_def andthen_Inr sql_Inr step_pure_Inr step_ask_Inr upstream_Inr split: prod.splits)

text \<open>The token as stored: its times are those of a clock reading and of \<open>chrono\<close>'s duration.\<close>

lemma issue_token_Inr:
  assumes "issue_token env plan_id b ttl w = (Inr c, w')"
  shows "cr_plan_id c = plan_id \<and> \<not> cr_consumed c \<and> \<not> cr_revoked c \<and> bound_to c b
    \<and> conf_lookup (ss_confirmations (w_stores w')) (cr_token_id c) = Some c
    \<and> (\<exists>d. de_duration env (sint ttl) = Some d \<and> cr_expires_at c = cr_issued_at c + d)
    \<and> clock_read env w w' (cr_issued_at c)
    \<and> (\<exists>t. w_stores w' = (w_stores w)\<lparr>ss_confirmations := t\<rparr>)"
proof -
  obtain token t where i: "conf_issue (de_duration env) (de_clock env (w_tick w)) token plan_id b ttl
        (ss_confirmations (w_stores w)) = (Inr c, t)"
    and w': "w_stores w' = (w_stores w)\<lparr>ss_confirmations := t\<rparr>" and tick: "w_tick w < w_tick w'"
    using assms
    by (auto simp: issue_token_def andthen_Inr sql_Inr step_pure_Inr step_ask_Inr upstream_Inr case_step_Inr split: prod.splits)
  have "cr_issued_at c = de_clock env (w_tick w)"
    using i by (auto simp: conf_issue_def Let_def split: option.splits)
  then show ?thesis
    using conf_issue_ok [of "de_duration env" "de_clock env (w_tick w)" token plan_id b ttl "ss_confirmations (w_stores w)" c]
      conf_issue_lookup [of "de_duration env" "de_clock env (w_tick w)" token plan_id b ttl "ss_confirmations (w_stores w)" token]
      i w' clock_readI [OF order_refl tick, of env]
    by auto
qed

lemma reserve_plan_key_Inr:
  assumes "reserve_plan_key env key tool h w = (Inr u, w')"
  shows "\<exists>t now window. w_stores w' = (w_stores w)\<lparr>ss_idempotency := t\<rparr>
    \<and> clock_read env w w' now
    \<and> de_duration env (sint (of_nat (pc_idempotency_window_seconds (de_policy env)) :: 64 word)) = Some window
    \<and> idem_lookup_record t \<lparr>ik_value = key, ik_source = ServerDerived\<rparr> tool = Some (fresh_reservation h now (now + window))"
proof -
  obtain outcome w1 where c: "check_and_record_key env \<lparr>ik_value = key, ik_source = ServerDerived\<rparr> tool h
        (of_nat (pc_idempotency_window_seconds (de_policy env))) w = (Inr outcome, w1)"
    and rest: "(case outcome of NewKey \<Rightarrow> ok ()
       | Conflict _ \<Rightarrow> fail (story_error (-32052) ''IDEMPOTENCY_CONFLICT''
           (jobj [(''code'', JStr ''IDEMPOTENCY_CONFLICT''), (''idempotency_key'', JStr key),
                  (''bound_op_hash'', JStr []), (''attempted_op_hash'', JStr h)]))
       | _ \<Rightarrow> fail (internal_error ''server-issued idempotency key was not unique'')) w1 = (Inr u, w')"
    using assms by (auto simp: reserve_plan_key_def andthen_Inr or_internal_Inr)
  have new: "outcome = NewKey" "w' = w1"
    using rest by (auto simp: ok_def fail_def split: idempotency_outcome.splits)
  obtain t where t: "idem_check_and_record (de_duration env) (de_clock env (w_tick w))
        \<lparr>ik_value = key, ik_source = ServerDerived\<rparr> tool h
        (of_nat (pc_idempotency_window_seconds (de_policy env))) (ss_idempotency (w_stores w)) = (Some NewKey, t)"
    "w_stores w' = (w_stores w)\<lparr>ss_idempotency := t\<rparr>" and tick: "w_tick w < w_tick w'"
    using c new
    by (auto simp: check_and_record_key_def andthen_Inr step_pure_Inr step_ask_Inr upstream_Inr sql_Inr case_step_Inr split: prod.splits)
  from t(1) obtain window
    where "de_duration env (sint (of_nat (pc_idempotency_window_seconds (de_policy env)) :: 64 word)) = Some window"
      "idem_lookup_record t \<lparr>ik_value = key, ik_source = ServerDerived\<rparr> tool
        = Some (fresh_reservation h (de_clock env (w_tick w)) (de_clock env (w_tick w) + window))"
    by (auto simp: idem_check_and_record_def idem_lookup_record_def Let_def split: option.splits if_splits)
  with t(2) clock_readI [OF order_refl tick, of env] show ?thesis by blast
qed

text \<open>What a successful plan request leaves in the stores.\<close>

definition plan_issued ::
  "daemon_env \<Rightarrow> world \<Rightarrow> world \<Rightarrow> string \<Rightarrow> string \<Rightarrow> string \<Rightarrow> string \<Rightarrow> string \<Rightarrow> confirmation_binding \<Rightarrow> bool" where
  "plan_issued env w w' plan_id op_hash token key tool b =
     ((\<exists>r. plan_get (ss_plans (w_stores w')) plan_id = Inr (Some r) \<and> pr_state r = Pending \<and> pr_op_hash r = op_hash
         \<and> clock_read env w w' (pr_created_at r) \<and> pr_expires_at r = pr_created_at r + secs 600)
      \<and> (\<exists>c ttl. conf_lookup (ss_confirmations (w_stores w')) token = Some c \<and> cr_plan_id c = plan_id
           \<and> \<not> cr_consumed c \<and> \<not> cr_revoked c \<and> bound_to c b
           \<and> clock_read env w w' (cr_issued_at c)
           \<and> de_duration env 600 = Some ttl \<and> cr_expires_at c = cr_issued_at c + ttl)
      \<and> (\<exists>now window. idem_lookup_record (ss_idempotency (w_stores w')) \<lparr>ik_value = key, ik_source = ServerDerived\<rparr> tool
             = Some (fresh_reservation op_hash now (now + window))
           \<and> clock_read env w w' now
           \<and> de_duration env (sint (of_nat (pc_idempotency_window_seconds (de_policy env)) :: 64 word)) = Some window))"

lemma plan_issued_within:
  "plan_issued env w1 w' plan_id op_hash token key tool b \<Longrightarrow> w_tick w \<le> w_tick w1
     \<Longrightarrow> plan_issued env w w' plan_id op_hash token key tool b"
  unfolding plan_issued_def by (blast intro: clock_read_within [OF _ _ order_refl])

lemma plan_put_found: "plan_get (plan_put r t) (pr_plan_id r) = Inr (Some r)"
  by (simp add: plan_get_def plan_put_def)

lemma issued_fields:
  fixes opt :: "concurrency_token option"
  assumes j: "j = jobj ([(''plan_id'', JStr plan_id), (''op_hash'', JStr op_hash), (''preview'', preview),
      (''expires_at'', expires), (''confirmation_token'', JStr token), (''idempotency_key'', JStr key)]
    @ (case opt of None \<Rightarrow> [] | Some t \<Rightarrow> [(''concurrency_token'', g t)]))"
  shows "get_str j ''plan_id'' = Some plan_id \<and> get_str j ''op_hash'' = Some op_hash
    \<and> get_str j ''confirmation_token'' = Some token \<and> get_str j ''idempotency_key'' = Some key"
  unfolding j by (cases opt) (simp_all add: get_str_def jobj_def bt_get_of_list)

lemma issue_plan_Inr:
  assumes "issue_plan env tool params actor input w = (Inr rsp, w')"
  shows "\<exists>j plan_id op_hash token key. rsp = RespJson j \<and> get_str j ''plan_id'' = Some plan_id
    \<and> get_str j ''op_hash'' = Some op_hash \<and> get_str j ''confirmation_token'' = Some token
    \<and> get_str j ''idempotency_key'' = Some key
    \<and> plan_issued env w w' plan_id op_hash token key (apply_tool_for_plan_tool tool)
        \<lparr>cb_actor = sa_subject actor, cb_requester = requester_from_params params (sa_subject actor),
         cb_tool = apply_tool_for_plan_tool tool, cb_op_hash = op_hash,
         cb_environment = me_label (de_environment env)\<rparr>"
  using assms unfolding issue_plan_def Let_def andthen_Inr step_pure_Inr step_ask_Inr upstream_Inr or_internal_Inr
proof (elim exE conjE, goal_cases)
  case (1 plan_id w1 now w2 key w3 u w4 u5 w5 u6 w6 e7 w7 c w8 audit_id w9 e10 w10)
  let ?plan = "builder_build (de_sha256 env) (de_to_vec env) plan_id (pn_builder input)"
  let ?b = "\<lparr>cb_actor = sa_subject actor, cb_requester = requester_from_params params (sa_subject actor),
     cb_tool = apply_tool_for_plan_tool tool, cb_op_hash = op_op_hash ?plan,
     cb_environment = me_label (de_environment env)\<rparr>"
  obtain k since window where w5: "w_stores w5 = (w_stores w4)\<lparr>ss_idempotency := k\<rparr>"
    and row: "idem_lookup_record k \<lparr>ik_value = key, ik_source = ServerDerived\<rparr> (apply_tool_for_plan_tool tool)
        = Some (fresh_reservation (op_op_hash ?plan) since (since + window))" "clock_read env w4 w5 since"
      "de_duration env (sint (of_nat (pc_idempotency_window_seconds (de_policy env)) :: 64 word)) = Some window"
    using reserve_plan_key_Inr [OF 1(8)] by blast
  obtain r where w6: "w_stores w6 = (w_stores w5)\<lparr>ss_plans := plan_put r (ss_plans (w_stores w5))\<rparr>"
    and r: "pr_plan_id r = op_plan_id ?plan" "pr_state r = Pending" "pr_op_hash r = op_op_hash ?plan"
      "pr_created_at r = de_clock env (w_tick w1)" "pr_expires_at r = pr_created_at r + secs 600"
    using 1(9) 1(3) by (auto simp: put_plan_def sql_Inr plan_ttl_seconds_def)
  obtain a7 a10 where w7: "w_stores w7 = (w_stores w6)\<lparr>ss_audit := a7\<rparr>"
    and w10: "w_stores w' = (w_stores w8)\<lparr>ss_audit := a10\<rparr>"
    using append_audit_Inr [OF 1(10)] append_audit_Inr [OF 1(14)] 1(13,16) by auto
  obtain t ttl where w8: "w_stores w8 = (w_stores w7)\<lparr>ss_confirmations := t\<rparr>"
    and c: "cr_plan_id c = op_plan_id ?plan" "\<not> cr_consumed c" "\<not> cr_revoked c" "bound_to c ?b"
      "conf_lookup (ss_confirmations (w_stores w8)) (cr_token_id c) = Some c"
      "clock_read env w7 w8 (cr_issued_at c)" "de_duration env 600 = Some ttl" "cr_expires_at c = cr_issued_at c + ttl"
    using issue_token_Inr [OF 1(11)] by (auto simp: plan_ttl_seconds_def)
  have ticks: "w_tick w \<le> w_tick w1" "w_tick w1 < w_tick w'" "w_tick w \<le> w_tick w4" "w_tick w5 \<le> w_tick w'"
    "w_tick w \<le> w_tick w7" "w_tick w8 \<le> w_tick w'"
    using 1 writes_tick [OF writes_stores(1) 1(7)] writes_tick [OF writes_reserve_plan 1(8)] writes_tick [OF writes_stores(3) 1(9)]
      writes_tick [OF writes_audit(1) 1(10)] writes_tick [OF writes_stores(11) 1(11)] writes_tick [OF writes_audit(1) 1(14)]
    by simp_all
  have "clock_read env w w' (pr_created_at r)" "clock_read env w w' since" "clock_read env w w' (cr_issued_at c)"
    using clock_readI [OF ticks(1,2)] r(4) clock_read_within [OF row(2) ticks(3,4)] clock_read_within [OF c(6) ticks(5,6)]
    by simp_all
  then have "plan_issued env w w' (op_plan_id ?plan) (op_op_hash ?plan) (cr_token_id c) key
      (apply_tool_for_plan_tool tool) ?b"
    using row c r plan_put_found [of r "ss_plans (w_stores w5)"] w5 w6 w7 w8 w10 unfolding plan_issued_def
    by (intro conjI exI [of _ r] exI [of _ c] exI [of _ ttl] exI [of _ since] exI [of _ window]) simp_all
  with issued_fields [OF refl] 1(15) [symmetric] show ?case by blast
qed

lemma raises_plan: "raises is_error (plan_request_step env tool params)"
proof -
  have "is_error (plan_error_response e)" for e
    by (auto simp: plan_error_response_def rejected_fields_def split: plan_build_error.split option.split)
  then have build: "raises is_error (map_err_step plan_error_response m)" for m :: "(plan_build_error, plan_input) step"
    unfolding map_err_step_def
  proof (intro raises_inspect)
    fix r :: "(plan_build_error, plan_input) result"
    show "raises is_error (of_result (map_err plan_error_response r))"
      using \<open>\<And>e. is_error (plan_error_response e)\<close> by (cases r) (auto simp: raises_def of_result_def)
  qed
  have rejected: "is_error (rejected_fields rows)" for rows by (simp add: rejected_fields_def)
  have reject: "raises is_error m \<Longrightarrow>
      raises is_error (case reject_plan_input_fields tool args policy of Some r \<Rightarrow> fail r | None \<Rightarrow> m)"
    for args policy and m :: "(story_response, story_response) step"
    by (auto simp: reject_plan_input_fields_def story_field_rejected_response_def intro: raises_basic raises_pure)
  have reserve: "raises is_error (reserve_plan_key env key t h)" for key t h
    unfolding reserve_plan_key_def by (intro raises_rules) (simp_all add: raises_def ok_def fail_def split: idempotency_outcome.splits)
  have issue: "raises is_error (issue_plan env tool params actor input)" for actor input
    unfolding issue_plan_def Let_def by (intro raises_rules reserve)+
  show ?thesis
    unfolding plan_request_step_def Let_def count_rate_def
    by (intro reject raises_rules raises_errors build issue rejected)+
qed

text \<open>
  C28: A plan request never sends anything to ServiceNow. When it answers with a plan, the plan it
  names is stored as pending under the answered operation hash and expires ten minutes after a clock
  reading of the request; the answered confirmation token is stored unconsumed and unrevoked, bound
  to the caller, the apply tool, that hash and this environment, and expires \<open>Duration::seconds(600)\<close>
  after it was issued, during the request; and the answered idempotency key is freshly reserved for
  that hash, for the window the policy sets: what the apply needs.
\<close>

theorem plan_issues_bound_token:
  "w_writes (snd (handle_story_plan env tool params w)) = w_writes w
   \<and> (case fst (handle_story_plan env tool params w) of
       RespJson j \<Rightarrow> (\<exists>plan_id op_hash token key. get_str j ''plan_id'' = Some plan_id
          \<and> get_str j ''op_hash'' = Some op_hash \<and> get_str j ''confirmation_token'' = Some token
          \<and> get_str j ''idempotency_key'' = Some key
          \<and> plan_issued env w (snd (handle_story_plan env tool params w)) plan_id op_hash token key
              (apply_tool_for_plan_tool tool)
              \<lparr>cb_actor = sa_subject (story_actor_from_params params env),
               cb_requester = requester_from_params params (sa_subject (story_actor_from_params params env)),
               cb_tool = apply_tool_for_plan_tool tool, cb_op_hash = op_hash,
               cb_environment = me_label (de_environment env)\<rparr>)
     | _ \<Rightarrow> True)"
proof -
  obtain r w' where run: "plan_request_step env tool params w = (r, w')" by (cases "plan_request_step env tool params w")
  have h: "handle_story_plan env tool params w = (case r of Inl e \<Rightarrow> (e, w') | Inr x \<Rightarrow> (x, w'))"
    using run by (simp add: handle_story_plan_def split: sum.split)
  have sent: "w_writes w' = w_writes w" using writes.keepsD [OF writes_plan run] by (simp add: quiet_def)
  show ?thesis
  proof (cases r)
    case (Inl e)
    then have "is_error e" using raisesD [OF raises_plan] run by blast
    then show ?thesis using h Inl sent by (cases e) (simp_all add: is_error_def)
  next
    case (Inr rsp)
    obtain input w1 where issue: "issue_plan env tool params (story_actor_from_params params env) input w1 = (Inr rsp, w')"
      and start: "w_tick w \<le> w_tick w1"
      using run Inr writes_tick [OF writes_stores(12)] writes_tick [OF writes_build]
      by (fastforce simp: plan_request_step_def Let_def andthen_Inr case_step_Inr step_pure_Inr step_ask_Inr upstream_Inr
          map_err_step_Inr)
    from issue_plan_Inr [OF issue] obtain j plan_id op_hash token key where rsp: "rsp = RespJson j"
      and texts: "get_str j ''plan_id'' = Some plan_id" "get_str j ''op_hash'' = Some op_hash"
        "get_str j ''confirmation_token'' = Some token" "get_str j ''idempotency_key'' = Some key"
      and issued: "plan_issued env w1 w' plan_id op_hash token key (apply_tool_for_plan_tool tool)
        \<lparr>cb_actor = sa_subject (story_actor_from_params params env),
         cb_requester = requester_from_params params (sa_subject (story_actor_from_params params env)),
         cb_tool = apply_tool_for_plan_tool tool, cb_op_hash = op_hash,
         cb_environment = me_label (de_environment env)\<rparr>" by blast
    show ?thesis using h Inr sent texts plan_issued_within [OF issued start] by (simp add: rsp)
  qed
qed

end
