(* ===== verification/Text_Lines.thy ===== *)
theory Text_Lines
  imports Prelude
begin

text \<open>
  Text made of lines and tab separated columns: when a text determines the lines it was made of.
  Used by the newline framed transport and by the canonical text of a cache policy.
\<close>

definition newline :: char where
  "newline = CHR 0x0A"

definition tab :: char where
  "tab = CHR 0x09"

text \<open>Lines, each closed by a terminator.\<close>

definition end_lines :: "char \<Rightarrow> string list \<Rightarrow> string" where
  "end_lines d ls = concat (map (\<lambda>l. l @ [d]) ls)"

lemma end_lines_simps [simp]: "end_lines d [] = []" "end_lines d (l # ls) = l @ d # end_lines d ls"
  by (simp_all add: end_lines_def)

lemma end_lines_append [simp]: "end_lines d (a @ b) = end_lines d a @ end_lines d b"
  by (simp add: end_lines_def)

lemma takeWhile_until: "d \<notin> set a \<Longrightarrow> takeWhile (\<lambda>c. c \<noteq> d) (a @ d # x) = a"
  by (induction a) auto

lemma split_until_first:
  assumes "a @ d # x = b @ d # y" "d \<notin> set a" "d \<notin> set b"
  shows "a = b \<and> x = y"
proof -
  have "takeWhile (\<lambda>c. c \<noteq> d) (a @ d # x) = a" "takeWhile (\<lambda>c. c \<noteq> d) (b @ d # y) = b"
    by (rule takeWhile_until; fact)+
  with assms(1) show ?thesis by simp
qed

text \<open>The terminated text determines its lines.\<close>

lemma end_lines_inj:
  "end_lines d xs = end_lines d ys \<Longrightarrow> \<forall>l \<in> set xs. d \<notin> set l \<Longrightarrow> \<forall>l \<in> set ys. d \<notin> set l \<Longrightarrow> xs = ys"
proof (induction xs arbitrary: ys)
  case Nil
  then show ?case by (cases ys) auto
next
  case (Cons x xs)
  then obtain y ys' where ys: "ys = y # ys'" by (cases ys) auto
  with Cons.prems have "x = y \<and> end_lines d xs = end_lines d ys'"
    using split_until_first [of x d "end_lines d xs" y "end_lines d ys'"] by simp
  with ys Cons show ?case by simp
qed

text \<open>The separated text determines its columns, when there is at least one.\<close>

lemma join_end_lines: "xs \<noteq> [] \<Longrightarrow> join [d] xs @ [d] = end_lines d xs"
  by (induction "[d]" xs rule: join.induct) simp_all

lemma join_inj:
  assumes "join [d] xs = join [d] ys" "xs \<noteq> []" "ys \<noteq> []"
    and "\<forall>l \<in> set xs. d \<notin> set l" "\<forall>l \<in> set ys. d \<notin> set l"
  shows "xs = ys"
proof (rule end_lines_inj [OF _ assms(4,5)])
  show "end_lines d xs = end_lines d ys"
    using assms(1) join_end_lines [OF assms(2), of d] join_end_lines [OF assms(3), of d] by simp
qed

lemma set_join: "set (join [d] xs) \<subseteq> insert d (\<Union> (set ` set xs))"
  by (induction "[d]" xs rule: join.induct) auto

end
