(* ===== verification/Cache_Policy.thy ===== *)
theory Cache_Policy
  imports Json Text_Lines
begin

text \<open>
  The cache policy of \<open>snow_core/src/cache/policy.rs\<close>: the built-in rules, the rules a
  \<open>cache-policy.toml\<close> adds, the effective rule of an operation on an object, the fingerprint of a
  policy, and the manager that validates and reloads it.

  \<open>dur\<close> stands for \<open>chrono::Duration::seconds\<close> (\<open>None\<close> where it panics; minutes, hours and days
  panic on the same bound), \<open>sha256\<close> for the hex digest, \<open>parse\<close> for the TOML parser with the
  document types of the code. What reading the file gives is a value of \<open>file_read\<close>.
\<close>

subsection \<open>Rules\<close>

datatype cache_mode = Live | ReadThrough | CacheOnly

record cache_rule =
  cu_mode :: cache_mode
  cu_ttl :: "time option"

definition rule_live :: cache_rule where
  "rule_live = \<lparr>cu_mode = Live, cu_ttl = None\<rparr>"

datatype cache_policy_source = BuiltInDefaults | BuiltInPlusFile

record operation_rule =
  or_object :: string
  or_rule :: cache_rule

record cache_policy_summary =
  cs_version :: nat
  cs_source :: cache_policy_source
  cs_rule_count :: nat
  cs_fingerprint :: string

record effective_cache_policy =
  ec_source :: cache_policy_source
  ec_objects :: "(string, cache_rule) btree"
  ec_operations :: "(string, operation_rule) btree"
  ec_knowledge_rebuild_base_sys_id :: "string option"
  ec_fingerprint :: string

datatype cache_policy_error =
    CacheInvalid "string option" "string option" string
  | CacheIo string string

text \<open>What a load or a parse ends with instead of a value: an error of the policy, a plain message
  (the legacy durations), or the panic of a duration out of range.\<close>

datatype cache_failure = CacheError cache_policy_error | CacheMessage string | DurationPanic

definition invalid_field :: "string \<Rightarrow> string \<Rightarrow> cache_policy_error" where
  "invalid_field field reason = CacheInvalid (Some field) None reason"

definition invalid_rule :: "string \<Rightarrow> string \<Rightarrow> cache_policy_error" where
  "invalid_rule rule reason = CacheInvalid None (Some rule) reason"

subsection \<open>Durations\<close>

text \<open>Seconds per unit, \<open>None\<close> for an unknown one.\<close>

definition ttl_unit :: "string \<Rightarrow> int option" where
  "ttl_unit u =
     (if u \<in> set [''s'', ''sec'', ''secs'', ''second'', ''seconds''] then Some 1
      else if u \<in> set [''m'', ''min'', ''mins'', ''minute'', ''minutes''] then Some 60
      else if u \<in> set [''h'', ''hr'', ''hrs'', ''hour'', ''hours''] then Some 3600
      else if u \<in> set [''d'', ''day'', ''days''] then Some 86400
      else None)"

definition parse_cache_ttl :: "(int \<Rightarrow> time option) \<Rightarrow> string \<Rightarrow> (cache_failure, time option) result" where
  "parse_cache_ttl dur input0 =
     (let input = trim input0;
          digits = takeWhile is_digit input;
          unit = str_replace '' '' [] (to_lower (trim (dropWhile is_digit input)))
      in if input = [] \<or> digits = [] then Inr None
         else case parse_i64 digits of
             None \<Rightarrow> Inr None
           | Some amount \<Rightarrow>
               if amount \<le> 0 then Inr None
               else case ttl_unit unit of
                   None \<Rightarrow> Inr None
                 | Some k \<Rightarrow> (case dur (amount * k) of None \<Rightarrow> Inl DurationPanic | Some d \<Rightarrow> Inr (Some d)))"

definition min_ttl_seconds :: int where
  "min_ttl_seconds = 60"

definition max_ttl_seconds :: int where
  "max_ttl_seconds = 365 * 24 * 60 * 60"

record raw_rule =
  rw_mode :: cache_mode
  rw_ttl :: "string option"

record raw_operation_rule =
  ro_object :: string
  ro_rule :: raw_rule

record policy_document =
  pd_version :: nat
  pd_objects :: "(string, raw_rule) btree"
  pd_operations :: "(string, raw_operation_rule) btree"
  pd_rebuild_knowledge :: "string option"

definition ttl_reason :: string where
  "ttl_reason = ''ttl must be an integer s/m/h/d duration from 1m through 365d''"

definition materialize_rule ::
  "(int \<Rightarrow> time option) \<Rightarrow> string \<Rightarrow> raw_rule \<Rightarrow> (cache_failure, cache_rule) result" where
  "materialize_rule dur name raw = (case rw_mode raw of
       Live \<Rightarrow> if rw_ttl raw \<noteq> None then Inl (CacheError (invalid_rule name ''live mode forbids ttl''))
               else Inr rule_live
     | _ \<Rightarrow> (case rw_ttl raw of
           None \<Rightarrow> Inl (CacheError (invalid_rule name ''cached mode requires ttl''))
         | Some ttl \<Rightarrow> bind_ok (parse_cache_ttl dur ttl) (\<lambda>parsed. case parsed of
               None \<Rightarrow> Inl (CacheError (invalid_rule name ttl_reason))
             | Some d \<Rightarrow>
                 if min_ttl_seconds \<le> num_seconds d \<and> num_seconds d \<le> max_ttl_seconds
                 then Inr \<lparr>cu_mode = rw_mode raw, cu_ttl = Some d\<rparr>
                 else Inl (CacheError (invalid_rule name ttl_reason)))))"

subsection \<open>The registries\<close>

text \<open>The built-in rules. Their durations are literals of the code, which parse without a panic
  (\<open>builtin_objects_eq\<close> below).\<close>

definition builtin_rule :: "(int \<Rightarrow> time option) \<Rightarrow> string \<Rightarrow> cache_rule" where
  "builtin_rule dur ttl = \<lparr>cu_mode = ReadThrough,
     cu_ttl = (case parse_cache_ttl dur ttl of Inr t \<Rightarrow> t | Inl _ \<Rightarrow> None)\<rparr>"

definition builtin_objects :: "(int \<Rightarrow> time option) \<Rightarrow> (string, cache_rule) btree" where
  "builtin_objects dur = bt_of_list
     [(''business_application'', builtin_rule dur ''30d''), (''knowledge'', builtin_rule dur ''7d''),
      (''service_catalog_product'', builtin_rule dur ''30d'')]"

definition registered_objects :: "string list" where
  "registered_objects = [''approval'', ''business_application'', ''change_request'', ''change_task'',
     ''knowledge'', ''resource_plan'', ''server'', ''service_catalog_product'', ''story'',
     ''story_task'', ''timecard'', ''user'']"

definition registered_operations :: "(string, string) btree" where
  "registered_operations = bt_of_list
     [(''business_application_get'', ''business_application''),
      (''business_application_search'', ''business_application''),
      (''business_application_query'', ''business_application''),
      (''get_article'', ''knowledge''), (''search_knowledge'', ''knowledge''),
      (''list_knowledge_articles'', ''knowledge''),
      (''server_get'', ''server''), (''server_search'', ''server''), (''server_query'', ''server''),
      (''catalog_items_search'', ''service_catalog_product''),
      (''catalog_item_get'', ''service_catalog_product'')]"

subsection \<open>The fingerprint\<close>

fun mode_name :: "cache_mode \<Rightarrow> string" where
  "mode_name Live = ''live''"
| "mode_name ReadThrough = ''read_through''"
| "mode_name CacheOnly = ''cache_only''"

definition ttl_seconds :: "cache_rule \<Rightarrow> int" where
  "ttl_seconds r = (case cu_ttl r of None \<Rightarrow> 0 | Some d \<Rightarrow> num_seconds d)"

text \<open>One line of fields, tab separated and newline terminated.\<close>

definition policy_line :: "string list \<Rightarrow> string" where
  "policy_line columns = join [tab] columns @ [newline]"

definition object_fields :: "string \<times> cache_rule \<Rightarrow> string list" where
  "object_fields e = [''object'', fst e, mode_name (cu_mode (snd e)), int_text (ttl_seconds (snd e))]"

definition operation_fields :: "string \<times> operation_rule \<Rightarrow> string list" where
  "operation_fields e = [''operation'', fst e, or_object (snd e),
     mode_name (cu_mode (or_rule (snd e))), int_text (ttl_seconds (or_rule (snd e)))]"

definition rebuild_fields :: "string \<Rightarrow> string list" where
  "rebuild_fields sys_id = [''rebuild'', ''knowledge'', ''knowledge_base_sys_id'', sys_id]"

definition canonical_rules ::
  "(string, cache_rule) btree \<Rightarrow> (string, operation_rule) btree \<Rightarrow> string option \<Rightarrow> string" where
  "canonical_rules objects operations base =
     concat (map (policy_line \<circ> object_fields) objects)
     @ concat (map (policy_line \<circ> operation_fields) operations)
     @ (case base of None \<Rightarrow> [] | Some sys_id \<Rightarrow> policy_line (rebuild_fields sys_id))"

definition materialize ::
  "(string \<Rightarrow> string) \<Rightarrow> cache_policy_source \<Rightarrow> (string, cache_rule) btree
     \<Rightarrow> (string, operation_rule) btree \<Rightarrow> string option \<Rightarrow> effective_cache_policy" where
  "materialize sha256 source objects operations base =
     \<lparr>ec_source = source, ec_objects = objects, ec_operations = operations,
      ec_knowledge_rebuild_base_sys_id = base,
      ec_fingerprint = sha256 (canonical_rules objects operations base)\<rparr>"

definition built_in :: "(int \<Rightarrow> time option) \<Rightarrow> (string \<Rightarrow> string) \<Rightarrow> effective_cache_policy" where
  "built_in dur sha256 = materialize sha256 BuiltInDefaults (builtin_objects dur) [] None"

definition policy_summary :: "effective_cache_policy \<Rightarrow> cache_policy_summary" where
  "policy_summary p = \<lparr>cs_version = 1, cs_source = ec_source p,
     cs_rule_count = length (ec_objects p) + length (ec_operations p)
       + (if ec_knowledge_rebuild_base_sys_id p = None then 0 else 1),
     cs_fingerprint = ec_fingerprint p\<rparr>"

text \<open>The rule of an operation on an object: the operation's own, the object's, or live.\<close>

definition rule_for :: "effective_cache_policy \<Rightarrow> string \<Rightarrow> string \<Rightarrow> cache_rule" where
  "rule_for p operation object =
     (case bt_get (ec_operations p) operation of
        Some entry \<Rightarrow> if or_object entry = object then or_rule entry
                      else (case bt_get (ec_objects p) object of Some r \<Rightarrow> r | None \<Rightarrow> rule_live)
      | None \<Rightarrow> (case bt_get (ec_objects p) object of Some r \<Rightarrow> r | None \<Rightarrow> rule_live))"

subsection \<open>Loading\<close>

definition normalize_sys_id :: "string \<Rightarrow> string \<Rightarrow> (cache_policy_error, string) result" where
  "normalize_sys_id field v =
     (if length v \<noteq> 32 \<or> \<not> list_all is_hexdigit v
      then Inl (invalid_field field ''must be exactly 32 hexadecimal characters'')
      else Inr (to_lower v))"

text \<open>The object rules of the file, in key order, over the built-in ones; the first faulty entry
  stops the load.\<close>

fun load_objects ::
  "(int \<Rightarrow> time option) \<Rightarrow> (string \<times> raw_rule) list \<Rightarrow> (string, cache_rule) btree
     \<Rightarrow> (cache_failure, (string, cache_rule) btree) result" where
  "load_objects dur [] acc = Inr acc"
| "load_objects dur ((object, raw) # rest) acc =
     (if CHR ''*'' \<in> set object \<or> object \<notin> set registered_objects
      then Inl (CacheError (invalid_rule object ''unknown object or wildcard''))
      else bind_ok (materialize_rule dur (''objects.'' @ object) raw) (\<lambda>r.
             load_objects dur rest (bt_insert object r acc)))"

fun load_operations ::
  "(int \<Rightarrow> time option) \<Rightarrow> (string \<times> raw_operation_rule) list \<Rightarrow> (string, operation_rule) btree
     \<Rightarrow> (cache_failure, (string, operation_rule) btree) result" where
  "load_operations dur [] acc = Inr acc"
| "load_operations dur ((operation, raw) # rest) acc =
     (if CHR ''*'' \<in> set operation
      then Inl (CacheError (invalid_rule operation ''wildcards are forbidden''))
      else case bt_get registered_operations operation of
          None \<Rightarrow> Inl (CacheError (invalid_rule operation ''unknown operation''))
        | Some expected \<Rightarrow>
            if ro_object raw \<noteq> expected
            then Inl (CacheError (invalid_rule operation ''operation/object mismatch''))
            else bind_ok (materialize_rule dur (''operations.'' @ operation) (ro_rule raw)) (\<lambda>r.
                   load_operations dur rest
                     (bt_insert operation \<lparr>or_object = ro_object raw, or_rule = r\<rparr> acc)))"

definition load_rebuild :: "string option \<Rightarrow> (cache_failure, string option) result" where
  "load_rebuild scope = (case scope of
       None \<Rightarrow> Inr None
     | Some sys_id \<Rightarrow> (case normalize_sys_id ''rebuild.knowledge.knowledge_base_sys_id'' sys_id of
           Inl e \<Rightarrow> Inl (CacheError e) | Inr v \<Rightarrow> Inr (Some v)))"

definition load_document ::
  "(int \<Rightarrow> time option) \<Rightarrow> (string \<Rightarrow> string) \<Rightarrow> policy_document
     \<Rightarrow> (cache_failure, effective_cache_policy) result" where
  "load_document dur sha256 d =
     (if pd_version d \<noteq> 1
      then Inl (CacheError (invalid_field ''version'' ''only cache-policy version 1 is supported''))
      else bind_ok (load_objects dur (pd_objects d) (builtin_objects dur)) (\<lambda>objects.
           bind_ok (load_operations dur (pd_operations d) []) (\<lambda>operations.
           bind_ok (load_rebuild (pd_rebuild_knowledge d)) (\<lambda>base.
             Inr (materialize sha256 BuiltInPlusFile objects operations base)))))"

datatype file_read = FileText string | FileMissing | FileError string string

definition load_policy ::
  "(int \<Rightarrow> time option) \<Rightarrow> (string \<Rightarrow> string) \<Rightarrow> (string \<Rightarrow> (string, policy_document) result) \<Rightarrow> file_read
     \<Rightarrow> (cache_failure, effective_cache_policy) result" where
  "load_policy dur sha256 parse r = (case r of
       FileMissing \<Rightarrow> Inr (built_in dur sha256)
     | FileError kind source \<Rightarrow> Inl (CacheError (CacheIo kind source))
     | FileText input \<Rightarrow> (case parse input of
           Inl err \<Rightarrow> Inl (CacheError (CacheInvalid None None err))
         | Inr d \<Rightarrow> load_document dur sha256 d))"

subsection \<open>The manager\<close>

text \<open>The active policy behind a lock; \<open>None\<close> is a poisoned lock.\<close>

type_synonym policy_manager = "effective_cache_policy option"

record reload_summary =
  rs_summary :: cache_policy_summary
  rs_previous_fingerprint :: string
  rs_changed :: bool

definition manager_validate ::
  "(cache_failure, effective_cache_policy) result \<Rightarrow> (cache_failure, cache_policy_summary) result" where
  "manager_validate loaded = bind_ok loaded (\<lambda>p. Inr (policy_summary p))"

definition manager_reload ::
  "(cache_failure, effective_cache_policy) result \<Rightarrow> policy_manager
     \<Rightarrow> (cache_failure, reload_summary) result \<times> policy_manager" where
  "manager_reload loaded m = (case loaded of
       Inl e \<Rightarrow> (Inl e, m)
     | Inr candidate \<Rightarrow> (case m of
           None \<Rightarrow> (Inl (CacheError (CacheInvalid None None ''cache-policy state lock poisoned'')), m)
         | Some active \<Rightarrow>
             (let summary = policy_summary candidate
              in (Inr \<lparr>rs_summary = summary, rs_previous_fingerprint = ec_fingerprint active,
                       rs_changed = (ec_fingerprint active \<noteq> cs_fingerprint summary)\<rparr>, Some candidate))))"

definition manager_active ::
  "(int \<Rightarrow> time option) \<Rightarrow> (string \<Rightarrow> string) \<Rightarrow> policy_manager \<Rightarrow> effective_cache_policy" where
  "manager_active dur sha256 m = (case m of Some p \<Rightarrow> p | None \<Rightarrow> built_in dur sha256)"

subsection \<open>The legacy durations\<close>

definition stable_reference_ttl :: time where
  "stable_reference_ttl = secs (7 * 86400)"

definition work_record_ttl :: time where
  "work_record_ttl = secs (60 * 60)"

definition is_within_ttl :: "time \<Rightarrow> time \<Rightarrow> time \<Rightarrow> bool" where
  "is_within_ttl now synced_at ttl = (now < synced_at + ttl)"

definition parse_legacy_ttl ::
  "(int \<Rightarrow> time option) \<Rightarrow> string \<Rightarrow> string \<Rightarrow> (cache_failure, time) result" where
  "parse_legacy_ttl dur input fallback =
     bind_ok (parse_cache_ttl dur (if trim input = [] then fallback else trim input)) (\<lambda>parsed.
       case parsed of
         None \<Rightarrow> Inl (CacheMessage ''cache ttl must be a positive s/m/h/d duration'')
       | Some d \<Rightarrow> Inr d)"

record cache_ttl_policy =
  ct_stable_reference_ttl :: time
  ct_work_record_ttl :: time

definition ttl_policy_from_strings ::
  "(int \<Rightarrow> time option) \<Rightarrow> string \<Rightarrow> string \<Rightarrow> (cache_failure, cache_ttl_policy) result" where
  "ttl_policy_from_strings dur stable_text work_text =
     bind_ok (parse_legacy_ttl dur stable_text ''7d'') (\<lambda>s.
       if s < stable_reference_ttl
       then Inl (CacheMessage ''cache.policy.stable_reference_ttl must be at least 7d'')
       else bind_ok (parse_legacy_ttl dur work_text ''60m'') (\<lambda>w.
              Inr \<lparr>ct_stable_reference_ttl = s, ct_work_record_ttl = w\<rparr>))"

subsection \<open>Types of a policy\<close>

text \<open>What \<open>chrono\<close> documents: seconds are accepted up to the millisecond range of an \<open>i64\<close>.\<close>

definition chrono_seconds :: "(int \<Rightarrow> time option) \<Rightarrow> bool" where
  "chrono_seconds dur = (\<forall>n. dur n = (if \<bar>n\<bar> \<le> i64_max div 1000 then Some (secs n) else None))"

definition rule_ok :: "cache_rule \<Rightarrow> bool" where
  "rule_ok r = (case cu_ttl r of None \<Rightarrow> cu_mode r = Live
     | Some d \<Rightarrow> cu_mode r \<noteq> Live \<and> d = secs (num_seconds d)
         \<and> min_ttl_seconds \<le> num_seconds d \<and> num_seconds d \<le> max_ttl_seconds)"

definition objects_ok :: "(string, cache_rule) btree \<Rightarrow> bool" where
  "objects_ok m = (bt_wf m \<and> (\<forall>(k, r) \<in> set m. k \<in> set registered_objects \<and> rule_ok r))"

definition operations_ok :: "(string, operation_rule) btree \<Rightarrow> bool" where
  "operations_ok m = (bt_wf m \<and> (\<forall>(k, e) \<in> set m.
     bt_get registered_operations k = Some (or_object e) \<and> rule_ok (or_rule e)))"

definition policy_ok :: "effective_cache_policy \<Rightarrow> bool" where
  "policy_ok p = (objects_ok (ec_objects p) \<and> operations_ok (ec_operations p)
     \<and> (case ec_knowledge_rebuild_base_sys_id p of None \<Rightarrow> True
        | Some s \<Rightarrow> length s = 32 \<and> list_all is_hexdigit s \<and> to_lower s = s))"

lemma chrono_Some: "chrono_seconds dur \<Longrightarrow> dur n = Some d \<longleftrightarrow> \<bar>n\<bar> \<le> i64_max div 1000 \<and> d = secs n"
  by (auto simp: chrono_seconds_def)

lemma chrono_None: "chrono_seconds dur \<Longrightarrow> dur n = None \<longleftrightarrow> i64_max div 1000 < \<bar>n\<bar>"
  by (auto simp: chrono_seconds_def)

lemma parse_cache_ttl_Some:
  assumes "chrono_seconds dur" "parse_cache_ttl dur s = Inr (Some d)"
  shows "d = secs (num_seconds d)"
proof -
  have "\<exists>n. dur n = Some d"
    using assms(2) by (auto simp: parse_cache_ttl_def Let_def split: if_splits option.splits)
  then show ?thesis using chrono_Some [OF assms(1)] by auto
qed

lemma parse_cache_ttl_Inl: "parse_cache_ttl dur s = Inl e \<Longrightarrow> e = DurationPanic"
  by (auto simp: parse_cache_ttl_def Let_def split: if_splits option.splits)

lemma materialize_rule_ok:
  assumes "chrono_seconds dur" "materialize_rule dur name raw = Inr r"
  shows "rule_ok r \<and> cu_mode r = rw_mode raw"
proof (cases "rw_mode raw = Live")
  case True
  with assms(2) show ?thesis by (auto simp: materialize_rule_def rule_ok_def rule_live_def split: if_splits)
next
  case False
  with assms(2) obtain ttl parsed where ttl: "rw_ttl raw = Some ttl"
    and p: "parse_cache_ttl dur ttl = Inr parsed"
    and r: "(case parsed of
               None \<Rightarrow> Inl (CacheError (invalid_rule name ttl_reason))
             | Some d \<Rightarrow>
                 if min_ttl_seconds \<le> num_seconds d \<and> num_seconds d \<le> max_ttl_seconds
                 then Inr \<lparr>cu_mode = rw_mode raw, cu_ttl = Some d\<rparr>
                 else Inl (CacheError (invalid_rule name ttl_reason))) = Inr r"
    by (cases "rw_mode raw") (auto simp: materialize_rule_def bind_ok_Inr split: option.splits)
  from r obtain d where d: "parsed = Some d" "min_ttl_seconds \<le> num_seconds d" "num_seconds d \<le> max_ttl_seconds"
    and "r = \<lparr>cu_mode = rw_mode raw, cu_ttl = Some d\<rparr>"
    by (auto split: option.splits if_splits)
  with False parse_cache_ttl_Some [OF assms(1), of ttl d] p show ?thesis by (simp add: rule_ok_def)
qed

lemma builtin_ttls:
  assumes "chrono_seconds dur"
  shows "parse_cache_ttl dur ''30d'' = Inr (Some (secs 2592000))"
    "parse_cache_ttl dur ''7d'' = Inr (Some (secs 604800))"
  using assms
  by (simp_all add: parse_cache_ttl_def chrono_seconds_def ttl_unit_def str_replace.simps string_simps)

lemma objects_ok_insert:
  "objects_ok m \<Longrightarrow> k \<in> set registered_objects \<Longrightarrow> rule_ok r \<Longrightarrow> objects_ok (bt_insert k r m)"
  using set_bt_insert [of k r m] by (fastforce simp: objects_ok_def)

lemma operations_ok_insert:
  "operations_ok m \<Longrightarrow> bt_get registered_operations k = Some (or_object e) \<Longrightarrow> rule_ok (or_rule e)
     \<Longrightarrow> operations_ok (bt_insert k e m)"
  using set_bt_insert [of k e m] by (fastforce simp: operations_ok_def)

lemma builtin_objects_eq:
  assumes "chrono_seconds dur"
  shows "builtin_objects dur = bt_of_list
     [(''business_application'', \<lparr>cu_mode = ReadThrough, cu_ttl = Some (secs 2592000)\<rparr>),
      (''knowledge'', \<lparr>cu_mode = ReadThrough, cu_ttl = Some (secs 604800)\<rparr>),
      (''service_catalog_product'', \<lparr>cu_mode = ReadThrough, cu_ttl = Some (secs 2592000)\<rparr>)]"
  using builtin_ttls [OF assms] by (simp add: builtin_objects_def builtin_rule_def)

lemma builtin_objects_ok:
  assumes "chrono_seconds dur"
  shows "objects_ok (builtin_objects dur)"
proof -
  have ttl: "rule_ok \<lparr>cu_mode = ReadThrough, cu_ttl = Some (secs 2592000)\<rparr>"
    "rule_ok \<lparr>cu_mode = ReadThrough, cu_ttl = Some (secs 604800)\<rparr>"
    by (simp_all add: rule_ok_def min_ttl_seconds_def max_ttl_seconds_def)
  show ?thesis
    unfolding builtin_objects_eq [OF assms] bt_of_list_def
    by (simp add: objects_ok_def bt_wf_def ttl registered_objects_def)
qed

lemma load_objects_Cons:
  "load_objects dur ((object, raw) # rest) acc = Inr m \<longleftrightarrow>
     CHR ''*'' \<notin> set object \<and> object \<in> set registered_objects
     \<and> (\<exists>r. materialize_rule dur (''objects.'' @ object) raw = Inr r
          \<and> load_objects dur rest (bt_insert object r acc) = Inr m)"
  by (simp add: bind_ok_Inr)

lemma load_operations_Cons:
  "load_operations dur ((operation, raw) # rest) acc = Inr m \<longleftrightarrow>
     CHR ''*'' \<notin> set operation \<and> bt_get registered_operations operation = Some (ro_object raw)
     \<and> (\<exists>r. materialize_rule dur (''operations.'' @ operation) (ro_rule raw) = Inr r
          \<and> load_operations dur rest (bt_insert operation \<lparr>or_object = ro_object raw, or_rule = r\<rparr> acc) = Inr m)"
  by (cases "bt_get registered_operations operation") (auto simp: bind_ok_Inr simp del: append.simps)

declare load_objects.simps(2) [simp del] load_operations.simps(2) [simp del]

lemma load_objects_ok:
  assumes "chrono_seconds dur"
  shows "load_objects dur xs acc = Inr m \<Longrightarrow> objects_ok acc \<Longrightarrow> objects_ok m"
proof (induction xs arbitrary: acc)
  case (Cons x xs)
  obtain object raw where x: "x = (object, raw)" by (cases x)
  with Cons.prems(1) obtain r where r: "materialize_rule dur (''objects.'' @ object) raw = Inr r"
    and rest: "load_objects dur xs (bt_insert object r acc) = Inr m" "object \<in> set registered_objects"
    unfolding x load_objects_Cons by blast
  from materialize_rule_ok [OF assms r] Cons.prems(2) rest(2) have "objects_ok (bt_insert object r acc)"
    by (simp add: objects_ok_insert)
  then show ?case by (rule Cons.IH [OF rest(1)])
qed simp

lemma load_operations_ok:
  assumes "chrono_seconds dur"
  shows "load_operations dur xs acc = Inr m \<Longrightarrow> operations_ok acc \<Longrightarrow> operations_ok m"
proof (induction xs arbitrary: acc)
  case (Cons x xs)
  obtain operation raw where x: "x = (operation, raw)" by (cases x)
  let ?e = "\<lambda>r. \<lparr>or_object = ro_object raw, or_rule = r\<rparr>"
  from Cons.prems(1) obtain r where r: "materialize_rule dur (''operations.'' @ operation) (ro_rule raw) = Inr r"
    and rest: "load_operations dur xs (bt_insert operation (?e r) acc) = Inr m"
      "bt_get registered_operations operation = Some (ro_object raw)"
    unfolding x load_operations_Cons by blast
  from materialize_rule_ok [OF assms r] Cons.prems(2) rest(2) have "operations_ok (bt_insert operation (?e r) acc)"
    by (simp add: operations_ok_insert)
  then show ?case by (rule Cons.IH [OF rest(1)])
qed simp

lemma load_document_Inr:
  "load_document dur sha256 d = Inr p \<longleftrightarrow>
     pd_version d = 1 \<and> (\<exists>objects operations base. load_objects dur (pd_objects d) (builtin_objects dur) = Inr objects
       \<and> load_operations dur (pd_operations d) [] = Inr operations
       \<and> load_rebuild (pd_rebuild_knowledge d) = Inr base
       \<and> p = materialize sha256 BuiltInPlusFile objects operations base)"
  by (auto simp: load_document_def bind_ok_Inr)

subsection \<open>A policy file\<close>

definition demo_dur :: "int \<Rightarrow> time option" where
  "demo_dur n = (if \<bar>n\<bar> \<le> i64_max div 1000 then Some (secs n) else None)"

definition demo_document :: policy_document where
  "demo_document = \<lparr>pd_version = 1,
     pd_objects = [(''knowledge'', \<lparr>rw_mode = CacheOnly, rw_ttl = Some ''2h''\<rparr>),
                   (''story'', \<lparr>rw_mode = Live, rw_ttl = None\<rparr>)],
     pd_operations = [(''server_get'', \<lparr>ro_object = ''server'',
                        ro_rule = \<lparr>rw_mode = ReadThrough, rw_ttl = Some '' 5 min''\<rparr>\<rparr>)],
     pd_rebuild_knowledge = Some ''0123456789ABCDEF0123456789ABCDEF''\<rparr>"

definition demo_parse :: "string \<Rightarrow> (string, policy_document) result" where
  "demo_parse t = (if t = [] then Inl ''empty'' else Inr demo_document)"

definition demo_policy :: effective_cache_policy where
  "demo_policy = materialize id BuiltInPlusFile
     (bt_of_list [(''business_application'', \<lparr>cu_mode = ReadThrough, cu_ttl = Some (secs 2592000)\<rparr>),
        (''knowledge'', \<lparr>cu_mode = CacheOnly, cu_ttl = Some (secs 7200)\<rparr>),
        (''service_catalog_product'', \<lparr>cu_mode = ReadThrough, cu_ttl = Some (secs 2592000)\<rparr>),
        (''story'', rule_live)])
     [(''server_get'', \<lparr>or_object = ''server'', or_rule = \<lparr>cu_mode = ReadThrough, cu_ttl = Some (secs 300)\<rparr>\<rparr>)]
     (Some ''0123456789abcdef0123456789abcdef'')"

lemma demo_dur_chrono: "chrono_seconds demo_dur"
  by (simp add: chrono_seconds_def demo_dur_def)

lemma demo_loaded: "load_document demo_dur id demo_document = Inr demo_policy"
proof -
  have "load_objects demo_dur (pd_objects demo_document) (builtin_objects demo_dur) = Inr (bt_of_list
       [(''business_application'', \<lparr>cu_mode = ReadThrough, cu_ttl = Some (secs 2592000)\<rparr>),
        (''knowledge'', \<lparr>cu_mode = CacheOnly, cu_ttl = Some (secs 7200)\<rparr>),
        (''service_catalog_product'', \<lparr>cu_mode = ReadThrough, cu_ttl = Some (secs 2592000)\<rparr>),
        (''story'', rule_live)])"
    "load_operations demo_dur (pd_operations demo_document) [] = Inr
       [(''server_get'', \<lparr>or_object = ''server'', or_rule = \<lparr>cu_mode = ReadThrough, cu_ttl = Some (secs 300)\<rparr>\<rparr>)]"
    "load_rebuild (pd_rebuild_knowledge demo_document) = Inr (Some ''0123456789abcdef0123456789abcdef'')"
    "pd_version demo_document = 1" by code_simp+
  then show ?thesis by (simp add: load_document_Inr demo_policy_def)
qed

text \<open>
  C32: every policy a load yields is well typed, whatever the file says: its object and operation
  tables are maps over the registered names, an operation's rule is bound to the registered object of
  that operation, a live rule has no time-to-live and a cached one has a whole number of seconds from
  one minute to a year, and the rebuild scope is a lower-case 32 digit hexadecimal id.
\<close>

theorem load_policy_typed:
  assumes "chrono_seconds dur" "load_policy dur sha256 parse r = Inr p"
  shows "policy_ok p"
proof (cases r)
  case (FileText input)
  with assms(2) obtain d where d: "load_document dur sha256 d = Inr p"
    by (auto simp: load_policy_def split: sum.splits)
  then obtain objects operations base where "load_objects dur (pd_objects d) (builtin_objects dur) = Inr objects"
    "load_operations dur (pd_operations d) [] = Inr operations"
    and base: "load_rebuild (pd_rebuild_knowledge d) = Inr base"
    and p: "p = materialize sha256 BuiltInPlusFile objects operations base"
    unfolding load_document_Inr by blast
  then have "objects_ok objects" "operations_ok operations"
    using load_objects_ok [OF assms(1)] load_operations_ok [OF assms(1)] builtin_objects_ok [OF assms(1)]
    by (simp_all add: operations_ok_def)
  moreover have "case base of None \<Rightarrow> True | Some s \<Rightarrow> length s = 32 \<and> list_all is_hexdigit s \<and> to_lower s = s"
    using base
    by (auto simp: load_rebuild_def normalize_sys_id_def list_all_iff to_lower_def lower_char_hex
        split: option.splits if_splits)
  ultimately show ?thesis by (simp add: policy_ok_def p materialize_def)
next
  case FileMissing
  with assms show ?thesis
    by (auto simp: load_policy_def built_in_def materialize_def policy_ok_def builtin_objects_ok operations_ok_def)
next
  case (FileError k e)
  with assms show ?thesis by (simp add: load_policy_def)
qed

theorem load_policy_typed_witness:
  "load_policy demo_dur id demo_parse (FileText ''v'') = Inr demo_policy \<and> policy_ok demo_policy"
proof -
  have "load_policy demo_dur id demo_parse (FileText ''v'') = Inr demo_policy"
    by (simp add: load_policy_def demo_parse_def demo_loaded)
  then show ?thesis using load_policy_typed [OF demo_dur_chrono] by blast
qed

subsection \<open>The rule in effect\<close>

text \<open>The rule a file entry stands for, when it is accepted.\<close>

definition rule_of :: "(int \<Rightarrow> time option) \<Rightarrow> raw_rule \<Rightarrow> cache_rule" where
  "rule_of dur raw = (case materialize_rule dur [] raw of Inr r \<Rightarrow> r | Inl _ \<Rightarrow> rule_live)"

lemma materialize_rule_name: "materialize_rule dur name raw = Inr r \<Longrightarrow> r = rule_of dur raw"
proof (cases "rw_ttl raw")
  case None
  assume "materialize_rule dur name raw = Inr r"
  with None show ?thesis by (cases "rw_mode raw") (simp_all add: materialize_rule_def rule_of_def)
next
  case (Some ttl)
  assume m: "materialize_rule dur name raw = Inr r"
  have live: "rw_mode raw \<noteq> Live" using m Some by (auto simp: materialize_rule_def)
  then obtain d where "parse_cache_ttl dur ttl = Inr (Some d)"
    using m Some by (cases "rw_mode raw"; cases "parse_cache_ttl dur ttl"; cases "projr (parse_cache_ttl dur ttl)")
      (simp_all add: materialize_rule_def)
  with m Some live show ?thesis
    by (cases "rw_mode raw") (simp_all add: materialize_rule_def rule_of_def split: if_splits)
qed

lemma load_objects_get:
  "load_objects dur xs acc = Inr m \<Longrightarrow> distinct (map fst xs) \<Longrightarrow> bt_wf acc \<Longrightarrow>
   bt_get m k = (case map_of xs k of Some raw \<Rightarrow> Some (rule_of dur raw) | None \<Rightarrow> bt_get acc k)"
proof (induction xs arbitrary: acc)
  case (Cons x xs)
  obtain object raw where x: "x = (object, raw)" by (cases x)
  with Cons.prems(1) obtain r where r: "materialize_rule dur (''objects.'' @ object) raw = Inr r"
    and rest: "load_objects dur xs (bt_insert object r acc) = Inr m"
    unfolding x load_objects_Cons by blast
  from Cons.prems(2) have "map_of xs object = None" by (simp add: x map_of_eq_None_iff)
  with Cons.IH [OF rest] Cons.prems(2,3) materialize_rule_name [OF r] show ?case
    by (auto simp: x bt.get_ins split: option.split)
qed simp

lemma load_operations_get:
  "load_operations dur xs acc = Inr m \<Longrightarrow> distinct (map fst xs) \<Longrightarrow> bt_wf acc \<Longrightarrow>
   bt_get m k = (case map_of xs k of
       Some raw \<Rightarrow> Some \<lparr>or_object = ro_object raw, or_rule = rule_of dur (ro_rule raw)\<rparr> | None \<Rightarrow> bt_get acc k)"
proof (induction xs arbitrary: acc)
  case (Cons x xs)
  obtain operation raw where x: "x = (operation, raw)" by (cases x)
  with Cons.prems(1) obtain r where r: "materialize_rule dur (''operations.'' @ operation) (ro_rule raw) = Inr r"
    and rest: "load_operations dur xs (bt_insert operation \<lparr>or_object = ro_object raw, or_rule = r\<rparr> acc) = Inr m"
    unfolding x load_operations_Cons by blast
  from Cons.prems(2) have "map_of xs operation = None" by (simp add: x map_of_eq_None_iff)
  with Cons.IH [OF rest] Cons.prems(2,3) materialize_rule_name [OF r] show ?case
    by (auto simp: x bt.get_ins split: option.split)
qed simp

text \<open>
  the rule in effect after a load. An operation's rule of the file applies to the object it is
  bound to; otherwise the file's rule of the object applies, otherwise the built-in one, otherwise the
  object is read live.
\<close>

theorem load_rule_for:
  assumes "load_document dur sha256 d = Inr p" "bt_wf (pd_objects d)" "bt_wf (pd_operations d)"
  shows "rule_for p operation object =
     (let object_rule = (case bt_get (pd_objects d) object of
            Some raw \<Rightarrow> rule_of dur raw
          | None \<Rightarrow> (case bt_get (builtin_objects dur) object of Some r \<Rightarrow> r | None \<Rightarrow> rule_live))
      in case bt_get (pd_operations d) operation of
           Some raw \<Rightarrow> if ro_object raw = object then rule_of dur (ro_rule raw) else object_rule
         | None \<Rightarrow> object_rule)"
proof -
  obtain objects operations base where o: "load_objects dur (pd_objects d) (builtin_objects dur) = Inr objects"
    "load_operations dur (pd_operations d) [] = Inr operations"
    and p: "p = materialize sha256 BuiltInPlusFile objects operations base"
    using assms(1) unfolding load_document_Inr by blast
  have "bt_wf (builtin_objects dur)" by (simp add: builtin_objects_def)
  note gets = load_objects_get [OF o(1) bt_wf_distinct [OF assms(2)] this]
    load_operations_get [OF o(2) bt_wf_distinct [OF assms(3)] bt_wf_Nil]
  then show ?thesis
    unfolding rule_for_def p materialize_def bt_get_def [of "pd_objects d"] bt_get_def [of "pd_operations d"]
    by (cases "map_of (pd_operations d) operation"; cases "map_of (pd_objects d) object") simp_all
qed

theorem load_rule_for_witness:
  "rule_for demo_policy ''server_get'' ''server'' = \<lparr>cu_mode = ReadThrough, cu_ttl = Some (secs 300)\<rparr>
   \<and> rule_for demo_policy ''server_get'' ''knowledge'' = \<lparr>cu_mode = CacheOnly, cu_ttl = Some (secs 7200)\<rparr>"
proof -
  have "bt_wf (pd_objects demo_document)" "bt_wf (pd_operations demo_document)" by code_simp+
  note rule = load_rule_for [OF demo_loaded this]
  show ?thesis unfolding rule by code_simp
qed

subsection \<open>The fingerprint binds the rules\<close>

lemma digits_value_append: "digits_value (s @ [c]) = 10 * digits_value s + (int (char_code c) - 48)"
  by (simp add: digits_value_def)

lemma digit_code: "n < 10 \<Longrightarrow> char_code (char_of (48 + n)) = 48 + n"
  by (simp add: char_code_def)

lemma nat_text_value: "digits_value (nat_text n) = int n \<and> list_all is_digit (nat_text n)"
proof (induction n rule: nat_text.induct)
  case (1 n)
  show ?case
  proof (cases "n < 10")
    case True
    then show ?thesis
      by (simp add: nat_text.simps [of n] digits_value_def digit_code is_digit_def)
  next
    case False
    have n: "n mod 10 < 10" "10 * int (n div 10) + int (n mod 10) = int n" by (simp, presburger)
    with 1 [OF False] False show ?thesis
      by (simp add: nat_text.simps [of n] digits_value_append digit_code is_digit_def Let_def)
  qed
qed

lemma int_text_inj: "0 \<le> a \<Longrightarrow> 0 \<le> b \<Longrightarrow> int_text a = int_text b \<Longrightarrow> a = b"
  using nat_text_value [of "nat a"] nat_text_value [of "nat b"]
  by (metis int_text_def int_nat_eq linorder_not_le)

text \<open>A text without the separators.\<close>

definition plain :: "string \<Rightarrow> bool" where
  "plain s = (tab \<notin> set s \<and> newline \<notin> set s)"

lemma plain_digits: "list_all is_digit s \<Longrightarrow> plain s"
  by (auto simp: plain_def list_all_iff tab_def newline_def is_digit_def char_code_def)

lemma plain_hex: "list_all is_hexdigit s \<Longrightarrow> plain s"
  by (auto simp: plain_def list_all_iff tab_def newline_def is_hexdigit_def char_code_def)

lemma plain_mode [simp]: "plain (mode_name m)"
  by (cases m) (simp_all add: plain_def tab_def newline_def)

lemma plain_nonneg: "0 \<le> n \<Longrightarrow> plain (int_text n)"
  using nat_text_value [of "nat n"] by (simp add: int_text_def plain_digits)

lemma plain_objects: "k \<in> set registered_objects \<Longrightarrow> plain k"
  by (auto simp: registered_objects_def plain_def tab_def newline_def)

lemma plain_operations: "bt_get registered_operations k = Some ob \<Longrightarrow> plain k \<and> plain ob"
  unfolding registered_operations_def
  by (drule bt_get_of_list_in) (auto simp: plain_def tab_def newline_def)

text \<open>The rows of the canonical text.\<close>

definition canonical_rows ::
  "(string, cache_rule) btree \<Rightarrow> (string, operation_rule) btree \<Rightarrow> string option \<Rightarrow> string list list" where
  "canonical_rows objects operations base =
     map object_fields objects @ map operation_fields operations
     @ (case base of None \<Rightarrow> [] | Some sys_id \<Rightarrow> [rebuild_fields sys_id])"

lemma canonical_rules_rows:
  "canonical_rules objects operations base = end_lines newline (map (join [tab]) (canonical_rows objects operations base))"
  by (simp add: canonical_rules_def canonical_rows_def end_lines_def policy_line_def o_def split: option.split)

lemma rule_ok_seconds: "rule_ok r \<Longrightarrow> 0 \<le> ttl_seconds r"
  by (auto simp: rule_ok_def ttl_seconds_def min_ttl_seconds_def split: option.splits)

lemma rule_ok_inj:
  assumes "rule_ok r" "rule_ok r'" "mode_name (cu_mode r) = mode_name (cu_mode r')"
    and "int_text (ttl_seconds r) = int_text (ttl_seconds r')"
  shows "r = r'"
proof -
  have mode: "cu_mode r = cu_mode r'" using assms(3) by (cases "cu_mode r"; cases "cu_mode r'") simp_all
  have "ttl_seconds r = ttl_seconds r'" using int_text_inj assms(4) rule_ok_seconds assms(1,2) by blast
  then have "cu_ttl r = cu_ttl r'"
    using assms(1,2) mode by (auto simp: rule_ok_def ttl_seconds_def split: option.splits)
  with mode show ?thesis by simp
qed

lemma canonical_rows_plain:
  assumes "objects_ok os" "operations_ok ops"
    and "case base of None \<Rightarrow> True | Some s \<Rightarrow> length s = 32 \<and> list_all is_hexdigit s \<and> to_lower s = s"
  shows "\<forall>row \<in> set (canonical_rows os ops base). row \<noteq> [] \<and> (\<forall>c \<in> set row. plain c)"
proof -
  have "plain (int_text (ttl_seconds r))" if "rule_ok r" for r
    using that by (simp add: plain_nonneg rule_ok_seconds)
  moreover have words: "plain ''object''" "plain ''operation''" "plain ''rebuild''" "plain ''knowledge''"
    "plain ''knowledge_base_sys_id''"
    by (simp_all add: plain_def tab_def newline_def)
  ultimately show ?thesis
    using assms plain_objects plain_operations plain_hex
    by (fastforce simp: canonical_rows_def objects_ok_def operations_ok_def object_fields_def
        operation_fields_def rebuild_fields_def split: option.splits)
qed

lemma split_head_word:
  assumes "map f xs @ ys = map f xs' @ ys'"
    and "\<And>x. hd (f x) = w" "\<forall>y \<in> set ys \<union> set ys'. hd y \<noteq> w"
  shows "map f xs = map f xs' \<and> ys = ys'"
proof -
  have tw: "takeWhile (\<lambda>r. hd r = w) (map f zs @ us) = map f zs" if "\<forall>y \<in> set us. hd y \<noteq> w" for zs us
    using that assms(2) by (induction zs) (auto simp: takeWhile_eq_Nil_iff dest: hd_in_set)
  have "map f xs = map f xs'"
    using tw [of ys xs] tw [of ys' xs'] assms(1,3) by simp
  with assms(1) show ?thesis by simp
qed

lemma canonical_rows_inj:
  assumes "canonical_rows os ops base = canonical_rows os' ops' base'"
    and "objects_ok os" "objects_ok os'" "operations_ok ops" "operations_ok ops'"
  shows "os = os' \<and> ops = ops' \<and> base = base'"
proof -
  let ?rest = "\<lambda>ops base. map operation_fields ops @ (case base of None \<Rightarrow> [] | Some s \<Rightarrow> [rebuild_fields s])"
  have one: "map object_fields os = map object_fields os' \<and> ?rest ops base = ?rest ops' base'"
  proof (rule split_head_word [where w = "''object''"])
    show "map object_fields os @ ?rest ops base = map object_fields os' @ ?rest ops' base'"
      using assms(1) by (simp add: canonical_rows_def)
  qed (auto simp: object_fields_def operation_fields_def rebuild_fields_def split: option.splits)
  have two: "map operation_fields ops = map operation_fields ops'
      \<and> (case base of None \<Rightarrow> [] | Some s \<Rightarrow> [rebuild_fields s]) = (case base' of None \<Rightarrow> [] | Some s \<Rightarrow> [rebuild_fields s])"
    by (rule split_head_word [OF one [THEN conjunct2], where w = "''operation''"])
      (auto simp: operation_fields_def rebuild_fields_def split: option.splits)
  have "inj_on object_fields (set os \<union> set os')"
  proof (rule inj_onI)
    fix e e' assume e: "e \<in> set os \<union> set os'" "e' \<in> set os \<union> set os'" "object_fields e = object_fields e'"
    then have "rule_ok (snd e)" "rule_ok (snd e')" using assms(2,3) by (auto simp: objects_ok_def)
    with e(3) show "e = e'" by (simp add: object_fields_def prod_eq_iff rule_ok_inj)
  qed
  moreover have "inj_on operation_fields (set ops \<union> set ops')"
  proof (rule inj_onI)
    fix e e' assume e: "e \<in> set ops \<union> set ops'" "e' \<in> set ops \<union> set ops'" "operation_fields e = operation_fields e'"
    then have "rule_ok (or_rule (snd e))" "rule_ok (or_rule (snd e'))" using assms(4,5) by (auto simp: operations_ok_def)
    with e(3) show "e = e'" by (simp add: operation_fields_def prod_eq_iff rule_ok_inj)
  qed
  ultimately have "os = os'" "ops = ops'"
    using one two by (simp_all add: map_eq_conv inj_on_map_eq_map)
  moreover have "base = base'" using two by (auto simp: rebuild_fields_def split: option.splits)
  ultimately show ?thesis by simp
qed

definition policy_text :: "effective_cache_policy \<Rightarrow> string" where
  "policy_text p = canonical_rules (ec_objects p) (ec_operations p) (ec_knowledge_rebuild_base_sys_id p)"

lemma policy_text_inj:
  assumes "policy_ok p" "policy_ok p'" "policy_text p = policy_text p'"
  shows "rule_for p = rule_for p' \<and> ec_knowledge_rebuild_base_sys_id p = ec_knowledge_rebuild_base_sys_id p'"
proof -
  let ?rows = "\<lambda>p. canonical_rows (ec_objects p) (ec_operations p) (ec_knowledge_rebuild_base_sys_id p)"
  have plain_rows: "\<forall>row \<in> set (?rows q). row \<noteq> [] \<and> (\<forall>c \<in> set row. plain c)" if "policy_ok q" for q
    by (rule canonical_rows_plain) (use that in \<open>auto simp: policy_ok_def\<close>)
  have no_newline: "\<forall>l \<in> set (map (join [tab]) (?rows q)). newline \<notin> set l" if "policy_ok q" for q
  proof -
    have "newline \<noteq> tab" by (simp add: newline_def tab_def)
    then have "newline \<notin> set (join [tab] row)" if "\<forall>c \<in> set row. plain c" for row
      using set_join [of tab row] that by (auto simp: plain_def)
    with plain_rows [OF that] show ?thesis by auto
  qed
  have "map (join [tab]) (?rows p) = map (join [tab]) (?rows p')"
    by (rule end_lines_inj [where d = newline])
      (use assms no_newline in \<open>auto simp: policy_text_def canonical_rules_rows\<close>)
  moreover have "inj_on (join [tab]) (set (?rows p) \<union> set (?rows p'))"
  proof (rule inj_onI)
    fix a b assume "a \<in> set (?rows p) \<union> set (?rows p')" "b \<in> set (?rows p) \<union> set (?rows p')"
      "join [tab] a = join [tab] b"
    then show "a = b" using plain_rows assms(1,2) by (intro join_inj [of tab a b]) (auto simp: plain_def)
  qed
  ultimately have "?rows p = ?rows p'" by (simp add: inj_on_map_eq_map)
  then have "ec_objects p = ec_objects p' \<and> ec_operations p = ec_operations p'
      \<and> ec_knowledge_rebuild_base_sys_id p = ec_knowledge_rebuild_base_sys_id p'"
    using assms(1,2) by (intro canonical_rows_inj) (auto simp: policy_ok_def)
  then show ?thesis by (auto simp: rule_for_def fun_eq_iff cong: option.case_cong if_cong)
qed

lemma load_policy_fingerprint: "load_policy dur sha256 parse r = Inr p \<Longrightarrow> ec_fingerprint p = sha256 (policy_text p)"
  by (auto simp: load_policy_def load_document_Inr built_in_def materialize_def policy_text_def
      split: file_read.splits sum.splits)

text \<open>
  a reload is all or nothing. When loading fails, the active policy stays as it was; when it
  succeeds, the loaded policy is active, and if the reload reports no change (equal fingerprints of a
  digest without a collision on the two policies) every rule in effect and the rebuild scope are the
  ones of before.
\<close>

theorem reload_effect:
  assumes "chrono_seconds dur" "load_policy dur sha256 parse r0 = Inr active"
    and "\<And>p. load_policy dur sha256 parse r = Inr p \<Longrightarrow> inj_on sha256 {policy_text active, policy_text p}"
  shows "case manager_reload (load_policy dur sha256 parse r) (Some active) of
      (Inl e, m) \<Rightarrow> load_policy dur sha256 parse r = Inl e \<and> manager_active dur sha256 m = active
    | (Inr s, m) \<Rightarrow> load_policy dur sha256 parse r = Inr (manager_active dur sha256 m)
        \<and> rs_summary s = policy_summary (manager_active dur sha256 m)
        \<and> (\<not> rs_changed s \<longrightarrow> rule_for (manager_active dur sha256 m) = rule_for active
             \<and> ec_knowledge_rebuild_base_sys_id (manager_active dur sha256 m)
               = ec_knowledge_rebuild_base_sys_id active)"
proof (cases "load_policy dur sha256 parse r")
  case (Inl e)
  then show ?thesis by (simp add: manager_reload_def manager_active_def)
next
  case (Inr p)
  have "rule_for p = rule_for active \<and> ec_knowledge_rebuild_base_sys_id p = ec_knowledge_rebuild_base_sys_id active"
    if same: "ec_fingerprint active = ec_fingerprint p"
  proof -
    from same have "policy_text p = policy_text active"
      using assms(3) [OF Inr] load_policy_fingerprint [OF Inr] load_policy_fingerprint [OF assms(2)]
      by (auto dest: inj_onD)
    then show ?thesis
      using policy_text_inj load_policy_typed [OF assms(1) Inr] load_policy_typed [OF assms(1,2)] by blast
  qed
  then show ?thesis
    by (simp add: Inr manager_reload_def manager_active_def policy_summary_def Let_def)
qed

theorem reload_effect_witness:
  "case manager_reload (load_policy demo_dur id demo_parse (FileText ''v'')) (Some demo_policy) of
      (Inl e, m) \<Rightarrow> False
    | (Inr s, m) \<Rightarrow> \<not> rs_changed s \<and> rule_for (manager_active demo_dur id m) = rule_for demo_policy"
proof -
  have l: "load_policy demo_dur id demo_parse (FileText ''v'') = Inr demo_policy"
    by (simp add: load_policy_def demo_parse_def demo_loaded)
  have "inj_on id {policy_text demo_policy, policy_text p}" for p by simp
  note effect = reload_effect [OF demo_dur_chrono l this, of "FileText ''v''"]
  have r: "manager_reload (Inr demo_policy) (Some demo_policy) = (Inr \<lparr>rs_summary = policy_summary demo_policy,
      rs_previous_fingerprint = ec_fingerprint demo_policy, rs_changed = False\<rparr>, Some demo_policy)"
    by (simp add: manager_reload_def policy_summary_def Let_def)
  from effect show ?thesis unfolding l r prod.case sum.case manager_active_def option.case by simp
qed

text \<open>
  a duration out of range panics. Parsing a time-to-live ends in a panic exactly when the
  amount, in seconds of its unit, leaves the range of \<open>chrono\<close>; every other text gives a duration or
  is rejected as unparsable.
\<close>

theorem ttl_panic_iff:
  assumes "chrono_seconds dur"
  shows "parse_cache_ttl dur s = Inl e \<longleftrightarrow>
     e = DurationPanic \<and> (\<exists>amount k. parse_i64 (takeWhile is_digit (trim s)) = Some amount
       \<and> ttl_unit (str_replace '' '' [] (to_lower (trim (dropWhile is_digit (trim s))))) = Some k
       \<and> 0 < amount \<and> i64_max div 1000 < amount * k)"
proof -
  have k: "0 < k" if "ttl_unit u = Some k" for u k using that by (auto simp: ttl_unit_def split: if_splits)
  have empty: "parse_i64 [] = None" by (simp add: parse_i64_def)
  show ?thesis
    using chrono_None [OF assms] chrono_Some [OF assms] empty
    by (auto simp: parse_cache_ttl_def Let_def zero_less_mult_iff dest: k
        split: if_splits option.splits)
qed

theorem ttl_panic_iff_witness:
  "load_document demo_dur id \<lparr>pd_version = 1,
     pd_objects = [(''story'', \<lparr>rw_mode = ReadThrough, rw_ttl = Some ''9223372036854775807d''\<rparr>)],
     pd_operations = [], pd_rebuild_knowledge = None\<rparr> = Inl DurationPanic"
proof -
  let ?s = "''9223372036854775807d''"
  have "parse_i64 (takeWhile is_digit (trim ?s)) = Some 9223372036854775807"
    "ttl_unit (str_replace '' '' [] (to_lower (trim (dropWhile is_digit (trim ?s))))) = Some 86400"
    "i64_max div 1000 < 9223372036854775807 * 86400" by code_simp+
  then have "parse_cache_ttl demo_dur ?s = Inl DurationPanic"
    using ttl_panic_iff [OF demo_dur_chrono, of ?s DurationPanic] by auto
  then show ?thesis
    by (simp add: load_document_def load_objects.simps(2) materialize_rule_def registered_objects_def)
qed

end
