(* ===== verification/Rpc_Frame.thy ===== *)
theory Rpc_Frame
  imports Json Text_Lines
begin

text \<open>
  The newline framed JSON-RPC transport (\<open>snow_mcp/src/protocol/frame.rs\<close>,
  \<open>snow_mcp/src/transport/stdio.rs\<close>, \<open>snow_daemon/src/rpc/server.rs\<close>, \<open>wire.rs\<close>): reading a frame
  under the request budget, keeping a response under the response budget, and the two loops that
  serve a connection.

  A connection is the bytes the peer sends, what ends them (end of file or an I/O error), and for
  every response the I/O errors its write meets. The JSON codec (\<open>to_vec\<close>, \<open>from_slice\<close>) and the
  dispatcher are parameters and total: a peer that never stops and a dispatch that never returns are not
  represented. The loops are \<open>partial_function\<close>s: that they end is a theorem.
\<close>

subsection \<open>Frames\<close>

definition max_request_bytes :: nat where
  "max_request_bytes = 256 * 1024"

definition max_response_bytes :: nat where
  "max_response_bytes = 128 * 1024"

definition result_too_large_code :: int where
  "result_too_large_code = -32070"

datatype frame_read = FrameEof | FrameOk | FrameTooLarge

datatype io_error =
    BrokenPipe | ConnectionReset | ConnectionAborted | UnexpectedEof | OtherIo string

definition is_peer_disconnect :: "io_error \<Rightarrow> bool" where
  "is_peer_disconnect e = (e \<in> set [BrokenPipe, ConnectionReset, ConnectionAborted, UnexpectedEof])"

text \<open>\<open>read_until\<close>: the bytes up to and with the delimiter, and the rest.\<close>

fun read_until :: "char \<Rightarrow> string \<Rightarrow> string \<times> string" where
  "read_until d [] = ([], [])"
| "read_until d (c # cs) =
     (if c = d then ([c], cs) else (case read_until d cs of (line, rest) \<Rightarrow> (c # line, rest)))"

text \<open>One frame under a budget of \<open>b\<close> bytes. The reader is limited to \<open>b + 1\<close> bytes; the input ends
  in \<open>fault\<close>, met when neither the delimiter nor the limit comes first. The result holds the status,
  the buffer and the input left.\<close>

definition read_frame_in ::
  "nat \<Rightarrow> io_error option \<Rightarrow> string \<Rightarrow> (io_error, frame_read \<times> string \<times> string) result" where
  "read_frame_in b fault input =
     (let limited = take (b + 1) input;
          (buffer, left) = read_until newline limited;
          rest = left @ drop (b + 1) input;
          complete = (newline \<in> set limited \<or> b + 1 \<le> length input)
      in case (if complete then None else fault) of
           Some e \<Rightarrow> Inl e
         | None \<Rightarrow>
             Inr (if buffer = [] then FrameEof
                  else if b < length buffer \<or> (length buffer = b \<and> last buffer \<noteq> newline) then FrameTooLarge
                  else FrameOk, buffer, rest))"

definition read_frame :: "io_error option \<Rightarrow> string \<Rightarrow> (io_error, frame_read \<times> string \<times> string) result" where
  "read_frame = read_frame_in max_request_bytes"

definition result_too_large_data :: "nat \<Rightarrow> json" where
  "result_too_large_data actual_bytes = jobj [(''code'', JStr ''RESULT_TOO_LARGE''),
     (''max_bytes'', JNum (nat_text max_response_bytes)), (''result_bytes'', JNum (nat_text actual_bytes))]"

definition request_too_large_data :: json where
  "request_too_large_data = jobj [(''code'', JStr ''RESULT_TOO_LARGE''),
     (''max_bytes'', JNum (nat_text max_request_bytes))]"

subsection \<open>Messages\<close>

record json_rpc_request =
  jq_jsonrpc :: string
  jq_method :: string
  jq_params :: json
  jq_id :: "json option"

record json_rpc_error =
  je_code :: int
  je_message :: string
  je_data :: "json option"

record json_rpc_response =
  jr_jsonrpc :: string
  jr_result :: "json option"
  jr_error :: "json_rpc_error option"
  jr_id :: "json option"

definition response_ok :: "json option \<Rightarrow> json \<Rightarrow> json_rpc_response" where
  "response_ok i result = \<lparr>jr_jsonrpc = ''2.0'', jr_result = Some result, jr_error = None, jr_id = i\<rparr>"

definition response_error :: "json option \<Rightarrow> int \<Rightarrow> string \<Rightarrow> json option \<Rightarrow> json_rpc_response" where
  "response_error i code message data = \<lparr>jr_jsonrpc = ''2.0'', jr_result = None,
     jr_error = Some \<lparr>je_code = code, je_message = message, je_data = data\<rparr>, jr_id = i\<rparr>"

text \<open>\<open>serde_json::to_vec\<close> and \<open>from_slice\<close>, with their errors.\<close>

record codec =
  cd_to_vec :: "json_rpc_response \<Rightarrow> (string, string) result"
  cd_from_slice :: "string \<Rightarrow> (string, json_rpc_request) result"

definition too_large_response :: "json option \<Rightarrow> nat \<Rightarrow> json_rpc_response" where
  "too_large_response i n = response_error i result_too_large_code ''result exceeds maximum size''
     (Some (result_too_large_data n))"

definition bounded_payload :: "codec \<Rightarrow> json_rpc_response \<Rightarrow> (string, string) result" where
  "bounded_payload c r =
     bind_ok (cd_to_vec c r) (\<lambda>payload.
       if length payload \<le> max_response_bytes then Inr payload
       else bind_ok (cd_to_vec c (too_large_response (jr_id r) (length payload))) (\<lambda>fallback.
         if length fallback \<le> max_response_bytes then Inr fallback
         else cd_to_vec c (too_large_response None (length payload))))"

subsection \<open>Serving a connection\<close>

text \<open>The I/O errors the writes of the \<open>n\<close>-th response meet: payload, with the bytes of it that go
  out before, newline, flush.\<close>

record peer =
  pe_fault :: "io_error option"
  pe_payload :: "nat \<Rightarrow> (nat \<times> io_error) option"
  pe_newline :: "nat \<Rightarrow> io_error option"
  pe_flush :: "nat \<Rightarrow> io_error option"

text \<open>The dispatcher, a function on the state of the server; \<open>sv_is_shutdown\<close> tells the method that
  stops the daemon.\<close>

record 's server =
  sv_codec :: codec
  sv_dispatch :: "json_rpc_request \<Rightarrow> 's \<Rightarrow> json_rpc_response \<times> 's"
  sv_is_shutdown :: "string \<Rightarrow> bool"

text \<open>What the writer has taken: the bytes, and (for the statements below only) the payloads among
  them. \<open>put_payload\<close> and \<open>put_newline\<close> are the two \<open>write_all\<close> calls; the first may fail half way
  (\<open>put_part\<close>).\<close>

record written =
  ou_bytes :: string
  ou_payloads :: "string list"

definition no_output :: written where
  "no_output = \<lparr>ou_bytes = [], ou_payloads = []\<rparr>"

definition put_part :: "nat \<Rightarrow> string \<Rightarrow> written \<Rightarrow> written" where
  "put_part k payload out = out\<lparr>ou_bytes := ou_bytes out @ take k payload\<rparr>"

definition put_payload :: "string \<Rightarrow> written \<Rightarrow> written" where
  "put_payload payload out = \<lparr>ou_bytes = ou_bytes out @ payload, ou_payloads = ou_payloads out @ [payload]\<rparr>"

definition put_newline :: "written \<Rightarrow> written" where
  "put_newline out = out\<lparr>ou_bytes := ou_bytes out @ [newline]\<rparr>"

text \<open>What serving leaves: how it ended, the output, the state, and whether the shutdown was
  notified.\<close>

datatype serve_end = ServeOk | ServeIo io_error | ServeJson string

record 's served =
  sd_end :: serve_end
  sd_out :: written
  sd_state :: 's
  sd_shutdown :: bool

definition parse_error :: "string \<Rightarrow> json_rpc_response" where
  "parse_error err = response_error None (-32700) ''parse error'' (Some (jobj [(''details'', JStr err)]))"

definition request_too_large :: json_rpc_response where
  "request_too_large = response_error None result_too_large_code ''request frame exceeds maximum size''
     (Some request_too_large_data)"

text \<open>The response to a frame that is not the end of the input, the new state, and whether the
  request asks for a shutdown.\<close>

definition respond :: "'s server \<Rightarrow> frame_read \<Rightarrow> string \<Rightarrow> 's \<Rightarrow> json_rpc_response \<times> 's \<times> bool" where
  "respond sv status frame s =
     (if status = FrameTooLarge then (request_too_large, s, False)
      else case cd_from_slice (sv_codec sv) frame of
          Inr request \<Rightarrow> (case sv_dispatch sv request s of
              (r, s') \<Rightarrow> (r, s', sv_is_shutdown sv (jq_method request)))
        | Inl err \<Rightarrow> (parse_error err, s, False))"

text \<open>An I/O error of a write ends the connection, quietly when the peer went away.\<close>

definition write_end :: "io_error \<Rightarrow> serve_end" where
  "write_end e = (if is_peer_disconnect e then ServeOk else ServeIo e)"

text \<open>The body both loops share: answer one frame. The result is what serving leaves when the loop
  ends here, or the output and the new state. \<open>ending\<close> is what an I/O error of the payload
  or of the newline means; an error of the flush is always returned. Only the daemon acts on a
  shutdown request (\<open>stops\<close>).\<close>

definition serve_frame ::
  "(io_error \<Rightarrow> serve_end) \<Rightarrow> bool \<Rightarrow> 's server \<Rightarrow> peer \<Rightarrow> nat \<Rightarrow> written \<Rightarrow> 's \<Rightarrow> frame_read \<Rightarrow> string
     \<Rightarrow> ('s served, written \<times> 's) result" where
  "serve_frame ending stops sv pe n out s status frame =
     (case respond sv status frame s of (response, s', stop) \<Rightarrow>
       (let left = (\<lambda>e out' down. Inl \<lparr>sd_end = e, sd_out = out', sd_state = s', sd_shutdown = down\<rparr>)
        in case bounded_payload (sv_codec sv) response of
             Inl err \<Rightarrow> left (ServeJson err) out False
           | Inr payload \<Rightarrow> (case pe_payload pe n of
               Some (k, e) \<Rightarrow> left (ending e) (put_part k payload out) False
             | None \<Rightarrow> (case pe_newline pe n of
                 Some e \<Rightarrow> left (ending e) (put_payload payload out) False
               | None \<Rightarrow> (case pe_flush pe n of
                   Some e \<Rightarrow> left (ServeIo e) (put_newline (put_payload payload out)) False
                 | None \<Rightarrow>
                     if status = FrameTooLarge then left ServeOk (put_newline (put_payload payload out)) False
                     else if stops \<and> stop then left ServeOk (put_newline (put_payload payload out)) True
                     else Inr (put_newline (put_payload payload out), s'))))))"

text \<open>\<open>handle_connection\<close> of the daemon: \<open>n\<close> counts the responses, \<open>out\<close> is the output. A peer that
  went away ends it quietly.\<close>

partial_function (option) handle_connection ::
  "'s server \<Rightarrow> peer \<Rightarrow> nat \<Rightarrow> written \<Rightarrow> 's \<Rightarrow> string \<Rightarrow> 's served option" where
  "handle_connection sv pe n out s input =
     (case read_frame (pe_fault pe) input of
        Inl e \<Rightarrow> Some \<lparr>sd_end = write_end e, sd_out = out, sd_state = s, sd_shutdown = False\<rparr>
      | Inr (status, frame, rest) \<Rightarrow>
          if status = FrameEof
          then Some \<lparr>sd_end = ServeOk, sd_out = out, sd_state = s, sd_shutdown = False\<rparr>
          else (case serve_frame write_end True sv pe n out s status frame of
              Inl d \<Rightarrow> Some d
            | Inr (out', s') \<Rightarrow> handle_connection sv pe (n + 1) out' s' rest))"

text \<open>\<open>serve_streams\<close> of the MCP server: every I/O error is returned, and a shutdown signal that
  wins the race against the \<open>n\<close>-th read ends the loop.\<close>

partial_function (option) serve_streams ::
  "'s server \<Rightarrow> peer \<Rightarrow> (nat \<Rightarrow> bool) \<Rightarrow> nat \<Rightarrow> written \<Rightarrow> 's \<Rightarrow> string \<Rightarrow> 's served option" where
  "serve_streams sv pe signalled n out s input =
     (if signalled n then Some \<lparr>sd_end = ServeOk, sd_out = out, sd_state = s, sd_shutdown = False\<rparr>
      else case read_frame (pe_fault pe) input of
        Inl e \<Rightarrow> Some \<lparr>sd_end = ServeIo e, sd_out = out, sd_state = s, sd_shutdown = False\<rparr>
      | Inr (status, frame, rest) \<Rightarrow>
          if status = FrameEof
          then Some \<lparr>sd_end = ServeOk, sd_out = out, sd_state = s, sd_shutdown = False\<rparr>
          else (case serve_frame ServeIo False sv pe n out s status frame of
              Inl d \<Rightarrow> Some d
            | Inr (out', s') \<Rightarrow> serve_streams sv pe signalled (n + 1) out' s' rest))"

subsection \<open>Reading\<close>

lemma read_until_append: "read_until d s = (line, rest) \<Longrightarrow> s = line @ rest"
  by (induction d s arbitrary: line rest rule: read_until.induct) (auto split: if_splits prod.splits)

lemma read_until_line: "d \<notin> set l \<Longrightarrow> read_until d (l @ d # rest) = (l @ [d], rest)"
  by (induction l) auto

lemma read_until_none: "d \<notin> set l \<Longrightarrow> read_until d l = (l, [])"
  by (induction l) auto

lemma read_until_length: "read_until d s = (line, rest) \<Longrightarrow> length line \<le> length s"
  by (drule read_until_append) simp

lemma read_frame_in_Inr:
  assumes "read_frame_in b fault input = Inr (status, frame, rest)"
  shows "input = frame @ rest" "status = FrameEof \<longleftrightarrow> frame = []" "length frame \<le> b + 1"
    "status = FrameOk \<Longrightarrow> length frame \<le> b" "status \<noteq> FrameEof \<Longrightarrow> length rest < length input"
proof -
  obtain left where u: "read_until newline (take (b + 1) input) = (frame, left)"
    and rest: "rest = left @ drop (b + 1) input"
    and status: "status = (if frame = [] then FrameEof
        else if b < length frame \<or> (length frame = b \<and> last frame \<noteq> newline) then FrameTooLarge else FrameOk)"
    using assms by (auto simp: read_frame_in_def Let_def split: prod.splits option.splits)
  have "take (b + 1) input = frame @ left" by (rule read_until_append [OF u])
  then show input: "input = frame @ rest" using append_take_drop_id [of "b + 1" input] rest by simp
  show "status = FrameEof \<longleftrightarrow> frame = []" using status by auto
  show "length frame \<le> b + 1" using read_until_length [OF u] by simp
  show "status = FrameOk \<Longrightarrow> length frame \<le> b" using status by (auto split: if_splits)
  show "status \<noteq> FrameEof \<Longrightarrow> length rest < length input" using status input by (auto split: if_splits)
qed

text \<open>The reference for framing: cut the input after every newline.\<close>

fun frames_of :: "string \<Rightarrow> string list" where
  "frames_of [] = []"
| "frames_of (c # cs) =
     (if c = newline then [newline] # frames_of cs
      else (case frames_of cs of [] \<Rightarrow> [[c]] | f # fs \<Rightarrow> (c # f) # fs))"

lemma frames_of_read:
  "input \<noteq> [] \<Longrightarrow> read_until newline input = (f, rest) \<Longrightarrow> frames_of input = f # frames_of rest"
proof (induction input arbitrary: f rest)
  case (Cons c cs)
  show ?case
  proof (cases "c = newline \<or> cs = []")
    case False
    obtain g r where "read_until newline cs = (g, r)" by fastforce
    with False Cons show ?thesis by auto
  qed (use Cons in auto)
qed simp

lemma concat_frames_of: "concat (frames_of input) = input"
  by (induction input) (auto split: list.split)

lemma frames_of_line: "newline \<notin> set l \<Longrightarrow> frames_of (l @ newline # rest) = (l @ [newline]) # frames_of rest"
  using frames_of_read [OF _ read_until_line] by simp

lemma frames_of_end_lines:
  "\<forall>l \<in> set ls. newline \<notin> set l \<Longrightarrow> frames_of (end_lines newline ls) = map (\<lambda>l. l @ [newline]) ls"
  by (induction ls) (simp_all add: frames_of_line)

text \<open>The frames the budget admits.\<close>

definition fits :: "nat \<Rightarrow> string \<Rightarrow> bool" where
  "fits b f = (length f \<le> b \<and> (length f = b \<longrightarrow> last f = newline))"

lemma read_until_take:
  "read_until d s = (f, rest) \<Longrightarrow> length f \<le> k \<Longrightarrow> read_until d (take k s) = (f, take (k - length f) rest)"
proof (induction d s arbitrary: f rest k rule: read_until.induct)
  case (2 d c cs)
  obtain g r where g: "read_until d cs = (g, r)" by fastforce
  show ?case
  proof (cases k)
    case 0
    with 2 g show ?thesis by (auto split: if_splits)
  next
    case (Suc m)
    with 2 g show ?thesis by (auto split: if_splits)
  qed
qed auto

lemma read_frame_fits:
  assumes "input \<noteq> []" "frames_of input = f # fs" "fits b f"
  shows "\<exists>rest. read_frame_in b None input = Inr (FrameOk, f, rest) \<and> frames_of rest = fs"
proof -
  obtain g rest where u: "read_until newline input = (g, rest)" by fastforce
  then have g: "g = f" "frames_of rest = fs" using frames_of_read [OF assms(1)] assms(2) by auto
  have f: "f \<noteq> []" using assms(1) u g by (cases input) (auto split: if_splits prod.splits)
  have len: "length f \<le> b + 1" using assms(3) by (simp add: fits_def)
  have input: "input = f @ rest" using read_until_append [OF u] g by simp
  have "take (b + 1 - length f) rest @ drop (b + 1) input = rest"
    unfolding input drop_append using len by (cases "length f = b + 1") simp_all
  moreover have "\<not> (b < length f \<or> (length f = b \<and> last f \<noteq> newline))" using assms(3) by (auto simp: fits_def)
  ultimately have "read_frame_in b None input = Inr (FrameOk, f, rest)"
    using read_until_take [OF u, of "b + 1"] g len f by (simp add: read_frame_in_def Let_def)
  then show ?thesis using g by blast
qed

lemma read_frame_end: "read_frame_in b None [] = Inr (FrameEof, [], [])"
  by (simp add: read_frame_in_def)

lemma read_frame_oversized:
  assumes "newline \<notin> set (take b input)" "b \<le> length input" "0 < b" "b < length input \<or> fault = None"
  shows "\<exists>frame rest. read_frame_in b fault input = Inr (FrameTooLarge, frame, rest)"
proof -
  obtain frame left where u: "read_until newline (take (b + 1) input) = (frame, left)" by fastforce
  then have split: "take (b + 1) input = frame @ left" by (rule read_until_append)
  have "b \<le> length frame"
  proof (cases "newline \<in> set (take (b + 1) input)")
    case True
    have long: "b < length input"
    proof (rule ccontr)
      assume "\<not> b < length input"
      then have "take (b + 1) input = take b input" using assms(2) by simp
      with True assms(1) show False by simp
    qed
    then have "take (b + 1) input = take b input @ [input ! b]" by (simp add: take_Suc_conv_app_nth)
    with True assms(1) have "take (b + 1) input = take b input @ newline # []" by auto
    with u read_until_line [OF assms(1), of "[]"] have "frame = take b input @ [newline]" by simp
    with long show ?thesis by simp
  next
    case False
    then show ?thesis using u read_until_none [of newline "take (b + 1) input"] assms(2) by auto
  qed
  moreover have "last frame \<noteq> newline" if "length frame = b"
    using that split assms(1,3)
    by (metis append_eq_conv_conj take_take min.absorb1 le_add1 last_in_set length_greater_0_conv)
  ultimately show ?thesis
    using u assms by (auto simp: read_frame_in_def Let_def split: option.splits)
qed

subsection \<open>Termination\<close>

lemma read_frame_shorter:
  "read_frame fault input = Inr (status, frame, rest) \<Longrightarrow> status \<noteq> FrameEof \<Longrightarrow> length rest < length input"
  unfolding read_frame_def by (rule read_frame_in_Inr(5))

text \<open>What one answer may do to the output: a payload and its newline, or, only when a write fails,
  the payload cut short or without its newline.\<close>

definition answered :: "codec \<Rightarrow> written \<Rightarrow> written \<Rightarrow> bool" where
  "answered c out out' = (\<exists>r payload. bounded_payload c r = Inr payload
     \<and> out' = \<lparr>ou_bytes = ou_bytes out @ payload @ [newline], ou_payloads = ou_payloads out @ [payload]\<rparr>)"

definition cut_short :: "codec \<Rightarrow> written \<Rightarrow> written \<Rightarrow> bool" where
  "cut_short c out out' = (\<exists>r payload k. bounded_payload c r = Inr payload
     \<and> (out' = out\<lparr>ou_bytes := ou_bytes out @ take k payload\<rparr>
        \<or> out' = \<lparr>ou_bytes = ou_bytes out @ payload, ou_payloads = ou_payloads out @ [payload]\<rparr>))"

definition writes_succeed :: "peer \<Rightarrow> bool" where
  "writes_succeed pe \<longleftrightarrow> (\<forall>n. pe_payload pe n = None \<and> pe_newline pe n = None)"

lemma answered_put:
  "bounded_payload c r = Inr payload \<Longrightarrow> answered c out (put_newline (put_payload payload out))"
  by (auto simp: answered_def put_payload_def put_newline_def)

lemma cut_short_put:
  "bounded_payload c r = Inr payload \<Longrightarrow> cut_short c out (put_part k payload out)"
  "bounded_payload c r = Inr payload \<Longrightarrow> cut_short c out (put_payload payload out)"
  by (auto simp: cut_short_def put_payload_def put_part_def)

lemma writes_fail: "pe_payload pe n = Some f \<Longrightarrow> \<not> writes_succeed pe" "pe_newline pe n = Some e \<Longrightarrow> \<not> writes_succeed pe"
  unfolding writes_succeed_def by (metis option.discI)+

lemma serve_frame_out:
  "serve_frame ending stops sv pe n out s status frame = Inl d \<Longrightarrow>
     sd_out d = out \<or> answered (sv_codec sv) out (sd_out d)
       \<or> \<not> writes_succeed pe \<and> cut_short (sv_codec sv) out (sd_out d)"
  "serve_frame ending stops sv pe n out s status frame = Inr (out', s') \<Longrightarrow> answered (sv_codec sv) out out'"
  by (auto simp: serve_frame_def Let_def answered_put cut_short_put writes_fail
      split: prod.splits sum.splits option.splits if_splits)

text \<open>What a finished connection has sent: bounded payloads after those of before, at most one per
  byte read.\<close>

definition served_ok :: "codec \<Rightarrow> string list \<Rightarrow> nat \<Rightarrow> 's served \<Rightarrow> bool" where
  "served_ok c sent budget d = (\<exists>new. ou_payloads (sd_out d) = sent @ new \<and> length new \<le> budget
     \<and> list_all (\<lambda>payload. \<exists>r. bounded_payload c r = Inr payload) new)"

lemma served_ok_here: "sd_out d = out \<Longrightarrow> served_ok c (ou_payloads out) k d"
  by (auto simp: served_ok_def intro: exI [of _ "[]"])

lemma served_ok_one: "answered c out (sd_out d) \<Longrightarrow> 0 < k \<Longrightarrow> served_ok c (ou_payloads out) k d"
  by (fastforce simp: served_ok_def answered_def)

lemma served_ok_cut: "cut_short c out (sd_out d) \<Longrightarrow> 0 < k \<Longrightarrow> served_ok c (ou_payloads out) k d"
  by (fastforce simp: served_ok_def cut_short_def)

lemma served_ok_step:
  assumes "answered c out out'" "served_ok c (ou_payloads out') k d" "k < k'"
  shows "served_ok c (ou_payloads out) k' d"
proof -
  obtain r payload where p: "bounded_payload c r = Inr payload" "ou_payloads out' = ou_payloads out @ [payload]"
    using assms(1) by (auto simp: answered_def)
  obtain new where "ou_payloads (sd_out d) = ou_payloads out' @ new" "length new \<le> k"
    "list_all (\<lambda>payload. \<exists>r. bounded_payload c r = Inr payload) new"
    using assms(2) by (auto simp: served_ok_def)
  with p assms(3) show ?thesis unfolding served_ok_def by (intro exI [of _ "payload # new"]) auto
qed

text \<open>The bytes of a finished connection: the payloads as lines, and at the end of a connection whose
  writes fail the part of the last one that went out.\<close>

definition lines_ok :: "codec \<Rightarrow> bool \<Rightarrow> written \<Rightarrow> written \<Rightarrow> bool" where
  "lines_ok c smooth out out' \<longleftrightarrow>
     (\<exists>lns. ou_bytes out' = ou_bytes out @ end_lines newline lns \<and> ou_payloads out' = ou_payloads out @ lns)
     \<or> \<not> smooth \<and> (\<exists>lns r payload k. bounded_payload c r = Inr payload
         \<and> ou_bytes out' = ou_bytes out @ end_lines newline lns @ take k payload
         \<and> (ou_payloads out' = ou_payloads out @ lns
            \<or> ou_payloads out' = ou_payloads out @ lns @ [payload] \<and> length payload \<le> k))"

lemma lines_ok_here: "lines_ok c smooth out out"
  unfolding lines_ok_def by (intro disjI1 exI [of _ "[]"]) simp

lemma lines_ok_one: "answered c out out' \<Longrightarrow> lines_ok c smooth out out'"
proof -
  assume "answered c out out'"
  then obtain payload where
    "out' = \<lparr>ou_bytes = ou_bytes out @ payload @ [newline], ou_payloads = ou_payloads out @ [payload]\<rparr>"
    by (auto simp: answered_def)
  then show ?thesis unfolding lines_ok_def by (intro disjI1 exI [of _ "[payload]"]) simp
qed

lemma lines_okI:
  assumes "bounded_payload c r = Inr payload" "ou_bytes out' = ou_bytes out @ end_lines newline lns @ take k payload"
    and "ou_payloads out' = ou_payloads out @ lns
      \<or> ou_payloads out' = ou_payloads out @ lns @ [payload] \<and> length payload \<le> k"
  shows "lines_ok c False out out'"
  using assms unfolding lines_ok_def by blast

lemma lines_ok_cut: "cut_short c out out' \<Longrightarrow> lines_ok c False out out'"
proof -
  assume "cut_short c out out'"
  then obtain r payload k where p: "bounded_payload c r = Inr payload"
    and "out' = out\<lparr>ou_bytes := ou_bytes out @ take k payload\<rparr>
      \<or> out' = \<lparr>ou_bytes = ou_bytes out @ payload, ou_payloads = ou_payloads out @ [payload]\<rparr>"
    by (auto simp: cut_short_def)
  then show ?thesis
    using lines_okI [OF p, of out' out "[]" k] lines_okI [OF p, of out' out "[]" "length payload"] by auto
qed

lemma lines_ok_step:
  assumes "answered c out mid" "lines_ok c smooth mid out'"
  shows "lines_ok c smooth out out'"
proof -
  obtain p where mid: "mid = \<lparr>ou_bytes = ou_bytes out @ p @ [newline], ou_payloads = ou_payloads out @ [p]\<rparr>"
    using assms(1) by (auto simp: answered_def)
  from assms(2) consider
      (lns) lns where "ou_bytes out' = ou_bytes mid @ end_lines newline lns" "ou_payloads out' = ou_payloads mid @ lns"
    | (part) lns r payload k where "\<not> smooth" "bounded_payload c r = Inr payload"
        "ou_bytes out' = ou_bytes mid @ end_lines newline lns @ take k payload"
        "ou_payloads out' = ou_payloads mid @ lns
          \<or> ou_payloads out' = ou_payloads mid @ lns @ [payload] \<and> length payload \<le> k"
    unfolding lines_ok_def by blast
  then show ?thesis
  proof cases
    case lns
    then show ?thesis unfolding lines_ok_def by (intro disjI1 exI [of _ "p # lns"]) (simp add: mid)
  next
    case part
    then show ?thesis using lines_okI [OF part(2), of out' out "p # lns" k] by (auto simp: mid)
  qed
qed

text \<open>Output that can be read back. Cutting the bytes after each newline gives the payloads, each
  with its newline; only when a write failed is there a last frame without a newline, a piece of a
  payload within the budget, that is the last payload itself when it went out whole.\<close>

definition readable :: "bool \<Rightarrow> written \<Rightarrow> bool" where
  "readable smooth out \<longleftrightarrow> list_all (\<lambda>p. length p \<le> max_response_bytes) (ou_payloads out)
     \<and> (frames_of (ou_bytes out) = map (\<lambda>p. p @ [newline]) (ou_payloads out)
       \<or> \<not> smooth \<and> (\<exists>lns part. frames_of (ou_bytes out) = map (\<lambda>p. p @ [newline]) lns @ [part]
           \<and> newline \<notin> set part \<and> length part \<le> max_response_bytes
           \<and> (ou_payloads out = lns \<or> ou_payloads out = lns @ [part]))
       \<or> \<not> smooth \<and> (\<exists>lns. frames_of (ou_bytes out) = map (\<lambda>p. p @ [newline]) lns \<and> ou_payloads out = lns @ [[]]))"

lemma frames_of_lines_cut:
  assumes "\<forall>l \<in> set ls. newline \<notin> set l" "newline \<notin> set part"
  shows "frames_of (end_lines newline ls @ part) = map (\<lambda>l. l @ [newline]) ls @ (if part = [] then [] else [part])"
proof (use assms(1) in \<open>induction ls\<close>)
  case Nil
  have "frames_of part = [part]" if "part \<noteq> []"
    using frames_of_read [OF that read_until_none [OF assms(2)]] by simp
  then show ?case by simp
next
  case (Cons l ls)
  then show ?case by (simp add: frames_of_line)
qed

lemma readable_lines:
  assumes l: "lines_ok c smooth no_output out"
    and sent: "\<forall>p \<in> set (ou_payloads out). length p \<le> max_response_bytes \<and> newline \<notin> set p"
    and payload: "\<And>r p. bounded_payload c r = Inr p \<Longrightarrow> length p \<le> max_response_bytes \<and> newline \<notin> set p"
  shows "readable smooth out"
proof -
  from l consider
      (lns) "ou_bytes out = end_lines newline (ou_payloads out)"
    | (part) lns r p k where "\<not> smooth" "bounded_payload c r = Inr p"
        "ou_bytes out = end_lines newline lns @ take k p"
        "ou_payloads out = lns \<or> ou_payloads out = lns @ [p] \<and> length p \<le> k"
    unfolding lines_ok_def no_output_def by auto
  then show ?thesis
  proof cases
    case lns
    then show ?thesis
      using sent frames_of_lines_cut [of "ou_payloads out" "[]"] by (auto simp: readable_def list_all_iff)
  next
    case part
    have piece: "newline \<notin> set (take k p)" "length (take k p) \<le> max_response_bytes"
      using payload [OF part(2)] by (auto dest: in_set_takeD)
    have "\<forall>l \<in> set lns. newline \<notin> set l" using part(4) sent by auto
    from frames_of_lines_cut [OF this piece(1)] part piece show ?thesis
      using sent by (auto simp: readable_def list_all_iff)
  qed
qed

text \<open>The reference for serving: answer the frames of a list one after the other.\<close>

fun serve_messages ::
  "(nat \<Rightarrow> bool) \<Rightarrow> (nat \<Rightarrow> written \<Rightarrow> 's \<Rightarrow> frame_read \<Rightarrow> string \<Rightarrow> ('s served, written \<times> 's) result)
     \<Rightarrow> nat \<Rightarrow> written \<Rightarrow> 's \<Rightarrow> string list \<Rightarrow> 's served" where
  "serve_messages stop_now answer n out s [] =
     \<lparr>sd_end = ServeOk, sd_out = out, sd_state = s, sd_shutdown = False\<rparr>"
| "serve_messages stop_now answer n out s (f # fs) =
     (if stop_now n then \<lparr>sd_end = ServeOk, sd_out = out, sd_state = s, sd_shutdown = False\<rparr>
      else case answer n out s FrameOk f of
          Inl d \<Rightarrow> d
        | Inr (out', s') \<Rightarrow> serve_messages stop_now answer (n + 1) out' s' fs)"

subsection \<open>The loop interface\<close>

text \<open>What both loops are: they read frames and answer them until one of the two says stop. Each
  answer writes at most one bounded payload and its newline, cut short only where a write fails
  (\<open>smooth\<close> says that none does).\<close>

locale serving_loop =
  fixes run :: "nat \<Rightarrow> written \<Rightarrow> 's \<Rightarrow> string \<Rightarrow> 's served option"
    and c :: codec
    and smooth :: bool
    and fault :: "io_error option"
    and stop_now :: "nat \<Rightarrow> bool"
    and read_failed :: "io_error \<Rightarrow> serve_end"
    and answer :: "nat \<Rightarrow> written \<Rightarrow> 's \<Rightarrow> frame_read \<Rightarrow> string \<Rightarrow> ('s served, written \<times> 's) result"
  assumes run: "run n out s input =
     (if stop_now n then Some \<lparr>sd_end = ServeOk, sd_out = out, sd_state = s, sd_shutdown = False\<rparr>
      else case read_frame fault input of
        Inl e \<Rightarrow> Some \<lparr>sd_end = read_failed e, sd_out = out, sd_state = s, sd_shutdown = False\<rparr>
      | Inr (status, frame, rest) \<Rightarrow>
          if status = FrameEof
          then Some \<lparr>sd_end = ServeOk, sd_out = out, sd_state = s, sd_shutdown = False\<rparr>
          else (case answer n out s status frame of
              Inl d \<Rightarrow> Some d
            | Inr (out', s') \<Rightarrow> run (n + 1) out' s' rest))"
    and answer_stop: "answer n out s status frame = Inl d \<Longrightarrow>
       sd_out d = out \<or> answered c out (sd_out d) \<or> \<not> smooth \<and> cut_short c out (sd_out d)"
    and answer_go: "answer n out s status frame = Inr (out', s') \<Longrightarrow> answered c out out'"
begin

lemma run_ends:
  "\<exists>d. run n out s input = Some d \<and> served_ok c (ou_payloads out) (length input) d \<and> lines_ok c smooth out (sd_out d)"
proof (induction "length input" arbitrary: input n out s rule: less_induct)
  case less
  show ?case
  proof (cases "stop_now n \<or> (\<exists>e. read_frame fault input = Inl e)
      \<or> (\<exists>frame rest. read_frame fault input = Inr (FrameEof, frame, rest))")
    case True
    then show ?thesis by (auto simp: run [of n out s input] served_ok_here lines_ok_here)
  next
    case False
    then obtain status frame rest where f: "read_frame fault input = Inr (status, frame, rest)" "status \<noteq> FrameEof"
      by (metis obj_sumE prod_cases3)
    note shorter = read_frame_shorter [OF f]
    show ?thesis
    proof (cases "answer n out s status frame")
      case (Inl d)
      then show ?thesis
        using answer_stop [OF Inl] shorter False f
        by (auto simp: run [of n out s input] lines_ok_here
            intro: served_ok_here served_ok_one served_ok_cut lines_ok_one lines_ok_cut)
    next
      case p: (Inr ps)
      obtain out' s' where ps: "ps = (out', s')" by (cases ps)
      obtain d where "run (n + 1) out' s' rest = Some d"
        "served_ok c (ou_payloads out') (length rest) d" "lines_ok c smooth out' (sd_out d)"
        using less [OF shorter] by blast
      then show ?thesis
        using answer_go [OF p [unfolded ps]] shorter False f p ps
        by (auto simp: run [of n out s input] intro: served_ok_step lines_ok_step)
    qed
  qed
qed

text \<open>Every payload written is within the budget, and the bytes are read back line by line.\<close>

lemma run_readable:
  assumes one_line: "\<And>r p. cd_to_vec c r = Inr p \<Longrightarrow> newline \<notin> set p"
    and last_resort: "\<And>size p. cd_to_vec c (too_large_response None size) = Inr p \<Longrightarrow> length p \<le> max_response_bytes"
    and d: "run n no_output s input = Some d"
  shows "readable smooth (sd_out d)"
proof -
  have payload: "length p \<le> max_response_bytes \<and> newline \<notin> set p" if "bounded_payload c r = Inr p" for r p
    using that one_line last_resort by (auto simp: bounded_payload_def bind_ok_Inr split: if_splits)
  have "served_ok c [] (length input) d" and l: "lines_ok c smooth no_output (sd_out d)"
    using run_ends [of n no_output s input] d by (auto simp: no_output_def)
  with payload have sent: "\<forall>p \<in> set (ou_payloads (sd_out d)). length p \<le> max_response_bytes \<and> newline \<notin> set p"
    by (fastforce simp: served_ok_def list_all_iff)
  show ?thesis by (rule readable_lines [OF l sent payload])
qed

lemma run_frames:
  assumes "fault = None"
  shows "\<forall>f \<in> set (frames_of input). fits max_request_bytes f \<Longrightarrow>
     run n out s input = Some (serve_messages stop_now answer n out s (frames_of input))"
proof (induction "frames_of input" arbitrary: input n out s)
  case Nil
  then have "input = []" using concat_frames_of [of input] by simp
  then show ?case by (simp add: run [of n out s] read_frame_def read_frame_end assms)
next
  case (Cons f fs)
  then have "input \<noteq> []" by auto
  moreover have fits: "fits max_request_bytes f" using Cons(2,3) by (metis list.set_intros(1))
  ultimately obtain rest where r: "read_frame fault input = Inr (FrameOk, f, rest)" "frames_of rest = fs"
    using read_frame_fits [of input f fs max_request_bytes] Cons(2) unfolding read_frame_def assms by metis
  have step: "run (n + 1) out' s' rest = Some (serve_messages stop_now answer (n + 1) out' s' fs)" for out' s'
    using Cons(1) [of rest] Cons(2,3) r(2) by (metis list.set_intros(2))
  show ?case
    by (simp add: run [of n out s input] Cons(2) [symmetric] r step [simplified] split: sum.split prod.split)
qed

end

interpretation daemon: serving_loop "handle_connection sv pe" "sv_codec sv" "writes_succeed pe" "pe_fault pe" "\<lambda>_. False"
    write_end "serve_frame write_end True sv pe" for sv pe
proof (unfold_locales, goal_cases)
  case (1 n out s input)
  show ?case by (subst handle_connection.simps) (simp split: sum.split prod.split)
qed (fact serve_frame_out)+

interpretation mcp: serving_loop "serve_streams sv pe signalled" "sv_codec sv" "writes_succeed pe" "pe_fault pe" signalled
    ServeIo "serve_frame ServeIo False sv pe" for sv pe signalled
proof (unfold_locales, goal_cases)
  case (1 n out s input)
  show ?case by (subst serve_streams.simps) simp
qed (fact serve_frame_out)+

text \<open>
  C35: serving a connection ends. Whatever bytes the peer sends, however they are cut into frames,
  however the connection fails and whatever the dispatcher answers, the daemon's loop and the MCP
  server's loop return, after at most one response per byte received.
\<close>

theorem serving_ends:
  "(\<exists>d. handle_connection sv pe n out s input = Some d \<and> served_ok (sv_codec sv) (ou_payloads out) (length input) d)
   \<and> (\<exists>d. serve_streams sv pe signalled n out s input = Some d \<and> served_ok (sv_codec sv) (ou_payloads out) (length input) d)"
  using daemon.run_ends [of sv pe n out s input] mcp.run_ends [of sv pe signalled n out s input] by blast

text \<open>
  the daemon serves exactly the lines it is sent. When the input ends without an I/O error and
  every line of it fits the request budget, reading under the budget gives the same as cutting the
  input after each newline first: the lines are answered in order, the last one also when it is not
  terminated, until a shutdown request or a failing write.
\<close>

theorem daemon_serves_frames:
  assumes "pe_fault pe = None" "\<forall>f \<in> set (frames_of input). fits max_request_bytes f"
  shows "handle_connection sv pe n out s input
    = Some (serve_messages (\<lambda>_. False) (serve_frame write_end True sv pe) n out s (frames_of input))"
  by (rule daemon.run_frames [OF assms])

text \<open>A server that answers every method with its name, over a small codec.\<close>

definition demo_codec :: codec where
  "demo_codec = \<lparr>cd_to_vec = (\<lambda>r. Inr (case jr_result r of Some (JStr t) \<Rightarrow> ''R'' @ filter (\<lambda>c. c \<noteq> newline) t | _ \<Rightarrow> ''E'')),
     cd_from_slice = (\<lambda>f. case f of [] \<Rightarrow> Inl ''eof'' | ch # _ \<Rightarrow> if ch = newline then Inl ''empty'' else
        Inr \<lparr>jq_jsonrpc = ''2.0'', jq_method = filter (\<lambda>c. c \<noteq> newline) f, jq_params = JNull, jq_id = None\<rparr>)\<rparr>"

definition demo_server :: "nat server" where
  "demo_server = \<lparr>sv_codec = demo_codec, sv_dispatch = (\<lambda>q s. (response_ok (jq_id q) (JStr (jq_method q)), s + 1)),
     sv_is_shutdown = (\<lambda>m. m = ''stop'')\<rparr>"

definition demo_peer :: peer where
  "demo_peer = \<lparr>pe_fault = None, pe_payload = (\<lambda>_. None), pe_newline = (\<lambda>_. None), pe_flush = (\<lambda>_. None)\<rparr>"

definition demo_input :: string where
  "demo_input = end_lines newline [''ping'', [], ''stop''] @ ''late''"

lemma demo_frames: "frames_of demo_input = [''ping'' @ [newline], [newline], ''stop'' @ [newline], ''late'']"
  by code_simp

definition demo_output :: written where
  "demo_output = \<lparr>ou_bytes = ''Rping'' @ newline # ''E'' @ newline # ''Rstop'' @ [newline],
     ou_payloads = [''Rping'', ''E'', ''Rstop'']\<rparr>"

lemma demo_served:
  "serve_messages (\<lambda>_. False) (serve_frame write_end True demo_server demo_peer) 0 no_output 0 (frames_of demo_input)
     = \<lparr>sd_end = ServeOk, sd_out = demo_output, sd_state = 2, sd_shutdown = True\<rparr>"
  unfolding demo_frames
  by (simp add: serve_frame_def respond_def bounded_payload_def demo_server_def demo_peer_def demo_codec_def
      parse_error_def response_ok_def response_error_def max_response_bytes_def newline_def
      put_payload_def put_newline_def no_output_def demo_output_def)

lemma demo_fits: "\<forall>f \<in> set (frames_of demo_input). fits max_request_bytes f"
  by (simp add: demo_frames fits_def max_request_bytes_def)

theorem daemon_serves_frames_witness:
  "handle_connection demo_server demo_peer 0 no_output 0 demo_input
     = Some \<lparr>sd_end = ServeOk, sd_out = demo_output, sd_state = 2, sd_shutdown = True\<rparr>"
  using daemon_serves_frames [OF _ demo_fits, of demo_peer demo_server 0 no_output 0] demo_served
  by (simp add: demo_peer_def)

text \<open>
  C36: responses can be read back. With a codec whose texts contain no newline (what the compact
  printer of serde_json promises), and in which the last-resort error (no id, a size) is within the
  response budget, every payload the daemon or the MCP server sends is within the budget, and cutting
  the bytes written on the connection after each newline gives the payloads one by one. Only on a
  connection whose writes fail is there a last frame without a newline, a part of the payload whose
  write failed.
\<close>

theorem responses_readable:
  assumes served: "handle_connection sv pe 0 no_output s input = Some d
      \<or> serve_streams sv pe signalled 0 no_output s input = Some d"
    and one_line: "\<And>r p. cd_to_vec (sv_codec sv) r = Inr p \<Longrightarrow> newline \<notin> set p"
    and last_resort: "\<And>size p. cd_to_vec (sv_codec sv) (too_large_response None size) = Inr p \<Longrightarrow> length p \<le> max_response_bytes"
  shows "readable (writes_succeed pe) (sd_out d)"
  using served
proof
  assume "handle_connection sv pe 0 no_output s input = Some d"
  then show ?thesis by (rule daemon.run_readable [rotated 2]) (erule one_line last_resort)+
next
  assume "serve_streams sv pe signalled 0 no_output s input = Some d"
  then show ?thesis by (rule mcp.run_readable [rotated 2]) (erule one_line last_resort)+
qed

theorem responses_readable_witness:
  "readable True demo_output
   \<and> frames_of (ou_bytes demo_output) = [''Rping'' @ [newline], ''E'' @ [newline], ''Rstop'' @ [newline]]"
proof -
  have "handle_connection demo_server demo_peer 0 no_output 0 demo_input
      = Some \<lparr>sd_end = ServeOk, sd_out = demo_output, sd_state = 2, sd_shutdown = True\<rparr>"
    using daemon.run_frames [OF _ demo_fits, of demo_peer demo_server 0 no_output 0] demo_served
    by (simp add: demo_peer_def)
  from responses_readable [OF disjI1 [OF this]]
  have "readable (writes_succeed demo_peer) demo_output"
    by (auto simp: demo_server_def demo_codec_def too_large_response_def response_error_def newline_def
        max_response_bytes_def split: option.splits json.splits)
  moreover have "writes_succeed demo_peer" by (simp add: writes_succeed_def demo_peer_def)
  ultimately show ?thesis by (simp add: readable_def demo_output_def)
qed

text \<open>
  a request beyond the budget is answered with the size error and closes the connection: it never
  reaches the decoder or the dispatcher, the state stays, and nothing after it is read.
\<close>

theorem oversized_request_closes:
  assumes "newline \<notin> set (take max_request_bytes input)" "max_request_bytes \<le> length input"
    and "pe_fault pe = None" "pe_payload pe n = None" "pe_newline pe n = None" "pe_flush pe n = None"
    and "bounded_payload (sv_codec sv) request_too_large = Inr payload"
  shows "handle_connection sv pe n out s input = Some
    \<lparr>sd_end = ServeOk, sd_out = put_newline (put_payload payload out), sd_state = s, sd_shutdown = False\<rparr>"
proof -
  obtain frame rest where "read_frame (pe_fault pe) input = Inr (FrameTooLarge, frame, rest)"
    using read_frame_oversized [OF assms(1,2), of "pe_fault pe"] assms(3)
    by (auto simp: read_frame_def max_request_bytes_def)
  with assms(4-7) show ?thesis
    by (simp add: handle_connection.simps [of sv pe n out s input] serve_frame_def respond_def Let_def)
qed

theorem oversized_request_closes_witness:
  "handle_connection demo_server demo_peer 0 no_output 0 (replicate 300000 CHR ''x'') = Some
     \<lparr>sd_end = ServeOk, sd_out = \<lparr>ou_bytes = ''E'' @ [newline], ou_payloads = [''E'']\<rparr>, sd_state = 0, sd_shutdown = False\<rparr>"
proof -
  have "bounded_payload (sv_codec demo_server) request_too_large = Inr ''E''"
    by (simp add: bounded_payload_def demo_server_def demo_codec_def request_too_large_def response_error_def
        max_response_bytes_def)
  moreover have "newline \<notin> set (take max_request_bytes (replicate 300000 CHR ''x''))"
    by (auto simp: newline_def dest!: in_set_takeD)
  ultimately show ?thesis
    using oversized_request_closes [of "replicate 300000 CHR ''x''" demo_peer 0 demo_server "''E''" no_output 0]
    by (simp add: demo_peer_def max_request_bytes_def put_payload_def put_newline_def no_output_def)
qed

end
