(* ===== verification/Job_Registry.thy ===== *)
theory Job_Registry
  imports Json "HOL-Library.Multiset"
begin

text \<open>
  The background jobs of the daemon (\<open>snow_daemon/src/jobs/registry.rs\<close>): the registry's operations,
  one definition for every section that holds one of its locks, and their composition.

  The \<open>HashMap\<close> of jobs is a map in key order; where the code iterates over it, the iteration order is
  the argument \<open>order\<close>. The clock is the argument \<open>now\<close>. A cancellation token is a number that is in
  \<open>rg_fired\<close> once the token is cancelled.
\<close>

datatype job_kind =
    KbSync | KbSyncFull | VerifyVault | PruneOrphans | RepairVault | RefreshAll | SemanticIndexRebuild

datatype job_status = JobPending | JobRunning | JobSucceeded | JobFailed | JobCancelled

record job_progress =
  jp_current :: nat
  jp_total :: "nat option"
  jp_stage :: string

record job =
  jb_id :: string
  jb_kind :: job_kind
  jb_status :: job_status
  jb_started_at :: time
  jb_finished_at :: "time option"
  jb_progress :: "job_progress option"
  jb_log_tail :: "string list"
  jb_result :: "json option"
  jb_error :: "string option"

definition log_tail_cap :: nat where
  "log_tail_cap = 200"

definition finished_retention_secs :: int where
  "finished_retention_secs = 30 * 60"

definition finished_cap :: nat where
  "finished_cap = 100"

record list_jobs_filter =
  lf_include_finished :: bool
  lf_limit :: "nat option"

text \<open>
  A mutex is a number. \<open>rg_kind_locks\<close> is the map of the code, from a kind to its mutex; \<open>rg_lock_of\<close> is the
  mutex the task of a job got from it (the \<open>Arc\<close> the task keeps), \<open>rg_held\<close> the job whose guard locks a mutex.
\<close>

record job_registry =
  rg_jobs :: "(string, job) btree"
  rg_kind_locks :: "(job_kind \<times> nat) list"
  rg_next_lock :: nat
  rg_lock_of :: "string \<Rightarrow> nat option"
  rg_held :: "nat \<Rightarrow> string option"
  rg_cancel_tokens :: "(string, nat) btree"
  rg_fired :: "nat list"
  rg_next_token :: nat

definition registry_new :: job_registry where
  "registry_new = \<lparr>rg_jobs = [], rg_kind_locks = [], rg_next_lock = 0, rg_lock_of = Map.empty, rg_held = Map.empty, rg_cancel_tokens = [],
     rg_fired = [], rg_next_token = 0\<rparr>"

text \<open>A change of one job, nothing when it is not in the map.\<close>

definition on_job :: "string \<Rightarrow> (job \<Rightarrow> job) \<Rightarrow> job_registry \<Rightarrow> job_registry" where
  "on_job i f rg = rg\<lparr>rg_jobs := bt_update (\<lambda>k _. k = i) f (rg_jobs rg)\<rparr>"

definition insert_job :: "time \<Rightarrow> string \<Rightarrow> job_kind \<Rightarrow> job_registry \<Rightarrow> job_registry" where
  "insert_job now i kind rg = rg\<lparr>rg_jobs := bt_insert i
     \<lparr>jb_id = i, jb_kind = kind, jb_status = JobPending, jb_started_at = now, jb_finished_at = None,
      jb_progress = None, jb_log_tail = [], jb_result = None, jb_error = None\<rparr> (rg_jobs rg)\<rparr>"

definition get_job :: "job_registry \<Rightarrow> string \<Rightarrow> job option" where
  "get_job rg i = bt_get (rg_jobs rg) i"

definition mark_running :: "string \<Rightarrow> job_registry \<Rightarrow> job_registry" where
  "mark_running i = on_job i (\<lambda>j. if jb_status j = JobPending then j\<lparr>jb_status := JobRunning\<rparr> else j)"

definition record_progress :: "string \<Rightarrow> job_progress \<Rightarrow> job_registry \<Rightarrow> job_registry" where
  "record_progress i p = on_job i (\<lambda>j. j\<lparr>jb_progress := Some p\<rparr>)"

definition push_log :: "string \<Rightarrow> string list \<Rightarrow> string list" where
  "push_log line log = (if length log = log_tail_cap then tl log else log) @ [line]"

definition append_log :: "string \<Rightarrow> string \<Rightarrow> job_registry \<Rightarrow> job_registry" where
  "append_log i line = on_job i (\<lambda>j. j\<lparr>jb_log_tail := push_log line (jb_log_tail j)\<rparr>)"

text \<open>The sections of \<open>finish\<close>: the job, its token, the sweep of the finished jobs, the tokens of the
  jobs swept.\<close>

definition finish_job ::
  "time \<Rightarrow> string \<Rightarrow> job_status \<Rightarrow> json option \<Rightarrow> string option \<Rightarrow> job_registry \<Rightarrow> job_registry" where
  "finish_job now i status result err = on_job i (\<lambda>j.
     j\<lparr>jb_status := (if jb_status j \<noteq> JobCancelled \<or> status = JobCancelled then status else jb_status j),
       jb_finished_at := Some now, jb_result := result, jb_error := err\<rparr>)"

definition drop_tokens :: "string list \<Rightarrow> job_registry \<Rightarrow> job_registry" where
  "drop_tokens is rg = rg\<lparr>rg_cancel_tokens := filter (\<lambda>(k, _). k \<notin> set is) (rg_cancel_tokens rg)\<rparr>"

definition sweep_jobs :: "time \<Rightarrow> string list \<Rightarrow> job_registry \<Rightarrow> string list \<times> job_registry" where
  "sweep_jobs now order rg =
     (let cutoff = now - secs finished_retention_secs;
          finished = List.map_filter (\<lambda>i. Option.bind (bt_get (rg_jobs rg) i)
            (\<lambda>j. map_option (\<lambda>t. (i, t)) (jb_finished_at j))) order;
          old = filter (\<lambda>(i, t). t < cutoff) finished;
          kept = filter (\<lambda>(i, t). \<not> t < cutoff) finished;
          excess = (if finished_cap < length kept
                    then take (length kept - finished_cap) (sort_key snd kept) else []);
          removed = map fst old @ map fst excess
      in (removed, rg\<lparr>rg_jobs := filter (\<lambda>(k, _). k \<notin> set removed) (rg_jobs rg)\<rparr>))"

definition sweep_retention :: "time \<Rightarrow> string list \<Rightarrow> job_registry \<Rightarrow> job_registry" where
  "sweep_retention now order rg = (case sweep_jobs now order rg of (removed, rg') \<Rightarrow>
     if removed = [] then rg' else drop_tokens removed rg')"

definition finish ::
  "time \<Rightarrow> string list \<Rightarrow> string \<Rightarrow> job_status \<Rightarrow> json option \<Rightarrow> string option \<Rightarrow> job_registry \<Rightarrow> job_registry" where
  "finish now order i status result err rg =
     sweep_retention now order (drop_tokens [i] (finish_job now i status result err rg))"

definition list_jobs :: "list_jobs_filter \<Rightarrow> string list \<Rightarrow> job_registry \<Rightarrow> job list" where
  "list_jobs f order rg =
     (let out = sort_key (\<lambda>j. - jb_started_at j)
            (filter (\<lambda>j. lf_include_finished f \<or> jb_finished_at j = None)
              (List.map_filter (bt_get (rg_jobs rg)) order))
      in case lf_limit f of Some n \<Rightarrow> take n out | None \<Rightarrow> out)"

definition register_token :: "string \<Rightarrow> job_registry \<Rightarrow> nat \<times> job_registry" where
  "register_token i rg = (rg_next_token rg,
     rg\<lparr>rg_cancel_tokens := bt_insert i (rg_next_token rg) (rg_cancel_tokens rg),
        rg_next_token := Suc (rg_next_token rg)\<rparr>)"

definition cancellable :: "job_registry \<Rightarrow> string \<Rightarrow> bool" where
  "cancellable rg i = (case bt_get (rg_jobs rg) i of
     Some j \<Rightarrow> jb_status j = JobPending \<or> jb_status j = JobRunning | None \<Rightarrow> False)"

text \<open>The sections of \<open>cancel\<close>: the check, the token, the job.\<close>

definition fire_token :: "string \<Rightarrow> job_registry \<Rightarrow> bool \<times> job_registry" where
  "fire_token i rg = (case bt_get (rg_cancel_tokens rg) i of
     Some t \<Rightarrow> if t \<notin> set (rg_fired rg) then (True, rg\<lparr>rg_fired := t # rg_fired rg\<rparr>) else (False, rg)
   | None \<Rightarrow> (False, rg))"

definition mark_cancelled :: "time \<Rightarrow> string \<Rightarrow> job_registry \<Rightarrow> job_registry" where
  "mark_cancelled now i = on_job i (\<lambda>j.
     if jb_status j = JobPending \<or> jb_status j = JobRunning
     then j\<lparr>jb_status := JobCancelled, jb_finished_at := Some now\<rparr> else j)"

definition cancel :: "time \<Rightarrow> string \<Rightarrow> job_registry \<Rightarrow> bool \<times> job_registry" where
  "cancel now i rg =
     (if \<not> cancellable rg i then (False, rg)
      else (case fire_token i rg of
          (True, rg') \<Rightarrow> (True, mark_cancelled now i rg')
        | (False, rg') \<Rightarrow> (False, rg')))"

text \<open>\<open>entry(kind).or_insert_with(..).clone()\<close>: the mutex of the kind, a new one the first time.\<close>

definition kind_lock :: "job_kind \<Rightarrow> job_registry \<Rightarrow> nat \<times> job_registry" where
  "kind_lock kind rg = (case map_of (rg_kind_locks rg) kind of
     Some l \<Rightarrow> (l, rg)
   | None \<Rightarrow> (rg_next_lock rg, rg\<lparr>rg_kind_locks := (kind, rg_next_lock rg) # rg_kind_locks rg,
       rg_next_lock := Suc (rg_next_lock rg)\<rparr>))"

subsection \<open>Laws of the operations\<close>

lemma get_on_job: "bt_get (rg_jobs (on_job i f rg)) k
    = (if k = i then map_option f (bt_get (rg_jobs rg) k) else bt_get (rg_jobs rg) k)"
  by (simp add: on_job_def bt_get_update option.map_ident_strong)

lemma wf_on_job [simp]: "bt_wf (rg_jobs (on_job i f rg)) = bt_wf (rg_jobs rg)"
  by (simp add: on_job_def)

lemma bt_get_filter: "bt_get (filter (\<lambda>(k, _). P k) m) k = (if P k then bt_get m k else None)"
  unfolding bt_get_def by (induction m) auto

lemma bt_wf_filter: "bt_wf m \<Longrightarrow> bt_wf (filter P m)"
  unfolding bt_wf_def by (induction m) auto

lemma on_job_fields [simp]:
  "rg_kind_locks (on_job i f rg) = rg_kind_locks rg" "rg_next_lock (on_job i f rg) = rg_next_lock rg"
  "rg_lock_of (on_job i f rg) = rg_lock_of rg" "rg_held (on_job i f rg) = rg_held rg"
  "rg_cancel_tokens (on_job i f rg) = rg_cancel_tokens rg" "rg_fired (on_job i f rg) = rg_fired rg"
  "rg_next_token (on_job i f rg) = rg_next_token rg"
  by (simp_all add: on_job_def)

subsection \<open>The log tail\<close>

text \<open>
  the log tail is the end of the log. However many lines a job logs, its tail holds the last two
  hundred lines in order, what keeping the whole log and cutting it once gives.
\<close>

theorem log_tail_is_suffix:
  assumes "bt_get (rg_jobs rg) i = Some j" "length (jb_log_tail j) \<le> log_tail_cap"
  shows "\<exists>j'. bt_get (rg_jobs (fold (append_log i) lines rg)) i = Some j'
    \<and> jb_log_tail j' = drop (length (jb_log_tail j @ lines) - log_tail_cap) (jb_log_tail j @ lines)
    \<and> jb_status j' = jb_status j"
  using assms
proof (induction lines arbitrary: rg j)
  case Nil
  then show ?case by simp
next
  case (Cons line lines)
  let ?j = "j\<lparr>jb_log_tail := push_log line (jb_log_tail j)\<rparr>"
  have j: "bt_get (rg_jobs (append_log i line rg)) i = Some ?j"
    using Cons.prems(1) by (simp add: append_log_def get_on_job)
  have push: "push_log line log = drop (length log + 1 - log_tail_cap) (log @ [line])"
    if "length log \<le> log_tail_cap" for log
    using that by (cases log) (auto simp: push_log_def log_tail_cap_def Suc_le_eq)
  have cut: "drop (length (drop m xs @ ys) - log_tail_cap) (drop m xs @ ys) = drop (length (xs @ ys) - log_tail_cap) (xs @ ys)"
    if "m = length xs - log_tail_cap" for m and xs ys :: "string list"
    using that by (cases "length xs \<le> log_tail_cap") (auto simp: drop_append add.commute)
  have "length (jb_log_tail ?j) \<le> log_tail_cap" using Cons.prems(2) by (simp add: push)
  from Cons.IH [OF j this] show ?case
    using cut [of "length (jb_log_tail j) + 1 - log_tail_cap" "jb_log_tail j @ [line]" lines]
    by (simp add: push [OF Cons.prems(2)])
qed

theorem log_tail_is_suffix_witness:
  "\<exists>j'. bt_get (rg_jobs (fold (append_log ''a'') (replicate 300 ''x'' @ [''y'']) (insert_job 0 ''a'' KbSync registry_new))) ''a'' = Some j'
     \<and> jb_log_tail j' = replicate 199 ''x'' @ [''y'']"
proof -
  have j: "bt_get (rg_jobs (insert_job 0 ''a'' KbSync registry_new)) ''a'' = Some \<lparr>jb_id = ''a'', jb_kind = KbSync,
      jb_status = JobPending, jb_started_at = 0, jb_finished_at = None, jb_progress = None, jb_log_tail = [],
      jb_result = None, jb_error = None\<rparr>"
    by (simp add: insert_job_def registry_new_def bt_get_def)
  from log_tail_is_suffix [OF j, of "replicate 300 ''x'' @ [''y'']"] show ?thesis
    by (auto simp: log_tail_cap_def)
qed

subsection \<open>Retention\<close>

lemma set_map_filter: "set (List.map_filter f xs) = {y. \<exists>x \<in> set xs. f x = Some y}"
  by (induction xs) (auto simp: List.map_filter_simps split: option.splits)

lemma distinct_map_filter_fst:
  assumes "\<And>x y. f x = Some y \<Longrightarrow> fst y = x" "distinct xs"
  shows "distinct (map fst (List.map_filter f xs))"
  using assms(2)
proof (induction xs)
  case (Cons x xs)
  then show ?case using assms(1) by (auto simp: List.map_filter_simps set_map_filter split: option.split)
qed (simp add: List.map_filter_simps)

text \<open>The finished jobs of a registry.\<close>

definition finished_jobs :: "job_registry \<Rightarrow> (string \<times> job) list" where
  "finished_jobs rg = filter (\<lambda>(_, j). jb_finished_at j \<noteq> None) (rg_jobs rg)"

text \<open>How a sweep divides the finished jobs: the old ones, the excess of the others, and the rest.\<close>

lemma sweep_partition:
  assumes "bt_wf (rg_jobs rg)" "distinct order" "set order = set (map fst (rg_jobs rg))"
  obtains old excess rest where
    "rg_jobs (sweep_retention now order rg) = filter (\<lambda>(k, _). k \<notin> fst ` (set old \<union> set excess)) (rg_jobs rg)"
    "\<forall>i t. (i, t) \<in> set old \<union> set excess \<union> set rest
       \<longleftrightarrow> (\<exists>j. bt_get (rg_jobs rg) i = Some j \<and> jb_finished_at j = Some t)"
    "distinct (map fst (old @ excess @ rest))"
    "\<forall>i t. (i, t) \<in> set excess \<union> set rest \<longrightarrow> now - secs finished_retention_secs \<le> t"
    "\<forall>i t. (i, t) \<in> set old \<longrightarrow> t < now - secs finished_retention_secs"
    "\<forall>e \<in> set excess. \<forall>r \<in> set rest. snd e \<le> snd r"
    "length rest \<le> finished_cap \<and> (excess \<noteq> [] \<longrightarrow> length rest = finished_cap)"
proof -
  define cutoff where "cutoff = now - secs finished_retention_secs"
  define finished where "finished = List.map_filter (\<lambda>i. Option.bind (bt_get (rg_jobs rg) i)
            (\<lambda>j. map_option (\<lambda>t. (i, t)) (jb_finished_at j))) order"
  define old where "old = filter (\<lambda>(i, t). t < cutoff) finished"
  define kept where "kept = filter (\<lambda>(i, t). \<not> t < cutoff) finished"
  define excess where "excess = (if finished_cap < length kept
      then take (length kept - finished_cap) (sort_key snd kept) else [])"
  define rest where "rest = (if finished_cap < length kept
      then drop (length kept - finished_cap) (sort_key snd kept) else kept)"
  have jobs: "rg_jobs (sweep_retention now order rg) = filter (\<lambda>(k, _). k \<notin> fst ` (set old \<union> set excess)) (rg_jobs rg)"
    by (simp add: sweep_retention_def sweep_jobs_def drop_tokens_def cutoff_def finished_def old_def
        kept_def excess_def Let_def image_Un)
  have in_order: "i \<in> set order" if "bt_get (rg_jobs rg) i = Some j" for i j
    using that assms(3) by (force simp: bt_get_def dest: map_of_SomeD)
  have "distinct (map fst finished)"
    unfolding finished_def
    by (rule distinct_map_filter_fst [OF _ assms(2)]) (auto simp: Option.bind_eq_Some_conv)
  moreover have parts: "mset finished = mset (old @ excess @ rest)"
  proof -
    have "mset kept = mset (excess @ rest)"
      by (cases "finished_cap < length kept") (simp_all add: excess_def rest_def)
    moreover have "mset finished = mset old + mset kept"
      unfolding old_def kept_def by (induction finished) auto
    ultimately show ?thesis by simp
  qed
  ultimately have dist: "distinct (map fst (old @ excess @ rest))"
    by (metis mset_eq_imp_distinct_iff mset_map)
  have kept: "set kept = set excess \<union> set rest"
    by (cases "finished_cap < length kept")
      (simp_all add: excess_def rest_def flip: set_append)
  have all: "set old \<union> set excess \<union> set rest = set finished"
    using parts [THEN mset_eq_setD] by auto
  have member: "(i, t) \<in> set finished \<longleftrightarrow> (\<exists>j. bt_get (rg_jobs rg) i = Some j \<and> jb_finished_at j = Some t)" for i t
    using in_order by (auto simp: finished_def set_map_filter Option.bind_eq_Some_conv)
  have order: "snd e \<le> snd r" if "e \<in> set excess" "r \<in> set rest" for e r
  proof -
    have big: "finished_cap < length kept" using that(1) by (auto simp: excess_def split: if_splits)
    have "sorted (map snd (excess @ rest))" using big by (simp add: excess_def rest_def)
    with that show ?thesis by (auto simp: sorted_append)
  qed
  show ?thesis
    by (rule that [OF jobs _ dist])
      (use member order in \<open>auto simp: all kept [symmetric], auto simp: kept_def old_def cutoff_def excess_def rest_def\<close>)
qed

text \<open>What is left once the old jobs and the excess are gone.\<close>

lemma finished_jobs_left:
  assumes "bt_wf (rg_jobs rg')" "distinct (map fst (gone @ rest))"
    and jobs: "rg_jobs rg' = filter (\<lambda>(k, _). k \<notin> fst ` set gone) (rg_jobs rg)"
    and all: "\<forall>i t. (i, t) \<in> set gone \<union> set rest \<longleftrightarrow> (\<exists>j. bt_get (rg_jobs rg) i = Some j \<and> jb_finished_at j = Some t)"
  shows "(i, j) \<in> set (finished_jobs rg') \<longleftrightarrow> bt_get (rg_jobs rg) i = Some j \<and> (\<exists>t. jb_finished_at j = Some t \<and> (i, t) \<in> set rest)"
    "length (finished_jobs rg') = length rest"
proof -
  have left: "(i, j) \<in> set (finished_jobs rg') \<longleftrightarrow> bt_get (rg_jobs rg) i = Some j \<and> (\<exists>t. jb_finished_at j = Some t \<and> (i, t) \<in> set rest)"
    for i j
  proof -
    have "(i, j) \<in> set (finished_jobs rg') \<longleftrightarrow> bt_get (rg_jobs rg') i = Some j \<and> (\<exists>t. jb_finished_at j = Some t)"
      using bt_get_in_set [OF assms(1)] by (auto simp: finished_jobs_def)
    also have "\<dots> \<longleftrightarrow> i \<notin> fst ` set gone \<and> (\<exists>t. bt_get (rg_jobs rg) i = Some j \<and> jb_finished_at j = Some t
        \<and> (i, t) \<in> set gone \<union> set rest)"
      unfolding jobs bt_get_filter using all by (auto split: if_splits)
    also have "\<dots> \<longleftrightarrow> bt_get (rg_jobs rg) i = Some j \<and> (\<exists>t. jb_finished_at j = Some t \<and> (i, t) \<in> set rest)"
    proof -
      have "i \<notin> fst ` set gone" if "(i, t) \<in> set rest" for t
        using assms(2) that by (force simp: image_iff)
      moreover have "(i, t) \<notin> set gone" if "i \<notin> fst ` set gone" for t
        using that by force
      ultimately show ?thesis by blast
    qed
    finally show ?thesis .
  qed
  then show "(i, j) \<in> set (finished_jobs rg') \<longleftrightarrow> bt_get (rg_jobs rg) i = Some j \<and> (\<exists>t. jb_finished_at j = Some t \<and> (i, t) \<in> set rest)" .
  have image: "fst ` A = {i. \<exists>x. (i, x) \<in> A}" for A :: "(string \<times> 'x) set" by force
  have "fst ` set (finished_jobs rg') = fst ` set rest" unfolding image left using all by blast
  moreover have "distinct (map fst (finished_jobs rg'))"
    using bt_wf_distinct [OF assms(1)] by (simp add: finished_jobs_def distinct_map_filter)
  ultimately show "length (finished_jobs rg') = length rest"
    using assms(2) by (metis distinct_append distinct_card length_map map_append set_map)
qed

lemma sweep_kept:
  assumes "bt_wf (rg_jobs rg)" "distinct order" "set order = set (map fst (rg_jobs rg))"
    and "rg' = sweep_retention now order rg"
  obtains excess rest where
    "\<forall>i j. bt_get (rg_jobs rg') i = Some j \<longrightarrow> bt_get (rg_jobs rg) i = Some j"
    "\<forall>i j. bt_get (rg_jobs rg) i = Some j \<and> jb_finished_at j = None \<longrightarrow> bt_get (rg_jobs rg') i = Some j"
    "\<forall>i j. (i, j) \<in> set (finished_jobs rg') \<longleftrightarrow>
       bt_get (rg_jobs rg) i = Some j \<and> (\<exists>t. jb_finished_at j = Some t \<and> (i, t) \<in> set rest)"
    "length (finished_jobs rg') = length rest"
    "\<forall>i j t. bt_get (rg_jobs rg) i = Some j \<and> jb_finished_at j = Some t \<and> now - secs finished_retention_secs \<le> t
       \<and> bt_get (rg_jobs rg') i = None \<longrightarrow> (i, t) \<in> set excess"
    "\<forall>i t. (i, t) \<in> set rest \<longrightarrow> now - secs finished_retention_secs \<le> t"
    "\<forall>e \<in> set excess. \<forall>r \<in> set rest. snd e \<le> snd r"
    "length rest \<le> finished_cap \<and> (excess \<noteq> [] \<longrightarrow> length rest = finished_cap)"
proof -
  obtain old excess rest where jobs: "rg_jobs rg' = filter (\<lambda>(k, _). k \<notin> fst ` (set old \<union> set excess)) (rg_jobs rg)"
    and all: "\<forall>i t. (i, t) \<in> set old \<union> set excess \<union> set rest
       \<longleftrightarrow> (\<exists>j. bt_get (rg_jobs rg) i = Some j \<and> jb_finished_at j = Some t)"
    and dist: "distinct (map fst (old @ excess @ rest))"
    and young: "\<forall>i t. (i, t) \<in> set excess \<union> set rest \<longrightarrow> now - secs finished_retention_secs \<le> t"
    and aged: "\<forall>i t. (i, t) \<in> set old \<longrightarrow> t < now - secs finished_retention_secs"
    and order: "\<forall>e \<in> set excess. \<forall>r \<in> set rest. snd e \<le> snd r"
    and len: "length rest \<le> finished_cap \<and> (excess \<noteq> [] \<longrightarrow> length rest = finished_cap)"
    by (rule sweep_partition [where now = now, OF assms(1-3), folded assms(4)])
  have wf: "bt_wf (rg_jobs rg')" unfolding jobs by (rule bt_wf_filter [OF assms(1)])
  have get: "bt_get (rg_jobs rg') i = (if i \<in> fst ` (set old \<union> set excess) then None else bt_get (rg_jobs rg) i)" for i
    unfolding jobs bt_get_filter by simp
  have left: "(i, j) \<in> set (finished_jobs rg') \<longleftrightarrow> bt_get (rg_jobs rg) i = Some j \<and> (\<exists>t. jb_finished_at j = Some t \<and> (i, t) \<in> set rest)"
    "length (finished_jobs rg') = length rest" for i j
  proof -
    note jobs' = finished_jobs_left [OF wf, of "old @ excess" rest rg, unfolded set_append append_assoc, OF dist jobs]
    show "(i, j) \<in> set (finished_jobs rg') \<longleftrightarrow> bt_get (rg_jobs rg) i = Some j \<and> (\<exists>t. jb_finished_at j = Some t \<and> (i, t) \<in> set rest)"
      "length (finished_jobs rg') = length rest"
      using jobs' all by blast+
  qed
  have swept: "(i, t) \<in> set excess"
    if "bt_get (rg_jobs rg) i = Some j" "jb_finished_at j = Some t" "now - secs finished_retention_secs \<le> t"
      "bt_get (rg_jobs rg') i = None" for i j t
  proof -
    have "i \<in> fst ` (set old \<union> set excess)" using that(1,4) get by (metis option.distinct(1))
    then obtain u where u: "(i, u) \<in> set old \<union> set excess" by force
    then have "u = t" using all that(1,2) by (metis UnI1 option.inject)
    with u aged that(3) show ?thesis by fastforce
  qed
  have unfinished: "bt_get (rg_jobs rg') i = Some j"
    if "bt_get (rg_jobs rg) i = Some j" "jb_finished_at j = None" for i j
  proof -
    have "i \<notin> fst ` (set old \<union> set excess)"
    proof
      assume "i \<in> fst ` (set old \<union> set excess)"
      then obtain u where "(i, u) \<in> set old \<union> set excess \<union> set rest" by force
      with all that show False by auto
    qed
    with that show ?thesis by (simp add: get)
  qed
  have same: "bt_get (rg_jobs rg) i = Some j" if "bt_get (rg_jobs rg') i = Some j" for i j
    using that by (simp add: get split: if_splits)
  show ?thesis
    by (rule that [of rest excess]) (use same unfinished left swept young order len in blast)+
qed

text \<open>
  the retention of finished jobs. A sweep keeps every unfinished job and changes no job it keeps;
  the finished jobs it keeps are at most one hundred and none finished more than thirty minutes ago,
  and a job younger than that goes only while a hundred others that finished no earlier stay.
\<close>

theorem sweep_retention_bounds:
  assumes "bt_wf (rg_jobs rg)" "distinct order" "set order = set (map fst (rg_jobs rg))"
    and "rg' = sweep_retention now order rg"
  shows "length (finished_jobs rg') \<le> finished_cap
    \<and> (\<forall>(i, j) \<in> set (finished_jobs rg'). now - secs finished_retention_secs \<le> the (jb_finished_at j))
    \<and> (\<forall>i j. bt_get (rg_jobs rg') i = Some j \<longrightarrow> bt_get (rg_jobs rg) i = Some j)
    \<and> (\<forall>i j. bt_get (rg_jobs rg) i = Some j \<and> jb_finished_at j = None \<longrightarrow> bt_get (rg_jobs rg') i = Some j)
    \<and> (\<forall>i j t. bt_get (rg_jobs rg) i = Some j \<and> jb_finished_at j = Some t
         \<and> now - secs finished_retention_secs \<le> t \<and> bt_get (rg_jobs rg') i = None
         \<longrightarrow> length (finished_jobs rg') = finished_cap
             \<and> (\<forall>(k, j) \<in> set (finished_jobs rg'). t \<le> the (jb_finished_at j)))"
proof -
  obtain excess rest where kept: "\<forall>i j. bt_get (rg_jobs rg') i = Some j \<longrightarrow> bt_get (rg_jobs rg) i = Some j"
    "\<forall>i j. bt_get (rg_jobs rg) i = Some j \<and> jb_finished_at j = None \<longrightarrow> bt_get (rg_jobs rg') i = Some j"
    and left: "\<forall>i j. (i, j) \<in> set (finished_jobs rg') \<longleftrightarrow>
       bt_get (rg_jobs rg) i = Some j \<and> (\<exists>t. jb_finished_at j = Some t \<and> (i, t) \<in> set rest)"
    "length (finished_jobs rg') = length rest"
    and swept: "\<forall>i j t. bt_get (rg_jobs rg) i = Some j \<and> jb_finished_at j = Some t \<and> now - secs finished_retention_secs \<le> t
       \<and> bt_get (rg_jobs rg') i = None \<longrightarrow> (i, t) \<in> set excess"
    and young: "\<forall>i t. (i, t) \<in> set rest \<longrightarrow> now - secs finished_retention_secs \<le> t"
    and order: "\<forall>e \<in> set excess. \<forall>r \<in> set rest. snd e \<le> snd r"
    and len: "length rest \<le> finished_cap \<and> (excess \<noteq> [] \<longrightarrow> length rest = finished_cap)"
    by (rule sweep_kept [OF assms])
  show ?thesis
  proof (intro conjI kept, goal_cases)
    case 1
    show ?case using left(2) len by simp
  next
    case 2
    show ?case using left(1) young by fastforce
  next
    case 3
    show ?case
    proof (intro allI impI conjI, goal_cases)
      case (1 i j t)
      then have "excess \<noteq> []" using swept by (metis list.set(1) empty_iff)
      then show ?case using len left(2) by simp
    next
      case (2 i j t)
      then have "\<forall>r \<in> set rest. t \<le> snd r" using swept order by (metis snd_conv)
      then show ?case using left(1) by fastforce
    qed
  qed
qed

text \<open>A registry with an old, a recent and a running job.\<close>

definition demo_job :: "string \<Rightarrow> job_status \<Rightarrow> time option \<Rightarrow> job" where
  "demo_job i status t = \<lparr>jb_id = i, jb_kind = KbSync, jb_status = status, jb_started_at = 0,
     jb_finished_at = t, jb_progress = None, jb_log_tail = [], jb_result = None, jb_error = None\<rparr>"

definition demo_registry :: job_registry where
  "demo_registry = registry_new\<lparr>rg_jobs := [(''a'', demo_job ''a'' JobSucceeded (Some (secs 100))),
     (''b'', demo_job ''b'' JobFailed (Some (secs 3900))), (''c'', demo_job ''c'' JobRunning None)]\<rparr>"

theorem sweep_retention_bounds_witness:
  "map fst (rg_jobs (sweep_retention (secs 4000) [''c'', ''a'', ''b''] demo_registry)) = [''b'', ''c'']
   \<and> length (finished_jobs (sweep_retention (secs 4000) [''c'', ''a'', ''b''] demo_registry)) \<le> finished_cap"
proof -
  have "bt_wf (rg_jobs demo_registry)" "distinct [''c'', ''a'', ''b'']"
    "set [''c'', ''a'', ''b''] = set (map fst (rg_jobs demo_registry))"
    by (auto simp: demo_registry_def bt_wf_def)
  note bounds = sweep_retention_bounds [OF this refl, of "secs 4000"]
  have "map fst (rg_jobs (sweep_retention (secs 4000) [''c'', ''a'', ''b''] demo_registry)) = [''b'', ''c'']"
    by code_simp
  with bounds [THEN conjunct1] show ?thesis by blast
qed

end
