(* ===== verification/Job_Workers.thy ===== *)
theory Job_Workers
  imports Job_Registry
begin

text \<open>
  The workers of the background jobs (\<open>snow_daemon/src/jobs/workers.rs\<close>, \<open>spawn\<close>) and the
  cancellations of \<open>registry.rs\<close>, interleaved: a step relation on the registry, the phase of every
  spawned job and the cancellations under way. One step is one section between two \<open>await\<close>s, so the
  sections of \<open>finish\<close> and of \<open>cancel\<close> interleave with everything else.

  What a worker computes (\<open>run_kind\<close>) is left open: a result, an error, and the progress and log lines
  on the way, in any order. That it returns one of the two is assumed: a panic of \<open>run_kind\<close>, which would
  drop the guard and leave the entry running for good, has no step. The clock is arbitrary;
  \<open>Uuid::new_v4\<close> yields an id never used before.
\<close>

datatype worker_phase =
    Inserted
  | Registered nat
  | Waiting nat
  | Holding nat
  | Starting nat
  | Working nat
  | Finishing job_status "json option" "string option"
  | FinishingTokens
  | Sweeping
  | SweepingTokens "string list"
  | Released

datatype cancellation = CancelChecked string | CancelFired string

record job_system =
  js_registry :: job_registry
  js_workers :: "string \<Rightarrow> (job_kind \<times> worker_phase) option"
  js_cancels :: "cancellation list"
  js_replies :: "(string \<times> bool) list"

definition system_start :: job_system where
  "system_start = \<lparr>js_registry = registry_new, js_workers = (\<lambda>_. None), js_cancels = [], js_replies = []\<rparr>"

definition move :: "string \<Rightarrow> job_kind \<Rightarrow> worker_phase \<Rightarrow> job_registry \<Rightarrow> job_system \<Rightarrow> job_system" where
  "move i kind phase rg s = s\<lparr>js_registry := rg, js_workers := (js_workers s)(i \<mapsto> (kind, phase))\<rparr>"

text \<open>The outcome of \<open>run_kind\<close>, and whether the token is cancelled when it is looked at.\<close>

fun outcome_phase :: "(string, json) result \<Rightarrow> bool \<Rightarrow> worker_phase" where
  "outcome_phase (Inr v) False = Finishing JobSucceeded (Some v) None"
| "outcome_phase (Inr v) True = Finishing JobCancelled None None"
| "outcome_phase (Inl e) c = Finishing JobFailed None (Some e)"

text \<open>The task of a job keeps its mutex; its guard locks and unlocks it.\<close>

definition keep_lock :: "string \<Rightarrow> nat \<Rightarrow> job_registry \<Rightarrow> job_registry" where
  "keep_lock i l rg = rg\<lparr>rg_lock_of := (rg_lock_of rg)(i \<mapsto> l)\<rparr>"

definition hold :: "nat \<Rightarrow> string option \<Rightarrow> job_registry \<Rightarrow> job_registry" where
  "hold l owner rg = rg\<lparr>rg_held := (rg_held rg)(l := owner)\<rparr>"

definition reply :: "string \<Rightarrow> bool \<Rightarrow> job_system \<Rightarrow> job_system" where
  "reply i b s = s\<lparr>js_replies := js_replies s @ [(i, b)]\<rparr>"

text \<open>The steps of the worker of job \<open>i\<close>, from one phase to the next.\<close>

inductive worker_step ::
  "job_registry \<Rightarrow> string \<Rightarrow> job_kind \<Rightarrow> worker_phase \<Rightarrow> worker_phase \<Rightarrow> job_registry \<Rightarrow> bool" where
  Register: "register_token i rg = (t, rg') \<Longrightarrow> worker_step rg i kind Inserted (Registered t) rg'"
| KindLock: "kind_lock kind rg = (l, rg') \<Longrightarrow> worker_step rg i kind (Registered t) (Waiting t) (keep_lock i l rg')"
| Acquire: "rg_lock_of rg i = Some l \<Longrightarrow> rg_held rg l = None \<Longrightarrow>
    worker_step rg i kind (Waiting t) (Holding t) (hold l (Some i) rg)"
| SeeCancelled: "t \<in> set (rg_fired rg) \<Longrightarrow>
    worker_step rg i kind (Holding t) (Finishing JobCancelled None None) rg"
| Proceed: "t \<notin> set (rg_fired rg) \<Longrightarrow> worker_step rg i kind (Holding t) (Starting t) rg"
| MarkRunning: "worker_step rg i kind (Starting t) (Working t) (mark_running i rg)"
| Progress: "worker_step rg i kind (Working t) (Working t) (record_progress i p rg)"
| Log: "worker_step rg i kind (Working t) (Working t) (append_log i line rg)"
| Outcome: "worker_step rg i kind (Working t) (outcome_phase r (t \<in> set (rg_fired rg))) rg"
| FinishJob: "worker_step rg i kind (Finishing status result err) FinishingTokens (finish_job now i status result err rg)"
| FinishTokens: "worker_step rg i kind FinishingTokens Sweeping (drop_tokens [i] rg)"
| Sweep: "distinct order \<Longrightarrow> set order = set (map fst (rg_jobs rg)) \<Longrightarrow> sweep_jobs now order rg = (removed, rg') \<Longrightarrow>
    worker_step rg i kind Sweeping (SweepingTokens removed) rg'"
| SweepTokens: "rg_lock_of rg i = Some l \<Longrightarrow> worker_step rg i kind (SweepingTokens removed) Released
    (hold l None (if removed = [] then rg else drop_tokens removed rg))"

inductive job_step :: "job_system \<Rightarrow> job_system \<Rightarrow> bool" where
  Spawn: "js_workers s i = None \<Longrightarrow> bt_get (rg_jobs (js_registry s)) i = None \<Longrightarrow>
    job_step s (move i kind Inserted (insert_job now i kind (js_registry s)) s)"
| Work: "js_workers s i = Some (kind, phase) \<Longrightarrow> worker_step (js_registry s) i kind phase phase' rg' \<Longrightarrow>
    job_step s (move i kind phase' rg' s)"
| CancelCheck: "cancellable (js_registry s) i \<Longrightarrow>
    job_step s (s\<lparr>js_cancels := CancelChecked i # js_cancels s\<rparr>)"
| CancelRefuse: "\<not> cancellable (js_registry s) i \<Longrightarrow> job_step s (reply i False s)"
| CancelFire: "js_cancels s = xs @ CancelChecked i # ys \<Longrightarrow> fire_token i (js_registry s) = (True, rg') \<Longrightarrow>
    job_step s (s\<lparr>js_registry := rg', js_cancels := xs @ CancelFired i # ys\<rparr>)"
| CancelTooLate: "js_cancels s = xs @ CancelChecked i # ys \<Longrightarrow> fire_token i (js_registry s) = (False, rg') \<Longrightarrow>
    job_step s (reply i False (s\<lparr>js_registry := rg', js_cancels := xs @ ys\<rparr>))"
| CancelMark: "js_cancels s = xs @ CancelFired i # ys \<Longrightarrow>
    job_step s (reply i True (s\<lparr>js_registry := mark_cancelled now i (js_registry s), js_cancels := xs @ ys\<rparr>))"

inductive_cases worker_stepE: "worker_step rg i kind phase phase' rg'"
inductive_cases job_stepE: "job_step s s'"

inductive_simps worker_step_simps [simp]:
  "worker_step rg i kind Inserted phase' rg'" "worker_step rg i kind (Registered t) phase' rg'" "worker_step rg i kind (Waiting t) phase' rg'"
  "worker_step rg i kind (Holding t) phase' rg'" "worker_step rg i kind Released phase' rg'"

definition reaches :: "job_system \<Rightarrow> job_system \<Rightarrow> bool" where
  "reaches = job_step\<^sup>*\<^sup>*"

subsection \<open>The invariant\<close>

definition terminal :: "job_status \<Rightarrow> bool" where
  "terminal st = (st \<in> set [JobSucceeded, JobFailed, JobCancelled])"

text \<open>The type of a job entry: it has a finishing time exactly when its status is terminal, its log is
  bounded, and only a job that ended has a result or an error.\<close>

definition job_ok :: "job \<Rightarrow> bool" where
  "job_ok j = ((jb_finished_at j \<noteq> None \<longleftrightarrow> terminal (jb_status j))
     \<and> length (jb_log_tail j) \<le> log_tail_cap
     \<and> (jb_result j \<noteq> None \<or> jb_error j \<noteq> None \<longrightarrow> terminal (jb_status j))
     \<and> (jb_result j = None \<or> jb_error j = None))"

text \<open>The status a job may have in a phase of its worker.\<close>

fun phase_status :: "worker_phase \<Rightarrow> job_status \<Rightarrow> bool" where
  "phase_status (Finishing status result err) st = (st \<noteq> JobSucceeded \<and> st \<noteq> JobFailed)"
| "phase_status (Working t) st = (st = JobRunning \<or> st = JobCancelled)"
| "phase_status FinishingTokens st = terminal st"
| "phase_status Sweeping st = terminal st"
| "phase_status (SweepingTokens removed) st = terminal st"
| "phase_status Released st = terminal st"
| "phase_status phase st = (st = JobPending \<or> st = JobCancelled)"

fun holds_lock :: "worker_phase \<Rightarrow> bool" where
  "holds_lock Inserted = False"
| "holds_lock (Registered t) = False"
| "holds_lock (Waiting t) = False"
| "holds_lock Released = False"
| "holds_lock _ = True"

fun phase_ok :: "worker_phase \<Rightarrow> bool" where
  "phase_ok (Finishing status result err) = (terminal status \<and> (result = None \<or> err = None))"
| "phase_ok _ = True"

text \<open>The job that holds the mutex of a kind.\<close>

definition kind_owner :: "job_registry \<Rightarrow> job_kind \<Rightarrow> string option" where
  "kind_owner rg kind = Option.bind (map_of (rg_kind_locks rg) kind) (rg_held rg)"

text \<open>No two kinds share a mutex, and a mutex that is not handed out yet is free.\<close>

definition locks_ok :: "job_registry \<Rightarrow> bool" where
  "locks_ok rg = ((\<forall>kind l. map_of (rg_kind_locks rg) kind = Some l \<longrightarrow> l < rg_next_lock rg
       \<and> (\<forall>kind'. map_of (rg_kind_locks rg) kind' = Some l \<longrightarrow> kind' = kind))
     \<and> (\<forall>l \<ge> rg_next_lock rg. rg_held rg l = None))"

text \<open>From the section of \<open>kind_lock\<close> on, the task of a job keeps the mutex of its kind.\<close>

fun has_lock :: "worker_phase \<Rightarrow> bool" where
  "has_lock Inserted = False"
| "has_lock (Registered t) = False"
| "has_lock _ = True"

definition keeps_kind_lock :: "job_registry \<Rightarrow> string \<Rightarrow> job_kind \<Rightarrow> worker_phase \<Rightarrow> bool" where
  "keeps_kind_lock rg i kind phase = (has_lock phase \<longrightarrow>
     (\<exists>l. rg_lock_of rg i = Some l \<and> map_of (rg_kind_locks rg) kind = Some l))"

definition system_ok :: "job_system \<Rightarrow> bool" where
  "system_ok s = (bt_wf (rg_jobs (js_registry s))
     \<and> (\<forall>i j. bt_get (rg_jobs (js_registry s)) i = Some j \<longrightarrow> job_ok j \<and> jb_id j = i
          \<and> (\<exists>phase. js_workers s i = Some (jb_kind j, phase) \<and> phase_status phase (jb_status j)))
     \<and> (\<forall>i kind phase. js_workers s i = Some (kind, phase) \<longrightarrow>
          (holds_lock phase \<longleftrightarrow> kind_owner (js_registry s) kind = Some i)
          \<and> phase_ok phase \<and> keeps_kind_lock (js_registry s) i kind phase)
     \<and> (\<forall>i kind. kind_owner (js_registry s) kind = Some i \<longrightarrow> (\<exists>phase. js_workers s i = Some (kind, phase)))
     \<and> locks_ok (js_registry s))"

lemma terminal_simps [simp]:
  "terminal JobSucceeded" "terminal JobFailed" "terminal JobCancelled" "\<not> terminal JobPending" "\<not> terminal JobRunning"
  by (simp_all add: terminal_def)

lemma terminal_iff: "terminal st \<longleftrightarrow> st \<noteq> JobPending \<and> st \<noteq> JobRunning"
  by (cases st) simp_all

text \<open>What a registry operation does to the entries and to the mutexes.\<close>

definition locks_of :: "job_registry \<Rightarrow> (job_kind \<times> nat) list \<times> nat \<times> (string \<Rightarrow> nat option) \<times> (nat \<Rightarrow> string option)" where
  "locks_of rg = (rg_kind_locks rg, rg_next_lock rg, rg_lock_of rg, rg_held rg)"

lemma same_locks:
  assumes "locks_of rg' = locks_of rg"
  shows "kind_owner rg' = kind_owner rg" "locks_ok rg' = locks_ok rg" "keeps_kind_lock rg' = keeps_kind_lock rg"
    "rg_lock_of rg' = rg_lock_of rg"
proof -
  have parts: "rg_kind_locks rg' = rg_kind_locks rg" "rg_next_lock rg' = rg_next_lock rg"
    "rg_lock_of rg' = rg_lock_of rg" "rg_held rg' = rg_held rg" using assms by (simp_all add: locks_of_def)
  show "kind_owner rg' = kind_owner rg" "keeps_kind_lock rg' = keeps_kind_lock rg"
    by (intro ext, simp add: kind_owner_def keeps_kind_lock_def parts)+
  show "locks_ok rg' = locks_ok rg" by (simp add: locks_ok_def parts)
qed (use assms in \<open>simp add: locks_of_def\<close>)

lemma registry_jobs [simp]:
  "rg_jobs (keep_lock i l rg) = rg_jobs rg" "rg_jobs (hold l owner rg) = rg_jobs rg"
  "rg_jobs (drop_tokens is rg) = rg_jobs rg"
  by (simp_all add: keep_lock_def hold_def drop_tokens_def)

lemma registry_locks [simp]:
  "locks_of (drop_tokens is rg) = locks_of rg" "locks_of (on_job i f rg) = locks_of rg"
  "locks_of (insert_job now i kind rg) = locks_of rg"
  by (simp_all add: locks_of_def drop_tokens_def insert_job_def)

lemma kind_lock_registry:
  "kind_lock kind rg = (l, rg') \<Longrightarrow> rg_jobs rg' = rg_jobs rg \<and> rg_fired rg' = rg_fired rg"
  by (auto simp: kind_lock_def split: option.splits)

lemma register_token_registry:
  "register_token i rg = (t, rg') \<Longrightarrow> rg_jobs rg' = rg_jobs rg \<and> locks_of rg' = locks_of rg \<and> rg_fired rg' = rg_fired rg"
  by (auto simp: register_token_def locks_of_def)

lemma fire_token_registry:
  "fire_token i rg = (b, rg') \<Longrightarrow> rg_jobs rg' = rg_jobs rg \<and> locks_of rg' = locks_of rg
     \<and> set (rg_fired rg) \<subseteq> set (rg_fired rg')"
  by (auto simp: fire_token_def locks_of_def split: option.splits if_splits)

lemma sweep_jobs_registry:
  "sweep_jobs now order rg = (removed, rg') \<Longrightarrow> rg_jobs rg' = filter (\<lambda>(k, _). k \<notin> set removed) (rg_jobs rg)
     \<and> locks_of rg' = locks_of rg \<and> rg_fired rg' = rg_fired rg"
  by (auto simp: sweep_jobs_def locks_of_def Let_def)

lemmas registry_dests = kind_lock_registry register_token_registry fire_token_registry sweep_jobs_registry

lemmas on_job_defs = mark_running_def record_progress_def append_log_def finish_job_def mark_cancelled_def

lemma push_log_bound: "length log \<le> log_tail_cap \<Longrightarrow> length (push_log line log) \<le> log_tail_cap"
  by (cases log) (auto simp: push_log_def log_tail_cap_def)

text \<open>The entry of the worker's own job, and that of another job.\<close>

lemma worker_step_own:
  assumes "worker_step rg i kind phase phase' rg'" "phase_ok phase"
    and "\<And>j. bt_get (rg_jobs rg) i = Some j \<Longrightarrow> job_ok j \<and> jb_id j = i \<and> jb_kind j = kind \<and> phase_status phase (jb_status j)"
    and "bt_get (rg_jobs rg') i = Some j'"
  shows "job_ok j' \<and> jb_id j' = i \<and> jb_kind j' = kind \<and> phase_status phase' (jb_status j')
    \<and> (\<exists>j. bt_get (rg_jobs rg) i = Some j \<and> (terminal (jb_status j) \<longrightarrow> jb_status j' = jb_status j))"
  using assms
proof (induction rule: worker_step.induct)
  case (Outcome rg i kind t r)
  then show ?case by (cases r; cases "t \<in> set (rg_fired rg)") auto
next
  case (FinishJob rg i kind status result err now)
  from FinishJob(3) obtain j where j: "bt_get (rg_jobs rg) i = Some j"
    and j': "j' = j\<lparr>jb_status := (if jb_status j \<noteq> JobCancelled \<or> status = JobCancelled then status else jb_status j),
       jb_finished_at := Some now, jb_result := result, jb_error := err\<rparr>"
    by (auto simp: finish_job_def get_on_job)
  from FinishJob(1) FinishJob(2) [OF j] show ?case
    by (cases "jb_status j") (simp_all add: j j' job_ok_def)
next
  case (Sweep order rg now removed rg' i kind)
  then show ?case by (auto simp: bt_get_filter dest!: registry_dests split: if_splits)
next
  case (Log rg i kind t line)
  then show ?case by (auto simp: on_job_defs get_on_job job_ok_def push_log_bound)
next
  case (Register i rg t rg' kind)
  then show ?case by (auto dest!: registry_dests)
next
  case (KindLock kind rg l rg' i t)
  then show ?case by (auto dest!: registry_dests)
next
  case (MarkRunning rg i kind t)
  from MarkRunning(3) obtain j where "bt_get (rg_jobs rg) i = Some j"
    "j' = (if jb_status j = JobPending then j\<lparr>jb_status := JobRunning\<rparr> else j)"
    by (auto simp: mark_running_def get_on_job)
  with MarkRunning(2) show ?case by (auto simp: job_ok_def)
next
  case (Progress rg i kind t p)
  then show ?case by (auto simp: record_progress_def get_on_job job_ok_def)
next
  case (SweepTokens rg i l kind removed)
  have "bt_get (rg_jobs rg) i = Some j'" using SweepTokens(4) by (cases "removed = []") simp_all
  then show ?case using SweepTokens(3) by auto
qed auto

lemma worker_step_other:
  "worker_step rg i kind phase phase' rg' \<Longrightarrow> k \<noteq> i \<Longrightarrow> bt_get (rg_jobs rg') k = Some j \<Longrightarrow> bt_get (rg_jobs rg) k = Some j"
  by (induction rule: worker_step.induct)
    (auto simp: on_job_defs get_on_job bt_get_filter dest!: registry_dests split: if_splits)

lemma worker_step_wf: "worker_step rg i kind phase phase' rg' \<Longrightarrow> bt_wf (rg_jobs rg) \<Longrightarrow> bt_wf (rg_jobs rg')"
  by (induction rule: worker_step.induct) (auto simp: on_job_defs bt_wf_filter dest!: registry_dests)

lemma worker_step_phase: "worker_step rg i kind phase phase' rg' \<Longrightarrow> phase_ok phase'"
proof (induction rule: worker_step.induct)
  case (Outcome rg i kind t r)
  then show ?case by (cases r; cases "t \<in> set (rg_fired rg)") auto
qed auto

text \<open>The mutexes along the three steps that concern them.\<close>

lemma kind_lock_locks:
  assumes "kind_lock kind rg = (l, rg')" "locks_ok rg"
  shows "map_of (rg_kind_locks rg') kind = Some l" "kind_owner rg' = kind_owner rg" "locks_ok rg'"
    "rg_lock_of rg' = rg_lock_of rg" "map_of (rg_kind_locks rg) kind' = Some l' \<Longrightarrow> map_of (rg_kind_locks rg') kind' = Some l'"
proof -
  show "map_of (rg_kind_locks rg') kind = Some l" "rg_lock_of rg' = rg_lock_of rg"
    "map_of (rg_kind_locks rg) kind' = Some l' \<Longrightarrow> map_of (rg_kind_locks rg') kind' = Some l'"
    using assms(1) by (auto simp: kind_lock_def split: option.splits if_splits)
  show "kind_owner rg' = kind_owner rg"
    using assms by (auto simp: kind_lock_def kind_owner_def fun_eq_iff locks_ok_def split: option.splits)
  show "locks_ok rg'"
  proof (cases "map_of (rg_kind_locks rg) kind")
    case (Some k)
    then show ?thesis using assms by (auto simp: kind_lock_def)
  next
    case None
    then have locks: "rg_kind_locks rg' = (kind, rg_next_lock rg) # rg_kind_locks rg" "rg_held rg' = rg_held rg"
      "rg_next_lock rg' = Suc (rg_next_lock rg)" using assms(1) by (auto simp: kind_lock_def)
    have old: "l < rg_next_lock rg \<and> (\<forall>k'. map_of (rg_kind_locks rg) k' = Some l \<longrightarrow> k' = k)"
      if "map_of (rg_kind_locks rg) k = Some l" for k l using assms(2) that by (simp add: locks_ok_def)
    have fresh: "map_of (rg_kind_locks rg) k \<noteq> Some (rg_next_lock rg)" for k using old [of k "rg_next_lock rg"] by auto
    have "l < rg_next_lock rg' \<and> (\<forall>k'. map_of (rg_kind_locks rg') k' = Some l \<longrightarrow> k' = k)"
      if here: "map_of (rg_kind_locks rg') k = Some l" for k l
    proof (cases "k = kind")
      case True
      then show ?thesis using here fresh by (simp add: locks)
    next
      case False
      then have k: "map_of (rg_kind_locks rg) k = Some l" using here by (simp add: locks)
      then have "l < rg_next_lock rg" using old by blast
      moreover have "k' = k" if "map_of (rg_kind_locks rg') k' = Some l" for k'
        using that old [OF k] \<open>l < rg_next_lock rg\<close> unfolding locks by (cases "k' = kind") auto
      ultimately show ?thesis unfolding locks by auto
    qed
    moreover have "rg_held rg' l = None" if "rg_next_lock rg' \<le> l" for l
      using assms(2) that by (simp add: locks_ok_def locks)
    ultimately show ?thesis unfolding locks_ok_def by blast
  qed
qed

lemma keep_lock_locks:
  "kind_owner (keep_lock i l rg) = kind_owner rg" "locks_ok (keep_lock i l rg) = locks_ok rg"
  "rg_lock_of (keep_lock i l rg) = (rg_lock_of rg)(i \<mapsto> l)" "rg_kind_locks (keep_lock i l rg) = rg_kind_locks rg"
  by (simp_all add: keep_lock_def kind_owner_def locks_ok_def fun_eq_iff)

lemma hold_locks:
  assumes "map_of (rg_kind_locks rg) kind = Some l" "locks_ok rg"
  shows "kind_owner (hold l owner rg) = (kind_owner rg)(kind := owner)" "locks_ok (hold l owner rg)"
    "keeps_kind_lock (hold l owner rg) = keeps_kind_lock rg"
proof -
  have "Option.bind (map_of (rg_kind_locks rg) kind') ((rg_held rg)(l := owner))
      = ((kind_owner rg)(kind := owner)) kind'" for kind'
    using assms by (cases "map_of (rg_kind_locks rg) kind'") (auto simp: kind_owner_def locks_ok_def)
  then show "kind_owner (hold l owner rg) = (kind_owner rg)(kind := owner)"
    by (simp add: hold_def kind_owner_def fun_eq_iff)
  have "l < rg_next_lock rg" using assms by (simp add: locks_ok_def)
  then show "locks_ok (hold l owner rg)" using assms(2) by (auto simp: hold_def locks_ok_def)
  show "keeps_kind_lock (hold l owner rg) = keeps_kind_lock rg"
    by (simp add: hold_def keeps_kind_lock_def fun_eq_iff)
qed

text \<open>The mutex of the kind passes only through the worker that holds it.\<close>

lemma worker_step_lock:
  assumes "worker_step rg i kind phase phase' rg'" "holds_lock phase \<longleftrightarrow> kind_owner rg kind = Some i"
    and "keeps_kind_lock rg i kind phase" "locks_ok rg"
  shows "(holds_lock phase' \<longleftrightarrow> kind_owner rg' kind = Some i) \<and> locks_ok rg' \<and> keeps_kind_lock rg' i kind phase'
    \<and> (\<forall>k kind'. k \<noteq> i \<longrightarrow> (kind_owner rg' kind' = Some k \<longleftrightarrow> kind_owner rg kind' = Some k))
    \<and> (\<forall>k kind' ph. k \<noteq> i \<longrightarrow> keeps_kind_lock rg k kind' ph \<longrightarrow> keeps_kind_lock rg' k kind' ph)
    \<and> (\<forall>kind'. kind_owner rg' kind' = Some i \<longrightarrow> kind' = kind \<or> kind_owner rg kind' = Some i)"
  using assms
proof (induction rule: worker_step.induct)
  case (KindLock kind rg l rg' i t)
  note locks = kind_lock_locks [OF KindLock(1,4)]
  show ?case
    using KindLock(2) locks(1,3) locks(5) by (auto simp: keep_lock_locks locks(2,4) keeps_kind_lock_def)
next
  case (Acquire rg i l kind t)
  then have l: "map_of (rg_kind_locks rg) kind = Some l" by (simp add: keeps_kind_lock_def)
  have "kind_owner rg kind = None" using Acquire(2) l by (simp add: kind_owner_def)
  then show ?case
    using Acquire(4) by (simp add: hold_locks [OF l Acquire(5)]) (simp add: keeps_kind_lock_def)
next
  case (SweepTokens rg i l kind removed)
  let ?rg = "if removed = [] then rg else drop_tokens removed rg"
  have same: "locks_of ?rg = locks_of rg" by simp
  have l: "map_of (rg_kind_locks ?rg) kind = Some l"
    using SweepTokens(1,3) same by (simp add: keeps_kind_lock_def locks_of_def)
  have ok: "locks_ok ?rg" using SweepTokens(4) same_locks(2) [OF same] by simp
  show ?case
    using SweepTokens(2,3) hold_locks [OF l ok, of None]
    unfolding same_locks(1,3) [OF same] by (simp add: keeps_kind_lock_def)
next
  case (Register i rg t rg' kind)
  then show ?case using same_locks [of rg' rg] register_token_registry [of i rg t rg'] by (simp add: keeps_kind_lock_def)
next
  case (Sweep order rg now removed rg' i kind)
  then show ?case using same_locks [of rg' rg] sweep_jobs_registry [OF Sweep(3)] by (simp add: keeps_kind_lock_def)
next
  case (Outcome rg i kind t r)
  then show ?case by (cases r; cases "t \<in> set (rg_fired rg)") (simp_all add: keeps_kind_lock_def)
qed (simp_all add: on_job_defs same_locks [OF registry_locks(1)] same_locks [OF registry_locks(2)],
  simp_all add: keeps_kind_lock_def same_locks [OF registry_locks(1)] same_locks [OF registry_locks(2)])

lemma system_okD:
  assumes "system_ok s"
  shows "bt_wf (rg_jobs (js_registry s))"
    "bt_get (rg_jobs (js_registry s)) i = Some j \<Longrightarrow> job_ok j \<and> jb_id j = i
       \<and> (\<exists>phase. js_workers s i = Some (jb_kind j, phase) \<and> phase_status phase (jb_status j))"
    "js_workers s i = Some (kind, phase) \<Longrightarrow> (holds_lock phase \<longleftrightarrow> kind_owner (js_registry s) kind = Some i)
       \<and> phase_ok phase \<and> keeps_kind_lock (js_registry s) i kind phase"
    "kind_owner (js_registry s) kind = Some i \<Longrightarrow> \<exists>phase. js_workers s i = Some (kind, phase)"
    "locks_ok (js_registry s)"
  using assms unfolding system_ok_def by blast+

lemma move_simps [simp]:
  "js_registry (move i kind phase rg s) = rg" "js_workers (move i kind phase rg s) = (js_workers s)(i \<mapsto> (kind, phase))"
  "js_cancels (move i kind phase rg s) = js_cancels s" "js_replies (move i kind phase rg s) = js_replies s"
  "js_registry (reply i b s) = js_registry s" "js_workers (reply i b s) = js_workers s"
  "js_cancels (reply i b s) = js_cancels s"
  by (simp_all add: move_def reply_def)

lemma mark_cancelled_entry:
  assumes "bt_get (rg_jobs (mark_cancelled now c rg)) i = Some j'"
  shows "\<exists>j. bt_get (rg_jobs rg) i = Some j \<and> (jb_status j' = jb_status j \<and> j' = j
     \<or> \<not> terminal (jb_status j) \<and> j' = j\<lparr>jb_status := JobCancelled, jb_finished_at := Some now\<rparr>)"
  using assms by (auto simp: mark_cancelled_def get_on_job terminal_iff split: if_splits)

lemma spawn_ok:
  assumes "system_ok s" "js_workers s i = None" "bt_get (rg_jobs (js_registry s)) i = None"
  shows "system_ok (move i kind Inserted (insert_job now i kind (js_registry s)) s)"
proof -
  have get: "bt_get (rg_jobs (insert_job now i kind (js_registry s))) k = (if k = i
      then Some \<lparr>jb_id = i, jb_kind = kind, jb_status = JobPending, jb_started_at = now, jb_finished_at = None,
        jb_progress = None, jb_log_tail = [], jb_result = None, jb_error = None\<rparr>
      else bt_get (rg_jobs (js_registry s)) k)" for k
    using system_okD(1) [OF assms(1)] by (simp add: insert_job_def bt.get_ins)
  note same = same_locks [OF registry_locks(3) [of now i kind "js_registry s"]]
  have held: "kind_owner (js_registry s) kind' \<noteq> Some i" for kind'
    using system_okD(4) [OF assms(1), of kind' i] assms(2) by auto
  have "bt_wf (rg_jobs (insert_job now i kind (js_registry s)))"
    using system_okD(1) [OF assms(1)] by (simp add: insert_job_def)
  then show ?thesis
    unfolding system_ok_def move_simps get same(1-3)
    using held system_okD(2-5) [OF assms(1)] assms(2)
    by (auto simp: job_ok_def log_tail_cap_def keeps_kind_lock_def split: if_splits)
qed

lemma work_ok:
  assumes "system_ok s" "js_workers s i = Some (kind, phase)"
    and step: "worker_step (js_registry s) i kind phase phase' rg'"
  shows "system_ok (move i kind phase' rg' s)"
proof -
  note ok = system_okD [OF assms(1)]
  have own: "job_ok j' \<and> jb_id j' = i \<and> jb_kind j' = kind \<and> phase_status phase' (jb_status j')"
    if "bt_get (rg_jobs rg') i = Some j'" for j'
  proof -
    have phase: "phase_ok phase" using ok(3) [OF assms(2)] by simp
    have entry: "job_ok j \<and> jb_id j = i \<and> jb_kind j = kind \<and> phase_status phase (jb_status j)"
      if j: "bt_get (rg_jobs (js_registry s)) i = Some j" for j
    proof -
      obtain ph where "js_workers s i = Some (jb_kind j, ph)" "phase_status ph (jb_status j)" "job_ok j" "jb_id j = i"
        using ok(2) [OF j] by blast
      then show ?thesis using assms(2) by simp
    qed
    show ?thesis using worker_step_own [OF step phase entry that] by blast
  qed
  have lock: "holds_lock phase' \<longleftrightarrow> kind_owner rg' kind = Some i" "locks_ok rg'" "keeps_kind_lock rg' i kind phase'"
    "k \<noteq> i \<Longrightarrow> kind_owner rg' kind' = Some k \<longleftrightarrow> kind_owner (js_registry s) kind' = Some k"
    "k \<noteq> i \<Longrightarrow> keeps_kind_lock (js_registry s) k kind' ph \<Longrightarrow> keeps_kind_lock rg' k kind' ph"
    "kind_owner rg' kind' = Some i \<Longrightarrow> kind' = kind \<or> kind_owner (js_registry s) kind' = Some i" for k kind' ph
    using worker_step_lock [OF step _ _ ok(5)] ok(3) [OF assms(2)] by blast+
  show ?thesis
    unfolding system_ok_def move_simps
  proof (intro conjI allI impI, goal_cases)
    case 1
    show ?case by (rule worker_step_wf [OF step ok(1)])
  next
    case (2 k j)
    then show ?case by (cases "k = i") (use own worker_step_other [OF step] ok(2) in blast)+
  next
    case (3 k j)
    then show ?case by (cases "k = i") (use own worker_step_other [OF step] ok(2) in blast)+
  next
    case (4 k j)
    show ?case
    proof (cases "k = i")
      case True
      then show ?thesis using own 4 by simp
    next
      case False
      then show ?thesis using ok(2) [OF worker_step_other [OF step False 4]] by simp
    qed
  next
    case (5 k kind' ph)
    then show ?case using lock(1) lock(4) [of k kind'] ok(3) [of k kind' ph] by (cases "k = i") simp_all
  next
    case (6 k kind' ph)
    then show ?case using worker_step_phase [OF step] ok(3) [of k kind' ph] by (cases "k = i") simp_all
  next
    case (7 k kind' ph)
    then show ?case using lock(3) lock(5) [of k kind' ph] ok(3) [of k kind' ph] by (cases "k = i") simp_all
  next
    case (8 k kind')
    show ?case
    proof (cases "k = i")
      case True
      then show ?thesis using lock(6) [of kind'] 8 ok(4) [of kind' i] assms(2) by auto
    next
      case False
      then show ?thesis using lock(4) [of k kind'] 8 ok(4) [of kind' k] by simp
    qed
  qed (rule lock(2))
qed

lemma registry_ok:
  assumes "system_ok s" "rg_jobs rg' = rg_jobs (js_registry s)" "locks_of rg' = locks_of (js_registry s)"
  shows "system_ok (s\<lparr>js_registry := rg', js_cancels := cs\<rparr>)"
  using assms by (simp add: system_ok_def same_locks [OF assms(3)])

lemma reply_ok [simp]: "system_ok (reply i b s) = system_ok s"
  by (simp add: system_ok_def)

lemma mark_cancelled_ok:
  assumes "system_ok s"
  shows "system_ok (s\<lparr>js_registry := mark_cancelled now c (js_registry s), js_cancels := cs\<rparr>)"
proof -
  note ok = system_okD [OF assms]
  have "job_ok j' \<and> jb_id j' = i \<and> (\<exists>phase. js_workers s i = Some (jb_kind j', phase) \<and> phase_status phase (jb_status j'))"
    if j': "bt_get (rg_jobs (mark_cancelled now c (js_registry s))) i = Some j'" for i j'
  proof -
    obtain j where j: "bt_get (rg_jobs (js_registry s)) i = Some j"
      and "jb_status j' = jb_status j \<and> j' = j
        \<or> \<not> terminal (jb_status j) \<and> j' = j\<lparr>jb_status := JobCancelled, jb_finished_at := Some now\<rparr>"
      using mark_cancelled_entry [OF j'] by blast
    moreover obtain phase where "js_workers s i = Some (jb_kind j, phase)" "phase_status phase (jb_status j)"
      using ok(2) [OF j] by blast
    moreover have "phase_status phase JobCancelled" if "phase_status phase st" "\<not> terminal st" for st
      using that by (cases phase) auto
    ultimately show ?thesis using ok(2) [OF j] by (auto simp: job_ok_def)
  qed
  then show ?thesis
    using ok(1,3,4,5) unfolding system_ok_def by (simp add: mark_cancelled_def same_locks [OF registry_locks(2)])
qed

lemma job_step_ok: "job_step s s' \<Longrightarrow> system_ok s \<Longrightarrow> system_ok s'"
proof (induction rule: job_step.induct)
  case (Spawn s i kind now)
  then show ?case by (intro spawn_ok)
next
  case (Work s i kind phase phase' rg')
  then show ?case by (intro work_ok)
next
  case (CancelCheck s i)
  then show ?case by (simp add: system_ok_def)
next
  case (CancelRefuse s i)
  then show ?case by simp
next
  case (CancelFire s xs i ys rg')
  note rg = fire_token_registry [OF CancelFire(2)]
  show ?case by (rule registry_ok [OF CancelFire(3)]) (use rg in simp_all)
next
  case (CancelTooLate s xs i ys rg')
  note rg = fire_token_registry [OF CancelTooLate(2)]
  show ?case unfolding reply_ok by (rule registry_ok [OF CancelTooLate(3)]) (use rg in simp_all)
next
  case (CancelMark s xs i ys now)
  show ?case unfolding reply_ok by (rule mark_cancelled_ok [OF CancelMark(2)])
qed

lemma reaches_ok: "reaches s s' \<Longrightarrow> system_ok s \<Longrightarrow> system_ok s'"
  unfolding reaches_def by (induction rule: rtranclp_induct) (auto intro: job_step_ok)

lemma start_ok: "system_ok system_start"
  by (simp add: system_ok_def system_start_def registry_new_def kind_owner_def locks_ok_def)

lemma reachable_ok: "reaches system_start s \<Longrightarrow> system_ok s"
  using reaches_ok start_ok by blast

subsection \<open>One entry along a step\<close>

lemma job_step_entry:
  assumes "job_step s s'" "system_ok s" "js_workers s i \<noteq> None" "get_job (js_registry s') i = Some j'"
  shows "\<exists>j. get_job (js_registry s) i = Some j \<and> (terminal (jb_status j) \<longrightarrow> jb_status j' = jb_status j)"
  using assms unfolding get_job_def
proof (induction rule: job_step.induct)
  case (Spawn s k kind now)
  then show ?case using system_okD(1) [OF Spawn(3)] by (auto simp: insert_job_def bt.get_ins split: if_splits)
next
  case (Work s k kind phase phase' rg')
  note ok = system_okD [OF Work(3)]
  have new: "bt_get (rg_jobs rg') i = Some j'" using Work(5) by simp
  show ?case
  proof (cases "k = i")
    case True
    have "job_ok j \<and> jb_id j = k \<and> jb_kind j = kind \<and> phase_status phase (jb_status j)"
      if j: "bt_get (rg_jobs (js_registry s)) k = Some j" for j
    proof -
      obtain ph where "js_workers s k = Some (jb_kind j, ph)" "phase_status ph (jb_status j)" "job_ok j" "jb_id j = k"
        using ok(2) [OF j] by blast
      then show ?thesis using Work(1) by simp
    qed
    with worker_step_own [OF Work(2) ok(3) [OF Work(1), THEN conjunct2, THEN conjunct1], of j'] new True show ?thesis by blast
  next
    case False
    then show ?thesis using worker_step_other [OF Work(2) _ new] by blast
  qed
next
  case (CancelFire s xs k ys rg')
  then show ?case using fire_token_registry [OF CancelFire(2)] by simp
next
  case (CancelTooLate s xs k ys rg')
  then show ?case using fire_token_registry [OF CancelTooLate(2)] by simp
next
  case (CancelMark s xs k ys now)
  from CancelMark(4) have "bt_get (rg_jobs (mark_cancelled now k (js_registry s))) i = Some j'" by simp
  from mark_cancelled_entry [OF this] show ?case by auto
qed simp_all

lemma job_step_worker: "job_step s s' \<Longrightarrow> js_workers s i \<noteq> None \<Longrightarrow> js_workers s' i \<noteq> None"
  by (induction rule: job_step.induct) auto

lemma reaches_entry:
  assumes "reaches s s'" "system_ok s" "js_workers s i \<noteq> None" "get_job (js_registry s') i = Some j'"
  shows "\<exists>j. get_job (js_registry s) i = Some j \<and> (terminal (jb_status j) \<longrightarrow> jb_status j' = jb_status j)"
  using assms unfolding reaches_def
proof (induction arbitrary: j' rule: rtranclp_induct)
  case (step s1 s2)
  have s1: "reaches s s1" using step(1) by (simp add: reaches_def)
  have "js_workers s1 i \<noteq> None"
    using step(1,5) by (induction rule: rtranclp_induct) (blast dest: job_step_worker)+
  then obtain j1 where "get_job (js_registry s1) i = Some j1"
    "terminal (jb_status j1) \<longrightarrow> jb_status j' = jb_status j1"
    using job_step_entry [OF step(2) reaches_ok [OF s1 step(4)] _ step(6)] by blast
  moreover obtain j where "get_job (js_registry s) i = Some j" "terminal (jb_status j) \<longrightarrow> jb_status j1 = jb_status j"
    using step.IH [OF step(4,5) calculation(1)] by blast
  ultimately show ?case by auto
qed blast

subsection \<open>A concrete run\<close>

text \<open>Job \<open>a\<close> is spawned and set to work; job \<open>b\<close> of the same kind waits and is cancelled.\<close>

definition spawned :: "string \<Rightarrow> job_system \<Rightarrow> job_system" where
  "spawned i s = (let s1 = move i KbSync Inserted (insert_job 0 i KbSync (js_registry s)) s;
       s2 = move i KbSync (Registered (fst (register_token i (js_registry s1)))) (snd (register_token i (js_registry s1))) s1
     in move i KbSync (Waiting (fst (register_token i (js_registry s1))))
          (keep_lock i (fst (kind_lock KbSync (js_registry s2))) (snd (kind_lock KbSync (js_registry s2)))) s2)"

definition demo_waiting :: job_system where
  "demo_waiting = spawned ''b'' (spawned ''a'' system_start)"

definition demo_holding :: job_system where
  "demo_holding = move ''a'' KbSync (Holding 0) (hold 0 (Some ''a'') (js_registry demo_waiting)) demo_waiting"

definition demo_starting :: job_system where
  "demo_starting = move ''a'' KbSync (Starting 0) (js_registry demo_holding) demo_holding"

definition demo_working :: job_system where
  "demo_working = move ''a'' KbSync (Working 0) (mark_running ''a'' (js_registry demo_starting)) demo_starting"

definition demo_checked :: job_system where
  "demo_checked = demo_working\<lparr>js_cancels := CancelChecked ''b'' # js_cancels demo_working\<rparr>"

definition demo_fired :: job_system where
  "demo_fired = demo_checked\<lparr>js_registry := snd (fire_token ''b'' (js_registry demo_checked)), js_cancels := [CancelFired ''b'']\<rparr>"

definition demo_cancelled :: job_system where
  "demo_cancelled = reply ''b'' True
     (demo_fired\<lparr>js_registry := mark_cancelled 5 ''b'' (js_registry demo_fired), js_cancels := []\<rparr>)"

lemma reaches_refl [simp]: "reaches s s"
  by (simp add: reaches_def)

lemma reaches_trans: "reaches s s1 \<Longrightarrow> reaches s1 s2 \<Longrightarrow> reaches s s2"
  by (simp add: reaches_def)

lemma reaches_step: "reaches s s1 \<Longrightarrow> job_step s1 s2 \<Longrightarrow> reaches s s2"
  by (simp add: reaches_def)

lemma reaches_work:
  "reaches s s1 \<Longrightarrow> js_workers s1 i = Some (kind, phase) \<Longrightarrow> worker_step (js_registry s1) i kind phase phase' rg'
    \<Longrightarrow> reaches s (move i kind phase' rg' s1)"
  by (blast intro: reaches_step job_step.Work)

lemma spawned_reached:
  assumes "js_workers s i = None" "get_job (js_registry s) i = None"
  shows "reaches s (spawned i s)"
proof -
  have "reaches s (move i KbSync Inserted (insert_job 0 i KbSync (js_registry s)) s)"
    using assms by (intro reaches_step [OF reaches_refl] job_step.Spawn) (simp_all add: get_job_def)
  then show ?thesis unfolding spawned_def Let_def
    by (intro reaches_work [OF reaches_work [OF _ _ worker_step.Register] _ worker_step.KindLock]) simp_all
qed

lemmas demo_defs = demo_waiting_def demo_holding_def demo_starting_def demo_working_def demo_checked_def demo_fired_def demo_cancelled_def spawned_def system_start_def
  registry_new_def insert_job_def register_token_def kind_lock_def keep_lock_def hold_def mark_running_def mark_cancelled_def
  fire_token_def on_job_def get_job_def move_def reply_def Let_def

lemma demo_waiting_reached: "reaches system_start demo_waiting"
  unfolding demo_waiting_def
proof (rule reaches_trans [OF spawned_reached spawned_reached])
  show "js_workers (spawned ''a'' system_start) ''b'' = None" "get_job (js_registry (spawned ''a'' system_start)) ''b'' = None"
    by (simp_all add: demo_defs bt_get_def)
qed (simp_all add: system_start_def registry_new_def get_job_def)

lemma demo_holding_reached: "reaches demo_waiting demo_holding"
  unfolding demo_holding_def by (rule reaches_work [of _ _ _ _ "Waiting 0"]) (simp_all add: demo_defs)

lemma demo_starting_reached: "reaches demo_holding demo_starting"
  unfolding demo_starting_def by (rule reaches_work [of _ _ _ _ "Holding 0"]) (simp_all add: demo_defs)

lemma demo_working_reached: "reaches demo_starting demo_working"
  unfolding demo_working_def
proof (rule reaches_work [of _ _ _ _ "Starting 0"])
  show "worker_step (js_registry demo_starting) ''a'' KbSync (Starting 0) (Working 0) (mark_running ''a'' (js_registry demo_starting))"
    by (rule worker_step.MarkRunning)
qed (simp_all add: demo_defs)

lemma demo_fired_reached: "reaches demo_working demo_fired"
proof (rule reaches_trans)
  show "reaches demo_working demo_checked"
    unfolding demo_checked_def
    by (intro reaches_step [OF reaches_refl job_step.CancelCheck])
      (simp add: cancellable_def demo_defs bt_get_def bt_update_def)
  have "job_step demo_checked (demo_checked\<lparr>js_registry := snd (fire_token ''b'' (js_registry demo_checked)),
      js_cancels := [] @ CancelFired ''b'' # []\<rparr>)"
  proof (rule job_step.CancelFire)
    show "js_cancels demo_checked = [] @ CancelChecked ''b'' # []" by (simp add: demo_defs)
    show "fire_token ''b'' (js_registry demo_checked) = (True, snd (fire_token ''b'' (js_registry demo_checked)))"
      by (simp add: demo_defs bt_get_def)
  qed
  then show "reaches demo_checked demo_fired"
    unfolding demo_fired_def by (intro reaches_step [OF reaches_refl]) simp
qed

lemma demo_cancelled_reached: "reaches demo_fired demo_cancelled"
proof -
  have "job_step demo_fired (reply ''b'' True (demo_fired\<lparr>js_registry := mark_cancelled 5 ''b'' (js_registry demo_fired),
      js_cancels := [] @ []\<rparr>))"
    by (rule job_step.CancelMark) (simp add: demo_fired_def)
  then show ?thesis unfolding demo_cancelled_def by (intro reaches_step [OF reaches_refl]) simp
qed

lemma demo_reached: "reaches system_start demo_working" "reaches demo_waiting demo_working" "reaches demo_working demo_cancelled"
  "reaches system_start demo_fired" "reaches demo_fired demo_cancelled"
  using demo_waiting_reached demo_holding_reached demo_starting_reached demo_working_reached demo_fired_reached
    demo_cancelled_reached by (meson reaches_trans)+

text \<open>Job \<open>b\<close> alone: cancelled while it waits, it then gets the lock and ends.\<close>

definition lone_checked :: job_system where
  "lone_checked = spawned ''b'' system_start\<lparr>js_cancels := [CancelChecked ''b'']\<rparr>"

definition lone_fired :: job_system where
  "lone_fired = lone_checked\<lparr>js_registry := snd (fire_token ''b'' (js_registry lone_checked)), js_cancels := [CancelFired ''b'']\<rparr>"

definition lone_cancelled :: job_system where
  "lone_cancelled = reply ''b'' True
     (lone_fired\<lparr>js_registry := mark_cancelled 5 ''b'' (js_registry lone_fired), js_cancels := []\<rparr>)"

definition lone_holding :: job_system where
  "lone_holding = move ''b'' KbSync (Holding 0) (hold 0 (Some ''b'') (js_registry lone_cancelled)) lone_cancelled"

definition lone_ending :: job_system where
  "lone_ending = move ''b'' KbSync (Finishing JobCancelled None None) (js_registry lone_holding) lone_holding"

definition lone_ended :: job_system where
  "lone_ended = move ''b'' KbSync FinishingTokens
     (finish_job 9 ''b'' JobCancelled None None (js_registry lone_ending)) lone_ending"

lemmas lone_defs = lone_checked_def lone_fired_def lone_cancelled_def lone_holding_def lone_ending_def lone_ended_def
  finish_job_def demo_defs bt_get_def bt_update_def

lemma lone_fired_reached: "reaches system_start lone_fired"
proof (rule reaches_trans [OF spawned_reached])
  show "js_workers system_start ''b'' = None" "get_job (js_registry system_start) ''b'' = None"
    by (simp_all add: system_start_def registry_new_def get_job_def bt_get_def)
  have "job_step (spawned ''b'' system_start) (spawned ''b'' system_start\<lparr>js_cancels := CancelChecked ''b'' # js_cancels (spawned ''b'' system_start)\<rparr>)"
    by (rule job_step.CancelCheck) (simp add: cancellable_def lone_defs)
  then have "job_step (spawned ''b'' system_start) lone_checked" by (simp add: lone_defs)
  then have checked: "reaches (spawned ''b'' system_start) lone_checked" by (rule reaches_step [OF reaches_refl])
  have "job_step lone_checked (lone_checked\<lparr>js_registry := snd (fire_token ''b'' (js_registry lone_checked)),
      js_cancels := [] @ CancelFired ''b'' # []\<rparr>)"
    by (rule job_step.CancelFire) (simp_all add: lone_defs)
  then show "reaches (spawned ''b'' system_start) lone_fired"
    unfolding lone_fired_def by (intro reaches_step [OF checked]) simp
qed

lemma lone_cancelled_reached: "reaches lone_fired lone_cancelled"
proof -
  have "job_step lone_fired (reply ''b'' True (lone_fired\<lparr>js_registry := mark_cancelled 5 ''b'' (js_registry lone_fired),
      js_cancels := [] @ []\<rparr>))"
    by (rule job_step.CancelMark) (simp add: lone_fired_def)
  then show ?thesis unfolding lone_cancelled_def by (intro reaches_step [OF reaches_refl]) simp
qed

lemma lone_ended_reached: "reaches lone_cancelled lone_ended"
proof -
  have "reaches lone_cancelled lone_holding"
    unfolding lone_holding_def by (rule reaches_work [of _ _ _ _ "Waiting 0"]) (simp_all add: lone_defs)
  then have "reaches lone_cancelled lone_ending"
    unfolding lone_ending_def by (rule reaches_work [of _ _ _ _ "Holding 0"]) (simp_all add: lone_defs)
  then show ?thesis
    unfolding lone_ended_def
    by (rule reaches_work [OF _ _ worker_step.FinishJob]) (simp add: lone_ending_def)
qed

subsection \<open>Properties\<close>

text \<open>
  job entries are well typed. However the workers and the cancellations interleave, every entry of
  the registry has a finishing time exactly when its status is terminal, a log tail within its bound,
  and a result or an error, never both, only once it ended.
\<close>

theorem jobs_typed:
  assumes "reaches system_start s" "get_job (js_registry s) i = Some j"
  shows "job_ok j \<and> jb_id j = i"
  using system_okD(2) [OF reachable_ok [OF assms(1)]] assms(2) by (simp add: get_job_def)

theorem jobs_typed_witness:
  "\<exists>j. get_job (js_registry demo_cancelled) ''b'' = Some j \<and> jb_status j = JobCancelled \<and> job_ok j \<and> jb_id j = ''b''"
proof -
  obtain j where j: "get_job (js_registry demo_cancelled) ''b'' = Some j" "jb_status j = JobCancelled"
    by (simp add: demo_defs bt_get_def bt_update_def)
  from jobs_typed [OF reaches_trans [OF demo_reached(1) demo_reached(3)] j(1)] j show ?thesis by blast
qed

lemma running_holds_lock:
  assumes "system_ok s" "get_job (js_registry s) i = Some j" "jb_status j = JobRunning"
  shows "kind_owner (js_registry s) (jb_kind j) = Some i"
proof -
  obtain phase where phase: "js_workers s i = Some (jb_kind j, phase)" "phase_status phase JobRunning"
    using system_okD(2) [OF assms(1)] assms(2,3) unfolding get_job_def by metis
  then have "holds_lock phase" by (cases phase) simp_all
  then show ?thesis using system_okD(3) [OF assms(1) phase(1)] by simp
qed

text \<open>
  C33: one running job per kind. Two jobs of the same kind are never running at the same time, whatever
  is cancelled, finished or swept between their steps.
\<close>

theorem one_running_per_kind:
  assumes "reaches system_start s"
    and "get_job (js_registry s) i = Some j" "get_job (js_registry s) i' = Some j'"
    and "jb_status j = JobRunning" "jb_status j' = JobRunning" "jb_kind j = jb_kind j'"
  shows "i = i'"
  using running_holds_lock [OF reachable_ok [OF assms(1)] assms(2,4)]
    running_holds_lock [OF reachable_ok [OF assms(1)] assms(3,5)] assms(6) by simp

theorem one_running_per_kind_witness:
  "\<exists>!i. \<exists>j. get_job (js_registry demo_working) i = Some j \<and> jb_status j = JobRunning \<and> jb_kind j = KbSync"
proof -
  obtain j where j: "get_job (js_registry demo_working) ''a'' = Some j" "jb_status j = JobRunning" "jb_kind j = KbSync"
    by (simp add: demo_defs bt_get_def bt_update_def)
  show ?thesis
    using one_running_per_kind [OF demo_reached(1) j(1) _ j(2)] j by metis
qed

text \<open>
  the status of an ended job is final. Once a job is succeeded, failed or cancelled it stays so for
  as long as the registry keeps it: a worker that finishes after a cancellation does not overwrite it.
\<close>

theorem terminal_final:
  assumes "reaches system_start s" "reaches s s'"
    and "get_job (js_registry s) i = Some j" "get_job (js_registry s') i = Some j'"
    and "terminal (jb_status j)"
  shows "jb_status j' = jb_status j"
proof -
  note ok = reachable_ok [OF assms(1)]
  have "js_workers s i \<noteq> None" using system_okD(2) [OF ok] assms(3) unfolding get_job_def by blast
  from reaches_entry [OF assms(2) ok this assms(4)] assms(3,5) show ?thesis by auto
qed

theorem terminal_final_witness:
  "\<exists>j'. get_job (js_registry lone_ended) ''b'' = Some j' \<and> jb_status j' = JobCancelled \<and> jb_finished_at j' = Some 9"
proof -
  obtain j where j: "get_job (js_registry lone_cancelled) ''b'' = Some j" "jb_status j = JobCancelled"
    by (simp add: lone_defs)
  obtain j' where j': "get_job (js_registry lone_ended) ''b'' = Some j'" "jb_finished_at j' = Some 9"
    by (simp add: lone_defs)
  from terminal_final [OF reaches_trans [OF lone_fired_reached lone_cancelled_reached] lone_ended_reached j(1) j'(1)]
  show ?thesis using j(2) j' by simp
qed

definition never_runs :: "string \<Rightarrow> nat \<Rightarrow> job_system \<Rightarrow> bool" where
  "never_runs i t s = (t \<in> set (rg_fired (js_registry s))
     \<and> (\<exists>kind phase. js_workers s i = Some (kind, phase)
          \<and> phase \<in> {Waiting t, Holding t, Finishing JobCancelled None None, FinishingTokens, Sweeping, Released}
              \<union> range SweepingTokens)
     \<and> (\<forall>j. get_job (js_registry s) i = Some j \<longrightarrow> jb_status j = JobPending \<or> jb_status j = JobCancelled))"

lemma worker_step_fired: "worker_step rg i kind phase phase' rg' \<Longrightarrow> rg_fired rg' = rg_fired rg"
  by (induction rule: worker_step.induct) (auto simp: on_job_defs keep_lock_def hold_def drop_tokens_def dest!: registry_dests)

lemma never_runs_work:
  assumes "worker_step rg i kind phase phase' rg'" "t \<in> set (rg_fired rg)"
    and "phase \<in> {Waiting t, Holding t, Finishing JobCancelled None None, FinishingTokens, Sweeping, Released} \<union> range SweepingTokens"
    and "\<And>j. bt_get (rg_jobs rg) i = Some j \<Longrightarrow> jb_status j = JobPending \<or> jb_status j = JobCancelled"
  shows "phase' \<in> {Waiting t, Holding t, Finishing JobCancelled None None, FinishingTokens, Sweeping, Released} \<union> range SweepingTokens
    \<and> (\<forall>j'. bt_get (rg_jobs rg') i = Some j' \<longrightarrow> jb_status j' = JobPending \<or> jb_status j' = JobCancelled)"
  using assms
proof (induction rule: worker_step.induct)
  case (Sweep order rg now removed rg' i kind)
  then show ?case by (auto simp: bt_get_filter dest!: registry_dests split: if_splits)
next
  case (FinishJob rg i kind status result err now)
  then show ?case by (auto simp: finish_job_def get_on_job)
qed auto

lemma never_runs_step:
  assumes "job_step s s'" "never_runs i t s" "system_ok s"
  shows "never_runs i t s'"
  using assms
proof (induction rule: job_step.induct)
  case (Spawn s k kind now)
  then have "k \<noteq> i" by (auto simp: never_runs_def)
  with Spawn show ?case
    using system_okD(1) [OF Spawn(4)] by (simp add: never_runs_def get_job_def insert_job_def bt.get_ins)
next
  case (Work s k kind phase phase' rg')
  show ?case
  proof (cases "k = i")
    case True
    have "\<And>j. bt_get (rg_jobs (js_registry s)) i = Some j \<Longrightarrow> jb_status j = JobPending \<or> jb_status j = JobCancelled"
      and "phase \<in> {Waiting t, Holding t, Finishing JobCancelled None None, FinishingTokens, Sweeping, Released} \<union> range SweepingTokens"
      and "t \<in> set (rg_fired (js_registry s))"
      using Work(1,3) True by (auto simp: never_runs_def get_job_def)
    from never_runs_work [OF Work(2) [unfolded True] this(3,2,1)] this(3) worker_step_fired [OF Work(2)] True
    show ?thesis by (simp add: never_runs_def get_job_def)
  next
    case False
    then show ?thesis
      using Work(3) worker_step_other [OF Work(2), of i] worker_step_fired [OF Work(2)]
      by (auto simp: never_runs_def get_job_def)
  qed
next
  case (CancelFire s xs k ys rg')
  then show ?case using fire_token_registry [OF CancelFire(2)] by (auto simp: never_runs_def get_job_def)
next
  case (CancelTooLate s xs k ys rg')
  then show ?case using fire_token_registry [OF CancelTooLate(2)] by (auto simp: never_runs_def get_job_def)
next
  case (CancelMark s xs k ys now)
  have "jb_status j' = JobPending \<or> jb_status j' = JobCancelled"
    if "bt_get (rg_jobs (mark_cancelled now k (js_registry s))) i = Some j'" for j'
    using mark_cancelled_entry [OF that] CancelMark(2) by (auto simp: never_runs_def get_job_def)
  then show ?case using CancelMark(2) by (simp add: never_runs_def get_job_def mark_cancelled_def on_job_def)
qed (simp_all add: never_runs_def)

lemma never_runs_reaches: "reaches s s' \<Longrightarrow> never_runs i t s \<Longrightarrow> system_ok s \<Longrightarrow> never_runs i t s'"
  unfolding reaches_def
proof (induction rule: rtranclp_induct)
  case (step s1 s2)
  then show ?case using never_runs_step reaches_ok [of s s1] by (simp add: reaches_def)
qed

text \<open>
  a job cancelled before it starts never runs. If the token of a job fires while its worker waits for
  the lock of its kind, the job is never running afterwards and never succeeds or fails, and its worker
  never starts the work.
\<close>

theorem cancelled_before_start_never_runs:
  assumes "reaches system_start s" "js_workers s i = Some (kind, Waiting t)" "t \<in> set (rg_fired (js_registry s))"
    and "reaches s s'"
  shows "\<forall>kind' t' j. js_workers s' i \<noteq> Some (kind', Starting t') \<and> js_workers s' i \<noteq> Some (kind', Working t')
    \<and> (get_job (js_registry s') i = Some j \<longrightarrow> jb_status j = JobPending \<or> jb_status j = JobCancelled)"
proof -
  have "jb_status j = JobPending \<or> jb_status j = JobCancelled" if j: "get_job (js_registry s) i = Some j" for j
  proof -
    obtain phase where "js_workers s i = Some (jb_kind j, phase)" "phase_status phase (jb_status j)"
      using system_okD(2) [OF reachable_ok [OF assms(1)] j [unfolded get_job_def]] by blast
    then show ?thesis using assms(2) by auto
  qed
  then have "never_runs i t s" using assms(2,3) by (simp add: never_runs_def)
  from never_runs_reaches [OF assms(4) this reachable_ok [OF assms(1)]]
  show ?thesis by (auto simp: never_runs_def)
qed

theorem cancelled_before_start_never_runs_witness:
  "js_workers lone_ended ''b'' \<noteq> Some (KbSync, Starting 0) \<and> js_workers lone_ended ''b'' \<noteq> Some (KbSync, Working 0)"
proof -
  have "js_workers lone_fired ''b'' = Some (KbSync, Waiting 0)" "0 \<in> set (rg_fired (js_registry lone_fired))"
    by (simp_all add: lone_defs)
  from cancelled_before_start_never_runs [OF lone_fired_reached this reaches_trans [OF lone_cancelled_reached lone_ended_reached]]
  show ?thesis by blast
qed

subsection \<open>Every worker can finish\<close>

lemma move_move [simp]: "move i kind ph' rg' (move i kind ph rg s) = move i kind ph' rg' s"
  by (simp add: move_def)

definition can_release :: "string \<Rightarrow> job_kind \<Rightarrow> job_system \<Rightarrow> bool" where
  "can_release i kind s = (\<exists>rg. reaches s (move i kind Released rg s)
     \<and> kind_owner rg = (kind_owner (js_registry s))(kind := None))"

lemma can_release_step:
  assumes "js_workers s i = Some (kind, phase)" "worker_step (js_registry s) i kind phase phase' rg'" "system_ok s"
    and "locks_of rg' = locks_of (js_registry s)"
    and "system_ok (move i kind phase' rg' s) \<Longrightarrow> can_release i kind (move i kind phase' rg' s)"
  shows "can_release i kind s"
  using assms(5) [OF work_ok [OF assms(3,1,2)]] same_locks(1) [OF assms(4)]
    reaches_trans [OF reaches_work [OF reaches_refl assms(1,2)]] unfolding can_release_def by auto

lemma sweeping_tokens_release:
  assumes "js_workers s i = Some (kind, SweepingTokens removed)" "system_ok s"
  shows "can_release i kind s"
proof -
  let ?rg = "if removed = [] then js_registry s else drop_tokens removed (js_registry s)"
  have same: "locks_of ?rg = locks_of (js_registry s)" by simp
  obtain l where l: "rg_lock_of (js_registry s) i = Some l" "map_of (rg_kind_locks (js_registry s)) kind = Some l"
    using system_okD(3) [OF assms(2,1)] by (auto simp: keeps_kind_lock_def)
  have "kind_owner (hold l None ?rg) = (kind_owner ?rg)(kind := None)"
    by (rule hold_locks(1)) (use l(2) same system_okD(5) [OF assms(2)] same_locks(2) [OF same] in \<open>simp_all add: locks_of_def\<close>)
  then show ?thesis
    unfolding can_release_def same_locks(1) [OF same]
    using reaches_work [OF reaches_refl assms(1) worker_step.SweepTokens [OF l(1)]] by fastforce
qed

lemma sweeping_releases:
  assumes "js_workers s i = Some (kind, Sweeping)" "system_ok s"
  shows "can_release i kind s"
proof -
  define order where "order = map fst (rg_jobs (js_registry s))"
  have order: "distinct order" "set order = set (map fst (rg_jobs (js_registry s)))"
    using system_okD(1) [OF assms(2)] by (simp_all add: order_def bt_wf_def strict_sorted_iff)
  obtain removed rg' where sweep: "sweep_jobs 0 order (js_registry s) = (removed, rg')" by force
  show ?thesis
    by (rule can_release_step [OF assms(1) worker_step.Sweep [OF order sweep] assms(2)])
      (simp_all add: sweep_jobs_registry [OF sweep] sweeping_tokens_release)
qed

lemma finishing_tokens_release:
  assumes "js_workers s i = Some (kind, FinishingTokens)" "system_ok s"
  shows "can_release i kind s"
  by (rule can_release_step [OF assms(1) worker_step.FinishTokens assms(2)]) (simp_all add: sweeping_releases)

lemma finishing_releases:
  assumes "js_workers s i = Some (kind, Finishing st r e)" "system_ok s"
  shows "can_release i kind s"
  by (rule can_release_step [OF assms(1) worker_step.FinishJob [where now = 0] assms(2)])
    (simp_all add: finishing_tokens_release finish_job_def)

lemma working_releases:
  assumes "js_workers s i = Some (kind, Working t)" "system_ok s"
  shows "can_release i kind s"
  by (rule can_release_step [OF assms(1) worker_step.Outcome [where r = "Inl []"] assms(2)])
    (simp_all add: finishing_releases)

lemma starting_releases:
  assumes "js_workers s i = Some (kind, Starting t)" "system_ok s"
  shows "can_release i kind s"
  by (rule can_release_step [OF assms(1) worker_step.MarkRunning assms(2)])
    (simp_all add: working_releases mark_running_def)

lemma holding_releases:
  assumes "js_workers s i = Some (kind, Holding t)" "system_ok s"
  shows "can_release i kind s"
proof (cases "t \<in> set (rg_fired (js_registry s))")
  case True
  show ?thesis
    by (rule can_release_step [OF assms(1) worker_step.SeeCancelled [OF True] assms(2)]) (simp_all add: finishing_releases)
next
  case False
  show ?thesis
    by (rule can_release_step [OF assms(1) worker_step.Proceed [OF False] assms(2)]) (simp_all add: starting_releases)
qed

lemmas phase_releases = sweeping_tokens_release sweeping_releases finishing_tokens_release finishing_releases
  working_releases starting_releases holding_releases

lemma holder_releases:
  assumes "system_ok s" "js_workers s i = Some (kind, phase)" "holds_lock phase"
  shows "can_release i kind s"
  using assms(2,3) by (cases phase) (auto intro: phase_releases assms(1))

text \<open>A waiting worker gets the lock of its kind once the holder has released it.\<close>

lemma waiting_finishes:
  assumes "system_ok s" "js_workers s i = Some (kind, Waiting t)"
  shows "\<exists>s'. reaches s s' \<and> js_workers s' i = Some (kind, Released)"
proof -
  have free: "\<exists>s'. reaches s s' \<and> js_workers s' i = Some (kind, Released)"
    if "js_workers s i = Some (kind, Waiting t)" "kind_owner (js_registry s) kind = None" "system_ok s" for s
  proof -
    note free = that
    obtain l where l: "rg_lock_of (js_registry s) i = Some l" "map_of (rg_kind_locks (js_registry s)) kind = Some l"
      using system_okD(3) [OF free(3,1)] by (auto simp: keeps_kind_lock_def)
    let ?s = "move i kind (Holding t) (hold l (Some i) (js_registry s)) s"
    have step: "reaches s ?s"
      by (rule reaches_work [OF reaches_refl that(1) worker_step.Acquire [OF l(1)]]) (use that(2) l(2) in \<open>simp add: kind_owner_def\<close>)
    have "can_release i kind ?s"
      by (rule holder_releases [OF reaches_ok [OF step that(3)], of i kind "Holding t"]) simp_all
    then show ?thesis using reaches_trans [OF step] unfolding can_release_def by fastforce
  qed
  show ?thesis
  proof (cases "kind_owner (js_registry s) kind")
    case None
    then show ?thesis using free assms by blast
  next
    case (Some k)
    then obtain phase where phase: "js_workers s k = Some (kind, phase)" using system_okD(4) [OF assms(1)] by blast
    then have lock: "holds_lock phase" using system_okD(3) [OF assms(1) phase] Some by simp
    then have "k \<noteq> i" using phase assms(2) by auto
    obtain rg where rg: "reaches s (move k kind Released rg s)" "kind_owner rg = (kind_owner (js_registry s))(kind := None)"
      using holder_releases [OF assms(1) phase lock] unfolding can_release_def by blast
    have "\<exists>s'. reaches (move k kind Released rg s) s' \<and> js_workers s' i = Some (kind, Released)"
      using rg(2) \<open>k \<noteq> i\<close> assms(2) by (intro free) (simp_all add: reaches_ok [OF rg(1) assms(1)])
    then show ?thesis using reaches_trans [OF rg(1)] by blast
  qed
qed

lemma registered_finishes:
  assumes "system_ok s" "js_workers s i = Some (kind, Registered t)"
  shows "\<exists>s'. reaches s s' \<and> js_workers s' i = Some (kind, Released)"
proof -
  obtain l rg' where "kind_lock kind (js_registry s) = (l, rg')" by fastforce
  then have step: "reaches s (move i kind (Waiting t) (keep_lock i l rg') s)"
    by (intro reaches_work [OF reaches_refl assms(2)] worker_step.KindLock)
  from waiting_finishes [OF reaches_ok [OF step assms(1)], of i kind t] show ?thesis
    using reaches_trans [OF step] by auto
qed

text \<open>
  C34: the locks never deadlock. From every state the daemon can reach, whatever jobs hold or wait for the
  locks of their kinds, every spawned worker has a run that releases its lock and ends.
\<close>

theorem every_worker_can_end:
  assumes "reaches system_start s" "js_workers s i = Some (kind, phase)"
  shows "\<exists>s'. reaches s s' \<and> js_workers s' i = Some (kind, Released)"
proof -
  note ok = reachable_ok [OF assms(1)]
  show ?thesis
  proof (cases phase)
    case Inserted
    obtain t rg' where token: "register_token i (js_registry s) = (t, rg')" by fastforce
    have step: "reaches s (move i kind (Registered t) rg' s)"
      by (rule reaches_work [OF reaches_refl _ worker_step.Register [OF token]]) (use assms(2) Inserted in simp)
    from registered_finishes [OF reaches_ok [OF step ok], of i kind t] show ?thesis
      using reaches_trans [OF step] by auto
  next
    case (Registered t)
    then show ?thesis using registered_finishes [OF ok] assms(2) by blast
  next
    case (Waiting t)
    then show ?thesis using waiting_finishes [OF ok] assms(2) by blast
  next
    case Released
    then show ?thesis using assms(2) reaches_refl by blast
  qed (use holder_releases [OF ok assms(2)] in \<open>fastforce simp: can_release_def\<close>)+
qed

theorem every_worker_can_end_witness:
  "\<exists>s'. reaches demo_working s' \<and> js_workers s' ''b'' = Some (KbSync, Released)"
proof -
  have "js_workers demo_working ''b'' = Some (KbSync, Waiting 1)" by (simp add: demo_defs)
  from every_worker_can_end [OF demo_reached(1) this] show ?thesis .
qed

end
