(* ===== verification/Cmdb_Domain.thy ===== *)
theory Cmdb_Domain
  imports Json
begin

text \<open>
  The server inventory of a Business Application: its vocabulary. The parameters and options of the
  traversal and its summary (\<open>snow_core/src/resource/business_application.rs\<close>), the server classes
  (\<open>resource/server.rs\<close>), relationship edges, routes and their bookkeeping
  (\<open>service/business_application/topology.rs\<close>).

  A row of the client library (\<open>servicenow_rs::Record\<close>) is what its accessors return: \<open>get\<close> (the raw
  JSON text of the value), \<open>get_raw\<close>, \<open>get_str\<close> and \<open>get_display\<close>. A \<open>usize\<close> is a natural number: the
  counts are bounded by the options. A \<open>HashMap\<close> is a map in key order; the code never iterates over
  one of those modelled here.
\<close>

subsection \<open>Rows of the client library\<close>

record snow_row =
  rw_sys_id :: string
  rw_table :: string
  rw_value :: "string \<Rightarrow> string option"
  rw_raw :: "string \<Rightarrow> string option"
  rw_str :: "string \<Rightarrow> string option"
  rw_display :: "string \<Rightarrow> string option"

datatype api_error = ApiStatus nat string | OtherApi string

fun api_message :: "api_error \<Rightarrow> string" where
  "api_message (ApiStatus status text) = text"
| "api_message (OtherApi text) = text"

fun denied :: "api_error \<Rightarrow> bool" where
  "denied (ApiStatus status text) = (status = 401 \<or> status = 403)"
| "denied (OtherApi text) = False"

definition is_servicenow_acl_error :: "api_error \<Rightarrow> bool" where
  "is_servicenow_acl_error e = (denied e \<or>
     (let message = to_lower (api_message e)
      in str_contains ''authentication failed'' message \<or> str_contains ''forbidden'' message
        \<or> str_contains ''unauthorized'' message))"

definition or_try :: "'a option \<Rightarrow> 'a option \<Rightarrow> 'a option" where
  "or_try a b = (case a of None \<Rightarrow> b | Some x \<Rightarrow> Some x)"

definition non_empty_owned :: "string option \<Rightarrow> string option" where
  "non_empty_owned v = Option.bind v (\<lambda>t. if trim t = [] then None else Some (trim t))"

definition normalize_record_lookup_sys_id :: "string \<Rightarrow> (string, string) result" where
  "normalize_record_lookup_sys_id s =
     (let normalized = to_lower (trim s)
      in if length normalized \<noteq> 32 \<or> \<not> list_all is_hexdigit normalized
         then Inl ''sys_id must be exactly 32 ASCII hex characters'' else Inr normalized)"

definition ok_of :: "('e, 'a) result \<Rightarrow> 'a option" where
  "ok_of r = (case r of Inl _ \<Rightarrow> None | Inr x \<Rightarrow> Some x)"

definition servicenow_reference_sys_id :: "snow_row \<Rightarrow> string \<Rightarrow> string option" where
  "servicenow_reference_sys_id row field =
     Option.bind (or_try (rw_value row field) (or_try (rw_raw row field) (rw_str row field)))
       (\<lambda>v. ok_of (normalize_record_lookup_sys_id v))"

definition servicenow_record_text :: "snow_row \<Rightarrow> string \<Rightarrow> string option" where
  "servicenow_record_text row field =
     non_empty_owned (or_try (rw_display row field) (or_try (rw_raw row field) (rw_str row field)))"

definition servicenow_record_raw_text :: "snow_row \<Rightarrow> string \<Rightarrow> string option" where
  "servicenow_record_raw_text row field = non_empty_owned (or_try (rw_raw row field) (rw_str row field))"

definition servicenow_record_display_text :: "snow_row \<Rightarrow> string \<Rightarrow> string option" where
  "servicenow_record_display_text row field = non_empty_owned (rw_display row field)"

subsection \<open>Server classes\<close>

definition server_table :: string where
  "server_table = ''cmdb_ci_server''"

definition server_tables :: "string list" where
  "server_tables = [server_table, ''cmdb_ci_linux_server'', ''cmdb_ci_win_server'']"

definition server_subclass_tables :: "string list" where
  "server_subclass_tables = [''cmdb_ci_unix_server'', ''cmdb_ci_aix_server'', ''cmdb_ci_solaris_server'',
     ''cmdb_ci_hpux_server'', ''cmdb_ci_osx_server'', ''cmdb_ci_esx_server'', ''cmdb_ci_ucs_blade'',
     ''cmdb_ci_mainframe_hardware'', ''cmdb_ci_mainframe_lpar'']"

definition normalize_table_name :: "string \<Rightarrow> string" where
  "normalize_table_name t = map (\<lambda>c. if c = CHR '' '' \<or> c = CHR ''-'' then CHR ''_'' else c) (to_lower (trim t))"

definition canonical_server_table_alias :: "string \<Rightarrow> string" where
  "canonical_server_table_alias v =
     (let t = normalize_table_name v
      in if t \<in> set [''server'', ''servers''] then ''server''
         else if t \<in> set [''linux'', ''linux_server'', ''linux_servers''] then ''cmdb_ci_linux_server''
         else if t \<in> set [''windows'', ''window'', ''windows_server'', ''windows_servers'', ''win_server'', ''win_servers'']
         then ''cmdb_ci_win_server''
         else t)"

definition is_server_class :: "string \<Rightarrow> bool" where
  "is_server_class v =
     (let t = canonical_server_table_alias v
      in t \<in> set server_tables \<or> t \<in> set server_subclass_tables
         \<or> (starts_with ''cmdb_ci_'' t \<and> ends_with ''_server'' t))"

definition is_application_service_class :: "string option \<Rightarrow> bool" where
  "is_application_service_class c = (case non_empty_owned c of
     None \<Rightarrow> False
   | Some t \<Rightarrow> (let n = to_lower t
       in n = ''cmdb_ci_service'' \<or> starts_with ''cmdb_ci_service_'' n \<or> str_contains ''_application_service'' n))"

definition is_server_table :: "string \<Rightarrow> bool" where
  "is_server_table v = (canonical_server_table_alias v \<in> set server_tables)"

definition is_business_application_alias :: "string \<Rightarrow> bool" where
  "is_business_application_alias v =
     (normalize_table_name v \<in> set [''business_application'', ''business_app'', ''cmdb_ci_business_app''])"

definition is_change_request_table :: "string \<Rightarrow> bool" where
  "is_change_request_table t =
     (t \<in> set [''change'', ''change_request'', ''normal_change'', ''standard_change'', ''emergency_change'']
      \<or> starts_with ''change_request_'' t)"

definition is_change_request_number :: "string \<Rightarrow> bool" where
  "is_change_request_number n = starts_with ''CHG'' (to_upper (trim n))"

definition canonical_record_table_for_number :: "string \<Rightarrow> string \<Rightarrow> string" where
  "canonical_record_table_for_number table number =
     (let t = normalize_table_name table
      in if is_business_application_alias t then ''cmdb_ci_business_app''
         else if is_change_request_table t \<or> is_change_request_number number then ''change_request''
         else t)"

definition numbered :: "string \<Rightarrow> snow_row \<Rightarrow> string" where
  "numbered mark row = (case non_empty_owned (or_try (rw_raw row ''number'')
       (or_try (rw_display row ''number'') (rw_str row ''number''))) of
     Some n \<Rightarrow> n | None \<Rightarrow> mark @ rw_sys_id row)"

definition record_number :: "snow_row \<Rightarrow> string" where
  "record_number row =
     (if is_business_application_alias (rw_table row) then numbered ''BA:'' row
      else if is_server_table (rw_table row) then numbered ''SERVER:'' row
      else (case rw_str row ''number'' of None \<Rightarrow> [] | Some n \<Rightarrow> n))"

text \<open>A server as far as the inventory looks at it: its identity, its class and its table.\<close>

record server =
  sv_sys_id :: string
  sv_class_name :: "string option"
  sv_table :: string

definition server_from_row :: "snow_row \<Rightarrow> server" where
  "server_from_row row = \<lparr>sv_sys_id = rw_sys_id row,
     sv_class_name = servicenow_record_text row ''sys_class_name'', 
     sv_table = canonical_record_table_for_number (rw_table row) (record_number row)\<rparr>"

subsection \<open>Options\<close>

datatype fallback_strategy = NoFallback | CiOwnerGroup

fun fallback_is_enabled :: "fallback_strategy \<Rightarrow> bool" where
  "fallback_is_enabled NoFallback = False"
| "fallback_is_enabled CiOwnerGroup = True"

fun fallback_as_str :: "fallback_strategy \<Rightarrow> string" where
  "fallback_as_str NoFallback = ''none''"
| "fallback_as_str CiOwnerGroup = ''ci_owner_group''"

datatype servers_selector = ByNumber string | BySysId string

record servers_params =
  sp_number :: "string option"
  sp_sys_id :: "string option"
  sp_max_depth :: "nat option"
  sp_max_cis :: "nat option"
  sp_max_edges :: "nat option"
  sp_max_associations :: "nat option"
  sp_max_pages :: "nat option"
  sp_relationship_type :: "string list"
  sp_include_paths :: bool
  sp_fallback :: fallback_strategy
  sp_persist :: "bool option"
  sp_prune_stale :: bool

record servers_options =
  so_selector :: servers_selector
  so_max_depth :: nat
  so_max_cis :: nat
  so_max_edges :: nat
  so_max_associations :: nat
  so_max_pages :: nat
  so_relationship_type :: "string list"
  so_include_paths :: bool
  so_fallback :: fallback_strategy
  so_persist :: bool
  so_prune_stale :: bool

definition validate_bound :: "string \<Rightarrow> nat option \<Rightarrow> nat \<Rightarrow> nat \<Rightarrow> (string, nat) result" where
  "validate_bound name v dflt most =
     (let n = (case v of None \<Rightarrow> dflt | Some n \<Rightarrow> n)
      in if n = 0 then Inl (''`'' @ name @ ''` must be at least 1'')
         else if most < n then Inl (''`'' @ name @ ''` must be at most '' @ nat_text most)
         else Inr n)"

definition normalize_business_application_number :: "string \<Rightarrow> (string, string) result" where
  "normalize_business_application_number number =
     (let normalized = to_upper (trim number);
          rest = (case strip_prefix ''APM'' normalized of None \<Rightarrow> [] | Some s \<Rightarrow> s)
      in if starts_with ''BA:'' normalized
         then Inl ''`number` must be a real Business Application number, not BA:<sys_id>''
         else if rest = [] \<or> \<not> list_all is_digit rest
         then Inl ''`number` must be a real Business Application number such as <APM_NUMBER>''
         else Inr normalized)"

definition normalized_relationship_types :: "string list \<Rightarrow> string list" where
  "normalized_relationship_types vs = dedup_str (List.map_filter (\<lambda>v. non_empty_owned (Some v)) vs)"

definition exactly_one :: string where
  "exactly_one = ''provide exactly one of `number` or `sys_id`''"

text \<open>The bounds in the order the code checks them.\<close>

definition bounded_options :: "servers_params \<Rightarrow> servers_selector \<Rightarrow> (string, servers_options) result" where
  "bounded_options p selector =
     bind_ok (validate_bound ''max_depth'' (sp_max_depth p) 2 4) (\<lambda>depth.
     bind_ok (validate_bound ''max_cis'' (sp_max_cis p) 500 5000) (\<lambda>cis.
     bind_ok (validate_bound ''max_edges'' (sp_max_edges p) 2000 20000) (\<lambda>edges.
     bind_ok (validate_bound ''max_service_membership_associations'' (sp_max_associations p) 2000 20000) (\<lambda>associations.
     bind_ok (validate_bound ''max_service_membership_pages'' (sp_max_pages p) 20 200) (\<lambda>pages.
       Inr \<lparr>so_selector = selector, so_max_depth = depth, so_max_cis = cis, so_max_edges = edges,
         so_max_associations = associations, so_max_pages = pages,
         so_relationship_type = normalized_relationship_types (sp_relationship_type p),
         so_include_paths = sp_include_paths p, so_fallback = sp_fallback p,
         so_persist = (sp_persist p = Some True), so_prune_stale = sp_prune_stale p\<rparr>)))))"

definition validate_servers_params :: "servers_params \<Rightarrow> (string, servers_options) result" where
  "validate_servers_params p =
     (if sp_prune_stale p \<and> sp_persist p \<noteq> Some True then Inl ''`prune_stale` requires `persist=true`''
      else case (non_empty_owned (sp_number p), non_empty_owned (sp_sys_id p)) of
          (Some number, None) \<Rightarrow>
            bind_ok (normalize_business_application_number number) (\<lambda>n. bounded_options p (ByNumber n))
        | (None, Some sys_id) \<Rightarrow>
            bind_ok (normalize_record_lookup_sys_id sys_id) (\<lambda>i. bounded_options p (BySysId i))
        | _ \<Rightarrow> Inl exactly_one)"

subsection \<open>The summary and the diagnostics\<close>

datatype resolution_reason =
    DictionaryUnavailable | UnknownReferenceTable | ReferenceNotFound | ReferenceAclRestricted
  | ReferenceResolutionFailed | CycleDetected | FanoutLimitExceeded

fun reason_as_key :: "resolution_reason \<Rightarrow> string" where
  "reason_as_key DictionaryUnavailable = ''dictionary_unavailable''"
| "reason_as_key UnknownReferenceTable = ''unknown_reference_table''"
| "reason_as_key ReferenceNotFound = ''reference_not_found''"
| "reason_as_key ReferenceAclRestricted = ''reference_acl_restricted''"
| "reason_as_key ReferenceResolutionFailed = ''reference_resolution_failed''"
| "reason_as_key CycleDetected = ''cycle_detected''"
| "reason_as_key FanoutLimitExceeded = ''fanout_limit_exceeded''"

record diagnostic =
  dg_field :: string
  dg_table :: string
  dg_sys_id :: string
  dg_display :: "string option"
  dg_reason :: resolution_reason
  dg_message :: "string option"

record servers_summary =
  sm_max_depth :: nat
  sm_max_cis :: nat
  sm_max_edges :: nat
  sm_max_associations :: nat
  sm_max_pages :: nat
  sm_servers_found :: nat
  sm_relationships_examined :: nat
  sm_associations_examined :: nat
  sm_pages_examined :: nat
  sm_cis_examined :: nat
  sm_depth_limit :: bool
  sm_ci_limit :: bool
  sm_edge_limit :: bool
  sm_association_limit :: bool
  sm_page_limit :: bool
  sm_truncated :: bool
  sm_truncated_count :: nat
  sm_acl_restricted :: nat
  sm_relationship_acl :: nat
  sm_missing_ci :: nat
  sm_cycles :: nat
  sm_degraded :: "(string, nat) btree"
  sm_persisted_servers :: nat
  sm_membership_upserts :: nat
  sm_membership_pruned :: nat
  sm_membership_status :: "string option"
  sm_relationship_status :: "string option"
  sm_inventory_status :: "string option"
  sm_cmdb_servers_found :: "nat option"
  sm_fallback_used :: bool
  sm_fallback_strategy :: "string option"
  sm_fallback_group :: "string option"
  sm_fallback_group_name :: "string option"

definition summary_new :: "servers_options \<Rightarrow> servers_summary" where
  "summary_new opts = \<lparr>sm_max_depth = so_max_depth opts, sm_max_cis = so_max_cis opts,
     sm_max_edges = so_max_edges opts, sm_max_associations = so_max_associations opts,
     sm_max_pages = so_max_pages opts, sm_servers_found = 0, sm_relationships_examined = 0,
     sm_associations_examined = 0, sm_pages_examined = 0, sm_cis_examined = 0, sm_depth_limit = False,
     sm_ci_limit = False, sm_edge_limit = False, sm_association_limit = False, sm_page_limit = False,
     sm_truncated = False, sm_truncated_count = 0, sm_acl_restricted = 0, sm_relationship_acl = 0,
     sm_missing_ci = 0, sm_cycles = 0, sm_degraded = [], sm_persisted_servers = 0,
     sm_membership_upserts = 0, sm_membership_pruned = 0, sm_membership_status = None,
     sm_relationship_status = None, sm_inventory_status = None, sm_cmdb_servers_found = None,
     sm_fallback_used = False, sm_fallback_strategy = None, sm_fallback_group = None,
     sm_fallback_group_name = None\<rparr>"

definition record_degraded_reason :: "resolution_reason \<Rightarrow> servers_summary \<Rightarrow> servers_summary" where
  "record_degraded_reason r sm = sm\<lparr>sm_degraded := bt_insert (reason_as_key r)
     (case bt_get (sm_degraded sm) (reason_as_key r) of None \<Rightarrow> 1 | Some n \<Rightarrow> n + 1) (sm_degraded sm)\<rparr>"

definition mark_truncated :: "nat \<Rightarrow> servers_summary \<Rightarrow> servers_summary" where
  "mark_truncated skipped sm = sm\<lparr>sm_truncated := True, sm_truncated_count := sm_truncated_count sm + skipped\<rparr>"

text \<open>The summary and the diagnostics are threaded through every step together.\<close>

record account =
  ac_summary :: servers_summary
  ac_diagnostics :: "diagnostic list"

definition on_summary :: "(servers_summary \<Rightarrow> servers_summary) \<Rightarrow> account \<Rightarrow> account" where
  "on_summary f ac = ac\<lparr>ac_summary := f (ac_summary ac)\<rparr>"

definition push_diagnostic ::
  "string \<Rightarrow> string \<Rightarrow> string \<Rightarrow> resolution_reason \<Rightarrow> string \<Rightarrow> account \<Rightarrow> account" where
  "push_diagnostic field table sys_id reason message ac =
     \<lparr>ac_summary = record_degraded_reason reason (ac_summary ac),
      ac_diagnostics = ac_diagnostics ac @ [\<lparr>dg_field = field, dg_table = table, dg_sys_id = sys_id,
        dg_display = None, dg_reason = reason, dg_message = Some message\<rparr>]\<rparr>"

definition mark_edge_limit :: "account \<Rightarrow> account" where
  "mark_edge_limit ac =
     (if sm_edge_limit (ac_summary ac) then ac
      else push_diagnostic ''cmdb_rel_ci'' ''cmdb_rel_ci'' [] FanoutLimitExceeded
             ''max_edges prevented reading more relationships''
             (on_summary (\<lambda>sm. mark_truncated 1 (sm\<lparr>sm_edge_limit := True\<rparr>)) ac))"

subsection \<open>Relationships and routes\<close>

record relationship_type =
  rt_value :: string
  rt_display :: "string option"

datatype direction = ParentToChild | ChildToParent

datatype edge_source = RelationshipEdge | ServiceMembershipEdge

record relationship_edge =
  re_parent :: string
  re_child :: string
  re_parent_class :: "string option"
  re_child_class :: "string option"
  re_type :: relationship_type

record path_edge =
  pe_depth :: nat
  pe_parent :: string
  pe_child :: string
  pe_direction :: direction
  pe_type :: relationship_type
  pe_source :: edge_source

type_synonym chain = "path_edge list"
type_synonym chains = "(string, chain list) btree"

definition matches_any :: "string list \<Rightarrow> relationship_type \<Rightarrow> bool" where
  "matches_any allowed t = (allowed = [] \<or>
     (\<exists>a \<in> set allowed. to_lower (trim (rt_value t)) = to_lower (trim a)
        \<or> map_option (\<lambda>d. to_lower (trim d)) (rt_display t) = Some (to_lower (trim a))))"

definition edge_key :: "relationship_edge \<Rightarrow> string \<times> string \<times> string \<times> string option" where
  "edge_key e = (re_parent e, re_child e, rt_value (re_type e), rt_display (re_type e))"

text \<open>Where the traversal enters the edge, where it leaves it, and in which direction.\<close>

definition traversal_endpoint :: "string list \<Rightarrow> relationship_edge \<Rightarrow> (string \<times> string \<times> direction) option" where
  "traversal_endpoint frontier e =
     (if re_parent e \<in> set frontier then Some (re_parent e, re_child e, ParentToChild)
      else if re_child e \<in> set frontier then Some (re_child e, re_parent e, ChildToParent)
      else None)"

definition path_edge_of :: "nat \<Rightarrow> direction \<Rightarrow> relationship_edge \<Rightarrow> path_edge" where
  "path_edge_of depth d e = \<lparr>pe_depth = depth, pe_parent = re_parent e, pe_child = re_child e,
     pe_direction = d, pe_type = re_type e, pe_source = RelationshipEdge\<rparr>"

definition edge_from :: "path_edge \<Rightarrow> string" where
  "edge_from e = (case pe_direction e of ParentToChild \<Rightarrow> pe_parent e | ChildToParent \<Rightarrow> pe_child e)"

definition edge_to :: "path_edge \<Rightarrow> string" where
  "edge_to e = (case pe_direction e of ParentToChild \<Rightarrow> pe_child e | ChildToParent \<Rightarrow> pe_parent e)"

definition chain_nodes :: "chain \<Rightarrow> string list" where
  "chain_nodes c = (case c of [] \<Rightarrow> [] | e # _ \<Rightarrow> [edge_from e]) @ map edge_to c"

definition contains_ancestor :: "chain list option \<Rightarrow> string \<Rightarrow> string \<Rightarrow> bool" where
  "contains_ancestor current adjacent_id current_id =
     (case current of
        None \<Rightarrow> True
      | Some cs \<Rightarrow> cs = [] \<or> adjacent_id = current_id \<or> (\<exists>c \<in> set cs. adjacent_id \<in> set (chain_nodes c)))"

definition chains_of :: "chains \<Rightarrow> string \<Rightarrow> chain list" where
  "chains_of m i = (case bt_get m i of None \<Rightarrow> [] | Some cs \<Rightarrow> cs)"

definition extended_path_chains :: "chains \<Rightarrow> string \<Rightarrow> path_edge \<Rightarrow> chain list" where
  "extended_path_chains m parent e =
     (if chains_of m parent = [] then [[e]]
      else map (\<lambda>c. c @ [e]) (filter (\<lambda>c. c = [] \<or> pe_direction (hd c) = pe_direction e) (chains_of m parent)))"

definition extend_path_chains :: "string \<Rightarrow> string \<Rightarrow> path_edge \<Rightarrow> chains \<Rightarrow> bool \<times> chains" where
  "extend_path_chains parent child e m =
     (let new = extended_path_chains m parent e
      in if new = [] then (False, m) else (True, bt_insert child (chains_of m child @ new) m))"

definition service_edge :: "nat \<Rightarrow> string \<Rightarrow> string \<Rightarrow> path_edge" where
  "service_edge depth service server = \<lparr>pe_depth = depth, pe_parent = service, pe_child = server,
     pe_direction = ParentToChild,
     pe_type = \<lparr>rt_value = ''service_member_of'', rt_display = Some ''service_member_of''\<rparr>,
     pe_source = ServiceMembershipEdge\<rparr>"

definition service_membership_paths_for :: "chains \<Rightarrow> string \<Rightarrow> string \<Rightarrow> chain list" where
  "service_membership_paths_for m service server =
     (if chains_of m service = [] then [[service_edge 1 service server]]
      else map (\<lambda>c. c @ [service_edge (length c + 1) service server]) (chains_of m service))"

text \<open>The routes of a server not emitted yet. The loop appends the chains at the positions past the end.\<close>

definition emit_alternate_server_path ::
  "(string, server) btree \<Rightarrow> chains \<Rightarrow> string \<Rightarrow> chains \<Rightarrow> chains" where
  "emit_alternate_server_path servers paths i emitted =
     (if bt_get servers i = None then emitted
      else case bt_get paths i of
          None \<Rightarrow> emitted
        | Some cs \<Rightarrow> bt_insert i (chains_of emitted i @ drop (length (chains_of emitted i)) cs) emitted)"

subsection \<open>Discoveries\<close>

datatype provenance = ViaRelationship | ViaServiceMembership | ViaBoth

fun provenance_as_str :: "provenance \<Rightarrow> string" where
  "provenance_as_str ViaRelationship = ''relationship''"
| "provenance_as_str ViaServiceMembership = ''service_membership''"
| "provenance_as_str ViaBoth = ''both''"

fun provenance_merge :: "provenance \<Rightarrow> provenance \<Rightarrow> provenance" where
  "provenance_merge ViaRelationship ViaRelationship = ViaRelationship"
| "provenance_merge ViaServiceMembership ViaServiceMembership = ViaServiceMembership"
| "provenance_merge _ _ = ViaBoth"

record discovery =
  di_server :: server
  di_provenance :: provenance
  di_relationship_paths :: "chain list"
  di_membership_paths :: "chain list"

definition add_paths :: "provenance \<Rightarrow> chain list \<Rightarrow> discovery \<Rightarrow> discovery" where
  "add_paths p paths d =
     (let d' = d\<lparr>di_provenance := provenance_merge (di_provenance d) p\<rparr>
      in case p of
           ViaRelationship \<Rightarrow> d'\<lparr>di_relationship_paths := di_relationship_paths d @ paths\<rparr>
         | ViaServiceMembership \<Rightarrow> d'\<lparr>di_membership_paths := di_membership_paths d @ paths\<rparr>
         | ViaBoth \<Rightarrow> d'\<lparr>di_relationship_paths := di_relationship_paths d @ paths,
                          di_membership_paths := di_membership_paths d @ paths\<rparr>)"

definition discovery_new :: "server \<Rightarrow> provenance \<Rightarrow> chain list \<Rightarrow> discovery" where
  "discovery_new sv p paths = add_paths p paths
     \<lparr>di_server = sv, di_provenance = p, di_relationship_paths = [], di_membership_paths = []\<rparr>"

definition discovery_paths :: "discovery \<Rightarrow> chain list" where
  "discovery_paths d = di_relationship_paths d @ di_membership_paths d"

definition merge_discovery ::
  "server \<Rightarrow> provenance \<Rightarrow> chain list \<Rightarrow> (string, discovery) btree \<Rightarrow> (string, discovery) btree" where
  "merge_discovery sv p paths m = bt_insert (sv_sys_id sv)
     (case bt_get m (sv_sys_id sv) of Some d \<Rightarrow> add_paths p paths d | None \<Rightarrow> discovery_new sv p paths) m"

end
