(* ===== verification/Cmdb_Reads.thy ===== *)
theory Cmdb_Reads
  imports Cmdb_Domain
begin

text \<open>
  The reads of the server inventory (\<open>snow_core/src/service/business_application/inventory.rs\<close>,
  \<open>table_ancestors\<close> of \<open>context.rs\<close>): the paginated reads under a budget, their merge into one level
  of relationships, the classes of CIs and the server rows.

  ServiceNow is a record of functions, one per query of the code; a query of the traversal also gets the
  level it is made at, so its answer may change from level to level. A paginated query answers with the
  replies of the successive \<open>next_page\<close> calls up to the first \<open>Ok(None)\<close>, which the client library
  returns once the result set is exhausted, and with what \<open>is_done\<close> says after \<open>n\<close> pages.
\<close>

record pages =
  pg_replies :: "(api_error, snow_row list) result list"
  pg_done :: "nat \<Rightarrow> bool"

record cmdb =
  cq_relations :: "nat \<Rightarrow> string \<Rightarrow> string list \<Rightarrow> nat \<Rightarrow> (api_error, pages) result"
  cq_ci_classes :: "nat \<Rightarrow> string list \<Rightarrow> (api_error, snow_row list) result"
  cq_servers :: "nat \<Rightarrow> string list \<Rightarrow> (api_error, snow_row list) result"
  cq_object_named :: "nat \<Rightarrow> string \<Rightarrow> (api_error, snow_row option) result"
  cq_object :: "nat \<Rightarrow> string \<Rightarrow> (api_error, snow_row option) result"
  cq_members :: "string list \<Rightarrow> nat \<Rightarrow> (api_error, pages) result"
  cq_relation_types :: "string list \<Rightarrow> (api_error, snow_row list) result"
  cq_group_servers :: "string \<Rightarrow> nat \<Rightarrow> (api_error, snow_row list) result"

subsection \<open>One direction\<close>

record direction_read =
  dr_field :: string
  dr_rows :: "snow_row list"
  dr_edge_limit :: bool
  dr_acl :: bool

definition direction_read_new :: "string \<Rightarrow> direction_read" where
  "direction_read_new field = \<lparr>dr_field = field, dr_rows = [], dr_edge_limit = False, dr_acl = False\<rparr>"

definition relationship_page_size :: nat where
  "relationship_page_size = 1000"

text \<open>The loop over the pages: \<open>n\<close> pages were read; the rows collected are those of the read.\<close>

fun read_relations ::
  "nat \<Rightarrow> (nat \<Rightarrow> bool) \<Rightarrow> nat \<Rightarrow> (api_error, snow_row list) result list \<Rightarrow> direction_read
     \<Rightarrow> (api_error, direction_read) result" where
  "read_relations remaining done_after n replies r =
     (if remaining \<le> length (dr_rows r)
      then Inr (if \<not> done_after n then r\<lparr>dr_edge_limit := True\<rparr> else r)
      else case replies of
          [] \<Rightarrow> Inr r
        | reply # later \<Rightarrow> (case reply of
            Inl e \<Rightarrow> if is_servicenow_acl_error e then Inr (r\<lparr>dr_acl := True\<rparr>) else Inl e
          | Inr rows \<Rightarrow>
              (let room = remaining - length (dr_rows r)
               in if room < length rows
                  then Inr (r\<lparr>dr_rows := dr_rows r @ take room rows, dr_edge_limit := True\<rparr>)
                  else read_relations remaining done_after (n + 1) later (r\<lparr>dr_rows := dr_rows r @ rows\<rparr>))))"

declare read_relations.simps [simp del]

definition relationship_direction_read ::
  "cmdb \<Rightarrow> nat \<Rightarrow> string \<Rightarrow> string list \<Rightarrow> nat \<Rightarrow> (api_error, direction_read) result" where
  "relationship_direction_read q level field frontier remaining =
     (if frontier = [] \<or> remaining = 0 then Inr (direction_read_new field)
      else bind_ok (cq_relations q level field frontier (min relationship_page_size (max remaining 1))) (\<lambda>p.
        read_relations remaining (pg_done p) 0 (pg_replies p) (direction_read_new field)))"

text \<open>The merge of one direction into the shared account: the rows left over go under the budget.\<close>

definition merge_direction_read ::
  "direction_read \<Rightarrow> nat \<times> account \<times> snow_row list \<Rightarrow> nat \<times> account \<times> snow_row list" where
  "merge_direction_read r = (\<lambda>(budget, ac, rows).
     (let ac1 = (if dr_acl r
            then push_diagnostic (dr_field r) ''cmdb_rel_ci'' [] ReferenceAclRestricted
                   ''ACL restricted cmdb_rel_ci traversal''
                   (on_summary (\<lambda>sm. sm\<lparr>sm_acl_restricted := sm_acl_restricted sm + 1,
                       sm_relationship_acl := sm_relationship_acl sm + 1\<rparr>) ac)
            else ac);
          kept = take budget (dr_rows r);
          ac2 = (if budget < length (dr_rows r) \<or> dr_edge_limit r then mark_edge_limit ac1 else ac1)
      in (budget - length kept,
          on_summary (\<lambda>sm. sm\<lparr>sm_relationships_examined := sm_relationships_examined sm + length kept\<rparr>) ac2,
          rows @ kept)))"

definition edge_of_row :: "snow_row \<Rightarrow> relationship_edge option" where
  "edge_of_row row = (case (servicenow_reference_sys_id row ''parent'', servicenow_reference_sys_id row ''child'') of
     (Some p, Some c) \<Rightarrow> Some \<lparr>re_parent = p, re_child = c,
        re_parent_class = servicenow_record_text row ''parent.sys_class_name'',
        re_child_class = servicenow_record_text row ''child.sys_class_name'',
        re_type = \<lparr>rt_value = (case servicenow_record_raw_text row ''type'' of None \<Rightarrow> [] | Some t \<Rightarrow> t),
                   rt_display = servicenow_record_display_text row ''type''\<rparr>\<rparr>
   | _ \<Rightarrow> None)"

definition unreadable_edge :: "account \<Rightarrow> account" where
  "unreadable_edge = push_diagnostic ''cmdb_rel_ci'' ''cmdb_rel_ci'' [] ReferenceResolutionFailed
     ''relationship row was missing a readable parent or child reference''"

text \<open>The edges of the rows, the first of every key.\<close>

fun edges_of_rows :: "snow_row list \<Rightarrow> (string \<times> string \<times> string \<times> string option) list
     \<Rightarrow> account \<Rightarrow> relationship_edge list \<times> account" where
  "edges_of_rows [] seen ac = ([], ac)"
| "edges_of_rows (row # rows) seen ac = (case edge_of_row row of
     None \<Rightarrow> edges_of_rows rows seen (unreadable_edge ac)
   | Some e \<Rightarrow>
       if edge_key e \<in> set seen then edges_of_rows rows seen ac
       else (case edges_of_rows rows (edge_key e # seen) ac of (es, ac') \<Rightarrow> (e # es, ac')))"

text \<open>One level. Both directions are read concurrently under the whole budget; when both fail the code
  returns the error that came first, here the one of the parents.\<close>

definition relationship_level ::
  "cmdb \<Rightarrow> servers_options \<Rightarrow> nat \<Rightarrow> string list \<Rightarrow> account \<Rightarrow> (api_error, relationship_edge list \<times> account) result" where
  "relationship_level q opts level frontier ac =
     (if frontier = [] \<or> sm_edge_limit (ac_summary ac) then Inr ([], ac)
      else (let remaining = so_max_edges opts - sm_relationships_examined (ac_summary ac)
        in if remaining = 0 then Inr ([], mark_edge_limit ac)
           else bind_ok (relationship_direction_read q level ''parent'' frontier remaining) (\<lambda>parents.
             bind_ok (relationship_direction_read q level ''child'' frontier remaining) (\<lambda>children.
               (case merge_direction_read children (merge_direction_read parents (remaining, ac, [])) of
                  (budget, ac', rows) \<Rightarrow> Inr (edges_of_rows rows [] ac'))))))"

subsection \<open>Classes\<close>

definition table_parent :: "cmdb \<Rightarrow> nat \<Rightarrow> string \<Rightarrow> (api_error, string option) result" where
  "table_parent q level table =
     bind_ok (cq_object_named q level table) (\<lambda>row. (case row of
        None \<Rightarrow> Inr None
      | Some r \<Rightarrow> (case or_try (rw_raw r ''super_class'') (rw_str r ''super_class'') of
            None \<Rightarrow> Inr None
          | Some i \<Rightarrow> if i = [] then Inr None
              else bind_ok (cq_object q level i) (\<lambda>parent.
                Inr (Option.bind parent (\<lambda>p. rw_str p ''name''))))))"

fun ancestors_up :: "cmdb \<Rightarrow> nat \<Rightarrow> nat \<Rightarrow> string \<Rightarrow> string list \<Rightarrow> (api_error, string list) result" where
  "ancestors_up q level 0 current found = Inr found"
| "ancestors_up q level (Suc n) current found =
     bind_ok (table_parent q level current) (\<lambda>parent. (case parent of
        None \<Rightarrow> Inr found
      | Some p \<Rightarrow> if p \<in> set found then Inr found else ancestors_up q level n p (found @ [p])))"

definition table_ancestors :: "cmdb \<Rightarrow> nat \<Rightarrow> string \<Rightarrow> (api_error, string list) result" where
  "table_ancestors q level table = ancestors_up q level 8 table []"

definition class_is_server ::
  "cmdb \<Rightarrow> nat \<Rightarrow> string \<Rightarrow> (string, bool) btree \<times> account \<Rightarrow> bool \<times> (string, bool) btree \<times> account" where
  "class_is_server q level class = (\<lambda>(cache, ac).
     (if is_server_class class then (True, cache, ac)
      else case bt_get cache class of
          Some b \<Rightarrow> (b, cache, ac)
        | None \<Rightarrow> (case table_ancestors q level class of
            Inr ancestors \<Rightarrow> (server_table \<in> set ancestors, bt_insert class (server_table \<in> set ancestors) cache, ac)
          | Inl e \<Rightarrow> (False, bt_insert class False cache,
              push_diagnostic ''sys_class_name'' ''sys_db_object'' [] DictionaryUnavailable
                ''sys_db_object super_class lookup failed; class not classified as server'' ac))))"

subsection \<open>Hydration\<close>

definition each_denied :: "string \<Rightarrow> string \<Rightarrow> string \<Rightarrow> string list \<Rightarrow> account \<Rightarrow> account" where
  "each_denied field table message ids ac =
     fold (\<lambda>i. push_diagnostic field table i ReferenceAclRestricted message) ids
       (on_summary (\<lambda>sm. sm\<lparr>sm_acl_restricted := sm_acl_restricted sm + length ids\<rparr>) ac)"

definition each_missing :: "string \<Rightarrow> string \<Rightarrow> string \<Rightarrow> string list \<Rightarrow> account \<Rightarrow> account" where
  "each_missing field table message ids ac =
     fold (\<lambda>i ac. push_diagnostic field table i ReferenceNotFound message
       (on_summary (\<lambda>sm. sm\<lparr>sm_missing_ci := sm_missing_ci sm + 1\<rparr>) ac)) ids ac"

definition add_classes :: "snow_row list \<Rightarrow> (string, string) btree \<times> string list \<Rightarrow> (string, string) btree \<times> string list" where
  "add_classes rows start = fold (\<lambda>row (classes, found). (case servicenow_reference_sys_id row ''sys_id'' of
       None \<Rightarrow> (classes, found)
     | Some i \<Rightarrow> (case servicenow_record_text row ''sys_class_name'' of
         None \<Rightarrow> (classes, found)
       | Some c \<Rightarrow> (bt_insert i c classes, i # found)))) rows start"

definition hydrate_ci_classes ::
  "cmdb \<Rightarrow> nat \<Rightarrow> string list \<Rightarrow> (string, string) btree \<times> account
     \<Rightarrow> (api_error, (string, string) btree \<times> account) result" where
  "hydrate_ci_classes q level ids = (\<lambda>(classes, ac).
     (let pending = filter (\<lambda>i. bt_get classes i = None) ids
      in if pending = [] then Inr (classes, ac)
         else case cq_ci_classes q level pending of
             Inr rows \<Rightarrow> (case add_classes rows (classes, []) of (classes', found) \<Rightarrow>
                 Inr (classes', each_missing ''sys_class_name'' ''cmdb_ci'' ''CI class could not be read''
                   (filter (\<lambda>i. i \<notin> set found) pending) ac))
           | Inl e \<Rightarrow> if denied e
               then Inr (classes, each_denied ''sys_class_name'' ''cmdb_ci'' ''ACL restricted cmdb_ci class read'' pending ac)
               else Inl e))"

definition hydrate_servers ::
  "cmdb \<Rightarrow> nat \<Rightarrow> string list \<Rightarrow> account \<Rightarrow> (api_error, server list \<times> account) result" where
  "hydrate_servers q level ids ac =
     (let unique = dedup_str ids
      in if unique = [] then Inr ([], ac)
         else case cq_servers q level unique of
             Inr rows \<Rightarrow> Inr (map server_from_row rows,
               each_missing ''sys_id'' server_table ''server CI could not be read''
                 (filter (\<lambda>i. i \<notin> set (map rw_sys_id rows)) unique) ac)
           | Inl e \<Rightarrow> if denied e
               then Inr ([], each_denied ''sys_id'' server_table ''ACL restricted server CI read'' unique ac)
               else Inl e)"

subsection \<open>Service memberships\<close>

record membership_read =
  mb_rows :: "snow_row list"
  mb_pages :: nat
  mb_association_limit :: bool
  mb_page_limit :: bool
  mb_acl :: bool

definition membership_read_new :: membership_read where
  "membership_read_new = \<lparr>mb_rows = [], mb_pages = 0, mb_association_limit = False, mb_page_limit = False, mb_acl = False\<rparr>"

definition membership_page_size :: nat where
  "membership_page_size = 1000"

fun read_members ::
  "servers_options \<Rightarrow> (nat \<Rightarrow> bool) \<Rightarrow> (api_error, snow_row list) result list \<Rightarrow> membership_read
     \<Rightarrow> (api_error, membership_read) result" where
  "read_members opts done_after replies r =
     (if so_max_associations opts \<le> length (mb_rows r)
      then Inr (if \<not> done_after (mb_pages r) then r\<lparr>mb_association_limit := True\<rparr> else r)
      else if so_max_pages opts \<le> mb_pages r
      then Inr (if \<not> done_after (mb_pages r) then r\<lparr>mb_page_limit := True\<rparr> else r)
      else case replies of
          [] \<Rightarrow> Inr r
        | reply # later \<Rightarrow> (case reply of
            Inl e \<Rightarrow> if is_servicenow_acl_error e then Inr (r\<lparr>mb_acl := True\<rparr>) else Inl e
          | Inr rows \<Rightarrow>
              (let room = so_max_associations opts - length (mb_rows r)
               in if room < length rows
                  then Inr (r\<lparr>mb_pages := mb_pages r + 1, mb_rows := mb_rows r @ take room rows, mb_association_limit := True\<rparr>)
                  else read_members opts done_after later
                         (r\<lparr>mb_pages := mb_pages r + 1, mb_rows := mb_rows r @ rows\<rparr>))))"

declare read_members.simps [simp del]

definition service_membership_read ::
  "cmdb \<Rightarrow> servers_options \<Rightarrow> string list \<Rightarrow> (api_error, membership_read) result" where
  "service_membership_read q opts services =
     (if services = [] then Inr membership_read_new
      else bind_ok (cq_members q (sort services) (min membership_page_size (max (so_max_associations opts) 1))) (\<lambda>p.
        read_members opts (pg_done p) (pg_replies p) membership_read_new))"

end
