(* ===== verification/Cmdb_Traversal.thy ===== *)
theory Cmdb_Traversal
  imports Cmdb_Reads
begin

text \<open>
  The traversal from a Business Application to its servers (\<open>business_application_servers_with_options\<close>
  of \<open>inventory.rs\<close>): the level-wise breadth first search over the relationships, the servers of the
  services found on the first level, and the discoveries both give.

  The sets the code keeps (\<open>visited\<close>, the seeds of the service memberships, the member CIs examined) are
  lists without duplicates.
\<close>

subsection \<open>Relationship types\<close>

definition default_relationship_types :: "string list" where
  "default_relationship_types = [''Depends on::Used by'', ''Runs on::Runs'', ''Contains::Contained by'',
     ''Hosted on::Hosts'', ''Instantiates::Instantiated by'', ''Members::Member of'']"

definition service_discovery_types :: "string list" where
  "service_discovery_types = [''Consumes::Consumed by'', ''Uses::Used by'']"

definition resolve_relationship_type_allowlist :: "cmdb \<Rightarrow> servers_options \<Rightarrow> bool \<Rightarrow> string list" where
  "resolve_relationship_type_allowlist q opts defaults_when_empty =
     (if so_relationship_type opts \<noteq> [] then so_relationship_type opts
      else if \<not> defaults_when_empty then []
      else case cq_relation_types q default_relationship_types of
          Inl e \<Rightarrow> default_relationship_types
        | Inr rows \<Rightarrow>
            (let allowed = dedup_str (List.map_filter (\<lambda>row. ok_of (normalize_record_lookup_sys_id (rw_sys_id row))) rows)
             in if allowed = [] then default_relationship_types else allowed))"

subsection \<open>The state of the traversal\<close>

record traversal =
  tv_account :: account
  tv_visited :: "string list"
  tv_classes :: "(string, string) btree"
  tv_paths :: chains
  tv_service_paths :: chains
  tv_seeds :: "string list"
  tv_servers :: "(string, server) btree"
  tv_emitted :: chains
  tv_cache :: "(string, bool) btree"
  tv_new :: "string list"

definition traversal_start :: "servers_options \<Rightarrow> string \<Rightarrow> traversal" where
  "traversal_start opts root = \<lparr>tv_account = \<lparr>ac_summary = summary_new opts, ac_diagnostics = []\<rparr>,
     tv_visited = [root], tv_classes = [(root, ''cmdb_ci_business_app'')], tv_paths = [(root, [[]])],
     tv_service_paths = [(root, [[]])], tv_seeds = [], tv_servers = [], tv_emitted = [], tv_cache = [], tv_new = []\<rparr>"

definition on_account :: "(account \<Rightarrow> account) \<Rightarrow> traversal \<Rightarrow> traversal" where
  "on_account f tv = tv\<lparr>tv_account := f (tv_account tv)\<rparr>"

definition count_cycle :: "account \<Rightarrow> account" where
  "count_cycle = on_summary (\<lambda>sm. sm\<lparr>sm_cycles := sm_cycles sm + 1\<rparr>)"

definition skipped_cycle :: "string \<Rightarrow> string \<Rightarrow> string \<Rightarrow> string \<Rightarrow> traversal \<Rightarrow> traversal" where
  "skipped_cycle field table i message = on_account (\<lambda>ac.
     push_diagnostic field table i CycleDetected message (count_cycle ac))"

subsection \<open>One relationship\<close>

definition note_class :: "string \<Rightarrow> string option \<Rightarrow> (string, string) btree \<Rightarrow> (string, string) btree" where
  "note_class i class m = (case class of None \<Rightarrow> m
     | Some c \<Rightarrow> if bt_get m i = None then bt_insert i c m else m)"

definition note_classes :: "relationship_edge \<Rightarrow> traversal \<Rightarrow> traversal" where
  "note_classes e tv = tv\<lparr>tv_classes :=
     note_class (re_child e) (re_child_class e) (note_class (re_parent e) (re_parent_class e) (tv_classes tv))\<rparr>"

text \<open>A service on the first level seeds the service memberships.\<close>

definition discover_service :: "nat \<Rightarrow> string list \<Rightarrow> relationship_edge \<Rightarrow> traversal \<Rightarrow> traversal" where
  "discover_service depth frontier e tv =
     (if depth = 1 \<and> matches_any service_discovery_types (re_type e)
      then (case traversal_endpoint frontier e of
          None \<Rightarrow> tv
        | Some (current_id, adjacent_id, dir) \<Rightarrow>
            if is_application_service_class
                 (if adjacent_id = re_parent e then re_parent_class e else re_child_class e)
            then (case extend_path_chains current_id adjacent_id (path_edge_of depth dir e) (tv_service_paths tv) of
                (True, m) \<Rightarrow> tv\<lparr>tv_service_paths := m, tv_seeds := List.insert adjacent_id (tv_seeds tv)\<rparr>
              | (False, m) \<Rightarrow> skipped_cycle ''cmdb_rel_ci'' ''cmdb_rel_ci'' adjacent_id
                  ''service discovery skipped a mixed-direction route'' tv)
            else tv)
      else tv)"

text \<open>A relationship to a CI visited before: a cycle, or another route to it.\<close>

definition revisit :: "servers_options \<Rightarrow> nat \<Rightarrow> relationship_edge \<Rightarrow> string \<Rightarrow> string \<Rightarrow> direction \<Rightarrow> traversal \<Rightarrow> traversal" where
  "revisit opts depth e current_id adjacent_id dir tv =
     (if contains_ancestor (bt_get (tv_paths tv) current_id) adjacent_id current_id
      then skipped_cycle ''cmdb_ci'' ''cmdb_ci'' adjacent_id
             ''relationship traversal skipped a CI that was already visited'' tv
      else if so_include_paths opts \<or> so_persist opts
      then (case extend_path_chains current_id adjacent_id (path_edge_of depth dir e) (tv_paths tv) of
          (True, m) \<Rightarrow> tv\<lparr>tv_paths := m, tv_emitted := (if so_include_paths opts
              then emit_alternate_server_path (tv_servers tv) m adjacent_id (tv_emitted tv) else tv_emitted tv)\<rparr>
        | (False, m) \<Rightarrow> skipped_cycle ''cmdb_rel_ci'' ''cmdb_rel_ci'' adjacent_id
            ''relationship traversal skipped a mixed-direction alternate route'' tv)
      else on_account count_cycle tv)"

definition ci_limit :: "string \<Rightarrow> account \<Rightarrow> account" where
  "ci_limit i ac = push_diagnostic ''cmdb_ci'' ''cmdb_ci'' i FanoutLimitExceeded
     ''max_cis prevented expanding another CI''
     (on_summary (\<lambda>sm. mark_truncated 1 (sm\<lparr>sm_ci_limit := True\<rparr>)) ac)"

definition first_visit :: "servers_options \<Rightarrow> nat \<Rightarrow> relationship_edge \<Rightarrow> string \<Rightarrow> string \<Rightarrow> direction \<Rightarrow> traversal \<Rightarrow> traversal" where
  "first_visit opts depth e current_id adjacent_id dir tv =
     (if so_max_cis opts \<le> length (tv_visited tv) - 1 then on_account (ci_limit adjacent_id) tv
      else (case extend_path_chains current_id adjacent_id (path_edge_of depth dir e) (tv_paths tv) of
          (False, m) \<Rightarrow> skipped_cycle ''cmdb_rel_ci'' ''cmdb_rel_ci'' adjacent_id
            ''relationship traversal skipped a mixed-direction route'' tv
        | (True, m) \<Rightarrow> tv\<lparr>tv_paths := m, tv_visited := tv_visited tv @ [adjacent_id],
            tv_new := tv_new tv @ [adjacent_id]\<rparr>))"

definition follow_edge :: "servers_options \<Rightarrow> string list \<Rightarrow> nat \<Rightarrow> string list \<Rightarrow> relationship_edge \<Rightarrow> traversal \<Rightarrow> traversal" where
  "follow_edge opts allowed depth frontier e tv =
     (if \<not> matches_any allowed (re_type e) then tv
      else case traversal_endpoint frontier e of
          None \<Rightarrow> on_account (push_diagnostic ''cmdb_rel_ci'' ''cmdb_rel_ci'' [] ReferenceResolutionFailed
            ''relationship did not include a current frontier endpoint'') tv
        | Some (current_id, adjacent_id, dir) \<Rightarrow>
            if adjacent_id \<in> set (tv_visited tv) then revisit opts depth e current_id adjacent_id dir tv
            else first_visit opts depth e current_id adjacent_id dir tv)"

definition process_edge :: "servers_options \<Rightarrow> string list \<Rightarrow> nat \<Rightarrow> string list \<Rightarrow> relationship_edge \<Rightarrow> traversal \<Rightarrow> traversal" where
  "process_edge opts allowed depth frontier e tv =
     follow_edge opts allowed depth frontier e (discover_service depth frontier e (note_classes e tv))"

subsection \<open>One level\<close>

text \<open>The new CIs of a level, divided into servers and the next frontier.\<close>

fun classify :: "cmdb \<Rightarrow> nat \<Rightarrow> string list \<Rightarrow> traversal \<Rightarrow> string list \<times> string list \<times> traversal" where
  "classify q level [] tv = ([], [], tv)"
| "classify q level (i # is) tv = (case bt_get (tv_classes tv) i of
     None \<Rightarrow> classify q level is tv
   | Some class \<Rightarrow> (case class_is_server q level class (tv_cache tv, tv_account tv) of
       (b, cache, ac) \<Rightarrow> (case classify q level is (tv\<lparr>tv_cache := cache, tv_account := ac\<rparr>) of
         (servers, frontier, tv') \<Rightarrow>
           if b then (i # servers, frontier, tv') else (servers, i # frontier, tv'))))"

definition add_server :: "servers_options \<Rightarrow> server \<Rightarrow> traversal \<Rightarrow> traversal" where
  "add_server opts sv tv =
     (let i = sv_sys_id sv
      in tv\<lparr>tv_servers := (if bt_get (tv_servers tv) i = None then bt_insert i sv (tv_servers tv) else tv_servers tv),
            tv_emitted := (if so_include_paths opts \<and> bt_get (tv_paths tv) i \<noteq> None
              then bt_insert i (chains_of (tv_emitted tv) i @ chains_of (tv_paths tv) i) (tv_emitted tv)
              else tv_emitted tv)\<rparr>)"

definition depth_limit :: "nat \<Rightarrow> account \<Rightarrow> account" where
  "depth_limit skipped ac = push_diagnostic ''cmdb_rel_ci'' ''cmdb_rel_ci'' [] FanoutLimitExceeded
     ''max_depth prevented expanding the next BFS frontier''
     (on_summary (\<lambda>sm. mark_truncated skipped (sm\<lparr>sm_depth_limit := True\<rparr>)) ac)"

text \<open>The level at \<open>depth\<close>: its relationships, then the classes and servers of the CIs they reach.\<close>

definition level_step ::
  "cmdb \<Rightarrow> servers_options \<Rightarrow> string list \<Rightarrow> nat \<Rightarrow> string list \<Rightarrow> traversal \<Rightarrow> (api_error, string list \<times> traversal) result" where
  "level_step q opts allowed depth frontier tv =
     bind_ok (relationship_level q opts depth frontier (tv_account tv)) (\<lambda>(edges, ac).
     (let tv1 = fold (process_edge opts allowed depth frontier) edges (tv\<lparr>tv_account := ac, tv_new := []\<rparr>)
      in bind_ok (hydrate_ci_classes q depth (tv_new tv1) (tv_classes tv1, tv_account tv1)) (\<lambda>(classes, ac1).
         (case classify q depth (tv_new tv1) (tv1\<lparr>tv_classes := classes, tv_account := ac1\<rparr>) of
            (server_ids, next_ids, tv2) \<Rightarrow>
              bind_ok (hydrate_servers q depth server_ids (tv_account tv2)) (\<lambda>(servers, ac2).
                (let tv3 = fold (add_server opts) servers (tv2\<lparr>tv_account := ac2\<rparr>)
                 in Inr (if depth = so_max_depth opts \<and> next_ids \<noteq> []
                         then ([], on_account (depth_limit (length next_ids)) tv3)
                         else (next_ids, tv3))))))))"

text \<open>The loop over the depths. A level cut by the depth limit is the last of the range; its empty
  frontier stands for the \<open>break\<close>.\<close>

fun levels ::
  "cmdb \<Rightarrow> servers_options \<Rightarrow> string list \<Rightarrow> nat list \<Rightarrow> string list \<Rightarrow> traversal \<Rightarrow> (api_error, traversal) result" where
  "levels q opts allowed [] frontier tv = Inr tv"
| "levels q opts allowed (depth # depths) frontier tv =
     (if frontier = [] \<or> sm_edge_limit (ac_summary (tv_account tv)) \<or> sm_ci_limit (ac_summary (tv_account tv))
      then Inr tv
      else bind_ok (level_step q opts allowed depth frontier tv) (\<lambda>(next_ids, tv').
        levels q opts allowed depths next_ids tv'))"

definition traverse :: "cmdb \<Rightarrow> servers_options \<Rightarrow> bool \<Rightarrow> string \<Rightarrow> (api_error, traversal) result" where
  "traverse q opts defaults_when_empty root =
     levels q opts (resolve_relationship_type_allowlist q opts defaults_when_empty)
       [1 ..< so_max_depth opts + 1] [root] (traversal_start opts root)"

subsection \<open>The servers of the services\<close>

record members =
  me_account :: account
  me_examined :: "string list"
  me_server_ids :: "string list"
  me_paths :: chains
  me_cache :: "(string, bool) btree"

definition me_note :: "(account \<Rightarrow> account) \<Rightarrow> members \<Rightarrow> members" where
  "me_note f me = me\<lparr>me_account := f (me_account me)\<rparr>"

definition unreadable_member :: "string \<Rightarrow> string \<Rightarrow> account \<Rightarrow> account" where
  "unreadable_member field message = push_diagnostic field ''svc_ci_assoc'' [] ReferenceResolutionFailed message"

definition member_ci_limit :: "string \<Rightarrow> account \<Rightarrow> account" where
  "member_ci_limit i ac = push_diagnostic ''ci_id'' ''svc_ci_assoc'' i FanoutLimitExceeded
     ''max_cis prevented examining another service member CI''
     (on_summary (\<lambda>sm. mark_truncated 1 (sm\<lparr>sm_ci_limit := True\<rparr>)) ac)"

definition unreadable_member_class :: "string \<Rightarrow> account \<Rightarrow> account" where
  "unreadable_member_class i ac = push_diagnostic ''ci_id.sys_class_name'' ''svc_ci_assoc'' i
     ReferenceResolutionFailed ''svc_ci_assoc member CI class could not be read''
     (on_summary (\<lambda>sm. sm\<lparr>sm_missing_ci := sm_missing_ci sm + 1\<rparr>) ac)"

text \<open>A member CI seen for the first time takes from the budget of CIs, when there is any left.\<close>

definition examine_member :: "servers_options \<Rightarrow> string \<Rightarrow> members \<Rightarrow> bool \<times> members" where
  "examine_member opts ci me =
     (if ci \<in> set (me_examined me) then (True, me)
      else (let me' = me\<lparr>me_examined := ci # me_examined me\<rparr>
        in if so_max_cis opts \<le> sm_cis_examined (ac_summary (me_account me)) - 1
           then (False, me_note (member_ci_limit ci) me')
           else (True, me_note (on_summary (\<lambda>sm. sm\<lparr>sm_cis_examined := sm_cis_examined sm + 1\<rparr>)) me')))"

definition add_member :: "cmdb \<Rightarrow> chains \<Rightarrow> string \<Rightarrow> string \<Rightarrow> snow_row \<Rightarrow> members \<Rightarrow> members" where
  "add_member q service_paths service ci row me =
     (case servicenow_record_text row ''ci_id.sys_class_name'' of
        None \<Rightarrow> me_note (unreadable_member_class ci) me
      | Some class \<Rightarrow> (case class_is_server q 0 class (me_cache me, me_account me) of
          (b, cache, ac) \<Rightarrow>
            (let me' = me\<lparr>me_cache := cache, me_account := ac\<rparr>
             in if \<not> b then me'
                else me'\<lparr>me_server_ids := (if ci \<in> set (me_server_ids me) then me_server_ids me else me_server_ids me @ [ci]),
                        me_paths := bt_insert ci (chains_of (me_paths me) ci
                          @ service_membership_paths_for service_paths service ci) (me_paths me)\<rparr>)))"

definition process_member :: "cmdb \<Rightarrow> servers_options \<Rightarrow> chains \<Rightarrow> snow_row \<Rightarrow> members \<Rightarrow> members" where
  "process_member q opts service_paths row me =
     (case servicenow_reference_sys_id row ''service_id'' of
        None \<Rightarrow> me_note (unreadable_member ''service_id''
          ''svc_ci_assoc row was missing a readable service_id reference'') me
      | Some service \<Rightarrow> (case servicenow_reference_sys_id row ''ci_id'' of
          None \<Rightarrow> me_note (unreadable_member ''ci_id''
            ''svc_ci_assoc row was missing a readable ci_id reference'') me
        | Some ci \<Rightarrow> (case examine_member opts ci me of
            (False, me') \<Rightarrow> me'
          | (True, me') \<Rightarrow> add_member q service_paths service ci row me')))"

definition cut_members :: "string \<Rightarrow> (servers_summary \<Rightarrow> servers_summary) \<Rightarrow> account \<Rightarrow> account" where
  "cut_members message f ac = push_diagnostic ''svc_ci_assoc'' ''svc_ci_assoc'' [] FanoutLimitExceeded message
     (on_summary (\<lambda>sm. mark_truncated 1 (f sm)) ac)"

definition account_members :: "membership_read \<Rightarrow> account \<Rightarrow> account" where
  "account_members r ac =
     (let ac1 = (if mb_association_limit r
          then cut_members ''max_service_membership_associations prevented reading more associations''
                 (\<lambda>sm. sm\<lparr>sm_association_limit := True\<rparr>) ac else ac);
          ac2 = (if mb_page_limit r
          then cut_members ''max_service_membership_pages prevented reading more association pages''
                 (\<lambda>sm. sm\<lparr>sm_page_limit := True\<rparr>) ac1 else ac1)
      in on_summary (\<lambda>sm. sm\<lparr>sm_associations_examined := sm_associations_examined sm + length (mb_rows r)\<rparr>) ac2)"

definition members_status :: "servers_summary \<Rightarrow> servers_summary" where
  "members_status sm = (if sm_membership_status sm \<noteq> None then sm
     else sm\<lparr>sm_membership_status := Some
       (if sm_association_limit sm then ''association_budget_exhausted''
        else if sm_page_limit sm then ''page_budget_exhausted'' else ''ok'')\<rparr>)"

text \<open>The servers with their routes. Rows returned twice get the routes once.\<close>

fun with_paths :: "server list \<Rightarrow> chains \<Rightarrow> (server \<times> chain list) list" where
  "with_paths [] m = []"
| "with_paths (sv # svs) m = (sv, chains_of m (sv_sys_id sv)) # with_paths svs (bt_remove (sv_sys_id sv) m)"

definition service_membership_servers ::
  "cmdb \<Rightarrow> servers_options \<Rightarrow> string list \<Rightarrow> chains \<Rightarrow> (string, bool) btree \<times> account
     \<Rightarrow> (api_error, (server \<times> chain list) list \<times> (string, bool) btree \<times> account) result" where
  "service_membership_servers q opts services service_paths = (\<lambda>(cache, ac).
     (if services = []
      then Inr ([], cache, on_summary (\<lambda>sm. sm\<lparr>sm_membership_status := Some ''not_attempted''\<rparr>) ac)
      else bind_ok (service_membership_read q opts services) (\<lambda>r.
        (let ac0 = on_summary (\<lambda>sm. sm\<lparr>sm_pages_examined := sm_pages_examined sm + mb_pages r\<rparr>) ac
         in if mb_acl r
            then Inr ([], cache, push_diagnostic ''svc_ci_assoc'' ''svc_ci_assoc'' [] ReferenceAclRestricted
              ''ACL restricted svc_ci_assoc service membership read''
              (on_summary (\<lambda>sm. sm\<lparr>sm_acl_restricted := sm_acl_restricted sm + 1,
                  sm_membership_status := Some ''acl_restricted''\<rparr>) ac0))
            else (let me = fold (process_member q opts service_paths) (mb_rows r)
                \<lparr>me_account = account_members r ac0, me_examined = [], me_server_ids = [], me_paths = [], me_cache = cache\<rparr>
              in bind_ok (hydrate_servers q 0 (me_server_ids me) (me_account me)) (\<lambda>(servers, ac1).
                   Inr (with_paths servers (me_paths me), me_cache me, on_summary members_status ac1)))))))"

subsection \<open>Discoveries\<close>

definition relationship_discoveries :: "traversal \<Rightarrow> (string, discovery) btree" where
  "relationship_discoveries tv = fold (\<lambda>(_, sv). merge_discovery sv ViaRelationship (chains_of (tv_paths tv) (sv_sys_id sv)))
     (tv_servers tv) []"

definition member_discoveries ::
  "(server \<times> chain list) list \<Rightarrow> (string, discovery) btree \<Rightarrow> (string, discovery) btree" where
  "member_discoveries found m = fold (\<lambda>(sv, paths). merge_discovery sv ViaServiceMembership paths) found m"

record inventory =
  iv_account :: account
  iv_cache :: "(string, bool) btree"
  iv_discoveries :: "(string, discovery) btree"

definition discover_servers :: "cmdb \<Rightarrow> servers_options \<Rightarrow> bool \<Rightarrow> string \<Rightarrow> (api_error, inventory) result" where
  "discover_servers q opts defaults_when_empty root =
     bind_ok (traverse q opts defaults_when_empty root) (\<lambda>tv.
     (let ac = on_summary (\<lambda>sm. sm\<lparr>sm_cis_examined := length (tv_visited tv)\<rparr>) (tv_account tv)
      in bind_ok (service_membership_servers q opts (tv_seeds tv) (tv_service_paths tv) (tv_cache tv, ac))
           (\<lambda>(found, cache, ac').
              (let m = member_discoveries found (relationship_discoveries tv)
               in Inr \<lparr>iv_account = on_summary (\<lambda>sm. sm\<lparr>sm_servers_found := length m\<rparr>) ac',
                       iv_cache = cache, iv_discoveries = m\<rparr>))))"

end
