(* ===== verification/Cmdb_Routes.thy ===== *)
theory Cmdb_Routes
  imports Cmdb_Traversal
begin

text \<open>
  The routes the traversal records: walks from the Business Application along relationships ServiceNow
  returned, in one direction, through no CI twice. The invariant is kept by every step of a level and
  carried to the discoveries.
\<close>

subsection \<open>Walks\<close>

fun walk :: "string \<Rightarrow> chain \<Rightarrow> string \<Rightarrow> bool" where
  "walk a [] b = (a = b)"
| "walk a (e # es) b = (edge_from e = a \<and> walk (edge_to e) es b)"

definition one_direction :: "chain \<Rightarrow> bool" where
  "one_direction c = list_all (\<lambda>e. pe_direction e = pe_direction (hd c)) c"

definition simple_route :: "(path_edge \<Rightarrow> bool) \<Rightarrow> string \<Rightarrow> chain \<Rightarrow> string \<Rightarrow> bool" where
  "simple_route P a c b = (walk a c b \<and> distinct (a # map edge_to c) \<and> one_direction c \<and> list_all P c)"

lemma walk_append: "walk a (c @ d) b \<longleftrightarrow> (\<exists>x. walk a c x \<and> walk x d b)"
  by (induction c arbitrary: a) auto

lemma walk_snoc: "walk a (c @ [e]) b \<longleftrightarrow> walk a c (edge_from e) \<and> edge_to e = b"
  by (simp add: walk_append)

lemma chain_nodes_walk: "walk a c b \<Longrightarrow> c \<noteq> [] \<Longrightarrow> chain_nodes c = a # map edge_to c"
  by (cases c) (simp_all add: chain_nodes_def)

lemma walk_end: "walk a c b \<Longrightarrow> b \<in> set (a # map edge_to c)"
  by (induction c arbitrary: a) auto

lemma one_direction_snoc:
  "one_direction c \<Longrightarrow> c = [] \<or> pe_direction (hd c) = pe_direction e \<Longrightarrow> one_direction (c @ [e])"
  by (cases c) (auto simp: one_direction_def)

lemma simple_route_Nil [simp]: "simple_route P a [] a"
  by (simp add: simple_route_def one_direction_def)

lemma simple_route_snoc:
  assumes "simple_route P a c x" "c = [] \<or> pe_direction (hd c) = pe_direction e" "edge_from e = x" "P e"
    and "edge_to e \<notin> set (a # map edge_to c)"
  shows "simple_route P a (c @ [e]) (edge_to e)"
  using assms one_direction_snoc [of c e] by (auto simp: simple_route_def walk_snoc)

text \<open>A route of CIs visited once each is no longer than their number allows.\<close>

lemma simple_route_length:
  assumes "simple_route P a c b" "set (a # map edge_to c) \<subseteq> set visited"
  shows "length c < length visited"
proof -
  have "length (a # map edge_to c) = card (set (a # map edge_to c))"
    using assms(1) unfolding simple_route_def by (metis distinct_card)
  also have "\<dots> \<le> card (set visited)" by (rule card_mono [OF _ assms(2)]) simp
  also have "\<dots> \<le> length visited" by (rule card_length)
  finally show ?thesis by simp
qed

lemma endpoint_edge:
  assumes "traversal_endpoint frontier e = Some (current_id, adjacent_id, dir)"
  shows "edge_from (path_edge_of depth dir e) = current_id" "edge_to (path_edge_of depth dir e) = adjacent_id"
    "pe_direction (path_edge_of depth dir e) = dir" "current_id \<in> set frontier"
  using assms by (auto simp: traversal_endpoint_def path_edge_of_def edge_from_def edge_to_def split: if_splits)

lemma extended_in:
  assumes "c \<in> set (extended_path_chains m parent e)" "chains_of m parent \<noteq> []"
  shows "\<exists>b \<in> set (chains_of m parent). c = b @ [e] \<and> (b = [] \<or> pe_direction (hd b) = pe_direction e)"
  using assms by (auto simp: extended_path_chains_def)

lemma extend_path_chains_True:
  "extend_path_chains parent child e m = (True, m') \<Longrightarrow>
     m' = bt_insert child (chains_of m child @ extended_path_chains m parent e) m \<and> extended_path_chains m parent e \<noteq> []"
  by (auto simp: extend_path_chains_def Let_def split: if_splits)

lemma chains_of_insert: "chains_of (bt_insert k cs m) i = (if i = k then cs else chains_of m i)"
  by (simp add: chains_of_def bt_get_insert_other)

subsection \<open>The invariant\<close>

text \<open>Every visited CI has a route, and every recorded route is a simple one over visited CIs.\<close>

definition routes_ok :: "(path_edge \<Rightarrow> bool) \<Rightarrow> string \<Rightarrow> traversal \<Rightarrow> bool" where
  "routes_ok P root tv =
     (root \<in> set (tv_visited tv) \<and> distinct (tv_visited tv)
      \<and> (\<forall>i \<in> set (tv_visited tv). chains_of (tv_paths tv) i \<noteq> [])
      \<and> (\<forall>i. \<forall>c \<in> set (chains_of (tv_paths tv) i). simple_route P root c i \<and> edge_to ` set c \<subseteq> set (tv_visited tv)))"

text \<open>Steps that touch neither the visited CIs nor their routes.\<close>

definition same_routes :: "traversal \<Rightarrow> traversal \<Rightarrow> bool" where
  "same_routes tv tv' = (tv_paths tv' = tv_paths tv \<and> tv_visited tv' = tv_visited tv)"

lemma routes_ok_same: "same_routes tv tv' \<Longrightarrow> routes_ok P root tv' = routes_ok P root tv"
  by (simp add: same_routes_def routes_ok_def)

lemma same_routes_steps [simp]:
  "same_routes tv (on_account f tv)" "same_routes tv (note_classes e tv)" "same_routes tv (add_server opts sv tv)"
  "same_routes tv (skipped_cycle field table i message tv)"
  "same_routes tv (tv\<lparr>tv_account := ac\<rparr>)" "same_routes tv (tv\<lparr>tv_account := ac, tv_new := ids\<rparr>)"
  "same_routes tv (tv\<lparr>tv_classes := cl, tv_account := ac\<rparr>)" "same_routes tv (tv\<lparr>tv_cache := ca, tv_account := ac\<rparr>)"
  "same_routes tv tv"
  by (simp_all add: same_routes_def on_account_def note_classes_def add_server_def skipped_cycle_def Let_def)

lemma same_routes_trans: "same_routes a b \<Longrightarrow> same_routes b c \<Longrightarrow> same_routes a c"
  by (simp add: same_routes_def)

lemma same_routes_discover [simp]: "same_routes tv (discover_service depth frontier e tv)"
  by (auto simp: discover_service_def same_routes_def skipped_cycle_def on_account_def
      split: option.split prod.split bool.split)

lemma same_routes_fold: "(\<And>x tv. same_routes tv (f x tv)) \<Longrightarrow> same_routes tv (fold f xs tv)"
  by (induction xs arbitrary: tv) (simp_all, blast intro: same_routes_trans)

lemma same_routes_classify: "classify q level ids tv = (s, f, tv') \<Longrightarrow> same_routes tv tv'"
proof (induction q level ids tv arbitrary: s f tv' rule: classify.induct)
  case (2 q level i ids tv)
  show ?case
  proof (cases "bt_get (tv_classes tv) i")
    case None
    then show ?thesis using 2(1) 2(3) by simp
  next
    case (Some cls)
    obtain b cache ac where cs: "class_is_server q level cls (tv_cache tv, tv_account tv) = (b, cache, ac)"
      by (metis prod_cases3)
    obtain s1 f1 tv1 where rec: "classify q level ids (tv\<lparr>tv_cache := cache, tv_account := ac\<rparr>) = (s1, f1, tv1)"
      by (metis prod_cases3)
    have "tv' = tv1" using 2(3) Some cs rec by (auto split: if_splits)
    then show ?thesis
      using 2(2) [OF Some cs [symmetric] refl rec] same_routes_trans [OF same_routes_steps(8)] by blast
  qed
qed simp

lemma routes_ok_extend:
  assumes ok: "routes_ok P root tv" and "current_id \<in> set (tv_visited tv)"
    and e: "edge_from e = current_id" "edge_to e = adjacent_id" "P e"
    and new: "\<forall>c \<in> set (chains_of (tv_paths tv) current_id). adjacent_id \<notin> set (root # map edge_to c)"
    and m: "extend_path_chains current_id adjacent_id e (tv_paths tv) = (True, m)"
    and visited: "set (tv_visited tv') = insert adjacent_id (set (tv_visited tv))" "distinct (tv_visited tv')"
    and paths: "tv_paths tv' = m"
  shows "routes_ok P root tv'"
proof -
  note ext = extend_path_chains_True [OF m]
  have some: "chains_of (tv_paths tv) current_id \<noteq> []" using ok assms(2) by (simp add: routes_ok_def)
  have added: "simple_route P root c adjacent_id \<and> edge_to ` set c \<subseteq> set (tv_visited tv')"
    if c: "c \<in> set (extended_path_chains (tv_paths tv) current_id e)" for c
  proof -
    obtain b where b: "b \<in> set (chains_of (tv_paths tv) current_id)" "c = b @ [e]"
      "b = [] \<or> pe_direction (hd b) = pe_direction e"
      using extended_in [OF c some] by blast
    have "simple_route P root b current_id" "edge_to ` set b \<subseteq> set (tv_visited tv)"
      using ok b(1) by (simp_all add: routes_ok_def)
    moreover have "adjacent_id \<notin> set (root # map edge_to b)" using new b(1) by blast
    ultimately show ?thesis
      using simple_route_snoc [of P root b current_id e] b(2,3) e visited(1) by auto
  qed
  have old: "simple_route P root c i \<and> edge_to ` set c \<subseteq> set (tv_visited tv')"
    if "c \<in> set (chains_of (tv_paths tv) i)" for c i
  proof -
    have "simple_route P root c i" "edge_to ` set c \<subseteq> set (tv_visited tv)"
      using ok that by (simp_all add: routes_ok_def)
    then show ?thesis using visited(1) by auto
  qed
  show ?thesis
    unfolding routes_ok_def paths
  proof (intro conjI ballI allI)
    show "root \<in> set (tv_visited tv')" using ok visited(1) by (simp add: routes_ok_def)
    show "distinct (tv_visited tv')" by (rule visited(2))
  next
    fix i assume "i \<in> set (tv_visited tv')"
    then show "chains_of m i \<noteq> []"
      using ok ext visited(1) by (auto simp: routes_ok_def chains_of_insert)
  next
    fix i c assume c: "c \<in> set (chains_of m i)"
    show "simple_route P root c i" "edge_to ` set c \<subseteq> set (tv_visited tv')"
      using c ext added [of c] old [of c i] by (auto simp: chains_of_insert split: if_splits)
  qed
qed


text \<open>The predicate \<open>P\<close> of the edges a level may follow.\<close>

definition edge_ok :: "(path_edge \<Rightarrow> bool) \<Rightarrow> string list \<Rightarrow> nat \<Rightarrow> relationship_edge \<Rightarrow> bool" where
  "edge_ok P allowed depth e = (matches_any allowed (re_type e) \<longrightarrow> (\<forall>dir. P (path_edge_of depth dir e)))"

lemma contains_ancestor_False:
  assumes "\<not> contains_ancestor (bt_get m current_id) adjacent_id current_id"
    and "\<forall>c \<in> set (chains_of m current_id). walk root c current_id"
  shows "\<forall>c \<in> set (chains_of m current_id). adjacent_id \<notin> set (root # map edge_to c)"
proof
  fix c assume c: "c \<in> set (chains_of m current_id)"
  have ne: "adjacent_id \<noteq> current_id" "\<forall>c \<in> set (chains_of m current_id). adjacent_id \<notin> set (chain_nodes c)"
    using assms(1) by (auto simp: contains_ancestor_def chains_of_def split: option.splits)
  have w: "walk root c current_id" using assms(2) c by blast
  show "adjacent_id \<notin> set (root # map edge_to c)"
  proof (cases "c = []")
    case True
    then show ?thesis using w ne(1) by simp
  next
    case False
    have "adjacent_id \<notin> set (chain_nodes c)" using ne(2) c by blast
    then show ?thesis using chain_nodes_walk [OF w False] by simp
  qed
qed

lemma routes_ok_revisit:
  assumes ok: "routes_ok P root tv" and "set frontier \<subseteq> set (tv_visited tv)" "edge_ok P allowed depth e"
    and "matches_any allowed (re_type e)" and end_: "traversal_endpoint frontier e = Some (current_id, adjacent_id, dir)"
    and seen: "adjacent_id \<in> set (tv_visited tv)"
  shows "routes_ok P root (revisit opts depth e current_id adjacent_id dir tv)
    \<and> tv_visited (revisit opts depth e current_id adjacent_id dir tv) = tv_visited tv"
proof (cases "\<not> contains_ancestor (bt_get (tv_paths tv) current_id) adjacent_id current_id
    \<and> (so_include_paths opts \<or> so_persist opts)
    \<and> fst (extend_path_chains current_id adjacent_id (path_edge_of depth dir e) (tv_paths tv))")
  case True
  then obtain m where m: "extend_path_chains current_id adjacent_id (path_edge_of depth dir e) (tv_paths tv) = (True, m)"
    by (cases "extend_path_chains current_id adjacent_id (path_edge_of depth dir e) (tv_paths tv)") auto
  let ?tv = "revisit opts depth e current_id adjacent_id dir tv"
  have tv': "tv_paths ?tv = m" "tv_visited ?tv = tv_visited tv"
    using True m by (auto simp: revisit_def)
  have current: "current_id \<in> set (tv_visited tv)" using endpoint_edge(4) [OF end_] assms(2) by auto
  have "\<forall>c \<in> set (chains_of (tv_paths tv) current_id). walk root c current_id"
    using ok by (simp add: routes_ok_def simple_route_def)
  note new = contains_ancestor_False [OF _ this]
  have "routes_ok P root ?tv"
    by (rule routes_ok_extend [OF ok current endpoint_edge(1,2) [OF end_] _ new m _ _ tv'(1)])
      (use assms(3,4) True seen ok tv'(2) in \<open>auto simp: edge_ok_def routes_ok_def\<close>)
  then show ?thesis using tv'(2) by blast
next
  case False
  then have "same_routes tv (revisit opts depth e current_id adjacent_id dir tv)"
    by (auto simp: revisit_def split: prod.split bool.split)
  then show ?thesis using routes_ok_same ok by (simp add: same_routes_def routes_ok_def)
qed

lemma routes_ok_first_visit:
  assumes ok: "routes_ok P root tv" and "set frontier \<subseteq> set (tv_visited tv)" "edge_ok P allowed depth e"
    and "matches_any allowed (re_type e)" and end_: "traversal_endpoint frontier e = Some (current_id, adjacent_id, dir)"
    and fresh: "adjacent_id \<notin> set (tv_visited tv)"
  shows "routes_ok P root (first_visit opts depth e current_id adjacent_id dir tv)
    \<and> set (tv_visited tv) \<subseteq> set (tv_visited (first_visit opts depth e current_id adjacent_id dir tv))"
proof (cases "\<not> so_max_cis opts \<le> length (tv_visited tv) - 1
    \<and> fst (extend_path_chains current_id adjacent_id (path_edge_of depth dir e) (tv_paths tv))")
  case True
  then obtain m where m: "extend_path_chains current_id adjacent_id (path_edge_of depth dir e) (tv_paths tv) = (True, m)"
    by (cases "extend_path_chains current_id adjacent_id (path_edge_of depth dir e) (tv_paths tv)") auto
  let ?tv = "first_visit opts depth e current_id adjacent_id dir tv"
  have tv': "tv_paths ?tv = m" "tv_visited ?tv = tv_visited tv @ [adjacent_id]"
    using True m by (auto simp: first_visit_def)
  have current: "current_id \<in> set (tv_visited tv)" using endpoint_edge(4) [OF end_] assms(2) by auto
  have new: "\<forall>c \<in> set (chains_of (tv_paths tv) current_id). adjacent_id \<notin> set (root # map edge_to c)"
  proof
    fix c assume "c \<in> set (chains_of (tv_paths tv) current_id)"
    then have "edge_to ` set c \<subseteq> set (tv_visited tv)" "root \<in> set (tv_visited tv)"
      using ok by (simp_all add: routes_ok_def)
    then show "adjacent_id \<notin> set (root # map edge_to c)" using fresh by auto
  qed
  have "routes_ok P root ?tv"
    by (rule routes_ok_extend [OF ok current endpoint_edge(1,2) [OF end_] _ new m _ _ tv'(1)])
      (use assms(3,4) fresh ok tv'(2) in \<open>auto simp: edge_ok_def routes_ok_def\<close>)
  then show ?thesis using tv'(2) by auto
next
  case False
  then have "same_routes tv (first_visit opts depth e current_id adjacent_id dir tv)"
    by (auto simp: first_visit_def split: prod.split bool.split)
  then show ?thesis using routes_ok_same ok by (simp add: same_routes_def routes_ok_def)
qed

subsection \<open>A level\<close>

definition within_cis :: "servers_options \<Rightarrow> traversal \<Rightarrow> bool" where
  "within_cis opts tv = (set (tv_new tv) \<subseteq> set (tv_visited tv) \<and> length (tv_visited tv) \<le> so_max_cis opts + 1)"

lemma within_cis_same:
  "tv_visited tv' = tv_visited tv \<Longrightarrow> tv_new tv' = tv_new tv \<Longrightarrow> within_cis opts tv' = within_cis opts tv"
  by (simp add: within_cis_def)

lemma revisit_within_cis: "within_cis opts (revisit opts depth e current_id adjacent_id dir tv) = within_cis opts tv"
  by (rule within_cis_same)
    (simp_all add: revisit_def skipped_cycle_def on_account_def split: prod.split bool.split)

lemma first_visit_within_cis: "within_cis opts tv \<Longrightarrow> within_cis opts (first_visit opts depth e current_id adjacent_id dir tv)"
  by (auto simp: first_visit_def within_cis_def skipped_cycle_def on_account_def split: prod.split bool.split)

lemma discover_service_within_cis:
  "within_cis opts (discover_service depth frontier e (note_classes e tv)) = within_cis opts tv"
  by (rule within_cis_same)
    (simp_all add: discover_service_def note_classes_def skipped_cycle_def on_account_def
      split: option.split prod.split bool.split)

lemma process_edge_ok:
  assumes "routes_ok P root tv" "within_cis opts tv" "set frontier \<subseteq> set (tv_visited tv)" "edge_ok P allowed depth e"
  shows "routes_ok P root (process_edge opts allowed depth frontier e tv)
    \<and> within_cis opts (process_edge opts allowed depth frontier e tv)
    \<and> set frontier \<subseteq> set (tv_visited (process_edge opts allowed depth frontier e tv))"
proof -
  define tv1 where "tv1 = discover_service depth frontier e (note_classes e tv)"
  have same: "same_routes tv tv1"
    unfolding tv1_def using same_routes_trans [OF same_routes_steps(2) same_routes_discover] .
  then have ok: "routes_ok P root tv1" "set frontier \<subseteq> set (tv_visited tv1)"
    using assms(1,3) routes_ok_same by (simp_all add: same_routes_def routes_ok_def)
  have within_cis: "within_cis opts tv1" using assms(2) discover_service_within_cis by (simp add: tv1_def)
  show ?thesis
  proof (cases "matches_any allowed (re_type e)")
    case False
    then show ?thesis using ok within_cis by (simp add: process_edge_def follow_edge_def tv1_def)
  next
    case True
    show ?thesis
    proof (cases "traversal_endpoint frontier e")
      case None
      let ?tv = "process_edge opts allowed depth frontier e tv"
      have "same_routes tv1 ?tv" "tv_new ?tv = tv_new tv1"
        using True None by (simp_all add: process_edge_def follow_edge_def tv1_def same_routes_def on_account_def)
      then show ?thesis using ok within_cis routes_ok_same within_cis_same by (metis same_routes_def)
    next
      case (Some ends)
      obtain current_id adjacent_id dir where ends: "ends = (current_id, adjacent_id, dir)" by (metis prod_cases3)
      note Some = Some [unfolded ends]
      show ?thesis
      proof (cases "adjacent_id \<in> set (tv_visited tv1)")
        case seen: True
        have "process_edge opts allowed depth frontier e tv = revisit opts depth e current_id adjacent_id dir tv1"
          using True Some seen by (simp add: process_edge_def follow_edge_def tv1_def)
        then show ?thesis
          using routes_ok_revisit [OF ok assms(4) True Some seen] within_cis revisit_within_cis ok(2) by simp
      next
        case fresh: False
        have "process_edge opts allowed depth frontier e tv = first_visit opts depth e current_id adjacent_id dir tv1"
          using True Some fresh by (simp add: process_edge_def follow_edge_def tv1_def)
        then show ?thesis
          using routes_ok_first_visit [OF ok assms(4) True Some fresh, of opts] within_cis first_visit_within_cis ok(2)
          by (metis subset_trans)
      qed
    qed
  qed
qed

lemma process_edges_ok:
  assumes "\<forall>e \<in> set edges. edge_ok P allowed depth e"
  shows "routes_ok P root tv \<Longrightarrow> within_cis opts tv \<Longrightarrow> set frontier \<subseteq> set (tv_visited tv) \<Longrightarrow>
    routes_ok P root (fold (process_edge opts allowed depth frontier) edges tv)
    \<and> within_cis opts (fold (process_edge opts allowed depth frontier) edges tv)"
  using assms
proof (induction edges arbitrary: tv)
  case (Cons e edges)
  then show ?case using process_edge_ok [of P root tv opts frontier allowed depth e] by simp
qed simp

text \<open>The rows a read returns are rows of the pages, and the edges of a level are edges of such rows.\<close>

definition answered :: "cmdb \<Rightarrow> relationship_edge \<Rightarrow> bool" where
  "answered q e = (\<exists>level field ids size p rows row. cq_relations q level field ids size = Inr p
     \<and> Inr rows \<in> set (pg_replies p) \<and> row \<in> set rows \<and> edge_of_row row = Some e)"

lemma read_relations_rows:
  "read_relations remaining done_after n replies r = Inr r' \<Longrightarrow>
     set (dr_rows r') \<subseteq> set (dr_rows r) \<union> (\<Union>rows \<in> {rows. Inr rows \<in> set replies}. set rows)
     \<and> dr_field r' = dr_field r"
proof (induction remaining done_after n replies r arbitrary: r' rule: read_relations.induct)
  case (1 remaining done_after n replies r)
  show ?case
  proof (cases "remaining \<le> length (dr_rows r) \<or> replies = []")
    case True
    then show ?thesis using 1(2) by (subst (asm) read_relations.simps) (auto split: if_splits)
  next
    case False
    then obtain reply later where replies: "replies = reply # later" by (cases replies) auto
    show ?thesis
    proof (cases reply)
      case (Inl e)
      then show ?thesis
        using 1(2) False replies by (subst (asm) read_relations.simps) (auto split: if_splits)
    next
      case (Inr rows)
      show ?thesis
      proof (cases "remaining - length (dr_rows r) < length rows")
        case True
        then show ?thesis
          using 1(2) False replies Inr
          by (subst (asm) read_relations.simps) (fastforce simp: Let_def dest: in_set_takeD)
      next
        case fits: False
        have "read_relations remaining done_after (n + 1) later (r\<lparr>dr_rows := dr_rows r @ rows\<rparr>) = Inr r'"
          using 1(2) False replies Inr fits by (subst (asm) read_relations.simps) (simp add: Let_def)
        from 1(1) [OF _ replies Inr refl fits this] False show ?thesis
          using replies Inr by auto
      qed
    qed
  qed
qed


lemma direction_read_rows:
  assumes "relationship_direction_read q level field frontier remaining = Inr r" "row \<in> set (dr_rows r)" "edge_of_row row = Some e"
  shows "answered q e"
proof -
  have "frontier \<noteq> [] \<and> remaining \<noteq> 0"
    using assms(1,2) by (auto simp: relationship_direction_read_def direction_read_new_def split: if_splits)
  then obtain p where p: "cq_relations q level field frontier (min relationship_page_size (max remaining 1)) = Inr p"
    and read: "read_relations remaining (pg_done p) 0 (pg_replies p) (direction_read_new field) = Inr r"
    using assms(1) by (auto simp: relationship_direction_read_def bind_ok_Inr)
  obtain rows where "Inr rows \<in> set (pg_replies p)" "row \<in> set rows"
    using read_relations_rows [OF read] assms(2) by (auto simp: direction_read_new_def)
  with p assms(3) show ?thesis unfolding answered_def by blast
qed

lemma edges_of_rows_in:
  "edges_of_rows rows seen ac = (es, ac') \<Longrightarrow> e \<in> set es \<Longrightarrow> \<exists>row \<in> set rows. edge_of_row row = Some e"
proof (induction rows seen ac arbitrary: es ac' rule: edges_of_rows.induct)
  case (2 row rows seen ac)
  show ?case
  proof (cases "edge_of_row row")
    case None
    then show ?thesis using 2(1) 2(4,5) by auto
  next
    case (Some x)
    show ?thesis
    proof (cases "edge_key x \<in> set seen")
      case True
      then show ?thesis using 2(2) [OF Some True] 2(4,5) Some by auto
    next
      case False
      obtain es1 ac1 where rec: "edges_of_rows rows (edge_key x # seen) ac = (es1, ac1)" by (metis surj_pair)
      then show ?thesis using 2(3) [OF Some False rec] 2(4,5) Some False by auto
    qed
  qed
qed simp

lemma merge_direction_read_rows:
  "merge_direction_read r (budget, ac, rows) = (budget', ac', rows') \<Longrightarrow> rows' = rows @ take budget (dr_rows r)"
  by (simp add: merge_direction_read_def Let_def)

lemma relationship_level_edges:
  assumes "relationship_level q opts level frontier ac = Inr (edges, ac')" "e \<in> set edges"
  shows "answered q e"
proof -
  have "frontier \<noteq> []" "\<not> sm_edge_limit (ac_summary ac)" "so_max_edges opts - sm_relationships_examined (ac_summary ac) \<noteq> 0"
    using assms by (auto simp: relationship_level_def Let_def split: if_splits)
  then obtain parents children where reads:
    "relationship_direction_read q level ''parent'' frontier (so_max_edges opts - sm_relationships_examined (ac_summary ac)) = Inr parents"
    "relationship_direction_read q level ''child'' frontier (so_max_edges opts - sm_relationships_examined (ac_summary ac)) = Inr children"
    and merged: "(case merge_direction_read children (merge_direction_read parents
        (so_max_edges opts - sm_relationships_examined (ac_summary ac), ac, [])) of
        (budget, ac1, rows) \<Rightarrow> Inr (edges_of_rows rows [] ac1)) = (Inr (edges, ac') :: (api_error, relationship_edge list \<times> account) result)"
    using assms(1) by (auto simp: relationship_level_def Let_def bind_ok_Inr)
  obtain b1 ac1 rows1 where m1: "merge_direction_read parents
      (so_max_edges opts - sm_relationships_examined (ac_summary ac), ac, []) = (b1, ac1, rows1)" by (metis prod_cases3)
  obtain b2 ac2 rows2 where m2: "merge_direction_read children (b1, ac1, rows1) = (b2, ac2, rows2)" by (metis prod_cases3)
  have "edges_of_rows rows2 [] ac2 = (edges, ac')" using merged m1 m2 by simp
  from edges_of_rows_in [OF this assms(2)] obtain row where row: "row \<in> set rows2" "edge_of_row row = Some e" by blast
  have "row \<in> set (dr_rows parents) \<or> row \<in> set (dr_rows children)"
    using row(1) merge_direction_read_rows [OF m1] merge_direction_read_rows [OF m2] by (auto dest: in_set_takeD)
  then show ?thesis using direction_read_rows reads row(2) by blast
qed

lemma classify_frontier: "classify q level ids tv = (s, f, tv') \<Longrightarrow> set f \<subseteq> set ids \<and> tv_new tv' = tv_new tv"
proof (induction q level ids tv arbitrary: s f tv' rule: classify.induct)
  case (2 q level i ids tv)
  show ?case
  proof (cases "bt_get (tv_classes tv) i")
    case None
    then show ?thesis using 2(1) 2(3) by force
  next
    case (Some cls)
    obtain b cache ac where cs: "class_is_server q level cls (tv_cache tv, tv_account tv) = (b, cache, ac)"
      by (metis prod_cases3)
    obtain s1 f1 tv1 where rec: "classify q level ids (tv\<lparr>tv_cache := cache, tv_account := ac\<rparr>) = (s1, f1, tv1)"
      by (metis prod_cases3)
    then show ?thesis
      using 2(2) [OF Some cs [symmetric] refl rec] 2(3) Some cs rec by (auto split: if_splits)
  qed
qed simp

text \<open>What a level leaves: the routes, the budget of CIs, and a frontier of visited CIs.\<close>

definition level_ok :: "(path_edge \<Rightarrow> bool) \<Rightarrow> string \<Rightarrow> servers_options \<Rightarrow> string list \<Rightarrow> traversal \<Rightarrow> bool" where
  "level_ok P root opts frontier tv = (routes_ok P root tv
     \<and> set frontier \<subseteq> set (tv_visited tv) \<and> length (tv_visited tv) \<le> so_max_cis opts + 1)"

text \<open>The parts of a level.\<close>

lemma level_step_parts:
  assumes "level_step q opts allowed depth frontier tv = Inr (next_ids, tv')"
  obtains edges ac tv1 classes ac1 ids ids' tv2 servers ac2 where
    "relationship_level q opts depth frontier (tv_account tv) = Inr (edges, ac)"
    "tv1 = fold (process_edge opts allowed depth frontier) edges (tv\<lparr>tv_account := ac, tv_new := []\<rparr>)"
    "hydrate_ci_classes q depth (tv_new tv1) (tv_classes tv1, tv_account tv1) = Inr (classes, ac1)"
    "classify q depth (tv_new tv1) (tv1\<lparr>tv_classes := classes, tv_account := ac1\<rparr>) = (ids, ids', tv2)"
    "hydrate_servers q depth ids (tv_account tv2) = Inr (servers, ac2)"
    "(next_ids, tv') = (if depth = so_max_depth opts \<and> ids' \<noteq> []
       then ([], on_account (depth_limit (length ids')) (fold (add_server opts) servers (tv2\<lparr>tv_account := ac2\<rparr>)))
       else (ids', fold (add_server opts) servers (tv2\<lparr>tv_account := ac2\<rparr>)))"
proof -
  obtain edges ac where level: "relationship_level q opts depth frontier (tv_account tv) = Inr (edges, ac)"
    using assms by (auto simp: level_step_def bind_ok_Inr)
  define tv1 where "tv1 = fold (process_edge opts allowed depth frontier) edges (tv\<lparr>tv_account := ac, tv_new := []\<rparr>)"
  obtain classes ac1 where hydrated: "hydrate_ci_classes q depth (tv_new tv1) (tv_classes tv1, tv_account tv1) = Inr (classes, ac1)"
    using assms by (auto simp: level_step_def level bind_ok_Inr Let_def tv1_def)
  obtain ids ids' tv2 where cl: "classify q depth (tv_new tv1) (tv1\<lparr>tv_classes := classes, tv_account := ac1\<rparr>) = (ids, ids', tv2)"
    by (metis prod_cases3)
  obtain servers ac2 where servers: "hydrate_servers q depth ids (tv_account tv2) = Inr (servers, ac2)"
    using assms by (auto simp: level_step_def level bind_ok_Inr Let_def tv1_def [symmetric] hydrated cl)
  show ?thesis
    by (rule that [OF level tv1_def hydrated cl servers])
      (use assms in \<open>simp add: level_step_def level bind_ok_Inr Let_def tv1_def [symmetric] hydrated cl servers\<close>)
qed

lemma level_step_ok:
  assumes step: "level_step q opts allowed depth frontier tv = Inr (next_ids, tv')" and ok: "level_ok P root opts frontier tv"
    and P: "\<And>e. answered q e \<Longrightarrow> edge_ok P allowed depth e"
  shows "level_ok P root opts next_ids tv'"
proof -
  obtain edges ac tv1 classes ac1 ids ids' tv2 servers ac2 where
    level: "relationship_level q opts depth frontier (tv_account tv) = Inr (edges, ac)"
    and tv1_def: "tv1 = fold (process_edge opts allowed depth frontier) edges (tv\<lparr>tv_account := ac, tv_new := []\<rparr>)"
    and cl: "classify q depth (tv_new tv1) (tv1\<lparr>tv_classes := classes, tv_account := ac1\<rparr>) = (ids, ids', tv2)"
    and end_: "(next_ids, tv') = (if depth = so_max_depth opts \<and> ids' \<noteq> []
       then ([], on_account (depth_limit (length ids')) (fold (add_server opts) servers (tv2\<lparr>tv_account := ac2\<rparr>)))
       else (ids', fold (add_server opts) servers (tv2\<lparr>tv_account := ac2\<rparr>)))"
    by (rule level_step_parts [OF step])
  define tv3 where "tv3 = fold (add_server opts) servers (tv2\<lparr>tv_account := ac2\<rparr>)"
  have end_: "tv' = tv3 \<or> tv' = on_account (depth_limit (length ids')) tv3" "set next_ids \<subseteq> set ids'"
    using end_ by (auto simp: tv3_def split: if_splits)
  have start: "routes_ok P root (tv\<lparr>tv_account := ac, tv_new := []\<rparr>)" "within_cis opts (tv\<lparr>tv_account := ac, tv_new := []\<rparr>)"
    "set frontier \<subseteq> set (tv_visited (tv\<lparr>tv_account := ac, tv_new := []\<rparr>))"
    using ok routes_ok_same [OF same_routes_steps(6)] by (simp_all add: level_ok_def within_cis_def)
  have edges: "\<forall>e \<in> set edges. edge_ok P allowed depth e" using relationship_level_edges [OF level] P by blast
  note tv1 = process_edges_ok [OF edges start, folded tv1_def]
  have "same_routes tv1 tv2" using same_routes_trans [OF same_routes_steps(7) same_routes_classify [OF cl]] .
  moreover have "same_routes tv2 tv3"
    unfolding tv3_def by (rule same_routes_trans [OF same_routes_steps(5) same_routes_fold]) simp
  ultimately have same3: "same_routes tv1 tv3" by (rule same_routes_trans)
  have same: "same_routes tv1 tv'"
    using end_(1) same3 same_routes_trans [OF same3 same_routes_steps(1)] by blast
  have "set next_ids \<subseteq> set (tv_new tv1)" using end_(2) classify_frontier [OF cl] by auto
  then show ?thesis
    using tv1 same routes_ok_same [OF same] by (auto simp: level_ok_def within_cis_def same_routes_def)
qed

lemma levels_ok:
  "levels q opts allowed depths frontier tv = Inr tv' \<Longrightarrow> level_ok P root opts frontier tv \<Longrightarrow>
     (\<And>depth e. depth \<in> set depths \<Longrightarrow> answered q e \<Longrightarrow> edge_ok P allowed depth e) \<Longrightarrow>
     routes_ok P root tv' \<and> length (tv_visited tv') \<le> so_max_cis opts + 1"
proof (induction q opts allowed depths frontier tv arbitrary: tv' rule: levels.induct)
  case (1 q opts allowed frontier tv)
  then show ?case by (simp add: level_ok_def)
next
  case (2 q opts allowed depth depths frontier tv)
  show ?case
  proof (cases "frontier = [] \<or> sm_edge_limit (ac_summary (tv_account tv)) \<or> sm_ci_limit (ac_summary (tv_account tv))")
    case True
    then show ?thesis using 2(2,3) by (simp add: level_ok_def)
  next
    case False
    then obtain next_ids tv1 where step: "level_step q opts allowed depth frontier tv = Inr (next_ids, tv1)"
      and rec: "levels q opts allowed depths next_ids tv1 = Inr tv'"
      using 2(2) by (auto simp: bind_ok_Inr)
    have P: "\<And>d e. d \<in> set (depth # depths) \<Longrightarrow> answered q e \<Longrightarrow> edge_ok P allowed d e" by (rule 2(4))
    have "level_ok P root opts next_ids tv1"
      by (rule level_step_ok [OF step 2(3)]) (use P in auto)
    then show ?thesis
      by (rule 2(1) [OF False rec]) (use P in auto)
  qed
qed

end
