(* ===== verification/Cmdb_Discovery.thy ===== *)
theory Cmdb_Discovery
  imports Cmdb_Routes
begin

text \<open>
  The routes of the service memberships, and the routes of the discoveries: what the traversal and the
  memberships report for every server.
\<close>

subsection \<open>Services\<close>

definition services_ok :: "(path_edge \<Rightarrow> bool) \<Rightarrow> string \<Rightarrow> traversal \<Rightarrow> bool" where
  "services_ok P root tv = (chains_of (tv_service_paths tv) root \<noteq> []
     \<and> (\<forall>i. \<forall>c \<in> set (chains_of (tv_service_paths tv) i). walk root c i \<and> list_all P c)
     \<and> (\<forall>s \<in> set (tv_seeds tv). chains_of (tv_service_paths tv) s \<noteq> []))"

definition same_services :: "traversal \<Rightarrow> traversal \<Rightarrow> bool" where
  "same_services tv tv' = (tv_service_paths tv' = tv_service_paths tv \<and> tv_seeds tv' = tv_seeds tv)"

lemma services_ok_same: "same_services tv tv' \<Longrightarrow> services_ok P root tv' = services_ok P root tv"
  by (simp add: same_services_def services_ok_def)

lemma same_services_trans: "same_services a b \<Longrightarrow> same_services b c \<Longrightarrow> same_services a c"
  by (simp add: same_services_def)

lemma same_services_steps [simp]:
  "same_services tv (on_account f tv)" "same_services tv (note_classes e tv)" "same_services tv (add_server opts sv tv)"
  "same_services tv (follow_edge opts allowed depth frontier e tv)"
  "same_services tv (tv\<lparr>tv_account := ac\<rparr>)" "same_services tv (tv\<lparr>tv_account := ac, tv_new := ids\<rparr>)"
  "same_services tv (tv\<lparr>tv_classes := cl, tv_account := ac\<rparr>)" "same_services tv (tv\<lparr>tv_cache := ca, tv_account := ac\<rparr>)"
  by (simp_all add: same_services_def on_account_def note_classes_def add_server_def follow_edge_def
      revisit_def first_visit_def skipped_cycle_def Let_def split: option.split prod.split bool.split)

lemma same_services_fold: "(\<And>x tv. same_services tv (f x tv)) \<Longrightarrow> same_services tv (fold f xs tv)"
proof (induction xs arbitrary: tv)
  case Nil
  then show ?case by (simp add: same_services_def)
next
  case (Cons x xs)
  then show ?case using same_services_trans by (simp, blast)
qed

lemma same_services_classify: "classify q level ids tv = (s, f, tv') \<Longrightarrow> same_services tv tv'"
proof (induction q level ids tv arbitrary: s f tv' rule: classify.induct)
  case (1 q level tv)
  then show ?case by (simp add: same_services_def)
next
  case (2 q level i ids tv)
  show ?case
  proof (cases "bt_get (tv_classes tv) i")
    case None
    then show ?thesis using 2(1) 2(3) by simp
  next
    case (Some cls)
    obtain b cache ac where cs: "class_is_server q level cls (tv_cache tv, tv_account tv) = (b, cache, ac)"
      by (metis prod_cases3)
    obtain s1 f1 tv1 where rec: "classify q level ids (tv\<lparr>tv_cache := cache, tv_account := ac\<rparr>) = (s1, f1, tv1)"
      by (metis prod_cases3)
    have "tv' = tv1" using 2(3) Some cs rec by (auto split: if_splits)
    then show ?thesis
      using 2(2) [OF Some cs [symmetric] refl rec] same_services_trans [OF same_services_steps(8)] by blast
  qed
qed

lemma service_route_ok:
  assumes ok: "services_ok P root tv" and e: "edge_from e = root" "edge_to e = adjacent_id" "P e"
    and m: "extend_path_chains root adjacent_id e (tv_service_paths tv) = (True, m)"
  shows "services_ok P root (tv\<lparr>tv_service_paths := m, tv_seeds := List.insert adjacent_id (tv_seeds tv)\<rparr>)"
proof -
  note ext = extend_path_chains_True [OF m]
  have "walk root c adjacent_id \<and> list_all P c" if c: "c \<in> set (extended_path_chains (tv_service_paths tv) root e)" for c
  proof -
    obtain b where "b \<in> set (chains_of (tv_service_paths tv) root)" "c = b @ [e]"
      using extended_in [OF c] ok by (auto simp: services_ok_def)
    then show ?thesis using ok e by (auto simp: services_ok_def walk_snoc)
  qed
  then show ?thesis
    using ok ext unfolding services_ok_def by (auto simp: chains_of_insert)
qed

lemma discover_service_ok:
  assumes ok: "services_ok P root tv" and "set frontier \<subseteq> {root}"
    and P: "edge_ok P service_discovery_types depth e"
  shows "services_ok P root (discover_service depth frontier e tv)"
proof (cases "depth = 1 \<and> matches_any service_discovery_types (re_type e)")
  case match: True
  show ?thesis
  proof (cases "traversal_endpoint frontier e")
    case (Some ends)
    obtain current_id adjacent_id dir where ends: "ends = (current_id, adjacent_id, dir)" by (metis prod_cases3)
    note Some = Some [unfolded ends]
    have root: "current_id = root" using endpoint_edge(4) [OF Some] assms(2) by auto
    obtain b m where m: "extend_path_chains root adjacent_id (path_edge_of depth dir e) (tv_service_paths tv) = (b, m)"
      by fastforce
    have "P (path_edge_of depth dir e)" using P match by (simp add: edge_ok_def)
    note new = service_route_ok [OF ok endpoint_edge(1,2) [OF Some [unfolded root]] this]
    note skip = services_ok_same [OF same_services_steps(1), of P root]
    show ?thesis
      using match Some m new ok by (cases b) (simp_all add: discover_service_def root skipped_cycle_def skip)
  qed (use match ok in \<open>simp add: discover_service_def\<close>)
qed (use ok in \<open>auto simp: discover_service_def\<close>)

lemma process_edges_services:
  assumes "\<forall>e \<in> set edges. edge_ok P service_discovery_types depth e" "depth = 1 \<longrightarrow> set frontier \<subseteq> {root}"
  shows "services_ok P root tv \<Longrightarrow> services_ok P root (fold (process_edge opts allowed depth frontier) edges tv)"
  using assms
proof (induction edges arbitrary: tv)
  case (Cons e edges)
  have "services_ok P root (discover_service depth frontier e (note_classes e tv))"
  proof (cases "depth = 1")
    case True
    then show ?thesis
      using discover_service_ok [of P root "note_classes e tv" frontier depth e] Cons.prems
        services_ok_same [OF same_services_steps(2)] by auto
  next
    case False
    then show ?thesis using Cons.prems(1) services_ok_same [OF same_services_steps(2)] by (simp add: discover_service_def)
  qed
  then have "services_ok P root (process_edge opts allowed depth frontier e tv)"
    unfolding process_edge_def using services_ok_same [OF same_services_steps(4)] by blast
  then show ?case using Cons.IH Cons.prems by simp
qed simp


lemma level_step_services:
  assumes step: "level_step q opts allowed depth frontier tv = Inr (next_ids, tv')"
    and ok: "services_ok P root tv" "depth = 1 \<longrightarrow> set frontier \<subseteq> {root}"
    and P: "\<And>e. answered q e \<Longrightarrow> edge_ok P service_discovery_types depth e"
  shows "services_ok P root tv'"
proof -
  obtain edges ac tv1 classes ac1 ids ids' tv2 servers ac2 where
    level: "relationship_level q opts depth frontier (tv_account tv) = Inr (edges, ac)"
    and tv1: "tv1 = fold (process_edge opts allowed depth frontier) edges (tv\<lparr>tv_account := ac, tv_new := []\<rparr>)"
    and cl: "classify q depth (tv_new tv1) (tv1\<lparr>tv_classes := classes, tv_account := ac1\<rparr>) = (ids, ids', tv2)"
    and end_: "(next_ids, tv') = (if depth = so_max_depth opts \<and> ids' \<noteq> []
       then ([], on_account (depth_limit (length ids')) (fold (add_server opts) servers (tv2\<lparr>tv_account := ac2\<rparr>)))
       else (ids', fold (add_server opts) servers (tv2\<lparr>tv_account := ac2\<rparr>)))"
    by (rule level_step_parts [OF step])
  have edges: "\<forall>e \<in> set edges. edge_ok P service_discovery_types depth e"
    using relationship_level_edges [OF level] P by blast
  have "services_ok P root tv1"
    unfolding tv1
    by (rule process_edges_services [OF edges ok(2)]) (use ok(1) services_ok_same [OF same_services_steps(6)] in blast)
  moreover have "same_services tv1 tv2"
    using same_services_trans [OF same_services_steps(7) same_services_classify [OF cl]] .
  moreover have "same_services tv2 (fold (add_server opts) servers (tv2\<lparr>tv_account := ac2\<rparr>))"
    by (rule same_services_trans [OF same_services_steps(5) same_services_fold]) simp
  ultimately have "services_ok P root (fold (add_server opts) servers (tv2\<lparr>tv_account := ac2\<rparr>))"
    using services_ok_same by blast
  then show ?thesis using end_ services_ok_same [OF same_services_steps(1)] by (auto split: if_splits)
qed

lemma levels_services:
  "levels q opts allowed depths frontier tv = Inr tv' \<Longrightarrow> services_ok P root tv \<Longrightarrow>
     sorted_wrt (<) depths \<Longrightarrow> list_all (\<lambda>d. 1 \<le> d) depths \<Longrightarrow>
     (1 \<in> set depths \<longrightarrow> set frontier \<subseteq> {root}) \<Longrightarrow>
     (\<And>depth e. depth \<in> set depths \<Longrightarrow> answered q e \<Longrightarrow> edge_ok P service_discovery_types depth e) \<Longrightarrow>
     services_ok P root tv'"
proof (induction q opts allowed depths frontier tv arbitrary: tv' rule: levels.induct)
  case (2 q opts allowed depth depths frontier tv)
  show ?case
  proof (cases "frontier = [] \<or> sm_edge_limit (ac_summary (tv_account tv)) \<or> sm_ci_limit (ac_summary (tv_account tv))")
    case True
    then show ?thesis using 2(2,3) by simp
  next
    case False
    then obtain next_ids tv1 where step: "level_step q opts allowed depth frontier tv = Inr (next_ids, tv1)"
      and rec: "levels q opts allowed depths next_ids tv1 = Inr tv'"
      using 2(2) by (auto simp: bind_ok_Inr)
    have P: "\<And>d e. d \<in> set (depth # depths) \<Longrightarrow> answered q e \<Longrightarrow> edge_ok P service_discovery_types d e" by (rule 2(7))
    have tail: "1 \<notin> set depths" using 2(4,5) by auto
    have "services_ok P root tv1"
      by (rule level_step_services [OF step 2(3)]) (use 2(6) P in auto)
    then show ?thesis
      by (rule 2(1) [OF False rec]) (use 2(4,5) P tail in auto)
  qed
qed simp

subsection \<open>Member servers\<close>

text \<open>The service memberships are asked for by service: the documented behaviour of the query.\<close>

definition members_by_service :: "cmdb \<Rightarrow> bool" where
  "members_by_service q = (\<forall>services size p rows row s. cq_members q services size = Inr p \<and> Inr rows \<in> set (pg_replies p)
     \<and> row \<in> set rows \<and> servicenow_reference_sys_id row ''service_id'' = Some s \<longrightarrow> s \<in> set services)"

text \<open>A route to a service, then the membership.\<close>

definition member_route :: "(path_edge \<Rightarrow> bool) \<Rightarrow> string \<Rightarrow> chain \<Rightarrow> string \<Rightarrow> bool" where
  "member_route P root c i = (\<exists>base service. c = base @ [service_edge (length base + 1) service i]
     \<and> walk root base service \<and> list_all P base)"

lemma member_route_walk: "member_route P root c i \<Longrightarrow> walk root c i"
  by (auto simp: member_route_def walk_snoc service_edge_def edge_from_def edge_to_def)

definition answered_rows :: "(api_error, snow_row list) result list \<Rightarrow> snow_row set" where
  "answered_rows replies = (\<Union>rows \<in> {rows. Inr rows \<in> set replies}. set rows)"

lemma answered_rows_Cons [simp]: "answered_rows (Inr rows # replies) = set rows \<union> answered_rows replies"
  by (auto simp: answered_rows_def)

lemma read_members_rows:
  "read_members opts done_after replies r = Inr r' \<Longrightarrow> set (mb_rows r') \<subseteq> set (mb_rows r) \<union> answered_rows replies"
proof (induction opts done_after replies r arbitrary: r' rule: read_members.induct)
  case (1 opts done_after replies r)
  note eq = 1(2) [unfolded read_members.simps [of opts done_after replies r]]
  consider (full) "so_max_associations opts \<le> length (mb_rows r)"
    | (pages) "\<not> so_max_associations opts \<le> length (mb_rows r)" "so_max_pages opts \<le> mb_pages r"
    | (read) "\<not> so_max_associations opts \<le> length (mb_rows r)" "\<not> so_max_pages opts \<le> mb_pages r"
    by blast
  then show ?case
  proof cases
    case full
    then have "mb_rows r' = mb_rows r" using eq by (simp split: if_split_asm) auto
    then show ?thesis by simp
  next
    case pages
    then have "mb_rows r' = mb_rows r" using eq by (simp split: if_split_asm) auto
    then show ?thesis by simp
  next
    case read
    show ?thesis
    proof (cases replies)
      case Nil
      then show ?thesis using eq read by simp
    next
      case replies: (Cons reply later)
      show ?thesis
      proof (cases reply)
        case (Inl e)
        then have "mb_rows r' = mb_rows r" using eq read replies by (simp split: if_split_asm) auto
        then show ?thesis by simp
      next
        case (Inr rows)
        show ?thesis
        proof (cases "so_max_associations opts - length (mb_rows r) < length rows")
          case True
          then have "mb_rows r' = mb_rows r @ take (so_max_associations opts - length (mb_rows r)) rows"
            using eq read replies Inr by (simp add: Let_def) auto
          then show ?thesis using set_take_subset [of _ rows] by (simp add: replies Inr) blast
        next
          case fits: False
          have rec: "read_members opts done_after later (r\<lparr>mb_pages := mb_pages r + 1, mb_rows := mb_rows r @ rows\<rparr>) = Inr r'"
            using eq read replies Inr fits by (simp add: Let_def)
          have "set (mb_rows r') \<subseteq> set (mb_rows (r\<lparr>mb_pages := mb_pages r + 1, mb_rows := mb_rows r @ rows\<rparr>)) \<union> answered_rows later"
            by (rule 1(1) [OF read replies Inr refl fits rec])
          then show ?thesis by (simp add: replies Inr Un_assoc)
        qed
      qed
    qed
  qed
qed

lemma membership_read_service:
  assumes "service_membership_read q opts services = Inr r" "members_by_service q" "row \<in> set (mb_rows r)"
    and "servicenow_reference_sys_id row ''service_id'' = Some s"
  shows "s \<in> set services"
proof -
  have "services \<noteq> []" using assms(1,3) by (auto simp: service_membership_read_def membership_read_new_def split: if_splits)
  then obtain p where p: "cq_members q (sort services) (min membership_page_size (max (so_max_associations opts) 1)) = Inr p"
    and read: "read_members opts (pg_done p) (pg_replies p) membership_read_new = Inr r"
    using assms(1) by (auto simp: service_membership_read_def bind_ok_Inr)
  obtain rows where "Inr rows \<in> set (pg_replies p)" "row \<in> set rows"
    using read_members_rows [OF read] assms(3) by (auto simp: membership_read_new_def answered_rows_def)
  then have "s \<in> set (sort services)" using assms(2,4) p unfolding members_by_service_def by blast
  then show ?thesis by simp
qed

definition members_ok :: "(path_edge \<Rightarrow> bool) \<Rightarrow> string \<Rightarrow> chains \<Rightarrow> bool" where
  "members_ok P root m = (\<forall>i. \<forall>c \<in> set (chains_of m i). member_route P root c i)"

lemma process_member_ok:
  assumes "members_ok P root (me_paths me)"
    and "\<And>s. servicenow_reference_sys_id row ''service_id'' = Some s \<Longrightarrow> chains_of sp s \<noteq> []
      \<and> (\<forall>c \<in> set (chains_of sp s). walk root c s \<and> list_all P c)"
  shows "members_ok P root (me_paths (process_member q opts sp row me))"
proof -
  have examined: "me_paths (snd (examine_member opts ci me)) = me_paths me" for ci
    by (simp add: examine_member_def me_note_def Let_def)
  have add: "members_ok P root (me_paths (add_member q sp s ci row me'))"
    if "servicenow_reference_sys_id row ''service_id'' = Some s" "me_paths me' = me_paths me" for s ci me'
  proof -
    have "member_route P root c ci" if "c \<in> set (service_membership_paths_for sp s ci)" for c
      using that assms(2) [OF \<open>servicenow_reference_sys_id row ''service_id'' = Some s\<close>]
      by (auto simp: service_membership_paths_for_def member_route_def)
    then show ?thesis
      using assms(1) that(2)
      by (auto simp: add_member_def me_note_def Let_def members_ok_def chains_of_insert split: option.split prod.split)
  qed
  show ?thesis
  proof (cases "servicenow_reference_sys_id row ''service_id''")
    case None
    then show ?thesis using assms(1) by (simp add: process_member_def me_note_def)
  next
    case (Some s)
    show ?thesis
    proof (cases "servicenow_reference_sys_id row ''ci_id''")
      case None
      then show ?thesis using assms(1) Some by (simp add: process_member_def me_note_def)
    next
      case ci: (Some ci)
      obtain b me' where me': "examine_member opts ci me = (b, me')" by fastforce
      then have same: "me_paths me' = me_paths me" using examined [of ci] by simp
      show ?thesis
        using add [OF Some same, of ci] assms(1) same Some ci me' by (cases b) (simp_all add: process_member_def)
    qed
  qed
qed


lemma process_members_ok:
  "members_ok P root (me_paths me) \<Longrightarrow>
     (\<And>row s. row \<in> set rows \<Longrightarrow> servicenow_reference_sys_id row ''service_id'' = Some s \<Longrightarrow> chains_of sp s \<noteq> []
        \<and> (\<forall>c \<in> set (chains_of sp s). walk root c s \<and> list_all P c)) \<Longrightarrow>
     members_ok P root (me_paths (fold (process_member q opts sp) rows me))"
proof (induction rows arbitrary: me)
  case (Cons row rows)
  have "members_ok P root (me_paths (process_member q opts sp row me))"
    by (rule process_member_ok [OF Cons.prems(1)], rule Cons.prems(2)) simp_all
  then have "members_ok P root (me_paths (fold (process_member q opts sp) rows (process_member q opts sp row me)))"
    by (rule Cons.IH, intro Cons.prems(2)) simp_all
  then show ?case by simp
qed simp

lemma with_paths_ok:
  "members_ok P root m \<Longrightarrow> (sv, paths) \<in> set (with_paths servers m) \<Longrightarrow> \<forall>c \<in> set paths. member_route P root c (sv_sys_id sv)"
proof (induction servers m rule: with_paths.induct)
  case (2 server servers m)
  have "members_ok P root (bt_remove (sv_sys_id server) m)"
    using 2(2) by (simp add: members_ok_def chains_of_def bt_get_remove)
  then show ?case using 2 by (auto simp: members_ok_def)
qed simp

lemma member_servers_ok:
  assumes found: "service_membership_servers q opts (tv_seeds tv) (tv_service_paths tv) start = Inr (found, cache, ac)"
    and services: "services_ok P root tv" and honest: "members_by_service q" and sv: "(sv, paths) \<in> set found"
  shows "\<forall>c \<in> set paths. member_route P root c (sv_sys_id sv)"
proof -
  obtain cache0 ac0 where start: "start = (cache0, ac0)" by fastforce
  have "tv_seeds tv \<noteq> []" using found sv by (auto simp: service_membership_servers_def start)
  then obtain r where read: "service_membership_read q opts (tv_seeds tv) = Inr r"
    using found by (auto simp: service_membership_servers_def start bind_ok_Inr)
  have acl: "\<not> mb_acl r"
    using found sv \<open>tv_seeds tv \<noteq> []\<close> by (auto simp: service_membership_servers_def start read Let_def)
  let ?start = "\<lparr>me_account = account_members r (on_summary (\<lambda>sm. sm\<lparr>sm_pages_examined := sm_pages_examined sm + mb_pages r\<rparr>) ac0),
      me_examined = [], me_server_ids = [], me_paths = [], me_cache = cache0\<rparr>"
  obtain servers where "found = with_paths servers (me_paths (fold (process_member q opts (tv_service_paths tv)) (mb_rows r) ?start))"
    using found \<open>tv_seeds tv \<noteq> []\<close> acl
    by (auto simp: service_membership_servers_def start read Let_def bind_ok_Inr)
  moreover have "members_ok P root (me_paths (fold (process_member q opts (tv_service_paths tv)) (mb_rows r) ?start))"
  proof (rule process_members_ok)
    show "members_ok P root (me_paths ?start)" by (simp add: members_ok_def chains_of_def)
    fix row s assume "row \<in> set (mb_rows r)" "servicenow_reference_sys_id row ''service_id'' = Some s"
    then have "s \<in> set (tv_seeds tv)" by (rule membership_read_service [OF read honest])
    then show "chains_of (tv_service_paths tv) s \<noteq> [] \<and> (\<forall>c \<in> set (chains_of (tv_service_paths tv) s). walk root c s \<and> list_all P c)"
      using services by (simp add: services_ok_def)
  qed
  ultimately show ?thesis using with_paths_ok sv by blast
qed

subsection \<open>Discoveries\<close>

definition discoveries_ok ::
  "(string \<Rightarrow> chain \<Rightarrow> bool) \<Rightarrow> (string \<Rightarrow> chain \<Rightarrow> bool) \<Rightarrow> (string, discovery) btree \<Rightarrow> bool" where
  "discoveries_ok R M m = (\<forall>i d. bt_get m i = Some d \<longrightarrow>
     (\<forall>c \<in> set (di_relationship_paths d). R i c) \<and> (\<forall>c \<in> set (di_membership_paths d). M i c))"

lemma discoveries_okD:
  assumes "discoveries_ok R M m" "bt_get m i = Some d"
  shows "\<forall>c \<in> set (di_relationship_paths d). R i c" "\<forall>c \<in> set (di_membership_paths d). M i c"
  using assms by (simp_all add: discoveries_ok_def)

lemma discoveries_ok_insert:
  "discoveries_ok R M m \<Longrightarrow> \<forall>c \<in> set (di_relationship_paths d). R i c \<Longrightarrow> \<forall>c \<in> set (di_membership_paths d). M i c \<Longrightarrow>
     discoveries_ok R M (bt_insert i d m)"
  unfolding discoveries_ok_def by (metis bt_get_insert_other bt_get_insert_same option.inject)

lemma merge_relationship_ok:
  assumes "discoveries_ok R M m" "\<forall>c \<in> set paths. R (sv_sys_id sv) c"
  shows "discoveries_ok R M (merge_discovery sv ViaRelationship paths m)"
  unfolding merge_discovery_def
  by (rule discoveries_ok_insert [OF assms(1)])
    (use assms(2) in \<open>auto simp: discovery_new_def add_paths_def Let_def dest: discoveries_okD [OF assms(1)] split: option.split\<close>)

lemma merge_membership_ok:
  assumes "discoveries_ok R M m" "\<forall>c \<in> set paths. M (sv_sys_id sv) c"
  shows "discoveries_ok R M (merge_discovery sv ViaServiceMembership paths m)"
  unfolding merge_discovery_def
  by (rule discoveries_ok_insert [OF assms(1)])
    (use assms(2) in \<open>auto simp: discovery_new_def add_paths_def Let_def dest: discoveries_okD [OF assms(1)] split: option.split\<close>)

lemma relationship_discoveries_ok:
  assumes "\<And>i c. c \<in> set (chains_of (tv_paths tv) i) \<Longrightarrow> R i c"
  shows "discoveries_ok R M (relationship_discoveries tv)"
proof -
  have "discoveries_ok R M m \<Longrightarrow> discoveries_ok R M
      (fold (\<lambda>(_, sv). merge_discovery sv ViaRelationship (chains_of (tv_paths tv) (sv_sys_id sv))) servers m)" for servers m
  proof (induction servers arbitrary: m)
    case (Cons kv servers)
    have "discoveries_ok R M (merge_discovery (snd kv) ViaRelationship (chains_of (tv_paths tv) (sv_sys_id (snd kv))) m)"
      by (rule merge_relationship_ok [OF Cons.prems]) (use assms in blast)
    then show ?case using Cons.IH by (simp add: case_prod_beta)
  qed simp
  moreover have "discoveries_ok R M []" by (simp add: discoveries_ok_def)
  ultimately show ?thesis by (simp add: relationship_discoveries_def)
qed

lemma member_discoveries_ok:
  "discoveries_ok R M m \<Longrightarrow> (\<And>sv paths. (sv, paths) \<in> set found \<Longrightarrow> \<forall>c \<in> set paths. M (sv_sys_id sv) c) \<Longrightarrow>
     discoveries_ok R M (member_discoveries found m)"
proof (induction found arbitrary: m)
  case (Cons f found)
  obtain sv paths where f: "f = (sv, paths)" by fastforce
  have "discoveries_ok R M (merge_discovery sv ViaServiceMembership paths m)"
    by (rule merge_membership_ok [OF Cons.prems(1)], rule Cons.prems(2)) (simp add: f)
  then have "discoveries_ok R M (member_discoveries found (merge_discovery sv ViaServiceMembership paths m))"
    by (rule Cons.IH, intro Cons.prems(2)) simp
  then show ?case by (simp add: member_discoveries_def f)
qed (simp add: member_discoveries_def)

end
