(* ===== verification/Cmdb_Demo.thy ===== *)
theory Cmdb_Demo
  imports Cmdb_Discovery
begin

text \<open>
  A small CMDB to evaluate the server inventory on, and what the inventory finds in it.
\<close>

text \<open>An application that uses a service and runs on one server; a second server is a member of the service.\<close>

definition demo_id :: "char \<Rightarrow> string" where
  "demo_id c = replicate 32 c"

definition demo_row :: "(string \<times> string) list \<Rightarrow> snow_row" where
  "demo_row kvs = \<lparr>rw_sys_id = (case map_of kvs ''sys_id'' of None \<Rightarrow> [] | Some i \<Rightarrow> i), rw_table = ''cmdb_ci_server'',
     rw_value = map_of kvs, rw_raw = map_of kvs, rw_str = map_of kvs, rw_display = Map.empty\<rparr>"

definition demo_edge :: "char \<Rightarrow> char \<Rightarrow> string \<Rightarrow> string \<Rightarrow> snow_row" where
  "demo_edge p c typ cls = demo_row [(''parent'', demo_id p), (''child'', demo_id c), (''type'', typ), (''child.sys_class_name'', cls)]"

definition demo_member :: "char \<Rightarrow> snow_row" where
  "demo_member c = demo_row [(''service_id'', demo_id CHR ''b''), (''ci_id'', demo_id c),
     (''ci_id.sys_class_name'', ''cmdb_ci_linux_server'')]"

definition demo_pages :: "snow_row list \<Rightarrow> (api_error, pages) result" where
  "demo_pages rows = Inr \<lparr>pg_replies = [Inr rows], pg_done = (\<lambda>n. 1 \<le> n)\<rparr>"

definition demo_cmdb :: cmdb where
  "demo_cmdb = \<lparr>
     cq_relations = (\<lambda>level field ids size. demo_pages (if field = ''parent'' \<and> demo_id CHR ''a'' \<in> set ids
       then [demo_edge CHR ''a'' CHR ''b'' ''Uses::Used by'' ''cmdb_ci_service_auto'',
             demo_edge CHR ''a'' CHR ''c'' ''Runs on::Runs'' ''cmdb_ci_linux_server''] else [])),
     cq_ci_classes = (\<lambda>level ids. Inr []),
     cq_servers = (\<lambda>level ids. Inr (map (\<lambda>i. demo_row [(''sys_id'', i)]) ids)),
     cq_object_named = (\<lambda>level name. Inr None),
     cq_object = (\<lambda>level i. Inr None),
     cq_members = (\<lambda>ids size. demo_pages (if demo_id CHR ''b'' \<in> set ids then [demo_member CHR ''c'', demo_member CHR ''d''] else [])),
     cq_relation_types = (\<lambda>names. Inl (ApiStatus 403 ''no'')),
     cq_group_servers = (\<lambda>group limit. Inr [])\<rparr>"

definition demo_options :: "nat \<Rightarrow> servers_options" where
  "demo_options cis = \<lparr>so_selector = BySysId (demo_id CHR ''a''), so_max_depth = 2, so_max_cis = cis, so_max_edges = 9,
     so_max_associations = 9, so_max_pages = 3, so_relationship_type = [], so_include_paths = True,
     so_fallback = NoFallback, so_persist = True, so_prune_stale = True\<rparr>"

lemma demo_id_eq [simp]: "demo_id a = demo_id b \<longleftrightarrow> a = b" "demo_id a \<noteq> []"
  by (auto simp: demo_id_def)

lemma demo_ref [simp]:
  "normalize_record_lookup_sys_id (demo_id CHR ''a'') = Inr (demo_id CHR ''a'')"
  "normalize_record_lookup_sys_id (demo_id CHR ''b'') = Inr (demo_id CHR ''b'')"
  "normalize_record_lookup_sys_id (demo_id CHR ''c'') = Inr (demo_id CHR ''c'')"
  "normalize_record_lookup_sys_id (demo_id CHR ''d'') = Inr (demo_id CHR ''d'')"
  by code_simp+

lemma demo_less [simp]: "demo_id CHR ''a'' < demo_id CHR ''b''" "demo_id CHR ''a'' < demo_id CHR ''c''"
  "demo_id CHR ''b'' < demo_id CHR ''c''" "demo_id CHR ''c'' < demo_id CHR ''d''"
  "\<not> demo_id CHR ''c'' < demo_id CHR ''a''" "\<not> demo_id CHR ''c'' < demo_id CHR ''b''" "\<not> demo_id CHR ''b'' < demo_id CHR ''a''"
  "\<not> demo_id CHR ''d'' < demo_id CHR ''c''"
  by code_simp+

lemma demo_text [simp]:
  "trim ''Uses::Used by'' = ''Uses::Used by''" "trim ''Runs on::Runs'' = ''Runs on::Runs''"
  "trim ''cmdb_ci_service_auto'' = ''cmdb_ci_service_auto''" "trim ''cmdb_ci_linux_server'' = ''cmdb_ci_linux_server''"
  "trim (''Uses::Used by'') = ''Uses::Used by''"
  by code_simp+

definition demo_service :: relationship_edge where
  "demo_service = \<lparr>re_parent = demo_id CHR ''a'', re_child = demo_id CHR ''b'', re_parent_class = None,
     re_child_class = Some ''cmdb_ci_service_auto'', re_type = \<lparr>rt_value = ''Uses::Used by'', rt_display = None\<rparr>\<rparr>"

definition demo_host :: relationship_edge where
  "demo_host = \<lparr>re_parent = demo_id CHR ''a'', re_child = demo_id CHR ''c'', re_parent_class = None,
     re_child_class = Some ''cmdb_ci_linux_server'', re_type = \<lparr>rt_value = ''Runs on::Runs'', rt_display = None\<rparr>\<rparr>"

lemma demo_edges [simp]:
  "edge_of_row (demo_edge CHR ''a'' CHR ''b'' ''Uses::Used by'' ''cmdb_ci_service_auto'') = Some demo_service"
  "edge_of_row (demo_edge CHR ''a'' CHR ''c'' ''Runs on::Runs'' ''cmdb_ci_linux_server'') = Some demo_host"
  by (simp_all add: edge_of_row_def demo_edge_def demo_row_def servicenow_reference_sys_id_def or_try_def ok_of_def
      servicenow_record_text_def servicenow_record_raw_text_def servicenow_record_display_text_def non_empty_owned_def
      demo_service_def demo_host_def)

lemma demo_types:
  "matches_any service_discovery_types (re_type demo_service)" "\<not> matches_any service_discovery_types (re_type demo_host)"
  "matches_any default_relationship_types (re_type demo_host)" "\<not> matches_any default_relationship_types (re_type demo_service)"
  by code_simp+

lemma demo_classes: "is_application_service_class (Some ''cmdb_ci_service_auto'')" "is_server_class ''cmdb_ci_linux_server''"
  by code_simp+

lemma demo_level1:
  "relationship_level demo_cmdb (demo_options 5) 1 [demo_id CHR ''a''] \<lparr>ac_summary = summary_new (demo_options 5), ac_diagnostics = []\<rparr>
     = Inr ([demo_service, demo_host], \<lparr>ac_summary = (summary_new (demo_options 5))\<lparr>sm_relationships_examined := 2\<rparr>, ac_diagnostics = []\<rparr>)"
  by (simp add: relationship_level_def relationship_direction_read_def demo_options_def demo_cmdb_def demo_pages_def
      read_relations.simps direction_read_new_def merge_direction_read_def on_summary_def summary_new_def edge_key_def)
    (simp add: demo_service_def demo_host_def)

abbreviation demo_account :: account where
  "demo_account \<equiv> \<lparr>ac_summary = (summary_new (demo_options 5))\<lparr>sm_relationships_examined := 2\<rparr>, ac_diagnostics = []\<rparr>"

definition demo_chain :: "relationship_edge \<Rightarrow> chain" where
  "demo_chain e = [path_edge_of 1 ParentToChild e]"

definition demo_found_state :: traversal where
  "demo_found_state = (traversal_start (demo_options 5) (demo_id CHR ''a''))\<lparr>
     tv_account := demo_account,
     tv_visited := [demo_id CHR ''a'', demo_id CHR ''c''],
     tv_classes := [(demo_id CHR ''a'', ''cmdb_ci_business_app''), (demo_id CHR ''b'', ''cmdb_ci_service_auto''), (demo_id CHR ''c'', ''cmdb_ci_linux_server'')],
     tv_paths := [(demo_id CHR ''a'', [[]]), (demo_id CHR ''c'', [demo_chain demo_host])],
     tv_service_paths := [(demo_id CHR ''a'', [[]]), (demo_id CHR ''b'', [demo_chain demo_service])],
     tv_seeds := [demo_id CHR ''b''], tv_new := [demo_id CHR ''c'']\<rparr>"

lemma demo_ends [simp]:
  "re_parent demo_service = demo_id CHR ''a''" "re_child demo_service = demo_id CHR ''b''"
  "re_parent demo_host = demo_id CHR ''a''" "re_child demo_host = demo_id CHR ''c''"
  "re_parent_class demo_service = None" "re_child_class demo_service = Some ''cmdb_ci_service_auto''"
  "re_parent_class demo_host = None" "re_child_class demo_host = Some ''cmdb_ci_linux_server''"
  by (simp_all add: demo_service_def demo_host_def)

lemma demo_process:
  "fold (process_edge (demo_options 5) default_relationship_types 1 [demo_id CHR ''a'']) [demo_service, demo_host]
     ((traversal_start (demo_options 5) (demo_id CHR ''a''))\<lparr>tv_account := demo_account, tv_new := []\<rparr>) = demo_found_state"
  by (simp add: process_edge_def follow_edge_def discover_service_def note_classes_def note_class_def demo_types demo_classes
      traversal_endpoint_def extend_path_chains_def extended_path_chains_def chains_of_def bt_get_def first_visit_def
      demo_options_def traversal_start_def demo_found_state_def demo_chain_def)

lemma demo_classify:
  "hydrate_ci_classes demo_cmdb 1 (tv_new demo_found_state) (tv_classes demo_found_state, tv_account demo_found_state)
     = Inr (tv_classes demo_found_state, tv_account demo_found_state)"
  "classify demo_cmdb 1 (tv_new demo_found_state) demo_found_state = ([demo_id CHR ''c''], [], demo_found_state)"
  by (simp_all add: demo_found_state_def hydrate_ci_classes_def bt_get_def class_is_server_def demo_classes traversal_start_def)

definition demo_sv :: "char \<Rightarrow> server" where
  "demo_sv c = server_from_row (demo_row [(''sys_id'', demo_id c)])"

lemma demo_sv_id [simp]: "sv_sys_id (demo_sv c) = demo_id c"
  by (simp add: demo_sv_def server_from_row_def demo_row_def)

lemma demo_hydrate: "dedup_str (map demo_id cs) = map demo_id cs \<Longrightarrow>
    hydrate_servers demo_cmdb level (map demo_id cs) ac = Inr (map demo_sv cs, ac)"
  by (auto simp: hydrate_servers_def demo_cmdb_def demo_sv_def demo_row_def comp_def each_missing_def Let_def)

definition demo_end_state :: traversal where
  "demo_end_state = demo_found_state\<lparr>tv_servers := [(demo_id CHR ''c'', demo_sv CHR ''c'')],
     tv_emitted := [(demo_id CHR ''c'', [demo_chain demo_host])]\<rparr>"

lemma demo_dedup: "dedup_str [demo_id CHR ''c''] = [demo_id CHR ''c'']"
  "dedup_str [demo_id CHR ''c'', demo_id CHR ''d''] = [demo_id CHR ''c'', demo_id CHR ''d'']"
  by code_simp+

lemma demo_traverse: "traverse demo_cmdb (demo_options 5) True (demo_id CHR ''a'') = Inr demo_end_state"
proof -
  have allowed: "resolve_relationship_type_allowlist demo_cmdb (demo_options 5) True = default_relationship_types"
    by (simp add: resolve_relationship_type_allowlist_def demo_options_def demo_cmdb_def)
  have depths: "[1 ..< so_max_depth (demo_options 5) + 1] = [1, 2]" by (simp add: demo_options_def upt_rec)
  have start: "tv_account (traversal_start (demo_options 5) (demo_id CHR ''a''))
      = \<lparr>ac_summary = summary_new (demo_options 5), ac_diagnostics = []\<rparr>" by (simp add: traversal_start_def)
  have hydrate: "hydrate_servers demo_cmdb 1 [demo_id CHR ''c''] ac = Inr ([demo_sv CHR ''c''], ac)" for ac
    using demo_hydrate [of "[CHR ''c'']" 1 ac] demo_dedup(1) by simp
  have same: "demo_found_state\<lparr>tv_classes := tv_classes demo_found_state, tv_account := tv_account demo_found_state\<rparr> = demo_found_state"
    by simp
  have add: "fold (add_server (demo_options 5)) [demo_sv CHR ''c''] (demo_found_state\<lparr>tv_account := tv_account demo_found_state\<rparr>) = demo_end_state"
    by (simp add: add_server_def Let_def demo_end_state_def demo_found_state_def traversal_start_def bt_get_def chains_of_def demo_options_def)
  have "level_step demo_cmdb (demo_options 5) default_relationship_types 1 [demo_id CHR ''a'']
      (traversal_start (demo_options 5) (demo_id CHR ''a'')) = Inr ([], demo_end_state)"
    unfolding level_step_def start demo_level1 bind_ok_simps prod.case Let_def demo_process demo_classify same
      hydrate bind_ok_simps prod.case add
    by simp
  then show ?thesis
    by (simp add: traverse_def allowed depths start summary_new_def del: One_nat_def)
qed

lemma demo_member_parts:
  "c \<in> {CHR ''c'', CHR ''d''} \<Longrightarrow> servicenow_reference_sys_id (demo_member c) ''service_id'' = Some (demo_id CHR ''b'')"
  "c \<in> {CHR ''c'', CHR ''d''} \<Longrightarrow> servicenow_reference_sys_id (demo_member c) ''ci_id'' = Some (demo_id c)"
  "servicenow_record_text (demo_member c) ''ci_id.sys_class_name'' = Some ''cmdb_ci_linux_server''"
  by (auto simp: servicenow_reference_sys_id_def demo_member_def demo_row_def or_try_def ok_of_def servicenow_record_text_def non_empty_owned_def)

lemma demo_membership_read:
  "service_membership_read demo_cmdb (demo_options cis) [demo_id CHR ''b'']
     = Inr (membership_read_new\<lparr>mb_rows := [demo_member CHR ''c'', demo_member CHR ''d''], mb_pages := 1\<rparr>)"
  by (simp add: service_membership_read_def demo_cmdb_def demo_pages_def read_members.simps membership_read_new_def demo_options_def Let_def)

definition demo_member_chain :: "char \<Rightarrow> chain" where
  "demo_member_chain c = demo_chain demo_service @ [service_edge 2 (demo_id CHR ''b'') (demo_id c)]"

definition demo_inventory_found :: "(server \<times> chain list) list" where
  "demo_inventory_found = [(demo_sv CHR ''c'', [demo_member_chain CHR ''c'']), (demo_sv CHR ''d'', [demo_member_chain CHR ''d''])]"

text \<open>The summary of the whole run, but for the number of servers.\<close>

definition demo_summary :: servers_summary where
  "demo_summary = (summary_new (demo_options 5))\<lparr>sm_relationships_examined := 2, sm_cis_examined := 4, sm_pages_examined := 1,
     sm_associations_examined := 2, sm_membership_status := Some ''ok''\<rparr>"

lemma demo_members:
  assumes "ac_summary ac = (summary_new (demo_options 5))\<lparr>sm_relationships_examined := 2\<rparr>"
  shows "\<exists>ac'. service_membership_servers demo_cmdb (demo_options 5) (tv_seeds demo_end_state) (tv_service_paths demo_end_state)
     ([], on_summary (\<lambda>sm. sm\<lparr>sm_cis_examined := 2\<rparr>) ac) = Inr (demo_inventory_found, [], ac') \<and> ac_summary ac' = demo_summary"
proof -
  have hydrate: "hydrate_servers demo_cmdb 0 [demo_id CHR ''c'', demo_id CHR ''d''] ac = Inr ([demo_sv CHR ''c'', demo_sv CHR ''d''], ac)" for ac
    using demo_hydrate [of "[CHR ''c'', CHR ''d'']" 0 ac] demo_dedup(2) by simp
  have cis: "so_max_cis (demo_options 5) = 5" by (simp add: demo_options_def)
  have seeds: "tv_seeds demo_end_state = [demo_id CHR ''b'']"
    "tv_service_paths demo_end_state = [(demo_id CHR ''a'', [[]]), (demo_id CHR ''b'', [demo_chain demo_service])]"
    by (simp_all add: demo_end_state_def demo_found_state_def)
  show ?thesis
    using assms
    by (simp add: members_status_def demo_summary_def summary_new_def service_membership_servers_def seeds demo_membership_read membership_read_new_def Let_def account_members_def
        process_member_def demo_member_parts examine_member_def on_summary_def cis me_note_def add_member_def class_is_server_def
        demo_classes chains_of_def service_membership_paths_for_def bt_get_def hydrate bt_remove_def demo_inventory_found_def
        demo_member_chain_def demo_chain_def numeral_2_eq_2)
qed

lemma demo_discoveries:
  "\<exists>iv. discover_servers demo_cmdb (demo_options 5) True (demo_id CHR ''a'') = Inr iv
     \<and> iv_discoveries iv = [(demo_id CHR ''c'', \<lparr>di_server = demo_sv CHR ''c'', di_provenance = ViaBoth,
         di_relationship_paths = [demo_chain demo_host], di_membership_paths = [demo_member_chain CHR ''c'']\<rparr>),
       (demo_id CHR ''d'', \<lparr>di_server = demo_sv CHR ''d'', di_provenance = ViaServiceMembership,
         di_relationship_paths = [], di_membership_paths = [demo_member_chain CHR ''d'']\<rparr>)]
     \<and> ac_summary (iv_account iv) = demo_summary\<lparr>sm_servers_found := 2\<rparr>"
proof -
  have "ac_summary (tv_account demo_end_state) = (summary_new (demo_options 5))\<lparr>sm_relationships_examined := 2\<rparr>"
    by (simp add: demo_end_state_def demo_found_state_def)
  then obtain ac' where found: "service_membership_servers demo_cmdb (demo_options 5) (tv_seeds demo_end_state) (tv_service_paths demo_end_state)
     ([], on_summary (\<lambda>sm. sm\<lparr>sm_cis_examined := 2\<rparr>) (tv_account demo_end_state)) = Inr (demo_inventory_found, [], ac')"
    and summary: "ac_summary ac' = demo_summary"
    using demo_members by blast
  have state: "length (tv_visited demo_end_state) = 2" "tv_cache demo_end_state = []"
    by (simp_all add: demo_end_state_def demo_found_state_def traversal_start_def)
  have "relationship_discoveries demo_end_state = [(demo_id CHR ''c'', \<lparr>di_server = demo_sv CHR ''c'', di_provenance = ViaRelationship,
         di_relationship_paths = [demo_chain demo_host], di_membership_paths = []\<rparr>)]"
    by (simp add: relationship_discoveries_def demo_end_state_def demo_found_state_def merge_discovery_def bt_get_def
        discovery_new_def add_paths_def chains_of_def)
  then show ?thesis
    by (simp add: discover_servers_def demo_traverse state found Let_def summary on_summary_def [where ac = ac'] member_discoveries_def demo_inventory_found_def
        merge_discovery_def bt_get_def discovery_new_def add_paths_def)
qed

end
