(* ===== verification/Cmdb_Budget.thy ===== *)
theory Cmdb_Budget
  imports Cmdb_Demo
begin

text \<open>
  The budgets of the server inventory: what the summary counts never exceeds the options, and a level
  nothing was cut from holds every relationship ServiceNow returned.
\<close>

subsection \<open>What is counted\<close>

definition counts :: "account \<Rightarrow> nat \<times> nat \<times> nat \<times> nat" where
  "counts ac = (sm_relationships_examined (ac_summary ac), sm_associations_examined (ac_summary ac),
     sm_pages_examined (ac_summary ac), sm_cis_examined (ac_summary ac))"

lemma counts_push [simp]: "counts (push_diagnostic field table i reason message ac) = counts ac"
  by (simp add: counts_def push_diagnostic_def record_degraded_reason_def)

lemma counts_marks [simp]:
  "counts (on_summary (\<lambda>sm. mark_truncated n (sm\<lparr>sm_edge_limit := b\<rparr>)) ac) = counts ac"
  "counts (on_summary (\<lambda>sm. mark_truncated n (sm\<lparr>sm_ci_limit := b\<rparr>)) ac) = counts ac"
  "counts (on_summary (\<lambda>sm. mark_truncated n (sm\<lparr>sm_depth_limit := b\<rparr>)) ac) = counts ac"
  "counts (on_summary (\<lambda>sm. mark_truncated n (sm\<lparr>sm_association_limit := b\<rparr>)) ac) = counts ac"
  "counts (on_summary (\<lambda>sm. mark_truncated n (sm\<lparr>sm_page_limit := b\<rparr>)) ac) = counts ac"
  "counts (on_summary (\<lambda>sm. sm\<lparr>sm_cycles := f sm\<rparr>) ac) = counts ac"
  "counts (on_summary (\<lambda>sm. sm\<lparr>sm_missing_ci := f sm\<rparr>) ac) = counts ac"
  "counts (on_summary (\<lambda>sm. sm\<lparr>sm_acl_restricted := f sm\<rparr>) ac) = counts ac"
  "counts (on_summary (\<lambda>sm. sm\<lparr>sm_acl_restricted := f sm, sm_relationship_acl := g sm\<rparr>) ac) = counts ac"
  "counts (on_summary (\<lambda>sm. sm\<lparr>sm_servers_found := f sm\<rparr>) ac) = counts ac"
  "counts (on_summary members_status ac) = counts ac"
  by (simp_all add: counts_def on_summary_def mark_truncated_def members_status_def)

lemma counts_notes [simp]:
  "counts (mark_edge_limit ac) = counts ac" "counts (count_cycle ac) = counts ac" "counts (ci_limit i ac) = counts ac"
  "counts (depth_limit n ac) = counts ac" "counts (unreadable_edge ac) = counts ac"
  "counts (unreadable_member field message ac) = counts ac" "counts (member_ci_limit i ac) = counts ac"
  "counts (unreadable_member_class i ac) = counts ac"
  by (simp_all add: mark_edge_limit_def count_cycle_def ci_limit_def depth_limit_def unreadable_edge_def
      unreadable_member_def member_ci_limit_def unreadable_member_class_def)

lemma counts_fold: "(\<And>x ac. counts (f x ac) = counts ac) \<Longrightarrow> counts (fold f xs ac) = counts ac"
  by (induction xs arbitrary: ac) simp_all

lemma counts_each [simp]:
  "counts (each_denied field table message ids ac) = counts ac" "counts (each_missing field table message ids ac) = counts ac"
  unfolding each_denied_def each_missing_def by (subst counts_fold; simp)+

lemma counts_edges_of_rows: "counts (snd (edges_of_rows rows seen ac)) = counts ac"
  by (induction rows seen ac rule: edges_of_rows.induct) (auto split: option.split prod.split simp: case_prod_beta)

lemma counts_class_is_server: "class_is_server q level cls (cache, ac) = (b, cache', ac') \<Longrightarrow> counts ac' = counts ac"
  by (auto simp: class_is_server_def split: if_splits option.splits sum.splits)

lemma counts_hydrate_classes: "hydrate_ci_classes q level ids (cl, ac) = Inr (cl', ac') \<Longrightarrow> counts ac' = counts ac"
  by (auto simp: hydrate_ci_classes_def Let_def split: if_splits sum.splits prod.splits)

lemma counts_hydrate_servers: "hydrate_servers q level ids ac = Inr (servers, ac') \<Longrightarrow> counts ac' = counts ac"
  by (auto simp: hydrate_servers_def Let_def split: if_splits sum.splits)

definition tv_counts :: "traversal \<Rightarrow> nat \<times> nat \<times> nat \<times> nat" where
  "tv_counts tv = counts (tv_account tv)"

lemma tv_counts_steps [simp]:
  "tv_counts (note_classes e tv) = tv_counts tv" "tv_counts (add_server opts sv tv) = tv_counts tv"
  "tv_counts (skipped_cycle field table i message tv) = tv_counts tv"
  "tv_counts (on_account (depth_limit n) tv) = tv_counts tv" "tv_counts (on_account count_cycle tv) = tv_counts tv"
  "tv_counts (on_account (push_diagnostic field table i reason message) tv) = tv_counts tv"
  "tv_counts (tv\<lparr>tv_account := ac\<rparr>) = counts ac"
  by (simp_all add: tv_counts_def note_classes_def add_server_def skipped_cycle_def on_account_def Let_def)

lemma tv_counts_process [simp]: "tv_counts (process_edge opts allowed depth frontier e tv) = tv_counts tv"
proof -
  have "tv_counts (discover_service depth frontier e tv) = tv_counts tv" for tv
    by (simp add: discover_service_def split: option.split prod.split bool.split) (simp add: tv_counts_def)
  moreover have "tv_counts (revisit opts depth e current_id adjacent_id dir tv) = tv_counts tv" for current_id adjacent_id dir tv
    by (simp add: revisit_def split: prod.split bool.split) (simp add: tv_counts_def)
  moreover have "tv_counts (first_visit opts depth e current_id adjacent_id dir tv) = tv_counts tv" for current_id adjacent_id dir tv
    by (simp add: first_visit_def split: prod.split bool.split) (simp add: tv_counts_def on_account_def)
  ultimately show ?thesis by (simp add: process_edge_def follow_edge_def split: option.split prod.split)
qed

lemma tv_counts_fold: "(\<And>x tv. tv_counts (f x tv) = tv_counts tv) \<Longrightarrow> tv_counts (fold f xs tv) = tv_counts tv"
  by (induction xs arbitrary: tv) simp_all

lemma tv_counts_classify: "classify q level ids tv = (s, f, tv') \<Longrightarrow> tv_counts tv' = tv_counts tv"
proof (induction q level ids tv arbitrary: s f tv' rule: classify.induct)
  case (2 q level i ids tv)
  show ?case
  proof (cases "bt_get (tv_classes tv) i")
    case None
    then show ?thesis using 2(1) 2(3) by simp
  next
    case (Some cls)
    obtain b cache ac where cs: "class_is_server q level cls (tv_cache tv, tv_account tv) = (b, cache, ac)"
      by (metis prod_cases3)
    obtain s1 f1 tv1 where rec: "classify q level ids (tv\<lparr>tv_cache := cache, tv_account := ac\<rparr>) = (s1, f1, tv1)"
      by (metis prod_cases3)
    have "tv' = tv1" using 2(3) Some cs rec by (auto split: if_splits)
    then show ?thesis
      using 2(2) [OF Some cs [symmetric] refl rec] counts_class_is_server [OF cs] by (simp add: tv_counts_def)
  qed
qed simp


subsection \<open>The budget of relationships\<close>

lemma counts_examined:
  "counts ac = (e, a, p, c) \<Longrightarrow>
     counts (on_summary (\<lambda>sm. sm\<lparr>sm_relationships_examined := sm_relationships_examined sm + n\<rparr>) ac) = (e + n, a, p, c)"
  by (simp add: counts_def on_summary_def)

lemma merge_direction_read_counts:
  assumes "merge_direction_read r (budget, ac, rows) = (budget', ac', rows')"
  shows "budget' \<le> budget" "counts ac = (e, a, p, c) \<Longrightarrow> counts ac' = (e + (budget - budget'), a, p, c)"
proof -
  let ?n = "length (take budget (dr_rows r))"
  define ac1 where "ac1 = (if dr_acl r
            then push_diagnostic (dr_field r) ''cmdb_rel_ci'' [] ReferenceAclRestricted
                   ''ACL restricted cmdb_rel_ci traversal''
                   (on_summary (\<lambda>sm. sm\<lparr>sm_acl_restricted := sm_acl_restricted sm + 1,
                       sm_relationship_acl := sm_relationship_acl sm + 1\<rparr>) ac)
            else ac)"
  define ac2 where "ac2 = (if budget < length (dr_rows r) \<or> dr_edge_limit r then mark_edge_limit ac1 else ac1)"
  have "(budget', ac', rows') = (budget - ?n,
      on_summary (\<lambda>sm. sm\<lparr>sm_relationships_examined := sm_relationships_examined sm + ?n\<rparr>) ac2, rows @ take budget (dr_rows r))"
    using assms unfolding merge_direction_read_def prod.case Let_def ac1_def [symmetric] ac2_def [symmetric] by (rule sym)
  then have parts: "budget' = budget - ?n"
    "ac' = on_summary (\<lambda>sm. sm\<lparr>sm_relationships_examined := sm_relationships_examined sm + ?n\<rparr>) ac2" by blast+
  show "budget' \<le> budget" using parts(1) by simp
  assume start: "counts ac = (e, a, p, c)"
  have "counts ac2 = counts ac" by (simp add: ac2_def ac1_def)
  then have "counts ac' = (e + ?n, a, p, c)" unfolding parts(2) using counts_examined start by presburger
  moreover have "budget - budget' = ?n" using parts(1) by simp
  ultimately show "counts ac' = (e + (budget - budget'), a, p, c)" by simp
qed

lemma relationship_level_counts:
  assumes level: "relationship_level q opts level frontier ac = Inr (edges, ac')" and start: "counts ac = (e, a, p, c)" "e \<le> so_max_edges opts"
  shows "\<exists>e'. counts ac' = (e', a, p, c) \<and> e' \<le> so_max_edges opts"
proof (cases "frontier = [] \<or> sm_edge_limit (ac_summary ac) \<or> so_max_edges opts - sm_relationships_examined (ac_summary ac) = 0")
  case True
  then have "counts ac' = counts ac" using level by (auto simp: relationship_level_def Let_def split: if_splits)
  then show ?thesis using start by simp
next
  case False
  let ?budget = "so_max_edges opts - sm_relationships_examined (ac_summary ac)"
  obtain parents children where merged: "(case merge_direction_read children (merge_direction_read parents (?budget, ac, [])) of
      (budget, ac1, rows) \<Rightarrow> Inr (edges_of_rows rows [] ac1)) = (Inr (edges, ac') :: (api_error, relationship_edge list \<times> account) result)"
    using level False by (auto simp: relationship_level_def Let_def bind_ok_Inr)
  obtain b1 ac1 rows1 where m1: "merge_direction_read parents (?budget, ac, []) = (b1, ac1, rows1)" by (metis prod_cases3)
  obtain b2 ac2 rows2 where m2: "merge_direction_read children (b1, ac1, rows1) = (b2, ac2, rows2)" by (metis prod_cases3)
  have "edges_of_rows rows2 [] ac2 = (edges, ac')" using merged m1 m2 by simp
  then have "counts ac' = counts ac2" using counts_edges_of_rows [of rows2 "[]" ac2] by simp
  moreover note merge_direction_read_counts(2) [OF m2 merge_direction_read_counts(2) [OF m1 start(1)]]
  moreover have "sm_relationships_examined (ac_summary ac) = e" using start(1) by (simp add: counts_def)
  ultimately show ?thesis
    using merge_direction_read_counts(1) [OF m1] merge_direction_read_counts(1) [OF m2] start(2) by auto
qed

lemma level_step_counts:
  assumes step: "level_step q opts allowed depth frontier tv = Inr (next_ids, tv')"
    and start: "tv_counts tv = (e, a, p, c)" "e \<le> so_max_edges opts"
  shows "\<exists>e'. tv_counts tv' = (e', a, p, c) \<and> e' \<le> so_max_edges opts"
proof -
  obtain edges ac tv1 classes ac1 ids ids' tv2 servers ac2 where
    level: "relationship_level q opts depth frontier (tv_account tv) = Inr (edges, ac)"
    and tv1: "tv1 = fold (process_edge opts allowed depth frontier) edges (tv\<lparr>tv_account := ac, tv_new := []\<rparr>)"
    and hydrate: "hydrate_ci_classes q depth (tv_new tv1) (tv_classes tv1, tv_account tv1) = Inr (classes, ac1)"
    and cl: "classify q depth (tv_new tv1) (tv1\<lparr>tv_classes := classes, tv_account := ac1\<rparr>) = (ids, ids', tv2)"
    and servers: "hydrate_servers q depth ids (tv_account tv2) = Inr (servers, ac2)"
    and last: "(next_ids, tv') = (if depth = so_max_depth opts \<and> ids' \<noteq> []
       then ([], on_account (depth_limit (length ids')) (fold (add_server opts) servers (tv2\<lparr>tv_account := ac2\<rparr>)))
       else (ids', fold (add_server opts) servers (tv2\<lparr>tv_account := ac2\<rparr>)))"
    by (rule level_step_parts [OF step])
  obtain e' where e': "counts ac = (e', a, p, c)" "e' \<le> so_max_edges opts"
    using relationship_level_counts [OF level _ start(2)] start(1) by (auto simp: tv_counts_def)
  have "tv_counts tv' = tv_counts (fold (add_server opts) servers (tv2\<lparr>tv_account := ac2\<rparr>))"
    using last by (auto split: if_splits)
  also have "\<dots> = counts ac2" using tv_counts_fold [of "add_server opts"] by simp
  also have "\<dots> = tv_counts tv2" using counts_hydrate_servers [OF servers] by (simp add: tv_counts_def)
  also have "\<dots> = counts ac1" using tv_counts_classify [OF cl] by (simp add: tv_counts_def)
  also have "\<dots> = tv_counts tv1" using counts_hydrate_classes [OF hydrate] by (simp add: tv_counts_def)
  also have "\<dots> = counts ac"
    using tv_counts_fold [of "process_edge opts allowed depth frontier"] by (simp add: tv1) (simp add: tv_counts_def)
  finally show ?thesis using e' by simp
qed

lemma levels_counts:
  "levels q opts allowed depths frontier tv = Inr tv' \<Longrightarrow> tv_counts tv = (e, a, p, c) \<Longrightarrow> e \<le> so_max_edges opts \<Longrightarrow>
     \<exists>e'. tv_counts tv' = (e', a, p, c) \<and> e' \<le> so_max_edges opts"
proof (induction q opts allowed depths frontier tv arbitrary: tv' e rule: levels.induct)
  case (2 q opts allowed depth depths frontier tv)
  show ?case
  proof (cases "frontier = [] \<or> sm_edge_limit (ac_summary (tv_account tv)) \<or> sm_ci_limit (ac_summary (tv_account tv))")
    case True
    then show ?thesis using 2(2,3,4) by simp
  next
    case False
    then obtain next_ids tv1 where step: "level_step q opts allowed depth frontier tv = Inr (next_ids, tv1)"
      and rec: "levels q opts allowed depths next_ids tv1 = Inr tv'"
      using 2(2) by (auto simp: bind_ok_Inr)
    obtain e' where "tv_counts tv1 = (e', a, p, c)" "e' \<le> so_max_edges opts"
      using level_step_counts [OF step 2(3,4)] by blast
    then show ?thesis by (rule 2(1) [OF False rec])
  qed
qed auto

subsection \<open>The budgets of the memberships\<close>

definition membership_fits :: "servers_options \<Rightarrow> membership_read \<Rightarrow> bool" where
  "membership_fits opts r = (length (mb_rows r) \<le> so_max_associations opts \<and> mb_pages r \<le> so_max_pages opts)"

lemma read_members_fits:
  "read_members opts done_after replies r = Inr r' \<Longrightarrow> membership_fits opts r \<Longrightarrow> membership_fits opts r'"
proof (induction opts done_after replies r arbitrary: r' rule: read_members.induct)
  case (1 opts done_after replies r)
  note eq = 1(2) [unfolded read_members.simps [of opts done_after replies r]]
  show ?case
  proof (cases "so_max_associations opts \<le> length (mb_rows r) \<or> so_max_pages opts \<le> mb_pages r \<or> replies = []")
    case True
    then have "mb_rows r' = mb_rows r \<and> mb_pages r' = mb_pages r" using eq by (auto split: if_split_asm)
    then show ?thesis using 1(3) by (simp add: membership_fits_def)
  next
    case False
    then obtain reply later where replies: "replies = reply # later"
      and read: "\<not> so_max_associations opts \<le> length (mb_rows r)" "\<not> so_max_pages opts \<le> mb_pages r"
      by (cases replies) auto
    show ?thesis
    proof (cases reply)
      case (Inl e)
      then have "mb_rows r' = mb_rows r \<and> mb_pages r' = mb_pages r" using eq read replies by (auto split: if_split_asm)
      then show ?thesis using 1(3) by (simp add: membership_fits_def)
    next
      case (Inr rows)
      show ?thesis
      proof (cases "so_max_associations opts - length (mb_rows r) < length rows")
        case True
        then show ?thesis using eq read replies Inr by (auto simp: Let_def membership_fits_def)
      next
        case fits: False
        have rec: "read_members opts done_after later (r\<lparr>mb_pages := mb_pages r + 1, mb_rows := mb_rows r @ rows\<rparr>) = Inr r'"
          using eq read replies Inr fits by (simp add: Let_def)
        show ?thesis
          by (rule 1(1) [OF read replies Inr refl fits rec]) (use read fits in \<open>simp add: membership_fits_def\<close>)
      qed
    qed
  qed
qed

lemma membership_read_fits:
  "service_membership_read q opts services = Inr r \<Longrightarrow> membership_fits opts r"
  by (auto simp: service_membership_read_def bind_ok_Inr membership_read_new_def membership_fits_def split: if_splits
      dest!: read_members_fits)

text \<open>The member CIs: the budget of CIs is the one of the traversal.\<close>

lemma examine_member_counts:
  assumes "counts (me_account me) = (e, a, p, c)" "c \<le> so_max_cis opts + 1"
  shows "\<exists>c'. counts (me_account (snd (examine_member opts ci me))) = (e, a, p, c') \<and> c \<le> c' \<and> c' \<le> so_max_cis opts + 1"
  using assms by (auto simp: examine_member_def me_note_def Let_def counts_def on_summary_def member_ci_limit_def
      push_diagnostic_def record_degraded_reason_def mark_truncated_def)

lemma add_member_counts: "counts (me_account (add_member q sp s ci row me)) = counts (me_account me)"
  by (auto simp: add_member_def me_note_def Let_def dest: counts_class_is_server split: option.split prod.split)

lemma process_member_counts:
  assumes "counts (me_account me) = (e, a, p, c)" "c \<le> so_max_cis opts + 1"
  shows "\<exists>c'. counts (me_account (process_member q opts sp row me)) = (e, a, p, c') \<and> c \<le> c' \<and> c' \<le> so_max_cis opts + 1"
proof (cases "servicenow_reference_sys_id row ''service_id'' = None \<or> servicenow_reference_sys_id row ''ci_id'' = None")
  case True
  then show ?thesis using assms by (auto simp: process_member_def me_note_def split: option.split)
next
  case False
  then obtain s ci where refs: "servicenow_reference_sys_id row ''service_id'' = Some s" "servicenow_reference_sys_id row ''ci_id'' = Some ci"
    by auto
  obtain b me' where me': "examine_member opts ci me = (b, me')" by fastforce
  then show ?thesis
    using examine_member_counts [OF assms, of ci] add_member_counts [of q sp s ci row me']
    by (cases b) (auto simp: process_member_def refs)
qed

lemma process_members_counts:
  "counts (me_account me) = (e, a, p, c) \<Longrightarrow> c \<le> so_max_cis opts + 1 \<Longrightarrow>
     \<exists>c'. counts (me_account (fold (process_member q opts sp) rows me)) = (e, a, p, c') \<and> c \<le> c' \<and> c' \<le> so_max_cis opts + 1"
proof (induction rows arbitrary: me c)
  case (Cons row rows)
  obtain c1 where c1: "counts (me_account (process_member q opts sp row me)) = (e, a, p, c1)" "c \<le> c1" "c1 \<le> so_max_cis opts + 1"
    using process_member_counts [OF Cons.prems, of q sp row] by blast
  from Cons.IH [OF c1(1,3)] c1(2) show ?case by fastforce
qed auto


lemma members_start_counts:
  assumes "counts ac = (e, 0, 0, c)"
  shows "counts (account_members r (on_summary (\<lambda>sm. sm\<lparr>sm_pages_examined := sm_pages_examined sm + mb_pages r\<rparr>) ac))
    = (e, length (mb_rows r), mb_pages r, c)"
proof -
  have "counts (on_summary (\<lambda>sm. sm\<lparr>sm_pages_examined := sm_pages_examined sm + mb_pages r\<rparr>) ac) = (e, 0, mb_pages r, c)"
    using assms by (simp add: counts_def on_summary_def)
  then show ?thesis
    by (simp add: account_members_def cut_members_def Let_def)
      (simp add: counts_def on_summary_def push_diagnostic_def record_degraded_reason_def mark_truncated_def)
qed

lemma member_servers_counts:
  assumes found: "service_membership_servers q opts services sp (cache, ac) = Inr (found, cache', ac')"
    and start: "counts ac = (e, 0, 0, c)" "c \<le> so_max_cis opts + 1"
  shows "\<exists>a p c'. counts ac' = (e, a, p, c') \<and> c \<le> c' \<and> a \<le> so_max_associations opts \<and> p \<le> so_max_pages opts \<and> c' \<le> so_max_cis opts + 1"
proof (cases "services = []")
  case True
  then show ?thesis using found start by (auto simp: service_membership_servers_def counts_def on_summary_def)
next
  case False
  then obtain r where read: "service_membership_read q opts services = Inr r"
    using found by (auto simp: service_membership_servers_def bind_ok_Inr)
  note fits = membership_read_fits [OF read, unfolded membership_fits_def]
  let ?ac0 = "on_summary (\<lambda>sm. sm\<lparr>sm_pages_examined := sm_pages_examined sm + mb_pages r\<rparr>) ac"
  have ac0: "counts ?ac0 = (e, 0, mb_pages r, c)" using start(1) by (simp add: counts_def on_summary_def)
  show ?thesis
  proof (cases "mb_acl r")
    case True
    then have "counts ac' = counts ?ac0"
      using found False by (auto simp: service_membership_servers_def read Let_def) (simp add: counts_def on_summary_def)
    then show ?thesis using ac0 fits start(2) by simp
  next
    case acl: False
    let ?me = "\<lparr>me_account = account_members r ?ac0, me_examined = [], me_server_ids = [], me_paths = [], me_cache = cache\<rparr>"
    obtain c' where me: "counts (me_account (fold (process_member q opts sp) (mb_rows r) ?me)) = (e, length (mb_rows r), mb_pages r, c')"
      "c \<le> c'" "c' \<le> so_max_cis opts + 1"
      using process_members_counts [of ?me e "length (mb_rows r)" "mb_pages r" c opts q sp "mb_rows r"]
        members_start_counts [OF start(1)] start(2) by auto
    obtain servers ac1 where "hydrate_servers q 0 (me_server_ids (fold (process_member q opts sp) (mb_rows r) ?me))
        (me_account (fold (process_member q opts sp) (mb_rows r) ?me)) = Inr (servers, ac1)" "ac' = on_summary members_status ac1"
      using found False acl by (auto simp: service_membership_servers_def read Let_def bind_ok_Inr)
    then have "counts ac' = (e, length (mb_rows r), mb_pages r, c')" using counts_hydrate_servers me(1) by fastforce
    then show ?thesis using fits me(2,3) by simp
  qed
qed

end
