(* ===== verification/Cmdb_Servers.thy ===== *)
theory Cmdb_Servers
  imports Cmdb_Budget
begin

text \<open>
  How many servers an inventory takes in: those of the traversal are CIs it visited, and each association
  row adds one member server at most, the ones the budget of CIs misses included.
\<close>

subsection \<open>Servers that were asked for\<close>

text \<open>A query for servers by \<open>sys_id\<close> is answered with rows of these: its documented behaviour.\<close>

definition servers_as_asked :: "cmdb \<Rightarrow> bool" where
  "servers_as_asked q = (\<forall>level ids rows. cq_servers q level ids = Inr rows \<longrightarrow> rw_sys_id ` set rows \<subseteq> set ids)"

lemma hydrated_ids:
  assumes "hydrate_servers q level ids ac = Inr (servers, ac')" "servers_as_asked q"
  shows "sv_sys_id ` set servers \<subseteq> set ids"
proof (cases "dedup_str ids = []")
  case True
  then show ?thesis using assms(1) by (simp add: hydrate_servers_def)
next
  case False
  then obtain rows where rows: "cq_servers q level (dedup_str ids) = Inr rows \<and> servers = map server_from_row rows \<or> servers = []"
    using assms(1) by (auto simp: hydrate_servers_def Let_def split: sum.splits if_splits)
  have "set (foldl (\<lambda>seen x. if x \<in> set seen then seen else x # seen) acc ids) = set acc \<union> set ids" for acc :: "string list"
    by (induction ids arbitrary: acc) auto
  from this [of "[]"] have "set (dedup_str ids) = set ids" by (simp add: dedup_str_def)
  then show ?thesis using rows assms(2) unfolding servers_as_asked_def by (fastforce simp: server_from_row_def)
qed

subsection \<open>The traversal\<close>

definition servers_visited :: "traversal \<Rightarrow> bool" where
  "servers_visited tv = (sv_sys_id ` snd ` set (tv_servers tv) \<subseteq> set (tv_visited tv))"

lemma process_edge_servers [simp]: "tv_servers (process_edge opts allowed depth frontier e tv) = tv_servers tv"
proof -
  have "tv_servers (discover_service depth frontier e tv) = tv_servers tv" for tv
    by (simp add: discover_service_def skipped_cycle_def on_account_def split: option.split prod.split bool.split)
  moreover have "tv_servers (revisit opts depth e c a dir tv) = tv_servers tv" for c a dir tv
    by (simp add: revisit_def skipped_cycle_def on_account_def split: prod.split bool.split)
  moreover have "tv_servers (first_visit opts depth e c a dir tv) = tv_servers tv" for c a dir tv
    by (simp add: first_visit_def skipped_cycle_def on_account_def split: prod.split bool.split)
  ultimately show ?thesis
    by (simp add: process_edge_def follow_edge_def on_account_def note_classes_def split: option.split prod.split)
qed

lemma process_edge_visits: "set (tv_visited tv) \<subseteq> set (tv_visited (process_edge opts allowed depth frontier e tv))"
proof -
  have "tv_visited (discover_service depth frontier e tv) = tv_visited tv" for tv
    by (simp add: discover_service_def skipped_cycle_def on_account_def split: option.split prod.split bool.split)
  moreover have "tv_visited (revisit opts depth e c a dir tv) = tv_visited tv" for c a dir tv
    by (simp add: revisit_def skipped_cycle_def on_account_def split: prod.split bool.split)
  moreover have "set (tv_visited tv) \<subseteq> set (tv_visited (first_visit opts depth e c a dir tv))" for c a dir tv
    by (auto simp: first_visit_def skipped_cycle_def on_account_def split: prod.split bool.split)
  moreover have "tv_visited (note_classes e tv) = tv_visited tv" for tv by (simp add: note_classes_def)
  ultimately show ?thesis
    unfolding process_edge_def follow_edge_def on_account_def
    by (simp split: option.split prod.split) (metis (no_types, lifting))
qed

lemma process_edge_new:
  assumes "set (tv_new tv) \<subseteq> set (tv_visited tv)"
  shows "set (tv_new (process_edge opts allowed depth frontier e tv)) \<subseteq> set (tv_visited (process_edge opts allowed depth frontier e tv))"
proof -
  have "set (tv_new tv') \<subseteq> set (tv_visited tv') \<Longrightarrow> set (tv_new (first_visit opts depth e c a dir tv'))
      \<subseteq> set (tv_visited (first_visit opts depth e c a dir tv'))" for c a dir tv'
    by (auto simp: first_visit_def skipped_cycle_def on_account_def split: prod.split bool.split)
  moreover have "tv_new (revisit opts depth e c a dir tv') = tv_new tv'"
    "tv_visited (revisit opts depth e c a dir tv') = tv_visited tv'" for c a dir tv'
    by (simp_all add: revisit_def skipped_cycle_def on_account_def split: prod.split bool.split)
  moreover have "tv_new (discover_service depth frontier e (note_classes e tv)) = tv_new tv"
    "tv_visited (discover_service depth frontier e (note_classes e tv)) = tv_visited tv"
    by (simp_all add: discover_service_def note_classes_def skipped_cycle_def on_account_def
        split: option.split prod.split bool.split)
  ultimately show ?thesis
    using assms by (auto simp: process_edge_def follow_edge_def on_account_def split: option.split prod.split)
qed

lemma process_edges_taken:
  "servers_visited tv \<Longrightarrow> set (tv_new tv) \<subseteq> set (tv_visited tv) \<Longrightarrow>
     servers_visited (fold (process_edge opts allowed depth frontier) edges tv)
     \<and> set (tv_new (fold (process_edge opts allowed depth frontier) edges tv))
         \<subseteq> set (tv_visited (fold (process_edge opts allowed depth frontier) edges tv))"
proof (induction edges arbitrary: tv)
  case (Cons e edges)
  have "servers_visited (process_edge opts allowed depth frontier e tv)"
    using Cons.prems(1) process_edge_visits [of tv opts allowed depth frontier e] by (auto simp: servers_visited_def)
  then show ?case using Cons.IH process_edge_new [OF Cons.prems(2)] by simp
qed simp

lemma classify_servers:
  "classify q level ids tv = (s, f, tv') \<Longrightarrow> set s \<subseteq> set ids \<and> tv_servers tv' = tv_servers tv \<and> tv_visited tv' = tv_visited tv"
proof (induction q level ids tv arbitrary: s f tv' rule: classify.induct)
  case (2 q level i ids tv)
  show ?case
  proof (cases "bt_get (tv_classes tv) i")
    case None
    then show ?thesis using 2(1) 2(3) by force
  next
    case (Some cls)
    obtain b cache ac where cs: "class_is_server q level cls (tv_cache tv, tv_account tv) = (b, cache, ac)"
      by (metis prod_cases3)
    obtain s1 f1 tv1 where rec: "classify q level ids (tv\<lparr>tv_cache := cache, tv_account := ac\<rparr>) = (s1, f1, tv1)"
      by (metis prod_cases3)
    then show ?thesis
      using 2(2) [OF Some cs [symmetric] refl rec] 2(3) Some cs rec by (auto split: if_splits)
  qed
qed simp

lemma add_servers_taken:
  "servers_visited tv \<Longrightarrow> sv_sys_id ` set servers \<subseteq> set (tv_visited tv) \<Longrightarrow> servers_visited (fold (add_server opts) servers tv)"
proof (induction servers arbitrary: tv)
  case (Cons sv servers)
  have "tv_visited (add_server opts sv tv) = tv_visited tv" by (simp add: add_server_def Let_def)
  moreover have "servers_visited (add_server opts sv tv)"
    using Cons.prems set_bt_insert [of "sv_sys_id sv" sv "tv_servers tv"]
    by (auto simp: add_server_def Let_def servers_visited_def) (metis (no_types, lifting) image_eqI insertE snd_conv subset_iff)
  ultimately show ?case using Cons by simp
qed simp

lemma level_step_taken:
  assumes step: "level_step q opts allowed depth frontier tv = Inr (next_ids, tv')"
    and asked: "servers_as_asked q" and start: "servers_visited tv"
  shows "servers_visited tv'"
proof -
  obtain edges ac tv1 classes ac1 ids ids' tv2 servers ac2 where
    tv1: "tv1 = fold (process_edge opts allowed depth frontier) edges (tv\<lparr>tv_account := ac, tv_new := []\<rparr>)"
    and cl: "classify q depth (tv_new tv1) (tv1\<lparr>tv_classes := classes, tv_account := ac1\<rparr>) = (ids, ids', tv2)"
    and servers: "hydrate_servers q depth ids (tv_account tv2) = Inr (servers, ac2)"
    and last: "(next_ids, tv') = (if depth = so_max_depth opts \<and> ids' \<noteq> []
       then ([], on_account (depth_limit (length ids')) (fold (add_server opts) servers (tv2\<lparr>tv_account := ac2\<rparr>)))
       else (ids', fold (add_server opts) servers (tv2\<lparr>tv_account := ac2\<rparr>)))"
    by (rule level_step_parts [OF step])
  have taken1: "servers_visited tv1" "set (tv_new tv1) \<subseteq> set (tv_visited tv1)"
    unfolding tv1 using process_edges_taken [of "tv\<lparr>tv_account := ac, tv_new := []\<rparr>"] start by (simp_all add: servers_visited_def)
  note parts = classify_servers [OF cl]
  have "servers_visited (fold (add_server opts) servers (tv2\<lparr>tv_account := ac2\<rparr>))"
  proof (rule add_servers_taken)
    show "servers_visited (tv2\<lparr>tv_account := ac2\<rparr>)" using taken1(1) parts by (simp add: servers_visited_def)
    show "sv_sys_id ` set servers \<subseteq> set (tv_visited (tv2\<lparr>tv_account := ac2\<rparr>))"
      using order_trans [OF hydrated_ids [OF servers asked] order_trans [OF _ taken1(2)]] parts by simp
  qed
  then show ?thesis using last by (auto simp: on_account_def servers_visited_def split: if_splits)
qed

lemma levels_taken:
  "levels q opts allowed depths frontier tv = Inr tv' \<Longrightarrow> servers_as_asked q \<Longrightarrow> servers_visited tv \<Longrightarrow> servers_visited tv'"
proof (induction q opts allowed depths frontier tv arbitrary: tv' rule: levels.induct)
  case (2 q opts allowed depth depths frontier tv)
  show ?case
  proof (cases "frontier = [] \<or> sm_edge_limit (ac_summary (tv_account tv)) \<or> sm_ci_limit (ac_summary (tv_account tv))")
    case True
    then show ?thesis using 2(2,4) by simp
  next
    case False
    then obtain next_ids tv1 where step: "level_step q opts allowed depth frontier tv = Inr (next_ids, tv1)"
      and rec: "levels q opts allowed depths next_ids tv1 = Inr tv'"
      using 2(2) by (auto simp: bind_ok_Inr)
    show ?thesis by (rule 2(1) [OF False rec 2(3) level_step_taken [OF step 2(3,4)]])
  qed
qed simp

lemma traverse_taken: "traverse q opts d root = Inr tv \<Longrightarrow> servers_as_asked q \<Longrightarrow> servers_visited tv"
  unfolding traverse_def by (erule levels_taken) (simp_all add: servers_visited_def traversal_start_def)

subsection \<open>The members\<close>

lemma process_member_ids:
  "length (me_server_ids (process_member q opts sp row me)) \<le> Suc (length (me_server_ids me))"
proof -
  have "me_server_ids (snd (examine_member opts ci me)) = me_server_ids me" for ci
    by (simp add: examine_member_def me_note_def Let_def)
  moreover have "length (me_server_ids (add_member q sp s ci row me')) \<le> Suc (length (me_server_ids me'))" for s ci me'
    by (simp add: add_member_def me_note_def Let_def split: option.split prod.split)
  ultimately show ?thesis
    by (simp add: process_member_def me_note_def split: option.split prod.split bool.split) (metis le_SucI le_refl snd_conv)
qed

lemma process_members_ids:
  "length (me_server_ids (fold (process_member q opts sp) rows me)) \<le> length rows + length (me_server_ids me)"
proof (induction rows arbitrary: me)
  case (Cons row rows)
  show ?case
    using Cons.IH [of "process_member q opts sp row me"] process_member_ids [of q opts sp row me] by simp
qed simp

lemma with_paths_servers: "map fst (with_paths servers m) = servers"
  by (induction servers m rule: with_paths.induct) simp_all

lemma member_servers_taken:
  assumes found: "service_membership_servers q opts services sp (cache0, ac0) = Inr (found, cache, ac)"
    and start: "counts ac0 = (e, 0, 0, c)" "c \<le> so_max_cis opts + 1" and asked: "servers_as_asked q"
  shows "\<exists>ids. sv_sys_id ` fst ` set found \<subseteq> set ids \<and> length ids \<le> sm_associations_examined (ac_summary ac)"
proof (cases "services = []")
    case True
    then have "found = []" using found by (simp add: service_membership_servers_def)
    then show ?thesis by (intro exI [of _ "[]"]) simp
  next
    case False
    then obtain r where read: "service_membership_read q opts services = Inr r"
      using found by (auto simp: service_membership_servers_def bind_ok_Inr)
    let ?me = "fold (process_member q opts sp) (mb_rows r)
      \<lparr>me_account = account_members r (on_summary (\<lambda>sm. sm\<lparr>sm_pages_examined := sm_pages_examined sm + mb_pages r\<rparr>) ac0),
       me_examined = [], me_server_ids = [], me_paths = [], me_cache = cache0\<rparr>"
    have few: "length (me_server_ids ?me) \<le> length (mb_rows r)"
      by (rule order_trans [OF process_members_ids]) simp
    show ?thesis
    proof (cases "mb_acl r")
      case True
      then have "found = []" using found False by (simp add: service_membership_servers_def read Let_def)
      then show ?thesis by (intro exI [of _ "[]"]) simp
    next
      case acl: False
      then obtain servers ac1 where servers: "hydrate_servers q 0 (me_server_ids ?me) (me_account ?me) = Inr (servers, ac1)"
        "found = with_paths servers (me_paths ?me)" "ac = on_summary members_status ac1"
        using found False by (auto simp: service_membership_servers_def read Let_def bind_ok_Inr)
      obtain c' where "counts (me_account ?me) = (e, length (mb_rows r), mb_pages r, c')"
        using process_members_counts [of "\<lparr>me_account = account_members r (on_summary (\<lambda>sm. sm\<lparr>sm_pages_examined := sm_pages_examined sm + mb_pages r\<rparr>) ac0),
            me_examined = [], me_server_ids = [], me_paths = [], me_cache = cache0\<rparr>"] members_start_counts [OF start(1)] start(2) by fastforce
      then have "sm_associations_examined (ac_summary ac) = length (mb_rows r)"
        using counts_hydrate_servers [OF servers(1)] by (simp add: servers(3) counts_def on_summary_def members_status_def)
      moreover have "fst ` set found = set servers" unfolding servers(2) by (metis with_paths_servers list.set_map)
      ultimately show ?thesis using hydrated_ids [OF servers(1) asked] few by auto
    qed
qed

subsection \<open>The discoveries\<close>

definition keyed :: "(string, discovery) btree \<Rightarrow> bool" where
  "keyed m = (bt_wf m \<and> (\<forall>(i, d) \<in> set m. sv_sys_id (di_server d) = i))"

lemma keyed_get: "keyed m \<Longrightarrow> bt_get m i = Some d \<Longrightarrow> sv_sys_id (di_server d) = i"
  unfolding keyed_def bt_get_def by (auto dest: map_of_SomeD)

lemma keyed_distinct: "keyed m \<Longrightarrow> distinct (map fst m)"
  by (simp add: keyed_def bt_wf_def strict_sorted_iff)

lemma add_paths_server [simp]: "di_server (add_paths p paths d) = di_server d"
  by (cases p) (simp_all add: add_paths_def Let_def)

lemma keyed_merge: "keyed m \<Longrightarrow> keyed (merge_discovery sv p paths m)"
proof -
  assume m: "keyed m"
  let ?d = "case bt_get m (sv_sys_id sv) of Some d \<Rightarrow> add_paths p paths d | None \<Rightarrow> discovery_new sv p paths"
  have "sv_sys_id (di_server ?d) = sv_sys_id sv"
    using keyed_get [OF m] by (auto simp: discovery_new_def split: option.split)
  then show ?thesis
    using m set_bt_insert [of "sv_sys_id sv" ?d m] unfolding keyed_def merge_discovery_def by auto
qed

lemma keyed_fold: "(\<And>x m. keyed m \<Longrightarrow> keyed (f x m)) \<Longrightarrow> keyed m \<Longrightarrow> keyed (fold f xs m)"
  by (induction xs arbitrary: m) simp_all

lemma keyed_found: "keyed (member_discoveries found (relationship_discoveries tv))"
proof -
  have "keyed []" by (simp add: keyed_def)
  then show ?thesis
    unfolding member_discoveries_def relationship_discoveries_def
    by (auto intro!: keyed_fold keyed_merge split: prod.split)
qed

lemma merged_keys: "fst ` set (merge_discovery sv p paths m) = insert (sv_sys_id sv) (fst ` set m)"
  unfolding merge_discovery_def by (simp only: list.set_map [symmetric] set_keys_insert)

lemma found_keys:
  "fst ` set (member_discoveries found (relationship_discoveries tv)) = sv_sys_id ` fst ` set found \<union> sv_sys_id ` snd ` set (tv_servers tv)"
proof -
  have relations: "fst ` set (fold (\<lambda>(_, sv). merge_discovery sv ViaRelationship (chains_of (tv_paths tv) (sv_sys_id sv))) servers m)
      = sv_sys_id ` snd ` set servers \<union> fst ` set m" for servers m
    by (induction servers arbitrary: m) (simp_all add: merged_keys case_prod_beta)
  have "fst ` set (fold (\<lambda>(sv, paths). merge_discovery sv ViaServiceMembership paths) found m)
      = sv_sys_id ` fst ` set found \<union> fst ` set m" for m
    by (induction found arbitrary: m) (simp_all add: merged_keys case_prod_beta)
  then show ?thesis using relations [of "tv_servers tv" "[]"] unfolding member_discoveries_def relationship_discoveries_def by simp
qed

lemma servers_within:
  assumes "servers_visited tv" "sv_sys_id ` fst ` set found \<subseteq> set ids"
  shows "length (member_discoveries found (relationship_discoveries tv)) \<le> length (tv_visited tv) + length ids"
proof -
  let ?m = "member_discoveries found (relationship_discoveries tv)"
  have "length ?m = card (fst ` set ?m)"
    using distinct_card [OF keyed_distinct [OF keyed_found [of found tv]]] by simp
  also have "\<dots> \<le> card (set (tv_visited tv) \<union> set ids)"
    using assms by (intro card_mono) (simp_all add: found_keys servers_visited_def le_supI1 le_supI2)
  also have "\<dots> \<le> length (tv_visited tv) + length ids"
    by (meson add_mono card_Un_le card_length order_trans)
  finally show ?thesis .
qed

end
