(* ===== verification/Cmdb_Inventory.thy ===== *)
theory Cmdb_Inventory
  imports Cmdb_Servers
begin

text \<open>
  What the server inventory of a Business Application promises: its routes, its budgets, the completeness
  of a level nothing was cut from, and the validation of its options.
\<close>

subsection \<open>Routes\<close>

text \<open>A relationship ServiceNow returned, of one of the allowed types.\<close>

definition followed :: "cmdb \<Rightarrow> string list \<Rightarrow> path_edge \<Rightarrow> bool" where
  "followed q allowed pe = (\<exists>e depth dir. answered q e \<and> matches_any allowed (re_type e) \<and> pe = path_edge_of depth dir e)"

lemma followed_edge_ok: "answered q e \<Longrightarrow> edge_ok (followed q allowed) allowed depth e"
  unfolding edge_ok_def followed_def by blast

lemma start_routes_ok:
  "level_ok P root opts [root] (traversal_start opts root)" "services_ok P root (traversal_start opts root)"
  by (auto simp: level_ok_def routes_ok_def services_ok_def traversal_start_def chains_of_def bt_get_Cons split: if_splits option.splits)

lemma traverse_ok:
  assumes "traverse q opts d root = Inr tv"
  shows "routes_ok (followed q (resolve_relationship_type_allowlist q opts d)) root tv"
    "length (tv_visited tv) \<le> so_max_cis opts + 1" "services_ok (followed q service_discovery_types) root tv"
proof -
  let ?allowed = "resolve_relationship_type_allowlist q opts d"
  note levels = assms [unfolded traverse_def]
  show "routes_ok (followed q ?allowed) root tv" "length (tv_visited tv) \<le> so_max_cis opts + 1"
    using levels_ok [OF levels start_routes_ok(1) followed_edge_ok] by blast+
  show "services_ok (followed q service_discovery_types) root tv"
    by (rule levels_services [OF levels start_routes_ok(2)]) (auto intro: followed_edge_ok simp: list_all_iff simp del: upt_Suc)
qed

lemma discover_servers_parts:
  assumes "discover_servers q opts d root = Inr iv"
  obtains tv found cache ac where "traverse q opts d root = Inr tv"
    "service_membership_servers q opts (tv_seeds tv) (tv_service_paths tv)
       (tv_cache tv, on_summary (\<lambda>sm. sm\<lparr>sm_cis_examined := length (tv_visited tv)\<rparr>) (tv_account tv)) = Inr (found, cache, ac)"
    "iv_discoveries iv = member_discoveries found (relationship_discoveries tv)"
    "iv_account iv = on_summary (\<lambda>sm. sm\<lparr>sm_servers_found := length (iv_discoveries iv)\<rparr>) ac"
  using assms by (auto simp: discover_servers_def bind_ok_Inr Let_def)

text \<open>C17: a route the inventory reports to a server is one: a relationship route is a walk from the Business
  Application to the server along relationships of the allowed types that ServiceNow returned, in one
  direction, through no CI twice, of at most max_cis steps; a membership route is a walk to a service and the
  membership, when ServiceNow answers a query for the members of some services with members of these.\<close>

theorem server_routes:
  assumes "discover_servers q opts d root = Inr iv" "members_by_service q" "bt_get (iv_discoveries iv) i = Some disc"
  shows "(\<forall>c \<in> set (di_relationship_paths disc).
      simple_route (followed q (resolve_relationship_type_allowlist q opts d)) root c i \<and> length c \<le> so_max_cis opts)
    \<and> (\<forall>c \<in> set (di_membership_paths disc). member_route (followed q service_discovery_types) root c i)"
proof -
  let ?R = "\<lambda>i c. simple_route (followed q (resolve_relationship_type_allowlist q opts d)) root c i \<and> length c \<le> so_max_cis opts"
  let ?M = "\<lambda>i c. member_route (followed q service_discovery_types) root c i"
  obtain tv found cache ac where tv: "traverse q opts d root = Inr tv"
    and members: "service_membership_servers q opts (tv_seeds tv) (tv_service_paths tv)
       (tv_cache tv, on_summary (\<lambda>sm. sm\<lparr>sm_cis_examined := length (tv_visited tv)\<rparr>) (tv_account tv)) = Inr (found, cache, ac)"
    and disc: "iv_discoveries iv = member_discoveries found (relationship_discoveries tv)"
    by (rule discover_servers_parts [OF assms(1)])
  note ok = traverse_ok [OF tv]
  have "?R i c" if c: "c \<in> set (chains_of (tv_paths tv) i)" for i c
  proof -
    have route: "simple_route (followed q (resolve_relationship_type_allowlist q opts d)) root c i"
      and nodes: "edge_to ` set c \<subseteq> set (tv_visited tv)" "root \<in> set (tv_visited tv)"
      using ok(1) c by (simp_all add: routes_ok_def)
    have "length c < length (tv_visited tv)" by (rule simple_route_length [OF route]) (use nodes in auto)
    then show ?thesis using route ok(2) by simp
  qed
  then have "discoveries_ok ?R ?M (relationship_discoveries tv)" by (rule relationship_discoveries_ok)
  then have "discoveries_ok ?R ?M (iv_discoveries iv)"
    unfolding disc by (rule member_discoveries_ok) (rule member_servers_ok [OF members ok(3) assms(2)])
  from discoveries_okD [OF this assms(3)] show ?thesis by blast
qed

lemma demo_members_by_service: "members_by_service demo_cmdb"
  by (auto simp: members_by_service_def demo_cmdb_def demo_pages_def demo_member_parts split: if_splits)

theorem server_routes_witness:
  "\<exists>iv disc. discover_servers demo_cmdb (demo_options 5) True (demo_id CHR ''a'') = Inr iv
     \<and> bt_get (iv_discoveries iv) (demo_id CHR ''c'') = Some disc
     \<and> di_relationship_paths disc = [demo_chain demo_host]
     \<and> length (demo_chain demo_host) \<le> 5
     \<and> member_route (followed demo_cmdb service_discovery_types) (demo_id CHR ''a'') (demo_member_chain CHR ''c'') (demo_id CHR ''c'')"
proof -
  obtain iv where iv: "discover_servers demo_cmdb (demo_options 5) True (demo_id CHR ''a'') = Inr iv"
    and disc: "bt_get (iv_discoveries iv) (demo_id CHR ''c'') = Some \<lparr>di_server = demo_sv CHR ''c'', di_provenance = ViaBoth,
         di_relationship_paths = [demo_chain demo_host], di_membership_paths = [demo_member_chain CHR ''c'']\<rparr>"
    using demo_discoveries by (auto simp: bt_get_Cons)
  show ?thesis
    using server_routes [OF iv demo_members_by_service disc] iv disc by (simp add: demo_options_def)
qed


subsection \<open>Budgets\<close>

text \<open>C37: the traversal of an inventory visits at most max_cis CIs beside the Business Application, none twice; the
  summary counts at most max_edges relationships, the maxima of association rows and pages, and max_cis + 1 CIs,
  the visited ones among them. The counter of CIs is no bound on the member servers (member_budget_bypassed: a
  CI can be taken in uncounted), but with the association rows it is: when ServiceNow answers a query for servers
  with servers of it, the inventory reports at most as many servers as there were CIs visited and association
  rows read.\<close>

theorem inventory_budgets:
  assumes "discover_servers q opts d root = Inr iv" "servers_as_asked q"
  shows "(\<exists>tv. traverse q opts d root = Inr tv \<and> distinct (tv_visited tv) \<and> length (tv_visited tv) \<le> so_max_cis opts + 1
      \<and> length (tv_visited tv) \<le> sm_cis_examined (ac_summary (iv_account iv))
      \<and> length (iv_discoveries iv) \<le> length (tv_visited tv) + sm_associations_examined (ac_summary (iv_account iv)))
    \<and> sm_relationships_examined (ac_summary (iv_account iv)) \<le> so_max_edges opts
    \<and> sm_associations_examined (ac_summary (iv_account iv)) \<le> so_max_associations opts
    \<and> sm_pages_examined (ac_summary (iv_account iv)) \<le> so_max_pages opts
    \<and> sm_cis_examined (ac_summary (iv_account iv)) \<le> so_max_cis opts + 1"
proof -
  obtain tv found cache ac where tv: "traverse q opts d root = Inr tv"
    and members: "service_membership_servers q opts (tv_seeds tv) (tv_service_paths tv)
       (tv_cache tv, on_summary (\<lambda>sm. sm\<lparr>sm_cis_examined := length (tv_visited tv)\<rparr>) (tv_account tv)) = Inr (found, cache, ac)"
    and acc: "iv_account iv = on_summary (\<lambda>sm. sm\<lparr>sm_servers_found := length (iv_discoveries iv)\<rparr>) ac"
    and disc: "iv_discoveries iv = member_discoveries found (relationship_discoveries tv)"
    by (rule discover_servers_parts [OF assms(1)])
  have "tv_counts (traversal_start opts root) = (0, 0, 0, 0)"
    by (simp add: tv_counts_def traversal_start_def counts_def summary_new_def)
  then obtain e where e: "tv_counts tv = (e, 0, 0, 0)" "e \<le> so_max_edges opts"
    using levels_counts [OF tv [unfolded traverse_def]] by blast
  then have start: "counts (on_summary (\<lambda>sm. sm\<lparr>sm_cis_examined := length (tv_visited tv)\<rparr>) (tv_account tv)) = (e, 0, 0, length (tv_visited tv))"
    by (simp add: tv_counts_def counts_def on_summary_def)
  note ok = traverse_ok [OF tv]
  obtain ids where ids: "sv_sys_id ` fst ` set found \<subseteq> set ids" "length ids \<le> sm_associations_examined (ac_summary ac)"
    using member_servers_taken [OF members start ok(2) assms(2)] by blast
  have "length (iv_discoveries iv) \<le> length (tv_visited tv) + length ids"
    unfolding disc by (rule servers_within [OF traverse_taken [OF tv assms(2)] ids(1)])
  moreover have "distinct (tv_visited tv)" using ok(1) by (simp add: routes_ok_def)
  moreover note member_servers_counts [OF members start ok(2)]
  ultimately show ?thesis
    using e(2) tv ids(2) ok(2) by (auto simp: acc counts_def on_summary_def intro!: exI [of _ tv])
qed

theorem inventory_budgets_witness:
  "\<exists>iv. discover_servers demo_cmdb (demo_options 5) True (demo_id CHR ''a'') = Inr iv
     \<and> length (iv_discoveries iv) = 2 \<and> sm_cis_examined (ac_summary (iv_account iv)) \<le> 6"
proof -
  obtain iv where iv: "discover_servers demo_cmdb (demo_options 5) True (demo_id CHR ''a'') = Inr iv" "length (iv_discoveries iv) = 2"
    using demo_discoveries by auto
  have "servers_as_asked demo_cmdb"
    by (auto simp: servers_as_asked_def demo_cmdb_def demo_row_def)
  then show ?thesis using inventory_budgets [OF iv(1)] iv by (auto simp: demo_options_def)
qed


subsection \<open>Complete levels\<close>

definition cuts :: "account \<Rightarrow> bool \<times> nat" where
  "cuts ac = (sm_edge_limit (ac_summary ac), sm_relationship_acl (ac_summary ac))"

lemma cuts_push [simp]: "cuts (push_diagnostic field table i reason message ac) = cuts ac"
  by (simp add: cuts_def push_diagnostic_def record_degraded_reason_def)

lemma cuts_mark_edge_limit [simp]: "cuts (mark_edge_limit ac) = (True, snd (cuts ac))"
  by (simp add: mark_edge_limit_def) (simp add: cuts_def on_summary_def mark_truncated_def)

lemma cuts_edges_of_rows: "cuts (snd (edges_of_rows rows seen ac)) = cuts ac"
  by (induction rows seen ac rule: edges_of_rows.induct)
    (auto split: option.split prod.split simp: case_prod_beta unreadable_edge_def)

lemma merge_direction_read_cuts:
  assumes "merge_direction_read r (budget, ac, rows) = (budget', ac', rows')"
  shows "cuts ac' = (fst (cuts ac) \<or> budget < length (dr_rows r) \<or> dr_edge_limit r, snd (cuts ac) + (if dr_acl r then 1 else 0))"
proof -
  let ?n = "length (take budget (dr_rows r))"
  define ac1 where "ac1 = (if dr_acl r
            then push_diagnostic (dr_field r) ''cmdb_rel_ci'' [] ReferenceAclRestricted
                   ''ACL restricted cmdb_rel_ci traversal''
                   (on_summary (\<lambda>sm. sm\<lparr>sm_acl_restricted := sm_acl_restricted sm + 1,
                       sm_relationship_acl := sm_relationship_acl sm + 1\<rparr>) ac)
            else ac)"
  define ac2 where "ac2 = (if budget < length (dr_rows r) \<or> dr_edge_limit r then mark_edge_limit ac1 else ac1)"
  have "(budget', ac', rows') = (budget - ?n,
      on_summary (\<lambda>sm. sm\<lparr>sm_relationships_examined := sm_relationships_examined sm + ?n\<rparr>) ac2, rows @ take budget (dr_rows r))"
    using assms unfolding merge_direction_read_def prod.case Let_def ac1_def [symmetric] ac2_def [symmetric] by (rule sym)
  then have "cuts ac' = cuts ac2" by (simp add: cuts_def on_summary_def)
  moreover have "cuts ac1 = (fst (cuts ac), snd (cuts ac) + (if dr_acl r then 1 else 0))"
    by (simp add: ac1_def) (simp add: cuts_def on_summary_def)
  ultimately show ?thesis by (simp add: ac2_def)
qed

lemma read_relations_complete:
  "read_relations remaining done_after n replies r = Inr r' \<Longrightarrow> \<not> dr_edge_limit r' \<Longrightarrow> \<not> dr_acl r' \<Longrightarrow>
     (\<And>k. done_after k \<Longrightarrow> n + length replies \<le> k) \<Longrightarrow>
     answered_rows replies \<union> set (dr_rows r) \<subseteq> set (dr_rows r')"
proof (induction remaining done_after n replies r arbitrary: r' rule: read_relations.induct)
  case (1 remaining done_after n replies r)
  note eq = 1(2) [unfolded read_relations.simps [of remaining done_after n replies r]]
  show ?case
  proof (cases "remaining \<le> length (dr_rows r)")
    case True
    have "done_after n"
    proof (rule ccontr)
      assume "\<not> done_after n"
      then have "r' = r\<lparr>dr_edge_limit := True\<rparr>" using eq True by simp
      then show False using 1(3) by simp
    qed
    then have "replies = []" "r' = r" using 1(5) [of n] eq True by auto
    then show ?thesis by (simp add: answered_rows_def)
  next
    case room: False
    show ?thesis
    proof (cases replies)
      case Nil
      then show ?thesis using eq room by (simp add: answered_rows_def)
    next
      case replies: (Cons reply later)
      show ?thesis
      proof (cases reply)
        case (Inl e)
        then have "r' = r\<lparr>dr_acl := True\<rparr>" using eq room replies by (simp split: if_split_asm)
        then show ?thesis using 1(4) by simp
      next
        case (Inr rows)
        have fits: "\<not> remaining - length (dr_rows r) < length rows"
        proof
          assume "remaining - length (dr_rows r) < length rows"
          then have "dr_edge_limit r'" using eq room replies Inr by (auto simp: Let_def)
          then show False using 1(3) by simp
        qed
        then have rec: "read_relations remaining done_after (n + 1) later (r\<lparr>dr_rows := dr_rows r @ rows\<rparr>) = Inr r'"
          using eq room replies Inr by (simp add: Let_def)
        have "answered_rows later \<union> set (dr_rows (r\<lparr>dr_rows := dr_rows r @ rows\<rparr>)) \<subseteq> set (dr_rows r')"
          by (rule 1(1) [OF room replies Inr refl fits rec 1(3,4)]) (use 1(5) replies in force)
        then show ?thesis by (auto simp: replies Inr)
      qed
    qed
  qed
qed

lemma edges_of_rows_complete:
  "edges_of_rows rows seen ac = (es, ac') \<Longrightarrow> row \<in> set rows \<Longrightarrow> edge_of_row row = Some e \<Longrightarrow>
     edge_key e \<in> set seen \<union> edge_key ` set es"
proof (induction rows seen ac arbitrary: es ac' rule: edges_of_rows.induct)
  case (2 first rows seen ac)
  show ?case
  proof (cases "edge_of_row first")
    case None
    then show ?thesis using 2(1) 2(4,5,6) by auto
  next
    case (Some x)
    show ?thesis
    proof (cases "edge_key x \<in> set seen")
      case True
      then show ?thesis using 2(2) [OF Some True] 2(4,5,6) Some by auto
    next
      case False
      obtain es1 ac1 where rec: "edges_of_rows rows (edge_key x # seen) ac = (es1, ac1)" by (metis surj_pair)
      then show ?thesis using 2(3) [OF Some False rec] 2(4,5,6) Some False by auto
    qed
  qed
qed simp

text \<open>\<open>is_done\<close> tells the truth: it holds only once every page was read.\<close>

definition pages_honest :: "cmdb \<Rightarrow> bool" where
  "pages_honest q = (\<forall>level field ids size p k. cq_relations q level field ids size = Inr p \<and> pg_done p k \<longrightarrow> length (pg_replies p) \<le> k)"

lemma direction_complete:
  assumes "relationship_direction_read q level field frontier remaining = Inr r" "\<not> dr_edge_limit r" "\<not> dr_acl r"
    and "frontier \<noteq> []" "remaining \<noteq> 0" "pages_honest q"
    and "cq_relations q level field frontier (min relationship_page_size (max remaining 1)) = Inr p" "Inr rows \<in> set (pg_replies p)"
  shows "set rows \<subseteq> set (dr_rows r)"
proof -
  have read: "read_relations remaining (pg_done p) 0 (pg_replies p) (direction_read_new field) = Inr r"
    using assms(1,4,5,7) by (simp add: relationship_direction_read_def)
  have "0 + length (pg_replies p) \<le> k" if "pg_done p k" for k
    using assms(6,7) that unfolding pages_honest_def by fastforce
  from read_relations_complete [OF read assms(2,3) this] show ?thesis
    using assms(8) by (auto simp: answered_rows_def)
qed

text \<open>a level the summary flags no cut for is complete: when neither the edge limit is marked nor an ACL
  restriction of the relationships is counted, every relationship of every page ServiceNow returned for the
  frontier, in either direction, is among the edges of the level, provided is_done holds only at the end.\<close>

theorem level_complete_unless_flagged:
  assumes level: "relationship_level q opts level frontier ac = Inr (edges, ac')"
    and flags: "\<not> sm_edge_limit (ac_summary ac')" "sm_relationship_acl (ac_summary ac') = sm_relationship_acl (ac_summary ac)"
    and honest: "pages_honest q" and frontier: "frontier \<noteq> []" and field: "field \<in> {''parent'', ''child''}"
    and pages: "cq_relations q level field frontier (min relationship_page_size
      (max (so_max_edges opts - sm_relationships_examined (ac_summary ac)) 1)) = Inr p"
    and row: "Inr rows \<in> set (pg_replies p)" "row \<in> set rows" "edge_of_row row = Some e"
  shows "\<exists>e' \<in> set edges. edge_key e' = edge_key e"
proof -
  let ?budget = "so_max_edges opts - sm_relationships_examined (ac_summary ac)"
  have go: "\<not> sm_edge_limit (ac_summary ac)" "?budget \<noteq> 0"
    using level frontier flags(1) by (auto simp: relationship_level_def Let_def mark_edge_limit_def push_diagnostic_def
        record_degraded_reason_def on_summary_def mark_truncated_def split: if_splits)
  obtain parents children where reads: "relationship_direction_read q level ''parent'' frontier ?budget = Inr parents"
      "relationship_direction_read q level ''child'' frontier ?budget = Inr children"
    and merged: "(case merge_direction_read children (merge_direction_read parents (?budget, ac, [])) of
      (budget, ac1, rows) \<Rightarrow> Inr (edges_of_rows rows [] ac1)) = (Inr (edges, ac') :: (api_error, relationship_edge list \<times> account) result)"
    using level frontier go by (auto simp: relationship_level_def Let_def bind_ok_Inr)
  obtain b1 ac1 rows1 where m1: "merge_direction_read parents (?budget, ac, []) = (b1, ac1, rows1)" by (metis prod_cases3)
  obtain b2 ac2 rows2 where m2: "merge_direction_read children (b1, ac1, rows1) = (b2, ac2, rows2)" by (metis prod_cases3)
  have edges: "edges_of_rows rows2 [] ac2 = (edges, ac')" using merged m1 m2 by simp
  have "cuts ac' = cuts ac2" using cuts_edges_of_rows [of rows2 "[]" ac2] edges by simp
  then have "cuts ac2 = (False, snd (cuts ac))" using flags by (simp add: cuts_def)
  then have full: "\<not> dr_edge_limit parents" "\<not> dr_acl parents" "\<not> dr_edge_limit children" "\<not> dr_acl children"
    "length (dr_rows parents) \<le> ?budget" "length (dr_rows children) \<le> b1"
    using merge_direction_read_cuts [OF m1] merge_direction_read_cuts [OF m2] by (auto split: if_splits)
  have rows2: "rows2 = dr_rows parents @ dr_rows children"
    using merge_direction_read_rows [OF m1] merge_direction_read_rows [OF m2] full(5,6) by simp
  have "row \<in> set rows2"
  proof (cases "field = ''parent''")
    case True
    show ?thesis
      using direction_complete [OF reads(1) full(1,2) frontier go(2) honest pages [unfolded True] row(1)] row(2) by (auto simp: rows2)
  next
    case False
    then have field: "field = ''child''" using field by simp
    show ?thesis
      using direction_complete [OF reads(2) full(3,4) frontier go(2) honest pages [unfolded field] row(1)] row(2) by (auto simp: rows2)
  qed
  from edges_of_rows_complete [OF edges this row(3)] show ?thesis by auto
qed

theorem level_complete_unless_flagged_witness:
  "\<exists>edges ac'. relationship_level demo_cmdb (demo_options 5) 1 [demo_id CHR ''a'']
       \<lparr>ac_summary = summary_new (demo_options 5), ac_diagnostics = []\<rparr> = Inr (edges, ac')
     \<and> (\<exists>e' \<in> set edges. edge_key e' = edge_key demo_service)"
proof -
  have honest: "pages_honest demo_cmdb" by (auto simp: pages_honest_def demo_cmdb_def demo_pages_def)
  have p: "cq_relations demo_cmdb 1 ''parent'' [demo_id CHR ''a''] (min relationship_page_size
      (max (so_max_edges (demo_options 5) - sm_relationships_examined (ac_summary \<lparr>ac_summary = summary_new (demo_options 5), ac_diagnostics = []\<rparr>)) 1))
      = Inr \<lparr>pg_replies = [Inr [demo_edge CHR ''a'' CHR ''b'' ''Uses::Used by'' ''cmdb_ci_service_auto'',
             demo_edge CHR ''a'' CHR ''c'' ''Runs on::Runs'' ''cmdb_ci_linux_server'']], pg_done = (\<lambda>n. 1 \<le> n)\<rparr>"
    by (simp add: demo_cmdb_def demo_pages_def)
  have "\<exists>e' \<in> set [demo_service, demo_host]. edge_key e' = edge_key demo_service"
    by (rule level_complete_unless_flagged [OF demo_level1 _ _ honest _ _ p,
        where row = "demo_edge CHR ''a'' CHR ''b'' ''Uses::Used by'' ''cmdb_ci_service_auto''"],
        simp_all add: summary_new_def) simp
  then show ?thesis using demo_level1 by blast
qed


subsection \<open>The budget of member CIs\<close>

text \<open>the budget of CIs does not hold for a member CI with two association rows: refused with the budget exhausted
  on its first row, the CI is marked as examined, so its second row adds it to the servers without any charge.\<close>

theorem member_budget_bypassed:
  assumes refs: "servicenow_reference_sys_id row ''service_id'' = Some s" "servicenow_reference_sys_id row ''ci_id'' = Some ci"
    and cls: "servicenow_record_text row ''ci_id.sys_class_name'' = Some cls" "is_server_class cls"
    and fresh: "ci \<notin> set (me_examined me)" "ci \<notin> set (me_server_ids me)"
    and full: "so_max_cis opts \<le> sm_cis_examined (ac_summary (me_account me)) - 1"
  shows "let first = process_member q opts sp row me in ci \<notin> set (me_server_ids first) \<and> sm_ci_limit (ac_summary (me_account first))
    \<and> ci \<in> set (me_server_ids (process_member q opts sp row first))
    \<and> sm_cis_examined (ac_summary (me_account (process_member q opts sp row first))) = sm_cis_examined (ac_summary (me_account me))"
proof -
  define first where "first = process_member q opts sp row me"
  have first: "first = me_note (member_ci_limit ci) (me\<lparr>me_examined := ci # me_examined me\<rparr>)"
    using fresh(1) full by (simp add: first_def process_member_def refs examine_member_def)
  have parts: "me_server_ids first = me_server_ids me" "ci \<in> set (me_examined first)"
    "sm_ci_limit (ac_summary (me_account first))"
    "sm_cis_examined (ac_summary (me_account first)) = sm_cis_examined (ac_summary (me_account me))"
    by (simp_all add: first me_note_def member_ci_limit_def push_diagnostic_def record_degraded_reason_def on_summary_def mark_truncated_def)
  have second: "process_member q opts sp row first = add_member q sp s ci row first"
    using parts(2) by (simp add: process_member_def refs examine_member_def)
  have "ci \<in> set (me_server_ids (add_member q sp s ci row first))" "me_account (add_member q sp s ci row first) = me_account first"
    by (simp_all add: add_member_def cls class_is_server_def Let_def)
  then show ?thesis unfolding first_def [symmetric] Let_def using parts(1,3,4) fresh(2) second by simp
qed

theorem member_budget_bypassed_witness:
  "let me = \<lparr>me_account = \<lparr>ac_summary = (summary_new (demo_options 1))\<lparr>sm_cis_examined := 2\<rparr>, ac_diagnostics = []\<rparr>,
       me_examined = [], me_server_ids = [], me_paths = [], me_cache = []\<rparr>;
     first = process_member demo_cmdb (demo_options 1) [] (demo_member CHR ''d'') me
   in demo_id CHR ''d'' \<notin> set (me_server_ids first)
     \<and> demo_id CHR ''d'' \<in> set (me_server_ids (process_member demo_cmdb (demo_options 1) [] (demo_member CHR ''d'') first))"
  using member_budget_bypassed [of "demo_member CHR ''d''" "demo_id CHR ''b''" "demo_id CHR ''d''" "''cmdb_ci_linux_server''"
      "\<lparr>me_account = \<lparr>ac_summary = (summary_new (demo_options 1))\<lparr>sm_cis_examined := 2\<rparr>, ac_diagnostics = []\<rparr>,
       me_examined = [], me_server_ids = [], me_paths = [], me_cache = []\<rparr>" "demo_options 1" demo_cmdb "[]"]
  by (simp add: demo_member_parts demo_classes demo_options_def Let_def)

subsection \<open>Options\<close>

lemma validate_bound_Inr: "validate_bound name v dflt most = Inr n \<Longrightarrow> 1 \<le> n \<and> n \<le> most"
  by (auto simp: validate_bound_def Let_def split: if_splits option.splits)

lemma bounded_options_Inr:
  assumes "bounded_options p selector = Inr opts"
  shows "so_selector opts = selector \<and> 1 \<le> so_max_depth opts \<and> so_max_depth opts \<le> 4
    \<and> 1 \<le> so_max_cis opts \<and> so_max_cis opts \<le> 5000 \<and> 1 \<le> so_max_edges opts \<and> so_max_edges opts \<le> 20000
    \<and> 1 \<le> so_max_associations opts \<and> so_max_associations opts \<le> 20000 \<and> 1 \<le> so_max_pages opts \<and> so_max_pages opts \<le> 200
    \<and> so_persist opts = (sp_persist p = Some True) \<and> so_prune_stale opts = sp_prune_stale p"
  using assms by (auto simp: bounded_options_def bind_ok_Inr dest!: validate_bound_Inr)

text \<open>options that pass the validation are in the documented ranges, pruning comes with persisting, and the
  selector is a normalised sys_id or an APM number.\<close>

theorem options_validated:
  assumes "validate_servers_params p = Inr opts"
  shows "so_max_depth opts \<in> {1..4} \<and> so_max_cis opts \<in> {1..5000} \<and> so_max_edges opts \<in> {1..20000}
    \<and> so_max_associations opts \<in> {1..20000} \<and> so_max_pages opts \<in> {1..200}
    \<and> (\<not> so_prune_stale opts \<or> so_persist opts)
    \<and> (case so_selector opts of BySysId i \<Rightarrow> length i = 32 \<and> list_all is_hexdigit i | ByNumber n \<Rightarrow> starts_with ''APM'' n)"
proof -
  have flag: "\<not> sp_prune_stale p \<or> sp_persist p = Some True"
    using assms by (auto simp: validate_servers_params_def split: if_splits)
  obtain selector where bounded: "bounded_options p selector = Inr opts"
    and selector: "case selector of BySysId i \<Rightarrow> length i = 32 \<and> list_all is_hexdigit i | ByNumber n \<Rightarrow> starts_with ''APM'' n"
  proof (cases "non_empty_owned (sp_number p)")
    case None
    then obtain sys_id i where "normalize_record_lookup_sys_id sys_id = Inr i" "bounded_options p (BySysId i) = Inr opts"
      using assms by (auto simp: validate_servers_params_def bind_ok_Inr split: if_splits option.splits)
    then show ?thesis
      using that [of "BySysId i"] by (auto simp: normalize_record_lookup_sys_id_def Let_def split: if_splits)
  next
    case (Some number)
    then obtain n where "normalize_business_application_number number = Inr n" "bounded_options p (ByNumber n) = Inr opts"
      using assms by (auto simp: validate_servers_params_def bind_ok_Inr split: if_splits option.splits)
    then show ?thesis
      using that [of "ByNumber n"]
      by (auto simp: normalize_business_application_number_def Let_def strip_prefix_def starts_with_def split: if_splits option.splits)
  qed
  show ?thesis using bounded_options_Inr [OF bounded] selector flag by auto
qed

theorem options_validated_witness:
  "\<exists>opts. validate_servers_params \<lparr>sp_number = None, sp_sys_id = Some (demo_id CHR ''a''), sp_max_depth = None, sp_max_cis = Some 7,
      sp_max_edges = None, sp_max_associations = None, sp_max_pages = None, sp_relationship_type = [], sp_include_paths = False,
      sp_fallback = NoFallback, sp_persist = None, sp_prune_stale = False\<rparr> = Inr opts
    \<and> so_max_depth opts = 2 \<and> so_max_cis opts \<in> {1..5000} \<and> so_selector opts = BySysId (demo_id CHR ''a'')"
  (is "\<exists>opts. validate_servers_params ?p = Inr opts \<and> _")
proof -
  have same: "non_empty_owned (Some (demo_id CHR ''a'')) = Some (demo_id CHR ''a'')" by code_simp
  obtain opts where opts: "validate_servers_params ?p = Inr opts" "so_max_depth opts = 2" "so_selector opts = BySysId (demo_id CHR ''a'')"
    by (simp add: validate_servers_params_def same) (simp add: non_empty_owned_def bounded_options_def validate_bound_def)
  then show ?thesis using options_validated [OF opts(1)] by blast
qed

end
