(* ===== verification/Cmdb_Store.thy ===== *)
theory Cmdb_Store
  imports Cmdb_Traversal
begin

text \<open>
  The stored relationships of Business Applications and servers: the membership table and the health row
  (\<open>snow_core/src/cache/store/business_applications.rs\<close>, the constraints of \<open>schema.rs\<close>), what a persisting
  run writes to them (\<open>service/business_application/persistence.rs\<close>), the fallback
  (\<open>fallback.rs\<close>), the end of \<open>business_application_servers_with_options\<close>, and how the cache answers
  (\<open>query/mod.rs\<close>).

  An instant is a number of nanoseconds, and the store keeps whole seconds. A table is the list of its rows;
  a statement that breaks a constraint changes nothing. The tables \<open>records\<close> counts only with its keys,
  which the foreign keys of the two tables ask for.
\<close>

subsection \<open>The membership table\<close>

datatype store_error = ForeignKey | UniqueIndex | CheckFailed | DuplicateLive | StoreIo string

record membership =
  ms_ba :: string
  ms_server :: string
  ms_table :: string
  ms_provenance :: string
  ms_min_depth :: nat
  ms_paths :: string
  ms_discovered :: int
  ms_last_seen :: int
  ms_tombstoned :: "int option"

definition to_ts :: "int \<Rightarrow> int" where
  "to_ts t = t div 1000000000"

definition same_pair :: "string \<Rightarrow> string \<Rightarrow> membership \<Rightarrow> bool" where
  "same_pair ba server r = (ms_ba r = ba \<and> ms_server r = server)"

definition live_row :: "membership \<Rightarrow> bool" where
  "live_row r = (ms_tombstoned r = None)"

text \<open>The row the statement inserts, with the columns in seconds.\<close>

definition stored_row :: "membership \<Rightarrow> membership" where
  "stored_row m = m\<lparr>ms_discovered := to_ts (ms_discovered m), ms_last_seen := to_ts (ms_last_seen m),
     ms_tombstoned := map_option to_ts (ms_tombstoned m)\<rparr>"

text \<open>The first statement: other live rows of the pair are tombstoned.\<close>

definition superseded :: "membership \<Rightarrow> membership \<Rightarrow> membership" where
  "superseded m r =
     (if same_pair (ms_ba m) (ms_server m) r \<and> ms_provenance r \<noteq> ms_provenance m \<and> live_row r
      then r\<lparr>ms_tombstoned := Some (to_ts (ms_last_seen m))\<rparr> else r)"

definition supersede :: "membership \<Rightarrow> membership list \<Rightarrow> membership list" where
  "supersede m t = (if ms_tombstoned m = None then map (superseded m) t else t)"

definition first_discovered :: "membership \<Rightarrow> membership list \<Rightarrow> int" where
  "first_discovered m t = (case map ms_discovered (filter (same_pair (ms_ba m) (ms_server m)) t) of
     [] \<Rightarrow> to_ts (ms_discovered m)
   | d # ds \<Rightarrow> fold min ds d)"

definition same_key :: "membership \<Rightarrow> membership \<Rightarrow> bool" where
  "same_key m r = (same_pair (ms_ba m) (ms_server m) r \<and> ms_provenance r = ms_provenance m)"

text \<open>The second statement: insert, or update the row of the same key.\<close>

definition updated :: "membership \<Rightarrow> membership \<Rightarrow> membership" where
  "updated row r =
     (if same_key row r
      then r\<lparr>ms_table := ms_table row, ms_min_depth := ms_min_depth row, ms_paths := ms_paths row,
             ms_discovered := min (ms_discovered r) (ms_discovered row), ms_last_seen := ms_last_seen row,
             ms_tombstoned := ms_tombstoned row\<rparr>
      else r)"

definition insert_or_update :: "membership \<Rightarrow> membership list \<Rightarrow> membership list" where
  "insert_or_update row t = (if \<exists>r \<in> set t. same_key row r then map (updated row) t else t @ [row])"

definition live_count :: "string \<Rightarrow> string \<Rightarrow> membership list \<Rightarrow> nat" where
  "live_count ba server t = length (filter (\<lambda>r. same_pair ba server r \<and> live_row r) t)"

text \<open>The duplicates the last statement counts: the groups of more than one live row.\<close>

definition duplicate_live_pairs :: "string \<Rightarrow> string \<Rightarrow> membership list \<Rightarrow> nat" where
  "duplicate_live_pairs ba server t = (if 1 < live_count ba server t then 1 else 0)"

definition upsert_membership ::
  "(string \<Rightarrow> bool) \<Rightarrow> membership \<Rightarrow> membership list \<Rightarrow> (store_error, unit) result \<times> membership list" where
  "upsert_membership known m t =
     (let t1 = supersede m t;
          t2 = insert_or_update ((stored_row m)\<lparr>ms_discovered := first_discovered m t1\<rparr>) t1
      in if \<not> known (ms_ba m) \<or> \<not> known (ms_server m) then (Inl ForeignKey, t)
         else if 1 < live_count (ms_ba m) (ms_server m) t2 then (Inl UniqueIndex, t)
         else if 0 < duplicate_live_pairs (ms_ba m) (ms_server m) t2 then (Inl DuplicateLive, t)
         else (Inr (), t2))"

definition stale_row :: "string \<Rightarrow> int \<Rightarrow> membership \<Rightarrow> bool" where
  "stale_row ba before r = (ms_ba r = ba \<and> live_row r \<and> ms_last_seen r < to_ts before)"

definition tombstone_stale :: "string \<Rightarrow> int \<Rightarrow> int \<Rightarrow> membership list \<Rightarrow> nat \<times> membership list" where
  "tombstone_stale ba before at t =
     (length (filter (stale_row ba before) t),
      map (\<lambda>r. if stale_row ba before r then r\<lparr>ms_tombstoned := Some (to_ts at)\<rparr> else r) t)"

definition list_for_ba :: "string \<Rightarrow> bool \<Rightarrow> membership list \<Rightarrow> membership list" where
  "list_for_ba ba tombstoned t = sort_key (\<lambda>r. (ms_min_depth r, ms_table r, ms_server r, ms_provenance r))
     (filter (\<lambda>r. ms_ba r = ba \<and> (tombstoned \<or> live_row r)) t)"

definition list_for_server :: "string \<Rightarrow> bool \<Rightarrow> membership list \<Rightarrow> membership list" where
  "list_for_server server tombstoned t = sort_key (\<lambda>r. (ms_min_depth r, ms_ba r, ms_provenance r))
     (filter (\<lambda>r. ms_server r = server \<and> (tombstoned \<or> live_row r)) t)"

subsection \<open>The health row\<close>

record health =
  he_ba :: string
  he_started :: int
  he_completed :: int
  he_membership :: string
  he_relationship :: string
  he_inventory :: string
  he_summary :: string

definition health_checks :: "health \<Rightarrow> bool" where
  "health_checks h =
     (he_membership h \<in> set [''ok'', ''not_attempted'', ''acl_restricted'', ''association_budget_exhausted'', ''page_budget_exhausted'']
      \<and> he_relationship h \<in> set [''ok'', ''depth_limited'', ''edge_budget_exhausted'', ''ci_budget_exhausted'', ''acl_restricted'', ''truncated'']
      \<and> he_inventory h \<in> set [''complete'', ''service_membership_degraded'', ''relationship_degraded'', ''truncated'', ''failed''])"

definition upsert_health ::
  "(string \<Rightarrow> bool) \<Rightarrow> health \<Rightarrow> (string, health) btree \<Rightarrow> (store_error, unit) result \<times> (string, health) btree" where
  "upsert_health known h m =
     (if \<not> health_checks h then (Inl CheckFailed, m)
      else if \<not> known (he_ba h) then (Inl ForeignKey, m)
      else (Inr (), bt_insert (he_ba h)
        (h\<lparr>he_started := to_ts (he_started h), he_completed := to_ts (he_completed h)\<rparr>) m))"

definition relationship_health_status :: "servers_summary \<Rightarrow> string" where
  "relationship_health_status sm =
     (if sm_depth_limit sm then ''depth_limited''
      else if sm_edge_limit sm then ''edge_budget_exhausted''
      else if sm_ci_limit sm then ''ci_budget_exhausted''
      else if 0 < sm_relationship_acl sm then ''acl_restricted''
      else if sm_truncated sm then ''truncated''
      else ''ok'')"

definition service_membership_health_status :: "servers_summary \<Rightarrow> string" where
  "service_membership_health_status sm = (case sm_membership_status sm of
     Some s \<Rightarrow> if s \<in> set [''ok'', ''acl_restricted'', ''association_budget_exhausted'', ''page_budget_exhausted'', ''not_attempted'']
               then s else ''not_attempted''
   | None \<Rightarrow> if sm_association_limit sm then ''association_budget_exhausted''
             else if sm_page_limit sm then ''page_budget_exhausted''
             else ''not_attempted'')"

definition inventory_health_status :: "string \<Rightarrow> string \<Rightarrow> servers_summary \<Rightarrow> string" where
  "inventory_health_status relationship membership sm =
     (if sm_truncated sm then ''truncated''
      else if relationship \<noteq> ''ok'' then ''relationship_degraded''
      else if membership \<notin> set [''ok'', ''not_attempted''] then ''service_membership_degraded''
      else ''complete'')"

subsection \<open>A persisting run\<close>

record store_state =
  st_records :: "string list"
  st_members :: "membership list"
  st_health :: "(string, health) btree"

text \<open>The vault, the transaction over \<open>records\<close>, the JSON codec and the clock are not the program's.\<close>

record run_env =
  rn_vault :: "string \<Rightarrow> store_error option"
  rn_transaction :: "string list \<Rightarrow> store_error option"
  rn_paths_json :: "chain list \<Rightarrow> string"
  rn_summary_json :: "servers_summary \<Rightarrow> string"
  rn_started :: int
  rn_now :: int
  rn_prune :: int
  rn_completed :: int

definition known_record :: "store_state \<Rightarrow> string \<Rightarrow> bool" where
  "known_record st i = (i \<in> set (st_records st))"

text \<open>The documents are written one by one, the rows in one transaction.\<close>

definition persist_snow_records :: "run_env \<Rightarrow> string list \<Rightarrow> store_state \<Rightarrow> (store_error, nat) result \<times> store_state" where
  "persist_snow_records rn ids st =
     (if ids = [] then (Inr 0, st)
      else case List.map_filter (rn_vault rn) ids of
          e # es \<Rightarrow> (Inl e, st)
        | [] \<Rightarrow> (case rn_transaction rn ids of
            Some e \<Rightarrow> (Inl e, st)
          | None \<Rightarrow> (Inr (length ids), st\<lparr>st_records := dedup_str (st_records st @ ids)\<rparr>)))"

definition min_depth_of :: "chain list \<Rightarrow> nat" where
  "min_depth_of cs = (case map length cs of [] \<Rightarrow> 0 | n # ns \<Rightarrow> fold min ns n)"

definition membership_of ::
  "run_env \<Rightarrow> string \<Rightarrow> (string, provenance) btree \<Rightarrow> (string, chain list) btree \<Rightarrow> server \<Rightarrow> membership" where
  "membership_of rn ba provenances paths sv =
     (let cs = chains_of paths (sv_sys_id sv)
      in \<lparr>ms_ba = ba, ms_server = sv_sys_id sv,
          ms_table = (case or_try (non_empty_owned (sv_class_name sv)) (non_empty_owned (Some (sv_table sv))) of
              Some t \<Rightarrow> t | None \<Rightarrow> server_table),
          ms_provenance = provenance_as_str (case bt_get provenances (sv_sys_id sv) of Some p \<Rightarrow> p | None \<Rightarrow> ViaRelationship),
          ms_min_depth = min_depth_of cs,
          ms_paths = rn_paths_json rn cs, ms_discovered = rn_now rn, ms_last_seen = rn_now rn, ms_tombstoned = None\<rparr>)"

fun upsert_all ::
  "(string \<Rightarrow> bool) \<Rightarrow> membership list \<Rightarrow> nat \<Rightarrow> membership list \<Rightarrow> (store_error, unit) result \<times> nat \<times> membership list" where
  "upsert_all known [] n t = (Inr (), n, t)"
| "upsert_all known (m # ms) n t = (case upsert_membership known m t of
     (Inl e, t') \<Rightarrow> (Inl e, n, t')
   | (Inr _, t') \<Rightarrow> upsert_all known ms (n + 1) t')"

text \<open>The statuses of the run, and its health row.\<close>

definition with_statuses :: "servers_summary \<Rightarrow> servers_summary" where
  "with_statuses sm =
     (let membership = service_membership_health_status sm; relationship = relationship_health_status sm
      in sm\<lparr>sm_membership_status := Some membership, sm_relationship_status := Some relationship,
            sm_inventory_status := Some (inventory_health_status relationship membership sm)\<rparr>)"

definition health_of :: "run_env \<Rightarrow> string \<Rightarrow> servers_summary \<Rightarrow> health" where
  "health_of rn ba sm =
     (let membership = service_membership_health_status sm; relationship = relationship_health_status sm
      in \<lparr>he_ba = ba, he_started = rn_started rn, he_completed = rn_completed rn, he_membership = membership,
          he_relationship = relationship, he_inventory = inventory_health_status relationship membership sm,
          he_summary = rn_summary_json rn (with_statuses sm)\<rparr>)"

definition finish_run ::
  "run_env \<Rightarrow> servers_options \<Rightarrow> string \<Rightarrow> servers_summary \<Rightarrow> store_state
     \<Rightarrow> (store_error, unit) result \<times> servers_summary \<times> store_state" where
  "finish_run rn opts ba sm st =
     (let (pruned, t) = tombstone_stale ba (rn_started rn) (rn_prune rn) (st_members st);
          sm1 = (if so_prune_stale opts then sm\<lparr>sm_membership_pruned := pruned\<rparr> else sm);
          st1 = (if so_prune_stale opts then st\<lparr>st_members := t\<rparr> else st);
          (r, h) = upsert_health (known_record st1) (health_of rn ba sm1) (st_health st1)
      in (r, with_statuses sm1, st1\<lparr>st_health := h\<rparr>))"

definition persist_traversal ::
  "run_env \<Rightarrow> servers_options \<Rightarrow> string \<Rightarrow> server list \<Rightarrow> (string, provenance) btree \<Rightarrow> (string, chain list) btree
     \<Rightarrow> servers_summary \<Rightarrow> store_state \<Rightarrow> (store_error, unit) result \<times> servers_summary \<times> store_state" where
  "persist_traversal rn opts ba servers provenances paths sm st =
     (case persist_snow_records rn [ba] st of
        (Inl e, st1) \<Rightarrow> (Inl e, sm, st1)
      | (Inr _, st1) \<Rightarrow> (case persist_snow_records rn (map sv_sys_id servers) st1 of
          (Inl e, st2) \<Rightarrow> (Inl e, sm, st2)
        | (Inr n, st2) \<Rightarrow>
            (case upsert_all (known_record st2) (map (membership_of rn ba provenances paths) servers)
                    (sm_membership_upserts sm) (st_members st2) of
               (r, upserts, t) \<Rightarrow>
                 (let sm1 = sm\<lparr>sm_persisted_servers := n, sm_membership_upserts := upserts\<rparr>; st3 = st2\<lparr>st_members := t\<rparr>
                  in case r of
                       Inl e \<Rightarrow> (Inl e, sm1, st3)
                     | Inr _ \<Rightarrow> finish_run rn opts ba sm1 st3))))"


subsection \<open>The fallback\<close>

text \<open>What the run reads of the Business Application: its identity and the raw owner group.\<close>

record application =
  ap_sys_id :: string
  ap_owner_group :: "(string \<times> string option) option"

definition owner_group_field :: string where
  "owner_group_field = ''u_ci_owner_group''"

text \<open>The class gate: a row without a class is taken for a server.\<close>

fun gate_servers ::
  "cmdb \<Rightarrow> snow_row list \<Rightarrow> (string, bool) btree \<times> account \<Rightarrow> server list \<times> (string, bool) btree \<times> account" where
  "gate_servers q [] (cache, ac) = ([], cache, ac)"
| "gate_servers q (row # rows) (cache, ac) =
     (case (case servicenow_record_text row ''sys_class_name'' of
              Some class \<Rightarrow> class_is_server q 0 class (cache, ac)
            | None \<Rightarrow> (True, cache, ac)) of
        (b, cache1, ac1) \<Rightarrow> (case gate_servers q rows (cache1, ac1) of
          (servers, cache2, ac2) \<Rightarrow> (if b then server_from_row row # servers else servers, cache2, ac2)))"

definition unmapped :: "servers_summary \<Rightarrow> servers_summary" where
  "unmapped sm = sm\<lparr>sm_degraded := bt_insert ''cmdb_relationships_unmapped'' 1 (sm_degraded sm)\<rparr>"

definition ci_owner_group_fallback ::
  "cmdb \<Rightarrow> application \<Rightarrow> servers_options \<Rightarrow> (string, bool) btree \<times> account
     \<Rightarrow> (api_error, server list \<times> (string, bool) btree \<times> account) result" where
  "ci_owner_group_fallback q app opts = (\<lambda>(cache, ac). (case ap_owner_group app of
     None \<Rightarrow> Inr ([], cache, push_diagnostic owner_group_field ''cmdb_ci_business_app'' (ap_sys_id app) ReferenceNotFound
       ''ci_owner_group fallback requested but BA has no u_ci_owner_group set'' ac)
   | Some (grp, display) \<Rightarrow>
       (case cq_group_servers q grp (min (so_max_cis opts + 1) (2 ^ 32 - 1)) of
          Inl e \<Rightarrow>
            if denied e \<or> is_servicenow_acl_error e
            then Inr ([], cache, push_diagnostic owner_group_field server_table grp ReferenceAclRestricted
              ''ACL restricted ci_owner_group fallback server query''
              (on_summary (\<lambda>sm. sm\<lparr>sm_acl_restricted := sm_acl_restricted sm + 1\<rparr>) ac))
            else (case e of
                ApiStatus status text \<Rightarrow> if status = 404
                  then Inr ([], cache, push_diagnostic owner_group_field server_table grp ReferenceNotFound
                    ''ci_owner_group fallback group is tombstoned or unreadable'' ac)
                  else Inl e
              | OtherApi text \<Rightarrow> Inl e)
        | Inr rows \<Rightarrow>
            (let ac1 = on_summary (\<lambda>sm. unmapped (sm\<lparr>sm_fallback_used := True, sm_fallback_group := Some grp,
                   sm_fallback_group_name := display\<rparr>)) ac;
                 ac2 = (if so_max_cis opts < length rows
                        then on_summary (mark_truncated (length rows - so_max_cis opts)) ac1 else ac1)
             in Inr (gate_servers q (take (so_max_cis opts) rows) (cache, ac2))))))"

subsection \<open>The whole run\<close>

record servers_result =
  sr_servers :: "server list"
  sr_sources :: "(string, unit) btree"
  sr_provenance :: "(string, provenance) btree"
  sr_health :: "health option"
  sr_summary :: servers_summary
  sr_diagnostics :: "diagnostic list"
  sr_paths :: "(string, chain list) btree"

datatype run_error = ApiFailed api_error | StoreFailed store_error

definition paths_of :: "(string, discovery) btree \<Rightarrow> (string, chain list) btree" where
  "paths_of m = map (\<lambda>(i, d). (i, discovery_paths d)) (filter (\<lambda>(_, d). discovery_paths d \<noteq> []) m)"

definition provenances_of :: "(string, discovery) btree \<Rightarrow> (string, provenance) btree" where
  "provenances_of m = map (\<lambda>(i, d). (i, di_provenance d)) m"

definition servers_of :: "(string, discovery) btree \<Rightarrow> server list" where
  "servers_of m = map (\<lambda>(_, d). di_server d) m"

definition persist_inventory ::
  "run_env \<Rightarrow> servers_options \<Rightarrow> string \<Rightarrow> inventory \<Rightarrow> store_state \<Rightarrow> (store_error, unit) result \<times> servers_summary \<times> store_state" where
  "persist_inventory rn opts ba iv st =
     (if so_persist opts
      then persist_traversal rn opts ba (servers_of (iv_discoveries iv)) (provenances_of (iv_discoveries iv))
             (paths_of (iv_discoveries iv)) (ac_summary (iv_account iv)) st
      else (Inr (), ac_summary (iv_account iv), st))"

definition note_fallback :: "servers_options \<Rightarrow> servers_summary \<Rightarrow> servers_summary" where
  "note_fallback opts sm =
     (if fallback_is_enabled (so_fallback opts)
      then sm\<lparr>sm_cmdb_servers_found := Some (sm_servers_found sm),
              sm_fallback_strategy := Some (fallback_as_str (so_fallback opts))\<rparr>
      else sm)"

text \<open>The fallback runs when the traversal found nothing. \<open>server_sources\<close> holds the keys: its value is the same for all.\<close>

definition run_fallback ::
  "cmdb \<Rightarrow> servers_options \<Rightarrow> application \<Rightarrow> (string, bool) btree \<times> account
     \<Rightarrow> (api_error, server list \<times> account) result" where
  "run_fallback q opts app = (\<lambda>(cache, ac).
     (if so_fallback opts = CiOwnerGroup \<and> sm_servers_found (ac_summary ac) = 0
      then bind_ok (ci_owner_group_fallback q app opts (cache, ac)) (\<lambda>(found, cache', ac'). Inr (found, ac'))
      else Inr ([], ac)))"

definition count_found :: "servers_options \<Rightarrow> nat \<Rightarrow> servers_summary \<Rightarrow> nat \<Rightarrow> servers_summary" where
  "count_found opts before sm n =
     (if so_fallback opts = CiOwnerGroup \<and> before = 0 then sm\<lparr>sm_servers_found := n\<rparr> else sm)"

definition servers_with_options ::
  "cmdb \<Rightarrow> run_env \<Rightarrow> servers_options \<Rightarrow> bool \<Rightarrow> application \<Rightarrow> store_state \<Rightarrow> (run_error, servers_result) result \<times> store_state" where
  "servers_with_options q rn opts defaults_when_empty app st =
     (case discover_servers q opts defaults_when_empty (ap_sys_id app) of
        Inl e \<Rightarrow> (Inl (ApiFailed e), st)
      | Inr iv \<Rightarrow> (case persist_inventory rn opts (ap_sys_id app) iv st of
          (Inl e, sm, st') \<Rightarrow> (Inl (StoreFailed e), st')
        | (Inr _, sm, st') \<Rightarrow>
            (let ac = \<lparr>ac_summary = note_fallback opts sm, ac_diagnostics = ac_diagnostics (iv_account iv)\<rparr>
             in case run_fallback q opts app (iv_cache iv, ac) of
                  Inl e \<Rightarrow> (Inl (ApiFailed e), st')
                | Inr (found, ac') \<Rightarrow>
                    (let servers = servers_of (iv_discoveries iv) @ found
                     in (Inr \<lparr>sr_servers = servers,
                           sr_sources = fold (\<lambda>sv. bt_insert (sv_sys_id sv) ()) found [],
                           sr_provenance = provenances_of (iv_discoveries iv),
                           sr_health = (if so_persist opts then bt_get (st_health st') (ap_sys_id app) else None),
                           sr_summary = count_found opts (sm_servers_found sm) (ac_summary ac') (length servers),
                           sr_diagnostics = ac_diagnostics ac',
                           sr_paths = (if so_include_paths opts then paths_of (iv_discoveries iv) else [])\<rparr>, st')))))"

subsection \<open>What the cache answers\<close>

datatype knowledge_status = KnownRelationships | NoCachedRelationships | UnknownNotSynced | Degraded

definition cached_relationship_status :: "bool \<Rightarrow> health option \<Rightarrow> knowledge_status" where
  "cached_relationship_status has_memberships h = (case h of
     Some x \<Rightarrow> if he_inventory x = ''complete''
               then (if has_memberships then KnownRelationships else NoCachedRelationships)
               else Degraded
   | None \<Rightarrow> if has_memberships then KnownRelationships else UnknownNotSynced)"

definition cached_status :: "string \<Rightarrow> bool \<Rightarrow> store_state \<Rightarrow> knowledge_status" where
  "cached_status ba tombstoned st =
     cached_relationship_status (list_for_ba ba tombstoned (st_members st) \<noteq> []) (bt_get (st_health st) ba)"

definition cached_server_relationship_status :: "health option list \<Rightarrow> knowledge_status" where
  "cached_server_relationship_status hs =
     (if hs = [] then NoCachedRelationships
      else if \<exists>h \<in> set hs. (case h of None \<Rightarrow> False | Some x \<Rightarrow> he_inventory x \<noteq> ''complete'') then Degraded
      else KnownRelationships)"

definition cached_result_relationship_status :: "knowledge_status list \<Rightarrow> knowledge_status" where
  "cached_result_relationship_status ss =
     (if Degraded \<in> set ss then Degraded
      else if KnownRelationships \<in> set ss then KnownRelationships
      else NoCachedRelationships)"

end
