(* ===== verification/Cmdb_Persistence.thy ===== *)
theory Cmdb_Persistence
  imports Cmdb_Store Cmdb_Inventory
begin

text \<open>
  The stored relationships: the invariant of the membership table, what a persisting run leaves in it, and
  what the health row and the cache say of it.
\<close>

subsection \<open>The membership table\<close>

definition membership_key :: "membership \<Rightarrow> string \<times> string \<times> string" where
  "membership_key r = (ms_ba r, ms_server r, ms_provenance r)"

definition live_rows :: "string \<Rightarrow> string \<Rightarrow> membership list \<Rightarrow> membership list" where
  "live_rows ba server t = filter (\<lambda>r. same_pair ba server r \<and> live_row r) t"

text \<open>The invariant: the primary key, the index of live pairs, and the foreign keys.\<close>

definition table_ok :: "(string \<Rightarrow> bool) \<Rightarrow> membership list \<Rightarrow> bool" where
  "table_ok known t = (distinct (map membership_key t) \<and> (\<forall>ba server. length (live_rows ba server t) \<le> 1)
     \<and> list_all (\<lambda>r. known (ms_ba r) \<and> known (ms_server r)) t)"

text \<open>What the columns show of a membership.\<close>

definition shown :: "membership \<Rightarrow> string \<times> string \<times> nat \<times> string" where
  "shown r = (ms_table r, ms_provenance r, ms_min_depth r, ms_paths r)"

lemma live_count_rows: "live_count ba server t = length (live_rows ba server t)"
  by (simp add: live_count_def live_rows_def)

lemma same_key_iff: "same_key m r \<longleftrightarrow> membership_key r = membership_key m"
  by (auto simp: same_key_def same_pair_def membership_key_def)

lemma filter_key: "distinct (map membership_key t) \<Longrightarrow> x \<in> set t \<Longrightarrow> filter (\<lambda>r. membership_key r = membership_key x) t = [x]"
proof (induction t)
  case (Cons r t)
  show ?case
  proof (cases "r = x")
    case True
    have "membership_key y \<noteq> membership_key x" if "y \<in> set t" for y
      using Cons.prems(1) that unfolding True by (metis distinct.simps(2) image_eqI list.simps(9) list.set_map)
    then show ?thesis using True by (simp add: filter_empty_conv)
  next
    case False
    then have "x \<in> set t" using Cons.prems(2) by simp
    moreover have "membership_key r \<noteq> membership_key x" using Cons.prems(1) calculation by (metis distinct.simps(2) image_eqI list.simps(9) list.set_map)
    ultimately show ?thesis using Cons by simp
  qed
qed simp

lemma filter_map_same: "(\<And>r. P (f r) \<longleftrightarrow> P r) \<Longrightarrow> (\<And>r. P r \<Longrightarrow> f r = r) \<Longrightarrow> filter P (map f t) = filter P t"
  by (induction t) auto

text \<open>The statements keep the keys, and the rows of the other pairs.\<close>

lemma superseded_parts [simp]:
  "membership_key (superseded m r) = membership_key r" "ms_discovered (superseded m r) = ms_discovered r"
  "same_pair ba server (superseded m r) = same_pair ba server r"
  by (simp_all add: superseded_def membership_key_def same_pair_def)

lemma updated_parts [simp]:
  "membership_key (updated row r) = membership_key r" "same_pair ba server (updated row r) = same_pair ba server r"
  by (simp_all add: updated_def membership_key_def same_pair_def)

lemma supersede_keys [simp]: "map membership_key (supersede m t) = map membership_key t"
  by (simp add: supersede_def comp_def)

lemma supersede_other:
  assumes "(ba, server) \<noteq> (ms_ba m, ms_server m)"
  shows "filter (same_pair ba server) (supersede m t) = filter (same_pair ba server) t"
proof -
  have "same_pair ba server r \<Longrightarrow> superseded m r = r" for r
    using assms by (auto simp: superseded_def same_pair_def)
  then show ?thesis by (simp add: supersede_def filter_map_same)
qed

lemma supersede_discovered:
  "map ms_discovered (filter (same_pair ba server) (supersede m t)) = map ms_discovered (filter (same_pair ba server) t)"
  by (simp add: supersede_def filter_map comp_def)

lemma supersede_live:
  "ms_tombstoned m = None \<Longrightarrow> r \<in> set (supersede m t) \<Longrightarrow> same_pair (ms_ba m) (ms_server m) r \<Longrightarrow> live_row r \<Longrightarrow>
     membership_key r = membership_key m"
  by (auto simp: supersede_def superseded_def same_pair_def membership_key_def live_row_def split: if_splits)

lemma insert_keys:
  "set (map membership_key (insert_or_update row t)) = insert (membership_key row) (set (map membership_key t))"
  "distinct (map membership_key t) \<Longrightarrow> distinct (map membership_key (insert_or_update row t))"
proof -
  have same: "map membership_key (map (updated row) t) = map membership_key t" by (simp add: comp_def)
  show "set (map membership_key (insert_or_update row t)) = insert (membership_key row) (set (map membership_key t))"
  proof (cases "\<exists>r \<in> set t. same_key row r")
    case True
    then have "membership_key row \<in> set (map membership_key t)" by (auto simp: same_key_iff intro: rev_image_eqI)
    then show ?thesis using True same by (simp add: insert_or_update_def insert_absorb del: map_map set_map)
  qed (simp add: insert_or_update_def)
  show "distinct (map membership_key t) \<Longrightarrow> distinct (map membership_key (insert_or_update row t))"
    using same by (cases "\<exists>r \<in> set t. same_key row r") (auto simp: insert_or_update_def same_key_iff simp del: map_map)
qed

lemma insert_other:
  assumes "(ba, server) \<noteq> (ms_ba row, ms_server row)"
  shows "filter (same_pair ba server) (insert_or_update row t) = filter (same_pair ba server) t"
proof -
  have "same_pair ba server r \<Longrightarrow> updated row r = r" for r
    using assms by (auto simp: updated_def same_key_def same_pair_def)
  moreover have "\<not> same_pair ba server row" using assms by (auto simp: same_pair_def)
  ultimately show ?thesis by (simp add: insert_or_update_def filter_map_same)
qed


lemma first_discovered_supersede: "first_discovered m (supersede m t) = first_discovered m t"
  by (simp only: first_discovered_def supersede_discovered)

lemma fold_min_le: "fold min ds (d :: int) \<le> d" "x \<in> set ds \<Longrightarrow> fold min ds (d :: int) \<le> x"
proof -
  have eq: "fold min ds d = Min (set (d # ds))" by (simp only: Min.set_eq_fold)
  show "fold min ds d \<le> d" "x \<in> set ds \<Longrightarrow> fold min ds d \<le> x" by (simp_all add: eq)
qed

lemma head_min_le: "x \<in> set xs \<Longrightarrow> (case xs of [] \<Rightarrow> a | d # ds \<Rightarrow> fold min ds d) \<le> (x :: int)"
  by (cases xs) (auto intro: fold_min_le)

lemma first_discovered_le:
  "r \<in> set t \<Longrightarrow> same_pair (ms_ba m) (ms_server m) r \<Longrightarrow> first_discovered m t \<le> ms_discovered r"
  unfolding first_discovered_def by (rule head_min_le) simp

text \<open>What the two statements leave of the pair: one live row, which shows the membership.\<close>

definition upserted :: "membership \<Rightarrow> membership list \<Rightarrow> membership list" where
  "upserted m t = insert_or_update ((stored_row m)\<lparr>ms_discovered := first_discovered m t\<rparr>) (supersede m t)"

lemma stored_row_parts [simp]:
  "membership_key ((stored_row m)\<lparr>ms_discovered := d\<rparr>) = membership_key m" "shown ((stored_row m)\<lparr>ms_discovered := d\<rparr>) = shown m"
  "ms_ba (stored_row m) = ms_ba m" "ms_server (stored_row m) = ms_server m"
  "ms_last_seen (stored_row m) = to_ts (ms_last_seen m)" "ms_tombstoned (stored_row m) = map_option to_ts (ms_tombstoned m)"
  by (simp_all add: stored_row_def membership_key_def shown_def)

lemma upserted_row:
  assumes "ms_tombstoned m = None"
  shows "\<exists>x \<in> set (upserted m t). membership_key x = membership_key m \<and> live_row x \<and> shown x = shown m
    \<and> ms_last_seen x = to_ts (ms_last_seen m) \<and> ms_discovered x = first_discovered m t"
proof -
  let ?row = "(stored_row m)\<lparr>ms_discovered := first_discovered m t\<rparr>"
  show ?thesis
  proof (cases "\<exists>r \<in> set (supersede m t). same_key ?row r")
    case True
    then obtain r where r: "r \<in> set (supersede m t)" "same_key ?row r" by blast
    have "first_discovered m (supersede m t) \<le> ms_discovered r"
      by (rule first_discovered_le [OF r(1)]) (use r(2) in \<open>simp add: same_key_def\<close>)
    then have "ms_discovered (updated ?row r) = first_discovered m t"
      using r(2) by (simp add: updated_def first_discovered_supersede)
    moreover have "membership_key (updated ?row r) = membership_key m" using r(2) by (simp add: same_key_iff)
    moreover have "shown (updated ?row r) = shown m" "live_row (updated ?row r)" "ms_last_seen (updated ?row r) = to_ts (ms_last_seen m)"
      using r(2) assms by (simp_all add: updated_def shown_def live_row_def stored_row_def same_key_def)
    moreover have "updated ?row r \<in> set (upserted m t)"
      using r True by (auto simp: upserted_def insert_or_update_def)
    ultimately show ?thesis by blast
  next
    case False
    then show ?thesis using assms by (simp add: upserted_def insert_or_update_def live_row_def)
  qed
qed

lemma upserted_live_key:
  assumes "ms_tombstoned m = None" "r \<in> set (upserted m t)" "same_pair (ms_ba m) (ms_server m) r" "live_row r"
  shows "membership_key r = membership_key m"
proof (cases "membership_key r = membership_key m")
  case False
  let ?row = "(stored_row m)\<lparr>ms_discovered := first_discovered m t\<rparr>"
  have "r \<in> set (supersede m t)"
  proof (cases "\<exists>r \<in> set (supersede m t). same_key ?row r")
    case True
    then obtain r0 where r0: "r0 \<in> set (supersede m t)" "r = updated ?row r0"
      using assms(2) by (auto simp: upserted_def insert_or_update_def)
    then have "\<not> same_key ?row r0" using False by (auto simp: same_key_iff)
    then show ?thesis using r0 by (simp add: updated_def)
  next
    case none: False
    then show ?thesis using assms(2) False by (auto simp: upserted_def insert_or_update_def)
  qed
  then show ?thesis by (rule supersede_live [OF assms(1) _ assms(3,4)])
qed simp

lemma upserted_live_rows:
  assumes "ms_tombstoned m = None" "distinct (map membership_key t)"
  shows "\<exists>x. live_rows (ms_ba m) (ms_server m) (upserted m t) = [x] \<and> shown x = shown m
    \<and> ms_last_seen x = to_ts (ms_last_seen m) \<and> ms_discovered x = first_discovered m t"
proof -
  obtain x where x: "x \<in> set (upserted m t)" "membership_key x = membership_key m" "live_row x" "shown x = shown m"
    "ms_last_seen x = to_ts (ms_last_seen m)" "ms_discovered x = first_discovered m t"
    using upserted_row [OF assms(1)] by blast
  have keys: "distinct (map membership_key (upserted m t))"
    unfolding upserted_def by (rule insert_keys(2)) (simp add: assms(2) del: map_map)
  have one: "y = x" if "y \<in> set (upserted m t)" "membership_key y = membership_key x" for y
    using keys x(1) that by (simp add: distinct_map inj_on_def)
  have "live_rows (ms_ba m) (ms_server m) (upserted m t) = filter (\<lambda>r. membership_key r = membership_key x) (upserted m t)"
    unfolding live_rows_def
  proof (rule filter_cong [OF refl])
    fix r assume r: "r \<in> set (upserted m t)"
    show "(same_pair (ms_ba m) (ms_server m) r \<and> live_row r) = (membership_key r = membership_key x)"
      using upserted_live_key [OF assms(1) r] one [OF r] x(2,3) by (auto simp: same_pair_def membership_key_def)
  qed
  then show ?thesis using filter_key [OF keys x(1)] x by auto
qed

lemma live_rows_pairs: "live_rows ba server t = filter live_row (filter (same_pair ba server) t)"
  by (simp add: live_rows_def conj_commute)

lemma upserted_other:
  assumes "(ba, server) \<noteq> (ms_ba m, ms_server m)"
  shows "filter (same_pair ba server) (upserted m t) = filter (same_pair ba server) t"
  using insert_other [of ba server "(stored_row m)\<lparr>ms_discovered := first_discovered m t\<rparr>" "supersede m t"]
    supersede_other [OF assms] assms by (simp add: upserted_def)

lemma upsert_membership_upserted:
  assumes "table_ok known t" "ms_tombstoned m = None" "known (ms_ba m)" "known (ms_server m)"
  shows "upsert_membership known m t = (Inr (), upserted m t)"
proof -
  have "length (live_rows (ms_ba m) (ms_server m) (upserted m t)) = 1"
    using upserted_live_rows [of m t] assms(1,2) by (auto simp: table_ok_def)
  then show ?thesis
    using assms(3,4)
    by (simp add: upsert_membership_def first_discovered_supersede upserted_def [symmetric] live_count_rows
        duplicate_live_pairs_def Let_def)
qed

lemma table_ok_upserted:
  assumes ok: "table_ok known t" and m: "ms_tombstoned m = None" "known (ms_ba m)" "known (ms_server m)"
  shows "table_ok known (upserted m t)"
proof -
  have keys: "distinct (map membership_key t)" using ok by (simp add: table_ok_def)
  have "length (live_rows ba server (upserted m t)) \<le> 1" for ba server
  proof (cases "(ba, server) = (ms_ba m, ms_server m)")
    case True
    then show ?thesis using upserted_live_rows [OF m(1) keys] by auto
  next
    case False
    then show ?thesis using upserted_other [OF False, of t] ok by (simp add: live_rows_pairs table_ok_def)
  qed
  moreover have "distinct (map membership_key (upserted m t))"
    unfolding upserted_def by (rule insert_keys(2)) (simp add: keys del: map_map)
  moreover have "known (ms_ba r) \<and> known (ms_server r)" if "r \<in> set (upserted m t)" for r
  proof -
    have "membership_key r \<in> set (map membership_key (upserted m t))" using that by simp
    then have "membership_key r \<in> insert (membership_key m) (set (map membership_key t))"
      unfolding upserted_def insert_keys(1) supersede_keys stored_row_parts(1) .
    then show ?thesis using ok m(2,3) by (auto simp: table_ok_def membership_key_def list_all_iff)
  qed
  ultimately show ?thesis by (simp add: table_ok_def list_all_iff)
qed


subsection \<open>A run on the table\<close>

text \<open>The relationships the table shows: for a pair, the live row.\<close>

definition live_view :: "membership list \<Rightarrow> string \<Rightarrow> string \<Rightarrow> (string \<times> string \<times> nat \<times> string) option" where
  "live_view t ba server = (case live_rows ba server t of [] \<Rightarrow> None | r # _ \<Rightarrow> Some (shown r))"

definition fresh_membership :: "(string \<Rightarrow> bool) \<Rightarrow> string \<Rightarrow> int \<Rightarrow> membership \<Rightarrow> bool" where
  "fresh_membership known ba now m = (ms_ba m = ba \<and> known ba \<and> known (ms_server m) \<and> ms_tombstoned m = None \<and> ms_last_seen m = now)"

lemma upsert_all_fold:
  "table_ok known t \<Longrightarrow> list_all (fresh_membership known ba now) ms \<Longrightarrow>
     upsert_all known ms n t = (Inr (), n + length ms, fold upserted ms t) \<and> table_ok known (fold upserted ms t)"
proof (induction ms arbitrary: n t)
  case (Cons m ms)
  then have m: "ms_tombstoned m = None" "known (ms_ba m)" "known (ms_server m)" by (auto simp: fresh_membership_def)
  show ?case
    using Cons.IH [OF table_ok_upserted [OF Cons.prems(1) m], of "n + 1"] Cons.prems(2)
    by (simp add: upsert_membership_upserted [OF Cons.prems(1) m])
qed simp

lemma fold_upserted_rows:
  "table_ok known t \<Longrightarrow> list_all (fresh_membership known ba now) ms \<Longrightarrow> distinct (map ms_server ms) \<Longrightarrow>
     (\<forall>b server. \<not> (b = ba \<and> server \<in> set (map ms_server ms)) \<longrightarrow> live_rows b server (fold upserted ms t) = live_rows b server t)
     \<and> (\<forall>m \<in> set ms. \<exists>x. live_rows ba (ms_server m) (fold upserted ms t) = [x] \<and> shown x = shown m \<and> ms_last_seen x = to_ts now)"
proof (induction ms arbitrary: t)
  case (Cons m ms)
  then have m: "ms_tombstoned m = None" "known (ms_ba m)" "known (ms_server m)" "ms_ba m = ba" "ms_last_seen m = now"
    by (auto simp: fresh_membership_def)
  have other: "live_rows b server (upserted m t) = live_rows b server t" if "(b, server) \<noteq> (ba, ms_server m)" for b server
    using upserted_other [of b server m t] that m(4) by (simp add: live_rows_pairs)
  obtain x where x: "live_rows ba (ms_server m) (upserted m t) = [x]" "shown x = shown m" "ms_last_seen x = to_ts now"
    using upserted_live_rows [OF m(1), of t] Cons.prems(1) m(4,5) by (auto simp: table_ok_def)
  have IH: "\<forall>b server. \<not> (b = ba \<and> server \<in> set (map ms_server ms)) \<longrightarrow>
        live_rows b server (fold upserted ms (upserted m t)) = live_rows b server (upserted m t)"
    "\<forall>m' \<in> set ms. \<exists>x. live_rows ba (ms_server m') (fold upserted ms (upserted m t)) = [x] \<and> shown x = shown m' \<and> ms_last_seen x = to_ts now"
    using Cons.IH [OF table_ok_upserted [OF Cons.prems(1) m(1-3)]] Cons.prems(2,3) by auto
  have "live_rows ba (ms_server m) (fold upserted ms (upserted m t)) = [x]"
    using IH(1) x(1) Cons.prems(3) by simp
  then show ?case using IH other x(2,3) by auto
qed simp

lemma tombstone_stale_rows:
  "live_rows b server (snd (tombstone_stale ba before at t)) = filter (\<lambda>r. \<not> stale_row ba before r) (live_rows b server t)"
proof (induction t)
  case Nil
  then show ?case by (simp add: tombstone_stale_def live_rows_def)
next
  case (Cons r t)
  then show ?case by (auto simp: tombstone_stale_def live_rows_def same_pair_def live_row_def)
qed

lemma tombstone_stale_ok: "table_ok known t \<Longrightarrow> table_ok known (snd (tombstone_stale ba before at t))"
proof -
  assume ok: "table_ok known t"
  have "map membership_key (snd (tombstone_stale ba before at t)) = map membership_key t"
    by (simp add: tombstone_stale_def membership_key_def comp_def)
  moreover have "length (live_rows b server (snd (tombstone_stale ba before at t))) \<le> 1" for b server
    unfolding tombstone_stale_rows using ok by (meson length_filter_le order_trans table_ok_def)
  moreover have "list_all (\<lambda>r. known (ms_ba r) \<and> known (ms_server r)) (snd (tombstone_stale ba before at t))"
    using ok by (auto simp: table_ok_def tombstone_stale_def list_all_iff)
  ultimately show ?thesis using ok by (simp add: table_ok_def)
qed

lemma table_ok_mono: "table_ok known t \<Longrightarrow> (\<And>i. known i \<Longrightarrow> known' i) \<Longrightarrow> table_ok known' t"
  by (auto simp: table_ok_def list_all_iff)

text \<open>The statuses are always among those the table allows.\<close>

lemma relationship_status_in: "relationship_health_status sm
    \<in> set [''ok'', ''depth_limited'', ''edge_budget_exhausted'', ''ci_budget_exhausted'', ''acl_restricted'', ''truncated'']"
  by (simp add: relationship_health_status_def)

lemma membership_status_in: "service_membership_health_status sm
    \<in> set [''ok'', ''not_attempted'', ''acl_restricted'', ''association_budget_exhausted'', ''page_budget_exhausted'']"
proof (cases "sm_membership_status sm")
  case None
  then show ?thesis by (simp add: service_membership_health_status_def)
next
  case (Some s)
  then show ?thesis
    by (cases "s \<in> set [''ok'', ''acl_restricted'', ''association_budget_exhausted'', ''page_budget_exhausted'', ''not_attempted'']")
      (auto simp: service_membership_health_status_def)
qed

lemma inventory_status_in: "inventory_health_status r m sm
    \<in> set [''complete'', ''service_membership_degraded'', ''relationship_degraded'', ''truncated'', ''failed'']"
  by (simp add: inventory_health_status_def)

lemma health_of_checks: "health_checks (health_of rn ba sm)"
  unfolding health_checks_def health_of_def Let_def health.simps
  using relationship_status_in membership_status_in inventory_status_in by blast

definition store_ok :: "store_state \<Rightarrow> bool" where
  "store_ok st = table_ok (known_record st) (st_members st)"

definition run_can_write :: "run_env \<Rightarrow> string \<Rightarrow> string list \<Rightarrow> bool" where
  "run_can_write rn ba ids = (rn_vault rn ba = None \<and> rn_transaction rn [ba] = None
     \<and> list_all (\<lambda>i. rn_vault rn i = None) ids \<and> (ids \<noteq> [] \<longrightarrow> rn_transaction rn ids = None))"

lemma persist_snow_records_ok:
  assumes "list_all (\<lambda>i. rn_vault rn i = None) ids" "ids \<noteq> [] \<longrightarrow> rn_transaction rn ids = None"
  shows "\<exists>records. persist_snow_records rn ids st = (Inr (length ids), st\<lparr>st_records := records\<rparr>)
    \<and> set records = set (st_records st) \<union> set ids"
proof -
  have "List.map_filter (rn_vault rn) ids = []"
    using assms(1) by (induction ids) (simp_all add: List.map_filter_def)
  then show ?thesis
    using assms(2) by (cases "ids = []") (auto simp: persist_snow_records_def intro: exI [of _ "st_records st"])
qed


lemma membership_of_parts [simp]:
  "ms_ba (membership_of rn ba provs paths sv) = ba" "ms_server (membership_of rn ba provs paths sv) = sv_sys_id sv"
  "ms_tombstoned (membership_of rn ba provs paths sv) = None" "ms_last_seen (membership_of rn ba provs paths sv) = rn_now rn"
  by (simp_all add: membership_of_def Let_def)

text \<open>The table after a run: the memberships upserted, then the stale ones tombstoned.\<close>

definition table_after ::
  "run_env \<Rightarrow> servers_options \<Rightarrow> string \<Rightarrow> server list \<Rightarrow> (string, provenance) btree \<Rightarrow> (string, chain list) btree
     \<Rightarrow> membership list \<Rightarrow> membership list" where
  "table_after rn opts ba servers provs paths t =
     (let t' = fold upserted (map (membership_of rn ba provs paths) servers) t
      in if so_prune_stale opts then snd (tombstone_stale ba (rn_started rn) (rn_prune rn) t') else t')"

definition inventory_of :: "servers_summary \<Rightarrow> string" where
  "inventory_of sm = inventory_health_status (relationship_health_status sm) (service_membership_health_status sm) sm"

lemma inventory_of_updates [simp]:
  "inventory_of (sm\<lparr>sm_membership_pruned := n\<rparr>) = inventory_of sm"
  "inventory_of (sm\<lparr>sm_persisted_servers := n, sm_membership_upserts := k\<rparr>) = inventory_of sm"
  by (simp_all add: inventory_of_def inventory_health_status_def relationship_health_status_def service_membership_health_status_def)

lemma finish_run_ok:
  assumes "known_record st ba"
  shows "\<exists>sm' h. finish_run rn opts ba sm st = (Inr (), sm', st\<lparr>st_members := (if so_prune_stale opts
      then snd (tombstone_stale ba (rn_started rn) (rn_prune rn) (st_members st)) else st_members st),
      st_health := bt_insert ba h (st_health st)\<rparr>) \<and> he_inventory h = inventory_of sm"
proof -
  let ?sm = "if so_prune_stale opts then sm\<lparr>sm_membership_pruned := fst (tombstone_stale ba (rn_started rn) (rn_prune rn) (st_members st))\<rparr> else sm"
  have "inventory_of ?sm = inventory_of sm" by simp
  then show ?thesis
    using assms health_of_checks [of rn ba ?sm]
    by (auto simp: finish_run_def Let_def case_prod_beta upsert_health_def known_record_def health_of_def inventory_of_def)
qed

lemma persist_traversal_after:
  assumes st: "store_ok st" and write_ok: "run_can_write rn ba (map sv_sys_id servers)"
  shows "\<exists>sm' st' h. persist_traversal rn opts ba servers provs paths sm st = (Inr (), sm', st')
    \<and> st_members st' = table_after rn opts ba servers provs paths (st_members st) \<and> store_ok st'
    \<and> st_health st' = bt_insert ba h (st_health st) \<and> he_inventory h = inventory_of sm"
proof -
  obtain rs1 where r1: "persist_snow_records rn [ba] st = (Inr 1, st\<lparr>st_records := rs1\<rparr>)" "set rs1 = set (st_records st) \<union> {ba}"
    using persist_snow_records_ok [of rn "[ba]" st] write_ok by (auto simp: run_can_write_def)
  obtain rs2 where r2: "persist_snow_records rn (map sv_sys_id servers) (st\<lparr>st_records := rs1\<rparr>) = (Inr (length servers), st\<lparr>st_records := rs2\<rparr>)"
      "set rs2 = set rs1 \<union> set (map sv_sys_id servers)"
    using persist_snow_records_ok [of rn "map sv_sys_id servers" "st\<lparr>st_records := rs1\<rparr>"] write_ok by (auto simp: run_can_write_def)
  let ?st = "st\<lparr>st_records := rs2\<rparr>" and ?ms = "map (membership_of rn ba provs paths) servers"
  let ?t = "fold upserted ?ms (st_members st)"
  have ok: "table_ok (known_record ?st) (st_members st)"
    using st unfolding store_ok_def by (rule table_ok_mono) (use r1(2) r2(2) in \<open>auto simp: known_record_def\<close>)
  have fresh: "list_all (fresh_membership (known_record ?st) ba (rn_now rn)) ?ms"
    using r1(2) r2(2) by (auto simp: list_all_iff fresh_membership_def known_record_def)
  note all = upsert_all_fold [OF ok fresh]
  have after: "(if so_prune_stale opts then snd (tombstone_stale ba (rn_started rn) (rn_prune rn) ?t) else ?t)
      = table_after rn opts ba servers provs paths (st_members st)" by (simp add: table_after_def Let_def)
  have "known_record (?st\<lparr>st_members := ?t\<rparr>) ba" using r1(2) r2(2) by (simp add: known_record_def)
  from finish_run_ok [OF this, of rn opts "sm\<lparr>sm_persisted_servers := length servers,
        sm_membership_upserts := sm_membership_upserts sm + length ?ms\<rparr>"]
  obtain sm' h where fin: "finish_run rn opts ba (sm\<lparr>sm_persisted_servers := length servers,
        sm_membership_upserts := sm_membership_upserts sm + length ?ms\<rparr>) (?st\<lparr>st_members := ?t\<rparr>)
      = (Inr (), sm', ?st\<lparr>st_members := table_after rn opts ba servers provs paths (st_members st),
          st_health := bt_insert ba h (st_health st)\<rparr>)" "he_inventory h = inventory_of sm"
    by (simp add: after cong: if_cong) blast
  have "persist_traversal rn opts ba servers provs paths sm st = (Inr (), sm', ?st\<lparr>st_members := table_after rn opts ba servers provs paths (st_members st),
          st_health := bt_insert ba h (st_health st)\<rparr>)"
    using all fin(1) by (simp add: persist_traversal_def r1(1) r2(1) Let_def)
  moreover have "table_ok (known_record ?st) (table_after rn opts ba servers provs paths (st_members st))"
    using all tombstone_stale_ok by (simp add: table_after_def Let_def)
  moreover have "known_record (?st\<lparr>st_members := ts, st_health := hs\<rparr>) = known_record ?st" for ts hs
    by (simp add: known_record_def fun_eq_iff)
  ultimately show ?thesis using fin(2) by (auto simp: store_ok_def)
qed

lemma live_view_after:
  assumes t: "table_ok known t" and known: "known ba" "\<forall>sv \<in> set servers. known (sv_sys_id sv)"
    and ids: "distinct (map sv_sys_id servers)" and clock: "to_ts (rn_started rn) \<le> to_ts (rn_now rn)"
  shows "\<forall>sv \<in> set servers. live_view (table_after rn opts ba servers provs paths t) ba (sv_sys_id sv)
      = Some (shown (membership_of rn ba provs paths sv))"
    and "\<not> (b = ba \<and> server \<in> set (map sv_sys_id servers)) \<Longrightarrow>
      live_view (table_after rn opts ba servers provs paths t) b server
        = (if so_prune_stale opts \<and> b = ba \<and> list_all (\<lambda>r. ms_last_seen r < to_ts (rn_started rn)) (live_rows b server t)
           then None else live_view t b server)"
proof -
  let ?ms = "map (membership_of rn ba provs paths) servers"
  let ?t = "fold upserted ?ms t"
  have fresh: "list_all (fresh_membership known ba (rn_now rn)) ?ms"
    using known by (auto simp: list_all_iff fresh_membership_def)
  have names: "map ms_server ?ms = map sv_sys_id servers" by simp
  note rows = fold_upserted_rows [OF t fresh, unfolded names, OF ids]
  have after: "live_rows b server (table_after rn opts ba servers provs paths t)
      = (if so_prune_stale opts then filter (\<lambda>r. \<not> stale_row ba (rn_started rn) r) (live_rows b server ?t) else live_rows b server ?t)"
    for b server by (simp add: table_after_def Let_def tombstone_stale_rows)
  show "\<forall>sv \<in> set servers. live_view (table_after rn opts ba servers provs paths t) ba (sv_sys_id sv)
      = Some (shown (membership_of rn ba provs paths sv))"
  proof
    fix sv assume sv: "sv \<in> set servers"
    then obtain x where x: "live_rows ba (sv_sys_id sv) ?t = [x]" "shown x = shown (membership_of rn ba provs paths sv)"
      "ms_last_seen x = to_ts (rn_now rn)" using rows by auto
    have "\<not> stale_row ba (rn_started rn) x" using x(3) clock by (simp add: stale_row_def)
    then show "live_view (table_after rn opts ba servers provs paths t) ba (sv_sys_id sv) = Some (shown (membership_of rn ba provs paths sv))"
      using x(1,2) by (simp add: live_view_def after)
  qed
  assume "\<not> (b = ba \<and> server \<in> set (map sv_sys_id servers))"
  then have same: "live_rows b server ?t = live_rows b server t" using rows by blast
  have "length (live_rows b server t) \<le> 1" using t by (simp add: table_ok_def)
  then consider "live_rows b server t = []" | r where "live_rows b server t = [r]"
    by (cases "live_rows b server t") auto
  then show "live_view (table_after rn opts ba servers provs paths t) b server
        = (if so_prune_stale opts \<and> b = ba \<and> list_all (\<lambda>r. ms_last_seen r < to_ts (rn_started rn)) (live_rows b server t)
           then None else live_view t b server)"
  proof cases
    case 1
    then have "live_rows b server (table_after rn opts ba servers provs paths t) = []" using after [of b server] same by simp
    then show ?thesis using 1 by (simp add: live_view_def)
  next
    case 2
    have "r \<in> set (live_rows b server t)" by (simp add: 2)
    then have "ms_ba r = b" "live_row r" by (simp_all add: live_rows_def same_pair_def)
    then have "live_rows b server (table_after rn opts ba servers provs paths t)
        = (if so_prune_stale opts \<and> b = ba \<and> ms_last_seen r < to_ts (rn_started rn) then [] else [r])"
      unfolding after [of b server] same 2 by (simp add: stale_row_def)
    then show ?thesis using 2 by (simp add: live_view_def)
  qed
qed


text \<open>upserting a live membership of known records into a well-formed table never fails, not even by the check for
  duplicates it ends with; the table stays well formed, the pair then has exactly one live row, which shows the
  membership and the time of its first discovery, and the rows of every other pair are untouched.\<close>

theorem upsert_membership_spec:
  assumes "table_ok known t" "ms_tombstoned m = None" "known (ms_ba m)" "known (ms_server m)"
  shows "\<exists>t' x. upsert_membership known m t = (Inr (), t') \<and> table_ok known t'
    \<and> live_rows (ms_ba m) (ms_server m) t' = [x] \<and> shown x = shown m
    \<and> ms_discovered x = first_discovered m t \<and> (\<forall>r \<in> set t. same_pair (ms_ba m) (ms_server m) r \<longrightarrow> ms_discovered x \<le> ms_discovered r)
    \<and> (\<forall>b s. (b, s) \<noteq> (ms_ba m, ms_server m) \<longrightarrow> filter (same_pair b s) t' = filter (same_pair b s) t)"
proof -
  have "distinct (map membership_key t)" using assms(1) by (simp add: table_ok_def)
  then obtain x where x: "live_rows (ms_ba m) (ms_server m) (upserted m t) = [x]" "shown x = shown m" "ms_discovered x = first_discovered m t"
    using upserted_live_rows [OF assms(2)] by blast
  then show ?thesis
    using upsert_membership_upserted [OF assms] table_ok_upserted [OF assms] upserted_other first_discovered_le by metis
qed

definition row_of :: "string \<Rightarrow> int \<Rightarrow> int option \<Rightarrow> membership" where
  "row_of provenance discovered tombstoned = \<lparr>ms_ba = ''a'', ms_server = ''s'', ms_table = server_table, ms_provenance = provenance,
     ms_min_depth = 1, ms_paths = ''[]'', ms_discovered = discovered, ms_last_seen = discovered, ms_tombstoned = tombstoned\<rparr>"

theorem upsert_membership_spec_witness:
  "\<exists>t' x. upsert_membership (\<lambda>i. True) (row_of ''both'' 9000000000 None) [row_of ''relationship'' 4 None] = (Inr (), t')
     \<and> live_rows ''a'' ''s'' t' = [x] \<and> ms_provenance x = ''both'' \<and> ms_discovered x = 4"
proof -
  have ok: "table_ok (\<lambda>i. True) [row_of ''relationship'' 4 None]"
    by (auto simp: table_ok_def live_rows_def list_all_iff)
  obtain t' x where x: "upsert_membership (\<lambda>i. True) (row_of ''both'' 9000000000 None) [row_of ''relationship'' 4 None] = (Inr (), t')"
    "live_rows (ms_ba (row_of ''both'' 9000000000 None)) (ms_server (row_of ''both'' 9000000000 None)) t' = [x]"
    "shown x = shown (row_of ''both'' 9000000000 None)"
    "ms_discovered x = first_discovered (row_of ''both'' 9000000000 None) [row_of ''relationship'' 4 None]"
    using upsert_membership_spec [OF ok, of "row_of ''both'' 9000000000 None"] by (auto simp: row_of_def)
  then show ?thesis by (auto simp: row_of_def shown_def first_discovered_def same_pair_def)
qed

end
