(* ===== verification/Cmdb_Run.thy ===== *)
theory Cmdb_Run
  imports Cmdb_Persistence
begin

text \<open>
  A whole run of the server inventory: what it persists, that the fallback persists nothing, and what a
  health row that says complete means.
\<close>

subsection \<open>The discoveries\<close>

lemma keyed_discoveries: "discover_servers q opts d root = Inr iv \<Longrightarrow> keyed (iv_discoveries iv)"
  by (erule discover_servers_parts) (simp add: keyed_found)

lemma keyed_servers: "keyed m \<Longrightarrow> map sv_sys_id (servers_of m) = map fst m \<and> distinct (map fst m)"
  by (auto simp: keyed_def servers_of_def bt_wf_def comp_def case_prod_beta strict_sorted_iff)

lemma get_provenances: "bt_get (provenances_of m) i = map_option di_provenance (bt_get m i)"
  by (induction m) (auto simp: provenances_of_def bt_get_def)

lemma get_paths: "distinct (map fst m) \<Longrightarrow> bt_get m i = Some d \<Longrightarrow> chains_of (paths_of m) i = discovery_paths d"
proof (induction m)
  case (Cons x m)
  obtain j e where x: "x = (j, e)" by fastforce
  have rest: "chains_of (paths_of m) i = []" if "i \<notin> fst ` set m"
    using that by (force simp: chains_of_def paths_of_def bt_get_def split: option.split dest!: map_of_SomeD)
  show ?case
  proof (cases "j = i")
    case True
    then have "e = d" "i \<notin> fst ` set m" using Cons.prems x by (auto simp: bt_get_def)
    then show ?thesis using rest True x
      by (cases "discovery_paths d = []") (simp_all add: paths_of_def chains_of_def bt_get_def)
  next
    case False
    then have "chains_of (paths_of m) i = discovery_paths d" using Cons x by (simp add: bt_get_def)
    then show ?thesis using False x by (simp add: paths_of_def chains_of_def bt_get_def)
  qed
qed simp


subsection \<open>What a run persists\<close>

text \<open>A membership row of a discovery, as the table shows it.\<close>

definition shows_discovery :: "run_env \<Rightarrow> discovery \<Rightarrow> string \<times> string \<times> nat \<times> string \<Rightarrow> bool" where
  "shows_discovery rn d = (\<lambda>(table, provenance, depth, json).
     provenance = provenance_as_str (di_provenance d) \<and> depth = min_depth_of (discovery_paths d)
     \<and> json = rn_paths_json rn (discovery_paths d))"

lemma shown_discovery:
  assumes "keyed m" "bt_get m i = Some d"
  shows "shows_discovery rn d (shown (membership_of rn ba (provenances_of m) (paths_of m) (di_server d)))"
proof -
  have "sv_sys_id (di_server d) = i" by (rule keyed_get [OF assms])
  moreover have "chains_of (paths_of m) i = discovery_paths d"
    by (rule get_paths [OF _ assms(2)]) (use keyed_servers [OF assms(1)] in blast)
  ultimately show ?thesis
    using assms(2) by (simp add: shows_discovery_def shown_def membership_of_def Let_def get_provenances)
qed

lemma persisted_state:
  assumes "discover_servers q opts d (ap_sys_id app) = Inr iv" "so_persist opts"
    and "persist_traversal rn opts (ap_sys_id app) (servers_of (iv_discoveries iv)) (provenances_of (iv_discoveries iv))
      (paths_of (iv_discoveries iv)) (ac_summary (iv_account iv)) st = (Inr (), sm, st')"
  shows "snd (servers_with_options q rn opts d app st) = st'"
  using assms by (simp add: servers_with_options_def persist_inventory_def Let_def split: sum.split prod.split)

text \<open>C18: a persisting run on a well-formed membership table, none of whose writes to the vault and the record tables
  fails and whose clock does not run backwards, makes its discoveries the live relationships of the application,
  whatever the fallback then does: the table stays well formed with at most one live row for a pair, every discovery is
  the live row of its pair, with its provenance, its shortest route and all its routes. Every other pair, of this
  application or another, shows the live row it showed before, or none; the exception is pruning, which takes away the
  pairs of the application all of whose live rows were last seen before the second the run started in (a row seen in
  that very second stays). The statement is about the live rows: the run also adds the records of its discoveries and
  writes the health row of the application, and its tombstoned rows are not described.\<close>

theorem run_persists_discoveries:
  assumes run: "discover_servers q opts d (ap_sys_id app) = Inr iv" "so_persist opts" and st: "store_ok st"
    and can: "run_can_write rn (ap_sys_id app) (map fst (iv_discoveries iv))"
    and clock: "to_ts (rn_started rn) \<le> to_ts (rn_now rn)"
  shows "store_ok (snd (servers_with_options q rn opts d app st))
    \<and> (\<forall>b i. case (if b = ap_sys_id app then bt_get (iv_discoveries iv) i else None) of
          Some disc \<Rightarrow> \<exists>row. live_view (st_members (snd (servers_with_options q rn opts d app st))) b i = Some row
            \<and> shows_discovery rn disc row
        | None \<Rightarrow> live_view (st_members (snd (servers_with_options q rn opts d app st))) b i
            = (if so_prune_stale opts \<and> b = ap_sys_id app
                 \<and> list_all (\<lambda>r. ms_last_seen r < to_ts (rn_started rn)) (live_rows b i (st_members st))
               then None else live_view (st_members st) b i))"
proof -
  let ?m = "iv_discoveries iv" and ?svs = "servers_of (iv_discoveries iv)"
  have keyed: "keyed ?m" by (rule keyed_discoveries [OF run(1)])
  note ids = keyed_servers [OF keyed]
  obtain sm' st' where persisted: "persist_traversal rn opts (ap_sys_id app) ?svs (provenances_of ?m) (paths_of ?m)
      (ac_summary (iv_account iv)) st = (Inr (), sm', st')"
    and members: "st_members st' = table_after rn opts (ap_sys_id app) ?svs (provenances_of ?m) (paths_of ?m) (st_members st)"
    and ok: "store_ok st'"
    using persist_traversal_after [OF st, of rn "ap_sys_id app" ?svs opts "provenances_of ?m" "paths_of ?m" "ac_summary (iv_account iv)"]
      can ids by auto
  have state: "snd (servers_with_options q rn opts d app st) = st'" by (rule persisted_state [OF run persisted])
  define known where "known = (\<lambda>i. known_record st i \<or> i = ap_sys_id app \<or> i \<in> set (map sv_sys_id ?svs))"
  have known: "table_ok known (st_members st)" "known (ap_sys_id app)" "\<forall>sv \<in> set ?svs. known (sv_sys_id sv)"
    using st by (auto simp: known_def store_ok_def intro: table_ok_mono)
  have distinct: "distinct (map sv_sys_id ?svs)" using ids by simp
  note view = live_view_after [OF known distinct clock]
  have "case (if b = ap_sys_id app then bt_get ?m i else None) of
          Some disc \<Rightarrow> \<exists>row. live_view (st_members st') b i = Some row \<and> shows_discovery rn disc row
        | None \<Rightarrow> live_view (st_members st') b i
            = (if so_prune_stale opts \<and> b = ap_sys_id app
                 \<and> list_all (\<lambda>r. ms_last_seen r < to_ts (rn_started rn)) (live_rows b i (st_members st))
               then None else live_view (st_members st) b i)" for b i
  proof (cases "if b = ap_sys_id app then bt_get ?m i else None")
    case None
    then have "\<not> (b = ap_sys_id app \<and> i \<in> set (map sv_sys_id ?svs))"
      using ids by (auto simp: bt_get_def map_of_eq_None_iff split: if_splits)
    then show ?thesis unfolding None option.case members by (rule view(2))
  next
    case (Some disc)
    then have b: "b = ap_sys_id app" "bt_get ?m i = Some disc" by (auto split: if_splits)
    have "di_server disc \<in> set ?svs" using b(2) by (force simp: servers_of_def bt_get_def dest: map_of_SomeD)
    with view(1) have "live_view (st_members st') b i
        = Some (shown (membership_of rn (ap_sys_id app) (provenances_of ?m) (paths_of ?m) (di_server disc)))"
      using keyed_get [OF keyed b(2)] unfolding members b(1) by blast
    then show ?thesis using Some shown_discovery [OF keyed b(2)] by auto
  qed
  then show ?thesis using ok state by blast
qed


definition demo_app :: application where
  "demo_app = \<lparr>ap_sys_id = demo_id CHR ''a'', ap_owner_group = None\<rparr>"

definition demo_run :: run_env where
  "demo_run = \<lparr>rn_vault = Map.empty, rn_transaction = Map.empty, rn_paths_json = (\<lambda>cs. if cs = [] then ''none'' else ''routes''),
     rn_summary_json = (\<lambda>sm. []), rn_started = 5000000000, rn_now = 7000000000, rn_prune = 8000000000, rn_completed = 9000000000\<rparr>"

definition demo_old_row :: membership where
  "demo_old_row = \<lparr>ms_ba = demo_id CHR ''a'', ms_server = demo_id CHR ''e'', ms_table = server_table,
     ms_provenance = ''relationship'', ms_min_depth = 1, ms_paths = ''old'', ms_discovered = 1, ms_last_seen = 2, ms_tombstoned = None\<rparr>"

definition demo_store :: store_state where
  "demo_store = \<lparr>st_records = [demo_id CHR ''a'', demo_id CHR ''e''], st_members = [demo_old_row], st_health = []\<rparr>"

lemma demo_store_ok: "store_ok demo_store"
  by (simp add: store_ok_def demo_store_def table_ok_def live_rows_def known_record_def demo_old_row_def)

theorem run_persists_discoveries_witness:
  "\<exists>st' row. snd (servers_with_options demo_cmdb demo_run (demo_options 5) True demo_app demo_store) = st'
     \<and> live_view (st_members st') (demo_id CHR ''a'') (demo_id CHR ''c'') = Some row
     \<and> fst (snd row) = ''both'' \<and> fst (snd (snd row)) = 1
     \<and> live_view (st_members st') (demo_id CHR ''a'') (demo_id CHR ''e'') = None"
proof -
  let ?st = "snd (servers_with_options demo_cmdb demo_run (demo_options 5) True demo_app demo_store)"
  obtain iv where iv: "discover_servers demo_cmdb (demo_options 5) True (demo_id CHR ''a'') = Inr iv"
    and m: "iv_discoveries iv = [(demo_id CHR ''c'', \<lparr>di_server = demo_sv CHR ''c'', di_provenance = ViaBoth,
         di_relationship_paths = [demo_chain demo_host], di_membership_paths = [demo_member_chain CHR ''c'']\<rparr>),
       (demo_id CHR ''d'', \<lparr>di_server = demo_sv CHR ''d'', di_provenance = ViaServiceMembership,
         di_relationship_paths = [], di_membership_paths = [demo_member_chain CHR ''d'']\<rparr>)]"
    using demo_discoveries by blast
  have app: "ap_sys_id demo_app = demo_id CHR ''a''" by (simp add: demo_app_def)
  have opts: "so_persist (demo_options 5)" "so_prune_stale (demo_options 5)" by (simp_all add: demo_options_def)
  have can: "run_can_write demo_run (ap_sys_id demo_app) (map fst (iv_discoveries iv))"
    by (simp add: run_can_write_def demo_run_def list_all_iff)
  have clock: "to_ts (rn_started demo_run) \<le> to_ts (rn_now demo_run)" by (simp add: to_ts_def demo_run_def)
  note result = run_persists_discoveries [OF iv [folded app] opts(1) demo_store_ok can clock, THEN conjunct2, THEN spec [of _ "demo_id CHR ''a''"]]
  have c: "bt_get (iv_discoveries iv) (demo_id CHR ''c'') = Some \<lparr>di_server = demo_sv CHR ''c'', di_provenance = ViaBoth,
         di_relationship_paths = [demo_chain demo_host], di_membership_paths = [demo_member_chain CHR ''c'']\<rparr>"
    and e: "bt_get (iv_discoveries iv) (demo_id CHR ''e'') = None"
    by (simp_all add: m bt_get_def)
  obtain row where row: "live_view (st_members ?st) (demo_id CHR ''a'') (demo_id CHR ''c'') = Some row"
    "fst (snd row) = ''both''" "fst (snd (snd row)) = 1"
    using result [THEN spec [of _ "demo_id CHR ''c''"]] c
    by (auto simp: app shows_discovery_def min_depth_of_def discovery_paths_def demo_chain_def demo_member_chain_def)
  have "list_all (\<lambda>r. ms_last_seen r < to_ts (rn_started demo_run)) (live_rows (demo_id CHR ''a'') (demo_id CHR ''e'') (st_members demo_store))"
    by (simp add: live_rows_def demo_store_def demo_old_row_def same_pair_def live_row_def to_ts_def demo_run_def)
  then have "live_view (st_members ?st) (demo_id CHR ''a'') (demo_id CHR ''e'') = None"
    using result [THEN spec [of _ "demo_id CHR ''e''"]] e opts(2) by (simp add: app)
  then show ?thesis using row by blast
qed

end
