(* ===== verification/Cmdb_Health.thy ===== *)
theory Cmdb_Health
  imports Cmdb_Run
begin

text \<open>
  What a health row that says complete means: no limit was reached in the whole run and no relationship read
  was denied. A denied read of classes or servers does not show.
\<close>

subsection \<open>Limits are marked as truncation\<close>

definition limited :: "servers_summary \<Rightarrow> bool" where
  "limited sm = (sm_depth_limit sm \<or> sm_ci_limit sm \<or> sm_edge_limit sm \<or> sm_association_limit sm \<or> sm_page_limit sm)"

definition marked :: "account \<Rightarrow> bool" where
  "marked ac = (limited (ac_summary ac) \<longrightarrow> sm_truncated (ac_summary ac))"

lemma marked_push [simp]: "marked (push_diagnostic field table i reason message ac) = marked ac"
  by (simp add: marked_def limited_def push_diagnostic_def record_degraded_reason_def)

lemma marked_updates [simp]:
  "marked (on_summary (\<lambda>sm. mark_truncated n (f sm)) ac)"
  "marked (on_summary (\<lambda>sm. sm\<lparr>sm_cycles := g sm\<rparr>) ac) = marked ac"
  "marked (on_summary (\<lambda>sm. sm\<lparr>sm_missing_ci := g sm\<rparr>) ac) = marked ac"
  "marked (on_summary (\<lambda>sm. sm\<lparr>sm_acl_restricted := g sm\<rparr>) ac) = marked ac"
  "marked (on_summary (\<lambda>sm. sm\<lparr>sm_acl_restricted := g sm, sm_relationship_acl := h sm\<rparr>) ac) = marked ac"
  "marked (on_summary (\<lambda>sm. sm\<lparr>sm_acl_restricted := g sm, sm_membership_status := s\<rparr>) ac) = marked ac"
  "marked (on_summary (\<lambda>sm. sm\<lparr>sm_membership_status := s\<rparr>) ac) = marked ac"
  "marked (on_summary (\<lambda>sm. sm\<lparr>sm_relationships_examined := g sm\<rparr>) ac) = marked ac"
  "marked (on_summary (\<lambda>sm. sm\<lparr>sm_associations_examined := g sm\<rparr>) ac) = marked ac"
  "marked (on_summary (\<lambda>sm. sm\<lparr>sm_pages_examined := g sm\<rparr>) ac) = marked ac"
  "marked (on_summary (\<lambda>sm. sm\<lparr>sm_cis_examined := g sm\<rparr>) ac) = marked ac"
  "marked (on_summary (\<lambda>sm. sm\<lparr>sm_servers_found := g sm\<rparr>) ac) = marked ac"
  "marked (on_summary members_status ac) = marked ac"
  by (simp_all add: marked_def limited_def on_summary_def mark_truncated_def members_status_def)

lemma marked_notes [simp]:
  "marked (ci_limit i ac)" "marked (depth_limit n ac)" "marked (member_ci_limit i ac)" "marked (cut_members message f ac)"
  "marked (count_cycle ac) = marked ac" "marked (unreadable_edge ac) = marked ac"
  "marked (unreadable_member field message ac) = marked ac" "marked (unreadable_member_class i ac) = marked ac"
  by (simp_all add: ci_limit_def depth_limit_def member_ci_limit_def cut_members_def count_cycle_def unreadable_edge_def
      unreadable_member_def unreadable_member_class_def)

lemma marked_edge_limit [simp]: "marked ac \<Longrightarrow> marked (mark_edge_limit ac)"
  by (simp add: mark_edge_limit_def)

lemma marked_fold: "(\<And>x ac. marked (f x ac) = marked ac) \<Longrightarrow> marked (fold f xs ac) = marked ac"
  by (induction xs arbitrary: ac) simp_all

lemma marked_each [simp]:
  "marked (each_denied field table message ids ac) = marked ac" "marked (each_missing field table message ids ac) = marked ac"
  unfolding each_denied_def each_missing_def by (subst marked_fold; simp)+

lemma marked_edges_of_rows: "marked (snd (edges_of_rows rows seen ac)) = marked ac"
  by (induction rows seen ac rule: edges_of_rows.induct) (auto split: option.split prod.split simp: case_prod_beta)

lemma marked_class_is_server: "class_is_server q level cls (cache, ac) = (b, cache', ac') \<Longrightarrow> marked ac' = marked ac"
  by (auto simp: class_is_server_def split: if_splits option.splits sum.splits)

lemma marked_hydrate_classes: "hydrate_ci_classes q level ids (cl, ac) = Inr (cl', ac') \<Longrightarrow> marked ac' = marked ac"
  by (auto simp: hydrate_ci_classes_def Let_def split: if_splits sum.splits prod.splits)

lemma marked_hydrate_servers: "hydrate_servers q level ids ac = Inr (servers, ac') \<Longrightarrow> marked ac' = marked ac"
  by (auto simp: hydrate_servers_def Let_def split: if_splits sum.splits)

lemma marked_merge: "merge_direction_read r (budget, ac, rows) = (budget', ac', rows') \<Longrightarrow> marked ac \<Longrightarrow> marked ac'"
  by (auto simp: merge_direction_read_def Let_def)

lemma marked_level:
  assumes "relationship_level q opts level frontier ac = Inr (edges, ac')" "marked ac"
  shows "marked ac'"
proof (cases "frontier = [] \<or> sm_edge_limit (ac_summary ac) \<or> so_max_edges opts - sm_relationships_examined (ac_summary ac) = 0")
  case True
  then show ?thesis using assms marked_edge_limit by (auto simp: relationship_level_def Let_def split: if_splits)
next
  case False
  let ?budget = "so_max_edges opts - sm_relationships_examined (ac_summary ac)"
  obtain parents children where merged: "(case merge_direction_read children (merge_direction_read parents (?budget, ac, [])) of
      (budget, ac1, rows) \<Rightarrow> Inr (edges_of_rows rows [] ac1)) = (Inr (edges, ac') :: (api_error, relationship_edge list \<times> account) result)"
    using assms(1) False by (auto simp: relationship_level_def Let_def bind_ok_Inr)
  obtain b1 ac1 rows1 where m1: "merge_direction_read parents (?budget, ac, []) = (b1, ac1, rows1)" by (metis prod_cases3)
  obtain b2 ac2 rows2 where m2: "merge_direction_read children (b1, ac1, rows1) = (b2, ac2, rows2)" by (metis prod_cases3)
  have "edges_of_rows rows2 [] ac2 = (edges, ac')" using merged m1 m2 by simp
  then have "marked ac' = marked ac2" using marked_edges_of_rows [of rows2 "[]" ac2] by simp
  then show ?thesis using marked_merge [OF m2 marked_merge [OF m1 assms(2)]] by simp
qed

definition tv_marked :: "traversal \<Rightarrow> bool" where
  "tv_marked tv = marked (tv_account tv)"

lemma tv_marked_steps [simp]:
  "tv_marked (note_classes e tv) = tv_marked tv" "tv_marked (add_server opts sv tv) = tv_marked tv"
  "tv_marked (skipped_cycle field table i message tv) = tv_marked tv"
  "tv_marked (on_account (depth_limit n) tv)" "tv_marked (on_account (ci_limit i) tv)"
  "tv_marked (on_account count_cycle tv) = tv_marked tv"
  "tv_marked (on_account (push_diagnostic field table i reason message) tv) = tv_marked tv"
  "tv_marked (tv\<lparr>tv_account := ac\<rparr>) = marked ac" "tv_marked (tv\<lparr>tv_account := ac, tv_new := ids\<rparr>) = marked ac"
  "tv_marked (tv\<lparr>tv_classes := cl, tv_account := ac\<rparr>) = marked ac" "tv_marked (tv\<lparr>tv_cache := ca, tv_account := ac\<rparr>) = marked ac"
  "tv_marked (tv\<lparr>tv_paths := m\<rparr>) = tv_marked tv"
  "tv_marked (tv\<lparr>tv_paths := m, tv_emitted := em\<rparr>) = tv_marked tv"
  "tv_marked (tv\<lparr>tv_paths := m, tv_visited := vs, tv_new := ids\<rparr>) = tv_marked tv"
  "tv_marked (tv\<lparr>tv_service_paths := m, tv_seeds := ss\<rparr>) = tv_marked tv"
  by (simp_all add: tv_marked_def note_classes_def add_server_def skipped_cycle_def on_account_def Let_def)

lemma tv_marked_process: "tv_marked tv \<Longrightarrow> tv_marked (process_edge opts allowed depth frontier e tv)"
proof -
  assume "tv_marked tv"
  then have 1: "tv_marked (discover_service depth frontier e (note_classes e tv))"
    by (simp add: discover_service_def split: option.split prod.split bool.split)
  have 2: "tv_marked t \<Longrightarrow> tv_marked (revisit opts depth e current_id adjacent_id dir t)" for current_id adjacent_id dir t
    by (simp add: revisit_def split: prod.split bool.split)
  have 3: "tv_marked t \<Longrightarrow> tv_marked (first_visit opts depth e current_id adjacent_id dir t)" for current_id adjacent_id dir t
    by (simp add: first_visit_def split: prod.split bool.split)
  show ?thesis using 1 2 3 by (simp add: process_edge_def follow_edge_def split: option.split prod.split)
qed

lemma tv_marked_fold: "(\<And>x tv. tv_marked tv \<Longrightarrow> tv_marked (f x tv)) \<Longrightarrow> tv_marked tv \<Longrightarrow> tv_marked (fold f xs tv)"
  by (induction xs arbitrary: tv) simp_all

lemma tv_marked_classify: "classify q level ids tv = (s, f, tv') \<Longrightarrow> tv_marked tv' = tv_marked tv"
proof (induction q level ids tv arbitrary: s f tv' rule: classify.induct)
  case (2 q level i ids tv)
  show ?case
  proof (cases "bt_get (tv_classes tv) i")
    case None
    then show ?thesis using 2(1) 2(3) by simp
  next
    case (Some cls)
    obtain b cache ac where cs: "class_is_server q level cls (tv_cache tv, tv_account tv) = (b, cache, ac)"
      by (metis prod_cases3)
    obtain s1 f1 tv1 where rec: "classify q level ids (tv\<lparr>tv_cache := cache, tv_account := ac\<rparr>) = (s1, f1, tv1)"
      by (metis prod_cases3)
    have "tv' = tv1" using 2(3) Some cs rec by (auto split: if_splits)
    then show ?thesis
      using 2(2) [OF Some cs [symmetric] refl rec] marked_class_is_server [OF cs] by (simp add: tv_marked_def)
  qed
qed simp


lemma level_step_marked:
  assumes step: "level_step q opts allowed depth frontier tv = Inr (next_ids, tv')" and start: "tv_marked tv"
  shows "tv_marked tv'"
proof -
  obtain edges ac tv1 classes ac1 ids ids' tv2 servers ac2 where
    level: "relationship_level q opts depth frontier (tv_account tv) = Inr (edges, ac)"
    and tv1: "tv1 = fold (process_edge opts allowed depth frontier) edges (tv\<lparr>tv_account := ac, tv_new := []\<rparr>)"
    and hydrate: "hydrate_ci_classes q depth (tv_new tv1) (tv_classes tv1, tv_account tv1) = Inr (classes, ac1)"
    and cl: "classify q depth (tv_new tv1) (tv1\<lparr>tv_classes := classes, tv_account := ac1\<rparr>) = (ids, ids', tv2)"
    and servers: "hydrate_servers q depth ids (tv_account tv2) = Inr (servers, ac2)"
    and last: "(next_ids, tv') = (if depth = so_max_depth opts \<and> ids' \<noteq> []
       then ([], on_account (depth_limit (length ids')) (fold (add_server opts) servers (tv2\<lparr>tv_account := ac2\<rparr>)))
       else (ids', fold (add_server opts) servers (tv2\<lparr>tv_account := ac2\<rparr>)))"
    by (rule level_step_parts [OF step])
  have "marked ac" by (rule marked_level [OF level]) (use start in \<open>simp add: tv_marked_def\<close>)
  then have "tv_marked tv1" unfolding tv1 by (intro tv_marked_fold tv_marked_process) simp_all
  then have "marked ac1" using marked_hydrate_classes [OF hydrate] by (simp add: tv_marked_def)
  then have "tv_marked tv2" using tv_marked_classify [OF cl] by simp
  then have "marked ac2" using marked_hydrate_servers [OF servers] by (simp add: tv_marked_def)
  then have "tv_marked (fold (add_server opts) servers (tv2\<lparr>tv_account := ac2\<rparr>))" by (intro tv_marked_fold) simp_all
  then show ?thesis using last by (auto split: if_splits)
qed

lemma levels_marked: "levels q opts allowed depths frontier tv = Inr tv' \<Longrightarrow> tv_marked tv \<Longrightarrow> tv_marked tv'"
proof (induction q opts allowed depths frontier tv arbitrary: tv' rule: levels.induct)
  case (2 q opts allowed depth depths frontier tv)
  show ?case
  proof (cases "frontier = [] \<or> sm_edge_limit (ac_summary (tv_account tv)) \<or> sm_ci_limit (ac_summary (tv_account tv))")
    case True
    then show ?thesis using 2(2,3) by simp
  next
    case False
    then obtain next_ids tv1 where step: "level_step q opts allowed depth frontier tv = Inr (next_ids, tv1)"
      and rec: "levels q opts allowed depths next_ids tv1 = Inr tv'"
      using 2(2) by (auto simp: bind_ok_Inr)
    show ?thesis by (rule 2(1) [OF False rec level_step_marked [OF step 2(3)]])
  qed
qed simp

lemma process_member_marked: "marked (me_account me) \<Longrightarrow> marked (me_account (process_member q opts sp row me))"
proof -
  assume m: "marked (me_account me)"
  have "marked (me_account (snd (examine_member opts ci me)))" for ci
    using m by (simp add: examine_member_def me_note_def Let_def)
  moreover have "marked (me_account (add_member q sp s ci row me')) = marked (me_account me')" for s ci me'
    by (auto simp: add_member_def me_note_def Let_def dest: marked_class_is_server split: option.split prod.split)
  ultimately show ?thesis
    using m by (auto simp: process_member_def me_note_def split: option.split prod.split bool.split) (metis snd_conv)+
qed

lemma member_servers_marked:
  assumes found: "service_membership_servers q opts services sp (cache, ac) = Inr (found, cache', ac')" and m: "marked ac"
  shows "marked ac'"
proof (cases "services = []")
  case True
  then show ?thesis using found m by (auto simp: service_membership_servers_def)
next
  case False
  then obtain r where read: "service_membership_read q opts services = Inr r"
    using found by (auto simp: service_membership_servers_def bind_ok_Inr)
  let ?ac0 = "on_summary (\<lambda>sm. sm\<lparr>sm_pages_examined := sm_pages_examined sm + mb_pages r\<rparr>) ac"
  show ?thesis
  proof (cases "mb_acl r")
    case True
    then show ?thesis using found False m by (auto simp: service_membership_servers_def read Let_def)
  next
    case acl: False
    let ?me = "\<lparr>me_account = account_members r ?ac0, me_examined = [], me_server_ids = [], me_paths = [], me_cache = cache\<rparr>"
    have "marked (account_members r ?ac0)" using m by (simp add: account_members_def Let_def)
    then have "marked (me_account (fold (process_member q opts sp) rows ?me))" for rows
    proof (induction rows rule: rev_induct)
      case (snoc row rows)
      then show ?case using process_member_marked by simp
    qed simp
    moreover obtain servers ac1 where "hydrate_servers q 0 (me_server_ids (fold (process_member q opts sp) (mb_rows r) ?me))
        (me_account (fold (process_member q opts sp) (mb_rows r) ?me)) = Inr (servers, ac1)" "ac' = on_summary members_status ac1"
      using found False acl by (auto simp: service_membership_servers_def read Let_def bind_ok_Inr)
    ultimately show ?thesis using marked_hydrate_servers by fastforce
  qed
qed

lemma discover_servers_marked: "discover_servers q opts d root = Inr iv \<Longrightarrow> marked (iv_account iv)"
proof (erule discover_servers_parts)
  fix tv found cache ac
  assume tv: "traverse q opts d root = Inr tv"
    and members: "service_membership_servers q opts (tv_seeds tv) (tv_service_paths tv)
       (tv_cache tv, on_summary (\<lambda>sm. sm\<lparr>sm_cis_examined := length (tv_visited tv)\<rparr>) (tv_account tv)) = Inr (found, cache, ac)"
    and acc: "iv_account iv = on_summary (\<lambda>sm. sm\<lparr>sm_servers_found := length (iv_discoveries iv)\<rparr>) ac"
  have "tv_marked (traversal_start opts root)"
    by (simp add: tv_marked_def traversal_start_def marked_def limited_def summary_new_def)
  then have "tv_marked tv" by (rule levels_marked [OF tv [unfolded traverse_def]])
  then have "marked ac" by (intro member_servers_marked [OF members]) (simp add: tv_marked_def)
  then show "marked (iv_account iv)" by (simp add: acc)
qed

subsection \<open>The health row\<close>

text \<open>a health row a run wrote as complete means that the run was cut nowhere: no depth, CI, edge, association or
  page limit was reached, no relationship read was denied, and the service memberships were read to the end or
  there were none to read; and then the cache knows the relationships of the application, or that it has none.\<close>

theorem complete_means_uncut:
  assumes run: "discover_servers q opts d (ap_sys_id app) = Inr iv" "so_persist opts" and st: "store_ok st"
    and can: "run_can_write rn (ap_sys_id app) (map fst (iv_discoveries iv))"
    and h: "bt_get (st_health (snd (servers_with_options q rn opts d app st))) (ap_sys_id app) = Some h"
    and complete: "he_inventory h = ''complete''"
  shows "\<not> limited (ac_summary (iv_account iv)) \<and> sm_relationship_acl (ac_summary (iv_account iv)) = 0
    \<and> service_membership_health_status (ac_summary (iv_account iv)) \<in> {''ok'', ''not_attempted''}
    \<and> cached_status (ap_sys_id app) False (snd (servers_with_options q rn opts d app st)) \<in> {KnownRelationships, NoCachedRelationships}"
proof -
  let ?m = "iv_discoveries iv" and ?sm = "ac_summary (iv_account iv)"
  have ids: "map sv_sys_id (servers_of ?m) = map fst ?m" using keyed_servers [OF keyed_discoveries [OF run(1)]] by blast
  obtain sm' st' h' where persisted: "persist_traversal rn opts (ap_sys_id app) (servers_of ?m) (provenances_of ?m) (paths_of ?m) ?sm st
      = (Inr (), sm', st')" "st_health st' = bt_insert (ap_sys_id app) h' (st_health st)" "he_inventory h' = inventory_of ?sm"
    using persist_traversal_after [OF st, of rn "ap_sys_id app" "servers_of ?m" opts "provenances_of ?m" "paths_of ?m" ?sm] can ids by auto
  have state: "snd (servers_with_options q rn opts d app st) = st'" by (rule persisted_state [OF run persisted(1)])
  have "h' = h" using h persisted(2) by (simp add: state)
  then have inventory: "inventory_of ?sm = ''complete''" using complete persisted(3) by simp
  then have all: "\<not> sm_truncated ?sm" "relationship_health_status ?sm = ''ok''" "service_membership_health_status ?sm \<in> {''ok'', ''not_attempted''}"
    by (auto simp: inventory_of_def inventory_health_status_def split: if_splits)
  have "\<not> limited ?sm" using discover_servers_marked [OF run(1)] all(1) by (simp add: marked_def)
  moreover have "sm_relationship_acl ?sm = 0" using all(2) by (simp add: relationship_health_status_def split: if_splits)
  ultimately show ?thesis
    using all(3) h complete by (simp add: cached_status_def cached_relationship_status_def state)
qed

theorem complete_means_uncut_witness:
  "\<exists>iv h. discover_servers demo_cmdb (demo_options 5) True (ap_sys_id demo_app) = Inr iv
     \<and> bt_get (st_health (snd (servers_with_options demo_cmdb demo_run (demo_options 5) True demo_app demo_store))) (ap_sys_id demo_app) = Some h
     \<and> he_inventory h = ''complete'' \<and> \<not> limited (ac_summary (iv_account iv))"
proof -
  let ?st = "snd (servers_with_options demo_cmdb demo_run (demo_options 5) True demo_app demo_store)"
  obtain iv where iv: "discover_servers demo_cmdb (demo_options 5) True (ap_sys_id demo_app) = Inr iv"
    and sm: "ac_summary (iv_account iv) = demo_summary\<lparr>sm_servers_found := 2\<rparr>"
    using demo_discoveries by (auto simp: demo_app_def)
  have persist: "so_persist (demo_options 5)" by (simp add: demo_options_def)
  have can: "run_can_write demo_run (ap_sys_id demo_app) (map fst (iv_discoveries iv))"
    by (simp add: run_can_write_def demo_run_def list_all_iff)
  let ?m = "iv_discoveries iv"
  have ids: "map sv_sys_id (servers_of ?m) = map fst ?m" using keyed_servers [OF keyed_discoveries [OF iv]] by blast
  obtain sm' st' h where persisted: "persist_traversal demo_run (demo_options 5) (ap_sys_id demo_app) (servers_of ?m) (provenances_of ?m)
        (paths_of ?m) (ac_summary (iv_account iv)) demo_store = (Inr (), sm', st')"
      "st_health st' = bt_insert (ap_sys_id demo_app) h (st_health demo_store)" "he_inventory h = inventory_of (ac_summary (iv_account iv))"
    using persist_traversal_after [OF demo_store_ok, of demo_run "ap_sys_id demo_app" "servers_of ?m" "demo_options 5"
        "provenances_of ?m" "paths_of ?m" "ac_summary (iv_account iv)"] can ids by auto
  have "?st = st'" by (rule persisted_state [OF iv persist persisted(1)])
  then have h: "bt_get (st_health ?st) (ap_sys_id demo_app) = Some h" using persisted(2) by simp
  have complete: "he_inventory h = ''complete''"
    by (simp add: persisted(3) sm demo_summary_def summary_new_def inventory_of_def inventory_health_status_def
        relationship_health_status_def service_membership_health_status_def)
  show ?thesis using complete_means_uncut [OF iv persist demo_store_ok can h complete] iv h complete by blast
qed

subsection \<open>What a complete inventory does not know\<close>

text \<open>a denied read of classes leaves the inventory complete: the restriction is counted, the CIs stay without a
  class, so neither they nor what they run on are looked at, and none of the statuses changes.\<close>

theorem denied_classes_complete:
  assumes "cq_ci_classes q level (filter (\<lambda>i. bt_get classes i = None) ids) = Inl e" "denied e"
    and "i \<in> set ids" "bt_get classes i = None"
  shows "\<exists>ac'. hydrate_ci_classes q level ids (classes, ac) = Inr (classes, ac')
    \<and> sm_acl_restricted (ac_summary ac) < sm_acl_restricted (ac_summary ac') \<and> inventory_of (ac_summary ac') = inventory_of (ac_summary ac)"
proof -
  let ?pending = "filter (\<lambda>i. bt_get classes i = None) ids"
  have pending: "?pending \<noteq> []" using assms(3,4) by (auto simp: filter_empty_conv)
  let ?ac = "each_denied ''sys_class_name'' ''cmdb_ci'' ''ACL restricted cmdb_ci class read'' ?pending ac"
  have push: "sm_acl_restricted (ac_summary (fold (\<lambda>i. push_diagnostic f t i r m) is ac)) = sm_acl_restricted (ac_summary ac)
      \<and> inventory_of (ac_summary (fold (\<lambda>i. push_diagnostic f t i r m) is ac)) = inventory_of (ac_summary ac)" for f t r m "is" ac
    by (induction "is" arbitrary: ac) (simp_all add: push_diagnostic_def record_degraded_reason_def inventory_of_def
        inventory_health_status_def relationship_health_status_def service_membership_health_status_def)
  have "inventory_of (ac_summary (on_summary (\<lambda>sm. sm\<lparr>sm_acl_restricted := k sm\<rparr>) ac)) = inventory_of (ac_summary ac)" for k
    by (simp add: on_summary_def inventory_of_def inventory_health_status_def relationship_health_status_def
        service_membership_health_status_def)
  then have "inventory_of (ac_summary ?ac) = inventory_of (ac_summary ac)" by (simp add: each_denied_def push)
  moreover have "sm_acl_restricted (ac_summary ac) < sm_acl_restricted (ac_summary ?ac)"
    using pending by (simp add: each_denied_def push) (simp add: on_summary_def)
  moreover have "hydrate_ci_classes q level ids (classes, ac) = Inr (classes, ?ac)"
    using pending assms(1,2) by (simp add: hydrate_ci_classes_def Let_def)
  ultimately show ?thesis by blast
qed

theorem denied_classes_complete_witness:
  "\<exists>ac'. hydrate_ci_classes (demo_cmdb\<lparr>cq_ci_classes := (\<lambda>level ids. Inl (ApiStatus 403 ''no''))\<rparr>) 1 [demo_id CHR ''c'']
      ([], \<lparr>ac_summary = summary_new (demo_options 5), ac_diagnostics = []\<rparr>) = Inr ([], ac')
    \<and> inventory_of (ac_summary ac') = ''complete''"
proof -
  have "inventory_of (summary_new (demo_options 5)) = ''complete''"
    by (simp add: inventory_of_def inventory_health_status_def relationship_health_status_def
        service_membership_health_status_def summary_new_def)
  then show ?thesis
    using denied_classes_complete [of "demo_cmdb\<lparr>cq_ci_classes := (\<lambda>level ids. Inl (ApiStatus 403 ''no''))\<rparr>" 1 "[]"
        "[demo_id CHR ''c'']" "ApiStatus 403 ''no''" "demo_id CHR ''c''"
        "\<lparr>ac_summary = summary_new (demo_options 5), ac_diagnostics = []\<rparr>"] by auto
qed

end
