(* ===== verification/Bulk_Domain.thy ===== *)
theory Bulk_Domain
  imports Tables Json Policy Confirmation_Store
begin

text \<open>
  Finite bulk Incident updates (\<open>snow_daemon/src/incident_bulk_write.rs\<close>): the requests, the
  plan, the receipt, and the pure parts of the handlers: target limits, selectors, patch fields,
  supplied concurrency tokens, the bookkeeping of the receipt, and the public codes.

  The fields of an incident are the map from field names to raw values, the only part of
  \<open>FieldValue\<close> this code reads.
\<close>

definition bulk_plan_tool :: string where
  "bulk_plan_tool = ''incident_bulk_plan_update''"

definition bulk_apply_tool :: string where
  "bulk_apply_tool = ''incident_bulk_apply_update''"

definition bulk_plan_ttl :: int where
  "bulk_plan_ttl = 600"

definition bulk_min_targets :: nat where
  "bulk_min_targets = 3"

definition bulk_max_targets :: nat where
  "bulk_max_targets = 25"

definition journal_max_chars :: nat where
  "journal_max_chars = 16000"

subsection \<open>Requests, plans and receipts\<close>

record incident_patch =
  ip_assigned_to :: "string option"
  ip_assignment_group :: "string option"
  ip_state :: "string option"
  ip_work_notes :: "string option"
  ip_comments :: "string option"

record bulk_target_request =
  tr_number :: "string option"
  tr_sys_id :: "string option"
  tr_patch :: "incident_patch option"

record bulk_plan_request =
  pq_shared_patch :: "incident_patch option"
  pq_targets :: "bulk_target_request list"

record bulk_concurrency_token =
  ct_sys_id :: string
  ct_sys_updated_on :: string

record bulk_apply_request =
  bq_plan_id :: string
  bq_confirmation_token :: string
  bq_idempotency_key :: string
  bq_concurrency_tokens :: "bulk_concurrency_token list"

type_synonym effective_patch = "(string, string) btree"

text \<open>\<open>BulkPlannedTarget\<close> with its identity and its preview token.\<close>

record bulk_planned_target =
  bt_number :: string
  bt_sys_id :: string
  bt_patch :: effective_patch
  bt_sys_updated_on :: string

record bulk_plan =
  bp_plan_id :: string
  bp_op_hash :: string
  bp_actor :: string
  bp_requester :: string
  bp_environment :: string
  bp_targets :: "bulk_planned_target list"
  bp_created_at :: time
  bp_expires_at :: time

datatype bulk_receipt_status = BulkSuccess | BulkPartial

datatype bulk_target_status = TargetApplied | TargetFailed | TargetNotAttempted

record bulk_field_change =
  fd_field :: string
  fd_before_hash :: string
  fd_after_hash :: string

record bulk_target_result =
  bs_number :: string
  bs_sys_id :: string
  bs_status :: bulk_target_status
  bs_changed_fields :: "bulk_field_change list"
  bs_observed :: string
  bs_error_code :: "string option"

record bulk_receipt =
  br_plan_id :: string
  br_audit_id :: string
  br_parent_audit_id :: string
  br_tool :: string
  br_status :: bulk_receipt_status
  br_op_hash :: string
  br_replay :: bool
  br_results :: "bulk_target_result list"
  br_applied_count :: nat
  br_failed_count :: nat
  br_not_attempted_count :: nat
  br_cache_coherent :: bool
  br_apply_started_at :: time
  br_completed_at :: time

text \<open>A live choice of a field: the label and the value, the parts the reads look at.\<close>

record incident_choice =
  nc_label :: string
  nc_value :: string

text \<open>A state error tells whether the selector was ambiguous or the choices unavailable.\<close>

datatype incident_read_error =
    IncidentInvalidParams string
  | IncidentStateUnresolved string bool bool "incident_choice list"
  | IncidentNotFound
  | IncidentNumberAmbiguous
  | IncidentLookupUnavailable
  | IncidentAclDenied
  | IncidentUnavailable
  | IncidentServiceNowError

datatype build_error =
    InvalidTarget string string
  | ReadFailed incident_read_error

fun public_code :: "build_error \<Rightarrow> string" where
  "public_code (InvalidTarget code _) = code"
| "public_code (ReadFailed IncidentNotFound) = ''INCIDENT_NOT_FOUND''"
| "public_code (ReadFailed IncidentNumberAmbiguous) = ''INCIDENT_NUMBER_AMBIGUOUS''"
| "public_code (ReadFailed IncidentLookupUnavailable) = ''INCIDENT_LOOKUP_UNAVAILABLE''"
| "public_code (ReadFailed IncidentAclDenied) = ''ACL_DENIED''"
| "public_code (ReadFailed IncidentUnavailable) = ''SERVICENOW_UNAVAILABLE''"
| "public_code (ReadFailed (IncidentStateUnresolved _ _ _ _)) = ''INCIDENT_STATE_UNRESOLVED''"
| "public_code (ReadFailed (IncidentInvalidParams _)) = ''INVALID_PARAMS''"
| "public_code (ReadFailed IncidentServiceNowError) = ''SERVICENOW_ERROR''"

subsection \<open>Selectors and fields\<close>

datatype target_selector =
    ByNumber string
  | BySysId string

definition valid_incident_number :: "string \<Rightarrow> bool" where
  "valid_incident_number v = (let s = trim v
     in starts_with ''INC'' s \<and> 3 < length s \<and> list_all is_digit (drop 3 s))"

definition valid_sys_id :: "string \<Rightarrow> bool" where
  "valid_sys_id v = (length v = 32 \<and> list_all is_hexdigit v)"

definition select_target :: "bulk_target_request \<Rightarrow> (build_error, target_selector) result" where
  "select_target t =
     (case (tr_number t, tr_sys_id t) of
        (Some number, None) \<Rightarrow>
          if valid_incident_number number then Inr (ByNumber (to_upper number))
          else Inl (InvalidTarget ''INVALID_SELECTOR'' ''each target requires exactly one valid number or sys_id'')
      | (None, Some sys_id) \<Rightarrow>
          if valid_sys_id sys_id then Inr (BySysId (to_lower sys_id))
          else Inl (InvalidTarget ''INVALID_SELECTOR'' ''each target requires exactly one valid number or sys_id'')
      | _ \<Rightarrow> Inl (InvalidTarget ''INVALID_SELECTOR'' ''each target requires exactly one valid number or sys_id''))"

record resolved_target =
  rt_number :: string
  rt_sys_id :: string
  rt_sys_updated_on :: string
  rt_fields :: "(string, string) btree"

text \<open>The part of \<open>read_target\<close> after the incident is read.\<close>

definition trimmed_field :: "(string, string) btree \<Rightarrow> string \<Rightarrow> string option" where
  "trimmed_field fs name =
     (case map_option trim (bt_get fs name) of Some v \<Rightarrow> (if v = [] then None else Some v) | None \<Rightarrow> None)"

definition required_field :: "(string, string) btree \<Rightarrow> string \<Rightarrow> (build_error, string) result" where
  "required_field fs name =
     (case trimmed_field fs name of
        None \<Rightarrow> Inl (InvalidTarget ''LOOKUP_INCOMPLETE'' (''target omitted '' @ name))
      | Some v \<Rightarrow> Inr v)"

definition resolved_of_fields :: "(string, string) btree \<Rightarrow> (build_error, resolved_target) result" where
  "resolved_of_fields fs =
     bind_ok (required_field fs ''number'') (\<lambda>number.
     bind_ok (required_field fs ''sys_id'') (\<lambda>sys_id.
     bind_ok (required_field fs ''sys_updated_on'') (\<lambda>updated.
       Inr \<lparr>rt_number = number, rt_sys_id = to_lower sys_id, rt_sys_updated_on = updated, rt_fields = fs\<rparr>)))"

subsection \<open>Patches\<close>

text \<open>The characters of a UTF-8 string are its bytes that do not continue another character.\<close>

definition continues_char :: "char \<Rightarrow> bool" where
  "continues_char c = (128 \<le> char_code c \<and> char_code c < 192)"

definition char_count :: "string \<Rightarrow> nat" where
  "char_count s = length (filter (\<lambda>c. \<not> continues_char c) s)"

fun take_chars :: "nat \<Rightarrow> string \<Rightarrow> string" where
  "take_chars n [] = []"
| "take_chars n (c # cs) =
     (if continues_char c then c # take_chars n cs
      else case n of 0 \<Rightarrow> [] | Suc m \<Rightarrow> c # take_chars m cs)"

definition patch_reference ::
  "string \<Rightarrow> string option \<Rightarrow> effective_patch \<Rightarrow> (build_error, effective_patch) result" where
  "patch_reference name v m =
     (case v of
        None \<Rightarrow> Inr m
      | Some raw \<Rightarrow> let s = trim raw
          in if \<not> valid_sys_id s
             then Inl (InvalidTarget ''INVALID_REFERENCE'' (name @ '' must be an exact 32-hex sys_id''))
             else Inr (bt_insert name (to_lower s) m))"

definition patch_journal ::
  "string \<Rightarrow> string option \<Rightarrow> effective_patch \<Rightarrow> (build_error, effective_patch) result" where
  "patch_journal name v m =
     (case v of
        None \<Rightarrow> Inr m
      | Some s \<Rightarrow>
          if trim s = [] \<or> journal_max_chars < char_count s
          then Inl (InvalidTarget ''JOURNAL_REJECTED'' (name @ '' must contain 1..=16000 characters''))
          else Inr (bt_insert name s m))"

datatype group_list_error =
    GroupListInvalid string
  | GroupListUnresolved string bool "incident_choice list"

definition resolve_incident_state ::
  "string \<Rightarrow> incident_choice list \<Rightarrow> (group_list_error, incident_choice) result" where
  "resolve_incident_state selector choices =
     (let s = trim selector
      in case find (\<lambda>c. nc_value c = s) choices of
           Some c \<Rightarrow> Inr c
         | None \<Rightarrow> (case filter (\<lambda>c. eq_ignore_case (nc_label c) s) choices of
               [c] \<Rightarrow> Inr c
             | [] \<Rightarrow> Inl (GroupListUnresolved s False choices)
             | _ \<Rightarrow> Inl (GroupListUnresolved s True choices)))"

definition mentions_cancel :: "string \<Rightarrow> bool" where
  "mentions_cancel s = str_contains ''cancel'' (to_lower s)"

definition state_rejected :: "string \<Rightarrow> build_error" where
  "state_rejected reason = InvalidTarget ''STATE_REJECTED'' reason"

text \<open>The state of a patch, once the live choices are read.\<close>

definition patch_state ::
  "string \<Rightarrow> incident_choice list \<Rightarrow> effective_patch \<Rightarrow> (build_error, effective_patch) result" where
  "patch_state selector choices m =
     (case resolve_incident_state selector choices of
        Inl _ \<Rightarrow> Inl (InvalidTarget ''INCIDENT_STATE_UNRESOLVED''
                  ''state is not an exact raw value or live choice label'')
      | Inr c \<Rightarrow>
          if mentions_cancel (nc_value c) \<or> mentions_cancel (nc_label c)
          then Inl (state_rejected ''cancellation states are forbidden'')
          else Inr (bt_insert ''state'' (nc_value c) m))"

subsection \<open>Policy\<close>

definition tool_denied :: "policy_config \<Rightarrow> string \<Rightarrow> string \<Rightarrow> bool \<Rightarrow> bool" where
  "tool_denied p label tool require_environment =
     (let policy = bt_get (pc_tools p) tool;
          enabled = (case policy of Some t \<Rightarrow> tp_enabled t | None \<Rightarrow> False);
          environment_enabled = (case policy of Some t \<Rightarrow> label \<in> set (tp_environments t) | None \<Rightarrow> False)
      in \<not> enabled \<or> (require_environment \<and> \<not> environment_enabled))"

definition explicit_max :: "policy_config \<Rightarrow> string \<Rightarrow> (string, nat) result" where
  "explicit_max p tool =
     (case (case bt_get (pc_tools p) tool of Some t \<Rightarrow> tp_max_targets t | None \<Rightarrow> None) of
        Some n \<Rightarrow> Inr n
      | None \<Rightarrow> Inl (tool @ '' requires explicit max_targets''))"

definition configured_bulk_target_limit :: "policy_config \<Rightarrow> (string, nat) result" where
  "configured_bulk_target_limit p =
     bind_ok (explicit_max p bulk_plan_tool) (\<lambda>a.
     bind_ok (explicit_max p bulk_apply_tool) (\<lambda>b.
       let n = min a b
       in if bulk_min_targets \<le> n \<and> n \<le> bulk_max_targets then Inr n
          else Inl ''max_targets must be between 3 and 25''))"

definition field_allowed :: "policy_config \<Rightarrow> string \<Rightarrow> bool" where
  "field_allowed p field =
     list_all (\<lambda>tool. case bt_get (pc_tools p) tool of
         Some t \<Rightarrow> field \<in> tp_field_allowlist t
       | None \<Rightarrow> False) [bulk_plan_tool, bulk_apply_tool]"

subsection \<open>Supplied tokens and confirmations\<close>

definition target_token :: "bulk_planned_target \<Rightarrow> bulk_concurrency_token" where
  "target_token t = \<lparr>ct_sys_id = bt_sys_id t, ct_sys_updated_on = bt_sys_updated_on t\<rparr>"

definition validate_supplied_tokens :: "bulk_concurrency_token list \<Rightarrow> bulk_plan \<Rightarrow> (string, unit) result" where
  "validate_supplied_tokens tokens plan =
     (if length tokens \<noteq> length (bp_targets plan)
      then Inl ''concurrency_tokens must contain every planned target exactly once''
      else if tokens \<noteq> map target_token (bp_targets plan)
      then Inl ''concurrency_tokens do not byte-match canonical plan order''
      else Inr ())"

definition validate_confirmation_record ::
  "time \<Rightarrow> confirmation_record \<Rightarrow> confirmation_binding \<Rightarrow> (confirmation_consume_error, unit) result" where
  "validate_confirmation_record now r b =
     (if cr_revoked r then Inl Revoked
      else if cr_expires_at r \<le> now then Inl TokenExpired
      else if cr_consumed r then Inl AlreadyConsumed
      else case binding_mismatch r b of
        Some f \<Rightarrow> Inl (BindingMismatch f)
      | None \<Rightarrow> Inr ())"

text \<open>The plan is bound to the actor, requester and environment of the apply.\<close>

definition plan_binding_mismatch :: "bulk_plan \<Rightarrow> confirmation_binding \<Rightarrow> string option" where
  "plan_binding_mismatch plan b = map_option fst (find (\<lambda>(field, planned, current). planned \<noteq> current)
     [(''actor'', bp_actor plan, cb_actor b),
      (''requester'', bp_requester plan, cb_requester b),
      (''environment'', bp_environment plan, cb_environment b)])"

subsection \<open>The receipt\<close>

definition initial_result :: "bulk_planned_target \<Rightarrow> bulk_target_result" where
  "initial_result t = \<lparr>bs_number = bt_number t, bs_sys_id = bt_sys_id t, bs_status = TargetNotAttempted,
     bs_changed_fields = [], bs_observed = bt_sys_updated_on t, bs_error_code = None\<rparr>"

definition initial_receipt :: "bulk_plan \<Rightarrow> string \<Rightarrow> time \<Rightarrow> bulk_receipt" where
  "initial_receipt plan audit_id started =
     \<lparr>br_plan_id = bp_plan_id plan, br_audit_id = audit_id, br_parent_audit_id = bp_plan_id plan,
      br_tool = bulk_apply_tool, br_status = BulkSuccess, br_op_hash = bp_op_hash plan,
      br_replay = False, br_results = map initial_result (bp_targets plan),
      br_applied_count = 0, br_failed_count = 0, br_not_attempted_count = length (bp_targets plan),
      br_cache_coherent = True, br_apply_started_at = started, br_completed_at = started\<rparr>"

definition count_status :: "bulk_target_status \<Rightarrow> bulk_target_result list \<Rightarrow> nat" where
  "count_status s rs = length (filter (\<lambda>r. bs_status r = s) rs)"

definition recount :: "bulk_receipt \<Rightarrow> bulk_receipt" where
  "recount rc = rc\<lparr>br_applied_count := count_status TargetApplied (br_results rc),
     br_failed_count := count_status TargetFailed (br_results rc),
     br_not_attempted_count := count_status TargetNotAttempted (br_results rc)\<rparr>"

definition hash_value :: "(string \<Rightarrow> string) \<Rightarrow> string option \<Rightarrow> string" where
  "hash_value sha256 v = sha256 (case v of Some s \<Rightarrow> s | None \<Rightarrow> [])"

definition mark_applied ::
  "(string \<Rightarrow> string) \<Rightarrow> nat \<Rightarrow> bulk_planned_target \<Rightarrow> (string, string) btree \<Rightarrow> string
     \<Rightarrow> bulk_receipt \<Rightarrow> bulk_receipt" where
  "mark_applied sha256 i t before observed rc =
     recount (rc\<lparr>br_results := (br_results rc)[i := \<lparr>bs_number = bt_number t, bs_sys_id = bt_sys_id t,
        bs_status = TargetApplied,
        bs_changed_fields = map (\<lambda>(field, v). \<lparr>fd_field = field,
            fd_before_hash = hash_value sha256 (bt_get before field),
            fd_after_hash = hash_value sha256 (Some v)\<rparr>) (bt_patch t),
        bs_observed = observed, bs_error_code = None\<rparr>]\<rparr>)"

definition reset_result :: "bulk_target_result \<Rightarrow> bulk_target_result" where
  "reset_result r = r\<lparr>bs_status := TargetNotAttempted, bs_changed_fields := [], bs_error_code := None\<rparr>"

definition mark_not_attempted_after :: "nat \<Rightarrow> bulk_receipt \<Rightarrow> bulk_receipt" where
  "mark_not_attempted_after i rc =
     recount (rc\<lparr>br_results := take (i + 1) (br_results rc) @ map reset_result (drop (i + 1) (br_results rc))\<rparr>)"

definition mark_failed_and_remaining :: "nat \<Rightarrow> string \<Rightarrow> string \<Rightarrow> bulk_receipt \<Rightarrow> bulk_receipt" where
  "mark_failed_and_remaining i code observed rc =
     (let r = br_results rc ! i;
          r1 = r\<lparr>bs_status := TargetFailed, bs_error_code := Some code\<rparr>;
          r2 = (if observed \<noteq> [] then r1\<lparr>bs_observed := observed\<rparr> else r1)
      in recount (mark_not_attempted_after i (rc\<lparr>br_results := (br_results rc)[i := r2]\<rparr>)))"

subsection \<open>Audit summaries\<close>

definition redacted_plan_summary :: "bulk_plan \<Rightarrow> json" where
  "redacted_plan_summary plan = jobj [(''op_hash'', JStr (bp_op_hash plan)),
     (''targets'', JArr (map (\<lambda>t. jobj [(''number'', JStr (bt_number t)), (''sys_id'', JStr (bt_sys_id t)),
        (''fields'', JArr (map JStr (bt_keys (bt_patch t))))]) (bp_targets plan)))]"

fun receipt_status_text :: "bulk_receipt_status \<Rightarrow> string" where
  "receipt_status_text BulkSuccess = ''success''"
| "receipt_status_text BulkPartial = ''partial''"

definition redacted_receipt_summary :: "bulk_receipt \<Rightarrow> json" where
  "redacted_receipt_summary rc = jobj [(''op_hash'', JStr (br_op_hash rc)),
     (''status'', JStr (receipt_status_text (br_status rc))),
     (''applied_count'', JNum (nat_text (br_applied_count rc))),
     (''failed_count'', JNum (nat_text (br_failed_count rc))),
     (''not_attempted_count'', JNum (nat_text (br_not_attempted_count rc))),
     (''cache_coherent'', JBool (br_cache_coherent rc))]"

subsection \<open>The upstream diagnostic\<close>

text \<open>The kinds of \<open>anyhow::Error\<close> the diagnostic distinguishes.\<close>

datatype upstream_error =
    UpApi nat string
  | UpAuth string
  | UpRateLimited
  | UpHttpStatus nat
  | UpTransport
  | UpOther

fun diagnostic_candidate :: "upstream_error \<Rightarrow> string" where
  "diagnostic_candidate (UpApi status message) = ''ServiceNow API '' @ nat_text status @ '': '' @ message"
| "diagnostic_candidate (UpAuth status) = ''ServiceNow authentication rejected with status '' @ status"
| "diagnostic_candidate UpRateLimited = ''ServiceNow rate limited the request''"
| "diagnostic_candidate (UpHttpStatus status) = ''ServiceNow HTTP status '' @ nat_text status"
| "diagnostic_candidate UpTransport = ''ServiceNow transport failure''"
| "diagnostic_candidate UpOther = ''ServiceNow request failed''"

definition diagnostic_markers :: "string list" where
  "diagnostic_markers = [''http://'', ''https://'', ''authorization'', ''bearer '', ''basic '', ''password'',
     ''work_notes'', ''comments'']"

definition safe_upstream_diagnostic :: "upstream_error \<Rightarrow> string list \<Rightarrow> string" where
  "safe_upstream_diagnostic err sensitive =
     (let candidate = diagnostic_candidate err; lowered = to_lower candidate
      in if list_ex (\<lambda>m. str_contains m lowered) diagnostic_markers
            \<or> list_ex (\<lambda>v. str_contains v candidate) (filter (\<lambda>v. v \<noteq> []) sensitive)
         then ''ServiceNow request failed with a redacted diagnostic''
         else take_chars 240 candidate)"

end
