(* ===== verification/Bulk_World.thy ===== *)
theory Bulk_World
  imports Steps Bulk_Domain Audit_Log
begin

text \<open>
  The world of a bulk Incident request (\<open>snow_daemon/src/incident_bulk_write.rs\<close>, and the audit
  append it borrows from \<open>change_write.rs\<close>): the tables of \<open>BulkStore\<close>, the confirmation and
  audit tables, and the readings of the outside, each taken at the running count \<open>w_tick\<close>.

  Rows hold plans, receipts and errors as values; a row whose JSON does not parse is a statement
  that fails. \<open>serde_json\<close>, SHA-256 in hexadecimal, \<open>chrono::Duration::seconds\<close> (\<open>None\<close> where it
  panics) and the ServiceNow client are fields of the environment. \<open>be_others\<close> is what other
  requests do to the stores while this one awaits the client.
\<close>

record rpc_error =
  rpc_code :: int
  rpc_message :: string
  rpc_data :: json

datatype bulk_response =
    BulkPlanned bulk_plan string string
  | BulkReceipted bulk_receipt
  | BulkPartialFailure string bool "string option" bulk_receipt
  | BulkError rpc_error

record bulk_plan_row =
  pw_plan :: bulk_plan
  pw_consumed :: bool

record bulk_key_row =
  kw_op_hash :: string
  kw_receipt :: "bulk_receipt option"
  kw_terminal_error :: "rpc_error option"
  kw_progress :: "bulk_receipt option"
  kw_apply_started_at :: "time option"
  kw_created_at :: time
  kw_expires_at :: time

type_synonym bulk_plan_table = "(string, bulk_plan_row) btree"
type_synonym bulk_key_table = "(string \<times> string, bulk_key_row) btree"

record bulk_stores =
  bo_plans :: bulk_plan_table
  bo_keys :: bulk_key_table
  bo_confirmations :: confirmation_table
  bo_audit :: audit_table

text \<open>One PATCH: the target and its effective patch.\<close>

type_synonym bulk_write = "string \<times> effective_patch"

type_synonym bulk_world = "(bulk_stores, bulk_write) world_of"

type_synonym ('e, 'a) bulk_step = "(bulk_world, 'e, 'a) transition"

record bulk_env =
  be_policy :: policy_config
  be_label :: string
  be_retention_days :: nat
  be_user :: string
  be_duration :: "int \<Rightarrow> time option"
  be_sha256 :: "string \<Rightarrow> string"
  be_preview_json :: "bulk_planned_target list \<Rightarrow> string"
  be_event_ser :: event_ser
  be_clock :: "nat \<Rightarrow> time"
  be_uuid :: "nat \<Rightarrow> string"
  be_sql_ok :: "nat \<Rightarrow> bool"
  be_env_var :: "nat \<Rightarrow> string \<Rightarrow> string option"
  be_read_incident :: "nat \<Rightarrow> target_selector \<Rightarrow> (incident_read_error, (string, string) btree) result"
  be_state_choices :: "nat \<Rightarrow> (string, incident_choice list) result"
  be_update :: "nat \<Rightarrow> bulk_write \<Rightarrow> (upstream_error, string option) result"
  be_prune :: "nat \<Rightarrow> string \<Rightarrow> bool"
  be_others :: "nat \<Rightarrow> bulk_stores \<Rightarrow> bulk_stores"

definition bulk_sql :: "bulk_env \<Rightarrow> (bulk_stores \<Rightarrow> 'a \<times> bulk_stores) \<Rightarrow> (string, 'a) bulk_step" where
  "bulk_sql env f = statement (be_sql_ok env) f"

definition bulk_call :: "bulk_env \<Rightarrow> (nat \<Rightarrow> 'a) \<Rightarrow> ('e, 'a) bulk_step" where
  "bulk_call env f = awaiting (be_others env) f"

definition bulk_send :: "bulk_env \<Rightarrow> bulk_write \<Rightarrow> ('e, (upstream_error, string option) result) bulk_step" where
  "bulk_send env x = sending (be_others env) (be_update env) x"

subsection \<open>Responses\<close>

definition denied_code :: "string \<Rightarrow> int" where
  "denied_code code =
     (if code = ''INCIDENT_NOT_FOUND'' then -32004
      else if code = ''INCIDENT_NUMBER_AMBIGUOUS'' then -32005
      else if code = ''INCIDENT_LOOKUP_UNAVAILABLE'' then -32007
      else if code = ''ACL_DENIED'' then -32003
      else if code = ''SERVICENOW_UNAVAILABLE'' then -32001
      else if code = ''SERVICENOW_ERROR'' then -32000
      else if code = ''INCIDENT_STATE_UNRESOLVED'' \<or> code = ''INVALID_PARAMS'' \<or> code = ''INVALID_SELECTOR''
        then -32602
      else -32051)"

definition reason_error :: "int \<Rightarrow> string \<Rightarrow> string \<Rightarrow> string \<Rightarrow> rpc_error" where
  "reason_error num message code reason = \<lparr>rpc_code = num, rpc_message = message,
     rpc_data = jobj [(''code'', JStr code), (''reason'', JStr reason)]\<rparr>"

definition bulk_denied :: "string \<Rightarrow> string \<Rightarrow> bulk_response" where
  "bulk_denied code reason = BulkError (reason_error (denied_code code) code code reason)"

fun read_error_text :: "incident_read_error \<Rightarrow> string" where
  "read_error_text (IncidentInvalidParams message) = message"
| "read_error_text (IncidentStateUnresolved requested _ _ _) =
     ''incident state `'' @ requested @ ''` could not be resolved''"
| "read_error_text IncidentNotFound = ''incident not found''"
| "read_error_text IncidentNumberAmbiguous = ''incident number is ambiguous''"
| "read_error_text IncidentLookupUnavailable = ''incident lookup is unavailable''"
| "read_error_text IncidentAclDenied = ''access to incident was denied''"
| "read_error_text IncidentUnavailable = ''ServiceNow is unavailable''"
| "read_error_text IncidentServiceNowError = ''ServiceNow request failed''"

fun build_error_response :: "build_error \<Rightarrow> bulk_response" where
  "build_error_response (InvalidTarget code reason) = bulk_denied code reason"
| "build_error_response (ReadFailed err) = bulk_denied (public_code (ReadFailed err)) (read_error_text err)"

definition bulk_invalid_params :: "string \<Rightarrow> bulk_response" where
  "bulk_invalid_params err = BulkError (reason_error (-32602) ''invalid params'' ''INVALID_PARAMS'' err)"

definition confirmation_error :: "confirmation_consume_error \<Rightarrow> bulk_response" where
  "confirmation_error err =
     BulkError (reason_error (-32054) ''CONFIRMATION_INVALID'' ''CONFIRMATION_INVALID'' (consume_error_text err))"

definition pending_after_store_failure :: "string \<Rightarrow> bulk_response" where
  "pending_after_store_failure err = BulkError \<lparr>rpc_code = -32060, rpc_message = ''PENDING_RESOLUTION_REQUIRED'',
     rpc_data = jobj [(''code'', JStr ''PENDING_RESOLUTION_REQUIRED''),
       (''reason'', JStr ''a target outcome could not be durably recorded''), (''details'', JStr err)]\<rparr>"

definition bulk_internal_error :: "string \<Rightarrow> bulk_response" where
  "bulk_internal_error err = BulkError \<lparr>rpc_code = -32000, rpc_message = ''internal error'',
     rpc_data = jobj [(''details'', JStr err)]\<rparr>"

definition internally :: "(string, 'a) bulk_step \<Rightarrow> (bulk_response, 'a) bulk_step" where
  "internally m = map_err_step bulk_internal_error m"

definition pending_on_error :: "(string, 'a) bulk_step \<Rightarrow> (bulk_response, 'a) bulk_step" where
  "pending_on_error m = map_err_step pending_after_store_failure m"

subsection \<open>The tables of the bulk store\<close>

definition open_bulk_store :: "bulk_env \<Rightarrow> (string, unit) bulk_step" where
  "open_bulk_store env = bulk_sql env (\<lambda>s. ((), s))"

text \<open>\<open>INSERT\<close> fails on a row with the same primary key.\<close>

definition insert_new :: "'k::linorder \<Rightarrow> 'v \<Rightarrow> ('k, 'v) btree \<Rightarrow> (string, unit) result \<times> ('k, 'v) btree" where
  "insert_new k v t = (case bt_get t k of
     Some _ \<Rightarrow> (Inl ''UNIQUE constraint failed'', t) | None \<Rightarrow> (Inr (), bt_insert k v t))"

definition put_bulk_plan :: "bulk_env \<Rightarrow> bulk_plan \<Rightarrow> (string, unit) bulk_step" where
  "put_bulk_plan env plan = andthen (bulk_sql env (\<lambda>s.
     let (r, t) = insert_new (bp_plan_id plan) \<lparr>pw_plan = plan, pw_consumed = False\<rparr> (bo_plans s)
     in (r, s\<lparr>bo_plans := t\<rparr>))) of_result"

definition get_bulk_plan :: "bulk_env \<Rightarrow> string \<Rightarrow> (string, bulk_plan option) bulk_step" where
  "get_bulk_plan env plan_id = bulk_sql env (\<lambda>s. (map_option pw_plan (bt_get (bo_plans s) plan_id), s))"

definition mark_bulk_plan_consumed :: "bulk_env \<Rightarrow> string \<Rightarrow> (string, unit) bulk_step" where
  "mark_bulk_plan_consumed env plan_id = bulk_sql env (\<lambda>s.
     ((), s\<lparr>bo_plans := bt_update (\<lambda>k _. k = plan_id) (\<lambda>r. r\<lparr>pw_consumed := True\<rparr>) (bo_plans s)\<rparr>))"

definition reserve_bulk_key :: "bulk_env \<Rightarrow> string \<Rightarrow> string \<Rightarrow> string \<Rightarrow> nat \<Rightarrow> (string, unit) bulk_step" where
  "reserve_bulk_key env key tool op_hash window =
     andthen (ask (be_clock env)) (\<lambda>now.
     if i64_max < int window then fail ''idempotency window is too large''
     else case be_duration env (int window) of
         None \<Rightarrow> fail ''panic: TimeDelta::seconds out of bounds''
       | Some d \<Rightarrow> andthen (bulk_sql env (\<lambda>s.
           let (r, t) = insert_new (key, tool) \<lparr>kw_op_hash = op_hash, kw_receipt = None,
                 kw_terminal_error = None, kw_progress = None, kw_apply_started_at = None,
                 kw_created_at = now, kw_expires_at = now + d\<rparr> (bo_keys s)
           in (r, s\<lparr>bo_keys := t\<rparr>))) of_result)"

text \<open>An expired row is deleted when it is looked up.\<close>

definition lookup_bulk_key :: "bulk_env \<Rightarrow> string \<Rightarrow> string \<Rightarrow> (string, bulk_key_row option) bulk_step" where
  "lookup_bulk_key env key tool =
     andthen (bulk_sql env (\<lambda>s. (bt_get (bo_keys s) (key, tool), s))) (\<lambda>row.
       case row of
         None \<Rightarrow> ok None
       | Some r \<Rightarrow> andthen (ask (be_clock env)) (\<lambda>now.
           if kw_expires_at r \<le> now
           then andthen (bulk_sql env (\<lambda>s. ((), s\<lparr>bo_keys := bt_remove (key, tool) (bo_keys s)\<rparr>))) (\<lambda>_. ok None)
           else ok (Some r)))"

definition update_key :: "(bulk_key_row \<Rightarrow> bool) \<Rightarrow> (bulk_key_row \<Rightarrow> bulk_key_row) \<Rightarrow> string \<Rightarrow> string
    \<Rightarrow> bulk_stores \<Rightarrow> bulk_stores" where
  "update_key P f key tool s = s\<lparr>bo_keys := bt_update (\<lambda>k r. k = (key, tool) \<and> P r) f (bo_keys s)\<rparr>"

definition bulk_startable :: "bulk_key_row \<Rightarrow> bool" where
  "bulk_startable r = (kw_apply_started_at r = None \<and> kw_receipt r = None \<and> kw_terminal_error r = None)"

definition mark_bulk_started :: "bulk_env \<Rightarrow> string \<Rightarrow> string \<Rightarrow> (string, bool) bulk_step" where
  "mark_bulk_started env key tool = andthen (ask (be_clock env)) (\<lambda>now. bulk_sql env (\<lambda>s.
     (bt_count (\<lambda>k r. k = (key, tool) \<and> bulk_startable r) (bo_keys s) = 1,
      update_key bulk_startable (\<lambda>r. r\<lparr>kw_apply_started_at := Some now\<rparr>) key tool s)))"

definition clear_bulk_started :: "bulk_env \<Rightarrow> string \<Rightarrow> string \<Rightarrow> (string, unit) bulk_step" where
  "clear_bulk_started env key tool = bulk_sql env (\<lambda>s.
     ((), update_key (\<lambda>r. kw_receipt r = None \<and> kw_terminal_error r = None)
            (\<lambda>r. r\<lparr>kw_apply_started_at := None\<rparr>) key tool s))"

definition save_bulk_progress :: "bulk_env \<Rightarrow> string \<Rightarrow> bulk_receipt \<Rightarrow> (string, unit) bulk_step" where
  "save_bulk_progress env key rc = bulk_sql env (\<lambda>s.
     ((), update_key (\<lambda>_. True) (\<lambda>r. r\<lparr>kw_progress := Some rc\<rparr>) key bulk_apply_tool s))"

definition save_final_receipt :: "bulk_env \<Rightarrow> string \<Rightarrow> string \<Rightarrow> bulk_receipt \<Rightarrow> (string, unit) bulk_step" where
  "save_final_receipt env key tool rc = bulk_sql env (\<lambda>s.
     ((), update_key (\<lambda>_. True) (\<lambda>r. r\<lparr>kw_receipt := Some rc, kw_progress := Some rc\<rparr>) key tool s))"

definition save_terminal_error :: "bulk_env \<Rightarrow> string \<Rightarrow> rpc_error \<Rightarrow> (string, unit) bulk_step" where
  "save_terminal_error env key err = bulk_sql env (\<lambda>s.
     ((), update_key (\<lambda>_. True) (\<lambda>r. r\<lparr>kw_terminal_error := Some err\<rparr>) key bulk_apply_tool s))"

subsection \<open>Confirmations and the audit log\<close>

definition open_confirmations :: "bulk_env \<Rightarrow> (string, unit) bulk_step" where
  "open_confirmations env = bulk_sql env (\<lambda>s. ((), s))"

definition lookup_bulk_token :: "bulk_env \<Rightarrow> string \<Rightarrow> (string, confirmation_record option) bulk_step" where
  "lookup_bulk_token env token = bulk_sql env (\<lambda>s. (conf_lookup (bo_confirmations s) token, s))"

definition consume_bulk_token ::
  "bulk_env \<Rightarrow> string \<Rightarrow> confirmation_binding \<Rightarrow> (confirmation_consume_error, confirmation_record) bulk_step" where
  "consume_bulk_token env token b = (\<lambda>w. let i = w_tick w;
       (r, c) = conf_consume (be_sql_ok env i) (be_sql_ok env (i + 1)) (be_clock env (i + 2)) token b
                  (bo_confirmations (w_stores w))
     in (r, w\<lparr>w_tick := i + 3, w_stores := (w_stores w)\<lparr>bo_confirmations := c\<rparr>\<rparr>))"

definition issue_bulk_token ::
  "bulk_env \<Rightarrow> string \<Rightarrow> confirmation_binding \<Rightarrow> 64 word \<Rightarrow> (string, confirmation_record) bulk_step" where
  "issue_bulk_token env plan_id b ttl = andthen (ask (be_clock env)) (\<lambda>now. andthen (ask (be_uuid env)) (\<lambda>token.
     andthen (bulk_sql env (\<lambda>s.
         let (r, t) = conf_issue (be_duration env) now token plan_id b ttl (bo_confirmations s)
         in (r, s\<lparr>bo_confirmations := t\<rparr>))) (\<lambda>r.
       case r of Inl _ \<Rightarrow> fail ''issue failed'' | Inr x \<Rightarrow> ok x)))"

definition change_decisions_for :: "string \<Rightarrow> result_status \<Rightarrow> error_row option \<Rightarrow> policy_decision_row list" where
  "change_decisions_for tool status error =
     (let code = map_option er_code error;
          is = (\<lambda>c. code = Some c)
      in map (\<lambda>(gate, verdict). \<lparr>pd_gate = gate, pd_verdict = verdict, pd_reason = None, pd_remediation = None\<rparr>)
        (if is ''FIELD_REJECTED'' then [(''FieldAllowlist'', ''Deny'')]
         else if is ''GUARD_FAILED'' then [(''Resolution'', ''Deny'')]
         else if is ''IDEMPOTENCY_CONFLICT'' \<or> is ''PENDING_RESOLUTION_REQUIRED'' then [(''Idempotency'', ''Deny'')]
         else if is ''CONCURRENCY_CONFLICT'' \<or> is ''CONCURRENCY_TOKEN_INVALID'' then [(''ConcurrencyToken'', ''Deny'')]
         else if is ''CONFIRMATION_INVALID'' \<or> is ''PLAN_EXPIRED'' then [(''Confirmation'', ''Deny'')]
         else if is ''KILL_SWITCH'' then [(''EnvironmentGate'', ''Deny'')]
         else if is ''RATE_LIMITED'' then [(''RateLimit'', ''Deny'')]
         else if status = SAppliedSuccess then [(''Confirmation'', ''Allow''), (''Idempotency'', ''Allow''),
           (''ConcurrencyToken'', ''Allow''), (''FieldAllowlist'', ''Allow'')]
         else if status = SPlan then [(''FieldAllowlist'', ''Allow''), (''EnvironmentGate'', ''Allow'')]
         else []))"

definition request_identity :: "string \<Rightarrow> actor_identity" where
  "request_identity subject = \<lparr>ai_subject = subject, ai_display_name = subject,
     ai_source_claim = ''mcp_request''\<rparr>"

text \<open>The calls of this program pass no ServiceNow metadata and no applied changes.\<close>

definition bulk_event ::
  "bulk_env \<Rightarrow> time \<Rightarrow> string \<Rightarrow> string option \<Rightarrow> string \<Rightarrow> result_status \<Rightarrow> json
     \<Rightarrow> error_row option \<Rightarrow> string \<Rightarrow> string \<Rightarrow> audit_event" where
  "bulk_event env now audit_id parent tool status planned error actor requester =
     (event_new_plan now audit_id (be_label env) (request_identity actor) (request_identity requester)
        \<lparr>cl_client_id = Some ''snow_daemon'', cl_user_agent = None, cl_transport = ''daemon_json_rpc''\<rparr> tool)
       \<lparr>ae_parent_audit_id := parent, ae_result_status := status,
        ae_policy_decisions := change_decisions_for tool status error,
        ae_normalized_arguments_redacted := planned,
        ae_planned_changes := Some planned, ae_applied_changes := None,
        ae_service_now_metadata := None, ae_error := error\<rparr>"

definition append_bulk_audit ::
  "bulk_env \<Rightarrow> string \<Rightarrow> string option \<Rightarrow> string \<Rightarrow> result_status \<Rightarrow> json \<Rightarrow> error_row option
     \<Rightarrow> string \<Rightarrow> string \<Rightarrow> (string, unit) bulk_step" where
  "append_bulk_audit env audit_id parent tool status planned error actor requester =
     andthen (bulk_sql env (\<lambda>s. ((), s))) (\<lambda>_.
     andthen (ask (be_clock env)) (\<lambda>swept.
     andthen (bulk_sql env (\<lambda>s.
        let (n, t) = enforce_retention (be_sha256 env) (be_event_ser env) swept (be_retention_days env) (bo_audit s)
        in (n, s\<lparr>bo_audit := t\<rparr>))) (\<lambda>_.
     andthen (ask (be_clock env)) (\<lambda>now. andthen (ask (be_clock env)) (\<lambda>now2.
     andthen (bulk_sql env (\<lambda>s.
        let (r, t) = append_event (be_sha256 env) (be_event_ser env) now2
              (bulk_event env now audit_id parent tool status planned error actor requester) (bo_audit s)
        in (r, s\<lparr>bo_audit := t\<rparr>))) (\<lambda>r.
       case r of Inl _ \<Rightarrow> fail ''UNIQUE constraint failed: mcp_audit_events.audit_id'' | Inr _ \<Rightarrow> ok ()))))))"

end
