(* ===== verification/Bulk_Plan.thy ===== *)
theory Bulk_Plan
  imports Bulk_World
begin

text \<open>
  Planning a bulk Incident update: \<open>handle_plan\<close> of \<open>snow_daemon/src/incident_bulk_write.rs\<close>.
  The targets are resolved one by one against ServiceNow, sorted by \<open>sys_id\<close> and stored with a
  confirmation token and a reserved idempotency key; nothing is written upstream.

  A handler takes the request as \<open>serde\<close> decoded it (unknown fields rejected), or its error.
\<close>

definition read_target :: "bulk_env \<Rightarrow> target_selector \<Rightarrow> (build_error, resolved_target) bulk_step" where
  "read_target env selector =
     andthen (bulk_call env (\<lambda>i. be_read_incident env i selector)) (\<lambda>r.
       of_result (bind_ok (map_err ReadFailed r) resolved_of_fields))"

definition normalize_state ::
  "bulk_env \<Rightarrow> string option \<Rightarrow> effective_patch \<Rightarrow> (build_error, effective_patch) bulk_step" where
  "normalize_state env v m =
     (case v of
        None \<Rightarrow> ok m
      | Some raw \<Rightarrow> let s = trim raw
          in if s = [] \<or> mentions_cancel s
             then fail (state_rejected ''state is empty or cancellation is forbidden'')
             else andthen (bulk_call env (be_state_choices env)) (\<lambda>r.
                case r of
                  Inl _ \<Rightarrow> fail (ReadFailed IncidentServiceNowError)
                | Inr choices \<Rightarrow> of_result (patch_state s choices m)))"

definition normalize_patch ::
  "bulk_env \<Rightarrow> incident_patch option \<Rightarrow> (build_error, effective_patch) bulk_step" where
  "normalize_patch env patch =
     (case patch of
        None \<Rightarrow> ok []
      | Some p \<Rightarrow>
          andthen (of_result (bind_ok (patch_reference ''assigned_to'' (ip_assigned_to p) [])
             (patch_reference ''assignment_group'' (ip_assignment_group p)))) (\<lambda>m.
          andthen (normalize_state env (ip_state p) m) (\<lambda>m.
            of_result (bind_ok (patch_journal ''work_notes'' (ip_work_notes p) m)
              (patch_journal ''comments'' (ip_comments p))))))"

definition build_step :: "(build_error, 'a) bulk_step \<Rightarrow> (bulk_response, 'a) bulk_step" where
  "build_step m = map_err_step build_error_response m"

definition policy_denial :: "bulk_env \<Rightarrow> string \<Rightarrow> (bulk_response, unit) bulk_step" where
  "policy_denial env tool =
     (if tool_denied (be_policy env) (be_label env) tool True
      then fail (bulk_denied ''POLICY_DENIED'' (tool @ '' is disabled for the named environment''))
      else ok ())"

text \<open>Merging the shared patch into that of a target (\<open>extend\<close>).\<close>

definition merge_patch :: "effective_patch \<Rightarrow> effective_patch \<Rightarrow> effective_patch" where
  "merge_patch shared own = foldl (\<lambda>m (k, v). bt_insert k v m) shared own"

definition check_patch ::
  "bulk_env \<Rightarrow> effective_patch \<Rightarrow> effective_patch \<Rightarrow> (bulk_response, effective_patch) result" where
  "check_patch env shared own =
     (case find (\<lambda>f. bt_get own f \<noteq> None) (bt_keys shared) of
        Some f \<Rightarrow> Inl (bulk_denied ''PATCH_OVERLAP'' (''field `'' @ f @ ''` appears in shared_patch and target patch''))
      | None \<Rightarrow>
          let patch = merge_patch shared own
          in if patch = []
             then Inl (bulk_denied ''EMPTY_PATCH'' ''every target requires at least one effective patch field'')
             else case find (\<lambda>f. \<not> field_allowed (be_policy env) f) (bt_keys patch) of
                 Some f \<Rightarrow> Inl (bulk_denied ''FIELD_REJECTED'' (''field `'' @ f @ ''` is not enabled by policy''))
               | None \<Rightarrow> Inr patch)"

text \<open>One turn of the planning loop, with the \<open>sys_id\<close>s seen so far.\<close>

definition plan_target ::
  "bulk_env \<Rightarrow> effective_patch \<Rightarrow> bulk_target_request \<Rightarrow> string list
     \<Rightarrow> (bulk_response, bulk_planned_target) bulk_step" where
  "plan_target env shared t seen =
     andthen (build_step (of_result (select_target t))) (\<lambda>selector.
     andthen (build_step (normalize_patch env (tr_patch t))) (\<lambda>own.
     andthen (of_result (check_patch env shared own)) (\<lambda>patch.
     andthen (build_step (read_target env selector)) (\<lambda>r.
       if rt_sys_id r \<in> set seen
       then fail (bulk_denied ''DUPLICATE_TARGET'' ''targets resolve to the same canonical sys_id'')
       else ok \<lparr>bt_number = rt_number r, bt_sys_id = rt_sys_id r, bt_patch = patch,
                bt_sys_updated_on = rt_sys_updated_on r\<rparr>))))"

fun plan_targets ::
  "bulk_env \<Rightarrow> effective_patch \<Rightarrow> bulk_target_request list \<Rightarrow> bulk_planned_target list
     \<Rightarrow> (bulk_response, bulk_planned_target list) bulk_step" where
  "plan_targets env shared [] planned = ok planned"
| "plan_targets env shared (t # ts) planned =
     andthen (plan_target env shared t (map bt_sys_id planned)) (\<lambda>p.
       plan_targets env shared ts (planned @ [p]))"

definition operation_hash :: "bulk_env \<Rightarrow> bulk_planned_target list \<Rightarrow> string" where
  "operation_hash env targets = be_sha256 env (bulk_apply_tool @ be_preview_json env targets)"

definition check_target_count :: "bulk_env \<Rightarrow> nat \<Rightarrow> (nat \<Rightarrow> string) \<Rightarrow> (bulk_response, nat) result" where
  "check_target_count env n reason =
     (case configured_bulk_target_limit (be_policy env) of
        Inl why \<Rightarrow> Inl (bulk_denied ''MAX_TARGETS_INVALID'' why)
      | Inr limit \<Rightarrow>
          if n < bulk_min_targets \<or> limit < n then Inl (bulk_denied ''TARGET_COUNT_INVALID'' (reason limit)) else Inr limit)"

definition bulk_binding :: "bulk_env \<Rightarrow> string \<Rightarrow> confirmation_binding" where
  "bulk_binding env op_hash = \<lparr>cb_actor = be_user env, cb_requester = be_user env,
     cb_tool = bulk_apply_tool, cb_op_hash = op_hash, cb_environment = be_label env\<rparr>"

text \<open>Storing the plan, its token and its key, and auditing it.\<close>

definition store_bulk_plan :: "bulk_env \<Rightarrow> bulk_plan \<Rightarrow> (bulk_response, bulk_response) bulk_step" where
  "store_bulk_plan env plan =
     andthen (internally (open_bulk_store env)) (\<lambda>_.
     andthen (internally (put_bulk_plan env plan)) (\<lambda>_.
     andthen (internally (open_confirmations env)) (\<lambda>_.
     andthen (internally (issue_bulk_token env (bp_plan_id plan) (bulk_binding env (bp_op_hash plan))
         (of_int bulk_plan_ttl))) (\<lambda>token.
     andthen (ask (be_uuid env)) (\<lambda>key.
     andthen (internally (reserve_bulk_key env key bulk_apply_tool (bp_op_hash plan)
         (pc_idempotency_window_seconds (be_policy env)))) (\<lambda>_.
     andthen (internally (append_bulk_audit env (bp_plan_id plan) None bulk_plan_tool SPlan
         (redacted_plan_summary plan) None (bp_actor plan) (bp_requester plan))) (\<lambda>_.
       ok (BulkPlanned plan (cr_token_id token) key))))))))"

definition issue_bulk_plan ::
  "bulk_env \<Rightarrow> bulk_planned_target list \<Rightarrow> (bulk_response, bulk_response) bulk_step" where
  "issue_bulk_plan env targets =
     andthen (ask (be_clock env)) (\<lambda>now. andthen (ask (be_uuid env)) (\<lambda>plan_id.
       store_bulk_plan env \<lparr>bp_plan_id = plan_id, bp_op_hash = operation_hash env targets,
         bp_actor = be_user env, bp_requester = be_user env, bp_environment = be_label env,
         bp_targets = targets, bp_created_at = now, bp_expires_at = now + secs bulk_plan_ttl\<rparr>))"

definition plan_bulk_request ::
  "bulk_env \<Rightarrow> (string, bulk_plan_request) result \<Rightarrow> (bulk_response, bulk_response) bulk_step" where
  "plan_bulk_request env params =
     andthen (policy_denial env bulk_plan_tool) (\<lambda>_.
     andthen (policy_denial env bulk_apply_tool) (\<lambda>_.
     andthen (of_result (map_err bulk_invalid_params params)) (\<lambda>q.
     andthen (of_result (check_target_count env (length (pq_targets q))
         (\<lambda>limit. ''bulk Incident targets must be between 3 and '' @ nat_text limit))) (\<lambda>_.
     andthen (build_step (normalize_patch env (pq_shared_patch q))) (\<lambda>shared.
     andthen (plan_targets env shared (pq_targets q) []) (\<lambda>planned.
       issue_bulk_plan env (sort_key bt_sys_id planned)))))))"

text \<open>An early return is an \<open>Inl\<close> of the response.\<close>

definition bulk_respond :: "(bulk_response, bulk_response) result \<Rightarrow> bulk_response" where
  "bulk_respond r = (case r of Inl x \<Rightarrow> x | Inr x \<Rightarrow> x)"

definition handle_bulk_plan ::
  "bulk_env \<Rightarrow> (string, bulk_plan_request) result \<Rightarrow> bulk_world \<Rightarrow> bulk_response \<times> bulk_world" where
  "handle_bulk_plan env params w = (case plan_bulk_request env params w of (r, w') \<Rightarrow> (bulk_respond r, w'))"

end
