(* ===== verification/Bulk_Apply.thy ===== *)
theory Bulk_Apply
  imports Bulk_Plan
begin

text \<open>
  Applying a bulk Incident plan: \<open>handle_apply\<close> of \<open>snow_daemon/src/incident_bulk_write.rs\<close>. The
  gates, the replay of a finished key and the preflight of every target come before the durable
  mark that acquires the key; then the targets are patched in plan order, each after a fresh read,
  and the first failure stops the loop.
\<close>

subsection \<open>Gates\<close>

definition switched_on :: "string option \<Rightarrow> bool" where
  "switched_on v = (case v of
     None \<Rightarrow> False | Some s \<Rightarrow> to_lower s = ''1'' \<or> to_lower s = ''true'' \<or> to_lower s = ''yes'')"

definition reject_kill_switch :: "bulk_env \<Rightarrow> (bulk_response, unit) bulk_step" where
  "reject_kill_switch env =
     andthen (ask (be_env_var env)) (\<lambda>var.
       if switched_on (var ''SNOW_INCIDENT_WRITE_KILL_SWITCH'') \<or> switched_on (var ''SNOW_MCP_WRITE_KILL_SWITCH'')
       then fail (bulk_denied ''KILL_SWITCH'' ''Incident writes are kill-switched'') else ok ())"

definition load_bulk_plan :: "bulk_env \<Rightarrow> string \<Rightarrow> (bulk_response, bulk_plan) bulk_step" where
  "load_bulk_plan env plan_id =
     andthen (internally (open_bulk_store env)) (\<lambda>_.
     andthen (internally (get_bulk_plan env plan_id)) (\<lambda>found.
       case found of
         None \<Rightarrow> fail (bulk_denied ''PLAN_NOT_FOUND'' ''bulk plan was not found'')
       | Some plan \<Rightarrow> andthen (ask (be_clock env)) (\<lambda>now.
           if bp_expires_at plan \<le> now then fail (bulk_denied ''PLAN_EXPIRED'' ''bulk plan expired'') else ok plan)))"

text \<open>The target count, the supplied tokens and the identity of the requester.\<close>

definition check_bulk_request ::
  "bulk_env \<Rightarrow> bulk_apply_request \<Rightarrow> bulk_plan \<Rightarrow> (bulk_response, unit) result" where
  "check_bulk_request env q plan =
     bind_ok (check_target_count env (length (bp_targets plan)) (\<lambda>_. ''planned target count is no longer allowed'')) (\<lambda>_.
     bind_ok (map_err (bulk_denied ''CONCURRENCY_TOKEN_INVALID'')
        (validate_supplied_tokens (bq_concurrency_tokens q) plan)) (\<lambda>_.
       case plan_binding_mismatch plan (bulk_binding env (bp_op_hash plan)) of
         Some f \<Rightarrow> Inl (confirmation_error (BindingMismatch f))
       | None \<Rightarrow> Inr ()))"

definition validate_confirmation_replay ::
  "bulk_env \<Rightarrow> string \<Rightarrow> confirmation_binding \<Rightarrow> (confirmation_consume_error, unit) bulk_step" where
  "validate_confirmation_replay env token b =
     andthen (map_err_step (\<lambda>_. NotFound) (open_confirmations env)) (\<lambda>_.
     andthen (map_err_step (\<lambda>_. NotFound) (lookup_bulk_token env token)) (\<lambda>found.
       case found of
         None \<Rightarrow> fail NotFound
       | Some r \<Rightarrow> andthen (ask (be_clock env)) (\<lambda>now.
           if cr_revoked r \<or> cr_expires_at r \<le> now
           then andthen (ask (be_clock env)) (\<lambda>now2. of_result (validate_confirmation_record now2 r b))
           else case binding_mismatch r b of Some f \<Rightarrow> fail (BindingMismatch f) | None \<Rightarrow> ok ())))"

text \<open>A response already stored under the key ends the request.\<close>

definition replay_stored ::
  "bulk_env \<Rightarrow> string \<Rightarrow> confirmation_binding \<Rightarrow> bulk_response \<Rightarrow> (bulk_response, unit) bulk_step" where
  "replay_stored env token b response =
     andthen (map_err_step confirmation_error (validate_confirmation_replay env token b)) (\<lambda>_. fail response)"

definition check_bulk_key ::
  "bulk_env \<Rightarrow> bulk_apply_request \<Rightarrow> bulk_plan \<Rightarrow> (bulk_response, unit) bulk_step" where
  "check_bulk_key env q plan =
     andthen (internally (lookup_bulk_key env (bq_idempotency_key q) bulk_apply_tool)) (\<lambda>found.
       case found of
         None \<Rightarrow> fail (bulk_denied ''IDEMPOTENCY_CONFLICT'' ''idempotency key is not bound to this plan'')
       | Some row \<Rightarrow>
           let b = bulk_binding env (bp_op_hash plan)
           in if kw_op_hash row \<noteq> bp_op_hash plan
              then fail (bulk_denied ''IDEMPOTENCY_CONFLICT'' ''idempotency key is bound to another operation hash'')
              else case kw_terminal_error row of
                Some err \<Rightarrow> replay_stored env (bq_confirmation_token q) b (BulkError err)
              | None \<Rightarrow> (case kw_receipt row of
                  Some rc \<Rightarrow> replay_stored env (bq_confirmation_token q) b (BulkReceipted (rc\<lparr>br_replay := True\<rparr>))
                | None \<Rightarrow>
                    if kw_apply_started_at row \<noteq> None
                    then fail (bulk_denied ''PENDING_RESOLUTION_REQUIRED''
                           ''an apply attempt started without a durable final receipt'')
                    else ok ()))"

definition check_bulk_token ::
  "bulk_env \<Rightarrow> bulk_apply_request \<Rightarrow> bulk_plan \<Rightarrow> (bulk_response, unit) bulk_step" where
  "check_bulk_token env q plan =
     andthen (internally (open_confirmations env)) (\<lambda>_.
     andthen (internally (lookup_bulk_token env (bq_confirmation_token q))) (\<lambda>found.
       case found of
         None \<Rightarrow> fail (confirmation_error NotFound)
       | Some r \<Rightarrow> andthen (ask (be_clock env)) (\<lambda>now.
           of_result (map_err confirmation_error
             (validate_confirmation_record now r (bulk_binding env (bp_op_hash plan)))))))"

definition bulk_conflict_error :: "string \<Rightarrow> bulk_response" where
  "bulk_conflict_error sys_id = BulkError (reason_error (-32053) ''CONCURRENCY_CONFLICT'' ''CONCURRENCY_CONFLICT''
     (''target '' @ sys_id @ '' changed after planning''))"

fun preflight :: "bulk_env \<Rightarrow> bulk_planned_target list \<Rightarrow> (bulk_response, unit) bulk_step" where
  "preflight env [] = ok ()"
| "preflight env (t # ts) =
     andthen (build_step (read_target env (BySysId (bt_sys_id t)))) (\<lambda>current.
       if rt_sys_updated_on current \<noteq> bt_sys_updated_on t then fail (bulk_conflict_error (bt_sys_id t))
       else preflight env ts)"

text \<open>Acquiring the key, then consuming the token; a refused token gives the key back.\<close>

definition acquire_key ::
  "bulk_env \<Rightarrow> bulk_apply_request \<Rightarrow> bulk_plan \<Rightarrow> (bulk_response, unit) bulk_step" where
  "acquire_key env q plan =
     andthen (pending_on_error (mark_bulk_started env (bq_idempotency_key q) bulk_apply_tool)) (\<lambda>acquired.
       if \<not> acquired
       then fail (bulk_denied ''PENDING_RESOLUTION_REQUIRED''
              ''another apply attempt already acquired this idempotency key'')
       else inspect (consume_bulk_token env (bq_confirmation_token q) (bulk_binding env (bp_op_hash plan))) (\<lambda>r.
         case r of
           Inr _ \<Rightarrow> ok ()
         | Inl err \<Rightarrow>
             andthen (pending_on_error (clear_bulk_started env (bq_idempotency_key q) bulk_apply_tool)) (\<lambda>_.
               fail (confirmation_error err))))"

text \<open>Everything before the first PATCH; it yields the plan and the initial receipt.\<close>

definition bulk_checks ::
  "bulk_env \<Rightarrow> bulk_apply_request \<Rightarrow> (bulk_response, bulk_plan) bulk_step" where
  "bulk_checks env q =
     andthen (load_bulk_plan env (bq_plan_id q)) (\<lambda>plan.
     andthen (of_result (check_bulk_request env q plan)) (\<lambda>_.
     andthen (check_bulk_key env q plan) (\<lambda>_.
     andthen (check_bulk_token env q plan) (\<lambda>_.
     andthen (preflight env (bp_targets plan)) (\<lambda>_. ok plan)))))"

definition start_apply ::
  "bulk_env \<Rightarrow> bulk_apply_request \<Rightarrow> bulk_plan \<Rightarrow> (bulk_response, bulk_receipt) bulk_step" where
  "start_apply env q plan =
     andthen (ask (be_uuid env)) (\<lambda>attempt_id.
     andthen (internally (append_bulk_audit env attempt_id (Some (bp_plan_id plan)) bulk_apply_tool SPlan
         (redacted_plan_summary plan) None (be_user env) (be_user env))) (\<lambda>_.
     andthen (ask (be_clock env)) (\<lambda>started.
     andthen (acquire_key env q plan) (\<lambda>_.
     andthen (ask (be_uuid env)) (\<lambda>audit_id.
       let rc = initial_receipt plan audit_id started
       in andthen (pending_on_error (save_bulk_progress env (bq_idempotency_key q) rc)) (\<lambda>_. ok rc))))))"

subsection \<open>The loop over the targets\<close>

record bulk_failure =
  bf_code :: string
  bf_upstream_applied :: bool
  bf_diagnostic :: "string option"

type_synonym target_outcome = "bulk_failure option \<times> bulk_receipt"

definition failed_with :: "string \<Rightarrow> bulk_failure" where
  "failed_with code = \<lparr>bf_code = code, bf_upstream_applied = False, bf_diagnostic = None\<rparr>"

definition incoherent :: bulk_failure where
  "incoherent = \<lparr>bf_code = ''LOCAL_COHERENCE_FAILED'', bf_upstream_applied = True, bf_diagnostic = None\<rparr>"

definition saved_outcome ::
  "bulk_env \<Rightarrow> string \<Rightarrow> target_outcome \<Rightarrow> (bulk_response, target_outcome) bulk_step" where
  "saved_outcome env key out =
     andthen (pending_on_error (save_bulk_progress env key (snd out))) (\<lambda>_. ok out)"

definition incoherent_outcome ::
  "bulk_env \<Rightarrow> string \<Rightarrow> nat \<Rightarrow> bulk_planned_target \<Rightarrow> resolved_target \<Rightarrow> string \<Rightarrow> bulk_receipt
     \<Rightarrow> (bulk_response, target_outcome) bulk_step" where
  "incoherent_outcome env key i t current observed rc =
     saved_outcome env key (Some incoherent, mark_not_attempted_after i
       (mark_applied (be_sha256 env) i t (rt_fields current) observed (rc\<lparr>br_cache_coherent := False\<rparr>)))"

text \<open>After a successful PATCH: the local projection is pruned and the outcome saved.\<close>

definition after_patch ::
  "bulk_env \<Rightarrow> string \<Rightarrow> nat \<Rightarrow> bulk_planned_target \<Rightarrow> resolved_target \<Rightarrow> string \<Rightarrow> bulk_receipt
     \<Rightarrow> (bulk_response, target_outcome) bulk_step" where
  "after_patch env key i t current observed rc =
     andthen (bulk_call env (\<lambda>n. be_prune env n (bt_sys_id t))) (\<lambda>pruned.
       if \<not> pruned then incoherent_outcome env key i t current observed rc
       else saved_outcome env key (None, mark_applied (be_sha256 env) i t (rt_fields current) observed rc))"

definition patch_target ::
  "bulk_env \<Rightarrow> string \<Rightarrow> nat \<Rightarrow> bulk_planned_target \<Rightarrow> resolved_target \<Rightarrow> bulk_receipt
     \<Rightarrow> (bulk_response, target_outcome) bulk_step" where
  "patch_target env key i t current rc =
     andthen (bulk_send env (bt_sys_id t, bt_patch t)) (\<lambda>written.
       case written of
         Inl err \<Rightarrow> saved_outcome env key
           (Some \<lparr>bf_code = ''UPSTREAM_ERROR'', bf_upstream_applied = False,
                  bf_diagnostic = Some (safe_upstream_diagnostic err (map snd (bt_patch t)))\<rparr>,
            mark_failed_and_remaining i ''UPSTREAM_ERROR'' (rt_sys_updated_on current) rc)
       | Inr (Some observed) \<Rightarrow> after_patch env key i t current observed rc
       | Inr None \<Rightarrow> inspect (read_target env (BySysId (bt_sys_id t))) (\<lambda>r.
           case r of
             Inr post \<Rightarrow> after_patch env key i t current (rt_sys_updated_on post) rc
           | Inl _ \<Rightarrow> incoherent_outcome env key i t current (rt_sys_updated_on current) rc))"

definition apply_target ::
  "bulk_env \<Rightarrow> string \<Rightarrow> nat \<Rightarrow> bulk_planned_target \<Rightarrow> bulk_receipt
     \<Rightarrow> (bulk_response, target_outcome) bulk_step" where
  "apply_target env key i t rc =
     inspect (read_target env (BySysId (bt_sys_id t))) (\<lambda>r.
       case r of
         Inl err \<Rightarrow> ok (Some (failed_with (public_code err)), mark_failed_and_remaining i (public_code err) [] rc)
       | Inr current \<Rightarrow>
           if rt_sys_updated_on current \<noteq> bt_sys_updated_on t
           then ok (Some (failed_with ''CONCURRENCY_CONFLICT''),
                    mark_failed_and_remaining i ''CONCURRENCY_CONFLICT'' (rt_sys_updated_on current) rc)
           else patch_target env key i t current rc)"

fun apply_targets ::
  "bulk_env \<Rightarrow> string \<Rightarrow> nat \<Rightarrow> bulk_planned_target list \<Rightarrow> bulk_receipt
     \<Rightarrow> (bulk_response, target_outcome) bulk_step" where
  "apply_targets env key i [] rc = ok (None, rc)"
| "apply_targets env key i (t # ts) rc =
     andthen (apply_target env key i t rc) (\<lambda>(failure, rc').
       case failure of
         Some f \<Rightarrow> ok (Some f, rc')
       | None \<Rightarrow> apply_targets env key (Suc i) ts rc')"

subsection \<open>The end of the request\<close>

definition terminal_code :: "string \<Rightarrow> int \<times> string" where
  "terminal_code code =
     (if code = ''CONCURRENCY_CONFLICT'' then (-32053, ''CONCURRENCY_CONFLICT'')
      else if code = ''ACL_DENIED'' then (-32003, ''ACL_DENIED'')
      else if code = ''SERVICENOW_UNAVAILABLE'' then (-32001, ''SERVICENOW_UNAVAILABLE'')
      else if code = ''INCIDENT_STATE_UNRESOLVED'' then (-32602, ''INCIDENT_STATE_UNRESOLVED'')
      else if code = ''SERVICENOW_ERROR'' then (-32000, ''SERVICENOW_ERROR'')
      else (-32059, ''UPSTREAM_ERROR''))"

definition terminal_error :: "bulk_failure \<Rightarrow> rpc_error" where
  "terminal_error f = (let (code, message) = terminal_code (bf_code f)
     in reason_error code message message
          (or_else (bf_diagnostic f) ''bulk execution stopped before any target was applied''))"

definition error_row_of :: "string \<Rightarrow> string \<Rightarrow> error_row" where
  "error_row_of code reason = \<lparr>er_code = code, er_reason = reason, er_retryable = False, er_transient = False\<rparr>"

text \<open>Nothing was applied: the error is audited, stored under the key and returned.\<close>

definition finish_unapplied ::
  "bulk_env \<Rightarrow> bulk_apply_request \<Rightarrow> bulk_plan \<Rightarrow> bulk_failure \<Rightarrow> bulk_receipt
     \<Rightarrow> (bulk_response, bulk_response) bulk_step" where
  "finish_unapplied env q plan f rc =
     (let err = terminal_error f
      in andthen (pending_on_error (append_bulk_audit env (br_audit_id rc) (Some (bp_plan_id plan)) bulk_apply_tool
           SError (redacted_receipt_summary rc)
           (Some (error_row_of (rpc_message err)
              (or_else (bf_diagnostic f) ''bulk execution stopped before any target was applied'')))
           (be_user env) (be_user env))) (\<lambda>_.
         andthen (pending_on_error (save_terminal_error env (bq_idempotency_key q) err)) (\<lambda>_.
           ok (BulkError err))))"

definition finish_applied ::
  "bulk_env \<Rightarrow> bulk_apply_request \<Rightarrow> bulk_plan \<Rightarrow> bulk_failure option \<Rightarrow> bulk_receipt
     \<Rightarrow> (bulk_response, bulk_response) bulk_step" where
  "finish_applied env q plan failure rc0 =
     (let rc = (if failure = None then rc0 else rc0\<lparr>br_status := BulkPartial\<rparr>)
      in andthen (pending_on_error (append_bulk_audit env (br_audit_id rc) (Some (bp_plan_id plan)) bulk_apply_tool
           (if failure = None then SAppliedSuccess else SAppliedPartial) (redacted_receipt_summary rc)
           (map_option (\<lambda>f. error_row_of (bf_code f) (or_else (bf_diagnostic f) (bf_code f))) failure)
           (bp_actor plan) (bp_requester plan))) (\<lambda>_.
         andthen (pending_on_error (save_final_receipt env (bq_idempotency_key q) bulk_apply_tool rc)) (\<lambda>_.
         inspect (mark_bulk_plan_consumed env (bp_plan_id plan)) (\<lambda>_.
           case failure of
             Some f \<Rightarrow> ok (BulkPartialFailure (bf_code f) (bf_upstream_applied f) (bf_diagnostic f) rc)
           | None \<Rightarrow> ok (BulkReceipted rc)))))"

definition finish_bulk ::
  "bulk_env \<Rightarrow> bulk_apply_request \<Rightarrow> bulk_plan \<Rightarrow> target_outcome \<Rightarrow> (bulk_response, bulk_response) bulk_step" where
  "finish_bulk env q plan out =
     andthen (ask (be_clock env)) (\<lambda>completed.
       let rc = recount ((snd out)\<lparr>br_completed_at := completed\<rparr>)
       in case fst out of
            Some f \<Rightarrow> if br_applied_count rc = 0 then finish_unapplied env q plan f rc
                      else finish_applied env q plan (Some f) rc
          | None \<Rightarrow> finish_applied env q plan None rc)"

definition bulk_gates ::
  "bulk_env \<Rightarrow> (string, bulk_apply_request) result \<Rightarrow> (bulk_response, bulk_apply_request) bulk_step" where
  "bulk_gates env params =
     andthen (reject_kill_switch env) (\<lambda>_.
     andthen (policy_denial env bulk_apply_tool) (\<lambda>_.
     andthen (policy_denial env bulk_plan_tool) (\<lambda>_.
       of_result (map_err bulk_invalid_params params))))"

definition apply_bulk_request ::
  "bulk_env \<Rightarrow> (string, bulk_apply_request) result \<Rightarrow> (bulk_response, bulk_response) bulk_step" where
  "apply_bulk_request env params =
     andthen (bulk_gates env params) (\<lambda>q.
     andthen (bulk_checks env q) (\<lambda>plan.
     andthen (start_apply env q plan) (\<lambda>rc.
     andthen (apply_targets env (bq_idempotency_key q) 0 (bp_targets plan) rc) (\<lambda>out.
       finish_bulk env q plan out))))"

definition handle_bulk_apply ::
  "bulk_env \<Rightarrow> (string, bulk_apply_request) result \<Rightarrow> bulk_world \<Rightarrow> bulk_response \<times> bulk_world" where
  "handle_bulk_apply env params w = (case apply_bulk_request env params w of (r, w') \<Rightarrow> (bulk_respond r, w'))"

end
