(* ===== verification/Bulk_Steps.thy ===== *)
theory Bulk_Steps
  imports Bulk_Apply
begin

text \<open>
  Reasoning about the bulk Incident handlers: what a step that does not end the request has
  found in the stores, and the two relations every step keeps, the write log (for all steps but
  the PATCH itself) and the fact that an idempotency key cannot be started.
\<close>

lemma bulk_wrappers_Inr:
  "internally m w = (Inr x, w') \<longleftrightarrow> m w = (Inr x, w')"
  "pending_on_error m w = (Inr x, w') \<longleftrightarrow> m w = (Inr x, w')"
  "build_step n w = (Inr y, w') \<longleftrightarrow> n w = (Inr y, w')"
  by (simp_all add: internally_def pending_on_error_def build_step_def map_err_step_Inr)

lemma bulk_sql_Inr:
  "bulk_sql env f w = (Inr x, w') \<longleftrightarrow> be_sql_ok env (w_tick w) \<and> x = fst (f (w_stores w))
     \<and> w' = w\<lparr>w_tick := Suc (w_tick w), w_stores := snd (f (w_stores w))\<rparr>"
  by (auto simp: bulk_sql_def statement_def Let_def split: prod.splits)

lemma bulk_call_Inr:
  "bulk_call env f w = (Inr x, w') \<longleftrightarrow> x = f (w_tick w)
     \<and> w' = w\<lparr>w_tick := Suc (w_tick w), w_stores := be_others env (w_tick w) (w_stores w)\<rparr>"
  by (simp add: bulk_call_def step_ask_Inr)

lemma bulk_send_eq:
  "bulk_send env x w = (Inr (be_update env (w_tick w) x), w\<lparr>w_tick := Suc (w_tick w),
     w_stores := be_others env (w_tick w) (w_stores w), w_writes := w_writes w @ [x]\<rparr>)"
  by (simp add: bulk_send_def sending_def)

lemmas bulk_step_Inr = andthen_Inr step_pure_Inr step_ask_Inr bulk_wrappers_Inr bulk_sql_Inr bulk_call_Inr
  map_err_step_Inr inspect_iff

subsection \<open>The write log\<close>

interpretation bulk_log: step_relation "same_writes :: bulk_world \<Rightarrow> bulk_world \<Rightarrow> bool"
  by unfold_locales (simp, rule same_writes_trans)

lemma bulk_log_atoms:
  "bulk_log.keeps (ask g)" "bulk_log.keeps (bulk_sql env f)" "bulk_log.keeps (bulk_call env h)"
  "bulk_log.keeps (consume_bulk_token env token b)"
  by (auto simp: bulk_log.keeps_def same_writes_def ask_def bulk_sql_def statement_def bulk_call_def
      awaiting_def consume_bulk_token_def Let_def split: prod.splits)

lemmas bulk_log_rules = bulk_log.keeps_step_rules bulk_log_atoms

lemma bulk_log_wrappers:
  "bulk_log.keeps m \<Longrightarrow> bulk_log.keeps (internally m)"
  "bulk_log.keeps m \<Longrightarrow> bulk_log.keeps (pending_on_error m)"
  "bulk_log.keeps n \<Longrightarrow> bulk_log.keeps (build_step n)"
  unfolding internally_def pending_on_error_def build_step_def by (intro bulk_log.keeps_map_err, assumption)+

lemma bulk_log_stores:
  "bulk_log.keeps (open_bulk_store env)" "bulk_log.keeps (get_bulk_plan env i)"
  "bulk_log.keeps (put_bulk_plan env p)" "bulk_log.keeps (mark_bulk_plan_consumed env i)"
  "bulk_log.keeps (lookup_bulk_key env key tool)" "bulk_log.keeps (mark_bulk_started env key tool)"
  "bulk_log.keeps (clear_bulk_started env key tool)" "bulk_log.keeps (save_bulk_progress env key rc)"
  "bulk_log.keeps (save_final_receipt env key tool rc)" "bulk_log.keeps (save_terminal_error env key err)"
  "bulk_log.keeps (open_confirmations env)" "bulk_log.keeps (lookup_bulk_token env token)"
  "bulk_log.keeps (issue_bulk_token env i b ttl)" "bulk_log.keeps (reserve_bulk_key env key tool h n)"
  "bulk_log.keeps (append_bulk_audit env a par tool st js er act req)"
  unfolding open_bulk_store_def get_bulk_plan_def put_bulk_plan_def mark_bulk_plan_consumed_def
    lookup_bulk_key_def mark_bulk_started_def clear_bulk_started_def save_bulk_progress_def
    save_final_receipt_def save_terminal_error_def open_confirmations_def lookup_bulk_token_def
    issue_bulk_token_def reserve_bulk_key_def append_bulk_audit_def
  by (intro bulk_log_rules)+

lemma bulk_log_plan_parts:
  "bulk_log.keeps (read_target env sel)" "bulk_log.keeps (normalize_state env v m)"
  "bulk_log.keeps (normalize_patch env p)" "bulk_log.keeps (policy_denial env tool)"
  unfolding read_target_def normalize_state_def normalize_patch_def policy_denial_def Let_def
  by (intro bulk_log_rules)+

lemma bulk_log_plan_targets:
  "bulk_log.keeps (plan_target env shared t seen)" "bulk_log.keeps (plan_targets env shared ts acc)"
proof -
  show one: "bulk_log.keeps (plan_target env shared t seen)" for t seen
    unfolding plan_target_def by (intro bulk_log_rules bulk_log_wrappers bulk_log_plan_parts)
  show "bulk_log.keeps (plan_targets env shared ts acc)"
    by (induction ts arbitrary: acc) (simp_all, (intro bulk_log_rules one | assumption)+)
qed

lemma bulk_log_checks:
  "bulk_log.keeps (reject_kill_switch env)" "bulk_log.keeps (load_bulk_plan env i)"
  "bulk_log.keeps (validate_confirmation_replay env token b)" "bulk_log.keeps (replay_stored env token b x)"
  "bulk_log.keeps (check_bulk_key env q p)" "bulk_log.keeps (check_bulk_token env q p)"
  "bulk_log.keeps (preflight env ts)" "bulk_log.keeps (acquire_key env q p)"
  "bulk_log.keeps (bulk_gates env params)"
proof -
  show replay: "bulk_log.keeps (validate_confirmation_replay env token b)" for token b
    unfolding validate_confirmation_replay_def by (intro bulk_log_rules bulk_log_stores)
  show stored: "bulk_log.keeps (replay_stored env token b x)" for token b x
    unfolding replay_stored_def by (intro bulk_log_rules replay)
  show kill: "bulk_log.keeps (reject_kill_switch env)"
    unfolding reject_kill_switch_def by (intro bulk_log_rules)
  show "bulk_log.keeps (load_bulk_plan env i)"
    unfolding load_bulk_plan_def by (intro bulk_log_rules bulk_log_wrappers bulk_log_stores)
  show "bulk_log.keeps (check_bulk_key env q p)"
    unfolding check_bulk_key_def Let_def by (intro bulk_log_rules bulk_log_wrappers bulk_log_stores stored)
  show "bulk_log.keeps (check_bulk_token env q p)"
    unfolding check_bulk_token_def by (intro bulk_log_rules bulk_log_wrappers bulk_log_stores)
  show "bulk_log.keeps (preflight env ts)"
    by (induction ts) (simp_all, (intro bulk_log_rules bulk_log_wrappers bulk_log_plan_parts | assumption)+)
  show "bulk_log.keeps (acquire_key env q p)"
    unfolding acquire_key_def by (intro bulk_log_rules bulk_log_wrappers bulk_log_stores)
  show "bulk_log.keeps (bulk_gates env params)"
    unfolding bulk_gates_def by (intro bulk_log_rules kill bulk_log_plan_parts)
qed

lemma bulk_log_start: "bulk_log.keeps (start_apply env q p)"
  unfolding start_apply_def Let_def
  by (intro bulk_log_rules bulk_log_wrappers bulk_log_stores bulk_log_checks)

lemma bulk_log_bulk_checks: "bulk_log.keeps (bulk_checks env q)"
  unfolding bulk_checks_def by (intro bulk_log_rules bulk_log_checks)

lemma bulk_log_finish: "bulk_log.keeps (finish_bulk env q p out)"
proof -
  have unapplied: "bulk_log.keeps (finish_unapplied env q p f rc)" for f rc
    unfolding finish_unapplied_def Let_def by (intro bulk_log_rules bulk_log_wrappers bulk_log_stores)
  have applied: "bulk_log.keeps (finish_applied env q p fo rc)" for fo rc
    unfolding finish_applied_def Let_def by (intro bulk_log_rules bulk_log_wrappers bulk_log_stores)
  show ?thesis
    unfolding finish_bulk_def Let_def by (intro bulk_log_rules unapplied applied)
qed

subsection \<open>What the gates and checks have found\<close>

definition target_version :: "bulk_env \<Rightarrow> nat \<Rightarrow> bulk_planned_target \<Rightarrow> string option" where
  "target_version env i t =
     (case bind_ok (map_err ReadFailed (be_read_incident env i (BySysId (bt_sys_id t)))) resolved_of_fields of
        Inl _ \<Rightarrow> None | Inr c \<Rightarrow> Some (rt_sys_updated_on c))"

text \<open>At reading \<open>i\<close> the target still has the version it was planned with.\<close>

definition unchanged_at :: "bulk_env \<Rightarrow> nat \<Rightarrow> bulk_planned_target \<Rightarrow> bool" where
  "unchanged_at env i t = (target_version env i t = Some (bt_sys_updated_on t))"

lemma read_target_eq:
  "read_target env sel w = (bind_ok (map_err ReadFailed (be_read_incident env (w_tick w) sel)) resolved_of_fields,
     w\<lparr>w_tick := Suc (w_tick w), w_stores := be_others env (w_tick w) (w_stores w)\<rparr>)"
  by (simp add: read_target_def andthen_def bulk_call_def awaiting_def of_result_def)

lemma bulk_gates_Inr:
  assumes "bulk_gates env params w = (Inr q, w')"
  shows "params = Inr q" "w_stores w' = w_stores w"
    "\<not> tool_denied (be_policy env) (be_label env) bulk_apply_tool True"
    "\<not> tool_denied (be_policy env) (be_label env) bulk_plan_tool True"
    "\<not> switched_on (be_env_var env (w_tick w) ''SNOW_INCIDENT_WRITE_KILL_SWITCH'')"
    "\<not> switched_on (be_env_var env (w_tick w) ''SNOW_MCP_WRITE_KILL_SWITCH'')"
  using assms
  by (auto simp: bulk_gates_def reject_kill_switch_def policy_denial_def bulk_step_Inr split: if_splits)

lemma load_bulk_plan_Inr:
  assumes "load_bulk_plan env i w = (Inr plan, w')"
  shows "w_stores w' = w_stores w"
    "map_option pw_plan (bt_get (bo_plans (w_stores w)) i) = Some plan"
    "\<exists>n. be_clock env n < bp_expires_at plan"
  using assms
  by (auto simp: load_bulk_plan_def open_bulk_store_def get_bulk_plan_def bulk_step_Inr not_le
      split: option.splits if_splits)

lemma check_bulk_request_Inr:
  assumes "check_bulk_request env q plan = Inr u"
  shows "bulk_min_targets \<le> length (bp_targets plan)" "length (bp_targets plan) \<le> bulk_max_targets"
    "bq_concurrency_tokens q = map target_token (bp_targets plan)"
    "bp_actor plan = be_user env" "bp_requester plan = be_user env" "bp_environment plan = be_label env"
  using assms
  by (auto simp: check_bulk_request_def check_target_count_def bind_ok_Inr validate_supplied_tokens_def
      configured_bulk_target_limit_def plan_binding_mismatch_def bulk_binding_def Let_def not_less
      split: sum.splits if_splits option.splits)

lemma lookup_bulk_key_Some:
  assumes "lookup_bulk_key env key tool w = (Inr (Some row), w')"
  shows "w_stores w' = w_stores w" "bt_get (bo_keys (w_stores w)) (key, tool) = Some row"
    "\<exists>n. be_clock env n < kw_expires_at row"
  using assms by (auto simp: lookup_bulk_key_def bulk_step_Inr not_le split: option.splits if_splits)

lemma replay_stored_stops: "\<not> replay_stored env token b x w = (Inr u, w')"
  by (simp add: replay_stored_def bulk_step_Inr)

lemma check_bulk_key_Inr:
  assumes "check_bulk_key env q plan w = (Inr u, w')"
  obtains row where "w_stores w' = w_stores w"
    "bt_get (bo_keys (w_stores w)) (bq_idempotency_key q, bulk_apply_tool) = Some row"
    "kw_op_hash row = bp_op_hash plan" "bulk_startable row" "\<exists>n. be_clock env n < kw_expires_at row"
proof -
  from assms obtain found w1
    where l: "lookup_bulk_key env (bq_idempotency_key q) bulk_apply_tool w = (Inr found, w1)"
      and rest: "(case found of
          None \<Rightarrow> fail (bulk_denied ''IDEMPOTENCY_CONFLICT'' ''idempotency key is not bound to this plan'')
        | Some row \<Rightarrow>
            let b = bulk_binding env (bp_op_hash plan)
            in if kw_op_hash row \<noteq> bp_op_hash plan
               then fail (bulk_denied ''IDEMPOTENCY_CONFLICT'' ''idempotency key is bound to another operation hash'')
               else case kw_terminal_error row of
                 Some err \<Rightarrow> replay_stored env (bq_confirmation_token q) b (BulkError err)
               | None \<Rightarrow> (case kw_receipt row of
                   Some rc \<Rightarrow> replay_stored env (bq_confirmation_token q) b (BulkReceipted (rc\<lparr>br_replay := True\<rparr>))
                 | None \<Rightarrow>
                     if kw_apply_started_at row \<noteq> None
                     then fail (bulk_denied ''PENDING_RESOLUTION_REQUIRED''
                            ''an apply attempt started without a durable final receipt'')
                     else ok ())) w1 = (Inr u, w')"
    unfolding check_bulk_key_def andthen_Inr bulk_wrappers_Inr by blast
  from rest obtain row where row: "found = Some row"
    by (cases found) (auto simp: step_pure_Inr)
  with rest have "kw_op_hash row = bp_op_hash plan" "bulk_startable row" "w' = w1"
    by (auto simp: step_pure_Inr replay_stored_stops bulk_startable_def Let_def split: if_splits option.splits)
  then show ?thesis using that [of row] lookup_bulk_key_Some [OF l [unfolded row]] by simp
qed

lemma validate_confirmation_record_Inr:
  "validate_confirmation_record now r b = Inr u \<longleftrightarrow> token_valid now b r"
  by (auto simp: validate_confirmation_record_def token_valid_def dest: binding_mismatch_Some split: option.splits)

lemma check_bulk_token_Inr:
  assumes "check_bulk_token env q plan w = (Inr u, w')"
  obtains r n where "w_stores w' = w_stores w"
    "conf_lookup (bo_confirmations (w_stores w)) (bq_confirmation_token q) = Some r"
    "token_valid (be_clock env n) (bulk_binding env (bp_op_hash plan)) r"
  using assms
  by (auto simp: check_bulk_token_def open_confirmations_def lookup_bulk_token_def bulk_step_Inr
      validate_confirmation_record_Inr split: option.splits)

lemma preflight_step:
  assumes "preflight env (t # ts) w = (Inr u, w')"
  shows "unchanged_at env (w_tick w) t"
    "preflight env ts (w\<lparr>w_tick := Suc (w_tick w), w_stores := be_others env (w_tick w) (w_stores w)\<rparr>) = (Inr u, w')"
  using assms
  by (auto simp: andthen_Inr bulk_wrappers_Inr read_target_eq step_pure_Inr unchanged_at_def target_version_def
      split: if_splits)

lemma preflight_Inr:
  "preflight env ts w = (Inr u, w') \<Longrightarrow>
     list_all (\<lambda>t. \<exists>i<w_tick w'. unchanged_at env i t) ts \<and> w_tick w \<le> w_tick w'"
proof (induction ts arbitrary: w)
  case (Cons t ts)
  from Cons.IH [OF preflight_step(2) [OF Cons.prems]] preflight_step(1) [OF Cons.prems]
  show ?case by (auto intro!: exI [of _ "w_tick w"])
qed (simp add: step_pure_Inr)

end
