(* ===== verification/Bulk_Loop.thy ===== *)
theory Bulk_Loop
  imports Bulk_Steps
begin

text \<open>
  The loop over the targets of a bulk apply: which PATCH requests it sends and when, and what the
  receipt says of each target when the loop ends.
\<close>

definition write_of :: "bulk_planned_target \<Rightarrow> bulk_write" where
  "write_of t = (bt_sys_id t, bt_patch t)"

text \<open>The PATCH sent at reading \<open>i\<close> is answered with success.\<close>

definition acknowledged :: "bulk_env \<Rightarrow> nat \<Rightarrow> bulk_planned_target \<Rightarrow> bool" where
  "acknowledged env i t = is_ok (be_update env i (write_of t))"

text \<open>
  \<open>sent_at env m ts is\<close>: the targets \<open>ts\<close> were read at the instants \<open>is\<close>, in order and from \<open>m\<close> on,
  each still at its planned version and each followed at once by its PATCH; every PATCH but the
  last was acknowledged before the next target was read.
\<close>

fun sent_at :: "bulk_env \<Rightarrow> nat \<Rightarrow> bulk_planned_target list \<Rightarrow> nat list \<Rightarrow> bool" where
  "sent_at env m [] [] = True"
| "sent_at env m (t # ts) (i # is) =
     (m \<le> i \<and> unchanged_at env i t \<and> (ts = [] \<or> acknowledged env (Suc i) t) \<and> sent_at env (Suc i) ts is)"
| "sent_at env m _ _ = False"

lemma sent_at_mono: "sent_at env m ts is \<Longrightarrow> n \<le> m \<Longrightarrow> sent_at env n ts is"
  by (cases "(env, m, ts, is)" rule: sent_at.cases) auto

subsection \<open>The count of readings\<close>

interpretation bulk_ticks: step_relation "\<lambda>(w :: bulk_world) w'. w_tick w \<le> w_tick w'"
  by unfold_locales simp_all

lemma bulk_ticks_atoms:
  "bulk_ticks.keeps (ask g)" "bulk_ticks.keeps (bulk_sql env f)" "bulk_ticks.keeps (bulk_call env h)"
  "bulk_ticks.keeps (bulk_send env x)"
  by (auto simp: bulk_ticks.keeps_def ask_def bulk_sql_def statement_def bulk_call_def
      awaiting_def bulk_send_def sending_def Let_def split: prod.splits)

lemmas bulk_ticks_rules = bulk_ticks.keeps_step_rules bulk_ticks_atoms

lemma bulk_ticks_loop:
  "bulk_ticks.keeps (saved_outcome env key out)" "bulk_ticks.keeps (read_target env sel)"
  "bulk_ticks.keeps (after_patch env key i t current observed rc)"
proof -
  show saved: "bulk_ticks.keeps (saved_outcome env key out)" for out
    unfolding saved_outcome_def pending_on_error_def save_bulk_progress_def by (intro bulk_ticks_rules)
  show "bulk_ticks.keeps (read_target env sel)"
    unfolding read_target_def by (intro bulk_ticks_rules)
  show "bulk_ticks.keeps (after_patch env key i t current observed rc)"
    unfolding after_patch_def incoherent_outcome_def by (intro bulk_ticks_rules saved)
qed

lemma bulk_log_loop:
  "bulk_log.keeps (saved_outcome env key out)"
  "bulk_log.keeps (after_patch env key i t current observed rc)"
proof -
  show saved: "bulk_log.keeps (saved_outcome env key out)" for out
    unfolding saved_outcome_def by (intro bulk_log_rules bulk_log_wrappers bulk_log_stores)
  show "bulk_log.keeps (after_patch env key i t current observed rc)"
    unfolding after_patch_def incoherent_outcome_def by (intro bulk_log_rules saved)
qed

subsection \<open>One target\<close>

definition applied_outcome ::
  "bulk_env \<Rightarrow> nat \<Rightarrow> bulk_planned_target \<Rightarrow> bulk_receipt \<Rightarrow> target_outcome \<Rightarrow> bool" where
  "applied_outcome env i t rc out = (\<exists>before observed.
     out = (None, mark_applied (be_sha256 env) i t before observed rc)
   \<or> out = (Some incoherent, mark_not_attempted_after i
        (mark_applied (be_sha256 env) i t before observed (rc\<lparr>br_cache_coherent := False\<rparr>))))"

lemma saved_outcome_Inr: "saved_outcome env key out w = (Inr out', w') \<Longrightarrow> out' = out"
  by (auto simp: saved_outcome_def bulk_step_Inr)

lemma after_patch_outcome:
  assumes "after_patch env key i t current observed rc w = (Inr out, w')"
  shows "applied_outcome env i t rc out"
  using assms unfolding after_patch_def incoherent_outcome_def applied_outcome_def
  by (auto simp: andthen_Inr bulk_call_Inr split: if_splits dest!: saved_outcome_Inr)

lemma patch_target_outcome:
  assumes "patch_target env key i t current rc w = (r, w')"
  shows "w_writes w' = w_writes w @ [write_of t]" "Suc (w_tick w) \<le> w_tick w'"
    "r = Inr out \<Longrightarrow> acknowledged env (w_tick w) t \<Longrightarrow> applied_outcome env i t rc out"
    "r = Inr out \<Longrightarrow> \<not> acknowledged env (w_tick w) t \<Longrightarrow> \<exists>d observed. out = (Some
       \<lparr>bf_code = ''UPSTREAM_ERROR'', bf_upstream_applied = False, bf_diagnostic = Some d\<rparr>,
        mark_failed_and_remaining i ''UPSTREAM_ERROR'' observed rc)"
proof -
  define w1 where "w1 = w\<lparr>w_tick := Suc (w_tick w), w_stores := be_others env (w_tick w) (w_stores w),
     w_writes := w_writes w @ [write_of t]\<rparr>"
  let ?u = "be_update env (w_tick w) (write_of t)"
  define cont where "cont = (\<lambda>written. case written of
         Inl err \<Rightarrow> saved_outcome env key
           (Some \<lparr>bf_code = ''UPSTREAM_ERROR'', bf_upstream_applied = False,
                  bf_diagnostic = Some (safe_upstream_diagnostic err (map snd (bt_patch t)))\<rparr>,
            mark_failed_and_remaining i ''UPSTREAM_ERROR'' (rt_sys_updated_on current) rc)
       | Inr (Some observed) \<Rightarrow> after_patch env key i t current observed rc
       | Inr None \<Rightarrow> inspect (read_target env (BySysId (bt_sys_id t))) (\<lambda>r.
           case r of
             Inr post \<Rightarrow> after_patch env key i t current (rt_sys_updated_on post) rc
           | Inl _ \<Rightarrow> incoherent_outcome env key i t current (rt_sys_updated_on current) rc))"
  have run: "cont ?u w1 = (r, w')"
    using assms by (simp add: patch_target_def bulk_send_eq andthen_run w1_def cont_def write_of_def)
  have log: "bulk_log.keeps (cont u)" for u
    unfolding cont_def incoherent_outcome_def
    by (intro bulk_log_rules bulk_log_loop bulk_log_plan_parts)
  have ticks: "bulk_ticks.keeps (cont u)" for u
    unfolding cont_def incoherent_outcome_def by (intro bulk_ticks_rules bulk_ticks_loop)
  show "w_writes w' = w_writes w @ [write_of t]"
    using bulk_log.keepsD [OF log run] by (simp add: same_writes_def w1_def)
  show "Suc (w_tick w) \<le> w_tick w'"
    using bulk_ticks.keepsD [OF ticks run] by (simp add: w1_def)
  show "applied_outcome env i t rc out" if "r = Inr out" "acknowledged env (w_tick w) t"
  proof -
    from that(2) obtain obs where u: "?u = Inr obs" by (auto simp: acknowledged_def is_ok_iff)
    show ?thesis
    proof (cases obs)
      case (Some v)
      then show ?thesis using run that(1) u by (auto simp: cont_def intro: after_patch_outcome)
    next
      case None
      with run that(1) u obtain r1 w2 where "read_target env (BySysId (bt_sys_id t)) w1 = (r1, w2)"
        and step: "(case r1 of
             Inr post \<Rightarrow> after_patch env key i t current (rt_sys_updated_on post) rc
           | Inl _ \<Rightarrow> incoherent_outcome env key i t current (rt_sys_updated_on current) rc) w2 = (Inr out, w')"
        by (auto simp: cont_def inspect_iff)
      then show ?thesis
        by (cases r1) (auto simp: incoherent_outcome_def applied_outcome_def
            dest!: saved_outcome_Inr dest: after_patch_outcome [unfolded applied_outcome_def])
    qed
  qed
  show "\<exists>d observed. out = (Some
       \<lparr>bf_code = ''UPSTREAM_ERROR'', bf_upstream_applied = False, bf_diagnostic = Some d\<rparr>,
        mark_failed_and_remaining i ''UPSTREAM_ERROR'' observed rc)"
    if "r = Inr out" "\<not> acknowledged env (w_tick w) t"
    using run that by (cases ?u) (auto simp: acknowledged_def cont_def dest!: saved_outcome_Inr)
qed

text \<open>A turn of the loop either leaves the target alone, or sends one PATCH right after a read that
  found the planned version.\<close>

lemma apply_target_outcome:
  assumes "apply_target env key i t rc w = (r, w')"
  obtains (unsent) code observed
    where "w_writes w' = w_writes w" "r = Inr (Some (failed_with code), mark_failed_and_remaining i code observed rc)"
  | (sent) "unchanged_at env (w_tick w) t" "w_writes w' = w_writes w @ [write_of t]"
      "Suc (Suc (w_tick w)) \<le> w_tick w'"
      "\<And>out. r = Inr out \<Longrightarrow> acknowledged env (Suc (w_tick w)) t \<Longrightarrow> applied_outcome env i t rc out"
      "\<And>out. r = Inr out \<Longrightarrow> \<not> acknowledged env (Suc (w_tick w)) t \<Longrightarrow> \<exists>d observed. out = (Some
         \<lparr>bf_code = ''UPSTREAM_ERROR'', bf_upstream_applied = False, bf_diagnostic = Some d\<rparr>,
          mark_failed_and_remaining i ''UPSTREAM_ERROR'' observed rc)"
proof -
  let ?w1 = "w\<lparr>w_tick := Suc (w_tick w), w_stores := be_others env (w_tick w) (w_stores w)\<rparr>"
  let ?c = "bind_ok (map_err ReadFailed (be_read_incident env (w_tick w) (BySysId (bt_sys_id t)))) resolved_of_fields"
  show thesis
  proof (cases ?c)
    case (Inl err)
    then show thesis using assms unsent
      by (auto simp: apply_target_def inspect_def read_target_eq ok_def)
  next
    case c: (Inr cur)
    show thesis
    proof (cases "rt_sys_updated_on cur = bt_sys_updated_on t")
      case False
      then show thesis using assms unsent c
        by (auto simp: apply_target_def inspect_def read_target_eq ok_def)
    next
      case True
      then have "patch_target env key i t cur rc ?w1 = (r, w')"
        using assms c by (simp add: apply_target_def inspect_def read_target_eq)
      note out = patch_target_outcome [OF this]
      have "unchanged_at env (w_tick w) t" using True c by (simp add: unchanged_at_def target_version_def)
      then show thesis by (rule sent) (use out in auto)
    qed
  qed
qed

subsection \<open>The receipt\<close>

definition statuses :: "bulk_receipt \<Rightarrow> bulk_target_status list" where
  "statuses rc = map bs_status (br_results rc)"

definition result_ids :: "bulk_receipt \<Rightarrow> string list" where
  "result_ids rc = map bs_sys_id (br_results rc)"

lemma recount_parts [simp]:
  "br_results (recount rc) = br_results rc" "statuses (recount rc) = statuses rc"
  "result_ids (recount rc) = result_ids rc"
  by (simp_all add: recount_def statuses_def result_ids_def)

lemma receipt_updates [simp]:
  "statuses (rc\<lparr>br_cache_coherent := b\<rparr>) = statuses rc" "result_ids (rc\<lparr>br_cache_coherent := b\<rparr>) = result_ids rc"
  "statuses (rc\<lparr>br_completed_at := now\<rparr>) = statuses rc" "result_ids (rc\<lparr>br_completed_at := now\<rparr>) = result_ids rc"
  "statuses (rc\<lparr>br_status := s\<rparr>) = statuses rc" "result_ids (rc\<lparr>br_status := s\<rparr>) = result_ids rc"
  by (simp_all add: statuses_def result_ids_def)

lemma mark_applied_parts [simp]:
  "statuses (mark_applied h i t b obs rc) = (statuses rc)[i := TargetApplied]"
  "result_ids (mark_applied h i t b obs rc) = (result_ids rc)[i := bt_sys_id t]"
  by (simp_all add: mark_applied_def statuses_def result_ids_def map_update)

lemma mark_after_parts [simp]:
  "statuses (mark_not_attempted_after i rc) =
     take (Suc i) (statuses rc) @ replicate (length (statuses rc) - Suc i) TargetNotAttempted"
  "result_ids (mark_not_attempted_after i rc) = result_ids rc"
proof -
  have "map bs_status (map reset_result rs) = replicate (length rs) TargetNotAttempted"
    "map bs_sys_id (map reset_result rs) = map bs_sys_id rs" for rs
    by (induction rs) (simp_all add: reset_result_def)
  then show "statuses (mark_not_attempted_after i rc) =
     take (Suc i) (statuses rc) @ replicate (length (statuses rc) - Suc i) TargetNotAttempted"
    "result_ids (mark_not_attempted_after i rc) = result_ids rc"
    by (simp_all add: mark_not_attempted_after_def statuses_def result_ids_def take_map del: map_map)
       (simp_all flip: map_append)
qed

lemma mark_failed_parts [simp]:
  assumes "i < length (statuses rc)"
  shows "statuses (mark_failed_and_remaining i code obs rc) =
      take i (statuses rc) @ TargetFailed # replicate (length (statuses rc) - Suc i) TargetNotAttempted"
    "result_ids (mark_failed_and_remaining i code obs rc) = result_ids rc"
proof -
  have i: "i < length (br_results rc)" using assms by (simp add: statuses_def)
  define r2 where "r2 = (let r1 = (br_results rc ! i)\<lparr>bs_status := TargetFailed, bs_error_code := Some code\<rparr>
    in if obs \<noteq> [] then r1\<lparr>bs_observed := obs\<rparr> else r1)"
  define rc' where "rc' = rc\<lparr>br_results := (br_results rc)[i := r2]\<rparr>"
  have eq: "mark_failed_and_remaining i code obs rc = recount (mark_not_attempted_after i rc')"
    by (simp add: mark_failed_and_remaining_def rc'_def r2_def Let_def)
  have r2: "bs_status r2 = TargetFailed" "bs_sys_id r2 = bs_sys_id (br_results rc ! i)"
    by (simp_all add: r2_def Let_def)
  have "statuses rc' = (statuses rc)[i := TargetFailed]" "result_ids rc' = result_ids rc"
    using r2 i by (simp_all add: rc'_def statuses_def result_ids_def map_update list_update_same_conv)
  then show "statuses (mark_failed_and_remaining i code obs rc) =
      take i (statuses rc) @ TargetFailed # replicate (length (statuses rc) - Suc i) TargetNotAttempted"
    "result_ids (mark_failed_and_remaining i code obs rc) = result_ids rc"
    using assms by (simp_all add: eq take_Suc_conv_app_nth)
qed

text \<open>The four ways the loop ends: every target applied, or stopped at target \<open>k\<close> before its PATCH,
  by a refused PATCH, or after a PATCH whose local effect failed.\<close>

datatype ending =
    AllApplied
  | StoppedUnsent nat
  | Refused nat
  | Incoherent nat

fun ending_statuses :: "nat \<Rightarrow> ending \<Rightarrow> bulk_target_status list" where
  "ending_statuses n AllApplied = replicate n TargetApplied"
| "ending_statuses n (StoppedUnsent k) =
     replicate k TargetApplied @ TargetFailed # replicate (n - Suc k) TargetNotAttempted"
| "ending_statuses n (Refused k) =
     replicate k TargetApplied @ TargetFailed # replicate (n - Suc k) TargetNotAttempted"
| "ending_statuses n (Incoherent k) =
     replicate (Suc k) TargetApplied @ replicate (n - Suc k) TargetNotAttempted"

fun ending_sent :: "nat \<Rightarrow> ending \<Rightarrow> nat" where
  "ending_sent n AllApplied = n"
| "ending_sent n (StoppedUnsent k) = k"
| "ending_sent n (Refused k) = Suc k"
| "ending_sent n (Incoherent k) = Suc k"

fun ending_in :: "nat \<Rightarrow> ending \<Rightarrow> bool" where
  "ending_in n AllApplied = True"
| "ending_in n (StoppedUnsent k) = (k < n)"
| "ending_in n (Refused k) = (k < n)"
| "ending_in n (Incoherent k) = (k < n)"

fun refused :: "ending \<Rightarrow> bool" where
  "refused (Refused _) = True"
| "refused _ = False"

text \<open>The failure the handler reports for each ending.\<close>

fun ending_failure :: "ending \<Rightarrow> bulk_failure option \<Rightarrow> bool" where
  "ending_failure AllApplied f = (f = None)"
| "ending_failure (StoppedUnsent _) f = (\<exists>code. f = Some (failed_with code))"
| "ending_failure (Refused _) f = (\<exists>d. f = Some
     \<lparr>bf_code = ''UPSTREAM_ERROR'', bf_upstream_applied = False, bf_diagnostic = Some d\<rparr>)"
| "ending_failure (Incoherent _) f = (f = Some incoherent)"

fun later :: "ending \<Rightarrow> ending" where
  "later AllApplied = AllApplied"
| "later (StoppedUnsent k) = StoppedUnsent (Suc k)"
| "later (Refused k) = Refused (Suc k)"
| "later (Incoherent k) = Incoherent (Suc k)"

lemma later_parts [simp]:
  "ending_statuses (Suc n) (later e) = TargetApplied # ending_statuses n e"
  "ending_sent (Suc n) (later e) = Suc (ending_sent n e)" "ending_in (Suc n) (later e) = ending_in n e"
  "refused (later e) = refused e" "ending_failure (later e) = ending_failure e"
  by (cases e; simp add: fun_eq_iff)+

text \<open>What the loop leaves behind, from target \<open>i\<close> on: the PATCH requests, and the outcome unless the
  request was cut short.\<close>

definition last_acknowledged :: "bulk_env \<Rightarrow> bulk_planned_target list \<Rightarrow> nat list \<Rightarrow> bool \<Rightarrow> bool" where
  "last_acknowledged env ts is b = (ts = [] \<or> acknowledged env (Suc (last is)) (last ts) = b)"

definition loop_left ::
  "bulk_env \<Rightarrow> nat \<Rightarrow> bulk_planned_target list \<Rightarrow> bulk_world \<Rightarrow> bulk_world \<Rightarrow> nat \<Rightarrow> nat list \<Rightarrow> bool" where
  "loop_left env m ts w w' n is = (n \<le> length ts \<and> w_writes w' = w_writes w @ map write_of (take n ts)
     \<and> sent_at env m (take n ts) is)"

definition loop_told ::
  "bulk_env \<Rightarrow> bulk_planned_target list \<Rightarrow> bulk_receipt \<Rightarrow> nat \<Rightarrow> target_outcome \<Rightarrow> nat \<Rightarrow> nat list \<Rightarrow> ending \<Rightarrow> bool" where
  "loop_told env ts rc i out n is e = (ending_in (length ts) e \<and> n = ending_sent (length ts) e
     \<and> statuses (snd out) = take i (statuses rc) @ ending_statuses (length ts) e
     \<and> result_ids (snd out) = result_ids rc
     \<and> ending_failure e (fst out) \<and> last_acknowledged env (take n ts) is (\<not> refused e))"

lemma loop_left_unsent: "w_writes w' = w_writes w \<Longrightarrow> loop_left env m ts w w' 0 []"
  by (simp add: loop_left_def)

lemma loop_left_sent:
  assumes "w_writes w1 = w_writes w @ [write_of t]" "unchanged_at env (w_tick w) t"
    "loop_left env m ts w1 w' n is" "Suc (w_tick w) \<le> m"
    "n = 0 \<or> acknowledged env (Suc (w_tick w)) t"
  shows "loop_left env (w_tick w) (t # ts) w w' (Suc n) (w_tick w # is)"
  using assms sent_at_mono [of env m "take n ts" "is" "Suc (w_tick w)"]
  by (auto simp: loop_left_def)

lemma apply_targets_loop:
  assumes "apply_targets env key i ts rc w = (r, w')" "length (statuses rc) = i + length ts"
    "drop i (result_ids rc) = map bt_sys_id ts"
  shows "\<exists>n is. loop_left env (w_tick w) ts w w' n is
    \<and> (\<forall>out. r = Inr out \<longrightarrow> (\<exists>e. loop_told env ts rc i out n is e))"
  using assms
proof (induction ts arbitrary: i rc w)
  case Nil
  then show ?case
    by (auto simp: loop_left_def loop_told_def last_acknowledged_def ok_def
        intro!: exI [of _ "[] :: nat list"] exI [of _ AllApplied])
next
  case (Cons t ts)
  obtain r1 w1 where one: "apply_target env key i t rc w = (r1, w1)" by fastforce
  have len: "i < length (statuses rc)" using Cons.prems(2) by simp
  have told: "loop_told env (t # ts) rc i out (ending_sent (Suc (length ts)) e) is e"
    if "statuses (snd out) = take i (statuses rc) @ ending_statuses (Suc (length ts)) e"
      "result_ids (snd out) = result_ids rc" "ending_failure e (fst out)" "ending_in (Suc (length ts)) e"
      "last_acknowledged env (take (ending_sent (Suc (length ts)) e) (t # ts)) is (\<not> refused e)" for out e "is"
    using that by (simp add: loop_told_def)
  have id: "(result_ids rc)[i := bt_sys_id t] = result_ids rc"
    using Cons.prems(3) by (metis Cons_nth_drop_Suc drop_eq_Nil2 leI list.inject list.simps(9) list.distinct(1) list_update_id)
  from one show ?case
  proof (cases rule: apply_target_outcome)
    case (unsent code observed)
    then have "r = Inr (Some (failed_with code), mark_failed_and_remaining i code observed rc)" "w' = w1"
      using Cons.prems(1) one by (auto simp: andthen_def ok_def)
    moreover have "loop_told env (t # ts) rc i (Some (failed_with code), mark_failed_and_remaining i code observed rc)
        (ending_sent (Suc (length ts)) (StoppedUnsent 0)) [] (StoppedUnsent 0)"
      by (rule told) (use len Cons.prems(2) in \<open>auto simp: last_acknowledged_def\<close>)
    ultimately show ?thesis using loop_left_unsent [OF unsent(1)] by fastforce
  next
    case sent
    have left1: "loop_left env (w_tick w) (t # ts) w w1 1 [w_tick w]"
      using loop_left_sent [OF sent(2) sent(1) loop_left_unsent [of w1 w1 env "Suc (w_tick w)"]] by simp
    show ?thesis
    proof (cases r1)
      case (Inl x)
      then have "r = Inl x" "w' = w1" using Cons.prems(1) one by (auto simp: andthen_def)
      then show ?thesis using left1 by fastforce
    next
      case (Inr out1)
      obtain f1 rc1 where out1: "out1 = (f1, rc1)" by (cases out1)
      show ?thesis
      proof (cases f1)
        case (Some f)
        then have end1: "r = Inr out1" "w' = w1" using Cons.prems(1) one Inr out1 by (auto simp: andthen_def ok_def)
        have "\<exists>e. loop_told env (t # ts) rc i out1 1 [w_tick w] e"
        proof (cases "acknowledged env (Suc (w_tick w)) t")
          case True
          then have "out1 = (f1, rc1) \<and> f1 = Some incoherent \<and> statuses rc1 = take i (statuses rc)
              @ ending_statuses (Suc (length ts)) (Incoherent 0) \<and> result_ids rc1 = result_ids rc"
            using sent(4) [OF Inr] out1 Some len Cons.prems(2) id
            by (auto simp: applied_outcome_def take_Suc_conv_app_nth)
          then show ?thesis
            using told [of out1 "Incoherent 0" "[w_tick w]"] True by (auto simp: last_acknowledged_def)
        next
          case False
          then obtain d obs where "out1 = (Some \<lparr>bf_code = ''UPSTREAM_ERROR'', bf_upstream_applied = False,
              bf_diagnostic = Some d\<rparr>, mark_failed_and_remaining i ''UPSTREAM_ERROR'' obs rc)"
            using sent(5) [OF Inr] by blast
          then show ?thesis
            using told [of out1 "Refused 0" "[w_tick w]"] False len Cons.prems(2)
            by (auto simp: last_acknowledged_def)
        qed
        then show ?thesis using left1 end1 by blast
      next
        case None
        have ack: "acknowledged env (Suc (w_tick w)) t"
          using sent(5) [OF Inr] out1 None by fastforce
        have rc1: "statuses rc1 = (statuses rc)[i := TargetApplied]" "result_ids rc1 = result_ids rc"
          using sent(4) [OF Inr ack] out1 None id by (auto simp: applied_outcome_def incoherent_def)
        have rest: "apply_targets env key (Suc i) ts rc1 w1 = (r, w')"
          using Cons.prems(1) one Inr out1 None by (simp add: andthen_def)
        have "drop (Suc i) (result_ids rc1) = map bt_sys_id ts"
          using Cons.prems(3) by (simp add: rc1 drop_Suc tl_drop [symmetric])
        from Cons.IH [OF rest _ this] obtain n "is"
          where left: "loop_left env (w_tick w1) ts w1 w' n is"
            and told1: "\<forall>out. r = Inr out \<longrightarrow> (\<exists>e. loop_told env ts rc1 (Suc i) out n is e)"
          using Cons.prems(2) by (auto simp: rc1)
        have "loop_left env (w_tick w) (t # ts) w w' (Suc n) (w_tick w # is)"
          using loop_left_sent [OF sent(2) sent(1) left] sent(3) ack by simp
        moreover have "\<exists>e. loop_told env (t # ts) rc i out (Suc n) (w_tick w # is) e" if "r = Inr out" for out
        proof -
          from told1 that obtain e where e: "loop_told env ts rc1 (Suc i) out n is e" by blast
          have "sent_at env (w_tick w1) (take n ts) is" using left by (simp add: loop_left_def)
          then have shape: "is = [] \<longleftrightarrow> take n ts = []"
            by (cases "(env, w_tick w1, take n ts, is)" rule: sent_at.cases) auto
          have "take n ts \<noteq> []" if "refused e" using that e by (cases e) (auto simp: loop_told_def)
          then have "last_acknowledged env (t # take n ts) (w_tick w # is) (\<not> refused e)"
            using e shape ack by (auto simp: loop_told_def last_acknowledged_def)
          then have "loop_told env (t # ts) rc i out (Suc n) (w_tick w # is) (later e)"
            using e len rc1 by (simp add: loop_told_def take_Suc_conv_app_nth)
          then show ?thesis by blast
        qed
        ultimately show ?thesis by blast
      qed
    qed
  qed
qed

end
