(* ===== verification/Bulk_Safety.thy ===== *)
theory Bulk_Safety
  imports Bulk_Loop
begin

text \<open>
  The safety of bulk Incident applies: no PATCH before every gate and the preflight of all targets,
  the PATCH requests are those of a prefix of the plan, and what the response says of them is true.
\<close>

subsection \<open>The stages of an apply\<close>

lemma start_apply_Inr:
  assumes "start_apply env q plan w = (Inr rc, w')"
  shows "\<exists>audit_id started. rc = initial_receipt plan audit_id started"
  using assms by (auto simp: start_apply_def bulk_step_Inr Let_def)

lemma bulk_ticks_start: "bulk_ticks.keeps (start_apply env q plan)"
proof -
  have consume: "bulk_ticks.keeps (consume_bulk_token env token b)" for token b
    by (auto simp: bulk_ticks.keeps_def consume_bulk_token_def Let_def split: prod.splits)
  show ?thesis
    unfolding start_apply_def acquire_key_def append_bulk_audit_def mark_bulk_started_def clear_bulk_started_def
      save_bulk_progress_def internally_def pending_on_error_def Let_def
    by (intro bulk_ticks_rules consume)
qed

lemma bulk_checks_Inr:
  assumes "bulk_checks env q w = (Inr plan, w')"
  obtains row r n where
    "map_option pw_plan (bt_get (bo_plans (w_stores w)) (bq_plan_id q)) = Some plan"
    "\<exists>n. be_clock env n < bp_expires_at plan"
    "check_bulk_request env q plan = Inr ()"
    "bt_get (bo_keys (w_stores w)) (bq_idempotency_key q, bulk_apply_tool) = Some row"
    "kw_op_hash row = bp_op_hash plan" "bulk_startable row"
    "conf_lookup (bo_confirmations (w_stores w)) (bq_confirmation_token q) = Some r"
    "token_valid (be_clock env n) (bulk_binding env (bp_op_hash plan)) r"
    "list_all (\<lambda>t. \<exists>i<w_tick w'. unchanged_at env i t) (bp_targets plan)"
proof -
  from assms obtain p w1 w2 w3 where l: "load_bulk_plan env (bq_plan_id q) w = (Inr p, w1)"
    and rq: "check_bulk_request env q p = Inr ()" and k: "check_bulk_key env q p w1 = (Inr (), w2)"
    and t: "check_bulk_token env q p w2 = (Inr (), w3)" and pf: "preflight env (bp_targets p) w3 = (Inr (), w')"
    and p: "p = plan"
    by (auto simp: bulk_checks_def andthen_Inr step_pure_Inr)
  obtain row where row: "w_stores w2 = w_stores w1"
    "bt_get (bo_keys (w_stores w1)) (bq_idempotency_key q, bulk_apply_tool) = Some row"
    "kw_op_hash row = bp_op_hash p" "bulk_startable row"
    using check_bulk_key_Inr [OF k] by metis
  obtain r n where r: "conf_lookup (bo_confirmations (w_stores w2)) (bq_confirmation_token q) = Some r"
    "token_valid (be_clock env n) (bulk_binding env (bp_op_hash p)) r"
    using check_bulk_token_Inr [OF t] by metis
  note l' = load_bulk_plan_Inr [OF l]
  show thesis
    by (rule that [of row r n]) (use l' rq row r preflight_Inr [OF pf] p in simp_all)
qed

text \<open>An apply that sends anything has passed every stage before the loop.\<close>

definition loop_reached ::
  "bulk_env \<Rightarrow> (string, bulk_apply_request) result \<Rightarrow> bulk_world \<Rightarrow> bulk_apply_request \<Rightarrow> bulk_plan
     \<Rightarrow> bulk_receipt \<Rightarrow> bulk_world \<Rightarrow> bool" where
  "loop_reached env params w q plan rc w3 = (\<exists>w1 w2. bulk_gates env params w = (Inr q, w1)
     \<and> bulk_checks env q w1 = (Inr plan, w2) \<and> start_apply env q plan w2 = (Inr rc, w3))"

lemma apply_stages:
  assumes "apply_bulk_request env params w = (r, w')"
  obtains (stopped) x where "r = Inl x" "w_writes w' = w_writes w"
      "\<And>q plan rc w3. \<not> loop_reached env params w q plan rc w3"
  | (looped) q plan rc w3 r4 w4 where "loop_reached env params w q plan rc w3"
      "apply_targets env (bq_idempotency_key q) 0 (bp_targets plan) rc w3 = (r4, w4)"
      "w_writes w' = w_writes w4" "w_writes w3 = w_writes w"
      "(case r4 of Inl e \<Rightarrow> r = Inl e \<and> w' = w4 | Inr out \<Rightarrow> finish_bulk env q plan out w4 = (r, w'))"
proof -
  obtain r1 w1 where g: "bulk_gates env params w = (r1, w1)" by fastforce
  note l1 = bulk_log.keepsD [OF bulk_log_checks(9) g]
  show thesis
  proof (cases r1)
    case (Inl e)
    have "\<not> loop_reached env params w q plan rc w3" for q plan rc w3
      using g Inl by (simp add: loop_reached_def)
    moreover have "r = Inl e" "w_writes w' = w_writes w"
      using assms g Inl l1 by (auto simp: apply_bulk_request_def andthen_def same_writes_def)
    ultimately show thesis using stopped by blast
  next
    case q: (Inr q)
    obtain r2 w2 where c: "bulk_checks env q w1 = (r2, w2)" by fastforce
    note l2 = bulk_log.keepsD [OF bulk_log_bulk_checks c]
    show thesis
    proof (cases r2)
      case (Inl e)
      have "\<not> loop_reached env params w q' plan rc w3" for q' plan rc w3
        using g q c Inl by (auto simp: loop_reached_def)
      moreover have "r = Inl e" "w_writes w' = w_writes w"
        using assms g q c Inl l1 l2 by (auto simp: apply_bulk_request_def andthen_def same_writes_def)
      ultimately show thesis using stopped by blast
    next
      case plan: (Inr plan)
      obtain r3 w3 where s: "start_apply env q plan w2 = (r3, w3)" by fastforce
      note l3 = bulk_log.keepsD [OF bulk_log_start s]
      show thesis
      proof (cases r3)
        case (Inl e)
        have "\<not> loop_reached env params w q' plan' rc w3'" for q' plan' rc w3'
          using g q c plan s Inl by (auto simp: loop_reached_def)
        moreover have "r = Inl e" "w_writes w' = w_writes w"
          using assms g q c plan s Inl l1 l2 l3 by (auto simp: apply_bulk_request_def andthen_def same_writes_def)
        ultimately show thesis using stopped by blast
      next
        case rc: (Inr rc)
        obtain r4 w4 where a: "apply_targets env (bq_idempotency_key q) 0 (bp_targets plan) rc w3 = (r4, w4)"
          by fastforce
        have reached: "loop_reached env params w q plan rc w3"
          using g q c plan s rc by (auto simp: loop_reached_def)
        have rest: "case r4 of Inl e \<Rightarrow> r = Inl e \<and> w' = w4 | Inr out \<Rightarrow> finish_bulk env q plan out w4 = (r, w')"
          using assms g q c plan s rc a
          by (auto simp: apply_bulk_request_def andthen_def split: sum.splits)
        then have "w_writes w' = w_writes w4"
          using bulk_log.keepsD [OF bulk_log_finish] by (auto simp: same_writes_def split: sum.splits)
        then show thesis using looped [OF reached a _ _ rest] l1 l2 l3 by (simp add: same_writes_def)
      qed
    qed
  qed
qed

lemma loop_reached_loop:
  assumes "loop_reached env params w q plan rc w3"
    "apply_targets env key 0 (bp_targets plan) rc w3 = (r4, w4)"
  shows "\<exists>n is. loop_left env (w_tick w3) (bp_targets plan) w3 w4 n is
    \<and> (\<forall>out. r4 = Inr out \<longrightarrow> (\<exists>e. loop_told env (bp_targets plan) rc 0 out n is e))"
proof -
  obtain a s where "rc = initial_receipt plan a s"
    using assms(1) start_apply_Inr unfolding loop_reached_def by blast
  then have "length (statuses rc) = 0 + length (bp_targets plan)"
    "drop 0 (result_ids rc) = map bt_sys_id (bp_targets plan)"
    by (simp_all add: initial_receipt_def statuses_def result_ids_def initial_result_def)
  from apply_targets_loop [OF assms(2) this] show ?thesis .
qed

lemma loop_reached_preflight:
  assumes "loop_reached env params w q plan rc w3"
  shows "list_all (\<lambda>t. \<exists>i<w_tick w3. unchanged_at env i t) (bp_targets plan)"
proof -
  from assms obtain w1 w2 where c: "bulk_checks env q w1 = (Inr plan, w2)"
    and s: "start_apply env q plan w2 = (Inr rc, w3)" by (auto simp: loop_reached_def)
  have "w_tick w2 \<le> w_tick w3" using bulk_ticks.keepsD [OF bulk_ticks_start s] by simp
  moreover have "list_all (\<lambda>t. \<exists>i<w_tick w2. unchanged_at env i t) (bp_targets plan)"
    using bulk_checks_Inr [OF c] by blast
  ultimately show ?thesis by (auto simp: list_all_iff) (meson less_le_trans)
qed

subsection \<open>The end of the request\<close>

definition pending :: "bulk_response \<Rightarrow> bool" where
  "pending x = (case x of BulkError e \<Rightarrow> rpc_code e = -32060 | _ \<Rightarrow> False)"

lemma pending_on_error_Inl: "pending_on_error m w = (Inl x, w') \<Longrightarrow> pending x"
  by (cases "m w"; cases "fst (m w)")
     (auto simp: pending_on_error_def map_err_step_def inspect_run of_result_def pending_def
      pending_after_store_failure_def)

lemma loop_Inl:
  "apply_target env key i t rc w = (Inl x, w') \<Longrightarrow> pending x"
  "apply_targets env key i ts rc w = (Inl x, w') \<Longrightarrow> pending x"
proof -
  have saved: "saved_outcome env key out w = (Inl x, w') \<Longrightarrow> pending x" for out w w'
    by (auto simp: saved_outcome_def andthen_Inl ok_def dest: pending_on_error_Inl)
  have after: "after_patch env key i t current obs rc w = (Inl x, w') \<Longrightarrow> pending x" for i t current obs rc w w'
    by (auto simp: after_patch_def incoherent_outcome_def andthen_Inl bulk_call_def awaiting_def
        split: if_splits dest: saved)
  have patch: "patch_target env key i t current rc w = (Inl x, w') \<Longrightarrow> pending x" for i t current rc w w'
    by (auto simp: patch_target_def andthen_Inl bulk_send_eq inspect_sum incoherent_outcome_def
        split: sum.splits option.splits dest: saved after)
  show one: "apply_target env key i t rc w = (Inl x, w') \<Longrightarrow> pending x" for i t rc w w'
    by (auto simp: apply_target_def inspect_sum ok_def split: if_splits dest: patch)
  show "apply_targets env key i ts rc w = (Inl x, w') \<Longrightarrow> pending x"
    by (induction ts arbitrary: i rc w)
       (auto simp: andthen_Inl ok_def split: prod.splits option.splits dest: one)
qed

definition told_receipt :: "bulk_response \<Rightarrow> bulk_receipt option" where
  "told_receipt x = (case x of
     BulkReceipted rc \<Rightarrow> (if br_replay rc then None else Some rc)
   | BulkPartialFailure _ _ _ rc \<Rightarrow> Some rc
   | _ \<Rightarrow> None)"

text \<open>The receipt the loop's outcome becomes.\<close>

definition final_receipt :: "time \<Rightarrow> target_outcome \<Rightarrow> bulk_receipt" where
  "final_receipt completed out =
     (let rc = recount ((snd out)\<lparr>br_completed_at := completed\<rparr>)
      in if fst out = None then rc else rc\<lparr>br_status := BulkPartial\<rparr>)"

lemma count_statuses: "count_status s (br_results rc) = length (filter ((=) s) (statuses rc))"
  by (simp add: count_status_def statuses_def filter_map comp_def eq_commute)

lemma final_receipt_parts [simp]:
  "statuses (final_receipt c out) = statuses (snd out)" "result_ids (final_receipt c out) = result_ids (snd out)"
  "br_applied_count (final_receipt c out) = length (filter ((=) TargetApplied) (statuses (snd out)))"
  "br_failed_count (final_receipt c out) = length (filter ((=) TargetFailed) (statuses (snd out)))"
  "br_not_attempted_count (final_receipt c out) = length (filter ((=) TargetNotAttempted) (statuses (snd out)))"
  by (simp_all add: final_receipt_def Let_def)
     (simp_all add: recount_def count_statuses)

lemma finish_bulk_outcome:
  assumes "finish_bulk env q plan out w = (r, w')"
  obtains (cut) x where "r = Inl x" "pending x"
  | (unapplied) f c where "r = Inr (BulkError (terminal_error f))" "fst out = Some f"
      "br_applied_count (final_receipt c out) = 0"
  | (partly) f c where "fst out = Some f" "br_applied_count (final_receipt c out) \<noteq> 0"
      "r = Inr (BulkPartialFailure (bf_code f) (bf_upstream_applied f) (bf_diagnostic f) (final_receipt c out))"
  | (succeeded) c where "fst out = None" "r = Inr (BulkReceipted (final_receipt c out))"
proof -
  define c where "c = be_clock env (w_tick w)"
  define w1 where "w1 = w\<lparr>w_tick := Suc (w_tick w)\<rparr>"
  define rc where "rc = recount ((snd out)\<lparr>br_completed_at := c\<rparr>)"
  have count: "br_applied_count (final_receipt c out) = br_applied_count rc"
    by (auto simp: final_receipt_def rc_def Let_def)
  have unapplied_r: "r = Inr (BulkError (terminal_error f)) \<or> (\<exists>x. r = Inl x \<and> pending x)"
    if "finish_unapplied env q plan f rc w1 = (r, w')" for f
    using that by (cases r) (auto simp: finish_unapplied_def andthen_Inr andthen_Inl ok_def Let_def
        dest: pending_on_error_Inl)
  have applied_r: "r = Inr (case fo of Some f \<Rightarrow> BulkPartialFailure (bf_code f) (bf_upstream_applied f)
       (bf_diagnostic f) (final_receipt c out) | None \<Rightarrow> BulkReceipted (final_receipt c out))
     \<or> (\<exists>x. r = Inl x \<and> pending x)"
    if "finish_applied env q plan fo rc w1 = (r, w')" "fst out = fo" for fo
    using that by (cases r) (auto simp: finish_applied_def andthen_Inr andthen_Inl inspect_iff ok_def Let_def
        final_receipt_def rc_def split: option.splits dest: pending_on_error_Inl)
  have run: "(case fst out of
        Some f \<Rightarrow> if br_applied_count rc = 0 then finish_unapplied env q plan f rc
                  else finish_applied env q plan (Some f) rc
      | None \<Rightarrow> finish_applied env q plan None rc) w1 = (r, w')"
    using assms unfolding finish_bulk_def andthen_def ask_def rc_def c_def w1_def Let_def by simp
  show thesis
  proof (cases "fst out")
    case None
    then show thesis using run applied_r [of None] cut succeeded by auto
  next
    case (Some f)
    show thesis
    proof (cases "br_applied_count rc = 0")
      case True
      then show thesis using Some run unapplied_r [of f] cut unapplied [of f c] count
        by (simp del: final_receipt_parts) metis
    next
      case False
      then show thesis using Some run applied_r [of "Some f"] cut partly [of f c] count
        by (simp del: final_receipt_parts) metis
    qed
  qed
qed

end
