(* ===== verification/Bulk_Progress.thy ===== *)
theory Bulk_Progress
  imports Bulk_Safety
begin

text \<open>
  A bulk apply that meets no failure runs to its end: under an environment where the statements
  succeed, the client answers and nobody interferes, every stage yields a value.
\<close>

definition smooth :: "bulk_env \<Rightarrow> bool" where
  "smooth env = ((\<forall>n. be_sql_ok env n) \<and> (\<forall>n s. be_others env n s = s) \<and> (\<forall>n i. be_prune env n i)
     \<and> (\<forall>n v. \<not> switched_on (be_env_var env n v)) \<and> inj (be_uuid env))"

definition accepting :: "bulk_env \<Rightarrow> bool" where
  "accepting env = (\<forall>n x. \<exists>observed. be_update env n x = Inr (Some observed))"

lemma smooth_steps:
  assumes "smooth env"
  shows "bulk_sql env f w = (Inr (fst (f (w_stores w))), w\<lparr>w_tick := Suc (w_tick w), w_stores := snd (f (w_stores w))\<rparr>)"
    "bulk_call env g w = (Inr (g (w_tick w)), w\<lparr>w_tick := Suc (w_tick w)\<rparr>)"
    "read_target env sel w = (bind_ok (map_err ReadFailed (be_read_incident env (w_tick w) sel)) resolved_of_fields,
       w\<lparr>w_tick := Suc (w_tick w)\<rparr>)"
    "bulk_send env x w = (Inr (be_update env (w_tick w) x),
       w\<lparr>w_tick := Suc (w_tick w), w_writes := w_writes w @ [x]\<rparr>)"
  using assms by (auto simp: smooth_def bulk_sql_def statement_def bulk_call_def awaiting_def read_target_eq
      bulk_send_eq Let_def split: prod.splits)

lemma wrapped_run:
  "m w = (Inr x, w') \<Longrightarrow> internally m w = (Inr x, w')"
  "m w = (Inr x, w') \<Longrightarrow> pending_on_error m w = (Inr x, w')"
  "n w = (Inr y, w') \<Longrightarrow> build_step n w = (Inr y, w')"
  by (simp_all add: bulk_wrappers_Inr)

lemma map_err_run: "m w = (Inr x, w') \<Longrightarrow> map_err_step g m w = (Inr x, w')"
  by (simp add: map_err_step_Inr)

subsection \<open>Gates and checks\<close>

definition same_stores :: "bulk_world \<Rightarrow> bulk_world \<Rightarrow> bool" where
  "same_stores w w' = (w_stores w' = w_stores w)"

lemma gates_run:
  assumes "smooth env" "\<not> tool_denied (be_policy env) (be_label env) bulk_apply_tool True"
    "\<not> tool_denied (be_policy env) (be_label env) bulk_plan_tool True"
  shows "\<exists>w'. bulk_gates env (Inr q) w = (Inr q, w') \<and> w_stores w' = w_stores w"
  using assms by (simp add: bulk_gates_def reject_kill_switch_def policy_denial_def andthen_def ask_def ok_def
      of_result_def smooth_def)

lemma preflight_run:
  assumes "smooth env" "list_all (\<lambda>t. \<forall>n. unchanged_at env n t) ts"
  shows "\<exists>w'. preflight env ts w = (Inr (), w') \<and> w_stores w' = w_stores w"
  using assms(2)
proof (induction ts arbitrary: w)
  case (Cons t ts)
  let ?w1 = "w\<lparr>w_tick := Suc (w_tick w)\<rparr>"
  from Cons.prems have "unchanged_at env (w_tick w) t" by simp
  then obtain c where "read_target env (BySysId (bt_sys_id t)) w = (Inr c, ?w1)"
    "rt_sys_updated_on c = bt_sys_updated_on t"
    by (auto simp: unchanged_at_def target_version_def smooth_steps [OF assms(1)] split: sum.splits)
  then have "preflight env (t # ts) w = preflight env ts ?w1"
    by (simp add: andthen_run(1) [OF wrapped_run(3)])
  then show ?case using Cons.IH [of ?w1] Cons.prems by simp
qed (simp add: ok_def)

lemma checks_run:
  assumes "smooth env" "bt_get (bo_plans (w_stores w)) (bq_plan_id q) = Some row" "pw_plan row = plan"
    "\<forall>n. be_clock env n < bp_expires_at plan" "check_bulk_request env q plan = Inr ()"
    "bt_get (bo_keys (w_stores w)) (bq_idempotency_key q, bulk_apply_tool) = Some krow"
    "kw_op_hash krow = bp_op_hash plan" "bulk_startable krow" "\<forall>n. be_clock env n < kw_expires_at krow"
    "conf_lookup (bo_confirmations (w_stores w)) (bq_confirmation_token q) = Some r"
    "\<forall>n. token_valid (be_clock env n) (bulk_binding env (bp_op_hash plan)) r"
    "list_all (\<lambda>t. \<forall>n. unchanged_at env n t) (bp_targets plan)"
  shows "\<exists>w'. bulk_checks env q w = (Inr plan, w') \<and> w_stores w' = w_stores w"
proof -
  note steps = smooth_steps [OF assms(1)]
  have live: "\<not> bp_expires_at plan \<le> be_clock env n" "\<not> kw_expires_at krow \<le> be_clock env n" for n
    using assms(4,9) by (simp_all add: not_le)
  have "\<exists>w1. load_bulk_plan env (bq_plan_id q) w = (Inr plan, w1) \<and> w_stores w1 = w_stores w"
    using assms(2,3) live by (simp add: load_bulk_plan_def open_bulk_store_def get_bulk_plan_def andthen_def
        wrapped_run(1) [OF steps(1)] ask_def ok_def)
  then obtain w1 where l: "load_bulk_plan env (bq_plan_id q) w = (Inr plan, w1)" "w_stores w1 = w_stores w" by blast
  have "\<exists>w2. lookup_bulk_key env (bq_idempotency_key q) bulk_apply_tool w1 = (Inr (Some krow), w2)
      \<and> w_stores w2 = w_stores w"
    using assms(6) live l(2) by (simp add: lookup_bulk_key_def andthen_def steps ask_def ok_def)
  then obtain w2 where k: "lookup_bulk_key env (bq_idempotency_key q) bulk_apply_tool w1 = (Inr (Some krow), w2)"
    "w_stores w2 = w_stores w" by blast
  have k1: "internally (lookup_bulk_key env (bq_idempotency_key q) bulk_apply_tool) w1 = (Inr (Some krow), w2)"
    using k(1) by (rule wrapped_run(1))
  have key: "check_bulk_key env q plan w1 = (Inr (), w2)"
    using assms(7,8) by (simp add: check_bulk_key_def andthen_def k1 bulk_startable_def
        ok_def Let_def)
  have "\<exists>w3. check_bulk_token env q plan w2 = (Inr (), w3) \<and> w_stores w3 = w_stores w"
    using assms(10,11) k(2)
    by (simp add: check_bulk_token_def open_confirmations_def lookup_bulk_token_def andthen_def
        wrapped_run(1) [OF steps(1)] ask_def of_result_def validate_confirmation_record_Inr)
  then obtain w3 where t: "check_bulk_token env q plan w2 = (Inr (), w3)" "w_stores w3 = w_stores w" by blast
  obtain w4 where "preflight env (bp_targets plan) w3 = (Inr (), w4)" "w_stores w4 = w_stores w"
    using preflight_run [OF assms(1,12)] t(2) by metis
  then show ?thesis
    using l(1) key t(1) assms(5) by (simp add: bulk_checks_def andthen_def of_result_def ok_def)
qed

subsection \<open>The audit log and the key\<close>

definition bulk_audit_ids :: "bulk_world \<Rightarrow> string set" where
  "bulk_audit_ids w = set (map ar_audit_id (bo_audit (w_stores w)))"

lemma retention_ids:
  "set (map ar_audit_id (snd (enforce_retention h ser now days t))) \<subseteq> set (map ar_audit_id t)"
  by (auto simp: enforce_retention_def update_row_def Let_def split: option.splits)

lemma append_event_fresh:
  assumes "ae_audit_id e \<notin> set (map ar_audit_id t)"
  shows "\<exists>x t'. append_event h ser now e t = (Inr x, t')
    \<and> set (map ar_audit_id t') = insert (ae_audit_id e) (set (map ar_audit_id t))"
proof -
  obtain x where x: "fst (append_event h ser now e t) = Inr x"
    using assms by (simp add: append_event_eq Let_def)
  from append_event_ok(1,4) [OF x] show ?thesis
    by (intro exI [of _ x] exI [of _ "snd (append_event h ser now e t)"])
       (simp add: x prod_eq_iff row_of_event_def)
qed

lemma audit_run:
  assumes "smooth env" "audit_id \<notin> bulk_audit_ids w"
  shows "\<exists>w' t. append_bulk_audit env audit_id par tool st js er act req w = (Inr (), w')
    \<and> w_stores w' = (w_stores w)\<lparr>bo_audit := t\<rparr> \<and> bulk_audit_ids w' \<subseteq> insert audit_id (bulk_audit_ids w)
    \<and> w_tick w < w_tick w'"
proof -
  define t1 where "t1 = snd (enforce_retention (be_sha256 env) (be_event_ser env) (be_clock env (Suc (w_tick w)))
    (be_retention_days env) (bo_audit (w_stores w)))"
  have ids: "set (map ar_audit_id t1) \<subseteq> bulk_audit_ids w"
    unfolding t1_def bulk_audit_ids_def by (rule retention_ids)
  define e where "e = bulk_event env (be_clock env (Suc (Suc (Suc (w_tick w))))) audit_id par tool st js er act req"
  have e: "ae_audit_id e = audit_id" by (simp add: e_def bulk_event_def event_new_plan_def)
  obtain x t2 where app: "append_event (be_sha256 env) (be_event_ser env)
      (be_clock env (Suc (Suc (Suc (Suc (w_tick w)))))) e t1 = (Inr x, t2)"
    "set (map ar_audit_id t2) = insert audit_id (set (map ar_audit_id t1))"
  proof -
    have "ae_audit_id e \<notin> set (map ar_audit_id t1)" using ids assms(2) e by auto
    from append_event_fresh [OF this] show ?thesis using that e by metis
  qed
  have "append_bulk_audit env audit_id par tool st js er act req w = (Inr (),
      w\<lparr>w_tick := Suc (Suc (Suc (Suc (Suc (Suc (w_tick w)))))), w_stores := (w_stores w)\<lparr>bo_audit := t2\<rparr>\<rparr>)"
    using app(1) by (simp add: append_bulk_audit_def andthen_def smooth_steps [OF assms(1)] ask_def ok_def
        case_prod_beta flip: t1_def e_def)
  then show ?thesis using app(2) ids by (auto simp: bulk_audit_ids_def)
qed

lemma acquire_run:
  assumes "smooth env" "bt_wf (bo_keys (w_stores w))" "bt_wf (bo_confirmations (w_stores w))"
    "bt_get (bo_keys (w_stores w)) (bq_idempotency_key q, bulk_apply_tool) = Some krow" "bulk_startable krow"
    "conf_lookup (bo_confirmations (w_stores w)) (bq_confirmation_token q) = Some r"
    "\<forall>n. token_valid (be_clock env n) (bulk_binding env (bp_op_hash plan)) r"
  shows "\<exists>w' now. acquire_key env q plan w = (Inr (), w') \<and> bo_audit (w_stores w') = bo_audit (w_stores w)
    \<and> bt_get (bo_keys (w_stores w')) (bq_idempotency_key q, bulk_apply_tool)
         = Some (krow\<lparr>kw_apply_started_at := Some now\<rparr>)
    \<and> conf_lookup (bo_confirmations (w_stores w')) (bq_confirmation_token q) = Some (r\<lparr>cr_consumed := True\<rparr>)
    \<and> w_tick w < w_tick w'"
proof -
  let ?k = "(bq_idempotency_key q, bulk_apply_tool)" and ?now = "be_clock env (w_tick w)"
  define s1 where "s1 = update_key bulk_startable (\<lambda>r. r\<lparr>kw_apply_started_at := Some ?now\<rparr>)
     (bq_idempotency_key q) bulk_apply_tool (w_stores w)"
  define w1 where "w1 = w\<lparr>w_tick := Suc (Suc (w_tick w)), w_stores := s1\<rparr>"
  have mark: "mark_bulk_started env (bq_idempotency_key q) bulk_apply_tool w = (Inr True, w1)"
    using bt_count_key [OF assms(2), of ?k bulk_startable] assms(4,5)
    by (simp add: mark_bulk_started_def andthen_def ask_def smooth_steps [OF assms(1)] s1_def w1_def)
  have mark1: "pending_on_error (mark_bulk_started env (bq_idempotency_key q) bulk_apply_tool) w = (Inr True, w1)"
    using mark by (rule wrapped_run(2))
  have key: "bt_get (bo_keys s1) ?k = Some (krow\<lparr>kw_apply_started_at := Some ?now\<rparr>)"
    using assms(4,5) by (simp add: s1_def update_key_def bt_get_update)
  have same: "bo_confirmations s1 = bo_confirmations (w_stores w)" "bo_audit s1 = bo_audit (w_stores w)"
    by (simp_all add: s1_def update_key_def)
  let ?b = "bulk_binding env (bp_op_hash plan)" and ?i = "Suc (Suc (w_tick w))"
  let ?run = "conf_consume (be_sql_ok env ?i) (be_sql_ok env (?i + 1)) (be_clock env (?i + 2))
     (bq_confirmation_token q) ?b (bo_confirmations s1)"
  have ok: "fst ?run = Inr (r\<lparr>cr_consumed := True\<rparr>)"
    using assms(1,3,6,7) by (simp add: conf_consume_ok same smooth_def)
  have tok: "conf_lookup (snd ?run) (bq_confirmation_token q) = Some (r\<lparr>cr_consumed := True\<rparr>)"
    using conf_consume_table [OF assms(3)] ok assms(6) by (simp add: same)
  obtain c where run: "?run = (Inr (r\<lparr>cr_consumed := True\<rparr>), c)" using ok by (metis prod.collapse)
  define w2 where "w2 = w1\<lparr>w_tick := ?i + 3, w_stores := s1\<lparr>bo_confirmations := c\<rparr>\<rparr>"
  have "consume_bulk_token env (bq_confirmation_token q) ?b w1 = (Inr (r\<lparr>cr_consumed := True\<rparr>), w2)"
    using run by (simp add: consume_bulk_token_def w1_def w2_def Let_def)
  then have "acquire_key env q plan w = (Inr (), w2)"
    by (simp add: acquire_key_def andthen_def mark1 inspect_def ok_def)
  then show ?thesis using key tok run same by (auto simp: w2_def)
qed

subsection \<open>The loop\<close>

definition others_row :: "bulk_stores \<Rightarrow> bulk_stores \<Rightarrow> bool" where
  "others_row s s' = (bo_audit s' = bo_audit s \<and> bo_confirmations s' = bo_confirmations s \<and> bo_plans s' = bo_plans s)"

lemma save_progress_run:
  assumes "smooth env"
  shows "save_bulk_progress env key rc w = (Inr (), w\<lparr>w_tick := Suc (w_tick w),
     w_stores := update_key (\<lambda>_. True) (\<lambda>r. r\<lparr>kw_progress := Some rc\<rparr>) key bulk_apply_tool (w_stores w)\<rparr>)"
  by (simp add: save_bulk_progress_def smooth_steps [OF assms])

lemma apply_target_run:
  assumes "smooth env" "unchanged_at env (w_tick w) t" "accepting env"
  shows "\<exists>rc' w' n. apply_target env key i t rc w = (Inr (None, rc'), w') \<and> br_audit_id rc' = br_audit_id rc
    \<and> br_replay rc' = br_replay rc
    \<and> w_stores w' = update_key (\<lambda>_. True) (\<lambda>r. r\<lparr>kw_progress := Some rc'\<rparr>) key bulk_apply_tool (w_stores w)"
proof -
  note steps = smooth_steps [OF assms(1)]
  obtain c where c: "bind_ok (map_err ReadFailed (be_read_incident env (w_tick w) (BySysId (bt_sys_id t)))) resolved_of_fields = Inr c"
    "rt_sys_updated_on c = bt_sys_updated_on t"
    using assms(2) by (auto simp: unchanged_at_def target_version_def split: sum.splits)
  obtain obs where obs: "be_update env (Suc (w_tick w)) (bt_sys_id t, bt_patch t) = Inr (Some obs)"
    using assms(3) unfolding accepting_def by blast
  have prune: "be_prune env n j" for n j using assms(1) by (simp add: smooth_def)
  show ?thesis
    by (simp add: apply_target_def inspect_def steps c patch_target_def andthen_def obs after_patch_def prune
        saved_outcome_def wrapped_run(2) [OF save_progress_run [OF assms(1)]] ok_def)
       (simp add: mark_applied_def recount_def)
qed

lemma apply_targets_run:
  assumes "smooth env" "accepting env" "list_all (\<lambda>t. \<forall>n. unchanged_at env n t) ts"
  shows "\<exists>rc' w'. apply_targets env key i ts rc w = (Inr (None, rc'), w') \<and> br_audit_id rc' = br_audit_id rc
    \<and> br_replay rc' = br_replay rc
    \<and> others_row (w_stores w) (w_stores w')
    \<and> (\<forall>k. bt_get (bo_keys (w_stores w)) k = None \<longleftrightarrow> bt_get (bo_keys (w_stores w')) k = None)"
  using assms(3)
proof (induction ts arbitrary: i rc w)
  case (Cons t ts)
  obtain rc1 w1 where one: "apply_target env key i t rc w = (Inr (None, rc1), w1)" "br_audit_id rc1 = br_audit_id rc"
    "br_replay rc1 = br_replay rc"
    "w_stores w1 = update_key (\<lambda>_. True) (\<lambda>r. r\<lparr>kw_progress := Some rc1\<rparr>) key bulk_apply_tool (w_stores w)"
    using apply_target_run [OF assms(1) _ assms(2)] Cons.prems by (metis list.pred_inject(2))
  have "apply_targets env key i (t # ts) rc w = apply_targets env key (Suc i) ts rc1 w1"
    by (simp add: andthen_def one(1))
  moreover have "others_row (w_stores w) (w_stores w1)"
    "\<forall>k. bt_get (bo_keys (w_stores w)) k = None \<longleftrightarrow> bt_get (bo_keys (w_stores w1)) k = None"
    by (auto simp: one(4) update_key_def others_row_def bt_get_update)
  ultimately show ?case
    using Cons.IH [of "Suc i" rc1 w1] Cons.prems one(2,3) by (auto simp: others_row_def)
qed (simp add: ok_def others_row_def)

subsection \<open>The whole apply\<close>

definition fresh_audit_ids :: "bulk_env \<Rightarrow> bulk_world \<Rightarrow> bool" where
  "fresh_audit_ids env w = (\<forall>n. be_uuid env n \<notin> bulk_audit_ids w)"

lemma start_run:
  assumes "smooth env" "fresh_audit_ids env w" "bt_wf (bo_keys (w_stores w))" "bt_wf (bo_confirmations (w_stores w))"
    "bt_get (bo_keys (w_stores w)) (bq_idempotency_key q, bulk_apply_tool) = Some krow" "bulk_startable krow"
    "conf_lookup (bo_confirmations (w_stores w)) (bq_confirmation_token q) = Some r"
    "\<forall>n. token_valid (be_clock env n) (bulk_binding env (bp_op_hash plan)) r"
  shows "\<exists>n started w'. start_apply env q plan w = (Inr (initial_receipt plan (be_uuid env n) started), w')
    \<and> be_uuid env n \<notin> bulk_audit_ids w'
    \<and> bt_get (bo_keys (w_stores w')) (bq_idempotency_key q, bulk_apply_tool) \<noteq> None
    \<and> conf_lookup (bo_confirmations (w_stores w')) (bq_confirmation_token q) = Some (r\<lparr>cr_consumed := True\<rparr>)"
proof -
  note steps = smooth_steps [OF assms(1)]
  define w1 where "w1 = w\<lparr>w_tick := Suc (w_tick w)\<rparr>"
  have "be_uuid env (w_tick w) \<notin> bulk_audit_ids w1"
    using assms(2) by (simp add: fresh_audit_ids_def w1_def bulk_audit_ids_def)
  from audit_run [OF assms(1) this, of "Some (bp_plan_id plan)" bulk_apply_tool SPlan "redacted_plan_summary plan"
      None "be_user env" "be_user env"]
  obtain w2 t where audit: "append_bulk_audit env (be_uuid env (w_tick w)) (Some (bp_plan_id plan)) bulk_apply_tool SPlan
      (redacted_plan_summary plan) None (be_user env) (be_user env) w1 = (Inr (), w2)"
    and w2: "w_stores w2 = (w_stores w1)\<lparr>bo_audit := t\<rparr>"
      "bulk_audit_ids w2 \<subseteq> insert (be_uuid env (w_tick w)) (bulk_audit_ids w1)" "w_tick w1 < w_tick w2" by blast
  have audit1: "internally (append_bulk_audit env (be_uuid env (w_tick w)) (Some (bp_plan_id plan)) bulk_apply_tool SPlan
      (redacted_plan_summary plan) None (be_user env) (be_user env)) w1 = (Inr (), w2)"
    using audit by (rule wrapped_run(1))
  define w3 where "w3 = w2\<lparr>w_tick := Suc (w_tick w2)\<rparr>"
  have w3: "w_stores w3 = (w_stores w)\<lparr>bo_audit := t\<rparr>" by (simp add: w3_def w2(1) w1_def)
  obtain w4 now where acq: "acquire_key env q plan w3 = (Inr (), w4)" "bo_audit (w_stores w4) = bo_audit (w_stores w3)"
    "bt_get (bo_keys (w_stores w4)) (bq_idempotency_key q, bulk_apply_tool) = Some (krow\<lparr>kw_apply_started_at := Some now\<rparr>)"
    "conf_lookup (bo_confirmations (w_stores w4)) (bq_confirmation_token q) = Some (r\<lparr>cr_consumed := True\<rparr>)"
    "w_tick w3 < w_tick w4"
    using acquire_run [OF assms(1), of w3 q krow r plan] assms(3-8) w3 by auto
  let ?n = "w_tick w4" and ?rc = "initial_receipt plan (be_uuid env (w_tick w4)) (be_clock env (w_tick w2))"
  define w5 where "w5 = w4\<lparr>w_tick := Suc (w_tick w4)\<rparr>"
  define w6 where "w6 = w5\<lparr>w_tick := Suc (w_tick w5),
     w_stores := update_key (\<lambda>_. True) (\<lambda>r. r\<lparr>kw_progress := Some ?rc\<rparr>) (bq_idempotency_key q) bulk_apply_tool (w_stores w5)\<rparr>"
  have save: "pending_on_error (save_bulk_progress env (bq_idempotency_key q) ?rc) w5 = (Inr (), w6)"
    unfolding w6_def by (rule wrapped_run(2) [OF save_progress_run [OF assms(1)]])
  have run: "start_apply env q plan w = (Inr ?rc, w6)"
    using audit1 acq(1) save
    by (simp add: start_apply_def andthen_def ask_def ok_def Let_def flip: w1_def w3_def w5_def)
  have ids: "bulk_audit_ids w6 = bulk_audit_ids w2"
    by (simp add: bulk_audit_ids_def w6_def w5_def update_key_def acq(2) w3_def)
  have "be_uuid env ?n \<noteq> be_uuid env (w_tick w)"
    using assms(1) acq(5) w2(3) by (auto simp: smooth_def w3_def w1_def dest!: injD)
  then have "be_uuid env ?n \<notin> bulk_audit_ids w6"
    using w2(2) assms(2) by (auto simp: ids fresh_audit_ids_def w1_def bulk_audit_ids_def [of w] bulk_audit_ids_def [of w1]
        bulk_audit_ids_def [of "w\<lparr>w_tick := n\<rparr>" for n])
  moreover have "bt_get (bo_keys (w_stores w6)) (bq_idempotency_key q, bulk_apply_tool) \<noteq> None"
    "conf_lookup (bo_confirmations (w_stores w6)) (bq_confirmation_token q) = Some (r\<lparr>cr_consumed := True\<rparr>)"
    using acq(3,4) by (simp_all add: w6_def w5_def update_key_def bt_get_update)
  ultimately show ?thesis using run by blast
qed

lemma finish_bulk_run:
  assumes "smooth env" "br_audit_id rc \<notin> bulk_audit_ids w"
    "bt_get (bo_keys (w_stores w)) (bq_idempotency_key q, bulk_apply_tool) \<noteq> None"
  shows "\<exists>c w'. finish_bulk env q plan (None, rc) w = (Inr (BulkReceipted (final_receipt c (None, rc))), w')
    \<and> map_option kw_receipt (bt_get (bo_keys (w_stores w')) (bq_idempotency_key q, bulk_apply_tool))
        = Some (Some (final_receipt c (None, rc)))
    \<and> bo_confirmations (w_stores w') = bo_confirmations (w_stores w)"
proof -
  note steps = smooth_steps [OF assms(1)]
  define c where "c = be_clock env (w_tick w)"
  define rc1 where "rc1 = final_receipt c (None, rc)"
  have rc1: "rc1 = recount (rc\<lparr>br_completed_at := c\<rparr>)" by (simp add: rc1_def final_receipt_def Let_def)
  define w1 where "w1 = w\<lparr>w_tick := Suc (w_tick w)\<rparr>"
  have "br_audit_id rc1 \<notin> bulk_audit_ids w1"
    using assms(2) by (simp add: rc1 recount_def w1_def bulk_audit_ids_def)
  from audit_run [OF assms(1) this, of "Some (bp_plan_id plan)" bulk_apply_tool SAppliedSuccess
      "redacted_receipt_summary rc1" None "bp_actor plan" "bp_requester plan"]
  obtain w2 t where audit: "append_bulk_audit env (br_audit_id rc1) (Some (bp_plan_id plan)) bulk_apply_tool SAppliedSuccess
      (redacted_receipt_summary rc1) None (bp_actor plan) (bp_requester plan) w1 = (Inr (), w2)"
    and w2: "w_stores w2 = (w_stores w1)\<lparr>bo_audit := t\<rparr>" by blast
  have audit1: "pending_on_error (append_bulk_audit env (br_audit_id rc1) (Some (bp_plan_id plan)) bulk_apply_tool
      SAppliedSuccess (redacted_receipt_summary rc1) None (bp_actor plan) (bp_requester plan)) w1 = (Inr (), w2)"
    using audit by (rule wrapped_run(2))
  define w3 where "w3 = w2\<lparr>w_tick := Suc (w_tick w2), w_stores := update_key (\<lambda>_. True)
     (\<lambda>r. r\<lparr>kw_receipt := Some rc1, kw_progress := Some rc1\<rparr>) (bq_idempotency_key q) bulk_apply_tool (w_stores w2)\<rparr>"
  have save: "pending_on_error (save_final_receipt env (bq_idempotency_key q) bulk_apply_tool rc1) w2 = (Inr (), w3)"
    unfolding w3_def by (rule wrapped_run(2)) (simp add: save_final_receipt_def steps)
  obtain w4 where mark: "mark_bulk_plan_consumed env (bp_plan_id plan) w3 = (Inr (), w4)"
    "bo_keys (w_stores w4) = bo_keys (w_stores w3)" "bo_confirmations (w_stores w4) = bo_confirmations (w_stores w3)"
    by (simp add: mark_bulk_plan_consumed_def steps)
  have "finish_applied env q plan None rc1 w1 = (Inr (BulkReceipted rc1), w4)"
    using audit1 save mark(1) by (simp add: finish_applied_def andthen_def inspect_def ok_def)
  then have "finish_bulk env q plan (None, rc) w = (Inr (BulkReceipted rc1), w4)"
    by (simp add: finish_bulk_def andthen_def ask_def rc1 Let_def flip: w1_def c_def)
  moreover have "map_option kw_receipt (bt_get (bo_keys (w_stores w4)) (bq_idempotency_key q, bulk_apply_tool)) = Some (Some rc1)"
    using assms(3) by (auto simp: mark w3_def w2 w1_def update_key_def bt_get_update)
  moreover have "bo_confirmations (w_stores w4) = bo_confirmations (w_stores w)"
    by (simp add: mark w3_def w2 w1_def update_key_def)
  ultimately show ?thesis unfolding rc1_def by blast
qed

text \<open>Everything an apply needs to find in the stores.\<close>

definition bulk_ready :: "bulk_env \<Rightarrow> bulk_stores \<Rightarrow> bulk_apply_request \<Rightarrow> bulk_plan \<Rightarrow> bool" where
  "bulk_ready env s q plan = (bt_wf (bo_keys s) \<and> bt_wf (bo_confirmations s)
     \<and> map_option pw_plan (bt_get (bo_plans s) (bq_plan_id q)) = Some plan
     \<and> (\<exists>krow. bt_get (bo_keys s) (bq_idempotency_key q, bulk_apply_tool) = Some krow
          \<and> kw_op_hash krow = bp_op_hash plan \<and> bulk_startable krow \<and> (\<forall>n. be_clock env n < kw_expires_at krow))
     \<and> (\<exists>r. conf_lookup (bo_confirmations s) (bq_confirmation_token q) = Some r
          \<and> (\<forall>n. token_valid (be_clock env n) (bulk_binding env (bp_op_hash plan)) r)))"

lemma bulk_apply_runs:
  assumes "smooth env" "accepting env" "fresh_audit_ids env w" "bulk_ready env (w_stores w) q plan"
    "\<not> tool_denied (be_policy env) (be_label env) bulk_apply_tool True"
    "\<not> tool_denied (be_policy env) (be_label env) bulk_plan_tool True"
    "\<forall>n. be_clock env n < bp_expires_at plan" "check_bulk_request env q plan = Inr ()"
    "list_all (\<lambda>t. \<forall>n. unchanged_at env n t) (bp_targets plan)"
  shows "\<exists>rc w'. handle_bulk_apply env (Inr q) w = (BulkReceipted rc, w') \<and> \<not> br_replay rc
    \<and> w_writes w' = w_writes w @ map write_of (bp_targets plan)
    \<and> statuses rc = replicate (length (bp_targets plan)) TargetApplied
    \<and> map_option kw_receipt (bt_get (bo_keys (w_stores w')) (bq_idempotency_key q, bulk_apply_tool)) = Some (Some rc)
    \<and> map_option cr_consumed (conf_lookup (bo_confirmations (w_stores w')) (bq_confirmation_token q)) = Some True"
proof -
  let ?k = "(bq_idempotency_key q, bulk_apply_tool)"
  obtain krow r row where ready: "bt_wf (bo_keys (w_stores w))" "bt_wf (bo_confirmations (w_stores w))"
    "bt_get (bo_plans (w_stores w)) (bq_plan_id q) = Some row" "pw_plan row = plan"
    "bt_get (bo_keys (w_stores w)) ?k = Some krow" "kw_op_hash krow = bp_op_hash plan" "bulk_startable krow"
    "\<forall>n. be_clock env n < kw_expires_at krow"
    "conf_lookup (bo_confirmations (w_stores w)) (bq_confirmation_token q) = Some r"
    "\<forall>n. token_valid (be_clock env n) (bulk_binding env (bp_op_hash plan)) r"
    using assms(4) by (auto simp: bulk_ready_def)
  obtain w1 where g: "bulk_gates env (Inr q) w = (Inr q, w1)" "w_stores w1 = w_stores w"
    using gates_run [OF assms(1,5,6)] by blast
  obtain w2 where c: "bulk_checks env q w1 = (Inr plan, w2)" "w_stores w2 = w_stores w"
    using checks_run [OF assms(1), of w1 q row plan krow r] ready assms(7-9) g(2) by auto
  have "fresh_audit_ids env w2" using assms(3) c(2) by (simp add: fresh_audit_ids_def bulk_audit_ids_def)
  from start_run [OF assms(1) this, of q krow r plan] obtain n started w3
    where s: "start_apply env q plan w2 = (Inr (initial_receipt plan (be_uuid env n) started), w3)"
      "be_uuid env n \<notin> bulk_audit_ids w3" "bt_get (bo_keys (w_stores w3)) ?k \<noteq> None"
      "conf_lookup (bo_confirmations (w_stores w3)) (bq_confirmation_token q) = Some (r\<lparr>cr_consumed := True\<rparr>)"
    using ready c(2) by auto
  define rc where "rc = initial_receipt plan (be_uuid env n) started"
  obtain rc' w4 where l: "apply_targets env (bq_idempotency_key q) 0 (bp_targets plan) rc w3 = (Inr (None, rc'), w4)"
      "br_audit_id rc' = be_uuid env n" "br_replay rc' = br_replay rc" "others_row (w_stores w3) (w_stores w4)"
      "bt_get (bo_keys (w_stores w4)) ?k \<noteq> None"
    using apply_targets_run [OF assms(1,2,9), of "bq_idempotency_key q" 0 rc w3] s(3)
    unfolding rc_def by (metis bulk_receipt.select_convs(2) initial_receipt_def)
  have "br_audit_id rc' \<notin> bulk_audit_ids w4"
    using s(2) l(2,4) by (simp add: others_row_def bulk_audit_ids_def)
  from finish_bulk_run [OF assms(1) this l(5), of plan] obtain d w5
    where f: "finish_bulk env q plan (None, rc') w4 = (Inr (BulkReceipted (final_receipt d (None, rc'))), w5)"
      "map_option kw_receipt (bt_get (bo_keys (w_stores w5)) ?k) = Some (Some (final_receipt d (None, rc')))"
      "bo_confirmations (w_stores w5) = bo_confirmations (w_stores w4)" by blast
  have reached: "loop_reached env (Inr q) w q plan rc w3"
    using g(1) c(1) s(1) by (auto simp: loop_reached_def rc_def)
  obtain m "is" e where left: "loop_left env (w_tick w3) (bp_targets plan) w3 w4 m is"
    and told: "loop_told env (bp_targets plan) rc 0 (None, rc') m is e"
    using loop_reached_loop [OF reached l(1)] by blast
  have e: "e = AllApplied" using told by (cases e) (auto simp: loop_told_def)
  have run: "apply_bulk_request env (Inr q) w = (Inr (BulkReceipted (final_receipt d (None, rc'))), w5)"
    using g(1) c(1) s(1) l(1) f(1) by (simp add: apply_bulk_request_def andthen_def rc_def)
  have "w_writes w5 = w_writes w @ map write_of (bp_targets plan)"
    using left told e bulk_log.keepsD [OF bulk_log_finish f(1)] bulk_log.keepsD [OF bulk_log_start s(1)]
      bulk_log.keepsD [OF bulk_log_bulk_checks c(1)] bulk_log.keepsD [OF bulk_log_checks(9) g(1)]
    by (simp add: loop_left_def loop_told_def same_writes_def)
  moreover have "statuses (final_receipt d (None, rc')) = replicate (length (bp_targets plan)) TargetApplied"
    using told e by (simp add: loop_told_def)
  moreover have "\<not> br_replay (final_receipt d (None, rc'))"
    using l(3) by (simp add: final_receipt_def recount_def rc_def initial_receipt_def Let_def)
  moreover have "map_option cr_consumed (conf_lookup (bo_confirmations (w_stores w5)) (bq_confirmation_token q)) = Some True"
    using f(3) l(4) s(4) by (simp add: others_row_def)
  ultimately show ?thesis
    using run f(2) by (simp add: handle_bulk_apply_def bulk_respond_def)
qed

subsection \<open>A refused first PATCH\<close>

lemma refused_run:
  assumes "smooth env" "fresh_audit_ids env w" "bulk_ready env (w_stores w) q plan"
    "\<not> tool_denied (be_policy env) (be_label env) bulk_apply_tool True"
    "\<not> tool_denied (be_policy env) (be_label env) bulk_plan_tool True"
    "\<forall>n. be_clock env n < bp_expires_at plan" "check_bulk_request env q plan = Inr ()"
    "list_all (\<lambda>t. \<forall>n. unchanged_at env n t) (bp_targets plan)"
    "\<forall>n x. be_update env n x = Inl err" "bp_targets plan = t # ts"
  shows "\<exists>e w'. handle_bulk_apply env (Inr q) w = (BulkError e, w') \<and> rpc_code e = -32059
    \<and> w_writes w' = w_writes w @ [write_of t]"
proof -
  obtain krow r row where ready: "bt_wf (bo_keys (w_stores w))" "bt_wf (bo_confirmations (w_stores w))"
    "bt_get (bo_plans (w_stores w)) (bq_plan_id q) = Some row" "pw_plan row = plan"
    "bt_get (bo_keys (w_stores w)) (bq_idempotency_key q, bulk_apply_tool) = Some krow"
    "kw_op_hash krow = bp_op_hash plan" "bulk_startable krow" "\<forall>n. be_clock env n < kw_expires_at krow"
    "conf_lookup (bo_confirmations (w_stores w)) (bq_confirmation_token q) = Some r"
    "\<forall>n. token_valid (be_clock env n) (bulk_binding env (bp_op_hash plan)) r"
    using assms(3) by (auto simp: bulk_ready_def)
  obtain w1 where g: "bulk_gates env (Inr q) w = (Inr q, w1)" "w_stores w1 = w_stores w"
    using gates_run [OF assms(1,4,5)] by blast
  obtain w2 where c: "bulk_checks env q w1 = (Inr plan, w2)" "w_stores w2 = w_stores w"
    using checks_run [OF assms(1), of w1 q row plan krow r] ready assms(6-8) g(2) by auto
  have "fresh_audit_ids env w2" using assms(2) c(2) by (simp add: fresh_audit_ids_def bulk_audit_ids_def)
  from start_run [OF assms(1) this, of q krow r plan] obtain n started w3
    where s: "start_apply env q plan w2 = (Inr (initial_receipt plan (be_uuid env n) started), w3)"
      "be_uuid env n \<notin> bulk_audit_ids w3" using ready c(2) by auto
  define rc where "rc = initial_receipt plan (be_uuid env n) started"
  let ?f = "\<lparr>bf_code = ''UPSTREAM_ERROR'', bf_upstream_applied = False,
     bf_diagnostic = Some (safe_upstream_diagnostic err (map snd (bt_patch t)))\<rparr>"
  have "unchanged_at env (w_tick w3) t" using assms(8,10) by simp
  then obtain cur where cur: "bind_ok (map_err ReadFailed (be_read_incident env (w_tick w3) (BySysId (bt_sys_id t)))) resolved_of_fields = Inr cur"
    "rt_sys_updated_on cur = bt_sys_updated_on t"
    by (auto simp: unchanged_at_def target_version_def split: sum.splits)
  define rc' where "rc' = mark_failed_and_remaining 0 ''UPSTREAM_ERROR'' (bt_sys_updated_on t) rc"
  have refused: "be_update env i x = Inl err" for i x using assms(9) by blast
  obtain w4 where w4: "apply_targets env (bq_idempotency_key q) 0 (bp_targets plan) rc w3 = (Inr (Some ?f, rc'), w4)"
    "bo_audit (w_stores w4) = bo_audit (w_stores w3)" "w_writes w4 = w_writes w3 @ [write_of t]"
    by (simp add: assms(10) write_of_def apply_target_def inspect_def smooth_steps [OF assms(1)] cur patch_target_def andthen_def refused
        saved_outcome_def wrapped_run(2) [OF save_progress_run [OF assms(1)]] ok_def update_key_def flip: rc'_def)
  have id: "br_audit_id (recount (rc'\<lparr>br_completed_at := d\<rparr>)) = be_uuid env n" for d
    by (simp add: recount_def rc'_def mark_failed_and_remaining_def mark_not_attempted_after_def rc_def
        initial_receipt_def Let_def)
  have "length (statuses rc) = Suc (length ts)"
    by (simp add: rc_def initial_receipt_def statuses_def assms(10))
  then have st: "statuses rc' = TargetFailed # replicate (length ts) TargetNotAttempted"
    by (simp add: rc'_def)
  have none: "br_applied_count (recount (rc'\<lparr>br_completed_at := d\<rparr>)) = 0" for d
    by (simp add: recount_def count_statuses st)
  define w5 where "w5 = w4\<lparr>w_tick := Suc (w_tick w4)\<rparr>"
  let ?rc = "recount (rc'\<lparr>br_completed_at := be_clock env (w_tick w4)\<rparr>)"
  have "br_audit_id ?rc \<notin> bulk_audit_ids w5"
    using s(2) w4(2) by (simp add: id w5_def bulk_audit_ids_def)
  from audit_run [OF assms(1) this] obtain w6 where "append_bulk_audit env (br_audit_id ?rc) (Some (bp_plan_id plan)) bulk_apply_tool SError
      (redacted_receipt_summary ?rc) (Some (error_row_of (rpc_message (terminal_error ?f))
        (safe_upstream_diagnostic err (map snd (bt_patch t))))) (be_user env) (be_user env) w5 = (Inr (), w6)" by blast
  then have audit: "pending_on_error (append_bulk_audit env (br_audit_id ?rc) (Some (bp_plan_id plan)) bulk_apply_tool SError
      (redacted_receipt_summary ?rc) (Some (error_row_of (rpc_message (terminal_error ?f))
        (safe_upstream_diagnostic err (map snd (bt_patch t))))) (be_user env) (be_user env)) w5 = (Inr (), w6)"
    by (rule wrapped_run(2))
  obtain w7 where save: "pending_on_error (save_terminal_error env (bq_idempotency_key q) (terminal_error ?f)) w6 = (Inr (), w7)"
    by (simp add: bulk_wrappers_Inr save_terminal_error_def smooth_steps [OF assms(1)])
  have f: "finish_bulk env q plan (Some ?f, rc') w4 = (Inr (BulkError (terminal_error ?f)), w7)"
    using audit save by (simp add: finish_bulk_def andthen_def ask_def none finish_unapplied_def or_else_def ok_def Let_def
        flip: w5_def)
  have run: "apply_bulk_request env (Inr q) w = (Inr (BulkError (terminal_error ?f)), w7)"
    using g(1) c(1) s(1) w4(1) f by (simp add: apply_bulk_request_def andthen_def rc_def)
  have "w_writes w7 = w_writes w @ [write_of t]"
    using w4(3) bulk_log.keepsD [OF bulk_log_finish f] bulk_log.keepsD [OF bulk_log_start s(1)]
      bulk_log.keepsD [OF bulk_log_bulk_checks c(1)] bulk_log.keepsD [OF bulk_log_checks(9) g(1)]
    by (simp add: same_writes_def)
  then show ?thesis
    using run by (simp add: handle_bulk_apply_def bulk_respond_def terminal_error_def terminal_code_def reason_error_def)
qed

end
