(* ===== verification/Bulk_Keys.thy ===== *)
theory Bulk_Keys
  imports Bulk_Safety
begin

text \<open>
  Idempotency keys of bulk applies: a key is spent when none of its rows can be started. Every step
  of an apply keeps spent keys spent, an apply that sends a PATCH spends its key, and an apply
  under a spent key sends nothing.
\<close>

definition key_spent :: "string \<Rightarrow> bulk_stores \<Rightarrow> bool" where
  "key_spent key s = list_all (\<lambda>(k, r). k = (key, bulk_apply_tool) \<longrightarrow> \<not> bulk_startable r) (bo_keys s)"

definition keeps_spent :: "string \<Rightarrow> (bulk_stores \<Rightarrow> bulk_stores) \<Rightarrow> bool" where
  "keeps_spent key f = (\<forall>s. key_spent key s \<longrightarrow> key_spent key (f s))"

definition others_keep_spent :: "string \<Rightarrow> bulk_env \<Rightarrow> bool" where
  "others_keep_spent key env = (\<forall>n. keeps_spent key (be_others env n))"

definition stays_spent :: "string \<Rightarrow> bulk_world \<Rightarrow> bulk_world \<Rightarrow> bool" where
  "stays_spent key w w' = (key_spent key (w_stores w) \<longrightarrow> key_spent key (w_stores w'))"

interpretation spent: step_relation "stays_spent key" for key
  by unfold_locales (auto simp: stays_spent_def)

lemma spent_update:
  "(\<And>r. P r \<Longrightarrow> bulk_startable (f r) \<Longrightarrow> bulk_startable r) \<Longrightarrow> key_spent key s
     \<Longrightarrow> key_spent key (update_key P f k tool s)"
  by (auto simp: key_spent_def update_key_def bt_update_def list_all_iff split: if_splits)

lemma spent_update_other:
  "k \<noteq> key \<Longrightarrow> key_spent key s \<Longrightarrow> key_spent key (update_key P f k tool s)"
  by (auto simp: key_spent_def update_key_def bt_update_def list_all_iff split: if_splits)

lemma spent_unchanged [simp]:
  "key_spent key (s\<lparr>bo_plans := p\<rparr>) = key_spent key s"
  "key_spent key (s\<lparr>bo_confirmations := c\<rparr>) = key_spent key s"
  "key_spent key (s\<lparr>bo_audit := a\<rparr>) = key_spent key s"
  by (simp_all add: key_spent_def)

lemma spent_update_all:
  "(\<And>r. \<not> bulk_startable (f r)) \<Longrightarrow> key_spent key (update_key bulk_startable f key bulk_apply_tool s)"
  by (auto simp: key_spent_def update_key_def bt_update_def list_all_iff split: if_splits)

lemma spent_sql:
  assumes "\<And>s. key_spent key s \<Longrightarrow> key_spent key (snd (f s))"
  shows "spent.keeps key (bulk_sql env f)"
  using assms by (auto simp: spent.keeps_def stays_spent_def bulk_sql_def statement_def Let_def case_prod_beta)

lemma spent_atoms:
  "spent.keeps key (ask g)"
  "others_keep_spent key env \<Longrightarrow> spent.keeps key (bulk_call env h)"
  "others_keep_spent key env \<Longrightarrow> spent.keeps key (bulk_send env x)"
  "spent.keeps key (consume_bulk_token env token b)"
  by (simp_all add: spent.keeps_def stays_spent_def ask_def bulk_call_def awaiting_def
      bulk_send_def sending_def others_keep_spent_def keeps_spent_def consume_bulk_token_def Let_def 
      case_prod_beta)

lemma spent_stores:
  "spent.keeps key (open_bulk_store env)" "spent.keeps key (get_bulk_plan env i)"
  "spent.keeps key (mark_bulk_plan_consumed env i)" "spent.keeps key (lookup_bulk_key env k tool)"
  "spent.keeps key (mark_bulk_started env k tool)" "spent.keeps key (save_bulk_progress env k rc)"
  "spent.keeps key (save_final_receipt env k tool rc)" "spent.keeps key (save_terminal_error env k err)"
  "spent.keeps key (open_confirmations env)" "spent.keeps key (lookup_bulk_token env token)"
  "spent.keeps key (append_bulk_audit env a par tool st js er act req)"
proof -
  note rules = spent.keeps_step_rules spent_atoms(1) spent_sql
  show "spent.keeps key (open_bulk_store env)" "spent.keeps key (get_bulk_plan env i)"
    "spent.keeps key (open_confirmations env)" "spent.keeps key (lookup_bulk_token env token)"
    unfolding open_bulk_store_def get_bulk_plan_def open_confirmations_def lookup_bulk_token_def
    by (rule spent_sql, simp)+
  show "spent.keeps key (mark_bulk_plan_consumed env i)"
    unfolding mark_bulk_plan_consumed_def by (intro rules) simp
  show "spent.keeps key (lookup_bulk_key env k tool)"
    unfolding lookup_bulk_key_def
    by (intro rules) (auto simp: key_spent_def bt_remove_def list_all_iff)
  show "spent.keeps key (mark_bulk_started env k tool)"
    unfolding mark_bulk_started_def by (intro rules) (auto intro!: spent_update simp: bulk_startable_def)
  show "spent.keeps key (save_bulk_progress env k rc)"
    unfolding save_bulk_progress_def by (intro rules) (auto intro!: spent_update simp: bulk_startable_def)
  show "spent.keeps key (save_final_receipt env k tool rc)"
    unfolding save_final_receipt_def by (intro rules) (auto intro!: spent_update simp: bulk_startable_def)
  show "spent.keeps key (save_terminal_error env k err)"
    unfolding save_terminal_error_def by (intro rules) (auto intro!: spent_update simp: bulk_startable_def)
  show "spent.keeps key (append_bulk_audit env a par tool st js er act req)"
    unfolding append_bulk_audit_def by (intro rules) (simp_all add: case_prod_beta)
qed

lemma spent_wrappers:
  "spent.keeps key m \<Longrightarrow> spent.keeps key (internally m)"
  "spent.keeps key m \<Longrightarrow> spent.keeps key (pending_on_error m)"
  "spent.keeps key n \<Longrightarrow> spent.keeps key (build_step n)"
  unfolding internally_def pending_on_error_def build_step_def by (intro spent.keeps_map_err, assumption)+

lemma mark_bulk_started_Inr:
  assumes "mark_bulk_started env k bulk_apply_tool w = (Inr b, w')"
  shows "key_spent k (w_stores w')" "key_spent k (w_stores w) \<Longrightarrow> \<not> b"
proof -
  show "key_spent k (w_stores w')"
    using assms by (auto simp: mark_bulk_started_def bulk_step_Inr intro!: spent_update_all)
      (simp_all add: bulk_startable_def)
  show "\<not> b" if "key_spent k (w_stores w)"
  proof -
    have "filter (\<lambda>(j, r). j = (k, bulk_apply_tool) \<and> bulk_startable r) (bo_keys (w_stores w)) = []"
      using that by (auto simp: key_spent_def list_all_iff filter_empty_conv)
    then show ?thesis
      using assms by (auto simp: mark_bulk_started_def bulk_step_Inr bt_count_def)
  qed
qed

text \<open>The token is refused only to the holder of the key, so giving the key back frees no other key.\<close>

lemma spent_acquire: "spent.keeps key (acquire_key env q plan)"
proof (cases "bq_idempotency_key q = key")
  case False
  have clear: "spent.keeps key (clear_bulk_started env (bq_idempotency_key q) bulk_apply_tool)"
    unfolding clear_bulk_started_def using False by (intro spent_sql) (auto intro!: spent_update_other)
  show ?thesis
    unfolding acquire_key_def
    by (intro spent.keeps_step_rules spent_atoms spent_wrappers spent_stores clear)
next
  case True
  have "stays_spent key w (snd (acquire_key env q plan w))" for w
  proof -
    obtain r w1 where m: "mark_bulk_started env key bulk_apply_tool w = (r, w1)" by fastforce
    have "stays_spent key w w1" using spent.keepsD [OF spent_stores(5) m] .
    moreover have "snd (acquire_key env q plan w) = w1" if "key_spent key (w_stores w)"
    proof (cases r)
      case (Inl e)
      then show ?thesis using m True
        by (simp add: acquire_key_def andthen_def pending_on_error_def map_err_step_def inspect_def of_result_def)
    next
      case (Inr b)
      then have "\<not> b" using mark_bulk_started_Inr(2) m that by blast
      then show ?thesis using m True Inr
        by (simp add: acquire_key_def andthen_def pending_on_error_def map_err_step_def inspect_def of_result_def
            fail_def)
    qed
    ultimately show ?thesis by (auto simp: stays_spent_def)
  qed
  then show ?thesis by (simp add: spent.keeps_def)
qed

lemma acquire_key_spends:
  assumes "acquire_key env q plan w = (Inr u, w')"
  shows "key_spent (bq_idempotency_key q) (w_stores w')"
proof -
  from assms obtain b w1 where m: "mark_bulk_started env (bq_idempotency_key q) bulk_apply_tool w = (Inr b, w1)"
    and rest: "(if \<not> b then fail (bulk_denied ''PENDING_RESOLUTION_REQUIRED''
              ''another apply attempt already acquired this idempotency key'')
       else inspect (consume_bulk_token env (bq_confirmation_token q) (bulk_binding env (bp_op_hash plan))) (\<lambda>r.
         case r of
           Inr _ \<Rightarrow> ok ()
         | Inl err \<Rightarrow>
             andthen (pending_on_error (clear_bulk_started env (bq_idempotency_key q) bulk_apply_tool)) (\<lambda>_.
               fail (confirmation_error err)))) w1 = (Inr u, w')"
    unfolding acquire_key_def andthen_Inr bulk_wrappers_Inr by blast
  then obtain x where c: "consume_bulk_token env (bq_confirmation_token q) (bulk_binding env (bp_op_hash plan)) w1
      = (Inr x, w')"
    by (auto simp: inspect_sum step_pure_Inr andthen_Inr split: if_splits)
  show ?thesis
    using spent.keepsD [OF spent_atoms(4) c] mark_bulk_started_Inr(1) [OF m] by (simp add: stays_spent_def)
qed

lemma spent_reads:
  assumes "others_keep_spent key env"
  shows "spent.keeps key (read_target env sel)" "spent.keeps key (preflight env ts)"
proof -
  show read: "spent.keeps key (read_target env sel)" for sel
    unfolding read_target_def by (intro spent.keeps_step_rules spent_atoms(2) assms)
  show "spent.keeps key (preflight env ts)"
    by (induction ts) (simp_all, (intro spent.keeps_step_rules spent_wrappers read | assumption)+)
qed

lemma spent_checks:
  assumes "others_keep_spent key env"
  shows "spent.keeps key (bulk_gates env params)" "spent.keeps key (bulk_checks env q)"
    "spent.keeps key (start_apply env q plan)"
proof -
  note rules = spent.keeps_step_rules spent_wrappers spent_stores spent_atoms(1)
  have replay: "spent.keeps key (replay_stored env token b x)" for token b x
    unfolding replay_stored_def validate_confirmation_replay_def by (intro rules)
  show "spent.keeps key (bulk_gates env params)"
    unfolding bulk_gates_def reject_kill_switch_def policy_denial_def by (intro rules)
  show "spent.keeps key (bulk_checks env q)"
    unfolding bulk_checks_def load_bulk_plan_def check_bulk_key_def check_bulk_token_def Let_def
    by (intro rules replay spent_reads assms)
  show "spent.keeps key (start_apply env q plan)"
    unfolding start_apply_def Let_def by (intro rules spent_acquire)
qed

lemma spent_loop:
  assumes "others_keep_spent key env"
  shows "spent.keeps key (apply_targets env k i ts rc)"
proof -
  note rules = spent.keeps_step_rules spent_wrappers spent_stores
  have saved: "spent.keeps key (saved_outcome env k out)" for out
    unfolding saved_outcome_def by (intro rules)
  have after: "spent.keeps key (after_patch env k i t c o' rc)" for i t c o' rc
    unfolding after_patch_def incoherent_outcome_def by (intro rules spent_atoms(2) assms saved)
  have patch: "spent.keeps key (patch_target env k i t c rc)" for i t c rc
    unfolding patch_target_def incoherent_outcome_def
    by (intro rules spent_atoms(3) assms saved after spent_reads)
  have one: "spent.keeps key (apply_target env k i t rc)" for i t rc
    unfolding apply_target_def by (intro rules spent_reads assms patch)
  show ?thesis
    by (induction ts arbitrary: i rc) (simp_all, (intro rules one | assumption)+)
qed

lemma spent_finish: "spent.keeps key (finish_bulk env q plan out)"
  unfolding finish_bulk_def finish_unapplied_def finish_applied_def Let_def
  by (intro spent.keeps_step_rules spent_wrappers spent_stores spent_atoms(1))

lemma spent_apply:
  assumes "others_keep_spent key env"
  shows "spent.keeps key (apply_bulk_request env params)"
  unfolding apply_bulk_request_def
  by (intro spent.keeps_step_rules spent_checks spent_loop spent_finish assms)

subsection \<open>An apply spends its key\<close>

lemma start_apply_spends:
  assumes "start_apply env q plan w = (Inr rc, w')"
  shows "key_spent (bq_idempotency_key q) (w_stores w')"
proof -
  let ?rest = "\<lambda>started. andthen (ask (be_uuid env)) (\<lambda>audit_id.
       let rc = initial_receipt plan audit_id started
       in andthen (pending_on_error (save_bulk_progress env (bq_idempotency_key q) rc)) (\<lambda>_. ok rc))"
  from assms obtain w1 w2 started where a: "acquire_key env q plan w1 = (Inr (), w2)"
    and rest: "?rest started w2 = (Inr rc, w')"
    unfolding start_apply_def andthen_Inr by auto
  have "spent.keeps (bq_idempotency_key q) (?rest started)"
    unfolding Let_def by (intro spent.keeps_step_rules spent_wrappers spent_stores spent_atoms(1))
  from spent.keepsD [OF this rest] acquire_key_spends [OF a] show ?thesis by (simp add: stays_spent_def)
qed

text \<open>What starting an apply leaves: a row of the key that could be started is marked as started and
  none can be started any more, and the token, valid until then, is consumed.\<close>

definition key_acquired :: "string \<Rightarrow> bulk_stores \<Rightarrow> bulk_stores \<Rightarrow> bool" where
  "key_acquired key s s' \<longleftrightarrow> \<not> key_spent key s \<and> key_spent key s'
     \<and> (\<exists>row. ((key, bulk_apply_tool), row) \<in> set (bo_keys s') \<and> kw_apply_started_at row \<noteq> None
          \<and> kw_receipt row = None \<and> kw_terminal_error row = None)"

definition token_used :: "bulk_env \<Rightarrow> confirmation_binding \<Rightarrow> string \<Rightarrow> bulk_stores \<Rightarrow> bulk_stores \<Rightarrow> bool" where
  "token_used env b token s s' \<longleftrightarrow> (\<exists>r n. conf_lookup (bo_confirmations s) token = Some r
     \<and> token_valid (be_clock env n) b r
     \<and> conf_lookup (bo_confirmations s') token = Some (r\<lparr>cr_consumed := True\<rparr>))"

lemma conf_consume_uses:
  assumes "conf_consume f u now k b t = (Inr r', t')"
  shows "\<exists>r. conf_lookup t k = Some r \<and> token_valid now b r \<and> conf_lookup t' k = Some (r\<lparr>cr_consumed := True\<rparr>)"
  using assms
  by (auto simp: conf_consume_def conf_lookup_def token_valid_def Let_def bt_get_update
      dest: binding_mismatch_Some split: option.splits if_splits)

lemma mark_bulk_started_acquires:
  assumes "mark_bulk_started env key bulk_apply_tool w = (Inr True, w')"
  shows "key_acquired key (w_stores w) (w_stores w')" "bo_confirmations (w_stores w') = bo_confirmations (w_stores w)"
proof -
  obtain now where w': "w_stores w' = update_key bulk_startable (\<lambda>r. r\<lparr>kw_apply_started_at := Some now\<rparr>) key
      bulk_apply_tool (w_stores w)"
    and one: "bt_count (\<lambda>k r. k = (key, bulk_apply_tool) \<and> bulk_startable r) (bo_keys (w_stores w)) = 1"
    using assms by (auto simp: mark_bulk_started_def bulk_step_Inr)
  have "filter (\<lambda>(k, r). k = (key, bulk_apply_tool) \<and> bulk_startable r) (bo_keys (w_stores w)) \<noteq> []"
    using one by (auto simp: bt_count_def)
  then obtain row where row: "((key, bulk_apply_tool), row) \<in> set (bo_keys (w_stores w))" "bulk_startable row"
    by (auto simp: filter_empty_conv)
  have "((key, bulk_apply_tool), row\<lparr>kw_apply_started_at := Some now\<rparr>) \<in> set (bo_keys (w_stores w'))"
    unfolding w' update_key_def bt_update_def using row by (auto intro!: image_eqI [of _ _ "((key, bulk_apply_tool), row)"])
  moreover have "\<not> key_spent key (w_stores w)" using row by (auto simp: key_spent_def list_all_iff)
  ultimately show "key_acquired key (w_stores w) (w_stores w')"
    using row(2) mark_bulk_started_Inr(1) [OF assms] unfolding key_acquired_def bulk_startable_def
    by (intro conjI exI [of _ "row\<lparr>kw_apply_started_at := Some now\<rparr>"]) simp_all
  show "bo_confirmations (w_stores w') = bo_confirmations (w_stores w)" by (simp add: w' update_key_def)
qed

lemma acquire_key_acquires:
  assumes "acquire_key env q plan w = (Inr u, w')"
  shows "key_acquired (bq_idempotency_key q) (w_stores w) (w_stores w')"
    "token_used env (bulk_binding env (bp_op_hash plan)) (bq_confirmation_token q) (w_stores w) (w_stores w')"
proof -
  from assms obtain w1 x where m: "mark_bulk_started env (bq_idempotency_key q) bulk_apply_tool w = (Inr True, w1)"
    and c: "consume_bulk_token env (bq_confirmation_token q) (bulk_binding env (bp_op_hash plan)) w1 = (Inr x, w')"
    by (auto simp: acquire_key_def andthen_Inr bulk_wrappers_Inr inspect_sum step_pure_Inr split: if_splits)
  obtain t now f u where t: "conf_consume f u (be_clock env now) (bq_confirmation_token q)
        (bulk_binding env (bp_op_hash plan)) (bo_confirmations (w_stores w1)) = (Inr x, t)"
    and w': "w_stores w' = (w_stores w1)\<lparr>bo_confirmations := t\<rparr>"
    using c by (auto simp: consume_bulk_token_def Let_def split: prod.splits)
  show "key_acquired (bq_idempotency_key q) (w_stores w) (w_stores w')"
    using mark_bulk_started_acquires(1) [OF m] by (simp add: key_acquired_def w')
  show "token_used env (bulk_binding env (bp_op_hash plan)) (bq_confirmation_token q) (w_stores w) (w_stores w')"
    using conf_consume_uses [OF t] mark_bulk_started_acquires(2) [OF m] unfolding token_used_def w' by auto
qed

lemma append_bulk_audit_Inr:
  "append_bulk_audit env a par tool st js er act req w = (Inr u, w') \<Longrightarrow>
     \<exists>t. w_stores w' = (w_stores w)\<lparr>bo_audit := t\<rparr>"
  by (auto simp: append_bulk_audit_def andthen_Inr step_ask_Inr step_pure_Inr bulk_sql_Inr split: sum.splits prod.splits)

lemma start_apply_acquires:
  assumes "start_apply env q plan w = (Inr rc, w')"
  shows "key_acquired (bq_idempotency_key q) (w_stores w) (w_stores w')"
    "token_used env (bulk_binding env (bp_op_hash plan)) (bq_confirmation_token q) (w_stores w) (w_stores w')"
proof -
  let ?rest = "\<lambda>started. andthen (ask (be_uuid env)) (\<lambda>audit_id.
       let rc = initial_receipt plan audit_id started
       in andthen (pending_on_error (save_bulk_progress env (bq_idempotency_key q) rc)) (\<lambda>_. ok rc))"
  obtain id st js act req w0 w1 w2 started where
    au: "append_bulk_audit env id (Some (bp_plan_id plan)) bulk_apply_tool st js None act req (w\<lparr>w_tick := Suc (w_tick w)\<rparr>) = (Inr (), w0)"
    and w0: "w1 = w0\<lparr>w_tick := Suc (w_tick w0)\<rparr>" and a: "acquire_key env q plan w1 = (Inr (), w2)"
    and rest: "?rest started w2 = (Inr rc, w')"
    using assms unfolding start_apply_def andthen_Inr bulk_wrappers_Inr step_ask_Inr by auto
  obtain e1 where w1: "w_stores w1 = (w_stores w)\<lparr>bo_audit := e1\<rparr>"
    using append_bulk_audit_Inr [OF au] w0 by auto
  obtain k where w': "w_stores w' = (w_stores w2)\<lparr>bo_keys := k\<rparr>"
    and k: "k = bt_update (\<lambda>j r. j = (bq_idempotency_key q, bulk_apply_tool) \<and> True) (\<lambda>r. r\<lparr>kw_progress := Some rc\<rparr>)
        (bo_keys (w_stores w2))"
    using rest by (auto simp: save_bulk_progress_def bulk_step_Inr update_key_def Let_def)
  from acquire_key_acquires(1) [OF a] obtain row where
    row: "((bq_idempotency_key q, bulk_apply_tool), row) \<in> set (bo_keys (w_stores w2))"
      "kw_apply_started_at row \<noteq> None" "kw_receipt row = None" "kw_terminal_error row = None"
    by (auto simp: key_acquired_def)
  have "((bq_idempotency_key q, bulk_apply_tool), row\<lparr>kw_progress := Some rc\<rparr>) \<in> set (bo_keys (w_stores w'))"
    unfolding w' k bt_update_def using row(1)
    by (auto intro!: image_eqI [of _ _ "((bq_idempotency_key q, bulk_apply_tool), row)"])
  moreover have "\<not> key_spent (bq_idempotency_key q) (w_stores w)"
    using acquire_key_acquires(1) [OF a] by (simp add: key_acquired_def w1)
  ultimately show "key_acquired (bq_idempotency_key q) (w_stores w) (w_stores w')"
    using start_apply_spends [OF assms] row(2-4) unfolding key_acquired_def
    by (intro conjI exI [of _ "row\<lparr>kw_progress := Some rc\<rparr>"]) simp_all
  show "token_used env (bulk_binding env (bp_op_hash plan)) (bq_confirmation_token q) (w_stores w) (w_stores w')"
    using acquire_key_acquires(2) [OF a] by (simp add: token_used_def w1 w')
qed

lemma apply_spends:
  assumes "apply_bulk_request env (Inr q) w = (r, w')" "w_writes w' \<noteq> w_writes w"
    "others_keep_spent (bq_idempotency_key q) env"
  shows "key_spent (bq_idempotency_key q) (w_stores w')"
  using assms(1)
proof (cases rule: apply_stages)
  case (stopped x)
  then show ?thesis using assms(2) by simp
next
  case (looped q' plan rc w3 r4 w4)
  have q: "q' = q" using looped(1) by (auto simp: loop_reached_def dest: bulk_gates_Inr(1))
  have "key_spent (bq_idempotency_key q) (w_stores w3)"
    using looped(1) start_apply_spends unfolding loop_reached_def q by blast
  then have "key_spent (bq_idempotency_key q) (w_stores w4)"
    using spent.keepsD [OF spent_loop [OF assms(3)] looped(2)] by (simp add: stays_spent_def)
  then show ?thesis
    using looped(5) spent.keepsD [OF spent_finish] by (cases r4) (auto simp: stays_spent_def)
qed

lemma spent_key_silent:
  assumes "apply_bulk_request env (Inr q) w = (r, w')" "key_spent (bq_idempotency_key q) (w_stores w)"
  shows "w_writes w' = w_writes w"
  using assms(1)
proof (cases rule: apply_stages)
  case (looped q' plan rc w3 r4 w4)
  from looped(1) obtain w1 w2 where g: "bulk_gates env (Inr q) w = (Inr q', w1)"
    and c: "bulk_checks env q' w1 = (Inr plan, w2)" by (auto simp: loop_reached_def)
  have q: "q' = q" "w_stores w1 = w_stores w" using bulk_gates_Inr(1,2) [OF g] by simp_all
  obtain row where row: "bt_get (bo_keys (w_stores w)) (bq_idempotency_key q, bulk_apply_tool) = Some row"
    "bulk_startable row"
    using bulk_checks_Inr [OF c] q by metis
  have "\<not> bulk_startable row"
    using assms(2) map_of_SomeD [OF row(1) [unfolded bt_get_def]] unfolding key_spent_def list_all_iff by blast
  then show ?thesis using row(2) by simp
qed simp

subsection \<open>Sessions\<close>

text \<open>
  A sequence of bulk applies, each followed by other activity on the stores: the key each request
  names and whether it sent a PATCH.
\<close>

fun bulk_session ::
  "(bulk_env \<times> (string, bulk_apply_request) result \<times> (bulk_stores \<Rightarrow> bulk_stores)) list \<Rightarrow> bulk_world
     \<Rightarrow> (string option \<times> bool) list" where
  "bulk_session [] w = []"
| "bulk_session ((env, params, between) # rs) w =
     (let w1 = snd (handle_bulk_apply env params w)
      in ((case params of Inl _ \<Rightarrow> None | Inr q \<Rightarrow> Some (bq_idempotency_key q)), w_writes w1 \<noteq> w_writes w)
         # bulk_session rs (w1\<lparr>w_stores := between (w_stores w1)\<rparr>))"

definition sent_under :: "string \<Rightarrow> (string option \<times> bool) list \<Rightarrow> nat" where
  "sent_under key log = length (filter (\<lambda>(k, sent). k = Some key \<and> sent) log)"

lemma spent_session:
  assumes "list_all (\<lambda>(env, _, between). others_keep_spent key env \<and> keeps_spent key between) rs"
    "key_spent key (w_stores w)"
  shows "sent_under key (bulk_session rs w) = 0"
  using assms
proof (induction rs arbitrary: w)
  case (Cons x rs)
  obtain env params between where x: "x = (env, params, between)" by (cases x)
  obtain r w1 where run: "apply_bulk_request env params w = (r, w1)" by fastforce
  have w1: "snd (handle_bulk_apply env params w) = w1" by (simp add: handle_bulk_apply_def run)
  have "key_spent key (w_stores w1)"
    using spent.keepsD [OF spent_apply run] Cons.prems x by (simp add: stays_spent_def)
  then have "key_spent key (between (w_stores w1))" using Cons.prems(1) x by (simp add: keeps_spent_def)
  then have "sent_under key (bulk_session rs (w1\<lparr>w_stores := between (w_stores w1)\<rparr>)) = 0"
    using Cons by simp
  moreover have "w_writes w1 = w_writes w" if "params = Inr q" "bq_idempotency_key q = key" for q
    using spent_key_silent [of env q w r w1] run that Cons.prems(2) by simp
  ultimately show ?case
    by (auto simp: x w1 sent_under_def Let_def split: sum.splits)
qed (simp add: sent_under_def)

lemma session_once:
  assumes "list_all (\<lambda>(env, _, between). others_keep_spent key env \<and> keeps_spent key between) rs"
  shows "sent_under key (bulk_session rs w) \<le> 1"
  using assms
proof (induction rs arbitrary: w)
  case (Cons x rs)
  obtain env params between where x: "x = (env, params, between)" by (cases x)
  obtain r w1 where run: "apply_bulk_request env params w = (r, w1)" by fastforce
  have w1: "snd (handle_bulk_apply env params w) = w1" by (simp add: handle_bulk_apply_def run)
  let ?w2 = "w1\<lparr>w_stores := between (w_stores w1)\<rparr>"
  show ?case
  proof (cases "(case params of Inl _ \<Rightarrow> None | Inr q \<Rightarrow> Some (bq_idempotency_key q)) = Some key
      \<and> w_writes w1 \<noteq> w_writes w")
    case True
    then obtain q where q: "params = Inr q" "bq_idempotency_key q = key" by (auto split: sum.splits)
    have "key_spent key (w_stores w1)"
      using apply_spends [of env q w r w1] run True q Cons.prems x by simp
    then have "key_spent key (w_stores ?w2)" using Cons.prems x by (simp add: keeps_spent_def)
    then have "sent_under key (bulk_session rs ?w2) = 0" using spent_session Cons.prems by simp
    then show ?thesis by (simp add: x w1 sent_under_def Let_def)
  next
    case False
    moreover have "sent_under key (bulk_session rs ?w2) \<le> 1" using Cons by simp
    ultimately show ?thesis by (auto simp: x w1 sent_under_def Let_def)
  qed
qed (simp add: sent_under_def)

end
