(* ===== verification/Bulk_Demo.thy ===== *)
theory Bulk_Demo
  imports Bulk_Progress Bulk_Keys
begin

text \<open>
  A concrete bulk update used by the witnesses: three incidents, one shared work note, a policy that
  allows it and a client that answers. Applying the stored plan runs to its end.
\<close>

definition demo_bulk_tool :: tool_policy where
  "demo_bulk_tool = tool_policy_default\<lparr>tp_enabled := True, tp_field_allowlist := {''work_notes''},
     tp_environments := [''test''], tp_max_targets := Some 25\<rparr>"

definition demo_bulk_policy :: policy_config where
  "demo_bulk_policy = read_only_default\<lparr>pc_idempotency_window_seconds := 3600,
     pc_tools := [(bulk_apply_tool, demo_bulk_tool), (bulk_plan_tool, demo_bulk_tool)]\<rparr>"

definition demo_bulk_read :: "target_selector \<Rightarrow> (incident_read_error, (string, string) btree) result" where
  "demo_bulk_read sel = (case sel of
     BySysId s \<Rightarrow> Inr [(''number'', ''INC1''), (''sys_id'', s), (''sys_updated_on'', ''v1'')]
   | ByNumber n \<Rightarrow> Inr [(''number'', n), (''sys_id'', rev n), (''sys_updated_on'', ''v1'')])"

definition demo_bulk_env :: bulk_env where
  "demo_bulk_env = \<lparr>be_policy = demo_bulk_policy, be_label = ''test'', be_retention_days = 30,
     be_user = ''agent'', be_duration = (\<lambda>n. Some (secs n)), be_sha256 = (\<lambda>s. s), be_preview_json = (\<lambda>_. ''p''),
     be_event_ser = (\<lambda>_. ''e''), be_clock = (\<lambda>_. secs 100), be_uuid = (\<lambda>n. replicate n (CHR ''u'')),
     be_sql_ok = (\<lambda>_. True), be_env_var = (\<lambda>_ _. None), be_read_incident = (\<lambda>_. demo_bulk_read),
     be_state_choices = (\<lambda>_. Inr []), be_update = (\<lambda>_ _. Inr (Some ''v2'')), be_prune = (\<lambda>_ _. True),
     be_others = (\<lambda>_ s. s)\<rparr>"

definition demo_bulk_target :: "string \<Rightarrow> bulk_planned_target" where
  "demo_bulk_target i = \<lparr>bt_number = ''INC'' @ i, bt_sys_id = i, bt_patch = [(''work_notes'', ''hi'')],
     bt_sys_updated_on = ''v1''\<rparr>"

definition demo_bulk_plan :: bulk_plan where
  "demo_bulk_plan = \<lparr>bp_plan_id = ''plan'', bp_op_hash = ''hash'', bp_actor = ''agent'', bp_requester = ''agent'',
     bp_environment = ''test'', bp_targets = map demo_bulk_target [''1'', ''2'', ''3''],
     bp_created_at = secs 50, bp_expires_at = secs 650\<rparr>"

definition demo_bulk_key :: bulk_key_row where
  "demo_bulk_key = \<lparr>kw_op_hash = ''hash'', kw_receipt = None, kw_terminal_error = None, kw_progress = None,
     kw_apply_started_at = None, kw_created_at = secs 50, kw_expires_at = secs 3650\<rparr>"

definition demo_bulk_token :: confirmation_record where
  "demo_bulk_token = \<lparr>cr_token_id = ''tok'', cr_plan_id = ''plan'', cr_actor = ''agent'', cr_requester = ''agent'',
     cr_tool = bulk_apply_tool, cr_op_hash = ''hash'', cr_environment = ''test'', cr_issued_at = secs 50,
     cr_expires_at = secs 650, cr_consumed = False, cr_revoked = False\<rparr>"

definition demo_bulk_world :: bulk_world where
  "demo_bulk_world = \<lparr>w_stores = \<lparr>bo_plans = [(''plan'', \<lparr>pw_plan = demo_bulk_plan, pw_consumed = False\<rparr>)],
       bo_keys = [((''key'', bulk_apply_tool), demo_bulk_key)],
       bo_confirmations = [(''tok'', demo_bulk_token)], bo_audit = []\<rparr>, w_tick = 0, w_writes = []\<rparr>"

definition demo_bulk_request :: bulk_apply_request where
  "demo_bulk_request = \<lparr>bq_plan_id = ''plan'', bq_confirmation_token = ''tok'', bq_idempotency_key = ''key'',
     bq_concurrency_tokens = map target_token (bp_targets demo_bulk_plan)\<rparr>"

lemma demo_bulk_smooth: "smooth demo_bulk_env"
  by (auto simp: smooth_def demo_bulk_env_def switched_on_def inj_def replicate_eq_replicate)

lemma demo_bulk_accepting: "accepting demo_bulk_env"
  by (simp add: accepting_def demo_bulk_env_def)

lemma demo_bulk_allowed:
  "\<not> tool_denied (be_policy demo_bulk_env) (be_label demo_bulk_env) bulk_apply_tool True"
  "\<not> tool_denied (be_policy demo_bulk_env) (be_label demo_bulk_env) bulk_plan_tool True"
  by (simp_all add: tool_denied_def demo_bulk_env_def demo_bulk_policy_def demo_bulk_tool_def bt_get_def
      bulk_apply_tool_def bulk_plan_tool_def)

lemma demo_bulk_checked: "check_bulk_request demo_bulk_env demo_bulk_request demo_bulk_plan = Inr ()"
  by (simp add: check_bulk_request_def check_target_count_def configured_bulk_target_limit_def explicit_max_def
      demo_bulk_env_def demo_bulk_policy_def demo_bulk_tool_def bt_get_def bulk_apply_tool_def bulk_plan_tool_def
      bulk_min_targets_def bulk_max_targets_def validate_supplied_tokens_def demo_bulk_request_def
      demo_bulk_plan_def plan_binding_mismatch_def bulk_binding_def)

lemma demo_bulk_unchanged: "unchanged_at demo_bulk_env n (demo_bulk_target i)" if "i \<in> {''1'', ''2'', ''3''}"
  using that by (auto simp: unchanged_at_def target_version_def demo_bulk_env_def demo_bulk_read_def
      demo_bulk_target_def resolved_of_fields_def required_field_def trimmed_field_def bt_get_def
      trim_def is_ws_def char_code_def)

lemma demo_bulk_ready: "bulk_ready demo_bulk_env (w_stores demo_bulk_world) demo_bulk_request demo_bulk_plan"
  by (simp add: bulk_ready_def demo_bulk_world_def demo_bulk_request_def demo_bulk_key_def demo_bulk_token_def
      bt_wf_def bt_get_def conf_lookup_def bulk_startable_def demo_bulk_env_def token_valid_def bound_to_def
      bulk_binding_def) (simp add: demo_bulk_plan_def)

lemma demo_bulk_fresh: "fresh_audit_ids demo_bulk_env demo_bulk_world"
  by (simp add: fresh_audit_ids_def bulk_audit_ids_def demo_bulk_world_def)

lemma demo_bulk_live: "\<forall>n. be_clock demo_bulk_env n < bp_expires_at demo_bulk_plan"
  by (simp add: demo_bulk_env_def demo_bulk_plan_def)

lemma demo_bulk_targets: "list_all (\<lambda>t. \<forall>n. unchanged_at demo_bulk_env n t) (bp_targets demo_bulk_plan)"
  using demo_bulk_unchanged by (simp add: demo_bulk_plan_def)

lemmas demo_bulk_facts = demo_bulk_smooth demo_bulk_accepting demo_bulk_fresh demo_bulk_ready demo_bulk_allowed demo_bulk_live
  demo_bulk_checked demo_bulk_targets

lemma demo_bulk_run:
  "\<exists>rc w'. handle_bulk_apply demo_bulk_env (Inr demo_bulk_request) demo_bulk_world = (BulkReceipted rc, w')
    \<and> \<not> br_replay rc \<and> w_writes w' = map write_of (bp_targets demo_bulk_plan)
    \<and> map_option kw_receipt (bt_get (bo_keys (w_stores w')) (''key'', bulk_apply_tool)) = Some (Some rc)"
  using bulk_apply_runs [OF demo_bulk_facts]
  by (auto simp: demo_bulk_request_def demo_bulk_world_def)

text \<open>The same request against a client that refuses every PATCH.\<close>

definition demo_refusing_env :: bulk_env where
  "demo_refusing_env = demo_bulk_env\<lparr>be_update := (\<lambda>_ _. Inl UpOther)\<rparr>"

lemma demo_refused_run:
  "\<exists>e w'. handle_bulk_apply demo_refusing_env (Inr demo_bulk_request) demo_bulk_world = (BulkError e, w')
    \<and> rpc_code e = -32059 \<and> w_writes w' = [write_of (demo_bulk_target ''1'')]"
proof -
  have "smooth demo_refusing_env" using demo_bulk_smooth by (simp add: smooth_def demo_refusing_env_def)
  moreover have "fresh_audit_ids demo_refusing_env demo_bulk_world"
    using demo_bulk_fresh by (simp add: fresh_audit_ids_def demo_refusing_env_def)
  moreover have "bulk_ready demo_refusing_env (w_stores demo_bulk_world) demo_bulk_request demo_bulk_plan"
    using demo_bulk_ready by (simp add: bulk_ready_def demo_refusing_env_def bulk_binding_def)
  moreover have "check_bulk_request demo_refusing_env demo_bulk_request demo_bulk_plan = Inr ()"
    using demo_bulk_checked
    by (simp add: check_bulk_request_def check_target_count_def bulk_binding_def demo_refusing_env_def)
  moreover have "list_all (\<lambda>t. \<forall>n. unchanged_at demo_refusing_env n t) (bp_targets demo_bulk_plan)"
    using demo_bulk_targets by (simp add: unchanged_at_def target_version_def demo_refusing_env_def)
  moreover have "bp_targets demo_bulk_plan = demo_bulk_target ''1'' # map demo_bulk_target [''2'', ''3'']"
    by (simp add: demo_bulk_plan_def)
  ultimately show ?thesis
    using refused_run [of demo_refusing_env demo_bulk_world demo_bulk_request demo_bulk_plan UpOther
        "demo_bulk_target ''1''"] demo_bulk_allowed demo_bulk_live
    by (simp add: demo_refusing_env_def demo_bulk_world_def)
qed

end
