(* ===== verification/Bulk_Planning.thy ===== *)
theory Bulk_Planning
  imports Bulk_Demo
begin

text \<open>
  What planning a bulk Incident update promises: the shape of the planned targets and of their
  patches, and what is stored for the apply.
\<close>

subsection \<open>Patches\<close>

text \<open>A value the field may carry.\<close>

definition patch_value_ok :: "string \<Rightarrow> string \<Rightarrow> bool" where
  "patch_value_ok f v =
     (if f = ''assigned_to'' \<or> f = ''assignment_group'' then valid_sys_id v
      else if f = ''state'' then \<not> mentions_cancel v
      else (f = ''work_notes'' \<or> f = ''comments'') \<and> trim v \<noteq> [] \<and> char_count v \<le> 16000)"

definition patch_ok :: "effective_patch \<Rightarrow> bool" where
  "patch_ok m = list_all (\<lambda>(f, v). patch_value_ok f v) m"

lemma patch_ok_Nil [simp]: "patch_ok []"
  by (simp add: patch_ok_def)

lemma patch_ok_insert: "patch_ok m \<Longrightarrow> patch_value_ok f v \<Longrightarrow> patch_ok (bt_insert f v m)"
  using set_bt_insert [of f v m] by (auto simp: patch_ok_def list_all_iff)

lemma patch_reference_ok:
  assumes "patch_reference f v m = Inr m'" "patch_ok m" "f = ''assigned_to'' \<or> f = ''assignment_group''"
  shows "patch_ok m'"
  using assms by (auto simp: patch_reference_def patch_value_ok_def valid_sys_id_def to_lower_def list_all_iff
      lower_char_hex Let_def split: option.splits if_splits intro!: patch_ok_insert)

lemma patch_state_ok: "patch_state s cs m = Inr m' \<Longrightarrow> patch_ok m \<Longrightarrow> patch_ok m'"
  by (auto simp: patch_state_def patch_value_ok_def split: sum.splits if_splits intro!: patch_ok_insert)

lemma patch_journal_ok:
  assumes "patch_journal f v m = Inr m'" "patch_ok m" "f = ''work_notes'' \<or> f = ''comments''"
  shows "patch_ok m'"
  using assms by (auto simp: patch_journal_def patch_value_ok_def journal_max_chars_def not_less
      split: option.splits if_splits intro!: patch_ok_insert)

lemma normalize_patch_ok:
  assumes "normalize_patch env p w = (Inr m, w')"
  shows "patch_ok m"
proof (cases p)
  case None
  then show ?thesis using assms by (simp add: normalize_patch_def ok_def)
next
  case (Some q)
  from assms obtain m1 m2 m3 m4 w1 where
    r: "patch_reference ''assigned_to'' (ip_assigned_to q) [] = Inr m1"
      "patch_reference ''assignment_group'' (ip_assignment_group q) m1 = Inr m2"
    and s: "normalize_state env (ip_state q) m2 w = (Inr m3, w1)"
    and j: "patch_journal ''work_notes'' (ip_work_notes q) m3 = Inr m4"
      "patch_journal ''comments'' (ip_comments q) m4 = Inr m"
    unfolding normalize_patch_def Some option.case andthen_Inr step_pure_Inr bind_ok_Inr by blast
  have "patch_ok m2" using r patch_reference_ok by (metis patch_ok_Nil)
  then have "patch_ok m3"
    using s by (auto simp: normalize_state_def bulk_step_Inr Let_def
        split: option.splits if_splits sum.splits dest: patch_state_ok)
  then show ?thesis using j patch_journal_ok by metis
qed

lemma merge_patch_ok: "patch_ok shared \<Longrightarrow> patch_ok own \<Longrightarrow> patch_ok (merge_patch shared own)"
  unfolding merge_patch_def
proof (induction own arbitrary: shared)
  case (Cons x own)
  obtain f v where x: "x = (f, v)" by (cases x)
  have "patch_value_ok f v" using Cons.prems(2) x by (simp add: patch_ok_def)
  then have "patch_ok (bt_insert f v shared)" using Cons.prems(1) by (simp add: patch_ok_insert)
  then show ?case using Cons x by (simp add: patch_ok_def)
qed simp

lemma check_patch_Inr:
  assumes "check_patch env shared own = Inr m" "patch_ok shared" "patch_ok own"
  shows "m \<noteq> []" "patch_ok m" "list_all (\<lambda>(f, v). field_allowed (be_policy env) f) m"
  using assms merge_patch_ok
  by (auto simp: check_patch_def bt_keys_def find_None_iff list_all_iff Let_def split: option.splits if_splits)

subsection \<open>Targets\<close>

definition planned_ok :: "bulk_env \<Rightarrow> bulk_planned_target \<Rightarrow> bool" where
  "planned_ok env t = (bt_patch t \<noteq> [] \<and> patch_ok (bt_patch t)
     \<and> list_all (\<lambda>(f, v). field_allowed (be_policy env) f) (bt_patch t))"

lemma plan_target_Inr:
  assumes "plan_target env shared t seen w = (Inr p, w')" "patch_ok shared"
  shows "planned_ok env p" "bt_sys_id p \<notin> set seen"
proof -
  from assms(1) obtain own m w1 where "normalize_patch env (tr_patch t) w = (Inr own, w1)"
    "check_patch env shared own = Inr m" "bt_patch p = m" "bt_sys_id p \<notin> set seen"
    unfolding plan_target_def by (auto simp: andthen_Inr bulk_wrappers_Inr step_pure_Inr split: if_splits)
  then show "planned_ok env p" "bt_sys_id p \<notin> set seen"
    using check_patch_Inr [OF _ assms(2) normalize_patch_ok] by (auto simp: planned_ok_def)
qed

lemma plan_targets_Inr:
  assumes "plan_targets env shared ts acc w = (Inr ps, w')" "patch_ok shared"
    "list_all (planned_ok env) acc" "distinct (map bt_sys_id acc)"
  shows "list_all (planned_ok env) ps \<and> distinct (map bt_sys_id ps) \<and> length ps = length acc + length ts"
  using assms
proof (induction ts arbitrary: acc w)
  case (Cons t ts)
  from Cons.prems(1) obtain p w1 where p: "plan_target env shared t (map bt_sys_id acc) w = (Inr p, w1)"
    and rest: "plan_targets env shared ts (acc @ [p]) w1 = (Inr ps, w')"
    by (auto simp: andthen_Inr)
  from Cons.IH [OF rest Cons.prems(2)] plan_target_Inr [OF p Cons.prems(2)] Cons.prems(3,4)
  show ?case by auto
qed (simp add: step_pure_Inr)

lemma sorted_distinct_key:
  "distinct (map f xs) \<Longrightarrow> sorted_wrt (<) (map f (sort_key f xs))"
  by (simp add: strict_sorted_iff distinct_map flip: distinct_map)
     (metis distinct_map distinct_sort mset_map mset_eq_imp_distinct_iff mset_sort set_sort)

subsection \<open>Early returns\<close>

definition unplanned :: "bulk_response \<Rightarrow> bool" where
  "unplanned x = (case x of BulkPlanned _ _ _ \<Rightarrow> False | _ \<Rightarrow> True)"

lemma unplanned_simps [simp]:
  "unplanned (bulk_denied code reason)" "unplanned (bulk_internal_error s)" "unplanned (bulk_invalid_params s)"
  "unplanned (build_error_response be)" "\<not> unplanned (BulkPlanned p t k)"
  by (simp_all add: unplanned_def bulk_denied_def bulk_internal_error_def bulk_invalid_params_def)
     (cases be; simp add: bulk_denied_def)

lemma unplanned_wrappers:
  "raises unplanned (internally m)" "raises unplanned (build_step n)"
proof -
  have "raises unplanned (of_result (map_err g r))" if "\<And>e. unplanned (g e)" for g :: "'a \<Rightarrow> bulk_response" and r :: "('a, 'b) result"
    using that by (cases r) (auto simp: raises_def of_result_def)
  then show "raises unplanned (internally m)"
    unfolding internally_def map_err_step_def by (intro raises_inspect) (simp add: raises_def of_result_def map_err_def split: sum.splits)
  show "raises unplanned (build_step n)"
    unfolding build_step_def map_err_step_def
    by (intro raises_inspect) (auto simp: raises_def of_result_def map_err_def split: sum.splits)
qed

lemma unplanned_plan: "raises unplanned (plan_bulk_request env params)"
proof -
  have params: "raises unplanned (of_result (map_err bulk_invalid_params params))"
    by (cases params) (auto simp: raises_def of_result_def)
  have count: "raises unplanned (of_result (check_target_count env n reason))" for n reason
    by (auto simp: raises_def of_result_def check_target_count_def split: sum.splits if_splits)
  have patch: "raises unplanned (of_result (check_patch env shared own))" for shared own
    by (auto simp: raises_def of_result_def check_patch_def Let_def split: option.splits if_splits)
  note rules = raises_step_rules unplanned_wrappers unplanned_simps
  have target: "raises unplanned (plan_target env shared t seen)" for shared t seen
    unfolding plan_target_def by (intro rules patch)
  have targets: "raises unplanned (plan_targets env shared ts acc)" for shared ts acc
    by (induction ts arbitrary: acc) (simp_all, (intro rules target | assumption)+)
  have issue: "raises unplanned (issue_bulk_plan env targets)" for targets
    unfolding issue_bulk_plan_def store_bulk_plan_def by (intro rules)
  show ?thesis
    unfolding plan_bulk_request_def policy_denial_def by (intro rules params count targets issue)
qed

subsection \<open>What is stored\<close>

lemma insert_new_Inr: "insert_new k v t = (Inr u, t') \<Longrightarrow> bt_get t' k = Some v"
  by (auto simp: insert_new_def split: option.splits)

lemma append_bulk_audit_keeps:
  assumes "append_bulk_audit env a par tool st js er act req w = (Inr u, w')"
  shows "bo_plans (w_stores w') = bo_plans (w_stores w)" "bo_keys (w_stores w') = bo_keys (w_stores w)"
    "bo_confirmations (w_stores w') = bo_confirmations (w_stores w)"
  using assms by (auto simp: append_bulk_audit_def bulk_step_Inr case_prod_beta split: sum.splits)

lemma issue_bulk_token_Inr:
  assumes "issue_bulk_token env i b ttl w = (Inr r, w')"
  shows "conf_lookup (bo_confirmations (w_stores w')) (cr_token_id r) = Some r" "bound_to r b"
    "\<not> cr_consumed r \<and> \<not> cr_revoked r" "cr_plan_id r = i"
    "bo_plans (w_stores w') = bo_plans (w_stores w)" "bo_keys (w_stores w') = bo_keys (w_stores w)"
proof -
  let ?run = "conf_issue (be_duration env) (be_clock env (w_tick w)) (be_uuid env (Suc (w_tick w))) i b ttl
     (bo_confirmations (w_stores w))"
  have run: "fst ?run = Inr r" "w_stores w' = (w_stores w)\<lparr>bo_confirmations := snd ?run\<rparr>"
    using assms by (auto simp: issue_bulk_token_def bulk_step_Inr case_prod_beta split: sum.splits)
  then show "conf_lookup (bo_confirmations (w_stores w')) (cr_token_id r) = Some r" "bound_to r b"
    "\<not> cr_consumed r \<and> \<not> cr_revoked r" "cr_plan_id r = i"
    "bo_plans (w_stores w') = bo_plans (w_stores w)" "bo_keys (w_stores w') = bo_keys (w_stores w)"
    using conf_issue_ok [OF run(1)] by (simp_all add: conf_issue_lookup)
qed

lemma reserve_bulk_key_Inr:
  assumes "reserve_bulk_key env key tool h n w = (Inr u, w')"
  shows "map_option kw_op_hash (bt_get (bo_keys (w_stores w')) (key, tool)) = Some h"
    "map_option bulk_startable (bt_get (bo_keys (w_stores w')) (key, tool)) = Some True"
    "bo_plans (w_stores w') = bo_plans (w_stores w)"
    "bo_confirmations (w_stores w') = bo_confirmations (w_stores w)"
  using assms
  by (auto simp: reserve_bulk_key_def bulk_step_Inr case_prod_beta bulk_startable_def insert_new_def
      split: option.splits if_splits)

lemma issue_bulk_plan_Inr:
  assumes "issue_bulk_plan env targets w = (Inr x, w')"
  obtains plan token key r where "x = BulkPlanned plan token key" "bp_targets plan = targets"
    "bp_op_hash plan = operation_hash env targets" "bp_actor plan = be_user env" "bp_requester plan = be_user env"
    "bp_environment plan = be_label env" "bp_expires_at plan = bp_created_at plan + secs 600"
    "bt_get (bo_plans (w_stores w')) (bp_plan_id plan) = Some \<lparr>pw_plan = plan, pw_consumed = False\<rparr>"
    "conf_lookup (bo_confirmations (w_stores w')) token = Some r" "bound_to r (bulk_binding env (bp_op_hash plan))"
    "\<not> cr_consumed r \<and> \<not> cr_revoked r"
    "map_option kw_op_hash (bt_get (bo_keys (w_stores w')) (key, bulk_apply_tool)) = Some (bp_op_hash plan)"
    "map_option bulk_startable (bt_get (bo_keys (w_stores w')) (key, bulk_apply_tool)) = Some True"
proof -
  define plan where "plan = \<lparr>bp_plan_id = be_uuid env (Suc (w_tick w)), bp_op_hash = operation_hash env targets,
      bp_actor = be_user env, bp_requester = be_user env, bp_environment = be_label env, bp_targets = targets,
      bp_created_at = be_clock env (w_tick w), bp_expires_at = be_clock env (w_tick w) + secs bulk_plan_ttl\<rparr>"
  define w0 where "w0 = w\<lparr>w_tick := Suc (Suc (w_tick w))\<rparr>"
  from assms obtain w1 w2 w3 w4 w5 w6 token key where
    o: "open_bulk_store env w0 = (Inr (), w1)" "open_confirmations env w2 = (Inr (), w3)"
    and p: "put_bulk_plan env plan w1 = (Inr (), w2)"
    and t: "issue_bulk_token env (bp_plan_id plan) (bulk_binding env (bp_op_hash plan)) (of_int bulk_plan_ttl) w3
       = (Inr token, w4)"
    and k: "reserve_bulk_key env key bulk_apply_tool (bp_op_hash plan) (pc_idempotency_window_seconds (be_policy env)) w5
       = (Inr (), w6)" "w_stores w5 = w_stores w4"
    and a: "append_bulk_audit env (bp_plan_id plan) None bulk_plan_tool SPlan (redacted_plan_summary plan) None
       (bp_actor plan) (bp_requester plan) w6 = (Inr (), w')" "x = BulkPlanned plan (cr_token_id token) key"
    unfolding issue_bulk_plan_def store_bulk_plan_def andthen_Inr bulk_wrappers_Inr step_pure_Inr step_ask_Inr
    by (auto simp: plan_def w0_def)
  have same: "w_stores w1 = w_stores w0" "w_stores w3 = w_stores w2"
    using o by (simp_all add: open_bulk_store_def open_confirmations_def bulk_sql_Inr)
  have "bt_get (bo_plans (w_stores w2)) (bp_plan_id plan) = Some \<lparr>pw_plan = plan, pw_consumed = False\<rparr>"
    using p by (auto simp: put_bulk_plan_def bulk_step_Inr case_prod_beta insert_new_def split: option.splits)
  then show thesis
    using that [of plan "cr_token_id token" key token] a issue_bulk_token_Inr [OF t] reserve_bulk_key_Inr [OF k(1)]
      append_bulk_audit_keeps [OF a(1)] same k(2)
    by (simp add: plan_def bulk_plan_ttl_def)
qed

subsection \<open>The plan property\<close>

text \<open>
  C21: what a bulk plan promises. Planning sends nothing upstream. The planned targets are as many as
  requested, between 3 and 25, in strictly ascending order of \<open>sys_id\<close>, each with a non-empty patch
  of fields both tool policies allow, references that are 32 hexadecimal digits, journal texts of 1
  to 16000 characters and no state that mentions a cancellation. The plan is stored for ten minutes,
  with an unused token bound to its hash and an unstarted idempotency key of the same hash, and the
  tokens of its preview are the ones an apply accepts.
\<close>

theorem bulk_plan_sound:
  assumes "handle_bulk_plan env params w = (BulkPlanned plan token key, w')"
  shows "w_writes w' = w_writes w
    \<and> 3 \<le> length (bp_targets plan) \<and> length (bp_targets plan) \<le> 25
    \<and> map_option (\<lambda>q. length (pq_targets q)) (case params of Inl _ \<Rightarrow> None | Inr q \<Rightarrow> Some q) = Some (length (bp_targets plan))
    \<and> sorted_wrt (<) (map bt_sys_id (bp_targets plan))
    \<and> list_all (planned_ok env) (bp_targets plan)
    \<and> bp_op_hash plan = operation_hash env (bp_targets plan)
    \<and> bp_expires_at plan = bp_created_at plan + secs 600
    \<and> bt_get (bo_plans (w_stores w')) (bp_plan_id plan) = Some \<lparr>pw_plan = plan, pw_consumed = False\<rparr>
    \<and> (\<exists>r. conf_lookup (bo_confirmations (w_stores w')) token = Some r
          \<and> bound_to r (bulk_binding env (bp_op_hash plan)) \<and> \<not> cr_consumed r \<and> \<not> cr_revoked r)
    \<and> map_option kw_op_hash (bt_get (bo_keys (w_stores w')) (key, bulk_apply_tool)) = Some (bp_op_hash plan)
    \<and> map_option bulk_startable (bt_get (bo_keys (w_stores w')) (key, bulk_apply_tool)) = Some True
    \<and> validate_supplied_tokens (map target_token (bp_targets plan)) plan = Inr ()"
proof -
  obtain r where run: "plan_bulk_request env params w = (r, w')" and r: "bulk_respond r = BulkPlanned plan token key"
    using assms by (auto simp: handle_bulk_plan_def split: prod.splits)
  have ok: "r = Inr (BulkPlanned plan token key)"
    using r raisesD [OF unplanned_plan, of env params w] run by (cases r) (auto simp: bulk_respond_def)
  obtain q shared planned w1 w2 w3 w4 where q: "params = Inr q"
    and count: "\<exists>n. check_target_count env (length (pq_targets q)) (\<lambda>limit. ''bulk Incident targets must be between 3 and '' @ nat_text limit) = Inr n"
    and shared: "normalize_patch env (pq_shared_patch q) w1 = (Inr shared, w2)"
    and planned: "plan_targets env shared (pq_targets q) [] w2 = (Inr planned, w3)"
    and issue: "issue_bulk_plan env (sort_key bt_sys_id planned) w3 = (Inr (BulkPlanned plan token key), w')"
    using run unfolding ok plan_bulk_request_def andthen_Inr step_pure_Inr bulk_wrappers_Inr map_err_Inr by blast
  have targets: "bp_targets plan = sort_key bt_sys_id planned"
    by (rule issue_bulk_plan_Inr [OF issue]) auto
  have ok: "list_all (planned_ok env) planned" "distinct (map bt_sys_id planned)" "length planned = length (pq_targets q)"
    using plan_targets_Inr [OF planned normalize_patch_ok [OF shared]] by auto
  have log: "bulk_log.keeps (plan_bulk_request env params)"
    unfolding plan_bulk_request_def issue_bulk_plan_def store_bulk_plan_def
    by (intro bulk_log_rules bulk_log_wrappers bulk_log_stores bulk_log_plan_parts bulk_log_plan_targets)
  have "w_writes w' = w_writes w" using bulk_log.keepsD [OF log run] by (simp add: same_writes_def)
  moreover have "3 \<le> length (pq_targets q)" "length (pq_targets q) \<le> 25"
    using count by (auto simp: check_target_count_def configured_bulk_target_limit_def bind_ok_Inr bulk_min_targets_def
        bulk_max_targets_def Let_def split: sum.splits if_splits)
  moreover have "sorted_wrt (<) (map bt_sys_id (bp_targets plan))"
    unfolding targets using ok(2) by (rule sorted_distinct_key)
  moreover have "list_all (planned_ok env) (bp_targets plan)" using ok(1) by (simp add: targets list_all_iff)
  moreover have "validate_supplied_tokens (map target_token (bp_targets plan)) plan = Inr ()"
    by (simp add: validate_supplied_tokens_def)
  ultimately show ?thesis
    using ok(3) q targets by (auto intro: issue_bulk_plan_Inr [OF issue])
qed

subsection \<open>A concrete plan\<close>

definition demo_plan_target :: "string \<Rightarrow> bulk_target_request" where
  "demo_plan_target n = \<lparr>tr_number = Some n, tr_sys_id = None, tr_patch = None\<rparr>"

definition demo_plan_request :: bulk_plan_request where
  "demo_plan_request = \<lparr>pq_shared_patch = Some \<lparr>ip_assigned_to = None, ip_assignment_group = None, ip_state = None,
       ip_work_notes = Some ''hi'', ip_comments = None\<rparr>,
     pq_targets = map demo_plan_target [''INC1'', ''INC2'', ''INC3'']\<rparr>"

lemma demo_normalize:
  "normalize_patch demo_bulk_env (pq_shared_patch demo_plan_request) w = (Inr [(''work_notes'', ''hi'')], w)"
  "normalize_patch demo_bulk_env None w = (Inr [], w)"
  by (simp_all add: normalize_patch_def demo_plan_request_def patch_reference_def normalize_state_def patch_journal_def
      andthen_def of_result_def ok_def journal_max_chars_def char_count_def continues_char_def string_simps)

lemma demo_check_patch: "check_patch demo_bulk_env [(''work_notes'', ''hi'')] [] = Inr [(''work_notes'', ''hi'')]"
  by (simp add: check_patch_def merge_patch_def bt_keys_def bt_get_def field_allowed_def demo_bulk_env_def
      demo_bulk_policy_def demo_bulk_tool_def bulk_apply_tool_def bulk_plan_tool_def)

lemma demo_read_number:
  "read_target demo_bulk_env (ByNumber n) w = (bind_ok (map_err ReadFailed (demo_bulk_read (ByNumber n))) resolved_of_fields,
     w\<lparr>w_tick := Suc (w_tick w)\<rparr>)"
  by (simp add: read_target_eq demo_bulk_env_def)

lemma demo_plan_target_run:
  assumes "n \<in> {''INC1'', ''INC2'', ''INC3''}" "rev (to_lower n) \<notin> set seen"
  shows "plan_target demo_bulk_env [(''work_notes'', ''hi'')] (demo_plan_target n) seen w =
    (Inr \<lparr>bt_number = n, bt_sys_id = rev (to_lower n), bt_patch = [(''work_notes'', ''hi'')], bt_sys_updated_on = ''v1''\<rparr>,
     w\<lparr>w_tick := Suc (w_tick w)\<rparr>)"
proof -
  have "select_target (demo_plan_target n) = Inr (ByNumber n)"
    using assms(1) by (auto simp: select_target_def demo_plan_target_def valid_incident_number_def string_simps)
  moreover have "bind_ok (map_err ReadFailed (demo_bulk_read (ByNumber n))) resolved_of_fields
      = Inr \<lparr>rt_number = n, rt_sys_id = rev (to_lower n), rt_sys_updated_on = ''v1'',
          rt_fields = [(''number'', n), (''sys_id'', rev n), (''sys_updated_on'', ''v1'')]\<rparr>"
    using assms(1) by (auto simp: demo_bulk_read_def resolved_of_fields_def required_field_def trimmed_field_def bt_get_def
        string_simps)
  ultimately show ?thesis
    using assms(2)
    by (simp add: plan_target_def build_step_def map_err_step_def inspect_def andthen_def of_result_def demo_check_patch
        demo_read_number demo_normalize(2) ok_def demo_plan_target_def)
qed

definition demo_planned :: "bulk_planned_target list" where
  "demo_planned = map (\<lambda>n. \<lparr>bt_number = n, bt_sys_id = rev (to_lower n), bt_patch = [(''work_notes'', ''hi'')],
     bt_sys_updated_on = ''v1''\<rparr>) [''INC1'', ''INC2'', ''INC3'']"

lemma demo_plan_ids:
  "rev (to_lower ''INC1'') = ''1cni''" "rev (to_lower ''INC2'') = ''2cni''" "rev (to_lower ''INC3'') = ''3cni''"
  by code_simp+

lemma demo_plan_targets_run:
  "plan_targets demo_bulk_env [(''work_notes'', ''hi'')] (pq_targets demo_plan_request) [] w
     = (Inr demo_planned, w\<lparr>w_tick := Suc (Suc (Suc (w_tick w)))\<rparr>)"
  by (simp add: demo_plan_request_def demo_planned_def andthen_def demo_plan_target_run ok_def demo_plan_ids del: rev.simps)

text \<open>Issuing a plan completes when the fresh identifiers are not in the stores.\<close>

lemma issue_bulk_plan_run:
  assumes "smooth env" "\<forall>n. be_duration env n \<noteq> None" "fresh_audit_ids env w"
    "int (pc_idempotency_window_seconds (be_policy env)) \<le> i64_max"
    "\<forall>n. bt_get (bo_plans (w_stores w)) (be_uuid env n) = None"
    "\<forall>n. conf_lookup (bo_confirmations (w_stores w)) (be_uuid env n) = None"
    "\<forall>n. bt_get (bo_keys (w_stores w)) (be_uuid env n, bulk_apply_tool) = None"
  shows "\<exists>x w'. issue_bulk_plan env targets w = (Inr x, w')"
proof -
  note steps = smooth_steps [OF assms(1)]
  define plan where "plan = \<lparr>bp_plan_id = be_uuid env (Suc (w_tick w)), bp_op_hash = operation_hash env targets,
      bp_actor = be_user env, bp_requester = be_user env, bp_environment = be_label env, bp_targets = targets,
      bp_created_at = be_clock env (w_tick w), bp_expires_at = be_clock env (w_tick w) + secs bulk_plan_ttl\<rparr>"
  define w1 where "w1 = w\<lparr>w_tick := Suc (Suc (Suc (w_tick w)))\<rparr>"
  have o: "internally (open_bulk_store env) (w\<lparr>w_tick := Suc (Suc (w_tick w))\<rparr>) = (Inr (), w1)"
    by (simp add: bulk_wrappers_Inr open_bulk_store_def steps w1_def)
  obtain w2 where p: "internally (put_bulk_plan env plan) w1 = (Inr (), w2)"
    and w2: "bo_confirmations (w_stores w2) = bo_confirmations (w_stores w)" "bo_keys (w_stores w2) = bo_keys (w_stores w)"
      "bo_audit (w_stores w2) = bo_audit (w_stores w)"
    using assms(5) by (simp add: bulk_wrappers_Inr put_bulk_plan_def andthen_def steps insert_new_def plan_def of_result_def w1_def)
  define w3 where "w3 = w2\<lparr>w_tick := Suc (w_tick w2)\<rparr>"
  have c: "internally (open_confirmations env) w2 = (Inr (), w3)"
    by (simp add: bulk_wrappers_Inr open_confirmations_def steps w3_def)
  obtain d where d: "be_duration env (sint (of_int bulk_plan_ttl :: 64 word)) = Some d" using assms(2) by blast
  obtain token w4 where t: "internally (issue_bulk_token env (bp_plan_id plan) (bulk_binding env (bp_op_hash plan))
      (of_int bulk_plan_ttl)) w3 = (Inr token, w4)"
    and w4: "bo_keys (w_stores w4) = bo_keys (w_stores w)" "bo_audit (w_stores w4) = bo_audit (w_stores w)"
    using assms(6) d w2
    by (simp add: bulk_wrappers_Inr issue_bulk_token_def andthen_def ask_def steps conf_issue_def conf_lookup_def w3_def ok_def Let_def)
  let ?key = "be_uuid env (w_tick w4)"
  define w5 where "w5 = w4\<lparr>w_tick := Suc (w_tick w4)\<rparr>"
  obtain e where e: "be_duration env (int (pc_idempotency_window_seconds (be_policy env))) = Some e" using assms(2) by blast
  obtain w6 where k: "internally (reserve_bulk_key env ?key bulk_apply_tool (bp_op_hash plan)
      (pc_idempotency_window_seconds (be_policy env))) w5 = (Inr (), w6)" "bo_audit (w_stores w6) = bo_audit (w_stores w)"
    using assms(4,7) e w4
    by (simp add: bulk_wrappers_Inr reserve_bulk_key_def andthen_def ask_def steps insert_new_def w5_def of_result_def not_less)
  have "bp_plan_id plan \<notin> bulk_audit_ids w6"
    using assms(3) k(2) by (simp add: fresh_audit_ids_def bulk_audit_ids_def plan_def)
  from audit_run [OF assms(1) this] obtain w7 where a: "append_bulk_audit env (bp_plan_id plan) None bulk_plan_tool SPlan
      (redacted_plan_summary plan) None (bp_actor plan) (bp_requester plan) w6 = (Inr (), w7)" by blast
  have a1: "internally (append_bulk_audit env (bp_plan_id plan) None bulk_plan_tool SPlan
      (redacted_plan_summary plan) None (bp_actor plan) (bp_requester plan)) w6 = (Inr (), w7)"
    using a by (rule wrapped_run(1))
  have "issue_bulk_plan env targets w = (Inr (BulkPlanned plan (cr_token_id token) ?key), w7)"
  proof -
    have "issue_bulk_plan env targets w = store_bulk_plan env plan (w\<lparr>w_tick := Suc (Suc (w_tick w))\<rparr>)"
      by (simp add: issue_bulk_plan_def andthen_def ask_def plan_def)
    also have "\<dots> = (Inr (BulkPlanned plan (cr_token_id token) ?key), w7)"
      using o p c t k(1) a1 by (simp add: store_bulk_plan_def andthen_def ask_def ok_def w5_def)
    finally show ?thesis .
  qed
  then show ?thesis by blast
qed

lemma demo_plan_run:
  "\<exists>plan token key w'. handle_bulk_plan demo_bulk_env (Inr demo_plan_request) demo_bulk_world
     = (BulkPlanned plan token key, w')"
proof -
  define w1 where "w1 = demo_bulk_world\<lparr>w_tick := Suc (Suc (Suc (w_tick demo_bulk_world)))\<rparr>"
  have "\<exists>x w'. issue_bulk_plan demo_bulk_env (sort_key bt_sys_id demo_planned) w1 = (Inr x, w')"
  proof (rule issue_bulk_plan_run [OF demo_bulk_smooth])
    show "fresh_audit_ids demo_bulk_env w1"
      using demo_bulk_fresh by (simp add: fresh_audit_ids_def bulk_audit_ids_def w1_def)
    have other: "replicate n CHR ''u'' \<noteq> c # cs" if "c \<noteq> CHR ''u''" for n c and cs :: string
      using that by (cases n) auto
    show "\<forall>n. bt_get (bo_plans (w_stores w1)) (be_uuid demo_bulk_env n) = None"
      "\<forall>n. conf_lookup (bo_confirmations (w_stores w1)) (be_uuid demo_bulk_env n) = None"
      "\<forall>n. bt_get (bo_keys (w_stores w1)) (be_uuid demo_bulk_env n, bulk_apply_tool) = None"
      by (simp_all add: w1_def demo_bulk_world_def demo_bulk_env_def bt_get_def conf_lookup_def other)
  qed (simp_all add: demo_bulk_env_def demo_bulk_policy_def i64_max_def)
  then obtain x w' where i: "issue_bulk_plan demo_bulk_env (sort_key bt_sys_id demo_planned) w1 = (Inr x, w')" by blast
  obtain plan token key where x: "x = BulkPlanned plan token key" by (rule issue_bulk_plan_Inr [OF i])
  have count: "check_target_count demo_bulk_env (length (pq_targets demo_plan_request)) reason = Inr 25" for reason
    by (simp add: check_target_count_def configured_bulk_target_limit_def explicit_max_def demo_bulk_env_def
        demo_bulk_policy_def demo_bulk_tool_def bt_get_def bulk_apply_tool_def bulk_plan_tool_def bulk_min_targets_def
        bulk_max_targets_def demo_plan_request_def)
  have "plan_bulk_request demo_bulk_env (Inr demo_plan_request) demo_bulk_world = (Inr x, w')"
    using i by (simp add: plan_bulk_request_def policy_denial_def andthen_def of_result_def build_step_def
        map_err_step_def inspect_def ok_def count demo_bulk_allowed demo_normalize(1) demo_plan_targets_run flip: w1_def)
  then show ?thesis by (simp add: handle_bulk_plan_def bulk_respond_def x)
qed

theorem bulk_plan_sound_witness:
  "\<exists>plan token key w'. handle_bulk_plan demo_bulk_env (Inr demo_plan_request) demo_bulk_world
     = (BulkPlanned plan token key, w') \<and> w_writes w' = w_writes demo_bulk_world
     \<and> 3 \<le> length (bp_targets plan) \<and> sorted_wrt (<) (map bt_sys_id (bp_targets plan))"
  using demo_plan_run bulk_plan_sound by blast

end
