(* ===== verification/Bulk_Properties.thy ===== *)
theory Bulk_Properties
  imports Bulk_Demo
begin

text \<open>
  The properties of governed bulk Incident updates: what must hold before the first PATCH, which
  requests are sent and in which order, what the response says of them, that a key is applied at
  most once, that a smooth apply completes, and what a plan promises.
\<close>

text \<open>
  The plan's ten minutes also bound the replay of a finished key: once the plan has expired, an apply
  under a key that holds a receipt is refused like any other.
\<close>

lemma bulk_replay_needs_live_plan:
  assumes "smooth env" "\<not> tool_denied (be_policy env) (be_label env) bulk_apply_tool True"
    "\<not> tool_denied (be_policy env) (be_label env) bulk_plan_tool True"
    "bt_get (bo_plans (w_stores w)) (bq_plan_id q) = Some row" "\<forall>n. bp_expires_at (pw_plan row) \<le> be_clock env n"
  shows "fst (handle_bulk_apply env (Inr q) w) = bulk_denied ''PLAN_EXPIRED'' ''bulk plan expired''"
proof -
  obtain w1 where g: "bulk_gates env (Inr q) w = (Inr q, w1)" "w_stores w1 = w_stores w"
    using gates_run [OF assms(1-3)] by blast
  have "\<exists>w2. load_bulk_plan env (bq_plan_id q) w1 = (Inl (bulk_denied ''PLAN_EXPIRED'' ''bulk plan expired''), w2)"
    using assms(4,5) g(2) by (simp add: load_bulk_plan_def open_bulk_store_def get_bulk_plan_def andthen_def
        wrapped_run(1) [OF smooth_steps(1) [OF assms(1)]] ask_def fail_def)
  then show ?thesis
    using g(1) by (auto simp: handle_bulk_apply_def apply_bulk_request_def bulk_checks_def andthen_def bulk_respond_def)
qed

lemma handle_bulk_apply_run:
  "handle_bulk_apply env params w = (resp, w') \<longleftrightarrow>
     (\<exists>r. apply_bulk_request env params w = (r, w') \<and> resp = bulk_respond r)"
  by (auto simp: handle_bulk_apply_def split: prod.splits)

text \<open>
  C5: an apply that sends a PATCH has passed every gate: neither kill switch is set, both tools are
  enabled for the environment, the plan is stored, unexpired and of the actor, requester and
  environment of the request, it has between 3 and 25 targets whose tokens the request repeats in
  order, the idempotency key is bound to the plan's hash and was never started or finished, the
  confirmation token is valid for the plan's hash, and every target was read at its planned version.
  And the apply was started before the first PATCH: from the stores the checks leave to those the
  targets are applied from, the key, startable until then, is marked as started, and the token,
  valid until then, is consumed.
\<close>

theorem bulk_apply_gated:
  assumes "handle_bulk_apply env params w = (resp, w')" "w_writes w' \<noteq> w_writes w"
  shows "\<exists>q plan row r n m. params = Inr q
    \<and> \<not> switched_on (be_env_var env (w_tick w) ''SNOW_INCIDENT_WRITE_KILL_SWITCH'')
    \<and> \<not> switched_on (be_env_var env (w_tick w) ''SNOW_MCP_WRITE_KILL_SWITCH'')
    \<and> \<not> tool_denied (be_policy env) (be_label env) bulk_apply_tool True
    \<and> \<not> tool_denied (be_policy env) (be_label env) bulk_plan_tool True
    \<and> map_option pw_plan (bt_get (bo_plans (w_stores w)) (bq_plan_id q)) = Some plan
    \<and> be_clock env m < bp_expires_at plan
    \<and> 3 \<le> length (bp_targets plan) \<and> length (bp_targets plan) \<le> 25
    \<and> bq_concurrency_tokens q = map target_token (bp_targets plan)
    \<and> bp_actor plan = be_user env \<and> bp_requester plan = be_user env \<and> bp_environment plan = be_label env
    \<and> bt_get (bo_keys (w_stores w)) (bq_idempotency_key q, bulk_apply_tool) = Some row
    \<and> kw_op_hash row = bp_op_hash plan \<and> bulk_startable row
    \<and> conf_lookup (bo_confirmations (w_stores w)) (bq_confirmation_token q) = Some r
    \<and> token_valid (be_clock env n) (bulk_binding env (bp_op_hash plan)) r
    \<and> list_all (\<lambda>t. \<exists>i. unchanged_at env i t) (bp_targets plan)
    \<and> (\<exists>w1 w2 w3 rc. bulk_gates env params w = (Inr q, w1) \<and> bulk_checks env q w1 = (Inr plan, w2)
         \<and> start_apply env q plan w2 = (Inr rc, w3) \<and> w_writes w3 = w_writes w
         \<and> key_acquired (bq_idempotency_key q) (w_stores w2) (w_stores w3)
         \<and> token_used env (bulk_binding env (bp_op_hash plan)) (bq_confirmation_token q) (w_stores w2) (w_stores w3))"
proof -
  from assms(1) obtain r where run: "apply_bulk_request env params w = (r, w')"
    by (auto simp: handle_bulk_apply_run)
  then show ?thesis
  proof (cases rule: apply_stages)
    case (stopped x)
    then show ?thesis using assms(2) by simp
  next
    case (looped q plan rc w3 r4 w4)
    then obtain w1 w2 where g: "bulk_gates env params w = (Inr q, w1)" and c: "bulk_checks env q w1 = (Inr plan, w2)"
      and s: "start_apply env q plan w2 = (Inr rc, w3)"
      by (auto simp: loop_reached_def)
    obtain row r n where found: "map_option pw_plan (bt_get (bo_plans (w_stores w1)) (bq_plan_id q)) = Some plan"
      "\<exists>n. be_clock env n < bp_expires_at plan" "check_bulk_request env q plan = Inr ()"
      "bt_get (bo_keys (w_stores w1)) (bq_idempotency_key q, bulk_apply_tool) = Some row"
      "kw_op_hash row = bp_op_hash plan" "bulk_startable row"
      "conf_lookup (bo_confirmations (w_stores w1)) (bq_confirmation_token q) = Some r"
      "token_valid (be_clock env n) (bulk_binding env (bp_op_hash plan)) r"
      "list_all (\<lambda>t. \<exists>i<w_tick w2. unchanged_at env i t) (bp_targets plan)"
      by (rule bulk_checks_Inr [OF c])
    have "list_all (\<lambda>t. \<exists>i. unchanged_at env i t) (bp_targets plan)"
      using found(9) by (auto simp: list_all_iff)
    moreover have "\<exists>w1 w2 w3 rc. bulk_gates env params w = (Inr q, w1) \<and> bulk_checks env q w1 = (Inr plan, w2)
         \<and> start_apply env q plan w2 = (Inr rc, w3) \<and> w_writes w3 = w_writes w
         \<and> key_acquired (bq_idempotency_key q) (w_stores w2) (w_stores w3)
         \<and> token_used env (bulk_binding env (bp_op_hash plan)) (bq_confirmation_token q) (w_stores w2) (w_stores w3)"
      using g c s looped(4) start_apply_acquires [OF s] by blast
    ultimately show ?thesis
      using bulk_gates_Inr [OF g] found check_bulk_request_Inr [OF found(3)]
      by (auto simp: bulk_min_targets_def bulk_max_targets_def)
  qed
qed

theorem bulk_apply_gated_witness:
  "\<exists>resp w' q plan. handle_bulk_apply demo_bulk_env (Inr demo_bulk_request) demo_bulk_world = (resp, w')
    \<and> w_writes w' \<noteq> [] \<and> q = demo_bulk_request
    \<and> map_option pw_plan (bt_get (bo_plans (w_stores demo_bulk_world)) (bq_plan_id q)) = Some plan
    \<and> 3 \<le> length (bp_targets plan)"
proof -
  obtain rc w' where run: "handle_bulk_apply demo_bulk_env (Inr demo_bulk_request) demo_bulk_world = (BulkReceipted rc, w')"
    "w_writes w' = map write_of (bp_targets demo_bulk_plan)"
    using demo_bulk_run by blast
  have sent: "w_writes w' \<noteq> w_writes demo_bulk_world"
    by (simp add: run(2) demo_bulk_world_def demo_bulk_plan_def)
  from bulk_apply_gated [OF run(1) sent] show ?thesis
    using run sent by (fastforce simp: demo_bulk_world_def)
qed

text \<open>
  C6: the PATCH requests of an apply are those of the first targets of the stored plan, in plan
  order and each at most once. Every target of the plan was found at its planned version before the
  first PATCH; each PATCH directly follows another read that found the planned version, and is
  sent only after the one before it was acknowledged.
\<close>

theorem bulk_writes_prefix:
  assumes "handle_bulk_apply env (Inr q) w = (resp, w')"
  shows "w_writes w' = w_writes w \<or> (\<exists>plan n m is.
    map_option pw_plan (bt_get (bo_plans (w_stores w)) (bq_plan_id q)) = Some plan
    \<and> w_writes w' = w_writes w @ map write_of (take n (bp_targets plan))
    \<and> list_all (\<lambda>t. \<exists>i<m. unchanged_at env i t) (bp_targets plan)
    \<and> sent_at env m (take n (bp_targets plan)) is)"
proof -
  from assms obtain r where run: "apply_bulk_request env (Inr q) w = (r, w')"
    by (auto simp: handle_bulk_apply_run)
  then show ?thesis
  proof (cases rule: apply_stages)
    case (looped q' plan rc w3 r4 w4)
    then obtain w1 w2 where g: "bulk_gates env (Inr q) w = (Inr q', w1)" and c: "bulk_checks env q' w1 = (Inr plan, w2)"
      by (auto simp: loop_reached_def)
    have stored: "map_option pw_plan (bt_get (bo_plans (w_stores w)) (bq_plan_id q)) = Some plan"
      using bulk_gates_Inr(1,2) [OF g] bulk_checks_Inr [OF c] by (metis sum.inject(2))
    obtain n "is" where "loop_left env (w_tick w3) (bp_targets plan) w3 w4 n is"
      using loop_reached_loop [OF looped(1,2)] by blast
    then show ?thesis
      using stored loop_reached_preflight [OF looped(1)] looped(3,4) by (auto simp: loop_left_def)
  qed simp
qed

theorem bulk_writes_prefix_witness:
  "\<exists>resp w' n is. handle_bulk_apply demo_bulk_env (Inr demo_bulk_request) demo_bulk_world = (resp, w')
    \<and> w_writes w' \<noteq> [] \<and> w_writes w' = map write_of (take n (bp_targets demo_bulk_plan))
    \<and> sent_at demo_bulk_env 0 (take n (bp_targets demo_bulk_plan)) is"
proof -
  obtain rc w' where run: "handle_bulk_apply demo_bulk_env (Inr demo_bulk_request) demo_bulk_world = (BulkReceipted rc, w')"
    "w_writes w' = map write_of (bp_targets demo_bulk_plan)"
    using demo_bulk_run by blast
  have sent: "w_writes w' \<noteq> []" by (simp add: run(2) demo_bulk_plan_def)
  from bulk_writes_prefix [OF run(1)] sent obtain plan n m "is" where p:
    "map_option pw_plan (bt_get (bo_plans (w_stores demo_bulk_world)) (bq_plan_id demo_bulk_request)) = Some plan"
    "w_writes w' = map write_of (take n (bp_targets plan))"
    "sent_at demo_bulk_env m (take n (bp_targets plan)) is"
    by (auto simp: demo_bulk_world_def)
  have "plan = demo_bulk_plan" using p(1) by (simp add: demo_bulk_world_def demo_bulk_request_def bt_get_def)
  then show ?thesis using run(1) sent p(2) sent_at_mono [OF p(3), of 0] by auto
qed

subsection \<open>What the response says\<close>

text \<open>Early returns carry no fresh receipt.\<close>

definition untold :: "bulk_response \<Rightarrow> bool" where
  "untold x = (told_receipt x = None)"

lemma untold_simps [simp]:
  "untold (BulkError e)" "untold (bulk_denied code reason)" "untold (confirmation_error err)"
  "untold (bulk_internal_error s)" "untold (pending_after_store_failure s)" "untold (bulk_invalid_params s)"
  "untold (bulk_conflict_error i)" "untold (BulkReceipted (rc\<lparr>br_replay := True\<rparr>))" "untold (build_error_response be)"
  by (simp_all add: untold_def told_receipt_def bulk_denied_def confirmation_error_def bulk_internal_error_def
      pending_after_store_failure_def bulk_invalid_params_def bulk_conflict_error_def)
     (cases be; simp add: bulk_denied_def)

lemma untold_of_result: "(\<And>e. P (g e)) \<Longrightarrow> raises P (of_result (map_err g r))"
  "(\<And>e. P (g e)) \<Longrightarrow> raises P (map_err_step g m)"
proof -
  show one: "raises P (of_result (map_err g r))" if "\<And>e. P (g e)" for r
    using that by (cases r) (auto simp: raises_def of_result_def)
  show "raises P (map_err_step g m)" if "\<And>e. P (g e)"
    unfolding map_err_step_def by (intro raises_inspect one that)
qed

lemma untold_wrappers:
  "raises untold (internally m)" "raises untold (pending_on_error m)" "raises untold (build_step n)"
  unfolding internally_def pending_on_error_def build_step_def by (simp_all add: untold_of_result(2))

lemma untold_stages:
  "raises untold (bulk_gates env params)" "raises untold (bulk_checks env q)" "raises untold (start_apply env q plan)"
proof -
  note rules = raises_step_rules untold_wrappers untold_of_result untold_simps
  have request: "raises untold (of_result (check_bulk_request env q p))" for p
    by (auto simp: raises_def of_result_def check_bulk_request_def check_target_count_def bind_ok_Inl
        validate_supplied_tokens_def split: sum.splits if_splits option.splits)
  have replay: "raises untold (replay_stored env token b x)" if "untold x" for token b x
    unfolding replay_stored_def using that by (intro rules)
  have preflight: "raises untold (preflight env ts)" for ts
    by (induction ts) (simp_all, (intro rules | assumption)+)
  show "raises untold (bulk_gates env params)"
    unfolding bulk_gates_def reject_kill_switch_def policy_denial_def by (intro rules)
  show "raises untold (bulk_checks env q)"
    unfolding bulk_checks_def load_bulk_plan_def check_bulk_key_def check_bulk_token_def Let_def
    by (intro rules request replay preflight)
  show "raises untold (start_apply env q plan)"
    unfolding start_apply_def acquire_key_def Let_def by (intro rules)
qed

text \<open>A stopped apply answers with an early return.\<close>

lemma stopped_untold:
  assumes "apply_bulk_request env params w = (Inl x, w')" "\<And>q plan rc w3. \<not> loop_reached env params w q plan rc w3"
  shows "untold x"
proof -
  from assms(1) consider "bulk_gates env params w = (Inl x, w')"
    | q w1 where "bulk_gates env params w = (Inr q, w1)" "bulk_checks env q w1 = (Inl x, w')"
    | q w1 plan w2 where "bulk_gates env params w = (Inr q, w1)" "bulk_checks env q w1 = (Inr plan, w2)"
        "start_apply env q plan w2 = (Inl x, w')"
    | q w1 plan w2 rc w3 where "bulk_gates env params w = (Inr q, w1)" "bulk_checks env q w1 = (Inr plan, w2)"
        "start_apply env q plan w2 = (Inr rc, w3)"
    unfolding apply_bulk_request_def andthen_Inl by metis
  then show ?thesis
  proof cases
    case 1 then show ?thesis using raisesD [OF untold_stages(1)] by blast
  next
    case 2 then show ?thesis using raisesD [OF untold_stages(2)] by blast
  next
    case 3 then show ?thesis using raisesD [OF untold_stages(3)] by blast
  next
    case 4 then show ?thesis using assms(2) unfolding loop_reached_def by blast
  qed
qed

text \<open>
  C7: the receipt of an apply is truthful. There is one ending \<open>e\<close> of the loop such that the
  statuses of the receipt are those of \<open>e\<close> (applied targets, then at most one failed target, then
  targets not attempted), its results name the targets of the stored plan in order, the PATCH
  requests sent are exactly those of the targets \<open>e\<close> counts as sent, the last of them was refused
  upstream just when \<open>e\<close> says so, the three counts are those of the statuses and add up to the number
  of targets, and the answer is a success just when every target was applied.
\<close>

theorem bulk_receipt_truthful:
  assumes "handle_bulk_apply env params w = (resp, w')" "told_receipt resp = Some rc"
  shows "\<exists>q plan m is e. params = Inr q
    \<and> map_option pw_plan (bt_get (bo_plans (w_stores w)) (bq_plan_id q)) = Some plan
    \<and> ending_in (length (bp_targets plan)) e
    \<and> statuses rc = ending_statuses (length (bp_targets plan)) e
    \<and> result_ids rc = map bt_sys_id (bp_targets plan)
    \<and> w_writes w' = w_writes w @ map write_of (take (ending_sent (length (bp_targets plan)) e) (bp_targets plan))
    \<and> sent_at env m (take (ending_sent (length (bp_targets plan)) e) (bp_targets plan)) is
    \<and> last_acknowledged env (take (ending_sent (length (bp_targets plan)) e) (bp_targets plan)) is (\<not> refused e)
    \<and> br_applied_count rc = length (filter ((=) TargetApplied) (statuses rc))
    \<and> br_failed_count rc = length (filter ((=) TargetFailed) (statuses rc))
    \<and> br_applied_count rc + br_failed_count rc + br_not_attempted_count rc = length (bp_targets plan)
    \<and> (resp = BulkReceipted rc \<longleftrightarrow> e = AllApplied)"
proof -
  from assms(1) obtain r where run: "apply_bulk_request env params w = (r, w')" and resp: "resp = bulk_respond r"
    by (auto simp: handle_bulk_apply_run)
  from run show ?thesis
  proof (cases rule: apply_stages)
    case (stopped x)
    have "untold x" using run stopped(1,3) stopped_untold by blast
    then show ?thesis using assms(2) by (simp add: untold_def resp bulk_respond_def stopped(1))
  next
    case (looped q plan rc0 w3 r4 w4)
    from looped(1) obtain w1 w2 where g: "bulk_gates env params w = (Inr q, w1)"
      and c: "bulk_checks env q w1 = (Inr plan, w2)" and s: "start_apply env q plan w2 = (Inr rc0, w3)"
      by (auto simp: loop_reached_def)
    have stored: "map_option pw_plan (bt_get (bo_plans (w_stores w)) (bq_plan_id q)) = Some plan"
      using bulk_gates_Inr(2) [OF g] bulk_checks_Inr [OF c] by metis
    obtain out where out: "r4 = Inr out"
      using looped(2,5) assms(2) loop_Inl(2) [of env "bq_idempotency_key q" 0 "bp_targets plan" rc0 w3]
      by (cases r4) (auto simp: resp bulk_respond_def told_receipt_def pending_def split: bulk_response.splits)
    obtain n "is" e where left: "loop_left env (w_tick w3) (bp_targets plan) w3 w4 n is"
      and told: "loop_told env (bp_targets plan) rc0 0 out n is e"
      using loop_reached_loop [OF looped(1,2)] out by blast
    have ids: "result_ids rc0 = map bt_sys_id (bp_targets plan)"
      using start_apply_Inr [OF s] by (auto simp: initial_receipt_def result_ids_def initial_result_def)
    have "finish_bulk env q plan out w4 = (r, w')" using looped(5) out by simp
    then have final: "(\<exists>d. rc = final_receipt d out) \<and> (resp = BulkReceipted rc \<longleftrightarrow> fst out = None)"
      by (cases rule: finish_bulk_outcome)
         (use assms(2) in \<open>auto simp: resp bulk_respond_def told_receipt_def pending_def
            split: bulk_response.splits if_splits\<close>)
    have none: "(fst out = None) = (e = AllApplied)" using told by (cases e) (auto simp: loop_told_def)
    have sum: "length (filter ((=) TargetApplied) ss) + length (filter ((=) TargetFailed) ss)
        + length (filter ((=) TargetNotAttempted) ss) = length ss" for ss
    proof (induction ss)
      case (Cons s ss)
      then show ?case by (cases s) auto
    qed simp
    have len: "length (ending_statuses (length (bp_targets plan)) e) = length (bp_targets plan)"
      using told by (cases e) (auto simp: loop_told_def)
    obtain d where rc: "rc = final_receipt d out" using final by blast
    have n: "n = ending_sent (length (bp_targets plan)) e" using told by (simp add: loop_told_def)
    show ?thesis
      by (rule exI [of _ q], rule exI [of _ plan], rule exI [of _ "w_tick w3"], rule exI [of _ "is"], rule exI [of _ e])
         (use stored bulk_gates_Inr(1) [OF g] left told ids final looped(3,4) none sum len rc in
           \<open>simp add: loop_told_def loop_left_def flip: n\<close>)
  qed
qed

theorem bulk_receipt_truthful_witness:
  "\<exists>resp w' rc (plan :: bulk_plan) m is e. handle_bulk_apply demo_bulk_env (Inr demo_bulk_request) demo_bulk_world = (resp, w')
    \<and> told_receipt resp = Some rc
    \<and> w_writes w' = map write_of (take (ending_sent (length (bp_targets plan)) e) (bp_targets plan))
    \<and> w_writes w' \<noteq> [] \<and> statuses rc = ending_statuses (length (bp_targets plan)) e
    \<and> sent_at demo_bulk_env m (take (ending_sent (length (bp_targets plan)) e) (bp_targets plan)) is"
proof -
  obtain rc w' where run: "handle_bulk_apply demo_bulk_env (Inr demo_bulk_request) demo_bulk_world = (BulkReceipted rc, w')"
    "\<not> br_replay rc" "w_writes w' = map write_of (bp_targets demo_bulk_plan)"
    using demo_bulk_run by blast
  have told: "told_receipt (BulkReceipted rc) = Some rc" using run(2) by (simp add: told_receipt_def)
  have "w_writes w' \<noteq> []" by (simp add: run(3) demo_bulk_plan_def)
  have start: "w_writes demo_bulk_world = []" by (simp add: demo_bulk_world_def)
  obtain plan :: bulk_plan and m "is" e where p:
    "w_writes w' = map write_of (take (ending_sent (length (bp_targets plan)) e) (bp_targets plan))"
    "statuses rc = ending_statuses (length (bp_targets plan)) e"
    "sent_at demo_bulk_env m (take (ending_sent (length (bp_targets plan)) e) (bp_targets plan)) is"
    using bulk_receipt_truthful [OF run(1) told, unfolded start append_Nil] by (elim exE conjE) (rule that)
  then show ?thesis using run(1) told \<open>w_writes w' \<noteq> []\<close> by blast
qed

text \<open>
  C20: an error response hides no applied target. When an apply answers with an error other than
  \<open>PENDING_RESOLUTION_REQUIRED\<close> (-32060), it sent at most one PATCH, that of the first target of the
  plan, and the client refused it.
\<close>

theorem bulk_error_hides_nothing:
  assumes "handle_bulk_apply env params w = (BulkError err, w')" "rpc_code err \<noteq> -32060"
  shows "w_writes w' = w_writes w \<or> (\<exists>q plan i t. params = Inr q
    \<and> map_option pw_plan (bt_get (bo_plans (w_stores w)) (bq_plan_id q)) = Some plan
    \<and> bp_targets plan \<noteq> [] \<and> t = hd (bp_targets plan)
    \<and> w_writes w' = w_writes w @ [write_of t] \<and> unchanged_at env i t \<and> \<not> acknowledged env (Suc i) t)"
proof -
  from assms(1) obtain r where run: "apply_bulk_request env params w = (r, w')" and resp: "BulkError err = bulk_respond r"
    by (auto simp: handle_bulk_apply_run)
  from run show ?thesis
  proof (cases rule: apply_stages)
    case (looped q plan rc0 w3 r4 w4)
    from looped(1) obtain w1 w2 where g: "bulk_gates env params w = (Inr q, w1)"
      and c: "bulk_checks env q w1 = (Inr plan, w2)" by (auto simp: loop_reached_def)
    have stored: "map_option pw_plan (bt_get (bo_plans (w_stores w)) (bq_plan_id q)) = Some plan"
      using bulk_gates_Inr(2) [OF g] bulk_checks_Inr [OF c] by metis
    obtain out where out: "r4 = Inr out"
    proof (cases r4)
      case (Inl x)
      then have "pending x" "r = Inl x" using looped(2,5) loop_Inl(2) by auto
      then show ?thesis using assms(2) resp by (auto simp: bulk_respond_def pending_def split: bulk_response.splits)
    qed
    obtain n "is" e where left: "loop_left env (w_tick w3) (bp_targets plan) w3 w4 n is"
      and told: "loop_told env (bp_targets plan) rc0 0 out n is e"
      using loop_reached_loop [OF looped(1,2)] out by blast
    have "finish_bulk env q plan out w4 = (r, w')" using looped(5) out by simp
    then obtain f d where f: "fst out = Some f" "br_applied_count (final_receipt d out) = 0"
      by (cases rule: finish_bulk_outcome)
         (use assms(2) resp in \<open>auto simp: bulk_respond_def pending_def\<close>)
    have none: "filter ((=) TargetApplied) (ending_statuses (length (bp_targets plan)) e) = []"
      using f(2) told by (simp add: loop_told_def)
    consider "e = StoppedUnsent 0" | "e = Refused 0"
      using none f(1) told by (cases e) (auto simp: loop_told_def filter_replicate split: if_splits)
    then show ?thesis
    proof cases
      case 1
      then show ?thesis using told left looped(3,4) by (simp add: loop_told_def loop_left_def)
    next
      case 2
      then have n: "n = 1" and ne: "bp_targets plan \<noteq> []" using told by (auto simp: loop_told_def)
      then obtain t ts where ts: "bp_targets plan = t # ts" by (cases "bp_targets plan") auto
      obtain i where "is = [i]" "unchanged_at env i t"
        using left n ts by (cases "is"; cases "tl is") (auto simp: loop_left_def)
      then show ?thesis
        using told left looped(3,4) n ts 2 stored bulk_gates_Inr(1) [OF g]
        by (auto simp: loop_told_def loop_left_def last_acknowledged_def)
    qed
  qed simp
qed

theorem bulk_error_hides_nothing_witness:
  "\<exists>err w' t i. handle_bulk_apply demo_refusing_env (Inr demo_bulk_request) demo_bulk_world = (BulkError err, w')
    \<and> w_writes w' = [write_of t] \<and> unchanged_at demo_refusing_env i t \<and> \<not> acknowledged demo_refusing_env (Suc i) t"
proof -
  obtain err w' where run: "handle_bulk_apply demo_refusing_env (Inr demo_bulk_request) demo_bulk_world = (BulkError err, w')"
    "rpc_code err = -32059" "w_writes w' = [write_of (demo_bulk_target ''1'')]"
    using demo_refused_run by blast
  have start: "w_writes demo_bulk_world = []" by (simp add: demo_bulk_world_def)
  have sent: "w_writes w' \<noteq> []" by (simp add: run(3))
  have "\<exists>t i. w_writes w' = [write_of t] \<and> unchanged_at demo_refusing_env i t
      \<and> \<not> acknowledged demo_refusing_env (Suc i) t"
    using bulk_error_hides_nothing [OF run(1), unfolded start append_Nil] run(2) sent by auto
  then show ?thesis using run(1) by blast
qed

text \<open>
  C8: in any sequence of bulk applies, interleaved with any other activity that keeps the key's row
  from becoming startable again, at most one apply under a given idempotency key sends a PATCH.
\<close>

theorem bulk_key_applied_once:
  assumes "list_all (\<lambda>(env, _, between). others_keep_spent key env \<and> keeps_spent key between) rs"
  shows "sent_under key (bulk_session rs w) \<le> 1"
  using assms by (rule session_once)

theorem bulk_key_applied_once_witness:
  "let log = bulk_session [(demo_bulk_env, Inr demo_bulk_request, \<lambda>s. s), (demo_bulk_env, Inr demo_bulk_request, \<lambda>s. s)]
       demo_bulk_world
   in hd log = (Some ''key'', True) \<and> sent_under ''key'' log \<le> 1"
proof -
  obtain rc w' where run: "handle_bulk_apply demo_bulk_env (Inr demo_bulk_request) demo_bulk_world = (BulkReceipted rc, w')"
    "w_writes w' = map write_of (bp_targets demo_bulk_plan)"
    using demo_bulk_run by blast
  have "w_writes w' \<noteq> w_writes demo_bulk_world"
    by (simp add: run(2) demo_bulk_world_def demo_bulk_plan_def)
  moreover have key: "bq_idempotency_key demo_bulk_request = ''key''" by (simp add: demo_bulk_request_def)
  moreover have "others_keep_spent ''key'' demo_bulk_env" "keeps_spent ''key'' (\<lambda>s. s)"
    by (simp_all add: others_keep_spent_def keeps_spent_def demo_bulk_env_def)
  ultimately show ?thesis
    using bulk_key_applied_once [of "''key''" "[(demo_bulk_env, Inr demo_bulk_request, \<lambda>s. s),
        (demo_bulk_env, Inr demo_bulk_request, \<lambda>s. s)]" demo_bulk_world]
    by (simp add: Let_def run(1) key)
qed

text \<open>
  C22: an apply that meets no failure completes. When the statements succeed, the client answers every
  read with the planned versions and accepts every PATCH, nobody interferes, and the stores hold the
  unexpired plan, its unstarted key and its unused token, the apply answers with a receipt in which
  every target is applied, it has sent the PATCH of every target once and in order, the receipt is
  stored under the key and the token is consumed.
\<close>

theorem bulk_apply_completes:
  assumes "smooth env" "accepting env" "fresh_audit_ids env w" "bulk_ready env (w_stores w) q plan"
    "\<not> tool_denied (be_policy env) (be_label env) bulk_apply_tool True"
    "\<not> tool_denied (be_policy env) (be_label env) bulk_plan_tool True"
    "\<forall>n. be_clock env n < bp_expires_at plan" "check_bulk_request env q plan = Inr ()"
    "list_all (\<lambda>t. \<forall>n. unchanged_at env n t) (bp_targets plan)"
  shows "\<exists>rc w'. handle_bulk_apply env (Inr q) w = (BulkReceipted rc, w') \<and> \<not> br_replay rc
    \<and> w_writes w' = w_writes w @ map write_of (bp_targets plan)
    \<and> statuses rc = replicate (length (bp_targets plan)) TargetApplied
    \<and> map_option kw_receipt (bt_get (bo_keys (w_stores w')) (bq_idempotency_key q, bulk_apply_tool)) = Some (Some rc)
    \<and> map_option cr_consumed (conf_lookup (bo_confirmations (w_stores w')) (bq_confirmation_token q)) = Some True"
  using assms by (rule bulk_apply_runs)

theorem bulk_apply_completes_witness:
  "\<exists>rc w'. handle_bulk_apply demo_bulk_env (Inr demo_bulk_request) demo_bulk_world = (BulkReceipted rc, w')
    \<and> w_writes w' = [(''1'', [(''work_notes'', ''hi'')]), (''2'', [(''work_notes'', ''hi'')]), (''3'', [(''work_notes'', ''hi'')])]
    \<and> statuses rc = [TargetApplied, TargetApplied, TargetApplied]"
  using bulk_apply_completes [OF demo_bulk_facts]
  by (auto simp: demo_bulk_world_def demo_bulk_plan_def demo_bulk_target_def write_of_def numeral_3_eq_3)

end
