(* ===== verification/Query_Input.thy ===== *)
theory Query_Input
  imports Cmdb_Domain Bulk_Domain
begin

text \<open>
  The inputs of the live record reads and their validation, before any request is sent
  (\<open>snow_core/src/resource/record_query.rs\<close>, the input checks of \<open>resource/incident.rs\<close> and
  \<open>service/record.rs\<close>). The date formats of \<open>chrono\<close> are parameters: \<open>date\<close> accepts what
  \<open>NaiveDate\<close> parses as \<open>%Y-%m-%d\<close> and \<open>stamp\<close> what \<open>NaiveDateTime\<close> parses with the time.
\<close>

subsection \<open>Record queries\<close>

definition record_query_default_limit :: nat where
  "record_query_default_limit = 50"

definition record_query_max_limit :: nat where
  "record_query_max_limit = 200"

definition change_request_query_fields :: "string list" where
  "change_request_query_fields = [''sys_id'', ''number'', ''short_description'', ''state'', ''start_date'',
     ''end_date'', ''assigned_to'', ''assignment_group'', ''cmdb_ci'']"

definition change_request_task_query_fields :: "string list" where
  "change_request_task_query_fields = [''sys_id'', ''number'', ''short_description'', ''state'', ''due_date'',
     ''planned_start_date'', ''planned_end_date'', ''assigned_to'', ''assignment_group'', ''change_task_type'',
     ''cmdb_ci'', ''change_request'']"

definition story_query_fields :: "string list" where
  "story_query_fields = [''sys_id'', ''number'', ''short_description'', ''state'', ''sprint'', ''project'',
     ''cmdb_ci'', ''assigned_to'', ''assignment_group'', ''u_story_owner'', ''u_lead_dev'', ''u_points_est'',
     ''due_date'', ''desired_delivery_date'', ''blocked'', ''blocked_reason'', ''status'', ''sys_updated_on'',
     ''sys_updated_by'']"

definition story_query_description_fields :: "string list" where
  "story_query_description_fields = [''description'', ''acceptance_criteria'']"

record child_filters =
  cf_parent_number :: "string option"
  cf_parent_sys_id :: "string option"

record change_filters =
  ch_assignment_group :: "string option"
  ch_assigned_to :: "string option"
  ch_state :: "string option"
  ch_start_date_after :: "string option"
  ch_start_date_before :: "string option"

record story_filters =
  sf_assignment_group :: "string option"
  sf_assigned_to :: "string option"
  sf_story_owner :: "string option"
  sf_lead_developer :: "string option"
  sf_states :: "string list option"
  sf_sprint :: "string option"
  sf_project :: "string option"
  sf_cmdb_ci :: "string option"
  sf_blocked :: "bool option"
  sf_due_date_after :: "string option"
  sf_due_date_before :: "string option"
  sf_updated_after :: "string option"
  sf_numbers :: "string list option"
  sf_text :: "string option"

text \<open>The limit and the cursor every query input carries.\<close>

record page_input =
  pi_limit :: "nat option"
  pi_cursor :: "string option"

datatype record_query_input =
    ResourcePlanQuery child_filters page_input
  | ProjectTaskQuery child_filters page_input
  | TaskQuery child_filters page_input
  | ChangeRequestQuery change_filters page_input
  | StoryQuery story_filters bool page_input

record change_task_input =
  ct_change_request_number :: string
  ct_page :: page_input

datatype record_query_error =
    QueryInvalid string
  | QueryUnresolvedState string string string bool "incident_choice list"

record page_spec =
  ps_limit :: nat
  ps_cursor :: "string option"

datatype validated_query =
    ValidChildren string child_filters page_spec
  | ValidChange change_filters page_spec
  | ValidStory story_filters bool page_spec

subsection \<open>Checks of single values\<close>

text \<open>\<open>Option::map(..).transpose()\<close> of a check.\<close>

definition checked_option :: "('a \<Rightarrow> ('e, 'b) result) \<Rightarrow> 'a option \<Rightarrow> ('e, 'b option) result" where
  "checked_option f v = (case v of None \<Rightarrow> Inr None | Some x \<Rightarrow> bind_ok (f x) (\<lambda>y. Inr (Some y)))"

definition validate_limit :: "nat option \<Rightarrow> (record_query_error, nat) result" where
  "validate_limit limit = (case limit of
       None \<Rightarrow> Inr record_query_default_limit
     | Some n \<Rightarrow> if n = 0 then Inl (QueryInvalid ''`limit` must be at least 1'')
         else if record_query_max_limit < n then Inl (QueryInvalid ''`limit` must be at most 200'')
         else Inr n)"

definition normalize_optional_sys_id ::
  "string \<Rightarrow> string option \<Rightarrow> (record_query_error, string option) result" where
  "normalize_optional_sys_id name = checked_option (\<lambda>v.
     map_err (\<lambda>e. QueryInvalid (''`'' @ name @ ''` must be a sys_id: '' @ e))
       (normalize_record_lookup_sys_id (trim v)))"

definition normalize_cursor :: "string option \<Rightarrow> (record_query_error, string option) result" where
  "normalize_cursor cursor = normalize_optional_sys_id ''cursor'' cursor"

definition normalize_text :: "string \<Rightarrow> nat \<Rightarrow> string \<Rightarrow> (record_query_error, string) result" where
  "normalize_text name max_chars v = (let t = trim v
     in if t = [] then Inl (QueryInvalid (''`'' @ name @ ''` must not be empty''))
        else if max_chars < char_count t
        then Inl (QueryInvalid (''`'' @ name @ ''` must contain at most '' @ nat_text max_chars @ '' characters''))
        else Inr t)"

definition normalize_optional_text ::
  "string \<Rightarrow> nat \<Rightarrow> string option \<Rightarrow> (record_query_error, string option) result" where
  "normalize_optional_text name max_chars = checked_option (normalize_text name max_chars)"

definition normalize_optional_date ::
  "(string \<Rightarrow> bool) \<Rightarrow> string \<Rightarrow> string option \<Rightarrow> (record_query_error, string option) result" where
  "normalize_optional_date date name = checked_option (\<lambda>v. let t = trim v
     in if length t \<noteq> 10 \<or> \<not> date t then Inl (QueryInvalid (''`'' @ name @ ''` must use YYYY-MM-DD'')) else Inr t)"

definition normalize_optional_timestamp ::
  "(string \<Rightarrow> bool) \<Rightarrow> string option \<Rightarrow> (record_query_error, string option) result" where
  "normalize_optional_timestamp stamp = checked_option (\<lambda>v. let t = trim v
     in if length t \<noteq> 19 \<or> \<not> stamp t
        then Inl (QueryInvalid ''`filters.updated_after` must use YYYY-MM-DD HH:MM:SS'') else Inr t)"

text \<open>Strings are compared byte by byte.\<close>

definition validate_date_range ::
  "string \<Rightarrow> string option \<Rightarrow> string option \<Rightarrow> (record_query_error, unit) result" where
  "validate_date_range name a b = (case (a, b) of
       (Some x, Some y) \<Rightarrow> if y \<le> x
         then Inl (QueryInvalid (''`filters.'' @ name @ ''_after` must be earlier than `filters.'' @ name @ ''_before`''))
         else Inr ()
     | _ \<Rightarrow> Inr ())"

fun each_state :: "string list \<Rightarrow> string list \<Rightarrow> (record_query_error, string list) result" where
  "each_state seen [] = Inr []"
| "each_state seen (s # ss) =
     bind_ok (normalize_text ''filters.states[]'' 80 s) (\<lambda>t.
       if to_lower t \<in> set seen then Inl (QueryInvalid ''`filters.states` contains duplicate values'')
       else bind_ok (each_state (to_lower t # seen) ss) (\<lambda>ts. Inr (t # ts)))"

definition normalize_states :: "string list option \<Rightarrow> (record_query_error, string list option) result" where
  "normalize_states = checked_option (\<lambda>ss.
     if ss = [] \<or> 20 < length ss then Inl (QueryInvalid ''`filters.states` must contain 1 to 20 values'')
     else each_state [] ss)"

definition story_number :: "string \<Rightarrow> bool" where
  "story_number n = (case strip_prefix ''STRY'' n of
     None \<Rightarrow> False | Some ds \<Rightarrow> ds \<noteq> [] \<and> list_all is_digit ds)"

fun each_story_number :: "string list \<Rightarrow> string list \<Rightarrow> (record_query_error, string list) result" where
  "each_story_number seen [] = Inr []"
| "each_story_number seen (s # ss) =
     (let n = to_upper (trim s)
      in if \<not> story_number n then Inl (QueryInvalid ''`filters.numbers[]` must match STRY followed by digits'')
         else if n \<in> set seen then Inl (QueryInvalid ''`filters.numbers` contains duplicate values'')
         else bind_ok (each_story_number (n # seen) ss) (\<lambda>ns. Inr (n # ns)))"

definition normalize_story_numbers ::
  "string list option \<Rightarrow> (record_query_error, string list option) result" where
  "normalize_story_numbers = checked_option (\<lambda>ns.
     if ns = [] \<or> 20 < length ns then Inl (QueryInvalid ''`filters.numbers` must contain 1 to 20 values'')
     else each_story_number [] ns)"

definition validate_page :: "page_input \<Rightarrow> (record_query_error, page_spec) result" where
  "validate_page p = bind_ok (validate_limit (pi_limit p)) (\<lambda>n.
     bind_ok (normalize_cursor (pi_cursor p)) (\<lambda>c. Inr \<lparr>ps_limit = n, ps_cursor = c\<rparr>))"

subsection \<open>Whole inputs\<close>

definition is_alpha :: "char \<Rightarrow> bool" where
  "is_alpha c = (65 \<le> char_code c \<and> char_code c \<le> 90 \<or> 97 \<le> char_code c \<and> char_code c \<le> 122)"

definition task_number :: "string \<Rightarrow> bool" where
  "task_number n = (length n \<le> 80 \<and> n \<noteq> [] \<and> is_alpha (hd n) \<and> is_digit (last n)
     \<and> list_all (\<lambda>c. is_alpha c \<or> is_digit c) n)"

definition parent_number :: "string option \<Rightarrow> (record_query_error, string option) result" where
  "parent_number = checked_option (\<lambda>v. let n = to_upper (trim v)
     in if task_number n then Inr n
        else Inl (QueryInvalid ''filters.parent_number must be a task record number''))"

definition validate_children ::
  "string \<Rightarrow> child_filters \<Rightarrow> page_input \<Rightarrow> (record_query_error, validated_query) result" where
  "validate_children table f p =
     (if (cf_parent_number f \<noteq> None) = (cf_parent_sys_id f \<noteq> None)
      then Inl (QueryInvalid
        ''child queries require exactly one of filters.parent_number or filters.parent_sys_id'')
      else bind_ok (parent_number (cf_parent_number f)) (\<lambda>n.
        bind_ok (normalize_optional_sys_id ''filters.parent_sys_id'' (cf_parent_sys_id f)) (\<lambda>i.
        bind_ok (validate_page p) (\<lambda>s.
          Inr (ValidChildren table \<lparr>cf_parent_number = n, cf_parent_sys_id = i\<rparr> s)))))"

definition validate_change_query ::
  "(string \<Rightarrow> bool) \<Rightarrow> change_filters \<Rightarrow> page_input \<Rightarrow> (record_query_error, validated_query) result" where
  "validate_change_query date f p =
     bind_ok (normalize_optional_sys_id ''filters.assignment_group'' (ch_assignment_group f)) (\<lambda>group_id.
     bind_ok (normalize_optional_sys_id ''filters.assigned_to'' (ch_assigned_to f)) (\<lambda>assignee.
     bind_ok (normalize_optional_text ''filters.state'' 80 (ch_state f)) (\<lambda>st.
     bind_ok (normalize_optional_date date ''filters.start_date_after'' (ch_start_date_after f)) (\<lambda>a.
     bind_ok (normalize_optional_date date ''filters.start_date_before'' (ch_start_date_before f)) (\<lambda>b.
     bind_ok (validate_date_range ''start_date'' a b) (\<lambda>_.
     bind_ok (validate_page p) (\<lambda>s.
       Inr (ValidChange \<lparr>ch_assignment_group = group_id, ch_assigned_to = assignee, ch_state = st,
          ch_start_date_after = a, ch_start_date_before = b\<rparr> s))))))))"

definition story_references :: "story_filters \<Rightarrow> (record_query_error, story_filters) result" where
  "story_references f =
     bind_ok (normalize_optional_sys_id ''filters.assignment_group'' (sf_assignment_group f)) (\<lambda>a.
     bind_ok (normalize_optional_sys_id ''filters.assigned_to'' (sf_assigned_to f)) (\<lambda>b.
     bind_ok (normalize_optional_sys_id ''filters.story_owner'' (sf_story_owner f)) (\<lambda>c.
     bind_ok (normalize_optional_sys_id ''filters.lead_developer'' (sf_lead_developer f)) (\<lambda>d.
     bind_ok (normalize_optional_sys_id ''filters.sprint'' (sf_sprint f)) (\<lambda>e.
     bind_ok (normalize_optional_sys_id ''filters.project'' (sf_project f)) (\<lambda>g.
     bind_ok (normalize_optional_sys_id ''filters.cmdb_ci'' (sf_cmdb_ci f)) (\<lambda>h.
       Inr (f\<lparr>sf_assignment_group := a, sf_assigned_to := b, sf_story_owner := c,
          sf_lead_developer := d, sf_sprint := e, sf_project := g, sf_cmdb_ci := h\<rparr>))))))))"

definition validate_story_query ::
  "(string \<Rightarrow> bool) \<Rightarrow> (string \<Rightarrow> bool) \<Rightarrow> story_filters \<Rightarrow> bool \<Rightarrow> page_input
     \<Rightarrow> (record_query_error, validated_query) result" where
  "validate_story_query date stamp f include_description p =
     bind_ok (story_references f) (\<lambda>f1.
     bind_ok (normalize_states (sf_states f)) (\<lambda>states.
     bind_ok (normalize_optional_date date ''filters.due_date_after'' (sf_due_date_after f)) (\<lambda>a.
     bind_ok (normalize_optional_date date ''filters.due_date_before'' (sf_due_date_before f)) (\<lambda>b.
     bind_ok (validate_date_range ''due_date'' a b) (\<lambda>_.
     bind_ok (normalize_optional_timestamp stamp (sf_updated_after f)) (\<lambda>u.
     bind_ok (normalize_story_numbers (sf_numbers f)) (\<lambda>ns.
     bind_ok (normalize_optional_text ''filters.text'' 200 (sf_text f)) (\<lambda>t.
     bind_ok (validate_page p) (\<lambda>s.
       Inr (ValidStory (f1\<lparr>sf_states := states, sf_due_date_after := a, sf_due_date_before := b,
          sf_updated_after := u, sf_numbers := ns, sf_text := t\<rparr>) include_description s))))))))))"

definition validate_record_query ::
  "(string \<Rightarrow> bool) \<Rightarrow> (string \<Rightarrow> bool) \<Rightarrow> record_query_input \<Rightarrow> (record_query_error, validated_query) result" where
  "validate_record_query date stamp input = (case input of
       ResourcePlanQuery f p \<Rightarrow> validate_children ''resource_plan'' f p
     | ProjectTaskQuery f p \<Rightarrow> validate_children ''pm_project_task'' f p
     | TaskQuery f p \<Rightarrow> validate_children ''task'' f p
     | ChangeRequestQuery f p \<Rightarrow> validate_change_query date f p
     | StoryQuery f d p \<Rightarrow> validate_story_query date stamp f d p)"

definition validate_change_task_list ::
  "change_task_input \<Rightarrow> (record_query_error, string \<times> page_spec) result" where
  "validate_change_task_list input =
     (let n = to_upper (trim (ct_change_request_number input))
      in if \<not> starts_with ''CHG'' n \<or> length n \<le> 3
         then Inl (QueryInvalid ''`change_request_number` must be a non-empty CHG number'')
         else bind_ok (validate_page (ct_page input)) (\<lambda>s. Inr (n, s)))"

definition resolve_record_query_state ::
  "string \<Rightarrow> string \<Rightarrow> incident_choice list \<Rightarrow> (record_query_error, string) result" where
  "resolve_record_query_state selector table choices =
     (case find (\<lambda>c. nc_value c = selector) choices of
        Some c \<Rightarrow> Inr (nc_value c)
      | None \<Rightarrow> (case filter (\<lambda>c. eq_ignore_case (nc_label c) selector) choices of
            [c] \<Rightarrow> Inr (nc_value c)
          | [] \<Rightarrow> Inl (QueryUnresolvedState selector table ''state'' False choices)
          | _ \<Rightarrow> Inl (QueryUnresolvedState selector table ''state'' True choices)))"

subsection \<open>Incident queries\<close>

record incident_filters =
  if_numbers :: "string list option"
  if_assignment_group :: "string option"
  if_assigned_to :: "string option"
  if_caller_id :: "string option"
  if_cmdb_ci :: "string option"
  if_states :: "string list option"
  if_priorities :: "nat list option"
  if_active :: "bool option"
  if_opened_after :: "string option"
  if_opened_before :: "string option"
  if_updated_after :: "string option"
  if_updated_before :: "string option"

record valid_incident_query =
  vi_numbers :: "string list"
  vi_assignment_group :: "string option"
  vi_assigned_to :: "string option"
  vi_caller_id :: "string option"
  vi_cmdb_ci :: "string option"
  vi_states :: "string list"
  vi_priorities :: "string list"
  vi_active :: "bool option"
  vi_opened_after :: "string option"
  vi_opened_before :: "string option"
  vi_updated_after :: "string option"
  vi_updated_before :: "string option"
  vi_limit :: nat
  vi_cursor :: "string option"

definition incident_query_default_limit :: nat where
  "incident_query_default_limit = 50"

definition incident_query_max_limit :: nat where
  "incident_query_max_limit = 200"

definition incident_query_fields :: "string list" where
  "incident_query_fields = [''sys_id'', ''number'', ''short_description'', ''state'', ''active'', ''priority'',
     ''impact'', ''urgency'', ''opened_at'', ''resolved_at'', ''closed_at'', ''caller_id'', ''assigned_to'',
     ''assignment_group'', ''cmdb_ci'', ''business_service'', ''category'', ''subcategory'', ''sys_created_on'',
     ''sys_updated_on'', ''sys_updated_by'']"

text \<open>Exactly one of a number and a \<open>sys_id\<close>.\<close>

definition validate_incident_get_input ::
  "string option \<Rightarrow> string option \<Rightarrow> (incident_read_error, target_selector) result" where
  "validate_incident_get_input number sys_id = (case (number, sys_id) of
       (Some v, None) \<Rightarrow> let n = to_upper (trim v)
         in if length n \<le> 3 \<or> \<not> starts_with ''INC'' n \<or> \<not> list_all is_digit (drop 3 n)
            then Inl (IncidentInvalidParams ''number must match ^INC[0-9]+$'') else Inr (ByNumber n)
     | (None, Some v) \<Rightarrow> map_err IncidentInvalidParams
         (bind_ok (normalize_record_lookup_sys_id v) (\<lambda>i. Inr (BySysId i)))
     | _ \<Rightarrow> Inl (IncidentInvalidParams ''exactly one of number or sys_id is required''))"

fun each_incident_number :: "string list \<Rightarrow> string list \<Rightarrow> (incident_read_error, string list) result" where
  "each_incident_number seen [] = Inr []"
| "each_incident_number seen (v # vs) =
     bind_ok (validate_incident_get_input (Some v) None) (\<lambda>s. case s of
         BySysId i \<Rightarrow> Inl (IncidentInvalidParams ''panic: number selector'')
       | ByNumber n \<Rightarrow>
           if n \<in> set seen then Inl (IncidentInvalidParams ''numbers must be unique after normalization'')
           else bind_ok (each_incident_number (n # seen) vs) (\<lambda>ns. Inr (n # ns)))"

definition normalize_incident_numbers :: "string list \<Rightarrow> (incident_read_error, string list) result" where
  "normalize_incident_numbers vs =
     (if 20 < length vs then Inl (IncidentInvalidParams ''numbers accepts at most 20 values'')
      else each_incident_number [] vs)"

fun each_unique :: "string \<Rightarrow> string list \<Rightarrow> string list \<Rightarrow> (incident_read_error, string list) result" where
  "each_unique field seen [] = Inr []"
| "each_unique field seen (v # vs) =
     (let t = trim v
      in if t = [] \<or> t \<in> set seen
         then Inl (IncidentInvalidParams (field @ '' values must be non-empty and unique''))
         else bind_ok (each_unique field (t # seen) vs) (\<lambda>ts. Inr (t # ts)))"

definition normalize_unique_non_empty ::
  "string \<Rightarrow> nat \<Rightarrow> string list \<Rightarrow> (incident_read_error, string list) result" where
  "normalize_unique_non_empty field limit vs =
     (if limit < length vs
      then Inl (IncidentInvalidParams (field @ '' accepts at most '' @ nat_text limit @ '' values''))
      else each_unique field [] vs)"

fun each_priority :: "nat list \<Rightarrow> nat list \<Rightarrow> (incident_read_error, string list) result" where
  "each_priority seen [] = Inr []"
| "each_priority seen (v # vs) =
     (if \<not> (1 \<le> v \<and> v \<le> 5) \<or> v \<in> set seen
      then Inl (IncidentInvalidParams ''priorities must contain unique integers from 1 through 5'')
      else bind_ok (each_priority (v # seen) vs) (\<lambda>ts. Inr (nat_text v # ts)))"

definition normalize_priorities :: "nat list \<Rightarrow> (incident_read_error, string list) result" where
  "normalize_priorities vs =
     (if 5 < length vs then Inl (IncidentInvalidParams ''priorities accepts at most 5 values'')
      else each_priority [] vs)"

text \<open>A list filter that is present must not be empty; an absent one is the empty list.\<close>

definition listed ::
  "string \<Rightarrow> ('a list \<Rightarrow> (incident_read_error, string list) result) \<Rightarrow> 'a list option
     \<Rightarrow> (incident_read_error, string list) result" where
  "listed name f v = (case v of
       None \<Rightarrow> Inr []
     | Some vs \<Rightarrow> if vs = [] then Inl (IncidentInvalidParams (name @ '' must contain at least one value''))
         else f vs)"

definition incident_sys_id :: "string \<Rightarrow> string option \<Rightarrow> (incident_read_error, string option) result" where
  "incident_sys_id field = checked_option (\<lambda>v.
     map_err (\<lambda>_. IncidentInvalidParams (field @ '' must be a 32-hex sys_id'')) (normalize_record_lookup_sys_id v))"

definition validate_incident_timestamp ::
  "(string \<Rightarrow> bool) \<Rightarrow> string \<Rightarrow> string option \<Rightarrow> (incident_read_error, string option) result" where
  "validate_incident_timestamp stamp field = checked_option (\<lambda>v.
     if stamp v then Inr v else Inl (IncidentInvalidParams (field @ '' must use YYYY-MM-DD HH:MM:SS'')))"

definition validate_time_range ::
  "string \<Rightarrow> string option \<Rightarrow> string option \<Rightarrow> (incident_read_error, unit) result" where
  "validate_time_range field a b = (case (a, b) of
       (Some x, Some y) \<Rightarrow> if y \<le> x
         then Inl (IncidentInvalidParams (field @ ''_after must be earlier than '' @ field @ ''_before'')) else Inr ()
     | _ \<Rightarrow> Inr ())"

definition incident_limit :: "nat option \<Rightarrow> (incident_read_error, nat) result" where
  "incident_limit v = (let n = (case v of None \<Rightarrow> incident_query_default_limit | Some n \<Rightarrow> n)
     in if 1 \<le> n \<and> n \<le> incident_query_max_limit then Inr n
        else Inl (IncidentInvalidParams ''limit must be between 1 and 200''))"

definition validate_incident_query ::
  "(string \<Rightarrow> bool) \<Rightarrow> incident_filters \<Rightarrow> page_input \<Rightarrow> (incident_read_error, valid_incident_query) result" where
  "validate_incident_query stamp f p =
     bind_ok (listed ''numbers'' normalize_incident_numbers (if_numbers f)) (\<lambda>ns.
     bind_ok (listed ''states'' (normalize_unique_non_empty ''states'' 20) (if_states f)) (\<lambda>ss.
     bind_ok (listed ''priorities'' normalize_priorities (if_priorities f)) (\<lambda>ps.
     bind_ok (incident_sys_id ''assignment_group'' (if_assignment_group f)) (\<lambda>group_id.
     bind_ok (incident_sys_id ''assigned_to'' (if_assigned_to f)) (\<lambda>assignee.
     bind_ok (incident_sys_id ''caller_id'' (if_caller_id f)) (\<lambda>caller.
     bind_ok (incident_sys_id ''cmdb_ci'' (if_cmdb_ci f)) (\<lambda>ci.
     bind_ok (validate_incident_timestamp stamp ''opened_after'' (if_opened_after f)) (\<lambda>oa.
     bind_ok (validate_incident_timestamp stamp ''opened_before'' (if_opened_before f)) (\<lambda>ob.
     bind_ok (validate_incident_timestamp stamp ''updated_after'' (if_updated_after f)) (\<lambda>ua.
     bind_ok (validate_incident_timestamp stamp ''updated_before'' (if_updated_before f)) (\<lambda>ub.
     bind_ok (validate_time_range ''opened'' oa ob) (\<lambda>_.
     bind_ok (validate_time_range ''updated'' ua ub) (\<lambda>_.
     bind_ok (incident_limit (pi_limit p)) (\<lambda>n.
     bind_ok (checked_option (\<lambda>v. map_err IncidentInvalidParams (normalize_record_lookup_sys_id v)) (pi_cursor p)) (\<lambda>c.
       Inr \<lparr>vi_numbers = ns, vi_assignment_group = group_id, vi_assigned_to = assignee, vi_caller_id = caller,
         vi_cmdb_ci = ci, vi_states = ss, vi_priorities = ps, vi_active = if_active f, vi_opened_after = oa,
         vi_opened_before = ob, vi_updated_after = ua, vi_updated_before = ub, vi_limit = n,
         vi_cursor = c\<rparr>)))))))))))))))"

fun resolve_incident_states ::
  "incident_choice list \<Rightarrow> string list \<Rightarrow> string list \<Rightarrow> (incident_read_error, string list) result" where
  "resolve_incident_states choices seen [] = Inr []"
| "resolve_incident_states choices seen (s # ss) =
     (let raw = filter (\<lambda>c. nc_value c = s) choices;
          found = (if raw = [] then filter (\<lambda>c. eq_ignore_case (nc_label c) s) choices else raw)
      in case found of
           [c] \<Rightarrow>
             if nc_value c \<in> set seen then Inl (IncidentStateUnresolved s True False choices)
             else bind_ok (resolve_incident_states choices (nc_value c # seen) ss) (\<lambda>vs. Inr (nc_value c # vs))
         | _ \<Rightarrow> Inl (IncidentStateUnresolved s (1 < length found) False choices))"

subsection \<open>Incidents of a group\<close>

definition group_list_default_limit :: nat where
  "group_list_default_limit = 50"

definition group_list_max_limit :: nat where
  "group_list_max_limit = 200"

record group_list_input =
  gi_assignment_group :: string
  gi_state :: "string option"
  gi_page :: page_input

record valid_group_list =
  gv_assignment_group :: string
  gv_state :: "string option"
  gv_page :: page_spec

text \<open>An absent and an empty selector mean the same.\<close>

definition given :: "string option \<Rightarrow> string option" where
  "given v = (case v of None \<Rightarrow> None | Some s \<Rightarrow> if trim s = [] then None else Some (trim s))"

definition group_list_limit :: "nat option \<Rightarrow> (group_list_error, nat) result" where
  "group_list_limit v = (case v of
       None \<Rightarrow> Inr group_list_default_limit
     | Some n \<Rightarrow> if n = 0 then Inl (GroupListInvalid ''`limit` must be at least 1'')
         else if group_list_max_limit < n then Inl (GroupListInvalid ''`limit` must be at most 200'') else Inr n)"

definition validate_group_list :: "group_list_input \<Rightarrow> (group_list_error, valid_group_list) result" where
  "validate_group_list input =
     bind_ok (map_err (\<lambda>e. GroupListInvalid (''`assignment_group_sys_id` is required and must be a sys_id: '' @ e))
       (normalize_record_lookup_sys_id (gi_assignment_group input))) (\<lambda>g.
     bind_ok (checked_option (\<lambda>c.
         map_err (\<lambda>e. GroupListInvalid (''`cursor` must be a sys_id returned as a previous `next_cursor`: '' @ e))
           (normalize_record_lookup_sys_id c)) (given (pi_cursor (gi_page input)))) (\<lambda>c.
     bind_ok (group_list_limit (pi_limit (gi_page input))) (\<lambda>n.
       Inr \<lparr>gv_assignment_group = g, gv_state = given (gi_state input),
            gv_page = \<lparr>ps_limit = n, ps_cursor = c\<rparr>\<rparr>)))"

end
