(* ===== verification/Live_Query.thy ===== *)
theory Live_Query
  imports Query_Input Cmdb_Reads
begin

text \<open>
  The live record reads (\<open>snow_core/src/service/record.rs\<close>): \<open>record_query\<close>, \<open>query_children\<close>,
  \<open>change_request_list_tasks\<close>, \<open>incident_list_by_assignment_group\<close>, \<open>incident_get\<close> and
  \<open>incident_query\<close>, with the state choices they resolve.

  A query is the value the request builder of the ServiceNow client hands to \<open>execute\<close>: table,
  fields, clauses in the order they are added, order and limit (the display flags are the same for all
  reads and left out). The client is the function \<open>le_execute\<close>. A record of an answer is the row it
  is made from: the conversion to \<open>SnowRecord\<close> keeps one record per row, in order.
\<close>

datatype clause =
    Equals string string
  | OrEquals string string
  | GreaterThan string string
  | LessThan string string
  | InList string "string list"
  | Contains string string
  | IsEmpty string

record live_query =
  lq_table :: string
  lq_fields :: "string list"
  lq_clauses :: "clause list"
  lq_order :: string
  lq_limit :: nat

record live_reply =
  rp_rows :: "snow_row list"
  rp_errors :: "string list"

datatype client_error =
    ClientApi nat string
  | ClientAuth "nat option"
  | ClientHttp string
  | ClientOther string

record live_env =
  le_execute :: "live_query \<Rightarrow> (client_error, live_reply) result"
  le_get :: "string \<Rightarrow> (client_error, snow_row) result"
  le_ui_choices :: "(string \<Rightarrow> string \<Rightarrow> (string, incident_choice list) result) option"
  le_tables :: cmdb
  le_date :: "string \<Rightarrow> bool"
  le_stamp :: "string \<Rightarrow> bool"

datatype live_error =
    RecordQueryFailed record_query_error
  | GroupListFailed group_list_error
  | ClientFailed client_error
  | TablesFailed api_error
  | Refused string

record page =
  pa_rows :: "snow_row list"
  pa_next :: "string option"
  pa_complete :: bool
  pa_limit :: nat
  pa_inspected :: nat

subsection \<open>State choices\<close>

fun active_choices :: "string list \<Rightarrow> snow_row list \<Rightarrow> incident_choice list" where
  "active_choices seen [] = []"
| "active_choices seen (r # rs) =
     (let value = (case rw_str r ''value'' of Some v \<Rightarrow> v | None \<Rightarrow> [])
      in if (case rw_str r ''inactive'' of Some v \<Rightarrow> eq_ignore_case v ''true'' | None \<Rightarrow> False)
            \<or> value = [] \<or> value \<in> set seen
         then active_choices seen rs
         else \<lparr>nc_label = (case rw_str r ''label'' of Some l \<Rightarrow> l | None \<Rightarrow> value), nc_value = value\<rparr>
                # active_choices (value # seen) rs)"

definition choice_query :: "string \<Rightarrow> string \<Rightarrow> live_query" where
  "choice_query table field = \<lparr>lq_table = ''sys_choice'',
     lq_fields = [''value'', ''label'', ''sequence'', ''inactive'', ''terminal''],
     lq_clauses = [Equals ''name'' table, Equals ''element'' field], lq_order = ''sequence'', lq_limit = 200\<rparr>"

definition choices_for_table :: "live_env \<Rightarrow> string \<Rightarrow> string \<Rightarrow> (live_error, incident_choice list) result" where
  "choices_for_table env table field =
     bind_ok (map_err ClientFailed (le_execute env (choice_query table field))) (\<lambda>r.
       Inr (active_choices [] (rp_rows r)))"

fun first_choices :: "live_env \<Rightarrow> string \<Rightarrow> string list \<Rightarrow> (live_error, incident_choice list) result" where
  "first_choices env field [] = Inr []"
| "first_choices env field (t # ts) =
     bind_ok (choices_for_table env t field) (\<lambda>cs. if cs \<noteq> [] then Inr cs else first_choices env field ts)"

definition ui_choices :: "live_env \<Rightarrow> string \<Rightarrow> string \<Rightarrow> incident_choice list" where
  "ui_choices env table field = (case le_ui_choices env of
     None \<Rightarrow> [] | Some f \<Rightarrow> (case f table field of Inl _ \<Rightarrow> [] | Inr cs \<Rightarrow> cs))"

definition field_choices :: "live_env \<Rightarrow> string \<Rightarrow> string \<Rightarrow> (live_error, incident_choice list) result" where
  "field_choices env table field =
     bind_ok (choices_for_table env table field) (\<lambda>own.
     let cs = (if own = [] then ui_choices env table field else own)
     in bind_ok (if cs = [] then bind_ok (map_err TablesFailed (table_ancestors (le_tables env) 0 table))
                    (first_choices env field) else Inr cs) (\<lambda>cs.
        if cs = [] \<and> field = ''state'' \<and> table \<noteq> ''task'' then choices_for_table env ''task'' field else Inr cs))"

subsection \<open>Building a query\<close>

text \<open>A clause that is added when its filter is present.\<close>

definition optionally :: "('a \<Rightarrow> clause) \<Rightarrow> 'a option \<Rightarrow> clause list" where
  "optionally f v = (case v of None \<Rightarrow> [] | Some x \<Rightarrow> [f x])"

definition one_or_list :: "string \<Rightarrow> string list \<Rightarrow> clause" where
  "one_or_list field vs = (case vs of [v] \<Rightarrow> Equals field v | _ \<Rightarrow> InList field vs)"

definition truth :: "bool \<Rightarrow> string" where
  "truth b = (if b then ''true'' else ''false'')"

definition after_cursor :: "string option \<Rightarrow> clause list" where
  "after_cursor c = optionally (GreaterThan ''sys_id'') c"

definition by_sys_id :: "string \<Rightarrow> string list \<Rightarrow> clause list \<Rightarrow> page_spec \<Rightarrow> live_query" where
  "by_sys_id table fs cs p = \<lparr>lq_table = table, lq_fields = fs,
     lq_clauses = cs @ after_cursor (ps_cursor p), lq_order = ''sys_id'', lq_limit = ps_limit p\<rparr>"

text \<open>The page made of the rows of an answer; the cursor is the last row's \<open>sys_id\<close>.\<close>

definition page_of :: "nat \<Rightarrow> snow_row list \<Rightarrow> page" where
  "page_of limit rows = \<lparr>pa_rows = rows,
     pa_next = (if length rows < limit then None
       else (case rows of [] \<Rightarrow> None | _ \<Rightarrow> Some (rw_sys_id (last rows)))),
     pa_complete = (length rows < limit), pa_limit = limit, pa_inspected = length rows\<rparr>"

definition read_page ::
  "live_env \<Rightarrow> string \<Rightarrow> string list \<Rightarrow> clause list \<Rightarrow> page_spec \<Rightarrow> (live_error, page) result" where
  "read_page env table fs cs p =
     bind_ok (map_err ClientFailed (le_execute env (by_sys_id table fs cs p))) (\<lambda>r.
       Inr (page_of (ps_limit p) (rp_rows r)))"

subsection \<open>Record queries\<close>

definition resolved_state :: "live_env \<Rightarrow> string \<Rightarrow> string option \<Rightarrow> (live_error, string option) result" where
  "resolved_state env table selector = (case selector of
       None \<Rightarrow> Inr None
     | Some s \<Rightarrow> bind_ok (field_choices env table ''state'') (\<lambda>cs.
         bind_ok (map_err RecordQueryFailed (resolve_record_query_state s table cs)) (\<lambda>v. Inr (Some v))))"

definition change_clauses :: "change_filters \<Rightarrow> string option \<Rightarrow> clause list" where
  "change_clauses f st =
     optionally (Equals ''assignment_group'') (ch_assignment_group f)
     @ optionally (Equals ''assigned_to'') (ch_assigned_to f)
     @ optionally (Equals ''state'') st
     @ optionally (GreaterThan ''start_date'') (ch_start_date_after f)
     @ optionally (LessThan ''start_date'') (ch_start_date_before f)"

definition query_change ::
  "live_env \<Rightarrow> change_filters \<Rightarrow> page_spec \<Rightarrow> (live_error, page) result" where
  "query_change env f p =
     bind_ok (resolved_state env ''change_request'' (ch_state f)) (\<lambda>st.
       read_page env ''change_request'' change_request_query_fields (change_clauses f st) p)"

fun each_resolved ::
  "incident_choice list \<Rightarrow> string list \<Rightarrow> string list \<Rightarrow> (record_query_error, string list) result" where
  "each_resolved choices seen [] = Inr []"
| "each_resolved choices seen (s # ss) =
     bind_ok (resolve_record_query_state s ''rm_story'' choices) (\<lambda>v.
       if v \<in> set seen then Inl (QueryUnresolvedState s ''rm_story'' ''state'' True choices)
       else bind_ok (each_resolved choices (v # seen) ss) (\<lambda>vs. Inr (v # vs)))"

definition resolved_states ::
  "live_env \<Rightarrow> string list option \<Rightarrow> (live_error, string list option) result" where
  "resolved_states env selectors = (case selectors of
       None \<Rightarrow> Inr None
     | Some ss \<Rightarrow> bind_ok (field_choices env ''rm_story'' ''state'') (\<lambda>cs.
         bind_ok (map_err RecordQueryFailed (each_resolved cs [] ss)) (\<lambda>vs. Inr (Some vs))))"

definition story_clauses :: "story_filters \<Rightarrow> string list option \<Rightarrow> clause list" where
  "story_clauses f states =
     optionally (Equals ''assignment_group'') (sf_assignment_group f)
     @ optionally (Equals ''assigned_to'') (sf_assigned_to f)
     @ optionally (Equals ''u_story_owner'') (sf_story_owner f)
     @ optionally (Equals ''u_lead_dev'') (sf_lead_developer f)
     @ optionally (one_or_list ''state'') states
     @ optionally (Equals ''sprint'') (sf_sprint f)
     @ optionally (Equals ''project'') (sf_project f)
     @ optionally (Equals ''cmdb_ci'') (sf_cmdb_ci f)
     @ optionally (\<lambda>b. Equals ''blocked'' (truth b)) (sf_blocked f)
     @ optionally (GreaterThan ''due_date'') (sf_due_date_after f)
     @ optionally (LessThan ''due_date'') (sf_due_date_before f)
     @ optionally (GreaterThan ''sys_updated_on'') (sf_updated_after f)
     @ optionally (one_or_list ''number'') (sf_numbers f)
     @ optionally (Contains ''short_description'') (sf_text f)"

definition query_story ::
  "live_env \<Rightarrow> story_filters \<Rightarrow> bool \<Rightarrow> page_spec \<Rightarrow> (live_error, page) result" where
  "query_story env f include_description p =
     bind_ok (resolved_states env (sf_states f)) (\<lambda>states.
       read_page env ''rm_story''
         (story_query_fields @ (if include_description then story_query_description_fields else []))
         (story_clauses f states) p)"

subsection \<open>Children\<close>

definition resource_plan_list_fields :: "string list" where
  "resource_plan_list_fields = [''sys_id'', ''number'', ''short_description'', ''state'', ''task'',
     ''resource_type'', ''user_resource'', ''group_resource'', ''start_date'', ''end_date'', ''planned_hours'',
     ''allocated_hours'', ''confirmed_hours'', ''notes'', ''u_description'', ''sys_updated_on'']"

definition child_fields :: "string \<Rightarrow> string list" where
  "child_fields table = (if table = ''resource_plan'' then resource_plan_list_fields
     else [''sys_id'', ''number'', ''short_description'', ''sys_class_name'', ''state'', ''parent'', ''top_task'',
       ''assigned_to'', ''assignment_group'', ''start_date'', ''end_date'', ''due_date'', ''sys_updated_on''])"

definition child_link :: "string \<Rightarrow> string" where
  "child_link table = (if table = ''resource_plan'' then ''task'' else ''parent'')"

definition parent_query :: "string \<Rightarrow> live_query" where
  "parent_query n = \<lparr>lq_table = ''task'', lq_fields = [''sys_id'', ''number''],
     lq_clauses = [Equals ''number'' n], lq_order = [], lq_limit = 2\<rparr>"

definition parent_of_number :: "live_env \<Rightarrow> string \<Rightarrow> (live_error, string) result" where
  "parent_of_number env n =
     bind_ok (map_err ClientFailed (le_execute env (parent_query n))) (\<lambda>r.
       case (rp_errors r, rp_rows r) of
         ([], [row]) \<Rightarrow> if rw_raw row ''number'' = Some n
           then map_err Refused (normalize_record_lookup_sys_id (rw_sys_id row))
           else Inl (Refused ''parent number is missing, inaccessible, ambiguous, or did not match; child enumeration was not performed'')
       | _ \<Rightarrow> Inl (Refused ''parent number is missing, inaccessible, ambiguous, or did not match; child enumeration was not performed''))"

text \<open>The parent selector; validation leaves exactly one.\<close>

definition child_parent :: "live_env \<Rightarrow> child_filters \<Rightarrow> (live_error, string) result" where
  "child_parent env f = (case cf_parent_number f of
       Some n \<Rightarrow> parent_of_number env n
     | None \<Rightarrow> (case cf_parent_sys_id f of
           Some i \<Rightarrow> Inr i
         | None \<Rightarrow> Inl (Refused ''panic: validated parent selector'')))"

definition child_clauses :: "string \<Rightarrow> string \<Rightarrow> clause list" where
  "child_clauses table parent = Equals (child_link table) parent
     # (if table = ''pm_project_task'' then [OrEquals ''top_task'' parent] else [])"

definition child_of :: "string \<Rightarrow> string \<Rightarrow> snow_row \<Rightarrow> bool" where
  "child_of table parent row = (rw_raw row (child_link table) = Some parent
     \<or> table = ''pm_project_task'' \<and> rw_raw row ''top_task'' = Some parent)"

text \<open>The rows must advance from the cursor and belong to the parent; the last \<open>sys_id\<close> is returned.\<close>

fun check_children :: "string \<Rightarrow> string \<Rightarrow> string \<Rightarrow> snow_row list \<Rightarrow> (live_error, string) result" where
  "check_children table parent previous [] = Inr previous"
| "check_children table parent previous (r # rs) =
     bind_ok (map_err Refused (normalize_record_lookup_sys_id (rw_sys_id r))) (\<lambda>i.
       if i \<le> previous \<or> \<not> child_of table parent r
       then Inl (Refused ''child query returned a non-progressing or unrelated record'')
       else check_children table parent i rs)"

definition query_children ::
  "live_env \<Rightarrow> string \<Rightarrow> child_filters \<Rightarrow> page_spec \<Rightarrow> (live_error, page) result" where
  "query_children env table f p =
     bind_ok (child_parent env f) (\<lambda>parent.
     bind_ok (map_err ClientFailed
        (le_execute env (by_sys_id table (child_fields table) (child_clauses table parent) p))) (\<lambda>r.
     let rows = rp_rows r
     in if rp_errors r \<noteq> [] \<or> ps_limit p < length rows
        then Inl (Refused ''child query returned an incomplete or oversized provider page'')
        else bind_ok (check_children table parent (case ps_cursor p of None \<Rightarrow> [] | Some c \<Rightarrow> c) rows) (\<lambda>l.
          Inr \<lparr>pa_rows = rows, pa_next = (if length rows < ps_limit p then None else Some l),
               pa_complete = (length rows < ps_limit p), pa_limit = ps_limit p,
               pa_inspected = length rows\<rparr>)))"

definition run_query :: "live_env \<Rightarrow> validated_query \<Rightarrow> (live_error, page) result" where
  "run_query env v = (case v of
       ValidChildren table f p \<Rightarrow> query_children env table f p
     | ValidChange f p \<Rightarrow> query_change env f p
     | ValidStory f d p \<Rightarrow> query_story env f d p)"

definition record_query :: "live_env \<Rightarrow> record_query_input \<Rightarrow> (live_error, page) result" where
  "record_query env input =
     bind_ok (map_err RecordQueryFailed (validate_record_query (le_date env) (le_stamp env) input)) (run_query env)"

definition change_request_list_tasks :: "live_env \<Rightarrow> change_task_input \<Rightarrow> (live_error, page) result" where
  "change_request_list_tasks env input =
     bind_ok (map_err RecordQueryFailed (validate_change_task_list input)) (\<lambda>(n, p).
       read_page env ''change_task'' change_request_task_query_fields
         [Equals ''change_request.number'' n] p)"

subsection \<open>Incidents\<close>

definition incident_group_list_fields :: "string list" where
  "incident_group_list_fields = [''sys_id'', ''number'', ''short_description'', ''state'', ''priority'',
     ''opened_at'', ''assigned_to'', ''assignment_group'', ''active'', ''sys_updated_on'']"

definition is_terminal_state :: "string option \<Rightarrow> bool" where
  "is_terminal_state label = (case label of
       None \<Rightarrow> False
     | Some l \<Rightarrow> list_ex (\<lambda>needle. str_contains needle (to_lower l))
         [''closed'', ''resolved'', ''cancel'', ''complete'', ''completed'', ''rejected''])"

definition reads_false :: "string option \<Rightarrow> bool" where
  "reads_false v = (case v of None \<Rightarrow> False
     | Some s \<Rightarrow> to_lower (trim s) \<in> set [''false'', ''0'', ''no''])"

definition row_field_is_false :: "snow_row \<Rightarrow> string \<Rightarrow> bool" where
  "row_field_is_false row field = (reads_false (rw_raw row field) \<or> reads_false (rw_display row field))"

definition is_open_user_work :: "snow_row \<Rightarrow> bool" where
  "is_open_user_work row =
     (\<not> is_terminal_state (or_try (rw_display row ''state'') (rw_str row ''state''))
      \<and> \<not> row_field_is_false row ''active'')"

definition group_clauses :: "string \<Rightarrow> incident_choice option \<Rightarrow> clause list" where
  "group_clauses group_id st = [Equals ''assignment_group'' group_id, Equals ''active'' ''true'']
     @ optionally (\<lambda>c. Equals ''state'' (nc_value c)) st"

definition resolved_incident_state ::
  "live_env \<Rightarrow> string option \<Rightarrow> (live_error, incident_choice option) result" where
  "resolved_incident_state env selector = (case selector of
       None \<Rightarrow> Inr None
     | Some s \<Rightarrow> bind_ok (field_choices env ''incident'' ''state'') (\<lambda>cs.
         bind_ok (map_err GroupListFailed (resolve_incident_state s cs)) (\<lambda>c. Inr (Some c))))"

definition open_rows :: "page \<Rightarrow> page" where
  "open_rows p = p\<lparr>pa_rows := filter is_open_user_work (pa_rows p)\<rparr>"

definition incident_list_by_group ::
  "live_env \<Rightarrow> group_list_input \<Rightarrow> (live_error, page \<times> incident_choice option) result" where
  "incident_list_by_group env input =
     bind_ok (map_err GroupListFailed (validate_group_list input)) (\<lambda>v.
     bind_ok (resolved_incident_state env (gv_state v)) (\<lambda>st.
     bind_ok (read_page env ''incident'' incident_group_list_fields
         (group_clauses (gv_assignment_group v) st) (gv_page v)) (\<lambda>p.
       Inr (open_rows p, st))))"

definition classify_incident_api_error :: "client_error \<Rightarrow> incident_read_error" where
  "classify_incident_api_error e = (case e of
       ClientApi status message \<Rightarrow> if status = 401 \<or> status = 403 then IncidentAclDenied else IncidentServiceNowError
     | ClientAuth status \<Rightarrow>
         if status = Some 401 \<or> status = Some 403 then IncidentAclDenied else IncidentServiceNowError
     | ClientHttp message \<Rightarrow> IncidentUnavailable
     | ClientOther message \<Rightarrow> IncidentServiceNowError)"

definition incident_by_number_query :: "string \<Rightarrow> live_query" where
  "incident_by_number_query n = \<lparr>lq_table = ''incident'', lq_fields = [],
     lq_clauses = [Equals ''number'' n], lq_order = [], lq_limit = 2\<rparr>"

definition incident_by_sys_id :: "live_env \<Rightarrow> string \<Rightarrow> (incident_read_error, snow_row) result" where
  "incident_by_sys_id env i = (case le_get env i of
       Inr row \<Rightarrow> Inr row
     | Inl (ClientApi status message) \<Rightarrow> if status = 404 then Inl IncidentNotFound
         else Inl (classify_incident_api_error (ClientApi status message))
     | Inl e \<Rightarrow> Inl (classify_incident_api_error e))"

definition incident_by_number :: "live_env \<Rightarrow> string \<Rightarrow> (incident_read_error, snow_row) result" where
  "incident_by_number env n =
     bind_ok (map_err classify_incident_api_error (le_execute env (incident_by_number_query n))) (\<lambda>r.
       case rp_rows r of
         [] \<Rightarrow> Inl IncidentLookupUnavailable
       | [row] \<Rightarrow> Inr row
       | _ \<Rightarrow> Inl IncidentNumberAmbiguous)"

definition incident_get ::
  "live_env \<Rightarrow> string option \<Rightarrow> string option \<Rightarrow> (incident_read_error, snow_row) result" where
  "incident_get env number sys_id =
     bind_ok (validate_incident_get_input number sys_id) (\<lambda>s. case s of
       BySysId i \<Rightarrow> incident_by_sys_id env i
     | ByNumber n \<Rightarrow> incident_by_number env n)"

definition query_incident_states ::
  "live_env \<Rightarrow> string list \<Rightarrow> (incident_read_error, string list) result" where
  "query_incident_states env states = (case states of
       [] \<Rightarrow> Inr []
     | s # ss \<Rightarrow> (case field_choices env ''incident'' ''state'' of
           Inl _ \<Rightarrow> Inl (IncidentStateUnresolved s False True [])
         | Inr cs \<Rightarrow> if cs = [] then Inl (IncidentStateUnresolved s False True [])
             else resolve_incident_states cs [] states))"

definition in_list_clause :: "string \<Rightarrow> string list \<Rightarrow> clause list" where
  "in_list_clause field vs = (if vs = [] then [] else [InList field vs])"

definition incident_clauses :: "valid_incident_query \<Rightarrow> string list \<Rightarrow> clause list" where
  "incident_clauses v states =
     in_list_clause ''number'' (vi_numbers v)
     @ optionally (Equals ''assignment_group'') (vi_assignment_group v)
     @ optionally (Equals ''assigned_to'') (vi_assigned_to v)
     @ optionally (Equals ''caller_id'') (vi_caller_id v)
     @ optionally (Equals ''cmdb_ci'') (vi_cmdb_ci v)
     @ in_list_clause ''state'' states
     @ in_list_clause ''priority'' (vi_priorities v)
     @ optionally (\<lambda>b. Equals ''active'' (truth b)) (vi_active v)
     @ optionally (GreaterThan ''opened_at'') (vi_opened_after v)
     @ optionally (GreaterThan ''sys_updated_on'') (vi_updated_after v)
     @ optionally (LessThan ''opened_at'') (vi_opened_before v)
     @ optionally (LessThan ''sys_updated_on'') (vi_updated_before v)"

definition incident_query ::
  "live_env \<Rightarrow> incident_filters \<Rightarrow> page_input \<Rightarrow> (incident_read_error, page) result" where
  "incident_query env f p =
     bind_ok (validate_incident_query (le_stamp env) f p) (\<lambda>v.
     bind_ok (query_incident_states env (vi_states v)) (\<lambda>states.
     bind_ok (map_err classify_incident_api_error (le_execute env (by_sys_id ''incident'' incident_query_fields
         (incident_clauses v states) \<lparr>ps_limit = vi_limit v, ps_cursor = vi_cursor v\<rparr>))) (\<lambda>r.
       Inr (page_of (vi_limit v) (rp_rows r)))))"

end
