(* ===== verification/Live_Paging.thy ===== *)
theory Live_Paging
  imports Live_Query
begin

text \<open>
  Reading a result set page by page. A caller that follows the cursors of the pages gets every
  matching row once, in the order of \<open>sys_id\<close>; the locale \<open>keyset_read\<close> proves it for any read that
  answers like a keyset query, and is interpreted on the reads of \<open>Live_Query\<close> over a snapshot of
  a table.
\<close>

subsection \<open>Following the cursors\<close>

text \<open>At most \<open>n\<close> requests; the flag says that the last page was complete.\<close>

fun follow ::
  "(string option \<Rightarrow> ('e, page) result) \<Rightarrow> nat \<Rightarrow> string option \<Rightarrow> ('e, snow_row list \<times> bool) result" where
  "follow read 0 c = Inr ([], False)"
| "follow read (Suc n) c = bind_ok (read c) (\<lambda>p.
     case pa_next p of
       None \<Rightarrow> Inr (pa_rows p, pa_complete p)
     | Some i \<Rightarrow> bind_ok (follow read n (Some i)) (\<lambda>(rows, finished). Inr (pa_rows p @ rows, finished)))"

definition rows_after :: "string option \<Rightarrow> snow_row list \<Rightarrow> snow_row list" where
  "rows_after c rows = (case c of None \<Rightarrow> rows | Some i \<Rightarrow> filter (\<lambda>r. i < rw_sys_id r) rows)"

definition keyset_page :: "(snow_row \<Rightarrow> bool) \<Rightarrow> nat \<Rightarrow> snow_row list \<Rightarrow> page" where
  "keyset_page keep limit rest =
     (page_of limit (take limit rest))\<lparr>pa_rows := filter keep (take limit rest)\<rparr>"

lemma keyset_page_simps:
  "pa_rows (keyset_page keep limit rest) = filter keep (take limit rest)"
  "pa_complete (keyset_page keep limit rest) = (length rest < limit)"
  "pa_inspected (keyset_page keep limit rest) = min (length rest) limit"
  "pa_limit (keyset_page keep limit rest) = limit"
  "0 < limit \<Longrightarrow> pa_next (keyset_page keep limit rest) =
     (if length rest < limit then None else Some (rw_sys_id (last (take limit rest))))"
  by (auto simp: keyset_page_def page_of_def split: list.splits)

locale keyset_read =
  fixes read :: "string option \<Rightarrow> ('e, page) result"
    and rows :: "snow_row list"
    and limit :: nat
    and keep :: "snow_row \<Rightarrow> bool"
  assumes positive: "0 < limit"
    and ascending: "sorted_wrt (<) (map rw_sys_id rows)"
    and reads: "c = None \<or> (\<exists>r\<in>set rows. c = Some (rw_sys_id r))
      \<Longrightarrow> read c = Inr (keyset_page keep limit (rows_after c rows))"
begin

definition cursor_after :: "snow_row list \<Rightarrow> string option" where
  "cursor_after seen = (if seen = [] then None else Some (rw_sys_id (last seen)))"

lemma rows_after_cursor:
  assumes "rows = seen @ rest"
  shows "rows_after (cursor_after seen) rows = rest"
proof (cases "seen = []")
  case False
  then obtain front r where seen: "seen = front @ [r]" by (metis rev_exhaust)
  have "filter (\<lambda>x. rw_sys_id r < rw_sys_id x) rest = rest" "filter (\<lambda>x. rw_sys_id r < rw_sys_id x) seen = []"
    using ascending by (fastforce simp: assms seen sorted_wrt_append filter_id_conv filter_empty_conv)+
  then show ?thesis by (simp add: rows_after_def cursor_after_def assms seen)
qed (simp add: rows_after_def cursor_after_def assms)

lemma read_after:
  assumes "rows = seen @ rest"
  shows "read (cursor_after seen) = Inr (keyset_page keep limit rest)"
proof -
  have "cursor_after seen = None \<or> (\<exists>r\<in>set rows. cursor_after seen = Some (rw_sys_id r))"
    using assms by (auto simp: cursor_after_def)
  then show ?thesis using reads rows_after_cursor [OF assms] by metis
qed

lemma follow_from:
  assumes "rows = seen @ rest" "length rest div limit < n"
  shows "follow read n (cursor_after seen) = Inr (filter keep rest, True)"
  using assms
proof (induction n arbitrary: seen rest)
  case (Suc n)
  note here = read_after [OF Suc.prems(1)]
  show ?case
  proof (cases "length rest < limit")
    case True
    then show ?thesis using positive by (simp add: here keyset_page_simps)
  next
    case False
    have split: "rows = (seen @ take limit rest) @ drop limit rest" using Suc.prems(1) by simp
    have some: "take limit rest \<noteq> []" using False positive by auto
    have cursor: "cursor_after (seen @ take limit rest) = Some (rw_sys_id (last (take limit rest)))"
      using some by (simp add: cursor_after_def)
    have "length (drop limit rest) div limit < n"
      using Suc.prems(2) False positive by (simp add: div_if)
    then have "follow read n (Some (rw_sys_id (last (take limit rest)))) = Inr (filter keep (drop limit rest), True)"
      using Suc.IH [OF split] cursor by simp
    moreover have "filter keep (take limit rest) @ filter keep (drop limit rest) = filter keep rest"
      by (simp flip: filter_append)
    ultimately show ?thesis using False positive by (simp add: here keyset_page_simps)
  qed
qed simp

lemma enumerates: "follow read (Suc (length rows div limit)) None = Inr (filter keep rows, True)"
  using follow_from [of "[]" rows "Suc (length rows div limit)"] by (simp add: cursor_after_def del: follow.simps)

lemma first_page: "read None = Inr (keyset_page keep limit rows)"
  using reads [of None] by (simp add: rows_after_def)

end

subsection \<open>A snapshot of a table\<close>

text \<open>
  Rows with the \<open>sys_id\<close>s ServiceNow gives out (32 hexadecimal digits in lower case), one per
  \<open>sys_id\<close>, in the order of \<open>sys_id\<close>.
\<close>

definition table_rows :: "snow_row list \<Rightarrow> snow_row list" where
  "table_rows t = map snd (bt_of_list (map (\<lambda>r. (rw_sys_id r, r))
     (filter (\<lambda>r. normalize_record_lookup_sys_id (rw_sys_id r) = Inr (rw_sys_id r)) t)))"

text \<open>
  What a clause asks of a row: equality of the raw value, \<open>sys_id\<close> beyond a cursor; the comparisons of
  the other clauses are the parameter \<open>h\<close>. An \<open>OR\<close> clause widens the one before it.
\<close>

definition clause_test :: "(snow_row \<Rightarrow> clause \<Rightarrow> bool) \<Rightarrow> snow_row \<Rightarrow> clause \<Rightarrow> bool" where
  "clause_test h r c = (case c of
       Equals f v \<Rightarrow> rw_raw r f = Some v
     | OrEquals f v \<Rightarrow> rw_raw r f = Some v
     | GreaterThan f v \<Rightarrow> if f = ''sys_id'' then v < rw_sys_id r else h r c
     | _ \<Rightarrow> h r c)"

fun satisfies :: "(snow_row \<Rightarrow> clause \<Rightarrow> bool) \<Rightarrow> snow_row \<Rightarrow> clause list \<Rightarrow> bool" where
  "satisfies h r [] = True"
| "satisfies h r (c # OrEquals f v # cs) =
     ((clause_test h r c \<or> clause_test h r (OrEquals f v)) \<and> satisfies h r cs)"
| "satisfies h r (c # cs) = (clause_test h r c \<and> satisfies h r cs)"

definition snapshot_reply ::
  "(snow_row \<Rightarrow> clause \<Rightarrow> bool) \<Rightarrow> snow_row list \<Rightarrow> live_query \<Rightarrow> live_reply" where
  "snapshot_reply h t q = \<lparr>rp_rows = take (lq_limit q) (filter (\<lambda>r. satisfies h r (lq_clauses q)) (table_rows t)),
     rp_errors = []\<rparr>"

text \<open>The client answers queries of one table from the snapshot.\<close>

definition with_snapshot ::
  "(snow_row \<Rightarrow> clause \<Rightarrow> bool) \<Rightarrow> string \<Rightarrow> snow_row list \<Rightarrow> live_env \<Rightarrow> live_env" where
  "with_snapshot h table t env = env\<lparr>le_execute := (\<lambda>q.
     if lq_table q = table then Inr (snapshot_reply h t q) else le_execute env q)\<rparr>"

definition matching ::
  "(snow_row \<Rightarrow> clause \<Rightarrow> bool) \<Rightarrow> snow_row list \<Rightarrow> clause list \<Rightarrow> snow_row list" where
  "matching h t cs = filter (\<lambda>r. satisfies h r cs) (table_rows t)"

lemma keys_of_rows:
  "\<forall>(k, r) \<in> set (bt_of_list (map (\<lambda>r. (rw_sys_id r, r)) t)). k = rw_sys_id r"
proof -
  have "\<forall>(k, r) \<in> set (foldl (\<lambda>m (k, v). bt_insert k v m) m (map (\<lambda>r. (rw_sys_id r, r)) t)). k = rw_sys_id r"
    if "\<forall>(k, r) \<in> set m. k = rw_sys_id r" for m
    using that
  proof (induction t arbitrary: m)
    case (Cons r t)
    have "\<forall>(k, r) \<in> set (bt_insert (rw_sys_id r) r m). k = rw_sys_id r"
      using Cons.prems set_bt_insert [of "rw_sys_id r" r m] by fastforce
    then show ?case using Cons.IH by simp
  qed simp
  from this [of "[]"] show ?thesis by (simp add: bt_of_list_def)
qed

lemma ids_table_rows: "map rw_sys_id (table_rows t) = map fst (bt_of_list (map (\<lambda>r. (rw_sys_id r, r))
     (filter (\<lambda>r. normalize_record_lookup_sys_id (rw_sys_id r) = Inr (rw_sys_id r)) t)))"
  using keys_of_rows [of "filter (\<lambda>r. normalize_record_lookup_sys_id (rw_sys_id r) = Inr (rw_sys_id r)) t"]
  by (auto simp: table_rows_def split_def)

lemma table_rows_ascending: "sorted_wrt (<) (map rw_sys_id (table_rows t))"
  using bt_wf_of_list by (simp add: ids_table_rows bt_wf_def)

lemma set_bt_of_list: "set (bt_of_list kvs) \<subseteq> set kvs"
  using bt_get_of_list_in bt_get_in_set [OF bt_wf_of_list] by (metis subrelI)

lemma table_rows_proper:
  "r \<in> set (table_rows t) \<Longrightarrow> r \<in> set t \<and> normalize_record_lookup_sys_id (rw_sys_id r) = Inr (rw_sys_id r)"
  using set_bt_of_list unfolding table_rows_def by fastforce

lemma matching_ascending: "sorted_wrt (<) (map rw_sys_id (matching h t cs))"
  using table_rows_ascending [of t] sorted_wrt_filter [of "\<lambda>r s. rw_sys_id r < rw_sys_id s"]
  by (simp add: matching_def sorted_wrt_map)

lemma matching_proper:
  "r \<in> set (matching h t cs) \<Longrightarrow> normalize_record_lookup_sys_id (rw_sys_id r) = Inr (rw_sys_id r)"
  using table_rows_proper by (auto simp: matching_def)

lemma satisfies_cursor:
  "satisfies h r (cs @ [GreaterThan ''sys_id'' i]) = (satisfies h r cs \<and> i < rw_sys_id r)"
  by (induction h r cs rule: satisfies.induct) (auto simp: clause_test_def)

lemma satisfies_after:
  "filter (\<lambda>r. satisfies h r (cs @ after_cursor c)) rs = rows_after c (filter (\<lambda>r. satisfies h r cs) rs)"
  by (cases c) (auto simp: after_cursor_def optionally_def rows_after_def satisfies_cursor intro: filter_cong)

lemma snapshot_execute:
  "le_execute (with_snapshot h table t env) (by_sys_id table fs cs p) =
     Inr \<lparr>rp_rows = take (ps_limit p) (rows_after (ps_cursor p) (matching h t cs)), rp_errors = []\<rparr>"
  by (simp add: with_snapshot_def snapshot_reply_def by_sys_id_def matching_def satisfies_after)

lemma snapshot_read_page:
  "read_page (with_snapshot h table t env) table fs cs p =
     Inr (page_of (ps_limit p) (take (ps_limit p) (rows_after (ps_cursor p) (matching h t cs))))"
  by (simp add: read_page_def snapshot_execute map_err_def)

end
