(* ===== verification/Live_Properties.thy ===== *)
theory Live_Properties
  imports Live_Paging
begin

text \<open>
  The guarantees of the live reads: following the cursors of a record query or of the incidents of
  a group enumerates what matches, and a page of children is checked against what the client returned.
\<close>

subsection \<open>Pages of a snapshot\<close>

definition proper_id :: "string \<Rightarrow> bool" where
  "proper_id i = (normalize_record_lookup_sys_id i = Inr i)"

lemma matching_ids: "r \<in> set (matching h t cs) \<Longrightarrow> proper_id (rw_sys_id r)"
  by (simp add: proper_id_def matching_proper)

lemma hex_not_ws: "is_hexdigit c \<Longrightarrow> \<not> is_ws c"
  by (auto simp: is_hexdigit_def is_ws_def Let_def)

lemma lower_hex: "list_all is_hexdigit s \<Longrightarrow> list_all is_hexdigit (to_lower s)"
  by (simp add: to_lower_def list_all_iff lower_char_hex)

lemma proper_id_hex:
  assumes "proper_id i"
  shows "length i = 32 \<and> list_all is_hexdigit i"
proof -
  have i: "to_lower (trim i) = i" "length (to_lower (trim i)) = 32" "list_all is_hexdigit (to_lower (trim i))"
    using assms by (simp_all add: proper_id_def normalize_record_lookup_sys_id_def Let_def split: if_splits)
  then show ?thesis by simp
qed

lemma trim_hex: "list_all is_hexdigit i \<Longrightarrow> trim i = i"
proof -
  have keep: "dropWhile is_ws s = s" if "list_all is_hexdigit s" for s
    using that by (cases s) (auto simp: hex_not_ws)
  assume "list_all is_hexdigit i"
  moreover from this have "list_all is_hexdigit (rev i)" by (simp add: list_all_iff)
  ultimately show ?thesis by (simp add: trim_def keep)
qed

lemma proper_id_trim: "proper_id i \<Longrightarrow> trim i = i"
  by (simp add: proper_id_hex trim_hex)

lemma proper_id_above: "proper_id i \<Longrightarrow> [] < i"
  using proper_id_hex [of i] by (cases i) auto

interpretation whole: keyset_read
  "\<lambda>c. read_page (with_snapshot h table t env) table fs cs \<lparr>ps_limit = Suc n, ps_cursor = c\<rparr>"
  "matching h t cs" "Suc n" "\<lambda>_. True" for h table t env fs cs n
  by unfold_locales (simp_all add: matching_ascending snapshot_read_page keyset_page_def page_of_def)

interpretation group_pages: keyset_read
  "\<lambda>c. bind_ok (read_page (with_snapshot h ''incident'' t env) ''incident'' incident_group_list_fields cs
     \<lparr>ps_limit = Suc n, ps_cursor = c\<rparr>) (\<lambda>p. Inr (open_rows p))"
  "matching h t cs" "Suc n" is_open_user_work for h t env cs n
  by unfold_locales
    (simp_all add: matching_ascending snapshot_read_page keyset_page_def page_of_def open_rows_def)

lemma satisfies_child: "satisfies h r (child_clauses table parent) \<Longrightarrow> child_of table parent r"
  by (auto simp: child_clauses_def child_of_def clause_test_def split: if_splits)

lemma check_children_ok:
  assumes "sorted_wrt (<) (map rw_sys_id rs)" "list_all (\<lambda>r. proper_id (rw_sys_id r) \<and> child_of table parent r) rs"
    "list_all (\<lambda>r. previous < rw_sys_id r) rs"
  shows "check_children table parent previous rs = Inr (if rs = [] then previous else rw_sys_id (last rs))"
  using assms
proof (induction rs arbitrary: previous)
  case (Cons r rs)
  then have "check_children table parent (rw_sys_id r) rs
      = Inr (if rs = [] then rw_sys_id r else rw_sys_id (last rs))"
    by (simp add: list_all_iff)
  then show ?case using Cons.prems by (auto simp: proper_id_def map_err_def)
qed simp

text \<open>The rows of a page of children pass the check of \<open>query_children\<close>.\<close>

lemma snapshot_children:
  assumes "c = None \<or> (\<exists>r\<in>set (matching h t (child_clauses table parent)). c = Some (rw_sys_id r))"
    and parent: "child_parent (with_snapshot h table t env) f = Inr parent"
  shows "query_children (with_snapshot h table t env) table f \<lparr>ps_limit = Suc n, ps_cursor = c\<rparr> =
    Inr (keyset_page (\<lambda>_. True) (Suc n) (rows_after c (matching h t (child_clauses table parent))))"
proof -
  let ?rows = "matching h t (child_clauses table parent)"
  let ?rs = "take (Suc n) (rows_after c ?rows)"
  let ?prev = "case c of None \<Rightarrow> [] | Some c \<Rightarrow> c"
  have rs: "set ?rs \<subseteq> set ?rows" by (auto simp: rows_after_def dest: in_set_takeD split: option.splits)
  have asc: "sorted_wrt (<) (map rw_sys_id ?rs)"
    using matching_ascending [of h t "child_clauses table parent"]
    by (auto simp: rows_after_def sorted_wrt_map sorted_wrt_filter sorted_wrt_take split: option.splits)
  have ok: "list_all (\<lambda>r. proper_id (rw_sys_id r) \<and> child_of table parent r) ?rs"
  proof -
    have "proper_id (rw_sys_id r) \<and> child_of table parent r" if "r \<in> set ?rows" for r
      using that by (auto simp: matching_ids matching_def intro: satisfies_child dest: table_rows_proper
          simp flip: proper_id_def)
    then show ?thesis using rs by (auto simp: list_all_iff)
  qed
  have "list_all (\<lambda>r. ?prev < rw_sys_id r) ?rs"
    using rs proper_id_above [OF matching_ids]
    by (auto simp: list_all_iff rows_after_def dest!: in_set_takeD split: option.splits)
  note check = check_children_ok [OF asc ok this]
  show ?thesis
    using check by (auto simp: query_children_def parent snapshot_execute map_err_def keyset_page_def page_of_def
        Let_def split: list.splits)
qed

interpretation child_pages: keyset_read
  "query_children (with_snapshot h table t env) table \<lparr>cf_parent_number = None, cf_parent_sys_id = Some parent\<rparr>
     \<circ> (\<lambda>c. \<lparr>ps_limit = Suc n, ps_cursor = c\<rparr>)"
  "matching h t (child_clauses table parent)" "Suc n" "\<lambda>_. True" for h table t env parent n
  by unfold_locales (simp_all add: matching_ascending snapshot_children child_parent_def)

subsection \<open>Cursors and validation\<close>

lemma validate_limit_bounds: "validate_limit l = Inr n \<Longrightarrow> 1 \<le> n \<and> n \<le> 200"
  by (auto simp: validate_limit_def record_query_default_limit_def record_query_max_limit_def
      split: option.splits if_splits)

lemma validate_page_cursor:
  assumes "validate_page \<lparr>pi_limit = l, pi_cursor = None\<rparr> = Inr s" "\<forall>i. c = Some i \<longrightarrow> proper_id i"
  shows "validate_page \<lparr>pi_limit = l, pi_cursor = c\<rparr> = Inr (s\<lparr>ps_cursor := c\<rparr>)"
  using assms
  by (cases c) (auto simp: validate_page_def normalize_cursor_def normalize_optional_sys_id_def checked_option_def
      bind_ok_Inr proper_id_trim proper_id_def map_err_def)

text \<open>An input with another cursor, and the validated query it gives.\<close>

definition page_at :: "page_input \<Rightarrow> string option \<Rightarrow> page_input" where
  "page_at p c = p\<lparr>pi_cursor := c\<rparr>"

fun at_cursor :: "record_query_input \<Rightarrow> string option \<Rightarrow> record_query_input" where
  "at_cursor (ResourcePlanQuery f p) c = ResourcePlanQuery f (page_at p c)"
| "at_cursor (ProjectTaskQuery f p) c = ProjectTaskQuery f (page_at p c)"
| "at_cursor (TaskQuery f p) c = TaskQuery f (page_at p c)"
| "at_cursor (ChangeRequestQuery f p) c = ChangeRequestQuery f (page_at p c)"
| "at_cursor (StoryQuery f d p) c = StoryQuery f d (page_at p c)"

fun query_spec :: "validated_query \<Rightarrow> page_spec" where
  "query_spec (ValidChildren table f p) = p"
| "query_spec (ValidChange f p) = p"
| "query_spec (ValidStory f d p) = p"

fun with_cursor :: "validated_query \<Rightarrow> string option \<Rightarrow> validated_query" where
  "with_cursor (ValidChildren table f p) c = ValidChildren table f (p\<lparr>ps_cursor := c\<rparr>)"
| "with_cursor (ValidChange f p) c = ValidChange f (p\<lparr>ps_cursor := c\<rparr>)"
| "with_cursor (ValidStory f d p) c = ValidStory f d (p\<lparr>ps_cursor := c\<rparr>)"

text \<open>The table a validated query reads and the clauses it reads it with, the cursor aside.\<close>

fun query_table :: "validated_query \<Rightarrow> string" where
  "query_table (ValidChildren table f p) = table"
| "query_table (ValidChange f p) = ''change_request''"
| "query_table (ValidStory f d p) = ''rm_story''"

fun query_clauses :: "live_env \<Rightarrow> validated_query \<Rightarrow> (live_error, clause list) result" where
  "query_clauses env (ValidChildren table f p) =
     bind_ok (child_parent env f) (\<lambda>parent. Inr (child_clauses table parent))"
| "query_clauses env (ValidChange f p) =
     bind_ok (resolved_state env ''change_request'' (ch_state f)) (\<lambda>st. Inr (change_clauses f st))"
| "query_clauses env (ValidStory f d p) =
     bind_ok (resolved_states env (sf_states f)) (\<lambda>states. Inr (story_clauses f states))"

lemma page_at_None: "page_at p None = \<lparr>pi_limit = pi_limit p, pi_cursor = None\<rparr>"
  and page_at_eq: "page_at p c = \<lparr>pi_limit = pi_limit p, pi_cursor = c\<rparr>"
  by (simp_all add: page_at_def)

lemma validate_at_cursor:
  assumes "validate_record_query date stamp (at_cursor input None) = Inr v" "\<forall>i. c = Some i \<longrightarrow> proper_id i"
  shows "validate_record_query date stamp (at_cursor input c) = Inr (with_cursor v c)"
  using assms(1)
  by (cases input) (auto simp: validate_record_query_def validate_children_def validate_change_query_def
      validate_story_query_def bind_ok_Inr page_at_eq validate_page_cursor [OF _ assms(2)] split: if_splits)

lemma validated_limit:
  assumes "validate_record_query date stamp input = Inr v"
  shows "1 \<le> ps_limit (query_spec v) \<and> ps_limit (query_spec v) \<le> 200"
  using assms
  by (cases input) (auto simp: validate_record_query_def validate_children_def validate_change_query_def
      validate_story_query_def validate_page_def bind_ok_Inr split: if_splits dest!: validate_limit_bounds)

lemma spec_with_cursor: "query_spec (with_cursor v c) = (query_spec v)\<lparr>ps_cursor := c\<rparr>"
  by (cases v) simp_all

lemma spec_eq: "ps_limit s = Suc n \<Longrightarrow> s\<lparr>ps_cursor := c\<rparr> = \<lparr>ps_limit = Suc n, ps_cursor = c\<rparr>"
  by simp

text \<open>A validated query over a snapshot is a keyset read.\<close>

lemma run_query_page:
  assumes "query_clauses (with_snapshot h (query_table v) t env) v = Inr cs"
    and limit: "ps_limit (query_spec v) = Suc n"
    and "c = None \<or> (\<exists>r\<in>set (matching h t cs). c = Some (rw_sys_id r))"
  shows "run_query (with_snapshot h (query_table v) t env) (with_cursor v c) =
    Inr (keyset_page (\<lambda>_. True) (Suc n) (rows_after c (matching h t cs)))"
proof (cases v)
  case (ValidChildren table f p)
  then obtain parent where "child_parent (with_snapshot h table t env) f = Inr parent" "cs = child_clauses table parent"
    using assms(1) by (auto simp: bind_ok_Inr)
  then show ?thesis using assms(3) limit snapshot_children [of c h t table parent env f n]
    by (simp add: ValidChildren run_query_def spec_eq)
next
  case (ValidChange f p)
  then show ?thesis using assms whole.reads [OF assms(3)]
    by (auto simp: run_query_def query_change_def bind_ok_Inr spec_eq)
next
  case (ValidStory f d p)
  then show ?thesis using assms whole.reads [OF assms(3)]
    by (auto simp: run_query_def query_story_def bind_ok_Inr spec_eq)
qed

lemma record_query_keyset:
  assumes "validate_record_query (le_date env) (le_stamp env) (at_cursor input None) = Inr v"
    and clauses: "query_clauses (with_snapshot h (query_table v) t env) v = Inr cs"
  shows "keyset_read (\<lambda>c. record_query (with_snapshot h (query_table v) t env) (at_cursor input c))
    (matching h t cs) (ps_limit (query_spec v)) (\<lambda>_. True)"
proof -
  obtain n where n: "ps_limit (query_spec v) = Suc n"
    using validated_limit [OF assms(1)] by (cases "ps_limit (query_spec v)") auto
  show ?thesis
  proof
    show "0 < ps_limit (query_spec v)" by (simp add: n)
    show "sorted_wrt (<) (map rw_sys_id (matching h t cs))" by (rule matching_ascending)
    fix c assume c: "c = None \<or> (\<exists>r\<in>set (matching h t cs). c = Some (rw_sys_id r))"
    then have "\<forall>i. c = Some i \<longrightarrow> proper_id i" by (auto simp: matching_ids)
    then have "validate_record_query (le_date env) (le_stamp env) (at_cursor input c) = Inr (with_cursor v c)"
      by (rule validate_at_cursor [OF assms(1)])
    then show "record_query (with_snapshot h (query_table v) t env) (at_cursor input c) =
        Inr (keyset_page (\<lambda>_. True) (ps_limit (query_spec v)) (rows_after c (matching h t cs)))"
      using run_query_page [OF clauses n c] by (simp add: record_query_def with_snapshot_def map_err_def n)
  qed
qed

text \<open>A table of three rows and a client that knows nothing else.\<close>

definition demo_id :: "char \<Rightarrow> string" where
  "demo_id c = replicate 31 (CHR ''0'') @ [c]"

definition demo_live_row :: "char \<Rightarrow> string \<Rightarrow> snow_row" where
  "demo_live_row c parent = \<lparr>rw_sys_id = demo_id c, rw_table = ''task'', rw_value = (\<lambda>_. None),
     rw_raw = (\<lambda>f. if f = ''parent'' \<or> f = ''assignment_group'' then Some parent
        else if f = ''active'' then Some ''true'' else None), rw_str = (\<lambda>_. None),
     rw_display = (\<lambda>f. if f = ''state'' then Some (if c = CHR ''2'' then ''Closed'' else ''New'') else None)\<rparr>"

definition demo_live_table :: "snow_row list" where
  "demo_live_table = map (\<lambda>c. demo_live_row c (demo_id (CHR ''9''))) ''312''"

definition no_tables :: cmdb where
  "no_tables = \<lparr>cq_relations = (\<lambda>_ _ _ _. Inl (OtherApi [])), cq_ci_classes = (\<lambda>_ _. Inl (OtherApi [])),
     cq_servers = (\<lambda>_ _. Inl (OtherApi [])), cq_object_named = (\<lambda>_ _. Inl (OtherApi [])),
     cq_object = (\<lambda>_ _. Inl (OtherApi [])), cq_members = (\<lambda>_ _. Inl (OtherApi [])),
     cq_relation_types = (\<lambda>_. Inl (OtherApi [])), cq_group_servers = (\<lambda>_ _. Inl (OtherApi []))\<rparr>"

definition demo_live_env :: live_env where
  "demo_live_env = \<lparr>le_execute = (\<lambda>_. Inl (ClientOther [])), le_get = (\<lambda>_. Inl (ClientOther [])),
     le_ui_choices = None, le_tables = no_tables, le_date = (\<lambda>_. True), le_stamp = (\<lambda>_. True)\<rparr>"

definition demo_live_input :: record_query_input where
  "demo_live_input = TaskQuery \<lparr>cf_parent_number = None, cf_parent_sys_id = Some (demo_id (CHR ''9''))\<rparr>
     \<lparr>pi_limit = Some 2, pi_cursor = None\<rparr>"

definition demo_valid_query :: validated_query where
  "demo_valid_query = ValidChildren ''task''
     \<lparr>cf_parent_number = None, cf_parent_sys_id = Some (demo_id (CHR ''9''))\<rparr> \<lparr>ps_limit = 2, ps_cursor = None\<rparr>"

lemma demo_valid:
  "validate_record_query (le_date demo_live_env) (le_stamp demo_live_env) (at_cursor demo_live_input None)
     = Inr demo_valid_query"
  by code_simp

lemma demo_matching:
  "map rw_sys_id (matching (\<lambda>_ _. True) demo_live_table (child_clauses ''task'' (demo_id (CHR ''9''))))
     = map demo_id ''123''"
  by code_simp

text \<open>
  C9: following the cursors of a record query enumerates what matches. Against a snapshot of the
  table the query reads, the pages together hold exactly the rows that satisfy the clauses, each once
  and in the order of \<open>sys_id\<close>, the last page says it is complete, and the number of requests is one
  more than the number of full pages; a page asks for 1 to 200 rows.
\<close>

theorem record_pages_enumerate:
  assumes "validate_record_query (le_date env) (le_stamp env) (at_cursor input None) = Inr v"
    "query_clauses (with_snapshot h (query_table v) t env) v = Inr cs"
  shows "follow (\<lambda>c. record_query (with_snapshot h (query_table v) t env) (at_cursor input c))
      (Suc (length (matching h t cs) div ps_limit (query_spec v))) None = Inr (matching h t cs, True)
    \<and> sorted_wrt (<) (map rw_sys_id (matching h t cs))
    \<and> 1 \<le> ps_limit (query_spec v) \<and> ps_limit (query_spec v) \<le> 200"
  using keyset_read.enumerates [OF record_query_keyset [OF assms]] validated_limit [OF assms(1)]
  by (simp add: matching_ascending del: follow.simps)

theorem record_pages_enumerate_witness:
  "\<exists>(v :: validated_query) cs rows.
      validate_record_query (le_date demo_live_env) (le_stamp demo_live_env) (at_cursor demo_live_input None) = Inr v
    \<and> follow (\<lambda>c. record_query (with_snapshot (\<lambda>_ _. True) (query_table v) demo_live_table demo_live_env)
        (at_cursor demo_live_input c)) 2 None = Inr (rows, True)
    \<and> rows = matching (\<lambda>_ _. True) demo_live_table cs \<and> map rw_sys_id rows = map demo_id ''123''"
proof -
  let ?cs = "child_clauses ''task'' (demo_id (CHR ''9''))"
  let ?rows = "matching (\<lambda>_ _. True) demo_live_table ?cs"
  have clauses: "query_clauses (with_snapshot (\<lambda>_ _. True) (query_table demo_valid_query) demo_live_table demo_live_env)
      demo_valid_query = Inr ?cs"
    by (simp add: demo_valid_query_def child_parent_def)
  have "length ?rows = 3" using arg_cong [OF demo_matching, of length] by simp
  then have requests: "Suc (length ?rows div ps_limit (query_spec demo_valid_query)) = 2"
    by (simp add: demo_valid_query_def)
  from record_pages_enumerate [OF demo_valid clauses] show ?thesis
    unfolding requests using demo_valid demo_matching by blast
qed

subsection \<open>Incidents of a group\<close>

definition group_at :: "group_list_input \<Rightarrow> string option \<Rightarrow> group_list_input" where
  "group_at input c = input\<lparr>gi_page := page_at (gi_page input) c\<rparr>"

lemma validate_group_at:
  assumes "validate_group_list (group_at input None) = Inr v" "\<forall>i. c = Some i \<longrightarrow> proper_id i"
  shows "validate_group_list (group_at input c) = Inr (v\<lparr>gv_page := (gv_page v)\<lparr>ps_cursor := c\<rparr>\<rparr>)"
proof -
  have "given c = c" using assms(2) by (cases c) (auto simp: given_def proper_id_trim dest: proper_id_hex)
  moreover have "given None = None" by (simp add: given_def)
  ultimately show ?thesis
    using assms by (cases c) (auto simp: validate_group_list_def group_at_def page_at_def checked_option_def
        bind_ok_Inr proper_id_def map_err_def)
qed

lemma group_limit_bounds:
  "validate_group_list input = Inr v \<Longrightarrow> 1 \<le> ps_limit (gv_page v) \<and> ps_limit (gv_page v) \<le> 200"
  by (auto simp: validate_group_list_def group_list_limit_def bind_ok_Inr group_list_default_limit_def
      group_list_max_limit_def split: option.splits if_splits)

text \<open>
  the pages of a group's incidents lose no open incident and show none twice, although closed
  and inactive rows are dropped from them: against a snapshot of the incident table, following the
  cursors yields exactly the rows of the group that satisfy the clauses and are open, in the
  order of \<open>sys_id\<close>, and ends with a complete page.
\<close>

theorem group_pages_enumerate:
  assumes valid: "validate_group_list (group_at input None) = Inr v"
    and st: "resolved_incident_state (with_snapshot h ''incident'' t env) (gv_state v) = Inr st"
  shows "follow (\<lambda>c. bind_ok (incident_list_by_group (with_snapshot h ''incident'' t env) (group_at input c))
        (\<lambda>(p, _). Inr p))
      (Suc (length (matching h t (group_clauses (gv_assignment_group v) st)) div ps_limit (gv_page v))) None
    = Inr (filter is_open_user_work (matching h t (group_clauses (gv_assignment_group v) st)), True)
    \<and> sorted_wrt (<) (map rw_sys_id (matching h t (group_clauses (gv_assignment_group v) st)))"
proof -
  let ?cs = "group_clauses (gv_assignment_group v) st"
  obtain n where n: "ps_limit (gv_page v) = Suc n"
    using group_limit_bounds [OF valid] by (cases "ps_limit (gv_page v)") auto
  have "keyset_read (\<lambda>c. bind_ok (incident_list_by_group (with_snapshot h ''incident'' t env) (group_at input c))
      (\<lambda>(p, _). Inr p)) (matching h t ?cs) (ps_limit (gv_page v)) is_open_user_work"
  proof
    show "0 < ps_limit (gv_page v)" by (simp add: n)
    show "sorted_wrt (<) (map rw_sys_id (matching h t ?cs))" by (rule matching_ascending)
    fix c assume c: "c = None \<or> (\<exists>r\<in>set (matching h t ?cs). c = Some (rw_sys_id r))"
    then have "\<forall>i. c = Some i \<longrightarrow> proper_id i" by (auto simp: matching_ids)
    from validate_group_at [OF valid this]
    show "bind_ok (incident_list_by_group (with_snapshot h ''incident'' t env) (group_at input c)) (\<lambda>(p, _). Inr p)
        = Inr (keyset_page is_open_user_work (ps_limit (gv_page v)) (rows_after c (matching h t ?cs)))"
      using group_pages.reads [OF c, where n = n and env = env] st
      by (auto simp: incident_list_by_group_def map_err_def spec_eq [OF n] n bind_ok_def split: sum.splits)
  qed
  from keyset_read.enumerates [OF this] show ?thesis by (simp add: matching_ascending del: follow.simps)
qed

definition demo_group_input :: group_list_input where
  "demo_group_input = \<lparr>gi_assignment_group = demo_id (CHR ''9''), gi_state = None,
     gi_page = \<lparr>pi_limit = Some 1, pi_cursor = None\<rparr>\<rparr>"

definition demo_valid_group :: valid_group_list where
  "demo_valid_group = \<lparr>gv_assignment_group = demo_id (CHR ''9''), gv_state = None,
     gv_page = \<lparr>ps_limit = 1, ps_cursor = None\<rparr>\<rparr>"

lemma demo_group_valid: "validate_group_list (group_at demo_group_input None) = Inr demo_valid_group"
  by code_simp

lemma demo_group_rows:
  "map rw_sys_id (matching (\<lambda>_ _. True) demo_live_table (group_clauses (demo_id (CHR ''9'')) None)) = map demo_id ''123''"
  "map rw_sys_id (filter is_open_user_work
     (matching (\<lambda>_ _. True) demo_live_table (group_clauses (demo_id (CHR ''9'')) None))) = map demo_id ''13''"
  by code_simp+

theorem group_pages_enumerate_witness:
  "\<exists>(v :: valid_group_list) rows. validate_group_list (group_at demo_group_input None) = Inr v
    \<and> follow (\<lambda>c. bind_ok (incident_list_by_group
          (with_snapshot (\<lambda>_ _. True) ''incident'' demo_live_table demo_live_env) (group_at demo_group_input c))
        (\<lambda>(p, _). Inr p)) 4 None = Inr (rows, True)
    \<and> map rw_sys_id rows = map demo_id ''13''"
proof -
  let ?all = "matching (\<lambda>_ _. True) demo_live_table (group_clauses (gv_assignment_group demo_valid_group) None)"
  have none: "resolved_incident_state (with_snapshot (\<lambda>_ _. True) ''incident'' demo_live_table demo_live_env)
      (gv_state demo_valid_group) = Inr None"
    by (simp add: demo_valid_group_def resolved_incident_state_def)
  have "length ?all = 3" using arg_cong [OF demo_group_rows(1), of length] by (simp add: demo_valid_group_def)
  then have requests: "Suc (length ?all div ps_limit (gv_page demo_valid_group)) = 4"
    by (simp add: demo_valid_group_def)
  have rows: "map rw_sys_id (filter is_open_user_work ?all) = map demo_id ''13''"
    using demo_group_rows(2) by (simp add: demo_valid_group_def)
  from group_pages_enumerate [OF demo_group_valid none] show ?thesis
    unfolding requests using demo_group_valid rows by blast
qed

subsection \<open>Children\<close>

lemma check_children_Inr:
  assumes "check_children table parent previous rs = Inr l"
  shows "\<exists>ids. map (\<lambda>r. normalize_record_lookup_sys_id (rw_sys_id r)) rs = map Inr ids
    \<and> list_all (child_of table parent) rs \<and> sorted_wrt (<) (previous # ids) \<and> l = last (previous # ids)"
  using assms
proof (induction rs arbitrary: previous)
  case (Cons r rs)
  then obtain i where i: "normalize_record_lookup_sys_id (rw_sys_id r) = Inr i" "previous < i" "child_of table parent r"
    and rest: "check_children table parent i rs = Inr l"
    by (auto simp: bind_ok_Inr map_err_def split: if_splits sum.splits)
  from Cons.IH [OF rest] obtain ids where
    "map (\<lambda>r. normalize_record_lookup_sys_id (rw_sys_id r)) rs = map Inr ids"
    "list_all (child_of table parent) rs" "sorted_wrt (<) (i # ids)" "l = last (i # ids)"
    by blast
  then show ?case using i by (intro exI [of _ "i # ids"]) auto
qed simp

text \<open>
  C10: a page of children is what it says, whatever the client returns. When a query for the children
  of a parent answers with a page, every row names the parent in the field the query filters on,
  the normalised \<open>sys_id\<close>s ascend strictly and lie beyond the cursor, so pages neither overlap nor
  repeat, there are at most as many rows as asked for, and unless the page is complete its cursor is
  the last row's \<open>sys_id\<close>.
\<close>

theorem children_page_checked:
  assumes "validate_record_query (le_date env) (le_stamp env) input = Inr (ValidChildren table f p)"
    "record_query env input = Inr pg"
  shows "\<exists>parent ids. child_parent env f = Inr parent \<and> list_all (child_of table parent) (pa_rows pg)
    \<and> map (\<lambda>r. normalize_record_lookup_sys_id (rw_sys_id r)) (pa_rows pg) = map Inr ids
    \<and> sorted_wrt (<) ((case ps_cursor p of None \<Rightarrow> [] | Some c \<Rightarrow> c) # ids)
    \<and> length (pa_rows pg) \<le> ps_limit p \<and> pa_complete pg = (length (pa_rows pg) < ps_limit p)
    \<and> pa_next pg = (if pa_complete pg then None else Some (last ids))"
proof -
  have limit: "1 \<le> ps_limit p" using validated_limit [OF assms(1)] by simp
  have page: "query_children env table f p = Inr pg"
    using assms by (simp add: record_query_def run_query_def map_err_def)
  then obtain parent and r :: live_reply where parent: "child_parent env f = Inr parent"
    and checked: "(if rp_errors r \<noteq> [] \<or> ps_limit p < length (rp_rows r)
        then Inl (Refused ''child query returned an incomplete or oversized provider page'')
        else bind_ok (check_children table parent (case ps_cursor p of None \<Rightarrow> [] | Some c \<Rightarrow> c) (rp_rows r)) (\<lambda>l.
          Inr \<lparr>pa_rows = rp_rows r, pa_next = (if length (rp_rows r) < ps_limit p then None else Some l),
               pa_complete = (length (rp_rows r) < ps_limit p), pa_limit = ps_limit p,
               pa_inspected = length (rp_rows r)\<rparr>)) = Inr pg"
    unfolding query_children_def bind_ok_Inr Let_def by blast
  have size: "length (rp_rows r) \<le> ps_limit p" and "\<not> (rp_errors r \<noteq> [] \<or> ps_limit p < length (rp_rows r))"
    using checked by (auto split: if_splits)
  then obtain l where l: "check_children table parent (case ps_cursor p of None \<Rightarrow> [] | Some c \<Rightarrow> c) (rp_rows r) = Inr l"
    and pg: "pg = \<lparr>pa_rows = rp_rows r, pa_next = (if length (rp_rows r) < ps_limit p then None else Some l),
      pa_complete = (length (rp_rows r) < ps_limit p), pa_limit = ps_limit p, pa_inspected = length (rp_rows r)\<rparr>"
    using checked by (simp only: if_not_P if_False bind_ok_Inr sum.inject) blast
  from check_children_Inr [OF l] obtain ids where ids:
    "map (\<lambda>r. normalize_record_lookup_sys_id (rw_sys_id r)) (rp_rows r) = map Inr ids"
    "list_all (child_of table parent) (rp_rows r)"
    "sorted_wrt (<) ((case ps_cursor p of None \<Rightarrow> [] | Some c \<Rightarrow> c) # ids)"
    "l = last ((case ps_cursor p of None \<Rightarrow> [] | Some c \<Rightarrow> c) # ids)"
    by blast
  have "length ids = length (rp_rows r)" using arg_cong [OF ids(1), of length] by simp
  then have last: "l = last ids" if "\<not> length (rp_rows r) < ps_limit p" using that limit ids(4) by (cases ids) auto
  show ?thesis
    by (rule exI [of _ parent], rule exI [of _ ids]) (use parent size ids(1-3) last in \<open>simp add: pg\<close>)
qed

theorem children_page_checked_witness:
  "\<exists>(pg :: page) parent ids. record_query (with_snapshot (\<lambda>_ _. True) ''task'' demo_live_table demo_live_env)
      (at_cursor demo_live_input None) = Inr pg
    \<and> list_all (child_of ''task'' parent) (pa_rows pg) \<and> pa_rows pg \<noteq> [] \<and> \<not> pa_complete pg
    \<and> pa_next pg = Some (last ids)
    \<and> map (\<lambda>r. normalize_record_lookup_sys_id (rw_sys_id r)) (pa_rows pg) = map Inr ids"
proof -
  let ?env = "with_snapshot (\<lambda>_ _. True) ''task'' demo_live_table demo_live_env"
  let ?rows = "matching (\<lambda>_ _. True) demo_live_table (child_clauses ''task'' (demo_id (CHR ''9'')))"
  have valid: "validate_record_query (le_date ?env) (le_stamp ?env) (at_cursor demo_live_input None)
      = Inr (ValidChildren ''task'' \<lparr>cf_parent_number = None, cf_parent_sys_id = Some (demo_id (CHR ''9''))\<rparr>
          \<lparr>ps_limit = 2, ps_cursor = None\<rparr>)"
    using demo_valid by (simp add: with_snapshot_def demo_valid_query_def)
  have "keyset_read (\<lambda>c. record_query ?env (at_cursor demo_live_input c)) ?rows 2 (\<lambda>_. True)"
    using record_query_keyset [OF demo_valid, of "\<lambda>_ _. True" demo_live_table "child_clauses ''task'' (demo_id (CHR ''9''))"]
    by (simp add: demo_valid_query_def child_parent_def)
  then have run: "record_query ?env (at_cursor demo_live_input None) = Inr (keyset_page (\<lambda>_. True) 2 ?rows)"
    by (rule keyset_read.first_page)
  have "length ?rows = 3" using arg_cong [OF demo_matching, of length] by simp
  then have big: "pa_rows (keyset_page (\<lambda>_. True) 2 ?rows) \<noteq> []" "\<not> pa_complete (keyset_page (\<lambda>_. True) 2 ?rows)"
    by (auto simp: keyset_page_simps)
  from children_page_checked [OF valid run] show ?thesis using run big by auto
qed

text \<open>The needle of a terminal state may stand inside a label that is not terminal.\<close>

lemma unresolved_is_terminal: "is_terminal_state (Some ''Unresolved'') \<and> is_terminal_state (Some ''Incomplete'')"
  by code_simp

end
