(* ===== verification/Sort_By.thy ===== *)
theory Sort_By
  imports Main "HOL-Library.Multiset"
begin

text \<open>
  \<open>slice::sort_by\<close>: a stable sort by a comparison closure, of which \<open>le x y\<close> says that \<open>x\<close> is not
  greater than \<open>y\<close>. The result of a stable sort does not depend on the algorithm; insertion computes it.
\<close>

fun insert_by :: "('a \<Rightarrow> 'a \<Rightarrow> bool) \<Rightarrow> 'a \<Rightarrow> 'a list \<Rightarrow> 'a list" where
  "insert_by le x [] = [x]"
| "insert_by le x (y # ys) = (if le x y then x # y # ys else y # insert_by le x ys)"

definition sort_by :: "('a \<Rightarrow> 'a \<Rightarrow> bool) \<Rightarrow> 'a list \<Rightarrow> 'a list" where
  "sort_by le xs = foldr (insert_by le) xs []"

lemma sort_by_simps [simp]: "sort_by le [] = []" "sort_by le (x # xs) = insert_by le x (sort_by le xs)"
  by (simp_all add: sort_by_def)

lemma mset_insert_by [simp]: "mset (insert_by le x xs) = add_mset x (mset xs)"
  by (induction xs) auto

lemma mset_sort_by [simp]: "mset (sort_by le xs) = mset xs"
  by (induction xs) simp_all

lemma set_sort_by [simp]: "set (sort_by le xs) = set xs"
  by (metis mset_sort_by set_mset_mset)

lemma length_sort_by [simp]: "length (sort_by le xs) = length xs"
  by (metis mset_sort_by size_mset)

lemma distinct_sort_by [simp]: "distinct (sort_by le xs) = distinct xs"
  by (metis mset_sort_by mset_eq_imp_distinct_iff)

text \<open>A comparison closure that is total and transitive sorts.\<close>

locale comparison =
  fixes le :: "'a \<Rightarrow> 'a \<Rightarrow> bool"
  assumes total: "le x y \<or> le y x"
    and transitive: "le x y \<Longrightarrow> le y z \<Longrightarrow> le x z"
begin

lemma sorted_insert_by: "sorted_wrt le xs \<Longrightarrow> sorted_wrt le (insert_by le x xs)"
proof (induction xs)
  case (Cons y ys)
  show ?case
  proof (cases "le x y")
    case True
    then show ?thesis using Cons.prems transitive [OF True] by auto
  next
    case False
    have "set (insert_by le x ys) = insert x (set ys)" by (metis mset_insert_by set_mset_add_mset_insert set_mset_mset)
    then show ?thesis using False Cons total [of x y] by simp
  qed
qed simp

lemma sorted: "sorted_wrt le (sort_by le xs)"
  by (induction xs) (simp_all add: sorted_insert_by)

end

text \<open>\<open>then_with\<close>: a comparison by a key, ties broken by another comparison.\<close>

definition then_by :: "('a \<Rightarrow> 'b::linorder) \<Rightarrow> ('a \<Rightarrow> 'a \<Rightarrow> bool) \<Rightarrow> 'a \<Rightarrow> 'a \<Rightarrow> bool" where
  "then_by k le x y = (k x < k y \<or> k x = k y \<and> le x y)"

definition then_by_desc :: "('a \<Rightarrow> 'b::linorder) \<Rightarrow> ('a \<Rightarrow> 'a \<Rightarrow> bool) \<Rightarrow> 'a \<Rightarrow> 'a \<Rightarrow> bool" where
  "then_by_desc k le x y = (k y < k x \<or> k x = k y \<and> le x y)"

definition by_key :: "('a \<Rightarrow> 'b::linorder) \<Rightarrow> 'a \<Rightarrow> 'a \<Rightarrow> bool" where
  "by_key k x y = (k x \<le> k y)"

lemma comparison_by_key [intro]: "comparison (by_key k)"
  by unfold_locales (auto simp: by_key_def)

lemma comparison_then_by [intro]:
  assumes "comparison le"
  shows "comparison (then_by k le)"
proof
  fix x y z
  show "then_by k le x y \<or> then_by k le y x"
    using comparison.total [OF assms, of x y] by (cases "k x" "k y" rule: linorder_cases) (auto simp: then_by_def)
  assume "then_by k le x y" "then_by k le y z"
  then show "then_by k le x z"
    using comparison.transitive [OF assms, of x y z] by (auto simp: then_by_def)
qed

lemma comparison_then_by_desc [intro]:
  assumes "comparison le"
  shows "comparison (then_by_desc k le)"
proof
  fix x y z
  show "then_by_desc k le x y \<or> then_by_desc k le y x"
    using comparison.total [OF assms, of x y] by (cases "k x" "k y" rule: linorder_cases) (auto simp: then_by_desc_def)
  assume "then_by_desc k le x y" "then_by_desc k le y z"
  then show "then_by_desc k le x z"
    using comparison.transitive [OF assms, of x y z] by (auto simp: then_by_desc_def)
qed

end
