(* ===== verification/Incident_Queue.thy ===== *)
theory Incident_Queue
  imports Live_Query Sort_By Complex_Main
begin

text \<open>
  The operational incident queue of an assignment group (\<open>incident_assignment_group_queue\<close> of
  \<open>snow_core/src/service/record.rs\<close>, its types in \<open>resource/incident.rs\<close>) with the SLA statuses of
  \<open>snow_core/src/sla.rs\<close>: a bounded scan, a filter and a sort by SLA, counts over the whole queue, one
  page by offset, and the records of a caller's baseline that have left the queue.

  Percentages are rationals (the input check refuses what is not finite); the code only compares
  them. The conversion of a row to a record, the clock, its formatting, the user lookups and the
  pagination of the client are fields of the environment.
\<close>

subsection \<open>SLA statuses\<close>

datatype sla_stage = StageInProgress | StagePaused | StageCompleted | StageCancelled | StageOther string

text \<open>The \<open>TaskSla\<close> of the client library.\<close>

record task_sla =
  ts_name :: "string option"
  ts_stage :: "sla_stage option"
  ts_active :: "bool option"
  ts_breached :: "bool option"
  ts_planned_end :: "string option"
  ts_elapsed :: "rat option"
  ts_time_left :: "string option"

text \<open>The client's \<open>TaskSlaSummary::from_task_slas\<close>.\<close>

record client_summary =
  cu_total :: nat
  cu_active :: nat
  cu_breached :: nat
  cu_next :: "task_sla option"
  cu_highest :: "rat option"

record sla_view =
  sv_name :: "string option"
  sv_stage :: "string option"
  sv_active :: "bool option"
  sv_breached :: "bool option"
  sv_planned_end :: "string option"
  sv_elapsed :: "rat option"
  sv_time_left :: "string option"

record sla_summary =
  su_total :: nat
  su_active :: nat
  su_breached :: nat
  su_next :: "sla_view option"
  su_highest :: "rat option"

datatype sla_readability = ReadableRows | EmptyOrAclRestricted | ParentNotFound | NotApplicable

record sla_parent =
  sp_number :: string
  sp_table :: string
  sp_sys_id :: string

record sla_status =
  st_parent :: sla_parent
  st_rows :: "sla_view list"
  st_summary :: sla_summary
  st_readable :: sla_readability

definition sla_tables :: "string list" where
  "sla_tables = [''task'', ''incident'', ''change_request'', ''change_task'', ''problem'', ''sc_request'',
     ''sc_req_item'', ''sc_task'', ''rm_story'', ''rm_scrum_task'']"

definition is_task_sla_applicable_table :: "string \<Rightarrow> bool" where
  "is_task_sla_applicable_table table = list_ex (\<lambda>c. eq_ignore_case c (trim table)) sla_tables"

fun stage_label :: "sla_stage \<Rightarrow> string" where
  "stage_label StageInProgress = ''in_progress''"
| "stage_label StagePaused = ''paused''"
| "stage_label StageCompleted = ''completed''"
| "stage_label StageCancelled = ''cancelled''"
| "stage_label (StageOther s) = s"

definition view_of_sla :: "task_sla \<Rightarrow> sla_view" where
  "view_of_sla s = \<lparr>sv_name = ts_name s, sv_stage = map_option stage_label (ts_stage s),
     sv_active = ts_active s, sv_breached = ts_breached s, sv_planned_end = ts_planned_end s,
     sv_elapsed = ts_elapsed s, sv_time_left = ts_time_left s\<rparr>"

definition zero_summary :: sla_summary where
  "zero_summary = \<lparr>su_total = 0, su_active = 0, su_breached = 0, su_next = None, su_highest = None\<rparr>"

definition summary_of_slas :: "client_summary \<Rightarrow> sla_summary" where
  "summary_of_slas c = \<lparr>su_total = cu_total c, su_active = cu_active c, su_breached = cu_breached c,
     su_next = map_option view_of_sla (cu_next c), su_highest = cu_highest c\<rparr>"

definition status_without_rows :: "sla_parent \<Rightarrow> sla_readability \<Rightarrow> sla_status" where
  "status_without_rows p r = \<lparr>st_parent = p, st_rows = [], st_summary = zero_summary, st_readable = r\<rparr>"

definition status_from_task_slas ::
  "(task_sla list \<Rightarrow> client_summary) \<Rightarrow> sla_parent \<Rightarrow> task_sla list \<Rightarrow> sla_status" where
  "status_from_task_slas summarise p slas =
     (if slas = [] then status_without_rows p EmptyOrAclRestricted
      else \<lparr>st_parent = p, st_rows = map view_of_sla slas, st_summary = summary_of_slas (summarise slas),
            st_readable = ReadableRows\<rparr>)"

text \<open>One bulk lookup for the applicable parents; a status per parent \<open>sys_id\<close>, the last one wins.\<close>

definition status_of_parent ::
  "(task_sla list \<Rightarrow> client_summary) \<Rightarrow> (string \<Rightarrow> task_sla list option) \<Rightarrow> sla_parent \<Rightarrow> sla_status" where
  "status_of_parent summarise by_task p =
     (if is_task_sla_applicable_table (sp_table p)
      then status_from_task_slas summarise p (case by_task (sp_sys_id p) of None \<Rightarrow> [] | Some s \<Rightarrow> s)
      else status_without_rows p NotApplicable)"

definition task_sla_statuses ::
  "(task_sla list \<Rightarrow> client_summary) \<Rightarrow> (string list \<Rightarrow> (client_error, string \<Rightarrow> task_sla list option) result)
     \<Rightarrow> sla_parent list \<Rightarrow> (client_error, string \<Rightarrow> sla_status option) result" where
  "task_sla_statuses summarise lookup ps =
     (let ids = map sp_sys_id (filter (\<lambda>p. is_task_sla_applicable_table (sp_table p)) ps)
      in bind_ok (if ids = [] then Inr (\<lambda>_. None) else lookup ids) (\<lambda>by_task.
        Inr (map_of (rev (map (\<lambda>p. (sp_sys_id p, status_of_parent summarise by_task p)) ps)))))"

subsection \<open>The queue\<close>

definition queue_default_scan_limit :: nat where
  "queue_default_scan_limit = 2000"

definition queue_max_scan_limit :: nat where
  "queue_max_scan_limit = 5000"

definition queue_max_known :: nat where
  "queue_max_known = 1000"

record assignment_group =
  ag_sys_id :: string
  ag_name :: string

datatype queue_sort = SortPriority | SortOpenedAt | SortUpdatedAt | SortAssignee | SortSlaRisk

datatype sort_direction = Ascending | Descending

datatype sla_risk = RiskAny | RiskHealthy | RiskAtRisk | RiskBreached | RiskUnavailable

record queue_input =
  qi_group :: string
  qi_state :: "string option"
  qi_assigned_to :: "string option"
  qi_priorities :: "nat list"
  qi_opened_after :: "string option"
  qi_opened_before :: "string option"
  qi_updated_since :: "string option"
  qi_updated_before :: "string option"
  qi_stale_before :: "string option"
  qi_stale_only :: bool
  qi_sla_risk :: sla_risk
  qi_at_risk :: rat
  qi_sort_by :: queue_sort
  qi_direction :: sort_direction
  qi_limit :: "nat option"
  qi_offset :: "nat option"
  qi_scan_limit :: "nat option"
  qi_known :: "string list"

text \<open>The parts of \<open>SnowRecord\<close> the queue reads; a journal entry is its time and its text.\<close>

record incident_record =
  ir_sys_id :: string
  ir_number :: string
  ir_table :: string
  ir_state :: string
  ir_field :: "string \<Rightarrow> string option"
  ir_assignee :: "string option"
  ir_work_notes :: "(time \<times> string) list"
  ir_comments :: "(time \<times> string) list"

record queue_item =
  qt_record :: incident_record
  qt_sla :: sla_status
  qt_latest :: "(time \<times> string) option"

record queue_aggregates =
  qa_by_state :: "(string, nat) btree"
  qa_by_priority :: "(string, nat) btree"
  qa_by_assignee :: "(string, nat) btree"
  qa_by_sla :: "(string, nat) btree"
  qa_unassigned :: nat
  qa_stale :: nat
  qa_complete :: bool

record queue_page =
  qp_group :: assignment_group
  qp_items :: "queue_item list"
  qp_offset :: nat
  qp_next :: "nat option"
  qp_complete :: bool
  qp_scan_complete :: bool
  qp_scanned :: nat
  qp_watermark :: string
  qp_departed :: "string list"
  qp_aggregates :: queue_aggregates

datatype queue_error =
    QueueInvalid string
  | GroupNotFound string "assignment_group list"
  | AmbiguousGroup string "assignment_group list"
  | QueueRead live_error
  | QueueClient client_error
  | QueueFailed string

record queue_env =
  qe_live :: live_env
  qe_now :: time
  qe_format :: "time \<Rightarrow> string"
  qe_current_user :: "(string, string) result"
  qe_user_ref :: "string \<Rightarrow> (string, string) result"
  qe_paginate :: "live_query \<Rightarrow> (client_error, pages) result"
  qe_slas :: "string list \<Rightarrow> (client_error, string \<Rightarrow> task_sla list option) result"
  qe_summarise :: "task_sla list \<Rightarrow> client_summary"
  qe_record :: "snow_row \<Rightarrow> incident_record"

subsection \<open>The input\<close>

record valid_queue =
  vq_limit :: nat
  vq_offset :: nat
  vq_scan_limit :: nat
  vq_known :: "string list"

definition within_bounds :: "nat \<Rightarrow> nat \<Rightarrow> string \<Rightarrow> nat \<Rightarrow> (queue_error, unit) result" where
  "within_bounds a b message n = (if a \<le> n \<and> n \<le> b then Inr () else Inl (QueueInvalid message))"

definition require :: "bool \<Rightarrow> string \<Rightarrow> (queue_error, unit) result" where
  "require b message = (if b then Inr () else Inl (QueueInvalid message))"

definition queue_stamp :: "(string \<Rightarrow> bool) \<Rightarrow> string \<Rightarrow> string option \<Rightarrow> (queue_error, unit) result" where
  "queue_stamp stamp name v = (case v of
       None \<Rightarrow> Inr ()
     | Some s \<Rightarrow> require (stamp (trim s)) (name @ '' must use YYYY-MM-DD HH:MM:SS''))"

fun each_known :: "string list \<Rightarrow> string list \<Rightarrow> (queue_error, string list) result" where
  "each_known seen [] = Inr []"
| "each_known seen (k # ks) =
     bind_ok (map_err QueueFailed (normalize_record_lookup_sys_id k)) (\<lambda>i.
     bind_ok (each_known (i # seen) ks) (\<lambda>is. Inr (if i \<in> set seen then is else i # is)))"

definition validate_queue_input ::
  "(string \<Rightarrow> bool) \<Rightarrow> queue_input \<Rightarrow> (queue_error, valid_queue) result" where
  "validate_queue_input stamp q =
     (let limit = or_else (qi_limit q) group_list_default_limit;
          offset = or_else (qi_offset q) 0;
          scan = or_else (qi_scan_limit q) queue_default_scan_limit
      in bind_ok (require (trim (qi_group q) \<noteq> []) ''group must not be empty'') (\<lambda>_.
         bind_ok (within_bounds 1 group_list_max_limit ''limit must be between 1 and 200'' limit) (\<lambda>_.
         bind_ok (within_bounds 1 queue_max_scan_limit ''scan_limit must be between 1 and 5000'' scan) (\<lambda>_.
         bind_ok (require (offset < scan) ''offset must be smaller than scan_limit'') (\<lambda>_.
         bind_ok (require (length (qi_known q) \<le> queue_max_known)
            ''known_sys_ids must contain at most 1000 entries'') (\<lambda>_.
         bind_ok (require (0 \<le> qi_at_risk q \<and> qi_at_risk q \<le> 100)
            ''sla_at_risk_percentage must be between 0 and 100'') (\<lambda>_.
         bind_ok (require (list_all (\<lambda>p. 1 \<le> p \<and> p \<le> 5) (qi_priorities q))
            ''priorities must contain only values from 1 through 5'') (\<lambda>_.
         bind_ok (queue_stamp stamp ''opened_after'' (qi_opened_after q)) (\<lambda>_.
         bind_ok (queue_stamp stamp ''opened_before'' (qi_opened_before q)) (\<lambda>_.
         bind_ok (queue_stamp stamp ''updated_since'' (qi_updated_since q)) (\<lambda>_.
         bind_ok (queue_stamp stamp ''updated_before'' (qi_updated_before q)) (\<lambda>_.
         bind_ok (queue_stamp stamp ''stale_before'' (qi_stale_before q)) (\<lambda>_.
         bind_ok (each_known [] (qi_known q)) (\<lambda>known.
           Inr \<lparr>vq_limit = limit, vq_offset = offset, vq_scan_limit = scan, vq_known = known\<rparr>))))))))))))))"

definition resolve_queue_group ::
  "string \<Rightarrow> assignment_group list \<Rightarrow> (queue_error, assignment_group) result" where
  "resolve_queue_group selector groups =
     (let s = trim selector
      in case filter (\<lambda>g. eq_ignore_case (ag_sys_id g) s \<or> eq_ignore_case (ag_name g) s) groups of
           [g] \<Rightarrow> Inr g
         | [] \<Rightarrow> Inl (GroupNotFound s groups)
         | found \<Rightarrow> Inl (AmbiguousGroup s found))"

subsection \<open>Memberships\<close>

definition group_of_row :: "snow_row \<Rightarrow> assignment_group option" where
  "group_of_row row =
     (if (case rw_str row ''group.active'' of Some a \<Rightarrow> trim a \<in> set [''false'', ''0''] | None \<Rightarrow> False) then None
      else Option.bind (or_try (rw_raw row ''group'') (rw_str row ''group'')) (\<lambda>v.
        case normalize_record_lookup_sys_id v of
          Inl _ \<Rightarrow> None
        | Inr i \<Rightarrow> Some \<lparr>ag_sys_id = i, ag_name = or_else
            (given (or_try (rw_str row ''group.name'') (rw_display row ''group''))) i\<rparr>))"

definition add_group :: "snow_row \<Rightarrow> (string, assignment_group) btree \<Rightarrow> (string, assignment_group) btree" where
  "add_group row groups = (case group_of_row row of
       None \<Rightarrow> groups
     | Some g \<Rightarrow> if bt_get groups (ag_sys_id g) = None then bt_insert (ag_sys_id g) g groups else groups)"

text \<open>At most 20 pages; \<open>n\<close> pages were read.\<close>

fun read_groups ::
  "(nat \<Rightarrow> bool) \<Rightarrow> nat \<Rightarrow> (api_error, snow_row list) result list \<Rightarrow> (string, assignment_group) btree
     \<Rightarrow> (queue_error, (string, assignment_group) btree) result" where
  "read_groups is_done n replies groups =
     (if 20 \<le> n
      then (if is_done n then Inr groups
            else Inl (QueueFailed ''assignment-group membership lookup exceeded 10000 rows''))
      else case replies of
          [] \<Rightarrow> Inr groups
        | Inl e # later \<Rightarrow> Inl (QueueRead (TablesFailed e))
        | Inr rows # later \<Rightarrow> read_groups is_done (n + 1) later (fold add_group rows groups))"

definition member_query :: "string \<Rightarrow> live_query" where
  "member_query user = \<lparr>lq_table = ''sys_user_grmember'',
     lq_fields = [''sys_id'', ''group'', ''group.name'', ''group.active''],
     lq_clauses = [Equals ''user'' user], lq_order = [], lq_limit = 500\<rparr>"

definition group_order :: "assignment_group \<Rightarrow> assignment_group \<Rightarrow> bool" where
  "group_order = then_by (\<lambda>g. to_lower (ag_name g)) (by_key ag_sys_id)"

definition assignment_groups :: "queue_env \<Rightarrow> (queue_error, assignment_group list) result" where
  "assignment_groups env =
     bind_ok (map_err QueueFailed (qe_current_user env)) (\<lambda>user.
     bind_ok (map_err QueueClient (qe_paginate env (member_query user))) (\<lambda>p.
     bind_ok (read_groups (pg_done p) 0 (pg_replies p) []) (\<lambda>groups.
       Inr (sort_by group_order (map snd groups)))))"

subsection \<open>The rows of the queue\<close>

definition incident_queue_fields :: "string list" where
  "incident_queue_fields = [''sys_id'', ''number'', ''short_description'', ''description'', ''state'', ''priority'',
     ''impact'', ''urgency'', ''opened_at'', ''assigned_to'', ''assignment_group'', ''caller_id'', ''cmdb_ci'',
     ''business_service'', ''hold_reason'', ''active'', ''sys_updated_on'', ''sys_mod_count'', ''work_notes'',
     ''comments'']"

datatype queue_assignee = Unassigned | AssignedUser string

definition resolved_assignee ::
  "queue_env \<Rightarrow> string option \<Rightarrow> (queue_error, queue_assignee option) result" where
  "resolved_assignee env v = (case given v of
       None \<Rightarrow> Inr None
     | Some s \<Rightarrow>
         if eq_ignore_case s ''unassigned'' then Inr (Some Unassigned)
         else if eq_ignore_case s ''me''
         then bind_ok (map_err QueueFailed (qe_current_user env)) (\<lambda>u. Inr (Some (AssignedUser u)))
         else (case normalize_record_lookup_sys_id s of
             Inr i \<Rightarrow> Inr (Some (AssignedUser i))
           | Inl _ \<Rightarrow> bind_ok (map_err QueueFailed (qe_user_ref env s)) (\<lambda>u. Inr (Some (AssignedUser u)))))"

definition assignee_clause :: "queue_assignee \<Rightarrow> clause" where
  "assignee_clause a = (case a of Unassigned \<Rightarrow> IsEmpty ''assigned_to'' | AssignedUser u \<Rightarrow> Equals ''assigned_to'' u)"

definition day :: time where
  "day = secs 86400"

definition stale_before :: "queue_env \<Rightarrow> queue_input \<Rightarrow> string" where
  "stale_before env q = or_else (qi_stale_before q) (qe_format env (qe_now env - day))"

definition queue_clauses ::
  "queue_input \<Rightarrow> assignment_group \<Rightarrow> incident_choice option \<Rightarrow> queue_assignee option \<Rightarrow> string \<Rightarrow> clause list" where
  "queue_clauses q g st assignee stale =
     [Equals ''assignment_group'' (ag_sys_id g), Equals ''active'' ''true'']
     @ optionally (\<lambda>c. Equals ''state'' (nc_value c)) st
     @ optionally assignee_clause assignee
     @ in_list_clause ''priority'' (map nat_text (qi_priorities q))
     @ optionally (GreaterThan ''opened_at'') (qi_opened_after q)
     @ optionally (LessThan ''opened_at'') (qi_opened_before q)
     @ optionally (GreaterThan ''sys_updated_on'') (qi_updated_since q)
     @ optionally (LessThan ''sys_updated_on'') (qi_updated_before q)
     @ (if qi_stale_only q then [LessThan ''sys_updated_on'' stale] else [])"

definition queue_query :: "clause list \<Rightarrow> live_query" where
  "queue_query cs = \<lparr>lq_table = ''incident'', lq_fields = incident_queue_fields, lq_clauses = cs,
     lq_order = ''sys_id'', lq_limit = 200\<rparr>"

text \<open>The scan: \<open>n\<close> pages were read; the flag says that the result set was exhausted.\<close>

fun scan_rows ::
  "nat \<Rightarrow> (nat \<Rightarrow> bool) \<Rightarrow> nat \<Rightarrow> (api_error, snow_row list) result list \<Rightarrow> snow_row list
     \<Rightarrow> (queue_error, snow_row list \<times> bool) result" where
  "scan_rows limit is_done n replies rows =
     (if limit \<le> length rows then Inr (rows, False)
      else case replies of
          [] \<Rightarrow> Inr (rows, True)
        | Inl e # later \<Rightarrow> Inl (QueueRead (TablesFailed e))
        | Inr page # later \<Rightarrow>
            (let remaining = limit - length rows; rows' = rows @ take remaining page
             in if remaining < length page then Inr (rows', False)
                else if is_done (n + 1) then Inr (rows', True)
                else scan_rows limit is_done (n + 1) later rows'))"

definition sla_parent_of :: "incident_record \<Rightarrow> sla_parent" where
  "sla_parent_of r = \<lparr>sp_number = ir_number r, sp_table = ''incident'', sp_sys_id = ir_sys_id r\<rparr>"

definition unavailable_incident_sla :: "incident_record \<Rightarrow> sla_status" where
  "unavailable_incident_sla r = \<lparr>st_parent = \<lparr>sp_number = ir_number r, sp_table = ir_table r, sp_sys_id = ir_sys_id r\<rparr>,
     st_rows = [], st_summary = zero_summary, st_readable = EmptyOrAclRestricted\<rparr>"

datatype sla_bucket = BucketUnavailable | BucketHealthy | BucketAtRisk | BucketBreached

fun bucket_rank :: "sla_bucket \<Rightarrow> nat" where
  "bucket_rank BucketUnavailable = 0"
| "bucket_rank BucketHealthy = 1"
| "bucket_rank BucketAtRisk = 2"
| "bucket_rank BucketBreached = 3"

fun bucket_label :: "sla_bucket \<Rightarrow> string" where
  "bucket_label BucketUnavailable = ''unavailable''"
| "bucket_label BucketHealthy = ''healthy''"
| "bucket_label BucketAtRisk = ''at_risk''"
| "bucket_label BucketBreached = ''breached''"

fun bucket_matches :: "sla_bucket \<Rightarrow> sla_risk \<Rightarrow> bool" where
  "bucket_matches b RiskAny = True"
| "bucket_matches b RiskUnavailable = (b = BucketUnavailable)"
| "bucket_matches b RiskHealthy = (b = BucketHealthy)"
| "bucket_matches b RiskAtRisk = (b = BucketAtRisk)"
| "bucket_matches b RiskBreached = (b = BucketBreached)"

definition incident_sla_bucket :: "sla_status \<Rightarrow> rat \<Rightarrow> sla_bucket" where
  "incident_sla_bucket s threshold =
     (if st_readable s \<noteq> ReadableRows then BucketUnavailable
      else if 0 < su_breached (st_summary s) then BucketBreached
      else if (case su_highest (st_summary s) of Some p \<Rightarrow> threshold \<le> p | None \<Rightarrow> False) then BucketAtRisk
      else BucketHealthy)"

text \<open>\<open>max_by_key\<close> returns the last of several maxima.\<close>

definition latest_entry :: "(time \<times> string) list \<Rightarrow> (time \<times> string) option" where
  "latest_entry es = foldl (\<lambda>m e. case m of None \<Rightarrow> Some e | Some x \<Rightarrow> if fst x \<le> fst e then Some e else Some x) None es"

definition latest_incident_activity :: "incident_record \<Rightarrow> (time \<times> string) option" where
  "latest_incident_activity r = latest_entry (ir_work_notes r @ ir_comments r)"

definition incident_field_value :: "incident_record \<Rightarrow> string \<Rightarrow> string" where
  "incident_field_value r field = or_else (ir_field r field) []"

definition incident_assignee_label :: "incident_record \<Rightarrow> string" where
  "incident_assignee_label r = (case ir_assignee r of
     Some d \<Rightarrow> if trim d = [] then ''unassigned'' else d | None \<Rightarrow> ''unassigned'')"

definition queue_item_of ::
  "(string \<Rightarrow> sla_status option) \<Rightarrow> incident_record \<Rightarrow> queue_item" where
  "queue_item_of statuses r = \<lparr>qt_record = r, qt_sla = or_else (statuses (ir_sys_id r)) (unavailable_incident_sla r),
     qt_latest = latest_incident_activity r\<rparr>"

text \<open>A status is taken out of the map, so a second record of the same \<open>sys_id\<close> finds none.\<close>

fun queue_items_of ::
  "(string \<Rightarrow> sla_status option) \<Rightarrow> incident_record list \<Rightarrow> queue_item list" where
  "queue_items_of statuses [] = []"
| "queue_items_of statuses (r # rs) =
     queue_item_of statuses r # queue_items_of (statuses(ir_sys_id r := None)) rs"

subsection \<open>Order and counts\<close>

text \<open>\<open>str::parse::<u8>\<close>: digits after an optional plus sign.\<close>

definition parse_u8 :: "string \<Rightarrow> nat option" where
  "parse_u8 s = (let ds = (case s of [] \<Rightarrow> [] | c # cs \<Rightarrow> if c = CHR ''+'' then cs else s)
     in if ds \<noteq> [] \<and> list_all is_digit ds \<and> digits_value ds \<le> 255 then Some (nat (digits_value ds)) else None)"

definition priority_rank :: "queue_item \<Rightarrow> nat" where
  "priority_rank x = or_else (parse_u8 (incident_field_value (qt_record x) ''priority'')) 255"

definition directed :: "sort_direction \<Rightarrow> (queue_item \<Rightarrow> 'a::linorder) \<Rightarrow> queue_item \<Rightarrow> queue_item \<Rightarrow> bool" where
  "directed d k = (case d of
     Ascending \<Rightarrow> then_by k (by_key (\<lambda>x. ir_sys_id (qt_record x)))
   | Descending \<Rightarrow> then_by_desc k (by_key (\<lambda>x. ir_sys_id (qt_record x))))"

definition queue_order :: "queue_sort \<Rightarrow> sort_direction \<Rightarrow> rat \<Rightarrow> queue_item \<Rightarrow> queue_item \<Rightarrow> bool" where
  "queue_order by d threshold = (case by of
     SortPriority \<Rightarrow> directed d priority_rank
   | SortOpenedAt \<Rightarrow> directed d (\<lambda>x. incident_field_value (qt_record x) ''opened_at'')
   | SortUpdatedAt \<Rightarrow> directed d (\<lambda>x. incident_field_value (qt_record x) ''sys_updated_on'')
   | SortAssignee \<Rightarrow> directed d (\<lambda>x. to_lower (incident_assignee_label (qt_record x)))
   | SortSlaRisk \<Rightarrow> directed d (\<lambda>x. bucket_rank (incident_sla_bucket (qt_sla x) threshold)))"

definition bump :: "string \<Rightarrow> (string, nat) btree \<Rightarrow> (string, nat) btree" where
  "bump k m = bt_insert k (Suc (or_else (bt_get m k) 0)) m"

definition count_item :: "string \<Rightarrow> rat \<Rightarrow> queue_item \<Rightarrow> queue_aggregates \<Rightarrow> queue_aggregates" where
  "count_item stale threshold x a =
     (let r = qt_record x; label = incident_assignee_label r
      in a\<lparr>qa_by_state := bump (ir_state r) (qa_by_state a),
           qa_by_priority := bump (incident_field_value r ''priority'') (qa_by_priority a),
           qa_by_assignee := bump label (qa_by_assignee a),
           qa_by_sla := bump (bucket_label (incident_sla_bucket (qt_sla x) threshold)) (qa_by_sla a),
           qa_unassigned := (if label = ''unassigned'' then qa_unassigned a + 1 else qa_unassigned a),
           qa_stale := (if incident_field_value r ''sys_updated_on'' < stale then qa_stale a + 1 else qa_stale a)\<rparr>)"

definition queue_aggregates_of :: "queue_item list \<Rightarrow> string \<Rightarrow> rat \<Rightarrow> bool \<Rightarrow> queue_aggregates" where
  "queue_aggregates_of items stale threshold exhausted =
     fold (count_item stale threshold) items
       \<lparr>qa_by_state = [], qa_by_priority = [], qa_by_assignee = [], qa_by_sla = [], qa_unassigned = 0,
        qa_stale = 0, qa_complete = exhausted\<rparr>"

subsection \<open>Departures\<close>

definition departure_query :: "string list \<Rightarrow> live_query" where
  "departure_query ids = \<lparr>lq_table = ''incident'',
     lq_fields = [''sys_id'', ''state'', ''active'', ''assignment_group''],
     lq_clauses = [InList ''sys_id'' ids], lq_order = [], lq_limit = length ids\<rparr>"

function read_known ::
  "live_env \<Rightarrow> string list \<Rightarrow> (string \<Rightarrow> snow_row option) \<Rightarrow> (queue_error, string \<Rightarrow> snow_row option) result" where
  "read_known env ids found =
     (if ids = [] then Inr found
      else bind_ok (map_err QueueClient (le_execute env (departure_query (take 100 ids)))) (\<lambda>r.
        read_known env (drop 100 ids) (foldl (\<lambda>m row. m(rw_sys_id row \<mapsto> row)) found (rp_rows r))))"
  by pat_completeness auto

termination
  by (relation "measure (\<lambda>(env, ids, found). length ids)") auto

declare read_known.simps [simp del]

definition stays :: "string \<Rightarrow> snow_row \<Rightarrow> bool" where
  "stays group_id row = (or_try (rw_raw row ''assignment_group'') (rw_str row ''assignment_group'') = Some group_id
     \<and> is_open_user_work row)"

definition incident_departures ::
  "live_env \<Rightarrow> string \<Rightarrow> string list \<Rightarrow> (queue_error, string list) result" where
  "incident_departures env group_id known =
     (if known = [] then Inr []
      else bind_ok (read_known env known (\<lambda>_. None)) (\<lambda>found.
        Inr (sort (filter (\<lambda>i. case found i of None \<Rightarrow> True | Some row \<Rightarrow> \<not> stays group_id row) known))))"

subsection \<open>The operation\<close>

definition scan_queue ::
  "queue_env \<Rightarrow> queue_input \<Rightarrow> valid_queue \<Rightarrow> assignment_group \<Rightarrow> (queue_error, snow_row list \<times> bool) result" where
  "scan_queue env q v g =
     bind_ok (map_err QueueRead (resolved_incident_state (qe_live env) (qi_state q))) (\<lambda>st.
     bind_ok (resolved_assignee env (qi_assigned_to q)) (\<lambda>assignee.
     bind_ok (map_err QueueClient (qe_paginate env
        (queue_query (queue_clauses q g st assignee (stale_before env q))))) (\<lambda>p.
       scan_rows (vq_scan_limit v) (pg_done p) 0 (pg_replies p) [])))"

text \<open>The filtered and sorted items of the scanned rows.\<close>

definition queue_items ::
  "queue_env \<Rightarrow> queue_input \<Rightarrow> snow_row list \<Rightarrow> (queue_error, queue_item list) result" where
  "queue_items env q rows =
     (let records = map (qe_record env) (filter is_open_user_work rows)
      in bind_ok (map_err QueueClient (task_sla_statuses (qe_summarise env) (qe_slas env) (map sla_parent_of records)))
        (\<lambda>statuses. Inr (sort_by (queue_order (qi_sort_by q) (qi_direction q) (qi_at_risk q))
          (filter (\<lambda>x. bucket_matches (incident_sla_bucket (qt_sla x) (qi_at_risk q)) (qi_sla_risk q))
            (queue_items_of statuses records)))))"

definition queue_page_of ::
  "queue_env \<Rightarrow> queue_input \<Rightarrow> valid_queue \<Rightarrow> assignment_group \<Rightarrow> snow_row list \<Rightarrow> bool \<Rightarrow> queue_item list
     \<Rightarrow> string list \<Rightarrow> queue_page" where
  "queue_page_of env q v g rows scan_complete items departed =
     (let shown = take (vq_limit v) (drop (vq_offset v) items);
          consumed = vq_offset v + length shown;
          following = (if consumed < length items then Some consumed else None)
      in \<lparr>qp_group = g, qp_items = shown, qp_offset = vq_offset v, qp_next = following,
          qp_complete = (scan_complete \<and> following = None), qp_scan_complete = scan_complete,
          qp_scanned = length rows, qp_watermark = qe_format env (qe_now env), qp_departed = departed,
          qp_aggregates = queue_aggregates_of items (stale_before env q) (qi_at_risk q) scan_complete\<rparr>)"

definition incident_queue :: "queue_env \<Rightarrow> queue_input \<Rightarrow> (queue_error, queue_page) result" where
  "incident_queue env q =
     bind_ok (validate_queue_input (le_stamp (qe_live env)) q) (\<lambda>v.
     bind_ok (assignment_groups env) (\<lambda>groups.
     bind_ok (resolve_queue_group (qi_group q) groups) (\<lambda>g.
     bind_ok (scan_queue env q v g) (\<lambda>(rows, scan_complete).
     bind_ok (queue_items env q rows) (\<lambda>items.
     bind_ok (incident_departures (qe_live env) (ag_sys_id g) (vq_known v)) (\<lambda>departed.
       Inr (queue_page_of env q v g rows scan_complete items departed)))))))"

end
