(* ===== verification/Queue_Properties.thy ===== *)
theory Queue_Properties
  imports Incident_Queue Live_Properties
begin

text \<open>
  The guarantees of the incident queue: its pages enumerate the scanned, filtered and sorted items, its
  counts are those of the whole queue, and a complete page has seen the whole result set.
\<close>

subsection \<open>The scan\<close>

declare scan_rows.simps [simp del]

lemmas scan_rows_run = trans [OF scan_rows.simps [symmetric]]

lemma scan_rows_bound:
  assumes "scan_rows limit is_done n replies rows = Inr (out, exhausted)" "length rows \<le> limit"
  shows "length out \<le> limit"
  using assms
proof (induction limit is_done n replies rows rule: scan_rows.induct)
  case (1 limit is_done n replies rows)
  note run = scan_rows_run [OF "1.prems"(1)]
  show ?case
  proof (cases "limit \<le> length rows \<or> replies = []")
    case True
    then show ?thesis using run "1.prems"(2) by (auto split: if_splits)
  next
    case False
    then obtain reply later where replies: "replies = reply # later" by (cases replies) auto
    obtain page where page: "reply = Inr page"
      using run False by (cases reply) (auto simp: replies)
    show ?thesis
      using run "1.prems"(2) False "1.IH" [OF _ replies page refl refl]
      by (auto simp: replies page Let_def min_def split: if_splits)
  qed
qed

text \<open>An exhausted scan has read every page.\<close>

lemma scan_rows_all:
  assumes "scan_rows limit is_done n replies rows = Inr (out, True)"
    and last: "\<And>k. is_done k \<Longrightarrow> n + length replies \<le> k"
  shows "\<exists>pages. replies = map Inr pages \<and> out = rows @ concat pages"
  using assms
proof (induction limit is_done n replies rows rule: scan_rows.induct)
  case (1 limit is_done n replies rows)
  note run = scan_rows_run [OF "1.prems"(1)]
  have small: "length rows < limit" using run by (auto split: if_splits)
  show ?case
  proof (cases replies)
    case Nil
    then show ?thesis using run small by simp
  next
    case (Cons reply later)
    obtain page where page: "reply = Inr page"
      using run small by (cases reply) (auto simp: Cons)
    let ?rows = "rows @ take (limit - length rows) page"
    have fits: "length page \<le> limit - length rows"
      and onward: "is_done (n + 1) \<and> out = ?rows \<or> scan_rows limit is_done (n + 1) later ?rows = Inr (out, True)"
      using run small by (auto simp: Cons page Let_def split: if_splits)
    show ?thesis
    proof (cases "is_done (n + 1)")
      case True
      then have "later = []" using "1.prems"(2) [of "n + 1"] by (simp add: Cons)
      moreover have "out = ?rows" using run small fits True by (simp add: Cons page Let_def split: if_splits)
      ultimately show ?thesis using fits by (intro exI [of _ "[page]"]) (simp add: Cons page)
    next
      case False
      then have rest: "scan_rows limit is_done (n + 1) later ?rows = Inr (out, True)" using onward by simp
      have "\<exists>pages. later = map Inr pages \<and> out = ?rows @ concat pages"
        by (rule "1.IH" [OF _ Cons page refl refl _ False rest])
           (use small fits "1.prems"(2) in \<open>auto simp: Cons\<close>)
      then obtain pages where "later = map Inr pages" "out = ?rows @ concat pages" by blast
      then show ?thesis using fits by (intro exI [of _ "page # pages"]) (simp add: Cons page)
    qed
  qed
qed

subsection \<open>Items and counts\<close>

lemma directed_comparison: "comparison (directed d k)"
  by (cases d) (auto simp: directed_def)

interpretation queue_order: comparison "queue_order by d threshold" for "by" d threshold
  by (cases "by") (simp_all add: queue_order_def directed_comparison)

lemma length_queue_items_of: "length (queue_items_of statuses rs) = length rs"
  by (induction rs arbitrary: statuses) simp_all

text \<open>Which SLA statuses a filter asks for.\<close>

fun risk_wanted :: "sla_risk \<Rightarrow> rat \<Rightarrow> sla_status \<Rightarrow> bool" where
  "risk_wanted RiskAny at_risk s = True"
| "risk_wanted RiskUnavailable at_risk s = (st_readable s \<noteq> ReadableRows)"
| "risk_wanted RiskBreached at_risk s = (st_readable s = ReadableRows \<and> su_breached (st_summary s) \<noteq> 0)"
| "risk_wanted RiskAtRisk at_risk s = (st_readable s = ReadableRows \<and> su_breached (st_summary s) = 0
     \<and> (\<exists>p. su_highest (st_summary s) = Some p \<and> at_risk \<le> p))"
| "risk_wanted RiskHealthy at_risk s = (st_readable s = ReadableRows \<and> su_breached (st_summary s) = 0
     \<and> \<not> (\<exists>p. su_highest (st_summary s) = Some p \<and> at_risk \<le> p))"

lemma bucket_risk:
  "bucket_matches (incident_sla_bucket s at_risk) risk = risk_wanted risk at_risk s"
  "(bucket_label (incident_sla_bucket s at_risk) = ''unavailable'') = risk_wanted RiskUnavailable at_risk s"
  "(bucket_label (incident_sla_bucket s at_risk) = ''healthy'') = risk_wanted RiskHealthy at_risk s"
  "(bucket_label (incident_sla_bucket s at_risk) = ''at_risk'') = risk_wanted RiskAtRisk at_risk s"
  "(bucket_label (incident_sla_bucket s at_risk) = ''breached'') = risk_wanted RiskBreached at_risk s"
  by (cases risk) (auto simp: incident_sla_bucket_def split: option.splits)

text \<open>The item of the \<open>i\<close>-th record: the first record of a \<open>sys_id\<close> has the status looked up for it, a
  repeated one has none.\<close>

definition queue_entry :: "(string \<Rightarrow> sla_status option) \<Rightarrow> incident_record list \<Rightarrow> nat \<Rightarrow> queue_item" where
  "queue_entry statuses rs i = (let r = rs ! i in
     \<lparr>qt_record = r,
      qt_sla = (case (if list_ex (\<lambda>before. ir_sys_id before = ir_sys_id r) (take i rs) then None else statuses (ir_sys_id r)) of
          None \<Rightarrow> unavailable_incident_sla r | Some s \<Rightarrow> s),
      qt_latest = latest_incident_activity r\<rparr>)"

lemma queue_items_of_entries: "queue_items_of statuses rs = map (queue_entry statuses rs) [0..<length rs]"
proof (induction rs arbitrary: statuses)
  case (Cons r rs)
  have "queue_entry statuses (r # rs) (Suc i) = queue_entry (statuses(ir_sys_id r := None)) rs i" for i
    by (simp add: queue_entry_def Let_def)
  then show ?case
    using Cons by (simp add: upt_conv_Cons map_Suc_upt [symmetric] queue_entry_def queue_item_of_def or_else_def Let_def
        del: upt_Suc split: option.split)
qed simp

text \<open>What the queue of scanned rows is: the open ones whose SLA status the filter wants, sorted.\<close>

definition queue_of :: "queue_env \<Rightarrow> queue_input \<Rightarrow> snow_row list \<Rightarrow> queue_item list \<Rightarrow> bool" where
  "queue_of env q rows items \<longleftrightarrow>
     (let records = map (qe_record env) (filter is_open_user_work rows)
      in \<exists>statuses. task_sla_statuses (qe_summarise env) (qe_slas env) (map sla_parent_of records) = Inr statuses
         \<and> mset items = mset (filter (\<lambda>x. risk_wanted (qi_sla_risk q) (qi_at_risk q) (qt_sla x))
             (map (queue_entry statuses records) [0..<length records])))
     \<and> sorted_wrt (queue_order (qi_sort_by q) (qi_direction q) (qi_at_risk q)) items"

lemma queue_items_spec:
  assumes "queue_items env q rows = Inr items"
  shows "queue_of env q rows items"
proof -
  let ?records = "map (qe_record env) (filter is_open_user_work rows)"
  obtain statuses where st: "task_sla_statuses (qe_summarise env) (qe_slas env) (map sla_parent_of ?records) = Inr statuses"
    and items: "items = sort_by (queue_order (qi_sort_by q) (qi_direction q) (qi_at_risk q))
      (filter (\<lambda>x. bucket_matches (incident_sla_bucket (qt_sla x) (qi_at_risk q)) (qi_sla_risk q))
        (queue_items_of statuses ?records))"
    using assms by (auto simp: queue_items_def bind_ok_Inr Let_def)
  have "sorted_wrt (queue_order (qi_sort_by q) (qi_direction q) (qi_at_risk q)) items"
    unfolding items by (rule queue_order.sorted)
  then show ?thesis
    using st unfolding queue_of_def Let_def items
    by (simp only: mset_sort_by bucket_risk(1) queue_items_of_entries) blast
qed

lemma queue_of_length:
  assumes "queue_of env q rows items"
  shows "length items \<le> length rows"
proof -
  let ?records = "map (qe_record env) (filter is_open_user_work rows)"
  obtain statuses where "mset items = mset (filter (\<lambda>x. risk_wanted (qi_sla_risk q) (qi_at_risk q) (qt_sla x))
      (map (queue_entry statuses ?records) [0..<length ?records]))"
    using assms by (auto simp: queue_of_def Let_def)
  then have "length items = length (filter (\<lambda>x. risk_wanted (qi_sla_risk q) (qi_at_risk q) (qt_sla x))
      (map (queue_entry statuses ?records) [0..<length ?records]))"
    by (metis size_mset)
  also have "\<dots> \<le> length ?records" by (rule order_trans [OF length_filter_le]) simp
  also have "\<dots> \<le> length rows" by simp
  finally show ?thesis .
qed

text \<open>The counts of a queue, stated over its items.\<close>

definition number_of :: "queue_item list \<Rightarrow> (queue_item \<Rightarrow> bool) \<Rightarrow> nat" where
  "number_of items P = length (filter P items)"

definition counted :: "(string, nat) btree \<Rightarrow> string \<Rightarrow> nat" where
  "counted m k = (case bt_get m k of None \<Rightarrow> 0 | Some n \<Rightarrow> n)"

definition field_text :: "string \<Rightarrow> queue_item \<Rightarrow> string" where
  "field_text f x = (case ir_field (qt_record x) f of None \<Rightarrow> [] | Some v \<Rightarrow> v)"

definition nobody :: "queue_item \<Rightarrow> bool" where
  "nobody x = (case ir_assignee (qt_record x) of None \<Rightarrow> True | Some d \<Rightarrow> trim d = [] \<or> d = ''unassigned'')"

definition aggregates_of :: "queue_item list \<Rightarrow> rat \<Rightarrow> string \<Rightarrow> queue_aggregates \<Rightarrow> bool" where
  "aggregates_of items at_risk stale a \<longleftrightarrow>
     (\<forall>v. counted (qa_by_state a) v = number_of items (\<lambda>x. ir_state (qt_record x) = v))
     \<and> (\<forall>v. counted (qa_by_priority a) v = number_of items (\<lambda>x. field_text ''priority'' x = v))
     \<and> (\<forall>v. counted (qa_by_assignee a) v = number_of items (\<lambda>x. incident_assignee_label (qt_record x) = v))
     \<and> counted (qa_by_sla a) ''unavailable'' = number_of items (\<lambda>x. risk_wanted RiskUnavailable at_risk (qt_sla x))
     \<and> counted (qa_by_sla a) ''healthy'' = number_of items (\<lambda>x. risk_wanted RiskHealthy at_risk (qt_sla x))
     \<and> counted (qa_by_sla a) ''at_risk'' = number_of items (\<lambda>x. risk_wanted RiskAtRisk at_risk (qt_sla x))
     \<and> counted (qa_by_sla a) ''breached'' = number_of items (\<lambda>x. risk_wanted RiskBreached at_risk (qt_sla x))
     \<and> qa_unassigned a = number_of items nobody
     \<and> qa_stale a = number_of items (\<lambda>x. field_text ''sys_updated_on'' x < stale)"

lemma counted_bump: "counted (bump k m) j = counted m j + (if j = k then 1 else 0)"
  by (cases "j = k") (simp_all add: counted_def bump_def bt_get_insert_other or_else_def split: option.split)

lemma counted_Nil [simp]: "counted [] k = 0"
  by (simp add: counted_def)

lemma fold_counts:
  "counted (qa_by_state (fold (count_item stale threshold) xs a)) v
     = counted (qa_by_state a) v + number_of xs (\<lambda>x. ir_state (qt_record x) = v)"
  "counted (qa_by_priority (fold (count_item stale threshold) xs a)) v
     = counted (qa_by_priority a) v + number_of xs (\<lambda>x. field_text ''priority'' x = v)"
  "counted (qa_by_assignee (fold (count_item stale threshold) xs a)) v
     = counted (qa_by_assignee a) v + number_of xs (\<lambda>x. incident_assignee_label (qt_record x) = v)"
  "counted (qa_by_sla (fold (count_item stale threshold) xs a)) v
     = counted (qa_by_sla a) v + number_of xs (\<lambda>x. bucket_label (incident_sla_bucket (qt_sla x) threshold) = v)"
  "qa_unassigned (fold (count_item stale threshold) xs a)
     = qa_unassigned a + number_of xs (\<lambda>x. incident_assignee_label (qt_record x) = ''unassigned'')"
  "qa_stale (fold (count_item stale threshold) xs a)
     = qa_stale a + number_of xs (\<lambda>x. field_text ''sys_updated_on'' x < stale)"
  by (induction xs arbitrary: a)
     (auto simp: count_item_def Let_def counted_bump number_of_def field_text_def incident_field_value_def or_else_def)

lemma nobody_label: "incident_assignee_label (qt_record x) = ''unassigned'' \<longleftrightarrow> nobody x"
  by (simp add: incident_assignee_label_def nobody_def split: option.split)

lemma aggregates_count: "aggregates_of items threshold stale (queue_aggregates_of items stale threshold b)"
  unfolding aggregates_of_def queue_aggregates_of_def fold_counts
  by (simp add: bucket_risk nobody_label)

subsection \<open>The input\<close>

lemma validate_queue_Inr:
  assumes "validate_queue_input stamp q = Inr v"
  shows "vq_limit v = or_else (qi_limit q) group_list_default_limit" "vq_offset v = or_else (qi_offset q) 0"
    "1 \<le> vq_limit v" "vq_limit v \<le> 200" "vq_offset v < vq_scan_limit v" "vq_scan_limit v \<le> 5000"
  using assms by (auto simp: validate_queue_input_def require_def within_bounds_def bind_ok_Inr Let_def
      group_list_max_limit_def queue_max_scan_limit_def split: if_splits)

text \<open>Another offset below the scan limit changes nothing else.\<close>

lemma validate_queue_offset:
  assumes "validate_queue_input stamp q = Inr v" "o' < vq_scan_limit v"
  shows "validate_queue_input stamp (q\<lparr>qi_offset := Some o'\<rparr>) = Inr (v\<lparr>vq_offset := o'\<rparr>)"
  using assms by (auto simp: validate_queue_input_def require_def within_bounds_def bind_ok_Inr Let_def or_else_def
      split: if_splits)

lemma queue_pages_Inr:
  assumes "incident_queue env q = Inr p"
  shows "\<exists>v groups (g :: assignment_group) rows exhausted items departed.
    validate_queue_input (le_stamp (qe_live env)) q = Inr v \<and> assignment_groups env = Inr groups
    \<and> resolve_queue_group (qi_group q) groups = Inr g \<and> scan_queue env q v g = Inr (rows, exhausted)
    \<and> queue_items env q rows = Inr items
    \<and> incident_departures (qe_live env) (ag_sys_id g) (vq_known v) = Inr departed
    \<and> p = queue_page_of env q v g rows exhausted items departed"
  using assms unfolding incident_queue_def bind_ok_Inr by (auto simp: bind_ok_Inr)

lemma scan_queue_bound:
  "scan_queue env q v g = Inr (rows, exhausted) \<Longrightarrow> length rows \<le> vq_scan_limit v"
  by (auto simp: scan_queue_def bind_ok_Inr dest: scan_rows_bound)

text \<open>The offset only chooses the page.\<close>

lemma offset_elsewhere:
  "scan_queue env (q\<lparr>qi_offset := o'\<rparr>) (v\<lparr>vq_offset := i\<rparr>) g = scan_queue env q v g"
  "queue_items env (q\<lparr>qi_offset := o'\<rparr>) rows = queue_items env q rows"
  by (simp_all add: scan_queue_def queue_items_def queue_clauses_def stale_before_def)

text \<open>Following the offsets, with at most \<open>n\<close> requests.\<close>

fun follow_queue :: "queue_env \<Rightarrow> queue_input \<Rightarrow> nat \<Rightarrow> (queue_error, queue_item list) result" where
  "follow_queue env q 0 = Inr []"
| "follow_queue env q (Suc n) = bind_ok (incident_queue env q) (\<lambda>p.
     case qp_next p of
       None \<Rightarrow> Inr (qp_items p)
     | Some i \<Rightarrow> bind_ok (follow_queue env (q\<lparr>qi_offset := Some i\<rparr>) n) (\<lambda>later. Inr (qp_items p @ later)))"

lemma follow_queue_from:
  assumes "validate_queue_input (le_stamp (qe_live env)) q = Inr v" "assignment_groups env = Inr groups"
    "resolve_queue_group (qi_group q) groups = Inr g" "scan_queue env q v g = Inr (rows, exhausted)"
    "queue_items env q rows = Inr items" "incident_departures (qe_live env) (ag_sys_id g) (vq_known v) = Inr departed"
    and "i < vq_scan_limit v" "(length items - i) div vq_limit v < n"
  shows "follow_queue env (q\<lparr>qi_offset := Some i\<rparr>) n = Inr (drop i items)"
  using assms(7,8)
proof (induction n arbitrary: i)
  case (Suc n)
  let ?q = "q\<lparr>qi_offset := Some i\<rparr>" and ?v = "v\<lparr>vq_offset := i\<rparr>"
  let ?p = "queue_page_of env ?q ?v g rows exhausted items departed"
  have run: "incident_queue env ?q = Inr ?p"
    using validate_queue_offset [OF assms(1) Suc.prems(1)] assms(2-6)
    by (simp add: incident_queue_def offset_elsewhere)
  have pos: "1 \<le> vq_limit v" using validate_queue_Inr(3) [OF assms(1)] .
  show ?case
  proof (cases "i + vq_limit v < length items")
    case True
    let ?i = "i + vq_limit v"
    have page: "qp_items ?p = take (vq_limit v) (drop i items)" "qp_next ?p = Some ?i"
      using True by (simp_all add: queue_page_of_def Let_def)
    have "?i < vq_scan_limit v"
      using True queue_of_length [OF queue_items_spec [OF assms(5)]] scan_queue_bound [OF assms(4)] by simp
    moreover have "(length items - ?i) div vq_limit v < n"
      using Suc.prems(2) True pos by (auto simp: div_if [of "length items - i"] diff_diff_left split: if_splits)
    ultimately have "follow_queue env (q\<lparr>qi_offset := Some ?i\<rparr>) n = Inr (drop ?i items)" by (rule Suc.IH)
    moreover have "take (vq_limit v) (drop i items) @ drop ?i items = drop i items"
      by (metis add.commute append_take_drop_id drop_drop)
    ultimately show ?thesis by (simp add: run page)
  next
    case False
    have "qp_items ?p = drop i items" "qp_next ?p = None"
      using False by (auto simp: queue_page_of_def Let_def)
    then show ?thesis by (simp add: run)
  qed
qed simp

subsection \<open>A queue of two open incidents\<close>

definition demo_member :: snow_row where
  "demo_member = (demo_live_row (CHR ''7'') [])\<lparr>rw_raw := (\<lambda>f. if f = ''group'' then Some (demo_id (CHR ''9'')) else None),
     rw_str := (\<lambda>f. if f = ''group.name'' then Some ''Desk'' else None)\<rparr>"

definition demo_queue_env :: queue_env where
  "demo_queue_env = \<lparr>qe_live = demo_live_env, qe_now = 0, qe_format = (\<lambda>_. ''2024-01-01 00:00:00''),
     qe_current_user = Inr ''u'', qe_user_ref = (\<lambda>_. Inl ''unknown''),
     qe_paginate = (\<lambda>q. Inr \<lparr>pg_replies = [Inr (if lq_table q = ''incident'' then demo_live_table else [demo_member])],
        pg_done = (\<lambda>k. 1 \<le> k)\<rparr>),
     qe_slas = (\<lambda>_. Inr (\<lambda>_. None)),
     qe_summarise = (\<lambda>_. \<lparr>cu_total = 0, cu_active = 0, cu_breached = 0, cu_next = None, cu_highest = None\<rparr>),
     qe_record = (\<lambda>r. \<lparr>ir_sys_id = rw_sys_id r, ir_number = [], ir_table = ''incident'', ir_state = ''New'',
        ir_field = rw_raw r, ir_assignee = None, ir_work_notes = [], ir_comments = []\<rparr>)\<rparr>"

definition demo_queue_input :: queue_input where
  "demo_queue_input = \<lparr>qi_group = ''desk'', qi_state = None, qi_assigned_to = None, qi_priorities = [],
     qi_opened_after = None, qi_opened_before = None, qi_updated_since = None, qi_updated_before = None,
     qi_stale_before = None, qi_stale_only = False, qi_sla_risk = RiskAny, qi_at_risk = 80,
     qi_sort_by = SortPriority, qi_direction = Ascending, qi_limit = None, qi_offset = None,
     qi_scan_limit = None, qi_known = []\<rparr>"

lemma demo_queue_run:
  "\<exists>p. incident_queue demo_queue_env demo_queue_input = Inr p \<and> qp_complete p
     \<and> map (\<lambda>x. ir_sys_id (qt_record x)) (qp_items p) = map demo_id ''13'' \<and> qp_scanned p = 3 \<and> qp_offset p = 0"
proof -
  have "case incident_queue demo_queue_env demo_queue_input of Inl e \<Rightarrow> False | Inr p \<Rightarrow> qp_complete p
     \<and> map (\<lambda>x. ir_sys_id (qt_record x)) (qp_items p) = map demo_id ''13'' \<and> qp_scanned p = 3 \<and> qp_offset p = 0"
    by code_simp
  then show ?thesis by (auto split: sum.splits)
qed

subsection \<open>Guarantees\<close>

text \<open>
  C11: the pages of an incident queue enumerate it. When a queue request answers, then following the
  offsets from the first page, while ServiceNow answers alike, yields every scanned incident that is
  open and whose SLA status the filter wants, each once and in the requested order, and the page
  answered is the slice of that queue its offset and limit name. No more rows than the scan limit
  were scanned, and every count (by state, priority, assignee and SLA, unassigned, stale) is that of
  the whole queue, not of the page.
\<close>

theorem queue_pages_enumerate:
  assumes "incident_queue env q = Inr p"
  shows "\<exists>v (g :: assignment_group) rows exhausted items.
      validate_queue_input (le_stamp (qe_live env)) q = Inr v
    \<and> scan_queue env q v g = Inr (rows, exhausted) \<and> length rows \<le> vq_scan_limit v \<and> vq_scan_limit v \<le> 5000
    \<and> queue_of env q rows items
    \<and> follow_queue env (q\<lparr>qi_offset := Some 0\<rparr>) (Suc (length items div vq_limit v)) = Inr items
    \<and> qp_items p = take (vq_limit v) (drop (vq_offset v) items)
    \<and> aggregates_of items (qi_at_risk q) (stale_before env q) (qp_aggregates p)
    \<and> qa_complete (qp_aggregates p) = exhausted"
proof -
  obtain v groups and g :: assignment_group and rows exhausted items departed where
    run: "validate_queue_input (le_stamp (qe_live env)) q = Inr v" "assignment_groups env = Inr groups"
      "resolve_queue_group (qi_group q) groups = Inr g" "scan_queue env q v g = Inr (rows, exhausted)"
      "queue_items env q rows = Inr items"
      "incident_departures (qe_live env) (ag_sys_id g) (vq_known v) = Inr departed"
    and p: "p = queue_page_of env q v g rows exhausted items departed"
    using queue_pages_Inr [OF assms] by blast
  have "follow_queue env (q\<lparr>qi_offset := Some 0\<rparr>) (Suc (length items div vq_limit v)) = Inr items"
    using follow_queue_from [OF run, of 0] validate_queue_Inr(5) [OF run(1)] by (simp del: follow_queue.simps)
  moreover have "qp_aggregates p = queue_aggregates_of items (stale_before env q) (qi_at_risk q) exhausted"
    "qp_items p = take (vq_limit v) (drop (vq_offset v) items)"
    by (simp_all add: p queue_page_of_def Let_def)
  moreover have "qa_complete (fold (count_item stale threshold) xs a) = qa_complete a" for stale threshold xs a
    by (induction xs arbitrary: a) (simp_all add: count_item_def Let_def)
  ultimately show ?thesis
    using run scan_queue_bound [OF run(4)] queue_items_spec [OF run(5)] validate_queue_Inr(6) [OF run(1)]
      aggregates_count [of items "qi_at_risk q" "stale_before env q" exhausted]
    by (intro exI [of _ v] exI [of _ g] exI [of _ rows] exI [of _ exhausted] exI [of _ items])
       (simp add: queue_aggregates_of_def del: follow_queue.simps)
qed

theorem queue_pages_enumerate_witness:
  "\<exists>(p :: queue_page) n rows items. incident_queue demo_queue_env demo_queue_input = Inr p
    \<and> map (\<lambda>x. ir_sys_id (qt_record x)) (qp_items p) = map demo_id ''13''
    \<and> queue_of demo_queue_env demo_queue_input rows items
    \<and> follow_queue demo_queue_env (demo_queue_input\<lparr>qi_offset := Some 0\<rparr>) n = Inr items
    \<and> counted (qa_by_state (qp_aggregates p)) ''New'' = number_of items (\<lambda>x. ir_state (qt_record x) = ''New'')"
proof -
  obtain p :: queue_page where p: "incident_queue demo_queue_env demo_queue_input = Inr p"
    "map (\<lambda>x. ir_sys_id (qt_record x)) (qp_items p) = map demo_id ''13''"
    using demo_queue_run by blast
  from queue_pages_enumerate [OF p(1)] show ?thesis using p unfolding aggregates_of_def by blast
qed

text \<open>The client's paginator is done only once it has returned its last page.\<close>

definition done_after_last_page :: "queue_env \<Rightarrow> bool" where
  "done_after_last_page env = (\<forall>x ps. qe_paginate env x = Inr ps \<longrightarrow>
     (\<forall>k. pg_done ps k \<longrightarrow> length (pg_replies ps) \<le> k))"

text \<open>
  C27: a queue page that calls itself complete has seen everything. If the client says it is done only
  after its last page, then the scan has read every page of the query, and the page shows every
  item of the queue from its offset on.
\<close>

theorem queue_complete_page:
  assumes "incident_queue env q = Inr p" "qp_complete p"
    and "done_after_last_page env"
  shows "\<exists>cs ps pages items. qe_paginate env (queue_query cs) = Inr ps \<and> pg_replies ps = map Inr pages
    \<and> qp_scanned p = length (concat pages) \<and> queue_of env q (concat pages) items
    \<and> qp_items p = drop (qp_offset p) items"
proof -
  obtain v groups and g :: assignment_group and rows exhausted items departed where
    run: "scan_queue env q v g = Inr (rows, exhausted)" "queue_items env q rows = Inr items"
    and p: "p = queue_page_of env q v g rows exhausted items departed"
    using queue_pages_Inr [OF assms(1)] by blast
  have exhausted: "exhausted" using assms(2) by (simp add: p queue_page_of_def Let_def)
  obtain cs and ps :: pages where ps: "qe_paginate env (queue_query cs) = Inr ps"
    and scan: "scan_rows (vq_scan_limit v) (pg_done ps) 0 (pg_replies ps) [] = Inr (rows, True)"
    using run(1) exhausted by (auto simp: scan_queue_def bind_ok_Inr)
  obtain pages where "pg_replies ps = map Inr pages" "rows = concat pages"
    using scan_rows_all [OF scan] assms(3) ps by (auto simp: done_after_last_page_def)
  moreover have "qp_items p = drop (qp_offset p) items"
    using assms(2) by (auto simp: p queue_page_of_def Let_def split: if_splits)
  moreover have "qp_scanned p = length rows" by (simp add: p queue_page_of_def Let_def)
  ultimately show ?thesis using ps queue_items_spec [OF run(2)] by blast
qed

theorem queue_complete_page_witness:
  "\<exists>(p :: queue_page) pages items. incident_queue demo_queue_env demo_queue_input = Inr p
    \<and> qp_scanned p = 3 \<and> qp_scanned p = length (concat pages)
    \<and> queue_of demo_queue_env demo_queue_input (concat pages) items \<and> qp_items p = items"
proof -
  obtain p :: queue_page where p: "incident_queue demo_queue_env demo_queue_input = Inr p" "qp_complete p"
    "qp_scanned p = 3" "qp_offset p = 0"
    using demo_queue_run by blast
  have last: "done_after_last_page demo_queue_env"
    by (auto simp: done_after_last_page_def demo_queue_env_def)
  from queue_complete_page [OF p(1,2) last] show ?thesis using p by (metis drop_0)
qed

text \<open>
  A timestamp is checked without its surrounding white space but sent with it: the input passes and
  the query carries the padded text.
\<close>

lemma padded_stamp_sent:
  assumes "stamp (trim s)"
  shows "queue_stamp stamp ''opened_after'' (Some s) = Inr ()
    \<and> GreaterThan ''opened_at'' s \<in> set (queue_clauses (q\<lparr>qi_opened_after := Some s\<rparr>) g st assignee stale)"
  using assms by (simp add: queue_stamp_def require_def queue_clauses_def optionally_def)

end
