(* ===== verification/Cache_Records.thy ===== *)
theory Cache_Records
  imports Cmdb_Store Steps Json Sort_By Complex_Main
begin

text \<open>
  The record tables of the cache (\<open>snow_core/src/cache/store\<close>: \<open>records.rs\<close>, the tag, keyword and
  alias tables and the article table of \<open>knowledge.rs\<close>, the relationship table of
  \<open>relationships.rs\<close>, the row types of \<open>models.rs\<close>). A table is the list of its rows in \<open>rowid\<close>
  order, an \<open>ORDER BY\<close> a stable sort, a text compares byte by byte. The row of the full-text index
  that carries the \<open>rowid\<close> of a record is kept under the \<open>sys_id\<close> of that record. JSON columns hold
  the decoded value. A statement may fail, and then changes nothing; a connection may be inside a
  transaction, of which the tables at its begin are kept.
\<close>

subsection \<open>Rows\<close>

datatype resource_type = RtTask | RtIncident | RtChange | RtChangeTask | RtRequest | RtRequestTask
  | RtProject | RtDemand | RtDemandTask | RtResourcePlan | RtStory | RtScrumTask | RtTimecard
  | RtKnowledge | RtApproval | RtBusinessApplication | RtServer | RtPrivateTask | RtUnknown

fun resource_type_to_str :: "resource_type \<Rightarrow> string" where
  "resource_type_to_str RtTask = ''task''"
| "resource_type_to_str RtIncident = ''incident''"
| "resource_type_to_str RtChange = ''change_request''"
| "resource_type_to_str RtChangeTask = ''change_task''"
| "resource_type_to_str RtRequest = ''sc_request''"
| "resource_type_to_str RtRequestTask = ''sc_task''"
| "resource_type_to_str RtProject = ''pm_project''"
| "resource_type_to_str RtDemand = ''dmn_demand''"
| "resource_type_to_str RtDemandTask = ''dmn_demand_task''"
| "resource_type_to_str RtResourcePlan = ''resource_plan''"
| "resource_type_to_str RtStory = ''rm_story''"
| "resource_type_to_str RtScrumTask = ''rm_scrum_task''"
| "resource_type_to_str RtTimecard = ''time_card''"
| "resource_type_to_str RtKnowledge = ''kb_knowledge''"
| "resource_type_to_str RtApproval = ''sysapproval_approver''"
| "resource_type_to_str RtBusinessApplication = ''business_application''"
| "resource_type_to_str RtServer = ''server''"
| "resource_type_to_str RtPrivateTask = ''private_task''"
| "resource_type_to_str RtUnknown = ''unknown''"

definition str_to_resource_type :: "string \<Rightarrow> (string, resource_type) result" where
  "str_to_resource_type input =
     (if input = ''task'' then Inr RtTask
      else if input = ''incident'' then Inr RtIncident
      else if input = ''change_request'' then Inr RtChange
      else if input = ''change_task'' then Inr RtChangeTask
      else if input = ''sc_request'' then Inr RtRequest
      else if input = ''sc_task'' then Inr RtRequestTask
      else if input = ''pm_project'' then Inr RtProject
      else if input = ''dmn_demand'' then Inr RtDemand
      else if input = ''dmn_demand_task'' then Inr RtDemandTask
      else if input = ''resource_plan'' then Inr RtResourcePlan
      else if input = ''rm_story'' then Inr RtStory
      else if input = ''rm_scrum_task'' then Inr RtScrumTask
      else if input = ''time_card'' then Inr RtTimecard
      else if input = ''kb_knowledge'' then Inr RtKnowledge
      else if input = ''sysapproval_approver'' then Inr RtApproval
      else if input \<in> {''business_application'', ''business_app'', ''cmdb_ci_business_app''}
        then Inr RtBusinessApplication
      else if input \<in> {''server'', ''cmdb_ci_server'', ''cmdb_ci_linux_server'', ''cmdb_ci_win_server''}
        then Inr RtServer
      else if input \<in> {''private_task'', ''vtb_task''} then Inr RtPrivateTask
      else if input = ''unknown'' then Inr RtUnknown
      else Inl (''invalid resource type: '' @ input))"

datatype record_lifecycle = LifeActive | LifeTombstoned | LifePruned

datatype vault_provenance = VaultBacked | CacheOnly | LegacyUnknown

fun provenance_text :: "vault_provenance \<Rightarrow> string" where
  "provenance_text VaultBacked = ''vault_backed''"
| "provenance_text CacheOnly = ''cache_only''"
| "provenance_text LegacyUnknown = ''legacy_unknown''"

definition parse_provenance :: "string \<Rightarrow> vault_provenance option" where
  "parse_provenance s =
     (if s = ''vault_backed'' then Some VaultBacked
      else if s = ''cache_only'' then Some CacheOnly
      else if s = ''legacy_unknown'' then Some LegacyUnknown
      else None)"

record record_row =
  rr_sys_id :: string
  rr_number :: string
  rr_table :: string
  rr_type :: resource_type
  rr_state :: "string option"
  rr_short_desc :: "string option"
  rr_description :: "string option"
  rr_assigned_to :: "string option"
  rr_parent :: "string option"
  rr_file_path :: "string option"
  rr_synced_at :: time
  rr_updated_on :: time
  rr_etag :: "string option"
  rr_in_scope :: bool
  rr_last_seen :: time
  rr_tombstoned_at :: "time option"
  rr_pruned_at :: "time option"
  rr_raw_json :: string

definition lifecycle :: "record_row \<Rightarrow> record_lifecycle" where
  "lifecycle r =
     (if rr_pruned_at r \<noteq> None then LifePruned
      else if rr_tombstoned_at r \<noteq> None \<or> \<not> rr_in_scope r then LifeTombstoned
      else LifeActive)"

text \<open>\<open>from_ts (to_ts t)\<close>: the table keeps whole seconds.\<close>

definition whole_second :: "time \<Rightarrow> time" where
  "whole_second t = secs (t div nanos)"

definition kept_row :: "record_row \<Rightarrow> record_row" where
  "kept_row r = r\<lparr>rr_synced_at := whole_second (rr_synced_at r), rr_updated_on := whole_second (rr_updated_on r),
     rr_last_seen := whole_second (rr_last_seen r),
     rr_tombstoned_at := map_option whole_second (rr_tombstoned_at r),
     rr_pruned_at := map_option whole_second (rr_pruned_at r)\<rparr>"

record stored_record =
  sr_row :: record_row
  sr_provenance :: vault_provenance

record fts_row =
  ft_number :: string
  ft_short_desc :: string
  ft_description :: string
  ft_work_notes :: string
  ft_content :: string
  ft_tag_tokens :: string

record tag_row =
  tg_sys_id :: string
  tg_tag :: string
  tg_source :: string
  tg_weight :: rat

record keyword_row =
  kw_sys_id :: string
  kw_keyword :: string
  kw_source :: string
  kw_weight :: rat

record alias_row =
  al_sys_id :: string
  al_alias :: string
  al_kind :: string
  al_source :: string

record article_row =
  ar_number :: string
  ar_title :: string
  ar_workflow_state :: string
  ar_base_sys_id :: string
  ar_base_name :: string
  ar_category_sys_id :: string
  ar_category_name :: string
  ar_author_sys_id :: "string option"
  ar_author_name :: "string option"
  ar_published_at :: "string option"
  ar_valid_to :: "string option"
  ar_article_type :: string
  ar_updated_on :: "string option"
  ar_sn_tags :: "string list"
  ar_auto_tags :: "string list"
  ar_user_tags :: "string list"
  ar_body_cached :: bool

record relationship_row =
  rl_source :: string
  rl_target :: string
  rl_type :: string
  rl_field :: string

text \<open>
  A row of another table with a cascading foreign key to \<open>records\<close> (\<open>business_applications\<close>,
  \<open>business_application_fields\<close>): the records it refers to. The membership and the health rows
  (\<open>Cmdb_Store\<close>) are tables of their own; their foreign keys cascade as well.
\<close>

record dependent =
  de_table :: string
  de_records :: "string list"

record cache_tables =
  ct_records :: "stored_record list"
  ct_fts :: "(string, fts_row) btree"
  ct_tags :: "tag_row list"
  ct_keywords :: "keyword_row list"
  ct_aliases :: "alias_row list"
  ct_articles :: "(string, article_row) btree"
  ct_embeddings :: "(string, string) btree"
  ct_terms :: "(string, string list) btree"
  ct_local_files :: "(string, string) btree"
  ct_catalog_complete :: "(string, string) btree"
  ct_catalog_narrowed :: "(string, string) btree"
  ct_relationships :: "relationship_row list"
  ct_memberships :: "membership list"
  ct_healths :: "(string, health) btree"
  ct_dependents :: "dependent list"

record cache_db =
  db_tables :: cache_tables
  db_saved :: "cache_tables option"

subsection \<open>Statements and transactions\<close>

type_synonym ('z, 'x, 'a) db_step = "(('z cache_db_scheme, 'x) world_of, string, 'a) transition"

definition exec :: "(nat \<Rightarrow> bool) \<Rightarrow> (cache_tables \<Rightarrow> cache_tables) \<Rightarrow> ('z, 'x, unit) db_step" where
  "exec db f = statement db (\<lambda>s. ((), s\<lparr>db_tables := f (db_tables s)\<rparr>))"

definition select :: "(nat \<Rightarrow> bool) \<Rightarrow> (cache_tables \<Rightarrow> 'a) \<Rightarrow> ('z, 'x, 'a) db_step" where
  "select db g = statement db (\<lambda>s. (g (db_tables s), s))"

definition begin_immediate :: "(nat \<Rightarrow> bool) \<Rightarrow> ('z, 'x, unit) db_step" where
  "begin_immediate db = andthen
     (statement db (\<lambda>s. (db_saved s = None, if db_saved s = None then s\<lparr>db_saved := Some (db_tables s)\<rparr> else s)))
     (\<lambda>fresh. if fresh then ok () else fail ''cannot start a transaction within a transaction'')"

definition commit :: "(nat \<Rightarrow> bool) \<Rightarrow> ('z, 'x, unit) db_step" where
  "commit db = statement db (\<lambda>s. ((), s\<lparr>db_saved := None\<rparr>))"

definition rollback :: "(nat \<Rightarrow> bool) \<Rightarrow> ('z, 'x, unit) db_step" where
  "rollback db = statement db (\<lambda>s. ((), case db_saved s of None \<Rightarrow> s
     | Some t \<Rightarrow> s\<lparr>db_tables := t, db_saved := None\<rparr>))"

text \<open>\<open>iter().try_for_each\<close>\<close>

fun each :: "('a \<Rightarrow> ('w, 'e, unit) transition) \<Rightarrow> 'a list \<Rightarrow> ('w, 'e, unit) transition" where
  "each f [] = ok ()"
| "each f (x # xs) = andthen (f x) (\<lambda>_. each f xs)"

text \<open>\<open>INSERT ... ON CONFLICT(key) DO UPDATE\<close>: the row of the key is merged in place, a new one appended.\<close>

fun upsert_by :: "('r \<Rightarrow> 'k) \<Rightarrow> ('r \<Rightarrow> 'r \<Rightarrow> 'r) \<Rightarrow> 'r \<Rightarrow> 'r list \<Rightarrow> 'r list" where
  "upsert_by key merge r [] = [r]"
| "upsert_by key merge r (x # xs) = (if key x = key r then merge x r # xs else x # upsert_by key merge r xs)"

definition select_by :: "('r \<Rightarrow> 'k) \<Rightarrow> 'k \<Rightarrow> 'r list \<Rightarrow> 'r option" where
  "select_by key k rows = List.find (\<lambda>r. key r = k) rows"

subsection \<open>Records\<close>

definition record_key :: "stored_record \<Rightarrow> string" where
  "record_key r = rr_sys_id (sr_row r)"

definition merged_record :: "stored_record \<Rightarrow> stored_record \<Rightarrow> stored_record" where
  "merged_record old excluded = \<lparr>sr_row = sr_row excluded,
     sr_provenance = (if rr_file_path (sr_row excluded) \<noteq> None then VaultBacked else sr_provenance old)\<rparr>"

definition inserted_record :: "record_row \<Rightarrow> stored_record" where
  "inserted_record r = \<lparr>sr_row = kept_row r,
     sr_provenance = (if rr_file_path r \<noteq> None then VaultBacked else LegacyUnknown)\<rparr>"

definition put_record :: "record_row \<Rightarrow> cache_tables \<Rightarrow> cache_tables" where
  "put_record r t = t\<lparr>ct_records := upsert_by record_key merged_record (inserted_record r) (ct_records t)\<rparr>"

definition fts_of :: "record_row \<Rightarrow> string \<Rightarrow> string \<Rightarrow> string \<Rightarrow> fts_row" where
  "fts_of r work_notes content tag_tokens = \<lparr>ft_number = rr_number r,
     ft_short_desc = (case rr_short_desc r of None \<Rightarrow> [] | Some s \<Rightarrow> s),
     ft_description = (case rr_description r of None \<Rightarrow> [] | Some s \<Rightarrow> s),
     ft_work_notes = work_notes, ft_content = content, ft_tag_tokens = tag_tokens\<rparr>"

definition upsert_record_with_tags ::
  "(nat \<Rightarrow> bool) \<Rightarrow> record_row \<Rightarrow> string \<Rightarrow> string \<Rightarrow> string \<Rightarrow> ('z, 'x, unit) db_step" where
  "upsert_record_with_tags db r work_notes content tag_tokens =
     andthen (exec db (put_record r)) (\<lambda>_.
     andthen (select db (\<lambda>t. ())) (\<lambda>_.
     andthen (exec db (\<lambda>t. t\<lparr>ct_fts := bt_remove (rr_sys_id r) (ct_fts t)\<rparr>)) (\<lambda>_.
     exec db (\<lambda>t. t\<lparr>ct_fts := bt_insert (rr_sys_id r) (fts_of r work_notes content tag_tokens) (ct_fts t)\<rparr>))))"

definition upsert_record :: "(nat \<Rightarrow> bool) \<Rightarrow> record_row \<Rightarrow> string \<Rightarrow> string \<Rightarrow> ('z, 'x, unit) db_step" where
  "upsert_record db r work_notes content = upsert_record_with_tags db r work_notes content []"

definition upsert_records ::
  "(nat \<Rightarrow> bool) \<Rightarrow> (record_row \<times> string \<times> string \<times> string) list \<Rightarrow> ('z, 'x, unit) db_step" where
  "upsert_records db entries =
     (if entries = [] then ok ()
      else andthen (begin_immediate db) (\<lambda>_.
        inspect (each (\<lambda>(r, work_notes, content, tag_tokens).
            upsert_record_with_tags db r work_notes content tag_tokens) entries)
          (\<lambda>result. case result of
             Inr u \<Rightarrow> commit db
           | Inl err \<Rightarrow> inspect (rollback db) (\<lambda>_. fail err))))"

definition mark_cache_only :: "string \<Rightarrow> cache_tables \<Rightarrow> cache_tables" where
  "mark_cache_only sys_id t = t\<lparr>ct_records := map (\<lambda>r.
     if record_key r = sys_id \<and> rr_file_path (sr_row r) = None then r\<lparr>sr_provenance := CacheOnly\<rparr> else r)
       (ct_records t)\<rparr>"

text \<open>A transaction handle that is dropped on an error rolls back.\<close>

definition mark_records_cache_only :: "(nat \<Rightarrow> bool) \<Rightarrow> string list \<Rightarrow> ('z, 'x, unit) db_step" where
  "mark_records_cache_only db sys_ids =
     (if sys_ids = [] then ok ()
      else andthen (begin_immediate db) (\<lambda>_.
        inspect (andthen (each (\<lambda>i. exec db (mark_cache_only i)) sys_ids) (\<lambda>_. commit db))
          (\<lambda>result. case result of
             Inr u \<Rightarrow> ok ()
           | Inl err \<Rightarrow> inspect (rollback db) (\<lambda>_. fail err))))"

definition legacy_cache_only :: "stored_record \<Rightarrow> bool" where
  "legacy_cache_only r = (rr_file_path (sr_row r) = None \<and> sr_provenance r = LegacyUnknown
     \<and> rr_in_scope (sr_row r) \<and> rr_pruned_at (sr_row r) = None)"

definition adopt_legacy_cache_only_records :: "(nat \<Rightarrow> bool) \<Rightarrow> ('z, 'x, nat) db_step" where
  "adopt_legacy_cache_only_records db = statement db (\<lambda>s.
     (length (filter legacy_cache_only (ct_records (db_tables s))),
      s\<lparr>db_tables := (db_tables s)\<lparr>ct_records := map (\<lambda>r.
          if legacy_cache_only r then r\<lparr>sr_provenance := CacheOnly\<rparr> else r) (ct_records (db_tables s))\<rparr>\<rparr>))"

definition active_record_vault_provenance ::
  "(nat \<Rightarrow> bool) \<Rightarrow> ('z, 'x, (string, vault_provenance) btree) db_step" where
  "active_record_vault_provenance db = select db (\<lambda>t. bt_of_list (map (\<lambda>r. (record_key r, sr_provenance r))
     (filter (\<lambda>r. rr_in_scope (sr_row r) \<and> rr_pruned_at (sr_row r) = None) (ct_records t))))"

text \<open>\<open>ORDER BY ... LIMIT 1\<close>\<close>

definition first_of :: "'a list \<Rightarrow> 'a option" where
  "first_of xs = (case xs of [] \<Rightarrow> None | x # _ \<Rightarrow> Some x)"

definition rows_of :: "cache_tables \<Rightarrow> record_row list" where
  "rows_of t = map sr_row (ct_records t)"

definition scope_rank :: "record_row \<Rightarrow> nat" where
  "scope_rank r = (if rr_in_scope r then 0 else 1)"

definition primary_order :: "record_row \<Rightarrow> record_row \<Rightarrow> bool" where
  "primary_order = then_by (\<lambda>r. if rr_type r = RtApproval then 1 else (0 :: nat))
     (then_by scope_rank (then_by_desc rr_synced_at (by_key rr_sys_id)))"

definition primary_by_number :: "string \<Rightarrow> cache_tables \<Rightarrow> record_row option" where
  "primary_by_number number t =
     first_of (sort_by primary_order (filter (\<lambda>r. rr_number r = number) (rows_of t)))"

definition get_primary_record_by_number :: "(nat \<Rightarrow> bool) \<Rightarrow> string \<Rightarrow> ('z, 'x, record_row option) db_step" where
  "get_primary_record_by_number db number = select db (primary_by_number number)"

definition typed_order :: "record_row \<Rightarrow> record_row \<Rightarrow> bool" where
  "typed_order = then_by scope_rank (then_by_desc rr_synced_at (by_key rr_sys_id))"

definition by_number_and_type :: "string \<Rightarrow> resource_type \<Rightarrow> cache_tables \<Rightarrow> record_row option" where
  "by_number_and_type number kind t =
     first_of (sort_by typed_order (filter (\<lambda>r. rr_number r = number \<and> rr_type r = kind) (rows_of t)))"

definition get_record_by_number_and_type ::
  "(nat \<Rightarrow> bool) \<Rightarrow> string \<Rightarrow> resource_type \<Rightarrow> ('z, 'x, record_row option) db_step" where
  "get_record_by_number_and_type db number kind = select db (by_number_and_type number kind)"

definition row_by_sys_id :: "string \<Rightarrow> cache_tables \<Rightarrow> record_row option" where
  "row_by_sys_id sys_id t = map_option sr_row (select_by record_key sys_id (ct_records t))"

definition get_record_by_sys_id :: "(nat \<Rightarrow> bool) \<Rightarrow> string \<Rightarrow> ('z, 'x, record_row option) db_step" where
  "get_record_by_sys_id db sys_id = select db (row_by_sys_id sys_id)"

definition get_etag_by_number :: "(nat \<Rightarrow> bool) \<Rightarrow> string \<Rightarrow> ('z, 'x, string option) db_step" where
  "get_etag_by_number db number = select db (\<lambda>t.
     Option.bind (first_of (filter (\<lambda>r. rr_number r = number \<and> rr_in_scope r) (rows_of t))) rr_etag)"

definition active_rows :: "resource_type option \<Rightarrow> cache_tables \<Rightarrow> record_row list" where
  "active_rows kind t = sort_by (by_key rr_number) (filter (\<lambda>r. rr_in_scope r
     \<and> (case kind of None \<Rightarrow> True | Some k \<Rightarrow> rr_type r = k)) (rows_of t))"

definition list_active_records :: "(nat \<Rightarrow> bool) \<Rightarrow> resource_type option \<Rightarrow> ('z, 'x, record_row list) db_step" where
  "list_active_records db kind = select db (active_rows kind)"

definition rows_of_type :: "resource_type \<Rightarrow> cache_tables \<Rightarrow> record_row list" where
  "rows_of_type kind t = sort_by (by_key rr_number) (filter (\<lambda>r. rr_type r = kind) (rows_of t))"

definition list_records_by_resource_type ::
  "(nat \<Rightarrow> bool) \<Rightarrow> resource_type \<Rightarrow> ('z, 'x, record_row list) db_step" where
  "list_records_by_resource_type db kind = select db (rows_of_type kind)"

definition list_active_records_paginated ::
  "(nat \<Rightarrow> bool) \<Rightarrow> resource_type option \<Rightarrow> nat \<Rightarrow> nat \<Rightarrow> ('z, 'x, record_row list) db_step" where
  "list_active_records_paginated db kind limit offset =
     select db (\<lambda>t. take limit (drop offset (active_rows kind t)))"

definition count_records :: "(nat \<Rightarrow> bool) \<Rightarrow> ('z, 'x, nat) db_step" where
  "count_records db = select db (\<lambda>t. length (ct_records t))"

definition count_active_records :: "(nat \<Rightarrow> bool) \<Rightarrow> ('z, 'x, nat) db_step" where
  "count_active_records db = select db (\<lambda>t. length (filter rr_in_scope (rows_of t)))"

text \<open>\<open>UPDATE records SET ... WHERE sys_id = ?\<close>\<close>

definition update_record :: "string \<Rightarrow> (record_row \<Rightarrow> record_row) \<Rightarrow> cache_tables \<Rightarrow> cache_tables" where
  "update_record sys_id f t = t\<lparr>ct_records := map (\<lambda>r.
     if record_key r = sys_id then r\<lparr>sr_row := f (sr_row r)\<rparr> else r) (ct_records t)\<rparr>"

definition tombstone_record :: "(nat \<Rightarrow> bool) \<Rightarrow> string \<Rightarrow> time \<Rightarrow> ('z, 'x, unit) db_step" where
  "tombstone_record db sys_id when = exec db (update_record sys_id (\<lambda>r.
     r\<lparr>rr_in_scope := False, rr_tombstoned_at := Some (whole_second when), rr_last_seen := whole_second when\<rparr>))"

definition drop_record :: "string \<Rightarrow> cache_tables \<Rightarrow> cache_tables" where
  "drop_record sys_id t = t\<lparr>ct_records := filter (\<lambda>r. record_key r \<noteq> sys_id) (ct_records t),
     ct_memberships := filter (\<lambda>m. ms_ba m \<noteq> sys_id \<and> ms_server m \<noteq> sys_id) (ct_memberships t),
     ct_healths := bt_remove sys_id (ct_healths t),
     ct_dependents := filter (\<lambda>d. sys_id \<notin> set (de_records d)) (ct_dependents t)\<rparr>"

definition drop_article :: "string \<Rightarrow> cache_tables \<Rightarrow> cache_tables" where
  "drop_article sys_id t = t\<lparr>ct_articles := bt_remove sys_id (ct_articles t),
     ct_embeddings := bt_remove sys_id (ct_embeddings t)\<rparr>"

text \<open>The statements of \<open>prune_record\<close>, in the order they run, and what each does.\<close>

definition prune_statements :: "string \<Rightarrow> time \<Rightarrow> (cache_tables \<Rightarrow> cache_tables) list" where
  "prune_statements sys_id when =
     [\<lambda>t. t\<lparr>ct_catalog_complete := bt_remove sys_id (ct_catalog_complete t)\<rparr>,
      \<lambda>t. t\<lparr>ct_catalog_narrowed := bt_remove sys_id (ct_catalog_narrowed t)\<rparr>,
      update_record sys_id (\<lambda>r. r\<lparr>rr_pruned_at := Some (whole_second when)\<rparr>),
      \<lambda>t. t\<lparr>ct_fts := bt_remove sys_id (ct_fts t)\<rparr>,
      \<lambda>t. t\<lparr>ct_relationships := filter (\<lambda>l. rl_source l \<noteq> sys_id \<and> rl_target l \<noteq> sys_id) (ct_relationships t)\<rparr>,
      \<lambda>t. t\<lparr>ct_tags := filter (\<lambda>g. tg_sys_id g \<noteq> sys_id) (ct_tags t)\<rparr>,
      \<lambda>t. t\<lparr>ct_keywords := filter (\<lambda>k. kw_sys_id k \<noteq> sys_id) (ct_keywords t)\<rparr>,
      \<lambda>t. t\<lparr>ct_aliases := filter (\<lambda>a. al_sys_id a \<noteq> sys_id) (ct_aliases t)\<rparr>,
      drop_article sys_id,
      \<lambda>t. t\<lparr>ct_terms := bt_remove sys_id (ct_terms t)\<rparr>,
      \<lambda>t. t\<lparr>ct_local_files := bt_remove sys_id (ct_local_files t)\<rparr>,
      drop_record sys_id]"

definition prune_record :: "(nat \<Rightarrow> bool) \<Rightarrow> string \<Rightarrow> time \<Rightarrow> ('z, 'x, unit) db_step" where
  "prune_record db sys_id when = each (exec db) (prune_statements sys_id when)"

text \<open>Full-text search: what matches and how well is the index's answer.\<close>

definition search_fts ::
  "(nat \<Rightarrow> bool) \<Rightarrow> (string \<Rightarrow> (string, (string, fts_row) btree \<Rightarrow> string list) result) \<Rightarrow> string \<Rightarrow> nat \<Rightarrow>
     ('z, 'x, string list) db_step" where
  "search_fts db matches query limit = andthen (of_result (matches query)) (\<lambda>ranked.
     select db (\<lambda>t. take limit (map rr_number (filter rr_in_scope
       (List.map_filter (\<lambda>i. row_by_sys_id i t) (ranked (ct_fts t)))))))"

subsection \<open>Tags, keywords and aliases\<close>

definition tag_key :: "tag_row \<Rightarrow> string \<times> string" where
  "tag_key g = (tg_sys_id g, tg_tag g)"

definition put_tag :: "tag_row \<Rightarrow> cache_tables \<Rightarrow> cache_tables" where
  "put_tag g t = t\<lparr>ct_tags := upsert_by tag_key (\<lambda>old new. new) g (ct_tags t)\<rparr>"

definition replace_tags :: "(nat \<Rightarrow> bool) \<Rightarrow> string \<Rightarrow> tag_row list \<Rightarrow> ('z, 'x, unit) db_step" where
  "replace_tags db sys_id tags =
     andthen (exec db (\<lambda>t. t\<lparr>ct_tags := filter (\<lambda>g. tg_sys_id g \<noteq> sys_id) (ct_tags t)\<rparr>))
       (\<lambda>_. each (\<lambda>g. exec db (put_tag g)) tags)"

definition list_tags :: "(nat \<Rightarrow> bool) \<Rightarrow> string \<Rightarrow> ('z, 'x, tag_row list) db_step" where
  "list_tags db sys_id = select db (\<lambda>t. sort_by (by_key tg_tag) (filter (\<lambda>g. tg_sys_id g = sys_id) (ct_tags t)))"

definition keyword_key :: "keyword_row \<Rightarrow> string \<times> string" where
  "keyword_key k = (kw_sys_id k, kw_keyword k)"

definition put_keyword :: "keyword_row \<Rightarrow> cache_tables \<Rightarrow> cache_tables" where
  "put_keyword k t = t\<lparr>ct_keywords := upsert_by keyword_key (\<lambda>old new. new) k (ct_keywords t)\<rparr>"

definition replace_keywords :: "(nat \<Rightarrow> bool) \<Rightarrow> string \<Rightarrow> keyword_row list \<Rightarrow> ('z, 'x, unit) db_step" where
  "replace_keywords db sys_id keywords =
     andthen (exec db (\<lambda>t. t\<lparr>ct_keywords := filter (\<lambda>k. kw_sys_id k \<noteq> sys_id) (ct_keywords t)\<rparr>))
       (\<lambda>_. each (\<lambda>k. exec db (put_keyword k)) keywords)"

definition list_keywords :: "(nat \<Rightarrow> bool) \<Rightarrow> string \<Rightarrow> ('z, 'x, keyword_row list) db_step" where
  "list_keywords db sys_id =
     select db (\<lambda>t. sort_by (by_key kw_keyword) (filter (\<lambda>k. kw_sys_id k = sys_id) (ct_keywords t)))"

definition alias_key :: "alias_row \<Rightarrow> string \<times> string" where
  "alias_key a = (al_sys_id a, al_alias a)"

definition put_alias :: "alias_row \<Rightarrow> cache_tables \<Rightarrow> cache_tables" where
  "put_alias a t = t\<lparr>ct_aliases := upsert_by alias_key (\<lambda>old new. new) a (ct_aliases t)\<rparr>"

definition replace_aliases :: "(nat \<Rightarrow> bool) \<Rightarrow> string \<Rightarrow> alias_row list \<Rightarrow> ('z, 'x, unit) db_step" where
  "replace_aliases db sys_id aliases =
     andthen (exec db (\<lambda>t. t\<lparr>ct_aliases := filter (\<lambda>a. al_sys_id a \<noteq> sys_id) (ct_aliases t)\<rparr>))
       (\<lambda>_. each (\<lambda>a. exec db (put_alias a)) aliases)"

definition list_aliases :: "(nat \<Rightarrow> bool) \<Rightarrow> string \<Rightarrow> ('z, 'x, alias_row list) db_step" where
  "list_aliases db sys_id =
     select db (\<lambda>t. sort_by (by_key al_alias) (filter (\<lambda>a. al_sys_id a = sys_id) (ct_aliases t)))"

text \<open>
  The join with the records: one row per record, because \<open>sys_id\<close> is the primary key and the
  selection is \<open>DISTINCT\<close>.
\<close>

definition enriched_ids :: "(string \<Rightarrow> bool) \<Rightarrow> nat \<Rightarrow> cache_tables \<Rightarrow> string list" where
  "enriched_ids has limit t = take limit (map rr_sys_id (sort_by (then_by rr_number (by_key rr_sys_id))
     (filter (\<lambda>r. rr_in_scope r \<and> has (rr_sys_id r)) (rows_of t))))"

definition find_record_sys_ids_by_tag :: "(nat \<Rightarrow> bool) \<Rightarrow> string \<Rightarrow> nat \<Rightarrow> ('z, 'x, string list) db_step" where
  "find_record_sys_ids_by_tag db tag limit = select db (\<lambda>t.
     enriched_ids (\<lambda>i. \<exists>g \<in> set (ct_tags t). tag_key g = (i, tag)) limit t)"

definition find_record_sys_ids_by_keyword :: "(nat \<Rightarrow> bool) \<Rightarrow> string \<Rightarrow> nat \<Rightarrow> ('z, 'x, string list) db_step" where
  "find_record_sys_ids_by_keyword db keyword limit = select db (\<lambda>t.
     enriched_ids (\<lambda>i. \<exists>k \<in> set (ct_keywords t). keyword_key k = (i, keyword)) limit t)"

definition find_record_sys_ids_by_alias :: "(nat \<Rightarrow> bool) \<Rightarrow> string \<Rightarrow> nat \<Rightarrow> ('z, 'x, string list) db_step" where
  "find_record_sys_ids_by_alias db name limit = select db (\<lambda>t.
     enriched_ids (\<lambda>i. \<exists>a \<in> set (ct_aliases t). alias_key a = (i, name)) limit t)"

subsection \<open>Articles and relationships\<close>

definition upsert_knowledge_article :: "(nat \<Rightarrow> bool) \<Rightarrow> string \<Rightarrow> article_row \<Rightarrow> ('z, 'x, unit) db_step" where
  "upsert_knowledge_article db sys_id a = exec db (\<lambda>t. t\<lparr>ct_articles := bt_insert sys_id a (ct_articles t)\<rparr>)"

definition get_knowledge_article :: "(nat \<Rightarrow> bool) \<Rightarrow> string \<Rightarrow> ('z, 'x, article_row option) db_step" where
  "get_knowledge_article db sys_id = select db (\<lambda>t. bt_get (ct_articles t) sys_id)"

definition relationship_key :: "relationship_row \<Rightarrow> string \<times> string \<times> string \<times> string" where
  "relationship_key l = (rl_source l, rl_target l, rl_type l, rl_field l)"

definition put_relationship :: "relationship_row \<Rightarrow> cache_tables \<Rightarrow> cache_tables" where
  "put_relationship l t =
     t\<lparr>ct_relationships := upsert_by relationship_key (\<lambda>old new. new) l (ct_relationships t)\<rparr>"

definition replace_relationships :: "(nat \<Rightarrow> bool) \<Rightarrow> string \<Rightarrow> relationship_row list \<Rightarrow> ('z, 'x, unit) db_step" where
  "replace_relationships db source links =
     andthen (exec db (\<lambda>t. t\<lparr>ct_relationships := filter (\<lambda>l. rl_source l \<noteq> source) (ct_relationships t)\<rparr>))
       (\<lambda>_. each (\<lambda>l. exec db (put_relationship l)) links)"

definition list_relationships_for_source ::
  "(nat \<Rightarrow> bool) \<Rightarrow> string \<Rightarrow> ('z, 'x, relationship_row list) db_step" where
  "list_relationships_for_source db source = select db (\<lambda>t.
     sort_by (then_by rl_field (by_key rl_target)) (filter (\<lambda>l. rl_source l = source) (ct_relationships t)))"

definition list_relationships :: "(nat \<Rightarrow> bool) \<Rightarrow> ('z, 'x, relationship_row list) db_step" where
  "list_relationships db = select db (\<lambda>t.
     sort_by (then_by rl_source (then_by rl_type (then_by rl_field (by_key rl_target)))) (ct_relationships t))"

text \<open>Rows of records that are out of scope.\<close>

definition out_of_scope :: "cache_tables \<Rightarrow> string set" where
  "out_of_scope t = set (map rr_sys_id (filter (\<lambda>r. \<not> rr_in_scope r) (rows_of t)))"

definition cleanup_orphaned_relationships :: "(nat \<Rightarrow> bool) \<Rightarrow> ('z, 'x, nat) db_step" where
  "cleanup_orphaned_relationships db = statement db (\<lambda>s. let t = db_tables s in
     (length (filter (\<lambda>l. rl_source l \<in> out_of_scope t) (ct_relationships t)),
      s\<lparr>db_tables := t\<lparr>ct_relationships := filter (\<lambda>l. rl_source l \<notin> out_of_scope t) (ct_relationships t)\<rparr>\<rparr>))"

definition cleanup_tags :: "(nat \<Rightarrow> bool) \<Rightarrow> ('z, 'x, nat) db_step" where
  "cleanup_tags db = statement db (\<lambda>s. let t = db_tables s in
     (length (filter (\<lambda>g. tg_sys_id g \<in> out_of_scope t) (ct_tags t)),
      s\<lparr>db_tables := t\<lparr>ct_tags := filter (\<lambda>g. tg_sys_id g \<notin> out_of_scope t) (ct_tags t)\<rparr>\<rparr>))"

definition cleanup_keywords :: "(nat \<Rightarrow> bool) \<Rightarrow> ('z, 'x, nat) db_step" where
  "cleanup_keywords db = statement db (\<lambda>s. let t = db_tables s in
     (length (filter (\<lambda>k. kw_sys_id k \<in> out_of_scope t) (ct_keywords t)),
      s\<lparr>db_tables := t\<lparr>ct_keywords := filter (\<lambda>k. kw_sys_id k \<notin> out_of_scope t) (ct_keywords t)\<rparr>\<rparr>))"

definition cleanup_aliases :: "(nat \<Rightarrow> bool) \<Rightarrow> ('z, 'x, nat) db_step" where
  "cleanup_aliases db = statement db (\<lambda>s. let t = db_tables s in
     (length (filter (\<lambda>a. al_sys_id a \<in> out_of_scope t) (ct_aliases t)),
      s\<lparr>db_tables := t\<lparr>ct_aliases := filter (\<lambda>a. al_sys_id a \<notin> out_of_scope t) (ct_aliases t)\<rparr>\<rparr>))"

definition cleanup_orphaned_enrichments :: "(nat \<Rightarrow> bool) \<Rightarrow> ('z, 'x, nat) db_step" where
  "cleanup_orphaned_enrichments db =
     andthen (cleanup_tags db) (\<lambda>a. andthen (cleanup_keywords db) (\<lambda>b. andthen (cleanup_aliases db) (\<lambda>c.
       ok (a + b + c))))"

end
