(* ===== verification/Cache_Laws.thy ===== *)
theory Cache_Laws
  imports Cache_Records
begin

text \<open>
  Laws of the record tables: the rows of a table with a unique key (locale \<open>row_table\<close>), the
  invariant of the cache (unique keys, no full-text row without its record) kept by every statement,
  the batch that is applied whole or not at all, and what a pruned record leaves behind.
\<close>

subsection \<open>Tables with a unique key\<close>

locale row_table =
  fixes key :: "'r \<Rightarrow> 'k" and merge :: "'r \<Rightarrow> 'r \<Rightarrow> 'r"
  assumes merge_key: "key old = key new \<Longrightarrow> key (merge old new) = key new"
begin

lemma keys_upsert: "set (map key (upsert_by key merge r rows)) = insert (key r) (set (map key rows))"
  by (induction rows) (auto simp: merge_key)

lemma distinct_upsert: "distinct (map key rows) \<Longrightarrow> distinct (map key (upsert_by key merge r rows))"
proof (induction rows)
  case (Cons x xs)
  then show ?case using keys_upsert [of r xs] by (auto simp: merge_key)
qed simp

lemma select_upsert_other: "k \<noteq> key r \<Longrightarrow> select_by key k (upsert_by key merge r rows) = select_by key k rows"
  by (induction rows) (auto simp: select_by_def merge_key)

lemma select_upsert_same:
  "select_by key (key r) (upsert_by key merge r rows)
     = Some (case select_by key (key r) rows of None \<Rightarrow> r | Some old \<Rightarrow> merge old r)"
  by (induction rows) (auto simp: select_by_def merge_key)

lemma select_upsert:
  "select_by key k (upsert_by key merge r rows) = (if k = key r
     then Some (case select_by key k rows of None \<Rightarrow> r | Some old \<Rightarrow> merge old r) else select_by key k rows)"
  using select_upsert_same select_upsert_other by auto

end

interpretation record_rows: row_table record_key merged_record
  by unfold_locales (simp add: record_key_def merged_record_def)

interpretation tag_rows: row_table tag_key "\<lambda>old new. new"
  by unfold_locales simp

interpretation keyword_rows: row_table keyword_key "\<lambda>old new. new"
  by unfold_locales simp

interpretation alias_rows: row_table alias_key "\<lambda>old new. new"
  by unfold_locales simp

interpretation relationship_rows: row_table relationship_key "\<lambda>old new. new"
  by unfold_locales simp

lemma record_key_inserted [simp]: "record_key (inserted_record r) = rr_sys_id r"
  by (simp add: record_key_def inserted_record_def kept_row_def)

lemma resource_type_roundtrip [simp]: "str_to_resource_type (resource_type_to_str k) = Inr k"
  by (cases k) (simp_all add: str_to_resource_type_def)

lemma provenance_roundtrip [simp]: "parse_provenance (provenance_text p) = Some p"
  by (cases p) (simp_all add: parse_provenance_def)

subsection \<open>The invariant\<close>

definition record_keys :: "cache_tables \<Rightarrow> string list" where
  "record_keys t = map record_key (ct_records t)"

definition tables_ok :: "cache_tables \<Rightarrow> bool" where
  "tables_ok t = (distinct (record_keys t) \<and> distinct (map tag_key (ct_tags t))
     \<and> distinct (map keyword_key (ct_keywords t)) \<and> distinct (map alias_key (ct_aliases t))
     \<and> distinct (map relationship_key (ct_relationships t))
     \<and> bt_wf (ct_fts t) \<and> set (bt_keys (ct_fts t)) \<subseteq> set (record_keys t))"

definition empty_tables :: cache_tables where
  "empty_tables = \<lparr>ct_records = [], ct_fts = [], ct_tags = [], ct_keywords = [], ct_aliases = [],
     ct_articles = [], ct_embeddings = [], ct_terms = [], ct_local_files = [], ct_catalog_complete = [],
     ct_catalog_narrowed = [], ct_relationships = [], ct_memberships = [], ct_healths = [], ct_dependents = []\<rparr>"

lemma empty_tables_ok: "tables_ok empty_tables"
  by (simp add: tables_ok_def empty_tables_def record_keys_def bt_keys_def)

lemma keys_bt_remove: "set (bt_keys (bt_remove k m)) = set (bt_keys m) - {k}"
  by (auto simp: bt_keys_def bt_remove_def)

lemma keys_bt_insert: "set (bt_keys (bt_insert k v m)) = insert k (set (bt_keys m))"
  unfolding bt_keys_def by (rule set_keys_insert)

lemma distinct_map_filter_key: "distinct (map k xs) \<Longrightarrow> distinct (map k (filter P xs))"
  by (rule distinct_map_filter)

named_theorems table_keeps \<open>statements that keep the invariant of the tables\<close>

lemma put_record_ok [table_keeps]: "tables_ok t \<Longrightarrow> tables_ok (put_record r t)"
  using record_rows.keys_upsert [of "inserted_record r" "ct_records t"]
    record_rows.distinct_upsert [of "ct_records t" "inserted_record r"]
  by (auto simp: tables_ok_def put_record_def record_keys_def)

lemma put_rows_ok [table_keeps]:
  "tables_ok t \<Longrightarrow> tables_ok (put_tag g t)" "tables_ok t \<Longrightarrow> tables_ok (put_keyword k t)"
  "tables_ok t \<Longrightarrow> tables_ok (put_alias a t)" "tables_ok t \<Longrightarrow> tables_ok (put_relationship l t)"
  by (simp_all add: tables_ok_def put_tag_def put_keyword_def put_alias_def put_relationship_def record_keys_def
      tag_rows.distinct_upsert keyword_rows.distinct_upsert alias_rows.distinct_upsert relationship_rows.distinct_upsert)

lemma drop_fts_ok [table_keeps]: "tables_ok t \<Longrightarrow> tables_ok (t\<lparr>ct_fts := bt_remove i (ct_fts t)\<rparr>)"
  by (auto simp: tables_ok_def record_keys_def keys_bt_remove)

lemma put_fts_ok: "tables_ok t \<Longrightarrow> i \<in> set (record_keys t) \<Longrightarrow> tables_ok (t\<lparr>ct_fts := bt_insert i f (ct_fts t)\<rparr>)"
  by (auto simp: tables_ok_def record_keys_def keys_bt_insert)

lemma filter_rows_ok [table_keeps]:
  "tables_ok t \<Longrightarrow> tables_ok (t\<lparr>ct_tags := filter P (ct_tags t)\<rparr>)"
  "tables_ok t \<Longrightarrow> tables_ok (t\<lparr>ct_keywords := filter Q (ct_keywords t)\<rparr>)"
  "tables_ok t \<Longrightarrow> tables_ok (t\<lparr>ct_aliases := filter R (ct_aliases t)\<rparr>)"
  "tables_ok t \<Longrightarrow> tables_ok (t\<lparr>ct_relationships := filter S (ct_relationships t)\<rparr>)"
  by (simp_all add: tables_ok_def record_keys_def distinct_map_filter_key)

lemma other_tables_ok [table_keeps]:
  "tables_ok t \<Longrightarrow> tables_ok (t\<lparr>ct_catalog_complete := a\<rparr>)" "tables_ok t \<Longrightarrow> tables_ok (t\<lparr>ct_catalog_narrowed := a\<rparr>)"
  "tables_ok t \<Longrightarrow> tables_ok (t\<lparr>ct_terms := b\<rparr>)" "tables_ok t \<Longrightarrow> tables_ok (t\<lparr>ct_local_files := a\<rparr>)"
  "tables_ok t \<Longrightarrow> tables_ok (t\<lparr>ct_articles := c\<rparr>)" "tables_ok t \<Longrightarrow> tables_ok (drop_article i t)"
  by (simp_all add: tables_ok_def record_keys_def drop_article_def)

lemma record_keys_map:
  "(\<And>r. record_key (f r) = record_key r) \<Longrightarrow> record_keys (t\<lparr>ct_records := map f (ct_records t)\<rparr>) = record_keys t"
  by (simp add: record_keys_def)

lemma map_records_ok:
  assumes "tables_ok t" "\<And>r. record_key (f r) = record_key r"
  shows "tables_ok (t\<lparr>ct_records := map f (ct_records t)\<rparr>)"
  using assms(1) record_keys_map [OF assms(2), where t = t] by (simp add: tables_ok_def)

lemma mark_cache_only_ok [table_keeps]: "tables_ok t \<Longrightarrow> tables_ok (mark_cache_only i t)"
  unfolding mark_cache_only_def by (rule map_records_ok) (simp_all add: record_key_def)

lemma update_record_ok [table_keeps]:
  "tables_ok t \<Longrightarrow> (\<And>r. rr_sys_id (f r) = rr_sys_id r) \<Longrightarrow> tables_ok (update_record i f t)"
  unfolding update_record_def by (rule map_records_ok) (simp_all add: record_key_def)

lemma drop_record_ok: "tables_ok t \<Longrightarrow> i \<notin> set (bt_keys (ct_fts t)) \<Longrightarrow> tables_ok (drop_record i t)"
  by (auto simp: tables_ok_def drop_record_def record_keys_def distinct_map_filter_key)

subsection \<open>Statements\<close>

lemma exec_run:
  "exec db f w = (if db (w_tick w)
     then (Inr (), w\<lparr>w_tick := Suc (w_tick w), w_stores := (w_stores w)\<lparr>db_tables := f (db_tables (w_stores w))\<rparr>\<rparr>)
     else (Inl ''sqlite error'', w\<lparr>w_tick := Suc (w_tick w)\<rparr>))"
  by (simp add: exec_def statement_def Let_def)

lemma select_run:
  "select db g w = (if db (w_tick w) then (Inr (g (db_tables (w_stores w))), w\<lparr>w_tick := Suc (w_tick w)\<rparr>)
     else (Inl ''sqlite error'', w\<lparr>w_tick := Suc (w_tick w)\<rparr>))"
  by (simp add: select_def statement_def Let_def)

text \<open>Executed one after another, statements change the tables up to the one that fails.\<close>

definition after_all :: "(cache_tables \<Rightarrow> cache_tables) list \<Rightarrow> cache_tables \<Rightarrow> cache_tables" where
  "after_all fs t = foldl (\<lambda>t f. f t) t fs"

lemma after_all_simps [simp]: "after_all [] t = t" "after_all (f # fs) t = after_all fs (f t)"
  by (simp_all add: after_all_def)

lemma each_exec:
  "each (exec db) fs w = (r, w') \<Longrightarrow> \<exists>n \<le> length fs.
     w_stores w' = (w_stores w)\<lparr>db_tables := after_all (take n fs) (db_tables (w_stores w))\<rparr>
     \<and> (is_ok r \<longrightarrow> n = length fs)"
proof (induction fs arbitrary: w)
  case Nil
  then show ?case by (simp add: ok_def)
next
  case (Cons f fs)
  show ?case
  proof (cases "db (w_tick w)")
    case False
    with Cons.prems show ?thesis by (intro exI [of _ 0]) (auto simp: andthen_def exec_run [of db f w] is_ok_def)
  next
    case True
    with Cons.prems have "each (exec db) fs (w\<lparr>w_tick := Suc (w_tick w),
        w_stores := (w_stores w)\<lparr>db_tables := f (db_tables (w_stores w))\<rparr>\<rparr>) = (r, w')"
      by (simp add: andthen_def exec_run [of db f w])
    from Cons.IH [OF this] obtain n where "n \<le> length fs"
      "w_stores w' = (w_stores w)\<lparr>db_tables := after_all (take n fs) (f (db_tables (w_stores w)))\<rparr>"
      "is_ok r \<longrightarrow> n = length fs"
      by auto
    then show ?thesis by (intro exI [of _ "Suc n"]) simp
  qed
qed

text \<open>What an upsert does to the tables, and its statements.\<close>

definition upserted :: "record_row \<times> string \<times> string \<times> string \<Rightarrow> cache_tables \<Rightarrow> cache_tables" where
  "upserted = (\<lambda>(r, work_notes, content, tag_tokens) t. (put_record r t)\<lparr>ct_fts :=
     bt_insert (rr_sys_id r) (fts_of r work_notes content tag_tokens) (bt_remove (rr_sys_id r) (ct_fts t))\<rparr>)"

definition upsert_statements ::
  "record_row \<Rightarrow> string \<Rightarrow> string \<Rightarrow> string \<Rightarrow> (cache_tables \<Rightarrow> cache_tables) list" where
  "upsert_statements r work_notes content tag_tokens =
     [put_record r, id, \<lambda>t. t\<lparr>ct_fts := bt_remove (rr_sys_id r) (ct_fts t)\<rparr>,
      \<lambda>t. t\<lparr>ct_fts := bt_insert (rr_sys_id r) (fts_of r work_notes content tag_tokens) (ct_fts t)\<rparr>]"

lemma upsert_as_statements:
  "upsert_record_with_tags db r a b c = each (exec db) (upsert_statements r a b c)"
  by (rule ext) (simp add: upsert_record_with_tags_def upsert_statements_def andthen_def exec_run select_run ok_def)

lemma after_upsert: "after_all (upsert_statements r a b c) t = upserted (r, a, b, c) t"
  by (simp add: upsert_statements_def upserted_def put_record_def)

lemma record_present: "rr_sys_id r \<in> set (record_keys (put_record r t))"
  using record_rows.keys_upsert [of "inserted_record r" "ct_records t"] by (simp add: put_record_def record_keys_def)

lemma take_list_cases:
  "n \<le> length (x # xs) \<Longrightarrow> n = 0 \<or> (\<exists>m \<le> length xs. n = Suc m)"
  by (cases n) auto

lemma upsert_prefix_ok:
  assumes "tables_ok t"
  shows "tables_ok (after_all (take n (upsert_statements r a b c)) t)"
proof -
  have put: "tables_ok (put_record r t)" using assms by (rule put_record_ok)
  let ?cleared = "(put_record r t)\<lparr>ct_fts := bt_remove (rr_sys_id r) (ct_fts (put_record r t))\<rparr>"
  have cleared: "tables_ok ?cleared" using put by (rule drop_fts_ok)
  have "rr_sys_id r \<in> set (record_keys ?cleared)" using record_present [of r t] by (simp add: record_keys_def)
  with cleared have "tables_ok (?cleared\<lparr>ct_fts := bt_insert (rr_sys_id r) (fts_of r a b c) (ct_fts ?cleared)\<rparr>)"
    by (rule put_fts_ok)
  with assms put cleared show ?thesis
    by (cases n; cases "n - 1"; cases "n - 2"; cases "n - 3") (auto simp: upsert_statements_def take_Cons')
qed

lemma upserted_ok: "tables_ok t \<Longrightarrow> tables_ok (upserted e t)"
  using upsert_prefix_ok [of t 4] by (cases e) (simp add: after_upsert [symmetric] upsert_statements_def)

lemma prune_prefix_ok:
  assumes "tables_ok t"
  shows "tables_ok (after_all (take n (prune_statements i now)) t)"
proof -
  have keeps: "tables_ok s \<Longrightarrow> tables_ok (f s)" if "f \<in> set (take 11 (prune_statements i now))" for f s
    using that by (auto simp: prune_statements_def intro: table_keeps)
  have "tables_ok (after_all fs s)" if "set fs \<subseteq> set (take 11 (prune_statements i now))" "tables_ok s" for fs s
    using that by (induction fs arbitrary: s) (auto simp: keeps)
  moreover have "set (take m (prune_statements i now)) \<subseteq> set (take 11 (prune_statements i now))" if "m \<le> 11" for m
    using that by (rule set_take_subset_set_take)
  ultimately have early: "tables_ok (after_all (take m (prune_statements i now)) t)" if "m \<le> 11" for m
    using that assms by blast
  show ?thesis
  proof (cases "n \<le> 11")
    case False
    have "i \<notin> set (bt_keys (ct_fts (after_all (take 11 (prune_statements i now)) t)))"
      by (simp add: prune_statements_def update_record_def drop_article_def keys_bt_remove)
    with early [of 11] have "tables_ok (drop_record i (after_all (take 11 (prune_statements i now)) t))"
      by (intro drop_record_ok) simp_all
    with False show ?thesis by (simp add: prune_statements_def)
  qed (rule early)
qed

subsection \<open>Every operation keeps the invariant\<close>

type_synonym cache_world = "(cache_db, unit) world_of"

definition db_ok :: "cache_db \<Rightarrow> bool" where
  "db_ok s = (tables_ok (db_tables s) \<and> (case db_saved s of None \<Rightarrow> True | Some t \<Rightarrow> tables_ok t))"

interpretation cache_inv: step_relation "\<lambda>(w :: cache_world) w'. db_ok (w_stores w) \<longrightarrow> db_ok (w_stores w')"
  by unfold_locales simp_all

lemma inv_statement:
  "(\<And>s. db_ok s \<Longrightarrow> db_ok (snd (f s))) \<Longrightarrow> cache_inv.keeps (statement db f)"
  by (simp add: cache_inv.keeps_def statement_def Let_def split: prod.splits) (metis snd_conv)

lemma inv_exec: "(\<And>t. tables_ok t \<Longrightarrow> tables_ok (f t)) \<Longrightarrow> cache_inv.keeps (exec db f)"
  unfolding exec_def by (rule inv_statement) (simp add: db_ok_def)

lemma inv_select: "cache_inv.keeps (select db g)"
  unfolding select_def by (rule inv_statement) simp

lemma inv_transactions:
  "cache_inv.keeps (begin_immediate db)" "cache_inv.keeps (commit db)" "cache_inv.keeps (rollback db)"
  unfolding begin_immediate_def commit_def rollback_def
  by (intro cache_inv.keeps_step_rules inv_statement; simp add: db_ok_def split: option.splits)+

lemma inv_each: "(\<And>x. cache_inv.keeps (f x)) \<Longrightarrow> cache_inv.keeps (each f xs)"
  by (induction xs) (auto intro: cache_inv.keeps_step_rules)

lemma inv_statements:
  assumes "\<And>n t. tables_ok t \<Longrightarrow> tables_ok (after_all (take n fs) t)"
  shows "cache_inv.keeps (each (exec db) fs)"
  unfolding cache_inv.keeps_def
proof (intro allI impI)
  fix w :: cache_world
  assume start: "db_ok (w_stores w)"
  obtain r w' where run: "each (exec db) fs w = (r, w')" by (cases "each (exec db) fs w")
  from each_exec [OF run] obtain n where
    "w_stores w' = (w_stores w)\<lparr>db_tables := after_all (take n fs) (db_tables (w_stores w))\<rparr>" by blast
  with start assms [of "db_tables (w_stores w)" n] run show "db_ok (w_stores (snd (each (exec db) fs w)))"
    by (simp add: db_ok_def)
qed

lemma inv_upsert: "cache_inv.keeps (upsert_record_with_tags db r a b c)"
  unfolding upsert_as_statements by (rule inv_statements) (rule upsert_prefix_ok)

lemma inv_prune: "cache_inv.keeps (prune_record db i now)"
  unfolding prune_record_def by (rule inv_statements) (rule prune_prefix_ok)

lemma inv_upsert_records: "cache_inv.keeps (upsert_records db entries)"
  unfolding upsert_records_def
  by (intro cache_inv.keeps_step_rules inv_transactions inv_each) (auto intro: inv_upsert)

lemma inv_mark: "cache_inv.keeps (mark_records_cache_only db ids)"
  unfolding mark_records_cache_only_def
  by (intro cache_inv.keeps_step_rules inv_transactions inv_each inv_exec mark_cache_only_ok)

lemma inv_adopt: "cache_inv.keeps (adopt_legacy_cache_only_records db)"
  unfolding adopt_legacy_cache_only_records_def
  by (rule inv_statement) (simp add: db_ok_def map_records_ok record_key_def)

lemma inv_tombstone: "cache_inv.keeps (tombstone_record db i now)"
  unfolding tombstone_record_def by (intro inv_exec update_record_ok) simp_all

lemma inv_replace:
  "cache_inv.keeps (replace_tags db i gs)" "cache_inv.keeps (replace_keywords db i ks)"
  "cache_inv.keeps (replace_aliases db i as)" "cache_inv.keeps (replace_relationships db i ls)"
  unfolding replace_tags_def replace_keywords_def replace_aliases_def replace_relationships_def
  by (intro cache_inv.keeps_step_rules inv_each inv_exec; simp add: table_keeps)+

lemma inv_cleanup:
  "cache_inv.keeps (cleanup_orphaned_relationships db)" "cache_inv.keeps (cleanup_orphaned_enrichments db)"
  unfolding cleanup_orphaned_relationships_def cleanup_orphaned_enrichments_def cleanup_tags_def
    cleanup_keywords_def cleanup_aliases_def
  by (intro cache_inv.keeps_step_rules inv_statement; simp add: db_ok_def Let_def table_keeps)+

lemma inv_article: "cache_inv.keeps (upsert_knowledge_article db i a)"
  unfolding upsert_knowledge_article_def by (intro inv_exec table_keeps)

text \<open>The operations on one connection, in any order, each with any outcome of its statements.\<close>

inductive cache_step :: "(nat \<Rightarrow> bool) \<Rightarrow> cache_world \<Rightarrow> cache_world \<Rightarrow> bool" for db where
  step_upsert: "cache_step db w (snd (upsert_record_with_tags db r a b c w))"
| step_batch: "cache_step db w (snd (upsert_records db entries w))"
| step_mark: "cache_step db w (snd (mark_records_cache_only db ids w))"
| step_adopt: "cache_step db w (snd (adopt_legacy_cache_only_records db w))"
| step_tombstone: "cache_step db w (snd (tombstone_record db i now w))"
| step_prune: "cache_step db w (snd (prune_record db i now w))"
| step_tags: "cache_step db w (snd (replace_tags db i gs w))"
| step_keywords: "cache_step db w (snd (replace_keywords db i ks w))"
| step_aliases: "cache_step db w (snd (replace_aliases db i as w))"
| step_article: "cache_step db w (snd (upsert_knowledge_article db i art w))"
| step_relationships: "cache_step db w (snd (replace_relationships db i ls w))"
| step_clean_relationships: "cache_step db w (snd (cleanup_orphaned_relationships db w))"
| step_clean_enrichments: "cache_step db w (snd (cleanup_orphaned_enrichments db w))"

inductive_cases cache_stepE: "cache_step db w w'"

lemma inv_snd: "cache_inv.keeps m \<Longrightarrow> db_ok (w_stores w) \<Longrightarrow> db_ok (w_stores (snd (m w)))"
  by (simp add: cache_inv.keeps_def)

lemma cache_step_ok: "cache_step db w w' \<Longrightarrow> db_ok (w_stores w) \<Longrightarrow> db_ok (w_stores w')"
  by (induction rule: cache_step.induct)
    (auto intro: inv_snd inv_upsert inv_upsert_records inv_mark inv_adopt inv_tombstone inv_prune inv_replace
      inv_article inv_cleanup)

lemma cache_steps_ok: "(cache_step db)\<^sup>*\<^sup>* w w' \<Longrightarrow> db_ok (w_stores w) \<Longrightarrow> db_ok (w_stores w')"
  by (induction rule: rtranclp_induct) (auto dest: cache_step_ok)

subsection \<open>Batches\<close>

text \<open>The tables as another connection sees them.\<close>

definition durable :: "cache_db \<Rightarrow> cache_tables" where
  "durable s = (case db_saved s of None \<Rightarrow> db_tables s | Some t \<Rightarrow> t)"

lemma upsert_run:
  assumes "upsert_record_with_tags db r a b c w = (res, w')"
  shows "\<exists>t. w_stores w' = (w_stores w)\<lparr>db_tables := t\<rparr>
    \<and> (is_ok res \<longrightarrow> t = upserted (r, a, b, c) (db_tables (w_stores w)))"
  using each_exec [OF assms [unfolded upsert_as_statements]] by (auto simp: after_upsert)

lemma each_upsert:
  "each (\<lambda>(r, a, b, c). upsert_record_with_tags db r a b c) entries w = (res, w') \<Longrightarrow>
     \<exists>t. w_stores w' = (w_stores w)\<lparr>db_tables := t\<rparr>
       \<and> (is_ok res \<longrightarrow> t = fold upserted entries (db_tables (w_stores w)))"
proof (induction entries arbitrary: w)
  case Nil
  then show ?case by (auto simp: ok_def intro: exI [of _ "db_tables (w_stores w)"])
next
  case (Cons e entries)
  obtain r a b c where e: "e = (r, a, b, c)" by (cases e)
  obtain res1 w1 where run: "upsert_record_with_tags db r a b c w = (res1, w1)"
    by (cases "upsert_record_with_tags db r a b c w")
  from upsert_run [OF run] obtain t where t: "w_stores w1 = (w_stores w)\<lparr>db_tables := t\<rparr>"
    "is_ok res1 \<longrightarrow> t = upserted e (db_tables (w_stores w))" by (auto simp: e)
  show ?case
  proof (cases res1)
    case (Inl err)
    with Cons.prems run e t show ?thesis by (auto simp: andthen_def is_ok_def)
  next
    case (Inr u)
    with Cons.prems run e have "each (\<lambda>(r, a, b, c). upsert_record_with_tags db r a b c) entries w1 = (res, w')"
      by (simp add: andthen_def)
    from Cons.IH [OF this] t Inr show ?thesis by (auto simp: is_ok_def)
  qed
qed

lemma begin_run:
  assumes "db_saved (w_stores w) = None"
  shows "begin_immediate db w = (if db (w_tick w)
     then (Inr (), w\<lparr>w_tick := Suc (w_tick w),
            w_stores := (w_stores w)\<lparr>db_saved := Some (db_tables (w_stores w))\<rparr>\<rparr>)
     else (Inl ''sqlite error'', w\<lparr>w_tick := Suc (w_tick w)\<rparr>))"
  using assms by (simp add: begin_immediate_def andthen_def statement_def ok_def Let_def)

lemma begin_blocked:
  "db_saved (w_stores w) \<noteq> None \<Longrightarrow> begin_immediate db w =
     (Inl (if db (w_tick w) then ''cannot start a transaction within a transaction'' else ''sqlite error''),
      w\<lparr>w_tick := Suc (w_tick w)\<rparr>)"
  by (auto simp: begin_immediate_def andthen_def statement_def fail_def Let_def)

lemma batch_durable:
  assumes run: "upsert_records db entries w = (res, w')" and idle: "db_saved (w_stores w) = None"
  shows "durable (w_stores w') =
    (if is_ok res then fold upserted entries (db_tables (w_stores w)) else db_tables (w_stores w))"
proof (cases "entries = [] \<or> \<not> db (w_tick w)")
  case True
  with run idle show ?thesis
    by (auto simp: upsert_records_def ok_def andthen_def begin_run durable_def is_ok_def split: if_splits)
next
  case False
  let ?w1 = "w\<lparr>w_tick := Suc (w_tick w), w_stores := (w_stores w)\<lparr>db_saved := Some (db_tables (w_stores w))\<rparr>\<rparr>"
  obtain r1 w2 where loop: "each (\<lambda>(r, a, b, c). upsert_record_with_tags db r a b c) entries ?w1 = (r1, w2)"
    by (cases "each (\<lambda>(r, a, b, c). upsert_record_with_tags db r a b c) entries ?w1")
  from each_upsert [OF loop] obtain t where t:
    "w_stores w2 = (w_stores w)\<lparr>db_saved := Some (db_tables (w_stores w)), db_tables := t\<rparr>"
    "is_ok r1 \<longrightarrow> t = fold upserted entries (db_tables (w_stores w))" by auto
  from run False idle have "inspect (\<lambda>_. (r1, w2)) (\<lambda>result. case result of
      Inr u \<Rightarrow> commit db | Inl err \<Rightarrow> inspect (rollback db) (\<lambda>_. fail err)) w = (res, w')"
    by (cases r1) (simp_all add: upsert_records_def andthen_def begin_run loop inspect_def)
  with t show ?thesis
    by (cases r1; cases "db (w_tick w2)")
      (auto simp: inspect_def commit_def rollback_def statement_def Let_def fail_def durable_def is_ok_def)
qed

text \<open>Which statement of a sequence failed: the \<open>k\<close>-th, all before it having succeeded.\<close>

definition failed_at :: "(nat \<Rightarrow> bool) \<Rightarrow> nat \<Rightarrow> nat \<Rightarrow> bool" where
  "failed_at db start k \<longleftrightarrow> \<not> db (start + k) \<and> list_all (\<lambda>j. db (start + j)) [0..<k]"

lemma failed_at_0 [simp]: "failed_at db start 0 = (\<not> db start)"
  by (simp add: failed_at_def)

lemma all_ran_Suc:
  "list_all (\<lambda>j. db (start + j)) [0..<Suc k] \<longleftrightarrow> db start \<and> list_all (\<lambda>j. db (Suc start + j)) [0..<k]"
  by (simp add: list_all_iff atLeast0LessThan lessThan_Suc_eq_insert_0 del: upt_Suc)

lemma failed_at_Suc: "failed_at db start (Suc k) \<longleftrightarrow> db start \<and> failed_at db (Suc start) k"
  unfolding failed_at_def all_ran_Suc by auto

lemma each_exec_failed:
  "each (exec db) fs w = (r, w') \<Longrightarrow>
     (if is_ok r then w_tick w' = w_tick w + length fs \<and> list_all (\<lambda>j. db (w_tick w + j)) [0..<length fs]
      else \<exists>k < length fs. w_tick w' = w_tick w + Suc k \<and> failed_at db (w_tick w) k)"
proof (induction fs arbitrary: w)
  case Nil
  then show ?case by (auto simp: ok_def is_ok_def)
next
  case (Cons f fs)
  show ?case
  proof (cases "db (w_tick w)")
    case False
    with Cons.prems show ?thesis by (auto simp: andthen_def exec_run [of db f w] is_ok_def)
  next
    case True
    with Cons.prems have "each (exec db) fs (w\<lparr>w_tick := Suc (w_tick w),
        w_stores := (w_stores w)\<lparr>db_tables := f (db_tables (w_stores w))\<rparr>\<rparr>) = (r, w')"
      by (simp add: andthen_def exec_run [of db f w])
    note later = Cons.IH [OF this]
    show ?thesis
    proof (cases "is_ok r")
      case True
      with later \<open>db (w_tick w)\<close> show ?thesis using all_ran_Suc [of db "w_tick w" "length fs"] by simp
    next
      case False
      with later obtain k where "k < length fs" "w_tick w' = Suc (w_tick w) + Suc k" "failed_at db (Suc (w_tick w)) k" by auto
      with False \<open>db (w_tick w)\<close> show ?thesis by (auto simp: failed_at_Suc intro!: exI [of _ "Suc k"])
    qed
  qed
qed

lemma andthen_ok [simp]: "andthen (ok x) f = f x"
  by (rule ext) (simp add: andthen_def ok_def)

lemma andthen_assoc: "andthen (andthen m f) g = andthen m (\<lambda>x. andthen (f x) g)"
  by (rule ext) (simp add: andthen_def split: prod.split sum.split)

lemma each_append: "each f (xs @ ys) = andthen (each f xs) (\<lambda>_. each f ys)"
  by (induction xs) (simp_all add: andthen_assoc)

lemma batch_statements:
  "each (\<lambda>(r, a, b, c). upsert_record_with_tags db r a b c) entries
     = each (exec db) (concat (map (\<lambda>(r, a, b, c). upsert_statements r a b c) entries))"
  by (induction entries) (auto simp: upsert_as_statements each_append)

lemma length_batch_statements:
  "length (concat (map (\<lambda>(r, a, b, c). upsert_statements r a b c) entries)) = 4 * length entries"
  by (induction entries) (auto simp: upsert_statements_def)

text \<open>A batch that succeeds closes its transaction. In one that does not, the first failing statement is
  the begin, one of the entries', or the commit; after an entry's, when the rollback that follows
  succeeds, the connection is as it was.\<close>

lemma batch_undone:
  assumes run: "upsert_records db entries w = (res, w')" and idle: "db_saved (w_stores w) = None"
  shows "is_ok res \<Longrightarrow> db_saved (w_stores w') = None"
    and "\<not> is_ok res \<Longrightarrow> \<exists>k. failed_at db (w_tick w) k \<and> k \<le> Suc (4 * length entries)
      \<and> (k \<le> 4 * length entries \<and> db (w_tick w + Suc k) \<longrightarrow> w_stores w' = w_stores w)"
proof -
  let ?goal = "(is_ok res \<longrightarrow> db_saved (w_stores w') = None)
    \<and> (\<not> is_ok res \<longrightarrow> (\<exists>k. failed_at db (w_tick w) k \<and> k \<le> Suc (4 * length entries)
      \<and> (k \<le> 4 * length entries \<and> db (w_tick w + Suc k) \<longrightarrow> w_stores w' = w_stores w)))"
  have ?goal
  proof (cases "entries = [] \<or> \<not> db (w_tick w)")
    case True
    with run idle show ?thesis
      by (auto simp: upsert_records_def ok_def andthen_def begin_run is_ok_def split: if_splits intro!: exI [of _ 0])
  next
    case False
    let ?w1 = "w\<lparr>w_tick := Suc (w_tick w), w_stores := (w_stores w)\<lparr>db_saved := Some (db_tables (w_stores w))\<rparr>\<rparr>"
    obtain r1 w2 where loop: "each (\<lambda>(r, a, b, c). upsert_record_with_tags db r a b c) entries ?w1 = (r1, w2)"
      by (cases "each (\<lambda>(r, a, b, c). upsert_record_with_tags db r a b c) entries ?w1")
    from each_upsert [OF loop] obtain t where t:
      "w_stores w2 = (w_stores w)\<lparr>db_saved := Some (db_tables (w_stores w)), db_tables := t\<rparr>" by auto
    note stopped = each_exec_failed [OF loop [unfolded batch_statements], unfolded length_batch_statements]
    from run False idle have out: "inspect (\<lambda>_. (r1, w2)) (\<lambda>result. case result of
        Inr u \<Rightarrow> commit db | Inl err \<Rightarrow> inspect (rollback db) (\<lambda>_. fail err)) w = (res, w')"
      by (cases r1) (simp_all add: upsert_records_def andthen_def begin_run loop inspect_def)
    show ?thesis
    proof (cases r1)
      case (Inl err)
      with stopped obtain k where k: "k < 4 * length entries" "w_tick w2 = Suc (w_tick w) + Suc k"
        "failed_at db (Suc (w_tick w)) k" by (auto simp: is_ok_def)
      have "w_stores w' = w_stores w" if "db (w_tick w2)"
        using that out Inl t idle by (auto simp: inspect_def rollback_def statement_def Let_def fail_def)
      moreover have "\<not> is_ok res" using out Inl by (auto simp: inspect_def fail_def is_ok_def split: prod.splits)
      ultimately show ?thesis
        using k False by (auto simp: failed_at_Suc intro!: exI [of _ "Suc k"])
    next
      case (Inr u)
      with stopped have tick: "w_tick w2 = Suc (w_tick w) + 4 * length entries"
        and fine: "list_all (\<lambda>j. db (Suc (w_tick w) + j)) [0..<4 * length entries]" by (simp_all add: is_ok_def)
      have "failed_at db (w_tick w) (Suc (4 * length entries))" if "\<not> db (w_tick w2)"
        using that tick fine False by (auto simp: failed_at_Suc) (simp add: failed_at_def)
      then show ?thesis
        using out Inr by (auto simp: inspect_def commit_def statement_def Let_def is_ok_def split: if_splits)
    qed
  qed
  then show "is_ok res \<Longrightarrow> db_saved (w_stores w') = None"
    and "\<not> is_ok res \<Longrightarrow> \<exists>k. failed_at db (w_tick w) k \<and> k \<le> Suc (4 * length entries)
      \<and> (k \<le> 4 * length entries \<and> db (w_tick w + Suc k) \<longrightarrow> w_stores w' = w_stores w)" by blast+
qed

text \<open>When no statement fails, a batch and a pruning run to their end.\<close>

lemma each_exec_ok: "(\<And>n. db n) \<Longrightarrow> is_ok (fst (each (exec db) fs w))"
  by (induction fs arbitrary: w) (simp_all add: ok_def is_ok_def andthen_def exec_run)

lemma each_upsert_ok:
  assumes "\<And>n. db n"
  shows "is_ok (fst (each (\<lambda>(r, a, b, c). upsert_record_with_tags db r a b c) entries w))"
proof (induction entries arbitrary: w)
  case Nil
  show ?case by (simp add: ok_def is_ok_def)
next
  case (Cons e entries)
  obtain r a b c where e: "e = (r, a, b, c)" by (cases e)
  have "is_ok (fst (upsert_record_with_tags db r a b c w))"
    using each_exec_ok [of db] assms by (simp add: upsert_as_statements)
  then obtain w1 where "upsert_record_with_tags db r a b c w = (Inr (), w1)"
    by (cases "upsert_record_with_tags db r a b c w") (auto simp: is_ok_def split: sum.splits)
  with Cons e show ?case by (simp add: andthen_def)
qed

lemma prune_ok: "(\<And>n. db n) \<Longrightarrow> is_ok (fst (prune_record db i now w))"
  by (simp add: prune_record_def each_exec_ok)

lemma batch_ok:
  assumes "\<And>n. db n" "db_saved (w_stores w) = None"
  shows "is_ok (fst (upsert_records db entries w))"
proof -
  let ?w1 = "w\<lparr>w_tick := Suc (w_tick w), w_stores := (w_stores w)\<lparr>db_saved := Some (db_tables (w_stores w))\<rparr>\<rparr>"
  have "is_ok (fst (each (\<lambda>(r, a, b, c). upsert_record_with_tags db r a b c) entries ?w1))"
    using assms(1) by (rule each_upsert_ok)
  then obtain w2 where "each (\<lambda>(r, a, b, c). upsert_record_with_tags db r a b c) entries ?w1 = (Inr (), w2)"
    by (cases "each (\<lambda>(r, a, b, c). upsert_record_with_tags db r a b c) entries ?w1") (auto simp: is_ok_def split: sum.splits)
  with assms show ?thesis
    by (simp add: upsert_records_def andthen_def begin_run inspect_def commit_def statement_def ok_def is_ok_def Let_def)
qed

end
