(* ===== verification/Cache_Properties.thy ===== *)
theory Cache_Properties
  imports Cache_Laws
begin

text \<open>
  The guarantees of the record cache: the invariant of every reachable cache, the batch that a sync
  writes, and pruning. The witnesses run the operations on a small cache.
\<close>

subsection \<open>Lookups after a batch\<close>

lemma row_upserted: "row_by_sys_id i (upserted (r, a, b, c) t) = (if i = rr_sys_id r then Some (kept_row r) else row_by_sys_id i t)"
  by (auto simp: row_by_sys_id_def upserted_def put_record_def record_rows.select_upsert merged_record_def
      inserted_record_def record_key_def kept_row_def split: option.splits)

lemma row_after_batch:
  "row_by_sys_id i (fold upserted entries t) = (case List.find (\<lambda>e. rr_sys_id (fst e) = i) (rev entries) of
     None \<Rightarrow> row_by_sys_id i t | Some e \<Rightarrow> Some (kept_row (fst e)))"
proof (induction entries rule: rev_induct)
  case (snoc e es)
  then show ?case by (cases e) (simp add: row_upserted)
qed simp

subsection \<open>Pruning\<close>

lemma pruned_tables:
  assumes "prune_record db i now w = (Inr (), w')"
  shows "w_stores w' = (w_stores w)\<lparr>db_tables := after_all (prune_statements i now) (db_tables (w_stores w))\<rparr>"
  using each_exec [OF assms [unfolded prune_record_def]] by (auto simp: is_ok_def)

lemma find_filter: "(\<And>x. P x \<Longrightarrow> Q x) \<Longrightarrow> List.find P (filter Q xs) = List.find P xs"
  by (induction xs) auto

lemma find_map_same: "(\<And>x. P (f x) = P x) \<Longrightarrow> List.find P (map f xs) = map_option f (List.find P xs)"
  by (induction xs) auto

lemma row_pruned_other:
  assumes "j \<noteq> i"
  shows "row_by_sys_id j (after_all (prune_statements i now) t) = row_by_sys_id j t"
proof -
  let ?f = "\<lambda>r. if record_key r = i then r\<lparr>sr_row := (sr_row r)\<lparr>rr_pruned_at := Some (whole_second now)\<rparr>\<rparr> else r"
  have key: "record_key (?f r) = record_key r" for r by (simp add: record_key_def)
  have "List.find (\<lambda>r. record_key r = j) (filter (\<lambda>r. record_key r \<noteq> i) (map ?f (ct_records t)))
    = List.find (\<lambda>r. record_key r = j) (map ?f (ct_records t))"
    using assms by (intro find_filter) auto
  also have "\<dots> = map_option ?f (List.find (\<lambda>r. record_key r = j) (ct_records t))"
    using key by (intro find_map_same) simp
  also have "\<dots> = List.find (\<lambda>r. record_key r = j) (ct_records t)"
  proof (cases "List.find (\<lambda>r. record_key r = j) (ct_records t)")
    case (Some r)
    then have "record_key r = j" by (auto simp: find_Some_iff)
    with assms Some show ?thesis by simp
  qed simp
  finally show ?thesis
    by (simp add: prune_statements_def drop_record_def drop_article_def update_record_def row_by_sys_id_def select_by_def)
qed

text \<open>
  Some table has a row of the record or a row with a foreign key to it. A record row whose \<open>rr_parent\<close>
  is the record is not counted: the column carries no foreign key, and the code leaves it.
\<close>

definition mentions :: "string \<Rightarrow> cache_tables \<Rightarrow> bool" where
  "mentions i t = (i \<in> set (record_keys t) \<or> i \<in> set (bt_keys (ct_fts t))
     \<or> i \<in> set (map tg_sys_id (ct_tags t)) \<or> i \<in> set (map kw_sys_id (ct_keywords t))
     \<or> i \<in> set (map al_sys_id (ct_aliases t)) \<or> i \<in> set (bt_keys (ct_articles t))
     \<or> i \<in> set (bt_keys (ct_embeddings t)) \<or> i \<in> set (bt_keys (ct_terms t))
     \<or> i \<in> set (bt_keys (ct_local_files t)) \<or> i \<in> set (bt_keys (ct_catalog_complete t))
     \<or> i \<in> set (bt_keys (ct_catalog_narrowed t))
     \<or> i \<in> rl_source ` set (ct_relationships t) \<or> i \<in> rl_target ` set (ct_relationships t)
     \<or> i \<in> ms_ba ` set (ct_memberships t) \<or> i \<in> ms_server ` set (ct_memberships t)
     \<or> i \<in> set (bt_keys (ct_healths t))
     \<or> i \<in> \<Union> (set ` de_records ` set (ct_dependents t)))"

lemma not_mentioned: "\<not> mentions i (after_all (prune_statements i now) t)"
  by (auto simp: mentions_def prune_statements_def drop_record_def drop_article_def update_record_def
      record_keys_def keys_bt_remove)

subsection \<open>Properties\<close>

text \<open>
  C23: In every cache that the operations can reach from an empty one, however their statements
  fail, no two rows of a table share their key, and every row of the full-text index belongs to a
  record, so that a hit of the index is a record of the cache; the tables a rollback would
  restore are as good.
\<close>

theorem cache_invariant:
  assumes "(cache_step db)\<^sup>*\<^sup>* w w'" "w_stores w = \<lparr>db_tables = empty_tables, db_saved = None\<rparr>"
  shows "distinct (map record_key (ct_records (db_tables (w_stores w'))))
    \<and> set (bt_keys (ct_fts (db_tables (w_stores w')))) \<subseteq> set (map record_key (ct_records (db_tables (w_stores w'))))
    \<and> tables_ok (durable (w_stores w'))"
proof -
  have "db_ok (w_stores w)" using assms(2) by (simp add: db_ok_def empty_tables_ok)
  with assms(1) have "db_ok (w_stores w')" by (rule cache_steps_ok)
  then show ?thesis by (auto simp: db_ok_def tables_ok_def record_keys_def durable_def split: option.splits)
qed

text \<open>
  C12: On a connection without an open transaction, a batch is written whole or not at all: when it
  reports success the transaction is closed and every connection sees each record of the batch at
  its last entry and the other records as they were. When it reports an error, at whatever
  statement, every other connection sees the tables as they were before; and the connection itself
  is as it was before, with no transaction left open, unless the statement that failed is the commit
  (which the code does not roll back) or the rollback after it fails as well.
\<close>

theorem batch_all_or_nothing:
  assumes "upsert_records db entries w = (res, w')" "db_saved (w_stores w) = None"
  shows "(is_ok res \<longrightarrow> db_saved (w_stores w') = None \<and> (\<forall>i. row_by_sys_id i (durable (w_stores w')) =
        (case List.find (\<lambda>e. rr_sys_id (fst e) = i) (rev entries) of
           None \<Rightarrow> row_by_sys_id i (db_tables (w_stores w)) | Some e \<Rightarrow> Some (kept_row (fst e)))))
    \<and> (\<not> is_ok res \<longrightarrow> durable (w_stores w') = db_tables (w_stores w)
      \<and> (\<exists>k. failed_at db (w_tick w) k \<and> k \<le> Suc (4 * length entries)
          \<and> (k \<le> 4 * length entries \<and> db (w_tick w + Suc k) \<longrightarrow> w_stores w' = w_stores w)))"
  using batch_undone [OF assms] by (simp add: batch_durable [OF assms] row_after_batch)

text \<open>
  After a record is pruned no table of the cache holds a row of it, nor a relationship, a membership, a
  health row or an embedding that points to it, and every other record is unchanged: a child of the
  record keeps its parent field.
\<close>

theorem pruned_leaves_no_trace:
  assumes "prune_record db i now w = (Inr (), w')"
  shows "\<not> mentions i (db_tables (w_stores w'))
    \<and> (j \<noteq> i \<longrightarrow> row_by_sys_id j (db_tables (w_stores w')) = row_by_sys_id j (db_tables (w_stores w)))"
  by (simp add: pruned_tables [OF assms] not_mentioned row_pruned_other)

text \<open>
  A batch whose \<open>COMMIT\<close> fails returns without a rollback; the transaction stays open, and every later
  batch on the connection is refused.
\<close>

lemma failed_commit_blocks_batches:
  assumes "upsert_records db entries w = (Inl e, w')" "db_saved (w_stores w') \<noteq> None" "entries2 \<noteq> []"
  shows "fst (upsert_records db entries2 w') = Inl ''cannot start a transaction within a transaction''
      \<or> fst (upsert_records db entries2 w') = Inl ''sqlite error''"
    and "db_saved (w_stores (snd (upsert_records db entries2 w'))) \<noteq> None"
  using assms(2,3) by (auto simp: upsert_records_def andthen_def begin_blocked)

subsection \<open>Witnesses\<close>

definition cache_row :: "string \<Rightarrow> string \<Rightarrow> time \<Rightarrow> record_row" where
  "cache_row i n t = \<lparr>rr_sys_id = i, rr_number = n, rr_table = ''incident'', rr_type = RtIncident, rr_state = None,
     rr_short_desc = Some ''vpn'', rr_description = None, rr_assigned_to = None, rr_parent = None,
     rr_file_path = None, rr_synced_at = t, rr_updated_on = 0, rr_etag = None, rr_in_scope = True,
     rr_last_seen = t, rr_tombstoned_at = None, rr_pruned_at = None, rr_raw_json = []\<rparr>"

definition cache_start :: cache_world where
  "cache_start = \<lparr>w_stores = \<lparr>db_tables = empty_tables, db_saved = None\<rparr>, w_tick = 0, w_writes = []\<rparr>"

definition demo_entries :: "(record_row \<times> string \<times> string \<times> string) list" where
  "demo_entries = [(cache_row ''a'' ''INC1'' 0, [], [], []), (cache_row ''b'' ''INC2'' 0, [], [], []),
     (cache_row ''a'' ''INC3'' 5, [], [], [])]"

definition after_batch :: cache_world where
  "after_batch = snd (upsert_records (\<lambda>_. True) demo_entries cache_start)"

lemma demo_batch: "upsert_records (\<lambda>_. True) demo_entries cache_start = (Inr (), after_batch)"
proof -
  have "is_ok (fst (upsert_records (\<lambda>_. True) demo_entries cache_start))" by (rule batch_ok) (simp_all add: cache_start_def)
  then show ?thesis by (cases "upsert_records (\<lambda>_. True) demo_entries cache_start") (auto simp: after_batch_def is_ok_def split: sum.splits)
qed

text \<open>The seventh statement of the batch fails; the begin is the first.\<close>

definition failing :: "nat \<Rightarrow> bool" where
  "failing n = (n \<noteq> 6)"

definition after_failure :: cache_world where
  "after_failure = snd (upsert_records failing demo_entries cache_start)"

lemma demo_failure: "upsert_records failing demo_entries cache_start = (Inl ''sqlite error'', after_failure)"
proof -
  have "fst (upsert_records failing demo_entries cache_start) = Inl ''sqlite error''" by code_simp
  then show ?thesis by (simp add: after_failure_def prod_eq_iff)
qed

definition after_prune :: cache_world where
  "after_prune = snd (prune_record (\<lambda>_. True) ''a'' 7 after_batch)"

lemma demo_prune: "prune_record (\<lambda>_. True) ''a'' 7 after_batch = (Inr (), after_prune)"
proof -
  have "is_ok (fst (prune_record (\<lambda>_. True) ''a'' 7 after_batch))" by (rule prune_ok) simp
  then show ?thesis by (cases "prune_record (\<lambda>_. True) ''a'' 7 after_batch") (auto simp: after_prune_def is_ok_def split: sum.splits)
qed

theorem cache_invariant_witness:
  "distinct (map record_key (ct_records (db_tables (w_stores after_batch))))
    \<and> set (bt_keys (ct_fts (db_tables (w_stores after_batch))))
        \<subseteq> set (map record_key (ct_records (db_tables (w_stores after_batch))))
    \<and> tables_ok (durable (w_stores after_batch))"
proof -
  have "cache_step (\<lambda>_. True) cache_start after_batch"
    unfolding after_batch_def by (rule step_batch)
  then have "(cache_step (\<lambda>_. True))\<^sup>*\<^sup>* cache_start after_batch" by (rule r_into_rtranclp)
  then show ?thesis by (rule cache_invariant) (simp add: cache_start_def)
qed

theorem batch_all_or_nothing_witness:
  "map_option rr_number (row_by_sys_id ''a'' (durable (w_stores after_batch))) = Some ''INC3''
    \<and> durable (w_stores after_failure) = empty_tables \<and> w_stores after_failure = w_stores cache_start"
proof (intro conjI)
  have idle: "db_saved (w_stores cache_start) = None" by (simp add: cache_start_def)
  from batch_all_or_nothing [OF demo_batch idle] have
    "row_by_sys_id ''a'' (durable (w_stores after_batch)) = Some (kept_row (cache_row ''a'' ''INC3'' 5))"
    by (simp add: is_ok_def demo_entries_def cache_row_def)
  then show "map_option rr_number (row_by_sys_id ''a'' (durable (w_stores after_batch))) = Some ''INC3''"
    by (simp add: kept_row_def cache_row_def)
  from batch_all_or_nothing [OF demo_failure idle] show "durable (w_stores after_failure) = empty_tables"
    by (simp add: is_ok_def cache_start_def)
  from batch_all_or_nothing [OF demo_failure idle] obtain k where "failed_at failing 0 k"
    "k \<le> 4 * length demo_entries \<and> failing (Suc k) \<longrightarrow> w_stores after_failure = w_stores cache_start"
    by (auto simp: is_ok_def cache_start_def)
  then show "w_stores after_failure = w_stores cache_start"
    by (auto simp: failed_at_def failing_def demo_entries_def)
qed

theorem pruned_leaves_no_trace_witness:
  "\<not> mentions ''a'' (db_tables (w_stores after_prune))
    \<and> row_by_sys_id ''b'' (db_tables (w_stores after_prune)) = row_by_sys_id ''b'' (db_tables (w_stores after_batch))"
  using pruned_leaves_no_trace [OF demo_prune, of "''b''"] by simp

end
