(* ===== verification/Reference_Resolver.thy ===== *)
theory Reference_Resolver
  imports Json
begin

text \<open>
  The resolver of references (\<open>snow_core/src/query/resolver.rs\<close>): a reference built from the JSON of a
  field, and the cache of references with a time to live. The cache is a \<open>HashMap\<close> kept in key order.
\<close>

record reference =
  rf_sys_id :: string
  rf_table :: string
  rf_display :: string
  rf_extra :: "(string, string) btree"

record linked_record =
  rr_ref_sys_id :: string
  rr_ref_number :: string
  rr_ref_table :: string

text \<open>\<open>Value::to_string\<close> and the choice of a display name, both of other crates.\<close>

record resolver_env =
  rv_text :: "json \<Rightarrow> string"
  rv_choose :: "string option list \<Rightarrow> string"

subsection \<open>References from JSON\<close>

definition reference_keys :: "string list" where
  "reference_keys = [''sys_id'', ''value'', ''display_value'', ''name'', ''label'', ''title'', ''user_name'',
     ''email'', ''number'', ''table'', ''sys_class_name'', ''link'']"

definition extra_of :: "('z resolver_env_scheme) \<Rightarrow> (string \<times> json) list \<Rightarrow> (string, string) btree" where
  "extra_of env m = map (\<lambda>(k, v). (k, case as_str v of Some s \<Rightarrow> s | None \<Rightarrow> rv_text env v))
     (filter (\<lambda>(k, v). k \<notin> set reference_keys) m)"

definition reference_of_object ::
  "('z resolver_env_scheme) \<Rightarrow> string \<Rightarrow> (string \<times> json) list \<Rightarrow> string option \<Rightarrow> reference option" where
  "reference_of_object env name m default_table =
     (let text = (\<lambda>k. Option.bind (bt_get m k) as_str) in
      map_option (\<lambda>i. \<lparr>rf_sys_id = i,
        rf_table = (case text ''table'' of Some t \<Rightarrow> t | None \<Rightarrow>
          (case text ''sys_class_name'' of Some t \<Rightarrow> t | None \<Rightarrow>
            (case default_table of Some t \<Rightarrow> t | None \<Rightarrow> name))),
        rf_display = rv_choose env (map text [''display_value'', ''name'', ''label'', ''title'', ''user_name'',
          ''email'', ''number'']),
        rf_extra = extra_of env m\<rparr>)
      (case text ''sys_id'' of Some i \<Rightarrow> Some i | None \<Rightarrow> text ''value''))"

definition resolve_json_reference ::
  "('z resolver_env_scheme) \<Rightarrow> string \<Rightarrow> json \<Rightarrow> string option \<Rightarrow> reference option" where
  "resolve_json_reference env name v default_table = (case v of
     JObj m \<Rightarrow> reference_of_object env name m default_table
   | JStr s \<Rightarrow> if s \<noteq> [] then Some \<lparr>rf_sys_id = s,
       rf_table = (case default_table of Some t \<Rightarrow> t | None \<Rightarrow> name),
       rf_display = rv_choose env [Some s], rf_extra = []\<rparr> else None
   | _ \<Rightarrow> None)"

definition resolve_record_ref ::
  "('z resolver_env_scheme) \<Rightarrow> string \<Rightarrow> json \<Rightarrow> string option \<Rightarrow> linked_record option" where
  "resolve_record_ref env name v default_table = map_option (\<lambda>r. \<lparr>rr_ref_sys_id = rf_sys_id r,
     rr_ref_number = rf_display r, rr_ref_table = rf_table r\<rparr>) (resolve_json_reference env name v default_table)"

subsection \<open>The cache of references\<close>

record cached_reference =
  ca_reference :: reference
  ca_expires :: time

record resolver =
  rs_ttl :: time
  rs_capacity :: nat
  rs_cache :: "(string, cached_reference) btree"

definition resolver_new :: "time \<Rightarrow> nat \<Rightarrow> resolver" where
  "resolver_new ttl capacity = \<lparr>rs_ttl = ttl, rs_capacity = max capacity 1, rs_cache = []\<rparr>"

definition reference_cache_key :: "string \<Rightarrow> string \<Rightarrow> string" where
  "reference_cache_key table sys_id = table @ '':'' @ sys_id"

definition resolve_cached :: "string \<Rightarrow> string \<Rightarrow> time \<Rightarrow> resolver \<Rightarrow> reference option" where
  "resolve_cached table sys_id now r = Option.bind (bt_get (rs_cache r) (reference_cache_key table sys_id))
     (\<lambda>c. if now < ca_expires c then Some (ca_reference c) else None)"

definition evict_expired :: "time \<Rightarrow> resolver \<Rightarrow> nat \<times> resolver" where
  "evict_expired now r = (let kept = filter (\<lambda>(k, c). now < ca_expires c) (rs_cache r)
     in (length (rs_cache r) - length kept, r\<lparr>rs_cache := kept\<rparr>))"

definition cache_reference :: "reference \<Rightarrow> time \<Rightarrow> time \<Rightarrow> resolver \<Rightarrow> resolver" where
  "cache_reference ref now later r = (let r1 = r\<lparr>rs_cache := bt_insert (reference_cache_key (rf_table ref) (rf_sys_id ref))
       \<lparr>ca_reference = ref, ca_expires = now + rs_ttl r\<rparr> (rs_cache r)\<rparr>
     in if rs_capacity r1 < length (rs_cache r1) then snd (evict_expired later r1) else r1)"

definition invalidate_reference :: "string \<Rightarrow> string \<Rightarrow> resolver \<Rightarrow> resolver" where
  "invalidate_reference table sys_id r = r\<lparr>rs_cache := bt_remove (reference_cache_key table sys_id) (rs_cache r)\<rparr>"

definition clear_references :: "resolver \<Rightarrow> resolver" where
  "clear_references r = r\<lparr>rs_cache := []\<rparr>"

subsection \<open>Laws of the cache\<close>

lemma reference_cache_key_inj:
  assumes "reference_cache_key t i = reference_cache_key u j" "CHR '':'' \<notin> set t" "CHR '':'' \<notin> set u"
  shows "t = u \<and> i = j"
proof -
  have "takeWhile (\<lambda>c. c \<noteq> CHR '':'') (x @ CHR '':'' # y) = x" if "CHR '':'' \<notin> set x" for x y :: string
    using that by (induction x) auto
  with assms have "t = u" unfolding reference_cache_key_def by (metis append_Cons append_Nil)
  with assms(1) show ?thesis by (simp add: reference_cache_key_def)
qed

lemma bt_get_filter_value:
  "bt_wf m \<Longrightarrow> bt_get (filter (\<lambda>(k, c). P c) m) k = Option.bind (bt_get m k) (\<lambda>c. if P c then Some c else None)"
  unfolding bt_get_def bt_wf_def
proof (induction m)
  case (Cons x m)
  have "map_of m (fst x) = None" using Cons.prems by (force simp: map_of_eq_None_iff)
  with Cons show ?case by (cases x) auto
qed simp

lemma bt_wf_filter_entries [simp]: "bt_wf m \<Longrightarrow> bt_wf (filter P m)"
  unfolding bt_wf_def by (induction m) auto

text \<open>A reference that is cached is found until it expires, whatever the eviction drops.\<close>

lemma cached_reference_found:
  assumes "bt_wf (rs_cache r)" "later \<le> t" "t < now + rs_ttl r"
  shows "resolve_cached (rf_table ref) (rf_sys_id ref) t (cache_reference ref now later r) = Some ref"
  using assms by (auto simp: resolve_cached_def cache_reference_def evict_expired_def Let_def bt_get_filter_value)

lemma expired_reference_not_found:
  "bt_get (rs_cache r) (reference_cache_key table i) = Some c \<Longrightarrow> ca_expires c \<le> t \<Longrightarrow> resolve_cached table i t r = None"
  by (simp add: resolve_cached_def)

text \<open>The capacity is not a bound: an insertion over it evicts what has expired and nothing else.\<close>

lemma capacity_exceeded:
  assumes "rs_capacity r \<le> length (rs_cache r)" "bt_wf (rs_cache r)"
    "\<forall>(k, c) \<in> set (rs_cache r). later < ca_expires c" "later < now + rs_ttl r"
    "bt_get (rs_cache r) (reference_cache_key (rf_table ref) (rf_sys_id ref)) = None"
  shows "length (rs_cache (cache_reference ref now later r)) = Suc (length (rs_cache r))"
proof -
  let ?k = "reference_cache_key (rf_table ref) (rf_sys_id ref)"
  let ?c = "\<lparr>ca_reference = ref, ca_expires = now + rs_ttl r\<rparr>"
  have "length (bt_insert k v m) = Suc (length m)" if "bt_get m k = None" "bt_wf m"
    for k v and m :: "(string, cached_reference) btree"
    using that by (induction k v m rule: bt_insert.induct) (auto simp: bt_get_def bt_wf_def split: if_splits)
  with assms(2,5) have len: "length (bt_insert ?k ?c (rs_cache r)) = Suc (length (rs_cache r))" by blast
  have "filter (\<lambda>(k, c). later < ca_expires c) (bt_insert ?k ?c (rs_cache r)) = bt_insert ?k ?c (rs_cache r)"
    using set_bt_insert [of ?k ?c "rs_cache r"] assms(3,4) by (intro filter_True) fastforce
  with len assms(1) show ?thesis by (simp add: cache_reference_def evict_expired_def Let_def)
qed

end
