(* ===== verification/Record_Json.thy ===== *)
theory Record_Json
  imports Cache_Records Reference_Resolver
begin

text \<open>
  Records from the JSON a cache row keeps (\<open>snow_core/src/query/mod.rs\<close>, from \<open>collect_fields\<close> to
  \<open>json_string_array_field\<close>): field values, references, journals and dates. A \<open>HashMap\<close> is kept in
  key order. The clock is read once for a query. What belongs to other crates is in the
  environment: the text of a JSON value, the choice among display names, the two date formats.
\<close>

record field_value =
  fv_value :: string
  fv_display :: "string option"

record journal_entry =
  je_timestamp :: time
  je_author :: string
  je_body :: string

record json_env = resolver_env +
  jn_rfc3339 :: "string \<Rightarrow> time option"
  jn_stamp :: "string \<Rightarrow> time option"
  jn_now :: time

subsection \<open>Field values\<close>

definition json_value_to_string :: "('z resolver_env_scheme) \<Rightarrow> json \<Rightarrow> string" where
  "json_value_to_string env v = (case v of JStr s \<Rightarrow> s | JNull \<Rightarrow> [] | other \<Rightarrow> rv_text env other)"

definition field_value_of_json :: "('z resolver_env_scheme) \<Rightarrow> json \<Rightarrow> field_value" where
  "field_value_of_json env v = (case v of
     JObj m \<Rightarrow> \<lparr>fv_value = (case bt_get m ''value'' of None \<Rightarrow> [] | Some x \<Rightarrow> json_value_to_string env x),
                fv_display = Option.bind (bt_get m ''display_value'') as_str\<rparr>
   | JStr s \<Rightarrow> \<lparr>fv_value = s, fv_display = None\<rparr>
   | other \<Rightarrow> \<lparr>fv_value = json_value_to_string env other, fv_display = None\<rparr>)"

definition collect_fields :: "('z resolver_env_scheme) \<Rightarrow> json \<Rightarrow> (string, field_value) btree" where
  "collect_fields env v = (case as_object v of None \<Rightarrow> []
     | Some m \<Rightarrow> map (\<lambda>(k, x). (k, field_value_of_json env x)) m)"

definition json_string_field :: "json \<Rightarrow> string \<Rightarrow> string option" where
  "json_string_field v name = Option.bind (json_get v name) (\<lambda>x. case x of
     JStr s \<Rightarrow> Some s
   | JObj m \<Rightarrow> (case Option.bind (bt_get m ''value'') as_str of
       Some s \<Rightarrow> Some s | None \<Rightarrow> Option.bind (bt_get m ''display_value'') as_str)
   | _ \<Rightarrow> None)"

definition json_string_array_field :: "json \<Rightarrow> string \<Rightarrow> string list option" where
  "json_string_array_field v name = Option.bind (json_get v name) (\<lambda>x. map_option (\<lambda>xs.
     filter (\<lambda>s. s \<noteq> []) (map trim (List.map_filter as_str xs))) (as_array x))"

subsection \<open>References\<close>

definition reference_fields :: "string \<Rightarrow> string list" where
  "reference_fields table =
     (if table = ''kb_knowledge'' then [''knowledge_base'', ''category'', ''author'']
      else if table = ''sysapproval_approver'' then [''approver'', ''sysapproval'']
      else [''assigned_to'', ''assignment_group'', ''caller_id'', ''cmdb_ci'', ''requested_for'',
        ''request_item'', ''change_request'', ''story'', ''parent''])"

definition reference_from_json ::
  "('z resolver_env_scheme) \<Rightarrow> string \<Rightarrow> json option \<Rightarrow> string option \<Rightarrow> reference option" where
  "reference_from_json env name v default_table =
     Option.bind v (\<lambda>x. resolve_json_reference env name x default_table)"

definition reference_to_record_ref ::
  "('z resolver_env_scheme) \<Rightarrow> string \<Rightarrow> json option \<Rightarrow> string option \<Rightarrow> linked_record option" where
  "reference_to_record_ref env name v default_table =
     Option.bind v (\<lambda>x. resolve_record_ref env name x default_table)"

definition collect_references :: "('z resolver_env_scheme) \<Rightarrow> json \<Rightarrow> string \<Rightarrow> (string, reference) btree" where
  "collect_references env v table = (case as_object v of None \<Rightarrow> []
     | Some m \<Rightarrow> bt_of_list (List.map_filter (\<lambda>f.
         map_option (\<lambda>r. (f, r)) (reference_from_json env f (bt_get m f) None)) (reference_fields table)))"

subsection \<open>Dates\<close>

definition parse_iso_timestamp :: "('z json_env_scheme) \<Rightarrow> string \<Rightarrow> time option" where
  "parse_iso_timestamp env s = (case jn_rfc3339 env s of Some t \<Rightarrow> Some t | None \<Rightarrow> jn_stamp env s)"

definition parse_timestamp :: "('z json_env_scheme) \<Rightarrow> json \<Rightarrow> string \<Rightarrow> time option" where
  "parse_timestamp env v name = Option.bind (json_get v name) (\<lambda>x. case x of
     JStr s \<Rightarrow> parse_iso_timestamp env s
   | JObj m \<Rightarrow> (case Option.bind (Option.bind (bt_get m ''value'') as_str) (parse_iso_timestamp env) of
       Some t \<Rightarrow> Some t
     | None \<Rightarrow> Option.bind (Option.bind (bt_get m ''display_value'') as_str) (parse_iso_timestamp env))
   | _ \<Rightarrow> None)"

subsection \<open>Journals\<close>

text \<open>\<open>str::lines\<close>: a line loses its newline, and the carriage return before it.\<close>

definition strip_cr :: "string \<Rightarrow> string" where
  "strip_cr l = (if l \<noteq> [] \<and> last l = CHR 0x0D then butlast l else l)"

function str_lines :: "string \<Rightarrow> string list" where
  "str_lines s =
     (if s = [] then []
      else case dropWhile (\<lambda>c. c \<noteq> CHR 0x0A) s of
        [] \<Rightarrow> [s]
      | c # rest \<Rightarrow> strip_cr (takeWhile (\<lambda>c. c \<noteq> CHR 0x0A) s) # str_lines rest)"
  by pat_completeness auto
termination
proof (relation "measure length", goal_cases)
  case (2 s c rest)
  then have "length (c # rest) \<le> length s" using length_dropWhile_le [of "\<lambda>c. c \<noteq> CHR 0x0A" s] by simp
  then show ?case by simp
qed simp

declare str_lines.simps [simp del]

text \<open>\<open>str::get\<close> of a byte range: nothing where the range ends inside a character.\<close>

definition char_boundary :: "string \<Rightarrow> nat \<Rightarrow> bool" where
  "char_boundary s i = (i = length s \<or> (i < length s \<and> \<not> (128 \<le> char_code (s ! i) \<and> char_code (s ! i) < 192)))"

definition str_get :: "string \<Rightarrow> nat \<Rightarrow> nat \<Rightarrow> string option" where
  "str_get s a b = (if a \<le> b \<and> char_boundary s a \<and> char_boundary s b then Some (take (b - a) (drop a s)) else None)"

definition parse_journal_header :: "('z json_env_scheme) \<Rightarrow> string \<Rightarrow> (time \<times> string) option" where
  "parse_journal_header env line =
     (if length line < 22 \<or> \<not> str_contains '' - '' line then None
      else Option.bind (str_get line 0 19) (\<lambda>head. Option.bind (jn_stamp env head) (\<lambda>timestamp.
        Option.bind (str_get line 19 22) (\<lambda>sep. if sep \<noteq> '' - '' then None
          else map_option (\<lambda>rest. (timestamp, trim (takeWhile (\<lambda>c. c \<noteq> CHR ''('') rest)))
            (str_get line 22 (length line))))))"

text \<open>The local variables of the loop over the lines.\<close>

record journal_state =
  js_entries :: "journal_entry list"
  js_current :: "time option"
  js_author :: string
  js_preamble :: "string list"
  js_body :: "string list"

definition joined_lines :: "string list \<Rightarrow> string" where
  "joined_lines ls = trim (join [CHR 0x0A] ls)"

text \<open>Text before the first header: an unattributed entry, unless it is blank.\<close>

definition unattributed :: "('z json_env_scheme) \<Rightarrow> string list \<Rightarrow> journal_entry list" where
  "unattributed env preamble = (let text = joined_lines preamble in
     if text = [] then [] else [\<lparr>je_timestamp = jn_now env, je_author = [], je_body = text\<rparr>])"

definition journal_line :: "('z json_env_scheme) \<Rightarrow> journal_state \<Rightarrow> string \<Rightarrow> journal_state" where
  "journal_line env st line = (case parse_journal_header env line of
     Some (timestamp, author) \<Rightarrow>
       (let st1 = (if js_current st = None \<and> js_preamble st \<noteq> []
                   then st\<lparr>js_entries := js_entries st @ unattributed env (js_preamble st), js_preamble := []\<rparr>
                   else st);
            st2 = (case js_current st1 of None \<Rightarrow> st1
                   | Some t \<Rightarrow> st1\<lparr>js_entries := js_entries st1 @ [\<lparr>je_timestamp = t, je_author = js_author st1,
                       je_body = joined_lines (js_body st1)\<rparr>], js_body := []\<rparr>)
        in st2\<lparr>js_current := Some timestamp, js_author := author\<rparr>)
   | None \<Rightarrow> (if js_current st = None then st\<lparr>js_preamble := js_preamble st @ [line]\<rparr>
              else st\<lparr>js_body := js_body st @ [line]\<rparr>))"

definition finish_journal :: "('z json_env_scheme) \<Rightarrow> journal_state \<Rightarrow> journal_entry list" where
  "finish_journal env st = (case js_current st of
     Some t \<Rightarrow> js_entries st @ [\<lparr>je_timestamp = t, je_author = js_author st, je_body = joined_lines (js_body st)\<rparr>]
   | None \<Rightarrow> if js_preamble st \<noteq> [] then js_entries st @ unattributed env (js_preamble st) else js_entries st)"

definition parse_journal_blob :: "('z json_env_scheme) \<Rightarrow> string \<Rightarrow> journal_entry list" where
  "parse_journal_blob env blob = finish_journal env (foldl (journal_line env)
     \<lparr>js_entries = [], js_current = None, js_author = [], js_preamble = [], js_body = []\<rparr> (str_lines blob))"

definition parse_journal_entry_json :: "('z json_env_scheme) \<Rightarrow> json \<Rightarrow> journal_entry option" where
  "parse_journal_entry_json env v = map_option (\<lambda>m.
     \<lparr>je_timestamp = (case Option.bind (Option.bind (bt_get m ''timestamp'') as_str) (parse_iso_timestamp env) of
        None \<Rightarrow> jn_now env | Some t \<Rightarrow> t),
      je_author = (case Option.bind (bt_get m ''author'') as_str of None \<Rightarrow> [] | Some s \<Rightarrow> s),
      je_body = (case Option.bind (bt_get m ''body'') as_str of None \<Rightarrow> [] | Some s \<Rightarrow> s)\<rparr>) (as_object v)"

definition collect_journals :: "('z json_env_scheme) \<Rightarrow> json \<Rightarrow> string \<Rightarrow> journal_entry list" where
  "collect_journals env v name = (case json_get v name of
     None \<Rightarrow> []
   | Some (JStr blob) \<Rightarrow> parse_journal_blob env blob
   | Some (JArr entries) \<Rightarrow> List.map_filter (parse_journal_entry_json env) entries
   | Some _ \<Rightarrow> [])"

end
