(* ===== verification/Journal_Properties.thy ===== *)
theory Journal_Properties
  imports Record_Json
begin

text \<open>
  The parser of journal blobs against a reference that cuts the lines into sections, and what it
  keeps: every visible character that is not part of a header, in order, and one attributed entry
  for every header.
\<close>

definition visible :: "string \<Rightarrow> string" where
  "visible s = filter (\<lambda>c. \<not> is_ws c) s"

lemma visible_simps [simp]: "visible [] = []" "visible (a @ b) = visible a @ visible b"
  by (simp_all add: visible_def)

lemma visible_dropWhile: "visible (dropWhile is_ws s) = visible s"
  by (induction s) (auto simp: visible_def)

lemma visible_rev: "visible (rev s) = rev (visible s)"
  by (simp add: visible_def rev_filter)

lemma visible_trim [simp]: "visible (trim s) = visible s"
  by (simp add: trim_def visible_rev visible_dropWhile)

lemma visible_newline: "visible (CHR 0x0A # s) = visible s"
  by (simp add: visible_def is_ws_def char_code_def)

lemma visible_join [simp]: "visible (join [CHR 0x0A] ls) = concat (map visible ls)"
  by (induction "[CHR 0x0A]" ls rule: join.induct) (simp_all add: visible_newline)

lemma visible_joined_lines [simp]: "visible (joined_lines ls) = concat (map visible ls)"
  by (simp add: joined_lines_def)

lemma trim_Nil_visible: "trim s = [] \<longleftrightarrow> visible s = []"
proof
  assume "trim s = []"
  then show "visible s = []" by (metis visible_simps(1) visible_trim)
next
  assume "visible s = []"
  then have "\<forall>c \<in> set s. is_ws c" by (auto simp: visible_def filter_empty_conv)
  then have "dropWhile is_ws s = []" by simp
  then show "trim s = []" unfolding trim_def by (metis dropWhile.simps(1) rev.simps(1))
qed

lemma joined_lines_Nil: "joined_lines ls = [] \<longleftrightarrow> concat (map visible ls) = []"
  by (simp add: joined_lines_def trim_Nil_visible)

subsection \<open>The loop\<close>

definition entries_text :: "journal_entry list \<Rightarrow> string" where
  "entries_text es = concat (map (\<lambda>e. visible (je_body e)) es)"

lemma entries_text_simps [simp]: "entries_text [] = []" "entries_text (a @ b) = entries_text a @ entries_text b"
  "entries_text (e # es) = visible (je_body e) @ entries_text es"
  by (simp_all add: entries_text_def)

definition text_lines :: "('z json_env_scheme) \<Rightarrow> string list \<Rightarrow> string" where
  "text_lines env ls = concat (map (\<lambda>l. if parse_journal_header env l = None then visible l else []) ls)"

definition headers_of :: "('z json_env_scheme) \<Rightarrow> string list \<Rightarrow> (time \<times> string) list" where
  "headers_of env ls = List.map_filter (parse_journal_header env) ls"

lemma text_lines_snoc [simp]:
  "text_lines env [] = []"
  "text_lines env (ls @ [l]) = text_lines env ls @ (if parse_journal_header env l = None then visible l else [])"
  by (simp_all add: text_lines_def)

lemma headers_of_snoc [simp]:
  "headers_of env [] = []"
  "headers_of env (ls @ [l]) = headers_of env ls @ (case parse_journal_header env l of None \<Rightarrow> [] | Some h \<Rightarrow> [h])"
  by (simp_all add: headers_of_def map_filter_def split: option.splits)

definition before_headers :: "('z json_env_scheme) \<Rightarrow> string list \<Rightarrow> string list" where
  "before_headers env ls = takeWhile (\<lambda>l. parse_journal_header env l = None) ls"

definition lead :: "('z json_env_scheme) \<Rightarrow> string list \<Rightarrow> (time \<times> string) list" where
  "lead env ls = (if concat (map visible (before_headers env ls)) = [] then [] else [(jn_now env, [])])"

definition stamps :: "journal_entry list \<Rightarrow> (time \<times> string) list" where
  "stamps es = map (\<lambda>e. (je_timestamp e, je_author e)) es"

lemma stamps_simps [simp]: "stamps [] = []" "stamps (a @ b) = stamps a @ stamps b"
  "stamps (e # es) = (je_timestamp e, je_author e) # stamps es"
  by (simp_all add: stamps_def)

text \<open>The state of the loop after the lines \<open>ls\<close>.\<close>

definition journal_inv :: "('z json_env_scheme) \<Rightarrow> string list \<Rightarrow> journal_state \<Rightarrow> bool" where
  "journal_inv env ls st = (case js_current st of
     None \<Rightarrow> js_entries st = [] \<and> js_preamble st = ls \<and> js_body st = [] \<and> before_headers env ls = ls
   | Some t \<Rightarrow> entries_text (js_entries st) @ concat (map visible (js_body st)) = text_lines env ls
       \<and> stamps (js_entries st) @ [(t, js_author st)] = lead env ls @ headers_of env ls
       \<and> before_headers env ls \<noteq> ls)"

lemma before_headers_snoc:
  "before_headers env (ls @ [l]) = (if before_headers env ls = ls then ls @ before_headers env [l] else before_headers env ls)"
  unfolding before_headers_def by (induction ls) auto

lemma before_headers_short [simp]: "before_headers env ls \<noteq> ls @ [l]"
proof
  assume "before_headers env ls = ls @ [l]"
  then have "length (before_headers env ls) = Suc (length ls)" by simp
  then show False using length_takeWhile_le [of "\<lambda>l. parse_journal_header env l = None" ls]
    by (simp add: before_headers_def)
qed

lemma before_headers_all: "before_headers env ls = ls \<Longrightarrow> text_lines env ls = concat (map visible ls) \<and> headers_of env ls = []"
proof -
  assume "before_headers env ls = ls"
  then have "\<forall>l \<in> set ls. parse_journal_header env l = None"
    unfolding before_headers_def by (metis set_takeWhileD)
  then show ?thesis
    by (induction ls) (auto simp: text_lines_def headers_of_def map_filter_def)
qed

lemma unattributed_text [simp]: "entries_text (unattributed env ls) = concat (map visible ls)"
proof (cases "joined_lines ls = []")
  case True
  then show ?thesis by (simp add: unattributed_def joined_lines_Nil)
next
  case False
  have "visible (joined_lines ls) = concat (map visible ls)" by simp
  with False show ?thesis by (simp add: unattributed_def Let_def del: visible_joined_lines)
qed

lemma unattributed_stamps:
  "stamps (unattributed env ls) = (if concat (map visible ls) = [] then [] else [(jn_now env, [])])"
  by (auto simp: unattributed_def Let_def joined_lines_Nil)

lemma unattributed_Nil [simp]: "unattributed env [] = []"
  by (simp add: unattributed_def joined_lines_Nil)

lemma journal_inv_line:
  assumes "journal_inv env ls st"
  shows "journal_inv env (ls @ [l]) (journal_line env st l)"
proof (cases "parse_journal_header env l")
  case None
  then show ?thesis
    using assms by (cases "js_current st")
      (auto simp: journal_inv_def journal_line_def before_headers_snoc lead_def before_headers_def)
next
  case (Some h)
  obtain t a where h: "h = (t, a)" by (cases h)
  show ?thesis
  proof (cases "js_current st")
    case None
    with assms have "before_headers env ls = ls" "js_entries st = []" "js_preamble st = ls" "js_body st = []"
      by (simp_all add: journal_inv_def)
    moreover have "before_headers env [l] = []" using Some by (simp add: before_headers_def)
    ultimately show ?thesis
      using None Some h before_headers_all [of env ls]
      by (simp add: journal_inv_def journal_line_def Let_def before_headers_snoc lead_def unattributed_stamps)
  next
    case (Some t0)
    with assms \<open>parse_journal_header env l = Some h\<close> h show ?thesis
      by (simp add: journal_inv_def journal_line_def Let_def before_headers_snoc lead_def)
  qed
qed

lemma journal_inv_lines:
  "journal_inv env ls (foldl (journal_line env)
     \<lparr>js_entries = [], js_current = None, js_author = [], js_preamble = [], js_body = []\<rparr> ls)"
proof (induction ls rule: rev_induct)
  case Nil
  show ?case by (simp add: journal_inv_def before_headers_def)
next
  case (snoc l ls)
  then show ?case using journal_inv_line by fastforce
qed

lemma finish_inv:
  assumes "journal_inv env ls st"
  shows "entries_text (finish_journal env st) = text_lines env ls"
    and "stamps (finish_journal env st) = lead env ls @ headers_of env ls"
  using assms before_headers_all [of env ls]
  by (cases "js_current st"; auto simp: journal_inv_def finish_journal_def lead_def unattributed_stamps)+

subsection \<open>The sections of a blob\<close>

text \<open>The reference, without the state of the loop: every header opens an entry whose body are the
  lines up to the next header or the end; the lines before the first header are an entry of their
  own, without an author, unless they are blank.\<close>

definition is_text :: "('z json_env_scheme) \<Rightarrow> string \<Rightarrow> bool" where
  "is_text env l \<longleftrightarrow> parse_journal_header env l = None"

definition body_of :: "string list \<Rightarrow> string" where
  "body_of ls = trim (join [CHR 0x0A] ls)"

fun sections :: "('z json_env_scheme) \<Rightarrow> string list \<Rightarrow> journal_entry list" where
  "sections env [] = []"
| "sections env (l # ls) = (case parse_journal_header env l of
     None \<Rightarrow> sections env ls
   | Some (t, a) \<Rightarrow> \<lparr>je_timestamp = t, je_author = a, je_body = body_of (takeWhile (is_text env) ls)\<rparr> # sections env ls)"

definition opening_section :: "('z json_env_scheme) \<Rightarrow> string list \<Rightarrow> journal_entry list" where
  "opening_section env ls = (let text = body_of (takeWhile (is_text env) ls)
     in if text = [] then [] else [\<lparr>je_timestamp = jn_now env, je_author = [], je_body = text\<rparr>])"

lemma unattributed_body:
  "unattributed env ls = (if body_of ls = [] then [] else [\<lparr>je_timestamp = jn_now env, je_author = [], je_body = body_of ls\<rparr>])"
  by (simp add: unattributed_def joined_lines_def body_of_def Let_def)

lemma loop_sections:
  "js_current st = Some t \<Longrightarrow> finish_journal env (foldl (journal_line env) st ls)
     = js_entries st @ \<lparr>je_timestamp = t, je_author = js_author st,
         je_body = body_of (js_body st @ takeWhile (is_text env) ls)\<rparr> # sections env ls"
  "js_current st = None \<Longrightarrow> js_body st = [] \<Longrightarrow> js_entries st = [] \<Longrightarrow> finish_journal env (foldl (journal_line env) st ls)
     = unattributed env (js_preamble st @ takeWhile (is_text env) ls) @ sections env ls"
proof -
  show attributed: "finish_journal env (foldl (journal_line env) st ls)
     = js_entries st @ \<lparr>je_timestamp = t, je_author = js_author st,
         je_body = body_of (js_body st @ takeWhile (is_text env) ls)\<rparr> # sections env ls" if "js_current st = Some t" for st t ls
    using that
  proof (induction ls arbitrary: st t)
    case Nil
    then show ?case by (simp add: finish_journal_def joined_lines_def body_of_def)
  next
    case (Cons l ls)
    show ?case
    proof (cases "parse_journal_header env l")
      case None
      then have "is_text env l" by (simp add: is_text_def)
      then show ?thesis using Cons None by (simp add: journal_line_def)
    next
      case (Some h)
      obtain a b where h: "h = (a, b)" by (cases h)
      have header: "\<not> is_text env l" using Some by (simp add: is_text_def)
      let ?st = "journal_line env st l"
      have st: "js_current ?st = Some a" "js_author ?st = b" "js_body ?st = []"
        "js_entries ?st = js_entries st @ [\<lparr>je_timestamp = t, je_author = js_author st, je_body = body_of (js_body st)\<rparr>]"
        using Some h Cons.prems by (simp_all add: journal_line_def joined_lines_def body_of_def Let_def)
      show ?thesis using Cons.IH [OF st(1)] st Some h header by simp
    qed
  qed
  show "js_current st = None \<Longrightarrow> js_body st = [] \<Longrightarrow> js_entries st = [] \<Longrightarrow> finish_journal env (foldl (journal_line env) st ls)
     = unattributed env (js_preamble st @ takeWhile (is_text env) ls) @ sections env ls"
  proof (induction ls arbitrary: st)
    case (Cons l ls)
    show ?case
    proof (cases "parse_journal_header env l")
      case None
      then have "is_text env l" by (simp add: is_text_def)
      then show ?thesis using Cons None by (simp add: journal_line_def)
    next
      case (Some h)
      obtain a b where h: "h = (a, b)" by (cases h)
      have header: "\<not> is_text env l" using Some by (simp add: is_text_def)
      let ?st = "journal_line env st l"
      have st: "js_current ?st = Some a" "js_author ?st = b" "js_body ?st = []"
        "js_entries ?st = unattributed env (js_preamble st)"
        using Some h Cons.prems by (simp_all add: journal_line_def Let_def)
      show ?thesis using attributed [OF st(1), of ls] st Some h header by simp
    qed
  qed (simp add: finish_journal_def)
qed

subsection \<open>Properties\<close>

text \<open>
  C25: Parsing a journal blob gives exactly its sections: for every header, in order, one entry with
  its instant and author whose body are the lines up to the next header, joined and trimmed, preceded
  by one entry without an author, stamped with the clock, for the lines before the first header unless
  they are blank. In particular nothing visible is lost: the bodies of the entries are, white space
  apart, the lines that are no header, in order.
\<close>

theorem journal_keeps_text:
  "parse_journal_blob env blob = opening_section env (str_lines blob) @ sections env (str_lines blob)
    \<and> concat (map (\<lambda>e. visible (je_body e)) (parse_journal_blob env blob)) =
      concat (map (\<lambda>l. if parse_journal_header env l = None then visible l else []) (str_lines blob))
    \<and> map (\<lambda>e. (je_timestamp e, je_author e)) (parse_journal_blob env blob) =
      (if concat (map visible (takeWhile (\<lambda>l. parse_journal_header env l = None) (str_lines blob))) = []
       then [] else [(jn_now env, [])])
      @ List.map_filter (parse_journal_header env) (str_lines blob)"
proof (intro conjI)
  show "parse_journal_blob env blob = opening_section env (str_lines blob) @ sections env (str_lines blob)"
    by (simp add: parse_journal_blob_def loop_sections(2) opening_section_def unattributed_body Let_def)
qed (use finish_inv [OF journal_inv_lines [of env "str_lines blob"]] in
  \<open>simp_all add: parse_journal_blob_def entries_text_def text_lines_def stamps_def lead_def headers_of_def before_headers_def\<close>)

end
