(* ===== verification/Memory_Cache.thy ===== *)
theory Memory_Cache
  imports Tables
begin

text \<open>
  The memory cache of records (\<open>snow_core/src/cache/memory.rs\<close>): a map by number and the order of use,
  the oldest first. The least recently used entry goes when the cache is full.
\<close>

record 'r memory_cache =
  mc_capacity :: nat
  mc_by_number :: "(string, 'r) btree"
  mc_order :: "string list"

definition memory_new :: "nat \<Rightarrow> 'r memory_cache" where
  "memory_new capacity = \<lparr>mc_capacity = max capacity 1, mc_by_number = [], mc_order = []\<rparr>"

definition touch :: "string \<Rightarrow> 'r memory_cache \<Rightarrow> 'r memory_cache" where
  "touch number m = m\<lparr>mc_order := filter (\<lambda>n. n \<noteq> number) (mc_order m) @ [number]\<rparr>"

fun evict :: "nat \<Rightarrow> string list \<Rightarrow> (string, 'r) btree \<Rightarrow> string list \<times> (string, 'r) btree" where
  "evict capacity [] t = ([], t)"
| "evict capacity (oldest # order) t =
     (if capacity < length t then evict capacity order (bt_remove oldest t) else (oldest # order, t))"

definition evict_if_needed :: "'r memory_cache \<Rightarrow> 'r memory_cache" where
  "evict_if_needed m = (case evict (mc_capacity m) (mc_order m) (mc_by_number m) of
     (order, t) \<Rightarrow> m\<lparr>mc_order := order, mc_by_number := t\<rparr>)"

definition memory_get :: "string \<Rightarrow> 'r memory_cache \<Rightarrow> 'r option \<times> 'r memory_cache" where
  "memory_get number m = (case bt_get (mc_by_number m) number of
     None \<Rightarrow> (None, m) | Some r \<Rightarrow> (Some r, touch number m))"

definition memory_put :: "string \<Rightarrow> 'r \<Rightarrow> 'r memory_cache \<Rightarrow> 'r memory_cache" where
  "memory_put number r m =
     evict_if_needed (touch number (m\<lparr>mc_by_number := bt_insert number r (mc_by_number m)\<rparr>))"

definition memory_invalidate :: "string \<Rightarrow> 'r memory_cache \<Rightarrow> 'r memory_cache" where
  "memory_invalidate number m = m\<lparr>mc_by_number := bt_remove number (mc_by_number m),
     mc_order := filter (\<lambda>n. n \<noteq> number) (mc_order m)\<rparr>"

subsection \<open>The invariant\<close>

definition memory_ok :: "'r memory_cache \<Rightarrow> bool" where
  "memory_ok m = (0 < mc_capacity m \<and> bt_wf (mc_by_number m) \<and> distinct (mc_order m)
     \<and> set (mc_order m) = set (bt_keys (mc_by_number m)) \<and> length (mc_by_number m) \<le> mc_capacity m)"

lemma bt_keys_simps: "set (bt_keys (bt_remove k t)) = set (bt_keys t) - {k}"
  "set (bt_keys (bt_insert k v t)) = insert k (set (bt_keys t))"
  by (auto simp: bt_keys_def bt_remove_def set_keys_insert [simplified])

lemma length_keys: "bt_wf t \<Longrightarrow> length t = card (set (bt_keys t))"
  using distinct_card [OF bt_wf_distinct, of t] by (simp add: bt_keys_def)

lemma bt_get_key: "bt_get t k = None \<longleftrightarrow> k \<notin> set (bt_keys t)"
  by (simp add: bt_get_def bt_keys_def map_of_eq_None_iff image_def)

lemma memory_new_ok: "memory_ok (memory_new capacity)"
  by (simp add: memory_ok_def memory_new_def bt_keys_def)

lemma touch_ok: "memory_ok m \<Longrightarrow> number \<in> set (mc_order m) \<Longrightarrow> memory_ok (touch number m)"
  by (auto simp: memory_ok_def touch_def)

lemma memory_get_ok: "memory_ok m \<Longrightarrow> memory_ok (snd (memory_get number m))"
  using touch_ok [of m number] bt_get_key [of "mc_by_number m" number]
  by (auto simp: memory_get_def memory_ok_def split: option.split)

lemma card_remove_key: "bt_wf t \<Longrightarrow> k \<in> set (bt_keys t) \<Longrightarrow> length (bt_remove k t) = length t - 1"
  by (simp add: length_keys bt_keys_simps)

lemma memory_invalidate_ok: "memory_ok m \<Longrightarrow> memory_ok (memory_invalidate number m)"
proof -
  assume ok: "memory_ok m"
  have "length (bt_remove number (mc_by_number m)) \<le> length (mc_by_number m)" by (simp add: bt_remove_def)
  with ok show ?thesis by (auto simp: memory_ok_def memory_invalidate_def bt_keys_simps)
qed

subsection \<open>What an insertion evicts\<close>

definition crowded :: "string \<Rightarrow> 'r memory_cache \<Rightarrow> bool" where
  "crowded number m = (bt_get (mc_by_number m) number = None \<and> length (mc_by_number m) = mc_capacity m)"

lemma memory_put_eq:
  assumes "memory_ok m"
  shows "memory_put number r m = (if crowded number m
    then m\<lparr>mc_order := tl (mc_order m) @ [number],
           mc_by_number := bt_remove (hd (mc_order m)) (bt_insert number r (mc_by_number m))\<rparr>
    else m\<lparr>mc_order := filter (\<lambda>n. n \<noteq> number) (mc_order m) @ [number],
           mc_by_number := bt_insert number r (mc_by_number m)\<rparr>)"
proof -
  let ?t = "mc_by_number m" and ?order = "filter (\<lambda>n. n \<noteq> number) (mc_order m) @ [number]"
  from assms have m: "0 < mc_capacity m" "bt_wf ?t" "set (mc_order m) = set (bt_keys ?t)" "length ?t \<le> mc_capacity m"
    "distinct (mc_order m)" by (simp_all add: memory_ok_def)
  have len: "length (bt_insert number r ?t) = (if bt_get ?t number = None then Suc (length ?t) else length ?t)"
    using m(2) by (simp add: length_keys bt_keys_simps bt_get_key insert_absorb)
  show ?thesis
  proof (cases "crowded number m")
    case False
    have "evict (mc_capacity m) ?order (bt_insert number r ?t) = (?order, bt_insert number r ?t)"
      using False m(4) len by (cases ?order) (auto simp: crowded_def split: if_splits)
    with False show ?thesis by (simp add: memory_put_def touch_def evict_if_needed_def)
  next
    case True
    then have new: "number \<notin> set (mc_order m)" "length ?t = mc_capacity m"
      using m(3) by (simp_all add: crowded_def bt_get_key)
    then obtain oldest rest where order: "mc_order m = oldest # rest"
      using m(1,3) by (cases "mc_order m") (auto simp: bt_keys_def)
    then have "oldest \<in> set (bt_keys (bt_insert number r ?t))" using m(3) by (auto simp: bt_keys_simps)
    then have "length (bt_remove oldest (bt_insert number r ?t)) = mc_capacity m"
      using card_remove_key [of "bt_insert number r ?t" oldest] m(2) len True new by (simp add: crowded_def)
    moreover have "filter (\<lambda>n. n \<noteq> number) (mc_order m) = mc_order m" using new(1) by (intro filter_True) auto
    ultimately have "evict (mc_capacity m) ?order (bt_insert number r ?t)
        = (rest @ [number], bt_remove oldest (bt_insert number r ?t))"
      using len True new order by (cases rest) (auto simp: crowded_def)
    with True order show ?thesis by (simp add: memory_put_def touch_def evict_if_needed_def)
  qed
qed

lemma memory_put_ok: "memory_ok m \<Longrightarrow> memory_ok (memory_put number r m)"
proof -
  assume ok: "memory_ok m"
  let ?t = "bt_insert number r (mc_by_number m)"
  from ok have m: "0 < mc_capacity m" "bt_wf (mc_by_number m)" "set (mc_order m) = set (bt_keys (mc_by_number m))"
    "length (mc_by_number m) \<le> mc_capacity m" "distinct (mc_order m)" by (simp_all add: memory_ok_def)
  have len: "length ?t = (if number \<in> set (mc_order m) then length (mc_by_number m) else Suc (length (mc_by_number m)))"
    using m(2,3) by (simp add: length_keys bt_keys_simps insert_absorb)
  show ?thesis
  proof (cases "crowded number m")
    case True
    then have new: "number \<notin> set (mc_order m)" "length (mc_by_number m) = mc_capacity m"
      using m(3) by (simp_all add: crowded_def bt_get_key)
    then obtain oldest rest where order: "mc_order m = oldest # rest"
      using m(1,3) by (cases "mc_order m") (auto simp: bt_keys_def)
    have "oldest \<in> set (bt_keys ?t)" using m(3) order by (auto simp: bt_keys_simps)
    with m(2) have "length (bt_remove oldest ?t) = length ?t - 1" by (simp add: card_remove_key)
    then have "length (bt_remove oldest ?t) = mc_capacity m" using len new by simp
    with ok True order new show ?thesis
      by (auto simp: memory_put_eq memory_ok_def bt_keys_simps)
  next
    case False
    then have "length ?t \<le> mc_capacity m"
      using m(3,4) len by (auto simp: crowded_def bt_get_key)
    with ok False show ?thesis by (auto simp: memory_put_eq memory_ok_def bt_keys_simps)
  qed
qed

lemma memory_put_get:
  assumes "memory_ok m"
  shows "fst (memory_get number (memory_put number r m)) = Some r"
proof -
  have "hd (mc_order m) \<noteq> number" if "crowded number m"
  proof -
    from assms that have "mc_order m \<noteq> []" "number \<notin> set (mc_order m)"
      by (auto simp: crowded_def bt_get_key memory_ok_def bt_keys_def)
    then show ?thesis by (metis hd_in_set)
  qed
  then show ?thesis
    using assms by (auto simp: memory_get_def memory_put_eq bt_get_remove split: option.split)
qed

lemma memory_invalidate_get: "fst (memory_get number (memory_invalidate number m)) = None"
  by (simp add: memory_get_def memory_invalidate_def bt_get_remove)

subsection \<open>Properties\<close>

datatype 'r memory_op = MemoryGet string | MemoryPut string 'r | MemoryInvalidate string

fun run_memory :: "'r memory_op \<Rightarrow> 'r memory_cache \<Rightarrow> 'r memory_cache" where
  "run_memory (MemoryGet n) m = snd (memory_get n m)"
| "run_memory (MemoryPut n r) m = memory_put n r m"
| "run_memory (MemoryInvalidate n) m = memory_invalidate n m"

lemma run_memory_ok: "memory_ok m \<Longrightarrow> memory_ok (run_memory op m)"
  by (cases op) (simp_all add: memory_get_ok memory_put_ok memory_invalidate_ok)

lemma run_memory_fold_ok: "memory_ok m \<Longrightarrow> memory_ok (fold run_memory ops m)"
  by (induction ops arbitrary: m) (simp_all add: run_memory_ok)

lemma run_memory_keeps_capacity: "mc_capacity (run_memory op m) = mc_capacity m"
  by (cases op) (simp_all add: memory_get_def memory_put_def memory_invalidate_def touch_def evict_if_needed_def
      split: option.split prod.split)

lemma run_memory_capacity: "mc_capacity (fold run_memory ops m) = mc_capacity m"
  by (induction ops arbitrary: m) (simp_all add: run_memory_keeps_capacity)

lemma memory_put_contents:
  "memory_ok m \<Longrightarrow> bt_get (mc_by_number (memory_put number r m)) = (if crowded number m
     then (bt_get (mc_by_number m))(number := Some r, hd (mc_order m) := None)
     else (bt_get (mc_by_number m))(number := Some r))"
  by (simp add: memory_put_eq memory_ok_def bt_get_insert bt_get_remove)

text \<open>
  After any sequence of operations on a new memory cache it holds at most its capacity, the next
  insertion is found again, and it evicts nothing unless the cache is full and the number new; then it
  evicts the one entry used longest ago and keeps the others.
\<close>

theorem memory_cache_lru:
  "let m = fold run_memory ops (memory_new capacity) in
    length (mc_by_number m) \<le> max capacity 1
    \<and> fst (memory_get number (memory_put number r m)) = Some r
    \<and> bt_get (mc_by_number (memory_put number r m)) = (if crowded number m
        then (bt_get (mc_by_number m))(number := Some r, hd (mc_order m) := None)
        else (bt_get (mc_by_number m))(number := Some r))"
proof -
  let ?m = "fold run_memory ops (memory_new capacity)"
  have ok: "memory_ok ?m" by (rule run_memory_fold_ok) (rule memory_new_ok)
  have "length (mc_by_number ?m) \<le> mc_capacity ?m" using ok by (simp add: memory_ok_def)
  then have "length (mc_by_number ?m) \<le> max capacity 1" by (simp add: run_memory_capacity memory_new_def)
  with memory_put_get [OF ok] memory_put_contents [OF ok] show ?thesis unfolding Let_def by blast
qed

end
