(* ===== verification/Query_Engine.thy ===== *)
theory Query_Engine
  imports Record_Json Cmdb_Store Memory_Cache
begin

text \<open>
  The query engine over the cache (\<open>snow_core/src/query/mod.rs\<close>, \<open>query/filter.rs\<close>): a row becomes
  a record from its Markdown document or, failing that, from its JSON, and a read that had to fall
  back is noted in the map of degraded reads. The files of the vault are read by functions of the
  path, constant during a query; the text of a file error and whether the chain of causes
  holds an I/O error are what those functions report. Beside the tables the world holds the memory
  cache and the paths of the documents in the vault.
\<close>

datatype cache_source = FromMemory | FromDisk | FromApi

record snow_record =
  sw_sys_id :: string
  sw_number :: string
  sw_table :: string
  sw_type :: resource_type
  sw_state :: string
  sw_short_description :: string
  sw_description :: string
  sw_fields :: "(string, field_value) btree"
  sw_work_notes :: "journal_entry list"
  sw_comments :: "journal_entry list"
  sw_parent :: "linked_record option"
  sw_children :: "linked_record list"
  sw_references :: "(string, reference) btree"
  sw_synced_at :: time
  sw_source :: cache_source

datatype routed_via = RoutedDirect | RoutedGroup

record approval_record =
  ap_record :: snow_record
  ap_approver :: reference
  ap_target :: linked_record
  ap_requested_at :: time
  ap_due_date :: "time option"
  ap_routed_via :: routed_via
  ap_group :: "reference option"

record knowledge_article =
  ka_record :: snow_record
  ka_base :: reference
  ka_category :: reference
  ka_type :: string
  ka_content :: string
  ka_sn_tags :: "string list"
  ka_auto_tags :: "string list"
  ka_user_tags :: "string list"
  ka_body_cached :: bool
  ka_published_at :: "time option"
  ka_author :: "reference option"
  ka_valid_to :: "int option"

datatype degraded_reason = MissingFile | UnreadableFile string | ParseFailure string | RawJsonFallback

record degraded_read =
  dr_sys_id :: string
  dr_number :: string
  dr_table :: string
  dr_type :: resource_type
  dr_path :: "string option"
  dr_reason :: degraded_reason
  dr_observed_at :: time

text \<open>An error of a document: whether its first I/O cause is a missing file, and its text.\<close>

record read_error =
  re_missing :: "bool option"
  re_text :: string

record engine_env = json_env +
  qe_sql :: "nat \<Rightarrow> bool"
  qe_fts :: "string \<Rightarrow> (string, (string, fts_row) btree \<Rightarrow> string list) result"
  qe_parse :: "string \<Rightarrow> json option"
  qe_root :: "string option"
  qe_files :: "nat \<Rightarrow> bool"
  qe_read_record :: "string \<Rightarrow> (read_error, snow_record) result"
  qe_read_article :: "string \<Rightarrow> (read_error, knowledge_article) result"
  qe_read_approval :: "string \<Rightarrow> (read_error, approval_record) result"
  qe_day :: "string \<Rightarrow> int option"
  qe_snow_stamp :: "string \<Rightarrow> time option"
  qe_paths :: "string \<Rightarrow> (string, chain list) result"

record engine_db = cache_db +
  ed_degraded :: "(string, degraded_read) btree"
  ed_memory :: "snow_record memory_cache"
  ed_documents :: "string list"

type_synonym engine_world = "(engine_db, unit) world_of"
type_synonym 'a engine_step = "(engine_world, string, 'a) transition"

text \<open>A step on the memory of the engine.\<close>

definition in_memory :: "(engine_db \<Rightarrow> engine_db) \<Rightarrow> unit engine_step" where
  "in_memory f = (\<lambda>w. (Inr (), w\<lparr>w_stores := f (w_stores w)\<rparr>))"

text \<open>\<open>.map(..).collect::<Result<Vec<_>>>()\<close>\<close>

fun collect_results :: "('a \<Rightarrow> ('w, 'e, 'b) transition) \<Rightarrow> 'a list \<Rightarrow> ('w, 'e, 'b list) transition" where
  "collect_results f [] = ok []"
| "collect_results f (x # xs) = andthen (f x) (\<lambda>y. andthen (collect_results f xs) (\<lambda>ys. ok (y # ys)))"

definition or_empty :: "string option \<Rightarrow> string" where
  "or_empty s = (case s of None \<Rightarrow> [] | Some t \<Rightarrow> t)"

subsection \<open>Degraded reads\<close>

text \<open>\<open>Path::join\<close>\<close>

definition path_join :: "string \<Rightarrow> string \<Rightarrow> string" where
  "path_join dir rel =
     (if starts_with ''/'' rel then rel
      else if dir = [] \<or> ends_with ''/'' dir then dir @ rel
      else dir @ ''/'' @ rel)"

definition markdown_path_for_row :: "engine_env \<Rightarrow> record_row \<Rightarrow> string option" where
  "markdown_path_for_row env row = map_option (\<lambda>rel. case qe_root env of
     Some dir \<Rightarrow> path_join dir rel | None \<Rightarrow> rel) (rr_file_path row)"

definition degraded_reason_from_error :: "read_error \<Rightarrow> degraded_reason" where
  "degraded_reason_from_error e = (case re_missing e of
     Some True \<Rightarrow> MissingFile
   | Some False \<Rightarrow> UnreadableFile (re_text e)
   | None \<Rightarrow> ParseFailure (re_text e))"

definition record_degraded_read ::
  "engine_env \<Rightarrow> record_row \<Rightarrow> string option \<Rightarrow> degraded_reason \<Rightarrow> unit engine_step" where
  "record_degraded_read env row path reason = in_memory (\<lambda>s. s\<lparr>ed_degraded := bt_insert (rr_sys_id row)
     \<lparr>dr_sys_id = rr_sys_id row, dr_number = rr_number row, dr_table = rr_table row, dr_type = rr_type row,
      dr_path = path, dr_reason = reason, dr_observed_at = jn_now env\<rparr> (ed_degraded s)\<rparr>)"

definition clear_degraded_read :: "string \<Rightarrow> unit engine_step" where
  "clear_degraded_read sys_id = in_memory (\<lambda>s. s\<lparr>ed_degraded := bt_remove sys_id (ed_degraded s)\<rparr>)"

definition degraded_reads :: "engine_db \<Rightarrow> degraded_read list" where
  "degraded_reads s = sort_by (then_by dr_number (then_by dr_sys_id (by_key dr_observed_at)))
     (map snd (ed_degraded s))"

text \<open>The three loaders differ in the reader they call.\<close>

definition load_from_vault ::
  "engine_env \<Rightarrow> (string \<Rightarrow> (read_error, 'a) result) \<Rightarrow> record_row \<Rightarrow> 'a option engine_step" where
  "load_from_vault env reader row = (case markdown_path_for_row env row of
     None \<Rightarrow> andthen (record_degraded_read env row None RawJsonFallback) (\<lambda>_. ok None)
   | Some path \<Rightarrow> (case qe_root env of
       None \<Rightarrow> andthen (record_degraded_read env row (Some path) RawJsonFallback) (\<lambda>_. ok None)
     | Some dir \<Rightarrow> (case reader path of
         Inr x \<Rightarrow> andthen (clear_degraded_read (rr_sys_id row)) (\<lambda>_. ok (Some x))
       | Inl e \<Rightarrow> andthen (record_degraded_read env row (Some path) (degraded_reason_from_error e)) (\<lambda>_. ok None))))"

definition read_any :: "engine_env \<Rightarrow> resource_type \<Rightarrow> string \<Rightarrow> (read_error, snow_record) result" where
  "read_any env kind path = (case kind of
     RtKnowledge \<Rightarrow> map_sum id ka_record (qe_read_article env path)
   | RtApproval \<Rightarrow> map_sum id ap_record (qe_read_approval env path)
   | _ \<Rightarrow> qe_read_record env path)"

definition load_record_from_vault :: "engine_env \<Rightarrow> record_row \<Rightarrow> snow_record option engine_step" where
  "load_record_from_vault env row = load_from_vault env (read_any env (rr_type row)) row"

definition load_approval_from_vault :: "engine_env \<Rightarrow> record_row \<Rightarrow> approval_record option engine_step" where
  "load_approval_from_vault env row = load_from_vault env (qe_read_approval env) row"

definition load_knowledge_article_from_vault :: "engine_env \<Rightarrow> record_row \<Rightarrow> knowledge_article option engine_step" where
  "load_knowledge_article_from_vault env row = load_from_vault env (qe_read_article env) row"

subsection \<open>Records from rows\<close>

definition child_refs :: "string \<Rightarrow> record_row list \<Rightarrow> linked_record list" where
  "child_refs parent rows = sort_by (by_key rr_ref_number)
     (map (\<lambda>r. \<lparr>rr_ref_sys_id = rr_sys_id r, rr_ref_number = rr_number r, rr_ref_table = rr_table r\<rparr>)
       (filter (\<lambda>r. rr_parent r = Some parent) rows))"

definition children_for :: "engine_env \<Rightarrow> string \<Rightarrow> linked_record list engine_step" where
  "children_for env parent = andthen (list_active_records (qe_sql env) None) (\<lambda>rows. ok (child_refs parent rows))"

definition row_json :: "engine_env \<Rightarrow> record_row \<Rightarrow> json" where
  "row_json env row = (case qe_parse env (rr_raw_json row) of None \<Rightarrow> JObj [] | Some v \<Rightarrow> v)"

definition parent_of_row :: "engine_env \<Rightarrow> record_row \<Rightarrow> linked_record option" where
  "parent_of_row env row = (case rr_parent row of None \<Rightarrow> None
     | Some sys_id \<Rightarrow> (case reference_to_record_ref env ''parent'' (json_get (row_json env row) ''parent'') (Some ''record'') of
         Some r \<Rightarrow> Some r
       | None \<Rightarrow> Some \<lparr>rr_ref_sys_id = sys_id, rr_ref_number = [], rr_ref_table = []\<rparr>))"

definition record_from_json :: "engine_env \<Rightarrow> record_row \<Rightarrow> linked_record list \<Rightarrow> snow_record" where
  "record_from_json env row children =
     \<lparr>sw_sys_id = rr_sys_id row, sw_number = rr_number row, sw_table = rr_table row, sw_type = rr_type row,
      sw_state = or_empty (rr_state row), sw_short_description = or_empty (rr_short_desc row),
      sw_description = or_empty (rr_description row), sw_fields = collect_fields env (row_json env row),
      sw_work_notes = collect_journals env (row_json env row) ''work_notes'',
      sw_comments = collect_journals env (row_json env row) ''comments'',
      sw_parent = parent_of_row env row, sw_children = children,
      sw_references = collect_references env (row_json env row) (rr_table row),
      sw_synced_at = rr_synced_at row, sw_source = FromDisk\<rparr>"

definition materialize_record_from_json :: "engine_env \<Rightarrow> record_row \<Rightarrow> snow_record engine_step" where
  "materialize_record_from_json env row =
     andthen (children_for env (rr_sys_id row)) (\<lambda>children. ok (record_from_json env row children))"

definition materialize_record :: "engine_env \<Rightarrow> record_row \<Rightarrow> snow_record engine_step" where
  "materialize_record env row = andthen (load_record_from_vault env row) (\<lambda>loaded. case loaded of
     Some r \<Rightarrow> ok r | None \<Rightarrow> materialize_record_from_json env row)"

definition approval_from_json :: "engine_env \<Rightarrow> record_row \<Rightarrow> snow_record \<Rightarrow> approval_record" where
  "approval_from_json env row r = (let v = row_json env row in
     \<lparr>ap_record = r,
      ap_approver = (case reference_from_json env ''approver'' (json_get v ''approver'') (Some ''sys_user'') of
        Some x \<Rightarrow> x
      | None \<Rightarrow> \<lparr>rf_sys_id = or_empty (rr_assigned_to row), rf_table = ''sys_user'',
          rf_display = or_empty (rr_assigned_to row), rf_extra = []\<rparr>),
      ap_target = (case reference_to_record_ref env ''sysapproval'' (json_get v ''sysapproval'') (Some ''record'') of
        Some x \<Rightarrow> x
      | None \<Rightarrow> \<lparr>rr_ref_sys_id = rr_sys_id row, rr_ref_number = rr_number row, rr_ref_table = rr_table row\<rparr>),
      ap_requested_at = (case parse_timestamp env v ''sys_created_on'' of Some t \<Rightarrow> t
        | None \<Rightarrow> (case parse_timestamp env v ''opened_at'' of Some t \<Rightarrow> t | None \<Rightarrow> rr_synced_at row)),
      ap_due_date = parse_timestamp env v ''due_date'', ap_routed_via = RoutedDirect, ap_group = None\<rparr>)"

definition materialize_approval :: "engine_env \<Rightarrow> record_row \<Rightarrow> approval_record engine_step" where
  "materialize_approval env row = andthen (load_approval_from_vault env row) (\<lambda>loaded. case loaded of
     Some a \<Rightarrow> ok a
   | None \<Rightarrow> andthen (materialize_record_from_json env row) (\<lambda>r. ok (approval_from_json env row r)))"

subsection \<open>Knowledge articles\<close>

definition knowledge_content_from_json :: "json \<Rightarrow> string option" where
  "knowledge_content_from_json v = List.find (\<lambda>s. s \<noteq> [])
     (map trim (List.map_filter (json_string_field v) [''article_body'', ''text'', ''description'']))"

definition author_reference_from_fields :: "engine_env \<Rightarrow> (string, field_value) btree \<Rightarrow> reference option" where
  "author_reference_from_fields env fs = Option.bind (bt_get fs ''author'') (\<lambda>author.
     if trim (fv_value author) = [] then None
     else Some \<lparr>rf_sys_id = trim (fv_value author), rf_table = ''sys_user'',
       rf_display = rv_choose env [fv_display author], rf_extra = []\<rparr>)"

definition empty_reference :: "string \<Rightarrow> reference" where
  "empty_reference table = \<lparr>rf_sys_id = [], rf_table = table, rf_display = [], rf_extra = []\<rparr>"

definition normalize_reference_for_field :: "engine_env \<Rightarrow> string \<Rightarrow> reference \<Rightarrow> reference" where
  "normalize_reference_for_field env name r =
     (if name \<in> {''knowledge_base'', ''category'', ''author''}
      then r\<lparr>rf_display := rv_choose env (Some (rf_display r) # map (bt_get (rf_extra r))
        [''name'', ''label'', ''title'', ''user_name'', ''email'', ''number''])\<rparr>
      else r)"

definition display_field :: "string \<Rightarrow> string option \<Rightarrow> snow_record \<Rightarrow> snow_record" where
  "display_field name display r =
     r\<lparr>sw_fields := bt_update (\<lambda>k v. k = name) (\<lambda>v. v\<lparr>fv_display := display\<rparr>) (sw_fields r)\<rparr>"

definition shown :: "reference option \<Rightarrow> string option" where
  "shown r = Option.bind r (\<lambda>x. if rf_display x = [] then None else Some (rf_display x))"

text \<open>Trimmed tags, without the empty ones and without repetitions.\<close>

definition normalize_tag_layer :: "string list \<Rightarrow> string list" where
  "normalize_tag_layer tags = foldl (\<lambda>out tag. let t = trim tag in
     if t = [] \<or> t \<in> set out then out else out @ [t]) [] tags"

definition normalize_knowledge_article :: "engine_env \<Rightarrow> knowledge_article \<Rightarrow> knowledge_article" where
  "normalize_knowledge_article env a =
     (let base = normalize_reference_for_field env ''knowledge_base'' (ka_base a);
          category = normalize_reference_for_field env ''category'' (ka_category a);
          author = map_option (normalize_reference_for_field env ''author'') (ka_author a);
          r1 = display_field ''author'' (shown author) (display_field ''category'' (shown (Some category))
                 (display_field ''knowledge_base'' (shown (Some base)) (ka_record a)));
          refs = bt_insert ''category'' category (bt_insert ''knowledge_base'' base (sw_references r1))
      in a\<lparr>ka_base := base, ka_category := category, ka_author := author,
           ka_record := r1\<lparr>sw_references := (case author of
             Some x \<Rightarrow> bt_insert ''author'' x refs | None \<Rightarrow> bt_remove ''author'' refs)\<rparr>,
           ka_sn_tags := normalize_tag_layer (ka_sn_tags a), ka_auto_tags := normalize_tag_layer (ka_auto_tags a),
           ka_user_tags := normalize_tag_layer (ka_user_tags a),
           ka_body_cached := (ka_body_cached a \<or> trim (ka_content a) \<noteq> [])\<rparr>)"

definition article_reference :: "engine_env \<Rightarrow> json \<Rightarrow> snow_record \<Rightarrow> string \<Rightarrow> string \<Rightarrow> reference option" where
  "article_reference env v r name table =
     (case reference_from_json env name (json_get v name) (Some table) of
        Some x \<Rightarrow> Some x | None \<Rightarrow> bt_get (sw_references r) name)"

definition tags_or :: "json \<Rightarrow> string \<Rightarrow> string list option \<Rightarrow> string list" where
  "tags_or v name projected = (case json_string_array_field v name of
     Some ts \<Rightarrow> ts | None \<Rightarrow> (case projected of Some ts \<Rightarrow> ts | None \<Rightarrow> []))"

definition article_from_json :: "engine_env \<Rightarrow> json \<Rightarrow> snow_record \<Rightarrow> article_row option \<Rightarrow> knowledge_article" where
  "article_from_json env v r projection =
     (let content = (case knowledge_content_from_json v of
          Some s \<Rightarrow> if trim s \<noteq> [] then s else sw_description r
        | None \<Rightarrow> sw_description r)
      in \<lparr>ka_record = r,
          ka_base = (case article_reference env v r ''knowledge_base'' ''kb_knowledge_base'' of
            Some x \<Rightarrow> x | None \<Rightarrow> empty_reference ''kb_knowledge_base''),
          ka_category = (case article_reference env v r ''category'' ''kb_category'' of
            Some x \<Rightarrow> x | None \<Rightarrow> empty_reference ''kb_category''),
          ka_type = (case json_string_field v ''article_type'' of Some s \<Rightarrow> s | None \<Rightarrow> ''text''),
          ka_content = content,
          ka_sn_tags = tags_or v ''sn_tags'' (map_option ar_sn_tags projection),
          ka_auto_tags = tags_or v ''auto_tags'' (map_option ar_auto_tags projection),
          ka_user_tags = tags_or v ''user_tags'' (map_option ar_user_tags projection),
          ka_body_cached = (case json_get v ''body_cached'' of Some (JBool b) \<Rightarrow> b
            | _ \<Rightarrow> (case projection of Some p \<Rightarrow> ar_body_cached p | None \<Rightarrow> trim content \<noteq> [])),
          ka_published_at = Option.bind (case json_string_field v ''published'' of
            Some s \<Rightarrow> Some s | None \<Rightarrow> map_option fv_value (bt_get (sw_fields r) ''published'')) (qe_snow_stamp env),
          ka_author = (case article_reference env v r ''author'' ''sys_user'' of
            Some x \<Rightarrow> Some x | None \<Rightarrow> author_reference_from_fields env (sw_fields r)),
          ka_valid_to = Option.bind (json_string_field v ''valid_to'') (qe_day env)\<rparr>)"

definition materialize_knowledge_article :: "engine_env \<Rightarrow> record_row \<Rightarrow> knowledge_article engine_step" where
  "materialize_knowledge_article env row = andthen (load_knowledge_article_from_vault env row) (\<lambda>loaded. case loaded of
     Some a \<Rightarrow> ok a
   | None \<Rightarrow> andthen (materialize_record_from_json env row) (\<lambda>r.
       andthen (get_knowledge_article (qe_sql env) (rr_sys_id row)) (\<lambda>projection.
         ok (normalize_knowledge_article env (article_from_json env (row_json env row) r projection)))))"

end
