(* ===== verification/Query_Reads.thy ===== *)
theory Query_Reads
  imports Query_Engine
begin

text \<open>
  The reads of the query engine (\<open>snow_core/src/query/mod.rs\<close>): lookups, lists and their filters
  (\<open>query/filter.rs\<close>), approvals, knowledge, servers (\<open>resource/server.rs\<close>) and the stored
  relationships between business applications and servers
  (\<open>business_application_servers_cached\<close>, \<open>business_applications_for_server\<close>).
\<close>

subsection \<open>Filters\<close>

datatype sort_order = Ascending | Descending

record sort_field =
  sf_field :: string
  sf_order :: sort_order

record list_query =
  lq_type :: "resource_type option"
  lq_number :: "string option"
  lq_numbers :: "string list"
  lq_states :: "string list"
  lq_assigned_to :: "string option"
  lq_parent :: "string option"
  lq_tombstoned :: bool
  lq_limit :: "nat option"
  lq_sort :: "sort_field list"

definition list_query_new :: list_query where
  "list_query_new = \<lparr>lq_type = None, lq_number = None, lq_numbers = [], lq_states = [], lq_assigned_to = None,
     lq_parent = None, lq_tombstoned = False, lq_limit = None, lq_sort = []\<rparr>"

definition state_in :: "string list \<Rightarrow> record_row \<Rightarrow> bool" where
  "state_in states row = (states = [] \<or> (case rr_state row of None \<Rightarrow> False | Some s \<Rightarrow> s \<in> set states))"

definition list_query_matches :: "list_query \<Rightarrow> record_row \<Rightarrow> bool" where
  "list_query_matches q row =
     ((lq_tombstoned q \<or> rr_in_scope row)
      \<and> (case lq_type q of None \<Rightarrow> True | Some k \<Rightarrow> rr_type row = k)
      \<and> (case lq_number q of None \<Rightarrow> True | Some n \<Rightarrow> rr_number row = n)
      \<and> (lq_numbers q = [] \<or> rr_number row \<in> set (lq_numbers q))
      \<and> state_in (lq_states q) row
      \<and> (case lq_assigned_to q of None \<Rightarrow> True | Some a \<Rightarrow> rr_assigned_to row = Some a)
      \<and> (case lq_parent q of None \<Rightarrow> True | Some p \<Rightarrow> rr_parent row = Some p))"

record approval_query =
  aq_approver :: "string option"
  aq_target :: "string option"
  aq_states :: "string list"
  aq_tombstoned :: bool
  aq_limit :: "nat option"

definition approval_query_pending :: approval_query where
  "approval_query_pending = \<lparr>aq_approver = None, aq_target = None, aq_states = [''requested''],
     aq_tombstoned = False, aq_limit = None\<rparr>"

definition approval_query_matches :: "engine_env \<Rightarrow> approval_query \<Rightarrow> record_row \<Rightarrow> bool" where
  "approval_query_matches env q row =
     ((aq_tombstoned q \<or> rr_in_scope row)
      \<and> state_in (aq_states q) row
      \<and> (case aq_target q of None \<Rightarrow> True | Some t \<Rightarrow> rr_parent row = Some t \<or> rr_sys_id row = t)
      \<and> (case aq_approver q of None \<Rightarrow> True
         | Some a \<Rightarrow> (case reference_from_json env ''approver''
               (json_get (case qe_parse env (rr_raw_json row) of None \<Rightarrow> JNull | Some v \<Rightarrow> v) ''approver'')
               (Some ''sys_user'') of
             None \<Rightarrow> False | Some r \<Rightarrow> rf_sys_id r = a)))"

definition truncate_to :: "nat option \<Rightarrow> 'a list \<Rightarrow> 'a list" where
  "truncate_to limit xs = (case limit of None \<Rightarrow> xs | Some n \<Rightarrow> take n xs)"

subsection \<open>Lookups and lists\<close>

definition if_some :: "'a option \<Rightarrow> ('a \<Rightarrow> 'b engine_step) \<Rightarrow> 'b option engine_step" where
  "if_some x f = (case x of None \<Rightarrow> ok None | Some y \<Rightarrow> andthen (f y) (\<lambda>z. ok (Some z)))"

definition get_record :: "engine_env \<Rightarrow> string \<Rightarrow> snow_record option engine_step" where
  "get_record env number = andthen (get_primary_record_by_number (qe_sql env) number)
     (\<lambda>row. if_some row (materialize_record env))"

definition get_article :: "engine_env \<Rightarrow> string \<Rightarrow> knowledge_article option engine_step" where
  "get_article env number = andthen (get_record_by_number_and_type (qe_sql env) number RtKnowledge)
     (\<lambda>row. if_some row (materialize_knowledge_article env))"

definition get_approval :: "engine_env \<Rightarrow> string \<Rightarrow> approval_record option engine_step" where
  "get_approval env number = andthen (get_record_by_number_and_type (qe_sql env) number RtApproval)
     (\<lambda>row. if_some row (materialize_approval env))"

definition list_records :: "engine_env \<Rightarrow> list_query \<Rightarrow> snow_record list engine_step" where
  "list_records env q = andthen (list_active_records (qe_sql env) (lq_type q)) (\<lambda>rows.
     andthen (collect_results (materialize_record env) (filter (list_query_matches q) rows)) (\<lambda>records.
       ok (truncate_to (lq_limit q) records)))"

definition get_children :: "engine_env \<Rightarrow> string \<Rightarrow> snow_record list engine_step" where
  "get_children env number = andthen (get_record env number) (\<lambda>parent. case parent of
     None \<Rightarrow> ok [] | Some p \<Rightarrow> list_records env (list_query_new\<lparr>lq_parent := Some (sw_sys_id p)\<rparr>))"

definition task_types :: "resource_type list" where
  "task_types = [RtTask, RtIncident, RtChange, RtChangeTask, RtRequest, RtRequestTask, RtDemandTask, RtStory, RtScrumTask]"

definition my_tasks :: "engine_env \<Rightarrow> snow_record list engine_step" where
  "my_tasks env = andthen (list_active_records (qe_sql env) None) (\<lambda>rows.
     andthen (collect_results (materialize_record env) (filter (\<lambda>r. rr_type r \<in> set task_types) rows)) (\<lambda>records.
       ok (sort_by (by_key sw_number) records)))"

definition approvals :: "engine_env \<Rightarrow> approval_query \<Rightarrow> approval_record list engine_step" where
  "approvals env q = andthen (list_active_records (qe_sql env) (Some RtApproval)) (\<lambda>rows.
     andthen (collect_results (materialize_approval env) (filter (approval_query_matches env q) rows)) (\<lambda>records.
       ok (truncate_to (aq_limit q) records)))"

definition my_approvals :: "engine_env \<Rightarrow> approval_record list engine_step" where
  "my_approvals env = approvals env approval_query_pending"

subsection \<open>Knowledge\<close>

record knowledge_filters =
  kf_base :: "string option"
  kf_category :: "string option"
  kf_limit :: "nat option"

definition given_text :: "string option \<Rightarrow> string option" where
  "given_text s = Option.bind s (\<lambda>t. if trim t = [] then None else Some (trim t))"

definition matches_reference_filter :: "string option \<Rightarrow> reference \<Rightarrow> bool" where
  "matches_reference_filter wanted r = (case given_text wanted of None \<Rightarrow> True
     | Some f \<Rightarrow> f = rf_sys_id r \<or> eq_ignore_case f (rf_display r))"

definition matches_knowledge_filters :: "knowledge_article \<Rightarrow> knowledge_filters \<Rightarrow> bool" where
  "matches_knowledge_filters a f =
     (matches_reference_filter (kf_base f) (ka_base a) \<and> matches_reference_filter (kf_category f) (ka_category a))"

text \<open>The articles of the hits, until there are enough.\<close>

fun collect_articles :: "engine_env \<Rightarrow> knowledge_filters \<Rightarrow> nat \<Rightarrow> string list \<Rightarrow> knowledge_article list
    \<Rightarrow> knowledge_article list engine_step" where
  "collect_articles env f limit [] found = ok found"
| "collect_articles env f limit (n # ns) found = andthen (get_article env n) (\<lambda>a. case a of
     None \<Rightarrow> collect_articles env f limit ns found
   | Some article \<Rightarrow>
       if \<not> matches_knowledge_filters article f then collect_articles env f limit ns found
       else if limit \<le> length (found @ [article]) then ok (found @ [article])
       else collect_articles env f limit ns (found @ [article]))"

text \<open>Characters between words become one space; letters become small.\<close>

fun spaced :: "bool \<Rightarrow> string \<Rightarrow> string" where
  "spaced prev [] = []"
| "spaced prev (c # cs) =
     (if is_digit c \<or> (97 \<le> char_code (lower_char c) \<and> char_code (lower_char c) \<le> 122)
      then lower_char c # spaced False cs
      else if prev then spaced True cs
      else CHR '' '' # spaced True cs)"

definition normalize_search_term :: "string \<Rightarrow> string" where
  "normalize_search_term s = join '' '' (split_ws (spaced False s))"

definition search_knowledge :: "engine_env \<Rightarrow> string \<Rightarrow> knowledge_filters \<Rightarrow> knowledge_article list engine_step" where
  "search_knowledge env query f =
     (if normalize_search_term query = [] \<and> trim query = [] then ok []
      else let limit = max (case kf_limit f of None \<Rightarrow> 20 | Some n \<Rightarrow> n) 1
           in andthen (search_fts (qe_sql env) (qe_fts env) query (limit * 4)) (\<lambda>numbers.
             collect_articles env f limit numbers []))"

subsection \<open>Servers\<close>

record server_query =
  vq_text :: "string option"
  vq_name :: "string option"
  vq_ip_address :: "string option"
  vq_owner_group :: "string option"
  vq_class :: "string option"
  vq_limit :: "nat option"
  vq_offset :: "nat option"

definition canonical_server_class :: "string \<Rightarrow> (string, string) result" where
  "canonical_server_class s = (let c = canonical_server_table_alias s in
     if c = ''cmdb_ci_linux_server'' then Inr ''cmdb_ci_linux_server''
     else if c = ''cmdb_ci_win_server'' then Inr ''cmdb_ci_win_server''
     else if c = server_table \<or> c = ''server'' then Inr server_table
     else Inl (''unsupported server class `'' @ c @ ''`''))"

definition validate_server_query :: "server_query \<Rightarrow> (string, unit) result" where
  "validate_server_query q = (let limit = (case vq_limit q of None \<Rightarrow> 20 | Some n \<Rightarrow> n) in
     if limit = 0 then Inl ''`limit` must be at least 1''
     else if 500 < limit then Inl ''`limit` must be at most 500''
     else case vq_class q of None \<Rightarrow> Inr () | Some c \<Rightarrow> bind_ok (canonical_server_class c) (\<lambda>_. Inr ()))"

definition server_field_text :: "snow_record \<Rightarrow> string \<Rightarrow> string option" where
  "server_field_text r name = Option.bind (bt_get (sw_fields r) name) (\<lambda>v.
     given_text (Some (case fv_display v of Some d \<Rightarrow> d | None \<Rightarrow> fv_value v)))"

definition server_name :: "snow_record \<Rightarrow> string" where
  "server_name r = (case server_field_text r ''name'' of Some n \<Rightarrow> n
     | None \<Rightarrow> if trim (sw_short_description r) \<noteq> [] then sw_short_description r else sw_sys_id r)"

definition server_reference_text :: "snow_record \<Rightarrow> string \<Rightarrow> string option" where
  "server_reference_text r name = (case bt_get (sw_references r) name of
     Some x \<Rightarrow> Some (rf_sys_id x @ '' '' @ rf_display x) | None \<Rightarrow> server_field_text r name)"

definition server_search_text :: "snow_record \<Rightarrow> string" where
  "server_search_text r = join '' '' (List.map_filter id [Some (server_name r), server_field_text r ''ip_address'',
     server_field_text r ''fqdn'', server_field_text r ''sys_class_name'',
     server_reference_text r ''managed_by_group'', server_reference_text r ''support_group''])"

definition server_class_matches :: "snow_record \<Rightarrow> string option \<Rightarrow> bool" where
  "server_class_matches r class_text = (case given_text class_text of None \<Rightarrow> True
     | Some c \<Rightarrow> (case canonical_server_class c of Inl _ \<Rightarrow> False
       | Inr k \<Rightarrow> k = server_table \<or> sw_table r = k \<or> server_field_text r ''sys_class_name'' = Some k))"

definition optional_contains :: "string option \<Rightarrow> string option \<Rightarrow> bool" where
  "optional_contains haystack needle = (case given_text needle of None \<Rightarrow> True
     | Some n \<Rightarrow> (case haystack of None \<Rightarrow> False | Some h \<Rightarrow> str_contains (to_lower n) (to_lower h)))"

definition optional_eq :: "string option \<Rightarrow> string option \<Rightarrow> bool" where
  "optional_eq x expected = (case given_text expected of None \<Rightarrow> True
     | Some e \<Rightarrow> (case x of None \<Rightarrow> False | Some v \<Rightarrow> eq_ignore_case (trim v) e))"

definition server_matches_query :: "server_query \<Rightarrow> snow_record \<Rightarrow> bool" where
  "server_matches_query q r =
     (server_class_matches r (vq_class q)
      \<and> optional_contains (Some (server_name r)) (vq_name q)
      \<and> optional_eq (server_field_text r ''ip_address'') (vq_ip_address q)
      \<and> optional_contains (server_reference_text r ''managed_by_group'') (vq_owner_group q)
      \<and> optional_contains (Some (server_search_text r)) (vq_text q))"

definition query_servers :: "engine_env \<Rightarrow> server_query \<Rightarrow> snow_record list engine_step" where
  "query_servers env q = andthen (of_result (validate_server_query q)) (\<lambda>_.
     andthen (list_active_records (qe_sql env) (Some RtServer)) (\<lambda>rows.
     andthen (collect_results (materialize_record env) rows) (\<lambda>all.
       let records = sort_by (by_key server_name) (filter (server_matches_query q) all);
           offset = min (case vq_offset q of None \<Rightarrow> 0 | Some n \<Rightarrow> n) (length records);
           limit = (case vq_limit q of None \<Rightarrow> 20 | Some n \<Rightarrow> n)
       in ok (take limit (drop offset records)))))"

subsection \<open>Stored relationships\<close>

definition business_application_name :: "snow_record \<Rightarrow> string" where
  "business_application_name r =
     (case Option.bind (bt_get (sw_fields r) ''name'') (\<lambda>v.
         let s = (case fv_display v of Some d \<Rightarrow> d | None \<Rightarrow> fv_value v) in if trim s = [] then None else Some s) of
        Some n \<Rightarrow> n
      | None \<Rightarrow> if trim (sw_short_description r) \<noteq> [] then sw_short_description r else sw_sys_id r)"

definition record_visible :: "record_row \<Rightarrow> bool \<Rightarrow> bool" where
  "record_visible row tombstoned =
     (if lifecycle row = LifePruned then False else tombstoned \<or> lifecycle row = LifeActive)"

definition cached_record_by_sys_id ::
  "engine_env \<Rightarrow> string \<Rightarrow> resource_type \<Rightarrow> bool \<Rightarrow> snow_record option engine_step" where
  "cached_record_by_sys_id env sys_id kind tombstoned = andthen (get_record_by_sys_id (qe_sql env) sys_id)
     (\<lambda>found. case found of None \<Rightarrow> ok None
      | Some row \<Rightarrow> if rr_type row \<noteq> kind \<or> \<not> record_visible row tombstoned then ok None
                   else andthen (materialize_record env row) (\<lambda>r. ok (Some r)))"

definition cached_resource_records :: "engine_env \<Rightarrow> resource_type \<Rightarrow> bool \<Rightarrow> snow_record list engine_step" where
  "cached_resource_records env kind tombstoned =
     andthen (if tombstoned then list_records_by_resource_type (qe_sql env) kind
              else list_active_records (qe_sql env) (Some kind))
       (\<lambda>rows. collect_results (materialize_record env) (filter (\<lambda>row. record_visible row tombstoned) rows))"

datatype cached_selector = CachedNumber string | CachedSysId string | CachedName string

record cached_params =
  cp_number :: "string option"
  cp_sys_id :: "string option"
  cp_name :: "string option"
  cp_tombstoned :: bool

definition chosen_one :: "'a option list \<Rightarrow> bool" where
  "chosen_one xs = (length (filter (\<lambda>x. x \<noteq> None) xs) = 1)"

definition validate_cached_params :: "cached_params \<Rightarrow> (string, cached_selector) result" where
  "validate_cached_params p =
     (let number = non_empty_owned (cp_number p); sys_id = non_empty_owned (cp_sys_id p);
          name = non_empty_owned (cp_name p)
      in if \<not> chosen_one [number, sys_id, name] then Inl ''provide exactly one of `number`, `sys_id`, or `name`''
         else case number of
           Some n \<Rightarrow> bind_ok (normalize_business_application_number n) (\<lambda>v. Inr (CachedNumber v))
         | None \<Rightarrow> (case sys_id of
             Some i \<Rightarrow> bind_ok (normalize_record_lookup_sys_id i) (\<lambda>v. Inr (CachedSysId v))
           | None \<Rightarrow> Inr (CachedName (or_empty name))))"

definition resolve_cached_business_application ::
  "engine_env \<Rightarrow> cached_selector \<Rightarrow> bool \<Rightarrow> snow_record option engine_step" where
  "resolve_cached_business_application env sel tombstoned = (case sel of
     CachedNumber number \<Rightarrow> andthen (get_record_by_number_and_type (qe_sql env) number RtBusinessApplication)
       (\<lambda>found. case found of None \<Rightarrow> ok None
        | Some row \<Rightarrow> if \<not> record_visible row tombstoned then ok None
                     else andthen (materialize_record env row) (\<lambda>r. ok (Some r)))
   | CachedSysId sys_id \<Rightarrow> cached_record_by_sys_id env sys_id RtBusinessApplication tombstoned
   | CachedName name \<Rightarrow> andthen (cached_resource_records env RtBusinessApplication tombstoned) (\<lambda>records.
       let found = filter (\<lambda>r. business_application_name r = trim name) records
       in if 1 < length found then fail (''multiple Business Applications matched name='' @ trim name)
          else ok (if found = [] then None else Some (last found))))"

record cached_server =
  cs_server :: snow_record
  cs_table :: string
  cs_provenance :: string
  cs_min_depth :: nat
  cs_paths :: "chain list"
  cs_tombstoned_at :: "int option"

definition memberships_of :: "engine_env \<Rightarrow> (membership list \<Rightarrow> membership list) \<Rightarrow> membership list engine_step" where
  "memberships_of env f = select (qe_sql env) (\<lambda>t. f (ct_memberships t))"

definition health_of_application :: "engine_env \<Rightarrow> string \<Rightarrow> health option engine_step" where
  "health_of_application env ba = select (qe_sql env) (\<lambda>t. bt_get (ct_healths t) ba)"

definition cached_server_of :: "engine_env \<Rightarrow> bool \<Rightarrow> membership \<Rightarrow> cached_server option engine_step" where
  "cached_server_of env tombstoned m =
     andthen (cached_record_by_sys_id env (ms_server m) RtServer tombstoned) (\<lambda>server. case server of
       None \<Rightarrow> ok None
     | Some r \<Rightarrow> andthen (of_result (qe_paths env (ms_paths m))) (\<lambda>paths.
         ok (Some \<lparr>cs_server = r, cs_table = ms_table m, cs_provenance = ms_provenance m,
           cs_min_depth = ms_min_depth m, cs_paths = paths, cs_tombstoned_at = ms_tombstoned m\<rparr>)))"

definition cached_server_order :: "cached_server \<Rightarrow> cached_server \<Rightarrow> bool" where
  "cached_server_order = then_by cs_min_depth (then_by (\<lambda>s. server_name (cs_server s))
     (then_by (\<lambda>s. sw_sys_id (cs_server s)) (by_key cs_provenance)))"

record cached_servers =
  cv_application :: snow_record
  cv_servers :: "cached_server list"
  cv_status :: knowledge_status
  cv_health :: "health option"

definition business_application_servers_cached ::
  "engine_env \<Rightarrow> cached_params \<Rightarrow> cached_servers option engine_step" where
  "business_application_servers_cached env p = andthen (of_result (validate_cached_params p)) (\<lambda>sel.
     andthen (resolve_cached_business_application env sel (cp_tombstoned p)) (\<lambda>found. case found of
       None \<Rightarrow> ok None
     | Some ba \<Rightarrow>
         andthen (memberships_of env (list_for_ba (sw_sys_id ba) (cp_tombstoned p))) (\<lambda>members.
         andthen (health_of_application env (sw_sys_id ba)) (\<lambda>h.
         andthen (collect_results (cached_server_of env (cp_tombstoned p)) members) (\<lambda>servers.
           ok (Some \<lparr>cv_application = ba, cv_servers = sort_by cached_server_order (List.map_filter id servers),
             cv_status = cached_relationship_status (members \<noteq> []) h, cv_health = h\<rparr>))))))"

datatype server_selector = ServerSysId string | ServerName string | ServerIp string

record for_server_params =
  fp_sys_id :: "string option"
  fp_name :: "string option"
  fp_ip_address :: "string option"
  fp_tombstoned :: bool

definition validate_for_server :: "for_server_params \<Rightarrow> (string, server_selector) result" where
  "validate_for_server p =
     (let sys_id = non_empty_owned (fp_sys_id p); name = non_empty_owned (fp_name p);
          ip = non_empty_owned (fp_ip_address p)
      in if \<not> chosen_one [sys_id, name, ip] then Inl ''provide exactly one of `sys_id`, `name`, or `ip_address`''
         else case sys_id of
           Some i \<Rightarrow> bind_ok (normalize_record_lookup_sys_id i) (\<lambda>v. Inr (ServerSysId v))
         | None \<Rightarrow> (case name of Some n \<Rightarrow> Inr (ServerName n) | None \<Rightarrow> Inr (ServerIp (or_empty ip))))"

definition resolve_cached_servers :: "engine_env \<Rightarrow> server_selector \<Rightarrow> bool \<Rightarrow> snow_record list engine_step" where
  "resolve_cached_servers env sel tombstoned = (case sel of
     ServerSysId sys_id \<Rightarrow> andthen (cached_record_by_sys_id env sys_id RtServer tombstoned) (\<lambda>r.
       ok (case r of None \<Rightarrow> [] | Some x \<Rightarrow> [x]))
   | ServerName name \<Rightarrow> andthen (cached_resource_records env RtServer tombstoned) (\<lambda>records.
       ok (filter (\<lambda>r. server_name r = trim name) records))
   | ServerIp ip \<Rightarrow> andthen (cached_resource_records env RtServer tombstoned) (\<lambda>records.
       ok (filter (\<lambda>r. case server_field_text r ''ip_address'' of None \<Rightarrow> False
         | Some v \<Rightarrow> eq_ignore_case v (trim ip)) records)))"

record cached_application =
  cg_application :: snow_record
  cg_provenance :: string
  cg_min_depth :: nat
  cg_paths :: "chain list"
  cg_health :: "health option"
  cg_tombstoned_at :: "int option"

definition cached_application_of :: "engine_env \<Rightarrow> bool \<Rightarrow> membership \<Rightarrow> cached_application option engine_step" where
  "cached_application_of env tombstoned m =
     andthen (cached_record_by_sys_id env (ms_ba m) RtBusinessApplication tombstoned) (\<lambda>found. case found of
       None \<Rightarrow> ok None
     | Some r \<Rightarrow> andthen (health_of_application env (ms_ba m)) (\<lambda>h.
         andthen (of_result (qe_paths env (ms_paths m))) (\<lambda>paths.
         ok (Some \<lparr>cg_application = r, cg_provenance = ms_provenance m, cg_min_depth = ms_min_depth m,
           cg_paths = paths, cg_health = h, cg_tombstoned_at = ms_tombstoned m\<rparr>))))"

definition cached_application_order :: "cached_application \<Rightarrow> cached_application \<Rightarrow> bool" where
  "cached_application_order = then_by cg_min_depth (then_by (\<lambda>a. business_application_name (cg_application a))
     (then_by (\<lambda>a. sw_sys_id (cg_application a)) (by_key cg_provenance)))"

record server_applications =
  ce_server :: snow_record
  ce_applications :: "cached_application list"
  ce_status :: knowledge_status

definition applications_of_server :: "engine_env \<Rightarrow> bool \<Rightarrow> snow_record \<Rightarrow> server_applications engine_step" where
  "applications_of_server env tombstoned server =
     andthen (memberships_of env (list_for_server (sw_sys_id server) tombstoned)) (\<lambda>members.
     andthen (collect_results (cached_application_of env tombstoned) members) (\<lambda>found.
       let applications = sort_by cached_application_order (List.map_filter id found)
       in ok \<lparr>ce_server = server, ce_applications = applications,
             ce_status = cached_server_relationship_status (map cg_health applications)\<rparr>))"

record for_server_result =
  cf_servers :: "server_applications list"
  cf_status :: knowledge_status

definition business_applications_for_server ::
  "engine_env \<Rightarrow> for_server_params \<Rightarrow> for_server_result option engine_step" where
  "business_applications_for_server env p = andthen (of_result (validate_for_server p)) (\<lambda>sel.
     andthen (resolve_cached_servers env sel (fp_tombstoned p)) (\<lambda>records.
       if records = [] then ok None
       else andthen (collect_results (applications_of_server env (fp_tombstoned p)) records) (\<lambda>found.
         let servers = sort_by (then_by (\<lambda>s. server_name (ce_server s)) (by_key (\<lambda>s. sw_sys_id (ce_server s)))) found
         in ok (Some \<lparr>cf_servers = servers, cf_status = cached_result_relationship_status (map ce_status servers)\<rparr>))))"

end
