(* ===== verification/Search_Ranking.thy ===== *)
theory Search_Ranking
  imports Query_Reads
begin

text \<open>
  Search over the cache (\<open>snow_core/src/query/mod.rs\<close>): the plain searches by text, tag, keyword and
  alias, and \<open>search_enriched\<close>, which gathers candidates from all of them, scores each and ranks them.
  Scores are \<open>i64\<close> in the code and unbounded integers here: a sum past the range of \<open>i64\<close>, which takes a
  keyword weight near \<open>10 ^ 17\<close>, is not represented. Keyword weights are rationals, and the cast of a
  keyword score saturates. The candidates are a \<open>BTreeMap\<close> by \<open>sys_id\<close>.
\<close>

datatype match_field = MatchNumber | MatchShortDescription | MatchDescription | MatchWorkNotes
  | MatchContent | MatchTag | MatchKeyword | MatchAlias

datatype search_scope = ScopeAll | ScopeKnowledge | ScopeWorkNotes

record match_reason =
  mr_field :: match_field
  mr_value :: string

record search_result =
  sx_record :: linked_record
  sx_snippet :: string
  sx_score :: int
  sx_match_in :: match_field
  sx_matched_value :: "string option"
  sx_reasons :: "match_reason list"

definition matches_scope :: "search_scope \<Rightarrow> snow_record \<Rightarrow> bool" where
  "matches_scope scope r = (case scope of ScopeAll \<Rightarrow> True
     | ScopeKnowledge \<Rightarrow> sw_type r = RtKnowledge | ScopeWorkNotes \<Rightarrow> sw_work_notes r \<noteq> [])"

definition search_result_from_record ::
  "snow_record \<Rightarrow> match_field \<Rightarrow> string option \<Rightarrow> match_reason list \<Rightarrow> search_result" where
  "search_result_from_record r match_in matched reasons =
     \<lparr>sx_record = \<lparr>rr_ref_sys_id = sw_sys_id r, rr_ref_number = sw_number r, rr_ref_table = sw_table r\<rparr>,
      sx_snippet = sw_short_description r, sx_score = 0, sx_match_in = match_in,
      sx_matched_value = matched, sx_reasons = reasons\<rparr>"

definition search_result_with_match :: "snow_record \<Rightarrow> match_field \<Rightarrow> string \<Rightarrow> search_result" where
  "search_result_with_match r match_in v =
     search_result_from_record r match_in (Some v) [\<lparr>mr_field = match_in, mr_value = v\<rparr>]"

subsection \<open>Plain searches\<close>

fun search_hits :: "engine_env \<Rightarrow> search_scope \<Rightarrow> string list \<Rightarrow> search_result list engine_step" where
  "search_hits env scope [] = ok []"
| "search_hits env scope (n # ns) = andthen (get_record env n) (\<lambda>found. case found of
     None \<Rightarrow> search_hits env scope ns
   | Some r \<Rightarrow> if \<not> matches_scope scope r then search_hits env scope ns
       else andthen (search_hits env scope ns) (\<lambda>rest.
         ok (search_result_with_match r MatchShortDescription (sw_short_description r) # rest)))"

definition search :: "engine_env \<Rightarrow> string \<Rightarrow> search_scope \<Rightarrow> search_result list engine_step" where
  "search env query scope = andthen (search_fts (qe_sql env) (qe_fts env) query 20) (search_hits env scope)"

fun search_by_enrichment ::
  "engine_env \<Rightarrow> search_scope \<Rightarrow> match_field \<Rightarrow> string \<Rightarrow> string list \<Rightarrow> search_result list engine_step" where
  "search_by_enrichment env scope match_in v [] = ok []"
| "search_by_enrichment env scope match_in v (i # is) = andthen (get_record_by_sys_id (qe_sql env) i) (\<lambda>found. case found of
     None \<Rightarrow> search_by_enrichment env scope match_in v is
   | Some row \<Rightarrow> andthen (materialize_record env row) (\<lambda>r.
       if \<not> matches_scope scope r then search_by_enrichment env scope match_in v is
       else andthen (search_by_enrichment env scope match_in v is) (\<lambda>rest.
         ok (search_result_with_match r match_in v # rest))))"

definition search_by_tag :: "engine_env \<Rightarrow> string \<Rightarrow> search_scope \<Rightarrow> search_result list engine_step" where
  "search_by_tag env tag scope = andthen (find_record_sys_ids_by_tag (qe_sql env) tag 20)
     (search_by_enrichment env scope MatchTag tag)"

definition search_by_keyword :: "engine_env \<Rightarrow> string \<Rightarrow> search_scope \<Rightarrow> search_result list engine_step" where
  "search_by_keyword env keyword scope = andthen (find_record_sys_ids_by_keyword (qe_sql env) keyword 20)
     (search_by_enrichment env scope MatchKeyword keyword)"

definition search_by_alias :: "engine_env \<Rightarrow> string \<Rightarrow> search_scope \<Rightarrow> search_result list engine_step" where
  "search_by_alias env name scope = andthen (find_record_sys_ids_by_alias (qe_sql env) name 20)
     (search_by_enrichment env scope MatchAlias name)"

subsection \<open>Scores\<close>

definition fts_score :: int where "fts_score = 40"

definition exact_number_bonus :: int where "exact_number_bonus = 30"

definition exact_short_description_bonus :: int where "exact_short_description_bonus = 15"

definition exact_tag_score :: int where "exact_tag_score = 70"

definition exact_alias_score :: int where "exact_alias_score = 100"

definition normalized_source :: "string option \<Rightarrow> string" where
  "normalized_source s = to_lower (trim (or_empty s))"

definition source_bonus :: "string option \<Rightarrow> int" where
  "source_bonus s = (let n = normalized_source s in
     if n = ''manual'' then 20 else if n = ''curated'' then 15 else 0)"

definition source_priority :: "string option \<Rightarrow> int" where
  "source_priority s = (let n = normalized_source s in
     if n = ''manual'' then 3 else if n = ''curated'' then 2
     else if n \<in> {''derived'', ''generated'', ''system'', ''inferred''} then 1 else 0)"

fun match_priority :: "match_field \<Rightarrow> int" where
  "match_priority MatchNumber = 5"
| "match_priority MatchAlias = 4"
| "match_priority MatchTag = 3"
| "match_priority MatchKeyword = 2"
| "match_priority MatchShortDescription = 1"
| "match_priority _ = 0"

text \<open>\<open>(50.0 * weight.max(0.0)).round() as i64\<close>: rounds half away from zero, then saturates.\<close>

definition keyword_score :: "rat \<Rightarrow> int" where
  "keyword_score weight = min i64_max (\<lfloor>50 * max weight 0 + 1 / 2\<rfloor>)"

subsection \<open>Candidates\<close>

datatype enrichment_match = EnrichedTag | EnrichedKeyword | EnrichedAlias

record candidate =
  rc_record :: snow_record
  rc_score :: int
  rc_match_in :: match_field
  rc_match_priority :: int
  rc_source_priority :: int
  rc_value :: "string option"
  rc_value_priority :: int
  rc_reasons :: "match_reason list"
  rc_bonuses_applied :: bool

type_synonym candidates = "(string, candidate) btree"

definition candidate_new :: "snow_record \<Rightarrow> candidate" where
  "candidate_new r = \<lparr>rc_record = r, rc_score = 0, rc_match_in = MatchShortDescription,
     rc_match_priority = match_priority MatchShortDescription, rc_source_priority = 0, rc_value = None,
     rc_value_priority = - 2147483648, rc_reasons = [], rc_bonuses_applied = False\<rparr>"

definition push_reason :: "match_field \<Rightarrow> string \<Rightarrow> candidate \<Rightarrow> candidate" where
  "push_reason f v c = (if \<lparr>mr_field = f, mr_value = v\<rparr> \<in> set (rc_reasons c) then c
     else c\<lparr>rc_reasons := rc_reasons c @ [\<lparr>mr_field = f, mr_value = v\<rparr>]\<rparr>)"

definition add_contribution :: "int \<Rightarrow> match_field \<Rightarrow> string \<Rightarrow> string option \<Rightarrow> candidate \<Rightarrow> candidate" where
  "add_contribution score f v source c =
     (let c1 = c\<lparr>rc_score := rc_score c + (score + source_bonus source)\<rparr>;
          priority = match_priority f;
          c2 = (if rc_match_priority c1 < priority then c1\<lparr>rc_match_priority := priority, rc_match_in := f\<rparr> else c1);
          c3 = (if rc_source_priority c2 < source_priority source
                then c2\<lparr>rc_source_priority := source_priority source\<rparr> else c2);
          c4 = push_reason f v c3
      in if rc_value_priority c4 < priority then c4\<lparr>rc_value_priority := priority, rc_value := Some v\<rparr> else c4)"

definition apply_exact_bonuses :: "string \<Rightarrow> candidate \<Rightarrow> candidate" where
  "apply_exact_bonuses query c =
     (if rc_bonuses_applied c then c
      else let c1 = c\<lparr>rc_bonuses_applied := True\<rparr>; r = rc_record c;
               c2 = (if normalize_search_term (sw_number r) = query
                     then add_contribution exact_number_bonus MatchNumber (sw_number r) None c1 else c1)
           in if normalize_search_term (sw_short_description r) = query
              then add_contribution exact_short_description_bonus MatchShortDescription (sw_short_description r) None c2
              else c2)"

text \<open>\<open>candidates.entry(sys_id).or_insert_with(..)\<close>, then an update of the entry.\<close>

definition on_candidate :: "snow_record \<Rightarrow> (candidate \<Rightarrow> candidate) \<Rightarrow> candidates \<Rightarrow> candidates" where
  "on_candidate r f m = bt_insert (sw_sys_id r)
     (f (case bt_get m (sw_sys_id r) of None \<Rightarrow> candidate_new r | Some c \<Rightarrow> c)) m"

definition fts_contribution :: "string \<Rightarrow> candidate \<Rightarrow> candidate" where
  "fts_contribution query c = apply_exact_bonuses query
     (add_contribution fts_score MatchShortDescription (sw_short_description (rc_record c)) None c)"

definition number_contribution :: "string \<Rightarrow> candidate \<Rightarrow> candidate" where
  "number_contribution query c = apply_exact_bonuses query
     (add_contribution exact_number_bonus MatchNumber (sw_number (rc_record c)) None c)"

fun add_fts_candidates :: "engine_env \<Rightarrow> string \<Rightarrow> search_scope \<Rightarrow> string list \<Rightarrow> candidates \<Rightarrow> candidates engine_step" where
  "add_fts_candidates env query scope [] m = ok m"
| "add_fts_candidates env query scope (n # ns) m = andthen (get_record env n) (\<lambda>found. case found of
     None \<Rightarrow> add_fts_candidates env query scope ns m
   | Some r \<Rightarrow> if \<not> matches_scope scope r then add_fts_candidates env query scope ns m
       else add_fts_candidates env query scope ns (on_candidate r (fts_contribution query) m))"

definition add_number_candidate ::
  "engine_env \<Rightarrow> string \<Rightarrow> string \<Rightarrow> search_scope \<Rightarrow> candidates \<Rightarrow> candidates engine_step" where
  "add_number_candidate env raw query scope m = andthen (get_record env raw) (\<lambda>found. case found of
     None \<Rightarrow> ok m
   | Some r \<Rightarrow> ok (if matches_scope scope r then on_candidate r (number_contribution query) m else m))"

text \<open>The row of an enrichment that the query names, and what it contributes.\<close>

definition enrichment_contribution ::
  "engine_env \<Rightarrow> enrichment_match \<Rightarrow> string \<Rightarrow> string \<Rightarrow> (candidate \<Rightarrow> candidate) engine_step" where
  "enrichment_contribution env kind sys_id query = (case kind of
     EnrichedTag \<Rightarrow> andthen (list_tags (qe_sql env) sys_id) (\<lambda>rows.
       ok (case List.find (\<lambda>g. normalize_search_term (tg_tag g) = query) rows of None \<Rightarrow> id
         | Some g \<Rightarrow> add_contribution exact_tag_score MatchTag (tg_tag g) (Some (tg_source g))))
   | EnrichedAlias \<Rightarrow> andthen (list_aliases (qe_sql env) sys_id) (\<lambda>rows.
       ok (case List.find (\<lambda>a. normalize_search_term (al_alias a) = query) rows of None \<Rightarrow> id
         | Some a \<Rightarrow> add_contribution exact_alias_score MatchAlias (al_alias a) (Some (al_source a))))
   | EnrichedKeyword \<Rightarrow> andthen (list_keywords (qe_sql env) sys_id) (\<lambda>rows.
       ok (case List.find (\<lambda>k. normalize_search_term (kw_keyword k) = query) rows of None \<Rightarrow> id
         | Some k \<Rightarrow> add_contribution (keyword_score (kw_weight k)) MatchKeyword (kw_keyword k) (Some (kw_source k)))))"

definition add_exact_enrichment_candidate ::
  "engine_env \<Rightarrow> string \<Rightarrow> search_scope \<Rightarrow> enrichment_match \<Rightarrow> string \<Rightarrow> candidates \<Rightarrow> candidates engine_step" where
  "add_exact_enrichment_candidate env query scope kind sys_id m =
     andthen (get_record_by_sys_id (qe_sql env) sys_id) (\<lambda>found. case found of
       None \<Rightarrow> ok m
     | Some row \<Rightarrow> andthen (materialize_record env row) (\<lambda>r.
         if \<not> matches_scope scope r then ok m
         else andthen (enrichment_contribution env kind sys_id query) (\<lambda>f.
           ok (on_candidate r (\<lambda>c. apply_exact_bonuses query (f c)) m))))"

fun add_enrichment_candidates ::
  "engine_env \<Rightarrow> string \<Rightarrow> search_scope \<Rightarrow> enrichment_match \<Rightarrow> string list \<Rightarrow> candidates \<Rightarrow> candidates engine_step" where
  "add_enrichment_candidates env query scope kind [] m = ok m"
| "add_enrichment_candidates env query scope kind (i # is) m =
     andthen (add_exact_enrichment_candidate env query scope kind i m)
       (add_enrichment_candidates env query scope kind is)"

definition candidate_order :: "candidate \<Rightarrow> candidate \<Rightarrow> bool" where
  "candidate_order = then_by_desc rc_score (then_by_desc (\<lambda>c. match_priority (rc_match_in c))
     (then_by_desc rc_source_priority (then_by_desc rc_value_priority
       (then_by (\<lambda>c. sw_number (rc_record c)) (by_key (\<lambda>c. sw_sys_id (rc_record c)))))))"

definition into_result :: "candidate \<Rightarrow> search_result" where
  "into_result c =
     (search_result_from_record (rc_record c) (rc_match_in c) (rc_value c) (rc_reasons c))\<lparr>sx_score := rc_score c\<rparr>"

definition gather_candidates :: "engine_env \<Rightarrow> string \<Rightarrow> string \<Rightarrow> search_scope \<Rightarrow> candidates engine_step" where
  "gather_candidates env raw query scope =
     andthen (search_fts (qe_sql env) (qe_fts env) raw 20) (\<lambda>numbers.
     andthen (add_fts_candidates env query scope numbers []) (\<lambda>m1.
     andthen (add_number_candidate env raw query scope m1) (\<lambda>m2.
     andthen (find_record_sys_ids_by_tag (qe_sql env) query 20) (\<lambda>tagged.
     andthen (add_enrichment_candidates env query scope EnrichedTag tagged m2) (\<lambda>m3.
     andthen (find_record_sys_ids_by_alias (qe_sql env) query 20) (\<lambda>named.
     andthen (add_enrichment_candidates env query scope EnrichedAlias named m3) (\<lambda>m4.
     andthen (find_record_sys_ids_by_keyword (qe_sql env) query 20) (\<lambda>worded.
     add_enrichment_candidates env query scope EnrichedKeyword worded m4))))))))"

definition search_enriched :: "engine_env \<Rightarrow> string \<Rightarrow> search_scope \<Rightarrow> search_result list engine_step" where
  "search_enriched env raw scope = (let query = normalize_search_term raw in
     if query = [] \<and> trim raw = [] then ok []
     else andthen (gather_candidates env raw query scope) (\<lambda>m.
       ok (map into_result (sort_by candidate_order (map snd m)))))"

text \<open>\<open>is_exact_record_number\<close>: letters, then digits, and nothing else.\<close>

definition is_letter :: "char \<Rightarrow> bool" where
  "is_letter c = (97 \<le> char_code (lower_char c) \<and> char_code (lower_char c) \<le> 122)"

definition is_exact_record_number :: "string \<Rightarrow> bool" where
  "is_exact_record_number query =
     (let s = trim query; letters = takeWhile (\<lambda>c. \<not> is_digit c) s; digits = dropWhile (\<lambda>c. \<not> is_digit c) s
      in s \<noteq> [] \<and> CHR '' '' \<notin> set s \<and> letters \<noteq> [] \<and> digits \<noteq> []
         \<and> list_all is_letter letters \<and> list_all is_digit digits)"

end
