(* ===== verification/Search_Laws.thy ===== *)
theory Search_Laws
  imports Search_Ranking
begin

text \<open>
  What the reads of the query engine compute. A read that succeeds leaves the tables alone and
  answers a function of them (\<open>yields\<close>); for the ranked search that function is a fold of
  contributions over the candidates, and the score of a candidate is the sum of its contributions.
\<close>

subsection \<open>Reads as functions of the tables\<close>

definition yields :: "'a engine_step \<Rightarrow> (cache_tables \<Rightarrow> 'a) \<Rightarrow> bool" where
  "yields m g = (\<forall>w x w'. m w = (Inr x, w') \<longrightarrow>
     x = g (db_tables (w_stores w)) \<and> db_tables (w_stores w') = db_tables (w_stores w))"

named_theorems yields_rules \<open>reads and the functions they compute\<close>

lemma yields_run:
  "yields m g \<Longrightarrow> m w = (Inr x, w') \<Longrightarrow> x = g (db_tables (w_stores w)) \<and> db_tables (w_stores w') = db_tables (w_stores w)"
  unfolding yields_def by blast

lemma yields_ok [yields_rules]: "yields (ok x) (\<lambda>t. x)"
  by (simp add: yields_def ok_def)

lemma yields_of_result: "yields (of_result r) (\<lambda>t. projr r)"
  by (auto simp: yields_def of_result_def)

lemma yields_select [yields_rules]: "yields (select db g) g"
  by (auto simp: yields_def select_def statement_def Let_def)

lemma yields_in_memory: "(\<And>s. db_tables (f s) = db_tables s) \<Longrightarrow> yields (in_memory f) (\<lambda>t. ())"
  by (simp add: yields_def in_memory_def)

lemma yields_andthen:
  assumes "yields m g" "\<And>x. yields (f x) (h x)"
  shows "yields (andthen m f) (\<lambda>t. h (g t) t)"
  unfolding yields_def andthen_Inr using yields_run [OF assms(1)] yields_run [OF assms(2)] by metis

lemma yields_cong: "yields m g \<Longrightarrow> (\<And>t. g t = g' t) \<Longrightarrow> yields m g'"
  unfolding yields_def by simp

text \<open>The record a row becomes.\<close>

definition loaded :: "engine_env \<Rightarrow> (string \<Rightarrow> (read_error, 'a) result) \<Rightarrow> record_row \<Rightarrow> 'a option" where
  "loaded env reader row = (case markdown_path_for_row env row of None \<Rightarrow> None
     | Some path \<Rightarrow> if qe_root env = None then None
         else (case reader path of Inr x \<Rightarrow> Some x | Inl _ \<Rightarrow> None))"

definition value_of :: "engine_env \<Rightarrow> record_row \<Rightarrow> cache_tables \<Rightarrow> snow_record" where
  "value_of env row t = (case loaded env (read_any env (rr_type row)) row of Some r \<Rightarrow> r
     | None \<Rightarrow> record_from_json env row (child_refs (rr_sys_id row) (active_rows None t)))"

lemma yields_degraded:
  "yields (record_degraded_read env row path reason) (\<lambda>t. ())" "yields (clear_degraded_read i) (\<lambda>t. ())"
  unfolding record_degraded_read_def clear_degraded_read_def by (rule yields_in_memory; simp)+

lemma yields_load: "yields (load_from_vault env reader row) (\<lambda>t. loaded env reader row)"
proof -
  have "yields (andthen (record_degraded_read env row path reason) (\<lambda>_. ok None)) (\<lambda>t. None)" for path reason
    by (rule yields_andthen [OF yields_degraded(1) yields_ok])
  moreover have "yields (andthen (clear_degraded_read i) (\<lambda>_. ok (Some x))) (\<lambda>t. Some x)" for i x
    by (rule yields_andthen [OF yields_degraded(2) yields_ok])
  ultimately show ?thesis
    by (auto simp: load_from_vault_def loaded_def split: option.splits sum.splits)
qed

lemma yields_json: "yields (materialize_record_from_json env row)
    (\<lambda>t. record_from_json env row (child_refs (rr_sys_id row) (active_rows None t)))"
  unfolding materialize_record_from_json_def children_for_def list_active_records_def
  by (rule yields_andthen [OF yields_andthen [OF yields_select yields_ok] yields_ok])

lemma yields_materialize [yields_rules]: "yields (materialize_record env row) (value_of env row)"
proof -
  have "yields (case loaded_record of Some r \<Rightarrow> ok r | None \<Rightarrow> materialize_record_from_json env row)
      (\<lambda>t. case loaded_record of Some r \<Rightarrow> r
         | None \<Rightarrow> record_from_json env row (child_refs (rr_sys_id row) (active_rows None t)))" for loaded_record
    using yields_json yields_ok by (cases loaded_record) auto
  then have "yields (materialize_record env row) (\<lambda>t. case loaded env (read_any env (rr_type row)) row of Some r \<Rightarrow> r
         | None \<Rightarrow> record_from_json env row (child_refs (rr_sys_id row) (active_rows None t)))"
    unfolding materialize_record_def load_record_from_vault_def by (rule yields_andthen [OF yields_load])
  then show ?thesis by (rule yields_cong) (simp add: value_of_def)
qed

definition record_numbered :: "engine_env \<Rightarrow> string \<Rightarrow> cache_tables \<Rightarrow> snow_record option" where
  "record_numbered env n t = map_option (\<lambda>row. value_of env row t) (primary_by_number n t)"

lemma yields_if_some:
  assumes "\<And>y. yields (f y) (g y)"
  shows "yields (if_some x f) (\<lambda>t. map_option (\<lambda>y. g y t) x)"
proof (cases x)
  case (Some y)
  have "yields (andthen (f y) (\<lambda>z. ok (Some z))) (\<lambda>t. Some (g y t))" by (rule yields_andthen [OF assms yields_ok])
  with Some show ?thesis by (simp add: if_some_def)
qed (simp add: if_some_def yields_ok)

lemma yields_get_record [yields_rules]: "yields (get_record env n) (record_numbered env n)"
proof -
  have "yields (get_record env n) (\<lambda>t. map_option (\<lambda>row. value_of env row t) (primary_by_number n t))"
    unfolding get_record_def get_primary_record_by_number_def
    by (rule yields_andthen [OF yields_select]) (rule yields_if_some [OF yields_materialize])
  then show ?thesis by (rule yields_cong) (simp add: record_numbered_def)
qed

subsection \<open>The contributions of a search\<close>

text \<open>A contribution: the record, the points it brings and what it does to the candidate.\<close>

type_synonym contribution = "snow_record \<times> int \<times> (candidate \<Rightarrow> candidate)"

definition contribute :: "contribution \<Rightarrow> candidates \<Rightarrow> candidates" where
  "contribute = (\<lambda>(r, p, f). on_candidate r f)"

definition fts_contributions :: "engine_env \<Rightarrow> string \<Rightarrow> search_scope \<Rightarrow> string list \<Rightarrow> cache_tables \<Rightarrow> contribution list" where
  "fts_contributions env query scope ns t = map (\<lambda>r. (r, fts_score, fts_contribution query))
     (filter (matches_scope scope) (List.map_filter (\<lambda>n. record_numbered env n t) ns))"

definition number_contributions :: "engine_env \<Rightarrow> string \<Rightarrow> string \<Rightarrow> search_scope \<Rightarrow> cache_tables \<Rightarrow> contribution list" where
  "number_contributions env raw query scope t = map (\<lambda>r. (r, exact_number_bonus, number_contribution query))
     (filter (matches_scope scope) (List.map_filter (\<lambda>n. record_numbered env n t) [raw]))"

text \<open>What an enrichment row that the query names brings: points and effect.\<close>

definition enrichment_of :: "enrichment_match \<Rightarrow> string \<Rightarrow> string \<Rightarrow> cache_tables \<Rightarrow> int \<times> (candidate \<Rightarrow> candidate)" where
  "enrichment_of kind query sys_id t = (case kind of
     EnrichedTag \<Rightarrow> (case List.find (\<lambda>g. normalize_search_term (tg_tag g) = query)
           (sort_by (by_key tg_tag) (filter (\<lambda>g. tg_sys_id g = sys_id) (ct_tags t))) of
         None \<Rightarrow> (0, id)
       | Some g \<Rightarrow> (exact_tag_score + source_bonus (Some (tg_source g)),
                    add_contribution exact_tag_score MatchTag (tg_tag g) (Some (tg_source g))))
   | EnrichedAlias \<Rightarrow> (case List.find (\<lambda>a. normalize_search_term (al_alias a) = query)
           (sort_by (by_key al_alias) (filter (\<lambda>a. al_sys_id a = sys_id) (ct_aliases t))) of
         None \<Rightarrow> (0, id)
       | Some a \<Rightarrow> (exact_alias_score + source_bonus (Some (al_source a)),
                    add_contribution exact_alias_score MatchAlias (al_alias a) (Some (al_source a))))
   | EnrichedKeyword \<Rightarrow> (case List.find (\<lambda>k. normalize_search_term (kw_keyword k) = query)
           (sort_by (by_key kw_keyword) (filter (\<lambda>k. kw_sys_id k = sys_id) (ct_keywords t))) of
         None \<Rightarrow> (0, id)
       | Some k \<Rightarrow> (keyword_score (kw_weight k) + source_bonus (Some (kw_source k)),
                    add_contribution (keyword_score (kw_weight k)) MatchKeyword (kw_keyword k) (Some (kw_source k)))))"

definition enrichment_contributions ::
  "engine_env \<Rightarrow> string \<Rightarrow> search_scope \<Rightarrow> enrichment_match \<Rightarrow> string list \<Rightarrow> cache_tables \<Rightarrow> contribution list" where
  "enrichment_contributions env query scope kind is t = List.map_filter (\<lambda>i. case row_by_sys_id i t of
     None \<Rightarrow> None
   | Some row \<Rightarrow> let r = value_of env row t in if matches_scope scope r
       then Some (r, fst (enrichment_of kind query i t), \<lambda>c. apply_exact_bonuses query (snd (enrichment_of kind query i t) c))
       else None) is"

definition contributions :: "engine_env \<Rightarrow> string \<Rightarrow> string \<Rightarrow> search_scope \<Rightarrow> cache_tables \<Rightarrow> contribution list" where
  "contributions env raw query scope t =
     fts_contributions env query scope (take 20 (map rr_number (filter rr_in_scope
       (List.map_filter (\<lambda>i. row_by_sys_id i t) (projr (qe_fts env raw) (ct_fts t)))))) t
     @ number_contributions env raw query scope t
     @ enrichment_contributions env query scope EnrichedTag
         (enriched_ids (\<lambda>i. \<exists>g \<in> set (ct_tags t). tag_key g = (i, query)) 20 t) t
     @ enrichment_contributions env query scope EnrichedAlias
         (enriched_ids (\<lambda>i. \<exists>a \<in> set (ct_aliases t). alias_key a = (i, query)) 20 t) t
     @ enrichment_contributions env query scope EnrichedKeyword
         (enriched_ids (\<lambda>i. \<exists>k \<in> set (ct_keywords t). keyword_key k = (i, query)) 20 t) t"

lemma yields_add_fts:
  "yields (add_fts_candidates env query scope ns m) (\<lambda>t. fold contribute (fts_contributions env query scope ns t) m)"
proof (induction ns arbitrary: m)
  case Nil
  show ?case by (simp add: fts_contributions_def yields_ok map_filter_simps)
next
  case (Cons n ns)
  let ?k = "\<lambda>found t. case found of
      None \<Rightarrow> fold contribute (fts_contributions env query scope ns t) m
    | Some r \<Rightarrow> if \<not> matches_scope scope r then fold contribute (fts_contributions env query scope ns t) m
        else fold contribute (fts_contributions env query scope ns t) (on_candidate r (fts_contribution query) m)"
  have "yields (add_fts_candidates env query scope (n # ns) m) (\<lambda>t. ?k (record_numbered env n t) t)"
    unfolding add_fts_candidates.simps
    by (rule yields_andthen [OF yields_get_record, where h = ?k]) (simp add: Cons.IH split: option.split)
  then show ?case
    by (rule yields_cong) (simp add: fts_contributions_def map_filter_simps contribute_def split: option.split)
qed

lemma yields_add_number:
  "yields (add_number_candidate env raw query scope m) (\<lambda>t. fold contribute (number_contributions env raw query scope t) m)"
proof -
  let ?k = "\<lambda>found (t :: cache_tables). case found of None \<Rightarrow> m
    | Some r \<Rightarrow> if matches_scope scope r then on_candidate r (number_contribution query) m else m"
  have "yields (add_number_candidate env raw query scope m) (\<lambda>t. ?k (record_numbered env raw t) t)"
    unfolding add_number_candidate_def
    by (rule yields_andthen [OF yields_get_record, where h = ?k]) (simp add: yields_ok split: option.split)
  then show ?thesis
    by (rule yields_cong) (simp add: number_contributions_def map_filter_simps contribute_def split: option.split)
qed

lemma yields_enrichment: "yields (enrichment_contribution env kind i query) (\<lambda>t. snd (enrichment_of kind query i t))"
  unfolding enrichment_contribution_def list_tags_def list_aliases_def list_keywords_def
  by (cases kind; simp; rule yields_cong [OF yields_andthen [OF yields_select yields_ok]];
      simp add: enrichment_of_def split: option.split)

lemma yields_add_enrichment:
  "yields (add_enrichment_candidates env query scope kind is m)
     (\<lambda>t. fold contribute (enrichment_contributions env query scope kind is t) m)"
proof (induction "is" arbitrary: m)
  case Nil
  show ?case by (simp add: enrichment_contributions_def yields_ok map_filter_simps)
next
  case (Cons i ids)
  let ?f = "\<lambda>(t :: cache_tables) c. apply_exact_bonuses query (snd (enrichment_of kind query i t) c)"
  let ?k = "\<lambda>found t. case found of None \<Rightarrow> m
    | Some row \<Rightarrow> if \<not> matches_scope scope (value_of env row t) then m else on_candidate (value_of env row t) (?f t) m"
  have inner: "yields (if \<not> matches_scope scope r then ok m
      else andthen (enrichment_contribution env kind i query) (\<lambda>f. ok (on_candidate r (\<lambda>c. apply_exact_bonuses query (f c)) m)))
      (\<lambda>t. if \<not> matches_scope scope r then m else on_candidate r (?f t) m)" for r
    using yields_andthen [OF yields_enrichment yields_ok] by (auto simp: yields_ok)
  have "yields (add_exact_enrichment_candidate env query scope kind i m) (\<lambda>t. ?k (row_by_sys_id i t) t)"
    unfolding add_exact_enrichment_candidate_def get_record_by_sys_id_def
  proof (rule yields_andthen [OF yields_select, where h = ?k])
    fix found
    show "yields (case found of None \<Rightarrow> ok m
        | Some row \<Rightarrow> andthen (materialize_record env row) (\<lambda>r. if \<not> matches_scope scope r then ok m
            else andthen (enrichment_contribution env kind i query)
              (\<lambda>f. ok (on_candidate r (\<lambda>c. apply_exact_bonuses query (f c)) m)))) (?k found)"
      using yields_andthen [OF yields_materialize inner] by (cases found) (simp_all add: yields_ok)
  qed
  then have "yields (add_enrichment_candidates env query scope kind (i # ids) m)
      (\<lambda>t. fold contribute (enrichment_contributions env query scope kind ids t) (?k (row_by_sys_id i t) t))"
    unfolding add_enrichment_candidates.simps by (rule yields_andthen) (rule Cons.IH)
  then show ?case
    by (rule yields_cong)
      (simp add: enrichment_contributions_def map_filter_simps contribute_def Let_def split: option.split)
qed

lemma yields_gather:
  "yields (gather_candidates env raw query scope) (\<lambda>t. fold contribute (contributions env raw query scope t) [])"
proof -
  note steps = yields_andthen [OF yields_select] yields_andthen [OF yields_add_fts] yields_andthen [OF yields_add_number]
    yields_andthen [OF yields_add_enrichment]
  have fts: "yields (search_fts (qe_sql env) (qe_fts env) raw 20) (\<lambda>t. take 20 (map rr_number (filter rr_in_scope
       (List.map_filter (\<lambda>i. row_by_sys_id i t) (projr (qe_fts env raw) (ct_fts t))))))"
    unfolding search_fts_def by (rule yields_andthen [OF yields_of_result yields_select])
  show ?thesis
    unfolding gather_candidates_def find_record_sys_ids_by_tag_def find_record_sys_ids_by_alias_def
      find_record_sys_ids_by_keyword_def
    by (rule yields_cong, rule yields_andthen [OF fts], rule steps, rule steps, rule steps, rule steps, rule steps,
        rule steps, rule steps, rule yields_add_enrichment) (simp add: contributions_def)
qed

end
