(* ===== verification/Query_Demo.thy ===== *)
theory Query_Demo
  imports Search_Laws Cache_Properties
begin

text \<open>
  Reads that cannot fail, and the small cache the witnesses of the query engine run on: one incident
  with a short description and an alias, whose document is missing from the vault.
\<close>

subsection \<open>Reads that end\<close>

text \<open>A step that returns no error.\<close>

abbreviation sure :: "('w, 'e, 'a) transition \<Rightarrow> bool" where
  "sure m \<equiv> raises (\<lambda>_. False) m"

lemma sureE:
  assumes "sure m" obtains x w' where "m w = (Inr x, w')"
  using assms by (cases "m w"; cases "fst (m w)") (auto simp: raises_def)

lemma sureI: "(\<And>w. is_ok (fst (m w))) \<Longrightarrow> sure m"
  unfolding raises_def is_ok_def by (metis fst_conv sum.simps(5))

definition sound_store :: "engine_env \<Rightarrow> bool" where
  "sound_store env = ((\<forall>n. qe_sql env n) \<and> (\<forall>n. qe_files env n) \<and> (\<forall>q. is_ok (qe_fts env q)))"

lemma sure_statements:
  "\<forall>n. db n \<Longrightarrow> sure (select db g)" "\<forall>n. db n \<Longrightarrow> sure (exec db f)" "sure (in_memory h)"
  by (auto simp: raises_def select_def exec_def statement_def in_memory_def Let_def split: prod.splits)

lemma sure_of_result: "is_ok r \<Longrightarrow> sure (of_result r)"
  by (auto simp: raises_def of_result_def is_ok_def)

lemmas sure_rules = raises_step_rules sure_statements sure_of_result

lemma sure_materialize: "sound_store env \<Longrightarrow> sure (materialize_record env row)"
  unfolding materialize_record_def load_record_from_vault_def load_from_vault_def record_degraded_read_def
    clear_degraded_read_def materialize_record_from_json_def children_for_def list_active_records_def
  by (intro sure_rules) (simp add: sound_store_def)

lemma sure_get_record: "sound_store env \<Longrightarrow> sure (get_record env n)"
  unfolding get_record_def get_primary_record_by_number_def if_some_def
  by (intro sure_rules sure_materialize) (simp_all add: sound_store_def)

lemma sure_collect: "(\<And>x. sure (f x)) \<Longrightarrow> sure (collect_results f xs)"
  by (induction xs) (simp_all add: sure_rules)

lemma sure_list_records: "sound_store env \<Longrightarrow> sure (list_records env q)"
  unfolding list_records_def list_active_records_def
  by (intro sure_rules sure_collect sure_materialize) (simp_all add: sound_store_def)

lemma sure_add_fts: "sound_store env \<Longrightarrow> sure (add_fts_candidates env query scope ns m)"
  by (induction ns arbitrary: m) (auto intro!: sure_rules sure_get_record split: option.splits)

lemma sure_add_enrichment:
  assumes "sound_store env"
  shows "sure (add_enrichment_candidates env query scope kind is m)"
proof (induction "is" arbitrary: m)
  case (Cons i ids)
  have "sure (enrichment_contribution env kind i query)"
    using assms unfolding enrichment_contribution_def list_tags_def list_aliases_def list_keywords_def
    by (cases kind) (auto simp: sound_store_def intro!: sure_rules)
  then have "sure (add_exact_enrichment_candidate env query scope kind i m)" for m
    unfolding add_exact_enrichment_candidate_def get_record_by_sys_id_def using assms
    by (intro sure_rules sure_materialize) (auto simp: sound_store_def)
  with Cons.IH show ?case by (auto intro!: sure_rules)
qed (simp add: sure_rules)

text \<open>The search returns when the statements and the index answer.\<close>

lemma sure_search: "sound_store env \<Longrightarrow> sure (search_enriched env raw scope)"
  unfolding search_enriched_def gather_candidates_def search_fts_def add_number_candidate_def
    find_record_sys_ids_by_tag_def find_record_sys_ids_by_alias_def find_record_sys_ids_by_keyword_def Let_def
  by (intro sure_rules sure_add_fts sure_add_enrichment sure_get_record) (simp_all add: sound_store_def)

subsection \<open>A small cache\<close>

definition lost :: "string \<Rightarrow> (read_error, 'a) result" where
  "lost path = Inl \<lparr>re_missing = Some True, re_text = path\<rparr>"

definition demo_engine :: engine_env where
  "demo_engine = \<lparr>rv_text = (\<lambda>_. []), rv_choose = (\<lambda>_. []), jn_rfc3339 = (\<lambda>_. None), jn_stamp = (\<lambda>_. None), jn_now = 9,
     qe_sql = (\<lambda>_. True), qe_fts = (\<lambda>q. Inr bt_keys), qe_parse = (\<lambda>_. None), qe_root = Some ''/v'',
     qe_files = (\<lambda>_. True), qe_read_record = lost, qe_read_article = lost, qe_read_approval = lost,
     qe_day = (\<lambda>_. None), qe_snow_stamp = (\<lambda>_. None), qe_paths = (\<lambda>_. Inr [])\<rparr>"

definition demo_row :: record_row where
  "demo_row = (cache_row ''a'' ''INC1'' 0)\<lparr>rr_file_path := Some ''incidents/INC1.md''\<rparr>"

definition demo_cache :: cache_tables where
  "demo_cache = upserted (demo_row, [], [], []) (empty_tables
     \<lparr>ct_aliases := [\<lparr>al_sys_id = ''a'', al_alias = ''vpn'', al_kind = ''name'', al_source = ''manual''\<rparr>]\<rparr>)"

definition demo_engine_world :: engine_world where
  "demo_engine_world = \<lparr>w_stores = \<lparr>db_tables = demo_cache, db_saved = None,
     ed_degraded = [], ed_memory = memory_new 4, ed_documents = []\<rparr>, w_tick = 0, w_writes = []\<rparr>"

lemma demo_sound: "sound_store demo_engine"
  by (simp add: sound_store_def demo_engine_def is_ok_def)

lemma demo_rows: "rows_of demo_cache = [demo_row]" "tables_ok demo_cache"
proof -
  show "rows_of demo_cache = [demo_row]" by code_simp
  have "tables_ok (upserted (demo_row, [], [], []) (empty_tables
     \<lparr>ct_aliases := [\<lparr>al_sys_id = ''a'', al_alias = ''vpn'', al_kind = ''name'', al_source = ''manual''\<rparr>]\<rparr>))"
    by (rule upserted_ok) (simp add: tables_ok_def empty_tables_def record_keys_def bt_keys_def)
  then show "tables_ok demo_cache" by (simp add: demo_cache_def)
qed

end
