(* ===== verification/Search_Properties.thy ===== *)
theory Search_Properties
  imports Query_Demo
begin

text \<open>
  The guarantees of the ranked search: the score of a result is the sum of what its hits contribute
  with the exact-match bonuses counted once, and the results are ranked.
\<close>

subsection \<open>Scores of candidates\<close>

definition exact_bonus :: "string \<Rightarrow> string \<Rightarrow> string \<Rightarrow> int" where
  "exact_bonus query number short =
     (if normalize_search_term number = query then exact_number_bonus else 0)
     + (if normalize_search_term short = query then exact_short_description_bonus else 0)"

definition bonus_of :: "string \<Rightarrow> candidate \<Rightarrow> int" where
  "bonus_of query c = exact_bonus query (sw_number (rc_record c)) (sw_short_description (rc_record c))"

lemma added [simp]:
  "rc_score (add_contribution s f v src c) = rc_score c + (s + source_bonus src)"
  "rc_record (add_contribution s f v src c) = rc_record c"
  "rc_bonuses_applied (add_contribution s f v src c) = rc_bonuses_applied c"
  by (simp_all add: add_contribution_def Let_def push_reason_def)

lemma no_source_bonus [simp]: "source_bonus None = 0"
  by (simp add: source_bonus_def normalized_source_def or_empty_def Let_def trim_def to_lower_def)

lemma bonuses [simp]:
  "rc_score (apply_exact_bonuses query c) = rc_score c + (if rc_bonuses_applied c then 0 else bonus_of query c)"
  "rc_record (apply_exact_bonuses query c) = rc_record c"
  "rc_bonuses_applied (apply_exact_bonuses query c)"
  by (simp_all add: apply_exact_bonuses_def Let_def bonus_of_def exact_bonus_def)

text \<open>A contribution adds its points, and the bonuses if they have not been counted yet.\<close>

definition sound_contribution :: "string \<Rightarrow> contribution \<Rightarrow> bool" where
  "sound_contribution query = (\<lambda>(r, p, f). \<forall>c.
     rc_score (f c) = rc_score c + p + (if rc_bonuses_applied c then 0 else bonus_of query c)
     \<and> rc_record (f c) = rc_record c \<and> rc_bonuses_applied (f c))"

lemma enrichment_of_sound:
  "rc_score (snd (enrichment_of kind query i t) c) = rc_score c + fst (enrichment_of kind query i t)"
  "rc_record (snd (enrichment_of kind query i t) c) = rc_record c"
  "rc_bonuses_applied (snd (enrichment_of kind query i t) c) = rc_bonuses_applied c"
  by (cases kind; simp add: enrichment_of_def split: option.split)+

lemma in_map_filter: "y \<in> set (List.map_filter f xs) \<longleftrightarrow> (\<exists>x \<in> set xs. f x = Some y)"
  by (induction xs) (auto simp: map_filter_simps split: option.splits)

lemma enrichment_sound:
  "e \<in> set (enrichment_contributions env query scope kind is t) \<Longrightarrow> sound_contribution query e"
  by (auto simp: enrichment_contributions_def in_map_filter sound_contribution_def bonus_of_def enrichment_of_sound
      Let_def split: option.splits if_splits)

lemma contributions_sound: "e \<in> set (contributions env raw query scope t) \<Longrightarrow> sound_contribution query e"
  unfolding contributions_def
  by (auto dest: enrichment_sound simp: fts_contributions_def number_contributions_def sound_contribution_def
      fts_contribution_def number_contribution_def bonus_of_def)

lemma contributions_scope: "e \<in> set (contributions env raw query scope t) \<Longrightarrow> matches_scope scope (fst e)"
  by (auto simp: contributions_def fts_contributions_def number_contributions_def enrichment_contributions_def
      in_map_filter Let_def split: option.splits if_splits)

subsection \<open>The candidates\<close>

definition points :: "contribution list \<Rightarrow> string \<Rightarrow> int" where
  "points es i = (\<Sum>(r, p, f) \<leftarrow> es. if sw_sys_id r = i then p else 0)"

lemma points_snoc [simp]: "points [] i = 0"
  "points (es @ [(r, p, f)]) i = points es i + (if sw_sys_id r = i then p else 0)"
  by (simp_all add: points_def)

definition scored :: "string \<Rightarrow> search_scope \<Rightarrow> contribution list \<Rightarrow> candidates \<Rightarrow> bool" where
  "scored query scope es m = (bt_wf m \<and> (\<forall>i. case bt_get m i of
       None \<Rightarrow> i \<notin> set (map (\<lambda>e. sw_sys_id (fst e)) es)
     | Some c \<Rightarrow> i \<in> set (map (\<lambda>e. sw_sys_id (fst e)) es) \<and> sw_sys_id (rc_record c) = i
         \<and> matches_scope scope (rc_record c) \<and> rc_bonuses_applied c
         \<and> rc_score c = points es i + bonus_of query c))"

lemma scored_step:
  assumes m: "scored query scope es m" and e: "sound_contribution query (r, p, f)" "matches_scope scope r"
  shows "scored query scope (es @ [(r, p, f)]) (contribute (r, p, f) m)"
proof -
  let ?c = "case bt_get m (sw_sys_id r) of None \<Rightarrow> candidate_new r | Some c \<Rightarrow> c"
  have wf: "bt_wf m" using m by (simp add: scored_def)
  have f: "rc_score (f c) = rc_score c + p + (if rc_bonuses_applied c then 0 else bonus_of query c)"
    "rc_record (f c) = rc_record c" "rc_bonuses_applied (f c)" for c
    using e(1) by (simp_all add: sound_contribution_def)
  have new: "points es i = 0" if "i \<notin> set (map (\<lambda>e. sw_sys_id (fst e)) es)" for i
    using that by (induction es) (auto simp: points_def)
  have "case bt_get (contribute (r, p, f) m) i of
       None \<Rightarrow> i \<notin> set (map (\<lambda>e. sw_sys_id (fst e)) (es @ [(r, p, f)]))
     | Some c \<Rightarrow> i \<in> set (map (\<lambda>e. sw_sys_id (fst e)) (es @ [(r, p, f)])) \<and> sw_sys_id (rc_record c) = i
         \<and> matches_scope scope (rc_record c) \<and> rc_bonuses_applied c
         \<and> rc_score c = points (es @ [(r, p, f)]) i + bonus_of query c" for i
  proof (cases "i = sw_sys_id r")
    case False
    have "bt_get (contribute (r, p, f) m) i = bt_get m i"
      using False wf by (simp add: contribute_def on_candidate_def bt_get_insert)
    moreover from m have "case bt_get m i of None \<Rightarrow> i \<notin> set (map (\<lambda>e. sw_sys_id (fst e)) es)
     | Some c \<Rightarrow> i \<in> set (map (\<lambda>e. sw_sys_id (fst e)) es) \<and> sw_sys_id (rc_record c) = i
         \<and> matches_scope scope (rc_record c) \<and> rc_bonuses_applied c \<and> rc_score c = points es i + bonus_of query c"
      unfolding scored_def by blast
    ultimately show ?thesis using False by (auto split: option.splits)
  next
    case True
    have get: "bt_get (contribute (r, p, f) m) i = Some (f ?c)"
      using True by (simp add: contribute_def on_candidate_def)
    from m have at: "case bt_get m i of None \<Rightarrow> i \<notin> set (map (\<lambda>e. sw_sys_id (fst e)) es)
     | Some c \<Rightarrow> i \<in> set (map (\<lambda>e. sw_sys_id (fst e)) es) \<and> sw_sys_id (rc_record c) = i
         \<and> matches_scope scope (rc_record c) \<and> rc_bonuses_applied c \<and> rc_score c = points es i + bonus_of query c"
      unfolding scored_def by blast
    show ?thesis
      using get at True e(2) new [of i] f
      by (cases "bt_get m i") (auto simp: candidate_new_def bonus_of_def)
  qed
  with wf show ?thesis
    unfolding scored_def by (simp add: contribute_def on_candidate_def)
qed

lemma scored_fold:
  assumes "\<forall>e \<in> set es. sound_contribution query e \<and> matches_scope scope (fst e)"
  shows "scored query scope es (fold contribute es [])"
  using assms
proof (induction es rule: rev_induct)
  case Nil
  show ?case by (simp add: scored_def)
next
  case (snoc e es)
  then show ?case by (cases e) (auto intro: scored_step)
qed

subsection \<open>The ranking\<close>

interpretation candidate_rank: comparison candidate_order
  unfolding candidate_order_def
  by (intro comparison_then_by comparison_then_by_desc comparison_by_key)

lemma candidate_order_score: "candidate_order c d \<Longrightarrow> rc_score d \<le> rc_score c"
  by (auto simp: candidate_order_def then_by_desc_def)

text \<open>The values of a map whose keys are the identities of its values.\<close>

lemma distinct_values:
  assumes "bt_wf m" "\<And>k v. (k, v) \<in> set m \<Longrightarrow> key v = k"
  shows "distinct (map key (map snd m))"
proof -
  have "map key (map snd m) = map fst m" using assms(2) by (auto simp: o_def)
  with bt_wf_distinct [OF assms(1)] show ?thesis by (simp only:)
qed

lemma into_result_fields [simp]:
  "sx_score (into_result c) = rc_score c" "rr_ref_sys_id (sx_record (into_result c)) = sw_sys_id (rc_record c)"
  "rr_ref_number (sx_record (into_result c)) = sw_number (rc_record c)"
  "sx_snippet (into_result c) = sw_short_description (rc_record c)"
  by (simp_all add: into_result_def search_result_from_record_def)

definition result_id :: "search_result \<Rightarrow> string" where
  "result_id x = rr_ref_sys_id (sx_record x)"

lemma ranked_results:
  assumes "scored query scope es m"
  defines "xs \<equiv> map into_result (sort_by candidate_order (map snd m))"
  shows "set (map result_id xs) = set (map (\<lambda>e. sw_sys_id (fst e)) es) \<and> distinct (map result_id xs)"
    and "x \<in> set xs \<Longrightarrow> sx_score x = points es (result_id x) + exact_bonus query (rr_ref_number (sx_record x)) (sx_snippet x)"
    and "sorted_wrt (\<lambda>x y. sx_score y \<le> sx_score x) xs"
proof -
  from assms have wf: "bt_wf m" and at: "\<And>i. case bt_get m i of
       None \<Rightarrow> i \<notin> set (map (\<lambda>e. sw_sys_id (fst e)) es)
     | Some c \<Rightarrow> i \<in> set (map (\<lambda>e. sw_sys_id (fst e)) es) \<and> sw_sys_id (rc_record c) = i
         \<and> matches_scope scope (rc_record c) \<and> rc_bonuses_applied c \<and> rc_score c = points es i + bonus_of query c"
    by (simp_all add: scored_def)
  have entry: "i \<in> set (map (\<lambda>e. sw_sys_id (fst e)) es) \<and> sw_sys_id (rc_record c) = i \<and> rc_score c = points es i + bonus_of query c"
    if "(i, c) \<in> set m" for i c
    using at [of i] that wf by (simp add: bt_get_in_set)
  have ids: "map result_id (map into_result cs) = map (\<lambda>c. sw_sys_id (rc_record c)) cs" for cs
    by (simp add: result_id_def)
  have "i \<in> fst ` set m" if "i \<in> set (map (\<lambda>e. sw_sys_id (fst e)) es)" for i
    using at [of i] that wf by (force simp: bt_get_in_set [symmetric] split: option.splits)
  with entry have "set (map (\<lambda>c. sw_sys_id (rc_record c)) (map snd m)) = set (map (\<lambda>e. sw_sys_id (fst e)) es)" by force
  moreover have "distinct (map (\<lambda>c. sw_sys_id (rc_record c)) (map snd m))"
    using wf entry by (intro distinct_values) auto
  moreover have "mset (map (\<lambda>c. sw_sys_id (rc_record c)) (sort_by candidate_order (map snd m)))
      = mset (map (\<lambda>c. sw_sys_id (rc_record c)) (map snd m))"
    by (simp only: mset_map mset_sort_by)
  ultimately show "set (map result_id xs) = set (map (\<lambda>e. sw_sys_id (fst e)) es) \<and> distinct (map result_id xs)"
    unfolding xs_def ids by (metis mset_eq_imp_distinct_iff mset_eq_setD)
  show "sx_score x = points es (result_id x) + exact_bonus query (rr_ref_number (sx_record x)) (sx_snippet x)"
    if "x \<in> set xs"
    using that entry by (auto simp: xs_def result_id_def bonus_of_def)
  have "sorted_wrt (\<lambda>c d. rc_score d \<le> rc_score c) (sort_by candidate_order (map snd m))"
    using candidate_rank.sorted [of "map snd m"] by (rule sorted_wrt_mono_rel [rotated]) (rule candidate_order_score)
  then show "sorted_wrt (\<lambda>x y. sx_score y \<le> sx_score x) xs" by (simp add: xs_def sorted_wrt_map)
qed

lemma search_run:
  assumes "search_enriched env raw scope w = (Inr xs, w')" "trim raw \<noteq> []"
  shows "xs = map into_result (sort_by candidate_order (map snd (fold contribute
    (contributions env raw (normalize_search_term raw) scope (db_tables (w_stores w))) [])))"
proof -
  let ?q = "normalize_search_term raw"
  from assms obtain m w1 where "gather_candidates env raw ?q scope w = (Inr m, w1)"
    "xs = map into_result (sort_by candidate_order (map snd m))"
    by (auto simp: search_enriched_def Let_def andthen_Inr ok_def)
  with yields_run [OF yields_gather] show ?thesis by blast
qed

subsection \<open>Properties\<close>

text \<open>
  C15: The ranked search answers each record that some hit contributes to once; its score is the sum
  of the points of its hits plus the bonuses for an exact number and an exact short
  description, counted once however many hits it has; and the results come in falling order of score.
\<close>

theorem search_scores_add_up:
  assumes "search_enriched env raw scope w = (Inr xs, w')" "trim raw \<noteq> []"
  defines "es \<equiv> contributions env raw (normalize_search_term raw) scope (db_tables (w_stores w))"
  shows "set (map result_id xs) = set (map (\<lambda>(r, p, f). sw_sys_id r) es) \<and> distinct (map result_id xs)
    \<and> list_all (\<lambda>x. sx_score x = points es (result_id x)
        + exact_bonus (normalize_search_term raw) (rr_ref_number (sx_record x)) (sx_snippet x)) xs
    \<and> sorted_wrt (\<lambda>x y. sx_score y \<le> sx_score x) xs"
proof -
  have "scored (normalize_search_term raw) scope es (fold contribute es [])"
    by (rule scored_fold) (auto simp: es_def contributions_sound contributions_scope)
  from ranked_results [OF this] show ?thesis
    unfolding search_run [OF assms(1,2), folded es_def] list_all_iff
    by (auto simp: case_prod_unfold)
qed

subsection \<open>Witness\<close>

text \<open>
  The incident is hit by the index and by its alias: 40, and 100 with 20 for the manual
  source; its short description is the query, which brings 15 once.
\<close>

lemma demo_contributions:
  "map (\<lambda>(r, p, f). (sw_sys_id r, p)) (contributions demo_engine ''VPN'' (normalize_search_term ''VPN'') ScopeAll demo_cache)
     = [(''a'', 40), (''a'', 120)]"
  by code_simp

lemma demo_bonus: "normalize_search_term ''VPN'' = ''vpn''"
  by code_simp

theorem search_scores_add_up_witness:
  "list_all (\<lambda>x. result_id x = ''a'' \<and> sx_score x = 160 + exact_bonus ''vpn'' (rr_ref_number (sx_record x)) (sx_snippet x))
       (projr (fst (search_enriched demo_engine ''VPN'' ScopeAll demo_engine_world)))
     \<and> length (projr (fst (search_enriched demo_engine ''VPN'' ScopeAll demo_engine_world))) = 1"
proof -
  let ?es = "contributions demo_engine ''VPN'' (normalize_search_term ''VPN'') ScopeAll (db_tables (w_stores demo_engine_world))"
  obtain xs w' where run: "search_enriched demo_engine ''VPN'' ScopeAll demo_engine_world = (Inr xs, w')"
    using sure_search [OF demo_sound] by (rule sureE)
  have es: "map (\<lambda>(r, p, f). (sw_sys_id r, p)) ?es = [(''a'', 40), (''a'', 120)]"
    using demo_contributions by (simp add: demo_engine_world_def)
  have "trim ''VPN'' \<noteq> []" by code_simp
  from search_scores_add_up [OF run this]
  have all: "set (map result_id xs) = set (map (\<lambda>(r, p, f). sw_sys_id r) ?es)" "distinct (map result_id xs)"
    "list_all (\<lambda>x. sx_score x = points ?es (result_id x)
        + exact_bonus (normalize_search_term ''VPN'') (rr_ref_number (sx_record x)) (sx_snippet x)) xs" by blast+
  have "map (\<lambda>(r, p, f). sw_sys_id r) ?es = map fst (map (\<lambda>(r, p, f). (sw_sys_id r, p)) ?es)"
    by (simp add: o_def case_prod_unfold)
  then have ids: "set (map result_id xs) = {''a''}" using all(1) unfolding es by simp
  have "points ?es ''a'' = (\<Sum>(i, p) \<leftarrow> map (\<lambda>(r, p, f). (sw_sys_id r, p)) ?es. if i = ''a'' then p else 0)"
    by (simp add: points_def o_def case_prod_unfold cong: if_cong)
  then have points: "points ?es ''a'' = 160" unfolding es by simp
  have one: "length xs = 1" using ids all(2) distinct_card [of "map result_id xs"] by simp
  have "result_id x = ''a'' \<and> sx_score x = 160 + exact_bonus ''vpn'' (rr_ref_number (sx_record x)) (sx_snippet x)"
    if x: "x \<in> set xs" for x
  proof
    have "result_id x \<in> set (map result_id xs)" using x by simp
    then show id: "result_id x = ''a''" unfolding ids by simp
    from all(3) x have "sx_score x = points ?es (result_id x)
        + exact_bonus (normalize_search_term ''VPN'') (rr_ref_number (sx_record x)) (sx_snippet x)" by (simp only: list_all_iff)
    then show "sx_score x = 160 + exact_bonus ''vpn'' (rr_ref_number (sx_record x)) (sx_snippet x)"
      by (simp only: id points) (simp only: demo_bonus)
  qed
  then show ?thesis using one by (simp add: run list_all_iff)
qed

end
