(* ===== verification/Query_Properties.thy ===== *)
theory Query_Properties
  imports Search_Properties Cache_Laws
begin

text \<open>
  The guarantees of the lists of the query engine: what a list answers, and that a read that had to
  do without its document is reported. The witnesses query a small cache.
\<close>

subsection \<open>Lists\<close>

lemma yields_collect:
  assumes "\<And>x. yields (f x) (g x)"
  shows "yields (collect_results f xs) (\<lambda>t. map (\<lambda>x. g x t) xs)"
proof (induction xs)
  case (Cons x xs)
  have "yields (andthen (collect_results f xs) (\<lambda>ys. ok (y # ys))) (\<lambda>t. y # map (\<lambda>x. g x t) xs)" for y
    by (rule yields_andthen [OF Cons yields_ok])
  then have "yields (collect_results f (x # xs)) (\<lambda>t. g x t # map (\<lambda>x. g x t) xs)"
    unfolding collect_results.simps by (rule yields_andthen [OF assms])
  then show ?case by simp
qed (simp add: yields_ok)

lemma yields_list_records:
  "yields (list_records env q) (\<lambda>t. truncate_to (lq_limit q)
     (map (\<lambda>row. value_of env row t) (filter (list_query_matches q) (active_rows (lq_type q) t))))"
  unfolding list_records_def list_active_records_def
  by (rule yields_andthen [OF yields_select], rule yields_andthen [OF yields_collect [OF yields_materialize] yields_ok])

lemma active_rows_scope: "row \<in> set (active_rows kind t) \<Longrightarrow> rr_in_scope row \<and> row \<in> set (rows_of t)"
  by (auto simp: active_rows_def)

text \<open>
  The rows come from the active records, so the flag that asks for tombstoned records selects
  nothing more, and the requested order is not applied.
\<close>

lemma tombstoned_flag_inert:
  "list_records env (q\<lparr>lq_tombstoned := b\<rparr>) = list_records env (q\<lparr>lq_tombstoned := False\<rparr>)"
proof (rule ext)
  fix w
  have "filter (list_query_matches (q\<lparr>lq_tombstoned := b\<rparr>)) (active_rows (lq_type q) t)
      = filter (list_query_matches (q\<lparr>lq_tombstoned := False\<rparr>)) (active_rows (lq_type q) t)" for t
    by (intro filter_cong) (auto simp: list_query_matches_def dest: active_rows_scope)
  then show "list_records env (q\<lparr>lq_tombstoned := b\<rparr>) w = list_records env (q\<lparr>lq_tombstoned := False\<rparr>) w"
    by (simp add: list_records_def andthen_def list_active_records_def select_def statement_def Let_def)
qed

lemma sort_ignored: "list_records env (q\<lparr>lq_sort := fs\<rparr>) = list_records env q"
proof -
  have "list_query_matches (q\<lparr>lq_sort := fs\<rparr>) = list_query_matches q"
    by (rule ext) (simp add: list_query_matches_def)
  then show ?thesis by (simp add: list_records_def)
qed

subsection \<open>Degraded reads\<close>

definition note_of :: "engine_env \<Rightarrow> record_row \<Rightarrow> degraded_read" where
  "note_of env row = \<lparr>dr_sys_id = rr_sys_id row, dr_number = rr_number row, dr_table = rr_table row,
     dr_type = rr_type row, dr_path = markdown_path_for_row env row,
     dr_reason = (case markdown_path_for_row env row of None \<Rightarrow> RawJsonFallback
       | Some path \<Rightarrow> (case qe_root env of None \<Rightarrow> RawJsonFallback
         | Some _ \<Rightarrow> (case read_any env (rr_type row) path of Inl e \<Rightarrow> degraded_reason_from_error e
           | Inr _ \<Rightarrow> RawJsonFallback))),
     dr_observed_at = jn_now env\<rparr>"

definition noted :: "engine_env \<Rightarrow> record_row \<Rightarrow> (string, degraded_read) btree \<Rightarrow> (string, degraded_read) btree" where
  "noted env row d = (case loaded env (read_any env (rr_type row)) row of
     Some _ \<Rightarrow> bt_remove (rr_sys_id row) d | None \<Rightarrow> bt_insert (rr_sys_id row) (note_of env row) d)"

lemma select_degraded: "select db g w = (r, w') \<Longrightarrow> ed_degraded (w_stores w') = ed_degraded (w_stores w)"
  by (auto simp: select_def statement_def Let_def split: if_splits)

lemma load_noted:
  "load_record_from_vault env row w = (r, w') \<Longrightarrow> ed_degraded (w_stores w') = noted env row (ed_degraded (w_stores w))"
  by (auto simp: load_record_from_vault_def load_from_vault_def loaded_def noted_def note_of_def
      record_degraded_read_def clear_degraded_read_def in_memory_def andthen_def ok_def
      split: option.splits sum.splits)

lemma materialize_noted:
  assumes "materialize_record env row w = (Inr r, w')"
  shows "ed_degraded (w_stores w') = noted env row (ed_degraded (w_stores w))"
proof -
  from assms obtain l w1 where l: "load_record_from_vault env row w = (Inr l, w1)"
    "(case l of Some r \<Rightarrow> ok r | None \<Rightarrow> materialize_record_from_json env row) w1 = (Inr r, w')"
    by (auto simp: materialize_record_def andthen_Inr)
  have "ed_degraded (w_stores w') = ed_degraded (w_stores w1)"
    using l(2) by (cases l) (auto simp: ok_def materialize_record_from_json_def children_for_def andthen_Inr
        list_active_records_def dest: select_degraded)
  with load_noted [OF l(1)] show ?thesis by simp
qed

lemma collect_noted:
  "collect_results (materialize_record env) rows w = (Inr rs, w') \<Longrightarrow>
     ed_degraded (w_stores w') = fold (noted env) rows (ed_degraded (w_stores w))"
proof (induction rows arbitrary: w rs)
  case (Cons row rows)
  then obtain r w1 rs' where "materialize_record env row w = (Inr r, w1)"
    "collect_results (materialize_record env) rows w1 = (Inr rs', w')" by (auto simp: andthen_Inr ok_def)
  with Cons.IH materialize_noted show ?case by fastforce
qed (simp add: ok_def)

lemma noted_get: "bt_wf d \<Longrightarrow> bt_wf (noted env row d) \<and> bt_get (noted env row d) i = (if i \<noteq> rr_sys_id row then bt_get d i
    else if loaded env (read_any env (rr_type row)) row = None then Some (note_of env row) else None)"
  by (auto simp: noted_def bt_get_insert bt_get_remove split: option.splits)

lemma fold_noted:
  assumes "bt_wf d" "distinct (map rr_sys_id rows)" "row \<in> set rows"
  shows "bt_get (fold (noted env) rows d) (rr_sys_id row)
    = (if loaded env (read_any env (rr_type row)) row = None then Some (note_of env row) else None)"
  using assms
proof (induction rows arbitrary: d)
  case (Cons x rows)
  have other: "bt_get (fold (noted env) xs e) i = bt_get e i" if "bt_wf e" "i \<notin> set (map rr_sys_id xs)" for xs e i
    using that by (induction xs arbitrary: e) (auto simp: noted_get)
  show ?case
  proof (cases "row = x")
    case True
    with Cons.prems other [of "noted env x d" "rr_sys_id x" rows] show ?thesis by (auto simp: noted_get)
  next
    case False
    with Cons show ?thesis by (simp add: noted_get)
  qed
qed simp

lemma distinct_active: "tables_ok t \<Longrightarrow> distinct (map rr_sys_id (filter P (active_rows kind t)))"
proof -
  assume "tables_ok t"
  then have "distinct (map rr_sys_id (rows_of t))"
    by (simp add: tables_ok_def record_keys_def rows_of_def o_def record_key_def [abs_def])
  then have base: "distinct (map rr_sys_id (filter Q (rows_of t)))" for Q by (rule distinct_map_filter)
  have "mset (map rr_sys_id (active_rows kind t)) = mset (map rr_sys_id (filter (\<lambda>r. rr_in_scope r
     \<and> (case kind of None \<Rightarrow> True | Some k \<Rightarrow> rr_type r = k)) (rows_of t)))"
    unfolding active_rows_def by (simp only: mset_map mset_sort_by)
  with base have "distinct (map rr_sys_id (active_rows kind t))" by (metis mset_eq_imp_distinct_iff)
  then show ?thesis by (rule distinct_map_filter)
qed

subsection \<open>Properties\<close>

text \<open>
  C24: A list answers the records of the active rows that match the query, by number and up to the
  limit. Of the rows it read, exactly those whose document could not be read, and which were
  therefore rebuilt from the JSON of the row, stand in the map of degraded reads, each with its reason.
\<close>

theorem list_reports_degraded_reads:
  assumes "list_records env q w = (Inr records, w')" "tables_ok (db_tables (w_stores w))" "bt_wf (ed_degraded (w_stores w))"
  defines "rows \<equiv> filter (list_query_matches q) (active_rows (lq_type q) (db_tables (w_stores w)))"
  shows "records = truncate_to (lq_limit q) (map (\<lambda>row. value_of env row (db_tables (w_stores w))) rows)
    \<and> (\<forall>row \<in> set rows. bt_get (ed_degraded (w_stores w')) (rr_sys_id row) =
        (if loaded env (read_any env (rr_type row)) row = None then Some (note_of env row) else None))"
proof
  show "records = truncate_to (lq_limit q) (map (\<lambda>row. value_of env row (db_tables (w_stores w))) rows)"
    using yields_run [OF yields_list_records assms(1)] by (simp add: rows_def)
  obtain found w1 rs where found: "list_active_records (qe_sql env) (lq_type q) w = (Inr found, w1)"
    "collect_results (materialize_record env) (filter (list_query_matches q) found) w1 = (Inr rs, w')"
    using assms(1) by (auto simp: list_records_def andthen_Inr ok_def)
  have "found = active_rows (lq_type q) (db_tables (w_stores w))"
    using yields_run [OF yields_select found(1) [unfolded list_active_records_def]] by simp
  moreover have "ed_degraded (w_stores w1) = ed_degraded (w_stores w)"
    using found(1) unfolding list_active_records_def by (rule select_degraded)
  ultimately have "ed_degraded (w_stores w') = fold (noted env) rows (ed_degraded (w_stores w))"
    using collect_noted [OF found(2)] by (simp add: rows_def)
  then show "\<forall>row \<in> set rows. bt_get (ed_degraded (w_stores w')) (rr_sys_id row) =
        (if loaded env (read_any env (rr_type row)) row = None then Some (note_of env row) else None)"
    using fold_noted [OF assms(3) distinct_active [OF assms(2)]] by (simp add: rows_def)
qed

subsection \<open>Witness\<close>

text \<open>The document of the incident is missing: the list answers it from the tables and notes the read.\<close>

theorem list_reports_degraded_reads_witness:
  "map sw_sys_id (projr (fst (list_records demo_engine list_query_new demo_engine_world))) = [''a'']
    \<and> map_option dr_reason (bt_get (ed_degraded (w_stores (snd (list_records demo_engine list_query_new demo_engine_world)))) ''a'')
        = Some MissingFile"
proof -
  obtain rs w' where run: "list_records demo_engine list_query_new demo_engine_world = (Inr rs, w')"
    using sure_list_records [OF demo_sound] by (rule sureE)
  have t: "db_tables (w_stores demo_engine_world) = demo_cache" by (simp add: demo_engine_world_def)
  have limit: "lq_limit list_query_new = None" by (simp add: list_query_new_def)
  have rows: "filter (list_query_matches list_query_new) (active_rows (lq_type list_query_new) demo_cache) = [demo_row]"
    by code_simp
  have row: "rr_sys_id demo_row = ''a''" "sw_sys_id (value_of demo_engine demo_row demo_cache) = ''a''"
    "loaded demo_engine (read_any demo_engine (rr_type demo_row)) demo_row = None"
    "dr_reason (note_of demo_engine demo_row) = MissingFile" by code_simp+
  have "tables_ok (db_tables (w_stores demo_engine_world))" "bt_wf (ed_degraded (w_stores demo_engine_world))"
    using demo_rows(2) by (simp_all add: demo_engine_world_def)
  from list_reports_degraded_reads [OF run this] show ?thesis
    by (simp add: run t rows row truncate_to_def limit)
qed

end
