(* ===== verification/Vault_Layout.thy ===== *)
theory Vault_Layout
  imports Query_Engine
begin

text \<open>
  Where a record's document lies (\<open>snow_core/src/vault/layout.rs\<close>). A path is the list of what was
  joined to the root of the vault; \<open>path_text\<close> is the text the code ends up with, where joining an
  absolute path starts over.
\<close>

subsection \<open>Names\<close>

definition file_name :: "string \<Rightarrow> string \<Rightarrow> string" where
  "file_name primary fallback = (if primary = [] then fallback else primary) @ ''.md''"

definition first_non_empty :: "string \<Rightarrow> string \<Rightarrow> string \<Rightarrow> string" where
  "first_non_empty a b c = (if trim a \<noteq> [] then a else if trim b \<noteq> [] then b else c)"

fun dashed :: "bool \<Rightarrow> string \<Rightarrow> string" where
  "dashed prev [] = []"
| "dashed prev (c # cs) =
     (if is_digit (lower_char c) \<or> (97 \<le> char_code (lower_char c) \<and> char_code (lower_char c) \<le> 122)
      then lower_char c # dashed False cs
      else if prev then dashed True cs
      else CHR ''-'' # dashed True cs)"

definition slugify :: "string \<Rightarrow> string" where
  "slugify s = rev (dropWhile (\<lambda>c. c = CHR ''-'') (rev (dropWhile (\<lambda>c. c = CHR ''-'') (dashed False s))))"

definition stable_slug :: "string \<Rightarrow> string \<Rightarrow> string \<Rightarrow> string" where
  "stable_slug label sys_id display = (if slugify display = [] then label @ ''_'' @ sys_id
     else label @ ''_'' @ sys_id @ ''_'' @ slugify display)"

subsection \<open>Paths below the root\<close>

definition hierarchical_parent_record_path :: "string \<Rightarrow> string \<Rightarrow> string \<Rightarrow> string list" where
  "hierarchical_parent_record_path dir number sys_id = [dir, number, file_name number sys_id]"

definition hierarchical_child_record_path :: "string \<Rightarrow> string \<Rightarrow> linked_record option \<Rightarrow> string \<Rightarrow> string list" where
  "hierarchical_child_record_path dir number parent sys_id = (case parent of
     Some p \<Rightarrow> if rr_ref_number p \<noteq> [] then [dir, rr_ref_number p, file_name number sys_id]
              else [dir, file_name number sys_id]
   | None \<Rightarrow> [dir, file_name number sys_id])"

definition knowledge_article_path :: "reference \<Rightarrow> reference \<Rightarrow> string \<Rightarrow> string \<Rightarrow> string list" where
  "knowledge_article_path base category number sys_id =
     [''knowledge'', ''bases'', stable_slug ''kb'' (rf_sys_id base) (rf_display base),
      stable_slug ''cat'' (rf_sys_id category) (rf_display category), file_name number sys_id]"

definition knowledge_article_path_from_record :: "snow_record \<Rightarrow> string list option" where
  "knowledge_article_path_from_record r =
     Option.bind (bt_get (sw_references r) ''knowledge_base'') (\<lambda>base.
     Option.bind (bt_get (sw_references r) ''category'') (\<lambda>category.
       Some (knowledge_article_path base category (sw_number r) (sw_sys_id r))))"

definition named_display :: "snow_record \<Rightarrow> string" where
  "named_display r = (case Option.bind (bt_get (sw_fields r) ''name'') (\<lambda>v.
       let s = (case fv_display v of Some d \<Rightarrow> d | None \<Rightarrow> fv_value v) in if trim s = [] then None else Some s) of
     Some s \<Rightarrow> s | None \<Rightarrow> first_non_empty (sw_short_description r) (sw_number r) (sw_sys_id r))"

fun record_path :: "resource_type \<Rightarrow> snow_record \<Rightarrow> string list" where
  "record_path RtTask r = [''tasks'', file_name (sw_number r) (sw_sys_id r)]"
| "record_path RtIncident r = [''incidents'', file_name (sw_number r) (sw_sys_id r)]"
| "record_path RtChange r = hierarchical_parent_record_path ''changes'' (sw_number r) (sw_sys_id r)"
| "record_path RtChangeTask r = hierarchical_child_record_path ''changes'' (sw_number r) (sw_parent r) (sw_sys_id r)"
| "record_path RtRequest r = hierarchical_parent_record_path ''requests'' (sw_number r) (sw_sys_id r)"
| "record_path RtRequestTask r = hierarchical_child_record_path ''requests'' (sw_number r) (sw_parent r) (sw_sys_id r)"
| "record_path RtProject r = hierarchical_parent_record_path ''projects'' (sw_number r) (sw_sys_id r)"
| "record_path RtDemand r = hierarchical_parent_record_path ''demands'' (sw_number r) (sw_sys_id r)"
| "record_path RtDemandTask r = hierarchical_child_record_path ''demands'' (sw_number r) (sw_parent r) (sw_sys_id r)"
| "record_path RtResourcePlan r = [''resource_plans'', file_name (sw_number r) (sw_sys_id r)]"
| "record_path RtStory r = hierarchical_parent_record_path ''stories'' (sw_number r) (sw_sys_id r)"
| "record_path RtScrumTask r = hierarchical_child_record_path ''stories'' (sw_number r) (sw_parent r) (sw_sys_id r)"
| "record_path RtTimecard r = [''timecards'', file_name (sw_number r) (sw_sys_id r)]"
| "record_path RtKnowledge r = (case knowledge_article_path_from_record r of Some p \<Rightarrow> p
     | None \<Rightarrow> [''knowledge'', file_name (sw_number r) (sw_sys_id r)])"
| "record_path RtApproval r = [''approvals'', file_name (sw_number r) (sw_sys_id r)]"
| "record_path RtBusinessApplication r =
     [''business_applications'', stable_slug ''business_application'' (sw_sys_id r) (named_display r) @ ''.md'']"
| "record_path RtServer r = [''servers'', stable_slug ''server'' (sw_sys_id r) (named_display r) @ ''.md'']"
| "record_path RtPrivateTask r = [''private_tasks'', file_name (sw_number r) (sw_sys_id r)]"
| "record_path RtUnknown r = [''unknown'', file_name (sw_number r) (sw_sys_id r)]"

definition path_of_record :: "snow_record \<Rightarrow> string list" where
  "path_of_record r = record_path (sw_type r) r"

definition path_text :: "string \<Rightarrow> string list \<Rightarrow> string" where
  "path_text dir parts = foldl path_join dir parts"

definition approval_path :: "approval_record \<Rightarrow> string list" where
  "approval_path a = [''approvals'', if sw_number (ap_record a) \<noteq> []
     then file_name (sw_number (ap_record a)) (sw_sys_id (ap_record a))
     else file_name (sw_sys_id (ap_record a)) (sw_sys_id (ap_record a))]"

subsection \<open>A path stays below the root\<close>

text \<open>A name that is one component of a path and no way up.\<close>

definition plain_name :: "string \<Rightarrow> bool" where
  "plain_name s = (s \<noteq> [] \<and> CHR ''/'' \<notin> set s \<and> s \<noteq> ''.'' \<and> s \<noteq> ''..'')"

definition plain_text :: "string \<Rightarrow> bool" where
  "plain_text s = (CHR ''/'' \<notin> set s)"

lemma md_plain: "CHR ''/'' \<notin> set s \<Longrightarrow> plain_name (s @ ''.md'')"
  by (auto simp: plain_name_def append_eq_Cons_conv)

lemma file_name_plain: "plain_text a \<Longrightarrow> plain_text b \<Longrightarrow> plain_name (file_name a b)"
  by (simp add: file_name_def md_plain plain_text_def)

lemma dashed_plain: "c \<in> set (dashed b s) \<Longrightarrow> c = CHR ''-'' \<or> is_digit c \<or> (97 \<le> char_code c \<and> char_code c \<le> 122)"
  by (induction b s rule: dashed.induct) (auto split: if_splits)

lemma slugify_plain: "plain_text (slugify s)"
proof -
  have "set (slugify s) \<subseteq> set (dashed False s)"
    unfolding slugify_def by (auto dest!: set_dropWhileD)
  moreover have "CHR ''/'' \<notin> set (dashed False s)"
    using dashed_plain [of "CHR ''/''" False s] by (auto simp: is_digit_def char_code_def Let_def)
  ultimately show ?thesis by (auto simp: plain_text_def)
qed

lemma stable_slug_plain:
  assumes "plain_text i"
  shows "plain_text (stable_slug ''kb'' i d)" "plain_text (stable_slug ''cat'' i d)"
    "plain_text (stable_slug ''server'' i d)" "plain_text (stable_slug ''business_application'' i d)"
    "plain_name (stable_slug ''kb'' i d)" "plain_name (stable_slug ''cat'' i d)"
  using assms slugify_plain [of d] by (auto simp: stable_slug_def plain_text_def plain_name_def)

lemma plain_dirs:
  "plain_name ''tasks''" "plain_name ''incidents''" "plain_name ''changes''" "plain_name ''requests''"
  "plain_name ''projects''" "plain_name ''demands''" "plain_name ''resource_plans''" "plain_name ''stories''"
  "plain_name ''timecards''" "plain_name ''knowledge''" "plain_name ''bases''" "plain_name ''approvals''"
  "plain_name ''business_applications''" "plain_name ''servers''" "plain_name ''private_tasks''" "plain_name ''unknown''"
  by (simp_all add: plain_name_def)

text \<open>What the path of a record is made of.\<close>

definition plain_record :: "snow_record \<Rightarrow> bool" where
  "plain_record r = (plain_name (sw_number r) \<and> plain_text (sw_sys_id r)
     \<and> (\<forall>p. sw_parent r = Some p \<longrightarrow> rr_ref_number p = [] \<or> plain_name (rr_ref_number p))
     \<and> (\<forall>k x. bt_get (sw_references r) k = Some x \<longrightarrow> plain_text (rf_sys_id x)))"

lemma plain_name_text: "plain_name s \<Longrightarrow> plain_text s"
  by (simp add: plain_name_def plain_text_def)

lemma record_path_plain: "plain_record r \<Longrightarrow> list_all plain_name (record_path k r)"
proof -
  assume r: "plain_record r"
  then have names: "plain_name (file_name (sw_number r) (sw_sys_id r))" "plain_name (sw_number r)"
    by (auto simp: plain_record_def intro: file_name_plain plain_name_text)
  have child: "list_all plain_name (hierarchical_child_record_path d (sw_number r) (sw_parent r) (sw_sys_id r))"
    if "plain_name d" for d
    using r names that by (auto simp: hierarchical_child_record_path_def plain_record_def split: option.splits)
  have article: "list_all plain_name p" if "knowledge_article_path_from_record r = Some p" for p
    using that r names by (auto simp: knowledge_article_path_from_record_def knowledge_article_path_def plain_record_def
        plain_dirs stable_slug_plain bind_eq_Some_conv)
  have slug: "plain_name (stable_slug ''server'' (sw_sys_id r) d @ ''.md'')"
    "plain_name (stable_slug ''business_application'' (sw_sys_id r) d @ ''.md'')" for d
    using r stable_slug_plain [of "sw_sys_id r" d] by (auto simp: plain_record_def plain_text_def intro!: md_plain)
  show ?thesis
    using names child article slug by (cases k) (auto simp: hierarchical_parent_record_path_def plain_dirs split: option.split)
qed

lemma path_text_plain:
  "list_all plain_name ps \<Longrightarrow> dir \<noteq> [] \<Longrightarrow> \<not> ends_with ''/'' dir \<Longrightarrow>
     path_text dir ps = dir @ concat (map (\<lambda>p. CHR ''/'' # p) ps)"
  unfolding path_text_def
proof (induction ps arbitrary: dir)
  case (Cons p ps)
  then have p: "\<not> starts_with ''/'' p" by (cases p) (auto simp: plain_name_def starts_with_def)
  have "\<not> ends_with ''/'' (dir @ CHR ''/'' # p)"
  proof
    assume "ends_with ''/'' (dir @ CHR ''/'' # p)"
    then have "last (dir @ CHR ''/'' # p) = CHR ''/''" by (auto simp: ends_with_def suffix_def simp del: last_appendR)
    with Cons.prems(1) show False using last_in_set [of p] by (auto simp: plain_name_def)
  qed
  with Cons p show ?case by (simp add: path_join_def)
qed simp

end
