(* ===== verification/Record_Cache.thy ===== *)
theory Record_Cache
  imports Query_Reads Vault_Layout Cache_Laws Cache_Policy
begin

text \<open>
  Records across memory cache, tables and vault: tombstoning and pruning (\<open>snow_core/src/context.rs\<close>),
  and the record service on top of them (\<open>service/record.rs\<close>: the read that falls back to a
  live read, and invalidation). The vault of the context is the one of the query engine. The
  live read is an argument.
\<close>

subsection \<open>Documents\<close>

definition has_document :: "string \<Rightarrow> bool engine_step" where
  "has_document path = (\<lambda>w. (Inr (path \<in> set (ed_documents (w_stores w))), w))"

text \<open>A file operation that may fail.\<close>

definition file_step :: "engine_env \<Rightarrow> (string list \<Rightarrow> string list) \<Rightarrow> unit engine_step" where
  "file_step env f = (\<lambda>w. let w1 = w\<lparr>w_tick := Suc (w_tick w)\<rparr>
     in if qe_files env (w_tick w) then (Inr (), w1\<lparr>w_stores := (w_stores w)\<lparr>ed_documents := f (ed_documents (w_stores w))\<rparr>\<rparr>)
        else (Inl ''io error'', w1))"

definition moved :: "string \<Rightarrow> string \<Rightarrow> string list \<Rightarrow> string list" where
  "moved a b ds = b # filter (\<lambda>d. d \<noteq> a \<and> d \<noteq> b) ds"

definition staged_path :: "string \<Rightarrow> string" where
  "staged_path path = path @ ''.pruning''"

definition stage_markdown_for_prune :: "engine_env \<Rightarrow> string \<Rightarrow> bool engine_step" where
  "stage_markdown_for_prune env path = andthen (has_document path) (\<lambda>there.
     if there then andthen (file_step env (moved path (staged_path path))) (\<lambda>_. ok True) else ok False)"

definition restore_staged_markdown :: "engine_env \<Rightarrow> string \<Rightarrow> bool \<Rightarrow> unit engine_step" where
  "restore_staged_markdown env path staged = (if \<not> staged then ok () else
     andthen (has_document (staged_path path)) (\<lambda>there.
       if there then file_step env (moved (staged_path path) path) else ok ()))"

subsection \<open>Tombstoning and pruning\<close>

definition forget :: "string \<Rightarrow> unit engine_step" where
  "forget number = in_memory (\<lambda>s. s\<lparr>ed_memory := memory_invalidate number (ed_memory s)\<rparr>)"

definition core_tombstone_record :: "engine_env \<Rightarrow> string \<Rightarrow> time \<Rightarrow> unit engine_step" where
  "core_tombstone_record env sys_id when = inspect (get_record_by_sys_id (qe_sql env) sys_id) (\<lambda>found.
     andthen (case found of Inr (Some row) \<Rightarrow> forget (rr_number row) | _ \<Rightarrow> ok ())
       (\<lambda>_. tombstone_record (qe_sql env) sys_id when))"

definition vault_dir :: "engine_env \<Rightarrow> string" where
  "vault_dir env = or_empty (qe_root env)"

definition document_path :: "engine_env \<Rightarrow> snow_record \<Rightarrow> string" where
  "document_path env r = path_text (vault_dir env) (path_of_record r)"

definition prune_staged :: "engine_env \<Rightarrow> string \<Rightarrow> time \<Rightarrow> string \<Rightarrow> bool \<Rightarrow> unit engine_step" where
  "prune_staged env sys_id when path staged = inspect (prune_record (qe_sql env) sys_id when) (\<lambda>result. case result of
     Inr _ \<Rightarrow> if staged then file_step env (filter (\<lambda>d. d \<noteq> staged_path path)) else ok ()
   | Inl err \<Rightarrow> andthen (restore_staged_markdown env path staged) (\<lambda>_. fail err))"

definition core_prune_record :: "engine_env \<Rightarrow> string \<Rightarrow> time \<Rightarrow> unit engine_step" where
  "core_prune_record env sys_id when = andthen (get_record_by_sys_id (qe_sql env) sys_id) (\<lambda>found. case found of
     None \<Rightarrow> ok ()
   | Some row \<Rightarrow> andthen (forget (rr_number row)) (\<lambda>_.
       andthen (get_record env (rr_number row)) (\<lambda>record. case record of
         None \<Rightarrow> ok ()
       | Some r \<Rightarrow> andthen (stage_markdown_for_prune env (document_path env r))
           (prune_staged env sys_id when (document_path env r)))))"

subsection \<open>The record service\<close>

definition remember :: "snow_record \<Rightarrow> unit engine_step" where
  "remember r = in_memory (\<lambda>s. s\<lparr>ed_memory := memory_put (sw_number r) r (ed_memory s)\<rparr>)"

definition recall :: "string \<Rightarrow> snow_record option engine_step" where
  "recall number = (\<lambda>w. case memory_get number (ed_memory (w_stores w)) of
     (r, m) \<Rightarrow> (Inr r, w\<lparr>w_stores := (w_stores w)\<lparr>ed_memory := m\<rparr>\<rparr>))"

definition service_get_record ::
  "engine_env \<Rightarrow> (string \<Rightarrow> snow_record option engine_step) \<Rightarrow> cache_ttl_policy \<Rightarrow> time \<Rightarrow> string
     \<Rightarrow> snow_record option engine_step" where
  "service_get_record env live ttl now number = andthen (recall number) (\<lambda>cached. case cached of
     Some r \<Rightarrow> if now - sw_synced_at r \<le> ct_work_record_ttl ttl then ok (Some r)
              else andthen (forget number) (\<lambda>_. live number)
   | None \<Rightarrow> andthen (get_record env number) (\<lambda>found. case found of
       None \<Rightarrow> ok None
     | Some r \<Rightarrow> if ct_work_record_ttl ttl < now - sw_synced_at r then live number
                else andthen (remember r) (\<lambda>_. ok (Some r))))"

definition cache_object_resource_type :: "string \<Rightarrow> (string, resource_type \<times> string option) result" where
  "cache_object_resource_type object =
     (if object = ''knowledge'' then Inr (RtKnowledge, None)
      else if object = ''business_application'' then Inr (RtBusinessApplication, None)
      else if object = ''server'' then Inr (RtServer, None)
      else if object = ''service_catalog_product'' then Inr (RtUnknown, Some ''sc_cat_item'')
      else Inl (''unknown cache object `'' @ object @ ''`''))"

definition in_table :: "string option \<Rightarrow> string \<Rightarrow> bool" where
  "in_table table t = (case table of None \<Rightarrow> True | Some x \<Rightarrow> t = x)"

definition invalidate_cache_target :: "engine_env \<Rightarrow> string \<Rightarrow> string \<Rightarrow> time \<Rightarrow> unit engine_step" where
  "invalidate_cache_target env object sys_id now =
     andthen (of_result (cache_object_resource_type object)) (\<lambda>(kind, table).
     andthen (get_record_by_sys_id (qe_sql env) sys_id) (\<lambda>found. case found of
       None \<Rightarrow> ok ()
     | Some row \<Rightarrow> if rr_type row \<noteq> kind \<or> \<not> in_table table (rr_table row)
         then fail (''cached target does not belong to object `'' @ object @ ''`'')
         else core_prune_record env sys_id now))"

definition invalidate_cache_segment :: "engine_env \<Rightarrow> string \<Rightarrow> (nat \<Rightarrow> time) \<Rightarrow> nat engine_step" where
  "invalidate_cache_segment env object now =
     andthen (of_result (cache_object_resource_type object)) (\<lambda>(kind, table).
     andthen (list_records env (list_query_new\<lparr>lq_type := Some kind, lq_tombstoned := True\<rparr>)) (\<lambda>all.
       let records = filter (\<lambda>r. in_table table (sw_table r)) all
       in andthen (each (\<lambda>r. andthen (ask now) (\<lambda>t. core_prune_record env (sw_sys_id r) t)) records)
            (\<lambda>_. ok (length records))))"

end
