(* ===== verification/Record_Cache_Properties.thy ===== *)
theory Record_Cache_Properties
  imports Record_Cache Query_Demo
begin

text \<open>
  The guarantees of the record service over its three tiers, memory, tables and vault: how old an
  answer can be, and what pruning a record leaves in each tier.
\<close>

subsection \<open>Reads and the other tiers\<close>

text \<open>A step that touches neither the memory cache nor the documents.\<close>

definition same_tiers :: "engine_world \<Rightarrow> engine_world \<Rightarrow> bool" where
  "same_tiers w w' = (ed_memory (w_stores w') = ed_memory (w_stores w)
     \<and> ed_documents (w_stores w') = ed_documents (w_stores w))"

interpretation tiers: step_relation same_tiers
  by unfold_locales (auto simp: same_tiers_def)

lemma tiers_statements:
  "tiers.keeps (select db g :: 'a engine_step)" "tiers.keeps (exec db f :: unit engine_step)"
  by (auto simp: tiers.keeps_def same_tiers_def select_def exec_def statement_def Let_def split: prod.splits)

lemma tiers_degraded:
  "tiers.keeps (record_degraded_read env row path reason)" "tiers.keeps (clear_degraded_read i)"
  by (simp_all add: tiers.keeps_def same_tiers_def record_degraded_read_def clear_degraded_read_def in_memory_def)

lemma tiers_get_record: "tiers.keeps (get_record env n)"
  unfolding get_record_def get_primary_record_by_number_def if_some_def materialize_record_def load_record_from_vault_def
    load_from_vault_def materialize_record_from_json_def children_for_def list_active_records_def
  by (intro tiers.keeps_step_rules tiers_statements tiers_degraded)

lemma tiers_prune: "tiers.keeps (prune_record db i now :: unit engine_step)"
proof -
  have "tiers.keeps (each (exec db) fs :: unit engine_step)" for fs
    by (induction fs) (simp_all add: tiers.keeps_pure tiers.keeps_andthen tiers_statements)
  then show ?thesis by (simp add: prune_record_def)
qed

lemma numbered_row:
  assumes "row \<in> set (rows_of t)"
  obtains r where "record_numbered env (rr_number row) t = Some r"
proof -
  let ?rows = "filter (\<lambda>r. rr_number r = rr_number row) (rows_of t)"
  have "set (sort_by primary_order ?rows) \<noteq> {}" using assms by auto
  then have "sort_by primary_order ?rows \<noteq> []" by (metis list.set(1))
  then have "primary_by_number (rr_number row) t \<noteq> None"
    by (simp add: primary_by_number_def first_of_def split: list.split)
  with that show ?thesis by (auto simp: record_numbered_def)
qed

lemma row_by_sys_id_mem: "row_by_sys_id i t = Some row \<Longrightarrow> row \<in> set (rows_of t)"
  by (auto simp: row_by_sys_id_def select_by_def rows_of_def find_Some_iff intro!: image_eqI)

subsection \<open>Pruning\<close>

lemma not_own_staging [simp]: "path \<noteq> staged_path path" "staged_path path \<noteq> path"
  by (simp_all add: staged_path_def)

lemma file_step_Inr:
  "file_step env f w = (Inr u, w') \<longleftrightarrow> qe_files env (w_tick w)
     \<and> w' = w\<lparr>w_tick := Suc (w_tick w), w_stores := (w_stores w)\<lparr>ed_documents := f (ed_documents (w_stores w))\<rparr>\<rparr>"
  by (auto simp: file_step_def Let_def)

text \<open>A document is staged when it is there; the tables and the memory stay.\<close>

lemma staged:
  assumes "stage_markdown_for_prune env path w = (Inr staged, w')"
  shows "path \<notin> set (ed_documents (w_stores w'))" "staged \<longleftrightarrow> path \<in> set (ed_documents (w_stores w))"
    "db_tables (w_stores w') = db_tables (w_stores w)" "ed_memory (w_stores w') = ed_memory (w_stores w)"
  using assms by (auto simp: stage_markdown_for_prune_def has_document_def andthen_Inr ok_def file_step_Inr moved_def
      split: if_splits)

lemma prune_staged_done:
  assumes "prune_staged env i now path staged w = (Inr (), w')"
  shows "db_tables (w_stores w') = after_all (prune_statements i now) (db_tables (w_stores w))"
    "set (ed_documents (w_stores w')) \<subseteq> set (ed_documents (w_stores w))"
    "ed_memory (w_stores w') = ed_memory (w_stores w)"
    "staged \<longrightarrow> staged_path path \<notin> set (ed_documents (w_stores w'))"
proof -
  obtain r w1 where r: "prune_record (qe_sql env) i now w = (r, w1)" by (cases "prune_record (qe_sql env) i now w")
  have same: "same_tiers w w1" using tiers_prune r by (rule tiers.keepsD)
  have done_: "\<exists>u. r = Inr u" using assms r
    by (cases r) (auto simp: prune_staged_def inspect_def andthen_Inr fail_def)
  then have t: "w_stores w1 = (w_stores w)\<lparr>db_tables := after_all (prune_statements i now) (db_tables (w_stores w))\<rparr>"
    using pruned_tables r by auto
  have last: "(if staged then file_step env (filter (\<lambda>d. d \<noteq> staged_path path)) else ok ()) w1 = (Inr (), w')"
    using assms r done_ by (auto simp: prune_staged_def inspect_def)
  show "db_tables (w_stores w') = after_all (prune_statements i now) (db_tables (w_stores w))"
    "set (ed_documents (w_stores w')) \<subseteq> set (ed_documents (w_stores w))"
    "ed_memory (w_stores w') = ed_memory (w_stores w)"
    "staged \<longrightarrow> staged_path path \<notin> set (ed_documents (w_stores w'))"
    using last t by (auto simp: file_step_Inr ok_def split: if_splits)
qed

text \<open>The document that a pruning removes is that of the first record with the number of the pruned row.\<close>

lemma pruned_tiers:
  assumes "core_prune_record env i now w = (Inr (), w')" "row_by_sys_id i (db_tables (w_stores w)) = Some row"
    "record_numbered env (rr_number row) (db_tables (w_stores w)) = Some r"
  shows "db_tables (w_stores w') = after_all (prune_statements i now) (db_tables (w_stores w))
    \<and> ed_memory (w_stores w') = memory_invalidate (rr_number row) (ed_memory (w_stores w))
    \<and> document_path env r \<notin> set (ed_documents (w_stores w'))
    \<and> (document_path env r \<in> set (ed_documents (w_stores w)) \<longrightarrow>
         staged_path (document_path env r) \<notin> set (ed_documents (w_stores w')))"
proof -
  obtain found w1 where f: "get_record_by_sys_id (qe_sql env) i w = (Inr found, w1)"
    "(case found of None \<Rightarrow> ok ()
   | Some row \<Rightarrow> andthen (forget (rr_number row)) (\<lambda>_.
       andthen (get_record env (rr_number row)) (\<lambda>record. case record of
         None \<Rightarrow> ok ()
       | Some r \<Rightarrow> andthen (stage_markdown_for_prune env (document_path env r))
           (prune_staged env i now (document_path env r))))) w1 = (Inr (), w')"
    using assms(1) by (auto simp: core_prune_record_def andthen_Inr)
  have found: "found = Some row" "db_tables (w_stores w1) = db_tables (w_stores w)"
    using yields_run [OF yields_select f(1) [unfolded get_record_by_sys_id_def]] assms(2) by auto
  have same1: "same_tiers w w1" using f(1) unfolding get_record_by_sys_id_def by (rule tiers.keepsD [OF tiers_statements(1)])
  define w2 where "w2 = snd (forget (rr_number row) w1)"
  have w2: "db_tables (w_stores w2) = db_tables (w_stores w)"
    "ed_memory (w_stores w2) = memory_invalidate (rr_number row) (ed_memory (w_stores w))"
    "ed_documents (w_stores w2) = ed_documents (w_stores w)"
    using found(2) same1 by (simp_all add: w2_def forget_def in_memory_def same_tiers_def)
  have "forget (rr_number row) w1 = (Inr (), w2)" by (simp add: w2_def forget_def in_memory_def)
  with f(2) found(1) obtain got w3 where g: "get_record env (rr_number row) w2 = (Inr got, w3)"
    "(case got of None \<Rightarrow> ok () | Some r \<Rightarrow> andthen (stage_markdown_for_prune env (document_path env r))
           (prune_staged env i now (document_path env r))) w3 = (Inr (), w')"
    by (auto simp: andthen_Inr)
  have got: "got = Some r" "db_tables (w_stores w3) = db_tables (w_stores w)"
    using yields_run [OF yields_get_record g(1)] assms(3) w2(1) by auto
  have same3: "same_tiers w2 w3" using tiers_get_record g(1) by (rule tiers.keepsD)
  from g(2) got(1) obtain staged w4 where s: "stage_markdown_for_prune env (document_path env r) w3 = (Inr staged, w4)"
    "prune_staged env i now (document_path env r) staged w4 = (Inr (), w')"
    by (auto simp: andthen_Inr)
  show ?thesis
    using staged [OF s(1)] prune_staged_done [OF s(2)] same3 w2 got(2) by (auto simp: same_tiers_def)
qed

text \<open>
  Two records may carry one number, for instance a tombstoned record and its successor: the
  pruning of the first removes the document of the second, whose row stays.
\<close>

lemma prune_takes_other_document:
  assumes "core_prune_record env i now w = (Inr (), w')" "row_by_sys_id i (db_tables (w_stores w)) = Some row"
    "primary_by_number (rr_number row) (db_tables (w_stores w)) = Some other" "rr_sys_id other \<noteq> i"
  shows "row_by_sys_id (rr_sys_id other) (db_tables (w_stores w')) = row_by_sys_id (rr_sys_id other) (db_tables (w_stores w))
    \<and> document_path env (value_of env other (db_tables (w_stores w))) \<notin> set (ed_documents (w_stores w'))"
proof -
  have "record_numbered env (rr_number row) (db_tables (w_stores w)) = Some (value_of env other (db_tables (w_stores w)))"
    using assms(3) by (simp add: record_numbered_def)
  from pruned_tiers [OF assms(1,2) this] show ?thesis
    using assms(4) by (simp add: row_pruned_other)
qed

lemma successor_is_primary:
  "primary_by_number ''INC1'' (upserted (cache_row ''b'' ''INC1'' 9, [], [], [])
     (upserted ((cache_row ''a'' ''INC1'' 0)\<lparr>rr_in_scope := False\<rparr>, [], [], []) empty_tables)) = Some (cache_row ''b'' ''INC1'' 0)"
  by code_simp

subsection \<open>Lookups\<close>

text \<open>
  The lookup is called a live read; a number the tables do not know is answered without one.
\<close>

lemma unknown_number_not_read_live:
  assumes "fst (memory_get number (ed_memory (w_stores w))) = None"
    "primary_by_number number (db_tables (w_stores w)) = None" "qe_sql env (w_tick w)"
  shows "fst (service_get_record env live ttl now number w) = Inr None"
proof -
  obtain m where m: "memory_get number (ed_memory (w_stores w)) = (None, m)"
    using assms(1) by (cases "memory_get number (ed_memory (w_stores w))") auto
  show ?thesis
    using assms(2,3) by (simp add: service_get_record_def recall_def m andthen_def get_record_def
        get_primary_record_by_number_def select_def statement_def if_some_def ok_def)
qed

subsection \<open>Properties\<close>

text \<open>
  C13: The answer of a lookup that came from the memory or the tables is no older than the time the
  policy allows for work records; an older one is the answer of a live read. No answer at all means that
  the tables hold no record with the number, or that the live read found none.
\<close>

theorem lookup_answer_fresh:
  assumes "service_get_record env live ttl now number w = (Inr answer, w')"
  shows "(\<exists>w1. live number w1 = (Inr answer, w') \<and> db_tables (w_stores w1) = db_tables (w_stores w))
    \<or> (case answer of Some r \<Rightarrow> now - sw_synced_at r \<le> ct_work_record_ttl ttl
        | None \<Rightarrow> record_numbered env number (db_tables (w_stores w)) = None)"
proof -
  obtain cached w1 where c: "recall number w = (Inr cached, w1)"
    "(case cached of
     Some r \<Rightarrow> if now - sw_synced_at r \<le> ct_work_record_ttl ttl then ok (Some r)
              else andthen (forget number) (\<lambda>_. live number)
   | None \<Rightarrow> andthen (get_record env number) (\<lambda>found. case found of
       None \<Rightarrow> ok None
     | Some r \<Rightarrow> if ct_work_record_ttl ttl < now - sw_synced_at r then live number
                else andthen (remember r) (\<lambda>_. ok (Some r)))) w1 = (Inr answer, w')"
    using assms by (auto simp: service_get_record_def andthen_Inr)
  have t1: "db_tables (w_stores w1) = db_tables (w_stores w)"
    using c(1) by (auto simp: recall_def split: prod.splits)
  show ?thesis
  proof (cases cached)
    case (Some r)
    with c(2) t1 show ?thesis by (auto simp: ok_def andthen_Inr forget_def in_memory_def split: if_splits)
  next
    case None
    with c(2) obtain found w2 where f: "get_record env number w1 = (Inr found, w2)"
      "(case found of None \<Rightarrow> ok None
     | Some r \<Rightarrow> if ct_work_record_ttl ttl < now - sw_synced_at r then live number
                else andthen (remember r) (\<lambda>_. ok (Some r))) w2 = (Inr answer, w')"
      by (auto simp: andthen_Inr)
    have t2: "record_numbered env number (db_tables (w_stores w)) = found" "db_tables (w_stores w2) = db_tables (w_stores w)"
      using yields_run [OF yields_get_record f(1)] t1 by auto
    show ?thesis
    proof (cases found)
      case None
      with f(2) t2(1) show ?thesis by (auto simp: ok_def)
    next
      case (Some r)
      with f(2) t2(2) show ?thesis by (auto simp: ok_def andthen_Inr remember_def in_memory_def split: if_splits)
    qed
  qed
qed

text \<open>
  C14: When the pruning of a record that the tables hold succeeds, no table holds a row of the record or one
  with a foreign key to it, the index row, the relationships, the memberships and the health row included
  (a child record keeps its parent field: every other record is left as it was), the memory cache holds
  no record under its number, and the document of the record that the engine finds under its number is
  gone from the vault, with the copy that was staged.
\<close>

theorem prune_clears_every_tier:
  assumes "core_prune_record env i now w = (Inr (), w')" "row_by_sys_id i (db_tables (w_stores w)) = Some row"
  shows "\<not> mentions i (db_tables (w_stores w')) \<and> fst (memory_get (rr_number row) (ed_memory (w_stores w'))) = None
    \<and> (\<exists>r. record_numbered env (rr_number row) (db_tables (w_stores w)) = Some r
         \<and> document_path env r \<notin> set (ed_documents (w_stores w'))
         \<and> (document_path env r \<in> set (ed_documents (w_stores w)) \<longrightarrow>
              staged_path (document_path env r) \<notin> set (ed_documents (w_stores w'))))"
proof -
  obtain r where r: "record_numbered env (rr_number row) (db_tables (w_stores w)) = Some r"
    using row_by_sys_id_mem [OF assms(2)] by (rule numbered_row)
  from pruned_tiers [OF assms r] show ?thesis
    by (simp add: r not_mentioned memory_invalidate_get)
qed

subsection \<open>Witnesses\<close>

text \<open>The work records of the policy are an hour old at most.\<close>

definition demo_ttl :: cache_ttl_policy where
  "demo_ttl = \<lparr>ct_stable_reference_ttl = secs 604800, ct_work_record_ttl = secs 3600\<rparr>"

definition demo_lookup :: "(string, snow_record option) result \<times> engine_world" where
  "demo_lookup = service_get_record demo_engine (\<lambda>n. ok None) demo_ttl (secs 60) ''INC1'' demo_engine_world"

theorem lookup_answer_fresh_witness:
  "map_option sw_sys_id (projr (fst demo_lookup)) = Some ''a''
    \<and> 60 * nanos - sw_synced_at (the (projr (fst demo_lookup))) \<le> 3600 * nanos"
proof -
  have answer: "map_sum id (map_option (\<lambda>r. (sw_sys_id r, sw_synced_at r))) (fst demo_lookup) = Inr (Some (''a'', 0))"
    by code_simp
  then obtain r where r: "fst demo_lookup = Inr (Some r)" "sw_sys_id r = ''a''"
    by (cases "fst demo_lookup") auto
  then have "service_get_record demo_engine (\<lambda>n. ok None) demo_ttl (secs 60) ''INC1'' demo_engine_world
      = (Inr (Some r), snd demo_lookup)" by (simp add: demo_lookup_def prod_eq_iff)
  from lookup_answer_fresh [OF this] r show ?thesis
    by (auto simp: ok_def demo_ttl_def secs_def)
qed

text \<open>A record whose document is in the vault.\<close>

definition demo_document :: string where
  "demo_document = document_path demo_engine (value_of demo_engine demo_row demo_cache)"

definition filed_world :: engine_world where
  "filed_world = demo_engine_world\<lparr>w_stores := (w_stores demo_engine_world)\<lparr>ed_documents := [''/v/other.md'', demo_document]\<rparr>\<rparr>"

lemma sure_core_prune:
  assumes "sound_store env"
  shows "sure (core_prune_record env i now)"
proof -
  have files: "sure (file_step env f)" for f
    using assms by (auto simp: raises_def file_step_def sound_store_def Let_def)
  have "sure (has_document path)" for path by (simp add: raises_def has_document_def)
  then have stage: "sure (stage_markdown_for_prune env path)" for path
    unfolding stage_markdown_for_prune_def by (intro sure_rules files)
  have "sure (prune_staged env i now path staged)" for path staged
  proof (rule sureI)
    fix w :: engine_world
    have "is_ok (fst (prune_record (qe_sql env) i now w))" using assms by (intro prune_ok) (simp add: sound_store_def)
    then obtain w1 where "prune_record (qe_sql env) i now w = (Inr (), w1)"
      by (cases "prune_record (qe_sql env) i now w") (auto simp: is_ok_def split: sum.splits)
    moreover have "sure (if staged then file_step env (filter (\<lambda>d. d \<noteq> staged_path path)) else ok ())"
      by (intro sure_rules files)
    then obtain u w2 where "(if staged then file_step env (filter (\<lambda>d. d \<noteq> staged_path path)) else ok ()) w1 = (Inr u, w2)"
      by (rule sureE)
    ultimately show "is_ok (fst (prune_staged env i now path staged w))"
      by (simp add: prune_staged_def inspect_def is_ok_def)
  qed
  then show ?thesis
    unfolding core_prune_record_def get_record_by_sys_id_def forget_def
    by (intro sure_rules sure_get_record stage assms) (use assms in \<open>simp_all add: sound_store_def\<close>)
qed

theorem prune_clears_every_tier_witness:
  "demo_document = ''/v/incidents/INC1.md'' \<and> demo_document \<in> set (ed_documents (w_stores filed_world))
    \<and> demo_document \<notin> set (ed_documents (w_stores (snd (core_prune_record demo_engine ''a'' 5 filed_world))))
    \<and> \<not> mentions ''a'' (db_tables (w_stores (snd (core_prune_record demo_engine ''a'' 5 filed_world))))"
proof -
  obtain w' where run: "core_prune_record demo_engine ''a'' 5 filed_world = (Inr (), w')"
    using sure_core_prune [OF demo_sound] by (rule sureE) auto
  have t: "db_tables (w_stores filed_world) = demo_cache" by (simp add: filed_world_def demo_engine_world_def)
  have row: "row_by_sys_id ''a'' demo_cache = Some demo_row" "rr_number demo_row = ''INC1''"
    "primary_by_number ''INC1'' demo_cache = Some demo_row" by code_simp+
  have "demo_document = ''/v/incidents/INC1.md''" by code_simp
  moreover have "row_by_sys_id ''a'' (db_tables (w_stores filed_world)) = Some demo_row" by (simp only: t row)
  note prune_clears_every_tier [OF run this]
  ultimately show ?thesis
    by (simp add: run t row record_numbered_def demo_document_def [symmetric]) (simp add: filed_world_def)
qed

end
