(* ===== verification/Spec2Isabelle.thy ===== *)
theory Spec2Isabelle
  imports Plan_Store Confirmation_Store Idempotency_Store Audit_Log Redaction Rate_Limit
    Policy_Properties Story_Properties Cache_Policy Rpc_Frame Job_Registry Job_Workers
    Cmdb_Inventory Cmdb_Health Bulk_Planning Bulk_Properties
    Live_Properties Queue_Properties
    Cache_Properties Journal_Properties Search_Properties Query_Properties Record_Cache_Properties
begin

text \<open>
  Verification development for \<open>snow\<close>, the ServiceNow agent: a daemon (\<open>snow_daemon\<close>) that serves
  JSON-RPC requests over a socket, an MCP server (\<open>snow_mcp\<close>) that forwards tool calls of a model to
  the daemon, the library both use (\<open>snow_core\<close>: live reads, cache, policies) and a command line
  client (\<open>snow_cli\<close>). What the program must get right is writing to ServiceNow on behalf of a model:
  a write is planned, confirmed with a token and applied once, and only inside the policy. Beside it
  stand the parts whose answers callers rely on without seeing how they were made: the CMDB server
  inventory, the cache policy, the background jobs and the transport.

  \<^bold>\<open>Theories and sources.\<close> Paths are below \<open>src/crates\<close>.

  \<^item> \<open>Prelude\<close>, \<open>Tables\<close>, \<open>Json\<close>, \<open>Text_Lines\<close>, \<open>Steps\<close>: the vocabulary. \<open>Result\<close> is a sum, a string
    is the list of its UTF-8 bytes, \<open>BTreeMap\<close>s and SQLite tables are association lists in key order
    (locale \<open>keyed_store\<close>, interpreted on them), instants are integers. \<open>Steps\<close> is the state
    monad of the request handlers: a world holds the shared stores, a count of the readings of the
    outside and the log of the mutations sent upstream; the locale \<open>step_relation\<close> carries a
    reflexive and transitive relation through any composed step.
  \<^item> \<open>Operation_Plan\<close>, \<open>Plan_Store\<close>, \<open>Confirmation_Store\<close>, \<open>Idempotency_Store\<close>, \<open>Audit_Log\<close>,
    \<open>Redaction\<close>, \<open>Rate_Limit\<close>: the planner of \<open>snow_mcp/src/planner\<close>, \<open>audit\<close>, \<open>redact\<close> and the rate
    limit of \<open>snow_daemon/src/story_write/confirmation.rs\<close>. Each store is a table with one function
    per method; the lemmas are the life cycle of a plan (a refinement of a status machine), a token
    accepted at most once, a key started once and replayed after it finished, a hash chain that
    keeps verifying under appends and retention, and the bound on writes per window.
  \<^item> \<open>Policy\<close>, \<open>Policy_Properties\<close>: \<open>snow_mcp/src/domain/policy.rs\<close> and the governed tool lists.
  \<^item> \<open>Story_Domain\<close>, \<open>Story_World\<close>, \<open>Story_Fields\<close>, \<open>Story_Scope\<close>, \<open>Story_Recovery\<close>,
    \<open>Story_Apply\<close>, \<open>Story_Plan\<close>: \<open>snow_mcp/src/domain/story.rs\<close> and \<open>snow_daemon/src/story_write\<close>, the
    handlers stage by stage in the order of the code. \<open>Story_Steps\<close>, \<open>Story_Safety\<close>,
    \<open>Story_Outcome\<close> prove what each stage keeps and finds; \<open>Story_Demo\<close> is the daemon the witnesses
    run; \<open>Story_Properties\<close> states the guarantees of the two handlers.
  \<^item> \<open>Bulk_Domain\<close>, \<open>Bulk_World\<close>, \<open>Bulk_Plan\<close>, \<open>Bulk_Apply\<close>: \<open>snow_daemon/src/incident_bulk_write.rs\<close>
    with the diagnostic and audit helpers of \<open>change_write.rs\<close>. \<open>Bulk_Steps\<close> (what a step finds),
    \<open>Bulk_Loop\<close> (what the loop over the targets sends and reports), \<open>Bulk_Safety\<close> (the stages),
    \<open>Bulk_Keys\<close> (spent keys), \<open>Bulk_Progress\<close> (a smooth apply runs to its end), \<open>Bulk_Demo\<close>;
    \<open>Bulk_Planning\<close> and \<open>Bulk_Properties\<close> state the guarantees.
  \<^item> \<open>Cmdb_Domain\<close>, \<open>Cmdb_Reads\<close>, \<open>Cmdb_Discovery\<close>, \<open>Cmdb_Traversal\<close>, \<open>Cmdb_Budget\<close>, \<open>Cmdb_Routes\<close>,
    \<open>Cmdb_Servers\<close>, \<open>Cmdb_Inventory\<close>: the server inventory of a business application
    (\<open>snow_core/src/service/business_application\<close>, \<open>resource/business_application.rs\<close>): bounded,
    paginated breadth-first search with path collection; the lemmas are the budgets, the completeness
    of a level and that every reported route is a walk. \<open>Cmdb_Store\<close>, \<open>Cmdb_Persistence\<close>, \<open>Cmdb_Run\<close>,
    \<open>Cmdb_Health\<close>, \<open>Cmdb_Demo\<close>: the tables a persisting run writes
    (\<open>cache/store/business_applications.rs\<close>, \<open>persistence.rs\<close>) and the statuses read from them.
  \<^item> \<open>Cache_Policy\<close>: \<open>snow_core/src/cache/policy.rs\<close>. \<open>Rpc_Frame\<close>: the framed transport
    (\<open>snow_mcp/src/protocol/frame.rs\<close>, \<open>transport/stdio.rs\<close>, \<open>snow_daemon/src/rpc/server.rs\<close>, \<open>wire.rs\<close>).
    The loops return the bytes they write, newline by newline, and the frames in them are read back.
    \<open>Job_Registry\<close>, \<open>Job_Workers\<close>: \<open>snow_daemon/src/jobs\<close>, the registry as functions, with the mutexes
    that \<open>kind_lock\<close> hands out, and the workers as a step relation over all interleavings.
  \<^item> \<open>Query_Input\<close>, \<open>Live_Query\<close>: the live record reads of \<open>snow_core/src/service/record.rs\<close> with their
    input checks (\<open>resource/record_query.rs\<close>, \<open>resource/incident.rs\<close>): record queries, children of
    a parent, change tasks, incidents by group, number or filter, and the state choices. A query is
    the value handed to the client. \<open>Live_Paging\<close> (locale \<open>keyset_read\<close>) and \<open>Live_Properties\<close>: the
    pages enumerate a snapshot of the table.
  \<^item> \<open>Sort_By\<close>, \<open>Incident_Queue\<close>, \<open>Queue_Properties\<close>: the incident queue of an assignment group with
    the SLA statuses of \<open>snow_core/src/sla.rs\<close>; the sort (locale \<open>comparison\<close>), the scan and its
    limit, the counts and the pages by offset.
  \<^item> \<open>Cache_Records\<close>, \<open>Cache_Laws\<close>, \<open>Cache_Properties\<close>: the record tables of \<open>snow_core/src/cache/store\<close>
    (\<open>records.rs\<close>, \<open>relationships.rs\<close>, and the tags, keywords, aliases and articles of
    \<open>knowledge.rs\<close>; the membership and health rows are those of \<open>Cmdb_Store\<close>), statement by statement,
    with transactions and the cascades of the foreign keys. \<open>Cache_Laws\<close> has the locale
    \<open>row_table\<close>, interpreted on the five tables with a key, the invariant and its preservation by every
    operation (\<open>cache_step\<close>); the properties are that invariant, batches that are written whole or
    not at all, and pruning. \<open>Memory_Cache\<close>: \<open>cache/memory.rs\<close>, least recently used.
  \<^item> \<open>Reference_Resolver\<close>, \<open>Record_Json\<close>, \<open>Journal_Properties\<close>: references, fields, dates and journals
    read from the JSON of a record (\<open>query/resolver.rs\<close>, \<open>query/mod.rs\<close>); no text of a journal is lost.
  \<^item> \<open>Query_Engine\<close>, \<open>Query_Reads\<close>, \<open>Search_Ranking\<close>: the query engine (\<open>query/mod.rs\<close>,
    \<open>query/filter.rs\<close>), rows to records with degraded reads, lists and lookups, the stored server
    relationships, and search. \<open>Search_Laws\<close> shows what a read computes from the tables (\<open>yields\<close>) and that
    the candidates of a search are a fold of contributions; \<open>Query_Demo\<close> that reads end when no statement
    fails; \<open>Search_Properties\<close>, \<open>Query_Properties\<close> the scores and the degraded reads.
  \<^item> \<open>Vault_Layout\<close>, \<open>Record_Cache\<close>, \<open>Record_Cache_Properties\<close>: the paths of documents
    (\<open>vault/layout.rs\<close>), and records over memory, tables and vault: the cached lookup, tombstoning,
    pruning and invalidation (\<open>service/record.rs\<close>, \<open>context.rs\<close>, \<open>helpers.rs\<close>).

  \<^bold>\<open>How the parts interact.\<close> The transport hands a decoded request to a handler. A write handler
  checks the policy, reads the plan, token and key tables, asks ServiceNow for the current record,
  sends the mutation, and stores receipt and audit event; the story pipeline and the bulk
  pipeline use the same confirmation table and audit log, modelled once. Between two calls of the
  ServiceNow client other requests may change every store (an arbitrary function of the
  environment), so the guarantees hold under any interleaving at those points. The inventory
  reads ServiceNow, and its results go to the cache tables whose statuses the query engine reads. The record
  service asks the memory cache, then the query engine, and then reads live; the engine reads the tables and,
  for each row, the document in the vault that the row names.

  \<^bold>\<open>The outside.\<close> SQLite, SHA-256, \<open>serde_json\<close>, \<open>chrono\<close>, the TOML parser and the ServiceNow client
  (crate \<open>servicenow_rs\<close>) are not under \<open>src\<close>. They are parameters: fields of the environment
  records or arguments, read at a running count so that two readings need not agree. A statement that
  may fail carries a flag; a theorem that needs an assumption about them states it as a
  hypothesis, and its witness runs it on a concrete instance.

  \<^bold>\<open>Bounds and termination.\<close> No fuel is used for the handlers: they are compositions of total
  functions. The traversal of the inventory recurses on the depth left, pagination on the budget
  left. The two serving loops of the transport are \<open>partial_function\<close>s, and that they
  return is a theorem.

  \<^bold>\<open>Not modelled.\<close> The other write pipelines (change requests, timecards, resource plans, work
  notes, knowledge, catalog) repeat the plan, confirm and apply scheme over the modelled stores with
  their own payloads. The RPC handlers, the MCP tool catalogue and the bridge decode and
  forward. Knowledge synchronisation, the tables of users, watermarks and projected Business Application
  fields, the rendering and parsing of vault documents, enrichment and the command line are SQL, files, text
  rendering and terminal code. Keyword weights are rationals where the code has \<open>f64\<close>, search
  scores are unbounded where it has \<open>i64\<close>, a panic of a job's work has no step, and the ranking of the
  full-text index is a parameter. Multi-byte white space in \<open>trim\<close> and
  stored JSON that no longer parses (a failing statement) are simplified away.
\<close>

end
